(* ===== verification/Prelude.thy ===== *)
theory Prelude
  imports Main "HOL-Library.Word"
begin

section \<open>Shared vocabulary: Go results, effects and loops\<close>

text \<open>
  What every component of the model shares.

  \<^item> A Go function that returns \<open>(value, error)\<close> is a function into \<open>'a res\<close>: \<open>Ok v\<close> for a nil
    error, \<open>Error e\<close> for a non-nil one. A run-time panic (an index out of range, a nil
    dereference, an explicit \<open>panic\<close>) is a third outcome, so that no caller of the model can take
    a crash for an error it handles.
  \<^item> An effectful function takes the state and gives back its result together with the new
    state: \<open>'s \<Rightarrow> 'a res \<times> 's\<close>. \<open>andThen\<close> is the statement sequence with the usual
    \<open>if err != nil { return err }\<close> between two calls.
  \<^item> \<open>for_each\<close> is a \<open>for _, x := range xs\<close> loop whose body may return early with an error.

  Go strings are byte strings, here \<open>string\<close> (lists of 8-bit characters).
\<close>

named_theorems go_simps \<open>unfolding rules for results and sequencing\<close>
named_theorems go_inv \<open>inversion rules for results and sequencing\<close>

type_synonym byte = "8 word"
type_synonym bytes = "8 word list"

subsection \<open>Errors and results\<close>

text \<open>The generated message \<open>HostPortPB\<close>: a host and a \<open>uint32\<close> port.\<close>

record host_port =
  hp_host :: string
  hp_port :: "32 word"

text \<open>
  \<open>Err\<close> is \<open>errors.New\<close> or \<open>fmt.Errorf\<close> without a wrapped error; \<open>Wrap p e\<close> is
  \<open>fmt.Errorf("p%w", e)\<close>. \<open>AddrError\<close> (reason, address) is \<open>*net.AddrError\<close>, \<open>NumError\<close>
  (function, input, reason) is \<open>*strconv.NumError\<close>; \<open>DialError\<close> is \<open>session.DialError\<close>.
\<close>

datatype goerror =
    Err string
  | Wrap string goerror
  | AddrError string string
  | NumError string string string
  | DialError host_port goerror
  | EOF

datatype 'a res = Ok 'a | Error goerror | Panic string

fun bind_res :: "'a res \<Rightarrow> ('a \<Rightarrow> 'b res) \<Rightarrow> 'b res" where
  "bind_res (Ok x) k = k x"
| "bind_res (Error e) k = Error e"
| "bind_res (Panic p) k = Panic p"

lemma bind_res_eq_Ok [go_inv]: "bind_res r k = Ok y \<longleftrightarrow> (\<exists>x. r = Ok x \<and> k x = Ok y)"
  by (cases r) auto

lemma bind_res_assoc: "bind_res (bind_res r f) g = bind_res r (\<lambda>x. bind_res (f x) g)"
  by (cases r) auto

lemma bind_res_cong [fundef_cong]:
  "r = r' \<Longrightarrow> (\<And>x. r' = Ok x \<Longrightarrow> k x = k' x) \<Longrightarrow> bind_res r k = bind_res r' k'"
  by (cases r') auto

fun is_ok :: "'a res \<Rightarrow> bool" where
  "is_ok (Ok _) = True"
| "is_ok _ = False"

fun is_panic :: "'a res \<Rightarrow> bool" where
  "is_panic (Panic _) = True"
| "is_panic _ = False"

text \<open>\<open>wrap_error p r\<close> is the local helper \<open>xyzError(err)\<close> the code defines in many functions.\<close>

fun wrap_error :: "string \<Rightarrow> 'a res \<Rightarrow> 'a res" where
  "wrap_error p (Error e) = Error (Wrap p e)"
| "wrap_error p r = r"

lemma wrap_error_eq_Ok [simp]: "wrap_error p r = Ok x \<longleftrightarrow> r = Ok x"
  by (cases r) auto

lemma is_panic_bind [simp]: "is_panic (bind_res r k) \<longleftrightarrow> is_panic r \<or> (\<exists>x. r = Ok x \<and> is_panic (k x))"
  by (cases r) auto

lemma is_panic_wrap [simp]: "is_panic (wrap_error p r) = is_panic r"
  by (cases r) auto

lemma is_panic_iff: "is_panic r \<longleftrightarrow> (\<exists>p. r = Panic p)"
  by (cases r) auto

lemma is_ok_iff: "is_ok r \<longleftrightarrow> (\<exists>x. r = Ok x)"
  by (cases r) auto

subsection \<open>Effects\<close>

definition andThen :: "'a res \<times> 's \<Rightarrow> ('a \<Rightarrow> 's \<Rightarrow> 'b res \<times> 's) \<Rightarrow> 'b res \<times> 's" where
  "andThen r k =
     (case r of (Ok x, s) \<Rightarrow> k x s | (Error e, s) \<Rightarrow> (Error e, s) | (Panic p, s) \<Rightarrow> (Panic p, s))"

lemma andThen_simps [simp, go_simps]:
  "andThen (Ok x, s) k = k x s"
  "andThen (Error e, s) k = (Error e, s)"
  "andThen (Panic p, s) k = (Panic p, s)"
  by (simp_all add: andThen_def)

lemma andThen_eq_Ok [go_inv]:
  "andThen r k = (Ok y, t) \<longleftrightarrow> (\<exists>x s. r = (Ok x, s) \<and> k x s = (Ok y, t))"
  by (auto simp: andThen_def split: prod.splits res.splits)

text \<open>An effectful call whose error is wrapped.\<close>

definition wrap_state :: "string \<Rightarrow> 'a res \<times> 's \<Rightarrow> 'a res \<times> 's" where
  "wrap_state p r = (wrap_error p (fst r), snd r)"

lemma wrap_state_simps [simp, go_simps]:
  "wrap_state p (Ok x, s) = (Ok x, s)"
  "wrap_state p (Error e, s) = (Error (Wrap p e), s)"
  "wrap_state p (Panic q, s) = (Panic q, s)"
  by (simp_all add: wrap_state_def)

lemma wrap_state_eq_Ok [simp]: "wrap_state p r = (Ok x, s) \<longleftrightarrow> r = (Ok x, s)"
  by (cases r) (simp add: wrap_state_def)

lemma andThen_OkE:
  assumes "andThen r k = (Ok y, t)"
  obtains x s where "r = (Ok x, s)" "k x s = (Ok y, t)"
  using assms by (auto simp: andThen_eq_Ok)

lemma andThen_cong [fundef_cong]:
  "r = r' \<Longrightarrow> (\<And>x s. r' = (Ok x, s) \<Longrightarrow> k x s = k' x s) \<Longrightarrow> andThen r k = andThen r' k'"
  by (auto simp: andThen_def split: prod.splits res.splits)

text \<open>The final state of a sequence comes from its first part or from its continuation.\<close>

lemma andThen_state:
  assumes "I (snd r)" and "\<And>x s. r = (Ok x, s) \<Longrightarrow> I s \<Longrightarrow> I (snd (k x s))"
  shows "I (snd (andThen r k))"
  using assms by (cases r; cases "fst r") auto

fun for_each :: "('a \<Rightarrow> 's \<Rightarrow> unit res \<times> 's) \<Rightarrow> 'a list \<Rightarrow> 's \<Rightarrow> unit res \<times> 's" where
  "for_each f [] s = (Ok (), s)"
| "for_each f (x # xs) s = andThen (f x s) (\<lambda>_ s'. for_each f xs s')"

lemma for_each_cong [fundef_cong]:
  "xs = ys \<Longrightarrow> s = t \<Longrightarrow> (\<And>x u. x \<in> set ys \<Longrightarrow> f x u = g x u) \<Longrightarrow> for_each f xs s = for_each g ys t"
proof (induction xs arbitrary: ys s t)
  case Nil
  then show ?case by auto
next
  case (Cons x xs)
  then show ?case by (cases ys) (auto intro!: andThen_cong)
qed

text \<open>A loop keeps what its body keeps, whether it ends normally, early or in a panic.\<close>

lemma for_each_invariant:
  assumes "I s" and "\<And>x u. x \<in> set xs \<Longrightarrow> I u \<Longrightarrow> I (snd (f x u))"
  shows "I (snd (for_each f xs s))"
  using assms
proof (induction xs arbitrary: s)
  case Nil
  then show ?case by simp
next
  case (Cons x xs)
  have "I (snd (f x s))" using Cons.prems by simp
  moreover have "I (snd (for_each f xs u))" if "I u" for u
    using that Cons.prems(2) by (intro Cons.IH) auto
  ultimately show ?case by (simp add: andThen_state)
qed

lemma for_each_append:
  "for_each f (xs @ ys) s = andThen (for_each f xs s) (\<lambda>_ s'. for_each f ys s')"
proof (induction xs arbitrary: s)
  case Nil
  then show ?case by simp
next
  case (Cons x xs)
  then show ?case by (cases "f x s"; cases "fst (f x s)") auto
qed

subsection \<open>Lists\<close>

lemma find_Some_split:
  "find P xs = Some x \<longleftrightarrow> (\<exists>ys zs. xs = ys @ x # zs \<and> P x \<and> (\<forall>y\<in>set ys. \<not> P y))"
proof (induction xs)
  case Nil
  then show ?case by simp
next
  case (Cons a xs)
  show ?case
  proof (cases "P a")
    case True
    have "a # xs = ys @ x # zs \<Longrightarrow> \<forall>y\<in>set ys. \<not> P y \<Longrightarrow> a = x" for ys zs
      using True by (cases ys) auto
    then show ?thesis using True by auto (metis append_Nil empty_iff list.set(1))
  next
    case False
    then show ?thesis
      using Cons.IH by (auto simp: Cons_eq_append_conv) (metis set_ConsD)
  qed
qed

lemma find_mem: "find P xs = Some x \<Longrightarrow> x \<in> set xs \<and> P x"
  by (auto simp: find_Some_split)

lemma sum_list_map_update:
  "i < length xs \<Longrightarrow> sum_list (map f (xs[i := y])) + f (xs ! i) = sum_list (map f xs) + (f y :: 'a::comm_monoid_add)"
proof (induction xs arbitrary: i)
  case Nil
  then show ?case by simp
next
  case (Cons x xs)
  then show ?case by (cases i) (simp_all add: ac_simps)
qed

text \<open>Slices \<open>xs[i:j]\<close>: out-of-range bounds are the caller's panic.\<close>

definition sub_slice :: "'a list \<Rightarrow> nat \<Rightarrow> nat \<Rightarrow> 'a list" where
  "sub_slice xs i j = take (j - i) (drop i xs)"

lemma length_sub_slice [simp]: "j \<le> length xs \<Longrightarrow> length (sub_slice xs i j) = j - i"
  by (simp add: sub_slice_def)

lemma sub_slice_append_middle:
  "sub_slice (a @ b @ c) (length a) (length a + length b) = b"
  by (simp add: sub_slice_def)

end
