(* ===== verification/GoStd.thy ===== *)
theory GoStd
  imports Prelude
begin

section \<open>The parts of Go's standard library the tools use\<close>

text \<open>
  \<open>strings\<close>, \<open>strconv\<close> and \<open>net\<close> as the Go 1.18 library implements them (\<open>go.mod\<close> asks for
  1.18), restricted to the calls the repository makes: \<open>strings.Split\<close> and \<open>strings.Cut\<close> with a
  one-byte separator, \<open>TrimPrefix\<close>, \<open>HasPrefix\<close>, \<open>HasSuffix\<close>, \<open>Join\<close>, \<open>ToLower\<close> and \<open>ToUpper\<close> (on
  ASCII letters), \<open>fmt\<close>'s \<open>%d\<close>, \<open>strconv.ParseUint(s, 10, 64)\<close> and \<open>strconv.Atoi\<close>,
  \<open>net.SplitHostPort\<close> and \<open>net.ParseIP\<close>. None of these is a definition of the repository, so none
  has a map entry; the lemmas are what the components need of them.
\<close>

subsection \<open>strings\<close>

fun split_on :: "char \<Rightarrow> string \<Rightarrow> string list" where
  "split_on c [] = [[]]"
| "split_on c (x # xs) =
     (if x = c then [] # split_on c xs
      else case split_on c xs of [] \<Rightarrow> [[x]] | y # ys \<Rightarrow> (x # y) # ys)"

fun join_with :: "string \<Rightarrow> string list \<Rightarrow> string" where
  "join_with sep [] = []"
| "join_with sep [x] = x"
| "join_with sep (x # y # ys) = x @ sep @ join_with sep (y # ys)"

definition has_prefix :: "string \<Rightarrow> string \<Rightarrow> bool" where
  "has_prefix p s \<longleftrightarrow> take (length p) s = p"

definition has_suffix :: "string \<Rightarrow> string \<Rightarrow> bool" where
  "has_suffix p s \<longleftrightarrow> length p \<le> length s \<and> drop (length s - length p) s = p"

definition trim_prefix :: "string \<Rightarrow> string \<Rightarrow> string" where
  "trim_prefix p s = (if has_prefix p s then drop (length p) s else s)"

fun index_of :: "char \<Rightarrow> string \<Rightarrow> nat option" where
  "index_of c [] = None"
| "index_of c (x # xs) = (if x = c then Some 0 else map_option Suc (index_of c xs))"

definition last_index_of :: "char \<Rightarrow> string \<Rightarrow> nat option" where
  "last_index_of c s = map_option (\<lambda>k. length s - 1 - k) (index_of c (rev s))"

definition cut_at :: "char \<Rightarrow> string \<Rightarrow> (string \<times> string) option" where
  "cut_at c s = map_option (\<lambda>i. (take i s, drop (Suc i) s)) (index_of c s)"

definition lower_char :: "char \<Rightarrow> char" where
  "lower_char c = (let n = of_char c :: nat in if 65 \<le> n \<and> n \<le> 90 then char_of (n + 32) else c)"

definition upper_char :: "char \<Rightarrow> char" where
  "upper_char c = (let n = of_char c :: nat in if 97 \<le> n \<and> n \<le> 122 then char_of (n - 32) else c)"

definition to_lower :: "string \<Rightarrow> string" where
  "to_lower s = map lower_char s"

definition to_upper :: "string \<Rightarrow> string" where
  "to_upper s = map upper_char s"

text \<open>\<open>string(b)\<close> of one byte is the UTF-8 encoding of that code point.\<close>

definition string_of_byte :: "char \<Rightarrow> string" where
  "string_of_byte c =
     (let n = of_char c :: nat
      in if n < 128 then [c] else [char_of (192 + n div 64), char_of (128 + n mod 64)])"

lemma split_on_not_Nil [simp]: "split_on c s \<noteq> []"
  by (induction s) (auto split: list.splits)

lemma split_on_no_sep: "c \<notin> set s \<Longrightarrow> split_on c s = [s]"
  by (induction s) auto

lemma split_on_append: "c \<notin> set s \<Longrightarrow> split_on c (s @ c # t) = s # split_on c t"
  by (induction s) auto

lemma join_split_on: "join_with [c] (split_on c s) = s"
proof (induction s)
  case Nil
  then show ?case by simp
next
  case (Cons x xs)
  then show ?case
    by (cases "split_on c xs"; cases "tl (split_on c xs)") auto
qed

lemma split_on_sep_free: "t \<in> set (split_on c s) \<Longrightarrow> c \<notin> set t"
  by (induction s arbitrary: t) (auto split: if_splits list.splits)

lemma index_of_None [simp]: "index_of c s = None \<longleftrightarrow> c \<notin> set s"
  by (induction s) auto

lemma index_of_SomeD:
  "index_of c s = Some i \<Longrightarrow> i < length s \<and> s ! i = c \<and> c \<notin> set (take i s)"
proof (induction s arbitrary: i)
  case Nil
  then show ?case by simp
next
  case (Cons x xs)
  then show ?case by (cases i) (auto split: if_splits)
qed

lemma index_of_append1: "c \<in> set s \<Longrightarrow> index_of c (s @ t) = index_of c s"
  by (induction s) auto

lemma index_of_append2: "c \<notin> set s \<Longrightarrow> index_of c (s @ t) = map_option ((+) (length s)) (index_of c t)"
proof (induction s)
  case Nil
  then show ?case by (simp add: option.map_ident)
next
  case (Cons x s)
  then have "index_of c ((x # s) @ t) = map_option (Suc \<circ> (+) (length s)) (index_of c t)"
    by (auto simp: option.map_comp)
  then show ?case by (simp add: comp_def)
qed

lemma index_of_middle [simp]: "c \<notin> set s \<Longrightarrow> index_of c (s @ c # t) = Some (length s)"
  by (simp add: index_of_append2)

lemma last_index_of_None [simp]: "last_index_of c s = None \<longleftrightarrow> c \<notin> set s"
  by (simp add: last_index_of_def)

lemma index_of_absent [simp]: "c \<notin> set s \<Longrightarrow> index_of c s = None"
  by simp

lemma last_index_of_absent [simp]: "c \<notin> set s \<Longrightarrow> last_index_of c s = None"
  by simp

lemma last_index_of_last [simp]: "c \<notin> set t \<Longrightarrow> last_index_of c (s @ c # t) = Some (length s)"
  by (simp add: last_index_of_def)

lemma last_index_of_SomeD:
  assumes "last_index_of c s = Some i"
  shows "i < length s \<and> s ! i = c"
proof -
  from assms obtain k where k: "index_of c (rev s) = Some k" "i = length s - 1 - k"
    by (auto simp: last_index_of_def)
  from index_of_SomeD [OF k(1)] have "k < length s" "rev s ! k = c" by simp_all
  then show ?thesis using k(2) by (auto simp: rev_nth)
qed

lemma cut_at_eq_Some: "cut_at c s = Some (a, b) \<longleftrightarrow> s = a @ c # b \<and> c \<notin> set a"
proof
  assume "cut_at c s = Some (a, b)"
  then obtain i where i: "index_of c s = Some i" "a = take i s" "b = drop (Suc i) s"
    by (auto simp: cut_at_def)
  from index_of_SomeD [OF i(1)] show "s = a @ c # b \<and> c \<notin> set a"
    using i(2,3) id_take_nth_drop [of i s] by simp
qed (auto simp: cut_at_def)

lemma cut_at_eq_None: "cut_at c s = None \<longleftrightarrow> c \<notin> set s"
  by (simp add: cut_at_def)

lemma cut_at_absent [simp]: "c \<notin> set s \<Longrightarrow> cut_at c s = None"
  by (simp add: cut_at_eq_None)

lemma cut_at_first [simp]: "c \<notin> set a \<Longrightarrow> cut_at c (a @ c # b) = Some (a, b)"
  by (simp add: cut_at_eq_Some)

lemma has_prefix_append [simp]: "has_prefix p (p @ s)"
  by (simp add: has_prefix_def)

lemma has_prefix_iff: "has_prefix p s \<longleftrightarrow> (\<exists>t. s = p @ t)"
  by (auto simp: has_prefix_def) (metis append_take_drop_id)

lemma trim_prefix_append [simp]: "trim_prefix p (p @ s) = s"
  by (simp add: trim_prefix_def)

lemma trim_prefix_cases:
  "(\<exists>t. s = p @ t \<and> trim_prefix p s = t) \<or> (\<not> has_prefix p s \<and> trim_prefix p s = s)"
  by (auto simp: trim_prefix_def has_prefix_iff)

subsection \<open>Decimal numbers\<close>

definition digit_val :: "char \<Rightarrow> nat" where
  "digit_val c = of_char c - 48"

definition is_digit :: "char \<Rightarrow> bool" where
  "is_digit c \<longleftrightarrow> 48 \<le> (of_char c :: nat) \<and> (of_char c :: nat) \<le> 57"

definition digit_char :: "nat \<Rightarrow> char" where
  "digit_char d = char_of (48 + d)"

fun dec_of_nat :: "nat \<Rightarrow> string" where
  "dec_of_nat n =
     (if n < 10 then [digit_char n] else dec_of_nat (n div 10) @ [digit_char (n mod 10)])"

declare dec_of_nat.simps [simp del]

definition dec_of_int :: "int \<Rightarrow> string" where
  "dec_of_int i = (if i < 0 then CHR ''-'' # dec_of_nat (nat (- i)) else dec_of_nat (nat i))"

definition dec_val :: "string \<Rightarrow> nat" where
  "dec_val s = foldl (\<lambda>n c. n * 10 + digit_val c) 0 s"

lemma is_digit_char [simp]: "d < 10 \<Longrightarrow> is_digit (digit_char d)"
  by (simp add: is_digit_def digit_char_def of_char_of take_bit_eq_mod)

lemma digit_val_char [simp]: "d < 10 \<Longrightarrow> digit_val (digit_char d) = d"
  by (simp add: digit_val_def digit_char_def of_char_of take_bit_eq_mod)

lemma dec_val_snoc [simp]: "dec_val (s @ [c]) = dec_val s * 10 + digit_val c"
  by (simp add: dec_val_def)

lemma dec_val_Nil [simp]: "dec_val [] = 0"
  by (simp add: dec_val_def)

lemma dec_of_nat_digits: "list_all is_digit (dec_of_nat n)"
  by (induction n rule: dec_of_nat.induct) (subst dec_of_nat.simps, auto)

lemma dec_of_nat_not_Nil [simp]: "dec_of_nat n \<noteq> []"
  by (subst dec_of_nat.simps) simp

lemma dec_val_dec_of_nat [simp]: "dec_val (dec_of_nat n) = n"
proof (induction n rule: dec_of_nat.induct)
  case (1 n)
  show ?case
  proof (cases "n < 10")
    case True
    then show ?thesis by (subst dec_of_nat.simps) (simp add: dec_val_def)
  next
    case False
    with 1 show ?thesis by (subst dec_of_nat.simps) simp
  qed
qed

lemma not_digit_punct [simp]:
  "\<not> is_digit CHR ''.''" "\<not> is_digit CHR ''-''" "\<not> is_digit CHR ''v''" "\<not> is_digit CHR ''b''"
  "\<not> is_digit CHR '':''" "\<not> is_digit CHR ''['' " "\<not> is_digit CHR '']''" "\<not> is_digit CHR '',''"
  "\<not> is_digit CHR ''+''"
  by (simp_all add: is_digit_def)

lemma digits_no_char: "list_all is_digit s \<Longrightarrow> \<not> is_digit c \<Longrightarrow> c \<notin> set s"
  by (auto simp: list_all_iff)

subsection \<open>strconv\<close>

text \<open>
  \<open>strconv.ParseUint(s, 10, 64)\<close>: the loop stops at the first character that is not a digit, and
  as soon as the value leaves the 64-bit range, in that order within one step.
\<close>

definition max_uint64 :: nat where
  "max_uint64 = 2 ^ 64 - 1"

fun parse_uint_loop :: "string \<Rightarrow> nat \<Rightarrow> string \<Rightarrow> nat res" where
  "parse_uint_loop s0 n [] = Ok n"
| "parse_uint_loop s0 n (c # cs) =
     (if \<not> is_digit c then Error (NumError ''ParseUint'' s0 ''invalid syntax'')
      else if max_uint64 div 10 + 1 \<le> n then Error (NumError ''ParseUint'' s0 ''value out of range'')
      else let n1 = n * 10 + digit_val c
           in if max_uint64 < n1 then Error (NumError ''ParseUint'' s0 ''value out of range'')
              else parse_uint_loop s0 n1 cs)"

definition parse_uint :: "string \<Rightarrow> nat res" where
  "parse_uint s =
     (if s = [] then Error (NumError ''ParseUint'' s ''invalid syntax'') else parse_uint_loop s 0 s)"

lemma parse_uint_loop_Ok:
  "parse_uint_loop s0 n s = Ok m \<Longrightarrow> list_all is_digit s \<and> m = foldl (\<lambda>n c. n * 10 + digit_val c) n s"
  by (induction s arbitrary: n) (auto simp: Let_def split: if_splits)

lemma foldl_dec_mono: "n \<le> foldl (\<lambda>n c. n * 10 + digit_val c) n s"
proof (induction s arbitrary: n)
  case Nil
  then show ?case by simp
next
  case (Cons c s)
  have "n \<le> n * 10 + digit_val c" by simp
  also have "\<dots> \<le> foldl (\<lambda>n c. n * 10 + digit_val c) (n * 10 + digit_val c) s" by (rule Cons.IH)
  finally show ?case by simp
qed

lemma parse_uint_loop_digits:
  assumes "list_all is_digit s" "n \<le> max_uint64"
  shows "parse_uint_loop s0 n s =
    (if foldl (\<lambda>n c. n * 10 + digit_val c) n s \<le> max_uint64
     then Ok (foldl (\<lambda>n c. n * 10 + digit_val c) n s)
     else Error (NumError ''ParseUint'' s0 ''value out of range''))"
  using assms
proof (induction s arbitrary: n)
  case Nil
  then show ?case by simp
next
  case (Cons c s)
  let ?n1 = "n * 10 + digit_val c"
  have ge: "?n1 \<le> foldl (\<lambda>n c. n * 10 + digit_val c) ?n1 s" by (rule foldl_dec_mono)
  show ?case
  proof (cases "max_uint64 < ?n1")
    case True
    then show ?thesis using Cons.prems ge by (auto simp: Let_def)
  next
    case False
    then have "n \<le> max_uint64 div 10" by (simp add: less_eq_div_iff_mult_less_eq)
    then show ?thesis using Cons.prems False Cons.IH [of ?n1] by (simp add: Let_def)
  qed
qed

lemma parse_uint_digits:
  assumes "list_all is_digit s" "s \<noteq> []"
  shows "parse_uint s =
    (if dec_val s \<le> max_uint64 then Ok (dec_val s)
     else Error (NumError ''ParseUint'' s ''value out of range''))"
  using assms by (simp add: parse_uint_def dec_val_def parse_uint_loop_digits)

lemma parse_uint_eq_Ok:
  "parse_uint s = Ok n \<longleftrightarrow> s \<noteq> [] \<and> list_all is_digit s \<and> dec_val s = n \<and> n \<le> max_uint64"
proof
  assume ok: "parse_uint s = Ok n"
  then have ne: "s \<noteq> []" by (auto simp: parse_uint_def)
  with ok have dig: "list_all is_digit s"
    by (auto simp: parse_uint_def dest: parse_uint_loop_Ok)
  with ok ne show "s \<noteq> [] \<and> list_all is_digit s \<and> dec_val s = n \<and> n \<le> max_uint64"
    by (auto simp: parse_uint_digits split: if_splits)
qed (auto simp: parse_uint_digits)

lemma parse_uint_loop_no_panic [simp]: "\<not> is_panic (parse_uint_loop s0 n s)"
  by (induction s arbitrary: n) (auto simp: Let_def)

lemma parse_uint_no_panic [simp]: "\<not> is_panic (parse_uint s)"
  by (simp add: parse_uint_def)

text \<open>\<open>strconv.Atoi\<close> on a 64-bit platform: an optional sign, then \<open>ParseUint\<close>.\<close>

definition atoi :: "string \<Rightarrow> int res" where
  "atoi s =
     (let neg = has_prefix ''-'' s;
          ds = (if has_prefix ''-'' s \<or> has_prefix ''+'' s then drop 1 s else s)
      in case parse_uint ds of
           Ok n \<Rightarrow>
             if \<not> neg \<and> 2 ^ 63 \<le> n \<or> neg \<and> 2 ^ 63 < n
             then Error (NumError ''Atoi'' s ''value out of range'')
             else Ok (if neg then - int n else int n)
         | Error (NumError _ _ why) \<Rightarrow> Error (NumError ''Atoi'' s why)
         | Error e \<Rightarrow> Error e
         | Panic p \<Rightarrow> Panic p)"

lemma has_prefix_sign_dec: "list_all is_digit s \<Longrightarrow> \<not> has_prefix ''-'' s \<and> \<not> has_prefix ''+'' s"
  by (cases s) (auto simp: has_prefix_def)

lemma atoi_dec_of_nat: "n < 2 ^ 63 \<Longrightarrow> atoi (dec_of_nat n) = Ok (int n)"
  using has_prefix_sign_dec [OF dec_of_nat_digits, of n]
  by (simp add: atoi_def parse_uint_digits dec_of_nat_digits max_uint64_def)

lemma atoi_Nil: "atoi [] = Error (NumError ''Atoi'' [] ''invalid syntax'')"
  by (simp add: atoi_def has_prefix_def parse_uint_def)

subsection \<open>net.SplitHostPort\<close>

abbreviation missing_port :: string where "missing_port \<equiv> ''missing port in address''"
abbreviation too_many_colons :: string where "too_many_colons \<equiv> ''too many colons in address''"

definition net_split_tail :: "string \<Rightarrow> string \<Rightarrow> nat \<Rightarrow> nat \<Rightarrow> nat \<Rightarrow> (string \<times> string) res" where
  "net_split_tail hp host i j k =
     (if CHR ''['' \<in> set (drop j hp) then Error (AddrError ''unexpected '[' in address'' hp)
      else if CHR '']'' \<in> set (drop k hp) then Error (AddrError ''unexpected ']' in address'' hp)
      else Ok (host, drop (Suc i) hp))"

definition net_split_host_port :: "string \<Rightarrow> (string \<times> string) res" where
  "net_split_host_port hp =
     (case last_index_of CHR '':'' hp of
        None \<Rightarrow> Error (AddrError missing_port hp)
      | Some i \<Rightarrow>
          if hd hp = CHR ''['' then
            (case index_of CHR '']'' hp of
               None \<Rightarrow> Error (AddrError ''missing ']' in address'' hp)
             | Some e \<Rightarrow>
                 if Suc e = length hp then Error (AddrError missing_port hp)
                 else if Suc e = i then net_split_tail hp (sub_slice hp 1 e) i 1 (Suc e)
                 else if hp ! Suc e = CHR '':'' then Error (AddrError too_many_colons hp)
                 else Error (AddrError missing_port hp))
          else if CHR '':'' \<in> set (take i hp) then Error (AddrError too_many_colons hp)
          else net_split_tail hp (take i hp) i 0 0)"

subsection \<open>net.ParseIP\<close>

definition hex_digit_val :: "char \<Rightarrow> nat option" where
  "hex_digit_val c =
     (let n = of_char c :: nat
      in if 48 \<le> n \<and> n \<le> 57 then Some (n - 48)
         else if 97 \<le> n \<and> n \<le> 102 then Some (n - 87)
         else if 65 \<le> n \<and> n \<le> 70 then Some (n - 55)
         else None)"

definition hex_val :: "string \<Rightarrow> nat" where
  "hex_val s = foldl (\<lambda>n c. n * 16 + the (hex_digit_val c)) 0 s"

text \<open>One octet of dotted IPv4: digits only, at most 255, no leading zero.\<close>

definition ipv4_octet :: "string \<Rightarrow> nat option" where
  "ipv4_octet s =
     (if s \<noteq> [] \<and> list_all is_digit s \<and> dec_val s \<le> 255 \<and> (length s > 1 \<longrightarrow> hd s \<noteq> CHR ''0'')
      then Some (dec_val s) else None)"

definition parse_ipv4 :: "string \<Rightarrow> nat list option" where
  "parse_ipv4 s =
     (let parts = map ipv4_octet (split_on CHR ''.'' s)
      in if length parts = 4 \<and> None \<notin> set parts then Some (map the parts) else None)"

text \<open>
  The loop of \<open>parseIPv6\<close>: up to \<open>k\<close> more 16-bit groups, those read so far, where the ellipsis
  stood, and the text left when the loop ends.
\<close>

fun ipv6_loop :: "nat \<Rightarrow> string \<Rightarrow> nat list \<Rightarrow> nat option \<Rightarrow> (nat list \<times> nat option \<times> string) option" where
  "ipv6_loop 0 s gs el = Some (gs, el, s)"
| "ipv6_loop (Suc k) s gs el =
     (let h = takeWhile (\<lambda>c. hex_digit_val c \<noteq> None) s; r = drop (length h) s; gs' = gs @ [hex_val h]
      in if h = [] \<or> 65535 < hex_val h then None
         else if r \<noteq> [] \<and> hd r = CHR ''.'' then
           (if el = None \<and> length gs \<noteq> 6 \<or> length gs + 2 > 8 then None
            else case parse_ipv4 s of
                   Some [a, b, c, d] \<Rightarrow> Some (gs @ [a * 256 + b, c * 256 + d], el, [])
                 | _ \<Rightarrow> None)
         else if r = [] then Some (gs', el, [])
         else if hd r \<noteq> CHR '':'' \<or> length r = 1 then None
         else if r ! 1 = CHR '':'' then
           (if el \<noteq> None then None
            else if length r = 2 then Some (gs', Some (length gs'), [])
            else ipv6_loop k (drop 2 r) gs' (Some (length gs')))
         else ipv6_loop k (drop 1 r) gs' el)"

declare ipv6_loop.simps [simp del]

definition parse_ipv6 :: "string \<Rightarrow> nat list option" where
  "parse_ipv6 s =
     (let lead = has_prefix ''::'' s; s1 = (if lead then drop 2 s else s)
      in if lead \<and> s1 = [] then Some (replicate 8 0)
         else case ipv6_loop 8 s1 [] (if lead then Some 0 else None) of
                None \<Rightarrow> None
              | Some (gs, el, rest) \<Rightarrow>
                  if rest \<noteq> [] then None
                  else if length gs < 8 then
                    (case el of
                       None \<Rightarrow> None
                     | Some e \<Rightarrow> Some (take e gs @ replicate (8 - length gs) 0 @ drop e gs))
                  else if el \<noteq> None then None else Some gs)"

datatype ip = IPv4 "nat list" | IPv6 "nat list"

definition parse_ip :: "string \<Rightarrow> ip option" where
  "parse_ip s =
     (case find (\<lambda>c. c = CHR ''.'' \<or> c = CHR '':'') s of
        None \<Rightarrow> None
      | Some c \<Rightarrow>
          if c = CHR ''.'' then map_option IPv4 (parse_ipv4 s) else map_option IPv6 (parse_ipv6 s))"

text \<open>\<open>ip.To4() != nil\<close>: an IPv4 address or an IPv4-mapped IPv6 one (\<open>::ffff:a.b.c.d\<close>).\<close>

fun has_to4 :: "ip \<Rightarrow> bool" where
  "has_to4 (IPv4 _) = True"
| "has_to4 (IPv6 gs) = (take 6 gs = [0, 0, 0, 0, 0, 65535])"

lemma ipv6_loop_nonhex: "0 < k \<Longrightarrow> hex_digit_val c = None \<Longrightarrow> ipv6_loop k (c # s) gs el = None"
  by (cases k) (simp_all add: ipv6_loop.simps)

lemma parse_ip_bracket: "parse_ip (CHR ''['' # s) = None"
proof -
  have "ipv6_loop 8 (CHR ''['' # s) [] None = None"
    by (simp add: ipv6_loop_nonhex hex_digit_val_def)
  moreover have "parse_ipv4 (CHR ''['' # s) = None"
    by (cases "split_on CHR ''.'' s") (auto simp: parse_ipv4_def ipv4_octet_def Let_def)
  ultimately show ?thesis
    by (auto simp: parse_ip_def parse_ipv6_def has_prefix_def split: option.splits)
qed

end
