(* ===== verification/YBVersion.thy ===== *)
theory YBVersion
  imports GoStd "HOL-Library.Product_Lexorder"
begin

section \<open>Package ybversion: parsing and comparing YugabyteDB versions\<close>

text \<open>
  \<open>pkg/ybversion/version.go\<close>. \<open>YBVersion\<close> is the struct of five \<open>uint64\<close> fields; \<open>New\<close>,
  \<open>Compare\<close>, \<open>Lt\<close>, \<open>Gt\<close>, \<open>Eq\<close>, \<open>containsOnlyNumbers\<close> and \<open>MustParse\<close> are the functions of the file.
  The lemmas give the language \<open>New\<close> accepts, that it reads back what a version prints as, that no
  field wraps around, and that \<open>Compare\<close> is a three-way comparison for the lexicographic order of
  the five fields, which is made the \<open>linorder\<close> of the type.
\<close>

subsection \<open>The code\<close>

record YBVersion =
  Major :: "64 word"
  Minor :: "64 word"
  Patch :: "64 word"
  Hotfix :: "64 word"
  Build :: "64 word"

text \<open>\<open>strings.IndexFunc(v, not a digit) == -1\<close>; true of the empty string.\<close>

definition containsOnlyNumbers :: "string \<Rightarrow> bool" where
  "containsOnlyNumbers v \<longleftrightarrow> find (\<lambda>r. \<not> is_digit r) v = None"

definition parse_field :: "string \<Rightarrow> string \<Rightarrow> string \<Rightarrow> nat res" where
  "parse_field what shown s =
     (if \<not> containsOnlyNumbers s
      then Error (Err (what @ '' version string \"'' @ shown @ ''\" contains non-numeric value''))
      else wrap_error (''could not parse '' @ what @ '' version: '') (parse_uint s))"

definition parse_build :: "string \<Rightarrow> nat res" where
  "parse_build build =
     (case build of
        [] \<Rightarrow> Ok 0
      | c # _ \<Rightarrow>
          if \<not> has_prefix ''b'' build
          then Error (Err (''found build prefix \"'' @ string_of_byte c @ ''\" expected \"b\"''))
          else parse_field ''build'' build (trim_prefix ''b'' build))"

text \<open>The body of \<open>New\<close> on the four dot-separated parts, in the order the code checks them.\<close>

fun parse_parts :: "string list \<Rightarrow> YBVersion res" where
  "parse_parts [v0, v1, v2, v3] =
     bind_res (parse_field ''major'' v0 (trim_prefix ''v'' v0)) (\<lambda>major.
     bind_res (parse_field ''minor'' v1 v1) (\<lambda>minor.
     bind_res (parse_field ''patch'' v2 v2) (\<lambda>patch.
     (let (hot, build) = (case cut_at CHR ''-'' v3 of Some (before, after) \<Rightarrow> (before, after)
                          | None \<Rightarrow> (v3, []))
      in bind_res (parse_field ''hotfix'' hot hot) (\<lambda>hotfix.
         bind_res (parse_build build) (\<lambda>b.
         Ok \<lparr>Major = of_nat major, Minor = of_nat minor, Patch = of_nat patch,
             Hotfix = of_nat hotfix, Build = of_nat b\<rparr>))))))"
| "parse_parts _ = Error (Err ''unable to split version string'')"

definition New :: "string \<Rightarrow> YBVersion res" where
  "New vs =
     wrap_error (''invalid version string \"'' @ vs @ ''\": '')
       (if length vs = 0 then Error (Err ''empty version string'')
        else parse_parts (split_on CHR ''.'' vs))"

definition Compare :: "YBVersion \<Rightarrow> YBVersion \<Rightarrow> int" where
  "Compare v other =
     (if Major v \<noteq> Major other then (if Major other < Major v then 1 else - 1)
      else if Minor v \<noteq> Minor other then (if Minor other < Minor v then 1 else - 1)
      else if Patch v \<noteq> Patch other then (if Patch other < Patch v then 1 else - 1)
      else if Hotfix v \<noteq> Hotfix other then (if Hotfix other < Hotfix v then 1 else - 1)
      else if Build v \<noteq> Build other then (if Build other < Build v then 1 else - 1)
      else 0)"

definition Lt :: "YBVersion \<Rightarrow> YBVersion \<Rightarrow> bool" where
  "Lt v other \<longleftrightarrow> Compare v other = - 1"

definition Gt :: "YBVersion \<Rightarrow> YBVersion \<Rightarrow> bool" where
  "Gt v other \<longleftrightarrow> Compare v other = 1"

definition Eq :: "YBVersion \<Rightarrow> YBVersion \<Rightarrow> bool" where
  "Eq v other \<longleftrightarrow> Compare v other = 0"

text \<open>\<open>MustParse\<close> panics with the error; the panic carries no further structure here.\<close>

definition MustParse :: "string \<Rightarrow> YBVersion res" where
  "MustParse v = (case New v of Ok version \<Rightarrow> Ok version | Error _ \<Rightarrow> Panic v | Panic p \<Rightarrow> Panic p)"

subsection \<open>Comparison\<close>

text \<open>The lexicographic order on the fields, as the type's linear order.\<close>

definition version_key ::
  "'a YBVersion_scheme \<Rightarrow> 64 word \<times> 64 word \<times> 64 word \<times> 64 word \<times> 64 word \<times> 'a" where
  "version_key v = (Major v, Minor v, Patch v, Hotfix v, Build v, more v)"

lemma version_key_inject: "version_key v = version_key w \<longleftrightarrow> v = w"
  by (cases v; cases w) (simp add: version_key_def)

instantiation YBVersion_ext :: (linorder) linorder
begin

definition less_YBVersion_ext :: "'a YBVersion_scheme \<Rightarrow> 'a YBVersion_scheme \<Rightarrow> bool" where
  "less_YBVersion_ext v w \<longleftrightarrow> version_key v < version_key w"

definition less_eq_YBVersion_ext :: "'a YBVersion_scheme \<Rightarrow> 'a YBVersion_scheme \<Rightarrow> bool" where
  "less_eq_YBVersion_ext v w \<longleftrightarrow> version_key v \<le> version_key w"

instance
proof
  fix x y z :: "'a YBVersion_scheme"
  show "x < y \<longleftrightarrow> x \<le> y \<and> \<not> y \<le> x"
    unfolding less_YBVersion_ext_def less_eq_YBVersion_ext_def by (rule less_le_not_le)
  show "x \<le> x"
    unfolding less_eq_YBVersion_ext_def by (rule order_refl)
  show "x \<le> y \<Longrightarrow> y \<le> z \<Longrightarrow> x \<le> z"
    unfolding less_eq_YBVersion_ext_def by (rule order_trans)
  show "x \<le> y \<Longrightarrow> y \<le> x \<Longrightarrow> x = y"
    unfolding less_eq_YBVersion_ext_def by (simp add: version_key_inject [symmetric])
  show "x \<le> y \<or> y \<le> x"
    unfolding less_eq_YBVersion_ext_def by (rule linear)
qed

end

text \<open>
  The contract of a three-way comparison: what a caller of \<open>Compare\<close> may rely on, whatever the
  type. Lists compared through it can be searched and sorted with \<open>lt\<close>.
\<close>

locale three_way =
  fixes cmp :: "'a \<Rightarrow> 'a \<Rightarrow> int"
  assumes sign: "cmp a b \<in> {- 1, 0, 1}"
    and swap: "cmp b a = - cmp a b"
    and zero_eq: "cmp a b = 0 \<longleftrightarrow> a = b"
    and trans: "cmp a b = - 1 \<Longrightarrow> cmp b c = - 1 \<Longrightarrow> cmp a c = - 1"
begin

lemma irreflexive: "cmp a a = 0"
  by (simp add: zero_eq)

lemma trichotomy:
  "(cmp a b = - 1 \<and> cmp a b \<noteq> 1 \<and> a \<noteq> b) \<or> (cmp a b = 1 \<and> cmp a b \<noteq> - 1 \<and> a \<noteq> b)
   \<or> (a = b \<and> cmp a b \<noteq> 1 \<and> cmp a b \<noteq> - 1)"
  using sign [of a b] zero_eq [of a b] by auto

lemma greater_iff: "cmp a b = 1 \<longleftrightarrow> cmp b a = - 1"
  using swap [of a b] by auto

lemma le_trans: "cmp a b \<noteq> 1 \<Longrightarrow> cmp b c \<noteq> 1 \<Longrightarrow> cmp a c \<noteq> 1"
  using sign [of a b] sign [of b c] trans [of a b c] zero_eq [of a b] zero_eq [of b c]
    greater_iff [of a c]
  by auto

lemma sorted_wrt_first:
  "sorted_wrt (\<lambda>a b. cmp a b \<noteq> 1) (x # xs) \<Longrightarrow> y \<in> set xs \<Longrightarrow> cmp y x \<noteq> - 1"
  by (auto simp: greater_iff)

end

lemma pair_less_if: "(a, x) < (b, y) \<longleftrightarrow> (if a \<noteq> b then a < b else x < y)"
  for a b :: "'a::linorder" and x y :: "'b::linorder"
  by (auto simp: less_prod_simp)

lemma version_less:
  "v < w \<longleftrightarrow>
     (if Major v \<noteq> Major w then Major v < Major w
      else if Minor v \<noteq> Minor w then Minor v < Minor w
      else if Patch v \<noteq> Patch w then Patch v < Patch w
      else if Hotfix v \<noteq> Hotfix w then Hotfix v < Hotfix w
      else Build v < Build w)" for v w :: YBVersion
  by (simp add: less_YBVersion_ext_def version_key_def pair_less_if del: less_prod_simp)

lemma Compare_equal: "Compare v w = 0 \<longleftrightarrow> v = w"
  by (simp add: Compare_def version_key_inject [symmetric] version_key_def)

lemma Compare_greater: "Compare v w = 1 \<longleftrightarrow> w < v"
  by (simp add: Compare_def version_less)

lemma Compare_sign: "Compare v w \<in> {- 1, 0, 1}"
  by (simp add: Compare_def)

lemma Compare_less: "Compare v w = - 1 \<longleftrightarrow> v < w"
  using Compare_sign [of v w] Compare_greater [of v w] Compare_equal [of v w]
  by (cases v w rule: linorder_cases) (auto dest: less_not_sym)

lemma Compare_swap: "Compare w v = - Compare v w"
proof (cases v w rule: linorder_cases)
  case less
  then show ?thesis using Compare_less [of v w] Compare_greater [of w v] by simp
next
  case equal
  then show ?thesis using Compare_equal [of v w] Compare_equal [of w v] by simp
next
  case greater
  then show ?thesis using Compare_less [of w v] Compare_greater [of v w] by simp
qed

lemmas Compare_iffs = Compare_less Compare_equal Compare_greater

interpretation version_order: three_way Compare
proof unfold_locales
  fix a b c :: YBVersion
  show "Compare a b \<in> {- 1, 0, 1}" by (rule Compare_sign)
  show "Compare b a = - Compare a b"
    by (rule Compare_swap)
  show "Compare a b = 0 \<longleftrightarrow> a = b" by (rule Compare_equal)
  show "Compare a b = - 1 \<Longrightarrow> Compare b c = - 1 \<Longrightarrow> Compare a c = - 1"
    unfolding Compare_less by (rule less_trans)
qed

subsection \<open>The accepted language\<close>

lemma containsOnlyNumbers_iff: "containsOnlyNumbers s \<longleftrightarrow> list_all is_digit s"
  by (auto simp: containsOnlyNumbers_def find_None_iff list_all_iff)

definition number :: "string \<Rightarrow> bool" where
  "number s \<longleftrightarrow> s \<noteq> [] \<and> list_all is_digit s \<and> dec_val s \<le> max_uint64"

lemma parse_field_Ok: "parse_field what shown s = Ok n \<longleftrightarrow> number s \<and> dec_val s = n"
  by (auto simp: parse_field_def containsOnlyNumbers_iff parse_uint_eq_Ok number_def)

lemma parse_build_Ok:
  "parse_build build = Ok n \<longleftrightarrow> (build = [] \<and> n = 0) \<or> (\<exists>e. build = CHR ''b'' # e \<and> number e \<and> dec_val e = n)"
  by (cases build) (auto simp: parse_build_def parse_field_Ok has_prefix_def trim_prefix_def)

lemma parse_parts_Ok:
  "parse_parts ps = Ok v \<longleftrightarrow>
     (\<exists>v0 v1 v2 v3 hot build. ps = [v0, v1, v2, v3]
        \<and> ((v3 = hot @ CHR ''-'' # build \<and> CHR ''-'' \<notin> set hot) \<or> (v3 = hot \<and> CHR ''-'' \<notin> set hot \<and> build = []))
        \<and> number (trim_prefix ''v'' v0) \<and> number v1 \<and> number v2 \<and> number hot
        \<and> (\<exists>b. parse_build build = Ok b
            \<and> v = \<lparr>Major = of_nat (dec_val (trim_prefix ''v'' v0)), Minor = of_nat (dec_val v1),
                  Patch = of_nat (dec_val v2), Hotfix = of_nat (dec_val hot), Build = of_nat b\<rparr>))"
  (is "?l \<longleftrightarrow> ?r")
proof
  assume ?l
  then obtain v0 v1 v2 v3 where ps: "ps = [v0, v1, v2, v3]"
    by (auto elim!: parse_parts.elims)
  show ?r
  proof (cases "cut_at CHR ''-'' v3")
    case None
    then show ?thesis using \<open>?l\<close>
      by (simp add: ps bind_res_eq_Ok parse_field_Ok cut_at_eq_None) blast
  next
    case (Some p)
    then obtain h b where p: "cut_at CHR ''-'' v3 = Some (h, b)" by (cases p) auto
    then show ?thesis using \<open>?l\<close> cut_at_eq_Some [THEN iffD1, OF p]
      by (auto simp: ps bind_res_eq_Ok parse_field_Ok)
  qed
next
  assume ?r
  then show ?l
    by (auto simp: bind_res_eq_Ok parse_field_Ok)
qed

text \<open>The grammar of a version string, and the version it denotes.\<close>

inductive denotes :: "string \<Rightarrow> YBVersion \<Rightarrow> bool" where
  "v \<in> {[], ''v''} \<Longrightarrow> number ma \<Longrightarrow> number mi \<Longrightarrow> number pa \<Longrightarrow> number ho \<Longrightarrow>
   suffix \<in> {[], ''-''} \<and> b = 0 \<or> (\<exists>bs. suffix = ''-b'' @ bs \<and> number bs \<and> b = dec_val bs) \<Longrightarrow>
   denotes (v @ ma @ ''.'' @ mi @ ''.'' @ pa @ ''.'' @ ho @ suffix)
     \<lparr>Major = of_nat (dec_val ma), Minor = of_nat (dec_val mi), Patch = of_nat (dec_val pa),
      Hotfix = of_nat (dec_val ho), Build = of_nat b\<rparr>"

lemma number_no_punct: "number s \<Longrightarrow> \<not> is_digit c \<Longrightarrow> c \<notin> set s"
  by (auto simp: number_def dest: digits_no_char)

lemma number_hd: "number s \<Longrightarrow> \<not> has_prefix ''v'' s"
  by (auto simp: has_prefix_iff number_def)

lemma trim_v_number: "v \<in> {[], ''v''} \<Longrightarrow> number s \<Longrightarrow> trim_prefix ''v'' (v @ s) = s"
  using number_hd [of s] by (auto simp: trim_prefix_def has_prefix_iff)

lemma suffix_no_dot:
  "suffix \<in> {[], ''-''} \<and> b = 0 \<or> (\<exists>bs. suffix = ''-b'' @ bs \<and> number bs \<and> b = dec_val bs) \<Longrightarrow>
   CHR ''.'' \<notin> set suffix"
  by (auto dest: number_no_punct [where c = "CHR ''.''"])

lemma New_Ok: "New vs = Ok v \<longleftrightarrow> vs \<noteq> [] \<and> parse_parts (split_on CHR ''.'' vs) = Ok v"
  by (simp add: New_def)

lemma denotes_New: "denotes s v \<Longrightarrow> New s = Ok v"
proof (induction rule: denotes.induct)
  case (1 v ma mi pa ho suffix b)
  have dots: "CHR ''.'' \<notin> set (v @ ma)" "CHR ''.'' \<notin> set mi" "CHR ''.'' \<notin> set pa"
    "CHR ''.'' \<notin> set (ho @ suffix)"
    using 1 suffix_no_dot [OF 1(6)] by (auto dest: number_no_punct [where c = "CHR ''.''"])
  have "split_on CHR ''.'' (v @ ma @ ''.'' @ mi @ ''.'' @ pa @ ''.'' @ ho @ suffix)
      = [v @ ma, mi, pa, ho @ suffix]"
    using split_on_append [OF dots(1)] split_on_append [OF dots(2)] split_on_append [OF dots(3)]
      split_on_no_sep [OF dots(4)] by simp
  moreover have "CHR ''-'' \<notin> set ho" using number_no_punct [OF 1(5), of "CHR ''-''"] by simp
  ultimately show ?case
    using 1 trim_v_number [of v ma] unfolding New_Ok
    by (auto simp: bind_res_eq_Ok parse_field_Ok parse_build_Ok)
qed

lemma New_denotes: assumes "New s = Ok v" shows "denotes s v"
proof -
  from assms have "parse_parts (split_on CHR ''.'' s) = Ok v" by (simp add: New_Ok)
  from iffD1 [OF parse_parts_Ok this] obtain v0 v1 v2 v3 hot build b where
    ps: "split_on CHR ''.'' s = [v0, v1, v2, v3]"
    and v3: "v3 = hot @ CHR ''-'' # build \<or> v3 = hot \<and> build = []"
    and nums: "number (trim_prefix ''v'' v0)" "number v1" "number v2" "number hot"
    and b: "parse_build build = Ok b"
    and v: "v = \<lparr>Major = of_nat (dec_val (trim_prefix ''v'' v0)), Minor = of_nat (dec_val v1),
                  Patch = of_nat (dec_val v2), Hotfix = of_nat (dec_val hot), Build = of_nat b\<rparr>"
    by blast
  have s: "s = v0 @ ''.'' @ v1 @ ''.'' @ v2 @ ''.'' @ v3"
    using join_split_on [of "CHR ''.''" s] by (simp add: ps)
  have "\<exists>w m. w \<in> {[], ''v''} \<and> v0 = w @ m \<and> trim_prefix ''v'' v0 = m"
    using trim_prefix_cases [where p = "''v''" and s = v0]
    by (metis append_Nil insertCI)
  then obtain w m where w: "w \<in> {[], ''v''}" "v0 = w @ m" "trim_prefix ''v'' v0 = m" by blast
  obtain suffix where suffix: "v3 = hot @ suffix"
    "suffix \<in> {[], ''-''} \<and> b = 0 \<or> (\<exists>bs. suffix = ''-b'' @ bs \<and> number bs \<and> b = dec_val bs)"
    using v3 b by (auto simp: parse_build_Ok)
  show ?thesis
    using denotes.intros [OF w(1) nums [unfolded w(3)] suffix(2)]
    unfolding s suffix(1) by (simp add: v w(3)) (simp add: w(2))
qed

lemma New_iff_denotes: "New s = Ok v \<longleftrightarrow> denotes s v"
  using denotes_New New_denotes by blast

text \<open>The text a version prints as, in the two forms the comment on \<open>New\<close> lists.\<close>

definition show_version :: "bool \<Rightarrow> YBVersion \<Rightarrow> string" where
  "show_version with_v v =
     (if with_v then ''v'' else []) @ dec_of_nat (unat (Major v)) @ ''.'' @ dec_of_nat (unat (Minor v))
     @ ''.'' @ dec_of_nat (unat (Patch v)) @ ''.'' @ dec_of_nat (unat (Hotfix v))
     @ ''-b'' @ dec_of_nat (unat (Build v))"

lemma number_dec_word: "number (dec_of_nat (unat (w :: 64 word)))"
  using unsigned_less [of w, where 'a = nat] by (simp add: number_def dec_of_nat_digits max_uint64_def)

lemma show_version_denotes: "denotes (show_version with_v v) v"
proof -
  have "denotes (show_version with_v v)
     \<lparr>Major = of_nat (dec_val (dec_of_nat (unat (Major v)))),
      Minor = of_nat (dec_val (dec_of_nat (unat (Minor v)))),
      Patch = of_nat (dec_val (dec_of_nat (unat (Patch v)))),
      Hotfix = of_nat (dec_val (dec_of_nat (unat (Hotfix v)))),
      Build = of_nat (unat (Build v))\<rparr>"
    unfolding show_version_def
    by (rule denotes.intros [OF _ number_dec_word number_dec_word number_dec_word number_dec_word])
       (auto simp: number_dec_word)
  then show ?thesis by (cases v) simp
qed

lemma parse_field_no_panic [simp]: "\<not> is_panic (parse_field w s t)"
  by (simp add: parse_field_def)

lemma parse_build_no_panic [simp]: "\<not> is_panic (parse_build b)"
  by (cases b) (simp_all add: parse_build_def)

lemma parse_parts_no_panic [simp]: "\<not> is_panic (parse_parts ps)"
  by (induction ps rule: parse_parts.induct) (auto split: option.splits)

lemma New_no_panic [simp]: "\<not> is_panic (New s)"
  by (simp add: New_def)

text \<open>The five fields as numbers, most significant first.\<close>

definition fields :: "YBVersion \<Rightarrow> nat list" where
  "fields v = [unat (Major v), unat (Minor v), unat (Patch v), unat (Hotfix v), unat (Build v)]"

lemma fields_inject: "fields v = fields w \<longleftrightarrow> v = w"
  by (simp add: fields_def version_key_inject [symmetric] version_key_def word_unat_eq_iff)

lemma version_less_fields: "v < w \<longleftrightarrow> (fields v, fields w) \<in> lexord {(m, n). m < n}"
  by (auto simp: version_less fields_def word_less_nat_alt word_unat_eq_iff)

subsection \<open>Properties\<close>

text \<open>C14: \<open>New\<close> accepts exactly the strings of the grammar \<open>denotes\<close> (an optional leading \<open>v\<close>,
  four dot-separated 64-bit decimals, then nothing, \<open>-\<close>, or \<open>-b\<close> and a 64-bit decimal) and gives
  the version the string denotes; every field of an accepted version is the written number, with
  no wrap-around. The bare \<open>-\<close> is not among the formats its comment lists.\<close>

theorem New_accepts_grammar:
  "New s = Ok v \<longleftrightarrow> denotes s v"
  by (rule New_iff_denotes)

text \<open>parsing is a left inverse of printing: a version printed with or without the leading
  \<open>v\<close> is read back as itself, and \<open>MustParse\<close> does not panic on it.\<close>

theorem New_round_trip:
  "New (show_version with_v v) = Ok v \<and> MustParse (show_version with_v v) = Ok v"
  by (simp add: MustParse_def denotes_New [OF show_version_denotes])

text \<open>\<open>New\<close> never panics, and its error always is the wrapped error naming the whole string;
  \<open>MustParse\<close> never returns an error, it panics exactly on the strings \<open>New\<close> rejects.\<close>

theorem New_error_shape:
  "(\<exists>v. New s = Ok v \<and> MustParse s = Ok v)
   \<or> (\<exists>e. New s = Error (Wrap (''invalid version string \"'' @ s @ ''\": '') e) \<and> is_panic (MustParse s))"
proof (cases "New s")
  case (Ok v)
  then show ?thesis by (simp add: MustParse_def)
next
  case (Error e)
  then show ?thesis
    by (auto simp: MustParse_def New_def elim: wrap_error.elims)
next
  case (Panic p)
  then show ?thesis using New_no_panic [of s] by (simp del: New_no_panic)
qed

text \<open>\<open>Compare\<close> is the sign of the lexicographic order on (major, minor, patch, hotfix, build)
  as natural numbers, and \<open>Lt\<close>, \<open>Eq\<close>, \<open>Gt\<close> are its three exclusive cases, of which exactly one
  holds.\<close>

theorem Compare_is_lexicographic:
  "Compare v w =
     (if fields v = fields w then 0 else if (fields v, fields w) \<in> lexord {(m, n). m < n} then - 1 else 1)
   \<and> (Lt v w \<and> \<not> Eq v w \<and> \<not> Gt v w \<or> \<not> Lt v w \<and> Eq v w \<and> \<not> Gt v w \<or> \<not> Lt v w \<and> \<not> Eq v w \<and> Gt v w)"
proof
  show "Compare v w =
     (if fields v = fields w then 0 else if (fields v, fields w) \<in> lexord {(m, n). m < n} then - 1 else 1)"
    using version_less_fields [of v w] fields_inject [of v w] Compare_iffs [of v w] Compare_sign [of v w]
    by auto
  show "Lt v w \<and> \<not> Eq v w \<and> \<not> Gt v w \<or> \<not> Lt v w \<and> Eq v w \<and> \<not> Gt v w \<or> \<not> Lt v w \<and> \<not> Eq v w \<and> Gt v w"
    using version_order.trichotomy [of v w] unfolding Lt_def Gt_def Eq_def
    by (auto simp: Compare_equal)
qed

text \<open>\<open>Compare\<close> orders versions totally: it is antisymmetric under swapping its arguments, and
  "not greater" is transitive, so a list of versions can be sorted with it.\<close>

theorem Compare_total_order:
  "Compare w v = - Compare v w \<and> (\<not> Gt u v \<and> \<not> Gt v w \<longrightarrow> \<not> Gt u w)"
  using version_order.swap [of w v] version_order.le_trans [of u v w] unfolding Gt_def by auto

theorem Compare_total_order_witness:
  "\<not> Gt \<lparr>Major = 2, Minor = 4, Patch = 1, Hotfix = 0, Build = 21\<rparr> \<lparr>Major = 2, Minor = 14, Patch = 0, Hotfix = 0, Build = 1\<rparr>"
  using Compare_total_order [of "\<lparr>Major = 2, Minor = 14, Patch = 0, Hotfix = 0, Build = 1\<rparr>"
    "\<lparr>Major = 2, Minor = 4, Patch = 1, Hotfix = 0, Build = 21\<rparr>" "\<lparr>Major = 2, Minor = 4, Patch = 1, Hotfix = 0, Build = 21\<rparr>"]
  by (simp add: Gt_def Compare_def)

end
