(* ===== verification/Flags.thy ===== *)
theory Flags
  imports GoStd
begin

section \<open>Required flags and prompts\<close>

text \<open>
  \<open>pkg/flag/flag.go\<close> and \<open>pkg/util/util.go\<close>. A flag may be marked required, and is then satisfied by
  the command line or by a non-zero value of the configuration file. \<open>pflag\<close> and \<open>viper\<close> are libraries:
  the order in which \<open>VisitAll\<close> shows the flags is the order of the list, \<open>viper.Get\<close>, \<open>viper.BindPFlag\<close>
  and \<open>SetAnnotation\<close> are parameters, and so is \<open>reflect\<close>'s test for the zero value. The terminal is
  a parameter too.
\<close>

record pflag =
  flag_name :: string
  flag_changed :: bool
  flag_annotations :: "string \<Rightarrow> string list"

definition YBToolsMarkFlagRequired :: string where
  "YBToolsMarkFlagRequired = ''yugaware_client_flag_required_annotation''"

text \<open>\<open>strings.NewReplacer("-", "_")\<close>\<close>

definition replace_dash :: "string \<Rightarrow> string" where
  "replace_dash s = map (\<lambda>c. if c = CHR ''-'' then CHR ''_'' else c) s"

definition BindFlags :: "(string \<Rightarrow> pflag \<Rightarrow> 'v \<Rightarrow> unit res \<times> 'v) \<Rightarrow> pflag list \<Rightarrow> 'v \<Rightarrow> unit res \<times> 'v" where
  "BindFlags bind flags =
     for_each
       (\<lambda>f v. case bind (replace_dash (flag_name f)) f v of
                (Error e, v') \<Rightarrow> (Panic (''unable to bind flag '' @ flag_name f), v')
              | r \<Rightarrow> r) flags"

definition required_flags :: "pflag list \<Rightarrow> pflag list" where
  "required_flags flags = filter (\<lambda>f. 0 < length (flag_annotations f YBToolsMarkFlagRequired)) flags"

fun missing_flags :: "(string \<Rightarrow> 'g option) \<Rightarrow> ('g \<Rightarrow> bool) \<Rightarrow> pflag list \<Rightarrow> string list" where
  "missing_flags get is_zero [] = []"
| "missing_flags get is_zero (f # fs) =
     (if flag_changed f then missing_flags get is_zero fs
      else case get (replace_dash (flag_name f)) of
             Some value \<Rightarrow>
               if \<not> is_zero value then missing_flags get is_zero fs
               else flag_name f # missing_flags get is_zero fs
           | None \<Rightarrow> flag_name f # missing_flags get is_zero fs)"

definition ValidateRequiredFlags :: "(string \<Rightarrow> 'g option) \<Rightarrow> ('g \<Rightarrow> bool) \<Rightarrow> pflag list \<Rightarrow> unit res" where
  "ValidateRequiredFlags get is_zero flags =
     (let missing = missing_flags get is_zero (required_flags flags)
      in if 0 < length missing
         then Error (Err (''required flag(s) ['' @ join_with '' '' missing @ ''] not set''))
         else Ok ())"

definition MarkFlagRequired ::
  "(string \<Rightarrow> string \<Rightarrow> string list \<Rightarrow> 'f \<Rightarrow> unit res \<times> 'f) \<Rightarrow> string \<Rightarrow> 'f \<Rightarrow> unit res \<times> 'f" where
  "MarkFlagRequired set_annotation name flags =
     (case set_annotation name YBToolsMarkFlagRequired [''true''] flags of
        (Error e, flags') \<Rightarrow> (Panic ''could not mark flag required'', flags')
      | r \<Rightarrow> r)"

definition MarkFlagsRequired ::
  "(string \<Rightarrow> string \<Rightarrow> string list \<Rightarrow> 'f \<Rightarrow> unit res \<times> 'f) \<Rightarrow> string list \<Rightarrow> 'f \<Rightarrow> unit res \<times> 'f" where
  "MarkFlagsRequired set_annotation names = for_each (MarkFlagRequired set_annotation) names"

definition MergeConfigFile :: "('o \<Rightarrow> 'o res) \<Rightarrow> 'o \<Rightarrow> 'o res" where
  "MergeConfigFile unmarshal globalOptions = unmarshal globalOptions"

subsection \<open>Prompts\<close>

definition MaskOut :: "string \<Rightarrow> string" where
  "MaskOut value = foldl (\<lambda>buf i. buf @ ''*'') [] [0 ..< length value]"

text \<open>\<open>read_password\<close> is \<open>term.ReadPassword\<close>; the two reads are threaded through its input.\<close>

definition PasswordPrompt :: "('t \<Rightarrow> string res \<times> 't) \<Rightarrow> 't \<Rightarrow> string res \<times> 't" where
  "PasswordPrompt read_password t =
     (case andThen (read_password t) (\<lambda>password t1.
           andThen (read_password t1) (\<lambda>confirmation t2.
           if password \<noteq> confirmation then (Error (Err ''passwords did not match''), t2)
           else (Ok password, t2))) of
        (r, t') \<Rightarrow> (wrap_error ''unable to get password: '' r, t'))"

definition ConfirmationDialog :: "string res \<Rightarrow> unit res" where
  "ConfirmationDialog scanned =
     bind_res scanned (\<lambda>userInput.
       let answer = to_lower userInput
       in if answer = ''y'' \<or> answer = ''yes'' then Ok ()
          else if answer = ''n'' \<or> answer = ''no'' then Error (Err ''user declined confirmation dialog'')
          else Error (Err ''invalid input: must be \"yes\" or \"no\"''))"

subsection \<open>Lemmas\<close>

text \<open>A required flag is satisfied on the command line or by a non-zero configuration value.\<close>

definition satisfied :: "(string \<Rightarrow> 'g option) \<Rightarrow> ('g \<Rightarrow> bool) \<Rightarrow> pflag \<Rightarrow> bool" where
  "satisfied get is_zero f \<longleftrightarrow>
     flag_changed f \<or> (\<exists>v. get (replace_dash (flag_name f)) = Some v \<and> \<not> is_zero v)"

lemma missing_flags_filter:
  "missing_flags get is_zero fs = map flag_name (filter (\<lambda>f. \<not> satisfied get is_zero f) fs)"
  by (induction fs) (auto simp: satisfied_def split: option.splits)

lemma replace_dash_idem: "replace_dash (replace_dash s) = replace_dash s"
  by (simp add: replace_dash_def)

lemma replace_dash_no_dash: "CHR ''-'' \<notin> set (replace_dash s)"
  by (auto simp: replace_dash_def)

lemma MaskOut_replicate: "MaskOut value = replicate (length value) CHR ''*''"
proof -
  have "foldl (\<lambda>buf i. buf @ ''*'') [] [0 ..< n] = replicate n CHR ''*''" for n
    by (induction n) (simp_all add: replicate_append_same)
  then show ?thesis by (simp add: MaskOut_def)
qed

lemma for_each_ok_all:
  "for_each f xs s = (Ok (), t) \<Longrightarrow> x \<in> set xs \<Longrightarrow> \<exists>u v. f x u = (Ok (), v)"
  by (induction xs arbitrary: s) (auto simp: andThen_eq_Ok)

subsection \<open>Properties\<close>

text \<open>\<open>ValidateRequiredFlags\<close> accepts exactly when every flag marked required is given on the
  command line or has a non-zero configuration value under its name with dashes replaced; otherwise
  its error lists exactly the missing flags, in the order they are visited. It never panics.\<close>

theorem ValidateRequiredFlags_exact:
  "ValidateRequiredFlags get is_zero flags =
     (if \<forall>f\<in>set flags. flag_annotations f YBToolsMarkFlagRequired = [] \<or> satisfied get is_zero f then Ok ()
      else Error (Err (''required flag(s) ['' @
        join_with '' '' (map flag_name (filter (\<lambda>f. flag_annotations f YBToolsMarkFlagRequired \<noteq> []
            \<and> \<not> satisfied get is_zero f) flags)) @ ''] not set'')))"
  by (auto simp: ValidateRequiredFlags_def missing_flags_filter required_flags_def filter_empty_conv
      conj_commute)

theorem ValidateRequiredFlags_exact_witness:
  "ValidateRequiredFlags (\<lambda>k. if k = ''a_b'' then Some (7::nat) else None) (\<lambda>v. v = 0)
     [\<lparr>flag_name = ''a-b'', flag_changed = False, flag_annotations = (\<lambda>_. [''true''])\<rparr>,
      \<lparr>flag_name = ''c'', flag_changed = False, flag_annotations = (\<lambda>_. [''true''])\<rparr>]
   = Error (Err (''required flag(s) [c] not set''))"
  by (subst ValidateRequiredFlags_exact) (simp add: satisfied_def replace_dash_def)

end
