(* ===== verification/HostPort.thy ===== *)
theory HostPort
  imports GoStd
begin

section \<open>Host and port strings\<close>

text \<open>
  \<open>yugatool/pkg/util/util.go\<close> and \<open>yugatool/pkg/cmdutil/flags.go\<close>: how a \<open>HostPortPB\<close> is printed for
  \<open>Dial\<close>, and how the \<open>--master-address\<close> list is read. \<open>SplitHostPort\<close> calls itself with the default
  port appended as long as \<open>net.SplitHostPort\<close> reports a missing port; the recursion has no bound of
  its own, so it is a \<open>partial_function\<close> whose value \<open>None\<close> means that it never returns (in Go:
  a stack overflow). The lemmas say exactly for which strings that happens, what every other kind of
  string gives, and that the printed form is read back.
\<close>

subsection \<open>The code\<close>

definition IsBasicIPv6 :: "string \<Rightarrow> bool" where
  "IsBasicIPv6 host = (case parse_ip host of None \<Rightarrow> False | Some ip \<Rightarrow> \<not> has_to4 ip)"

definition HostPortString :: "host_port \<Rightarrow> string" where
  "HostPortString host =
     (if IsBasicIPv6 (hp_host host)
      then ''['' @ hp_host host @ '']:'' @ dec_of_nat (unat (hp_port host))
      else hp_host host @ '':'' @ dec_of_nat (unat (hp_port host)))"

text \<open>The end of \<open>SplitHostPort\<close>: \<open>strconv.Atoi\<close> and the conversion \<open>uint32(port)\<close>.\<close>

definition convert_port :: "string \<Rightarrow> string \<Rightarrow> (string \<times> 32 word) res" where
  "convert_port host p = bind_res (atoi p) (\<lambda>port. Ok (host, word_of_int port))"

text \<open>
  A \<open>*net.AddrError\<close> with another reason falls out of the \<open>switch\<close>, and the code goes on with the
  empty host and port \<open>net.SplitHostPort\<close> returned.
\<close>

partial_function (option) SplitHostPort :: "string \<Rightarrow> int \<Rightarrow> (string \<times> 32 word) res option" where
  "SplitHostPort h defaultPort =
     (if IsBasicIPv6 h then Some (Ok (h, word_of_int defaultPort))
      else case net_split_host_port h of
             Ok hp \<Rightarrow> Some (convert_port (fst hp) (snd hp))
           | Error e \<Rightarrow>
               (case e of
                  AddrError reason _ \<Rightarrow>
                    if reason = missing_port
                    then SplitHostPort (h @ '':'' @ dec_of_int defaultPort) defaultPort
                    else Some (convert_port [] [])
                | _ \<Rightarrow> Some (Error e))
           | Panic p \<Rightarrow> Some (Panic p))"

text \<open>The loop of \<open>ValidateHostnameList\<close>: it stops at the first host that is rejected.\<close>

fun split_hosts :: "int \<Rightarrow> string list \<Rightarrow> host_port list res option" where
  "split_hosts defaultPort [] = Some (Ok [])"
| "split_hosts defaultPort (h # hs) =
     (case SplitHostPort h defaultPort of
        None \<Rightarrow> None
      | Some (Error e) \<Rightarrow> Some (Error e)
      | Some (Panic p) \<Rightarrow> Some (Panic p)
      | Some (Ok (host, port)) \<Rightarrow>
          map_option (\<lambda>r. bind_res r (\<lambda>hps. Ok (\<lparr>hp_host = host, hp_port = port\<rparr> # hps)))
            (split_hosts defaultPort hs))"

definition ValidateHostnameList :: "string \<Rightarrow> int \<Rightarrow> host_port list res option" where
  "ValidateHostnameList masterAddresses defaultPort =
     (let hosts = split_on CHR '','' masterAddresses
      in map_option (wrap_error ''unable to validate master address: '')
           (if length hosts = 1 \<and> hosts ! 0 = [] then Some (Error (Err ''master host list empty''))
            else split_hosts defaultPort hosts))"

subsection \<open>Characters of an address\<close>

lemma is_digit_hex: "is_digit c \<Longrightarrow> hex_digit_val c \<noteq> None"
  by (simp add: is_digit_def hex_digit_val_def Let_def)

text \<open>What \<open>net.ParseIP\<close> accepts holds hexadecimal digits, colons and dots only.\<close>

definition addr_char :: "char \<Rightarrow> bool" where
  "addr_char c \<longleftrightarrow> hex_digit_val c \<noteq> None \<or> c = CHR '':'' \<or> c = CHR ''.''"

lemma join_chars: "(\<And>t. t \<in> set ts \<Longrightarrow> list_all P t) \<Longrightarrow> list_all P sep \<Longrightarrow> list_all P (join_with sep ts)"
  by (induction sep ts rule: join_with.induct) auto

lemma parse_ipv4_chars: "parse_ipv4 s = Some v \<Longrightarrow> list_all addr_char s"
proof -
  assume a: "parse_ipv4 s = Some v"
  have "list_all addr_char t" if "t \<in> set (split_on CHR ''.'' s)" for t
  proof -
    from a that have "ipv4_octet t \<noteq> None" by (force simp: parse_ipv4_def Let_def split: if_splits)
    then show ?thesis
      by (auto simp: ipv4_octet_def list_all_iff addr_char_def dest: is_digit_hex split: if_splits)
  qed
  then have "list_all addr_char (join_with ''.'' (split_on CHR ''.'' s))"
    by (intro join_chars) (auto simp: addr_char_def)
  then show ?thesis by (simp add: join_split_on)
qed

text \<open>One round of the loop of \<open>parseIPv6\<close>: what stands after the group it read.\<close>

lemma ipv6_loop_step:
  assumes "ipv6_loop (Suc k) s gs el = Some res"
    and "r = dropWhile (\<lambda>c. hex_digit_val c \<noteq> None) s"
  shows "r = [] \<or> (\<exists>v. parse_ipv4 s = Some v) \<or> r = ''::''
    \<or> (\<exists>r' gs' el'. (r = CHR '':'' # r' \<or> r = CHR '':'' # CHR '':'' # r')
         \<and> ipv6_loop k r' gs' el' = Some res)"
proof -
  let ?h = "takeWhile (\<lambda>c. hex_digit_val c \<noteq> None) s"
  have r: "r = drop (length ?h) s" using assms(2) by (simp add: dropWhile_eq_drop)
  note step = assms(1) [unfolded ipv6_loop.simps(2) Let_def r [symmetric]]
  show ?thesis
  proof (cases "r = [] \<or> hd r = CHR ''.''")
    case True
    then show ?thesis using step by (auto split: if_splits option.splits)
  next
    case False
    then obtain c r1 where "r = c # r1" by (cases r) auto
    then have c: "r = CHR '':'' # r1" "r1 \<noteq> []" using step False by (auto split: if_splits)
    then obtain d r2 where d: "r1 = d # r2" by (cases r1) auto
    show ?thesis
    proof (cases "d = CHR '':''")
      case True
      then show ?thesis using step False c d
        by (cases "r2 = []") (auto split: if_splits)
    next
      case False
      then show ?thesis using step c d by (auto split: if_splits)
    qed
  qed
qed

lemma ipv6_loop_chars:
  "ipv6_loop k s gs el = Some (gs', el', rest) \<Longrightarrow> list_all addr_char rest \<Longrightarrow> list_all addr_char s"
proof (induction k arbitrary: s gs el)
  case 0
  then show ?case by (simp add: ipv6_loop.simps)
next
  case (Suc k)
  let ?P = "\<lambda>c. hex_digit_val c \<noteq> None"
  have whole: "list_all addr_char s" if "list_all addr_char (dropWhile ?P s)"
  proof -
    have "list_all addr_char (takeWhile ?P s)"
      by (auto simp: list_all_iff addr_char_def dest: set_takeWhileD)
    then have "list_all addr_char (takeWhile ?P s @ dropWhile ?P s)"
      using that by (simp only: list_all_append)
    then show ?thesis by (simp only: takeWhile_dropWhile_id)
  qed
  from ipv6_loop_step [OF Suc.prems(1) refl]
  consider "dropWhile ?P s = []" | v where "parse_ipv4 s = Some v" | "dropWhile ?P s = ''::''"
    | r' gs1 el1 where "dropWhile ?P s = CHR '':'' # r' \<or> dropWhile ?P s = CHR '':'' # CHR '':'' # r'"
        "ipv6_loop k r' gs1 el1 = Some (gs', el', rest)"
    by blast
  then show ?case
  proof cases
    case 1
    show ?thesis by (rule whole) (simp only: 1 list.pred_inject)
  next
    case 2
    then show ?thesis by (rule parse_ipv4_chars)
  next
    case 3
    show ?thesis by (rule whole) (simp only: 3 list.pred_inject addr_char_def simp_thms)
  next
    case 4
    have "list_all addr_char r'" by (rule Suc.IH [OF 4(2) Suc.prems(2)])
    then show ?thesis using 4(1) by (intro whole) (auto simp only: list.pred_inject addr_char_def simp_thms)
  qed
qed

lemma parse_ip_chars: "parse_ip s = Some v \<Longrightarrow> list_all addr_char s"
proof -
  assume a: "parse_ip s = Some v"
  then consider v4 where "parse_ipv4 s = Some v4" | v6 where "parse_ipv6 s = Some v6"
    by (auto simp: parse_ip_def split: option.splits if_splits)
  then show ?thesis
  proof cases
    case 1
    then show ?thesis by (rule parse_ipv4_chars)
  next
    case 2
    let ?s1 = "if has_prefix ''::'' s then drop 2 s else s"
    from 2 have "list_all addr_char ?s1"
      by (auto simp: parse_ipv6_def Let_def dest!: ipv6_loop_chars split: if_splits option.splits prod.splits)
    moreover have "s = '':'' @ '':'' @ drop 2 s" if "has_prefix ''::'' s"
      using that by (auto simp: has_prefix_iff)
    ultimately show ?thesis
      by (cases "has_prefix ''::'' s") (auto simp: addr_char_def has_prefix_iff)
  qed
qed

lemma IsBasicIPv6_chars: "IsBasicIPv6 h \<Longrightarrow> c \<in> {CHR ''['', CHR '']'', CHR '',''} \<Longrightarrow> c \<notin> set h"
proof -
  assume v6: "IsBasicIPv6 h" and c: "c \<in> {CHR ''['', CHR '']'', CHR '',''}"
  from v6 have "list_all addr_char h"
    by (auto simp: IsBasicIPv6_def split: option.splits dest: parse_ip_chars)
  moreover have "\<not> addr_char c" using c by (auto simp: addr_char_def hex_digit_val_def)
  ultimately show "c \<notin> set h" by (auto simp: list_all_iff)
qed

lemma IsBasicIPv6_bracket [simp]: "\<not> IsBasicIPv6 (CHR ''['' # s)"
  by (simp add: IsBasicIPv6_def parse_ip_bracket)

text \<open>A basic IPv6 address has a colon, so a name without one is not an address of that kind.\<close>

lemma IsBasicIPv6_colon: "IsBasicIPv6 h \<Longrightarrow> CHR '':'' \<in> set h"
proof -
  assume v6: "IsBasicIPv6 h"
  then obtain c where c: "find (\<lambda>c. c = CHR ''.'' \<or> c = CHR '':'') h = Some c"
    by (cases "find (\<lambda>c. c = CHR ''.'' \<or> c = CHR '':'') h") (simp_all add: IsBasicIPv6_def parse_ip_def)
  have "c \<noteq> CHR ''.''"
  proof
    assume "c = CHR ''.''"
    then have "parse_ip h = map_option IPv4 (parse_ipv4 h)" using c by (simp add: parse_ip_def)
    then show False using v6 by (cases "parse_ipv4 h") (simp_all add: IsBasicIPv6_def)
  qed
  then show ?thesis using find_mem [OF c] by auto
qed

subsection \<open>The printed forms\<close>

lemma net_split_plain:
  assumes "CHR '':'' \<notin> set host" "CHR ''['' \<notin> set host" "CHR '']'' \<notin> set host" "list_all is_digit p"
  shows "net_split_host_port (host @ CHR '':'' # p) = Ok (host, p)"
proof -
  have p: "CHR '':'' \<notin> set p" "CHR ''['' \<notin> set p" "CHR '']'' \<notin> set p"
    using assms(4) by (auto simp: list_all_iff)
  have "hd (host @ CHR '':'' # p) \<noteq> CHR ''[''" using assms(2) by (cases host) auto
  then show ?thesis
    using assms p by (simp add: net_split_host_port_def net_split_tail_def)
qed

lemma net_split_bracket:
  assumes "CHR ''['' \<notin> set host" "CHR '']'' \<notin> set host" "list_all is_digit p"
  shows "net_split_host_port (''['' @ host @ '']:'' @ p) = Ok (host, p)"
proof -
  let ?s = "''['' @ host @ '']:'' @ p"
  have p: "CHR '':'' \<notin> set p" "CHR ''['' \<notin> set p" "CHR '']'' \<notin> set p"
    using assms(3) by (auto simp: list_all_iff)
  have "last_index_of CHR '':'' ((''['' @ host @ '']'') @ CHR '':'' # p) = Some (length (''['' @ host @ '']''))"
    by (rule last_index_of_last [OF p(1)])
  then have l: "last_index_of CHR '':'' ?s = Some (length host + 2)" by simp
  have "index_of CHR '']'' ((CHR ''['' # host) @ CHR '']'' # CHR '':'' # p) = Some (length (CHR ''['' # host))"
    using assms(2) by (intro index_of_middle) simp
  then have i: "index_of CHR '']'' ?s = Some (Suc (length host))" by simp
  have "sub_slice ?s 1 (Suc (length host)) = host" by (simp add: sub_slice_def)
  moreover have "drop (Suc (length host)) (host @ CHR '']'' # CHR '':'' # p) = CHR '':'' # p"
    "drop (Suc (Suc (length host))) (host @ CHR '']'' # CHR '':'' # p) = p" by simp_all
  ultimately show ?thesis
    using assms p l [simplified] i [simplified]
    by (simp add: net_split_host_port_def net_split_tail_def)
qed

text \<open>A host without a port.\<close>

lemma net_split_no_port:
  "CHR '':'' \<notin> set h \<Longrightarrow> net_split_host_port h = Error (AddrError missing_port h)"
  by (simp add: net_split_host_port_def)

definition plain_host :: "string \<Rightarrow> bool" where
  "plain_host h \<longleftrightarrow> CHR '':'' \<notin> set h \<and> CHR ''['' \<notin> set h \<and> CHR '']'' \<notin> set h \<and> CHR '','' \<notin> set h"

lemma atoi_port: "atoi (dec_of_nat (unat (p :: 32 word))) = Ok (int (unat p))"
  using unsigned_less [of p, where 'a = nat] by (intro atoi_dec_of_nat) simp

lemma convert_port_dec: "convert_port host (dec_of_nat (unat p)) = Ok (host, p)"
  by (simp add: convert_port_def atoi_port)

lemma digits_hex: "list_all is_digit p \<Longrightarrow> takeWhile (\<lambda>c. hex_digit_val c \<noteq> None) p = p"
  by (auto simp: takeWhile_eq_all_conv list_all_iff dest: is_digit_hex)

text \<open>One round of the loop where the group ends the text, or is followed by one colon.\<close>

lemma ipv6_last_group:
  assumes "list_all is_digit p"
  shows "ipv6_loop (Suc k) p gs None =
    (if p = [] \<or> 65535 < hex_val p then None else Some (gs @ [hex_val p], None, []))"
  unfolding ipv6_loop.simps(2) digits_hex [OF assms] Let_def by simp

lemma ipv6_group_colon:
  assumes g: "takeWhile (\<lambda>c. hex_digit_val c \<noteq> None) (h @ CHR '':'' # p) = h" and p: "p \<noteq> []" "hd p \<noteq> CHR '':''"
  shows "ipv6_loop (Suc k) (h @ CHR '':'' # p) gs None =
    (if h = [] \<or> 65535 < hex_val h then None else ipv6_loop k p (gs @ [hex_val h]) None)"
proof -
  have "drop (length h) (h @ CHR '':'' # p) = CHR '':'' # p" by simp
  then show ?thesis
    using p unfolding ipv6_loop.simps(2) g Let_def by (cases p) simp_all
qed

lemma ipv6_group_junk:
  assumes g: "takeWhile (\<lambda>c. hex_digit_val c \<noteq> None) (a @ c # b) = a" and c: "c \<notin> {CHR ''.'', CHR '':''}"
  shows "ipv6_loop (Suc k) (a @ c # b) gs el = None"
proof -
  have "drop (length a) (a @ c # b) = c # b" by simp
  then show ?thesis
    using c unfolding ipv6_loop.simps(2) g Let_def by simp
qed

lemma ipv6_loop_name_port:
  assumes "CHR '':'' \<notin> set h" "CHR ''.'' \<notin> set h" "list_all is_digit p"
  shows "ipv6_loop (Suc (Suc k)) (h @ CHR '':'' # p) [] None
    \<in> {None, Some ([hex_val h, hex_val p], None, [])}"
proof (cases "takeWhile (\<lambda>c. hex_digit_val c \<noteq> None) h = h")
  case True
  have colon: "\<not> hex_digit_val CHR '':'' \<noteq> None" by (simp add: hex_digit_val_def)
  have all: "\<And>x. x \<in> set h \<Longrightarrow> hex_digit_val x \<noteq> None"
    using True unfolding takeWhile_eq_all_conv by blast
  have "takeWhile (\<lambda>c. hex_digit_val c \<noteq> None) (h @ CHR '':'' # p)
      = h @ takeWhile (\<lambda>c. hex_digit_val c \<noteq> None) (CHR '':'' # p)"
    by (rule takeWhile_append2 [OF all])
  then have g: "takeWhile (\<lambda>c. hex_digit_val c \<noteq> None) (h @ CHR '':'' # p) = h"
    unfolding takeWhile.simps(2) if_not_P [OF colon] append_Nil2 .
  show ?thesis
  proof (cases "p = []")
    case True
    have "drop (length h) (h @ [CHR '':'']) = [CHR '':'']" by simp
    then show ?thesis
      using g [unfolded True] unfolding True ipv6_loop.simps(2) [of "Suc k"] Let_def by simp
  next
    case False
    then have "hd p \<noteq> CHR '':''" using assms(3) by (cases p) auto
    from ipv6_group_colon [OF g False this, of "Suc k" "[]"] show ?thesis
      unfolding ipv6_last_group [OF assms(3)] by simp
  qed
next
  case False
  then obtain x where "x \<in> set h" "\<not> hex_digit_val x \<noteq> None"
    unfolding takeWhile_eq_all_conv by blast
  from split_list_first_prop [of h "\<lambda>c. \<not> hex_digit_val c \<noteq> None"] this
  obtain a c b where h: "h = a @ c # b" "\<not> hex_digit_val c \<noteq> None"
    "\<And>y. y \<in> set a \<Longrightarrow> hex_digit_val y \<noteq> None" by blast
  have "takeWhile (\<lambda>c. hex_digit_val c \<noteq> None) (a @ c # (b @ CHR '':'' # p))
      = a @ takeWhile (\<lambda>c. hex_digit_val c \<noteq> None) (c # (b @ CHR '':'' # p))"
    by (rule takeWhile_append2 [OF h(3)])
  then have g: "takeWhile (\<lambda>c. hex_digit_val c \<noteq> None) (a @ c # (b @ CHR '':'' # p)) = a"
    unfolding takeWhile.simps(2) if_not_P [OF h(2)] append_Nil2 .
  have "c \<notin> {CHR ''.'', CHR '':''}" using assms(1,2) h(1) by auto
  from ipv6_group_junk [OF g this, of "Suc k" "[]" None] show ?thesis unfolding h(1) by simp
qed

lemma not_IPv6_name_port:
  assumes "CHR '':'' \<notin> set h" "list_all is_digit p"
  shows "\<not> IsBasicIPv6 (h @ CHR '':'' # p)"
proof
  let ?s = "h @ CHR '':'' # p"
  assume v6: "IsBasicIPv6 ?s"
  have "CHR ''.'' \<notin> set h"
  proof
    assume "CHR ''.'' \<in> set h"
    then obtain a b where h: "h = a @ CHR ''.'' # b" "CHR ''.'' \<notin> set a"
      by (metis split_list_first)
    then have "find (\<lambda>c. c = CHR ''.'' \<or> c = CHR '':'') ?s = Some CHR ''.''"
      using assms(1) by (simp add: find_Some_split, intro exI [of _ a]) auto
    then have "parse_ip ?s = map_option IPv4 (parse_ipv4 ?s)" by (simp add: parse_ip_def)
    then show False using v6 by (cases "parse_ipv4 ?s") (simp_all add: IsBasicIPv6_def)
  qed
  moreover have "Suc (Suc 6) = 8" by simp
  ultimately have loop: "ipv6_loop 8 ?s [] None \<in> {None, Some ([hex_val h, hex_val p], None, [])}"
    using ipv6_loop_name_port [OF assms(1) _ assms(2), of 6] by presburger
  have lead: "\<not> has_prefix ''::'' ?s"
    using assms by (cases h; cases p) (auto simp: has_prefix_iff Cons_eq_append_conv)
  have "parse_ipv6 ?s = None"
    using loop lead by (auto simp: parse_ipv6_def Let_def)
  moreover have "find (\<lambda>c. c = CHR ''.'' \<or> c = CHR '':'') ?s = Some CHR '':''"
    using \<open>CHR ''.'' \<notin> set h\<close> assms(1) by (simp add: find_Some_split, intro exI [of _ h]) auto
  ultimately show False using v6 by (simp add: IsBasicIPv6_def parse_ip_def)
qed

lemma SplitHostPort_host_port:
  assumes "plain_host h" "list_all is_digit p"
  shows "SplitHostPort (h @ '':'' @ p) d = Some (convert_port h p)"
  using assms net_split_plain [of h p] not_IPv6_name_port [of h p]
  by (subst SplitHostPort.simps) (simp add: plain_host_def)

lemma SplitHostPort_default:
  assumes "plain_host h" "0 \<le> d" "d < 2 ^ 63"
  shows "SplitHostPort h d = Some (Ok (h, word_of_int d))"
proof -
  have d: "dec_of_int d = dec_of_nat (nat d)" using assms(2) by (simp add: dec_of_int_def)
  have "SplitHostPort h d = SplitHostPort (h @ '':'' @ dec_of_int d) d"
    using assms(1) net_split_no_port [of h] IsBasicIPv6_colon [of h]
    by (subst SplitHostPort.simps) (auto simp: plain_host_def)
  also have "\<dots> = Some (convert_port h (dec_of_nat (nat d)))"
    unfolding d by (rule SplitHostPort_host_port [OF assms(1) dec_of_nat_digits])
  also have "convert_port h (dec_of_nat (nat d)) = Ok (h, word_of_int d)"
    using assms(2,3) atoi_dec_of_nat [of "nat d"] by (simp add: convert_port_def nat_less_iff)
  finally show ?thesis .
qed

lemma SplitHostPort_IPv6: "IsBasicIPv6 h \<Longrightarrow> SplitHostPort h d = Some (Ok (h, word_of_int d))"
  by (subst SplitHostPort.simps) simp

lemma SplitHostPort_bracket:
  assumes "CHR ''['' \<notin> set h" "CHR '']'' \<notin> set h" "list_all is_digit p"
  shows "SplitHostPort (''['' @ h @ '']:'' @ p) d = Some (convert_port h p)"
  using net_split_bracket [OF assms]
  by (subst SplitHostPort.simps) simp

subsection \<open>When the recursion ends\<close>

text \<open>A bracketed address followed by something other than a colon: appending \<open>:port\<close> never helps.\<close>

definition endless :: "string \<Rightarrow> bool" where
  "endless h \<longleftrightarrow> (\<exists>a c b. h = CHR ''['' # a @ CHR '']'' # c # b \<and> CHR '']'' \<notin> set a \<and> c \<noteq> CHR '':'')"

lemma endless_append: "endless h \<Longrightarrow> endless (h @ s)"
  unfolding endless_def by (elim exE, rename_tac a c b, rule_tac x = a in exI, rule_tac x = c in exI) auto

lemma endless_not_IPv6: "endless h \<Longrightarrow> \<not> IsBasicIPv6 h"
  by (auto simp: endless_def)

lemma net_split_endless:
  assumes "endless h"
  shows "net_split_host_port h = Error (AddrError missing_port h)"
proof -
  obtain a c b where h: "h = CHR ''['' # a @ CHR '']'' # c # b" "CHR '']'' \<notin> set a" "c \<noteq> CHR '':''"
    using assms unfolding endless_def by blast
  have "index_of CHR '']'' ((CHR ''['' # a) @ CHR '']'' # c # b) = Some (length (CHR ''['' # a))"
    using h(2) by (intro index_of_middle) simp
  then have e: "index_of CHR '']'' h = Some (Suc (length a))" by (simp add: h(1))
  have nth: "h ! Suc (Suc (length a)) = c" by (simp add: h(1) nth_append)
  have len: "length h = length a + length b + 3" by (simp add: h(1))
  have hd: "hd h = CHR ''[''" by (simp add: h(1))
  show ?thesis
  proof (cases "last_index_of CHR '':'' h")
    case None
    then show ?thesis by (simp only: net_split_host_port_def option.case)
  next
    case (Some i)
    then have "i \<noteq> Suc (Suc (length a))" using last_index_of_SomeD [OF Some] nth h(3) by auto
    then show ?thesis
      unfolding net_split_host_port_def Some option.case hd e using nth h(3) len by simp
  qed
qed

lemma SplitHostPort_returns_only: assumes "SplitHostPort h d = Some r" shows "\<not> endless h"
proof (rule SplitHostPort.raw_induct [where P = "\<lambda>h d r. \<not> endless h", OF _ assms])
  fix split h d r
  assume IH: "\<And>h d r. split h d = Some r \<Longrightarrow> \<not> endless h"
    and body: "(if IsBasicIPv6 h then Some (Ok (h, word_of_int d))
      else case net_split_host_port h of
             Ok hp \<Rightarrow> Some (convert_port (fst hp) (snd hp))
           | Error e \<Rightarrow>
               (case e of
                  AddrError reason _ \<Rightarrow>
                    if reason = missing_port then split (h @ '':'' @ dec_of_int d) d
                    else Some (convert_port [] [])
                | _ \<Rightarrow> Some (Error e))
           | Panic p \<Rightarrow> Some (Panic p)) = Some r"
  show "\<not> endless h"
  proof
    assume "endless h"
    then have "split (h @ '':'' @ dec_of_int d) d = Some r" "endless (h @ '':'' @ dec_of_int d)"
      using body net_split_endless [of h] endless_not_IPv6 [of h] endless_append [of h] by simp_all
    then show False using IH by blast
  qed
qed

lemma net_split_tail_missing: "net_split_tail hp host i j k \<noteq> Error (AddrError missing_port a)"
  by (simp add: net_split_tail_def)

lemma net_split_missing_cases:
  assumes "net_split_host_port h = Error (AddrError missing_port a)"
  shows "CHR '':'' \<notin> set h \<or> (\<exists>x. h = CHR ''['' # x @ [CHR '']''] \<and> CHR '']'' \<notin> set x) \<or> endless h"
proof (cases "last_index_of CHR '':'' h")
  case None
  then show ?thesis by simp
next
  case (Some i)
  note eq = assms [unfolded net_split_host_port_def Some option.case]
  have hd: "hd h = CHR ''[''"
    using eq net_split_tail_missing [of h "take i h" i 0 0 a] by (auto split: if_splits)
  have ne: "h \<noteq> []" using last_index_of_SomeD [OF Some] by auto
  obtain e where e: "index_of CHR '']'' h = Some e" using eq hd by (auto split: option.splits)
  note at = index_of_SomeD [OF e]
  have e0: "0 < e" using at hd ne by (cases e) (auto simp: hd_conv_nth)
  have h: "h = CHR ''['' # drop 1 (take e h) @ CHR '']'' # drop (Suc e) h"
    using id_take_nth_drop [of e h] at hd ne e0 by (cases h; cases e) auto
  have notin: "CHR '']'' \<notin> set (drop 1 (take e h))" using at by (meson in_set_dropD)
  have branch: "Suc e = length h \<or> (Suc e \<noteq> length h \<and> h ! Suc e \<noteq> CHR '':'')"
    using eq hd e net_split_tail_missing [of h "sub_slice h 1 e" i 1 "Suc e" a] by (auto split: if_splits)
  then show ?thesis
  proof (elim disjE conjE)
    assume "Suc e = length h"
    then have "drop (Suc e) h = []" by simp
    then show ?thesis using h notin by (metis append_Nil2)
  next
    assume "Suc e \<noteq> length h" "h ! Suc e \<noteq> CHR '':''"
    moreover from this at have "drop (Suc e) h = h ! Suc e # drop (Suc (Suc e)) h"
      by (intro Cons_nth_drop_Suc [symmetric]) simp
    ultimately have "endless h"
      unfolding endless_def using h notin by metis
    then show ?thesis by simp
  qed
qed

lemma dec_of_int_no_punct: "c \<in> {CHR '':'', CHR ''['', CHR '']''} \<Longrightarrow> c \<notin> set (dec_of_int d)"
  using dec_of_nat_digits [of "nat d"] dec_of_nat_digits [of "nat (- d)"]
  by (auto simp: dec_of_int_def list_all_iff)

text \<open>Once a port has been appended, the reason is never a missing port again.\<close>

lemma net_split_appended:
  assumes "CHR '':'' \<notin> set h \<or> (\<exists>x. h = CHR ''['' # x @ [CHR '']''] \<and> CHR '']'' \<notin> set x)" "\<not> endless h"
  shows "net_split_host_port (h @ '':'' @ dec_of_int d) \<noteq> Error (AddrError missing_port a)"
proof
  let ?s = "h @ CHR '':'' # dec_of_int d"
  assume miss: "net_split_host_port (h @ '':'' @ dec_of_int d) = Error (AddrError missing_port a)"
  have l: "last_index_of CHR '':'' ?s = Some (length h)"
    by (rule last_index_of_last [OF dec_of_int_no_punct]) simp
  have "CHR '':'' \<in> set ?s" by simp
  moreover have "\<not> (\<exists>x. ?s = CHR ''['' # x @ [CHR '']''])"
  proof
    assume "\<exists>x. ?s = CHR ''['' # x @ [CHR '']'']"
    then have "last ?s = CHR '']''" by (metis last_ConsR last_snoc snoc_eq_iff_butlast)
    then show False using dec_of_int_no_punct [of "CHR '']''" d]
      by (cases "dec_of_int d" rule: rev_cases) auto
  qed
  ultimately have "endless ?s" using net_split_missing_cases [of ?s a] miss by auto
  then obtain x c b where x: "?s = CHR ''['' # x @ CHR '']'' # c # b" "CHR '']'' \<notin> set x" "c \<noteq> CHR '':''"
    unfolding endless_def by blast
  have D: "CHR '']'' \<notin> set (CHR '':'' # dec_of_int d)" using dec_of_int_no_punct [of "CHR '']''" d] by simp
  have "h @ (CHR '':'' # dec_of_int d) = (CHR ''['' # x @ [CHR '']'']) @ (c # b)" using x(1) by simp
  then consider us where "h = (CHR ''['' # x @ [CHR '']'']) @ us" "us @ (CHR '':'' # dec_of_int d) = c # b"
    | us where "h @ us = CHR ''['' # x @ [CHR '']'']" "CHR '':'' # dec_of_int d = us @ (c # b)"
    unfolding append_eq_append_conv2 by blast
  then show False
  proof cases
    case 1
    then show ?thesis using assms(2) x(2,3) by (cases us) (auto simp: endless_def)
  next
    case 2
    then have "us \<noteq> []" using x(3) by auto
    then have "last us = CHR '']''" using 2(1) by (metis last_appendR last_ConsR snoc_eq_iff_butlast)
    then show ?thesis using D 2(2) \<open>us \<noteq> []\<close> last_in_set [of us] by simp
  qed
qed

lemma SplitHostPort_step:
  "(\<And>a. net_split_host_port h \<noteq> Error (AddrError missing_port a)) \<Longrightarrow> SplitHostPort h d \<noteq> None"
  by (subst SplitHostPort.simps) (auto split: res.split goerror.split)

lemma SplitHostPort_returns: assumes "\<not> endless h" shows "SplitHostPort h d \<noteq> None"
proof (cases "\<exists>a. net_split_host_port h = Error (AddrError missing_port a)")
  case False
  then show ?thesis by (intro SplitHostPort_step) blast
next
  case True
  then obtain a where a: "net_split_host_port h = Error (AddrError missing_port a)" by blast
  have "SplitHostPort (h @ '':'' @ dec_of_int d) d \<noteq> None"
    using net_split_missing_cases [OF a] net_split_appended [of h d] assms
    by (intro SplitHostPort_step) blast
  then show ?thesis using a by (subst SplitHostPort.simps) simp
qed

lemma SplitHostPort_None: "SplitHostPort h d = None \<longleftrightarrow> endless h"
  using SplitHostPort_returns_only [of h d] SplitHostPort_returns [of h d] by (cases "SplitHostPort h d") auto

lemma split_hosts_None: "(\<And>h. h \<in> set hs \<Longrightarrow> \<not> endless h) \<Longrightarrow> split_hosts d hs \<noteq> None"
proof (induction hs)
  case Nil
  then show ?case by simp
next
  case (Cons h hs)
  then show ?case using SplitHostPort_returns [of h d] by (auto split: option.split res.split)
qed

subsection \<open>Reading back\<close>

definition printable :: "host_port \<Rightarrow> bool" where
  "printable hp \<longleftrightarrow> plain_host (hp_host hp) \<or> IsBasicIPv6 (hp_host hp)"

lemma SplitHostPort_printed:
  assumes "printable hp"
  shows "SplitHostPort (HostPortString hp) d = Some (Ok (hp_host hp, hp_port hp))"
proof (cases "IsBasicIPv6 (hp_host hp)")
  case True
  then show ?thesis
    using SplitHostPort_bracket [of "hp_host hp" "dec_of_nat (unat (hp_port hp))" d]
    by (simp add: HostPortString_def IsBasicIPv6_chars dec_of_nat_digits convert_port_dec)
next
  case False
  then show ?thesis
    using assms SplitHostPort_host_port [of "hp_host hp" "dec_of_nat (unat (hp_port hp))" d]
    by (simp add: printable_def HostPortString_def dec_of_nat_digits convert_port_dec)
qed

lemma HostPortString_no_comma: "printable hp \<Longrightarrow> CHR '','' \<notin> set (HostPortString hp)"
  using dec_of_nat_digits [of "unat (hp_port hp)"] IsBasicIPv6_chars [of "hp_host hp" "CHR '',''"]
  by (auto simp: HostPortString_def printable_def plain_host_def list_all_iff)

lemma split_join: "ts \<noteq> [] \<Longrightarrow> (\<And>t. t \<in> set ts \<Longrightarrow> c \<notin> set t) \<Longrightarrow> split_on c (join_with [c] ts) = ts"
proof (induction "[c]" ts rule: join_with.induct)
  case 1
  then show ?case by simp
next
  case (2 x)
  then show ?case by (simp add: split_on_no_sep)
next
  case (3 x y ys)
  then show ?case using split_on_append [of c x] by simp
qed

lemma split_hosts_printed:
  "(\<And>hp. hp \<in> set hps \<Longrightarrow> printable hp) \<Longrightarrow> split_hosts d (map HostPortString hps) = Some (Ok hps)"
  by (induction hps) (simp_all add: SplitHostPort_printed)

lemma HostPortString_not_Nil [simp]: "HostPortString hp \<noteq> []"
  by (simp add: HostPortString_def)

lemma ValidateHostnameList_printed:
  assumes "hps \<noteq> []" "\<And>hp. hp \<in> set hps \<Longrightarrow> printable hp"
  shows "ValidateHostnameList (join_with '','' (map HostPortString hps)) d = Some (Ok hps)"
proof -
  have "split_on CHR '','' (join_with '','' (map HostPortString hps)) = map HostPortString hps"
    using assms HostPortString_no_comma by (intro split_join) auto
  moreover have "map HostPortString hps ! 0 \<noteq> []" using assms(1) by (cases hps) simp_all
  ultimately show ?thesis
    using split_hosts_printed [of hps d] assms(2) by (simp add: ValidateHostnameList_def)
qed

lemma replicate_eq_list: "(replicate n (0::nat) = [0, 0, 0, 0, 0, 65535]) = False"
  using last_replicate [of n "0::nat"] by (cases "n = 0") (auto dest: arg_cong [where f = last])

lemma IsBasicIPv6_loopback: "IsBasicIPv6 ''::1''"
proof -
  have step: "ipv6_loop (Suc k) ''1'' [] (Some 0) = Some ([1], Some 0, [])" for k
    by (simp add: ipv6_loop.simps(2) hex_digit_val_def Let_def hex_val_def)
  have "ipv6_loop 8 ''1'' [] (Some 0) = ipv6_loop (Suc 7) ''1'' [] (Some 0)"
    by (rule arg_cong [where f = "\<lambda>k. ipv6_loop k ''1'' [] (Some 0)"]) simp
  also have "\<dots> = Some ([1], Some 0, [])" by (rule step)
  finally have loop: "ipv6_loop 8 ''1'' [] (Some 0) = Some ([1], Some 0, [])" .
  have lead: "has_prefix ''::'' ''::1''" by (simp add: has_prefix_def)
  have "drop 2 ''::1'' = ''1''" by simp
  then have "parse_ipv6 ''::1'' = Some (take 0 [1] @ replicate 7 0 @ drop 0 [1])"
    unfolding parse_ipv6_def Let_def using lead loop by simp
  moreover have "parse_ip ''::1'' = map_option IPv6 (parse_ipv6 ''::1'')"
    by (simp add: parse_ip_def)
  moreover have "take 6 (replicate 7 (0::nat) @ [1]) \<noteq> [0, 0, 0, 0, 0, 65535]"
    by (simp add: take_replicate replicate_eq_list)
  ultimately show ?thesis by (simp add: IsBasicIPv6_def)
qed

lemma split_too_many:
  "\<not> IsBasicIPv6 ''x:y:z'' \<and> net_split_host_port ''x:y:z'' = Error (AddrError too_many_colons ''x:y:z'')"
proof
  have "ipv6_loop 8 ''x:y:z'' [] None = None" by (rule ipv6_loop_nonhex) (simp_all add: hex_digit_val_def)
  then have "parse_ipv6 ''x:y:z'' = None" by (simp add: parse_ipv6_def has_prefix_def)
  then show "\<not> IsBasicIPv6 ''x:y:z''" by (simp add: IsBasicIPv6_def parse_ip_def)
  show "net_split_host_port ''x:y:z'' = Error (AddrError too_many_colons ''x:y:z'')"
    by (simp add: net_split_host_port_def last_index_of_def)
qed

subsection \<open>Properties\<close>

text \<open>C38: \<open>SplitHostPort\<close> runs for ever (its recursion never meets an answer) on exactly the
  strings \<open>[...]x...\<close>: a closed bracket followed by a character that is not a colon. On every other
  string, whatever the default port, it returns.\<close>

theorem SplitHostPort_diverges_iff:
  "SplitHostPort h d = None
   \<longleftrightarrow> (\<exists>a c b. h = CHR ''['' # a @ CHR '']'' # c # b \<and> CHR '']'' \<notin> set a \<and> c \<noteq> CHR '':'')"
  unfolding SplitHostPort_None endless_def ..

text \<open>C15: reading a comma-separated list of hosts gives back the hosts and ports it was printed from
  by \<open>HostPortString\<close>, for any list of names, IPv4 and basic IPv6 addresses.\<close>

theorem hostname_list_round_trip:
  assumes "hps \<noteq> []" and "\<And>hp. hp \<in> set hps \<Longrightarrow> printable hp"
  shows "ValidateHostnameList (join_with '','' (map HostPortString hps)) d = Some (Ok hps)"
  using assms by (rule ValidateHostnameList_printed)

theorem hostname_list_round_trip_witness:
  "ValidateHostnameList
     (join_with '','' (map HostPortString
        [\<lparr>hp_host = ''m1'', hp_port = 7100\<rparr>, \<lparr>hp_host = ''::1'', hp_port = 7101\<rparr>])) 7100
   = Some (Ok [\<lparr>hp_host = ''m1'', hp_port = 7100\<rparr>, \<lparr>hp_host = ''::1'', hp_port = 7101\<rparr>])"
  by (rule hostname_list_round_trip)
     (auto simp: printable_def plain_host_def IsBasicIPv6_loopback)

text \<open>how a port is chosen. A name alone, or a basic IPv6 address alone, gets the default port; a
  name with a decimal port keeps it modulo \<open>2 ^ 32\<close>, since no range is checked before the conversion
  to \<open>uint32\<close>; and any other address error is reported as the failure of \<open>Atoi\<close> on the empty
  string, because the error itself is dropped.\<close>

theorem SplitHostPort_port:
  assumes "0 \<le> d" "d < 2 ^ 63" "plain_host h"
  shows "SplitHostPort h d = Some (Ok (h, word_of_int d))
   \<and> (n < 2 ^ 63 \<longrightarrow> SplitHostPort (h @ '':'' @ dec_of_nat n) d = Some (Ok (h, of_nat n)))
   \<and> (IsBasicIPv6 v6 \<longrightarrow> SplitHostPort v6 d = Some (Ok (v6, word_of_int d)))
   \<and> (\<not> IsBasicIPv6 s \<and> net_split_host_port s = Error (AddrError why a) \<and> why \<noteq> missing_port \<longrightarrow>
        SplitHostPort s d = Some (Error (NumError ''Atoi'' [] ''invalid syntax'')))"
proof (intro conjI impI)
  show "SplitHostPort h d = Some (Ok (h, word_of_int d))"
    using assms by (intro SplitHostPort_default)
  show "SplitHostPort (h @ '':'' @ dec_of_nat n) d = Some (Ok (h, of_nat n))" if "n < 2 ^ 63"
    using SplitHostPort_host_port [OF assms(3) dec_of_nat_digits] atoi_dec_of_nat [OF that]
    by (simp add: convert_port_def)
  show "SplitHostPort v6 d = Some (Ok (v6, word_of_int d))" if "IsBasicIPv6 v6"
    using that by (rule SplitHostPort_IPv6)
  show "SplitHostPort s d = Some (Error (NumError ''Atoi'' [] ''invalid syntax''))"
    if "\<not> IsBasicIPv6 s \<and> net_split_host_port s = Error (AddrError why a) \<and> why \<noteq> missing_port"
    using that by (subst SplitHostPort.simps) (simp add: convert_port_def atoi_Nil)
qed

theorem SplitHostPort_port_witness:
  "SplitHostPort ''m1'' 7100 = Some (Ok (''m1'', 7100))
   \<and> SplitHostPort (''m1:'' @ dec_of_nat 4294967297) 7100 = Some (Ok (''m1'', 1))
   \<and> SplitHostPort ''x:y:z'' 7100 = Some (Error (NumError ''Atoi'' [] ''invalid syntax''))"
  using SplitHostPort_port [of 7100 "''m1''" 4294967297 _ "''x:y:z''" too_many_colons "''x:y:z''"]
    split_too_many by (simp add: plain_host_def)

end
