(* ===== verification/Wire.thy ===== *)
theory Wire
  imports HostPort
begin

section \<open>The YugabyteDB wire protocol\<close>

text \<open>
  \<open>yugatool/pkg/client/session/session.go\<close> and \<open>yugatool/pkg/client/message/message.go\<close>. A session is a
  connection with a counter of calls. \<open>SendMessage\<close> writes a frame (a four-byte big-endian length, then
  the header and the body, each preceded by its length as a varint) and reads the response frame back.

  \<^item> A connection is what the peer will let it read (chunks of bytes, or an error), the bytes written
    so far, how the next writes end, and whether it was closed. A \<open>Read\<close> gives at most one chunk, as a
    TCP connection may; when no event is left it gives \<open>EOF\<close>.
  \<^item> \<open>proto.Marshal\<close> and \<open>proto.Unmarshal\<close> are parameters (\<open>codec\<close>), \<open>binary.PutUvarint\<close>,
    \<open>binary.Uvarint\<close> and \<open>binary.BigEndian\<close> of the standard library are written out.
  \<^item> The session mutex makes one call follow another; \<open>ClientLocks\<close> shows that it does, this theory has the calls in turn.
\<close>

subsection \<open>Varints and big-endian words\<close>

text \<open>\<open>binary.PutUvarint\<close>, without the bound of the buffer it writes to.\<close>

fun put_uvarint :: "nat \<Rightarrow> bytes" where
  "put_uvarint x =
     (if x < 128 then [of_nat x] else of_nat (x mod 128 + 128) # put_uvarint (x div 128))"

declare put_uvarint.simps [simp del]

text \<open>
  \<open>binary.Uvarint\<close>: \<open>i\<close> bytes read so far, their value \<open>x\<close>, and the weight \<open>w = 2 ^ (7 * i)\<close> of the
  next. \<open>None\<close> stands for the results with \<open>n <= 0\<close> (input too short, or more than 64 bits).
\<close>

fun uvarint_loop :: "nat \<Rightarrow> nat \<Rightarrow> nat \<Rightarrow> bytes \<Rightarrow> (nat \<times> nat) option" where
  "uvarint_loop i x w [] = None"
| "uvarint_loop i x w (b # bs) =
     (if i = 10 then None
      else if unat b < 128 then
        (if i = 9 \<and> 1 < unat b then None else Some (x + unat b * w, Suc i))
      else uvarint_loop (Suc i) (x + (unat b - 128) * w) (w * 128) bs)"

definition uvarint :: "bytes \<Rightarrow> (nat \<times> nat) option" where
  "uvarint bs = uvarint_loop 0 0 1 bs"

definition be32 :: "nat \<Rightarrow> bytes" where
  "be32 n = [of_nat (n div 2 ^ 24), of_nat (n div 2 ^ 16), of_nat (n div 2 ^ 8), of_nat n]"

fun be_val :: "bytes \<Rightarrow> nat" where
  "be_val [a, b, c, d] = unat a * 2 ^ 24 + unat b * 2 ^ 16 + unat c * 2 ^ 8 + unat d"
| "be_val _ = 0"

subsection \<open>Connections and sessions\<close>

datatype read_event = Data bytes | ReadErr goerror

text \<open>One write: how many bytes the connection takes, and the error it reports.\<close>

type_synonym write_event = "nat \<times> goerror option"

record conn =
  inbox :: "read_event list"
  write_plan :: "write_event list"
  outbox :: bytes
  closed :: bool

record Session =
  sconn :: conn
  messageCount :: "32 word"
  Host :: host_port

fun conn_read :: "nat \<Rightarrow> conn \<Rightarrow> bytes res \<times> conn" where
  "conn_read n c =
     (if n = 0 then (Ok [], c)
      else case inbox c of
             [] \<Rightarrow> (Error EOF, c)
           | ReadErr e # es \<Rightarrow> (Error e, c\<lparr>inbox := es\<rparr>)
           | Data d # es \<Rightarrow>
               if length d \<le> n then (Ok d, c\<lparr>inbox := es\<rparr>)
               else (Ok (take n d), c\<lparr>inbox := Data (drop n d) # es\<rparr>))"

declare conn_read.simps [simp del]

text \<open>A write with no planned event takes every byte.\<close>

definition conn_write :: "bytes \<Rightarrow> conn \<Rightarrow> (nat \<times> goerror option) \<times> conn" where
  "conn_write bs c =
     (case write_plan c of
        [] \<Rightarrow> ((length bs, None), c\<lparr>outbox := outbox c @ bs\<rparr>)
      | (k, e) # ws \<Rightarrow>
          ((min k (length bs), e), c\<lparr>outbox := outbox c @ take k bs, write_plan := ws\<rparr>))"

definition Session_Write :: "bytes \<Rightarrow> Session \<Rightarrow> nat res \<times> Session" where
  "Session_Write bs s =
     (case conn_write bs (sconn s) of
        ((n, None), c) \<Rightarrow> (Ok n, s\<lparr>sconn := c\<rparr>)
      | ((n, Some e), c) \<Rightarrow> (Error e, s\<lparr>sconn := c\<rparr>))"

definition Session_Read :: "nat \<Rightarrow> Session \<Rightarrow> bytes res \<times> Session" where
  "Session_Read n s = (case conn_read n (sconn s) of (r, c) \<Rightarrow> (r, s\<lparr>sconn := c\<rparr>))"

definition Session_Close :: "Session \<Rightarrow> unit res \<times> Session" where
  "Session_Close s = (Ok (), s\<lparr>sconn := (sconn s)\<lparr>closed := True\<rparr>\<rparr>)"

definition GenerateCallID :: "Session \<Rightarrow> 32 word \<times> Session" where
  "GenerateCallID s = (let count = messageCount s + 1 in (count, s\<lparr>messageCount := count\<rparr>))"

definition writeHello :: "Session \<Rightarrow> unit res \<times> Session" where
  "writeHello s =
     andThen (Session_Write [89, 66, 1] s) (\<lambda>n s.
       if n \<noteq> 3 then (Error (Err ''hello did not write 3 bytes''), s) else (Ok (), s))"

text \<open>\<open>dial\<close> is the session's \<open>Dialer\<close>, \<open>ping\<close> its \<open>Ping\<close> function.\<close>

definition Session_Connect ::
  "(string \<Rightarrow> conn res) \<Rightarrow> (Session \<Rightarrow> unit res \<times> Session) \<Rightarrow> Session \<Rightarrow> unit res \<times> Session" where
  "Session_Connect dial ping s =
     (case dial (HostPortString (Host s)) of
        Error e \<Rightarrow> (Error (DialError (Host s) e), s)
      | Panic p \<Rightarrow> (Panic p, s)
      | Ok c \<Rightarrow>
          (case writeHello (s\<lparr>sconn := c\<rparr>) of
             (Error e, s1) \<Rightarrow> (Error e, snd (Session_Close s1))
           | (Panic p, s1) \<Rightarrow> (Panic p, s1)
           | (Ok _, s1) \<Rightarrow>
               (case ping s1 of
                  (Error e, s2) \<Rightarrow> (Error e, snd (Session_Close s2))
                | r \<Rightarrow> r)))"

definition NewSession ::
  "(string \<Rightarrow> conn res) \<Rightarrow> (Session \<Rightarrow> unit res \<times> Session) \<Rightarrow> host_port \<Rightarrow> unit res \<times> Session" where
  "NewSession dial ping host =
     Session_Connect dial ping
       \<lparr>sconn = \<lparr>inbox = [], write_plan = [], outbox = [], closed = True\<rparr>, messageCount = 0, Host = host\<rparr>"

subsection \<open>Messages\<close>

record RequestHeader =
  CallId :: "32 word"
  ServiceName :: string
  MethodName :: string
  TimeoutMillis :: "32 word"

text \<open>Marshalling: \<open>unmarshal_header\<close> gives the \<open>call_id\<close> field, absent or present.\<close>

record ('q, 'r) codec =
  marshal_header :: "RequestHeader \<Rightarrow> bytes res"
  marshal_body :: "'q \<Rightarrow> bytes res"
  unmarshal_header :: "bytes \<Rightarrow> (32 word) option res"
  unmarshal_body :: "bytes \<Rightarrow> 'r res"

function (sequential) getMessageLen :: "Session \<Rightarrow> nat res \<times> Session" where
  "getMessageLen s =
     (case Session_Read 4 s of
        (Error e, s1) \<Rightarrow> (Error e, s1)
      | (Panic p, s1) \<Rightarrow> (Panic p, s1)
      | (Ok buf, s1) \<Rightarrow>
          if length buf \<noteq> 4 then (Error (Err ''could not read response length''), s1)
          else if \<forall>b\<in>set buf. b = 0 then getMessageLen s1
          else (Ok (be_val buf), s1))"
  by pat_completeness auto

text \<open>The number of reads a connection still has in it.\<close>

fun event_size :: "read_event \<Rightarrow> nat" where
  "event_size (Data d) = Suc (length d)"
| "event_size (ReadErr e) = 1"

definition conn_size :: "conn \<Rightarrow> nat" where
  "conn_size c = sum_list (map event_size (inbox c))"

lemma conn_read_size: "conn_read n c = (Ok d, c') \<Longrightarrow> 0 < n \<Longrightarrow> conn_size c' < conn_size c"
  by (auto simp: conn_read.simps conn_size_def split: if_splits list.splits read_event.splits)

lemma Session_Read_size:
  "Session_Read n s = (Ok d, s') \<Longrightarrow> 0 < n \<Longrightarrow> conn_size (sconn s') < conn_size (sconn s)"
  by (auto simp: Session_Read_def split: prod.splits dest: conn_read_size)

termination getMessageLen
  by (relation "measure (\<lambda>s. conn_size (sconn s))") (auto dest!: Session_Read_size [OF sym])

declare getMessageLen.simps [simp del]

text \<open>The loop of \<open>GetResponse\<close>: \<open>n\<close> bytes are still missing, \<open>buf\<close> holds those read.\<close>

function (sequential) read_body :: "nat \<Rightarrow> bytes \<Rightarrow> Session \<Rightarrow> bytes res \<times> Session" where
  "read_body n buf s =
     (if n = 0 then (Ok buf, s)
      else case Session_Read n s of
             (Error e, s1) \<Rightarrow> (Error e, s1)
           | (Panic p, s1) \<Rightarrow> (Panic p, s1)
           | (Ok d, s1) \<Rightarrow> read_body (n - length d) (buf @ d) s1)"
  by pat_completeness auto

termination read_body
  by (relation "measure (\<lambda>(n, buf, s). conn_size (sconn s))") (auto dest!: Session_Read_size [OF sym])

declare read_body.simps [simp del]

text \<open>
  What \<open>GetResponse\<close> does with the bytes of the response. A slice whose upper bound
  \<open>offset + int(value)\<close> lies outside the buffer panics; a value beyond the signed range turns
  negative in the conversion, and panics as well.
\<close>

definition decode_response :: "('q, 'r) codec \<Rightarrow> 32 word \<Rightarrow> bytes \<Rightarrow> 'r \<Rightarrow> 'r res" where
  "decode_response cd callID buf response =
     (case uvarint buf of
        None \<Rightarrow> Error (Err ''varint corruption'')
      | Some (value, nbytes) \<Rightarrow>
          if length buf < nbytes + value then Panic ''slice bounds out of range''
          else
            bind_res (unmarshal_header cd (sub_slice buf nbytes (nbytes + value))) (\<lambda>call_id.
            (let offset = nbytes + value
             in if (case call_id of None \<Rightarrow> 0 | Some i \<Rightarrow> i) \<noteq> callID
                then Error (Err ''unknown call ID in response'')
                else if offset \<noteq> length buf - 1 then
                  (case uvarint (drop offset buf) of
                     None \<Rightarrow> Error (Err ''varint corruption'')
                   | Some (_, nb) \<Rightarrow> unmarshal_body cd (drop (offset + nb) buf))
                else Ok response)))"

definition GetResponse ::
  "('q, 'r) codec \<Rightarrow> 32 word \<Rightarrow> 'r \<Rightarrow> Session \<Rightarrow> 'r res \<times> Session" where
  "GetResponse cd callID response s =
     (case getMessageLen s of
        (Error e, s1) \<Rightarrow> (Error (Wrap (''invalid message len callID '' @ dec_of_int (sint callID) @ '': '') e), s1)
      | (Panic p, s1) \<Rightarrow> (Panic p, s1)
      | (Ok responseLen, s1) \<Rightarrow>
          andThen (read_body responseLen [] s1) (\<lambda>buf s2.
            (decode_response cd callID buf response, s2)))"

text \<open>A length is put into a buffer of \<open>MaxVarintLen32 = 5\<close> bytes; a longer encoding panics.\<close>

definition put_length :: "nat \<Rightarrow> bytes res" where
  "put_length n =
     (if 5 < length (put_uvarint n) then Panic ''index out of range'' else Ok (put_uvarint n))"

definition request_frame :: "('q, 'r) codec \<Rightarrow> RequestHeader \<Rightarrow> 'q \<Rightarrow> bytes res" where
  "request_frame cd hdr request =
     bind_res (marshal_header cd hdr) (\<lambda>messageHeader.
     bind_res (put_length (length messageHeader)) (\<lambda>hlen.
     bind_res (marshal_body cd request) (\<lambda>messageBody.
     bind_res (put_length (length messageBody)) (\<lambda>blen.
     Ok (hlen @ messageHeader @ blen @ messageBody)))))"

definition SendMessage ::
  "('q, 'r) codec \<Rightarrow> string \<Rightarrow> string \<Rightarrow> 'q \<Rightarrow> 'r \<Rightarrow> Session \<Rightarrow> 'r res \<times> Session" where
  "SendMessage cd service method request response s =
     (let (callID, s0) = GenerateCallID s;
          pb = \<lparr>CallId = callID, ServiceName = service, MethodName = method, TimeoutMillis = 3000\<rparr>
      in andThen (request_frame cd pb request, s0) (\<lambda>b s0.
         (let messageLen = length b mod 2 ^ 32
          in andThen (Session_Write (be32 messageLen) s0) (\<lambda>n s1.
             if n \<noteq> 4 then (Error (Err ''packet len not 4 bytes''), s1)
             else andThen (Session_Write b s1) (\<lambda>n s2.
                  if n \<noteq> messageLen then (Error (Err ''request over the wire not equal to messageLen''), s2)
                  else GetResponse cd callID response s2)))))"

subsection \<open>Prefix codecs\<close>

text \<open>
  A prefix code: what is decoded from a written value followed by anything is that value, and the
  rest is left. Such codes are injective and can be written one after another.
\<close>

fun decode_many :: "(bytes \<Rightarrow> ('a \<times> bytes) option) \<Rightarrow> nat \<Rightarrow> bytes \<Rightarrow> ('a list \<times> bytes) option" where
  "decode_many dec 0 bs = Some ([], bs)"
| "decode_many dec (Suc n) bs =
     (case dec bs of
        None \<Rightarrow> None
      | Some (x, r) \<Rightarrow> map_option (\<lambda>(xs, r'). (x # xs, r')) (decode_many dec n r))"

locale prefix_codec =
  fixes enc :: "'a \<Rightarrow> bytes"
    and dec :: "bytes \<Rightarrow> ('a \<times> bytes) option"
    and valid :: "'a \<Rightarrow> bool"
  assumes dec_enc: "valid x \<Longrightarrow> dec (enc x @ r) = Some (x, r)"
begin

lemma unique_prefix: "valid x \<Longrightarrow> valid y \<Longrightarrow> enc x @ r = enc y @ s \<Longrightarrow> x = y \<and> r = s"
proof -
  assume v: "valid x" "valid y" and eq: "enc x @ r = enc y @ s"
  have "Some (x, r) = dec (enc x @ r)" by (rule dec_enc [OF v(1), symmetric])
  also have "\<dots> = Some (y, s)" unfolding eq by (rule dec_enc [OF v(2)])
  finally show ?thesis by simp
qed

lemma decode_concat:
  "list_all valid xs \<Longrightarrow> decode_many dec (length xs) (concat (map enc xs) @ r) = Some (xs, r)"
proof (induction xs)
  case Nil
  then show ?case by simp
next
  case (Cons x xs)
  then have "decode_many dec (length xs) (concat (map enc xs) @ r) = Some (xs, r)" by simp
  moreover have "dec (enc x @ (concat (map enc xs) @ r)) = Some (x, concat (map enc xs) @ r)"
    using Cons.prems by (intro dec_enc) simp
  ultimately show ?case by simp
qed

end

definition be32_dec :: "bytes \<Rightarrow> (nat \<times> bytes) option" where
  "be32_dec bs = (if length bs < 4 then None else Some (be_val (take 4 bs), drop 4 bs))"

definition uvarint_dec :: "bytes \<Rightarrow> (nat \<times> bytes) option" where
  "uvarint_dec bs = map_option (\<lambda>(v, n). (v, drop n bs)) (uvarint bs)"

text \<open>A byte string preceded by its length.\<close>

definition delimited :: "bytes \<Rightarrow> bytes" where
  "delimited m = put_uvarint (length m) @ m"

definition delimited_dec :: "bytes \<Rightarrow> (bytes \<times> bytes) option" where
  "delimited_dec bs =
     (case uvarint_dec bs of
        None \<Rightarrow> None
      | Some (n, r) \<Rightarrow> if length r < n then None else Some (take n r, drop n r))"

lemma length_be32 [simp]: "length (be32 n) = 4"
  by (simp add: be32_def)

lemma be_val_be32: "n < 2 ^ 32 \<Longrightarrow> be_val (be32 n) = n"
proof -
  assume n: "n < 2 ^ 32"
  have pows: "(2::nat) ^ 8 = 256" "(2::nat) ^ 16 = 65536" "(2::nat) ^ 24 = 16777216" by simp_all
  have top: "n div 16777216 < 256" using n by (simp add: less_mult_imp_div_less)
  have "be_val (be32 n) = (n div 16777216) * 16777216 + (n div 65536 mod 256) * 65536
      + (n div 256 mod 256) * 256 + n mod 256"
    using top by (simp add: be32_def unat_of_nat take_bit_eq_mod)
  moreover have "n div 65536 = n div 256 div 256" "n div 16777216 = n div 65536 div 256"
    by (simp_all add: div_mult2_eq [symmetric])
  moreover have "n = n div 256 * 256 + n mod 256" "n div 256 = n div 256 div 256 * 256 + n div 256 mod 256"
    "n div 65536 = n div 65536 div 256 * 256 + n div 65536 mod 256" by (simp_all only: div_mult_mod_eq)
  ultimately show ?thesis by linarith
qed

lemma be32_dec_enc: "n < 2 ^ 32 \<Longrightarrow> be32_dec (be32 n @ r) = Some (n, r)"
  by (simp add: be32_dec_def be_val_be32)

lemma be32_zero: "n < 2 ^ 32 \<Longrightarrow> (\<forall>b\<in>set (be32 n). b = 0) \<longleftrightarrow> n = 0"
proof
  assume "n < 2 ^ 32" "\<forall>b\<in>set (be32 n). b = 0"
  then show "n = 0" using be_val_be32 [of n] by (simp add: be32_def)
qed (simp add: be32_def)

lemma put_uvarint_not_Nil [simp]: "put_uvarint n \<noteq> []"
  by (subst put_uvarint.simps) simp

lemma uvarint_loop_last:
  assumes "v < 128" "i < 10" "i = 9 \<longrightarrow> v \<le> 1"
  shows "uvarint_loop i x w (of_nat v # r) = Some (x + v * w, Suc i)"
proof -
  have "unat (of_nat v :: byte) = v" using assms(1) by (simp add: unat_of_nat take_bit_eq_mod)
  then show ?thesis using assms by auto
qed

lemma uvarint_loop_more:
  assumes "i < 10"
  shows "uvarint_loop i x w (of_nat (v mod 128 + 128) # r) = uvarint_loop (Suc i) (x + v mod 128 * w) (w * 128) r"
proof -
  have "unat (of_nat (v mod 128 + 128) :: byte) = v mod 128 + 128"
    by (simp add: unat_of_nat take_bit_eq_mod del: of_nat_add)
  then show ?thesis using assms by (simp del: of_nat_add)
qed

lemma uvarint_loop_put:
  "v < 2 ^ e \<Longrightarrow> e = 64 - 7 * i \<Longrightarrow> i < 10 \<Longrightarrow>
   uvarint_loop i x w (put_uvarint v @ r) = Some (x + v * w, i + length (put_uvarint v))"
proof (induction v arbitrary: i e x w rule: put_uvarint.induct)
  case (1 v)
  show ?case
  proof (cases "v < 128")
    case True
    have "i = 9 \<longrightarrow> v \<le> 1" using 1(2,3) by auto
    then show ?thesis
      using True 1(4) uvarint_loop_last [of v i x w r] by (simp add: put_uvarint.simps [of v] del: uvarint_loop.simps)
  next
    case False
    have i: "i < 9"
    proof (rule ccontr)
      assume "\<not> i < 9"
      then have "i = 9" using 1(4) by simp
      then show False using 1(2,3) False by simp
    qed
    define e' where "e' = 64 - 7 * Suc i"
    have "e = 7 + e'" using i 1(3) by (simp add: e'_def)
    then have "v < 128 * 2 ^ e'" using 1(2) by (simp add: power_add)
    then have "v div 128 < 2 ^ e'" by (simp add: less_mult_imp_div_less mult.commute)
    from 1(1) [OF False this e'_def] i
    have IH: "uvarint_loop (Suc i) (x + v mod 128 * w) (w * 128) (put_uvarint (v div 128) @ r)
        = Some (x + v mod 128 * w + v div 128 * (w * 128), Suc i + length (put_uvarint (v div 128)))" by simp
    have p: "put_uvarint v = of_nat (v mod 128 + 128) # put_uvarint (v div 128)"
      using False by (simp add: put_uvarint.simps [of v])
    have "v * w = (v div 128 * 128 + v mod 128) * w" by (simp only: div_mult_mod_eq)
    then have "x + v mod 128 * w + v div 128 * (w * 128) = x + v * w"
      by (simp only: add_mult_distrib mult.assoc mult.commute [of w 128])
    then show ?thesis
      unfolding p append_Cons using i IH uvarint_loop_more [of i x w v "put_uvarint (v div 128) @ r"]
      by (simp del: uvarint_loop.simps of_nat_add)
  qed
qed

lemma uvarint_put: "v < 2 ^ 64 \<Longrightarrow> uvarint (put_uvarint v @ r) = Some (v, length (put_uvarint v))"
  using uvarint_loop_put [of v 64 0 0 1 r] by (simp add: uvarint_def)

lemma uvarint_dec_enc: "v < 2 ^ 64 \<Longrightarrow> uvarint_dec (put_uvarint v @ r) = Some (v, r)"
  by (simp add: uvarint_dec_def uvarint_put)

lemma put_uvarint_length: "n < 128 ^ Suc k \<Longrightarrow> length (put_uvarint n) \<le> Suc k"
proof (induction k arbitrary: n)
  case 0
  then show ?case by (subst put_uvarint.simps) simp
next
  case (Suc k)
  have "n div 128 < 128 ^ Suc k" using Suc.prems by (simp add: less_mult_imp_div_less mult.commute)
  from Suc.IH [OF this] show ?case by (subst put_uvarint.simps) simp
qed

lemma put_length_Ok: "n < 2 ^ 35 \<Longrightarrow> put_length n = Ok (put_uvarint n)"
  using put_uvarint_length [of n 4] by (simp add: put_length_def)

lemma put_uvarint_length_1: "length (put_uvarint n) = 1 \<longleftrightarrow> n < 128"
  by (subst put_uvarint.simps) simp

interpretation frame_length: prefix_codec be32 be32_dec "\<lambda>n. n < 2 ^ 32"
  by unfold_locales (rule be32_dec_enc)

interpretation varint: prefix_codec put_uvarint uvarint_dec "\<lambda>n. n < 2 ^ 64"
  by unfold_locales (rule uvarint_dec_enc)

interpretation block: prefix_codec delimited delimited_dec "\<lambda>m. length m < 2 ^ 64"
proof
  fix x r :: bytes
  assume "length x < 2 ^ 64"
  then show "delimited_dec (delimited x @ r) = Some (x, r)"
    using varint.dec_enc [of "length x" "x @ r"] by (simp add: delimited_def delimited_dec_def)
qed

subsection \<open>Reading a response\<close>

abbreviation set_inbox :: "read_event list \<Rightarrow> Session \<Rightarrow> Session" where
  "set_inbox es s \<equiv> s\<lparr>sconn := (sconn s)\<lparr>inbox := es\<rparr>\<rparr>"

text \<open>Reading changes what is still to be read, and nothing else.\<close>

definition only_read :: "Session \<Rightarrow> Session \<Rightarrow> bool" where
  "only_read s s' \<longleftrightarrow> (\<exists>es. s' = set_inbox es s)"

lemma only_read_refl [intro]: "only_read s s"
  by (auto simp: only_read_def intro!: exI [of _ "inbox (sconn s)"])

lemma only_read_trans: "only_read s t \<Longrightarrow> only_read t u \<Longrightarrow> only_read s u"
  by (auto simp: only_read_def)

lemma only_readD:
  "only_read s s' \<Longrightarrow> outbox (sconn s') = outbox (sconn s) \<and> write_plan (sconn s') = write_plan (sconn s)
     \<and> closed (sconn s') = closed (sconn s) \<and> messageCount s' = messageCount s \<and> Host s' = Host s"
  by (auto simp: only_read_def)

lemma Session_Read_only: "only_read s (snd (Session_Read n s))"
proof (cases "n = 0 \<or> inbox (sconn s) = []")
  case True
  then have "snd (Session_Read n s) = s" by (auto simp: Session_Read_def conn_read.simps)
  then show ?thesis by auto
next
  case False
  then show ?thesis
    by (cases "inbox (sconn s)")
       (auto simp: Session_Read_def conn_read.simps only_read_def split: read_event.splits)
qed

lemma getMessageLen_only: "only_read s (snd (getMessageLen s))"
proof (induction s rule: getMessageLen.induct)
  case (1 s)
  obtain r s1 where r: "Session_Read 4 s = (r, s1)" by (cases "Session_Read 4 s")
  then have o: "only_read s s1" using Session_Read_only [of s 4] by simp
  show ?case
    using 1 [OF r [symmetric]] o
    by (subst getMessageLen.simps) (auto simp: r intro: only_read_trans split: res.split)
qed

lemma read_body_only: "only_read s (snd (read_body n buf s))"
proof (induction n buf s rule: read_body.induct)
  case (1 n buf s)
  obtain r s1 where r: "Session_Read n s = (r, s1)" by (cases "Session_Read n s")
  then have o: "only_read s s1" using Session_Read_only [of s n] by simp
  show ?case
    using 1 [OF _ r [symmetric]] o
    by (subst read_body.simps) (auto simp: r intro: only_read_trans split: res.split)
qed

lemma GetResponse_only: "only_read s (snd (GetResponse cd i resp s))"
proof -
  obtain r s1 where r: "getMessageLen s = (r, s1)" by (cases "getMessageLen s")
  then have o: "only_read s s1" using getMessageLen_only [of s] by simp
  show ?thesis
  proof (cases r)
    case (Ok n)
    obtain r2 s2 where r2: "read_body n [] s1 = (r2, s2)" by (cases "read_body n [] s1")
    then have "only_read s1 s2" using read_body_only [of s1 n "[]"] by simp
    then have "only_read s s2" using o by (blast intro: only_read_trans)
    then show ?thesis by (cases r2) (simp_all add: GetResponse_def r Ok r2)
  qed (simp_all add: GetResponse_def r o)
qed

lemma GetResponse_outbox [simp]: "outbox (sconn (snd (GetResponse cd i resp s))) = outbox (sconn s)"
  using only_readD [OF GetResponse_only [of s cd i resp]] by simp

lemma Session_Read_data:
  "inbox (sconn s) = Data d # es \<Longrightarrow> 0 < n \<Longrightarrow>
   Session_Read n s = (Ok (take n d), set_inbox (if length d \<le> n then es else Data (drop n d) # es) s)"
  by (simp add: Session_Read_def conn_read.simps)

lemma read_body_chunks:
  "inbox (sconn s) = map Data ds @ rest \<Longrightarrow> n \<le> length (concat ds) \<Longrightarrow>
   \<exists>ds'. read_body n buf s = (Ok (buf @ take n (concat ds)), set_inbox (map Data ds' @ rest) s)
     \<and> concat ds' = drop n (concat ds)"
proof (induction ds arbitrary: n buf s)
  case Nil
  then show ?case by (subst read_body.simps) (auto intro!: exI [of _ "[]"])
next
  case (Cons d ds)
  show ?case
  proof (cases "n = 0")
    case True
    then show ?thesis using Cons.prems by (subst read_body.simps) (auto intro!: exI [of _ "d # ds"])
  next
    case n: False
    have rd: "Session_Read n s = (Ok (take n d),
        set_inbox (if length d \<le> n then map Data ds @ rest else Data (drop n d) # map Data ds @ rest) s)"
      using Cons.prems n by (intro Session_Read_data) simp_all
    show ?thesis
    proof (cases "length d \<le> n")
      case True
      have now: "inbox (sconn (set_inbox (map Data ds @ rest) s)) = map Data ds @ rest" by simp
      have le: "n - length d \<le> length (concat ds)" using Cons.prems(2) by simp
      obtain ds' where "read_body (n - length d) (buf @ d) (set_inbox (map Data ds @ rest) s)
          = (Ok ((buf @ d) @ take (n - length d) (concat ds)), set_inbox (map Data ds' @ rest) s)"
        "concat ds' = drop (n - length d) (concat ds)" using Cons.IH [OF now le, of "buf @ d"] by auto
      then show ?thesis using n True rd by (subst read_body.simps) (auto intro!: exI [of _ ds'])
    next
      case False
      then show ?thesis
        using n rd by (subst read_body.simps, subst read_body.simps)
          (auto intro!: exI [of _ "drop n d # ds"])
    qed
  qed
qed

abbreviation zeros :: bytes where "zeros \<equiv> [0, 0, 0, 0]"

lemma getMessageLen_skip:
  "inbox (sconn s) = Data (zeros @ d) # es \<Longrightarrow>
   getMessageLen s = getMessageLen (set_inbox (if d = [] then es else Data d # es) s)"
  using Session_Read_data [of s "zeros @ d" es 4] by (subst getMessageLen.simps) simp

lemma getMessageLen_length:
  assumes "inbox (sconn s) = Data (be32 n @ d) # es" "0 < n" "n < 2 ^ 32"
  shows "getMessageLen s = (Ok n, set_inbox (if d = [] then es else Data d # es) s)"
  using Session_Read_data [OF assms(1), of 4] assms(2,3)
  by (subst getMessageLen.simps) (simp add: be32_zero be_val_be32)

lemma getMessageLen_keepalives:
  "inbox (sconn s) = replicate j (Data zeros) @ Data (concat (replicate k zeros) @ be32 n @ d) # es \<Longrightarrow>
   0 < n \<Longrightarrow> n < 2 ^ 32 \<Longrightarrow>
   getMessageLen s = (Ok n, set_inbox (if d = [] then es else Data d # es) s)"
proof (induction j arbitrary: s)
  case 0
  then show ?case
  proof (induction k arbitrary: s)
    case 0
    then show ?case by (simp add: getMessageLen_length)
  next
    case (Suc k)
    have "be32 n \<noteq> []" by (simp add: be32_def)
    then have ne: "concat (replicate k zeros) @ be32 n @ d \<noteq> []" by simp
    have "inbox (sconn s) = Data (zeros @ (concat (replicate k zeros) @ be32 n @ d)) # es"
      using Suc.prems(1) by simp
    from getMessageLen_skip [OF this, unfolded if_not_P [OF ne]]
    have "getMessageLen s = getMessageLen (set_inbox (Data (concat (replicate k zeros) @ be32 n @ d) # es) s)" .
    then show ?case using Suc.IH [of "set_inbox (Data (concat (replicate k zeros) @ be32 n @ d) # es) s"] Suc.prems(2,3)
      by simp
  qed
next
  case (Suc j)
  let ?es = "replicate j (Data zeros) @ Data (concat (replicate k zeros) @ be32 n @ d) # es"
  have "inbox (sconn s) = Data (zeros @ []) # ?es" using Suc.prems(1) by simp
  from getMessageLen_skip [OF this] have "getMessageLen s = getMessageLen (set_inbox ?es s)" by simp
  then show ?case using Suc.IH [of "set_inbox ?es s"] Suc.prems(2,3) by simp
qed

lemma getMessageLen_short:
  assumes "inbox (sconn s) = Data d # es" "length d < 4"
  shows "getMessageLen s = (Error (Err ''could not read response length''), set_inbox es s)"
  using Session_Read_data [OF assms(1), of 4] assms(2) by (subst getMessageLen.simps) simp

lemma GetResponse_reassembles:
  assumes inbox: "inbox (sconn s) = replicate j (Data zeros)
      @ Data (concat (replicate k zeros) @ be32 (length frame) @ d) # map Data ds @ rest"
    and stream: "d @ concat ds = frame @ junk"
    and len: "0 < length frame" "length frame < 2 ^ 32"
  shows "\<exists>ds'. GetResponse cd i resp s = (decode_response cd i frame resp, set_inbox (map Data ds' @ rest) s)
    \<and> concat ds' = junk"
proof -
  define ds1 where "ds1 = (if d = [] then ds else d # ds)"
  have c: "concat ds1 = frame @ junk" using stream by (cases "d = []") (simp_all add: ds1_def)
  let ?s1 = "set_inbox (map Data ds1 @ rest) s"
  have m: "getMessageLen s = (Ok (length frame), ?s1)"
    using getMessageLen_keepalives [OF inbox len] by (cases "d = []") (simp_all add: ds1_def)
  have "inbox (sconn ?s1) = map Data ds1 @ rest" by simp
  from read_body_chunks [OF this, of "length frame" "[]"]
  obtain ds' where "read_body (length frame) [] ?s1 = (Ok frame, set_inbox (map Data ds' @ rest) s)"
    "concat ds' = junk" by (auto simp: c)
  then show ?thesis by (auto simp: GetResponse_def m)
qed

subsection \<open>Decoding a response\<close>

lemma decode_frame:
  assumes "length h < 2 ^ 64" "length b < 2 ^ 64"
  shows "decode_response cd i (delimited h @ delimited b) resp =
    bind_res (unmarshal_header cd h) (\<lambda>cid.
      if (case cid of None \<Rightarrow> 0 | Some j \<Rightarrow> j) \<noteq> i then Error (Err ''unknown call ID in response'')
      else if b = [] then Ok resp else unmarshal_body cd b)"
proof -
  let ?buf = "delimited h @ delimited b" and ?n = "length (put_uvarint (length h))"
  have u: "uvarint ?buf = Some (length h, ?n)"
    using uvarint_put [OF assms(1), of "h @ delimited b"] by (simp add: delimited_def)
  have hdr: "sub_slice ?buf ?n (?n + length h) = h"
    by (simp add: sub_slice_def delimited_def)
  have rest: "drop (?n + length h) ?buf = delimited b" by (simp add: delimited_def)
  have ub: "uvarint (delimited b) = Some (length b, length (put_uvarint (length b)))"
    using uvarint_put [OF assms(2), of b] by (simp add: delimited_def)
  have body: "drop (?n + length h + length (put_uvarint (length b))) ?buf = b"
    by (simp add: delimited_def)
  have last: "?n + length h = length ?buf - 1 \<longleftrightarrow> b = []"
  proof -
    have "length ?buf = ?n + length h + (length (put_uvarint (length b)) + length b)"
      by (simp add: delimited_def)
    moreover have "length (put_uvarint (length b)) = 1 \<longleftrightarrow> length b < 128" by (rule put_uvarint_length_1)
    moreover have "1 \<le> length (put_uvarint (length b))" by (cases "put_uvarint (length b)") simp_all
    ultimately have "?n + length h = length ?buf - 1 \<longleftrightarrow> length b = 0"
      by linarith
    then show ?thesis by simp
  qed
  have len: "\<not> length ?buf < ?n + length h" by (simp add: delimited_def)
  show ?thesis
    unfolding decode_response_def u option.case prod.case if_not_P [OF len] hdr Let_def rest ub body last
    by simp
qed

lemma decode_response_Ok:
  "decode_response cd i buf resp = Ok r \<Longrightarrow>
   \<exists>v n cid. uvarint buf = Some (v, n) \<and> n + v \<le> length buf \<and>
     unmarshal_header cd (sub_slice buf n (n + v)) = Ok cid \<and> (case cid of None \<Rightarrow> 0 | Some j \<Rightarrow> j) = i"
  by (auto simp: decode_response_def Let_def bind_res_eq_Ok split: option.splits prod.splits if_splits)

subsection \<open>Sending a request\<close>

definition call_header :: "string \<Rightarrow> string \<Rightarrow> Session \<Rightarrow> RequestHeader" where
  "call_header service method s =
     \<lparr>CallId = messageCount s + 1, ServiceName = service, MethodName = method, TimeoutMillis = 3000\<rparr>"

lemma request_frame_Ok:
  assumes "marshal_header cd hdr = Ok h" "marshal_body cd q = Ok b" "length h < 2 ^ 35" "length b < 2 ^ 35"
  shows "request_frame cd hdr q = Ok (delimited h @ delimited b)"
  using assms by (simp add: request_frame_def put_length_Ok delimited_def)

lemma Session_Write_all:
  "write_plan (sconn s) = [] \<Longrightarrow>
   Session_Write bs s = (Ok (length bs), s\<lparr>sconn := (sconn s)\<lparr>outbox := outbox (sconn s) @ bs\<rparr>\<rparr>)"
  by (simp add: Session_Write_def conn_write_def)

lemma SendMessage_writes:
  assumes "request_frame cd (call_header service method s) q = Ok f" "length f < 2 ^ 32"
    "write_plan (sconn s) = []"
  shows "SendMessage cd service method q resp s =
    GetResponse cd (messageCount s + 1) resp
      (s\<lparr>messageCount := messageCount s + 1,
         sconn := (sconn s)\<lparr>outbox := outbox (sconn s) @ be32 (length f) @ f\<rparr>\<rparr>)"
  using assms
  by (simp add: SendMessage_def GenerateCallID_def call_header_def Session_Write_all Let_def)

lemma Session_Write_count [simp]: "messageCount (snd (Session_Write bs s)) = messageCount s"
  by (auto simp: Session_Write_def split: prod.split option.split)

lemma SendMessage_count: "messageCount (snd (SendMessage cd service method q resp s)) = messageCount s + 1"
proof -
  have r: "messageCount (snd (GetResponse cd i resp s)) = messageCount s" for i s
    using GetResponse_only [of s cd i resp] by (auto dest: only_readD)
  show ?thesis
    unfolding SendMessage_def GenerateCallID_def Let_def prod.case
    by (rule andThen_state [where I = "\<lambda>s'. messageCount s' = messageCount s + 1"], simp,
        rule andThen_state [where I = "\<lambda>s'. messageCount s' = messageCount s + 1"], simp,
        auto intro!: andThen_state [where I = "\<lambda>s'. messageCount s' = messageCount s + 1"] simp: r)
qed

text \<open>Calls made one after another on a session, with the call ID each of them uses.\<close>

fun send_all ::
  "('q, 'r) codec \<Rightarrow> (string \<times> string \<times> 'q \<times> 'r) list \<Rightarrow> Session \<Rightarrow> ('r res \<times> 32 word) list \<times> Session" where
  "send_all cd [] s = ([], s)"
| "send_all cd ((service, meth, q, resp) # calls) s =
     (let (r, s1) = SendMessage cd service meth q resp s;
          (rs, s2) = send_all cd calls s1
      in ((r, fst (GenerateCallID s)) # rs, s2))"

lemma send_all_ids:
  "map snd (fst (send_all cd calls s)) = map (\<lambda>k. messageCount s + of_nat (Suc k)) [0 ..< length calls]"
proof (induction calls arbitrary: s)
  case Nil
  then show ?case by simp
next
  case (Cons c calls)
  obtain service meth q resp where c: "c = (service, meth, q, resp)" by (cases c) auto
  obtain r s1 where r: "SendMessage cd service meth q resp s = (r, s1)" by force
  then have m: "messageCount s1 = messageCount s + 1"
    using SendMessage_count [of cd service meth q resp s] by simp
  obtain rs s2 where rs: "send_all cd calls s1 = (rs, s2)" by force
  have "map snd rs = map (\<lambda>k. messageCount s1 + of_nat (Suc k)) [0 ..< length calls]"
    using Cons.IH [of s1] rs by simp
  also have "\<dots> = map (\<lambda>k. messageCount s + of_nat (Suc k)) (map Suc [0 ..< length calls])"
    by (simp add: m add_ac)
  finally show ?case
    unfolding length_Cons upt_conv_Cons [OF zero_less_Suc] map_Suc_upt [symmetric]
    by (simp add: c r rs GenerateCallID_def Let_def)
qed

lemma word_counter_inj: "inj_on (\<lambda>k. a + of_nat (Suc k) :: 32 word) {0 ..< 2 ^ 32}"
proof (rule inj_onI)
  fix j k :: nat
  assume b: "j \<in> {0 ..< 2 ^ 32}" "k \<in> {0 ..< 2 ^ 32}"
    and "a + of_nat (Suc j) = (a + of_nat (Suc k) :: 32 word)"
  then have "(of_nat j :: 32 word) = of_nat k" by simp
  then have "unat (of_nat j :: 32 word) = unat (of_nat k :: 32 word)" by simp
  then show "j = k" using b by (simp add: unat_of_nat take_bit_eq_mod)
qed

text \<open>The bytes of a request on the connection, whatever is read afterwards.\<close>

lemma sent_request:
  assumes "marshal_header cd (call_header service method s) = Ok h" "marshal_body cd q = Ok b"
    and "length h + length b + 10 < 2 ^ 32" and "write_plan (sconn s) = []"
  shows "\<exists>w. outbox (sconn (snd (SendMessage cd service method q resp s))) = outbox (sconn s) @ w
    \<and> (\<exists>n f. be32_dec w = Some (n, f) \<and> length f = n \<and> decode_many delimited_dec 2 f = Some ([h, b], []))"
proof -
  let ?f = "delimited h @ delimited b"
  have l: "length h < 2 ^ 35" "length b < 2 ^ 35" "length h < 128 ^ Suc 4" "length b < 128 ^ Suc 4"
    using assms(3) by simp_all
  from put_uvarint_length [OF l(3)] put_uvarint_length [OF l(4)] assms(3)
  have len: "length ?f < 2 ^ 32" by (simp add: delimited_def)
  note sent = SendMessage_writes [OF request_frame_Ok [OF assms(1,2) l(1,2)] len assms(4), of resp]
  have "outbox (sconn (snd (SendMessage cd service method q resp s)))
      = outbox (sconn s) @ be32 (length ?f) @ ?f"
    unfolding sent by simp
  moreover have "be32_dec (be32 (length ?f) @ ?f) = Some (length ?f, ?f)"
    by (rule frame_length.dec_enc [OF len])
  moreover have "decode_many delimited_dec 2 ?f = Some ([h, b], [])"
  proof -
    have "decode_many delimited_dec (length [h, b]) (concat (map delimited [h, b]) @ []) = Some ([h, b], [])"
      by (rule block.decode_concat) (use l in simp)
    moreover have "length [h, b] = 2" "concat (map delimited [h, b]) @ [] = ?f" by simp_all
    ultimately show ?thesis by (simp only:)
  qed
  ultimately show ?thesis by blast
qed

subsection \<open>Properties\<close>

text \<open>A concrete codec and session.\<close>

definition sample_codec :: "(bytes, bytes) codec" where
  "sample_codec =
     \<lparr>marshal_header = (\<lambda>h. Ok (be32 (unat (CallId h)))), marshal_body = Ok,
      unmarshal_header = (\<lambda>bs. Ok (Some (of_nat (be_val bs)))), unmarshal_body = Ok\<rparr>"

definition sample_session :: "read_event list \<Rightarrow> Session" where
  "sample_session es =
     \<lparr>sconn = \<lparr>inbox = es, write_plan = [], outbox = [89, 66, 1], closed = False\<rparr>, messageCount = 0,
      Host = \<lparr>hp_host = ''m1'', hp_port = 7100\<rparr>\<rparr>"

definition sample_frame :: bytes where
  "sample_frame = delimited (be32 1) @ delimited [9]"

lemma sample_frame_eq: "sample_frame = [4, 0, 0, 0, 1, 1, 9]"
  by (simp add: sample_frame_def delimited_def put_uvarint.simps be32_def)


lemma sample_frame_length: "length sample_frame = 7"
  by (simp add: sample_frame_eq)

lemma sample_decode: "decode_response sample_codec 1 sample_frame [] = Ok [9]"
  using decode_frame [of "be32 1" "[9]" sample_codec 1 "[]"]
  by (simp add: sample_frame_def sample_codec_def be_val_be32)

lemma sample_response:
  "fst (GetResponse sample_codec 1 [] (sample_session [Data (be32 7), Data sample_frame])) = Ok [9]"
proof -
  let ?s = "sample_session [Data (be32 7), Data sample_frame]"
  have "inbox (sconn ?s) = replicate 0 (Data zeros)
      @ Data (concat (replicate 0 zeros) @ be32 (length sample_frame) @ []) # map Data [sample_frame] @ []"
    unfolding sample_frame_length by (simp add: sample_session_def)
  from GetResponse_reassembles [OF this, of "[]" sample_codec 1 "[]"] show ?thesis
    by (auto simp: sample_frame_length sample_decode)
qed

text \<open>C21: a request is framed so that the server can take it apart: when the writes succeed, the
  bytes added to the connection are a four-byte length and that many bytes, which decode uniquely to
  the marshalled header (with this call's ID, the service and the method) and the marshalled body,
  with nothing left over.\<close>

theorem request_on_the_wire:
  assumes "marshal_header cd (call_header service method s) = Ok h" "marshal_body cd q = Ok b"
    and "length h + length b + 10 < 2 ^ 32" and "write_plan (sconn s) = []"
  shows "\<exists>w. outbox (sconn (snd (SendMessage cd service method q resp s))) = outbox (sconn s) @ w
    \<and> (\<exists>n f. be32_dec w = Some (n, f) \<and> length f = n \<and> decode_many delimited_dec 2 f = Some ([h, b], []))"
  by (rule sent_request [OF assms])

theorem request_on_the_wire_witness:
  "\<exists>w. outbox (sconn (snd (SendMessage sample_codec ''yb.server.GenericService'' ''Ping'' [7] [] (sample_session []))))
        = [89, 66, 1] @ w
    \<and> (\<exists>n f. be32_dec w = Some (n, f) \<and> length f = n \<and> decode_many delimited_dec 2 f = Some ([be32 1, [7]], []))"
  using request_on_the_wire [of sample_codec "''yb.server.GenericService''" "''Ping''" "sample_session []"
      "be32 1" "[7]" "[7]" "[]"]
  by (simp add: sample_codec_def sample_session_def call_header_def)

text \<open>C2: a response is reassembled whatever its segmentation: after any number of all-zero length
  words (keep-alives), whether they come alone or in front of the length, and however the rest of the
  stream is cut into chunks, \<open>GetResponse\<close> decodes exactly the frame's header and body, rejects it
  when the header carries another call's ID, leaves the response untouched when the body is empty,
  and leaves in the connection exactly the bytes that follow the frame.\<close>

theorem response_reassembled:
  assumes "inbox (sconn s) = replicate j (Data zeros)
      @ Data (concat (replicate k zeros) @ be32 (length frame) @ d) # map Data ds @ rest"
    and "d @ concat ds = frame @ junk" and "frame = delimited h @ delimited b"
    and "length frame < 2 ^ 32"
  shows "fst (GetResponse cd callID resp s) =
      bind_res (unmarshal_header cd h) (\<lambda>cid.
        if (case cid of None \<Rightarrow> 0 | Some j \<Rightarrow> j) \<noteq> callID then Error (Err ''unknown call ID in response'')
        else if b = [] then Ok resp else unmarshal_body cd b)
    \<and> (\<exists>ds'. inbox (sconn (snd (GetResponse cd callID resp s))) = map Data ds' @ rest \<and> concat ds' = junk)"
proof -
  have "0 < length frame" by (simp add: assms(3) delimited_def)
  from GetResponse_reassembles [OF assms(1,2) this assms(4), of cd callID resp] obtain ds' where
    "GetResponse cd callID resp s = (decode_response cd callID frame resp, set_inbox (map Data ds' @ rest) s)"
    "concat ds' = junk" by blast
  moreover have "length h < 2 ^ 64" "length b < 2 ^ 64"
    using assms(3,4) by (simp_all add: delimited_def)
  ultimately show ?thesis by (auto simp: assms(3) decode_frame)
qed

theorem response_reassembled_witness:
  "fst (GetResponse sample_codec 1 []
     (sample_session [Data zeros, Data (zeros @ be32 7 @ [4, 0]), Data [0, 0], Data [1, 1, 9, 5]])) = Ok [9]"
proof -
  let ?ds = "[[0, 0], [1, 1, 9, 5]] :: bytes list"
  let ?s = "sample_session [Data zeros, Data (zeros @ be32 7 @ [4, 0]), Data [0, 0], Data [1, 1, 9, 5]]"
  have inbox: "inbox (sconn ?s) = replicate 1 (Data zeros)
      @ Data (concat (replicate 1 zeros) @ be32 (length sample_frame) @ [4, 0]) # map Data ?ds @ []"
    unfolding sample_frame_length by (simp add: sample_session_def)
  have stream: "[4, 0] @ concat ?ds = sample_frame @ [5]" by (simp add: sample_frame_eq)
  have len: "length sample_frame < 2 ^ 32" by (simp add: sample_frame_eq)
  from response_reassembled [OF inbox stream sample_frame_def len, of sample_codec 1 "[]"]
  show ?thesis by (simp add: sample_codec_def be_val_be32)
qed

text \<open>an answer is never taken from another call: if \<open>GetResponse\<close> succeeds, the header it
  unmarshalled from the frame carries the call ID of this call.\<close>

theorem response_is_for_this_call:
  assumes "GetResponse cd callID resp s = (Ok r, s')"
  shows "\<exists>buf v n cid. uvarint buf = Some (v, n) \<and> n + v \<le> length buf
    \<and> unmarshal_header cd (sub_slice buf n (n + v)) = Ok cid \<and> (case cid of None \<Rightarrow> 0 | Some j \<Rightarrow> j) = callID
    \<and> decode_response cd callID buf resp = Ok r"
  using assms
  by (auto simp: GetResponse_def andThen_eq_Ok split: prod.splits res.splits) (metis decode_response_Ok)

theorem response_is_for_this_call_witness:
  "\<exists>buf v n cid. uvarint buf = Some (v, n) \<and> n + v \<le> length buf
    \<and> unmarshal_header sample_codec (sub_slice buf n (n + v)) = Ok cid \<and> (case cid of None \<Rightarrow> 0 | Some j \<Rightarrow> j) = 1
    \<and> decode_response sample_codec 1 buf [] = Ok [9]"
  by (rule response_is_for_this_call [where s = "sample_session [Data (be32 7), Data sample_frame]"
        and s' = "snd (GetResponse sample_codec 1 [] (sample_session [Data (be32 7), Data sample_frame]))"])
     (rule prod_eqI, simp_all add: sample_response)

text \<open>the length word must arrive in one read: when the first chunk holds fewer than four bytes,
  the call fails, although the rest of the frame may follow, and the connection is left in the middle
  of the frame.\<close>

theorem split_length_rejected:
  assumes "inbox (sconn s) = Data d # es" "length d < 4"
  shows "GetResponse cd callID resp s =
    (Error (Wrap (''invalid message len callID '' @ dec_of_int (sint callID) @ '': '')
       (Err ''could not read response length'')), set_inbox es s)"
  using getMessageLen_short [OF assms] by (simp add: GetResponse_def)

theorem split_length_rejected_witness:
  "fst (GetResponse sample_codec 1 [] (sample_session [Data [0, 0], Data ([0, 7] @ sample_frame)]))
   = Error (Wrap (''invalid message len callID '' @ dec_of_int (sint (1 :: 32 word)) @ '': '')
       (Err ''could not read response length''))"
  using split_length_rejected [of "sample_session [Data [0, 0], Data ([0, 7] @ sample_frame)]" "[0, 0]"
      "[Data ([0, 7] @ sample_frame)]" sample_codec 1 "[]"]
  by (simp add: sample_session_def)



text \<open>call IDs are not reused: any \<open>2 ^ 32\<close> consecutive calls on a session, whatever their outcomes,
  use distinct IDs, and each call advances the counter by one even when it fails.\<close>

theorem call_ids_distinct:
  assumes "length calls \<le> 2 ^ 32"
  shows "distinct (map snd (fst (send_all cd calls s)))
    \<and> messageCount (snd (SendMessage cd service method q resp s)) = messageCount s + 1"
proof -
  have "inj_on (\<lambda>k. messageCount s + of_nat (Suc k)) {0 ..< length calls}"
    using word_counter_inj [of "messageCount s"] by (rule inj_on_subset) (use assms in auto)
  then have "distinct (map snd (fst (send_all cd calls s)))"
    unfolding send_all_ids by (simp add: distinct_map)
  then show ?thesis by (rule conjI [OF _ SendMessage_count])
qed

theorem call_ids_distinct_witness:
  "distinct (map snd (fst (send_all sample_codec [(''S'', ''M'', [1], []), (''S'', ''M'', [2], [])] (sample_session []))))"
  using call_ids_distinct [of "[(''S'', ''M'', [1], []), (''S'', ''M'', [2], [])]" sample_codec "sample_session []"]
  by simp

end
