(* ===== verification/YBClient.thy ===== *)
theory YBClient
  imports Wire
begin

section \<open>The YugabyteDB client\<close>

text \<open>
  \<open>yugatool/pkg/client/client.go\<close>, \<open>common.go\<close>, \<open>dial/dial.go\<close> and \<open>HasTLS\<close> of \<open>pkg/util/util.go\<close>: choosing
  a dialer from the TLS options, connecting to the masters until the leader is known, and the cache
  of tablet-server connections. The network is the function \<open>net\<close> from a dialer and an address to the
  connection it gives; the file system, the PEM and key-pair parsers, \<open>uuid.ParseBytes\<close> and the
  marshalling of each message are the other fields of the environment. A \<open>HostState\<close> holds the
  \<open>Session\<close> of theory \<open>Wire\<close>, on which each RPC is a \<open>SendMessage\<close>; \<open>released\<close> collects the sessions the
  client closed. Logging is left out.
\<close>

subsection \<open>Configuration and dialers\<close>

record TlsOptionsPB =
  SkipHostVerification :: bool
  CaCertPath :: string
  CertPath :: string
  KeyPath :: string

record UniverseConfigPB =
  Masters :: "host_port list"
  TimeoutSeconds :: int
  TlsOpts :: "TlsOptionsPB option"

definition HasTLS :: "TlsOptionsPB option \<Rightarrow> bool" where
  "HasTLS tlsOptions =
     (case tlsOptions of
        None \<Rightarrow> False
      | Some t \<Rightarrow>
          if SkipHostVerification t \<or> CaCertPath t \<noteq> [] \<or> CertPath t \<noteq> [] \<or> CaCertPath t \<noteq> []
          then True else False)"

record tls_config =
  InsecureSkipVerify :: bool
  RootCAs :: "string list"
  Certificates :: "string list"

datatype dialer = NetDialer int | TLSDialer int tls_config

subsection \<open>Messages and hosts\<close>

datatype MasterErrorCode = NOT_THE_LEADER | INVALID_SCHEMA | OTHER_CODE nat

record MasterErrorPB =
  ErrorCode :: MasterErrorCode
  ErrorText :: string

record TabletServer =
  PermanentUuid :: string
  PrivateRpcAddresses :: "(host_port list) option"

record ListTabletServersResponse =
  ListError :: "MasterErrorPB option"
  Servers :: "TabletServer list"

record 'st HostState =
  session :: Session
  Status :: 'st

record ('u, 'st) env =
  net :: "dialer \<Rightarrow> string \<Rightarrow> conn res"
  read_file :: "string \<Rightarrow> string res"
  append_certs :: "string \<Rightarrow> (string list) option"
  x509_key_pair :: "string \<Rightarrow> string \<Rightarrow> string res"
  parse_uuid :: "string \<Rightarrow> 'u res"
  uuid_string :: "'u \<Rightarrow> string"
  ping_codec :: "(unit, unit) codec"
  status_codec :: "(unit, 'st) codec"
  list_codec :: "(bool, ListTabletServersResponse) codec"
  no_status :: 'st

definition ping :: "('u, 'st) env \<Rightarrow> Session \<Rightarrow> unit res \<times> Session" where
  "ping env s = SendMessage (ping_codec env) ''yb.server.GenericService'' ''Ping'' () () s"

definition NewHostState :: "('u, 'st) env \<Rightarrow> host_port \<Rightarrow> dialer \<Rightarrow> 'st HostState res" where
  "NewHostState env host d =
     (case NewSession (net env d) (ping env) host of
        (Error e, _) \<Rightarrow> Error e
      | (Panic p, _) \<Rightarrow> Panic p
      | (Ok _, s) \<Rightarrow>
          (case SendMessage (status_codec env) ''yb.server.GenericService'' ''GetStatus'' () (no_status env) s of
             (Error e, s1) \<Rightarrow> Error e
           | (Panic p, s1) \<Rightarrow> Panic p
           | (Ok status, s1) \<Rightarrow> Ok \<lparr>session = s1, Status = status\<rparr>))"

definition HostState_Close :: "'st HostState \<Rightarrow> Session" where
  "HostState_Close h = snd (Session_Close (session h))"

definition ListTabletServers ::
  "('u, 'st) env \<Rightarrow> bool \<Rightarrow> 'st HostState \<Rightarrow> ListTabletServersResponse res \<times> 'st HostState" where
  "ListTabletServers env primary_only h =
     (case SendMessage (list_codec env) ''yb.master.MasterService'' ''ListTabletServers'' primary_only
             \<lparr>ListError = None, Servers = []\<rparr> (session h) of
        (r, s) \<Rightarrow> (r, h\<lparr>session := s\<rparr>))"

subsection \<open>The client\<close>

record ('u, 'st) YBClient =
  Config :: UniverseConfigPB
  Master :: "'st HostState option"
  tServersUUIDMap :: "'u \<rightharpoonup> 'st HostState"
  client_dialer :: "dialer option"
  tabletServers :: "ListTabletServersResponse option"
  released :: "Session list"

definition tls_of :: "('u, 'st) YBClient \<Rightarrow> TlsOptionsPB" where
  "tls_of c = (case TlsOpts (Config c) of
     Some t \<Rightarrow> t | None \<Rightarrow> \<lparr>SkipHostVerification = False, CaCertPath = [], CertPath = [], KeyPath = []\<rparr>)"

text \<open>The certificate authorities of \<open>GetDialer\<close>.\<close>

definition load_ca :: "('u, 'st) env \<Rightarrow> TlsOptionsPB \<Rightarrow> string list res" where
  "load_ca env t =
     (if CaCertPath t \<noteq> [] then
        bind_res (read_file env (CaCertPath t)) (\<lambda>f.
        case append_certs env f of
          Some cas \<Rightarrow> Ok cas
        | None \<Rightarrow> Error (Err (''unable to add '' @ CaCertPath t @ '' to the CA list'')))
      else Ok [])"

text \<open>Its client certificate.\<close>

definition load_certificate :: "('u, 'st) env \<Rightarrow> TlsOptionsPB \<Rightarrow> string list res" where
  "load_certificate env t =
     (if CertPath t \<noteq> [] \<or> KeyPath t \<noteq> [] then
        if KeyPath t = [] \<or> CertPath t = []
        then Error (Err ''client certificate and key must both be set'')
        else
          bind_res (wrap_error ''unable to read x509 certificate: '' (read_file env (CertPath t))) (\<lambda>tlsCert.
          bind_res (wrap_error ''unable to read client key: '' (read_file env (KeyPath t))) (\<lambda>tlsKey.
          bind_res (wrap_error ''unable to read x509 key pair: '' (x509_key_pair env tlsCert tlsKey)) (\<lambda>pair.
          Ok [pair])))
      else Ok [])"

definition GetDialer :: "('u, 'st) env \<Rightarrow> ('u, 'st) YBClient \<Rightarrow> dialer res \<times> ('u, 'st) YBClient" where
  "GetDialer env c =
     (case client_dialer c of
        Some d \<Rightarrow> (Ok d, c)
      | None \<Rightarrow>
          if \<not> HasTLS (TlsOpts (Config c)) then
            (let netDialer = NetDialer (TimeoutSeconds (Config c))
             in (Ok netDialer, c\<lparr>client_dialer := Some netDialer\<rparr>))
          else
            andThen (load_ca env (tls_of c), c) (\<lambda>cas c.
            andThen (load_certificate env (tls_of c), c) (\<lambda>certs c.
            (let tlsDialer = TLSDialer (TimeoutSeconds (Config c))
                   \<lparr>InsecureSkipVerify = SkipHostVerification (tls_of c), RootCAs = cas, Certificates = certs\<rparr>
             in (Ok tlsDialer, c\<lparr>client_dialer := Some tlsDialer\<rparr>)))))"

definition OverrideDialer :: "dialer \<Rightarrow> ('u, 'st) YBClient \<Rightarrow> ('u, 'st) YBClient" where
  "OverrideDialer d c = c\<lparr>client_dialer := Some d\<rparr>"

definition release :: "'st HostState \<Rightarrow> ('u, 'st) YBClient \<Rightarrow> ('u, 'st) YBClient" where
  "release h c = c\<lparr>released := released c @ [HostState_Close h]\<rparr>"

text \<open>
  The loop of \<open>Connect\<close> over the masters. \<open>Ok err\<close> is its end, with the error variable \<open>err\<close> of the
  function, which only \<open>NewHostState\<close> assigns (the inner \<open>err\<close> shadows it); \<open>Error\<close> is an early return.
\<close>

fun try_masters ::
  "('u, 'st) env \<Rightarrow> dialer \<Rightarrow> host_port list \<Rightarrow> goerror option \<Rightarrow> ('u, 'st) YBClient \<Rightarrow>
   goerror option res \<times> ('u, 'st) YBClient" where
  "try_masters env d [] err c = (Ok err, c)"
| "try_masters env d (m # ms) err c =
     (case NewHostState env m d of
        Error e \<Rightarrow> try_masters env d ms (Some e) c
      | Panic p \<Rightarrow> (Panic p, c)
      | Ok h \<Rightarrow>
          (case ListTabletServers env False h of
             (Error e, h1) \<Rightarrow> (Error e, c)
           | (Panic p, h1) \<Rightarrow> (Panic p, c)
           | (Ok resp, h1) \<Rightarrow>
               (case ListError resp of
                  Some merr \<Rightarrow>
                    if ErrorCode merr = NOT_THE_LEADER
                    then try_masters env d ms None (release h1 c)
                    else (Error (Err (''ListTabletServers returned error: '' @ ErrorText merr)), c)
                | None \<Rightarrow>
                    try_masters env d ms None (c\<lparr>Master := Some h1, tabletServers := Some resp\<rparr>))))"

function (sequential) Connect :: "('u, 'st) env \<Rightarrow> ('u, 'st) YBClient \<Rightarrow> unit res \<times> ('u, 'st) YBClient" where
  "Connect env c =
     (case GetDialer env (c\<lparr>tServersUUIDMap := Map.empty\<rparr>) of
        (Error e, c1) \<Rightarrow> (Error e, c1)
      | (Panic p, c1) \<Rightarrow> (Panic p, c1)
      | (Ok d, c1) \<Rightarrow>
          (case try_masters env d (Masters (Config c1)) None c1 of
             (Error e, c2) \<Rightarrow> (Error e, c2)
           | (Panic p, c2) \<Rightarrow> (Panic p, c2)
           | (Ok err, c2) \<Rightarrow>
               if Master c2 = None then
                 if HasTLS (TlsOpts (Config c2))
                 then Connect env (c2\<lparr>Config := (Config c2)\<lparr>TlsOpts := None\<rparr>, client_dialer := None\<rparr>)
                 else (Error (Err ''could not connect to master leader''), c2)
               else (case err of None \<Rightarrow> (Ok (), c2) | Some e \<Rightarrow> (Error e, c2))))"
  by pat_completeness auto

lemma HasTLS_None [simp]: "\<not> HasTLS None"
  by (simp add: HasTLS_def)

lemma GetDialer_Config [simp]: "Config (snd (GetDialer env c)) = Config c"
  by (auto simp: GetDialer_def Let_def andThen_def split: option.split res.split)

lemma release_simps [simp]:
  "Config (release h c) = Config c" "Master (release h c) = Master c"
  "tabletServers (release h c) = tabletServers c" "client_dialer (release h c) = client_dialer c"
  "tServersUUIDMap (release h c) = tServersUUIDMap c"
  by (simp_all add: release_def)

lemma try_masters_Config [simp]: "Config (snd (try_masters env d ms err c)) = Config c"
  by (induction ms arbitrary: err c) (auto split: res.split option.split prod.split)

termination Connect
proof (relation "measure (\<lambda>(env, c). if HasTLS (TlsOpts (Config c)) then 1 else 0)", simp, goal_cases)
  case (1 env c r c1 d r2 c2 err)
  have "Config c1 = Config c" using GetDialer_Config [of env "c\<lparr>tServersUUIDMap := Map.empty\<rparr>"] 1(1)
    by (metis YBClient.select_convs(1) YBClient.surjective YBClient.update_convs(3) snd_conv)
  moreover have "Config c2 = Config c1"
    using try_masters_Config [of env d "Masters (Config c1)" None c1] 1 by (metis snd_conv)
  ultimately show ?case using 1 by simp
qed

declare Connect.simps [simp del]

text \<open>\<open>GetPrivateRpcAddresses()[0]\<close> of the server with the given UUID.\<close>

fun find_tserver :: "('u, 'st) env \<Rightarrow> 'u \<Rightarrow> dialer \<Rightarrow> TabletServer list \<Rightarrow> 'st HostState res" where
  "find_tserver env u d [] = Error (Err (''host '' @ uuid_string env u @ '' not found in known tserver list''))"
| "find_tserver env u d (server # servers) =
     bind_res (parse_uuid env (PermanentUuid server)) (\<lambda>tsuuid.
       if uuid_string env tsuuid = uuid_string env u then
         (case PrivateRpcAddresses server of
            None \<Rightarrow> Panic ''nil pointer dereference''
          | Some [] \<Rightarrow> Panic ''index out of range''
          | Some (rpcAddress # _) \<Rightarrow> NewHostState env rpcAddress d)
       else find_tserver env u d servers)"

definition known_servers :: "('u, 'st) YBClient \<Rightarrow> TabletServer list" where
  "known_servers c = (case tabletServers c of None \<Rightarrow> [] | Some r \<Rightarrow> Servers r)"

definition dialTserver :: "('u, 'st) env \<Rightarrow> 'u \<Rightarrow> ('u, 'st) YBClient \<Rightarrow> 'st HostState res \<times> ('u, 'st) YBClient" where
  "dialTserver env u c = andThen (GetDialer env c) (\<lambda>d c1. (find_tserver env u d (known_servers c1), c1))"

text \<open>\<open>GetHostByUUID\<close> after the UUID has been parsed.\<close>

definition cached_host :: "('u, 'st) env \<Rightarrow> 'u \<Rightarrow> ('u, 'st) YBClient \<Rightarrow> 'st HostState res \<times> ('u, 'st) YBClient" where
  "cached_host env u c =
     (case tServersUUIDMap c u of
        Some h \<Rightarrow> (Ok h, c)
      | None \<Rightarrow>
          andThen (dialTserver env u c) (\<lambda>h c1.
            (Ok h, c1\<lparr>tServersUUIDMap := (tServersUUIDMap c1)(u \<mapsto> h)\<rparr>)))"

definition GetHostByUUID ::
  "('u, 'st) env \<Rightarrow> string \<Rightarrow> ('u, 'st) YBClient \<Rightarrow> 'st HostState res \<times> ('u, 'st) YBClient" where
  "GetHostByUUID env permanentUUID c =
     andThen (parse_uuid env permanentUUID, c) (\<lambda>u c. cached_host env u c)"

text \<open>\<open>AllTservers\<close> goes on after an error; only a panic ends it.\<close>

fun collect_hosts ::
  "('u, 'st) env \<Rightarrow> TabletServer list \<Rightarrow> ('u, 'st) YBClient \<Rightarrow>
   ('st HostState list \<times> goerror list) res \<times> ('u, 'st) YBClient" where
  "collect_hosts env [] c = (Ok ([], []), c)"
| "collect_hosts env (host # hosts) c =
     (case GetHostByUUID env (PermanentUuid host) c of
        (Panic p, c1) \<Rightarrow> (Panic p, c1)
      | (Error e, c1) \<Rightarrow>
          andThen (collect_hosts env hosts c1) (\<lambda>(hs, es) c2. (Ok (hs, e # es), c2))
      | (Ok h, c1) \<Rightarrow>
          andThen (collect_hosts env hosts c1) (\<lambda>(hs, es) c2. (Ok (h # hs, es), c2)))"

definition AllTservers ::
  "('u, 'st) env \<Rightarrow> ('u, 'st) YBClient \<Rightarrow> ('st HostState list \<times> goerror list) res \<times> ('u, 'st) YBClient" where
  "AllTservers env c = collect_hosts env (known_servers c) c"

definition TserverCount :: "('u, 'st) YBClient \<Rightarrow> nat" where
  "TserverCount c = length (known_servers c)"

text \<open>
  \<open>Close\<close>. The cached connections are the values of a Go map, closed in the order \<open>uuids\<close> in which the
  map is iterated; a nil \<open>Master\<close> is dereferenced.
\<close>

definition YBClient_Close :: "'u list \<Rightarrow> ('u, 'st) YBClient \<Rightarrow> unit res \<times> ('u, 'st) YBClient" where
  "YBClient_Close uuids c =
     (case Master c of
        None \<Rightarrow> (Panic ''nil pointer dereference'', c)
      | Some m \<Rightarrow>
          (Ok (), fold (\<lambda>u c. case tServersUUIDMap c u of Some h \<Rightarrow> release h c | None \<Rightarrow> c) uuids (release m c)))"

subsection \<open>Connecting\<close>

lemma Connect_unfold:
  assumes "GetDialer env (c\<lparr>tServersUUIDMap := Map.empty\<rparr>) = (Ok d, c1)"
  shows "Connect env c =
    (case try_masters env d (Masters (Config c1)) None c1 of
       (Error e, c2) \<Rightarrow> (Error e, c2)
     | (Panic p, c2) \<Rightarrow> (Panic p, c2)
     | (Ok err, c2) \<Rightarrow>
         if Master c2 = None then
           if HasTLS (TlsOpts (Config c2))
           then Connect env (c2\<lparr>Config := (Config c2)\<lparr>TlsOpts := None\<rparr>, client_dialer := None\<rparr>)
           else (Error (Err ''could not connect to master leader''), c2)
         else (case err of None \<Rightarrow> (Ok (), c2) | Some e \<Rightarrow> (Error e, c2)))"
  by (subst Connect.simps) (simp add: assms)

text \<open>What \<open>Connect\<close> relies on when it succeeds: the host that listed the tablet servers.\<close>

definition leads :: "('u, 'st) env \<Rightarrow> host_port list \<Rightarrow> ('u, 'st) YBClient \<Rightarrow> bool" where
  "leads env ms c \<longleftrightarrow>
     (\<exists>m d h0 h resp. m \<in> set ms \<and> NewHostState env m d = Ok h0
        \<and> ListTabletServers env False h0 = (Ok resp, h) \<and> ListError resp = None
        \<and> Master c = Some h \<and> tabletServers c = Some resp)"

lemma leads_mono: "leads env ms c \<Longrightarrow> set ms \<subseteq> set ms' \<Longrightarrow> leads env ms' c"
  unfolding leads_def by blast

lemma leads_release: "leads env ms (release h c) = leads env ms c"
  by (simp add: leads_def)

lemma try_masters_leads:
  assumes "try_masters env d ms err c = (Ok err', c')" and "Master c = None \<or> leads env ms0 c" and "set ms \<subseteq> set ms0"
  shows "Master c' = None \<or> leads env ms0 c'"
  using assms
proof (induction ms arbitrary: err c)
  case Nil
  then show ?case by simp
next
  case (Cons m ms)
  have sub: "set ms \<subseteq> set ms0" using Cons.prems(3) by simp
  show ?case
  proof (cases "NewHostState env m d")
    case (Error e)
    then show ?thesis using Cons.prems Cons.IH [OF _ Cons.prems(2) sub] by simp
  next
    case (Panic p)
    then show ?thesis using Cons.prems by simp
  next
    case (Ok h0)
    obtain r h where l: "ListTabletServers env False h0 = (r, h)" by force
    show ?thesis
    proof (cases r)
      case resp: (Ok resp)
      show ?thesis
      proof (cases "ListError resp")
        case None
        have "leads env ms0 (c\<lparr>Master := Some h, tabletServers := Some resp\<rparr>)"
          unfolding leads_def using Ok l resp None Cons.prems(3) by auto
        then show ?thesis using Cons.prems(1) Cons.IH [OF _ _ sub] Ok l resp None by auto
      next
        case (Some merr)
        have "Master (release h c) = None \<or> leads env ms0 (release h c)"
          using Cons.prems(2) by (simp add: leads_release)
        then show ?thesis using Cons.prems(1) Cons.IH [OF _ _ sub] Ok l resp Some by (auto split: if_splits)
      qed
    qed (use Cons.prems(1) Ok l in auto)
  qed
qed

lemma GetDialer_frame [simp]:
  "Master (snd (GetDialer env c)) = Master c" "tabletServers (snd (GetDialer env c)) = tabletServers c"
  "tServersUUIDMap (snd (GetDialer env c)) = tServersUUIDMap c" "released (snd (GetDialer env c)) = released c"
  by (auto simp: GetDialer_def Let_def andThen_def split: option.split res.split)

lemma try_masters_append:
  "try_masters env d (ms @ ms') err c =
     (case try_masters env d ms err c of
        (Ok err', c') \<Rightarrow> try_masters env d ms' err' c'
      | (Error e, c') \<Rightarrow> (Error e, c')
      | (Panic p, c') \<Rightarrow> (Panic p, c'))"
  by (induction ms arbitrary: err c) (auto split: res.split option.split prod.split)

lemma Connect_leads:
  "Connect env c = (Ok (), c') \<Longrightarrow> Master c = None \<Longrightarrow> leads env (Masters (Config c)) c'"
proof (induction env c rule: Connect.induct)
  case (1 env c)
  obtain r c1 where g: "GetDialer env (c\<lparr>tServersUUIDMap := Map.empty\<rparr>) = (r, c1)" by force
  have m1: "Master c1 = None" "Config c1 = Config c"
    using GetDialer_frame(1) [of env "c\<lparr>tServersUUIDMap := Map.empty\<rparr>"]
      GetDialer_Config [of env "c\<lparr>tServersUUIDMap := Map.empty\<rparr>"] 1(3) by (simp_all add: g)
  from 1(2) obtain d where r: "r = Ok d" by (cases r) (auto simp: Connect.simps [of env c] g)
  obtain r2 c2 where t: "try_masters env d (Masters (Config c1)) None c1 = (r2, c2)" by force
  note unf = 1(2) [unfolded Connect_unfold [OF g [unfolded r]] t]
  from unf obtain err where r2: "r2 = Ok err" by (cases r2) auto
  have l2: "Master c2 = None \<or> leads env (Masters (Config c)) c2"
    using try_masters_leads [OF t [unfolded r2]] m1 by auto
  have cfg: "Config c2 = Config c" using try_masters_Config [of env d "Masters (Config c1)" None c1, unfolded t snd_conv] m1 by simp
  show ?case
  proof (cases "Master c2 = None")
    case True
    then have tls: "HasTLS (TlsOpts (Config c2))" using unf r2 by (auto split: if_splits)
    let ?c = "c2\<lparr>Config := (Config c2)\<lparr>TlsOpts := None\<rparr>, client_dialer := None\<rparr>"
    have "Connect env ?c = (Ok (), c')" using unf r2 True tls by simp
    moreover have "Master ?c = None" using True by simp
    ultimately have "leads env (Masters (Config ?c)) c'"
      using 1(1) [OF g [symmetric] r t [symmetric] r2 True tls] by blast
    then show ?thesis using cfg by simp
  next
    case False
    then have "c' = c2" using unf r2 by (auto split: option.splits)
    then show ?thesis using l2 False by simp
  qed
qed

lemma Connect_config: "TlsOpts (Config (snd (Connect env c))) \<in> {TlsOpts (Config c), None}"
proof (induction env c rule: Connect.induct)
  case (1 env c)
  obtain r c1 where g: "GetDialer env (c\<lparr>tServersUUIDMap := Map.empty\<rparr>) = (r, c1)" by force
  have m1: "Config c1 = Config c"
    using GetDialer_Config [of env "c\<lparr>tServersUUIDMap := Map.empty\<rparr>"] by (simp add: g)
  show ?case
  proof (cases r)
    case (Ok d)
    obtain r2 c2 where t: "try_masters env d (Masters (Config c1)) None c1 = (r2, c2)" by force
    have cfg: "Config c2 = Config c" using try_masters_Config [of env d "Masters (Config c1)" None c1, unfolded t snd_conv] m1 by simp
    show ?thesis
    proof (cases "\<exists>err. r2 = Ok err \<and> Master c2 = None \<and> HasTLS (TlsOpts (Config c2))")
      case True
      then obtain err where e: "r2 = Ok err" "Master c2 = None" "HasTLS (TlsOpts (Config c2))" by blast
      have "Connect env c = Connect env (c2\<lparr>Config := (Config c2)\<lparr>TlsOpts := None\<rparr>, client_dialer := None\<rparr>)"
        using e by (simp add: Connect_unfold [OF g [unfolded Ok]] t)
      then show ?thesis using 1 [OF g [symmetric] Ok t [symmetric] e] by simp
    next
      case False
      then have "snd (Connect env c) = c2"
        by (cases r2) (auto simp: Connect_unfold [OF g [unfolded Ok]] t split: option.split)
      then show ?thesis using cfg by simp
    qed
  qed (simp_all add: Connect.simps [of env c] g m1)
qed

text \<open>A successful call has written its whole frame.\<close>

lemma SendMessage_Ok:
  assumes "SendMessage cd service method q resp s = (Ok r, s')" "write_plan (sconn s) = []"
  shows "\<exists>f. request_frame cd (call_header service method s) q = Ok f \<and> length f < 2 ^ 32
    \<and> outbox (sconn s') = outbox (sconn s) @ be32 (length f) @ f
    \<and> messageCount s' = messageCount s + 1 \<and> write_plan (sconn s') = []"
proof -
  obtain f where f: "request_frame cd (call_header service method s) q = Ok f"
    using assms(1)
    by (cases "request_frame cd (call_header service method s) q")
       (auto simp: SendMessage_def GenerateCallID_def call_header_def Let_def)
  have len: "length f < 2 ^ 32"
  proof (rule ccontr)
    assume "\<not> length f < 2 ^ 32"
    then have "length f \<noteq> length f mod 2 ^ 32" by (metis mod_less_divisor zero_less_numeral zero_less_power)
    then show False
      using assms f
      by (simp add: SendMessage_def GenerateCallID_def call_header_def Let_def Session_Write_all)
  qed
  note sent = SendMessage_writes [OF f len assms(2), of resp]
  let ?s1 = "s\<lparr>messageCount := messageCount s + 1,
      sconn := (sconn s)\<lparr>outbox := outbox (sconn s) @ be32 (length f) @ f\<rparr>\<rparr>"
  have "only_read ?s1 s'"
    using GetResponse_only [of ?s1 cd "messageCount s + 1" resp] assms(1) by (simp add: sent)
  from only_readD [OF this] show ?thesis using f len assms(2) by auto
qed

lemma handshake:
  assumes "NewHostState env host d = Ok h" and "net env d (HostPortString host) = Ok k" and "write_plan k = []"
  shows "\<exists>f1 f2. request_frame (ping_codec env)
        \<lparr>CallId = 1, ServiceName = ''yb.server.GenericService'', MethodName = ''Ping'', TimeoutMillis = 3000\<rparr> () = Ok f1
    \<and> request_frame (status_codec env)
        \<lparr>CallId = 2, ServiceName = ''yb.server.GenericService'', MethodName = ''GetStatus'', TimeoutMillis = 3000\<rparr> () = Ok f2
    \<and> outbox (sconn (session h)) = outbox k @ [89, 66, 1] @ be32 (length f1) @ f1 @ be32 (length f2) @ f2
    \<and> messageCount (session h) = 2"
proof -
  let ?s0 = "\<lparr>sconn = k, messageCount = 0, Host = host\<rparr>"
  let ?s1 = "?s0\<lparr>sconn := k\<lparr>outbox := outbox k @ [89, 66, 1]\<rparr>\<rparr>"
  have hello: "writeHello ?s0 = (Ok (), ?s1)"
    using assms(3) by (simp add: writeHello_def Session_Write_all)
  obtain r s2 where p: "ping env ?s1 = (r, s2)" by force
  have con: "NewSession (net env d) (ping env) host
      = (case (r, s2) of (Error e, s2) \<Rightarrow> (Error e, snd (Session_Close s2)) | r \<Rightarrow> r)"
    using hello p by (simp add: NewSession_def Session_Connect_def assms(2))
  have r: "r = Ok ()" using assms(1) by (cases r) (simp_all add: NewHostState_def con)
  obtain r3 s3 where st: "SendMessage (status_codec env) ''yb.server.GenericService'' ''GetStatus'' () (no_status env) s2
      = (r3, s3)" by force
  from assms(1) obtain status where r3: "r3 = Ok status" "h = \<lparr>session = s3, Status = status\<rparr>"
    by (cases r3) (auto simp: NewHostState_def con r st)
  have w1: "write_plan (sconn ?s1) = []" using assms(3) by simp
  from SendMessage_Ok [OF p [unfolded r ping_def] w1] obtain f1 where f1:
    "request_frame (ping_codec env) (call_header ''yb.server.GenericService'' ''Ping'' ?s1) () = Ok f1"
    "outbox (sconn s2) = outbox (sconn ?s1) @ be32 (length f1) @ f1" "messageCount s2 = 1" "write_plan (sconn s2) = []"
    by auto
  from SendMessage_Ok [OF st [unfolded r3] f1(4)] obtain f2 where f2:
    "request_frame (status_codec env) (call_header ''yb.server.GenericService'' ''GetStatus'' s2) () = Ok f2"
    "outbox (sconn s3) = outbox (sconn s2) @ be32 (length f2) @ f2" "messageCount s3 = 2"
    using f1(3) by auto
  show ?thesis using f1 f2 r3(2) by (auto simp: call_header_def)
qed

subsection \<open>The cache of hosts\<close>

text \<open>
  A lookup that remembers what it made: a hit changes nothing, a successful miss is remembered, and
  no other entry is touched or forgotten.
\<close>

locale memo =
  fixes look :: "'s \<Rightarrow> 'k \<Rightarrow> 'v option"
    and get :: "'k \<Rightarrow> 's \<Rightarrow> 'v res \<times> 's"
  assumes hit: "look s k = Some v \<Longrightarrow> get k s = (Ok v, s)"
    and miss: "get k s = (Ok v, s') \<Longrightarrow> look s' k = Some v"
    and frame: "get k s = (r, s') \<Longrightarrow> k' \<noteq> k \<Longrightarrow> look s' k' = look s k'"
begin

lemma again: "get k s = (Ok v, s') \<Longrightarrow> get k s' = (Ok v, s')"
  by (intro hit miss)

lemma kept: "get k s = (r, s') \<Longrightarrow> look s k' = Some v \<Longrightarrow> look s' k' = Some v"
  using hit [of s k' v] frame [of k s r s' k'] by (cases "k' = k") auto

lemma kept_all: "look s k' = Some v \<Longrightarrow> look (fold (\<lambda>k s. snd (get k s)) ks s) k' = Some v"
proof (induction ks arbitrary: s)
  case Nil
  then show ?case by simp
next
  case (Cons k ks)
  obtain r s' where "get k s = (r, s')" by force
  then show ?case using Cons.IH [of s'] kept [of k s r s' k' v] Cons.prems by simp
qed

lemma stable: "get k s = (Ok v, s') \<Longrightarrow> fst (get k (fold (\<lambda>k s. snd (get k s)) ks s')) = Ok v"
  using kept_all [OF miss] hit by fastforce

end

lemma dialTserver_map: "tServersUUIDMap (snd (dialTserver env u c)) = tServersUUIDMap c"
proof -
  obtain r c1 where g: "GetDialer env c = (r, c1)" by force
  then have "tServersUUIDMap c1 = tServersUUIDMap c" using GetDialer_frame(3) [of env c] by simp
  then show ?thesis by (cases r) (simp_all add: dialTserver_def g)
qed

interpretation host_cache: memo tServersUUIDMap "cached_host env" for env :: "('u, 'st) env"
proof
  fix c c' :: "('u, 'st) YBClient" and u u' v r
  show "tServersUUIDMap c u = Some v \<Longrightarrow> cached_host env u c = (Ok v, c)"
    by (simp add: cached_host_def)
  show "cached_host env u c = (Ok v, c') \<Longrightarrow> tServersUUIDMap c' u = Some v"
    by (auto simp: cached_host_def andThen_eq_Ok split: option.splits)
  show "cached_host env u c = (r, c') \<Longrightarrow> u' \<noteq> u \<Longrightarrow> tServersUUIDMap c' u' = tServersUUIDMap c u'"
    using dialTserver_map [of env u c]
    by (auto simp: cached_host_def andThen_def split: option.splits prod.splits res.splits)
qed

text \<open>Every cached host was dialled at the address the master registered for its UUID.\<close>

definition from_server :: "('u, 'st) env \<Rightarrow> ('u, 'st) YBClient \<Rightarrow> 'u \<Rightarrow> 'st HostState \<Rightarrow> bool" where
  "from_server env c u h \<longleftrightarrow>
     (\<exists>server addr addrs d u'. server \<in> set (known_servers c) \<and> parse_uuid env (PermanentUuid server) = Ok u'
        \<and> uuid_string env u' = uuid_string env u \<and> PrivateRpcAddresses server = Some (addr # addrs)
        \<and> NewHostState env addr d = Ok h)"

definition cache_ok :: "('u, 'st) env \<Rightarrow> ('u, 'st) YBClient \<Rightarrow> bool" where
  "cache_ok env c \<longleftrightarrow> (\<forall>u h. tServersUUIDMap c u = Some h \<longrightarrow> from_server env c u h)"

lemma find_tserver_Ok:
  "find_tserver env u d servers = Ok h \<Longrightarrow>
   \<exists>server addr addrs u'. server \<in> set servers \<and> parse_uuid env (PermanentUuid server) = Ok u'
     \<and> uuid_string env u' = uuid_string env u \<and> PrivateRpcAddresses server = Some (addr # addrs)
     \<and> NewHostState env addr d = Ok h"
proof (induction servers)
  case Nil
  then show ?case by simp
next
  case (Cons server servers)
  then show ?case
    by (auto simp: bind_res_eq_Ok split: if_splits option.splits list.splits)
qed

lemma known_servers_GetDialer [simp]: "known_servers (snd (GetDialer env c)) = known_servers c"
  by (simp add: known_servers_def)

lemma cached_host_servers: "known_servers (snd (cached_host env u c)) = known_servers c"
proof (cases "tServersUUIDMap c u")
  case None
  obtain r c1 where g: "GetDialer env c = (r, c1)" by force
  then have "known_servers c1 = known_servers c" using known_servers_GetDialer [of env c] by simp
  then show ?thesis
    using None by (cases r; cases "find_tserver env u (case r of Ok d \<Rightarrow> d) (known_servers c1)")
      (auto simp: cached_host_def dialTserver_def g known_servers_def)
qed (simp add: cached_host_def)

lemma from_server_cong: "known_servers c' = known_servers c \<Longrightarrow> from_server env c' u h = from_server env c u h"
  by (simp add: from_server_def)

lemma cached_host_ok:
  assumes "cache_ok env c" shows "cache_ok env (snd (cached_host env u c))"
proof -
  obtain r c' where e: "cached_host env u c = (r, c')" by force
  have k: "known_servers c' = known_servers c" using cached_host_servers [of env u c] by (simp add: e)
  have "from_server env c v h" if "tServersUUIDMap c' v = Some h" for v h
  proof (cases "tServersUUIDMap c v")
    case (Some h')
    then have "h' = h" using host_cache.kept [OF e Some] that by simp
    then show ?thesis using assms Some by (auto simp: cache_ok_def)
  next
    case None
    then have v: "v = u" using host_cache.frame [OF e, of v] that by auto
    with None e that obtain h1 c1 where "dialTserver env u c = (Ok h1, c1)" "h = h1"
      using dialTserver_map [of env u c]
      by (auto simp: cached_host_def andThen_def split: prod.splits res.splits)
    then obtain d c2 where "GetDialer env c = (Ok d, c2)" "find_tserver env u d (known_servers c2) = Ok h"
      by (auto simp: dialTserver_def andThen_eq_Ok)
    moreover have "known_servers c2 = known_servers c"
      using known_servers_GetDialer [of env c] calculation(1) by simp
    ultimately show ?thesis using find_tserver_Ok [of env u d "known_servers c" h]
      unfolding from_server_def v by (simp only:) blast
  qed
  then show ?thesis using from_server_cong [OF k] by (simp add: cache_ok_def e)
qed

lemma collect_hosts_length:
  "collect_hosts env servers c = (Ok (hs, es), c') \<Longrightarrow> length hs + length es = length servers"
proof (induction servers arbitrary: c hs es c')
  case Nil
  then show ?case by simp
next
  case (Cons s servers)
  obtain r c1 where "GetHostByUUID env (PermanentUuid s) c = (r, c1)" by force
  then show ?case using Cons by (cases r) (fastforce simp: andThen_eq_Ok)+
qed

subsection \<open>Properties\<close>

text \<open>A concrete environment: the plain dialer reaches \<open>m1:7100\<close>, whose peer answers three calls with
  empty bodies; nothing else can be reached.\<close>

definition echo_codec :: "('q, 'r) codec" where
  "echo_codec =
     \<lparr>marshal_header = (\<lambda>h. Ok [ucast (CallId h)]), marshal_body = (\<lambda>_. Ok []),
      unmarshal_header = (\<lambda>bs. Ok (Some (ucast (hd bs)))), unmarshal_body = (\<lambda>_. Error EOF)\<rparr>"

definition empty_reply :: "32 word \<Rightarrow> read_event list" where
  "empty_reply i = [Data (be32 3), Data [1, ucast i, 0]]"

definition sample_conn :: conn where
  "sample_conn =
     \<lparr>inbox = empty_reply 1 @ empty_reply 2 @ empty_reply 3, write_plan = [], outbox = [], closed = False\<rparr>"

definition sample_env :: "(string, nat) env" where
  "sample_env =
     \<lparr>net = (\<lambda>d addr. if d = NetDialer 10 \<and> addr = ''m1:7100'' then Ok sample_conn else Error EOF),
      read_file = Ok, append_certs = (\<lambda>f. Some [f]), x509_key_pair = (\<lambda>c k. Ok c), parse_uuid = Ok,
      uuid_string = (\<lambda>u. u), ping_codec = echo_codec, status_codec = echo_codec, list_codec = echo_codec,
      no_status = 0\<rparr>"

definition m1 :: host_port where "m1 = \<lparr>hp_host = ''m1'', hp_port = 7100\<rparr>"
definition m2 :: host_port where "m2 = \<lparr>hp_host = ''m2'', hp_port = 7100\<rparr>"

definition sample_client :: "host_port list \<Rightarrow> TlsOptionsPB option \<Rightarrow> (string, nat) YBClient" where
  "sample_client ms tls =
     \<lparr>Config = \<lparr>Masters = ms, TimeoutSeconds = 10, TlsOpts = tls\<rparr>, Master = None, tServersUUIDMap = Map.empty,
      client_dialer = None, tabletServers = None, released = []\<rparr>"

lemma read_body_exact:
  "inbox (sconn s) = Data d # es \<Longrightarrow> d \<noteq> [] \<Longrightarrow> read_body (length d) buf s = (Ok (buf @ d), set_inbox es s)"
  using Session_Read_data [of s d es "length d"]
  by (subst read_body.simps) (simp add: read_body.simps)

lemma GetResponse_exact:
  assumes "inbox (sconn s) = Data (be32 (length f)) # Data f # es" "f \<noteq> []" "length f < 2 ^ 32"
  shows "GetResponse cd i resp s = (decode_response cd i f resp, set_inbox es s)"
proof -
  have "getMessageLen s = (Ok (length f), set_inbox (Data f # es) s)"
    using getMessageLen_length [of s "length f" "[]" "Data f # es"] assms by simp
  then show ?thesis
    using read_body_exact [of "set_inbox (Data f # es) s" f es "[]"] assms(2) by (simp add: GetResponse_def)
qed

lemma sample_call:
  fixes q :: 'q and resp :: 'r
  assumes "inbox (sconn s) = empty_reply (messageCount s + 1) @ es" "write_plan (sconn s) = []"
    "(ucast (ucast (messageCount s + 1) :: byte) :: 32 word) = messageCount s + 1"
  shows "\<exists>s'. SendMessage echo_codec service method q resp s = (Ok resp, s') \<and> inbox (sconn s') = es
    \<and> messageCount s' = messageCount s + 1 \<and> write_plan (sconn s') = []"
proof -
  let ?i = "messageCount s + 1"
  let ?f = "[1, ucast ?i, 0] :: bytes"
  have f: "request_frame (echo_codec :: ('q, 'r) codec) (call_header service method s) q = Ok [1, ucast ?i, 0]"
    by (simp add: request_frame_def echo_codec_def put_length_def put_uvarint.simps call_header_def)
  have "length [1, ucast ?i, 0 :: byte] < 2 ^ 32" by simp
  note sent = SendMessage_writes [OF f this assms(2), of resp]
  let ?s1 = "s\<lparr>messageCount := ?i, sconn := (sconn s)\<lparr>outbox := outbox (sconn s) @ be32 (length ?f) @ ?f\<rparr>\<rparr>"
  have "inbox (sconn ?s1) = Data (be32 (length ?f)) # Data ?f # es"
    using assms(1) by (simp add: empty_reply_def numeral_3_eq_3)
  from GetResponse_exact [OF this, of "echo_codec :: ('q, 'r) codec" ?i resp]
  have "GetResponse (echo_codec :: ('q, 'r) codec) ?i resp ?s1 = (decode_response (echo_codec :: ('q, 'r) codec) ?i ?f resp, set_inbox es ?s1)" by simp
  moreover have "decode_response (echo_codec :: ('q, 'r) codec) ?i ?f resp = Ok resp"
    using assms(3) by (simp add: decode_response_def uvarint_def echo_codec_def sub_slice_def)
  ultimately have "SendMessage echo_codec service method q resp s = (Ok resp, set_inbox es ?s1)"
    unfolding sent by simp
  then show ?thesis using assms(2) by simp
qed

lemma sample_digits: "digit_char 7 = CHR ''7''" "digit_char 1 = CHR ''1''" "digit_char 0 = CHR ''0''"
  by code_simp+

lemma dec_7100: "dec_of_nat 7100 = ''7100''"
  by (simp add: dec_of_nat.simps sample_digits sample_digits [unfolded One_nat_def])

lemma m1_string: "HostPortString m1 = ''m1:7100''"
  using IsBasicIPv6_colon [of "''m1''"] by (auto simp: m1_def HostPortString_def dec_7100)

lemma m2_string: "HostPortString m2 = ''m2:7100''"
  using IsBasicIPv6_colon [of "''m2''"] by (auto simp: m2_def HostPortString_def dec_7100)

lemma sample_net: "net sample_env (NetDialer 10) (HostPortString m1) = Ok sample_conn"
  by (simp add: sample_env_def m1_string)

lemma sample_host:
  "\<exists>h. NewHostState sample_env m1 (NetDialer 10) = Ok h \<and> inbox (sconn (session h)) = empty_reply 3
     \<and> messageCount (session h) = 2 \<and> write_plan (sconn (session h)) = []"
proof -
  let ?s0 = "\<lparr>sconn = sample_conn, messageCount = 0, Host = m1\<rparr>"
  let ?s1 = "?s0\<lparr>sconn := sample_conn\<lparr>outbox := outbox sample_conn @ [89, 66, 1]\<rparr>\<rparr>"
  have hello: "writeHello ?s0 = (Ok (), ?s1)"
    by (simp add: writeHello_def Session_Write_all sample_conn_def)
  from sample_call [of ?s1 "empty_reply 2 @ empty_reply 3" "''yb.server.GenericService''" "''Ping''" "()" "()"]
  obtain s2 where ping: "ping sample_env ?s1 = (Ok (), s2)"
    and s2: "inbox (sconn s2) = empty_reply 2 @ empty_reply 3" "messageCount s2 = 1" "write_plan (sconn s2) = []"
    by (auto simp: ping_def sample_env_def sample_conn_def)
  from sample_call [of s2 "empty_reply 3" "''yb.server.GenericService''" "''GetStatus''" "()" 0] s2
  obtain s3 where st: "SendMessage echo_codec ''yb.server.GenericService'' ''GetStatus'' () (0::nat) s2 = (Ok 0, s3)"
    and s3: "inbox (sconn s3) = empty_reply 3" "messageCount s3 = 2" "write_plan (sconn s3) = []"
    by auto
  have "NewSession (net sample_env (NetDialer 10)) (ping sample_env) m1 = (Ok (), s2)"
    using hello ping by (simp add: NewSession_def Session_Connect_def sample_net)
  then have "NewHostState sample_env m1 (NetDialer 10) = Ok \<lparr>session = s3, Status = 0\<rparr>"
    using st by (simp add: NewHostState_def) (simp add: sample_env_def)
  then show ?thesis using s3 by auto
qed

lemma sample_list:
  "\<exists>h0 h. NewHostState sample_env m1 (NetDialer 10) = Ok h0
     \<and> ListTabletServers sample_env False h0 = (Ok \<lparr>ListError = None, Servers = []\<rparr>, h)"
proof -
  obtain h0 where h0: "NewHostState sample_env m1 (NetDialer 10) = Ok h0"
    "inbox (sconn (session h0)) = empty_reply 3" "messageCount (session h0) = 2" "write_plan (sconn (session h0)) = []"
    using sample_host by blast
  from sample_call [of "session h0" "[]" "''yb.master.MasterService''" "''ListTabletServers''" False
      "\<lparr>ListError = None, Servers = []\<rparr>"] h0(2-)
  obtain s where "SendMessage echo_codec ''yb.master.MasterService'' ''ListTabletServers'' False
      \<lparr>ListError = None, Servers = []\<rparr> (session h0) = (Ok \<lparr>ListError = None, Servers = []\<rparr>, s)" by auto
  then have "ListTabletServers sample_env False h0 = (Ok \<lparr>ListError = None, Servers = []\<rparr>, h0\<lparr>session := s\<rparr>)"
    by (simp add: ListTabletServers_def) (simp add: sample_env_def)
  then show ?thesis using h0(1) by blast
qed

lemma sample_unreachable: "d \<noteq> NetDialer 10 \<or> m = m2 \<Longrightarrow> \<exists>e. NewHostState sample_env m d = Error e"
  by (auto simp: NewHostState_def NewSession_def Session_Connect_def sample_env_def m2_string)


lemma sample_try:
  "\<exists>c'. try_masters sample_env (NetDialer 10) [m1] None c = (Ok None, c') \<and> Master c' \<noteq> None
     \<and> client_dialer c' = client_dialer c"
proof -
  obtain h0 h where "NewHostState sample_env m1 (NetDialer 10) = Ok h0"
    "ListTabletServers sample_env False h0 = (Ok \<lparr>ListError = None, Servers = []\<rparr>, h)" using sample_list by blast
  then show ?thesis by auto
qed

lemma sample_connect: "\<exists>c'. Connect sample_env (sample_client [m1] None) = (Ok (), c')"
proof -
  let ?c = "sample_client [m1] None"
  have g: "GetDialer sample_env (?c\<lparr>tServersUUIDMap := Map.empty\<rparr>) = (Ok (NetDialer 10), ?c\<lparr>client_dialer := Some (NetDialer 10)\<rparr>)"
    by (simp add: GetDialer_def sample_client_def Let_def)
  obtain c2 h where "try_masters sample_env (NetDialer 10) [m1] None (?c\<lparr>client_dialer := Some (NetDialer 10)\<rparr>) = (Ok None, c2)"
    "Master c2 = Some h" using sample_try by blast
  moreover have "Masters (Config (?c\<lparr>client_dialer := Some (NetDialer 10)\<rparr>)) = [m1]"
    by (simp add: sample_client_def)
  ultimately show ?thesis unfolding Connect_unfold [OF g] by (simp del: try_masters.simps)
qed

text \<open>when \<open>Connect\<close> succeeds the client has a leader: \<open>Master\<close> is a host among the configured
  masters that completed the handshake and answered \<open>ListTabletServers\<close> without an error, and that
  answer is the client's list of tablet servers.\<close>

theorem Connect_Ok_has_leader:
  assumes "Connect env c = (Ok (), c')" "Master c = None"
  shows "\<exists>m d h0 h resp. m \<in> set (Masters (Config c)) \<and> NewHostState env m d = Ok h0
    \<and> ListTabletServers env False h0 = (Ok resp, h) \<and> ListError resp = None
    \<and> Master c' = Some h \<and> tabletServers c' = Some resp"
  using Connect_leads [OF assms] unfolding leads_def .

theorem Connect_Ok_has_leader_witness:
  "\<exists>c' h. Connect sample_env (sample_client [m1] None) = (Ok (), c') \<and> Master c' = Some h"
proof -
  obtain c' where c': "Connect sample_env (sample_client [m1] None) = (Ok (), c')"
    using sample_connect by auto
  from Connect_Ok_has_leader [OF c'] c' show ?thesis by (auto simp: sample_client_def)
qed

text \<open>the answer of \<open>Connect\<close> depends on the order of the masters: if the last one cannot be reached,
  its error is returned although a leader was found among the others and is already set.\<close>

theorem Connect_error_despite_leader:
  assumes "GetDialer env (c\<lparr>tServersUUIDMap := Map.empty\<rparr>) = (Ok d, c1)"
    and "Masters (Config c) = ms @ [m]" and "try_masters env d ms None c1 = (Ok err, c2)"
    and "Master c2 \<noteq> None" and "NewHostState env m d = Error e"
  shows "Connect env c = (Error e, c2)"
proof -
  have "Config c1 = Config c"
    using GetDialer_Config [of env "c\<lparr>tServersUUIDMap := Map.empty\<rparr>", unfolded assms(1) snd_conv] by simp
  then have "try_masters env d (Masters (Config c1)) None c1 = (Ok (Some e), c2)"
    using assms(2,3,5) by (simp add: try_masters_append)
  moreover obtain h where "Master c2 = Some h" using assms(4) by blast
  ultimately show ?thesis by (simp add: Connect_unfold [OF assms(1)])
qed

theorem Connect_error_despite_leader_witness:
  "\<exists>e c'. Connect sample_env (sample_client [m1, m2] None) = (Error e, c') \<and> Master c' \<noteq> None"
proof -
  let ?c = "sample_client [m1, m2] None"
  have g: "GetDialer sample_env (?c\<lparr>tServersUUIDMap := Map.empty\<rparr>) = (Ok (NetDialer 10), ?c\<lparr>client_dialer := Some (NetDialer 10)\<rparr>)"
    by (simp add: GetDialer_def sample_client_def Let_def)
  obtain c2 where c2: "try_masters sample_env (NetDialer 10) [m1] None (?c\<lparr>client_dialer := Some (NetDialer 10)\<rparr>) = (Ok None, c2)"
    "Master c2 \<noteq> None" using sample_try by blast
  obtain e where e: "NewHostState sample_env m2 (NetDialer 10) = Error e" using sample_unreachable by blast
  have "Masters (Config ?c) = [m1] @ [m2]" by (simp add: sample_client_def)
  from Connect_error_despite_leader [OF g this c2 e] c2(2) show ?thesis by blast
qed

text \<open>TLS is dropped silently. When no master accepts the TLS dialer, \<open>Connect\<close> clears the TLS
  options and goes through the masters once more with a plain TCP dialer; that round is the last one,
  and its outcome is the outcome of \<open>Connect\<close>.\<close>

theorem Connect_downgrades_TLS:
  assumes "GetDialer env (c\<lparr>tServersUUIDMap := Map.empty\<rparr>) = (Ok d, c1)"
    and "try_masters env d (Masters (Config c1)) None c1 = (Ok err, c2)"
    and "Master c2 = None" "HasTLS (TlsOpts (Config c2))"
  shows "Connect env c =
    (let plain = NetDialer (TimeoutSeconds (Config c));
         c3 = c2\<lparr>Config := (Config c)\<lparr>TlsOpts := None\<rparr>, tServersUUIDMap := Map.empty, client_dialer := Some plain\<rparr>
     in case try_masters env plain (Masters (Config c)) None c3 of
          (Ok None, c4) \<Rightarrow> if Master c4 = None then (Error (Err ''could not connect to master leader''), c4) else (Ok (), c4)
        | (Ok (Some e), c4) \<Rightarrow> if Master c4 = None then (Error (Err ''could not connect to master leader''), c4) else (Error e, c4)
        | (Error e, c4) \<Rightarrow> (Error e, c4)
        | (Panic p, c4) \<Rightarrow> (Panic p, c4))"
proof -
  have cfg1: "Config c1 = Config c"
    using GetDialer_Config [of env "c\<lparr>tServersUUIDMap := Map.empty\<rparr>", unfolded assms(1) snd_conv] by simp
  have cfg2: "Config c2 = Config c"
    using try_masters_Config [of env d "Masters (Config c1)" None c1, unfolded assms(2) snd_conv] cfg1 by simp
  let ?plain = "NetDialer (TimeoutSeconds (Config c))"
  let ?c = "c2\<lparr>Config := (Config c2)\<lparr>TlsOpts := None\<rparr>, client_dialer := None\<rparr>"
  let ?c3 = "c2\<lparr>Config := (Config c)\<lparr>TlsOpts := None\<rparr>, tServersUUIDMap := Map.empty, client_dialer := Some ?plain\<rparr>"
  have again: "Connect env c = Connect env ?c"
    using assms(3,4) by (simp add: Connect_unfold [OF assms(1)] assms(2))
  have g: "GetDialer env (?c\<lparr>tServersUUIDMap := Map.empty\<rparr>) = (Ok ?plain, ?c3)"
    by (simp add: GetDialer_def cfg2 Let_def)
  obtain r c4 where t: "try_masters env ?plain (Masters (Config c)) None ?c3 = (r, c4)" by force
  have "\<not> HasTLS (TlsOpts (Config c4))"
    using try_masters_Config [of env ?plain "Masters (Config c)" None ?c3, unfolded t snd_conv] by simp
  then show ?thesis
    unfolding again Connect_unfold [OF g] Let_def using t
    by (cases r) (auto split: option.split)
qed

theorem Connect_downgrades_TLS_witness:
  "\<exists>c'. Connect sample_env (sample_client [m1] (Some \<lparr>SkipHostVerification = True, CaCertPath = [], CertPath = [], KeyPath = []\<rparr>))
     = (Ok (), c') \<and> client_dialer c' = Some (NetDialer 10)"
proof -
  let ?t = "\<lparr>SkipHostVerification = True, CaCertPath = [], CertPath = [], KeyPath = []\<rparr>"
  let ?d = "TLSDialer 10 \<lparr>InsecureSkipVerify = True, RootCAs = [], Certificates = []\<rparr>"
  let ?c = "sample_client [m1] (Some ?t)"
  have g: "GetDialer sample_env (?c\<lparr>tServersUUIDMap := Map.empty\<rparr>) = (Ok ?d, ?c\<lparr>client_dialer := Some ?d\<rparr>)"
    by (simp add: GetDialer_def sample_client_def Let_def HasTLS_def tls_of_def load_ca_def load_certificate_def)
  obtain e where e: "NewHostState sample_env m1 ?d = Error e" using sample_unreachable by blast
  have t: "try_masters sample_env ?d (Masters (Config (?c\<lparr>client_dialer := Some ?d\<rparr>))) None (?c\<lparr>client_dialer := Some ?d\<rparr>)
      = (Ok (Some e), ?c\<lparr>client_dialer := Some ?d\<rparr>)"
    using e by (simp add: sample_client_def)
  have m: "Master (?c\<lparr>client_dialer := Some ?d\<rparr>) = None" by (simp add: sample_client_def)
  have h: "HasTLS (TlsOpts (Config (?c\<lparr>client_dialer := Some ?d\<rparr>)))" by (simp add: sample_client_def HasTLS_def)
  let ?c3 = "sample_client [m1] None\<lparr>client_dialer := Some (NetDialer 10)\<rparr>"
  obtain c4 where c4: "try_masters sample_env (NetDialer 10) [m1] None ?c3 = (Ok None, c4)"
    "Master c4 \<noteq> None" "client_dialer c4 = Some (NetDialer 10)" using sample_try [of ?c3] by auto
  then obtain m where m4: "Master c4 = Some m" by blast
  show ?thesis
    using Connect_downgrades_TLS [OF g t m h] c4 m4 by (simp add: sample_client_def Let_def)
qed

text \<open>how the dialer is chosen when none is set: a certificate authority or certificate path or the
  skip flag asks for TLS, and then certificate and key must come together; but a key path alone does
  not count as a TLS option (\<open>HasTLS\<close> looks twice at the authority instead), so a configuration with
  only a key connects in plain text without an error.\<close>

theorem GetDialer_choice:
  assumes "client_dialer c = None" "TlsOpts (Config c) = Some t"
  shows "fst (GetDialer env c) =
    (if \<not> SkipHostVerification t \<and> CaCertPath t = [] \<and> CertPath t = []
     then Ok (NetDialer (TimeoutSeconds (Config c)))
     else bind_res (load_ca env t) (\<lambda>cas.
       if (CertPath t = []) \<noteq> (KeyPath t = [])
       then Error (Err ''client certificate and key must both be set'')
       else bind_res (load_certificate env t) (\<lambda>certs.
         Ok (TLSDialer (TimeoutSeconds (Config c))
           \<lparr>InsecureSkipVerify = SkipHostVerification t, RootCAs = cas, Certificates = certs\<rparr>))))"
proof -
  have t: "tls_of c = t" using assms(2) by (simp add: tls_of_def)
  show ?thesis
    using assms by (cases "load_ca env t"; cases "load_certificate env t")
      (auto simp: GetDialer_def HasTLS_def t Let_def load_certificate_def)
qed

theorem GetDialer_choice_witness:
  "fst (GetDialer sample_env (sample_client [m1]
     (Some \<lparr>SkipHostVerification = False, CaCertPath = [], CertPath = [], KeyPath = ''key.pem''\<rparr>))) = Ok (NetDialer 10)
   \<and> fst (GetDialer sample_env (sample_client [m1]
     (Some \<lparr>SkipHostVerification = False, CaCertPath = [], CertPath = ''cert.pem'', KeyPath = []\<rparr>)))
     = Error (Err ''client certificate and key must both be set'')"
  using GetDialer_choice [of "sample_client [m1]
     (Some \<lparr>SkipHostVerification = False, CaCertPath = [], CertPath = [], KeyPath = ''key.pem''\<rparr>)"
     "\<lparr>SkipHostVerification = False, CaCertPath = [], CertPath = [], KeyPath = ''key.pem''\<rparr>" sample_env]
    GetDialer_choice [of "sample_client [m1]
     (Some \<lparr>SkipHostVerification = False, CaCertPath = [], CertPath = ''cert.pem'', KeyPath = []\<rparr>)"
     "\<lparr>SkipHostVerification = False, CaCertPath = [], CertPath = ''cert.pem'', KeyPath = []\<rparr>" sample_env]
  by (simp add: sample_client_def load_ca_def)



text \<open>the opening of every connection: a new host has been sent exactly the three hello bytes, then
  the frame of \<open>Ping\<close> as call 1 and that of \<open>GetStatus\<close> as call 2.\<close>

theorem new_host_handshake:
  assumes "NewHostState env host d = Ok h" and "net env d (HostPortString host) = Ok k"
    and "write_plan k = []" "outbox k = []"
  shows "\<exists>f1 f2. request_frame (ping_codec env)
        \<lparr>CallId = 1, ServiceName = ''yb.server.GenericService'', MethodName = ''Ping'', TimeoutMillis = 3000\<rparr> () = Ok f1
    \<and> request_frame (status_codec env)
        \<lparr>CallId = 2, ServiceName = ''yb.server.GenericService'', MethodName = ''GetStatus'', TimeoutMillis = 3000\<rparr> () = Ok f2
    \<and> outbox (sconn (session h)) = [89, 66, 1] @ be32 (length f1) @ f1 @ be32 (length f2) @ f2
    \<and> messageCount (session h) = 2"
  using handshake [OF assms(1-3)] assms(4) by simp

theorem new_host_handshake_witness:
  "\<exists>h w. NewHostState sample_env m1 (NetDialer 10) = Ok h \<and> outbox (sconn (session h)) = [89, 66, 1] @ w
     \<and> messageCount (session h) = 2"
proof -
  obtain h where h: "NewHostState sample_env m1 (NetDialer 10) = Ok h" using sample_host by blast
  have "write_plan sample_conn = []" "outbox sample_conn = []" by (simp_all add: sample_conn_def)
  from new_host_handshake [OF h sample_net this] h show ?thesis by blast
qed

end
