(* ===== verification/HealthCheck.thy ===== *)
theory HealthCheck
  imports YBClient
begin

section \<open>The xCluster consumer check\<close>

text \<open>
  \<open>yugatool/pkg/healthcheck/cdc.go\<close> and \<open>yugatool/cmd/healthcheck/xclusterConsumerCheck.go\<close>. A cluster is
  the RPC operations the check calls on it, which thread the state \<open>'w\<close> of the outside world;
  \<open>get_host\<close> is the client's \<open>GetHostByUUID\<close>. A Go map is an association list in the order in which it
  happens to be iterated, so every theorem holds for each order. \<open>schema_diff\<close> is the text that the
  JSON difference of two schemas prints, when one can be computed.
\<close>

subsection \<open>Messages\<close>

record OpIdPB =
  Term :: int
  Index :: int

record CDCReplicatedIndexPB =
  Tablet :: string
  LatestOpid :: "OpIdPB option"
  CheckpointLocation :: "OpIdPB option"

record 'sc TableSchemaResponse =
  SchemaError :: "MasterErrorPB option"
  Identifier :: "string option"
  Schema :: 'sc

record Replica =
  IsLeader :: bool
  TsPermanentUuid :: string

record TabletLocation =
  LocTabletId :: string
  Replicas :: "Replica list"

record TabletError =
  IsNotFound :: bool
  ErrTabletId :: string

record TabletLocationsResponse =
  LocationsError :: "MasterErrorPB option"
  TabletErrors :: "TabletError list"
  TabletLocations :: "TabletLocation list"

record CheckpointResponse =
  HasCheckpointError :: bool
  CheckpointOpId :: "OpIdPB option"

record ('w, 'h, 'sc) cluster =
  GetTableSchema :: "string \<Rightarrow> 'w \<Rightarrow> 'sc TableSchemaResponse res \<times> 'w"
  GetTabletLocations :: "string list \<Rightarrow> 'w \<Rightarrow> TabletLocationsResponse res \<times> 'w"
  get_host :: "string \<Rightarrow> 'w \<Rightarrow> 'h res \<times> 'w"
  GetCheckpoint :: "'h \<Rightarrow> string \<Rightarrow> string \<Rightarrow> 'w \<Rightarrow> CheckpointResponse res \<times> 'w"
  GetLatestEntryOpId :: "'h \<Rightarrow> string \<Rightarrow> 'w \<Rightarrow> (OpIdPB option) res \<times> 'w"

record StreamEntryPB =
  EntryConsumerTableId :: string
  EntryProducerTableId :: string
  ConsumerProducerTabletMap :: "(string \<times> string list) list"

record StreamErrors =
  TabletsWithReplicationLag :: "CDCReplicatedIndexPB list"
  ConsumerSchemaError :: "MasterErrorPB option"
  ProducerSchemaError :: "MasterErrorPB option"
  SchemaMismatchError :: "MasterErrorPB option"
  MissingTabletsConsumer :: "string list"
  MissingTabletsProducer :: "string list"

record 'sc StreamReport =
  ReportTable :: "string option"
  ReportProducerTableId :: string
  ReportConsumerTableId :: string
  StreamId :: string
  StreamEntry :: StreamEntryPB
  ConsumerSchema :: "'sc TableSchemaResponse"
  ProducerSchema :: "'sc TableSchemaResponse"
  ConsumerTabletCount :: "32 word option"
  ProducerTabletCount :: "32 word option"
  StreamReportErrors :: "StreamErrors option"

record 'sc ProducerErrors =
  MastersReferenceSelf :: bool
  StreamReports :: "'sc StreamReport list"

record ProducerEntry =
  MasterAddrs :: "host_port list"
  StreamMap :: "(string \<times> StreamEntryPB) list"

record 'sc ProducerReport =
  ProducerId :: string
  ProducerMasterAddresses :: "host_port list"
  ConsumerUUID :: string
  Producer :: ProducerEntry
  ReportConfig :: UniverseConfigPB
  ProducerReportErrors :: "'sc ProducerErrors option"

subsection \<open>The checks of a stream\<close>

definition term_of :: "OpIdPB option \<Rightarrow> int" where
  "term_of o1 = (case o1 of None \<Rightarrow> 0 | Some i \<Rightarrow> Term i)"

definition index_of_op :: "OpIdPB option \<Rightarrow> int" where
  "index_of_op o1 = (case o1 of None \<Rightarrow> 0 | Some i \<Rightarrow> Index i)"

definition has_lag :: "CDCReplicatedIndexPB \<Rightarrow> bool" where
  "has_lag r =
     (if term_of (LatestOpid r) > term_of (CheckpointLocation r) then True
      else if index_of_op (LatestOpid r) > index_of_op (CheckpointLocation r) then True
      else False)"

fun GetReplicationLag :: "CDCReplicatedIndexPB list \<Rightarrow> CDCReplicatedIndexPB list" where
  "GetReplicationLag [] = []"
| "GetReplicationLag (r # rs) = (if has_lag r then r # GetReplicationLag rs else GetReplicationLag rs)"

fun replica_indexes ::
  "('w, 'h, 'sc) cluster \<Rightarrow> string \<Rightarrow> string \<Rightarrow> Replica list \<Rightarrow> 'w \<Rightarrow> CDCReplicatedIndexPB list res \<times> 'w" where
  "replica_indexes cl streamID tablet [] w = (Ok [], w)"
| "replica_indexes cl streamID tablet (replica # rs) w =
     (if IsLeader replica then
        andThen (get_host cl (TsPermanentUuid replica) w) (\<lambda>host w.
        andThen (GetCheckpoint cl host streamID tablet w) (\<lambda>checkpoint w.
        if \<not> HasCheckpointError checkpoint then
          andThen (GetLatestEntryOpId cl host tablet w) (\<lambda>latestOpID w.
          andThen (replica_indexes cl streamID tablet rs w) (\<lambda>l w.
          (Ok (\<lparr>Tablet = tablet, LatestOpid = latestOpID,
                CheckpointLocation = CheckpointOpId checkpoint\<rparr> # l), w)))
        else replica_indexes cl streamID tablet rs w))
      else replica_indexes cl streamID tablet rs w)"

fun location_indexes ::
  "('w, 'h, 'sc) cluster \<Rightarrow> string \<Rightarrow> TabletLocation list \<Rightarrow> 'w \<Rightarrow> CDCReplicatedIndexPB list res \<times> 'w" where
  "location_indexes cl streamID [] w = (Ok [], w)"
| "location_indexes cl streamID (t # ts) w =
     andThen (replica_indexes cl streamID (LocTabletId t) (Replicas t) w) (\<lambda>l1 w.
     andThen (location_indexes cl streamID ts w) (\<lambda>l2 w. (Ok (l1 @ l2), w)))"

text \<open>The \<open>Error\<close> field of the response is not looked at.\<close>

definition GetReplicatedIndexes ::
  "('w, 'h, 'sc) cluster \<Rightarrow> string \<Rightarrow> string list \<Rightarrow> 'w \<Rightarrow> CDCReplicatedIndexPB list res \<times> 'w" where
  "GetReplicatedIndexes cl streamID tablets w =
     andThen (GetTabletLocations cl tablets w) (\<lambda>response w.
       location_indexes cl streamID (TabletLocations response) w)"

fun missing_of :: "TabletError list \<Rightarrow> string list res" where
  "missing_of [] = Ok []"
| "missing_of (e # es) =
     (if IsNotFound e then bind_res (missing_of es) (\<lambda>l. Ok (ErrTabletId e # l))
      else Error (Err (''unexpected error message: '' @ ErrTabletId e)))"

definition GetMissingTablets ::
  "('w, 'h, 'sc) cluster \<Rightarrow> string list \<Rightarrow> 'w \<Rightarrow> string list res \<times> 'w" where
  "GetMissingTablets cl tablets w =
     andThen (GetTabletLocations cl tablets w) (\<lambda>response w.
       case LocationsError response of
         Some e \<Rightarrow> (Error (Err (''master error: '' @ ErrorText e)), w)
       | None \<Rightarrow> (missing_of (TabletErrors response), w))"

definition GetSchemaMismatchErrors ::
  "('sc \<Rightarrow> 'sc \<Rightarrow> string option) \<Rightarrow> 'sc TableSchemaResponse \<Rightarrow> 'sc TableSchemaResponse \<Rightarrow> MasterErrorPB option" where
  "GetSchemaMismatchErrors schema_diff consumerSchema producerSchema =
     (if SchemaError consumerSchema \<noteq> None \<or> SchemaError producerSchema \<noteq> None then None
      else if Schema consumerSchema \<noteq> Schema producerSchema then
        (case schema_diff (Schema consumerSchema) (Schema producerSchema) of
           None \<Rightarrow> Some \<lparr>ErrorCode = INVALID_SCHEMA, ErrorText = ''consumer schema and producer schema mismatch''\<rparr>
         | Some d \<Rightarrow> Some \<lparr>ErrorCode = INVALID_SCHEMA, ErrorText = ''mismatched schema diff: '' @ d\<rparr>)
      else None)"

text \<open>\<open>CDCProducerStreamReport.RunCheck\<close>. On an error its caller drops the report, so none is given.\<close>

definition StreamReport_RunCheck ::
  "('sc \<Rightarrow> 'sc \<Rightarrow> string option) \<Rightarrow> ('w, 'h, 'sc) cluster \<Rightarrow> ('w, 'h, 'sc) cluster \<Rightarrow>
   'sc StreamReport \<Rightarrow> 'w \<Rightarrow> 'sc StreamReport res \<times> 'w" where
  "StreamReport_RunCheck schema_diff consumer producer r w =
     (let consumerTablets = map fst (ConsumerProducerTabletMap (StreamEntry r));
          producerTablets = concat (map snd (ConsumerProducerTabletMap (StreamEntry r)));
          r1 = r\<lparr>ConsumerTabletCount := Some (of_nat (length consumerTablets)),
                 ProducerTabletCount := Some (of_nat (length producerTablets))\<rparr>
      in andThen (GetReplicatedIndexes producer (StreamId r) producerTablets w) (\<lambda>replicatedIndexes w.
         (let lag = GetReplicationLag replicatedIndexes;
              mismatch = GetSchemaMismatchErrors schema_diff (ConsumerSchema r) (ProducerSchema r)
          in andThen (GetMissingTablets consumer consumerTablets w) (\<lambda>missingConsumer w.
             andThen (GetMissingTablets producer producerTablets w) (\<lambda>missingProducer w.
             (let errorSet = (0 < length lag \<or> SchemaError (ConsumerSchema r) \<noteq> None
                    \<or> SchemaError (ProducerSchema r) \<noteq> None \<or> mismatch \<noteq> None
                    \<or> 0 < length missingConsumer \<or> 0 < length missingProducer);
                  reportErrors =
                    \<lparr>TabletsWithReplicationLag = lag, ConsumerSchemaError = SchemaError (ConsumerSchema r),
                     ProducerSchemaError = SchemaError (ProducerSchema r), SchemaMismatchError = mismatch,
                     MissingTabletsConsumer = missingConsumer, MissingTabletsProducer = missingProducer\<rparr>
              in (Ok (if errorSet then r1\<lparr>StreamReportErrors := Some reportErrors\<rparr> else r1), w)))))))"

definition NewCDCProducerStreamReport ::
  "('w, 'h, 'sc) cluster \<Rightarrow> ('w, 'h, 'sc) cluster \<Rightarrow> string \<Rightarrow> StreamEntryPB \<Rightarrow> 'w \<Rightarrow>
   'sc StreamReport res \<times> 'w" where
  "NewCDCProducerStreamReport consumer producer streamID entry w =
     andThen (GetTableSchema consumer (EntryConsumerTableId entry) w) (\<lambda>consumerTableSchema w.
     andThen (GetTableSchema producer (EntryProducerTableId entry) w) (\<lambda>producerTableSchema w.
     (Ok \<lparr>ReportTable = (if SchemaError consumerTableSchema \<noteq> None then Identifier producerTableSchema
                         else Identifier consumerTableSchema),
          ReportProducerTableId = EntryProducerTableId entry, ReportConsumerTableId = EntryConsumerTableId entry,
          StreamId = streamID, StreamEntry = entry, ConsumerSchema = consumerTableSchema,
          ProducerSchema = producerTableSchema, ConsumerTabletCount = None, ProducerTabletCount = None,
          StreamReportErrors = None\<rparr>, w)))"

subsection \<open>The check of a producer\<close>

definition NewCDCProducerReport ::
  "UniverseConfigPB \<Rightarrow> string \<Rightarrow> string \<Rightarrow> ProducerEntry \<Rightarrow> 'sc ProducerReport" where
  "NewCDCProducerReport consumerClusterConfig consumerUUID producerID producer =
     \<lparr>ProducerId = producerID, ProducerMasterAddresses = MasterAddrs producer, ConsumerUUID = consumerUUID,
      Producer = producer, ReportConfig = consumerClusterConfig, ProducerReportErrors = None\<rparr>"

text \<open>The loop over the streams: the reports that have errors, in order.\<close>

fun check_streams ::
  "('sc \<Rightarrow> 'sc \<Rightarrow> string option) \<Rightarrow> ('w, 'h, 'sc) cluster \<Rightarrow> ('w, 'h, 'sc) cluster \<Rightarrow>
   (string \<times> StreamEntryPB) list \<Rightarrow> 'w \<Rightarrow> 'sc StreamReport list res \<times> 'w" where
  "check_streams schema_diff consumer producer [] w = (Ok [], w)"
| "check_streams schema_diff consumer producer ((streamID, entry) # streams) w =
     andThen (NewCDCProducerStreamReport consumer producer streamID entry w) (\<lambda>report w.
     andThen (StreamReport_RunCheck schema_diff consumer producer report w) (\<lambda>checked w.
     andThen (check_streams schema_diff consumer producer streams w) (\<lambda>rest w.
     (Ok (if StreamReportErrors checked \<noteq> None then checked # rest else rest), w))))"

text \<open>
  \<open>CDCProducerReport.RunCheck\<close>. \<open>connect\<close> is \<open>YBClient.Connect\<close> for the producer's configuration and
  gives the operations of the producer, \<open>close\<close> runs when the function returns after a connection.
\<close>

definition ProducerReport_RunCheck ::
  "(UniverseConfigPB \<Rightarrow> 'w \<Rightarrow> ('w, 'h, 'sc) cluster res \<times> 'w) \<Rightarrow> ('w \<Rightarrow> 'w) \<Rightarrow>
   ('sc \<Rightarrow> 'sc \<Rightarrow> string option) \<Rightarrow> ('w, 'h, 'sc) cluster \<Rightarrow> 'sc ProducerReport \<Rightarrow> 'w \<Rightarrow>
   'sc ProducerReport res \<times> 'w" where
  "ProducerReport_RunCheck connect close schema_diff consumer r w =
     (let self = (ProducerId r = ConsumerUUID r)
      in andThen (connect (ReportConfig r) w) (\<lambda>producer w.
         (case check_streams schema_diff consumer producer (StreamMap (Producer r)) w of
            (Ok reports, w1) \<Rightarrow>
              (Ok (if 0 < length reports
                   then r\<lparr>ProducerReportErrors := Some \<lparr>MastersReferenceSelf = self, StreamReports = reports\<rparr>\<rparr>
                   else r), close w1)
          | (Error e, w1) \<Rightarrow> (Error e, close w1)
          | (Panic p, w1) \<Rightarrow> (Panic p, close w1))))"

record ('w, 'h, 'sc) check_env =
  connect :: "UniverseConfigPB \<Rightarrow> 'w \<Rightarrow> ('w, 'h, 'sc) cluster res \<times> 'w"
  close :: "'w \<Rightarrow> 'w"
  schema_diff :: "'sc \<Rightarrow> 'sc \<Rightarrow> string option"

record MasterClusterConfig =
  ClusterConfigError :: "MasterErrorPB option"
  ClusterUuid :: string
  ProducerMap :: "(string \<times> ProducerEntry) list"

text \<open>The loop of the command, and the reports it prints.\<close>

fun check_producers ::
  "('w, 'h, 'sc) check_env \<Rightarrow> ('w, 'h, 'sc) cluster \<Rightarrow> UniverseConfigPB \<Rightarrow> string \<Rightarrow>
   (string \<times> ProducerEntry) list \<Rightarrow> 'sc ProducerReport list \<Rightarrow> 'w \<Rightarrow> unit res \<times> ('sc ProducerReport list \<times> 'w)" where
  "check_producers env consumer cfg uuid [] printed w = (Ok (), (printed, w))"
| "check_producers env consumer cfg uuid ((producerID, producer) # ps) printed w =
     (case ProducerReport_RunCheck (connect env) (close env) (schema_diff env) consumer
             (NewCDCProducerReport (cfg\<lparr>Masters := MasterAddrs producer\<rparr>) uuid producerID producer) w of
        (Error e, w1) \<Rightarrow> (Error e, (printed, w1))
      | (Panic p, w1) \<Rightarrow> (Panic p, (printed, w1))
      | (Ok report, w1) \<Rightarrow>
          check_producers env consumer cfg uuid ps
            (if ProducerReportErrors report \<noteq> None then printed @ [report] else printed) w1)"

definition runXClusterConsumerCheck ::
  "('w, 'h, 'sc) check_env \<Rightarrow> ('w, 'h, 'sc) cluster \<Rightarrow> UniverseConfigPB \<Rightarrow>
   ('w \<Rightarrow> MasterClusterConfig res \<times> 'w) \<Rightarrow> 'w \<Rightarrow> unit res \<times> ('sc ProducerReport list \<times> 'w)" where
  "runXClusterConsumerCheck env consumer cfg GetMasterClusterConfig w =
     (case GetMasterClusterConfig w of
        (Error e, w1) \<Rightarrow> (Error e, ([], w1))
      | (Panic p, w1) \<Rightarrow> (Panic p, ([], w1))
      | (Ok clusterConfig, w1) \<Rightarrow>
          (case ClusterConfigError clusterConfig of
             Some e \<Rightarrow> (Error (Err (''Failed to get cluster config: '' @ ErrorText e)), ([], w1))
           | None \<Rightarrow>
               check_producers env consumer cfg (ClusterUuid clusterConfig) (ProducerMap clusterConfig) [] w1))"

subsection \<open>Replication lag\<close>

text \<open>The order of operation IDs: by term, then by index.\<close>

definition op_less :: "OpIdPB option \<Rightarrow> OpIdPB option \<Rightarrow> bool" where
  "op_less a b \<longleftrightarrow> term_of a < term_of b \<or> term_of a = term_of b \<and> index_of_op a < index_of_op b"

lemma GetReplicationLag_filter: "GetReplicationLag rs = filter has_lag rs"
  by (induction rs) simp_all

lemma has_lag_iff:
  "has_lag r \<longleftrightarrow> op_less (CheckpointLocation r) (LatestOpid r)
     \<or> (term_of (LatestOpid r) < term_of (CheckpointLocation r)
        \<and> index_of_op (CheckpointLocation r) < index_of_op (LatestOpid r))"
  by (auto simp: has_lag_def op_less_def)

lemma missing_of_Ok: "missing_of es = Ok l \<longleftrightarrow> (\<forall>e\<in>set es. IsNotFound e) \<and> l = map ErrTabletId es"
  by (induction es arbitrary: l) (auto simp: bind_res_eq_Ok)

lemma StreamReport_RunCheck_Ok:
  assumes "StreamReport_RunCheck sd consumer producer r w = (Ok r', w')" and "StreamReportErrors r = None"
  shows "\<exists>idx mc mp w1 w2.
      GetReplicatedIndexes producer (StreamId r) (concat (map snd (ConsumerProducerTabletMap (StreamEntry r)))) w = (Ok idx, w1)
    \<and> GetMissingTablets consumer (map fst (ConsumerProducerTabletMap (StreamEntry r))) w1 = (Ok mc, w2)
    \<and> GetMissingTablets producer (concat (map snd (ConsumerProducerTabletMap (StreamEntry r)))) w2 = (Ok mp, w')
    \<and> (StreamReportErrors r' = None \<longleftrightarrow>
         (\<forall>i\<in>set idx. \<not> has_lag i) \<and> SchemaError (ConsumerSchema r) = None \<and> SchemaError (ProducerSchema r) = None
         \<and> Schema (ConsumerSchema r) = Schema (ProducerSchema r) \<and> mc = [] \<and> mp = [])"
proof -
  from assms(1) obtain idx w1 mc w2 mp where
    s: "GetReplicatedIndexes producer (StreamId r) (concat (map snd (ConsumerProducerTabletMap (StreamEntry r)))) w = (Ok idx, w1)"
       "GetMissingTablets consumer (map fst (ConsumerProducerTabletMap (StreamEntry r))) w1 = (Ok mc, w2)"
       "GetMissingTablets producer (concat (map snd (ConsumerProducerTabletMap (StreamEntry r)))) w2 = (Ok mp, w')"
    unfolding StreamReport_RunCheck_def Let_def andThen_eq_Ok by blast
  have mis: "GetSchemaMismatchErrors sd (ConsumerSchema r) (ProducerSchema r) = None \<longleftrightarrow>
      SchemaError (ConsumerSchema r) \<noteq> None \<or> SchemaError (ProducerSchema r) \<noteq> None
      \<or> Schema (ConsumerSchema r) = Schema (ProducerSchema r)"
    by (auto simp: GetSchemaMismatchErrors_def split: option.split)
  have "StreamReportErrors r' = None \<longleftrightarrow>
      GetReplicationLag idx = [] \<and> SchemaError (ConsumerSchema r) = None \<and> SchemaError (ProducerSchema r) = None
      \<and> GetSchemaMismatchErrors sd (ConsumerSchema r) (ProducerSchema r) = None \<and> mc = [] \<and> mp = []"
    using assms by (auto simp: StreamReport_RunCheck_def Let_def s split: if_splits)
  then show ?thesis using s mis by (auto simp: GetReplicationLag_filter filter_empty_conv)
qed

lemma ProducerReport_RunCheck_Ok:
  assumes "ProducerReport_RunCheck cn cl sd consumer r w = (Ok r', w')"
  shows "\<exists>producer w1 reports w2. cn (ReportConfig r) w = (Ok producer, w1)
    \<and> check_streams sd consumer producer (StreamMap (Producer r)) w1 = (Ok reports, w2) \<and> w' = cl w2
    \<and> r' = (if reports = [] then r
            else r\<lparr>ProducerReportErrors := Some \<lparr>MastersReferenceSelf = (ProducerId r = ConsumerUUID r),
                                                StreamReports = reports\<rparr>\<rparr>)"
proof -
  from assms obtain producer w1 where c: "cn (ReportConfig r) w = (Ok producer, w1)"
    by (auto simp: ProducerReport_RunCheck_def Let_def andThen_eq_Ok)
  obtain rs w2 where s: "check_streams sd consumer producer (StreamMap (Producer r)) w1 = (rs, w2)" by force
  show ?thesis
    using assms by (cases rs) (auto simp: ProducerReport_RunCheck_def Let_def c s)
qed

subsection \<open>Properties\<close>

text \<open>A concrete cluster: every tablet has one leader, at operation 7 of term 2, and no schema or
  tablet is missing; the checkpoint is given.\<close>

definition sample_cluster :: "OpIdPB \<Rightarrow> (nat, unit, nat) cluster" where
  "sample_cluster checkpoint =
     \<lparr>GetTableSchema = (\<lambda>t w. (Ok \<lparr>SchemaError = None, Identifier = Some t, Schema = 1\<rparr>, Suc w)),
      GetTabletLocations = (\<lambda>ts w. (Ok \<lparr>LocationsError = None, TabletErrors = [],
        TabletLocations = map (\<lambda>t. \<lparr>LocTabletId = t, Replicas = [\<lparr>IsLeader = True, TsPermanentUuid = ''u''\<rparr>]\<rparr>) ts\<rparr>, Suc w)),
      get_host = (\<lambda>u w. (Ok (), w)),
      GetCheckpoint = (\<lambda>h s t w. (Ok \<lparr>HasCheckpointError = False, CheckpointOpId = Some checkpoint\<rparr>, w)),
      GetLatestEntryOpId = (\<lambda>h t w. (Ok (Some \<lparr>Term = 2, Index = 7\<rparr>), w))\<rparr>"

definition sample_stream :: StreamEntryPB where
  "sample_stream = \<lparr>EntryConsumerTableId = ''c'', EntryProducerTableId = ''p'',
     ConsumerProducerTabletMap = [(''c1'', [''p1''])]\<rparr>"

definition sample_report :: "nat StreamReport" where
  "sample_report = \<lparr>ReportTable = Some ''c'', ReportProducerTableId = ''p'', ReportConsumerTableId = ''c'',
     StreamId = ''s'', StreamEntry = sample_stream,
     ConsumerSchema = \<lparr>SchemaError = None, Identifier = Some ''c'', Schema = 1\<rparr>,
     ProducerSchema = \<lparr>SchemaError = None, Identifier = Some ''p'', Schema = 1\<rparr>,
     ConsumerTabletCount = None, ProducerTabletCount = None, StreamReportErrors = None\<rparr>"

definition healthy :: "(nat, unit, nat) cluster" where
  "healthy = sample_cluster \<lparr>Term = 2, Index = 7\<rparr>"


lemma sample_indexes:
  "GetReplicatedIndexes (sample_cluster cp) ''s'' [''p1''] w =
    (Ok [\<lparr>Tablet = ''p1'', LatestOpid = Some \<lparr>Term = 2, Index = 7\<rparr>, CheckpointLocation = Some cp\<rparr>], Suc w)"
  by (simp add: GetReplicatedIndexes_def sample_cluster_def)

lemma sample_missing: "GetMissingTablets (sample_cluster cp) ts w = (Ok [], Suc w)"
  by (simp add: GetMissingTablets_def sample_cluster_def)

lemma sample_check:
  "StreamReport_RunCheck sd (sample_cluster c1) (sample_cluster cp) sample_report w =
    (Ok (sample_report\<lparr>ConsumerTabletCount := Some 1, ProducerTabletCount := Some 1,
       StreamReportErrors :=
         (if Term cp < 2 \<or> Index cp < 7
          then Some \<lparr>TabletsWithReplicationLag = [\<lparr>Tablet = ''p1'', LatestOpid = Some \<lparr>Term = 2, Index = 7\<rparr>, CheckpointLocation = Some cp\<rparr>],
            ConsumerSchemaError = None, ProducerSchemaError = None, SchemaMismatchError = None,
            MissingTabletsConsumer = [], MissingTabletsProducer = []\<rparr>
          else None)\<rparr>), Suc (Suc (Suc w)))"
  by (simp add: StreamReport_RunCheck_def sample_report_def sample_stream_def Let_def sample_indexes sample_missing
      GetSchemaMismatchErrors_def has_lag_def term_of_def index_of_op_def)


text \<open>a producer's report carries errors exactly when some stream does. That the producer is the
  consumer itself is written into those errors and nowhere else, so a cluster that replicates from
  itself is reported as healthy as long as its streams are.\<close>

theorem self_reference_needs_bad_stream:
  assumes "ProducerReport_RunCheck cn cl sd consumer r w = (Ok r', w')" and "ProducerReportErrors r = None"
  shows "\<exists>producer w1 reports w2. cn (ReportConfig r) w = (Ok producer, w1)
    \<and> check_streams sd consumer producer (StreamMap (Producer r)) w1 = (Ok reports, w2)
    \<and> (ProducerReportErrors r' = None \<longleftrightarrow> reports = [])
    \<and> (\<forall>errs. ProducerReportErrors r' = Some errs \<longrightarrow>
          StreamReports errs = reports \<and> MastersReferenceSelf errs = (ProducerId r = ConsumerUUID r))"
  using ProducerReport_RunCheck_Ok [OF assms(1)] assms(2) by fastforce

theorem self_reference_needs_bad_stream_witness:
  "\<exists>r' w'. ProducerReport_RunCheck (\<lambda>cfg w. (Ok healthy, w)) (\<lambda>w. w) (\<lambda>a b. None) healthy
     (NewCDCProducerReport \<lparr>Masters = [], TimeoutSeconds = 10, TlsOpts = None\<rparr> ''u1'' ''u1''
        \<lparr>MasterAddrs = [], StreamMap = []\<rparr>) 0 = (Ok r', w') \<and> ProducerReportErrors r' = None"
proof -
  let ?r = "NewCDCProducerReport \<lparr>Masters = [], TimeoutSeconds = 10, TlsOpts = None\<rparr> ''u1'' ''u1''
        \<lparr>MasterAddrs = [], StreamMap = []\<rparr> :: nat ProducerReport"
  have n: "ProducerReportErrors ?r = None" by (simp add: NewCDCProducerReport_def)
  have c: "ProducerReport_RunCheck (\<lambda>cfg w. (Ok healthy, w)) (\<lambda>w. w) (\<lambda>a b. None) healthy ?r 0 = (Ok ?r, 0)"
    by (simp add: ProducerReport_RunCheck_def NewCDCProducerReport_def)
  from self_reference_needs_bad_stream [OF c n] c n show ?thesis by blast
qed

text \<open>the tablets reported as lagging. Every tablet whose latest operation comes after its
  checkpoint is reported; one that does not is reported only if its latest term is older than the
  checkpoint's while its index is larger.\<close>

theorem lag_reported:
  "r \<in> set (GetReplicationLag rs) \<longleftrightarrow>
     r \<in> set rs \<and> (op_less (CheckpointLocation r) (LatestOpid r)
       \<or> (term_of (LatestOpid r) < term_of (CheckpointLocation r)
          \<and> index_of_op (CheckpointLocation r) < index_of_op (LatestOpid r)))"
  by (auto simp: GetReplicationLag_filter has_lag_iff)

end
