(* ===== verification/Batching.thy ===== *)
theory Batching
  imports Prelude
begin

section \<open>Cutting a list into batches\<close>

text \<open>
  Several commands cut a list into pieces and work on one piece at a time: tables per replication
  command, hash ranges per worker, upload URLs per request. The contract of such a cut is the locale
  \<open>partition_of\<close>; \<open>chunks n\<close> is the cut into pieces of \<open>n\<close>. \<open>batch_loop\<close> is the Go loop
  \<open>for i := 0; i < len(xs); i += n { batch := xs[i:min(i+n, len(xs))]; ... }\<close> on 64-bit integers,
  which need not end, and the lemmas say when it is the loop over \<open>chunks\<close>.
\<close>

locale partition_of =
  fixes cut :: "'a list \<Rightarrow> 'a list list"
  assumes concat_cut: "concat (cut xs) = xs"
    and nonempty: "b \<in> set (cut xs) \<Longrightarrow> b \<noteq> []"
begin

lemma covered: "x \<in> set xs \<longleftrightarrow> (\<exists>b\<in>set (cut xs). x \<in> set b)"
  by (subst concat_cut [of xs, symmetric]) simp

lemma total_length: "sum_list (map length (cut xs)) = length xs"
  by (subst (2) concat_cut [of xs, symmetric]) (simp add: length_concat)

lemma cut_Nil: "cut xs = [] \<longleftrightarrow> xs = []"
  using concat_cut [of xs] nonempty [of _ xs] by (cases "cut xs") force+

text \<open>When nothing occurs twice, every element is in exactly one batch.\<close>

lemma exactly_one:
  assumes "distinct xs" "x \<in> set xs"
  shows "\<exists>!i. i < length (cut xs) \<and> x \<in> set (cut xs ! i)"
proof -
  have d: "distinct (concat (cut xs))" by (simp add: concat_cut assms(1))
  obtain i where i: "i < length (cut xs)" "x \<in> set (cut xs ! i)"
    using assms(2) covered [of x xs] in_set_conv_nth [of _ "cut xs"] by metis
  have "j = i" if j: "j < length (cut xs)" "x \<in> set (cut xs ! j)" for j
  proof (rule ccontr)
    assume "j \<noteq> i"
    then show False
    proof (cases "cut xs ! i = cut xs ! j")
      case True
      have "[] \<notin> set (cut xs)" using nonempty by blast
      then have "distinct (cut xs)" using d by (simp add: distinct_concat_iff)
      then show False using True i(1) j(1) \<open>j \<noteq> i\<close> by (simp add: nth_eq_iff_index_eq)
    next
      case False
      then have "set (cut xs ! i) \<inter> set (cut xs ! j) = {}"
        using d i(1) j(1) by (auto simp: distinct_concat_iff)
      then show False using i(2) j(2) by blast
    qed
  qed
  then show ?thesis using i by blast
qed

end

function chunks :: "nat \<Rightarrow> 'a list \<Rightarrow> 'a list list" where
  "chunks n xs = (if xs = [] \<or> n = 0 then [] else take n xs # chunks n (drop n xs))"
  by pat_completeness auto
termination by (relation "measure (length \<circ> snd)") auto

declare chunks.simps [simp del]

lemma concat_chunks: "0 < n \<Longrightarrow> concat (chunks n xs) = xs"
  by (induction n xs rule: chunks.induct) (subst chunks.simps, auto)

lemma chunks_bounds: "b \<in> set (chunks n xs) \<Longrightarrow> b \<noteq> [] \<and> length b \<le> n"
  by (induction n xs rule: chunks.induct) (erule_tac P = "b \<in> _" in rev_mp, subst chunks.simps, auto)

lemma chunks_Nil [simp]: "chunks n [] = []"
  by (subst chunks.simps) simp

lemma chunks_Cons: "0 < n \<Longrightarrow> xs \<noteq> [] \<Longrightarrow> chunks n xs = take n xs # chunks n (drop n xs)"
  by (subst chunks.simps) simp

lemma length_chunks:
  "0 < n \<Longrightarrow> length (chunks n xs) = (length xs + n - 1) div n"
proof (induction n xs rule: chunks.induct)
  case (1 n xs)
  show ?case
  proof (cases "xs = []")
    case True
    then show ?thesis using 1(2) by simp
  next
    case False
    then obtain m where m: "length xs = Suc m" by (cases xs) simp_all
    have l: "length (chunks n xs) = Suc (length (chunks n (drop n xs)))"
      by (subst chunks_Cons) (simp_all add: False 1(2))
    have ih: "length (chunks n (drop n xs)) = (length (drop n xs) + n - 1) div n"
      using False 1 by blast
    have "(length (drop n xs) + n - 1) div n = m div n"
    proof (cases "n \<le> m")
      case True
      then show ?thesis by (simp add: m Suc_diff_le)
    next
      case F: False
      then show ?thesis by (simp add: m)
    qed
    moreover have "(length xs + n - 1) div n = Suc (m div n)"
      using 1(2) div_add_self2 [of n m] by (simp add: m)
    ultimately show ?thesis using l ih by simp
  qed
qed

interpretation chunks: partition_of "chunks (Suc n)" for n
  by unfold_locales (auto simp: concat_chunks dest: chunks_bounds)

subsection \<open>The loop\<close>

definition int64 :: "int \<Rightarrow> int" where
  "int64 i = sint (word_of_int i :: 64 word)"

lemma int64_id: "- (2 ^ 63) \<le> i \<Longrightarrow> i < 2 ^ 63 \<Longrightarrow> int64 i = i"
  by (simp add: int64_def int_word_sint)

definition int32 :: "int \<Rightarrow> int" where
  "int32 i = sint (word_of_int i :: 32 word)"

lemma int32_id: "- (2 ^ 31) \<le> i \<Longrightarrow> i < 2 ^ 31 \<Longrightarrow> int32 i = i"
  by (simp add: int32_def int_word_sint)

partial_function (option) batch_loop ::
  "(bool \<Rightarrow> 'a list \<Rightarrow> 'w \<Rightarrow> unit res \<times> 'w) \<Rightarrow> 'a list \<Rightarrow> int \<Rightarrow> int \<Rightarrow> 'w \<Rightarrow> (unit res \<times> 'w) option" where
  "batch_loop body xs n i w =
     (if \<not> i < int (length xs) then Some (Ok (), w)
      else (let hi = min (int64 (i + n)) (int (length xs))
            in if i < 0 \<or> hi < i then Some (Panic ''slice bounds out of range'', w)
               else case body (i < n) (sub_slice xs (nat i) (nat hi)) w of
                      (Ok _, w1) \<Rightarrow> batch_loop body xs n (int64 (i + n)) w1
                    | (Error e, w1) \<Rightarrow> Some (Error e, w1)
                    | (Panic p, w1) \<Rightarrow> Some (Panic p, w1)))"

text \<open>The reference loop: the first batch is told apart from the later ones.\<close>

fun first_then :: "(bool \<Rightarrow> 'a list \<Rightarrow> 'w \<Rightarrow> unit res \<times> 'w) \<Rightarrow> 'a list list \<Rightarrow> 'w \<Rightarrow> unit res \<times> 'w" where
  "first_then body [] w = (Ok (), w)"
| "first_then body (b # bs) w = andThen (body True b w) (\<lambda>_ w1. for_each (body False) bs w1)"

lemma batch_loop_from:
  assumes "0 < n" "n < 2 ^ 63" "int (length xs) < 2 ^ 62" "k \<le> length xs"
  shows "n \<le> int k \<Longrightarrow> batch_loop body xs n (int k) w = Some (for_each (body False) (chunks (nat n) (drop k xs)) w)"
  using assms(4)
proof (induction "length xs - k" arbitrary: k w rule: less_induct)
  case less
  show ?case
  proof (cases "k = length xs")
    case True
    then show ?thesis by (subst batch_loop.simps) (simp add: chunks.simps)
  next
    case False
    then have k: "k < length xs" using less.prems by simp
    have i64: "int64 (int k + n) = int k + n" using assms k less.prems by (intro int64_id) auto
    let ?hi = "min (int k + n) (int (length xs))"
    have hi: "\<not> (int k < 0 \<or> ?hi < int k)" "\<not> int k < n" using assms(1) k less.prems by auto
    have slice: "sub_slice xs (nat (int k)) (nat ?hi) = take (nat n) (drop k xs)"
    proof -
      have "nat ?hi - k = min (nat n) (length (drop k xs))" using assms(1) k by auto
      then have "sub_slice xs (nat (int k)) (nat ?hi) = take (min (nat n) (length (drop k xs))) (drop k xs)"
        unfolding sub_slice_def by simp
      then show ?thesis by (simp only: min_def) auto
    qed
    have ch: "chunks (nat n) (drop k xs) = take (nat n) (drop k xs) # chunks (nat n) (drop (k + nat n) xs)"
      using k assms(1) by (subst chunks.simps) (simp add: add.commute)
    have rest: "batch_loop body xs n (int k + n) w1 = Some (for_each (body False) (chunks (nat n) (drop (k + nat n) xs)) w1)" for w1
    proof (cases "k + nat n \<le> length xs")
      case True
      have "batch_loop body xs n (int (k + nat n)) w1 = Some (for_each (body False) (chunks (nat n) (drop (k + nat n) xs)) w1)"
        by (rule less.hyps) (use True k assms(1) less.prems in auto)
      then show ?thesis using assms(1) by simp
    next
      case False
      then have "\<not> int k + n < int (length xs)" using assms(1) by linarith
      then show ?thesis using False by (subst batch_loop.simps) (simp add: chunks.simps)
    qed
    show ?thesis
      unfolding ch for_each.simps
      using k hi by (subst batch_loop.simps)
        (auto simp: i64 Let_def slice [simplified] rest andThen_def split: prod.split res.split)
  qed
qed

lemma batch_loop_chunks:
  assumes "0 < n" "n < 2 ^ 63" "int (length xs) < 2 ^ 62"
  shows "batch_loop body xs n 0 w = Some (first_then body (chunks (nat n) xs) w)"
proof (cases "xs = []")
  case True
  then show ?thesis by (subst batch_loop.simps) (simp add: chunks.simps)
next
  case False
  have i64: "int64 n = n" using assms by (intro int64_id) auto
  have "\<not> min n (int (length xs)) < 0" using assms(1) by simp
  have slice: "sub_slice xs 0 (nat (min n (int (length xs)))) = take (nat n) xs"
    using assms(1) by (auto simp: sub_slice_def min_def)
  have ch: "chunks (nat n) xs = take (nat n) xs # chunks (nat n) (drop (nat n) xs)"
    using False assms(1) by (subst chunks.simps) simp
  have rest: "batch_loop body xs n n w1 = Some (for_each (body False) (chunks (nat n) (drop (nat n) xs)) w1)" for w1
  proof (cases "nat n \<le> length xs")
    case True
    then show ?thesis using batch_loop_from [OF assms True, of body w1] assms(1) by simp
  next
    case False
    moreover from this have "\<not> n < int (length xs)" by linarith
    ultimately show ?thesis by (subst batch_loop.simps) (simp add: chunks.simps)
  qed
  show ?thesis
    unfolding ch first_then.simps
    using False assms(1) by (subst batch_loop.simps)
      (auto simp: i64 Let_def slice rest andThen_def split: prod.split res.split)
qed

text \<open>A batch size of zero with a body that never fails: the loop never ends.\<close>

lemma batch_loop_zero:
  assumes "\<And>w. \<exists>w1. body False [] w = (Ok (), w1)" and "xs \<noteq> []"
  shows "batch_loop body xs 0 0 w = None"
proof -
  let ?P = "\<lambda>body xs n i w y. \<not> (n = 0 \<and> i = 0 \<and> xs \<noteq> [] \<and> (\<forall>w. \<exists>w1. body False [] w = (Ok (), w1)))"
  have "?P body xs n i w y" if "batch_loop body xs n i w = Some y" for xs n i w y
  proof (rule batch_loop.raw_induct [where P = ?P, OF _ that])
    fix loop body xs n i w y
    assume IH: "\<And>body xs n i w y. loop body xs n i w = Some y \<Longrightarrow> ?P body xs n i w y"
      and step: "(if \<not> i < int (length xs) then Some (Ok (), w)
      else (let hi = min (int64 (i + n)) (int (length xs))
            in if i < 0 \<or> hi < i then Some (Panic ''slice bounds out of range'', w)
               else case body (i < n) (sub_slice xs (nat i) (nat hi)) w of
                      (Ok _, w1) \<Rightarrow> loop body xs n (int64 (i + n)) w1
                    | (Error e, w1) \<Rightarrow> Some (Error e, w1)
                    | (Panic p, w1) \<Rightarrow> Some (Panic p, w1))) = Some y"
    show "?P body xs n i w y"
    proof
      assume a: "n = 0 \<and> i = 0 \<and> xs \<noteq> [] \<and> (\<forall>w. \<exists>w1. body False [] w = (Ok (), w1))"
      then obtain w1 where "body False [] w = (Ok (), w1)" by blast
      then have "loop body xs 0 0 w1 = Some y" using step a by (simp add: int64_id sub_slice_def Let_def)
      from IH [OF this] show False using a by simp
    qed
  qed
  then show ?thesis using assms by (cases "batch_loop body xs 0 0 w") blast+
qed

lemma batch_loop_negative:
  assumes "n < 0" "- (2 ^ 63) \<le> n" "xs \<noteq> []"
  shows "batch_loop body xs n 0 w = Some (Panic ''slice bounds out of range'', w)"
  using assms by (subst batch_loop.simps) (simp add: int64_id Let_def min_def)

end
