(* ===== verification/Xcluster.thy ===== *)
theory Xcluster
  imports HealthCheck Batching
begin

section \<open>Generating xCluster replication commands\<close>

text \<open>
  \<open>yugatool/cmd/xcluster/\<close>: \<open>init_producer\<close> and \<open>init_consumer\<close> print one \<open>yb-admin\<close> command per batch of
  tables, \<open>stream_info\<close> collects what is known of each CDC stream. The state \<open>'w\<close> is the outside world
  with the lines printed so far. \<open>var initCDCCommand = initCDCCommandPrefix\<close> copies a \<open>bytes.Buffer\<close>:
  each batch starts again from the prefix, whose bytes no copy overwrites.
\<close>

subsection \<open>The code\<close>

text \<open>A table of \<open>ListTables\<close>: its ID, and whether its type is YQL when the field is set.\<close>

record TableInfo =
  TableId :: string
  IsYql :: "bool option"

record StreamInfo =
  CdcStreamId :: string
  StreamTableId :: "string option"

record 'w master_ops =
  ListTables :: "string option \<Rightarrow> 'w \<Rightarrow> (MasterErrorPB option \<times> TableInfo list) res \<times> 'w"
  GetClusterUuid :: "'w \<Rightarrow> string res \<times> 'w"
  ListCDCStreams :: "string option \<Rightarrow> 'w \<Rightarrow> (MasterErrorPB option \<times> StreamInfo list) res \<times> 'w"

record InitConsumerOptions =
  KeyspaceName :: string
  SkipBootstraps :: bool
  BatchSize :: int

definition InitConsumerOptions_AddFlags :: InitConsumerOptions where
  "InitConsumerOptions_AddFlags = \<lparr>KeyspaceName = [], SkipBootstraps = False, BatchSize = 100000\<rparr>"

record InitProducerOptions =
  ProducerKeyspace :: string
  ProducerBatchSize :: int

definition InitProducerOptions_AddFlags :: InitProducerOptions where
  "InitProducerOptions_AddFlags = \<lparr>ProducerKeyspace = [], ProducerBatchSize = 100000\<rparr>"

definition getTablesToBootstrap :: "'w master_ops \<Rightarrow> string \<Rightarrow> 'w \<Rightarrow> TableInfo list res \<times> 'w" where
  "getTablesToBootstrap ops keyspaceName w =
     andThen (ListTables ops (if keyspaceName \<noteq> [] then Some keyspaceName else None) w) (\<lambda>(err, tables) w.
       case err of
         Some e \<Rightarrow> (Error (Err (''List tables returned Error: '' @ ErrorText e)), w)
       | None \<Rightarrow> (Ok tables, w))"

text \<open>
  The comma-separated IDs of a batch: \<open>last\<close> says whether the table is the last of the batch, and only
  YQL tables are written. The type field is dereferenced without a test.
\<close>

fun table_ids :: "TableInfo list \<Rightarrow> string res" where
  "table_ids [] = Ok []"
| "table_ids (t # ts) =
     (case IsYql t of
        None \<Rightarrow> Panic ''nil pointer dereference''
      | Some yql \<Rightarrow>
          bind_res (table_ids ts) (\<lambda>rest.
            Ok ((if yql then TableId t @ (if ts \<noteq> [] then '','' else []) else []) @ rest)))"

definition println :: "string \<Rightarrow> 'w \<times> string list \<Rightarrow> unit res \<times> ('w \<times> string list)" where
  "println line w = (Ok (), (fst w, snd w @ [line]))"

definition producer_prefix :: "TlsOptionsPB option \<Rightarrow> string" where
  "producer_prefix tls =
     ''yb-admin -master_addresses '' @ ''$PRODUCER_MASTERS'' @ '' ''
     @ (if HasTLS tls then ''-certs_dir_name $CERTS_DIR'' else []) @ '' ''
     @ ''bootstrap_cdc_producer'' @ '' ''"

definition producer_batch ::
  "TlsOptionsPB option \<Rightarrow> bool \<Rightarrow> TableInfo list \<Rightarrow> 'w \<times> string list \<Rightarrow> unit res \<times> ('w \<times> string list)" where
  "producer_batch tls is_first batch w =
     andThen (table_ids batch, w) (\<lambda>ids w. println (producer_prefix tls @ ids) w)"

definition initProducer ::
  "'w master_ops \<Rightarrow> TlsOptionsPB option \<Rightarrow> InitProducerOptions \<Rightarrow> 'w \<times> string list \<Rightarrow>
   (unit res \<times> ('w \<times> string list)) option" where
  "initProducer ops tls options w =
     (case getTablesToBootstrap ops (ProducerKeyspace options) (fst w) of
        (Error e, w1) \<Rightarrow> Some (Error e, (w1, snd w))
      | (Panic p, w1) \<Rightarrow> Some (Panic p, (w1, snd w))
      | (Ok tables, w1) \<Rightarrow>
          batch_loop (producer_batch tls) tables (ProducerBatchSize options) 0 (w1, snd w))"

definition consumer_prefix :: "TlsOptionsPB option \<Rightarrow> string" where
  "consumer_prefix tls =
     ''yb-admin -master_addresses '' @ ''$CONSUMER_MASTERS'' @ '' ''
     @ (if HasTLS tls then ''-certs_dir_name $CERTS_DIR '' else [])"

definition consumer_verb :: "bool \<Rightarrow> string \<Rightarrow> string" where
  "consumer_verb is_first uuid =
     (if is_first then ''setup_universe_replication '' @ uuid @ '' $PRODUCER_MASTERS ''
      else ''alter_universe_replication '' @ uuid @ '' add_table '')"

text \<open>The bootstrap IDs of a batch: each YQL table must have exactly one stream.\<close>

fun stream_ids :: "'w master_ops \<Rightarrow> TableInfo list \<Rightarrow> 'w \<Rightarrow> string res \<times> 'w" where
  "stream_ids ops [] w = (Ok [], w)"
| "stream_ids ops (t # ts) w =
     (case IsYql t of
        None \<Rightarrow> (Panic ''nil pointer dereference'', w)
      | Some False \<Rightarrow> stream_ids ops ts w
      | Some True \<Rightarrow>
          andThen (ListCDCStreams ops (Some (TableId t)) w) (\<lambda>(err, streams) w.
            if err \<noteq> None then (Error (Err (''error getting stream table '' @ TableId t)), w)
            else if length streams = 0 then (Error (Err (''bootstrap IDs not found for table '' @ TableId t)), w)
            else if length streams > 1 then (Error (Err (''found too many streams for table '' @ TableId t)), w)
            else andThen (stream_ids ops ts w) (\<lambda>rest w.
                   (Ok (CdcStreamId (streams ! 0) @ (if ts \<noteq> [] then '','' else []) @ rest), w))))"

definition consumer_batch ::
  "'w master_ops \<Rightarrow> TlsOptionsPB option \<Rightarrow> string \<Rightarrow> bool \<Rightarrow> bool \<Rightarrow> TableInfo list \<Rightarrow> 'w \<times> string list \<Rightarrow>
   unit res \<times> ('w \<times> string list)" where
  "consumer_batch ops tls uuid skip is_first batch w =
     andThen (table_ids batch, w) (\<lambda>ids w.
       (let cmd = consumer_prefix tls @ consumer_verb is_first uuid @ ids
        in if skip then println cmd w
           else (case stream_ids ops batch (fst w) of
                   (Ok streams, w1) \<Rightarrow> println (cmd @ '' '' @ streams) (w1, snd w)
                 | (Error e, w1) \<Rightarrow> (Error e, (w1, snd w))
                 | (Panic p, w1) \<Rightarrow> (Panic p, (w1, snd w)))))"

definition runInitConsumer ::
  "'w master_ops \<Rightarrow> TlsOptionsPB option \<Rightarrow> InitConsumerOptions \<Rightarrow> 'w \<times> string list \<Rightarrow>
   (unit res \<times> ('w \<times> string list)) option" where
  "runInitConsumer ops tls options w =
     (case andThen (getTablesToBootstrap ops (KeyspaceName options) (fst w)) (\<lambda>tables w1.
             andThen (GetClusterUuid ops w1) (\<lambda>uuid w2. (Ok (tables, uuid), w2))) of
        (Error e, w1) \<Rightarrow> Some (Error e, (w1, snd w))
      | (Panic p, w1) \<Rightarrow> Some (Panic p, (w1, snd w))
      | (Ok (tables, uuid), w1) \<Rightarrow>
          batch_loop (consumer_batch ops tls uuid (SkipBootstraps options)) tables (BatchSize options) 0 (w1, snd w))"

text \<open>\<open>streamInfo\<close>: a failing schema request is logged, and the stream is reported without it.\<close>

fun stream_reports ::
  "(string \<Rightarrow> 'w \<Rightarrow> 'sc TableSchemaResponse res \<times> 'w) \<Rightarrow> StreamInfo list \<Rightarrow> 'w \<Rightarrow>
   (StreamInfo \<times> 'sc TableSchemaResponse option) list res \<times> 'w" where
  "stream_reports get_schema [] w = (Ok [], w)"
| "stream_reports get_schema (s # ss) w =
     (case StreamTableId s of
        None \<Rightarrow> andThen (stream_reports get_schema ss w) (\<lambda>rs w. (Ok ((s, None) # rs), w))
      | Some tableId \<Rightarrow>
          (case get_schema tableId w of
             (Panic p, w1) \<Rightarrow> (Panic p, w1)
           | (Error _, w1) \<Rightarrow> andThen (stream_reports get_schema ss w1) (\<lambda>rs w. (Ok ((s, None) # rs), w))
           | (Ok r, w1) \<Rightarrow> andThen (stream_reports get_schema ss w1) (\<lambda>rs w. (Ok ((s, Some r) # rs), w))))"

definition streamInfo ::
  "'w master_ops \<Rightarrow> (string \<Rightarrow> 'w \<Rightarrow> 'sc TableSchemaResponse res \<times> 'w) \<Rightarrow> 'w \<Rightarrow>
   (StreamInfo \<times> 'sc TableSchemaResponse option) list res \<times> 'w" where
  "streamInfo ops get_schema w =
     andThen (ListCDCStreams ops None w) (\<lambda>(err, streams) w.
       case err of
         Some e \<Rightarrow> (Error (Err (''unable to list cdc streams: '' @ ErrorText e)), w)
       | None \<Rightarrow> stream_reports get_schema streams w)"

subsection \<open>Table lists\<close>

definition typed :: "TableInfo \<Rightarrow> bool" where "typed t \<longleftrightarrow> IsYql t \<noteq> None"
definition yql :: "TableInfo \<Rightarrow> bool" where "yql t \<longleftrightarrow> IsYql t = Some True"

lemma table_ids_typed:
  "list_all typed ts \<Longrightarrow> \<exists>s. table_ids ts = Ok s"
  by (induction ts) (auto simp: typed_def)

lemma table_ids_yql: "list_all yql ts \<Longrightarrow> table_ids ts = Ok (join_with '','' (map TableId ts))"
proof (induction ts)
  case Nil
  then show ?case by simp
next
  case (Cons t ts)
  then show ?case by (cases ts) (simp_all add: yql_def)
qed

lemma table_ids_trailing:
  assumes "list_all yql as" "as \<noteq> []" "list_all (\<lambda>t. IsYql t = Some False) bs" "bs \<noteq> []"
  shows "table_ids (as @ bs) = Ok (join_with '','' (map TableId as) @ '','')"
proof -
  have b: "table_ids bs = Ok []" using assms(3) by (induction bs) simp_all
  show ?thesis using assms(1,2)
  proof (induction as)
    case Nil
    then show ?case by simp
  next
    case (Cons t as)
    then show ?case using assms(4) b by (cases as) (simp_all add: yql_def)
  qed
qed

text \<open>The lines \<open>init_producer\<close> prints for batches of typed tables.\<close>

lemma producer_batches:
  "\<forall>b\<in>set bs. list_all typed b \<Longrightarrow>
   for_each (producer_batch tls False) bs (w, out)
   = (Ok (), (w, out @ map (\<lambda>b. producer_prefix tls @ (case table_ids b of Ok s \<Rightarrow> s | _ \<Rightarrow> [])) bs))"
proof (induction bs arbitrary: out)
  case Nil
  then show ?case by simp
next
  case (Cons b bs)
  then obtain s where "table_ids b = Ok s" using table_ids_typed [of b] by auto
  then show ?case using Cons by (simp add: producer_batch_def println_def)
qed

lemma producer_first: "producer_batch tls True = producer_batch tls False"
  by (simp add: producer_batch_def fun_eq_iff)

lemma first_then_same: "f True = f False \<Longrightarrow> first_then f bs w = for_each (f False) bs w"
  by (cases bs) simp_all

lemma chunks_yql: "list_all P ts \<Longrightarrow> 0 < n \<Longrightarrow> b \<in> set (chunks n ts) \<Longrightarrow> list_all P b"
proof -
  assume P: "list_all P ts" and n: "0 < n" and b: "b \<in> set (chunks n ts)"
  have "set b \<subseteq> set (concat (chunks n ts))" using b by auto
  then show "list_all P b" using P by (auto simp: concat_chunks [OF n] list_all_iff)
qed

lemma consumer_batches_skip:
  "\<forall>b\<in>set bs. list_all yql b \<Longrightarrow>
   for_each (consumer_batch ops tls uuid True False) bs (w, out)
   = (Ok (), (w, out @ map (\<lambda>b. consumer_prefix tls @ consumer_verb False uuid @ join_with '','' (map TableId b)) bs))"
  by (induction bs arbitrary: out) (simp_all add: consumer_batch_def println_def table_ids_yql)

text \<open>The bootstrap IDs of a batch whose tables have one stream each.\<close>

lemma stream_ids_all:
  assumes "\<And>t w. t \<in> set ts \<Longrightarrow> ListCDCStreams ops (Some (TableId t)) w
      = (Ok (None, [\<lparr>CdcStreamId = sid t, StreamTableId = Some (TableId t)\<rparr>]), w)"
    and "list_all yql ts"
  shows "stream_ids ops ts w = (Ok (join_with '','' (map sid ts)), w)"
  using assms
proof (induction ts)
  case Nil
  then show ?case by simp
next
  case (Cons t ts)
  then have "stream_ids ops ts w = (Ok (join_with '','' (map sid ts)), w)" by simp
  then show ?case using Cons.prems by (cases ts) (simp_all add: yql_def)
qed

lemma consumer_batches_streams:
  assumes "\<And>t w. t \<in> set (concat bs) \<Longrightarrow> ListCDCStreams ops (Some (TableId t)) w
      = (Ok (None, [\<lparr>CdcStreamId = sid t, StreamTableId = Some (TableId t)\<rparr>]), w)"
    and "\<forall>b\<in>set bs. list_all yql b"
  shows "for_each (consumer_batch ops tls uuid False False) bs (w, out)
   = (Ok (), (w, out @ map (\<lambda>b. consumer_prefix tls @ consumer_verb False uuid @ join_with '','' (map TableId b)
        @ '' '' @ join_with '','' (map sid b)) bs))"
  using assms
proof (induction bs arbitrary: out)
  case Nil
  then show ?case by simp
next
  case (Cons b bs)
  have "stream_ids ops b w = (Ok (join_with '','' (map sid b)), w)"
    using Cons.prems by (intro stream_ids_all) auto
  then show ?case using Cons by (simp add: consumer_batch_def println_def table_ids_yql)
qed

lemma consumer_verb_text:
  "consumer_verb True uuid = ''setup_universe_replication '' @ uuid @ '' $PRODUCER_MASTERS ''"
  "consumer_verb False uuid = ''alter_universe_replication '' @ uuid @ '' add_table ''"
  by (simp_all add: consumer_verb_def)

subsection \<open>Properties\<close>

definition sample_ops :: "unit master_ops" where
  "sample_ops =
     \<lparr>ListTables = (\<lambda>k w. (Ok (None, [\<lparr>TableId = ''t1'', IsYql = Some True\<rparr>, \<lparr>TableId = ''t2'', IsYql = Some True\<rparr>,
        \<lparr>TableId = ''t3'', IsYql = Some True\<rparr>]), w)),
      GetClusterUuid = (\<lambda>w. (Ok ''u'', w)),
      ListCDCStreams = (\<lambda>t w. (Ok (None, [\<lparr>CdcStreamId = ''s'' @ (case t of None \<Rightarrow> [] | Some i \<Rightarrow> i), StreamTableId = t\<rparr>]), w))\<rparr>"





text \<open>the batch size is not validated: with a listed table, a batch size of zero makes
  \<open>init_producer\<close> print the empty batch for ever, and a negative one panics.\<close>

theorem initProducer_bad_batch_size:
  assumes "getTablesToBootstrap ops (ProducerKeyspace options) w = (Ok tables, w1)" and "tables \<noteq> []"
  shows "(ProducerBatchSize options = 0 \<longrightarrow> initProducer ops tls options (w, out) = None)
    \<and> (ProducerBatchSize options < 0 \<and> - (2 ^ 63) \<le> ProducerBatchSize options \<longrightarrow>
         initProducer ops tls options (w, out) = Some (Panic ''slice bounds out of range'', (w1, out)))"
proof (intro conjI impI)
  show "initProducer ops tls options (w, out) = None" if "ProducerBatchSize options = 0"
  proof -
    have "batch_loop (producer_batch tls) tables 0 0 (w1, out) = None"
      by (rule batch_loop_zero) (simp_all add: producer_batch_def println_def assms(2))
    then show ?thesis using assms(1) that by (simp add: initProducer_def)
  qed
qed (auto simp: initProducer_def assms batch_loop_negative)

theorem initProducer_bad_batch_size_witness:
  "initProducer sample_ops None \<lparr>ProducerKeyspace = [], ProducerBatchSize = 0\<rparr> ((), []) = None"
proof -
  let ?o = "\<lparr>ProducerKeyspace = [], ProducerBatchSize = 0\<rparr>"
  have "\<exists>ts. getTablesToBootstrap sample_ops (ProducerKeyspace ?o) () = (Ok ts, ()) \<and> ts \<noteq> []"
    by (simp add: getTablesToBootstrap_def sample_ops_def)
  then obtain ts where "getTablesToBootstrap sample_ops (ProducerKeyspace ?o) () = (Ok ts, ())" "ts \<noteq> []" by blast
  from initProducer_bad_batch_size [OF this, of None "[]"] show ?thesis by simp
qed

text \<open>a batch that ends with tables of another type gives a malformed list: the comma is written
  after a YQL table that is not the last table of the batch, whether or not another ID follows.\<close>

theorem table_list_trailing_comma:
  assumes "list_all yql as" "as \<noteq> []" "list_all (\<lambda>t. IsYql t = Some False) bs"
  shows "table_ids (as @ bs) = Ok (join_with '','' (map TableId as) @ (if bs = [] then [] else '',''))"
  using assms table_ids_yql [OF assms(1)] table_ids_trailing [OF assms] by (cases "bs = []") simp_all

theorem table_list_trailing_comma_witness:
  "table_ids [\<lparr>TableId = ''t1'', IsYql = Some True\<rparr>, \<lparr>TableId = ''t2'', IsYql = Some False\<rparr>] = Ok ''t1,''"
  using table_list_trailing_comma [of "[\<lparr>TableId = ''t1'', IsYql = Some True\<rparr>]" "[\<lparr>TableId = ''t2'', IsYql = Some False\<rparr>]"]
  by (simp add: yql_def)

end
