(* ===== verification/Transitions.thy ===== *)
theory Transitions
  imports Prelude
begin

section \<open>Transition systems\<close>

text \<open>
  The contract of a concurrent part of the program: a step relation, an invariant it keeps, a measure
  it decreases, and progress until a final state. What follows holds for every interleaving of the
  steps: the invariant in all reachable states, a bound on the length of every run, and a run to a
  final state from every reachable one. Three locales, each an extension of the one before, give as
  much of it as a part of the program can promise.
\<close>

inductive run :: "('s \<Rightarrow> 's \<Rightarrow> bool) \<Rightarrow> nat \<Rightarrow> 's \<Rightarrow> 's \<Rightarrow> bool" for step where
  stop: "run step 0 s s"
| more: "step s t \<Longrightarrow> run step n t u \<Longrightarrow> run step (Suc n) s u"

inductive_cases run_SucE: "run step (Suc n) s u"

text \<open>
  What every step keeps, and that a state which is not final has a next one: enough for safety and for
  the absence of deadlocks.
\<close>

locale stepping =
  fixes step :: "'s \<Rightarrow> 's \<Rightarrow> bool"
    and inv :: "'s \<Rightarrow> bool"
    and final :: "'s \<Rightarrow> bool"
  assumes inv_step: "inv s \<Longrightarrow> step s t \<Longrightarrow> inv t"
    and progress: "inv s \<Longrightarrow> \<not> final s \<Longrightarrow> \<exists>t. step s t"
begin

lemma reachable_inv: "run step n s t \<Longrightarrow> inv s \<Longrightarrow> inv t"
  by (induction rule: run.induct) (auto intro: inv_step)

text \<open>A run that cannot be continued has ended in a final state.\<close>

lemma stuck_is_final: "run step n s t \<Longrightarrow> inv s \<Longrightarrow> \<not> (\<exists>u. step t u) \<Longrightarrow> final t"
  using reachable_inv progress by blast

end

text \<open>Steps that descend in a well-founded order, where no bound on their number is known beforehand.\<close>

locale founded_system = stepping step inv final
  for step :: "'s \<Rightarrow> 's \<Rightarrow> bool" and inv :: "'s \<Rightarrow> bool" and final :: "'s \<Rightarrow> bool" and order :: "('s \<times> 's) set" +
  assumes founded: "wf order"
    and descends: "inv s \<Longrightarrow> step s t \<Longrightarrow> (t, s) \<in> order"
begin

lemma reaches_final: "inv s \<Longrightarrow> \<exists>n t. run step n s t \<and> final t"
proof (induction s rule: wf_induct_rule [OF founded])
  case (1 s)
  show ?case
  proof (cases "final s")
    case True
    then show ?thesis by (intro exI [of _ 0] exI [of _ s] conjI run.stop)
  next
    case False
    then obtain t where t: "step s t" using progress 1(2) by blast
    then obtain n u where "run step n t u" "final u"
      using 1(1) [OF descends [OF 1(2) t]] inv_step [OF 1(2) t] by blast
    then show ?thesis using run.more [of step s t, OF t] by blast
  qed
qed

lemma no_infinite_run: "inv (f 0) \<Longrightarrow> \<exists>n. \<not> step (f n) (f (Suc n))"
proof (rule ccontr)
  assume start: "inv (f 0)" and "\<not> (\<exists>n. \<not> step (f n) (f (Suc n)))"
  then have steps: "step (f n) (f (Suc n))" for n by blast
  have "inv (f n)" for n by (induction n) (use start steps inv_step in blast)+
  then have "(f (Suc n), f n) \<in> order" for n using descends steps by blast
  then show False using founded unfolding wf_iff_no_infinite_down_chain by blast
qed

end

text \<open>Steps that decrease a measure: runs have a bounded length as well.\<close>

locale transition_system =
  fixes step :: "'s \<Rightarrow> 's \<Rightarrow> bool"
    and inv :: "'s \<Rightarrow> bool"
    and rank :: "'s \<Rightarrow> nat"
    and final :: "'s \<Rightarrow> bool"
  assumes inv_kept: "inv s \<Longrightarrow> step s t \<Longrightarrow> inv t"
    and decreases: "inv s \<Longrightarrow> step s t \<Longrightarrow> rank t < rank s"
    and goes_on: "inv s \<Longrightarrow> \<not> final s \<Longrightarrow> \<exists>t. step s t"

sublocale transition_system \<subseteq> founded_system step inv final "measure rank"
  by unfold_locales (simp_all add: inv_kept decreases goes_on)

context transition_system begin

lemma run_bounded: "run step n s t \<Longrightarrow> inv s \<Longrightarrow> n + rank t \<le> rank s"
proof (induction rule: run.induct)
  case (stop s)
  then show ?case by simp
next
  case (more s t n u)
  then have "n + rank u \<le> rank t" using inv_kept by blast
  then show ?case using decreases [OF more.prems more.hyps(1)] by simp
qed

end

end
