(* ===== verification/Ycrc.thy ===== *)
theory Ycrc
  imports Transitions GoStd "HOL-Library.Multiset" "HOL-Library.AList"
begin

section \<open>ycrc: counting the rows of YCQL tables in parallel\<close>

text \<open>
  \<open>ycrc/cmd/root.go\<close>. The 65536 values of \<open>partition_hash\<close> are cut into ranges, the ranges are shuffled
  and handed through a channel to \<open>parallelTasks\<close> workers, each of which counts the rows of a range
  with one query and sends the count to the collector. The package variables set by the flags are the
  record \<open>flags\<close>, those that change while counting the record \<open>counters\<close>. \<open>os.Exit\<close> is \<open>Exit\<close>.
  The database is a parameter: \<open>query stmt l u\<close> is the count and the error a statement gives. Texts
  printed for the user are left out.
\<close>

subsection \<open>Flags\<close>

definition ScaleFactor :: int where "ScaleFactor = 6"
definition ParallelTasks :: int where "ParallelTasks = 16"
definition Timeout :: int where "Timeout = 1500"
definition ErrCountMax :: int where "ErrCountMax = 5"

record flags =
  debug :: bool
  hosts :: "string list"
  tables :: "string list"
  scaleFactor :: int
  parallelTasks :: int
  timeout :: int
  errmax :: int
  certPath :: string
  keyPath :: string
  caPath :: string
  enableHostVerification :: bool
  user :: string
  password :: string

definition init_flags :: flags where
  "init_flags =
     \<lparr>debug = False, hosts = [''127.0.0.1''], tables = [], scaleFactor = ScaleFactor,
      parallelTasks = ParallelTasks, timeout = Timeout, errmax = ErrCountMax, certPath = [], keyPath = [],
      caPath = [], enableHostVerification = False, user = ''cassandra'', password = []\<rparr>"

datatype 'a outcome = Return 'a | Exit nat | Crash string

record counters =
  errored :: bool
  errCount :: int

record partitionMap =
  pm_table :: string
  pColumns :: string
  lbound :: nat
  ubound :: nat

text \<open>The checks \<open>rowCount\<close> makes of the flags, in its order.\<close>

definition check_flags :: "flags \<Rightarrow> flags outcome" where
  "check_flags f =
     (if \<not> (certPath f = [] \<and> keyPath f = []) \<and> (certPath f = [] \<or> keyPath f = []) then Exit 1
      else
        (let f = (if \<not> (1 \<le> scaleFactor f \<and> scaleFactor f \<le> 10) then f\<lparr>scaleFactor := ScaleFactor\<rparr> else f);
             f = (if parallelTasks f < 1 then f\<lparr>parallelTasks := ParallelTasks\<rparr> else f);
             f = (if timeout f < 100 then f\<lparr>timeout := Timeout\<rparr> else f);
             f = (if errmax f < 0 then f\<lparr>errmax := ErrCountMax\<rparr> else f)
         in Return f))"

text \<open>\<open>int(4096 * math.Exp2(float64(scaleFactor) - 6))\<close>: powers of two, exact in floating point.\<close>

definition tasksPerTable :: "int \<Rightarrow> nat" where
  "tasksPerTable s = (if 6 \<le> s then 4096 * 2 ^ nat (s - 6) else 4096 div 2 ^ nat (6 - s))"

subsection \<open>One range\<close>

definition count_statement :: "string \<Rightarrow> partitionMap \<Rightarrow> string" where
  "count_statement keyspace p =
     ''SELECT count(*) as rows from '' @ keyspace @ ''.'' @ pm_table p @ '' WHERE partition_hash(\"''
     @ pColumns p @ ''\") >= ? AND partition_hash(\"'' @ pColumns p @ ''\") <= ?''"

type_synonym db = "string \<Rightarrow> nat \<Rightarrow> nat \<Rightarrow> 64 word \<times> goerror option"

definition checkPartitionRowCount ::
  "int \<Rightarrow> string \<Rightarrow> db \<Rightarrow> partitionMap \<Rightarrow> counters \<Rightarrow> (64 word \<times> goerror option) \<times> counters" where
  "checkPartitionRowCount emax keyspace query p st =
     (let (rows, err) = query (count_statement keyspace p) (lbound p) (ubound p)
      in case err of
           None \<Rightarrow> ((rows, err), st)
         | Some e \<Rightarrow>
             ((rows, err),
              if emax = 0 \<or> errCount st < emax
              then st\<lparr>errCount := errCount st + 1, errored := True\<rparr> else st))"

subsection \<open>One table\<close>

text \<open>
  The map from positions to column names (the last row of a position wins), laid out as a slice;
  a position outside the slice is an index panic.
\<close>

definition partition_columns :: "(string \<times> nat) list \<Rightarrow> string list outcome" where
  "partition_columns rows =
     (let m = fold (\<lambda>(name, pos) m. AList.update pos name m) rows [];
          n = length m
      in if list_all (\<lambda>(p, c). p < n) m then Return (map (\<lambda>i. the (map_of m i)) [0 ..< n])
         else Crash ''index out of range'')"

definition rangeSize :: "nat \<Rightarrow> nat" where
  "rangeSize tasks = 64 * 1024 div tasks"

definition lbounds :: "nat \<Rightarrow> nat list" where
  "lbounds tasks = map (\<lambda>i. i * rangeSize tasks) [0 ..< tasks]"

text \<open>\<open>perm\<close> is what \<open>rand.Perm\<close> gave.\<close>

definition shuffle :: "nat list \<Rightarrow> nat list \<Rightarrow> nat list" where
  "shuffle perm vals = map (\<lambda>randIdx. vals ! randIdx) perm"

definition partition_jobs :: "nat list \<Rightarrow> nat \<Rightarrow> string \<Rightarrow> string \<Rightarrow> partitionMap list" where
  "partition_jobs perm tasks table cols =
     map (\<lambda>l. \<lparr>pm_table = table, pColumns = cols, lbound = l, ubound = l + rangeSize tasks - 1\<rparr>)
       (shuffle perm (lbounds tasks))"

text \<open>
  The workers. A worker waits for a range, queries it, holds its count until the collector takes it,
  and ends when the closed channel is empty. Every interleaving of these steps is a possible run.
\<close>

datatype worker = Idle | Busy partitionMap | Holding "64 word" | Finished

record pool =
  jobs :: "partitionMap list"
  workers :: "worker list"
  total :: "64 word"

inductive pool_step :: "(partitionMap \<Rightarrow> 64 word) \<Rightarrow> pool \<Rightarrow> pool \<Rightarrow> bool" for cnt where
  take_job: "i < length (workers s) \<Longrightarrow> workers s ! i = Idle \<Longrightarrow> jobs s = p # ps \<Longrightarrow>
    pool_step cnt s (s\<lparr>jobs := ps, workers := (workers s)[i := Busy p]\<rparr>)"
| run_query: "i < length (workers s) \<Longrightarrow> workers s ! i = Busy p \<Longrightarrow>
    pool_step cnt s (s\<lparr>workers := (workers s)[i := Holding (cnt p)]\<rparr>)"
| send_count: "i < length (workers s) \<Longrightarrow> workers s ! i = Holding n \<Longrightarrow>
    pool_step cnt s (s\<lparr>workers := (workers s)[i := Idle], total := total s + n\<rparr>)"
| finish: "i < length (workers s) \<Longrightarrow> workers s ! i = Idle \<Longrightarrow> jobs s = [] \<Longrightarrow>
    pool_step cnt s (s\<lparr>workers := (workers s)[i := Finished]\<rparr>)"

definition start_pool :: "partitionMap list \<Rightarrow> nat \<Rightarrow> pool" where
  "start_pool ps n = \<lparr>jobs = ps, workers = replicate n Idle, total = 0\<rparr>"

text \<open>The results channel is closed when every worker is done.\<close>

definition pool_done :: "pool \<Rightarrow> bool" where
  "pool_done s \<longleftrightarrow> (\<forall>w\<in>set (workers s). w = Finished)"

text \<open>
  The whole count of a table, with the ranges counted one after the other; by the theorems below the
  total of the workers is the same whatever their schedule.
\<close>

fun count_all :: "int \<Rightarrow> string \<Rightarrow> db \<Rightarrow> partitionMap list \<Rightarrow> 64 word \<Rightarrow> counters \<Rightarrow> 64 word \<times> counters" where
  "count_all emax keyspace query [] n st = (n, st)"
| "count_all emax keyspace query (p # ps) n st =
     (case checkPartitionRowCount emax keyspace query p st of
        ((rows, err), st1) \<Rightarrow> count_all emax keyspace query ps (n + rows) st1)"

definition checkTableRowCounts ::
  "flags \<Rightarrow> string \<Rightarrow> db \<Rightarrow> (string \<Rightarrow> (string \<times> nat) list \<times> goerror option) \<Rightarrow> nat list \<Rightarrow> string \<Rightarrow> counters \<Rightarrow>
   (64 word \<times> bool) outcome \<times> counters" where
  "checkTableRowCounts f keyspace query columns perm table st =
     (let st = st\<lparr>errCount := 0\<rparr>;
          (rows, err) = columns table;
          st = (if err \<noteq> None then st\<lparr>errored := True\<rparr> else st)
      in case partition_columns rows of
           Crash p \<Rightarrow> (Crash p, st)
         | Exit n \<Rightarrow> (Exit n, st)
         | Return cols \<Rightarrow>
             (let (cnt, st1) = count_all (errmax f) keyspace query
                    (partition_jobs perm (tasksPerTable (scaleFactor f)) table (join_with '','' cols)) 0 st
              in (Return (cnt, \<not> errored st1), st1)))"

subsection \<open>A keyspace\<close>

text \<open>\<open>list_tables\<close> is the query of all tables, \<open>find_table\<close> that of one: its rows and the error of \<open>Close\<close>.\<close>

fun verify_tables :: "(string \<Rightarrow> nat \<times> goerror option) \<Rightarrow> string list \<Rightarrow> string list outcome" where
  "verify_tables find_table [] = Return []"
| "verify_tables find_table (t # ts) =
     (case find_table t of
        (n, err) \<Rightarrow>
          if n = 0 then verify_tables find_table ts
          else if err \<noteq> None then Exit 2
          else (case verify_tables find_table ts of Return l \<Rightarrow> Return (t # l) | r \<Rightarrow> r))"

definition select_tables ::
  "(string list \<times> goerror option) \<Rightarrow> (string \<Rightarrow> nat \<times> goerror option) \<Rightarrow> string list \<Rightarrow> string list outcome" where
  "select_tables list_tables find_table ts =
     (if length ts = 0
      then (case list_tables of (l, None) \<Rightarrow> Return l | (l, Some e) \<Rightarrow> Exit 2)
      else verify_tables find_table ts)"

text \<open>The loop over the tables: the counts so far, and whether it ended without an error.\<close>

fun check_tables ::
  "(string \<Rightarrow> counters \<Rightarrow> (64 word \<times> bool) outcome \<times> counters) \<Rightarrow> string list \<Rightarrow> counters \<Rightarrow>
   ((string \<times> 64 word) list \<times> bool) outcome \<times> counters" where
  "check_tables check [] st = (Return ([], True), st)"
| "check_tables check (t # ts) st =
     (case check t st of
        (Return (n, True), st1) \<Rightarrow>
          (case check_tables check ts st1 of
             (Return (l, ok), st2) \<Rightarrow> (Return ((t, n) # l, ok), st2)
           | r \<Rightarrow> r)
      | (Return (n, False), st1) \<Rightarrow> (Return ([(t, n)], False), st1)
      | (Exit k, st1) \<Rightarrow> (Exit k, st1)
      | (Crash p, st1) \<Rightarrow> (Crash p, st1))"

definition checkKeyspaceTableRowCounts ::
  "flags \<Rightarrow> string \<Rightarrow> db \<Rightarrow> (string \<Rightarrow> (string \<times> nat) list \<times> goerror option) \<Rightarrow>
   (string list \<times> goerror option) \<Rightarrow> (string \<Rightarrow> nat \<times> goerror option) \<Rightarrow> nat list \<Rightarrow> counters \<Rightarrow>
   ((string \<times> 64 word) list \<times> bool) outcome \<times> counters" where
  "checkKeyspaceTableRowCounts f keyspace query columns list_tables find_table perm st =
     (case select_tables list_tables find_table (tables f) of
        Exit k \<Rightarrow> (Exit k, st)
      | Crash p \<Rightarrow> (Crash p, st)
      | Return ts \<Rightarrow>
          if length ts = 0 then (Exit 0, st)
          else check_tables (checkTableRowCounts f keyspace query columns perm) ts st)"

record gocql_cluster =
  cc_hosts :: "string list"
  cc_auth :: "(string \<times> string) option"
  cc_timeout_ms :: int
  cc_ssl :: "(string \<times> string \<times> string \<times> bool) option"
  cc_keyspace :: string

definition cluster_config :: "flags \<Rightarrow> string \<Rightarrow> gocql_cluster" where
  "cluster_config f keyspace =
     \<lparr>cc_hosts = hosts f, cc_auth = (if password f \<noteq> [] then Some (user f, password f) else None),
      cc_timeout_ms = timeout f,
      cc_ssl = (if certPath f \<noteq> [] \<or> keyPath f \<noteq> [] \<or> caPath f \<noteq> []
                then Some (certPath f, keyPath f, caPath f, enableHostVerification f) else None),
      cc_keyspace = keyspace\<rparr>"

record database =
  db_query :: db
  db_columns :: "string \<Rightarrow> (string \<times> nat) list \<times> goerror option"
  db_list_tables :: "string list \<times> goerror option"
  db_find_table :: "string \<Rightarrow> nat \<times> goerror option"

text \<open>The exit status of the program; an error of the count is printed, and the status stays 0.\<close>

definition rowCount ::
  "(gocql_cluster \<Rightarrow> database res) \<Rightarrow> nat list \<Rightarrow> flags \<Rightarrow> string \<Rightarrow> (string \<times> 64 word) list outcome" where
  "rowCount create_session perm f0 keyspace =
     (case check_flags f0 of
        Exit k \<Rightarrow> Exit k
      | Crash p \<Rightarrow> Crash p
      | Return f \<Rightarrow>
          (case create_session (cluster_config f keyspace) of
             Ok d \<Rightarrow>
               (case fst (checkKeyspaceTableRowCounts f keyspace (db_query d) (db_columns d) (db_list_tables d)
                        (db_find_table d) perm \<lparr>errored = False, errCount = 0\<rparr>) of
                  Return (counts, ok) \<Rightarrow> Return counts
                | Exit k \<Rightarrow> Exit k
                | Crash p \<Rightarrow> Crash p)
           | _ \<Rightarrow> Exit 2))"

subsection \<open>The worker pool\<close>

text \<open>What a worker has taken and not yet handed over.\<close>

fun pending :: "(partitionMap \<Rightarrow> 64 word) \<Rightarrow> worker \<Rightarrow> 64 word" where
  "pending cnt (Busy p) = cnt p"
| "pending cnt (Holding n) = n"
| "pending cnt _ = 0"

fun steps_left :: "worker \<Rightarrow> nat" where
  "steps_left Finished = 0"
| "steps_left Idle = 1"
| "steps_left (Holding n) = 2"
| "steps_left (Busy p) = 3"

definition job_sum :: "(partitionMap \<Rightarrow> 64 word) \<Rightarrow> partitionMap list \<Rightarrow> 64 word" where
  "job_sum cnt ps = sum_list (map cnt ps)"

definition pool_inv :: "(partitionMap \<Rightarrow> 64 word) \<Rightarrow> 64 word \<Rightarrow> pool \<Rightarrow> bool" where
  "pool_inv cnt S s \<longleftrightarrow>
     total s + sum_list (map (pending cnt) (workers s)) + job_sum cnt (jobs s) = S
     \<and> workers s \<noteq> [] \<and> (Finished \<in> set (workers s) \<longrightarrow> jobs s = [])"

definition pool_rank :: "pool \<Rightarrow> nat" where
  "pool_rank s = 4 * length (jobs s) + sum_list (map steps_left (workers s))"

lemma sum_list_zeros: "(\<And>x. x \<in> set xs \<Longrightarrow> x = 0) \<Longrightarrow> sum_list xs = (0 :: 'a::comm_monoid_add)"
  by (induction xs) simp_all

lemma Finished_update: "Finished \<in> set (ws[i := w]) \<Longrightarrow> w \<noteq> Finished \<Longrightarrow> Finished \<in> set ws"
  using set_update_subset_insert by fastforce

lemma pool_inv_step: "pool_step cnt s t \<Longrightarrow> pool_inv cnt S s \<Longrightarrow> pool_inv cnt S t"
proof (induction rule: pool_step.induct)
  case (take_job i s p ps)
  then show ?case
    using sum_list_map_update [of i "workers s" "pending cnt" "Busy p"]
    by (auto simp: pool_inv_def job_sum_def ac_simps dest: Finished_update)
next
  case (run_query i s p)
  then show ?case
    using sum_list_map_update [of i "workers s" "pending cnt" "Holding (cnt p)"]
    by (auto simp: pool_inv_def ac_simps dest: Finished_update)
next
  case (send_count i s n)
  then show ?case
    using sum_list_map_update [of i "workers s" "pending cnt" "Idle"]
    by (auto simp: pool_inv_def ac_simps dest: Finished_update)
next
  case (finish i s)
  then show ?case
    using sum_list_map_update [of i "workers s" "pending cnt" "Finished"]
    by (auto simp: pool_inv_def)
qed

lemma pool_rank_step: "pool_step cnt s t \<Longrightarrow> pool_rank t < pool_rank s"
proof (induction rule: pool_step.induct)
  case (take_job i s p ps)
  then show ?case using sum_list_map_update [of i "workers s" steps_left "Busy p"] by (simp add: pool_rank_def)
next
  case (run_query i s p)
  then show ?case using sum_list_map_update [of i "workers s" steps_left "Holding (cnt p)"] by (simp add: pool_rank_def)
next
  case (send_count i s n)
  then show ?case using sum_list_map_update [of i "workers s" steps_left "Idle"] by (simp add: pool_rank_def)
next
  case (finish i s)
  then show ?case using sum_list_map_update [of i "workers s" steps_left "Finished"] by (simp add: pool_rank_def)
qed

lemma pool_progress: "\<not> pool_done s \<Longrightarrow> \<exists>t. pool_step cnt s t"
proof -
  assume "\<not> pool_done s"
  then obtain i where i: "i < length (workers s)" "workers s ! i \<noteq> Finished"
    by (auto simp: pool_done_def in_set_conv_nth)
  show ?thesis
  proof (cases "workers s ! i")
    case Idle
    then show ?thesis using i take_job [of i s] finish [of i s] by (cases "jobs s") blast+
  next
    case (Busy p)
    then show ?thesis using i run_query [of i s] by blast
  next
    case (Holding n)
    then show ?thesis using i send_count [of i s] by blast
  qed (use i in simp)
qed

interpretation pool: transition_system "pool_step cnt" "pool_inv cnt S" pool_rank pool_done for cnt S
  by unfold_locales (auto intro: pool_inv_step pool_rank_step pool_progress)

lemma start_pool_inv: "0 < n \<Longrightarrow> pool_inv cnt (job_sum cnt ps) (start_pool ps n)"
  using sum_list_zeros [of "replicate n (0 :: 64 word)"] by (simp add: pool_inv_def start_pool_def)

lemma pool_done_total: "pool_inv cnt S s \<Longrightarrow> pool_done s \<Longrightarrow> total s = S"
proof -
  assume inv: "pool_inv cnt S s" and fin: "pool_done s"
  then have "jobs s = []" by (cases "workers s") (auto simp: pool_inv_def pool_done_def)
  moreover have "sum_list (map (pending cnt) (workers s)) = 0"
    by (rule sum_list_zeros) (use fin in \<open>auto simp: pool_done_def\<close>)
  ultimately show ?thesis using inv by (simp add: pool_inv_def job_sum_def)
qed

lemma count_all_sum:
  "fst (count_all emax keyspace query ps n st)
   = n + job_sum (\<lambda>p. fst (query (count_statement keyspace p) (lbound p) (ubound p))) ps"
proof (induction ps arbitrary: n st)
  case Nil
  then show ?case by (simp add: job_sum_def)
next
  case (Cons p ps)
  then show ?case
    by (auto simp: checkPartitionRowCount_def Let_def job_sum_def split: prod.split option.split)
qed

subsection \<open>The ranges\<close>

lemma tasksPerTable_eq:
  assumes "1 \<le> s" "s \<le> 10" shows "tasksPerTable s = 2 ^ nat (s + 6)"
proof -
  have "s \<in> {1, 2, 3, 4, 5, 6, 7, 8, 9, 10}" using assms by simp presburger
  then show ?thesis by (auto simp: tasksPerTable_def)
qed

lemma tasksPerTable_power:
  assumes "1 \<le> s" "s \<le> 10" shows "\<exists>k. 7 \<le> k \<and> k \<le> 16 \<and> tasksPerTable s = 2 ^ k \<and> rangeSize (tasksPerTable s) = 2 ^ (16 - k)"
proof -
  have "tasksPerTable s = 2 ^ nat (s + 6)" by (rule tasksPerTable_eq [OF assms])
  moreover have "7 \<le> nat (s + 6)" "nat (s + 6) \<le> 16" using assms by auto
  moreover have "rangeSize (2 ^ k) = 2 ^ (16 - k)" if "k \<le> 16" for k
    using that power_diff [of "2::nat" k 16] by (simp add: rangeSize_def)
  ultimately show ?thesis by (intro exI [of _ "nat (s + 6)"]) simp
qed

definition in_range :: "nat \<Rightarrow> nat \<Rightarrow> nat \<Rightarrow> bool" where
  "in_range r h l \<longleftrightarrow> l \<le> h \<and> h \<le> l + r - 1"

lemma range_unique:
  assumes "0 < r" "h < n * r" "i < n"
  shows "in_range r h (i * r) \<longleftrightarrow> i = h div r"
proof
  assume "in_range r h (i * r)"
  then have "i * r \<le> h" "h < (i + 1) * r" using assms(1) by (auto simp: in_range_def)
  then show "i = h div r"
    using assms(1) by (metis Suc_eq_plus1 div_nat_eqI mult.commute)
next
  assume i: "i = h div r"
  have "h = i * r + h mod r" "h mod r < r" unfolding i using assms(1) by simp_all
  then show "in_range r h (i * r)" by (simp add: in_range_def)
qed

lemma count_range_once:
  assumes "0 < r" "h < n * r"
  shows "length (filter (in_range r h) (map (\<lambda>i. i * r) [0 ..< n])) = 1"
proof -
  have lt: "h div r < n" using assms by (simp add: less_mult_imp_div_less)
  have "filter (in_range r h \<circ> (\<lambda>i. i * r)) [0 ..< n] = filter (\<lambda>i. i = h div r) [0 ..< n]"
    by (rule filter_cong) (use range_unique [OF assms] in auto)
  also have "\<dots> = [h div r]" using lt by (induction n) (auto simp: less_Suc_eq)
  finally show ?thesis by (simp add: filter_map)
qed

text \<open>Counting by ranges counts every row once.\<close>

lemma sum_ranges:
  assumes "\<And>h. h \<in> set hs \<Longrightarrow> length (filter (in_range r h) ls) = 1"
  shows "sum_list (map (\<lambda>l. length (filter (\<lambda>h. in_range r h l) hs)) ls) = length hs"
  using assms
proof (induction hs)
  case Nil
  then show ?case by (simp add: sum_list_triv)
next
  case (Cons h hs)
  have "sum_list (map (\<lambda>l. length (filter (\<lambda>h. in_range r h l) (h # hs))) ls)
      = sum_list (map (\<lambda>l. (if in_range r h l then 1 else 0) + length (filter (\<lambda>h. in_range r h l) hs)) ls)"
    by (intro arg_cong [where f = sum_list] map_cong) auto
  also have "\<dots> = sum_list (map (\<lambda>l. if in_range r h l then 1 else 0) ls) + length hs"
    using Cons by (simp add: sum_list_addf)
  also have "sum_list (map (\<lambda>l. if in_range r h l then 1 else 0) ls) = length (filter (in_range r h) ls)"
    by (induction ls) simp_all
  finally show ?case using Cons.prems by simp
qed

lemma of_nat_sum_list: "(of_nat (sum_list ns) :: 'a::semiring_1) = sum_list (map of_nat ns)"
  by (induction ns) simp_all

lemma shuffle_mset:
  assumes "mset perm = mset [0 ..< length vals]" shows "mset (shuffle perm vals) = mset vals"
proof -
  have "mset (shuffle perm vals) = image_mset ((!) vals) (mset perm)"
    by (simp add: shuffle_def)
  also have "\<dots> = image_mset ((!) vals) (mset [0 ..< length vals])" unfolding assms ..
  also have "\<dots> = mset (map ((!) vals) [0 ..< length vals])" by simp
  finally show ?thesis by (simp add: map_nth)
qed

text \<open>A database whose answer is the number of rows whose hash lies in the range asked for.\<close>

definition rows_db :: "nat list \<Rightarrow> db" where
  "rows_db hs = (\<lambda>stmt l u. (of_nat (length (filter (\<lambda>h. l \<le> h \<and> h \<le> u) hs)), None))"

lemma job_sum_rows:
  assumes "1 \<le> s" "s \<le> 10" "mset perm = mset [0 ..< tasksPerTable s]" "\<And>h. h \<in> set hs \<Longrightarrow> h < 65536"
  shows "job_sum (\<lambda>p. fst (rows_db hs (stmt p) (lbound p) (ubound p))) (partition_jobs perm (tasksPerTable s) table cols)
    = of_nat (length hs)"
proof -
  obtain k where k: "7 \<le> k" "k \<le> 16" "tasksPerTable s = 2 ^ k" "rangeSize (tasksPerTable s) = 2 ^ (16 - k)"
    using tasksPerTable_power [OF assms(1,2)] by blast
  let ?n = "tasksPerTable s" and ?r = "rangeSize (tasksPerTable s)"
  have nr: "?n * ?r = 65536" and r: "0 < ?r" using k by (simp_all flip: power_add)
  let ?c = "\<lambda>l. length (filter (\<lambda>h. in_range ?r h l) hs)"
  have "mset perm = mset [0 ..< length (lbounds ?n)]" using assms(3) by (simp add: lbounds_def)
  from shuffle_mset [OF this] have m: "mset (map ?c (shuffle perm (lbounds ?n))) = mset (map ?c (lbounds ?n))" by simp
  have "sum_list (map ?c (shuffle perm (lbounds ?n))) = sum_list (map ?c (lbounds ?n))"
    using m by (metis sum_mset_sum_list)
  also have "\<dots> = length hs"
    unfolding lbounds_def using count_range_once [OF r] assms(4) nr by (intro sum_ranges) simp
  finally have s: "sum_list (map ?c (shuffle perm (lbounds ?n))) = length hs" .
  have "job_sum (\<lambda>p. fst (rows_db hs (stmt p) (lbound p) (ubound p))) (partition_jobs perm ?n table cols)
      = sum_list (map of_nat (map ?c (shuffle perm (lbounds ?n))))"
    by (simp add: job_sum_def partition_jobs_def rows_db_def comp_def in_range_def)
  then show ?thesis unfolding of_nat_sum_list [symmetric] s .
qed

subsection \<open>Errors\<close>

lemma count_all_errors:
  assumes "0 \<le> emax" "errCount st = 0 \<or> errored st"
  shows "errored (snd (count_all emax keyspace query ps n st)) \<longleftrightarrow>
    errored st \<or> (\<exists>p\<in>set ps. snd (query (count_statement keyspace p) (lbound p) (ubound p)) \<noteq> None)"
  using assms(2)
proof (induction ps arbitrary: n st)
  case Nil
  then show ?case by simp
next
  case (Cons p ps)
  obtain rows err where q: "query (count_statement keyspace p) (lbound p) (ubound p) = (rows, err)" by force
  show ?case
  proof (cases err)
    case None
    then show ?thesis using Cons by (simp add: checkPartitionRowCount_def q)
  next
    case (Some e)
    then obtain st1 where st1: "checkPartitionRowCount emax keyspace query p st = ((rows, err), st1)" "errored st1"
      using Cons.prems assms(1) by (auto simp: checkPartitionRowCount_def q)
    then show ?thesis using Cons.IH [of st1] Some by (simp add: q)
  qed
qed

subsection \<open>Properties\<close>

text \<open>C1: the count of a table is exact. For every scale, every shuffle of the ranges, every number of
  workers and every interleaving of them, if the database counts the rows of a range correctly, then
  once all workers are done the collected total is the number of rows of the table (as a 64-bit
  integer), since the ranges cover each of the 65536 hash values exactly once.\<close>

theorem pool_counts_every_row:
  assumes "1 \<le> scaleFactor f" "scaleFactor f \<le> 10"
    and "mset perm = mset [0 ..< tasksPerTable (scaleFactor f)]"
    and "\<And>h. h \<in> set hs \<Longrightarrow> h < 65536" and "0 < par"
    and "run (pool_step (\<lambda>p. fst (rows_db hs (count_statement keyspace p) (lbound p) (ubound p)))) n
      (start_pool (partition_jobs perm (tasksPerTable (scaleFactor f)) table cols) par) s"
    and "pool_done s"
  shows "total s = of_nat (length hs)"
  using pool_done_total [OF pool.reachable_inv [OF assms(6) start_pool_inv [OF assms(5)]] assms(7)]
    job_sum_rows [OF assms(1-4), where stmt = "count_statement keyspace" and table = table and cols = cols] by simp

theorem pool_counts_every_row_witness:
  "\<exists>n s. run (pool_step (\<lambda>p. fst (rows_db [0, 7, 65535] (count_statement ''ks'' p) (lbound p) (ubound p)))) n
      (start_pool (partition_jobs (rev [0 ..< tasksPerTable 6]) (tasksPerTable 6) ''t'' ''id'') 16) s
    \<and> pool_done s \<and> total s = 3"
proof -
  let ?cnt = "\<lambda>p. fst (rows_db [0, 7, 65535] (count_statement ''ks'' p) (lbound p) (ubound p))"
  let ?ps = "partition_jobs (rev [0 ..< tasksPerTable 6]) (tasksPerTable 6) ''t'' ''id''"
  have par: "0 < (16 :: nat)" by simp
  obtain n s where r: "run (pool_step ?cnt) n (start_pool ?ps 16) s" "pool_done s"
    using pool.reaches_final [OF start_pool_inv [OF par]] by blast
  have f: "scaleFactor init_flags = 6" by (simp add: init_flags_def ScaleFactor_def)
  have "total s = of_nat (length [0 :: nat, 7, 65535])"
    by (rule pool_counts_every_row [where f = init_flags, unfolded f, OF _ _ _ _ par r]) (auto simp: mset_rev)
  then show ?thesis using r by auto
qed

text \<open>C31: counting ends. Any run of the workers on any list of ranges takes at most four steps per range
  and one per worker, never stops before all workers are done, and can always be completed.\<close>

theorem pool_terminates:
  assumes "0 < par" and "run (pool_step cnt) n (start_pool ps par) s"
  shows "n \<le> 4 * length ps + par \<and> ((\<nexists>t. pool_step cnt s t) \<longrightarrow> pool_done s)
    \<and> (\<exists>m t. run (pool_step cnt) m s t \<and> pool_done t)"
proof -
  note inv = start_pool_inv [OF assms(1), of cnt ps]
  have "n + pool_rank s \<le> pool_rank (start_pool ps par)" by (rule pool.run_bounded [OF assms(2) inv])
  also have "\<dots> = 4 * length ps + par" by (simp add: pool_rank_def start_pool_def sum_list_replicate)
  finally show ?thesis
    using pool.stuck_is_final [OF assms(2) inv] pool.reaches_final [OF pool.reachable_inv [OF assms(2) inv]] by auto
qed

theorem pool_terminates_witness:
  "\<exists>m t. run (pool_step (\<lambda>p. 1)) m (start_pool [\<lparr>pm_table = ''t'', pColumns = ''id'', lbound = 0, ubound = 511\<rparr>] 2) t
     \<and> pool_done t"
  using pool_terminates [of 2 "\<lambda>p. 1" 0 "[\<lparr>pm_table = ''t'', pColumns = ''id'', lbound = 0, ubound = 511\<rparr>]"
      "start_pool [\<lparr>pm_table = ''t'', pColumns = ''id'', lbound = 0, ubound = 511\<rparr>] 2", OF _ run.stop] by simp

text \<open>an inaccurate count is always announced. With a non-negative error limit, the count of a table
  is reported as good exactly when no earlier table had an error, the columns were read without one,
  and no query failed, whatever the limit; and a good count of a correct database is the number of
  its rows.\<close>

theorem table_count_reliable:
  assumes "0 \<le> errmax f"
    and "checkTableRowCounts f keyspace query columns perm table st = (Return (n, ok), st')"
  shows "(ok \<longleftrightarrow> \<not> errored st \<and> snd (columns table) = None
      \<and> (\<exists>cols. partition_columns (fst (columns table)) = Return cols
          \<and> (\<forall>p\<in>set (partition_jobs perm (tasksPerTable (scaleFactor f)) table (join_with '','' cols)).
                snd (query (count_statement keyspace p) (lbound p) (ubound p)) = None)))
    \<and> (query = rows_db hs \<and> 1 \<le> scaleFactor f \<and> scaleFactor f \<le> 10
        \<and> mset perm = mset [0 ..< tasksPerTable (scaleFactor f)] \<and> (\<forall>h\<in>set hs. h < 65536)
        \<longrightarrow> n = of_nat (length hs))"
proof -
  obtain rows err where c: "columns table = (rows, err)" by force
  obtain cols where cols: "partition_columns rows = Return cols"
    using assms(2) by (cases "partition_columns rows") (simp_all add: checkTableRowCounts_def c Let_def)
  let ?ps = "partition_jobs perm (tasksPerTable (scaleFactor f)) table (join_with '','' cols)"
  let ?st = "(if err \<noteq> None then (st\<lparr>errCount := 0\<rparr>)\<lparr>errored := True\<rparr> else st\<lparr>errCount := 0\<rparr>)"
  have "checkTableRowCounts f keyspace query columns perm table st =
      (Return (fst (count_all (errmax f) keyspace query ?ps 0 ?st), \<not> errored (snd (count_all (errmax f) keyspace query ?ps 0 ?st))),
       snd (count_all (errmax f) keyspace query ?ps 0 ?st))"
    by (simp add: checkTableRowCounts_def c cols Let_def split: prod.split)
  then have n: "n = fst (count_all (errmax f) keyspace query ?ps 0 ?st)"
    and ok: "ok = (\<not> errored (snd (count_all (errmax f) keyspace query ?ps 0 ?st)))"
    using assms(2) by simp_all
  have e: "errCount ?st = 0 \<or> errored ?st" by simp
  show ?thesis
  proof (intro conjI impI)
    show "ok \<longleftrightarrow> \<not> errored st \<and> snd (columns table) = None
      \<and> (\<exists>cols. partition_columns (fst (columns table)) = Return cols
          \<and> (\<forall>p\<in>set (partition_jobs perm (tasksPerTable (scaleFactor f)) table (join_with '','' cols)).
                snd (query (count_statement keyspace p) (lbound p) (ubound p)) = None))"
      unfolding ok count_all_errors [OF assms(1) e] by (auto simp: c cols)
  next
    assume h: "query = rows_db hs \<and> 1 \<le> scaleFactor f \<and> scaleFactor f \<le> 10
        \<and> mset perm = mset [0 ..< tasksPerTable (scaleFactor f)] \<and> (\<forall>h\<in>set hs. h < 65536)"
    then have "job_sum (\<lambda>p. fst (rows_db hs (count_statement keyspace p) (lbound p) (ubound p))) ?ps = of_nat (length hs)"
      by (intro job_sum_rows) auto
    then show "n = of_nat (length hs)" using h unfolding n count_all_sum by simp
  qed
qed

theorem table_count_reliable_witness:
  "\<exists>st'. checkTableRowCounts init_flags ''ks'' (rows_db [0, 7, 65535]) (\<lambda>t. ([(''id'', 0)], None)) [0 ..< tasksPerTable 6]
     ''t'' \<lparr>errored = False, errCount = 0\<rparr> = (Return (3, True), st')"
proof -
  let ?c = "checkTableRowCounts init_flags ''ks'' (rows_db [0, 7, 65535]) (\<lambda>t. ([(''id'', 0)], None)) [0 ..< tasksPerTable 6]
     ''t'' \<lparr>errored = False, errCount = 0\<rparr>"
  have cols: "partition_columns [(''id'', 0)] = Return [''id'']" by (simp add: partition_columns_def)
  have f: "scaleFactor init_flags = 6" "0 \<le> errmax init_flags"
    by (simp_all add: init_flags_def ScaleFactor_def ErrCountMax_def)
  have "fst ?c = Return (fst (count_all (errmax init_flags) ''ks'' (rows_db [0, 7, 65535])
      (partition_jobs [0 ..< tasksPerTable 6] (tasksPerTable (scaleFactor init_flags)) ''t'' ''id'') 0
      \<lparr>errored = False, errCount = 0\<rparr>), \<not> errored (snd (count_all (errmax init_flags) ''ks'' (rows_db [0, 7, 65535])
      (partition_jobs [0 ..< tasksPerTable 6] (tasksPerTable (scaleFactor init_flags)) ''t'' ''id'') 0
      \<lparr>errored = False, errCount = 0\<rparr>)))"
    by (simp add: checkTableRowCounts_def cols Let_def split: prod.split)
  then obtain n ok st' where r: "?c = (Return (n, ok), st')" by (metis prod.collapse)
  from table_count_reliable [OF f(2) r, of "[0, 7, 65535]"]
  have "ok" "n = of_nat (length [0 :: nat, 7, 65535])" by (auto simp: cols f(1) rows_db_def)
  then show ?thesis using r by simp
qed

text \<open>the flags after the checks of \<open>rowCount\<close>. The program stops with status 1 exactly when only one
  of certificate and key is given; otherwise scale, parallelism, timeout and error limit are in their
  ranges, the number of ranges is \<open>2 ^ (scale + 6)\<close>, a power of two between 128 and 65536 that divides
  65536, and a value already in its range is kept.\<close>

theorem check_flags_ranges:
  "(check_flags f = Exit 1 \<longleftrightarrow> (certPath f = []) \<noteq> (keyPath f = []))
   \<and> (\<forall>g. check_flags f = Return g \<longrightarrow>
        1 \<le> scaleFactor g \<and> scaleFactor g \<le> 10 \<and> 1 \<le> parallelTasks g \<and> 100 \<le> timeout g \<and> 0 \<le> errmax g
        \<and> tasksPerTable (scaleFactor g) = 2 ^ nat (scaleFactor g + 6)
        \<and> tasksPerTable (scaleFactor g) * rangeSize (tasksPerTable (scaleFactor g)) = 65536
        \<and> (1 \<le> scaleFactor f \<and> scaleFactor f \<le> 10 \<and> 1 \<le> parallelTasks f \<and> 100 \<le> timeout f \<and> 0 \<le> errmax f
           \<longrightarrow> g = f))"
proof (intro conjI allI impI)
  show "check_flags f = Exit 1 \<longleftrightarrow> (certPath f = []) \<noteq> (keyPath f = [])"
    by (auto simp: check_flags_def Let_def)
next
  fix g assume g: "check_flags f = Return g"
  then show s: "1 \<le> scaleFactor g" "scaleFactor g \<le> 10" "1 \<le> parallelTasks g" "100 \<le> timeout g" "0 \<le> errmax g"
    by (auto simp: check_flags_def Let_def ScaleFactor_def ParallelTasks_def Timeout_def ErrCountMax_def split: if_splits)
  show "tasksPerTable (scaleFactor g) = 2 ^ nat (scaleFactor g + 6)"
    by (rule tasksPerTable_eq [OF s(1,2)])
  show "tasksPerTable (scaleFactor g) * rangeSize (tasksPerTable (scaleFactor g)) = 65536"
    using tasksPerTable_power [OF s(1,2)] by (auto simp flip: power_add)
  show "g = f" if "1 \<le> scaleFactor f \<and> scaleFactor f \<le> 10 \<and> 1 \<le> parallelTasks f \<and> 100 \<le> timeout f \<and> 0 \<le> errmax f"
    using g that by (auto simp: check_flags_def Let_def split: if_splits)
qed

theorem check_flags_ranges_witness:
  "check_flags (init_flags\<lparr>keyPath := ''k''\<rparr>) = Exit 1 \<and> tasksPerTable 1 = 128 \<and> tasksPerTable 9 = 32768"
  using check_flags_ranges [of "init_flags\<lparr>keyPath := ''k''\<rparr>"] check_flags_ranges [of "init_flags\<lparr>scaleFactor := 1\<rparr>"]
    check_flags_ranges [of "init_flags\<lparr>scaleFactor := 9\<rparr>"]
  by (simp add: init_flags_def check_flags_def Let_def ParallelTasks_def Timeout_def ErrCountMax_def)

end
