(* ===== verification/Uploader.thy ===== *)
theory Uploader
  imports Batching GoStd
begin

section \<open>Uploading files to SendSafely\<close>

text \<open>
  \<open>yb-support-tool\<close>: the package \<open>sendsafelyuploader\<close> and the command that drives it. A file is cut into
  parts, each part is encrypted and put to its own URL, and the package is finalized when every file is
  complete.

  HTTP, JSON and the cryptography are parameters (\<open>sender\<close>): \<open>http\<close> answers a request with a status and a
  body that may fail to be read; \<open>put_part\<close> is the upload of a part, and says how many bytes of the body
  the transport read; \<open>valid_url\<close> says whether \<open>http.NewRequest\<close> accepts a URL. A regular file gives as
  many bytes as are asked for, up to its end. The parts are uploaded by a group of goroutines that share
  \<open>Retries\<close>; the model runs them in the order they are started, and as \<open>errgroup\<close> does it runs them all
  and returns the first error. The randomness of the encryption is part of the parameter, and an error
  printed into another with \<open>%s\<close> is kept as a wrapped one. \<open>bufio.Reader\<close> is written out with its buffer of 4096 bytes.
\<close>

subsection \<open>Data\<close>

record SSResponse =
  Response :: string
  Message :: string

record PackageInfo =
  PackageID :: string
  PackageCode :: string
  ServerSecret :: string

record FileInfo =
  ID :: string
  Name :: string
  Size :: nat
  Parts :: int
  InfoResponse :: SSResponse

record FileUpload =
  UploadName :: string
  UploadType :: string
  UploadParts :: nat
  Part :: int
  UploadSize :: nat

record HostedDropzoneInfo =
  Success :: string
  DzData :: string
  Digest :: string
  IntegrationURLs :: "string list"
  DzMessage :: string

record SSFile =
  Info :: FileInfo
  Content :: bytes
  PartURLs :: "string list"
  UploadInfo :: FileUpload

record Uploader =
  URL :: string
  APIKey :: string
  RequestAPITarget :: string
  ClientSecret :: string

record Package =
  PkgUploader :: Uploader
  PkgInfo :: PackageInfo
  PkgURL :: string
  Checksum :: string
  ChunkSize :: nat
  Concurrency :: int
  Retries :: nat

text \<open>2.5 MiB.\<close>

definition DefaultChunkSize :: nat where
  "DefaultChunkSize = 2621440"

record http_request =
  Method :: string
  ReqURL :: string
  Headers :: "(string \<times> string) list"
  ReqBody :: string

text \<open>A part is put: accepted, or refused with an error; and how much of the body was read.\<close>

record 'w sender =
  http :: "http_request \<Rightarrow> 'w \<Rightarrow> (nat \<times> string res) res \<times> 'w"
  put_part :: "string \<Rightarrow> bytes \<Rightarrow> 'w \<Rightarrow> (unit res \<times> nat) \<times> 'w"
  valid_url :: "string \<Rightarrow> bool"
  client_secret :: string
  pbkdf2_hex :: "string \<Rightarrow> string \<Rightarrow> string"
  encrypt :: "string \<Rightarrow> bytes \<Rightarrow> bytes res"
  dec_package :: "string \<Rightarrow> PackageInfo res"
  dec_file :: "string \<Rightarrow> FileInfo \<Rightarrow> FileInfo res"
  dec_urls :: "string \<Rightarrow> (SSResponse \<times> (int \<times> string) list) res"
  dec_response :: "string \<Rightarrow> SSResponse res"
  dec_dropzone :: "string \<Rightarrow> HostedDropzoneInfo res"
  enc_upload :: "FileUpload \<Rightarrow> string"
  enc_checksum :: "string \<Rightarrow> string"
  enc_form :: "(string \<times> string) list \<Rightarrow> string"

subsection \<open>Requests\<close>

definition CreateUploader :: "'w sender \<Rightarrow> string \<Rightarrow> string \<Rightarrow> string \<Rightarrow> Uploader" where
  "CreateUploader env SSUrl SSAPIKey SSRequestTarget =
     \<lparr>URL = SSUrl, APIKey = SSAPIKey, RequestAPITarget = SSRequestTarget, ClientSecret = client_secret env\<rparr>"

definition withReqJSONHeader :: "(string \<times> string) list" where
  "withReqJSONHeader = [(''content-type'', ''application/json;charset=utf-8'')]"

definition withReqFormHeader :: "(string \<times> string) list" where
  "withReqFormHeader = [(''content-type'', ''application/x-www-form-urlencoded'')]"

text \<open>The checks of a response that \<open>sendRequest\<close> and \<open>finalizeHostedDropzone\<close> make: what the message starts
  with when the body of a refusal could not be read, and when it could.\<close>

definition check_status :: "string \<Rightarrow> string \<Rightarrow> nat \<times> string res \<Rightarrow> string res" where
  "check_status unread refused resp =
     (if fst resp \<noteq> 200 then
        (case snd resp of
           Ok body \<Rightarrow> Error (Err (refused @ ''; HTTP Error code '' @ dec_of_nat (fst resp) @ ''; request body '' @ body))
         | _ \<Rightarrow> Error (Err (unread @ ''Status Code: '' @ dec_of_nat (fst resp) @ ''; Unable to read response body'')))
      else snd resp)"

definition sendRequest ::
  "'w sender \<Rightarrow> Uploader \<Rightarrow> string \<Rightarrow> string \<Rightarrow> string \<Rightarrow> (string \<times> string) list \<Rightarrow> 'w \<Rightarrow> string res \<times> 'w" where
  "sendRequest env u method endpoint body options w =
     (if \<not> valid_url env (URL u @ endpoint) then (Error (Err (''parse '' @ URL u @ endpoint)), w)
      else andThen (http env \<lparr>Method = method, ReqURL = URL u @ endpoint,
                       Headers = [(''ss-api-key'', APIKey u), (''ss-request-api'', RequestAPITarget u)] @ options,
                       ReqBody = body\<rparr> w) (\<lambda>resp w. (check_status ''Invalid HTTP '' ''Invalid HTTP status response'' resp, w)))"

subsection \<open>Packages and files\<close>

text \<open>\<open>math.Ceil(float64(fileSize) / float64(p.ChunkSize))\<close>, exact below \<open>2 ^ 52\<close> bytes. A chunk size of
  zero gives an infinity, whose conversion is no valid length.\<close>

definition calculateNumberOfParts :: "Package \<Rightarrow> nat \<Rightarrow> nat res" where
  "calculateNumberOfParts p fileSize =
     (if ChunkSize p = 0 then Panic ''makeslice: len out of range''
      else Ok ((fileSize + ChunkSize p - 1) div ChunkSize p))"

definition WithChunkSize :: "nat \<Rightarrow> Package \<Rightarrow> Package" where
  "WithChunkSize s p = p\<lparr>ChunkSize := s\<rparr>"

definition WithConcurrency :: "int \<Rightarrow> Package \<Rightarrow> Package" where
  "WithConcurrency c p = p\<lparr>Concurrency := c\<rparr>"

definition WithRetries :: "nat \<Rightarrow> Package \<Rightarrow> Package" where
  "WithRetries r p = p\<lparr>Retries := r\<rparr>"

definition createChecksum :: "'w sender \<Rightarrow> Package \<Rightarrow> Package" where
  "createChecksum env p = p\<lparr>Checksum := pbkdf2_hex env (ClientSecret (PkgUploader p)) (PackageCode (PkgInfo p))\<rparr>"

definition CreateDropzonePackage ::
  "'w sender \<Rightarrow> Uploader \<Rightarrow> (Package \<Rightarrow> Package) list \<Rightarrow> 'w \<Rightarrow> Package res \<times> 'w" where
  "CreateDropzonePackage env u options w =
     (let p = fold (\<lambda>opt p. opt p) options
            \<lparr>PkgUploader = u, PkgInfo = \<lparr>PackageID = [], PackageCode = [], ServerSecret = []\<rparr>, PkgURL = [],
             Checksum = [], ChunkSize = DefaultChunkSize, Concurrency = 0, Retries = 0\<rparr>
      in andThen (sendRequest env u ''PUT'' ''/drop-zone/v2.0/package/'' [] [] w) (\<lambda>body w.
         (bind_res (dec_package env body) (\<lambda>info. Ok (createChecksum env (p\<lparr>PkgInfo := info\<rparr>))), w)))"

definition package_endpoint :: "Package \<Rightarrow> string" where
  "package_endpoint p = ''/drop-zone/v2.0/package/'' @ PackageCode (PkgInfo p)"

text \<open>\<open>filepath.Base\<close>.\<close>

definition path_base :: "string \<Rightarrow> string" where
  "path_base path =
     (if path = [] then ''.''
      else (let t = rev (dropWhile (\<lambda>c. c = CHR ''/'') (rev path))
            in if t = [] then ''/''
               else (case last_index_of CHR ''/'' t of None \<Rightarrow> t | Some i \<Rightarrow> drop (Suc i) t)))"

text \<open>\<open>file.PartURLs[u.Part-1] = u.URL\<close> for the URLs of one answer.\<close>

fun set_urls :: "(int \<times> string) list \<Rightarrow> string list \<Rightarrow> string list res" where
  "set_urls [] urls = Ok urls"
| "set_urls ((part, url) # us) urls =
     (if part < 1 \<or> int (length urls) < part then Panic ''index out of range''
      else set_urls us (urls[nat (part - 1) := url]))"

text \<open>One request for the URLs from \<open>part\<close> on.\<close>

definition request_urls :: "'w sender \<Rightarrow> Package \<Rightarrow> int \<Rightarrow> SSFile \<Rightarrow> 'w \<Rightarrow> SSFile res \<times> 'w" where
  "request_urls env p part file w =
     (let file = file\<lparr>UploadInfo := (UploadInfo file)\<lparr>Part := part\<rparr>\<rparr>
      in andThen (sendRequest env (PkgUploader p) ''POST''
                   (package_endpoint p @ ''/file/'' @ ID (Info file) @ ''/upload-urls'')
                   (enc_upload env (UploadInfo file)) withReqJSONHeader w) (\<lambda>body w.
         (bind_res (dec_urls env body) (\<lambda>(ss, urls).
            if Response ss \<noteq> ''SUCCESS''
            then Error (Err (''Failed to get upload URLs: response: '' @ Response ss @ ''; message: '' @ Message ss))
            else bind_res (set_urls urls (PartURLs file)) (\<lambda>us. Ok (file\<lparr>PartURLs := us\<rparr>))), w)))"

fun request_all :: "'w sender \<Rightarrow> Package \<Rightarrow> int list \<Rightarrow> SSFile \<Rightarrow> 'w \<Rightarrow> SSFile res \<times> 'w" where
  "request_all env p [] file w = (Ok file, w)"
| "request_all env p (part # parts) file w =
     andThen (request_urls env p part file w) (\<lambda>file w. request_all env p parts file w)"

text \<open>The parts asked for: one call for each 25 parts the server announced.\<close>

definition url_calls :: "int \<Rightarrow> int list" where
  "url_calls parts = map (\<lambda>i. 1 + int i * 25) [0 ..< nat ((parts + 24) div 25)]"

definition GetUploadURLs :: "'w sender \<Rightarrow> Package \<Rightarrow> SSFile \<Rightarrow> 'w \<Rightarrow> SSFile res \<times> 'w" where
  "GetUploadURLs env p file w =
     (if PackageCode (PkgInfo p) = []
      then (Error (Err (''No package code provided for file: '' @ Name (Info file) @ '', cannot get list of upload URLs'')), w)
      else request_all env p (url_calls (Parts (Info file))) file w)"

definition AddFileToPackage ::
  "'w sender \<Rightarrow> Package \<Rightarrow> string \<Rightarrow> bytes \<Rightarrow> 'w \<Rightarrow> SSFile res \<times> 'w" where
  "AddFileToPackage env p path content w =
     (let name = path_base path; info = \<lparr>ID = [], Name = name, Size = length content, Parts = 0,
                  InfoResponse = \<lparr>Response = [], Message = []\<rparr>\<rparr>
      in case calculateNumberOfParts p (length content) of
           Panic e \<Rightarrow> (Panic e, w)
         | Error e \<Rightarrow> (Error e, w)
         | Ok n \<Rightarrow>
             (let up = \<lparr>UploadName = name, UploadType = ''DROP_ZONE'', UploadParts = n, Part = 1,
                        UploadSize = length content\<rparr>
              in andThen (sendRequest env (PkgUploader p) ''PUT'' (package_endpoint p @ ''/file'')
                           (enc_upload env up) withReqJSONHeader w) (\<lambda>body w.
                 andThen (dec_file env body info, w) (\<lambda>info w.
                 GetUploadURLs env p
                   \<lparr>Info = info, Content = content, PartURLs = replicate n [], UploadInfo = up\<rparr> w))))"

subsection \<open>Reading and uploading parts\<close>

text \<open>\<open>bufio.Reader\<close>: what it has buffered, and the rest of the file. One \<open>Read\<close> into \<open>n\<close> bytes gives what
  is buffered, up to \<open>n\<close> bytes; with an empty buffer a read of 4096 bytes or more goes to the file, and
  a smaller one fills the buffer first.\<close>

definition bufio_read :: "nat \<Rightarrow> bytes \<times> bytes \<Rightarrow> bytes \<times> (bytes \<times> bytes)" where
  "bufio_read n r =
     (case r of (buf, rest) \<Rightarrow>
        if buf = [] then
          (if 4096 \<le> n then (take n rest, ([], drop n rest))
           else (take n (take 4096 rest), (drop n (take 4096 rest), drop 4096 rest)))
        else (take n buf, (drop n buf, rest)))"

text \<open>The reads of \<open>UploadFileParts\<close>, one for each part URL; the end of the file is not an error.\<close>

fun read_parts :: "nat \<Rightarrow> nat \<Rightarrow> bytes \<times> bytes \<Rightarrow> bytes list" where
  "read_parts n 0 r = []"
| "read_parts n (Suc k) r = (case bufio_read n r of (b, r1) \<Rightarrow> b # read_parts n k r1)"

text \<open>The attempts to put a part: the request body is the buffer itself, of which the transport has
  read a prefix when an attempt fails.\<close>

fun put_attempts ::
  "'w sender \<Rightarrow> string \<Rightarrow> nat \<Rightarrow> bytes \<Rightarrow> 'w \<Rightarrow> (unit res \<times> nat) \<times> 'w" where
  "put_attempts env url retries part w =
     (if \<not> valid_url env url then ((Panic ''nil pointer dereference'', retries), w)
      else case put_part env url part w of
             ((Ok _, n), w1) \<Rightarrow> ((Ok (), retries), w1)
           | ((Panic e, n), w1) \<Rightarrow> ((Panic e, retries), w1)
           | ((Error e, n), w1) \<Rightarrow>
               (case retries of
                  0 \<Rightarrow> ((Error e, 0), w1)
                | Suc r \<Rightarrow> put_attempts env url r (drop n part) w1))"

declare put_attempts.simps [simp del]

definition uploadFilePart ::
  "'w sender \<Rightarrow> string \<Rightarrow> nat \<Rightarrow> bytes \<Rightarrow> 'w \<Rightarrow> (unit res \<times> nat) \<times> 'w" where
  "uploadFilePart env url retries part w =
     (if length part = 0 then ((Error (Err ''File part is empty''), retries), w)
      else if url = [] then ((Error (Err ''URL is empty''), retries), w)
      else put_attempts env url retries part w)"

definition Encrypt :: "'w sender \<Rightarrow> Package \<Rightarrow> bytes \<Rightarrow> bytes res" where
  "Encrypt env p part = encrypt env (ServerSecret (PkgInfo p) @ ClientSecret (PkgUploader p)) part"

text \<open>All parts are run; \<open>err\<close> is the first error.\<close>

fun upload_parts ::
  "'w sender \<Rightarrow> Package \<Rightarrow> (string \<times> bytes) list \<Rightarrow> goerror option \<Rightarrow> 'w \<Rightarrow> unit res \<times> (nat \<times> 'w)" where
  "upload_parts env p [] err w = ((case err of None \<Rightarrow> Ok () | Some e \<Rightarrow> Error e), (Retries p, w))"
| "upload_parts env p ((url, b) # ps) err w =
     (case Encrypt env p b of
        Panic e \<Rightarrow> (Panic e, (Retries p, w))
      | Error e \<Rightarrow> upload_parts env p ps (case err of None \<Rightarrow> Some e | Some e0 \<Rightarrow> Some e0) w
      | Ok enc \<Rightarrow>
          (case uploadFilePart env url (Retries p) enc w of
             ((Panic e, r), w1) \<Rightarrow> (Panic e, (r, w1))
           | ((Error e, r), w1) \<Rightarrow>
               upload_parts env (p\<lparr>Retries := r\<rparr>) ps (case err of None \<Rightarrow> Some e | Some e0 \<Rightarrow> Some e0) w1
           | ((Ok _, r), w1) \<Rightarrow> upload_parts env (p\<lparr>Retries := r\<rparr>) ps err w1))"

definition UploadFileParts :: "'w sender \<Rightarrow> Package \<Rightarrow> SSFile \<Rightarrow> 'w \<Rightarrow> Package res \<times> 'w" where
  "UploadFileParts env p file w =
     (let bs = read_parts (ChunkSize p) (length (PartURLs file)) ([], Content file)
      in case upload_parts env p (zip (PartURLs file) bs) None w of
           (Ok _, (r, w1)) \<Rightarrow> (Ok (p\<lparr>Retries := r\<rparr>), w1)
         | (Error e, (r, w1)) \<Rightarrow> (Error e, w1)
         | (Panic e, (r, w1)) \<Rightarrow> (Panic e, w1))"

definition MarkFileComplete :: "'w sender \<Rightarrow> Package \<Rightarrow> SSFile \<Rightarrow> 'w \<Rightarrow> unit res \<times> 'w" where
  "MarkFileComplete env p file w =
     andThen (sendRequest env (PkgUploader p) ''POST''
                (package_endpoint p @ ''/file/'' @ ID (Info file) @ ''/upload-complete'') [] withReqJSONHeader w)
       (\<lambda>body w. (bind_res (dec_response env body) (\<lambda>resp.
          if Response resp \<noteq> ''SUCCESS''
          then Error (Err (''Failed to finalize file '' @ Name (Info file) @ '' in package '' @ PackageID (PkgInfo p)
                 @ '' with message: '' @ Message resp))
          else Ok ()), w))"

definition FinalizePackage :: "'w sender \<Rightarrow> Package \<Rightarrow> 'w \<Rightarrow> Package res \<times> 'w" where
  "FinalizePackage env p w =
     andThen (sendRequest env (PkgUploader p) ''POST'' (package_endpoint p @ ''/finalize'')
                (enc_checksum env (Checksum p)) withReqJSONHeader w)
       (\<lambda>body w. (bind_res (dec_response env body) (\<lambda>resp.
          if Response resp \<noteq> ''SUCCESS''
          then Error (Err (''Failed to finalize package '' @ PackageID (PkgInfo p) @ '' with message: '' @ Message resp))
          else Ok (p\<lparr>PkgURL := Message resp @ ''#keyCode='' @ ClientSecret (PkgUploader p)\<rparr>)), w))"

definition post_integration :: "'w sender \<Rightarrow> Package \<Rightarrow> HostedDropzoneInfo \<Rightarrow> string \<Rightarrow> 'w \<Rightarrow> unit res \<times> 'w" where
  "post_integration env p dz url w =
     (if \<not> valid_url env url then (Error (Err (''parse '' @ url)), w)
      else andThen (http env \<lparr>Method = ''POST'', ReqURL = url, Headers = withReqFormHeader,
                      ReqBody = enc_form env [(''data'', DzData dz), (''digest'', Digest dz), (''secureLink'', PkgURL p)]\<rparr> w)
             (\<lambda>resp w.
               if fst resp \<noteq> 200 then (bind_res (check_status ''Unable to upload file: Bad HTTP '' ''Unable to upload file: Invalid HTTP status response'' resp) (\<lambda>_. Ok ()), w)
               else (Ok (), w)))"

definition finalizeHostedDropzone :: "'w sender \<Rightarrow> Package \<Rightarrow> HostedDropzoneInfo \<Rightarrow> 'w \<Rightarrow> unit res \<times> 'w" where
  "finalizeHostedDropzone env p dz w = for_each (post_integration env p dz) (IntegrationURLs dz) w"

definition SubmitHostedDropzone :: "'w sender \<Rightarrow> Package \<Rightarrow> string \<Rightarrow> string \<Rightarrow> 'w \<Rightarrow> unit res \<times> 'w" where
  "SubmitHostedDropzone env p name email w =
     andThen (sendRequest env (PkgUploader p) ''POST'' ''/auth/json/?action=submitHostedDropzone''
                (enc_form env [(''name'', name), (''email'', email), (''packageCode'', PackageCode (PkgInfo p)),
                   (''publicApiKey'', APIKey (PkgUploader p))]) withReqFormHeader w)
       (\<lambda>body w. andThen (dec_dropzone env body, w) (\<lambda>dz w.
          if Success dz \<noteq> ''true''
          then (Error (Err (''Unable to submit Hosted Dropzone with error '' @ DzMessage dz)), w)
          else finalizeHostedDropzone env p dz w))"

subsection \<open>The command\<close>

record upload_flags =
  caseNum :: int
  email :: string
  concurrency :: int
  retries :: nat
  partSizeString :: string
  dropzoneID :: string
  uploaderURL :: string

definition upload_flag_defaults :: upload_flags where
  "upload_flag_defaults =
     \<lparr>caseNum = 0, email = [], concurrency = 10, retries = 5, partSizeString = [],
      dropzoneID = ''BdFZz_JoZqtqPVueANkspD86KZ_PJsW1kIf_jVHeCO0'', uploaderURL = ''https://secure-upload.yugabyte.com''\<rparr>"

text \<open>\<open>validateArgs\<close>: \<open>None\<close> is \<open>os.Exit(1)\<close>; otherwise the part size and the corrected flags.
  \<open>human_size\<close> is \<open>units.FromHumanSize\<close>, \<open>valid_email\<close> \<open>mail.ParseAddress\<close>.\<close>

definition validateArgs ::
  "(string \<Rightarrow> nat option) \<Rightarrow> (string \<Rightarrow> bool) \<Rightarrow> upload_flags \<Rightarrow> (nat \<times> upload_flags) option" where
  "validateArgs human_size valid_email f =
     (case (if partSizeString f \<noteq> [] then human_size (partSizeString f) else Some 10485760) of
        None \<Rightarrow> None
      | Some partSize \<Rightarrow>
          (let f = (if concurrency f < 1 \<or> concurrency f > 100 then f\<lparr>concurrency := 10\<rparr> else f);
               f = (if retries f > 100 then f\<lparr>retries := 5\<rparr> else f)
           in if caseNum f < 1 then None
              else if \<not> valid_email (email f) then None
              else Some (partSize, f)))"

text \<open>The loop over the files; \<open>open\<close> gives the content of a file.\<close>

fun upload_files ::
  "'w sender \<Rightarrow> (string \<Rightarrow> bytes res) \<Rightarrow> string list \<Rightarrow> Package \<Rightarrow> 'w \<Rightarrow> Package res \<times> 'w" where
  "upload_files env open_file [] p w = (Ok p, w)"
| "upload_files env open_file (fileName # fs) p w =
     andThen (open_file fileName, w) (\<lambda>content w.
     (case AddFileToPackage env p fileName content w of
        (Error e, w1) \<Rightarrow> (Error (Wrap ''Unable to add file to package: '' e), w1)
      | (Panic x, w1) \<Rightarrow> (Panic x, w1)
      | (Ok f, w1) \<Rightarrow>
          (case UploadFileParts env p f w1 of
             (Error e, w2) \<Rightarrow> (Error (Wrap ''Unable to upload file parts: '' e), w2)
           | (Panic x, w2) \<Rightarrow> (Panic x, w2)
           | (Ok p1, w2) \<Rightarrow>
               andThen (MarkFileComplete env p1 f w2) (\<lambda>_ w. upload_files env open_file fs p1 w))))"

definition Upload ::
  "'w sender \<Rightarrow> (string \<Rightarrow> bytes res) \<Rightarrow> upload_flags \<Rightarrow> nat \<Rightarrow> string list \<Rightarrow> 'w \<Rightarrow> unit res \<times> 'w" where
  "Upload env open_file f partSize files w =
     (let u = CreateUploader env (uploaderURL f) (dropzoneID f) ''DROP_ZONE''
      in case CreateDropzonePackage env u
                [WithConcurrency (concurrency f), WithRetries (retries f), WithChunkSize partSize] w of
           (Error e, w1) \<Rightarrow> (Error (Wrap ''Unable to create dropzone package: '' e), w1)
         | (Panic x, w1) \<Rightarrow> (Panic x, w1)
         | (Ok p, w1) \<Rightarrow>
             andThen (upload_files env open_file files p w1) (\<lambda>p w.
             (case FinalizePackage env p w of
                (Error e, w2) \<Rightarrow> (Error (Wrap ''Unable to finalize package: '' e), w2)
              | (Panic x, w2) \<Rightarrow> (Panic x, w2)
              | (Ok p1, w2) \<Rightarrow>
                  (case SubmitHostedDropzone env p1 (dec_of_int (caseNum f)) (email f) w2 of
                     (Error e, w3) \<Rightarrow> (Error (Wrap ''Unable to push file to Hosted Dropzone: '' e), w3)
                   | r \<Rightarrow> r))))"

subsection \<open>What the reads give\<close>

lemma read_parts_large_from:
  assumes "4096 \<le> n"
  shows "read_parts n k ([], f) = take k (chunks n f) @ replicate (k - length (chunks n f)) []"
proof (induction k arbitrary: f)
  case 0
  show ?case by simp
next
  case (Suc k)
  have "0 < n" using assms by simp
  then show ?case using assms Suc [of "drop n f"]
    by (cases "f = []") (simp_all add: bufio_read_def chunks_Cons)
qed

lemma read_parts_large:
  "4096 \<le> n \<Longrightarrow> read_parts n (length (chunks n f)) ([], f) = chunks n f"
  by (simp add: read_parts_large_from)

definition pieces :: "nat \<Rightarrow> bytes \<Rightarrow> bytes list" where
  "pieces n f = concat (map (chunks n) (chunks 4096 f))"

lemma pieces_Nil [simp]: "pieces n [] = []"
  by (simp add: pieces_def)

lemma pieces_step: "f \<noteq> [] \<Longrightarrow> pieces n f = chunks n (take 4096 f) @ pieces n (drop 4096 f)"
  by (simp add: pieces_def chunks_Cons [of 4096 f])

lemma concat_pieces: assumes "0 < n" shows "concat (pieces n f) = f"
proof -
  have "concat (concat (map (chunks n) xss)) = concat xss" for xss :: "bytes list"
    by (induction xss) (simp_all add: concat_chunks assms)
  then show ?thesis by (simp add: pieces_def concat_chunks)
qed

lemma pieces_nonempty: "b \<in> set (pieces n f) \<Longrightarrow> b \<noteq> []"
  by (auto simp: pieces_def dest: chunks_bounds)

lemma read_parts_small:
  assumes "0 < n" "n < 4096"
  shows "read_parts n k (buf, f) = take k (chunks n buf @ pieces n f) @ replicate (k - length (chunks n buf @ pieces n f)) []"
proof (induction k arbitrary: buf f)
  case 0
  show ?case by simp
next
  case (Suc k)
  show ?case
  proof (cases "buf = []")
    case True
    have c: "chunks n (take 4096 f) = take n (take 4096 f) # chunks n (drop n (take 4096 f))" if "f \<noteq> []"
      using that assms by (intro chunks_Cons) auto
    show ?thesis
      using assms True Suc [of "drop n (take 4096 f)" "drop 4096 f"] c
      by (cases "f = []") (simp_all add: bufio_read_def pieces_step)
  next
    case False
    then show ?thesis
      using assms Suc [of "drop n buf" f] by (simp add: bufio_read_def chunks_Cons)
  qed
qed

lemma concat_take_nonempty:
  assumes "\<And>b. b \<in> set xs \<Longrightarrow> b \<noteq> []"
  shows "concat (take k xs) = concat xs \<longleftrightarrow> length xs \<le> k"
proof
  assume e: "concat (take k xs) = concat xs"
  have "concat xs = concat (take k xs) @ concat (drop k xs)"
    by (metis append_take_drop_id concat_append)
  then have "concat (drop k xs) = []" using e by simp
  moreover have "b \<noteq> []" if "b \<in> set (drop k xs)" for b
    using that assms in_set_dropD [of b k xs] by blast
  ultimately have "drop k xs = []" by (cases "drop k xs") simp_all
  then show "length xs \<le> k" by simp
qed simp

lemma put_attempts_retries: "put_attempts env url r part w = ((x, r'), w') \<Longrightarrow> r' \<le> r"
proof (induction r arbitrary: part w)
  case 0
  then show ?case by (subst (asm) put_attempts.simps) (auto split: if_splits prod.splits res.splits)
next
  case (Suc r)
  then show ?case
    by (subst (asm) put_attempts.simps) (auto split: if_splits prod.splits res.splits dest!: Suc.IH)
qed


subsection \<open>What a run of the parts does\<close>

lemma upload_parts_Ok:
  assumes "upload_parts env p ps err w = (Ok x, (r, w'))"
  shows "err = None \<and> r \<le> Retries p \<and>
    (\<forall>(url, b) \<in> set ps. url \<noteq> [] \<and> valid_url env url \<and> (\<exists>enc. Encrypt env p b = Ok enc \<and> enc \<noteq> []))"
  using assms
proof (induction ps arbitrary: p err w)
  case Nil
  then show ?case by (auto split: option.splits)
next
  case (Cons a ps)
  obtain url b where a: "a = (url, b)" by force
  have enc: "Encrypt env (p\<lparr>Retries := r1\<rparr>) b1 = Encrypt env p b1" for r1 b1 by (simp add: Encrypt_def)
  have bad: "upload_parts env q ps (case err of None \<Rightarrow> Some e | Some e0 \<Rightarrow> Some e0) w0 \<noteq> (Ok x, (r, w'))" for q e w0
    using Cons.IH [of q "case err of None \<Rightarrow> Some e | Some e0 \<Rightarrow> Some e0" w0] by (auto split: option.splits)
  obtain e r1 w1 where s: "Encrypt env p b = Ok e" "uploadFilePart env url (Retries p) e w = ((Ok (), r1), w1)"
      "upload_parts env (p\<lparr>Retries := r1\<rparr>) ps err w1 = (Ok x, (r, w'))"
    using Cons.prems bad by (auto simp: a split: res.splits prod.splits)
  have n: "e \<noteq> []" "url \<noteq> []" "valid_url env url" "r1 \<le> Retries p"
    using s(2) put_attempts_retries [of env url "Retries p" e w]
    by (auto simp: uploadFilePart_def split: if_splits)
      (subst (asm) put_attempts.simps, simp split: if_splits)
  show ?case using Cons.IH [OF s(3)] n s(1) by (auto simp: a enc)
qed

text \<open>The attempts: one that succeeds for each part, and one for each retry used.\<close>

lemma put_attempts_count:
  assumes "\<And>url b w. snd (put_part env url b w) = Suc w" "put_attempts env url r part w = ((x, r'), w')"
  shows "w' + r' \<le> Suc (w + r) \<and> (is_ok x \<longrightarrow> w' + r' = Suc (w + r))"
  using assms(2)
proof (induction r arbitrary: part w)
  case 0
  obtain y n where p: "put_part env url part w = ((y, n), Suc w)" using assms(1) by (metis prod.collapse)
  show ?case using 0 by (subst (asm) put_attempts.simps) (auto simp: p split: if_splits res.splits)
next
  case (Suc r)
  obtain y n where p: "put_part env url part w = ((y, n), Suc w)" using assms(1) by (metis prod.collapse)
  show ?case using Suc.prems
    by (subst (asm) put_attempts.simps) (auto simp: p split: if_splits res.splits dest!: Suc.IH)
qed

lemma upload_parts_count:
  assumes "\<And>url b w. snd (put_part env url b w) = Suc w" "upload_parts env p ps err w = (x, (r', w'))"
  shows "w' + r' \<le> w + length ps + Retries p \<and> (is_ok x \<longrightarrow> w' + r' = w + length ps + Retries p)"
  using assms(2)
proof (induction ps arbitrary: p err w)
  case Nil
  then show ?case by auto
next
  case (Cons a ps)
  obtain url b where a: "a = (url, b)" by force
  have bad: "\<not> is_ok x" if "upload_parts env q ps (case err of None \<Rightarrow> Some e | Some e0 \<Rightarrow> Some e0) w0 = (x, (r', w'))" for q e w0
    using that upload_parts_Ok [of env q ps "case err of None \<Rightarrow> Some e | Some e0 \<Rightarrow> Some e0" w0] 
    by (cases x) (auto split: option.splits)
  show ?case
  proof (cases "Encrypt env p b")
    case (Ok e)
    obtain y r1 w1 where u: "uploadFilePart env url (Retries p) e w = ((y, r1), w1)" by (metis prod.collapse)
    have c: "w1 + r1 \<le> Suc (w + Retries p)" "is_ok y \<Longrightarrow> w1 + r1 = Suc (w + Retries p)"
      using u put_attempts_count [OF assms(1), of url "Retries p" e w y r1 w1]
      by (auto simp: uploadFilePart_def split: if_splits)
    show ?thesis
    proof (cases y)
      case (Ok z)
      then show ?thesis using Cons.prems \<open>Encrypt env p b = Ok e\<close> u c Cons.IH [of "p\<lparr>Retries := r1\<rparr>" err w1] by (auto simp: a)
    next
      case (Error z)
      then have "upload_parts env (p\<lparr>Retries := r1\<rparr>) ps (case err of None \<Rightarrow> Some z | Some e0 \<Rightarrow> Some e0) w1 = (x, (r', w'))"
        using Cons.prems \<open>Encrypt env p b = Ok e\<close> u by (simp add: a)
      from bad [OF this] Cons.IH [OF this] show ?thesis using c by auto
    next
      case (Panic z)
      then show ?thesis using Cons.prems \<open>Encrypt env p b = Ok e\<close> u c by (auto simp: a)
    qed
  next
    case (Error e)
    then have "upload_parts env p ps (case err of None \<Rightarrow> Some e | Some e0 \<Rightarrow> Some e0) w = (x, (r', w'))"
      using Cons.prems by (simp add: a)
    from bad [OF this] Cons.IH [OF this] show ?thesis by auto
  next
    case (Panic e)
    then show ?thesis using Cons.prems by (auto simp: a)
  qed
qed

text \<open>A transport that takes every part at the first attempt, with the log of what it took.\<close>

definition accepting :: "(string \<times> bytes) list sender \<Rightarrow> bool" where
  "accepting env \<longleftrightarrow> (\<forall>url b w. put_part env url b w = ((Ok (), length b), w @ [(url, b)])) \<and> (\<forall>url. valid_url env url)"

lemma upload_parts_accepting:
  assumes "accepting env" "\<And>b. Encrypt env p b = Ok (enc b)" "\<And>b. enc b \<noteq> []"
    and "\<And>url. url \<in> fst ` set ps \<Longrightarrow> url \<noteq> []"
  shows "upload_parts env p ps None w = (Ok (), (Retries p, w @ map (\<lambda>(url, b). (url, enc b)) ps))"
  using assms(4)
proof (induction ps arbitrary: w)
  case Nil
  then show ?case by simp
next
  case (Cons a ps)
  obtain url b where a: "a = (url, b)" by force
  have "url \<noteq> []" using Cons.prems by (simp add: a)
  have "uploadFilePart env url (Retries p) (enc b) w = ((Ok (), Retries p), w @ [(url, enc b)])"
    using assms(1,3) \<open>url \<noteq> []\<close> by (subst uploadFilePart_def, subst put_attempts.simps) (simp add: accepting_def)
  then show ?case using Cons by (simp add: a assms(2))
qed

subsection \<open>The URLs of the parts\<close>

lemma set_urls_range:
  assumes "1 \<le> a" "b \<le> int (length us)"
  shows "set_urls (map (\<lambda>i. (i, url i)) [a..b]) us =
    Ok (map (\<lambda>i. if a \<le> int i + 1 \<and> int i + 1 \<le> b then url (int i + 1) else us ! i) [0..<length us])"
  using assms
proof (induction "nat (b + 1 - a)" arbitrary: a us)
  case 0
  then show ?case by (auto simp: map_nth intro!: nth_equalityI)
next
  case (Suc n)
  then have r: "[a..b] = a # [a + 1..b]" by (simp add: upto_rec1)
  have ih: "set_urls (map (\<lambda>i. (i, url i)) [a + 1..b]) (us[nat (a - 1) := url a]) =
    Ok (map (\<lambda>i. if a + 1 \<le> int i + 1 \<and> int i + 1 \<le> b then url (int i + 1) else us[nat (a - 1) := url a] ! i)
      [0..<length (us[nat (a - 1) := url a])])"
    using Suc by (intro Suc.hyps(1)) auto
  have e: "nat (a - 1) = i \<longleftrightarrow> a = int i + 1" for i using Suc.prems(1) by auto
  have "\<not> (a < 1 \<or> int (length us) < a)" using Suc by auto
  then show ?case using ih Suc.hyps(2) Suc.prems(1) by (auto simp: r nth_list_update e)
qed

lemma request_all_append:
  "request_all env p (ks @ ls) f w = andThen (request_all env p ks f w) (\<lambda>f w. request_all env p ls f w)"
proof (induction ks arbitrary: f w)
  case Nil
  then show ?case by simp
next
  case (Cons k ks)
  obtain x w1 where r: "request_urls env p k f w = (x, w1)" by (rule prod.exhaust)
  show ?case by (cases x) (simp_all add: r Cons.IH)
qed

text \<open>The service answers a request for \<open>k\<close> with the URLs of the 25 parts from \<open>k\<close> on.\<close>

definition serves_urls :: "'w sender \<Rightarrow> Package \<Rightarrow> SSFile \<Rightarrow> (int \<Rightarrow> string) \<Rightarrow> bool" where
  "serves_urls env p file url \<longleftrightarrow>
     (\<forall>k\<ge>1. \<forall>w. \<exists>answer m. sendRequest env (PkgUploader p) ''POST''
          (package_endpoint p @ ''/file/'' @ ID (Info file) @ ''/upload-urls'')
          (enc_upload env ((UploadInfo file)\<lparr>Part := k\<rparr>)) withReqJSONHeader w = (Ok answer, w) \<and>
        dec_urls env answer =
          Ok (\<lparr>Response = ''SUCCESS'', Message = m\<rparr>,
              map (\<lambda>i. (i, url i)) [k..min (k + 24) (int (length (PartURLs file)))]))"

lemma request_all_serves:
  assumes "serves_urls env p file url" "25 * j \<le> length (PartURLs file) + 24"
  shows "\<exists>up. request_all env p (map (\<lambda>i. 1 + int i * 25) [0 ..< j]) file w =
    (Ok (file\<lparr>PartURLs := map (\<lambda>i. if i < 25 * j then url (int i + 1) else PartURLs file ! i) [0..<length (PartURLs file)],
             UploadInfo := (UploadInfo file)\<lparr>Part := up\<rparr>\<rparr>), w)"
  using assms(2)
proof (induction j)
  case 0
  show ?case by (rule exI [of _ "Part (UploadInfo file)"]) (simp add: map_nth)
next
  case (Suc j)
  define n where "n = length (PartURLs file)"
  define us where "us = map (\<lambda>i. if i < 25 * j then url (int i + 1) else PartURLs file ! i) [0..<n]"
  have prem: "25 * j \<le> length (PartURLs file) + 24" using Suc.prems by simp
  obtain up where ih: "request_all env p (map (\<lambda>i. 1 + int i * 25) [0 ..< j]) file w =
     (Ok (file\<lparr>PartURLs := us, UploadInfo := (UploadInfo file)\<lparr>Part := up\<rparr>\<rparr>), w)"
    using Suc.IH [OF prem] unfolding us_def n_def by blast
  define k where "k = 1 + int j * 25"
  have k1: "1 \<le> k" by (simp add: k_def)
  obtain answer m where a: "sendRequest env (PkgUploader p) ''POST''
          (package_endpoint p @ ''/file/'' @ ID (Info file) @ ''/upload-urls'')
          (enc_upload env ((UploadInfo file)\<lparr>Part := k\<rparr>)) withReqJSONHeader w = (Ok answer, w)"
      "dec_urls env answer = Ok (\<lparr>Response = ''SUCCESS'', Message = m\<rparr>, map (\<lambda>i. (i, url i)) [k..min (k + 24) (int n)])"
    using assms(1) [unfolded serves_urls_def, rule_format, OF k1, of w] unfolding n_def by blast
  have lus: "length us = n" by (simp add: us_def)
  have k: "1 \<le> k" "min (k + 24) (int n) \<le> int (length us)" by (simp_all add: k_def lus)
  have "map (\<lambda>i. if k \<le> int i + 1 \<and> int i + 1 \<le> min (k + 24) (int n) then url (int i + 1) else us ! i) [0..<n] =
    map (\<lambda>i. if i < 25 * Suc j then url (int i + 1) else PartURLs file ! i) [0..<n]"
    by (rule map_cong) (auto simp: us_def k_def)
  then have s: "set_urls (map (\<lambda>i. (i, url i)) [k..min (k + 24) (int n)]) us =
     Ok (map (\<lambda>i. if i < 25 * Suc j then url (int i + 1) else PartURLs file ! i) [0..<n])"
    using set_urls_range [OF k, of url] by (simp add: lus)
  have rq: "request_urls env p k (file\<lparr>PartURLs := us, UploadInfo := (UploadInfo file)\<lparr>Part := up\<rparr>\<rparr>) w =
    (Ok (file\<lparr>PartURLs := map (\<lambda>i. if i < 25 * Suc j then url (int i + 1) else PartURLs file ! i) [0..<n],
      UploadInfo := (UploadInfo file)\<lparr>Part := k\<rparr>\<rparr>), w)"
    using a s by (simp add: request_urls_def)
  have sp: "map (\<lambda>i. 1 + int i * 25) [0 ..< Suc j] = map (\<lambda>i. 1 + int i * 25) [0 ..< j] @ [k]"
    by (simp add: k_def)
  show ?case
    unfolding sp request_all_append ih andThen_simps
    by (rule exI [of _ k]) (simp only: request_all.simps rq andThen_simps n_def)
qed



definition received :: "(bytes \<Rightarrow> bytes) \<Rightarrow> (string \<times> bytes) list \<Rightarrow> bytes" where
  "received decr log = concat (map (\<lambda>(url, b). decr b) log)"

lemma UploadFileParts_accepting:
  assumes "accepting env" "\<And>b. Encrypt env p b = Ok (enc b)" "\<And>b. enc b \<noteq> []" "[] \<notin> set (PartURLs file)"
  shows "UploadFileParts env p file log =
    (Ok p, log @ map (\<lambda>(url, b). (url, enc b))
       (zip (PartURLs file) (read_parts (ChunkSize p) (length (PartURLs file)) ([], Content file))))"
proof -
  have "url \<noteq> []" if "url \<in> fst ` set (zip (PartURLs file) bs)" for url bs
    using that assms(4) by (auto dest: set_zip_leftD)
  then show ?thesis
    unfolding UploadFileParts_def Let_def by (subst upload_parts_accepting [OF assms(1-3)]) simp_all
qed

lemma length_read_parts [simp]: "length (read_parts n k r) = k"
  by (induction k arbitrary: r) (auto split: prod.splits)

lemma received_parts:
  assumes "\<And>b. decr (enc b) = b" "length bs = length urls"
  shows "received decr (map (\<lambda>(url, b). (url, enc b)) (zip urls bs)) = concat bs"
  using assms(2) by (induction urls bs rule: list_induct2') (simp_all add: received_def assms(1))

text \<open>A transport that takes everything, and encrypts by adding a byte: the instance of the witnesses.\<close>

definition plain_sender :: "(string \<times> bytes) list sender" where
  "plain_sender =
     \<lparr>http = (\<lambda>r w. (Ok (200, Ok []), w)), put_part = (\<lambda>url b w. ((Ok (), length b), w @ [(url, b)])),
      valid_url = (\<lambda>_. True), client_secret = [], pbkdf2_hex = (\<lambda>_ _. []), encrypt = (\<lambda>k b. Ok (1 # b)),
      dec_package = (\<lambda>_. Error EOF), dec_file = (\<lambda>_ _. Error EOF), dec_urls = (\<lambda>_. Error EOF),
      dec_response = (\<lambda>_. Error EOF), dec_dropzone = (\<lambda>_. Error EOF), enc_upload = (\<lambda>_. []),
      enc_checksum = (\<lambda>_. []), enc_form = (\<lambda>_. [])\<rparr>"

lemma plain_sender: "accepting plain_sender" "Encrypt plain_sender p b = Ok (1 # b)"
  by (simp_all add: accepting_def plain_sender_def Encrypt_def)

definition test_package :: "nat \<Rightarrow> Package" where
  "test_package n =
     \<lparr>PkgUploader = \<lparr>URL = [], APIKey = [], RequestAPITarget = [], ClientSecret = []\<rparr>,
      PkgInfo = \<lparr>PackageID = ''p'', PackageCode = ''c'', ServerSecret = []\<rparr>, PkgURL = [], Checksum = [],
      ChunkSize = n, Concurrency = 1, Retries = 2\<rparr>"

definition test_file :: "bytes \<Rightarrow> string list \<Rightarrow> SSFile" where
  "test_file content urls =
     \<lparr>Info = \<lparr>ID = ''f'', Name = ''f'', Size = length content, Parts = int (length urls),
              InfoResponse = \<lparr>Response = [], Message = []\<rparr>\<rparr>,
      Content = content, PartURLs = urls,
      UploadInfo = \<lparr>UploadName = ''f'', UploadType = ''DROP_ZONE'', UploadParts = length urls, Part = 1,
                    UploadSize = length content\<rparr>\<rparr>"

subsection \<open>Properties\<close>



text \<open>With a part size below 4096, which the option \<open>--part_size\<close> allows, the reader's buffer cuts the
  file at every 4096 bytes as well. The upload then reports success, but the receiver gets the whole file if
  and only if these pieces are no more than the parts; parts of 1000 bytes lose the end of a file of 8192.\<close>

theorem UploadFileParts_small_parts:
  assumes "accepting env" "\<And>b. Encrypt env p b = Ok (enc b)" "\<And>b. enc b \<noteq> []" "\<And>b. decr (enc b) = b"
    and "0 < ChunkSize p" "ChunkSize p < 4096" "[] \<notin> set (PartURLs file)"
  shows "\<exists>puts. UploadFileParts env p file log = (Ok p, log @ puts) \<and>
    (received decr puts = Content file \<longleftrightarrow> length (pieces (ChunkSize p) (Content file)) \<le> length (PartURLs file))"
proof -
  have "concat (read_parts (ChunkSize p) (length (PartURLs file)) ([], Content file)) =
    concat (take (length (PartURLs file)) (pieces (ChunkSize p) (Content file)))"
    by (simp add: read_parts_small [OF assms(5,6)])
  then show ?thesis
    using UploadFileParts_accepting [OF assms(1-3,7), of log] received_parts [of decr enc, OF assms(4)]
      concat_take_nonempty [of "pieces (ChunkSize p) (Content file)" "length (PartURLs file)", OF pieces_nonempty]
      concat_pieces [OF assms(5), of "Content file"] by simp
qed

lemma UploadFileParts_small_parts_witness:
  "calculateNumberOfParts (test_package 1000) 8192 = Ok 9 \<and>
   (\<exists>puts. UploadFileParts plain_sender (test_package 1000) (test_file (replicate 8192 0) (replicate 9 ''u'')) [] =
      (Ok (test_package 1000), [] @ puts) \<and> received tl puts \<noteq> replicate 8192 0)"
proof -
  have "length (chunks 1000 (replicate 4096 (0::byte))) = 5" by (simp add: length_chunks)
  then have "length (pieces 1000 (replicate 8192 0)) = 10" by (simp add: pieces_step)
  then show ?thesis
    using UploadFileParts_small_parts [of plain_sender "test_package 1000" "\<lambda>b. 1 # b" tl
        "test_file (replicate 8192 0) (replicate 9 ''u'')" "[]"]
    by (simp add: plain_sender test_package_def test_file_def calculateNumberOfParts_def)
qed

text \<open>An upload makes at most one attempt per part and one per retry of the package, however it ends; when it
  succeeds the attempts and the retries left add up exactly, every part had a URL, and was encrypted to a
  non-empty body.\<close>

theorem UploadFileParts_attempts:
  assumes "\<And>url b w. snd (put_part env url b w) = Suc w" "UploadFileParts env p file w = (x, w')"
  shows "w' \<le> w + length (PartURLs file) + Retries p \<and>
    (\<forall>p'. x = Ok p' \<longrightarrow> p' = p\<lparr>Retries := Retries p'\<rparr> \<and> Retries p' \<le> Retries p \<and>
       w' + Retries p' = w + length (PartURLs file) + Retries p \<and>
       (\<forall>url\<in>set (PartURLs file). url \<noteq> [] \<and> valid_url env url))"
proof -
  let ?ps = "zip (PartURLs file) (read_parts (ChunkSize p) (length (PartURLs file)) ([], Content file))"
  obtain y r w1 where u: "upload_parts env p ?ps None w = (y, (r, w1))" by (metis prod.collapse)
  have w: "w' = w1" using assms(2) u by (cases y) (auto simp: UploadFileParts_def)
  have fst_ps: "fst ` set ?ps = set (PartURLs file)"
    by (metis length_read_parts map_fst_zip set_map)
  have c: "w1 + r \<le> w + length (PartURLs file) + Retries p"
      "is_ok y \<Longrightarrow> w1 + r = w + length (PartURLs file) + Retries p"
    using upload_parts_count [OF assms(1) u] by simp_all
  show ?thesis
  proof (cases y)
    case (Ok z)
    have "\<forall>url\<in>fst ` set ?ps. url \<noteq> [] \<and> valid_url env url" "r \<le> Retries p"
      using upload_parts_Ok [OF u [unfolded Ok]] by auto
    then show ?thesis using assms(2) u c w Ok by (auto simp: UploadFileParts_def fst_ps)
  next
    case (Error e)
    then show ?thesis using assms(2) u c w by (auto simp: UploadFileParts_def)
  next
    case (Panic e)
    then show ?thesis using assms(2) u c w by (auto simp: UploadFileParts_def)
  qed
qed

text \<open>A transport that counts its attempts and refuses the first \<open>n\<close> of them.\<close>

definition counting_sender :: "nat \<Rightarrow> nat sender" where
  "counting_sender n =
     \<lparr>http = (\<lambda>r w. (Ok (200, Ok []), w)),
      put_part = (\<lambda>url b w. ((if w < n then Error EOF else Ok (), length b), Suc w)),
      valid_url = (\<lambda>_. True), client_secret = [], pbkdf2_hex = (\<lambda>_ _. []), encrypt = (\<lambda>k b. Ok (1 # b)),
      dec_package = (\<lambda>_. Error EOF), dec_file = (\<lambda>_ _. Error EOF), dec_urls = (\<lambda>_. Error EOF),
      dec_response = (\<lambda>_. Error EOF), dec_dropzone = (\<lambda>_. Error EOF), enc_upload = (\<lambda>_. []),
      enc_checksum = (\<lambda>_. []), enc_form = (\<lambda>_. [])\<rparr>"

lemma UploadFileParts_attempts_witness:
  "(2::nat) \<le> 0 + 1 + 2 \<and> UploadFileParts (counting_sender 1) (test_package 5000) (test_file [1, 2] [''u'']) 0 =
     (Ok ((test_package 5000)\<lparr>Retries := 1\<rparr>), 2)"
proof -
  have u: "UploadFileParts (counting_sender 1) (test_package 5000) (test_file [1, 2] [''u'']) 0 =
     (Ok ((test_package 5000)\<lparr>Retries := 1\<rparr>), 2)"
    by (simp add: UploadFileParts_def counting_sender_def test_package_def test_file_def bufio_read_def Encrypt_def
        uploadFilePart_def put_attempts.simps numeral_2_eq_2)
  have "\<And>url b w. snd (put_part (counting_sender 1) url b w) = Suc w" by (simp add: counting_sender_def)
  from UploadFileParts_attempts [OF this u] u show ?thesis by (simp add: test_file_def test_package_def)
qed

text \<open>A retry sends what is left of the buffer, not the part: when the first attempt fails after its body was
  read (the service answers an error status) and the service accepts the second, the part counts as uploaded
  although the accepted request had no body.\<close>

theorem retry_sends_rest:
  assumes "part \<noteq> []" "url \<noteq> []" "valid_url env url" "0 < r"
    and "put_part env url part w = ((Error e, length part), w1)"
    and "put_part env url [] w1 = ((Ok (), 0), w2)"
  shows "uploadFilePart env url r part w = ((Ok (), r - 1), w2)"
  using assms
  by (cases r) (simp_all add: uploadFilePart_def put_attempts.simps [of env url "Suc _" part]
      put_attempts.simps [of env url _ "[]"])

lemma retry_sends_rest_witness:
  "uploadFilePart (counting_sender 1) ''u'' 3 [7, 8] 0 = ((Ok (), 3 - 1), 2)"
  by (rule retry_sends_rest [where e = EOF and ?w1.0 = 1]) (simp_all add: counting_sender_def)

text \<open>Requests for 1, 26, 51 and so on find the URL of every part: when the service announces the parts the
  file was cut into and answers each request with the URLs of 25 parts, \<open>GetUploadURLs\<close> gives the \<open>i\<close>-th part the
  \<open>i\<close>-th URL and changes nothing else of the file but the number of the last part asked for.\<close>

theorem GetUploadURLs_complete:
  assumes "serves_urls env p file url" "PackageCode (PkgInfo p) \<noteq> []"
    and "Parts (Info file) = int (length (PartURLs file))"
  shows "\<exists>up. GetUploadURLs env p file w =
    (Ok (file\<lparr>PartURLs := map (\<lambda>i. url (int i + 1)) [0..<length (PartURLs file)],
              UploadInfo := (UploadInfo file)\<lparr>Part := up\<rparr>\<rparr>), w)"
proof -
  define j where "j = nat ((Parts (Info file) + 24) div 25)"
  have j: "25 * j \<le> length (PartURLs file) + 24" "length (PartURLs file) \<le> 25 * j"
    using assms(3) by (simp_all add: j_def)
  have all: "map (\<lambda>i. if i < 25 * j then url (int i + 1) else PartURLs file ! i) [0..<length (PartURLs file)] =
    map (\<lambda>i. url (int i + 1)) [0..<length (PartURLs file)]"
    using j(2) by (intro map_cong) auto
  show ?thesis
    using request_all_serves [OF assms(1) j(1), of w] assms(2)
    by (simp add: GetUploadURLs_def url_calls_def all flip: j_def)
qed

text \<open>A service with 30 parts, whose request and answer are the number of the part as a string of that length.\<close>

definition url_sender :: "unit sender" where
  "url_sender =
     \<lparr>http = (\<lambda>r w. (Ok (200, Ok (ReqBody r)), w)), put_part = (\<lambda>url b w. ((Ok (), 0), w)),
      valid_url = (\<lambda>_. True), client_secret = [], pbkdf2_hex = (\<lambda>_ _. []), encrypt = (\<lambda>k b. Ok b),
      dec_package = (\<lambda>_. Error EOF), dec_file = (\<lambda>_ _. Error EOF),
      dec_urls = (\<lambda>s. Ok (\<lparr>Response = ''SUCCESS'', Message = []\<rparr>,
         map (\<lambda>i. (i, ''u'')) [int (length s)..min (int (length s) + 24) 30])),
      dec_response = (\<lambda>_. Error EOF), dec_dropzone = (\<lambda>_. Error EOF),
      enc_upload = (\<lambda>u. replicate (nat (Part u)) CHR ''x''),
      enc_checksum = (\<lambda>_. []), enc_form = (\<lambda>_. [])\<rparr>"

lemma GetUploadURLs_complete_witness:
  "\<exists>up. GetUploadURLs url_sender (test_package 5000) (test_file [] (replicate 30 [])) () =
    (Ok ((test_file [] (replicate 30 []))\<lparr>PartURLs := map (\<lambda>i. ''u'') [0..<30],
          UploadInfo := (UploadInfo (test_file [] (replicate 30 [])))\<lparr>Part := up\<rparr>\<rparr>), ())"
proof -
  have "serves_urls url_sender (test_package 5000) (test_file [] (replicate 30 [])) (\<lambda>i. ''u'')"
    by (simp add: serves_urls_def url_sender_def sendRequest_def check_status_def test_file_def)
  from GetUploadURLs_complete [OF this, of "()"] show ?thesis by (simp add: test_file_def test_package_def)
qed

text \<open>An answer that names a part outside the file's parts crashes the client: \<open>GetUploadURLs\<close> checks the
  answer's status, not its part numbers.\<close>

theorem request_urls_bad_part:
  assumes "sendRequest env (PkgUploader p) ''POST''
      (package_endpoint p @ ''/file/'' @ ID (Info file) @ ''/upload-urls'')
      (enc_upload env ((UploadInfo file)\<lparr>Part := k\<rparr>)) withReqJSONHeader w = (Ok answer, w1)"
    and "dec_urls env answer = Ok (\<lparr>Response = ''SUCCESS'', Message = m\<rparr>, us)"
  shows "is_panic (fst (request_urls env p k file w)) \<longleftrightarrow>
    (\<exists>(i, url) \<in> set us. i < 1 \<or> int (length (PartURLs file)) < i)"
proof -
  have "is_panic (set_urls us urls) \<longleftrightarrow> (\<exists>(i, url) \<in> set us. i < 1 \<or> int (length urls) < i)" for urls
    by (induction us urls rule: set_urls.induct) auto
  then show ?thesis using assms by (simp add: request_urls_def)
qed

lemma request_urls_bad_part_witness:
  "is_panic (fst (request_urls url_sender (test_package 5000) 1 (test_file [] [[]]) ()))"
proof -
  have "\<exists>i\<in>{1..25}. 1 < (i::int)" by (rule bexI [of _ 2]) simp_all
  then show ?thesis
  using request_urls_bad_part [of url_sender "test_package 5000" "test_file [] [[]]" 1 "()" "''x''" "()" "[]"
      "map (\<lambda>i. (i, ''u'')) [1..25]"]
  by (simp add: url_sender_def sendRequest_def check_status_def test_file_def split_def)
qed

text \<open>What \<open>validateArgs\<close> lets through is well formed: a case number and an e-mail address, a concurrency
  from 1 to 100 and at most 100 retries (an excess of retries falls back to 5, not to the maximum the message
  names), and the part size given, 10 MiB without one.\<close>

theorem validateArgs_ok:
  "case validateArgs human_size valid_email f of
     None \<Rightarrow> partSizeString f \<noteq> [] \<and> human_size (partSizeString f) = None \<or> caseNum f < 1 \<or> \<not> valid_email (email f)
   | Some (n, g) \<Rightarrow>
       (if partSizeString f = [] then n = 10485760 else human_size (partSizeString f) = Some n) \<and>
       1 \<le> caseNum g \<and> valid_email (email g) \<and> 1 \<le> concurrency g \<and> concurrency g \<le> 100 \<and>
       retries g = (if retries f \<le> 100 then retries f else 5) \<and>
       g = f\<lparr>concurrency := concurrency g, retries := retries g\<rparr>"
  by (auto simp: validateArgs_def Let_def split: option.splits)

end
