(* ===== verification/Format.thy ===== *)
theory Format
  imports Batching GoStd "HOL-Library.Signed_Division"
begin

section \<open>Printing results\<close>

text \<open>
  \<open>pkg/format/output.go\<close>, which both command-line tools print with: an \<open>Output\<close> is a JSON value with the
  columns of its table and a filter for its rows, printed as a table, as JSON or as YAML; and the
  functions that the column expressions may call.

  The libraries it calls are the record \<open>printer\<close>: the evaluation of an expression and of a path on a
  JSON value (ajson), \<open>fmt.Fprint\<close> of a value and of a list of nodes, the text of a node, the layout of a table
  (simpletable), indented JSON, YAML, and the texts of a duration and of a time. Numbers are doubles in
  ajson; the ones printed are integers, and \<open>JNum\<close> holds an integer. What is written is the result.
\<close>

datatype json = JNull | JBool bool | JNum int | JString string | JArray "json list" | JObject "(string \<times> json) list"

fun node_type :: "json \<Rightarrow> nat" where
  "node_type JNull = 0"
| "node_type (JNum _) = 1"
| "node_type (JString _) = 2"
| "node_type (JBool _) = 3"
| "node_type (JArray _) = 4"
| "node_type (JObject _) = 5"

record printer =
  eval_expr :: "json \<Rightarrow> string \<Rightarrow> json res"
  json_path :: "json \<Rightarrow> string \<Rightarrow> json list res"
  show_value :: "json \<Rightarrow> string"
  show_nodes :: "json list \<Rightarrow> string"
  node_string :: "json \<Rightarrow> string"
  draw_table :: "string list \<Rightarrow> string list list \<Rightarrow> string"
  indented_json :: "json \<Rightarrow> string \<Rightarrow> string \<Rightarrow> string res"
  yaml_of_json :: "json \<Rightarrow> string res"
  show_duration :: "int \<Rightarrow> string"
  show_time :: "int \<Rightarrow> string"

subsection \<open>The functions of expressions\<close>

definition seconds_pretty :: "printer \<Rightarrow> json \<Rightarrow> json res" where
  "seconds_pretty env node =
     (case node of
        JString s \<Rightarrow> bind_res (atoi s) (\<lambda>seconds. Ok (JString (show_duration env (int64 (seconds * 1000000000)))))
      | _ \<Rightarrow> Error (Err (''seconds_pretty: unknown data type '' @ dec_of_nat (node_type node))))"

text \<open>\<open>size_pretty\<close> on an \<open>int\<close>: Go's division truncates, and \<open>AbsInt\<close> wraps.\<close>

definition size_text :: "int \<Rightarrow> string" where
  "size_text n =
     (if int64 \<bar>n\<bar> < 10240 then dec_of_int n @ '' B''
      else let n = n sdiv 1024
      in if n < 10240 then dec_of_int n @ '' kB''
      else let n = n sdiv 1024
      in if n < 10240 then dec_of_int n @ '' MB''
      else let n = n sdiv 1024
      in if n < 10240 then dec_of_int n @ '' GB''
      else dec_of_int (n sdiv 1024) @ '' TB'')"

definition size_pretty :: "json \<Rightarrow> json res" where
  "size_pretty node =
     (case node of
        JString s \<Rightarrow> bind_res (atoi s) (\<lambda>n. Ok (JString (size_text n)))
      | JNum n \<Rightarrow> Ok (JString (size_text n))
      | _ \<Rightarrow> Error (Err (''size_pretty: unknown data type '' @ dec_of_nat (node_type node))))"

text \<open>\<open>base64.StdEncoding.DecodeString\<close>: line breaks are skipped, quanta of four with padding at the end.
  The offset in the text of the error is left out.\<close>

definition b64_val :: "char \<Rightarrow> nat option" where
  "b64_val c = (let n = of_char c in
     if 65 \<le> n \<and> n \<le> 90 then Some (n - 65)
     else if 97 \<le> n \<and> n \<le> 122 then Some (n - 71)
     else if 48 \<le> n \<and> n \<le> 57 then Some (n + 4)
     else if c = CHR ''+'' then Some 62 else if c = CHR ''/'' then Some 63 else None)"

fun b64_quanta :: "string \<Rightarrow> nat list option" where
  "b64_quanta [] = Some []"
| "b64_quanta (a # b # c # d # s) =
     (case (b64_val a, b64_val b) of
        (Some x, Some y) \<Rightarrow>
          (if c = CHR ''='' then
             (if d = CHR ''='' \<and> s = [] then Some [(x * 64 + y) div 16] else None)
           else case b64_val c of
             None \<Rightarrow> None
           | Some z \<Rightarrow>
               (if d = CHR ''='' then
                  (if s = [] then (let v = x * 4096 + y * 64 + z in Some [v div 1024, v div 4 mod 256]) else None)
                else case b64_val d of
                  None \<Rightarrow> None
                | Some u \<Rightarrow>
                    (let v = x * 262144 + y * 4096 + z * 64 + u
                     in map_option ((@) [v div 65536, v div 256 mod 256, v mod 256]) (b64_quanta s))))
      | _ \<Rightarrow> None)"
| "b64_quanta _ = None"

definition b64_decode :: "string \<Rightarrow> string res" where
  "b64_decode s =
     (case b64_quanta (filter (\<lambda>c. c \<noteq> char_of (10::nat) \<and> c \<noteq> char_of (13::nat)) s) of
        None \<Rightarrow> Error (Err ''illegal base64 data'')
      | Some bs \<Rightarrow> Ok (map char_of bs))"

definition base64_decode :: "json \<Rightarrow> json res" where
  "base64_decode node =
     (case node of
        JString s \<Rightarrow> bind_res (b64_decode s) (\<lambda>d. Ok (JString d))
      | _ \<Rightarrow> Error (Err (''base64_decode: unknown data type '' @ dec_of_nat (node_type node))))"

definition hex_char :: "nat \<Rightarrow> char" where
  "hex_char n = (if n < 10 then char_of (48 + n) else char_of (87 + n))"

definition hex_encode :: "string \<Rightarrow> string" where
  "hex_encode s = concat (map (\<lambda>c. [hex_char (of_char c div 16), hex_char (of_char c mod 16)]) s)"

definition partition_key_to_hex :: "string \<Rightarrow> json \<Rightarrow> json res" where
  "partition_key_to_hex key node =
     (case node of
        JString s \<Rightarrow> bind_res (b64_decode s) (\<lambda>decoded.
          Ok (JString (if 0 < length decoded then ''0x'' @ hex_encode decoded
                       else if key = ''partitionKeyStart'' then ''0x0000''
                       else if key = ''partitionKeyEnd'' then ''0xffff''
                       else [])))
      | _ \<Rightarrow> Error (Err (''base64_decode: unknown data type '' @ dec_of_nat (node_type node))))"

definition localtime :: "printer \<Rightarrow> json \<Rightarrow> json res" where
  "localtime env node =
     (case node of
        JNum n \<Rightarrow> Ok (JString (show_time env n))
      | _ \<Rightarrow> Error (Err (''localtime: unknown data type '' @ dec_of_nat (node_type node))))"

subsection \<open>Output\<close>

record Column =
  ColumnName :: string
  JSONPath :: string
  Expr :: string

record Output =
  OutputMessage :: string
  JSONObject :: json
  OutputType :: string
  TableColumns :: "Column list"
  Filter :: string

definition checkMeetsFilter :: "printer \<Rightarrow> Output \<Rightarrow> json \<Rightarrow> bool res" where
  "checkMeetsFilter env f row =
     (if Filter f \<noteq> [] then
        (case eval_expr env row (Filter f) of
           Error e \<Rightarrow> Error (Wrap (''filter `'' @ Filter f @ ''`: '') e)
         | Panic p \<Rightarrow> Panic p
         | Ok (JBool b) \<Rightarrow> Ok b
         | Ok _ \<Rightarrow> Ok False)
      else Ok True)"

fun filter_list :: "(json \<Rightarrow> bool res) \<Rightarrow> json list \<Rightarrow> json list res" where
  "filter_list meets [] = Ok []"
| "filter_list meets (row # rows) =
     bind_res (meets row) (\<lambda>b. bind_res (filter_list meets rows) (\<lambda>rest. Ok (if b then row # rest else rest)))"

text \<open>The root after \<open>filterRows\<close>.\<close>

definition filterRows :: "printer \<Rightarrow> Output \<Rightarrow> json \<Rightarrow> json res" where
  "filterRows env f root =
     (case root of
        JArray rows \<Rightarrow> bind_res (filter_list (checkMeetsFilter env f) rows) (\<lambda>rows. Ok (JArray rows))
      | JObject fs \<Rightarrow>
          bind_res (checkMeetsFilter env f root) (\<lambda>b. Ok (if b then root else JObject []))
      | JNull \<Rightarrow> Ok JNull
      | _ \<Rightarrow> Error (Err (''cannot filter rows of an ajson object of type '' @ dec_of_nat (node_type root))))"

definition with_message :: "Output \<Rightarrow> json \<Rightarrow> json" where
  "with_message f root =
     (if OutputMessage f = [] then root
      else JObject [(''content'', root), (''msg'', JString (OutputMessage f))])"

definition outputYAML :: "printer \<Rightarrow> Output \<Rightarrow> json \<Rightarrow> string res" where
  "outputYAML env f root =
     bind_res (yaml_of_json env (with_message f root)) (\<lambda>document. Ok (''---\<newline>'' @ document @ ''\<newline>''))"

definition outputJSON :: "printer \<Rightarrow> Output \<Rightarrow> json \<Rightarrow> string res" where
  "outputJSON env f root =
     bind_res (indented_json env (with_message f root) '' '' '' '') (\<lambda>document. Ok (document @ ''\<newline>''))"

definition formatEvalExpr :: "printer \<Rightarrow> json \<Rightarrow> string \<Rightarrow> string res" where
  "formatEvalExpr env row expr = bind_res (eval_expr env row expr) (\<lambda>node. Ok (show_value env node))"

definition formatJSONPATH :: "printer \<Rightarrow> json \<Rightarrow> string \<Rightarrow> string res" where
  "formatJSONPATH env row path =
     bind_res (json_path env row path) (\<lambda>col.
       Ok (if length col = 1 then show_value env (col ! 0) else show_nodes env col))"

definition format_cell :: "printer \<Rightarrow> json \<Rightarrow> nat \<Rightarrow> Column \<Rightarrow> string res" where
  "format_cell env row i col =
     (if Expr col \<noteq> [] then formatEvalExpr env row (Expr col)
      else if JSONPath col \<noteq> [] then formatJSONPATH env row (JSONPath col)
      else Error (Err (''no expression or jsonpath set for column '' @ ColumnName col @ ''['' @ dec_of_nat (i + 1) @ '']'')))"

fun format_cells :: "printer \<Rightarrow> json \<Rightarrow> nat \<Rightarrow> Column list \<Rightarrow> string list res" where
  "format_cells env row i [] = Ok []"
| "format_cells env row i (col # cols) =
     bind_res (format_cell env row i col) (\<lambda>cell.
     bind_res (format_cells env row (i + 1) cols) (\<lambda>cells. Ok (cell # cells)))"

definition formatPathRow :: "printer \<Rightarrow> Output \<Rightarrow> json \<Rightarrow> string list res" where
  "formatPathRow env f row = format_cells env row 0 (TableColumns f)"

fun format_rows :: "printer \<Rightarrow> Output \<Rightarrow> nat \<Rightarrow> json list \<Rightarrow> string list list res" where
  "format_rows env f i [] = Ok []"
| "format_rows env f i (row # rows) =
     (case formatPathRow env f row of
        Error e \<Rightarrow> Error (Wrap (''unable to format path row['' @ dec_of_nat (i + 1) @ ''] '' @ node_string env row @ '': '') e)
      | Panic p \<Rightarrow> Panic p
      | Ok cells \<Rightarrow> bind_res (format_rows env f (i + 1) rows) (\<lambda>body. Ok (cells # body)))"

text \<open>An object is a table of one row, and null is an empty table.\<close>

definition table_rows :: "json \<Rightarrow> json list" where
  "table_rows root =
     (case root of JArray rows \<Rightarrow> rows | JObject fs \<Rightarrow> [JObject fs] | _ \<Rightarrow> [])"

definition outputTable :: "printer \<Rightarrow> Output \<Rightarrow> json \<Rightarrow> string res" where
  "outputTable env f root =
     (if length (TableColumns f) < 1 then Error (Err ''no output columns have been set'')
      else bind_res (format_rows env f 0 (table_rows root)) (\<lambda>body.
        Ok ((if OutputMessage f \<noteq> [] then ''[ '' @ OutputMessage f @ '' ]\<newline>'' else []) @
            draw_table env (map ColumnName (TableColumns f)) body @ ''\<newline>'')))"

definition effective_type :: "Output \<Rightarrow> string" where
  "effective_type f = (if OutputType f = [] then ''table'' else OutputType f)"

definition Print :: "printer \<Rightarrow> Output \<Rightarrow> string res" where
  "Print env f =
     (case JSONObject f of
        JBool _ \<Rightarrow> Error (Err (''output '' @ dec_of_nat (node_type (JSONObject f)) @ '' must be an object or array''))
      | JNum _ \<Rightarrow> Error (Err (''output '' @ dec_of_nat (node_type (JSONObject f)) @ '' must be an object or array''))
      | JString _ \<Rightarrow> Error (Err (''output '' @ dec_of_nat (node_type (JSONObject f)) @ '' must be an object or array''))
      | _ \<Rightarrow>
          bind_res (filterRows env f (JSONObject f)) (\<lambda>root.
            if effective_type f = ''table'' then outputTable env f root
            else if effective_type f = ''json'' then outputJSON env f root
            else if effective_type f = ''yaml'' then outputYAML env f root
            else Error (Err (''unsupported output type: '' @ effective_type f))))"

definition Println :: "printer \<Rightarrow> Output \<Rightarrow> string res" where
  "Println env f =
     bind_res (Print env f) (\<lambda>text. Ok (if effective_type f = ''table'' then text @ ''\<newline>'' else text))"

subsection \<open>Lemmas\<close>

lemma filter_list_Ok:
  "filter_list meets rows = Ok out \<longleftrightarrow>
     (\<forall>row\<in>set rows. \<exists>b. meets row = Ok b) \<and> out = filter (\<lambda>row. meets row = Ok True) rows"
proof (induction rows arbitrary: out)
  case Nil
  then show ?case by auto
next
  case (Cons row rows)
  show ?case
  proof (cases "meets row")
    case (Ok b)
    have "filter_list meets (row # rows) = Ok out \<longleftrightarrow>
        (\<exists>rest. filter_list meets rows = Ok rest \<and> out = (if b then row # rest else rest))"
      by (simp only: filter_list.simps Ok bind_res.simps bind_res_eq_Ok res.inject) blast
    then show ?thesis using Ok by (simp add: Cons.IH)
  qed simp_all
qed

text \<open>What a cell shows: the value of the column's expression, or the nodes on its path, a single one as
  its value.\<close>

definition cell_shows :: "printer \<Rightarrow> json \<Rightarrow> Column \<Rightarrow> string \<Rightarrow> bool" where
  "cell_shows env row col c \<longleftrightarrow>
     (if Expr col \<noteq> [] then (\<exists>v. eval_expr env row (Expr col) = Ok v \<and> c = show_value env v)
      else JSONPath col \<noteq> [] \<and> (\<exists>vs. json_path env row (JSONPath col) = Ok vs \<and>
             c = (case vs of [v] \<Rightarrow> show_value env v | _ \<Rightarrow> show_nodes env vs)))"

lemma format_cell_Ok: "format_cell env row i col = Ok c \<longleftrightarrow> cell_shows env row col c"
proof -
  have "(if length vs = 1 then show_value env (vs ! 0) else show_nodes env vs) =
      (case vs of [v] \<Rightarrow> show_value env v | _ \<Rightarrow> show_nodes env vs)" for vs
    by (simp split: list.split)
  then show ?thesis
    unfolding format_cell_def cell_shows_def formatEvalExpr_def formatJSONPATH_def
    by (cases "Expr col = []"; cases "JSONPath col = []") (simp_all add: bind_res_eq_Ok; blast)+
qed

lemma format_cells_Ok:
  "format_cells env row i cols = Ok cells \<longleftrightarrow> list_all2 (cell_shows env row) cols cells"
  by (induction cols arbitrary: i cells) (auto simp: bind_res_eq_Ok format_cell_Ok list_all2_Cons1)

lemma format_rows_Ok:
  "format_rows env f i rows = Ok body \<longleftrightarrow>
     list_all2 (\<lambda>row cells. list_all2 (cell_shows env row) (TableColumns f) cells) rows body"
proof (induction rows arbitrary: i body)
  case Nil
  then show ?case by auto
next
  case (Cons row rows)
  have "format_rows env f i (row # rows) = Ok body \<longleftrightarrow>
      (\<exists>cells rest. formatPathRow env f row = Ok cells \<and> format_rows env f (i + 1) rows = Ok rest \<and> body = cells # rest)"
    by (cases "formatPathRow env f row") (auto simp: bind_res_eq_Ok)
  also have "\<dots> \<longleftrightarrow> list_all2 (\<lambda>row cells. list_all2 (cell_shows env row) (TableColumns f) cells) (row # rows) body"
    by (auto simp: Cons.IH formatPathRow_def format_cells_Ok list_all2_Cons1)
  finally show ?case .
qed

lemma sdiv_nonneg: "0 \<le> n \<Longrightarrow> n sdiv 1024 = (n :: int) div 1024"
  by (cases "n = 0") (simp_all add: signed_divide_int_def)

definition size_units :: "string list" where
  "size_units = ['' B'', '' kB'', '' MB'', '' GB'', '' TB'']"

subsection \<open>Properties\<close>

text \<open>C8: Printing a list as a table is the reference table: it succeeds exactly when there are columns, the
  filter has a value on every row and every cell of a selected row has one; then the text is the table
  of the rows on which the filter is true, in their order, each cell showing its own row's expression or path.\<close>

theorem Print_table_reference:
  assumes "JSONObject f = JArray rows" "OutputType f = [] \<or> OutputType f = ''table''"
  shows "Print env f = Ok text \<longleftrightarrow>
    TableColumns f \<noteq> [] \<and>
    (\<forall>row\<in>set rows. Filter f \<noteq> [] \<longrightarrow> (\<exists>v. eval_expr env row (Filter f) = Ok v)) \<and>
    (\<exists>body. list_all2 (\<lambda>row cells. list_all2 (cell_shows env row) (TableColumns f) cells)
              (filter (\<lambda>row. Filter f = [] \<or> eval_expr env row (Filter f) = Ok (JBool True)) rows) body \<and>
       text = (if OutputMessage f \<noteq> [] then ''[ '' @ OutputMessage f @ '' ]\<newline>'' else []) @
              draw_table env (map ColumnName (TableColumns f)) body @ ''\<newline>'')"
proof -
  have t: "effective_type f = ''table''" using assms(2) by (auto simp: effective_type_def)
  have meets: "(\<exists>b. checkMeetsFilter env f row = Ok b) \<longleftrightarrow> (Filter f \<noteq> [] \<longrightarrow> (\<exists>v. eval_expr env row (Filter f) = Ok v))" for row
    by (auto simp: checkMeetsFilter_def split: res.splits json.splits)
  have true: "checkMeetsFilter env f row = Ok True \<longleftrightarrow> Filter f = [] \<or> eval_expr env row (Filter f) = Ok (JBool True)" for row
    by (auto simp: checkMeetsFilter_def split: res.splits json.splits)
  show ?thesis
    unfolding Print_def assms(1) filterRows_def outputTable_def
    by (auto simp: t bind_res_eq_Ok filter_list_Ok meets true format_rows_Ok table_rows_def)
qed

text \<open>A printer for examples: the only expression is \<open>ok\<close>, true on the null row.\<close>

definition test_printer :: printer where
  "test_printer =
     \<lparr>eval_expr = (\<lambda>row e. if e = ''ok'' then Ok (JBool (row = JNull)) else Error EOF),
      json_path = (\<lambda>row p. Ok [row]), show_value = (\<lambda>v. ''v''), show_nodes = (\<lambda>vs. []), node_string = (\<lambda>v. []),
      draw_table = (\<lambda>header body. concat header @ concat (concat body)),
      indented_json = (\<lambda>v p i. Ok []), yaml_of_json = (\<lambda>v. Ok []), show_duration = (\<lambda>n. []), show_time = (\<lambda>n. [])\<rparr>"

lemma Print_table_reference_witness:
  "Print test_printer \<lparr>OutputMessage = [], JSONObject = JArray [JNull, JNum 3], OutputType = ''table'',
      TableColumns = [\<lparr>ColumnName = ''N'', JSONPath = ''$'', Expr = []\<rparr>], Filter = ''ok''\<rparr> = Ok ''Nv\<newline>''"
  by (subst Print_table_reference) (auto simp: test_printer_def cell_shows_def list_all2_Cons1 intro!: exI [of _ "[[''v'']]"])

text \<open>\<open>size_pretty\<close> of a size that is not negative counts whole units and picks the unit: the printed number
  is the size in that unit rounded down, below 10240 unless the unit is the largest, and at least 10 unless it
  is the smallest. A negative size of 10240 bytes or more is always printed in kB.\<close>

theorem size_text_unit:
  assumes "- (2 ^ 63) < n" "n < 2 ^ 63"
  shows "(0 \<le> n \<longrightarrow> (\<exists>k i. size_text n = dec_of_int k @ size_units ! i \<and> i < 5 \<and>
            k * 1024 ^ i \<le> n \<and> n < (k + 1) * 1024 ^ i \<and> (i < 4 \<longrightarrow> k < 10240) \<and> (0 < i \<longrightarrow> 10 \<le> k))) \<and>
         (n \<le> - 10240 \<longrightarrow> size_text n = dec_of_int (n sdiv 1024) @ '' kB'')"
proof (intro conjI impI)
  assume n: "0 \<le> n"
  have abs: "int64 n = n" using assms by (intro int64_id) auto
  have bound: "n div d * d \<le> n \<and> n < (n div d + 1) * d" if "0 < d" for d :: int
    unfolding distrib_right minus_mod_eq_div_mult [symmetric]
    using pos_mod_bound [OF that, of n] pos_mod_sign [OF that, of n] by simp
  have dd: "n div 1024 div 1024 = n div 1048576" "n div 1048576 div 1024 = n div 1073741824" "n div 1073741824 div 1024 = n div 1099511627776"
    by (simp_all add: zdiv_zmult2_eq [symmetric])
  have pos: "0 \<le> n div 1024" "0 \<le> n div 1048576" "0 \<le> n div 1073741824" using n by simp_all
  consider "n < 10240" | "\<not> n < 10240" "n div 1024 < 10240"
    | "\<not> n < 10240" "\<not> n div 1024 < 10240" "n div 1048576 < 10240"
    | "\<not> n < 10240" "\<not> n div 1024 < 10240" "\<not> n div 1048576 < 10240" "n div 1073741824 < 10240"
    | "\<not> n < 10240" "\<not> n div 1024 < 10240" "\<not> n div 1048576 < 10240" "\<not> n div 1073741824 < 10240" by blast
  then show "\<exists>k i. size_text n = dec_of_int k @ size_units ! i \<and> i < 5 \<and>
            k * 1024 ^ i \<le> n \<and> n < (k + 1) * 1024 ^ i \<and> (i < 4 \<longrightarrow> k < 10240) \<and> (0 < i \<longrightarrow> 10 \<le> k)"
  proof cases
    case 1
    then show ?thesis using n by (intro exI [of _ n] exI [of _ 0]) (simp add: size_text_def size_units_def abs)
  next
    case 2
    then show ?thesis using n bound [of 1024]
      by (intro exI [of _ "n div 1024"] exI [of _ 1]) (simp add: size_text_def size_units_def abs sdiv_nonneg)
  next
    case 3
    then have "10 \<le> n div 1048576" unfolding dd(1) [symmetric] by linarith
    then show ?thesis using 3 n pos bound [of 1048576]
      by (intro exI [of _ "n div 1048576"] exI [of _ 2]) (simp add: size_text_def size_units_def abs sdiv_nonneg dd)
  next
    case 4
    then have "10 \<le> n div 1073741824" unfolding dd(2) [symmetric] by linarith
    then show ?thesis using 4 n pos bound [of 1073741824]
      by (intro exI [of _ "n div 1073741824"] exI [of _ 3]) (simp add: size_text_def size_units_def abs sdiv_nonneg dd)
  next
    case 5
    then have "10 \<le> n div 1099511627776" unfolding dd(3) [symmetric] by linarith
    then show ?thesis using 5 n pos bound [of 1099511627776]
      by (intro exI [of _ "n div 1099511627776"] exI [of _ 4]) (simp add: size_text_def size_units_def abs sdiv_nonneg dd)
  qed
next
  assume n: "n \<le> - 10240"
  then have abs: "int64 (- n) = - n" using assms by (intro int64_id) auto
  have "n sdiv 1024 = - (\<bar>n\<bar> div 1024)" using n by (simp add: signed_divide_int_def)
  moreover have "0 \<le> \<bar>n\<bar> div 1024" by simp
  ultimately have "n sdiv 1024 < 10240" by linarith
  then show "size_text n = dec_of_int (n sdiv 1024) @ '' kB''" using n by (simp add: size_text_def abs)
qed

lemma size_text_unit_witness: "size_text (- 20480) = dec_of_int (- 20 :: int) @ '' kB''"
  using size_text_unit [of "- 20480"] by (simp add: signed_divide_int_def)

end
