(* ===== verification/Polling.thy ===== *)
theory Polling
  imports Prelude
begin

section \<open>Polling loops\<close>

text \<open>
  \<open>for { select { case <-time.After(..): ... case <-ctx.Done(): ... } }\<close>: a loop without a bound that
  goes round until one round has an answer. One round is a function of the state of the world, which
  holds the clock and the pending events; \<open>None\<close> for the loop means that it never returns.
\<close>

partial_function (option) poll_loop :: "('w \<Rightarrow> 'a option \<times> 'w) \<Rightarrow> 'w \<Rightarrow> ('a \<times> 'w) option" where
  "poll_loop round w =
     (case round w of
        (Some r, w1) \<Rightarrow> Some (r, w1)
      | (None, w1) \<Rightarrow> poll_loop round w1)"

text \<open>The world after \<open>n\<close> rounds.\<close>

definition after_rounds :: "('w \<Rightarrow> 'a option \<times> 'w) \<Rightarrow> nat \<Rightarrow> 'w \<Rightarrow> 'w" where
  "after_rounds round n w = ((snd \<circ> round) ^^ n) w"

lemma after_rounds_simps [simp]:
  "after_rounds round 0 w = w"
  "after_rounds round (Suc n) w = after_rounds round n (snd (round w))"
  by (simp_all add: after_rounds_def funpow_swap1)

lemma poll_loop_returns:
  assumes "round (after_rounds round n w) = (Some r, w')"
    and "\<And>k. k < n \<Longrightarrow> fst (round (after_rounds round k w)) = None"
  shows "poll_loop round w = Some (r, w')"
  using assms
proof (induction n arbitrary: w)
  case 0
  then show ?case by (subst poll_loop.simps) simp
next
  case (Suc n)
  have "fst (round w) = None" using Suc.prems(2) [of 0] by simp
  then obtain w1 where w1: "round w = (None, w1)" by (cases "round w") auto
  have "poll_loop round w1 = Some (r, w')"
  proof (rule Suc.IH)
    show "round (after_rounds round n w1) = (Some r, w')" using Suc.prems(1) w1 by simp
    show "fst (round (after_rounds round k w1)) = None" if "k < n" for k
      using Suc.prems(2) [of "Suc k"] that w1 by simp
  qed
  then show ?case by (subst poll_loop.simps) (simp add: w1)
qed

lemma poll_loop_Some_only:
  assumes "poll_loop round w = Some y"
  shows "\<exists>n. round (after_rounds round n w) = (Some (fst y), snd y) \<and> (\<forall>k<n. fst (round (after_rounds round k w)) = None)"
proof (rule poll_loop.raw_induct [where P = "\<lambda>round w y. \<exists>n. round (after_rounds round n w) = (Some (fst y), snd y) \<and>
      (\<forall>k<n. fst (round (after_rounds round k w)) = None)", OF _ assms])
  fix loop :: "('w \<Rightarrow> 'a option \<times> 'w) \<Rightarrow> 'w \<Rightarrow> ('a \<times> 'w) option" and round :: "'w \<Rightarrow> 'a option \<times> 'w"
    and w :: 'w and y :: "'a \<times> 'w"
  assume ih: "\<And>round w y. loop round w = Some y \<Longrightarrow>
      \<exists>n. round (after_rounds round n w) = (Some (fst y), snd y) \<and> (\<forall>k<n. fst (round (after_rounds round k w)) = None)"
    and eq: "(case round w of (None, w1) \<Rightarrow> loop round w1 | (Some r, w1) \<Rightarrow> Some (r, w1)) = Some y"
  show "\<exists>n. round (after_rounds round n w) = (Some (fst y), snd y) \<and> (\<forall>k<n. fst (round (after_rounds round k w)) = None)"
  proof (cases "round w")
    case (Pair x w1)
    show ?thesis
    proof (cases x)
      case None
      then have "loop round w1 = Some y" using eq Pair by simp
      then obtain n where n: "round (after_rounds round n w1) = (Some (fst y), snd y)"
        "\<forall>k<n. fst (round (after_rounds round k w1)) = None" using ih by blast
      then show ?thesis
        using Pair None by (intro exI [of _ "Suc n"]) (auto simp: less_Suc_eq_0_disj)
    next
      case (Some z)
      then show ?thesis using eq Pair by (intro exI [of _ 0]) auto
    qed
  qed
qed

text \<open>The loop returns exactly when some round has an answer, and then gives the first one.\<close>

lemma poll_loop_Some:
  "poll_loop round w = Some (r, w') \<longleftrightarrow>
     (\<exists>n. round (after_rounds round n w) = (Some r, w') \<and> (\<forall>k<n. fst (round (after_rounds round k w)) = None))"
  using poll_loop_returns [of round _ w r w'] poll_loop_Some_only [of round w "(r, w')"] by (simp, blast)

lemma poll_loop_None:
  "poll_loop round w = None \<longleftrightarrow> (\<forall>n. fst (round (after_rounds round n w)) = None)"
proof
  assume n: "poll_loop round w = None"
  show "\<forall>n. fst (round (after_rounds round n w)) = None"
  proof
    fix n
    show "fst (round (after_rounds round n w)) = None"
    proof (induction n rule: less_induct)
      case (less n)
      show ?case
      proof (rule ccontr)
        assume "fst (round (after_rounds round n w)) \<noteq> None"
        then obtain r w' where "round (after_rounds round n w) = (Some r, w')"
          by (cases "round (after_rounds round n w)") auto
        from poll_loop_returns [of round n w r w', OF this less] show False using n by simp
      qed
    qed
  qed
next
  assume all: "\<forall>n. fst (round (after_rounds round n w)) = None"
  show "poll_loop round w = None"
  proof (cases "poll_loop round w")
    case (Some a)
    from poll_loop_Some_only [OF this] obtain n where "round (after_rounds round n w) = (Some (fst a), snd a)" by blast
    then have "fst (round (after_rounds round n w)) \<noteq> None" by simp
    then show ?thesis using all [rule_format, of n] by simp
  qed
qed

text \<open>What the select of a wait finds: the end of the time that was given, a second gone by, or the cancelled context.\<close>

datatype wait_event = TimedOut | Tick | Done

end
