(* ===== verification/YWClient.thy ===== *)
theory YWClient
  imports HostPort Flags Polling Batching
begin

section \<open>The Yugaware client\<close>

text \<open>
  \<open>yugaware-client/pkg/client\<close>: how the client connects to a Yugaware server, the tokens and cookies it
  keeps, its plain requests, and its lookups by name or UUID; and from \<open>pkg/cmdutil\<close> the setup of a
  command and the wait for a task.

  What the client calls is the record \<open>yw_env\<close>: the HTTP transport (\<open>do_request\<close>, told whether the cookie
  jar is attached), the persistent cookie jar, URL parsing, files and certificates, JSON, and the
  answers of the server to the generated swagger operations, which are given the headers of the
  authentication writer and whose state is \<open>'w\<close>. Calls that cannot panic return a sum, with
  the error on the left. A duration is its number of nanoseconds.
\<close>

subsection \<open>Data\<close>

record TLSOptions =
  SkipHostVerification :: bool
  CaCertPath :: string
  CertPath :: string
  KeyPath :: string

record tls_config =
  InsecureSkipVerify :: bool
  RootCAs :: "string option"
  Certificates :: "(string \<times> string) list"

record http_session =
  SessionTLS :: "tls_config option"
  SessionTimeout :: int
  SessionJar :: bool

record web_request =
  WebMethod :: string
  WebURL :: string
  WebHeaders :: "(string \<times> string) list"
  WebBody :: "string option"

text \<open>The fields of the generated models that the client reads. A pointer is an option.\<close>

record UniverseResp =
  UniverseName :: string
  UniverseUUID :: string
  NodeIsTserver :: "bool list option"

record CertificateInfo =
  CertLabel :: string
  CertUUID :: string

record CustomerConfigUI =
  ConfigType :: "string option"
  ConfigName :: "string option"
  ConfigUUID :: string

record ProviderResp =
  ProviderName :: string
  ProviderUUID :: string
  ProviderCode :: string

record task_data =
  TaskID :: string
  TaskStatus :: string

record AuthToken =
  AuthTokenValue :: string
  AuthCustomerUUID :: string
  AuthUserUUID :: string

record LoginRequest =
  LoginEmail :: string
  LoginPassword :: string

record RegisterYugawareRequest =
  RegisterCode :: string
  RegisterName :: string
  RegisterEmail :: string
  RegisterPassword :: string
  ConfirmPassword :: string
  ConfirmEula :: bool

type_synonym headers = "(string \<times> string) list"

record 'w yw_env =
  do_request :: "http_session \<Rightarrow> web_request \<Rightarrow> 'w \<Rightarrow> (goerror + nat \<times> (goerror + string)) \<times> 'w"
  bad_request :: "string \<Rightarrow> string \<Rightarrow> goerror option"
  parse_url :: "string \<Rightarrow> goerror + string"
  resolve_url :: "string \<Rightarrow> string \<Rightarrow> string"
  url_hostname :: "string \<Rightarrow> string"
  read_file :: "string \<Rightarrow> string res"
  pem_ok :: "string \<Rightarrow> bool"
  key_pair :: "string \<Rightarrow> string \<Rightarrow> (string \<times> string) res"
  home_dir :: "string res"
  open_jar :: "string \<Rightarrow> bool \<Rightarrow> (string \<Rightarrow> bool) \<Rightarrow> 'w \<Rightarrow> unit res \<times> 'w"
  jar_cookies :: "string \<Rightarrow> 'w \<Rightarrow> (string \<times> string) list"
  jar_remove :: "string \<Rightarrow> string \<Rightarrow> 'w \<Rightarrow> 'w"
  jar_save :: "'w \<Rightarrow> unit res \<times> 'w"
  login_json :: "LoginRequest \<Rightarrow> goerror + string"
  register_json :: "RegisterYugawareRequest \<Rightarrow> goerror + string"
  token_of_json :: "string \<Rightarrow> goerror + AuthToken"
  session_info :: "headers \<Rightarrow> 'w \<Rightarrow> (string \<times> string) res \<times> 'w"
  list_universes :: "headers \<Rightarrow> string \<Rightarrow> 'w \<Rightarrow> UniverseResp list res \<times> 'w"
  list_certificates :: "headers \<Rightarrow> string \<Rightarrow> 'w \<Rightarrow> CertificateInfo list res \<times> 'w"
  list_configs :: "headers \<Rightarrow> string \<Rightarrow> 'w \<Rightarrow> CustomerConfigUI list res \<times> 'w"
  list_providers :: "headers \<Rightarrow> string \<Rightarrow> 'w \<Rightarrow> ProviderResp list res \<times> 'w"
  list_tasks :: "headers \<Rightarrow> string \<Rightarrow> 'w \<Rightarrow> task_data list res \<times> 'w"

record YugawareClient =
  session :: "http_session option"
  apiToken :: string
  authToken :: string
  csrfToken :: string
  customerUUID :: string
  userUUID :: string
  hostname :: string
  port :: string
  baseURI :: string
  timeoutSeconds :: int
  tlsOptions :: "TLSOptions option"
  client_err :: "goerror option"

subsection \<open>Construction\<close>

definition split_hostname :: "string \<Rightarrow> string \<times> string \<times> goerror option" where
  "split_hostname name =
     (case net_split_host_port name of
        Ok (h, p) \<Rightarrow> (h, p, None)
      | Error e \<Rightarrow>
          (case e of
             AddrError reason _ \<Rightarrow> if reason = missing_port then (name, [], None) else ([], [], Some e)
           | _ \<Rightarrow> ([], [], Some e))
      | Panic p \<Rightarrow> ([], [], None))"

definition NewClient :: "string \<Rightarrow> YugawareClient" where
  "NewClient name =
     (case split_hostname name of (h, p, e) \<Rightarrow>
        \<lparr>session = None, apiToken = [], authToken = [], csrfToken = [], customerUUID = [], userUUID = [],
         hostname = h, port = p, baseURI = [], timeoutSeconds = 30, tlsOptions = None, client_err = e\<rparr>)"

definition TimeoutSeconds :: "int \<Rightarrow> YugawareClient \<Rightarrow> YugawareClient" where
  "TimeoutSeconds timeout c = c\<lparr>timeoutSeconds := int64 (timeout * 1000000000)\<rparr>"

definition SetTLSOptions :: "TLSOptions \<Rightarrow> YugawareClient \<Rightarrow> YugawareClient" where
  "SetTLSOptions opts c = c\<lparr>tlsOptions := Some opts\<rparr>"

definition APIToken :: "string \<Rightarrow> YugawareClient \<Rightarrow> YugawareClient" where
  "APIToken token c = c\<lparr>apiToken := token\<rparr>"

definition hasTLS :: "YugawareClient \<Rightarrow> bool" where
  "hasTLS c =
     (case tlsOptions c of
        None \<Rightarrow> False
      | Some t \<Rightarrow> SkipHostVerification t \<or> CaCertPath t \<noteq> [] \<or> CertPath t \<noteq> [] \<or> KeyPath t \<noteq> [])"

definition getTLSConfig :: "'w yw_env \<Rightarrow> YugawareClient \<Rightarrow> tls_config option res" where
  "getTLSConfig env c =
     (if \<not> hasTLS c then Ok None
      else (case tlsOptions c of
        None \<Rightarrow> Ok None
      | Some t \<Rightarrow>
          (if SkipHostVerification t then Ok (Some \<lparr>InsecureSkipVerify = True, RootCAs = None, Certificates = []\<rparr>)
           else bind_res
             (if CaCertPath t \<noteq> [] then
                bind_res (read_file env (CaCertPath t)) (\<lambda>f.
                  if pem_ok env f then Ok (Some f)
                  else Error (Err (''unable to add '' @ CaCertPath t @ '' to the CA list'')))
              else Ok None) (\<lambda>roots.
             if CertPath t \<noteq> [] \<or> KeyPath t \<noteq> [] then
               (if KeyPath t = [] \<or> CertPath t = []
                then Error (Err ''client certificate and key must both be set'')
                else bind_res (wrap_error ''unable to read x509 certificate: '' (read_file env (CertPath t))) (\<lambda>tlsCert.
                     bind_res (wrap_error ''unable to read client key: '' (read_file env (KeyPath t))) (\<lambda>tlsKey.
                     bind_res (wrap_error ''unable to read x509 key pair: '' (key_pair env tlsCert tlsKey)) (\<lambda>pair.
                       Ok (Some \<lparr>InsecureSkipVerify = False, RootCAs = roots, Certificates = [pair]\<rparr>)))))
             else Ok (Some \<lparr>InsecureSkipVerify = False, RootCAs = roots, Certificates = []\<rparr>)))))"

subsection \<open>Requests\<close>

record 'a Request =
  ReqSession :: "http_session option"
  ReqBaseURI :: string
  ReqAuthToken :: string
  ReqCsrfToken :: string
  ReqURI :: string
  ReqMethod :: string
  ReqContent :: "(goerror + string) option"
  ReqDecode :: "(string \<Rightarrow> goerror + 'a) option"
  ReqErr :: "goerror option"

record 'a YugawareResponse =
  StatusCode :: nat
  ResponseBody :: string
  Decoded :: "'a option"

text \<open>What \<open>Do\<close> returns: no response and an error, or a response and perhaps an error; a client that was never
  connected has no session to send with.\<close>

datatype 'a outcome = Failed goerror | Crashed string | Answered "'a YugawareResponse" "goerror option"

definition newRequest :: "YugawareClient \<Rightarrow> 'a Request" where
  "newRequest c =
     \<lparr>ReqSession = session c, ReqBaseURI = baseURI c, ReqAuthToken = authToken c, ReqCsrfToken = csrfToken c, ReqURI = [],
      ReqMethod = [], ReqContent = None, ReqDecode = None, ReqErr = None\<rparr>"

definition Get :: "'a Request \<Rightarrow> 'a Request" where
  "Get r = r\<lparr>ReqMethod := ''GET''\<rparr>"

definition Post :: "'a Request \<Rightarrow> 'a Request" where
  "Post r = r\<lparr>ReqMethod := ''POST''\<rparr>"

definition Path :: "'w yw_env \<Rightarrow> string \<Rightarrow> 'a Request \<Rightarrow> 'a Request" where
  "Path env path r =
     (case parse_url env path of
        Inl e \<Rightarrow> r\<lparr>ReqURI := [], ReqErr := Some e\<rparr>
      | Inr uri \<Rightarrow> r\<lparr>ReqURI := uri, ReqErr := None\<rparr>)"

text \<open>The body is kept marshalled.\<close>

definition RequestBody :: "goerror + string \<Rightarrow> 'a Request \<Rightarrow> 'a Request" where
  "RequestBody message r = r\<lparr>ReqContent := Some message\<rparr>"

definition DecodeResponseInto :: "(string \<Rightarrow> goerror + 'a) \<Rightarrow> 'a Request \<Rightarrow> 'a Request" where
  "DecodeResponseInto decode r = r\<lparr>ReqDecode := Some decode\<rparr>"

definition request_headers :: "'a Request \<Rightarrow> headers" where
  "request_headers r =
     (if ReqContent r \<noteq> None then [(''Content-Type'', ''application/json'')] else []) @
     (case ReqDecode r of Some _ \<Rightarrow> [(''Accept'', ''application/json'')] | None \<Rightarrow> []) @
     (if ReqAuthToken r \<noteq> [] then [(''X-AUTH-TOKEN'', ReqAuthToken r)] else []) @
     (if ReqCsrfToken r \<noteq> [] then [(''Csrf-Token'', ReqCsrfToken r)] else [])"

definition read_response :: "'a Request \<Rightarrow> nat \<Rightarrow> string \<Rightarrow> 'a outcome" where
  "read_response r code body =
     (if code = 200 then
        (case ReqDecode r of
           None \<Rightarrow> Answered \<lparr>StatusCode = code, ResponseBody = body, Decoded = None\<rparr> None
         | Some decode \<Rightarrow>
             (case decode body of
                Inl e \<Rightarrow> Answered \<lparr>StatusCode = code, ResponseBody = body, Decoded = None\<rparr> (Some e)
              | Inr v \<Rightarrow> Answered \<lparr>StatusCode = code, ResponseBody = body, Decoded = Some v\<rparr> None))
      else Answered \<lparr>StatusCode = code, ResponseBody = body, Decoded = None\<rparr>
             (Some (Err (''unexpected response code: '' @ dec_of_nat code @ '' '' @ body))))"

definition Do :: "'w yw_env \<Rightarrow> 'a Request \<Rightarrow> 'w \<Rightarrow> 'a outcome \<times> 'w" where
  "Do env r w =
     (case ReqErr r of
        Some e \<Rightarrow> (Failed e, w)
      | None \<Rightarrow>
          (let uri = resolve_url env (ReqBaseURI r) (ReqURI r);
               go = (\<lambda>body. case bad_request env (ReqMethod r) uri of
                  Some e \<Rightarrow> (Failed e, w)
                | None \<Rightarrow>
                    (case ReqSession r of
                       None \<Rightarrow> (Crashed ''nil pointer dereference'', w)
                     | Some s \<Rightarrow>
                         (case do_request env s
                                 \<lparr>WebMethod = ReqMethod r, WebURL = uri, WebHeaders = request_headers r, WebBody = body\<rparr> w of
                            (Inl e, w1) \<Rightarrow> (Failed e, w1)
                          | (Inr (code, Inl e), w1) \<Rightarrow> (Failed e, w1)
                          | (Inr (code, Inr b), w1) \<Rightarrow> (read_response r code b, w1))))
           in case ReqContent r of
                None \<Rightarrow> go None
              | Some (Inl e) \<Rightarrow> (Failed e, w)
              | Some (Inr body) \<Rightarrow> go (Some body)))"

subsection \<open>Sessions\<close>

definition persisted_cookie :: "string \<Rightarrow> bool" where
  "persisted_cookie name \<longleftrightarrow> name = ''authToken'' \<or> name = ''customerId'' \<or> name = ''userId''"

definition openCookieJar :: "'w yw_env \<Rightarrow> YugawareClient \<Rightarrow> 'w \<Rightarrow> unit res \<times> 'w" where
  "openCookieJar env c w =
     andThen (home_dir env, w) (\<lambda>home w.
       (case open_jar env (home @ ''/.yugaware-client-cookiejar'') (apiToken c \<noteq> []) persisted_cookie w of
          (r, w1) \<Rightarrow> (wrap_error ''failed to create cookie jar for HTTP client: '' r, w1)))"

text \<open>The authentication writer of the generated operations.\<close>

definition SwaggerAuth :: "YugawareClient \<Rightarrow> headers res" where
  "SwaggerAuth c =
     (if authToken c = [] \<and> apiToken c = [] then Error (Err ''not logged in'')
      else Ok ((if authToken c \<noteq> [] then [(''X-AUTH-TOKEN'', authToken c)] else []) @
               (if apiToken c \<noteq> [] then [(''X-AUTH-YW-API-TOKEN'', apiToken c)] else []) @
               (if csrfToken c \<noteq> [] then [(''Csrf-Token'', csrfToken c)] else [])))"

definition platform_call ::
  "YugawareClient \<Rightarrow> (headers \<Rightarrow> string \<Rightarrow> 'w \<Rightarrow> 'a res \<times> 'w) \<Rightarrow> 'w \<Rightarrow> 'a res \<times> 'w" where
  "platform_call c operation w = andThen (SwaggerAuth c, w) (\<lambda>auth w. operation auth (customerUUID c) w)"

fun read_cookies :: "(string \<times> string) list \<Rightarrow> YugawareClient \<Rightarrow> YugawareClient" where
  "read_cookies [] c = c"
| "read_cookies ((name, v) # cookies) c =
     read_cookies cookies
       (if name = ''csrfCookie'' then c\<lparr>csrfToken := v\<rparr>
        else if name = ''authToken'' then c\<lparr>authToken := v\<rparr> else c)"

fun read_ids :: "(string \<times> string) list \<Rightarrow> YugawareClient \<Rightarrow> YugawareClient" where
  "read_ids [] c = c"
| "read_ids ((name, v) # cookies) c =
     read_ids cookies
       (if name = ''customerId'' then c\<lparr>customerUUID := v\<rparr>
        else if name = ''userId'' then c\<lparr>userUUID := v\<rparr> else c)"

definition obtainSessionInfo :: "'w yw_env \<Rightarrow> YugawareClient \<Rightarrow> 'w \<Rightarrow> YugawareClient res \<times> 'w" where
  "obtainSessionInfo env c w =
     (if apiToken c \<noteq> [] then
        andThen (SwaggerAuth c, w) (\<lambda>auth w.
        andThen (session_info env auth w) (\<lambda>(customer, user) w.
          (Ok (c\<lparr>customerUUID := customer, userUUID := user\<rparr>), w)))
      else (Ok (read_ids (jar_cookies env (baseURI c) w) c), w))"

definition with_port :: "YugawareClient \<Rightarrow> YugawareClient" where
  "with_port c = (if port c = [] then c\<lparr>port := (if hasTLS c then ''443'' else ''80'')\<rparr> else c)"

definition base_address :: "YugawareClient \<Rightarrow> string" where
  "base_address c = (if hasTLS c then ''https://'' else ''http://'') @ hostname c @ '':'' @ port c"

text \<open>What \<open>Connect\<close> makes of the first answer.\<close>

definition platform_answer :: "unit outcome \<Rightarrow> unit res" where
  "platform_answer out =
     (case out of
        Failed e \<Rightarrow> Error (Wrap ''unable to connect: '' e)
      | Crashed p \<Rightarrow> Panic p
      | Answered resp None \<Rightarrow> Ok ()
      | Answered resp (Some e) \<Rightarrow>
          (if StatusCode resp = 502
           then Error (Err ''connected but server responded 502: yugaware may not be up yet'')
           else Error (Wrap ''unable to connect: '' e)))"

definition after_answer :: "'w yw_env \<Rightarrow> YugawareClient \<Rightarrow> 'w \<Rightarrow> YugawareClient res \<times> 'w" where
  "after_answer env c w =
     (let c = read_cookies (jar_cookies env (baseURI c) w) c;
          c = (if apiToken c \<noteq> [] then c\<lparr>session := map_option (\<lambda>s. s\<lparr>SessionJar := False\<rparr>) (session c)\<rparr> else c);
          c = (if csrfToken c = [] then c\<lparr>client_err := Some (Err ''could not obtain csrfToken'')\<rparr> else c)
      in obtainSessionInfo env c w)"

definition Connect :: "'w yw_env \<Rightarrow> YugawareClient \<Rightarrow> 'w \<Rightarrow> YugawareClient res \<times> 'w" where
  "Connect env c w =
     (case client_err c of
        Some e \<Rightarrow> (Error e, w)
      | None \<Rightarrow>
          (let c = with_port c in
           case parse_url env (base_address c) of
             Inl e \<Rightarrow> (Error (Wrap ''unable to parse uri: '' e), w)
           | Inr uri \<Rightarrow>
               (let c = c\<lparr>baseURI := uri\<rparr> in
                andThen (getTLSConfig env c, w) (\<lambda>tls w.
                andThen (openCookieJar env c w) (\<lambda>_ w.
                  (let c = c\<lparr>session := Some \<lparr>SessionTLS = tls, SessionTimeout = timeoutSeconds c, SessionJar = True\<rparr>\<rparr>
                   in case Do env (Get (Path env ''/api/v1/platform_config'' (newRequest c))) w of
                        (out, w1) \<Rightarrow> andThen (platform_answer out, w1) (\<lambda>_ w. after_answer env c w)))))))"

text \<open>\<open>Login\<close> and \<open>RegisterYugaware\<close> on a connected client.\<close>

definition answered_with :: "'a outcome \<Rightarrow> 'a res" where
  "answered_with out =
     (case out of
        Failed e \<Rightarrow> Error e
      | Crashed p \<Rightarrow> Panic p
      | Answered resp (Some e) \<Rightarrow> Error e
      | Answered resp None \<Rightarrow> (case Decoded resp of Some v \<Rightarrow> Ok v | None \<Rightarrow> Panic ''no response''))"

definition persistCookies :: "'w yw_env \<Rightarrow> 'w \<Rightarrow> unit res \<times> 'w" where
  "persistCookies env w = jar_save env w"

definition RegisterYugaware ::
  "'w yw_env \<Rightarrow> RegisterYugawareRequest \<Rightarrow> YugawareClient \<Rightarrow> 'w \<Rightarrow> AuthToken res \<times> 'w" where
  "RegisterYugaware env request c w =
     (case Do env (DecodeResponseInto (token_of_json env) (RequestBody (register_json env request)
                    (Path env ''/api/v1/register'' (Post (newRequest c))))) w of
        (out, w1) \<Rightarrow> (answered_with out, w1))"

definition Login :: "'w yw_env \<Rightarrow> LoginRequest \<Rightarrow> YugawareClient \<Rightarrow> 'w \<Rightarrow> YugawareClient res \<times> 'w" where
  "Login env request c w =
     (case Do env (DecodeResponseInto (token_of_json env) (RequestBody (login_json env request)
                    (Path env ''/api/v1/login'' (Post (newRequest c))))) w of
        (out, w1) \<Rightarrow>
          andThen (answered_with out, w1) (\<lambda>response w.
          andThen (persistCookies env w) (\<lambda>_ w.
            (Ok (c\<lparr>authToken := AuthTokenValue response, customerUUID := AuthCustomerUUID response,
                   userUUID := AuthUserUUID response\<rparr>), w))))"

definition expireSession :: "'w yw_env \<Rightarrow> YugawareClient \<Rightarrow> 'w \<Rightarrow> YugawareClient \<times> 'w" where
  "expireSession env c w =
     (c\<lparr>authToken := [], userUUID := [], customerUUID := []\<rparr>,
      foldl (\<lambda>w name. jar_remove env name (url_hostname env (baseURI c)) w) w [''authToken'', ''customerId'', ''userId''])"

definition Logout :: "'w yw_env \<Rightarrow> YugawareClient \<Rightarrow> 'w \<Rightarrow> unit res \<times> YugawareClient \<times> 'w" where
  "Logout env c w =
     (case expireSession env c w of (c1, w1) \<Rightarrow> (case jar_save env w1 of (r, w2) \<Rightarrow> (r, c1, w2)))"

subsection \<open>What is logged of a request\<close>

definition LoginRequest_log :: "LoginRequest \<Rightarrow> (string \<times> string) list" where
  "LoginRequest_log r = [(''email'', LoginEmail r), (''password'', MaskOut (LoginPassword r))]"

record YugawareRegistration =
  RegistrationCode :: string
  RegistrationName :: string
  RegistrationEmail :: string
  RegistrationPassword :: string

definition YugawareRegistration_log :: "YugawareRegistration \<Rightarrow> (string \<times> string) list" where
  "YugawareRegistration_log r =
     [(''code'', RegistrationCode r), (''name'', RegistrationName r), (''email'', RegistrationEmail r)] @
     (if RegistrationPassword r \<noteq> [] then [(''password'', ''*********'')] else [])"

subsection \<open>Lookups\<close>

definition GetUniverseByIdentifier ::
  "'w yw_env \<Rightarrow> YugawareClient \<Rightarrow> string \<Rightarrow> 'w \<Rightarrow> UniverseResp option res \<times> 'w" where
  "GetUniverseByIdentifier env c identifier w =
     andThen (platform_call c (list_universes env) w) (\<lambda>universes w.
       (Ok (find (\<lambda>u. UniverseName u = identifier \<or> UniverseUUID u = to_lower identifier) universes), w))"

definition GetCertByIdentifier ::
  "'w yw_env \<Rightarrow> YugawareClient \<Rightarrow> string \<Rightarrow> 'w \<Rightarrow> CertificateInfo option res \<times> 'w" where
  "GetCertByIdentifier env c identifier w =
     andThen (platform_call c (list_certificates env) w) (\<lambda>certs w.
       (Ok (find (\<lambda>u. CertLabel u = identifier \<or> CertUUID u = to_lower identifier) certs), w))"

definition GetProviderByIdentifier ::
  "'w yw_env \<Rightarrow> YugawareClient \<Rightarrow> string \<Rightarrow> 'w \<Rightarrow> ProviderResp option res \<times> 'w" where
  "GetProviderByIdentifier env c identifier w =
     andThen (platform_call c (list_providers env) w) (\<lambda>providers w.
       (Ok (find (\<lambda>u. ProviderName u = identifier \<or> ProviderUUID u = identifier) providers), w))"

text \<open>The type and the name of a configuration are pointers.\<close>

fun find_config :: "string \<Rightarrow> CustomerConfigUI list \<Rightarrow> CustomerConfigUI option res" where
  "find_config identifier [] = Ok None"
| "find_config identifier (config # configs) =
     (case ConfigType config of
        None \<Rightarrow> Panic ''nil pointer dereference''
      | Some t \<Rightarrow>
          (if t = ''STORAGE'' then
             (case ConfigName config of
                None \<Rightarrow> Panic ''nil pointer dereference''
              | Some name \<Rightarrow>
                  (if name = identifier \<or> ConfigUUID config = identifier then Ok (Some config)
                   else find_config identifier configs))
           else find_config identifier configs))"

definition GetStorageConfigByIdentifier ::
  "'w yw_env \<Rightarrow> YugawareClient \<Rightarrow> string \<Rightarrow> 'w \<Rightarrow> CustomerConfigUI option res \<times> 'w" where
  "GetStorageConfigByIdentifier env c identifier w =
     andThen (platform_call c (list_configs env) w) (\<lambda>configs w. (find_config identifier configs, w))"

subsection \<open>Waiting for a task\<close>

text \<open>One round of \<open>WaitForTaskCompletion\<close>: \<open>cancelled\<close> says whether the select takes the cancelled context.
  The loop over the tasks ends at the task's own entry.\<close>

definition task_state :: "string \<Rightarrow> task_data list \<Rightarrow> unit res option" where
  "task_state task tasks =
     (case find (\<lambda>t. TaskID t = task) tasks of
        None \<Rightarrow> None
      | Some t \<Rightarrow>
          (if TaskStatus t = ''Success'' then Some (Ok ())
           else if TaskStatus t \<noteq> ''Running'' then Some (Error (Err (''task failed: '' @ TaskStatus t)))
           else None))"

definition wait_round ::
  "'w yw_env \<Rightarrow> ('w \<Rightarrow> bool \<times> 'w) \<Rightarrow> YugawareClient \<Rightarrow> string \<Rightarrow> 'w \<Rightarrow> unit res option \<times> 'w" where
  "wait_round env cancelled c task w =
     (case cancelled w of
        (True, w1) \<Rightarrow> (Some (Ok ()), w1)
      | (False, w1) \<Rightarrow>
          (case platform_call c (list_tasks env) w1 of
             (Error e, w2) \<Rightarrow> (Some (Error e), w2)
           | (Panic p, w2) \<Rightarrow> (Some (Panic p), w2)
           | (Ok tasks, w2) \<Rightarrow> (task_state task tasks, w2)))"

definition WaitForTaskCompletion ::
  "'w yw_env \<Rightarrow> ('w \<Rightarrow> bool \<times> 'w) \<Rightarrow> YugawareClient \<Rightarrow> string \<Rightarrow> 'w \<Rightarrow> (unit res \<times> 'w) option" where
  "WaitForTaskCompletion env cancelled c task w = poll_loop (wait_round env cancelled c task) w"

subsection \<open>The setup of a command\<close>

record YWGlobalOptions =
  Debug :: bool
  OutputFormat :: string
  Hostname :: string
  DialTimeout :: int
  SkipVerification :: bool
  CACert :: string
  ClientCert :: string
  ClientKey :: string
  APITokenFlag :: string

definition global_flag_defaults :: YWGlobalOptions where
  "global_flag_defaults =
     \<lparr>Debug = False, OutputFormat = ''table'', Hostname = ''localhost:8080'', DialTimeout = 10,
      SkipVerification = False, CACert = [], ClientCert = [], ClientKey = [], APITokenFlag = []\<rparr>"

definition ConnectToYugaware :: "'w yw_env \<Rightarrow> YWGlobalOptions \<Rightarrow> 'w \<Rightarrow> YugawareClient res \<times> 'w" where
  "ConnectToYugaware env g = Connect env
     (TimeoutSeconds (DialTimeout g) (APIToken (APITokenFlag g)
       (SetTLSOptions \<lparr>SkipHostVerification = SkipVerification g, CaCertPath = CACert g, CertPath = ClientCert g,
                      KeyPath = ClientKey g\<rparr> (NewClient (Hostname g)))))"

text \<open>The command a context is set up for: its name and flags, and how the configuration is merged into the
  global and the command's own options.\<close>

record ('v, 'o, 'g) command =
  CommandName :: string
  CommandFlags :: "pflag list"
  bind_flag :: "string \<Rightarrow> pflag \<Rightarrow> 'v \<Rightarrow> unit res \<times> 'v"
  get_logger :: "bool \<Rightarrow> unit res"
  merge_global :: "'v \<Rightarrow> YWGlobalOptions \<Rightarrow> YWGlobalOptions res"
  merge_command :: "('v \<Rightarrow> 'o \<Rightarrow> 'o res) option"
  config_value :: "'v \<Rightarrow> string \<Rightarrow> 'g option"
  zero_value :: "'g \<Rightarrow> bool"

definition complete ::
  "('v, 'o, 'g) command \<Rightarrow> YWGlobalOptions \<Rightarrow> 'o \<Rightarrow> 'v \<Rightarrow> (YWGlobalOptions \<times> 'o \<times> 'v) res" where
  "complete cmd g opts v =
     (case BindFlags (bind_flag cmd) (CommandFlags cmd) v of
        (Error e, v1) \<Rightarrow> Error e
      | (Panic p, v1) \<Rightarrow> Panic p
      | (Ok _, v1) \<Rightarrow>
          bind_res (MergeConfigFile (merge_global cmd v1) g) (\<lambda>g.
          case merge_command cmd of
            None \<Rightarrow> Ok (g, opts, v1)
          | Some merge \<Rightarrow> bind_res (MergeConfigFile (merge v1) opts) (\<lambda>opts. Ok (g, opts, v1))))"

definition setup_command ::
  "'w yw_env \<Rightarrow> ('v, 'o, 'g) command option \<Rightarrow> YWGlobalOptions option \<Rightarrow> 'o \<Rightarrow> 'v \<Rightarrow> bool \<Rightarrow> 'w \<Rightarrow>
     (YWGlobalOptions \<times> 'o \<times> YugawareClient option) res \<times> 'w" where
  "setup_command env command globals opts v useClient w =
     (case (command, globals) of
        (Some cmd, Some g) \<Rightarrow>
          (let wrap = ''failed to setup '' @ CommandName cmd @ '' command: '' in
           andThen (wrap_error wrap (get_logger cmd (Debug g)), w) (\<lambda>_ w.
           andThen (wrap_error wrap (complete cmd g opts v), w) (\<lambda>(g, opts, v1) w.
           andThen (if useClient
                    then (case ConnectToYugaware env g w of (r, w1) \<Rightarrow> (wrap_error wrap (bind_res r (\<lambda>c. Ok (Some c))), w1))
                    else (Ok None, w)) (\<lambda>client w.
           andThen (ValidateRequiredFlags (config_value cmd v1) (zero_value cmd) (CommandFlags cmd), w) (\<lambda>_ w.
             (Ok (g, opts, client), w))))))
      | _ \<Rightarrow> (Panic ''command context is not set'', w))"

subsection \<open>Lemmas\<close>

lemma net_split_bare_colon:
  assumes "CHR '':'' \<in> set v6" "CHR ''['' \<notin> set v6" "list_all is_digit p"
  shows "net_split_host_port (v6 @ CHR '':'' # p) = Error (AddrError too_many_colons (v6 @ CHR '':'' # p))"
proof -
  have p: "CHR '':'' \<notin> set p" using assms(3) by (auto simp: list_all_iff)
  have "hd (v6 @ CHR '':'' # p) \<noteq> CHR ''[''" using assms(1,2) by (cases v6) auto
  then show ?thesis using assms p by (simp add: net_split_host_port_def)
qed

lemma read_cookies_frame:
  "apiToken (read_cookies cs c) = apiToken c" "session (read_cookies cs c) = session c"
  "baseURI (read_cookies cs c) = baseURI c" "hostname (read_cookies cs c) = hostname c" "port (read_cookies cs c) = port c"
  "tlsOptions (read_cookies cs c) = tlsOptions c" "client_err (read_cookies cs c) = client_err c"
  by (induction cs c rule: read_cookies.induct) simp_all

lemma read_ids_frame:
  "apiToken (read_ids cs c) = apiToken c" "session (read_ids cs c) = session c" "csrfToken (read_ids cs c) = csrfToken c"
  "baseURI (read_ids cs c) = baseURI c" "hostname (read_ids cs c) = hostname c" "port (read_ids cs c) = port c"
  "tlsOptions (read_ids cs c) = tlsOptions c" "client_err (read_ids cs c) = client_err c" "authToken (read_ids cs c) = authToken c"
  by (induction cs c rule: read_ids.induct) simp_all

text \<open>What the last step of \<open>Connect\<close> leaves unchanged.\<close>

lemma obtainSessionInfo_frame:
  assumes "obtainSessionInfo env c w = (Ok c', w')"
  shows "c' = c\<lparr>customerUUID := customerUUID c', userUUID := userUUID c'\<rparr>"
proof -
  have r: "read_ids cs c = c\<lparr>customerUUID := customerUUID (read_ids cs c), userUUID := userUUID (read_ids cs c)\<rparr>" for cs c
    by (rule YugawareClient.equality) (simp_all add: read_ids_frame; induction cs c rule: read_ids.induct; simp)+
  show ?thesis
  proof (cases "apiToken c = []")
    case True
    then show ?thesis using assms r by (auto simp: obtainSessionInfo_def)
  next
    case False
    then show ?thesis using assms by (auto simp: obtainSessionInfo_def andThen_eq_Ok split: prod.splits)
  qed
qed

lemma getTLSConfig_Some: "getTLSConfig env c = Ok tls \<Longrightarrow> tls = None \<longleftrightarrow> \<not> hasTLS c"
  by (auto simp: getTLSConfig_def bind_res_eq_Ok hasTLS_def split: if_splits option.splits)

lemma with_port_frame [simp]:
  "client_err (with_port c) = client_err c" "hasTLS (with_port c) = hasTLS c" "apiToken (with_port c) = apiToken c"
  "hostname (with_port c) = hostname c" "tlsOptions (with_port c) = tlsOptions c" "authToken (with_port c) = authToken c"
  "csrfToken (with_port c) = csrfToken c" "timeoutSeconds (with_port c) = timeoutSeconds c"
  by (simp_all add: with_port_def hasTLS_def)

text \<open>A lookup by name or identifier: the first object that matches. \<open>norm\<close> is what is done to the argument
  before it is compared with the identifiers.\<close>

locale named_objects =
  fixes name uuid :: "'a \<Rightarrow> string" and norm :: "string \<Rightarrow> string" and pick :: "string \<Rightarrow> 'a list \<Rightarrow> 'a option"
  assumes pick_find: "pick i xs = find (\<lambda>x. name x = i \<or> uuid x = norm i) xs"
begin

lemma pick_None: "pick i xs = None \<longleftrightarrow> (\<forall>x\<in>set xs. name x \<noteq> i \<and> uuid x \<noteq> norm i)"
  by (auto simp: pick_find find_None_iff)

lemma pick_SomeD: "pick i xs = Some x \<Longrightarrow> x \<in> set xs \<and> (name x = i \<or> uuid x = norm i)"
  unfolding pick_find by (drule find_mem) simp

lemma pick_only:
  assumes "x \<in> set xs" "name x = i \<or> uuid x = norm i"
    and "\<And>y. y \<in> set xs \<Longrightarrow> name y = i \<or> uuid y = norm i \<Longrightarrow> y = x"
  shows "pick i xs = Some x"
proof (cases "pick i xs")
  case None
  then show ?thesis using assms(1,2) by (auto simp: pick_None)
next
  case (Some y)
  then show ?thesis using pick_SomeD [OF Some] assms(3) by auto
qed

text \<open>With distinct names and identifiers, and no name that is an identifier, both kinds of argument work.\<close>

lemma pick_name:
  assumes "x \<in> set xs" "inj_on name (set xs)" "\<And>y. y \<in> set xs \<Longrightarrow> uuid y \<noteq> norm (name x)"
  shows "pick (name x) xs = Some x"
  using assms by (intro pick_only) (auto dest: inj_onD)

lemma pick_uuid:
  assumes "x \<in> set xs" "inj_on uuid (set xs)" "norm i = uuid x" "\<And>y. y \<in> set xs \<Longrightarrow> name y \<noteq> i"
  shows "pick i xs = Some x"
  using assms by (intro pick_only) (auto dest: inj_onD)

end

definition pick_universe :: "string \<Rightarrow> UniverseResp list \<Rightarrow> UniverseResp option" where
  "pick_universe i = find (\<lambda>u. UniverseName u = i \<or> UniverseUUID u = to_lower i)"

definition pick_provider :: "string \<Rightarrow> ProviderResp list \<Rightarrow> ProviderResp option" where
  "pick_provider i = find (\<lambda>u. ProviderName u = i \<or> ProviderUUID u = i)"

definition pick_certificate :: "string \<Rightarrow> CertificateInfo list \<Rightarrow> CertificateInfo option" where
  "pick_certificate i = find (\<lambda>u. CertLabel u = i \<or> CertUUID u = to_lower i)"

interpretation universes: named_objects UniverseName UniverseUUID to_lower pick_universe
  by unfold_locales (simp add: pick_universe_def)

interpretation providers: named_objects ProviderName ProviderUUID "\<lambda>i. i" pick_provider
  by unfold_locales (simp add: pick_provider_def)

interpretation certificates: named_objects CertLabel CertUUID to_lower pick_certificate
  by unfold_locales (simp add: pick_certificate_def)

lemma GetUniverseByIdentifier_Ok:
  "GetUniverseByIdentifier env c i w = (Ok r, w') \<longleftrightarrow>
     (\<exists>us. platform_call c (list_universes env) w = (Ok us, w') \<and> r = pick_universe i us)"
  by (auto simp: GetUniverseByIdentifier_def andThen_eq_Ok pick_universe_def)

lemma GetProviderByIdentifier_Ok:
  "GetProviderByIdentifier env c i w = (Ok r, w') \<longleftrightarrow>
     (\<exists>us. platform_call c (list_providers env) w = (Ok us, w') \<and> r = pick_provider i us)"
  by (auto simp: GetProviderByIdentifier_def andThen_eq_Ok pick_provider_def)

lemma GetCertByIdentifier_Ok:
  "GetCertByIdentifier env c i w = (Ok r, w') \<longleftrightarrow>
     (\<exists>us. platform_call c (list_certificates env) w = (Ok us, w') \<and> r = pick_certificate i us)"
  by (auto simp: GetCertByIdentifier_def andThen_eq_Ok pick_certificate_def)

text \<open>The rounds of a wait: still pending, or decided.\<close>

definition pending ::
  "'w yw_env \<Rightarrow> ('w \<Rightarrow> bool \<times> 'w) \<Rightarrow> YugawareClient \<Rightarrow> string \<Rightarrow> 'w \<Rightarrow> bool" where
  "pending env cancelled c task w \<longleftrightarrow>
     (\<exists>w1 tasks w2. cancelled w = (False, w1) \<and> platform_call c (list_tasks env) w1 = (Ok tasks, w2) \<and>
        (\<forall>t. find (\<lambda>t. TaskID t = task) tasks = Some t \<longrightarrow> TaskStatus t = ''Running''))"

definition succeeded ::
  "'w yw_env \<Rightarrow> ('w \<Rightarrow> bool \<times> 'w) \<Rightarrow> YugawareClient \<Rightarrow> string \<Rightarrow> 'w \<Rightarrow> 'w \<Rightarrow> bool" where
  "succeeded env cancelled c task w w' \<longleftrightarrow>
     (\<exists>w1 tasks t. cancelled w = (False, w1) \<and> platform_call c (list_tasks env) w1 = (Ok tasks, w') \<and>
        find (\<lambda>t. TaskID t = task) tasks = Some t \<and> TaskStatus t = ''Success'')"

lemma task_state_None:
  "task_state task tasks = None \<longleftrightarrow> (\<forall>t. find (\<lambda>t. TaskID t = task) tasks = Some t \<longrightarrow> TaskStatus t = ''Running'')"
  by (auto simp: task_state_def split: option.splits)

lemma task_state_Ok:
  "task_state task tasks = Some (Ok ()) \<longleftrightarrow> (\<exists>t. find (\<lambda>t. TaskID t = task) tasks = Some t \<and> TaskStatus t = ''Success'')"
  by (auto simp: task_state_def split: option.splits)

lemma wait_round_None: "fst (wait_round env cancelled c task w) = None \<longleftrightarrow> pending env cancelled c task w"
  by (auto simp: wait_round_def pending_def task_state_None split: prod.splits res.splits bool.splits)

lemma wait_round_Ok:
  "wait_round env cancelled c task w = (Some (Ok ()), w') \<longleftrightarrow>
     cancelled w = (True, w') \<or> succeeded env cancelled c task w w'"
  by (auto simp: wait_round_def succeeded_def task_state_Ok split: prod.splits res.splits bool.splits)

subsection \<open>Properties\<close>

text \<open>The address a client dials is the one it was given. For a plain host name, with or without a port, the
  host and the port (443 or 80 when none is given) that \<open>Connect\<close> puts into the URI are read back from it.
  For a bracketed IPv6 address with a port they are not: the brackets are dropped and never put back, so the
  host part of the URI is an address with too many colons.\<close>

theorem client_address:
  assumes "plain_host h" "list_all is_digit p" "p \<noteq> []"
    and "CHR '':'' \<in> set v6" "CHR ''['' \<notin> set v6" "CHR '']'' \<notin> set v6"
  shows "(let c = with_port (SetTLSOptions t (NewClient (h @ '':'' @ p))) in
            client_err c = None \<and> net_split_host_port (hostname c @ '':'' @ port c) = Ok (h, p)) \<and>
         (let c = with_port (SetTLSOptions t (NewClient h)) in
            client_err c = None \<and>
            net_split_host_port (hostname c @ '':'' @ port c) = Ok (h, if hasTLS c then ''443'' else ''80'')) \<and>
         (let c = with_port (SetTLSOptions t (NewClient (''['' @ v6 @ '']:'' @ p))) in
            client_err c = None \<and> hostname c = v6 \<and> port c = p \<and>
            net_split_host_port (hostname c @ '':'' @ port c) = Error (AddrError too_many_colons (v6 @ '':'' @ p)))"
proof -
  have h: "CHR '':'' \<notin> set h" "CHR ''['' \<notin> set h" "CHR '']'' \<notin> set h"
    using assms(1) by (simp_all add: plain_host_def)
  have digits: "list_all is_digit ''443''" "list_all is_digit ''80''" by (simp_all add: is_digit_def)
  have "split_hostname (h @ '':'' @ p) = (h, p, None)"
    using net_split_plain [OF h assms(2)] by (simp add: split_hostname_def)
  moreover have "split_hostname h = (h, [], None)"
    using net_split_no_port [OF h(1)] by (simp add: split_hostname_def)
  moreover have "split_hostname (''['' @ v6 @ '']:'' @ p) = (v6, p, None)"
    using net_split_bracket [OF assms(5,6,2)] by (simp add: split_hostname_def)
  ultimately show ?thesis
    using assms(3) net_split_plain [OF h assms(2)] net_split_plain [OF h digits(1)] net_split_plain [OF h digits(2)]
      net_split_bare_colon [OF assms(4,5,2)]
    by (simp add: NewClient_def SetTLSOptions_def with_port_def hasTLS_def Let_def)
qed

lemma client_address_witness:
  "let c = with_port (SetTLSOptions \<lparr>SkipHostVerification = True, CaCertPath = [], CertPath = [], KeyPath = []\<rparr>
             (NewClient (''['' @ ''::1'' @ '']:'' @ ''9000''))) in
     client_err c = None \<and> hostname c = ''::1'' \<and> port c = ''9000'' \<and>
     net_split_host_port (hostname c @ '':'' @ port c) = Error (AddrError too_many_colons (''::1'' @ '':'' @ ''9000''))"
proof -
  have "plain_host ''yw''" "list_all is_digit ''9000''" "''9000'' \<noteq> []" "CHR '':'' \<in> set ''::1''"
    "CHR ''['' \<notin> set ''::1''" "CHR '']'' \<notin> set ''::1''"
    by (simp_all add: plain_host_def is_digit_def)
  from client_address [OF this] show ?thesis by (rule conjunct2 [OF conjunct2])
qed

text \<open>A \<open>Connect\<close> that succeeds has read the address and the TLS options, and the server has answered.\<close>

lemma Connect_OkE:
  assumes "Connect env c w = (Ok c', w')"
  obtains uri tls w4 where "client_err c = None" "parse_url env (base_address (with_port c)) = Inr uri"
    "getTLSConfig env ((with_port c)\<lparr>baseURI := uri\<rparr>) = Ok tls"
    "after_answer env ((with_port c)\<lparr>baseURI := uri,
       session := Some \<lparr>SessionTLS = tls, SessionTimeout = timeoutSeconds c, SessionJar = True\<rparr>\<rparr>) w4 = (Ok c', w')"
proof -
  have err: "client_err c = None" using assms by (cases "client_err c") (simp_all add: Connect_def)
  obtain uri where uri: "parse_url env (base_address (with_port c)) = Inr uri"
    using assms err by (cases "parse_url env (base_address (with_port c))") (simp_all add: Connect_def Let_def)
  define c2 where "c2 = (with_port c)\<lparr>baseURI := uri\<rparr>"
  define c3 where "c3 tls = c2\<lparr>session := Some \<lparr>SessionTLS = tls, SessionTimeout = timeoutSeconds c, SessionJar = True\<rparr>\<rparr>" for tls
  define F where "F tls w = andThen (openCookieJar env c2 w) (\<lambda>_ w.
      (case Do env (Get (Path env ''/api/v1/platform_config'' (newRequest (c3 tls)))) w of
         (out, w1) \<Rightarrow> andThen (platform_answer out, w1) (\<lambda>_ w. after_answer env (c3 tls) w)))" for tls w
  have "andThen (getTLSConfig env c2, w) F = (Ok c', w')"
    using assms err uri by (simp add: Connect_def Let_def c2_def c3_def F_def [abs_def])
  then obtain tls w2 where tls: "getTLSConfig env c2 = Ok tls" and a: "F tls w2 = (Ok c', w')"
    by (elim andThen_OkE) simp
  obtain w3 where "(case Do env (Get (Path env ''/api/v1/platform_config'' (newRequest (c3 tls)))) w3 of
         (out, w1) \<Rightarrow> andThen (platform_answer out, w1) (\<lambda>_ w. after_answer env (c3 tls) w)) = (Ok c', w')"
    by (rule andThen_OkE [OF a [unfolded F_def]])
  then obtain w4 where "after_answer env (c3 tls) w4 = (Ok c', w')"
    by (auto split: prod.splits elim: andThen_OkE)
  then show thesis using that err uri tls by (simp add: c2_def c3_def)
qed

text \<open>What the cookies and the session information leave of a client.\<close>

lemma after_answer_OkE:
  assumes "after_answer env c w = (Ok c', w')" "client_err c = None" "session c = Some s"
  obtains d a b where "c' = d\<lparr>customerUUID := a, userUUID := b\<rparr>"
    "session d = Some (if apiToken c = [] then s else s\<lparr>SessionJar := False\<rparr>)" "apiToken d = apiToken c"
    "tlsOptions d = tlsOptions c" "hostname d = hostname c" "port d = port c" "baseURI d = baseURI c"
    "client_err d = None \<longleftrightarrow> csrfToken d \<noteq> []"
proof -
  define d where "d = read_cookies (jar_cookies env (baseURI c) w) c"
  define d1 where "d1 = (if apiToken d \<noteq> [] then d\<lparr>session := map_option (\<lambda>s. s\<lparr>SessionJar := False\<rparr>) (session d)\<rparr> else d)"
  define c4 where "c4 = (if csrfToken d1 = [] then d1\<lparr>client_err := Some (Err ''could not obtain csrfToken'')\<rparr> else d1)"
  have "obtainSessionInfo env c4 w = (Ok c', w')"
    using assms(1) by (simp only: after_answer_def Let_def d_def d1_def c4_def)
  from obtainSessionInfo_frame [OF this] obtain a b where c': "c' = c4\<lparr>customerUUID := a, userUUID := b\<rparr>" by blast
  have "session d = Some s" "apiToken d = apiToken c" "tlsOptions d = tlsOptions c" "hostname d = hostname c" "port d = port c"
      "baseURI d = baseURI c" "client_err d = None"
    by (simp_all add: d_def read_cookies_frame assms(2,3))
  then show thesis by (intro that [OF c']) (auto simp: c4_def d1_def)
qed


text \<open>A server for examples: it answers every request, and the task \<open>t\<close> succeeds at the third look.\<close>

definition test_env :: "nat yw_env" where
  "test_env =
     \<lparr>do_request = (\<lambda>s r w. (Inr (200, Inr ''{}''), w)), bad_request = (\<lambda>m u. None), parse_url = Inr, resolve_url = (@),
      url_hostname = (\<lambda>u. u), read_file = (\<lambda>p. Ok p), pem_ok = (\<lambda>f. True), key_pair = (\<lambda>c k. Ok (c, k)),
      home_dir = Ok ''/root'', open_jar = (\<lambda>f n p w. (Ok (), w)),
      jar_cookies = (\<lambda>u w. [(''csrfCookie'', ''x''), (''authToken'', ''a''), (''customerId'', ''c'')]),
      jar_remove = (\<lambda>n d w. w), jar_save = (\<lambda>w. (Ok (), w)), login_json = (\<lambda>r. Inr ''{}''), register_json = (\<lambda>r. Inr ''{}''),
      token_of_json = (\<lambda>s. Inr \<lparr>AuthTokenValue = ''a'', AuthCustomerUUID = ''c'', AuthUserUUID = ''u''\<rparr>),
      session_info = (\<lambda>h w. (Ok (''c'', ''u''), w)),
      list_universes = (\<lambda>h c w. (Ok [\<lparr>UniverseName = ''u1'', UniverseUUID = ''ab'', NodeIsTserver = Some [True, False]\<rparr>], w)),
      list_certificates = (\<lambda>h c w. (Ok [], w)),
      list_configs = (\<lambda>h c w. (Ok [\<lparr>ConfigType = Some ''STORAGE'', ConfigName = Some ''s'', ConfigUUID = ''cd''\<rparr>], w)),
      list_providers = (\<lambda>h c w. (Ok [\<lparr>ProviderName = ''p'', ProviderUUID = ''ef'', ProviderCode = ''gcp''\<rparr>], w)),
      list_tasks = (\<lambda>h c w. (Ok [\<lparr>TaskID = ''t'', TaskStatus = if w < 2 then ''Running'' else ''Success''\<rparr>], Suc w))\<rparr>"

definition test_client :: YugawareClient where
  "test_client =
     \<lparr>session = None, apiToken = [], authToken = ''a'', csrfToken = [], customerUUID = ''c'', userUUID = [],
      hostname = ''yw'', port = ''80'', baseURI = [], timeoutSeconds = 30, tlsOptions = None, client_err = None\<rparr>"


text \<open>The world before the \<open>n\<close>-th look at the task.\<close>

definition before_look ::
  "'w yw_env \<Rightarrow> ('w \<Rightarrow> bool \<times> 'w) \<Rightarrow> YugawareClient \<Rightarrow> string \<Rightarrow> nat \<Rightarrow> 'w \<Rightarrow> 'w" where
  "before_look env cancelled c task n w = after_rounds (wait_round env cancelled c task) n w"

text \<open>C39: How a wait for a task ends. \<open>WaitForTaskCompletion\<close> looks at the task once a second; it returns without an
  error exactly when some look finds the task successful, or the command is cancelled, while all looks before
  it found the task running or not listed. It never returns exactly when every look does, so it waits for
  ever for a task that the server does not list.\<close>

theorem WaitForTaskCompletion_outcome:
  "(WaitForTaskCompletion env cancelled c task w = Some (Ok (), w') \<longleftrightarrow>
     (\<exists>n. (cancelled (before_look env cancelled c task n w) = (True, w') \<or>
           succeeded env cancelled c task (before_look env cancelled c task n w) w') \<and>
          (\<forall>k<n. pending env cancelled c task (before_look env cancelled c task k w)))) \<and>
   (WaitForTaskCompletion env cancelled c task w = None \<longleftrightarrow>
     (\<forall>n. pending env cancelled c task (before_look env cancelled c task n w)))"
  by (simp add: WaitForTaskCompletion_def poll_loop_Some poll_loop_None wait_round_Ok wait_round_None before_look_def)

lemma WaitForTaskCompletion_outcome_witness:
  "WaitForTaskCompletion test_env (\<lambda>w. (False, w)) test_client ''t'' 0 = Some (Ok (), 3)"
proof -
  have call: "platform_call test_client (list_tasks test_env) w =
      (Ok [\<lparr>TaskID = ''t'', TaskStatus = if w < 2 then ''Running'' else ''Success''\<rparr>], Suc w)" for w
    by (simp add: platform_call_def SwaggerAuth_def test_client_def test_env_def)
  have look: "before_look test_env (\<lambda>w. (False, w)) test_client ''t'' n w = w + n" for n w
    by (induction n arbitrary: w) (simp_all add: before_look_def wait_round_def call)
  show ?thesis
    unfolding WaitForTaskCompletion_outcome [THEN conjunct1] look
    by (rule exI [of _ 2]) (simp add: succeeded_def pending_def call)
qed

text \<open>Both spellings of a universe find it: when names and UUIDs are distinct, no name is another's UUID and UUIDs
  are in lower case, \<open>GetUniverseByIdentifier\<close> returns a universe for its name and for its UUID in any case,
  and nothing, without an error, exactly for an argument that is neither.\<close>

theorem GetUniverseByIdentifier_finds:
  assumes "platform_call c (list_universes env) w = (Ok us, w')" "u \<in> set us"
    and "inj_on UniverseName (set us)" "inj_on UniverseUUID (set us)"
    and "\<And>v. v \<in> set us \<Longrightarrow> UniverseUUID v \<noteq> to_lower (UniverseName u)"
    and "to_lower i = UniverseUUID u" "\<And>v. v \<in> set us \<Longrightarrow> UniverseName v \<noteq> i"
  shows "GetUniverseByIdentifier env c (UniverseName u) w = (Ok (Some u), w') \<and>
    GetUniverseByIdentifier env c i w = (Ok (Some u), w') \<and>
    (GetUniverseByIdentifier env c j w = (Ok None, w') \<longleftrightarrow>
       (\<forall>v\<in>set us. UniverseName v \<noteq> j \<and> UniverseUUID v \<noteq> to_lower j))"
  unfolding GetUniverseByIdentifier_Ok using assms(1)
    universes.pick_name [OF assms(2,3,5)] universes.pick_uuid [OF assms(2,4,6,7)] universes.pick_None [of j us]
  by auto

lemma GetUniverseByIdentifier_finds_witness:
  "GetUniverseByIdentifier test_env test_client ''AB'' 0 =
     (Ok (Some \<lparr>UniverseName = ''u1'', UniverseUUID = ''ab'', NodeIsTserver = Some [True, False]\<rparr>), 0)"
proof -
  let ?u = "\<lparr>UniverseName = ''u1'', UniverseUUID = ''ab'', NodeIsTserver = Some [True, False]\<rparr>"
  have call: "platform_call test_client (list_universes test_env) 0 = (Ok [?u], 0)"
    by (simp add: platform_call_def SwaggerAuth_def test_client_def test_env_def)
  have lower: "to_lower ''u1'' = ''u1''" "to_lower ''AB'' = ''ab''" by code_simp+
  show ?thesis
    using GetUniverseByIdentifier_finds [OF call, of ?u "''AB''"] by (simp add: lower)
qed

end
