(* ===== verification/YWUniverse.thy ===== *)
theory YWUniverse
  imports YWClient Format "HOL-Library.Multiset"
begin

section \<open>Universe commands\<close>

text \<open>
  \<open>yugaware-client/cmd/universe\<close>: the validation of the options of \<open>create\<close> against what the server offers, the
  request made of them, and the commands \<open>delete\<close>, \<open>get\<close>, \<open>list\<close> and \<open>healthcheck\<close>.

  The generated operations these commands call are the record \<open>universe_api\<close>; each one is given the headers
  of the authentication writer. The fields of the generated models that are read are records, a pointer
  is an option, and reading through a nil one is a panic. A list of the server is never nil.
\<close>

subsection \<open>Data\<close>

record Region =
  RegionCode :: string
  RegionName :: string
  RegionUUID :: string

record InstanceType =
  InstanceTypeCode :: "string option"
  InstanceProviderCode :: "string option"
  InstanceProvider :: "string option"
  VolumeSizes :: "int option list option"

record DeviceInfo =
  NumVolumes :: int
  DeviceVolumeSize :: int
  StorageType :: string
  StorageClass :: string

record UserIntent =
  ClusterType :: string
  AccessKeyCode :: string
  IntentAssignPublicIP :: bool
  IntentStaticPublicIP :: bool
  AwsArnString :: string
  IntentDeviceInfo :: "DeviceInfo option"
  EnableClientToNodeEncrypt :: bool
  EnableExposingService :: string
  EnableIPV6 :: bool
  EnableNodeToNodeEncrypt :: bool
  EnableVolumeEncryption :: bool
  EnableYEDIS :: bool
  EnableYSQL :: bool
  IntentInstanceType :: string
  IntentMasterGFlags :: "(string \<times> string) list"
  NumNodes :: int
  IntentPreferredRegion :: string
  IntentProvider :: string
  ProviderType :: string
  RegionList :: "string list"
  IntentReplicationFactor :: int
  IntentTserverGFlags :: "(string \<times> string) list"
  IntentUniverseName :: string
  UseHostname :: bool
  IntentUseSystemd :: bool
  UseTimeSync :: bool
  YbSoftwareVersion :: string

record YBPTask =
  TaskUUID :: string
  ResourceUUID :: string

record Healthcheck =
  HealthData :: json
  HasError :: bool
  HealthTimestamp :: string

record 'w universe_api =
  get_regions :: "string \<Rightarrow> headers \<Rightarrow> string \<Rightarrow> 'w \<Rightarrow> Region list res \<times> 'w"
  get_instance_types :: "string \<Rightarrow> headers \<Rightarrow> string \<Rightarrow> 'w \<Rightarrow> InstanceType list res \<times> 'w"
  get_releases :: "headers \<Rightarrow> string \<Rightarrow> 'w \<Rightarrow> string list res \<times> 'w"
  app_version :: "'w \<Rightarrow> string option res \<times> 'w"
  get_access_keys :: "string \<Rightarrow> headers \<Rightarrow> string \<Rightarrow> 'w \<Rightarrow> string list res \<times> 'w"
  create_all_clusters :: "UserIntent \<Rightarrow> headers \<Rightarrow> string \<Rightarrow> 'w \<Rightarrow> YBPTask res \<times> 'w"
  delete_universe :: "string \<Rightarrow> bool \<Rightarrow> bool \<Rightarrow> headers \<Rightarrow> string \<Rightarrow> 'w \<Rightarrow> YBPTask res \<times> 'w"
  health_checks :: "string \<Rightarrow> headers \<Rightarrow> string \<Rightarrow> 'w \<Rightarrow> Healthcheck list res \<times> 'w"
  json_of_task :: "YBPTask \<Rightarrow> json"
  json_of_universe :: "UniverseResp \<Rightarrow> json"
  json_of_nodes :: "UniverseResp \<Rightarrow> json"

record CreateOptions =
  CreateUniverseName :: string
  Provider :: string
  Regions :: "string list"
  PreferredRegion :: string
  Version :: string
  NodeCount :: int
  ReplicationFactor :: int
  DisableYSQL :: bool
  EnableEncryption :: bool
  InstanceTypeFlag :: string
  TserverGFlags :: "(string \<times> string) list"
  MasterGFlags :: "(string \<times> string) list"
  AssignPublicIP :: bool
  StaticPublicIP :: bool
  UseSystemd :: bool
  VolumeSize :: int
  CreateWait :: bool
  provider :: "ProviderResp option"
  preferredRegion :: string
  regions :: "Region list"
  instanceType :: "InstanceType option"
  deviceInfo :: "DeviceInfo option"
  accessKey :: string

definition create_flag_defaults :: CreateOptions where
  "create_flag_defaults =
     \<lparr>CreateUniverseName = [], Provider = [], Regions = [], PreferredRegion = [], Version = [], NodeCount = 3,
      ReplicationFactor = 3, DisableYSQL = False, EnableEncryption = False, InstanceTypeFlag = [],
      TserverGFlags = [], MasterGFlags = [], AssignPublicIP = False, StaticPublicIP = False, UseSystemd = False,
      VolumeSize = 0, CreateWait = False, provider = None, preferredRegion = [], regions = [], instanceType = None,
      deviceInfo = None, accessKey = []\<rparr>"

subsection \<open>Errors that list what was expected\<close>

text \<open>\<open>%v\<close> of a list of strings, and \<open>fmt.Errorf("%w...", err)\<close> of a plain error.\<close>

definition show_strings :: "string list \<Rightarrow> string" where
  "show_strings xs = ''['' @ join_with '' '' xs @ '']''"

definition listing_error :: "string \<Rightarrow> string \<Rightarrow> string \<Rightarrow> string list \<Rightarrow> goerror" where
  "listing_error prefix message between names = Wrap prefix (Err (message @ between @ show_strings names))"

definition nil_pointer :: "'a res" where
  "nil_pointer = Panic ''nil pointer dereference''"

definition deref :: "'a option \<Rightarrow> 'a res" where
  "deref p = (case p of None \<Rightarrow> nil_pointer | Some x \<Rightarrow> Ok x)"

subsection \<open>Validation of create\<close>

definition validateUniverseName ::
  "'w yw_env \<Rightarrow> YugawareClient \<Rightarrow> CreateOptions \<Rightarrow> 'w \<Rightarrow> unit res \<times> 'w" where
  "validateUniverseName env c opts w =
     (let prefix = ''unable to validate universe name \"'' @ CreateUniverseName opts @ ''\": ''
      in if CreateUniverseName opts = []
         then (Error (Wrap prefix (Err ''required argument \"UNIVERSE_NAME\" is not set'')), w)
         else andThen (wrap_state prefix (GetUniverseByIdentifier env c (CreateUniverseName opts) w)) (\<lambda>found w.
                ((case found of
                    Some u \<Rightarrow> Error (Wrap prefix (Err (''universe with name \"'' @ UniverseName u @ ''\" already exists'')))
                  | None \<Rightarrow> Ok ()), w)))"

fun match_region :: "Region \<Rightarrow> string list \<Rightarrow> CreateOptions \<Rightarrow> CreateOptions" where
  "match_region r [] opts = opts"
| "match_region r (e # es) opts =
     match_region r es
       (if RegionCode r = e then
          (let opts = opts\<lparr>regions := regions opts @ [r]\<rparr>
           in if PreferredRegion opts = RegionName r then opts\<lparr>preferredRegion := RegionUUID r\<rparr> else opts)
        else opts)"

fun match_regions :: "Region list \<Rightarrow> CreateOptions \<Rightarrow> CreateOptions" where
  "match_regions [] opts = opts"
| "match_regions (r # rs) opts = match_regions rs (match_region r (Regions opts) opts)"

definition validateRegions ::
  "'w universe_api \<Rightarrow> YugawareClient \<Rightarrow> CreateOptions \<Rightarrow> 'w \<Rightarrow> CreateOptions res \<times> 'w" where
  "validateRegions api c opts w =
     (let prefix = ''unable to validate regions '' @ show_strings (Regions opts) @ '': '';
          fail = (\<lambda>rs message. Error (listing_error prefix message '' regions must consist of: '' (map RegionCode rs)))
      in andThen (deref (provider opts), w) (\<lambda>p w.
         andThen (wrap_state prefix (platform_call c (get_regions api (ProviderUUID p)) w)) (\<lambda>rs w.
           ((if length (Regions opts) = 0 then fail rs ''required flag \"regions\" not set''
             else (let opts = match_regions rs opts in
               if length (Regions opts) \<noteq> length (regions opts) then fail rs ''region(s) not found''
               else if PreferredRegion opts \<noteq> [] \<and> preferredRegion opts = []
               then fail rs (''preferred region '' @ PreferredRegion opts @ '' does not exist'')
               else Ok opts)), w))))"

fun instance_names :: "InstanceType list \<Rightarrow> string list res" where
  "instance_names [] = Ok []"
| "instance_names (it # its) =
     bind_res (deref (InstanceTypeCode it)) (\<lambda>n. bind_res (instance_names its) (\<lambda>ns. Ok (n # ns)))"

fun find_instance :: "string \<Rightarrow> InstanceType list \<Rightarrow> InstanceType option res" where
  "find_instance name [] = Ok None"
| "find_instance name (it # its) =
     bind_res (deref (InstanceTypeCode it)) (\<lambda>n. if n = name then Ok (Some it) else find_instance name its)"

definition validateInstanceType ::
  "'w universe_api \<Rightarrow> YugawareClient \<Rightarrow> CreateOptions \<Rightarrow> 'w \<Rightarrow> CreateOptions res \<times> 'w" where
  "validateInstanceType api c opts w =
     (let prefix = ''unable to validate instance type \"'' @ InstanceTypeFlag opts @ ''\": '';
          fail = (\<lambda>its message. bind_res (instance_names its) (\<lambda>names.
                    Error (listing_error prefix message '' must be one of: '' names)))
      in andThen (deref (provider opts), w) (\<lambda>p w.
         andThen (wrap_state prefix (platform_call c (get_instance_types api (ProviderUUID p)) w)) (\<lambda>its w.
           ((if InstanceTypeFlag opts = [] then fail its ''required flag \"instance-type\" not set''
             else bind_res (find_instance (InstanceTypeFlag opts) its) (\<lambda>found.
               case found of
                 Some it \<Rightarrow> Ok (opts\<lparr>instanceType := Some it\<rparr>)
               | None \<Rightarrow> fail its ''could not find instance type'')), w))))"

definition validateVolumeSize :: "CreateOptions \<Rightarrow> CreateOptions res" where
  "validateVolumeSize opts =
     bind_res
       (case instanceType opts of
          Some it \<Rightarrow>
            (if VolumeSize opts = 0 then
               bind_res (deref (VolumeSizes it)) (\<lambda>sizes.
                 case sizes of [] \<Rightarrow> Ok opts | sz # _ \<Rightarrow> bind_res (deref sz) (\<lambda>n. Ok (opts\<lparr>VolumeSize := n\<rparr>)))
             else Ok opts)
        | None \<Rightarrow> Ok opts)
       (\<lambda>opts. if VolumeSize opts \<le> 0 then Error (Err ''must set flag \"volume-size\"'') else Ok opts)"

definition instance_cloud :: "InstanceType \<Rightarrow> string" where
  "instance_cloud it =
     (case InstanceProviderCode it of
        Some code \<Rightarrow> code
      | None \<Rightarrow> (case InstanceProvider it of Some code \<Rightarrow> code | None \<Rightarrow> []))"

definition validateStorage :: "CreateOptions \<Rightarrow> CreateOptions res" where
  "validateStorage opts =
     bind_res (validateVolumeSize opts) (\<lambda>opts.
       let cloud = (case instanceType opts of Some it \<Rightarrow> instance_cloud it | None \<Rightarrow> [])
       in Ok (opts\<lparr>deviceInfo := Some \<lparr>NumVolumes = 1, DeviceVolumeSize = VolumeSize opts,
             StorageType = (if cloud = ''gcp'' then ''Persistent'' else []),
             StorageClass = (if cloud = ''kubernetes'' then ''standard'' else [])\<rparr>\<rparr>))"

definition getAccessKey ::
  "'w universe_api \<Rightarrow> YugawareClient \<Rightarrow> CreateOptions \<Rightarrow> 'w \<Rightarrow> CreateOptions res \<times> 'w" where
  "getAccessKey api c opts w =
     andThen (deref (provider opts), w) (\<lambda>p w.
       if ProviderCode p = ''kubernetes'' then (Ok opts, w)
       else andThen (platform_call c (get_access_keys api (ProviderUUID p)) w) (\<lambda>keys w.
         ((case keys of key # _ \<Rightarrow> Ok (opts\<lparr>accessKey := key\<rparr>) | [] \<Rightarrow> Error (Err ''did not find access key'')), w)))"

definition validateProvider ::
  "'w yw_env \<Rightarrow> 'w universe_api \<Rightarrow> YugawareClient \<Rightarrow> CreateOptions \<Rightarrow> 'w \<Rightarrow> CreateOptions res \<times> 'w" where
  "validateProvider env api c opts w =
     (let prefix = ''unable to validate provider \"'' @ Provider opts @ ''\": '';
          fail = (\<lambda>ps message. Error (listing_error prefix message '' - must be one of: '' (map ProviderName ps)))
      in andThen (wrap_state prefix (platform_call c (list_providers env) w)) (\<lambda>ps w.
           if Provider opts = [] then (fail ps ''required flag \"provider\" is not set'', w)
           else (case find (\<lambda>p. ProviderName p = Provider opts) ps of
                   None \<Rightarrow> (fail ps ''could not find provider'', w)
                 | Some p \<Rightarrow>
                     andThen (validateRegions api c (opts\<lparr>provider := Some p\<rparr>) w) (\<lambda>opts w.
                     andThen (validateInstanceType api c opts w) (\<lambda>opts w.
                     andThen (validateStorage opts, w) (\<lambda>opts w.
                       getAccessKey api c opts w))))))"

definition release_error :: "string \<Rightarrow> string list \<Rightarrow> string \<Rightarrow> 'a res" where
  "release_error v releases message =
     Error (listing_error (''unable to validate version \"'' @ v @ ''\": '') message '' - must be one of: '' releases)"

text \<open>The version of the application server, when no version was given.\<close>

definition server_version :: "'w universe_api \<Rightarrow> string list \<Rightarrow> 'w \<Rightarrow> string res \<times> 'w" where
  "server_version api releases w =
     (case app_version api w of
        (Error e, w1) \<Rightarrow> (release_error [] releases ''unable to retrieve yugaware server version'', w1)
      | (Panic p, w1) \<Rightarrow> (Panic p, w1)
      | (Ok None, w1) \<Rightarrow> (release_error [] releases ''app version response did not contain version string'', w1)
      | (Ok (Some v), w1) \<Rightarrow> (Ok v, w1))"

definition validateVersion ::
  "'w universe_api \<Rightarrow> YugawareClient \<Rightarrow> CreateOptions \<Rightarrow> 'w \<Rightarrow> CreateOptions res \<times> 'w" where
  "validateVersion api c opts w =
     andThen (wrap_state (''unable to validate version \"'' @ Version opts @ ''\": '') (platform_call c (get_releases api) w)) (\<lambda>releases w.
     andThen (if Version opts = [] then server_version api releases w else (Ok (Version opts), w)) (\<lambda>v w.
       ((if v \<in> set releases then Ok (opts\<lparr>Version := v\<rparr>) else release_error v releases ''could not find release''), w)))"

definition ValidateCreate ::
  "'w yw_env \<Rightarrow> 'w universe_api \<Rightarrow> YugawareClient \<Rightarrow> CreateOptions \<Rightarrow> 'w \<Rightarrow> CreateOptions res \<times> 'w" where
  "ValidateCreate env api c opts w =
     andThen (validateUniverseName env c opts w) (\<lambda>_ w.
     andThen (validateProvider env api c opts w) (\<lambda>opts w.
       validateVersion api c opts w))"

subsection \<open>The request\<close>

definition getRegionUUIDs :: "CreateOptions \<Rightarrow> string list" where
  "getRegionUUIDs opts = map RegionUUID (regions opts)"

definition GetUniverseConfigParams :: "CreateOptions \<Rightarrow> UserIntent res" where
  "GetUniverseConfigParams opts =
     bind_res (deref (instanceType opts)) (\<lambda>it.
     bind_res (deref (InstanceTypeCode it)) (\<lambda>code.
     bind_res (deref (provider opts)) (\<lambda>p.
       Ok \<lparr>ClusterType = ''PRIMARY'', AccessKeyCode = accessKey opts, IntentAssignPublicIP = AssignPublicIP opts,
           IntentStaticPublicIP = StaticPublicIP opts, AwsArnString = [], IntentDeviceInfo = deviceInfo opts,
           EnableClientToNodeEncrypt = EnableEncryption opts, EnableExposingService = ''UNEXPOSED'', EnableIPV6 = False,
           EnableNodeToNodeEncrypt = EnableEncryption opts, EnableVolumeEncryption = False, EnableYEDIS = False,
           EnableYSQL = (\<not> DisableYSQL opts), IntentInstanceType = code, IntentMasterGFlags = MasterGFlags opts,
           NumNodes = NodeCount opts, IntentPreferredRegion = preferredRegion opts, IntentProvider = ProviderUUID p,
           ProviderType = ProviderCode p, RegionList = getRegionUUIDs opts,
           IntentReplicationFactor = ReplicationFactor opts, IntentTserverGFlags = TserverGFlags opts,
           IntentUniverseName = CreateUniverseName opts, UseHostname = False, IntentUseSystemd = UseSystemd opts,
           UseTimeSync = True, YbSoftwareVersion = Version opts\<rparr>)))"

text \<open>A command that may wait for ever has no result then.\<close>

definition wait_then ::
  "'w yw_env \<Rightarrow> ('w \<Rightarrow> bool \<times> 'w) \<Rightarrow> YugawareClient \<Rightarrow> bool \<Rightarrow> YBPTask \<Rightarrow> 'w \<Rightarrow> (unit res \<times> 'w) option" where
  "wait_then env cancelled c wait task w =
     (if wait then WaitForTaskCompletion env cancelled c (TaskUUID task) w else Some (Ok (), w))"

definition task_output :: "json \<Rightarrow> string \<Rightarrow> string \<Rightarrow> Output" where
  "task_output payload message output =
     \<lparr>OutputMessage = message, JSONObject = payload, OutputType = output,
      TableColumns = [\<lparr>ColumnName = ''UNIVERSE_UUID'', JSONPath = ''$.resourceUUID'', Expr = []\<rparr>,
                      \<lparr>ColumnName = ''TASK_UUID'', JSONPath = ''$.taskUUID'', Expr = []\<rparr>], Filter = []\<rparr>"

definition createUniverse ::
  "'w yw_env \<Rightarrow> 'w universe_api \<Rightarrow> printer \<Rightarrow> ('w \<Rightarrow> bool \<times> 'w) \<Rightarrow> string \<Rightarrow> YugawareClient \<Rightarrow> CreateOptions \<Rightarrow> 'w \<Rightarrow>
     (string res \<times> 'w) option" where
  "createUniverse env api pr cancelled output c opts w =
     (case andThen (GetUniverseConfigParams opts, w) (\<lambda>intent w. platform_call c (create_all_clusters api intent) w) of
        (Error e, w1) \<Rightarrow> Some (Error e, w1)
      | (Panic p, w1) \<Rightarrow> Some (Panic p, w1)
      | (Ok task, w1) \<Rightarrow>
          map_option (\<lambda>r. andThen r (\<lambda>_ w. (Print pr (task_output (json_of_task api task) ''Universe Created'' output), w)))
            (wait_then env cancelled c (CreateWait opts) task w1))"

subsection \<open>The other commands\<close>

record DeleteOptions =
  UniverseIdentifier :: string
  Approve :: bool
  Force :: bool
  DeleteBackups :: bool
  DeleteWait :: bool
  universe :: "UniverseResp option"

definition delete_flag_defaults :: DeleteOptions where
  "delete_flag_defaults =
     \<lparr>UniverseIdentifier = [], Approve = False, Force = False, DeleteBackups = False, DeleteWait = False, universe = None\<rparr>"

text \<open>\<open>DeleteOptions.Complete\<close>; its second check cannot be reached.\<close>

definition complete_delete :: "string list \<Rightarrow> DeleteOptions \<Rightarrow> DeleteOptions res" where
  "complete_delete args opts =
     (if length args \<noteq> 1 then Error (Err ''a UNIVERSE_NAME or UNIVERSE_UUID argument is required'')
      else if length args > 1 then Error (Err ''too many arguments'')
      else Ok (opts\<lparr>UniverseIdentifier := args ! 0\<rparr>))"

definition validateUniverseIdentifier ::
  "'w yw_env \<Rightarrow> YugawareClient \<Rightarrow> DeleteOptions \<Rightarrow> 'w \<Rightarrow> DeleteOptions res \<times> 'w" where
  "validateUniverseIdentifier env c opts w =
     (let prefix = ''unable to validate universe identifier \"'' @ UniverseIdentifier opts @ ''\": ''
      in if UniverseIdentifier opts = []
         then (Error (Wrap prefix (Err ''a UNIVERSE_NAME or UNIVERSE_UUID argument is required'')), w)
         else andThen (wrap_state prefix (GetUniverseByIdentifier env c (UniverseIdentifier opts) w)) (\<lambda>found w.
                ((case found of
                    Some u \<Rightarrow> Ok (opts\<lparr>universe := Some u\<rparr>)
                  | None \<Rightarrow> Error (Wrap prefix (Err (''universe with identifier \"'' @ UniverseIdentifier opts @ ''\" does not exist'')))), w)))"

definition deleteUniverse ::
  "'w yw_env \<Rightarrow> 'w universe_api \<Rightarrow> printer \<Rightarrow> ('w \<Rightarrow> bool \<times> 'w) \<Rightarrow> ('w \<Rightarrow> string res \<times> 'w) \<Rightarrow> string \<Rightarrow>
     YugawareClient \<Rightarrow> DeleteOptions \<Rightarrow> 'w \<Rightarrow> (string res \<times> 'w) option" where
  "deleteUniverse env api pr cancelled read_line output c opts w =
     (case andThen (if Approve opts then (Ok (), w)
                    else (case read_line w of (line, w1) \<Rightarrow> (ConfirmationDialog line, w1)))
             (\<lambda>_ w. andThen (deref (universe opts), w) (\<lambda>u w.
                platform_call c (delete_universe api (UniverseUUID u) (Force opts) (DeleteBackups opts)) w)) of
        (Error e, w1) \<Rightarrow> Some (Error e, w1)
      | (Panic p, w1) \<Rightarrow> Some (Panic p, w1)
      | (Ok task, w1) \<Rightarrow>
          map_option (\<lambda>r. andThen r (\<lambda>_ w. (Print pr (task_output (json_of_task api task) ''Universe Deleted'' output), w)))
            (wait_then env cancelled c (DeleteWait opts) task w1))"

definition universe_columns :: "Column list" where
  "universe_columns = map (\<lambda>(n, p). \<lparr>ColumnName = n, JSONPath = p, Expr = []\<rparr>)
     [(''NAME'', ''$.name''), (''UNIVERSE_UUID'', ''$.universeUUID''),
      (''CLOUD'', ''$.universeDetails.clusters[0].placementInfo.cloudList[0].code''),
      (''REGIONS'', ''$.universeDetails.clusters[0].regions[*].code''),
      (''INSTANCE_TYPE'', ''$.universeDetails.clusters[0].userIntent.instanceType''),
      (''RF'', ''$.universeDetails.clusters[0].userIntent.replicationFactor''),
      (''NODE_COUNT'', ''$.universeDetails.clusters[0].userIntent.numNodes''),
      (''VERSION'', ''$.universeDetails.clusters[0].userIntent.ybSoftwareVersion'')]"

definition node_columns :: "Column list" where
  "node_columns = map (\<lambda>(n, p). \<lparr>ColumnName = n, JSONPath = p, Expr = []\<rparr>)
     [(''NAME'', ''$.nodeName''), (''REGION'', ''$.cloudInfo.region''), (''ZONE'', ''$.cloudInfo.az''),
      (''PRIVATE_IP'', ''$.cloudInfo.private_ip''), (''PUBLIC_IP'', ''$.cloudInfo.public_ip''), (''STATE'', ''$.state'')]"

definition list_universes_cmd ::
  "'w yw_env \<Rightarrow> 'w universe_api \<Rightarrow> printer \<Rightarrow> string \<Rightarrow> YugawareClient \<Rightarrow> 'w \<Rightarrow> string res \<times> 'w" where
  "list_universes_cmd env api pr output c w =
     andThen (platform_call c (list_universes env) w) (\<lambda>us w.
       (Print pr \<lparr>OutputMessage = ''Universe List'', JSONObject = JArray (map (json_of_universe api) us), OutputType = output,
                 TableColumns = universe_columns, Filter = []\<rparr>, w))"

definition getCmd ::
  "'w yw_env \<Rightarrow> 'w universe_api \<Rightarrow> printer \<Rightarrow> string \<Rightarrow> YugawareClient \<Rightarrow> string \<Rightarrow> 'w \<Rightarrow> string res \<times> 'w" where
  "getCmd env api pr output c identifier w =
     andThen (GetUniverseByIdentifier env c identifier w) (\<lambda>found w.
       case found of
         None \<Rightarrow> (Error (Err (''universe does not exist: '' @ identifier)), w)
       | Some u \<Rightarrow>
           (bind_res (Println pr \<lparr>OutputMessage = [], JSONObject = json_of_universe api u, OutputType = output,
                       TableColumns = universe_columns, Filter = []\<rparr>) (\<lambda>text.
              if output = ''table''
              then bind_res (deref (NodeIsTserver u)) (\<lambda>_.
                   bind_res (Print pr \<lparr>OutputMessage = ''Nodes'', JSONObject = json_of_nodes api u, OutputType = output,
                       TableColumns = node_columns, Filter = []\<rparr>) (\<lambda>nodes. Ok (text @ nodes)))
              else Ok text), w))"

definition health_output :: "bool \<Rightarrow> string \<Rightarrow> string \<Rightarrow> Healthcheck \<Rightarrow> Output" where
  "health_output errorsOnly output identifier hc =
     \<lparr>OutputMessage = identifier @ '' Health Check '' @ HealthTimestamp hc, JSONObject = HealthData hc, OutputType = output,
      TableColumns = map (\<lambda>(n, p). \<lparr>ColumnName = n, JSONPath = p, Expr = []\<rparr>)
        [(''TYPE'', ''$.message''), (''NODE'', ''$.node''), (''NODE_NAME'', ''$.node_name''),
         (''ERROR'', ''$.has_error''), (''TIMESTAMP'', ''$.timestamp'')],
      Filter = (if errorsOnly then ''@.has_error == true'' else [])\<rparr>"

text \<open>The tables of the loop, up to the first one that cannot be printed.\<close>

fun print_checks :: "printer \<Rightarrow> bool \<Rightarrow> string \<Rightarrow> string \<Rightarrow> Healthcheck list \<Rightarrow> string res" where
  "print_checks pr errorsOnly output identifier [] = Ok []"
| "print_checks pr errorsOnly output identifier (hc # hcs) =
     (if errorsOnly \<and> \<not> HasError hc then print_checks pr errorsOnly output identifier hcs
      else bind_res (Println pr (health_output errorsOnly output identifier hc)) (\<lambda>text.
           bind_res (print_checks pr errorsOnly output identifier hcs) (\<lambda>rest. Ok (text @ rest))))"

definition healthCheckCmd ::
  "'w yw_env \<Rightarrow> 'w universe_api \<Rightarrow> printer \<Rightarrow> string \<Rightarrow> YugawareClient \<Rightarrow> string \<Rightarrow> bool \<Rightarrow> 'w \<Rightarrow> string res \<times> 'w" where
  "healthCheckCmd env api pr output c identifier errorsOnly w =
     andThen (GetUniverseByIdentifier env c identifier w) (\<lambda>found w.
       case found of
         None \<Rightarrow> (Error (Err (''universe does not exist: '' @ identifier)), w)
       | Some u \<Rightarrow>
           andThen (platform_call c (health_checks api (UniverseUUID u)) w) (\<lambda>hcs w.
             (print_checks pr errorsOnly output identifier hcs, w)))"

subsection \<open>Lemmas\<close>

lemma deref_Ok [simp]: "deref p = Ok x \<longleftrightarrow> p = Some x"
  by (cases p) (simp_all add: deref_def nil_pointer_def)

text \<open>What the matching of regions does to the options: the matched regions, and the last preferred one.\<close>

definition matches :: "Region list \<Rightarrow> string list \<Rightarrow> Region list" where
  "matches rs es = concat (map (\<lambda>r. replicate (count_list es (RegionCode r)) r) rs)"

fun last_preferred :: "string \<Rightarrow> string \<Rightarrow> Region list \<Rightarrow> string" where
  "last_preferred name dflt [] = dflt"
| "last_preferred name dflt (r # rs) =
     last_preferred name (if RegionName r = name then RegionUUID r else dflt) rs"

lemma match_region_eq:
  "match_region r es opts = opts\<lparr>regions := regions opts @ replicate (count_list es (RegionCode r)) r,
     preferredRegion := (if RegionCode r \<in> set es \<and> PreferredRegion opts = RegionName r then RegionUUID r else preferredRegion opts)\<rparr>"
  by (induction r es opts rule: match_region.induct) (auto simp: Let_def replicate_append_same)

lemma match_regions_eq:
  "match_regions rs opts = opts\<lparr>regions := regions opts @ matches rs (Regions opts),
     preferredRegion := last_preferred (PreferredRegion opts) (preferredRegion opts) (filter (\<lambda>r. RegionCode r \<in> set (Regions opts)) rs)\<rparr>"
proof (induction rs opts rule: match_regions.induct)
  case (1 opts)
  then show ?case by (simp add: matches_def)
next
  case (2 r rs opts)
  then show ?case by (simp add: match_region_eq matches_def)
qed

lemma last_preferred_nonempty:
  assumes "\<And>r. r \<in> set rs \<Longrightarrow> RegionUUID r \<noteq> []"
  shows "last_preferred name d rs = [] \<longleftrightarrow> d = [] \<and> (\<forall>r\<in>set rs. RegionName r \<noteq> name)"
  using assms by (induction rs arbitrary: d) auto

text \<open>With distinct codes every requested code is matched at most by one region.\<close>

lemma mset_matches:
  assumes "distinct (map RegionCode rs)"
  shows "mset (map RegionCode (matches rs es)) = filter_mset (\<lambda>e. e \<in> RegionCode ` set rs) (mset es)"
proof (rule multiset_eqI)
  fix e
  have c: "count (mset (map RegionCode (matches rs es))) e = (if e \<in> RegionCode ` set rs then count_list es e else 0)"
    using assms
  proof (induction rs)
    case Nil
    then show ?case by (simp add: matches_def)
  next
    case (Cons r rs)
    have "count (mset (map RegionCode (matches (r # rs) es))) e =
        (if RegionCode r = e then count_list es e else 0) + count (mset (map RegionCode (matches rs es))) e"
      by (simp add: matches_def)
    then show ?case using Cons by auto
  qed
  show "count (mset (map RegionCode (matches rs es))) e = count (filter_mset (\<lambda>e. e \<in> RegionCode ` set rs) (mset es)) e"
    unfolding c by (simp add: count_mset)
qed

lemma matches_complete:
  assumes "distinct (map RegionCode rs)"
  shows "length es = length (matches rs es) \<longleftrightarrow> set es \<subseteq> RegionCode ` set rs"
proof -
  have "length (matches rs es) = size (filter_mset (\<lambda>e. e \<in> RegionCode ` set rs) (mset es))"
    using mset_matches [OF assms, of es] by (metis length_map size_mset)
  also have "\<dots> = length (filter (\<lambda>e. e \<in> RegionCode ` set rs) es)" by (simp flip: mset_filter)
  finally have "length es = length (matches rs es) \<longleftrightarrow> length (filter (\<lambda>e. e \<in> RegionCode ` set rs) es) = length es" by auto
  also have "\<dots> \<longleftrightarrow> set es \<subseteq> RegionCode ` set rs"
  proof
    assume e: "length (filter (\<lambda>e. e \<in> RegionCode ` set rs) es) = length es"
    show "set es \<subseteq> RegionCode ` set rs"
    proof
      fix x
      assume "x \<in> set es"
      then show "x \<in> RegionCode ` set rs"
        using e length_filter_less [of x es "\<lambda>e. e \<in> RegionCode ` set rs"] by (cases "x \<in> RegionCode ` set rs") simp_all
    qed
  next
    assume "set es \<subseteq> RegionCode ` set rs"
    then have "filter (\<lambda>e. e \<in> RegionCode ` set rs) es = es" by (auto simp: filter_id_conv)
    then show "length (filter (\<lambda>e. e \<in> RegionCode ` set rs) es) = length es" by (rule arg_cong)
  qed
  finally show ?thesis .
qed

lemma matches_subset: "set (matches rs es) \<subseteq> set rs"
  by (auto simp: matches_def)

subsection \<open>What each validation records\<close>

named_theorems validated \<open>what an accepted validation did to the options\<close>

lemma validateRegions_OkD [validated]:
  assumes "validateRegions api c opts w = (Ok opts', w')"
  shows "\<exists>rs. opts' = match_regions rs opts \<and> length (Regions opts) = length (regions opts') \<and> Regions opts \<noteq> []"
proof -
  have fix_regions: "Regions (match_regions rs opts) = Regions opts" for rs by (simp add: match_regions_eq)
  show ?thesis
    using assms by (auto simp: validateRegions_def Let_def andThen_eq_Ok fix_regions split: if_splits)
qed

lemma find_instance_SomeD: "find_instance name its = Ok (Some it) \<Longrightarrow> InstanceTypeCode it = Some name"
  by (induction its) (auto simp: bind_res_eq_Ok split: if_splits)

lemma validateInstanceType_OkD [validated]:
  assumes "validateInstanceType api c opts w = (Ok opts', w')"
  shows "\<exists>it. opts' = opts\<lparr>instanceType := Some it\<rparr> \<and> InstanceTypeCode it = Some (InstanceTypeFlag opts)"
  using assms
  by (auto simp: validateInstanceType_def Let_def andThen_eq_Ok bind_res_eq_Ok split: if_splits option.splits)
     (intro exI conjI, rule refl, erule find_instance_SomeD)

lemma validateVolumeSize_OkD:
  "validateVolumeSize opts = Ok opts' \<Longrightarrow> opts' = opts\<lparr>VolumeSize := VolumeSize opts'\<rparr> \<and> 0 < VolumeSize opts'"
  by (cases "instanceType opts"; cases "VolumeSizes (the (instanceType opts))"; cases "the (VolumeSizes (the (instanceType opts)))")
     (auto simp: validateVolumeSize_def bind_res_eq_Ok deref_def nil_pointer_def split: if_splits option.splits)

definition device_for :: "string \<Rightarrow> int \<Rightarrow> DeviceInfo" where
  "device_for cloud n =
     \<lparr>NumVolumes = 1, DeviceVolumeSize = n, StorageType = (if cloud = ''gcp'' then ''Persistent'' else []),
      StorageClass = (if cloud = ''kubernetes'' then ''standard'' else [])\<rparr>"

lemma validateStorage_OkD [validated]:
  assumes "validateStorage opts = Ok opts'"
  shows "\<exists>n>0. opts' = opts\<lparr>VolumeSize := n,
    deviceInfo := Some (device_for (case instanceType opts of Some it \<Rightarrow> instance_cloud it | None \<Rightarrow> []) n)\<rparr>"
proof -
  obtain o1 where o1: "validateVolumeSize opts = Ok o1"
    and o2: "opts' = o1\<lparr>deviceInfo := Some (device_for (case instanceType o1 of Some it \<Rightarrow> instance_cloud it | None \<Rightarrow> []) (VolumeSize o1))\<rparr>"
    using assms by (auto simp: validateStorage_def bind_res_eq_Ok Let_def device_for_def)
  obtain n where n: "o1 = opts\<lparr>VolumeSize := n\<rparr>" "0 < n" using validateVolumeSize_OkD [OF o1] by metis
  show ?thesis using o2 n by (intro exI [of _ n]) simp
qed

lemma getAccessKey_OkD [validated]:
  assumes "getAccessKey api c opts w = (Ok opts', w')"
  shows "\<exists>key. opts' = opts\<lparr>accessKey := key\<rparr> \<and>
    (\<forall>p. provider opts = Some p \<longrightarrow> ProviderCode p = ''kubernetes'' \<longrightarrow> key = accessKey opts)"
proof -
  obtain p where p: "provider opts = Some p" using assms by (auto simp: getAccessKey_def andThen_eq_Ok)
  show ?thesis
  proof (cases "ProviderCode p = ''kubernetes''")
    case True
    then have "opts' = opts\<lparr>accessKey := accessKey opts\<rparr>" using assms p by (simp add: getAccessKey_def deref_def)
    then show ?thesis by blast
  next
    case False
    then obtain keys w1 where "(case keys of key # _ \<Rightarrow> Ok (opts\<lparr>accessKey := key\<rparr>) | [] \<Rightarrow> Error (Err ''did not find access key'')) = Ok opts'"
      using assms p by (auto simp: getAccessKey_def deref_def andThen_eq_Ok)
    then show ?thesis using p False by (cases keys) auto
  qed
qed

lemma validateVersion_OkD [validated]:
  assumes "validateVersion api c opts w = (Ok opts', w')"
  shows "\<exists>v rs w1. opts' = opts\<lparr>Version := v\<rparr> \<and> (Version opts \<noteq> [] \<longrightarrow> v = Version opts) \<and>
    platform_call c (get_releases api) w = (Ok rs, w1) \<and> v \<in> set rs"
proof -
  obtain rs w1 where rs: "platform_call c (get_releases api) w = (Ok rs, w1)"
    and k: "andThen (if Version opts = [] then server_version api rs w1 else (Ok (Version opts), w1)) (\<lambda>v w.
       ((if v \<in> set rs then Ok (opts\<lparr>Version := v\<rparr>) else release_error v rs ''could not find release''), w)) = (Ok opts', w')"
    by (rule andThen_OkE [OF assms [unfolded validateVersion_def]]) simp
  obtain v w2 where v: "(if Version opts = [] then server_version api rs w1 else (Ok (Version opts), w1)) = (Ok v, w2)"
    and f: "((if v \<in> set rs then Ok (opts\<lparr>Version := v\<rparr>) else release_error v rs ''could not find release''), w2) = (Ok opts', w')"
    by (rule andThen_OkE [OF k])
  have "Version opts \<noteq> [] \<longrightarrow> v = Version opts" using v by (cases "Version opts = []") simp_all
  moreover have "v \<in> set rs" "opts' = opts\<lparr>Version := v\<rparr>"
    using f by (cases "v \<in> set rs"; simp add: release_error_def)+
  ultimately show ?thesis using rs by blast
qed

lemma validateProvider_OkD:
  assumes "validateProvider env api c opts w = (Ok opts', w')"
  obtains p rs it n key where "ProviderName p = Provider opts" "Provider opts \<noteq> []" "Regions opts \<noteq> []"
    "InstanceTypeCode it = Some (InstanceTypeFlag opts)" "0 < n"
    "ProviderCode p = ''kubernetes'' \<longrightarrow> key = accessKey opts"
    "length (regions (match_regions rs opts)) = length (Regions opts)"
    "opts' = (match_regions rs (opts\<lparr>provider := Some p\<rparr>))\<lparr>instanceType := Some it, VolumeSize := n,
       deviceInfo := Some (device_for (instance_cloud it) n), accessKey := key\<rparr>"
proof -
  obtain ps w1 p where p: "find (\<lambda>p. ProviderName p = Provider opts) ps = Some p" "Provider opts \<noteq> []"
    and steps: "andThen (validateRegions api c (opts\<lparr>provider := Some p\<rparr>) w1) (\<lambda>opts w.
                   andThen (validateInstanceType api c opts w) (\<lambda>opts w.
                   andThen (validateStorage opts, w) (\<lambda>opts w. getAccessKey api c opts w))) = (Ok opts', w')"
    using assms by (auto simp: validateProvider_def Let_def andThen_eq_Ok [of "wrap_state _ _"] split: if_splits option.splits)
  obtain o1 o2 o3 w2 w3 where s: "validateRegions api c (opts\<lparr>provider := Some p\<rparr>) w1 = (Ok o1, w2)"
      "validateInstanceType api c o1 w2 = (Ok o2, w3)" "validateStorage o2 = Ok o3" "getAccessKey api c o3 w3 = (Ok opts', w')"
    using steps by (auto simp: andThen_eq_Ok)
  obtain rs where rs: "o1 = match_regions rs (opts\<lparr>provider := Some p\<rparr>)" "length (Regions opts) = length (regions o1)" "Regions opts \<noteq> []"
    using validateRegions_OkD [OF s(1)] by auto
  have r: "provider o1 = Some p" "InstanceTypeFlag o1 = InstanceTypeFlag opts" "accessKey o1 = accessKey opts"
      "regions o1 = regions (match_regions rs opts)"
    by (simp_all add: rs(1) match_regions_eq)
  obtain it where it: "o2 = o1\<lparr>instanceType := Some it\<rparr>" "InstanceTypeCode it = Some (InstanceTypeFlag opts)"
    using validateInstanceType_OkD [OF s(2)] r by auto
  obtain n where n: "0 < n" "o3 = o2\<lparr>VolumeSize := n, deviceInfo := Some (device_for (instance_cloud it) n)\<rparr>"
    using validateStorage_OkD [OF s(3)] it(1) by auto
  obtain key where key: "opts' = o3\<lparr>accessKey := key\<rparr>" "ProviderCode p = ''kubernetes'' \<longrightarrow> key = accessKey opts"
    using getAccessKey_OkD [OF s(4)] n(2) it(1) r by auto
  show thesis
  proof (rule that)
    show "ProviderName p = Provider opts" using find_mem [OF p(1)] by simp
    show "opts' = (match_regions rs (opts\<lparr>provider := Some p\<rparr>))\<lparr>instanceType := Some it, VolumeSize := n,
       deviceInfo := Some (device_for (instance_cloud it) n), accessKey := key\<rparr>"
      by (simp add: key(1) n(2) it(1) rs(1))
  qed (use p(2) rs(2,3) it(2) n(1) key(2) r(4) in simp_all)
qed

subsection \<open>Properties\<close>

text \<open>C25: Regions are validated as a multiset. When the regions of the provider have distinct codes and UUIDs that are not
  empty, \<open>validateRegions\<close> accepts exactly the non-empty lists of codes that the provider has, with a preferred
  region (if any) that is the name of one of the requested regions; and then the regions it records
  are regions of the provider whose codes are the requested ones, as often as they were requested.\<close>

theorem validateRegions_exact:
  assumes "provider opts = Some p" "platform_call c (get_regions api (ProviderUUID p)) w = (Ok rs, w')"
    and "distinct (map RegionCode rs)" "\<And>r. r \<in> set rs \<Longrightarrow> RegionUUID r \<noteq> []"
    and "regions opts = []" "preferredRegion opts = []"
  shows "(is_ok (fst (validateRegions api c opts w)) \<longleftrightarrow>
            Regions opts \<noteq> [] \<and> set (Regions opts) \<subseteq> RegionCode ` set rs \<and>
            (PreferredRegion opts = [] \<or>
               (\<exists>r\<in>set rs. RegionCode r \<in> set (Regions opts) \<and> RegionName r = PreferredRegion opts))) \<and>
         (\<forall>opts'. fst (validateRegions api c opts w) = Ok opts' \<longrightarrow>
            mset (map RegionCode (regions opts')) = mset (Regions opts) \<and> set (regions opts') \<subseteq> set rs)"
proof -
  define opts1 where "opts1 = match_regions rs opts"
  have o1: "Regions opts1 = Regions opts" "PreferredRegion opts1 = PreferredRegion opts"
      "regions opts1 = matches rs (Regions opts)"
      "preferredRegion opts1 = last_preferred (PreferredRegion opts) [] (filter (\<lambda>r. RegionCode r \<in> set (Regions opts)) rs)"
    by (simp_all add: opts1_def match_regions_eq assms(5,6))
  have pref: "preferredRegion opts1 = [] \<longleftrightarrow> (\<forall>r\<in>set rs. RegionCode r \<in> set (Regions opts) \<longrightarrow> RegionName r \<noteq> PreferredRegion opts)"
    unfolding o1 by (subst last_preferred_nonempty) (auto simp: assms(4))
  have v: "validateRegions api c opts w =
     (if Regions opts = [] then (Error (listing_error (''unable to validate regions '' @ show_strings (Regions opts) @ '': '')
                   ''required flag \"regions\" not set'' '' regions must consist of: '' (map RegionCode rs)), w')
      else if \<not> set (Regions opts) \<subseteq> RegionCode ` set rs
      then (Error (listing_error (''unable to validate regions '' @ show_strings (Regions opts) @ '': '')
                   ''region(s) not found'' '' regions must consist of: '' (map RegionCode rs)), w')
      else if PreferredRegion opts \<noteq> [] \<and> preferredRegion opts1 = []
      then (Error (listing_error (''unable to validate regions '' @ show_strings (Regions opts) @ '': '')
                   (''preferred region '' @ PreferredRegion opts @ '' does not exist'') '' regions must consist of: '' (map RegionCode rs)), w')
      else (Ok opts1, w'))"
    unfolding validateRegions_def Let_def matches_complete [OF assms(3), symmetric]
    using assms(1,2) by (simp add: deref_def o1 flip: opts1_def)
  have m: "mset (map RegionCode (matches rs (Regions opts))) = mset (Regions opts)" if "set (Regions opts) \<subseteq> RegionCode ` set rs"
    unfolding mset_matches [OF assms(3)] using that by (simp add: filter_mset_eq_conv subset_iff)
  show ?thesis unfolding v using m matches_subset [of rs "Regions opts"] by (auto simp: o1(3) pref)
qed

text \<open>A server with one provider, for examples.\<close>

definition test_api :: "nat universe_api" where
  "test_api =
     \<lparr>get_regions = (\<lambda>p h c w. (Ok [\<lparr>RegionCode = ''r1'', RegionName = ''R1'', RegionUUID = ''1''\<rparr>], w)),
      get_instance_types = (\<lambda>p h c w. (Ok [\<lparr>InstanceTypeCode = Some ''n1'', InstanceProviderCode = Some ''gcp'',
                                            InstanceProvider = None, VolumeSizes = Some [Some 250]\<rparr>], w)),
      get_releases = (\<lambda>h c w. (Ok [''2.12''], w)), app_version = (\<lambda>w. (Ok (Some ''2.12''), w)),
      get_access_keys = (\<lambda>p h c w. (Ok [''key''], w)),
      create_all_clusters = (\<lambda>i h c w. (Ok \<lparr>TaskUUID = ''t'', ResourceUUID = ''ab''\<rparr>, w)),
      delete_universe = (\<lambda>u f b h c w. (Ok \<lparr>TaskUUID = ''t'', ResourceUUID = u\<rparr>, Suc w)),
      health_checks = (\<lambda>u h c w. (Ok [], w)),
      json_of_task = (\<lambda>t. JNull), json_of_universe = (\<lambda>u. JNull), json_of_nodes = (\<lambda>u. JNull)\<rparr>"

definition test_options :: CreateOptions where
  "test_options = create_flag_defaults
     \<lparr>CreateUniverseName := ''new'', Provider := ''p'', Regions := [''r1''], InstanceTypeFlag := ''n1''\<rparr>"

lemma validateRegions_exact_witness:
  "is_ok (fst (validateRegions test_api test_client
     (test_options\<lparr>provider := Some \<lparr>ProviderName = ''p'', ProviderUUID = ''ef'', ProviderCode = ''gcp''\<rparr>\<rparr>) 0))"
proof -
  let ?p = "\<lparr>ProviderName = ''p'', ProviderUUID = ''ef'', ProviderCode = ''gcp''\<rparr>"
  let ?o = "test_options\<lparr>provider := Some ?p\<rparr>"
  have call: "platform_call test_client (get_regions test_api (ProviderUUID ?p)) 0 =
      (Ok [\<lparr>RegionCode = ''r1'', RegionName = ''R1'', RegionUUID = ''1''\<rparr>], 0)"
    by (simp add: platform_call_def SwaggerAuth_def test_client_def test_api_def)
  have "provider ?o = Some ?p" by simp
  from validateRegions_exact [OF this call] show ?thesis
    by (simp add: test_options_def create_flag_defaults_def)
qed



text \<open>A universe is deleted only with consent: without \<open>--approve\<close>, unless the answer to the dialog is y or yes in
  any case, \<open>deleteUniverse\<close> fails and sends nothing, so the server is as it was after the answer was read.\<close>

theorem deleteUniverse_needs_consent:
  assumes "\<not> Approve opts" "read_line w = (line, w1)"
    and "\<And>s. line = Ok s \<Longrightarrow> to_lower s \<noteq> ''y'' \<and> to_lower s \<noteq> ''yes''"
  shows "\<exists>r. deleteUniverse env api pr cancelled read_line output c opts w = Some (r, w1) \<and> \<not> is_ok r"
proof -
  have "\<not> is_ok (ConfirmationDialog line)"
    using assms(3) by (cases line) (auto simp: ConfirmationDialog_def Let_def)
  then show ?thesis
    using assms(1,2) by (cases "ConfirmationDialog line") (auto simp: deleteUniverse_def)
qed

lemma deleteUniverse_needs_consent_witness:
  "\<exists>r. deleteUniverse test_env test_api test_printer (\<lambda>w. (False, w)) (\<lambda>w. (Ok ''N'', w)) ''table'' test_client
     (delete_flag_defaults\<lparr>universe := Some \<lparr>UniverseName = ''u1'', UniverseUUID = ''ab'', NodeIsTserver = None\<rparr>\<rparr>) 7 = Some (r, 7) \<and> \<not> is_ok r"
proof -
  have "to_lower ''N'' = ''n''" by code_simp
  then show ?thesis by (intro deleteUniverse_needs_consent) (auto simp: delete_flag_defaults_def)
qed

end
