(* ===== verification/YWBackup.thy ===== *)
theory YWBackup
  imports YWUniverse YBVersion
begin

section \<open>Backup commands\<close>

text \<open>
  \<open>yugaware-client/cmd/backup\<close>: \<open>create\<close>, \<open>list\<close> and \<open>restore\<close>. The generated operations are the record
  \<open>backup_api\<close>. Counts of nodes and threads are 32-bit integers, durations 64-bit numbers of nanoseconds.
\<close>

subsection \<open>Data\<close>

record BackupStorageInfo =
  StorageBackupType :: string
  StorageKeyspace :: string
  StorageSse :: bool
  StorageLocation :: string
  StorageTables :: "string list"

text \<open>\<open>BackupTableParams\<close>: its own location, and those of its list.\<close>

record BackupInfo =
  BackupType :: string
  BackupKeyspace :: string
  BackupSse :: bool
  BackupLocation :: string
  BackupTables :: "string list"
  BackupStorageConfig :: "string option"
  BackupParts :: "BackupStorageInfo list"

record Backup =
  BackupUUID :: string
  BackupUniverseUUID :: string
  BackupDetails :: "BackupInfo option"

record MultiTableBackup =
  MTActionType :: string
  MTBackupType :: string
  MTKeyspace :: string
  MTParallelism :: int
  MTStorageConfigUUID :: string
  TransactionalBackup :: bool
  TimeBeforeDelete :: int

record RestoreBackupParams =
  RActionType :: string
  BackupStorageInfoList :: "BackupStorageInfo list"
  RCustomerUUID :: string
  RStorageConfigUUID :: string
  RUniverseUUID :: string
  RParallelism :: int

record keyspaceType =
  TableType :: string
  KeySpace :: string

record 'w backup_api =
  create_multi_table_backup :: "string \<Rightarrow> MultiTableBackup \<Rightarrow> headers \<Rightarrow> string \<Rightarrow> 'w \<Rightarrow> YBPTask res \<times> 'w"
  fetch_backups_by_task :: "string \<Rightarrow> string \<Rightarrow> headers \<Rightarrow> string \<Rightarrow> 'w \<Rightarrow> Backup list res \<times> 'w"
  list_backups :: "string \<Rightarrow> headers \<Rightarrow> string \<Rightarrow> 'w \<Rightarrow> Backup list res \<times> 'w"
  get_backup :: "string \<Rightarrow> headers \<Rightarrow> string \<Rightarrow> 'w \<Rightarrow> Backup res \<times> 'w"
  get_all_tables :: "string \<Rightarrow> headers \<Rightarrow> string \<Rightarrow> 'w \<Rightarrow> keyspaceType list res \<times> 'w"
  restore_backup :: "RestoreBackupParams \<Rightarrow> headers \<Rightarrow> string \<Rightarrow> 'w \<Rightarrow> YBPTask res \<times> 'w"
  server_app_version :: "'w \<Rightarrow> string option res \<times> 'w"
  json_of_backup :: "Backup \<Rightarrow> json"
  backup_task_json :: "YBPTask \<Rightarrow> json"

subsection \<open>Creating a backup\<close>

record BackupOptions =
  BackupUniverseName :: string
  BackupTypeFlag :: string
  StorageConfig :: string
  Retention :: int
  Parallelism :: int
  BackupWait :: bool
  Keyspace :: string
  Tables :: "string list"
  Database :: string
  backup_universe :: "UniverseResp option"
  storage :: "CustomerConfigUI option"

definition backup_flag_defaults :: BackupOptions where
  "backup_flag_defaults =
     \<lparr>BackupUniverseName = [], BackupTypeFlag = ''sql'', StorageConfig = [], Retention = 604800000000000,
      Parallelism = 3, BackupWait = False, Keyspace = [], Tables = [], Database = [],
      backup_universe = None, storage = None\<rparr>"

definition validateBackupUniverseName ::
  "'w yw_env \<Rightarrow> YugawareClient \<Rightarrow> BackupOptions \<Rightarrow> 'w \<Rightarrow> BackupOptions res \<times> 'w" where
  "validateBackupUniverseName env c opts w =
     (let prefix = ''unable to validate universe name \"'' @ BackupUniverseName opts @ ''\": ''
      in if BackupUniverseName opts = []
         then (Error (Wrap prefix (Err ''required flag \"universe-name\" is not set'')), w)
         else andThen (wrap_state prefix (GetUniverseByIdentifier env c (BackupUniverseName opts) w)) (\<lambda>found w.
                ((case found of
                    None \<Rightarrow> Error (Wrap prefix (Err ''universe does not exist''))
                  | Some u \<Rightarrow> Ok (opts\<lparr>backup_universe := Some u\<rparr>)), w)))"

definition validateCreateOptionsSQL :: "BackupOptions \<Rightarrow> unit res" where
  "validateCreateOptionsSQL opts =
     (if Keyspace opts \<noteq> [] then Error (Err ''the \"keyspace\" flag is incompatible with an SQL backup'')
      else if length (Tables opts) \<noteq> 0 then Error (Err ''table level SQL backups are unsupported'')
      else Ok ())"

definition validateCreateOptionsCQL :: "BackupOptions \<Rightarrow> unit res" where
  "validateCreateOptionsCQL opts =
     (if Database opts \<noteq> [] then Error (Err ''the \"database\" flag is incompatible with a CQL backup'')
      else if length (Tables opts) \<noteq> 0 \<and> Keyspace opts = []
      then Error (Err ''a keyspace must be specified when creating a table level backup'')
      else Ok ())"

text \<open>An error of the lookup leaves the storage nil, which is reported first.\<close>

definition validateStorageOptions ::
  "'w yw_env \<Rightarrow> YugawareClient \<Rightarrow> BackupOptions \<Rightarrow> 'w \<Rightarrow> BackupOptions res \<times> 'w" where
  "validateStorageOptions env c opts w =
     (let missing = Error (Err (''storage config \"'' @ StorageConfig opts @ ''\" does not exist''))
      in case GetStorageConfigByIdentifier env c (StorageConfig opts) w of
           (Error e, w1) \<Rightarrow> (missing, w1)
         | (Panic p, w1) \<Rightarrow> (Panic p, w1)
         | (Ok None, w1) \<Rightarrow> (missing, w1)
         | (Ok (Some s), w1) \<Rightarrow> (Ok (opts\<lparr>storage := Some s\<rparr>), w1))"

definition check_type :: "BackupOptions \<Rightarrow> unit res" where
  "check_type opts =
     (if BackupTypeFlag opts = ''SQL'' then validateCreateOptionsSQL opts
      else if BackupTypeFlag opts = ''CQL'' then validateCreateOptionsCQL opts
      else Error (Err ''required flag \"type\" must be one of [sql cql]''))"

definition ValidateBackup ::
  "'w yw_env \<Rightarrow> YugawareClient \<Rightarrow> BackupOptions \<Rightarrow> 'w \<Rightarrow> BackupOptions res \<times> 'w" where
  "ValidateBackup env c opts w =
     andThen (validateBackupUniverseName env c (opts\<lparr>BackupTypeFlag := to_upper (BackupTypeFlag opts)\<rparr>) w) (\<lambda>opts w.
     andThen (check_type opts, w) (\<lambda>_ w.
       validateStorageOptions env c opts w))"

text \<open>The number of tablet servers times the threads per node.\<close>

definition backup_parallelism :: "bool list \<Rightarrow> int \<Rightarrow> int" where
  "backup_parallelism nodes n = int32 (int32 (int (length (filter id nodes))) * n)"

definition getCreateMultiTableBackupParams :: "BackupOptions \<Rightarrow> (string \<times> MultiTableBackup) res" where
  "getCreateMultiTableBackupParams opts =
     bind_res (deref (backup_universe opts)) (\<lambda>u.
     bind_res (deref (NodeIsTserver u)) (\<lambda>nodes.
     bind_res (deref (storage opts)) (\<lambda>s.
       Ok (UniverseUUID u,
           \<lparr>MTActionType = ''CREATE'',
            MTBackupType = (if BackupTypeFlag opts = ''SQL'' then ''PGSQL_TABLE_TYPE''
                            else if BackupTypeFlag opts = ''CQL'' then ''YQL_TABLE_TYPE'' else []),
            MTKeyspace = (if BackupTypeFlag opts = ''SQL'' then Database opts
                          else if BackupTypeFlag opts = ''CQL'' then Keyspace opts else []),
            MTParallelism = backup_parallelism nodes (Parallelism opts), MTStorageConfigUUID = ConfigUUID s,
            TransactionalBackup = True, TimeBeforeDelete = Retention opts sdiv 1000000\<rparr>))))"

definition submit_round ::
  "'w backup_api \<Rightarrow> ('w \<Rightarrow> wait_event \<times> 'w) \<Rightarrow> YugawareClient \<Rightarrow> string \<Rightarrow> string \<Rightarrow> 'w \<Rightarrow>
     Backup list option res option \<times> 'w" where
  "submit_round api select c uuid task w =
     (case select w of
        (TimedOut, w1) \<Rightarrow> (Some (Error (Err ''timed out waiting for backup to start'')), w1)
      | (Done, w1) \<Rightarrow> (Some (Ok None), w1)
      | (Tick, w1) \<Rightarrow>
          (case platform_call c (fetch_backups_by_task api uuid task) w1 of
             (Error e, w2) \<Rightarrow> (Some (Error e), w2)
           | (Panic p, w2) \<Rightarrow> (Some (Panic p), w2)
           | (Ok bs, w2) \<Rightarrow> (if 0 < length bs then Some (Ok (Some bs)) else None, w2)))"

definition waitForBackupSubmitComplete ::
  "'w backup_api \<Rightarrow> ('w \<Rightarrow> wait_event \<times> 'w) \<Rightarrow> YugawareClient \<Rightarrow> string \<Rightarrow> string \<Rightarrow> 'w \<Rightarrow>
     (Backup list option res \<times> 'w) option" where
  "waitForBackupSubmitComplete api select c uuid task w = poll_loop (submit_round api select c uuid task) w"

definition backup_columns :: "Column list" where
  "backup_columns =
     [\<lparr>ColumnName = ''BACKUP_UUID'', JSONPath = ''$.backupUUID'', Expr = []\<rparr>,
      \<lparr>ColumnName = ''TYPE'', JSONPath = ''$.backupInfo.backupType'', Expr = []\<rparr>,
      \<lparr>ColumnName = ''KEYSPACE'', JSONPath = ''$..keyspace'', Expr = []\<rparr>,
      \<lparr>ColumnName = ''CREATED'', JSONPath = [], Expr = ''localtime(@.createTime/1000)''\<rparr>,
      \<lparr>ColumnName = ''EXPIRES'', JSONPath = [], Expr = ''localtime(@.expiry/1000)''\<rparr>,
      \<lparr>ColumnName = ''ACTION'', JSONPath = ''$.backupInfo.actionType'', Expr = []\<rparr>,
      \<lparr>ColumnName = ''STATE'', JSONPath = ''$.state'', Expr = []\<rparr>]"

definition created_backup :: "'w backup_api \<Rightarrow> string \<Rightarrow> Backup list option \<Rightarrow> Output" where
  "created_backup api output bs =
     \<lparr>OutputMessage = ''Created Backup'',
      JSONObject = (case bs of None \<Rightarrow> JNull | Some bs \<Rightarrow> JArray (map (json_of_backup api) bs)),
      OutputType = output, TableColumns = backup_columns, Filter = []\<rparr>"

definition createBackup ::
  "'w yw_env \<Rightarrow> 'w backup_api \<Rightarrow> printer \<Rightarrow> ('w \<Rightarrow> bool \<times> 'w) \<Rightarrow> ('w \<Rightarrow> wait_event \<times> 'w) \<Rightarrow> string \<Rightarrow> YugawareClient \<Rightarrow>
     BackupOptions \<Rightarrow> 'w \<Rightarrow> (string res \<times> 'w) option" where
  "createBackup env api pr cancelled select output c opts w =
     (case andThen (getCreateMultiTableBackupParams opts, w) (\<lambda>(uuid, request) w.
             andThen (platform_call c (create_multi_table_backup api uuid request) w) (\<lambda>task w. (Ok (uuid, task), w))) of
        (Error e, w1) \<Rightarrow> Some (Error e, w1)
      | (Panic p, w1) \<Rightarrow> Some (Panic p, w1)
      | (Ok (uuid, task), w1) \<Rightarrow>
          (case wait_then env cancelled c (BackupWait opts) task w1 of
             None \<Rightarrow> None
           | Some (Error e, w2) \<Rightarrow> Some (Error e, w2)
           | Some (Panic p, w2) \<Rightarrow> Some (Panic p, w2)
           | Some (Ok _, w2) \<Rightarrow>
               map_option (\<lambda>r. andThen r (\<lambda>bs w. (Print pr (created_backup api output bs), w)))
                 (waitForBackupSubmitComplete api select c uuid (TaskUUID task) w2)))"

subsection \<open>Listing backups\<close>

definition matchesUniverse :: "UniverseResp \<Rightarrow> string \<Rightarrow> bool" where
  "matchesUniverse u identifier \<longleftrightarrow> UniverseName u = identifier \<or> UniverseUUID u = identifier"

definition shouldListBackups :: "UniverseResp \<Rightarrow> string list \<Rightarrow> bool" where
  "shouldListBackups u identifiers =
     (if 0 < length identifiers then list_ex (matchesUniverse u) identifiers else True)"

definition backup_list_columns :: "Column list" where
  "backup_list_columns =
     take 5 backup_columns @
     [\<lparr>ColumnName = ''SIZE'', JSONPath = [], Expr = ''size_pretty(@.backupInfo.backupSizeInBytes)''\<rparr>] @
     drop 5 backup_columns"

definition backup_list_output :: "'w backup_api \<Rightarrow> string \<Rightarrow> bool \<Rightarrow> UniverseResp \<Rightarrow> Backup list \<Rightarrow> Output" where
  "backup_list_output api output includeRestore u bs =
     \<lparr>OutputMessage = ''Backup list for universe \"'' @ UniverseName u @ ''\"'', JSONObject = JArray (map (json_of_backup api) bs),
      OutputType = output, TableColumns = backup_list_columns,
      Filter = (if includeRestore then [] else ''@.backupInfo.actionType != '' @ [CHR 0x27] @ ''RESTORE'' @ [CHR 0x27])\<rparr>"

text \<open>A list that cannot be printed is logged and skipped; one that cannot be fetched ends the command.\<close>

fun list_each ::
  "'w backup_api \<Rightarrow> printer \<Rightarrow> string \<Rightarrow> YugawareClient \<Rightarrow> string list \<Rightarrow> bool \<Rightarrow> UniverseResp list \<Rightarrow> 'w \<Rightarrow>
     (UniverseResp \<times> string res) list res \<times> 'w" where
  "list_each api pr output c identifiers includeRestore [] w = (Ok [], w)"
| "list_each api pr output c identifiers includeRestore (u # us) w =
     (if \<not> shouldListBackups u identifiers then list_each api pr output c identifiers includeRestore us w
      else andThen (platform_call c (list_backups api (UniverseUUID u)) w) (\<lambda>bs w.
           andThen (list_each api pr output c identifiers includeRestore us w) (\<lambda>rest w.
             (Ok ((u, Println pr (backup_list_output api output includeRestore u bs)) # rest), w))))"

definition list_backups_cmd ::
  "'w yw_env \<Rightarrow> 'w backup_api \<Rightarrow> printer \<Rightarrow> string \<Rightarrow> YugawareClient \<Rightarrow> string list \<Rightarrow> bool \<Rightarrow> 'w \<Rightarrow>
     (UniverseResp \<times> string res) list res \<times> 'w" where
  "list_backups_cmd env api pr output c identifiers includeRestore w =
     andThen (platform_call c (list_universes env) w) (\<lambda>us w. list_each api pr output c identifiers includeRestore us w)"

subsection \<open>Restoring a backup\<close>

record RestoreOptions =
  RestoreBackupUUID :: string
  RestoreUniverseName :: string
  RestoreParallelism :: int
  RestoreWait :: bool
  backup :: "Backup option"
  restore_universe :: "UniverseResp option"

definition restore_flag_defaults :: RestoreOptions where
  "restore_flag_defaults =
     \<lparr>RestoreBackupUUID = [], RestoreUniverseName = [], RestoreParallelism = 3, RestoreWait = False, backup = None,
      restore_universe = None\<rparr>"

text \<open>Backups of the second kind came with 2.13.0.\<close>

definition version_2_13 :: YBVersion where
  "version_2_13 = \<lparr>Major = 2, Minor = 13, Patch = 0, Hotfix = 0, Build = 0\<rparr>"

definition validateServerVersion :: "'w backup_api \<Rightarrow> 'w \<Rightarrow> unit res \<times> 'w" where
  "validateServerVersion api w =
     andThen (server_app_version api w) (\<lambda>v w.
       ((case v of
           None \<Rightarrow> Error (Err ''app version response did not contain version string'')
         | Some v \<Rightarrow>
             bind_res (New v) (\<lambda>version.
               if Lt version version_2_13
               then Error (Err (''server version \"'' @ v @ ''\": restore is only supported in version 2.13.0 and above''))
               else Ok ())), w))"

definition validateBackup ::
  "'w backup_api \<Rightarrow> YugawareClient \<Rightarrow> RestoreOptions \<Rightarrow> 'w \<Rightarrow> RestoreOptions res \<times> 'w" where
  "validateBackup api c opts w =
     andThen (platform_call c (get_backup api (RestoreBackupUUID opts)) w) (\<lambda>b w. (Ok (opts\<lparr>backup := Some b\<rparr>), w))"

definition validateUniverse ::
  "'w yw_env \<Rightarrow> YugawareClient \<Rightarrow> RestoreOptions \<Rightarrow> 'w \<Rightarrow> RestoreOptions res \<times> 'w" where
  "validateUniverse env c opts w =
     andThen (deref (backup opts), w) (\<lambda>b w.
       (let name = (if RestoreUniverseName opts \<noteq> [] then RestoreUniverseName opts else BackupUniverseUUID b)
        in andThen (GetUniverseByIdentifier env c name w) (\<lambda>found w.
             ((case found of
                 None \<Rightarrow> Error (Err (''universe '' @ name @ '' does not exist''))
               | Some u \<Rightarrow> Ok (opts\<lparr>restore_universe := Some u\<rparr>)), w))))"

definition getBackupStorageInfo :: "Backup \<Rightarrow> BackupStorageInfo list res" where
  "getBackupStorageInfo b =
     bind_res (deref (BackupDetails b)) (\<lambda>info.
       Ok ((if BackupLocation info \<noteq> []
            then [\<lparr>StorageBackupType = BackupType info, StorageKeyspace = BackupKeyspace info, StorageSse = BackupSse info,
                   StorageLocation = BackupLocation info, StorageTables = BackupTables info\<rparr>]
            else []) @ BackupParts info))"

text \<open>The first part of the backup whose keyspace the universe already has.\<close>

definition existing_keyspace :: "keyspaceType list \<Rightarrow> BackupStorageInfo list \<Rightarrow> BackupStorageInfo option" where
  "existing_keyspace tables infos =
     find (\<lambda>i. \<lparr>TableType = StorageBackupType i, KeySpace = StorageKeyspace i\<rparr> \<in> set tables) infos"

definition validateKeyspaces ::
  "'w backup_api \<Rightarrow> YugawareClient \<Rightarrow> RestoreOptions \<Rightarrow> 'w \<Rightarrow> unit res \<times> 'w" where
  "validateKeyspaces api c opts w =
     andThen (deref (restore_universe opts), w) (\<lambda>u w.
       (let prefix = ''cannot restore backup \"'' @ RestoreBackupUUID opts @ ''\" to universe \"'' @ UniverseName u @ ''\": ''
        in andThen (wrap_state prefix (platform_call c (get_all_tables api (UniverseUUID u)) w)) (\<lambda>tables w.
             (bind_res (deref (backup opts)) (\<lambda>b.
              bind_res (getBackupStorageInfo b) (\<lambda>infos.
              bind_res (deref (BackupDetails b)) (\<lambda>details.
                case existing_keyspace tables infos of
                  None \<Rightarrow> Ok ()
                | Some i \<Rightarrow>
                    Error (Wrap prefix (Err ((if BackupType details = ''PGSQL_TABLE_TYPE'' then ''database'' else ''keyspace'')
                      @ '' \"'' @ StorageKeyspace i @ ''\" already exists'')))))), w))))"

definition ValidateRestore ::
  "'w yw_env \<Rightarrow> 'w backup_api \<Rightarrow> YugawareClient \<Rightarrow> RestoreOptions \<Rightarrow> 'w \<Rightarrow> RestoreOptions res \<times> 'w" where
  "ValidateRestore env api c opts w =
     andThen (validateServerVersion api w) (\<lambda>_ w.
     andThen (validateBackup api c opts w) (\<lambda>opts w.
     andThen (validateUniverse env c opts w) (\<lambda>opts w.
     andThen (validateKeyspaces api c opts w) (\<lambda>_ w. (Ok opts, w)))))"

definition getRestoreParams :: "YugawareClient \<Rightarrow> RestoreOptions \<Rightarrow> RestoreBackupParams res" where
  "getRestoreParams c opts =
     bind_res (deref (restore_universe opts)) (\<lambda>u.
     bind_res (deref (NodeIsTserver u)) (\<lambda>nodes.
     bind_res (deref (backup opts)) (\<lambda>b.
     bind_res (getBackupStorageInfo b) (\<lambda>infos.
     bind_res (deref (BackupDetails b)) (\<lambda>details.
     bind_res (deref (BackupStorageConfig details)) (\<lambda>config.
       Ok \<lparr>RActionType = ''RESTORE'', BackupStorageInfoList = infos, RCustomerUUID = customerUUID c,
           RStorageConfigUUID = config, RUniverseUUID = UniverseUUID u,
           RParallelism = backup_parallelism nodes (RestoreParallelism opts)\<rparr>))))))"

definition restore_output :: "'w backup_api \<Rightarrow> string \<Rightarrow> bool \<Rightarrow> YBPTask \<Rightarrow> Output" where
  "restore_output api output waited task =
     \<lparr>OutputMessage = ''Restore '' @ (if waited then ''Completed'' else ''Started''), JSONObject = backup_task_json api task,
      OutputType = output, TableColumns = [\<lparr>ColumnName = ''TASK_UUID'', JSONPath = ''$.taskUUID'', Expr = []\<rparr>], Filter = []\<rparr>"

definition restoreBackup ::
  "'w yw_env \<Rightarrow> 'w backup_api \<Rightarrow> printer \<Rightarrow> ('w \<Rightarrow> bool \<times> 'w) \<Rightarrow> string \<Rightarrow> YugawareClient \<Rightarrow> RestoreOptions \<Rightarrow> 'w \<Rightarrow>
     (string res \<times> 'w) option" where
  "restoreBackup env api pr cancelled output c opts w =
     (case andThen (getRestoreParams c opts, w) (\<lambda>request w. platform_call c (restore_backup api request) w) of
        (Error e, w1) \<Rightarrow> Some (Error e, w1)
      | (Panic p, w1) \<Rightarrow> Some (Panic p, w1)
      | (Ok task, w1) \<Rightarrow>
          map_option (\<lambda>r. andThen r (\<lambda>_ w. (Print pr (restore_output api output (RestoreWait opts) task), w)))
            (wait_then env cancelled c (RestoreWait opts) task w1))"

subsection \<open>Lemmas\<close>

lemma ValidateBackup_OkD:
  assumes "ValidateBackup env c opts w = (Ok opts', w')"
  obtains u s where "opts' = opts\<lparr>BackupTypeFlag := to_upper (BackupTypeFlag opts), backup_universe := Some u, storage := Some s\<rparr>"
    "check_type opts' = Ok ()"
proof -
  obtain o1 w1 where o1: "validateBackupUniverseName env c (opts\<lparr>BackupTypeFlag := to_upper (BackupTypeFlag opts)\<rparr>) w = (Ok o1, w1)"
    and k: "andThen (check_type o1, w1) (\<lambda>_ w. validateStorageOptions env c o1 w) = (Ok opts', w')"
    by (rule andThen_OkE [OF assms [unfolded ValidateBackup_def]])
  obtain u where u: "o1 = opts\<lparr>BackupTypeFlag := to_upper (BackupTypeFlag opts), backup_universe := Some u\<rparr>"
    using o1 by (auto simp: validateBackupUniverseName_def Let_def andThen_eq_Ok split: if_splits option.splits)
  have c: "check_type o1 = Ok ()" using k by (auto simp: andThen_eq_Ok)
  obtain s where s: "opts' = o1\<lparr>storage := Some s\<rparr>"
    using k by (auto simp: andThen_eq_Ok validateStorageOptions_def Let_def split: prod.splits res.splits option.splits)
  have "check_type opts' = check_type o1"
    by (simp add: s check_type_def validateCreateOptionsSQL_def validateCreateOptionsCQL_def)
  then show thesis using c by (intro that [of s u]) (simp_all add: s u)
qed

lemma existing_keyspace_None:
  "existing_keyspace tables infos = None \<longleftrightarrow>
     (\<forall>i\<in>set infos. \<lparr>TableType = StorageBackupType i, KeySpace = StorageKeyspace i\<rparr> \<notin> set tables)"
  by (auto simp: existing_keyspace_def find_None_iff)

lemma backup_parallelism_exact:
  assumes "0 < n" "int (length (filter id nodes)) * n < 2 ^ 31"
  shows "backup_parallelism nodes n = int (length (filter id nodes)) * n"
proof -
  let ?k = "int (length (filter id nodes))"
  have "?k * 1 \<le> ?k * n" using assms(1) by (intro mult_left_mono) auto
  then have k: "?k < 2 ^ 31" using assms(2) by linarith
  have p: "0 \<le> ?k * n" using assms(1) by simp
  have "int32 ?k = ?k" using k by (intro int32_id) simp_all
  moreover have "int32 (?k * n) = ?k * n" using p assms(2) by (intro int32_id) simp_all
  ultimately show ?thesis by (simp add: backup_parallelism_def)
qed

lemma check_type_Ok:
  "check_type opts = Ok () \<longleftrightarrow>
     BackupTypeFlag opts = ''SQL'' \<and> Keyspace opts = [] \<and> Tables opts = [] \<or>
     BackupTypeFlag opts = ''CQL'' \<and> Database opts = [] \<and> (Tables opts \<noteq> [] \<longrightarrow> Keyspace opts \<noteq> [])"
  by (auto simp: check_type_def validateCreateOptionsSQL_def validateCreateOptionsCQL_def)

text \<open>What a restore that passed validation rests on.\<close>

lemma ValidateRestore_OkD:
  assumes "ValidateRestore env api c opts w = (Ok opts', w')"
  obtains b u v version infos tables name w1 w2 w3 w4 w5 where
    "server_app_version api w = (Ok (Some v), w1)" "New v = Ok version" "\<not> Lt version version_2_13"
    "platform_call c (get_backup api (RestoreBackupUUID opts)) w1 = (Ok b, w2)"
    "name = (if RestoreUniverseName opts \<noteq> [] then RestoreUniverseName opts else BackupUniverseUUID b)"
    "GetUniverseByIdentifier env c name w2 = (Ok (Some u), w3)"
    "platform_call c (get_all_tables api (UniverseUUID u)) w3 = (Ok tables, w')"
    "getBackupStorageInfo b = Ok infos" "existing_keyspace tables infos = None"
    "opts' = opts\<lparr>backup := Some b, restore_universe := Some u\<rparr>"
proof -
  obtain w1 w2 w3 w4 o1 o2 where s: "validateServerVersion api w = (Ok (), w1)" "validateBackup api c opts w1 = (Ok o1, w2)"
    "validateUniverse env c o1 w2 = (Ok o2, w3)" "validateKeyspaces api c o2 w3 = (Ok (), w4)" "opts' = o2" "w' = w4"
    using assms by (auto simp: ValidateRestore_def andThen_eq_Ok)
  obtain v version where v: "server_app_version api w = (Ok (Some v), w1)" "New v = Ok version" "\<not> Lt version version_2_13"
    using s(1) by (auto simp: validateServerVersion_def andThen_eq_Ok bind_res_eq_Ok split: option.splits if_splits)
  obtain b where b: "platform_call c (get_backup api (RestoreBackupUUID opts)) w1 = (Ok b, w2)" "o1 = opts\<lparr>backup := Some b\<rparr>"
    using s(2) by (auto simp: validateBackup_def andThen_eq_Ok)
  define name where "name = (if RestoreUniverseName opts \<noteq> [] then RestoreUniverseName opts else BackupUniverseUUID b)"
  have d1: "deref (backup o1) = Ok b" "RestoreUniverseName o1 = RestoreUniverseName opts" by (simp_all add: b(2) deref_def)
  have "andThen (GetUniverseByIdentifier env c name w2) (\<lambda>found w. ((case found of
                 None \<Rightarrow> Error (Err (''universe '' @ name @ '' does not exist''))
               | Some u \<Rightarrow> Ok (o1\<lparr>restore_universe := Some u\<rparr>)), w)) = (Ok o2, w3)"
    using s(3) by (simp only: validateUniverse_def d1 andThen_simps Let_def name_def)
  then obtain u where u: "GetUniverseByIdentifier env c name w2 = (Ok (Some u), w3)" "o2 = o1\<lparr>restore_universe := Some u\<rparr>"
    by (auto simp: andThen_eq_Ok split: option.splits)
  have d: "deref (restore_universe o2) = Ok u" "deref (backup o2) = Ok b" by (simp_all add: u(2) b(2) deref_def)
  obtain tables infos where k: "platform_call c (get_all_tables api (UniverseUUID u)) w3 = (Ok tables, w4)"
    "getBackupStorageInfo b = Ok infos" "existing_keyspace tables infos = None"
    using s(4) by (auto simp: validateKeyspaces_def d Let_def andThen_eq_Ok bind_res_eq_Ok split: option.splits)
  show thesis
    by (rule that [OF v b(1) name_def u(1)]) (use k s(5,6) u(2) b(2) in simp_all)
qed

subsection \<open>Properties\<close>

definition test_backup_api :: "nat backup_api" where
  "test_backup_api =
     \<lparr>create_multi_table_backup = (\<lambda>u r h c w. (Ok \<lparr>TaskUUID = ''t'', ResourceUUID = u\<rparr>, Suc w)),
      fetch_backups_by_task = (\<lambda>u t h c w. (Ok [], w)),
      list_backups = (\<lambda>u h c w. (Ok [], w)),
      get_backup = (\<lambda>u h c w. (Ok \<lparr>BackupUUID = u, BackupUniverseUUID = ''ab'',
        BackupDetails = Some \<lparr>BackupType = ''YQL_TABLE_TYPE'', BackupKeyspace = ''k'', BackupSse = False, BackupLocation = ''s3'',
          BackupTables = [], BackupStorageConfig = Some ''cd'', BackupParts = []\<rparr>\<rparr>, w)),
      get_all_tables = (\<lambda>u h c w. (Ok [\<lparr>TableType = ''PGSQL_TABLE_TYPE'', KeySpace = ''k''\<rparr>], w)),
      restore_backup = (\<lambda>r h c w. (Ok \<lparr>TaskUUID = ''t'', ResourceUUID = RUniverseUUID r\<rparr>, Suc w)),
      server_app_version = (\<lambda>w. (Ok (Some (show_version False version_2_13)), w)),
      json_of_backup = (\<lambda>b. JNull), backup_task_json = (\<lambda>t. JNull)\<rparr>"

definition test_backup_options :: BackupOptions where
  "test_backup_options = backup_flag_defaults\<lparr>BackupUniverseName := ''u1'', StorageConfig := ''s'', Database := ''d''\<rparr>"

text \<open>A validated backup is the one that was asked for, but for its tables. The request goes to the
  universe and the storage configuration that were found; an SQL backup is of the database, a CQL
  backup of the keyspace, with the flags of the other kind unset; its parallelism is the number
  of tablet servers times the threads per node while that fits 32 bits. \<open>--table\<close> is checked, but no list of
  tables changes the request: a table level backup is one of the whole keyspace.\<close>

theorem ValidateBackup_request:
  assumes "ValidateBackup env c opts w = (Ok opts', w')" "backup_universe opts' = Some u" "NodeIsTserver u = Some nodes"
    and "0 < Parallelism opts" "int (length (filter id nodes)) * Parallelism opts < 2 ^ 31"
  shows "\<exists>s request. storage opts' = Some s \<and> getCreateMultiTableBackupParams opts' = Ok (UniverseUUID u, request) \<and>
    MTStorageConfigUUID request = ConfigUUID s \<and>
    MTParallelism request = int (length (filter id nodes)) * Parallelism opts \<and>
    (MTBackupType request = ''PGSQL_TABLE_TYPE'' \<and> to_upper (BackupTypeFlag opts) = ''SQL'' \<and>
       MTKeyspace request = Database opts \<and> Keyspace opts = [] \<and> Tables opts = [] \<or>
     MTBackupType request = ''YQL_TABLE_TYPE'' \<and> to_upper (BackupTypeFlag opts) = ''CQL'' \<and>
       MTKeyspace request = Keyspace opts \<and> Database opts = []) \<and>
    getCreateMultiTableBackupParams (opts'\<lparr>Tables := ts\<rparr>) = Ok (UniverseUUID u, request)"
proof -
  obtain u' s where v: "opts' = opts\<lparr>BackupTypeFlag := to_upper (BackupTypeFlag opts), backup_universe := Some u', storage := Some s\<rparr>"
    "check_type opts' = Ok ()"
    by (rule ValidateBackup_OkD [OF assms(1)])
  then have [simp]: "u' = u" using assms(2) by simp
  have "backup_parallelism nodes (Parallelism opts) = int (length (filter id nodes)) * Parallelism opts"
    by (rule backup_parallelism_exact [OF assms(4,5)])
  then show ?thesis
    using v assms(3) by (auto simp: getCreateMultiTableBackupParams_def deref_def check_type_Ok)
qed

lemma ValidateBackup_request_witness:
  "\<exists>opts' request. ValidateBackup test_env test_client test_backup_options 0 = (Ok opts', 0) \<and>
     getCreateMultiTableBackupParams opts' = Ok (''ab'', request) \<and> MTParallelism request = 3"
proof -
  have up: "to_upper ''sql'' = ''SQL''" by code_simp
  let ?u = "\<lparr>UniverseName = ''u1'', UniverseUUID = ''ab'', NodeIsTserver = Some [True, False]\<rparr>"
  have "\<exists>opts'. ValidateBackup test_env test_client test_backup_options 0 = (Ok opts', 0) \<and> backup_universe opts' = Some ?u"
    by (simp add: ValidateBackup_def validateBackupUniverseName_def GetUniverseByIdentifier_def GetStorageConfigByIdentifier_def
        platform_call_def SwaggerAuth_def test_env_def test_client_def test_backup_options_def backup_flag_defaults_def up
        check_type_def validateCreateOptionsSQL_def validateStorageOptions_def deref_def Let_def)
  then obtain opts' where v: "ValidateBackup test_env test_client test_backup_options 0 = (Ok opts', 0)"
      "backup_universe opts' = Some ?u" by blast
  have "NodeIsTserver ?u = Some [True, False]" by simp
  from ValidateBackup_request [OF v this] show ?thesis
    using v by (auto simp: test_backup_options_def backup_flag_defaults_def)
qed

text \<open>C20: A restore never writes into a keyspace that is there. When validation passed, the request names
  the universe that was found, by its name or as the backup's own, the server's version is not below
  2.13.0.0, and no part of the backup in the request has the type and the keyspace of a table that the universe listed.\<close>

theorem ValidateRestore_no_overwrite:
  assumes "ValidateRestore env api c opts w = (Ok opts', w')" "getRestoreParams c opts' = Ok request"
  shows "\<exists>u b tables version v w1 w2 w3. restore_universe opts' = Some u \<and> RUniverseUUID request = UniverseUUID u \<and>
    GetUniverseByIdentifier env c (if RestoreUniverseName opts \<noteq> [] then RestoreUniverseName opts else BackupUniverseUUID b) w1
      = (Ok (Some u), w2) \<and> backup opts' = Some b \<and>
    platform_call c (get_all_tables api (UniverseUUID u)) w2 = (Ok tables, w') \<and>
    (\<forall>i\<in>set (BackupStorageInfoList request). \<forall>t\<in>set tables.
       TableType t \<noteq> StorageBackupType i \<or> KeySpace t \<noteq> StorageKeyspace i) \<and>
    server_app_version api w = (Ok (Some v), w3) \<and> New v = Ok version \<and> \<not> Lt version version_2_13"
proof -
  obtain b u v version infos tables name w1 w2 w3 w4 w5 where r:
    "server_app_version api w = (Ok (Some v), w1)" "New v = Ok version" "\<not> Lt version version_2_13"
    "platform_call c (get_backup api (RestoreBackupUUID opts)) w1 = (Ok b, w2)"
    "name = (if RestoreUniverseName opts \<noteq> [] then RestoreUniverseName opts else BackupUniverseUUID b)"
    "GetUniverseByIdentifier env c name w2 = (Ok (Some u), w3)"
    "platform_call c (get_all_tables api (UniverseUUID u)) w3 = (Ok tables, w')"
    "getBackupStorageInfo b = Ok infos" "existing_keyspace tables infos = None"
    "opts' = opts\<lparr>backup := Some b, restore_universe := Some u\<rparr>"
    by (rule ValidateRestore_OkD [OF assms(1)])
  have "BackupStorageInfoList request = infos \<and> RUniverseUUID request = UniverseUUID u"
    using assms(2) r(8,10) by (auto simp: getRestoreParams_def deref_def bind_res_eq_Ok)
  moreover have "\<forall>i\<in>set infos. \<forall>t\<in>set tables. TableType t \<noteq> StorageBackupType i \<or> KeySpace t \<noteq> StorageKeyspace i"
    using r(9) by (auto simp: existing_keyspace_None) (metis keyspaceType.surjective unit.exhaust)
  ultimately show ?thesis
    using r by (intro exI [of _ u] exI [of _ b] exI [of _ tables] exI [of _ version] exI [of _ v] exI [of _ w2] exI [of _ w3] exI [of _ w1]) simp
qed

lemma ValidateRestore_no_overwrite_witness:
  "\<exists>opts' request. ValidateRestore test_env test_backup_api test_client restore_flag_defaults 0 = (Ok opts', 0) \<and>
     getRestoreParams test_client opts' = Ok request \<and> RUniverseUUID request = ''ab'' \<and>
     map StorageKeyspace (BackupStorageInfoList request) = [''k'']"
proof -
  have lower: "to_lower ''ab'' = ''ab''" by code_simp
  have new: "New (show_version False version_2_13) = Ok version_2_13" by (rule denotes_New [OF show_version_denotes])
  have lt: "\<not> Lt version_2_13 version_2_13" by (simp add: Lt_def Compare_def)
  have "\<exists>opts' request. ValidateRestore test_env test_backup_api test_client restore_flag_defaults 0 = (Ok opts', 0) \<and>
      getRestoreParams test_client opts' = Ok request \<and> map StorageKeyspace (BackupStorageInfoList request) = [''k''] \<and>
      restore_universe opts' = Some \<lparr>UniverseName = ''u1'', UniverseUUID = ''ab'', NodeIsTserver = Some [True, False]\<rparr>"
    by (simp add: ValidateRestore_def validateServerVersion_def validateBackup_def validateUniverse_def validateKeyspaces_def
        GetUniverseByIdentifier_def platform_call_def SwaggerAuth_def test_env_def test_client_def test_backup_api_def
        restore_flag_defaults_def lower new lt getBackupStorageInfo_def existing_keyspace_def getRestoreParams_def deref_def Let_def)
  then obtain opts' request where v: "ValidateRestore test_env test_backup_api test_client restore_flag_defaults 0 = (Ok opts', 0)"
      "getRestoreParams test_client opts' = Ok request" "map StorageKeyspace (BackupStorageInfoList request) = [''k'']"
      "restore_universe opts' = Some \<lparr>UniverseName = ''u1'', UniverseUUID = ''ab'', NodeIsTserver = Some [True, False]\<rparr>"
    by (elim exE conjE) (rule that)
  from ValidateRestore_no_overwrite [OF v(1,2)] show ?thesis using v by auto
qed

text \<open>The backups of exactly the universes that were named are listed. A list that succeeds has
  printed one table for each universe whose name or UUID is among the arguments, in the
  order of the server, and one for every universe where none was named.\<close>

theorem list_each_exact:
  assumes "list_each api pr output c identifiers includeRestore us w = (Ok printed, w')"
  shows "map fst printed =
    filter (\<lambda>u. identifiers = [] \<or> UniverseName u \<in> set identifiers \<or> UniverseUUID u \<in> set identifiers) us"
proof -
  have should: "shouldListBackups u identifiers \<longleftrightarrow>
      identifiers = [] \<or> UniverseName u \<in> set identifiers \<or> UniverseUUID u \<in> set identifiers" for u
    by (auto simp: shouldListBackups_def matchesUniverse_def list_ex_iff)
  show ?thesis
    using assms
  proof (induction us arbitrary: w printed)
    case Nil
    then show ?case by simp
  next
    case (Cons u us)
    then show ?case by (cases "shouldListBackups u identifiers") (auto simp: andThen_eq_Ok should)
  qed
qed

lemma list_each_exact_witness:
  "map fst (case fst (list_each test_backup_api test_printer ''table'' test_client [''b''] False
      [\<lparr>UniverseName = ''a'', UniverseUUID = ''1'', NodeIsTserver = None\<rparr>,
       \<lparr>UniverseName = ''b'', UniverseUUID = ''2'', NodeIsTserver = None\<rparr>] 0) of Ok l \<Rightarrow> l | _ \<Rightarrow> []) =
     [\<lparr>UniverseName = ''b'', UniverseUUID = ''2'', NodeIsTserver = None\<rparr>]"
proof -
  let ?us = "[\<lparr>UniverseName = ''a'', UniverseUUID = ''1'', NodeIsTserver = None\<rparr>,
       \<lparr>UniverseName = ''b'', UniverseUUID = ''2'', NodeIsTserver = None\<rparr>]"
  obtain l where l: "list_each test_backup_api test_printer ''table'' test_client [''b''] False ?us 0 = (Ok l, 0)"
    by (simp add: shouldListBackups_def matchesUniverse_def platform_call_def SwaggerAuth_def test_client_def test_backup_api_def)
  from list_each_exact [OF this] l show ?thesis by simp
qed

end
