(* ===== verification/YWSession.thy ===== *)
theory YWSession
  imports YWUniverse
begin

section \<open>Sessions, registration and server information\<close>

text \<open>
  The commands \<open>login\<close>, \<open>register\<close>, \<open>version\<close> and \<open>session server_log\<close> of \<open>yugaware-client/cmd\<close>. The generated
  operations they call, and the text of a host in an error, are the record \<open>session_api\<close>. Registration waits for
  the server: one round of its loop is one event of the select and one attempt to connect.
\<close>

record 'w session_api =
  customer_count :: "'w \<Rightarrow> int option res \<times> 'w"
  generate_api_token :: "headers \<Rightarrow> string \<Rightarrow> 'w \<Rightarrow> json res \<times> 'w"
  get_logs :: "int \<Rightarrow> headers \<Rightarrow> string \<Rightarrow> 'w \<Rightarrow> string list option option res \<times> 'w"
  session_app_version :: "'w \<Rightarrow> string option res \<times> 'w"
  json_of_logs :: "string list \<Rightarrow> json"
  host_text :: "host_port \<Rightarrow> string"

subsection \<open>The text of an error\<close>

text \<open>\<open>err.Error()\<close>; \<open>strconv\<close> quotes its input, here a string of printable characters.\<close>

fun error_text :: "(host_port \<Rightarrow> string) \<Rightarrow> goerror \<Rightarrow> string" where
  "error_text host (Err s) = s"
| "error_text host (Wrap p e) = p @ error_text host e"
| "error_text host (AddrError reason addr) = (if addr \<noteq> [] then ''address '' @ addr @ '': '' @ reason else reason)"
| "error_text host (NumError fn num reason) = ''strconv.'' @ fn @ '': parsing \"'' @ num @ ''\": '' @ reason"
| "error_text host (DialError hp e) = ''session.Dial '' @ host hp @ '': '' @ error_text host e"
| "error_text host EOF = ''EOF''"

subsection \<open>Logging in\<close>

record LoginOptions =
  LoginEmailFlag :: string
  LoginPasswordFlag :: string

text \<open>The password is asked for when it was not given; the terminal is part of the world.\<close>

definition ValidateLogin :: "('w \<Rightarrow> string res \<times> 'w) \<Rightarrow> LoginOptions \<Rightarrow> 'w \<Rightarrow> LoginOptions res \<times> 'w" where
  "ValidateLogin read_password opts w =
     (if LoginPasswordFlag opts = []
      then andThen (PasswordPrompt read_password w) (\<lambda>password w. (Ok (opts\<lparr>LoginPasswordFlag := password\<rparr>), w))
      else (Ok opts, w))"

definition loginToYugaware :: "'w yw_env \<Rightarrow> YugawareClient \<Rightarrow> LoginOptions \<Rightarrow> 'w \<Rightarrow> YugawareClient res \<times> 'w" where
  "loginToYugaware env c opts w =
     Login env \<lparr>LoginEmail = LoginEmailFlag opts, LoginPassword = LoginPasswordFlag opts\<rparr> c w"

subsection \<open>Registering\<close>

record RegisterOptions =
  Environment :: string
  FullName :: string
  RegEmail :: string
  RegPassword :: string
  GenerateAPIToken :: bool

definition ValidateRegister :: "('w \<Rightarrow> string res \<times> 'w) \<Rightarrow> RegisterOptions \<Rightarrow> 'w \<Rightarrow> RegisterOptions res \<times> 'w" where
  "ValidateRegister read_password opts w =
     (if RegPassword opts = []
      then andThen (PasswordPrompt read_password w) (\<lambda>password w. (Ok (opts\<lparr>RegPassword := password\<rparr>), w))
      else (Ok opts, w))"

definition api_token_output :: "string \<Rightarrow> json \<Rightarrow> Output" where
  "api_token_output output token =
     \<lparr>OutputMessage = [], JSONObject = token, OutputType = output,
      TableColumns = map (\<lambda>(n, p). \<lparr>ColumnName = n, JSONPath = p, Expr = []\<rparr>)
        [(''API_TOKEN'', ''$.apiToken''), (''CUSTOMER_UUID'', ''$.customerUUID''), (''USER_UUID'', ''$.userUUID'')],
      Filter = []\<rparr>"

definition generateAPIKey ::
  "'w session_api \<Rightarrow> printer \<Rightarrow> string \<Rightarrow> YugawareClient \<Rightarrow> 'w \<Rightarrow> string res \<times> 'w" where
  "generateAPIKey api pr output c w =
     andThen (wrap_state ''unable to generate API Token: '' (platform_call c (generate_api_token api) w)) (\<lambda>token w.
       (Println pr (api_token_output output token), w))"

definition registration_request :: "RegisterOptions \<Rightarrow> RegisterYugawareRequest" where
  "registration_request opts =
     \<lparr>RegisterCode = Environment opts, RegisterName = FullName opts, RegisterEmail = RegEmail opts,
      RegisterPassword = RegPassword opts, ConfirmPassword = RegPassword opts, ConfirmEula = True\<rparr>"

definition registerYugaware ::
  "'w yw_env \<Rightarrow> 'w session_api \<Rightarrow> printer \<Rightarrow> string \<Rightarrow> YugawareClient \<Rightarrow> RegisterOptions \<Rightarrow> 'w \<Rightarrow> string res \<times> 'w" where
  "registerYugaware env api pr output c opts w =
     andThen (customer_count api w) (\<lambda>n w.
     andThen (deref n, w) (\<lambda>n w.
       if n \<noteq> 0 then (Ok [], w)
       else andThen (RegisterYugaware env (registration_request opts) c w) (\<lambda>response w.
            andThen (wrap_state ''unable to log in: ''
                      (Login env \<lparr>LoginEmail = RegEmail opts, LoginPassword = RegPassword opts\<rparr> c w)) (\<lambda>c w.
              if GenerateAPIToken opts then generateAPIKey api pr output c w else (Ok [], w)))))"

definition still_starting :: "'w session_api \<Rightarrow> goerror \<Rightarrow> bool" where
  "still_starting api e \<longleftrightarrow>
     has_suffix ''connect: connection refused'' (error_text (host_text api) e) \<or>
     error_text (host_text api) e = ''connected but server responded 502: yugaware may not be up yet''"

definition register_round ::
  "'w yw_env \<Rightarrow> 'w session_api \<Rightarrow> printer \<Rightarrow> ('w \<Rightarrow> wait_event \<times> 'w) \<Rightarrow> YWGlobalOptions \<Rightarrow> RegisterOptions \<Rightarrow> 'w \<Rightarrow>
     string res option \<times> 'w" where
  "register_round env api pr select g opts w =
     (case select w of
        (TimedOut, w1) \<Rightarrow> (Some (Error (Err ''failed to connect to yugaware within timeout'')), w1)
      | (Done, w1) \<Rightarrow> (Some (Ok []), w1)
      | (Tick, w1) \<Rightarrow>
          (case ConnectToYugaware env g w1 of
             (Panic p, w2) \<Rightarrow> (Some (Panic p), w2)
           | (Error e, w2) \<Rightarrow> (if still_starting api e then None else Some (Error e), w2)
           | (Ok c, w2) \<Rightarrow>
               (case registerYugaware env api pr (OutputFormat g) c opts w2 of (r, w3) \<Rightarrow> (Some r, w3))))"

text \<open>An API token is never used for registration. \<open>None\<close>: the command never returns.\<close>

definition RegisterCmd ::
  "'w yw_env \<Rightarrow> 'w session_api \<Rightarrow> printer \<Rightarrow> ('w \<Rightarrow> wait_event \<times> 'w) \<Rightarrow> ('w \<Rightarrow> string res \<times> 'w) \<Rightarrow> YWGlobalOptions \<Rightarrow>
     RegisterOptions \<Rightarrow> 'w \<Rightarrow> (string res \<times> 'w) option" where
  "RegisterCmd env api pr select read_password g opts w =
     (case ValidateRegister read_password opts w of
        (Error e, w1) \<Rightarrow> Some (Error e, w1)
      | (Panic p, w1) \<Rightarrow> Some (Panic p, w1)
      | (Ok opts, w1) \<Rightarrow> poll_loop (register_round env api pr select (g\<lparr>APITokenFlag := []\<rparr>) opts) w1)"

subsection \<open>Versions and logs\<close>

definition getServerVersion :: "'w yw_env \<Rightarrow> 'w session_api \<Rightarrow> YWGlobalOptions \<Rightarrow> 'w \<Rightarrow> string res \<times> 'w" where
  "getServerVersion env api g w =
     andThen (ConnectToYugaware env g w) (\<lambda>c w.
     andThen (session_app_version api w) (\<lambda>v w.
       ((case v of
           None \<Rightarrow> Error (Err ''app version response did not contain version string'')
         | Some v \<Rightarrow> Ok v), w)))"

text \<open>An empty server version is left out of the object, and an error of the server is only logged.\<close>

definition version_output :: "string \<Rightarrow> string \<Rightarrow> string \<Rightarrow> Output" where
  "version_output output client server =
     \<lparr>OutputMessage = [],
      JSONObject = JObject ([(''clientVersion'', JString client)] @
        (if server \<noteq> [] then [(''serverVersion'', JString server)] else [])),
      OutputType = output,
      TableColumns = map (\<lambda>(n, p). \<lparr>ColumnName = n, JSONPath = p, Expr = []\<rparr>)
        [(''CLIENT_VERSION'', ''$.clientVersion''), (''SERVER_VERSION'', ''$.serverVersion'')],
      Filter = []\<rparr>"

definition version_cmd ::
  "'w yw_env \<Rightarrow> 'w session_api \<Rightarrow> printer \<Rightarrow> YWGlobalOptions \<Rightarrow> string \<Rightarrow> 'w \<Rightarrow> string res \<times> 'w" where
  "version_cmd env api pr g client w =
     (case getServerVersion env api g w of
        (Panic p, w1) \<Rightarrow> (Panic p, w1)
      | (Error e, w1) \<Rightarrow> (Print pr (version_output (OutputFormat g) client []), w1)
      | (Ok v, w1) \<Rightarrow> (Print pr (version_output (OutputFormat g) client v), w1))"

text \<open>\<open>server_log\<close>: the number of lines is an unsigned integer turned into a 32-bit one. For the table format the
  lines are written one by one, here as a list; the other formats are printed.\<close>

definition log_lines_default :: "64 word" where
  "log_lines_default = 50"

definition log_output :: "'w session_api \<Rightarrow> string \<Rightarrow> string list option \<Rightarrow> Output" where
  "log_output api output payload =
     \<lparr>OutputMessage = [], JSONObject = (case payload of None \<Rightarrow> JNull | Some lines \<Rightarrow> json_of_logs api lines),
      OutputType = output, TableColumns = [], Filter = []\<rparr>"

definition serverLog ::
  "'w session_api \<Rightarrow> printer \<Rightarrow> string \<Rightarrow> YugawareClient \<Rightarrow> 64 word \<Rightarrow> 'w \<Rightarrow> string list res \<times> 'w" where
  "serverLog api pr output c logLines w =
     andThen (platform_call c (get_logs api (sint (ucast logLines :: 32 word))) w) (\<lambda>response w.
       ((case response of
           None \<Rightarrow> Error (Err ''unable to retrieve server logs: %!w(<nil>)'')
         | Some payload \<Rightarrow>
             (if output \<noteq> ''table'' then bind_res (Println pr (log_output api output payload)) (\<lambda>text. Ok [text])
              else Ok (case payload of None \<Rightarrow> [] | Some lines \<Rightarrow> map (\<lambda>l. l @ ''\<newline>'') lines))), w))"

subsection \<open>Lemmas\<close>

lemma Login_sends:
  assumes "Login env request c w = (Ok c', w')"
  shows "\<exists>out response w1 w2. Do env (DecodeResponseInto (token_of_json env) (RequestBody (login_json env request)
      (Path env ''/api/v1/login'' (Post (newRequest c))))) w = (out, w1) \<and> answered_with out = Ok response \<and>
      c' = c\<lparr>authToken := AuthTokenValue response, customerUUID := AuthCustomerUUID response, userUUID := AuthUserUUID response\<rparr> \<and>
      jar_save env w1 = (Ok (), w')"
  using assms by (auto simp: Login_def persistCookies_def andThen_eq_Ok split: prod.splits)

lemma register_round_waits:
  assumes "select w = (Tick, w1)" "ConnectToYugaware env g w1 = (Error e, w2)" "still_starting api e"
  shows "register_round env api pr select g opts w = (None, w2)"
  using assms by (simp add: register_round_def)

lemma after_waiting:
  assumes "\<And>k. k < n \<Longrightarrow> \<exists>w1 e. select (ws k) = (Tick, w1) \<and> ConnectToYugaware env g w1 = (Error e, ws (Suc k)) \<and> still_starting api e"
    and "k \<le> n"
  shows "after_rounds (register_round env api pr select g opts) k (ws 0) = ws k"
  using assms(2)
proof (induction k)
  case 0
  then show ?case by simp
next
  case (Suc k)
  then obtain w1 e where k: "select (ws k) = (Tick, w1)" "ConnectToYugaware env g w1 = (Error e, ws (Suc k))" "still_starting api e"
    using assms(1) [of k] by auto
  have "after_rounds (register_round env api pr select g opts) (Suc k) (ws 0)
      = snd (register_round env api pr select g opts (after_rounds (register_round env api pr select g opts) k (ws 0)))"
    by (simp add: after_rounds_def)
  then show ?case using Suc by (simp add: register_round_waits [where select = select and w = "ws k", OF k])
qed

lemma register_loop:
  assumes "\<And>k. k < n \<Longrightarrow> \<exists>w1 e. select (ws k) = (Tick, w1) \<and> ConnectToYugaware env g w1 = (Error e, ws (Suc k)) \<and> still_starting api e"
    and "register_round env api pr select g opts (ws n) = (Some r, w')"
  shows "poll_loop (register_round env api pr select g opts) (ws 0) = Some (r, w')"
proof (rule poll_loop_returns [where n = n])
  show "register_round env api pr select g opts (after_rounds (register_round env api pr select g opts) n (ws 0)) = (Some r, w')"
    using assms(2) by (simp add: after_waiting [where ws = ws and n = n and select = select, OF assms(1)])
  show "fst (register_round env api pr select g opts (after_rounds (register_round env api pr select g opts) k (ws 0))) = None"
    if k: "k < n" for k
  proof -
    obtain w1 e where "select (ws k) = (Tick, w1)" "ConnectToYugaware env g w1 = (Error e, ws (Suc k))" "still_starting api e"
      using assms(1) [OF k] by blast
    from register_round_waits [where select = select and w = "ws k", OF this] show ?thesis using k by (simp add: after_waiting [where ws = ws and n = n and select = select, OF assms(1)])
  qed
qed

lemma line_count_wraps: "sint (ucast (2147483648 :: 64 word) :: 32 word) = - 2147483648"
  by simp

subsection \<open>Properties\<close>


text \<open>A server is registered once. When it has a customer, \<open>register\<close> ends without an error and sends nothing more; when
  it has none, the command succeeds only if the registration was accepted and then a login with the same
  email and password, with the password confirmed and the licence accepted; an error of the
  registration is returned before any login.\<close>

theorem registerYugaware_once:
  assumes "customer_count api w = (Ok (Some n), w1)"
  shows "(n \<noteq> 0 \<longrightarrow> registerYugaware env api pr output c opts w = (Ok [], w1)) \<and>
    (n = 0 \<longrightarrow>
      (\<forall>out w'. registerYugaware env api pr output c opts w = (Ok out, w') \<longrightarrow>
        (\<exists>response w2 c' w3. RegisterYugaware env (registration_request opts) c w1 = (Ok response, w2) \<and>
           Login env \<lparr>LoginEmail = RegisterEmail (registration_request opts),
                      LoginPassword = ConfirmPassword (registration_request opts)\<rparr> c w2 = (Ok c', w3) \<and>
           (if GenerateAPIToken opts then generateAPIKey api pr output c' w3 = (Ok out, w') else out = [] \<and> w' = w3))) \<and>
      (\<forall>e w2. RegisterYugaware env (registration_request opts) c w1 = (Error e, w2) \<longrightarrow>
        registerYugaware env api pr output c opts w = (Error e, w2)))"
proof -
  have r: "RegisterEmail (registration_request opts) = RegEmail opts" "ConfirmPassword (registration_request opts) = RegPassword opts"
    by (simp_all add: registration_request_def)
  show ?thesis
    unfolding r using assms by (auto simp: registerYugaware_def deref_def andThen_eq_Ok split: if_splits)
qed

text \<open>A server that is starting for one second and has a customer already.\<close>

definition starting_env :: "nat yw_env" where
  "starting_env = test_env\<lparr>do_request := (\<lambda>s r w. if w < 1 then (Inl (Err ''connect: connection refused''), Suc w)
     else (Inr (200, Inr ''{}''), w))\<rparr>"

definition test_session_api :: "nat session_api" where
  "test_session_api =
     \<lparr>customer_count = (\<lambda>w. (Ok (Some 1), w)), generate_api_token = (\<lambda>h c w. (Ok JNull, w)), get_logs = (\<lambda>n h c w. (Ok None, w)),
      session_app_version = (\<lambda>w. (Ok None, w)), json_of_logs = (\<lambda>l. JNull), host_text = hp_host\<rparr>"

definition test_register_options :: RegisterOptions where
  "test_register_options =
     \<lparr>Environment = ''dev'', FullName = ''A'', RegEmail = ''a'', RegPassword = ''p'', GenerateAPIToken = False\<rparr>"

lemma registerYugaware_once_witness:
  "registerYugaware test_env test_session_api test_printer ''table'' test_client test_register_options 0 = (Ok [], 0)"
proof -
  have "customer_count test_session_api 0 = (Ok (Some 1), 0)" by (simp add: test_session_api_def)
  from registerYugaware_once [OF this] show ?thesis by simp
qed


end
