(* ===== verification/YWProvider.thy ===== *)
theory YWProvider
  imports YWUniverse
begin

section \<open>Providers, storage and certificates\<close>

text \<open>
  \<open>yugaware-client/cmd/provider\<close>, \<open>cmd/storage\<close> and \<open>cmd/certificate\<close>: the Kubernetes provider made of a
  configuration file, the storage configurations for GCS and S3, and the lists. YAML and JSON decoding, URLs,
  files, the order of a Go map and the generated operations are the record \<open>provider_api\<close>. A coordinate is in tenths of a degree.
\<close>

subsection \<open>Data\<close>

record ZoneConfig =
  KubernetesNamespace :: string
  ZoneStorageClass :: string
  Overrides :: string
  ZoneKubeconfigPath :: string

record ZoneInfo =
  ZoneName :: string
  ZoneSettings :: ZoneConfig

record RegionInfo =
  RegionInfoCode :: string
  ZoneInfos :: "ZoneInfo list"

record KubernetesProvider =
  KubeName :: string
  KubeconfigPath :: string
  ServiceAccountName :: string
  ImageRegistry :: string
  ImagePullSecretPath :: string
  KubeRegions :: "RegionInfo list"

record AvailabilityZone =
  AZCode :: string
  AZName :: string
  AZConfig :: "string \<rightharpoonup> string"

record KubeRegion =
  KubeRegionCode :: string
  KubeRegionName :: string
  Latitude :: int
  Longitude :: int
  Zones :: "AvailabilityZone list"

record ProviderRequest =
  RequestCode :: string
  RequestConfig :: "string \<rightharpoonup> string"
  RequestName :: string
  RequestRegions :: "KubeRegion list"

record bucket_url =
  Scheme :: string
  URLRest :: string

record GCSStorageConfig =
  GCSBackupLocation :: string
  GCSCredentialsJSON :: string

record S3StorageConfig =
  BackupLocationS3 :: string
  AWSHostBase :: "string option"
  IAMInstanceProfile :: "string option"
  AWSAccessKeyID :: "string option"
  AWSSecretAccessKey :: "string option"

datatype storage_data = GCSData GCSStorageConfig | S3Data S3StorageConfig

record CustomerConfig =
  CustomerConfigType :: string
  CustomerConfigKind :: string
  CustomerConfigName :: string
  CustomerConfigData :: storage_data

record 'w provider_api =
  yaml_to_json :: "string \<Rightarrow> string res"
  kubernetes_of_json :: "string \<Rightarrow> KubernetesProvider res"
  secret_name_of_yaml :: "string \<Rightarrow> string res"
  map_order :: "string list \<Rightarrow> string list"
  stat_file :: "string \<Rightarrow> unit res"
  parse_bucket :: "string \<Rightarrow> bucket_url res"
  bucket_text :: "bucket_url \<Rightarrow> string"
  create_provider :: "ProviderRequest \<Rightarrow> headers \<Rightarrow> string \<Rightarrow> 'w \<Rightarrow> unit res \<times> 'w"
  create_config :: "CustomerConfig \<Rightarrow> headers \<Rightarrow> string \<Rightarrow> 'w \<Rightarrow> json res \<times> 'w"
  root_certificate :: "string \<Rightarrow> headers \<Rightarrow> string \<Rightarrow> 'w \<Rightarrow> (json \<times> string) res \<times> 'w"
  certificates_json :: "headers \<Rightarrow> string \<Rightarrow> 'w \<Rightarrow> json res \<times> 'w"
  providers_json :: "headers \<Rightarrow> string \<Rightarrow> 'w \<Rightarrow> json res \<times> 'w"
  configs_json :: "headers \<Rightarrow> string \<Rightarrow> 'w \<Rightarrow> json res \<times> 'w"

subsection \<open>The Kubernetes provider\<close>

definition readKubernetesConfiguration ::
  "'w yw_env \<Rightarrow> 'w provider_api \<Rightarrow> string \<Rightarrow> KubernetesProvider res" where
  "readKubernetesConfiguration env api config =
     bind_res (read_file env config) (\<lambda>bytes.
     bind_res (yaml_to_json api bytes) (\<lambda>j. kubernetes_of_json api j))"

definition kubernetesProviderAlreadyConfigured :: "ProviderResp list \<Rightarrow> string \<Rightarrow> string \<Rightarrow> bool" where
  "kubernetesProviderAlreadyConfigured providers name code =
     list_ex (\<lambda>p. ProviderName p = name \<and> ProviderCode p = code) providers"

definition region_data :: "KubeRegion list" where
  "region_data = map (\<lambda>(code, name, lat, long).
       \<lparr>KubeRegionCode = code, KubeRegionName = name, Latitude = lat, Longitude = long, Zones = []\<rparr>)
     [(''us-west'', ''US West'', 370, - 1210), (''us-east'', ''US East'', 368, - 790), (''us-south'', ''US South'', 280, - 990),
      (''us-north'', ''US North'', 480, - 1180), (''south-asia'', ''South Asia'', 184, 784),
      (''south-east-asia'', ''SE Asia'', 140, 1010), (''new-zealand'', ''New Zealand'', - 430, 1710),
      (''japan'', ''Japan'', 360, 1390), (''eu-west'', ''EU West'', 480, 30), (''eu-east'', ''EU East'', 460, 250),
      (''china'', ''China'', 312, 1215), (''brazil'', ''Brazil'', - 220, - 430), (''australia'', ''Australia'', - 290, 1480)]"

definition lookupGkeRegion :: "'w provider_api \<Rightarrow> string \<Rightarrow> KubeRegion res" where
  "lookupGkeRegion api regionCode =
     (case find (\<lambda>r. KubeRegionCode r = regionCode) region_data of
        Some r \<Rightarrow> Ok r
      | None \<Rightarrow> Error (Err (''invalid region: '' @ regionCode @ '' must be one of: ['' @
                         join_with '' '' (map_order api (map KubeRegionCode region_data)) @ '']'')))"

text \<open>Whatever goes wrong with the pull secret is logged, and there is none.\<close>

definition getPullSecret :: "'w yw_env \<Rightarrow> 'w provider_api \<Rightarrow> string \<Rightarrow> (string \<times> string \<times> string) res" where
  "getPullSecret env api secretPath =
     (if secretPath = [] then Ok ([], [], [])
      else case read_file env secretPath of
        Error e \<Rightarrow> Ok ([], [], [])
      | Panic p \<Rightarrow> Panic p
      | Ok secret \<Rightarrow>
          (case secret_name_of_yaml api secret of
             Error e \<Rightarrow> Ok ([], [], [])
           | Panic p \<Rightarrow> Panic p
           | Ok name \<Rightarrow> Ok (secret, name, name @ ''.yaml'')))"

definition getKubernetesZone :: "'w yw_env \<Rightarrow> ZoneInfo \<Rightarrow> string \<Rightarrow> AvailabilityZone res" where
  "getKubernetesZone env info kubeconfig =
     (let config = ZoneSettings info in
      bind_res (if ZoneKubeconfigPath config \<noteq> [] then read_file env (ZoneKubeconfigPath config) else Ok kubeconfig) (\<lambda>kubeconfig.
        (let m = [''OVERRIDES'' \<mapsto> Overrides config, ''KUBECONFIG_NAME'' \<mapsto> ZoneName info @ ''-kubeconfig'',
                  ''KUBECONFIG_CONTENT'' \<mapsto> kubeconfig];
             m = (if ZoneStorageClass config \<noteq> [] then m(''STORAGE_CLASS'' \<mapsto> ZoneStorageClass config) else m);
             m = (if KubernetesNamespace config \<noteq> [] then m(''KUBENAMESPACE'' \<mapsto> KubernetesNamespace config) else m)
         in Ok \<lparr>AZCode = ZoneName info, AZName = ZoneName info, AZConfig = m\<rparr>)))"

fun append_zones :: "'w yw_env \<Rightarrow> string \<Rightarrow> ZoneInfo list \<Rightarrow> KubeRegion \<Rightarrow> KubeRegion res" where
  "append_zones env kubeconfig [] r = Ok r"
| "append_zones env kubeconfig (z # zs) r =
     bind_res (getKubernetesZone env z kubeconfig) (\<lambda>zone. append_zones env kubeconfig zs (r\<lparr>Zones := Zones r @ [zone]\<rparr>))"

fun append_regions ::
  "'w yw_env \<Rightarrow> 'w provider_api \<Rightarrow> string \<Rightarrow> RegionInfo list \<Rightarrow> KubeRegion list \<Rightarrow> KubeRegion list res" where
  "append_regions env api kubeconfig [] rs = Ok rs"
| "append_regions env api kubeconfig (i # is) rs =
     bind_res (lookupGkeRegion api (RegionInfoCode i)) (\<lambda>r.
     bind_res (append_zones env kubeconfig (ZoneInfos i) r) (\<lambda>r. append_regions env api kubeconfig is (rs @ [r])))"

definition makeKubernetesProviderRequest ::
  "'w yw_env \<Rightarrow> 'w provider_api \<Rightarrow> KubernetesProvider \<Rightarrow> ProviderRequest res" where
  "makeKubernetesProviderRequest env api p =
     (let registry = (if ImageRegistry p = [] then ''quay.io/yugabyte/yugabyte'' else ImageRegistry p) in
      bind_res (read_file env (KubeconfigPath p)) (\<lambda>kubeconfig.
      bind_res (getPullSecret env api (ImagePullSecretPath p)) (\<lambda>(secret, secretName, secretFile).
      bind_res (append_regions env api kubeconfig (KubeRegions p) []) (\<lambda>regions.
        Ok \<lparr>RequestCode = ''kubernetes'',
            RequestConfig = [''KUBECONFIG_PROVIDER'' \<mapsto> ''gke'', ''KUBECONFIG_SERVICE_ACCOUNT'' \<mapsto> ServiceAccountName p,
              ''KUBECONFIG_IMAGE_REGISTRY'' \<mapsto> registry, ''KUBECONFIG_IMAGE_PULL_SECRET_NAME'' \<mapsto> secretName,
              ''KUBECONFIG_PULL_SECRET_NAME'' \<mapsto> secretFile, ''KUBECONFIG_PULL_SECRET_CONTENT'' \<mapsto> secret],
            RequestName = KubeName p, RequestRegions = regions\<rparr>))))"

definition registerKubernetesProvider ::
  "'w yw_env \<Rightarrow> 'w provider_api \<Rightarrow> YugawareClient \<Rightarrow> KubernetesProvider \<Rightarrow> 'w \<Rightarrow> unit res \<times> 'w" where
  "registerKubernetesProvider env api c p w =
     andThen (makeKubernetesProviderRequest env api p, w) (\<lambda>request w. platform_call c (create_provider api request) w)"

definition createKubernetesProvider ::
  "'w yw_env \<Rightarrow> 'w provider_api \<Rightarrow> YugawareClient \<Rightarrow> KubernetesProvider \<Rightarrow> 'w \<Rightarrow> unit res \<times> 'w" where
  "createKubernetesProvider env api c config w =
     andThen (platform_call c (list_providers env) w) (\<lambda>providers w.
       if kubernetesProviderAlreadyConfigured providers (KubeName config) ''kubernetes'' then (Ok (), w)
       else registerKubernetesProvider env api c config w)"

definition KubernetesProviderCmd ::
  "'w yw_env \<Rightarrow> 'w provider_api \<Rightarrow> YugawareClient \<Rightarrow> string \<Rightarrow> 'w \<Rightarrow> unit res \<times> 'w" where
  "KubernetesProviderCmd env api c configPath w =
     andThen (readKubernetesConfiguration env api configPath, w) (\<lambda>config w. createKubernetesProvider env api c config w)"

subsection \<open>Storage configurations\<close>

text \<open>The scheme of a bucket is the expected one, or none.\<close>

definition bucket_of :: "'w provider_api \<Rightarrow> string \<Rightarrow> string \<Rightarrow> string \<Rightarrow> bucket_url res" where
  "bucket_of api kind scheme text =
     bind_res (parse_bucket api text) (\<lambda>u.
       let u = (if Scheme u = [] then u\<lparr>Scheme := scheme\<rparr> else u)
       in if Scheme u \<noteq> scheme
          then Error (Err (''failed to validate '' @ kind @ '' bucket scheme \"'' @ Scheme u @ ''\" expected \"'' @ scheme @ ''\"''))
          else Ok u)"

record GCSOptions =
  GCSName :: string
  GCSBucket :: string
  CredentialsFile :: string
  gcs_bucket :: "bucket_url option"
  credentials :: string

definition validateBucketGCS :: "'w provider_api \<Rightarrow> GCSOptions \<Rightarrow> GCSOptions res" where
  "validateBucketGCS api opts =
     bind_res (bucket_of api ''GCS'' ''gs'' (GCSBucket opts)) (\<lambda>u. Ok (opts\<lparr>gcs_bucket := Some u\<rparr>))"

definition validateCredentialsFile :: "'w yw_env \<Rightarrow> 'w provider_api \<Rightarrow> GCSOptions \<Rightarrow> GCSOptions res" where
  "validateCredentialsFile env api opts =
     wrap_error (''failed to validate credentials file \"'' @ CredentialsFile opts @ ''\": '')
       (bind_res (stat_file api (CredentialsFile opts)) (\<lambda>_.
        bind_res (read_file env (CredentialsFile opts)) (\<lambda>c. Ok (opts\<lparr>credentials := c\<rparr>))))"

definition ValidateGCS :: "'w yw_env \<Rightarrow> 'w provider_api \<Rightarrow> GCSOptions \<Rightarrow> GCSOptions res" where
  "ValidateGCS env api opts =
     bind_res (validateBucketGCS api opts) (\<lambda>opts. validateCredentialsFile env api opts)"

definition getGCSStorageConfigParams :: "'w provider_api \<Rightarrow> GCSOptions \<Rightarrow> CustomerConfig res" where
  "getGCSStorageConfigParams api opts =
     bind_res (deref (gcs_bucket opts)) (\<lambda>u.
       Ok \<lparr>CustomerConfigType = ''STORAGE'', CustomerConfigKind = ''GCS'', CustomerConfigName = GCSName opts,
           CustomerConfigData = GCSData \<lparr>GCSBackupLocation = bucket_text api u, GCSCredentialsJSON = credentials opts\<rparr>\<rparr>)"

definition storage_columns :: "Column list" where
  "storage_columns = map (\<lambda>(n, p). \<lparr>ColumnName = n, JSONPath = p, Expr = []\<rparr>)
     [(''UUID'', ''$.configUUID''), (''NAME'', ''$.configName''), (''BUCKET'', ''$.data.BACKUP_LOCATION''),
      (''TYPE'', ''$.name''), (''STATE'', ''$.state'')]"

definition storage_output :: "string \<Rightarrow> string \<Rightarrow> json \<Rightarrow> Output" where
  "storage_output kind output config =
     \<lparr>OutputMessage = ''Created '' @ kind @ '' Storage Provider'', JSONObject = config, OutputType = output,
      TableColumns = storage_columns, Filter = []\<rparr>"

definition makeGCS ::
  "'w provider_api \<Rightarrow> printer \<Rightarrow> string \<Rightarrow> YugawareClient \<Rightarrow> GCSOptions \<Rightarrow> 'w \<Rightarrow> string res \<times> 'w" where
  "makeGCS api pr output c opts w =
     andThen (getGCSStorageConfigParams api opts, w) (\<lambda>config w.
     andThen (platform_call c (create_config api config) w) (\<lambda>j w. (Print pr (storage_output ''GCS'' output j), w)))"

record S3Options =
  S3Name :: string
  S3Bucket :: string
  S3HostBase :: string
  UseIAMRole :: bool
  AccessKeyFlag :: string
  SecretKeyFlag :: string
  s3_bucket :: "bucket_url option"

definition validateIAMRole :: "S3Options \<Rightarrow> unit res" where
  "validateIAMRole opts =
     (if UseIAMRole opts then
        (if AccessKeyFlag opts \<noteq> [] \<or> SecretKeyFlag opts \<noteq> []
         then Error (Err ''unable to validate IAM role: flags \"aws-access-key\" and \"aws-secret-key\" must not be specified in \"use-iam-role\" mode'')
         else Ok ())
      else if AccessKeyFlag opts = [] then Error (Err ''unable to validate AWS keys: \"aws-access-key\" was not specified'')
      else if SecretKeyFlag opts = [] then Error (Err ''unable to validate AWS keys: \"aws-secret-key\" was not specified'')
      else Ok ())"

definition validateBucketS3 :: "'w provider_api \<Rightarrow> S3Options \<Rightarrow> S3Options res" where
  "validateBucketS3 api opts =
     bind_res (bucket_of api ''S3'' ''s3'' (S3Bucket opts)) (\<lambda>u. Ok (opts\<lparr>s3_bucket := Some u\<rparr>))"

definition ValidateS3 :: "'w provider_api \<Rightarrow> S3Options \<Rightarrow> S3Options res" where
  "ValidateS3 api opts =
     bind_res (validateIAMRole opts) (\<lambda>_. validateBucketS3 api opts)"

definition getS3StorageConfigParams :: "'w provider_api \<Rightarrow> S3Options \<Rightarrow> CustomerConfig res" where
  "getS3StorageConfigParams api opts =
     bind_res (deref (s3_bucket opts)) (\<lambda>u.
       Ok \<lparr>CustomerConfigType = ''STORAGE'', CustomerConfigKind = ''S3'', CustomerConfigName = S3Name opts,
           CustomerConfigData = S3Data
             \<lparr>BackupLocationS3 = bucket_text api u,
              AWSHostBase = (if S3HostBase opts \<noteq> [] then Some (S3HostBase opts) else None),
              IAMInstanceProfile = (if UseIAMRole opts then Some ''true'' else None),
              AWSAccessKeyID = (if AccessKeyFlag opts \<noteq> [] then Some (AccessKeyFlag opts) else None),
              AWSSecretAccessKey = (if SecretKeyFlag opts \<noteq> [] then Some (SecretKeyFlag opts) else None)\<rparr>\<rparr>)"

definition makeS3 ::
  "'w provider_api \<Rightarrow> printer \<Rightarrow> string \<Rightarrow> YugawareClient \<Rightarrow> S3Options \<Rightarrow> 'w \<Rightarrow> string res \<times> 'w" where
  "makeS3 api pr output c opts w =
     andThen (getS3StorageConfigParams api opts, w) (\<lambda>config w.
     andThen (platform_call c (create_config api config) w) (\<lambda>j w. (Print pr (storage_output ''S3'' output j), w)))"

subsection \<open>Lists and certificates\<close>

definition list_output :: "string \<Rightarrow> string \<Rightarrow> (string \<times> string) list \<Rightarrow> string \<Rightarrow> json \<Rightarrow> Output" where
  "list_output message output columns keep payload =
     \<lparr>OutputMessage = message, JSONObject = payload, OutputType = output,
      TableColumns = map (\<lambda>(n, p). \<lparr>ColumnName = n, JSONPath = p, Expr = []\<rparr>) columns, Filter = keep\<rparr>"

definition list_storage ::
  "'w provider_api \<Rightarrow> printer \<Rightarrow> string \<Rightarrow> YugawareClient \<Rightarrow> 'w \<Rightarrow> string res \<times> 'w" where
  "list_storage api pr output c w =
     andThen (platform_call c (configs_json api) w) (\<lambda>j w.
       (Print pr (list_output ''Storage Providers'' output
          [(''NAME'', ''$.configName''), (''UUID'', ''$.configUUID''), (''TYPE'', ''$.name''),
           (''CUSTOMER_UUID'', ''$.customerUUID''), (''STATE'', ''$.state'')] ''@.type == \"STORAGE\"'' j), w))"

definition list_providers_cmd ::
  "'w provider_api \<Rightarrow> printer \<Rightarrow> string \<Rightarrow> YugawareClient \<Rightarrow> 'w \<Rightarrow> string res \<times> 'w" where
  "list_providers_cmd api pr output c w =
     andThen (platform_call c (providers_json api) w) (\<lambda>j w.
       (Print pr (list_output ''Provider List'' output
          [(''NAME'', ''$.name''), (''CODE'', ''$.code''), (''UUID'', ''$.uuid''), (''CUSTOMER_UUID'', ''$.customerUUID'')] [] j), w))"

definition list_certificates_cmd ::
  "'w provider_api \<Rightarrow> printer \<Rightarrow> string \<Rightarrow> YugawareClient \<Rightarrow> 'w \<Rightarrow> string res \<times> 'w" where
  "list_certificates_cmd api pr output c w =
     andThen (platform_call c (certificates_json api) w) (\<lambda>j w.
       (Print pr (list_output ''Certificate List'' output
          [(''LABEL'', ''$.label''), (''TYPE'', ''$.certType''), (''UUID'', ''$.uuid''), (''CREATED'', ''$.startDate''),
           (''EXPIRES'', ''$.expiryDate''), (''UNIVERSES'', ''$.universeDetails[*].name'')] [] j), w))"

text \<open>The certificate is fetched by the UUID of the one found; the payload is its JSON and the PEM text.\<close>

definition get_root ::
  "'w provider_api \<Rightarrow> printer \<Rightarrow> string \<Rightarrow> YugawareClient \<Rightarrow> CertificateInfo \<Rightarrow> 'w \<Rightarrow> string res \<times> 'w" where
  "get_root api pr output c info w =
     andThen (platform_call c (root_certificate api (CertUUID info)) w) (\<lambda>(payload, rootCrt) w.
       (bind_res (indented_json pr payload '' '' '' '') (\<lambda>certJSON.
          if output = ''json'' then Ok (certJSON @ ''\<newline>'')
          else if output = ''yaml'' then yaml_of_json pr payload
          else Ok rootCrt), w))"

definition GetRootCmd ::
  "'w yw_env \<Rightarrow> 'w provider_api \<Rightarrow> printer \<Rightarrow> string \<Rightarrow> YugawareClient \<Rightarrow> string \<Rightarrow> 'w \<Rightarrow> string res \<times> 'w" where
  "GetRootCmd env api pr output c certIdentifier w =
     andThen (GetCertByIdentifier env c certIdentifier w) (\<lambda>found w.
       case found of
         None \<Rightarrow> (Error (Err (''certificate '' @ certIdentifier @ '' does not exist'')), w)
       | Some cert \<Rightarrow> get_root api pr output c cert w)"

subsection \<open>What a request says of a configuration\<close>

text \<open>A zone of the request stands for a zone of the configuration, with the provider's kubeconfig file at \<open>path\<close>.\<close>

definition zone_for :: "'w yw_env \<Rightarrow> string \<Rightarrow> ZoneInfo \<Rightarrow> AvailabilityZone \<Rightarrow> bool" where
  "zone_for env path z a \<longleftrightarrow>
     (let config = ZoneSettings z; optional = (\<lambda>s. if s = [] then None else Some s) in
      AZCode a = ZoneName z \<and> AZName a = ZoneName z \<and>
      (\<exists>kubeconfig. AZConfig a ''KUBECONFIG_CONTENT'' = Some kubeconfig \<and>
         read_file env (if ZoneKubeconfigPath config \<noteq> [] then ZoneKubeconfigPath config else path) = Ok kubeconfig) \<and>
      AZConfig a ''KUBECONFIG_NAME'' = Some (ZoneName z @ ''-kubeconfig'') \<and> AZConfig a ''OVERRIDES'' = Some (Overrides config) \<and>
      AZConfig a ''STORAGE_CLASS'' = optional (ZoneStorageClass config) \<and>
      AZConfig a ''KUBENAMESPACE'' = optional (KubernetesNamespace config))"

definition region_for :: "'w yw_env \<Rightarrow> string \<Rightarrow> RegionInfo \<Rightarrow> KubeRegion \<Rightarrow> bool" where
  "region_for env path i r \<longleftrightarrow>
     KubeRegionCode r = RegionInfoCode i \<and> (\<exists>base\<in>set region_data. r = base\<lparr>Zones := Zones r\<rparr>) \<and>
     list_all2 (zone_for env path) (ZoneInfos i) (Zones r)"

subsection \<open>Lemmas\<close>

lemma getKubernetesZone_for:
  assumes "getKubernetesZone env z kubeconfig = Ok a" "read_file env path = Ok kubeconfig"
  shows "zone_for env path z a"
  using assms
  by (cases "ZoneKubeconfigPath (ZoneSettings z) = []") (auto simp: getKubernetesZone_def zone_for_def bind_res_eq_Ok Let_def)

lemma append_zones_Ok:
  "append_zones env kubeconfig zs r = Ok r' \<longleftrightarrow>
     (\<exists>as. list_all2 (\<lambda>z a. getKubernetesZone env z kubeconfig = Ok a) zs as \<and> r' = r\<lparr>Zones := Zones r @ as\<rparr>)"
proof (induction zs arbitrary: r)
  case Nil
  then show ?case by auto
next
  case (Cons z zs)
  show ?case by (auto simp: bind_res_eq_Ok Cons.IH list_all2_Cons1)
qed

lemma lookupGkeRegion_Ok:
  assumes "lookupGkeRegion api code = Ok r"
  shows "r \<in> set region_data \<and> KubeRegionCode r = code \<and> Zones r = []"
proof -
  have "find (\<lambda>r. KubeRegionCode r = code) region_data = Some r"
    using assms by (auto simp: lookupGkeRegion_def split: option.splits)
  then have "r \<in> set region_data \<and> KubeRegionCode r = code" by (rule find_mem)
  moreover have "\<forall>r\<in>set region_data. Zones r = []" by (simp add: region_data_def)
  ultimately show ?thesis by simp
qed

lemma append_regions_Ok:
  assumes "append_regions env api kubeconfig is rs = Ok rs'" "read_file env path = Ok kubeconfig"
  shows "\<exists>ks. rs' = rs @ ks \<and> list_all2 (region_for env path) is ks"
  using assms(1)
proof (induction "is" arbitrary: rs)
  case Nil
  then show ?case by simp
next
  case (Cons i "is")
  then obtain r r' where r: "lookupGkeRegion api (RegionInfoCode i) = Ok r" "append_zones env kubeconfig (ZoneInfos i) r = Ok r'"
    and rest: "append_regions env api kubeconfig is (rs @ [r']) = Ok rs'"
    by (auto simp: bind_res_eq_Ok)
  obtain as where as: "list_all2 (\<lambda>z a. getKubernetesZone env z kubeconfig = Ok a) (ZoneInfos i) as" "r' = r\<lparr>Zones := Zones r @ as\<rparr>"
    using r(2) by (auto simp: append_zones_Ok)
  have "list_all2 (zone_for env path) (ZoneInfos i) as"
    using as(1) getKubernetesZone_for [OF _ assms(2)] by (rule list_all2_mono)
  then have "region_for env path i r'"
    using lookupGkeRegion_Ok [OF r(1)] by (auto simp: region_for_def as(2))
  moreover obtain ks where "rs' = (rs @ [r']) @ ks" "list_all2 (region_for env path) is ks"
    using Cons.IH [OF rest] by blast
  ultimately show ?case by (intro exI [of _ "r' # ks"]) simp
qed

lemma bucket_of_Ok: "bucket_of api kind scheme text = Ok u \<Longrightarrow> Scheme u = scheme"
  by (auto simp: bucket_of_def bind_res_eq_Ok Let_def split: if_splits)

subsection \<open>Properties\<close>

text \<open>C24: The request for a Kubernetes provider is the configuration. When one is built, its regions are those of the
  file, in their order, each one of the known regions under the code that was written, and each with the zones
  that were written for it: with the zone's own kubeconfig when it names one and the provider's otherwise, an
  override never reaching the next zone, and with the storage class and the namespace only if they are set.
  The image registry is the written one or the default.\<close>

theorem makeKubernetesProviderRequest_regions:
  assumes "makeKubernetesProviderRequest env api p = Ok request"
  shows "list_all2 (region_for env (KubeconfigPath p)) (KubeRegions p) (RequestRegions request) \<and>
    RequestName request = KubeName p \<and> RequestCode request = ''kubernetes'' \<and>
    RequestConfig request ''KUBECONFIG_SERVICE_ACCOUNT'' = Some (ServiceAccountName p) \<and>
    RequestConfig request ''KUBECONFIG_IMAGE_REGISTRY'' =
      Some (if ImageRegistry p = [] then ''quay.io/yugabyte/yugabyte'' else ImageRegistry p)"
proof -
  obtain kubeconfig where k: "read_file env (KubeconfigPath p) = Ok kubeconfig"
    and rs: "append_regions env api kubeconfig (KubeRegions p) [] = Ok (RequestRegions request)"
    and rest: "RequestName request = KubeName p" "RequestCode request = ''kubernetes''"
      "RequestConfig request ''KUBECONFIG_SERVICE_ACCOUNT'' = Some (ServiceAccountName p)"
      "RequestConfig request ''KUBECONFIG_IMAGE_REGISTRY'' =
        Some (if ImageRegistry p = [] then ''quay.io/yugabyte/yugabyte'' else ImageRegistry p)"
    using assms by (auto simp: makeKubernetesProviderRequest_def bind_res_eq_Ok Let_def split: prod.splits)
  show ?thesis using append_regions_Ok [OF rs k] rest by auto
qed

definition test_provider_api :: "nat provider_api" where
  "test_provider_api =
     \<lparr>yaml_to_json = Ok, kubernetes_of_json = (\<lambda>s. Error EOF), secret_name_of_yaml = Ok, map_order = (\<lambda>l. l), stat_file = (\<lambda>f. Ok ()),
      parse_bucket = (\<lambda>s. Ok \<lparr>Scheme = [], URLRest = s\<rparr>), bucket_text = (\<lambda>u. Scheme u @ ''://'' @ URLRest u),
      create_provider = (\<lambda>r h c w. (Ok (), w)), create_config = (\<lambda>r h c w. (Ok JNull, w)),
      root_certificate = (\<lambda>u h c w. (Ok (JNull, []), w)), certificates_json = (\<lambda>h c w. (Ok JNull, w)),
      providers_json = (\<lambda>h c w. (Ok JNull, w)), configs_json = (\<lambda>h c w. (Ok JNull, w))\<rparr>"

definition test_kubernetes :: KubernetesProvider where
  "test_kubernetes =
     \<lparr>KubeName = ''GKE'', KubeconfigPath = ''k'', ServiceAccountName = ''a'', ImageRegistry = [], ImagePullSecretPath = [],
      KubeRegions = [\<lparr>RegionInfoCode = ''us-west'', ZoneInfos = [\<lparr>ZoneName = ''z'',
        ZoneSettings = \<lparr>KubernetesNamespace = [], ZoneStorageClass = ''s'', Overrides = [], ZoneKubeconfigPath = []\<rparr>\<rparr>]\<rparr>]\<rparr>"

lemma makeKubernetesProviderRequest_regions_witness:
  "\<exists>request. makeKubernetesProviderRequest test_env test_provider_api test_kubernetes = Ok request \<and>
     map KubeRegionCode (RequestRegions request) = [''us-west'']"
proof -
  have "\<exists>request. makeKubernetesProviderRequest test_env test_provider_api test_kubernetes = Ok request"
    by (simp add: makeKubernetesProviderRequest_def test_kubernetes_def test_env_def getPullSecret_def lookupGkeRegion_def
        region_data_def getKubernetesZone_def Let_def)
  then obtain request where r: "makeKubernetesProviderRequest test_env test_provider_api test_kubernetes = Ok request" by blast
  from makeKubernetesProviderRequest_regions [OF r] r show ?thesis
    by (auto simp: test_kubernetes_def region_for_def list_all2_Cons1)
qed

text \<open>A validated S3 configuration has exactly one kind of credentials: the instance profile and no key, or both keys
  and no profile; its bucket has the scheme \<open>s3\<close>, given or filled in.\<close>

theorem ValidateS3_credentials:
  assumes "ValidateS3 api opts = Ok opts'"
  shows "\<exists>config d u. getS3StorageConfigParams api opts' = Ok config \<and> CustomerConfigData config = S3Data d \<and>
    CustomerConfigName config = S3Name opts \<and> BackupLocationS3 d = bucket_text api u \<and> Scheme u = ''s3'' \<and>
    (UseIAMRole opts \<and> IAMInstanceProfile d = Some ''true'' \<and> AWSAccessKeyID d = None \<and> AWSSecretAccessKey d = None \<or>
     \<not> UseIAMRole opts \<and> IAMInstanceProfile d = None \<and> AWSAccessKeyID d = Some (AccessKeyFlag opts) \<and> AccessKeyFlag opts \<noteq> [] \<and>
       AWSSecretAccessKey d = Some (SecretKeyFlag opts) \<and> SecretKeyFlag opts \<noteq> [])"
proof -
  obtain u where u: "validateIAMRole opts = Ok ()" "bucket_of api ''S3'' ''s3'' (S3Bucket opts) = Ok u" "opts' = opts\<lparr>s3_bucket := Some u\<rparr>"
    using assms by (auto simp: ValidateS3_def validateBucketS3_def bind_res_eq_Ok)
  then show ?thesis
    using bucket_of_Ok [OF u(2)]
    by (auto simp: getS3StorageConfigParams_def deref_def validateIAMRole_def split: if_splits)
qed

lemma ValidateS3_credentials_witness:
  "\<exists>config d. getS3StorageConfigParams test_provider_api
       \<lparr>S3Name = ''n'', S3Bucket = ''b'', S3HostBase = [], UseIAMRole = True, AccessKeyFlag = [], SecretKeyFlag = [],
        s3_bucket = Some \<lparr>Scheme = ''s3'', URLRest = ''b''\<rparr>\<rparr> = Ok config \<and>
     CustomerConfigData config = S3Data d \<and> IAMInstanceProfile d = Some ''true'' \<and> AWSAccessKeyID d = None"
proof -
  let ?o = "\<lparr>S3Name = ''n'', S3Bucket = ''b'', S3HostBase = [], UseIAMRole = True, AccessKeyFlag = [], SecretKeyFlag = [], s3_bucket = None\<rparr>"
  have "ValidateS3 test_provider_api ?o = Ok (?o\<lparr>s3_bucket := Some \<lparr>Scheme = ''s3'', URLRest = ''b''\<rparr>\<rparr>)"
    by (simp add: ValidateS3_def validateBucketS3_def validateIAMRole_def bucket_of_def test_provider_api_def Let_def)
  from ValidateS3_credentials [OF this] show ?thesis by auto
qed

end
