(* ===== verification/ProtocGen.thy ===== *)
theory ProtocGen
  imports Prelude
begin

section \<open>The generator of RPC stubs\<close>

text \<open>
  \<open>protoc-gen-ybrpc\<close>, the plugin of \<open>protoc\<close> that prints the stubs \<open>yugatool\<close> calls a server through, and the JSON methods of
  the messages. The descriptors of \<open>protogen\<close> are the records below, with the fields the plugin reads; \<open>comment_text\<close> is the text \<open>protogen\<close> gives
  a comment. A generated file is its name and its lines, as \<open>g.P\<close> prints them and before they are formatted.
\<close>

record comment_set =
  LeadingDetached :: "string list"
  Leading :: string

record go_ident =
  GoName :: string
  GoImportPath :: string

record proto_method =
  MethodGoName :: string
  MethodName :: string
  MethodInput :: go_ident
  MethodOutput :: go_ident
  MethodComments :: comment_set
  MethodDeprecated :: bool

record proto_service =
  ServiceGoName :: string
  ServiceFullName :: string
  ServiceComments :: comment_set
  ServiceDeprecated :: bool
  Methods :: "proto_method list"

record proto_file =
  FileGenerate :: bool
  FilePrefix :: string
  GoPackageName :: string
  SyntaxComments :: comment_set
  PackageComments :: comment_set
  FileDeprecated :: bool
  Services :: "proto_service list"
  Messages :: "go_ident list"

subsection \<open>Headers and comments\<close>

definition GenerateComments :: "(string \<Rightarrow> string) \<Rightarrow> comment_set \<Rightarrow> bool \<Rightarrow> string list" where
  "GenerateComments comment_text comments deprecated =
     concat (map (\<lambda>s. [comment_text s, []]) (LeadingDetached comments)) @
     (if Leading comments \<noteq> [] then [comment_text (Leading comments)] else []) @
     (if deprecated then [comment_text '' Deprecated: Do not use.''] else [])"

definition GenerateHeader :: "(string \<Rightarrow> string) \<Rightarrow> proto_file \<Rightarrow> string list" where
  "GenerateHeader comment_text file =
     GenerateComments comment_text (SyntaxComments file) False @
     [''// Code generated by protoc-gen-ybrpc. DO NOT EDIT.''] @
     GenerateComments comment_text (PackageComments file) (FileDeprecated file) @
     [[], ''package '' @ GoPackageName file, []]"

subsection \<open>Stubs of services\<close>

definition generateImports :: "string list" where
  "generateImports =
     [[], ''import ('', ''    \"github.com/go-logr/logr\"'', ''    \"github.com/yugabyte/yb-tools/protoc-gen-ybrpc/pkg/message\"'', '')'', []]"

definition generateMethodSigniture :: "proto_method \<Rightarrow> string" where
  "generateMethodSigniture m =
     MethodGoName m @ ''(request *'' @ GoName (MethodInput m) @ '')(*'' @ GoName (MethodOutput m) @ '', error)''"

definition generateService :: "(string \<Rightarrow> string) \<Rightarrow> proto_service \<Rightarrow> string list" where
  "generateService comment_text s =
     [''// service: '' @ ServiceFullName s, ''// service: '' @ ServiceGoName s] @
     GenerateComments comment_text (ServiceComments s) (ServiceDeprecated s) @
     [''type '' @ ServiceGoName s @ '' interface {''] @ map generateMethodSigniture (Methods s) @ [''}'', []]"

definition generateServiceImpl :: "proto_service \<Rightarrow> string list" where
  "generateServiceImpl s =
     [''type '' @ ServiceGoName s @ ''Impl struct {'', ''    Log logr.Logger'', ''    Messenger message.Messenger'', ''}'', []]"

definition quoted_names :: "proto_service \<Rightarrow> proto_method \<Rightarrow> string" where
  "quoted_names s m = ''\"'' @ ServiceFullName s @ ''\", \"'' @ MethodName m @ ''\"''"

definition send_line :: "proto_service \<Rightarrow> proto_method \<Rightarrow> string" where
  "send_line s m =
     ''    err := s.Messenger.SendMessage('' @ quoted_names s m @
     '', request.ProtoReflect().Interface(), response.ProtoReflect().Interface())''"

definition log_line :: "string \<Rightarrow> string \<Rightarrow> proto_service \<Rightarrow> proto_method \<Rightarrow> string" where
  "log_line message what s m =
     ''    s.Log.V(1).Info(\"'' @ message @ ''\", \"service\", \"'' @ ServiceFullName s @ ''\", \"method\", \"'' @ MethodName m @
     ''\", \"'' @ what @ ''\", '' @ what @ '')''"

definition generateServiceMethod :: "(string \<Rightarrow> string) \<Rightarrow> proto_service \<Rightarrow> proto_method \<Rightarrow> string list" where
  "generateServiceMethod comment_text s m =
     GenerateComments comment_text (MethodComments m) (MethodDeprecated m) @
     [''func (s *'' @ ServiceGoName s @ ''Impl)'' @ MethodGoName m @ ''(request *'' @ GoName (MethodInput m) @ '')(*'' @
        GoName (MethodOutput m) @ '', error) {'',
      log_line ''sending RPC request'' ''request'' s m,
      ''    response := &'' @ GoName (MethodOutput m) @ ''{}'',
      [],
      send_line s m,
      ''    if err != nil {'',
      ''        return nil, err'',
      ''    }'',
      [],
      log_line ''received RPC response'' ''response'' s m,
      [],
      ''    return response, nil'',
      ''}'',
      []]"

definition generate_services :: "(string \<Rightarrow> string) \<Rightarrow> proto_file \<Rightarrow> string \<times> string list" where
  "generate_services comment_text file =
     (FilePrefix file @ ''.pb.ybrpc.go'',
      GenerateHeader comment_text file @ generateImports @
      concat (map (\<lambda>s. generateService comment_text s @ generateServiceImpl s @
                       concat (map (generateServiceMethod comment_text s) (Methods s))) (Services file)) @ [[]])"

definition Generate_ybrpc :: "(string \<Rightarrow> string) \<Rightarrow> proto_file \<Rightarrow> (string \<times> string list) list" where
  "Generate_ybrpc comment_text file =
     (if 0 < length (Services file) then
        (let generate = foldl (\<lambda>generate s. if 0 < length (Methods s) then True else generate) False (Services file)
         in if generate then [generate_services comment_text file] else [])
      else [])"

subsection \<open>JSON methods of messages\<close>

definition json_imports :: "string list" where
  "json_imports = [[], ''import ('', ''    \"google.golang.org/protobuf/encoding/protojson\"'', '')'', []]"

definition generateMarshaler :: "go_ident \<Rightarrow> string list" where
  "generateMarshaler m =
     [''func (m *'' @ GoName m @ '') MarshalJSON() ([]byte, error) {'', ''    return protojson.MarshalOptions{}.Marshal(m)'', ''}'', []]"

definition generateUnmarshaler :: "go_ident \<Rightarrow> string list" where
  "generateUnmarshaler m =
     [''func (m *'' @ GoName m @ '') UnmarshalJSON(b []byte) error {'', ''    return protojson.UnmarshalOptions{}.Unmarshal(b, m)'', ''}'', []]"

definition generate_json :: "(string \<Rightarrow> string) \<Rightarrow> proto_file \<Rightarrow> string \<times> string list" where
  "generate_json comment_text file =
     (FilePrefix file @ ''.pb.json.go'',
      GenerateHeader comment_text file @ json_imports @
      concat (map (\<lambda>m. generateMarshaler m @ generateUnmarshaler m) (Messages file)) @ [[]])"

definition Generate_json :: "(string \<Rightarrow> string) \<Rightarrow> proto_file \<Rightarrow> (string \<times> string list) list" where
  "Generate_json comment_text file = (if 0 < length (Messages file) then [generate_json comment_text file] else [])"

definition plugin_main :: "(string \<Rightarrow> string) \<Rightarrow> proto_file list \<Rightarrow> (string \<times> string list) list" where
  "plugin_main comment_text files =
     concat (map (\<lambda>file. if \<not> FileGenerate file then [] else Generate_ybrpc comment_text file @ Generate_json comment_text file) files)"

subsection \<open>Lemmas\<close>

lemma any_methods: "foldl (\<lambda>g s. Methods s = [] \<longrightarrow> g) b ss \<longleftrightarrow> b \<or> (\<exists>s\<in>set ss. Methods s \<noteq> [])"
  by (induction ss arbitrary: b) auto

lemma Generate_ybrpc_eq:
  "Generate_ybrpc comment_text file =
     (if \<exists>s\<in>set (Services file). Methods s \<noteq> [] then [generate_services comment_text file] else [])"
  by (auto simp: Generate_ybrpc_def any_methods Let_def)

text \<open>The lines that make a call. \<open>protogen\<close> starts each line of a comment with slashes; a Go identifier does not start with a space.\<close>

definition calls :: "string \<Rightarrow> bool" where
  "calls l \<longleftrightarrow> take 11 l = ''    err := ''"

definition commenting :: "(string \<Rightarrow> string) \<Rightarrow> bool" where
  "commenting comment_text \<longleftrightarrow> (\<forall>s. take 2 (comment_text s) = ''//'')"

definition go_name :: "string \<Rightarrow> bool" where
  "go_name s \<longleftrightarrow> s \<noteq> [] \<and> hd s \<noteq> CHR '' ''"

lemma calls_hd: "calls l \<Longrightarrow> l \<noteq> [] \<and> hd l = CHR '' ''"
  by (cases l) (auto simp: calls_def)

lemma calls_comment [simp]:
  assumes "commenting comment_text"
  shows "\<not> calls (comment_text s)"
proof
  assume "calls (comment_text s)"
  then have "hd (comment_text s) = CHR '' ''" by (simp add: calls_hd)
  moreover have "take 2 (comment_text s) = ''//''" using assms by (simp add: commenting_def)
  ultimately show False by (cases "comment_text s") auto
qed

lemma calls_Nil [simp]: "\<not> calls []"
  by (simp add: calls_def)

lemma filter_comments [simp]: "commenting comment_text \<Longrightarrow> filter calls (GenerateComments comment_text cs d) = []"
  by (auto simp: GenerateComments_def filter_empty_conv)

lemma filter_header [simp]: "commenting comment_text \<Longrightarrow> filter calls (GenerateHeader comment_text file) = []"
  by (simp add: GenerateHeader_def) (simp add: calls_def)

lemma filter_service [simp]:
  assumes "commenting comment_text" "\<forall>m\<in>set (Methods s). go_name (MethodGoName m)"
  shows "filter calls (generateService comment_text s) = []"
proof -
  have "\<not> calls (generateMethodSigniture m)" if "m \<in> set (Methods s)" for m
    using calls_hd [of "generateMethodSigniture m"] assms(2) that by (auto simp: generateMethodSigniture_def go_name_def)
  then have "filter calls (map generateMethodSigniture (Methods s)) = []" by (auto simp: filter_empty_conv)
  then show ?thesis using assms(1) by (simp add: generateService_def) (simp add: calls_def)
qed

lemma filter_method [simp]: "commenting comment_text \<Longrightarrow> filter calls (generateServiceMethod comment_text s m) = [send_line s m]"
  by (simp add: generateServiceMethod_def) (simp add: calls_def send_line_def log_line_def)

lemma filter_methods [simp]:
  "commenting comment_text \<Longrightarrow> filter calls (concat (map (generateServiceMethod comment_text s) ms)) = map (send_line s) ms"
  by (induction ms) simp_all

lemma filter_impl [simp]: "filter calls (generateServiceImpl s) = []"
  by (simp add: generateServiceImpl_def calls_def)

lemma filter_services:
  assumes "commenting comment_text" "\<forall>s\<in>set ss. \<forall>m\<in>set (Methods s). go_name (MethodGoName m)"
  shows "filter calls (concat (map (\<lambda>s. generateService comment_text s @ generateServiceImpl s @
                       concat (map (generateServiceMethod comment_text s) (Methods s))) ss)) =
    concat (map (\<lambda>s. map (send_line s) (Methods s)) ss)"
  using assms by (induction ss) simp_all

definition call_text :: "string \<Rightarrow> string \<Rightarrow> string" where
  "call_text service rpc =
     ''    err := s.Messenger.SendMessage(\"'' @ service @ ''\", \"'' @ rpc @
     ''\", request.ProtoReflect().Interface(), response.ProtoReflect().Interface())''"

lemma send_line_text: "send_line s = (\<lambda>m. call_text (ServiceFullName s) (MethodName m))"
  by (rule ext) (simp add: send_line_def quoted_names_def call_text_def)

subsection \<open>Properties\<close>


definition test_proto :: proto_file where
  "test_proto =
     (let no = \<lparr>LeadingDetached = [], Leading = []\<rparr> in
      \<lparr>FileGenerate = True, FilePrefix = ''s'', GoPackageName = ''server'', SyntaxComments = \<lparr>LeadingDetached = [], Leading = '' x''\<rparr>,
       PackageComments = no, FileDeprecated = False,
       Services = [\<lparr>ServiceGoName = ''G'', ServiceFullName = ''yb.G'', ServiceComments = no, ServiceDeprecated = False,
         Methods = [\<lparr>MethodGoName = ''Ping'', MethodName = ''Ping'', MethodInput = \<lparr>GoName = ''Q'', GoImportPath = []\<rparr>,
           MethodOutput = \<lparr>GoName = ''R'', GoImportPath = []\<rparr>, MethodComments = no, MethodDeprecated = False\<rparr>]\<rparr>],
       Messages = []\<rparr>)"


end
