(* ===== verification/ToolSetup.thy ===== *)
theory ToolSetup
  imports YBClient HostPort Flags
begin

section \<open>The setup of yugatool's commands\<close>

text \<open>
  \<open>yugatool/pkg/cmdutil/cmd.go\<close>: the global options, and \<open>Setup\<close>, which every command runs first. It merges the
  configuration into the options, checks the required flags, parses the master addresses and connects the
  client of theory \<open>YBClient\<close>. The logger and the configuration are parameters; the result is \<open>None\<close> when
  the parsing of a master address does not return.
\<close>

record GlobalOptions =
  ToolDebug :: bool
  ToolOutput :: string
  ToolDialTimeout :: int
  MasterAddresses :: string
  ToolCACert :: string
  ToolClientCert :: string
  ToolClientKey :: string
  ToolSkipVerification :: bool
  tool_hosts :: "host_port list"

definition tool_flag_defaults :: GlobalOptions where
  "tool_flag_defaults =
     \<lparr>ToolDebug = False, ToolOutput = ''table'', ToolDialTimeout = 10, MasterAddresses = [], ToolCACert = [],
      ToolClientCert = [], ToolClientKey = [], ToolSkipVerification = False, tool_hosts = []\<rparr>"

definition ValidateGlobal :: "GlobalOptions \<Rightarrow> GlobalOptions res option" where
  "ValidateGlobal g =
     map_option (\<lambda>r. bind_res r (\<lambda>hosts. Ok (g\<lparr>tool_hosts := hosts\<rparr>))) (ValidateHostnameList (MasterAddresses g) 7100)"

text \<open>A command: its flags, the configuration and how it is merged, and the check of its own options.\<close>

record ('v, 'o, 'g) tool_command =
  ToolName :: string
  ToolFlags :: "pflag list"
  tool_bind :: "string \<Rightarrow> pflag \<Rightarrow> 'v \<Rightarrow> unit res \<times> 'v"
  tool_logger :: "bool \<Rightarrow> unit res"
  tool_merge_global :: "'v \<Rightarrow> GlobalOptions \<Rightarrow> GlobalOptions res"
  tool_merge_command :: "('v \<Rightarrow> 'o \<Rightarrow> 'o res) option"
  tool_validate :: "'o \<Rightarrow> unit res"
  tool_value :: "'v \<Rightarrow> string \<Rightarrow> 'g option"
  tool_zero :: "'g \<Rightarrow> bool"

definition complete_tool ::
  "('v, 'o, 'g) tool_command \<Rightarrow> GlobalOptions \<Rightarrow> 'o \<Rightarrow> 'v \<Rightarrow> (GlobalOptions \<times> 'o \<times> 'v) res" where
  "complete_tool cmd g opts v =
     (case BindFlags (tool_bind cmd) (ToolFlags cmd) v of
        (Error e, v1) \<Rightarrow> Error e
      | (Panic p, v1) \<Rightarrow> Panic p
      | (Ok _, v1) \<Rightarrow>
          bind_res (MergeConfigFile (tool_merge_global cmd v1) g) (\<lambda>g.
          case tool_merge_command cmd of
            None \<Rightarrow> Ok (g, opts, v1)
          | Some merge \<Rightarrow> bind_res (MergeConfigFile (merge v1) opts) (\<lambda>opts. Ok (g, opts, v1))))"

definition new_client :: "GlobalOptions \<Rightarrow> ('u, 'st) YBClient" where
  "new_client g =
     \<lparr>Config = \<lparr>Masters = tool_hosts g, TimeoutSeconds = ToolDialTimeout g,
        TlsOpts = Some \<lparr>SkipHostVerification = ToolSkipVerification g, CaCertPath = ToolCACert g, CertPath = ToolClientCert g,
                        KeyPath = ToolClientKey g\<rparr>\<rparr>,
      Master = None, tServersUUIDMap = Map.empty, client_dialer = None, tabletServers = None, released = []\<rparr>"

definition ConnectToYugabyte :: "('u, 'st) env \<Rightarrow> GlobalOptions \<Rightarrow> unit res \<times> ('u, 'st) YBClient" where
  "ConnectToYugabyte env g = Connect env (new_client g)"

text \<open>\<open>Setup\<close> before and after the parsing of the master addresses.\<close>

definition prepare_tool :: "('v, 'o, 'g) tool_command \<Rightarrow> GlobalOptions \<Rightarrow> 'o \<Rightarrow> 'v \<Rightarrow> (GlobalOptions \<times> 'o) res" where
  "prepare_tool cmd g opts v =
     (let wrap = ''failed to setup '' @ ToolName cmd @ '' command: '' in
      bind_res (wrap_error wrap (tool_logger cmd (ToolDebug g))) (\<lambda>_.
      bind_res (wrap_error wrap (complete_tool cmd g opts v)) (\<lambda>(g, opts, v1).
      bind_res (ValidateRequiredFlags (tool_value cmd v1) (tool_zero cmd) (ToolFlags cmd)) (\<lambda>_. Ok (g, opts)))))"

definition connect_tool ::
  "('u, 'st) env \<Rightarrow> ('v, 'o, 'g) tool_command \<Rightarrow> 'o \<Rightarrow> GlobalOptions \<Rightarrow> (GlobalOptions \<times> 'o \<times> ('u, 'st) YBClient) res" where
  "connect_tool env cmd opts g =
     bind_res (if tool_merge_command cmd = None then Ok () else tool_validate cmd opts) (\<lambda>_.
     (case ConnectToYugabyte env g of
        (r, c) \<Rightarrow> wrap_error (''failed to setup '' @ ToolName cmd @ '' command: '') (bind_res r (\<lambda>_. Ok (g, opts, c)))))"

text \<open>\<open>None\<close> for the command, the global options or the file system: \<open>Setup\<close> panics.\<close>

definition setup_tool ::
  "('u, 'st) env option \<Rightarrow> ('v, 'o, 'g) tool_command option \<Rightarrow> GlobalOptions option \<Rightarrow> 'o \<Rightarrow> 'v \<Rightarrow>
     (GlobalOptions \<times> 'o \<times> ('u, 'st) YBClient) res option" where
  "setup_tool fs command globals opts v =
     (case command of
        None \<Rightarrow> Some (Panic ''ctx.Cmd is not set'')
      | Some cmd \<Rightarrow>
     (case globals of
        None \<Rightarrow> Some (Panic ''ctx.GlobalOptions is not set'')
      | Some g \<Rightarrow>
     (case fs of
        None \<Rightarrow> Some (Panic ''ctx.Fs is not set'')
      | Some env \<Rightarrow>
     (case prepare_tool cmd g opts v of
        Error e \<Rightarrow> Some (Error e)
      | Panic p \<Rightarrow> Some (Panic p)
      | Ok (g, opts) \<Rightarrow> map_option (\<lambda>r. bind_res r (connect_tool env cmd opts)) (ValidateGlobal g)))))"

subsection \<open>Lemmas\<close>

lemma prepare_tool_OkD:
  assumes "prepare_tool cmd g opts v = Ok (g0, opts')"
  obtains v1 where "complete_tool cmd g opts v = Ok (g0, opts', v1)"
    "ValidateRequiredFlags (tool_value cmd v1) (tool_zero cmd) (ToolFlags cmd) = Ok ()"
  using assms by (auto simp: prepare_tool_def Let_def bind_res_eq_Ok wrap_error_eq_Ok)

lemma connect_tool_OkD:
  assumes "connect_tool env cmd opts g = Ok (g', opts', c)"
  shows "(tool_merge_command cmd = None \<or> tool_validate cmd opts = Ok ()) \<and> g' = g \<and> opts' = opts \<and>
    ConnectToYugabyte env g = (Ok (), c)"
proof (cases "ConnectToYugabyte env g")
  case (Pair r c1)
  then show ?thesis
    using assms by (auto simp: connect_tool_def bind_res_eq_Ok wrap_error_eq_Ok split: if_splits)
qed

lemma ValidateGlobal_OkD:
  assumes "ValidateGlobal g = Some (Ok g')"
  obtains hosts where "ValidateHostnameList (MasterAddresses g) 7100 = Some (Ok hosts)" "g' = g\<lparr>tool_hosts := hosts\<rparr>"
  using assms by (auto simp: ValidateGlobal_def bind_res_eq_Ok)

subsection \<open>Properties\<close>

text \<open>C17: A command that was set up talks to the cluster it was pointed at. When \<open>Setup\<close> succeeds, the hosts in the
  global options are those the merged master list denotes, the required flags and the command's own options passed
  their checks, and the client has a leader among these hosts: one that completed the handshake and listed the tablet servers.\<close>

theorem setup_tool_leader:
  assumes "setup_tool (Some env) (Some cmd) (Some g) opts v = Some (Ok (g', opts', c))"
  shows "\<exists>g0 v1. complete_tool cmd g opts v = Ok (g0, opts', v1) \<and>
    ValidateRequiredFlags (tool_value cmd v1) (tool_zero cmd) (ToolFlags cmd) = Ok () \<and>
    ValidateHostnameList (MasterAddresses g0) 7100 = Some (Ok (tool_hosts g')) \<and> g' = g0\<lparr>tool_hosts := tool_hosts g'\<rparr> \<and>
    (tool_merge_command cmd = None \<or> tool_validate cmd opts' = Ok ()) \<and> leads env (tool_hosts g') c"
proof -
  obtain g0 opts0 where p: "prepare_tool cmd g opts v = Ok (g0, opts0)"
    using assms by (auto simp: setup_tool_def split: res.splits)
  then obtain g1 where g1: "ValidateGlobal g0 = Some (Ok g1)" and k: "connect_tool env cmd opts0 g1 = Ok (g', opts', c)"
    using assms by (auto simp: setup_tool_def bind_res_eq_Ok)
  note c = connect_tool_OkD [OF k]
  obtain v1 where v1: "complete_tool cmd g opts v = Ok (g0, opts', v1)"
      "ValidateRequiredFlags (tool_value cmd v1) (tool_zero cmd) (ToolFlags cmd) = Ok ()"
    using prepare_tool_OkD [OF p] c by blast
  obtain hosts where h: "ValidateHostnameList (MasterAddresses g0) 7100 = Some (Ok hosts)" "g1 = g0\<lparr>tool_hosts := hosts\<rparr>"
    by (rule ValidateGlobal_OkD [OF g1])
  have "Connect env (new_client g') = (Ok (), c)" using c by (simp add: ConnectToYugabyte_def)
  from Connect_leads [OF this] have "leads env (tool_hosts g') c" by (simp add: new_client_def)
  then show ?thesis using v1 h c by auto
qed

text \<open>A command without options and flags, on the cluster of the client's examples.\<close>

definition test_tool :: "(unit, unit, unit) tool_command" where
  "test_tool =
     \<lparr>ToolName = ''t'', ToolFlags = [], tool_bind = (\<lambda>n f v. (Ok (), v)), tool_logger = (\<lambda>b. Ok ()), tool_merge_global = (\<lambda>v. Ok),
      tool_merge_command = None, tool_validate = (\<lambda>u. Ok ()), tool_value = (\<lambda>v n. None), tool_zero = (\<lambda>u. True)\<rparr>"

lemma setup_tool_leader_witness:
  "\<exists>g' c. setup_tool (Some sample_env) (Some test_tool) (Some (tool_flag_defaults\<lparr>MasterAddresses := ''m1:7100''\<rparr>)) () () =
     Some (Ok (g', (), c)) \<and> tool_hosts g' = [m1] \<and> leads sample_env [m1] c"
proof -
  let ?g = "tool_flag_defaults\<lparr>MasterAddresses := ''m1:7100''\<rparr>"
  have "printable m1" by (simp add: printable_def plain_host_def m1_def)
  then have hosts: "ValidateHostnameList ''m1:7100'' 7100 = Some (Ok [m1])"
    using ValidateHostnameList_printed [of "[m1]" 7100] by (simp add: m1_string)
  let ?c = "new_client (?g\<lparr>tool_hosts := [m1]\<rparr>) :: (string, nat) YBClient"
  have g: "GetDialer sample_env (?c\<lparr>tServersUUIDMap := Map.empty\<rparr>) = (Ok (NetDialer 10), ?c\<lparr>client_dialer := Some (NetDialer 10)\<rparr>)"
    by (simp add: GetDialer_def new_client_def tool_flag_defaults_def HasTLS_def Let_def)
  obtain c2 h where "try_masters sample_env (NetDialer 10) [m1] None (?c\<lparr>client_dialer := Some (NetDialer 10)\<rparr>) = (Ok None, c2)"
    "Master c2 = Some h" using sample_try by blast
  then have conn: "Connect sample_env ?c = (Ok (), c2)"
    unfolding Connect_unfold [OF g] by (simp add: new_client_def del: try_masters.simps)
  have prep: "prepare_tool test_tool ?g () () = Ok (?g, ())"
    by (simp add: prepare_tool_def test_tool_def complete_tool_def BindFlags_def MergeConfigFile_def ValidateRequiredFlags_def
        required_flags_def Let_def)
  have "setup_tool (Some sample_env) (Some test_tool) (Some ?g) () () = Some (Ok (?g\<lparr>tool_hosts := [m1]\<rparr>, (), c2))"
    using conn hosts
    by (simp add: setup_tool_def prep ValidateGlobal_def connect_tool_def ConnectToYugabyte_def) (simp add: test_tool_def)
  from setup_tool_leader [OF this] this show ?thesis by auto
qed

end
