(* ===== verification/ToolCommands.thy ===== *)
theory ToolCommands
  imports ToolSetup Format
begin

section \<open>Cluster reports and maintenance commands\<close>

text \<open>
  \<open>yugatool/cmd\<close>: \<open>cluster_info\<close> with its tablet report, \<open>tablet_info\<close>, and from \<open>cmd/util\<close> the commands
  \<open>reset_stat_statements\<close> and \<open>table_create\<close>. The remote calls on the connected client, the texts of messages, the
  SQL and CQL drivers and the machine's name and clock are the record \<open>tool_api\<close>, with \<open>'w\<close> the state of the client and
  its servers and \<open>'h\<close> a host; a response with an error field is a pair. What a command prints is the second part of
  its state. The tablet reports are made by one goroutine for each server: \<open>arrival\<close> is the order in which they come,
  and \<open>TabletReports\<close> has the goroutines themselves.
\<close>

subsection \<open>Data\<close>

record tablet =
  TabletId :: string
  TabletJSON :: json

record ('w, 'h) tool_api =
  machine_name :: "string res"
  now_text :: string
  tools_version :: string
  build_time :: string
  cluster_config :: "'w \<Rightarrow> (string option \<times> json) res \<times> 'w"
  list_masters :: "'w \<Rightarrow> (string option \<times> json) res \<times> 'w"
  list_servers :: "'w \<Rightarrow> (string option \<times> json \<times> string list) res \<times> 'w"
  server_count :: "'w \<Rightarrow> nat"
  all_hosts :: "'w \<Rightarrow> ('h list \<times> goerror list) res \<times> 'w"
  host_of :: "string \<Rightarrow> 'w \<Rightarrow> 'h res \<times> 'w"
  list_tablets :: "'h \<Rightarrow> 'w \<Rightarrow> tablet list res \<times> 'w"
  consensus_state :: "'h \<Rightarrow> string \<Rightarrow> string \<Rightarrow> 'w \<Rightarrow> json res \<times> 'w"
  latest_entry :: "'h \<Rightarrow> string \<Rightarrow> 'w \<Rightarrow> json res \<times> 'w"
  get_flag :: "'h \<Rightarrow> string \<Rightarrow> 'w \<Rightarrow> (bool \<times> string \<times> string) res \<times> 'w"
  bound_addresses :: "'h \<Rightarrow> host_port list"
  host_uuid :: "'h \<Rightarrow> string"
  addresses_text :: "host_port list \<Rightarrow> string"
  proto_text :: "json \<Rightarrow> string"
  info_json :: "json \<Rightarrow> json \<Rightarrow> json"
  arrival :: "string list \<Rightarrow> string list"
  sql_open :: "string \<Rightarrow> 'w \<Rightarrow> unit res \<times> 'w"
  sql_exec :: "string \<Rightarrow> 'w \<Rightarrow> unit res \<times> 'w"
  run_cql :: "string \<Rightarrow> nat list \<Rightarrow> 'w \<Rightarrow> unit res \<times> 'w"

text \<open>A call leaves what was printed alone.\<close>

definition lift_call :: "('w \<Rightarrow> 'a res \<times> 'w) \<Rightarrow> 'w \<times> string \<Rightarrow> 'a res \<times> 'w \<times> string" where
  "lift_call call s = (case call (fst s) of (r, w) \<Rightarrow> (r, w, snd s))"

definition print_out :: "printer \<Rightarrow> Output \<Rightarrow> 'w \<times> string \<Rightarrow> unit res \<times> 'w \<times> string" where
  "print_out pr output s =
     (case Println pr output of
        Ok text \<Rightarrow> (Ok (), fst s, snd s @ text)
      | Error e \<Rightarrow> (Error e, s)
      | Panic p \<Rightarrow> (Panic p, s))"

definition path_columns :: "(string \<times> string) list \<Rightarrow> Column list" where
  "path_columns = map (\<lambda>(n, p). \<lparr>ColumnName = n, JSONPath = p, Expr = []\<rparr>)"

definition expr_column :: "string \<Rightarrow> string \<Rightarrow> Column" where
  "expr_column n e = \<lparr>ColumnName = n, JSONPath = [], Expr = e\<rparr>"

definition report_of :: "string \<Rightarrow> json \<Rightarrow> string \<Rightarrow> Column list \<Rightarrow> string \<Rightarrow> Output" where
  "report_of message payload output columns keep =
     \<lparr>OutputMessage = message, JSONObject = payload, OutputType = output, TableColumns = columns, Filter = keep\<rparr>"

definition no_error :: "string \<Rightarrow> string option \<times> 'a \<Rightarrow> 'a res" where
  "no_error what response =
     (case fst response of Some e \<Rightarrow> Error (Err (what @ e)) | None \<Rightarrow> Ok (snd response))"

subsection \<open>Cluster information\<close>

record ClusterInfoOptions =
  TabletReport :: bool
  TableFilter :: string
  NamespaceFilter :: string
  LeadersOnlyFilter :: bool
  ShowTombstonedFilter :: bool
  ShowTableID :: bool

definition cluster_info_defaults :: ClusterInfoOptions where
  "cluster_info_defaults =
     \<lparr>TabletReport = False, TableFilter = [], NamespaceFilter = [], LeadersOnlyFilter = False, ShowTombstonedFilter = False,
      ShowTableID = False\<rparr>"

definition addFilter :: "string \<Rightarrow> string \<Rightarrow> string" where
  "addFilter buf f = (if 0 < length buf then buf @ '' && '' @ f else buf @ f)"

definition tablet_filter :: "ClusterInfoOptions \<Rightarrow> string" where
  "tablet_filter options =
     (let buf = [];
          buf = (if \<not> ShowTombstonedFilter options
                 then addFilter buf ''@.tablet.tablet_status.tabletDataState != \"TABLET_DATA_TOMBSTONED\"'' else buf);
          buf = (if TableFilter options \<noteq> []
                 then addFilter buf (''@.tablet.tablet_status.tableName == \"'' @ TableFilter options @ ''\"'') else buf);
          buf = (if NamespaceFilter options \<noteq> []
                 then addFilter buf (''@.tablet.tablet_status.namespaceName == \"'' @ NamespaceFilter options @ ''\"'') else buf);
          buf = (if LeadersOnlyFilter options then addFilter buf ''@.consensus_state.leaderLeaseStatus == \"HAS_LEASE\"'' else buf)
      in buf)"

definition tablet_columns :: "Column list" where
  "tablet_columns =
     path_columns [(''TABLET'', ''$.tablet.tablet_status.tabletId''), (''TABLE'', ''$.tablet.tablet_status.tableName''),
       (''NAMESPACE'', ''$.tablet.tablet_status.namespaceName''), (''STATE'', ''$.tablet.tablet_status.state''),
       (''STATUS'', ''$.tablet.tablet_status.tabletDataState'')] @
     [expr_column ''START_KEY'' ''partition_key_to_hex(@.tablet.tablet_status.partition.partitionKeyStart)'',
      expr_column ''END_KEY'' ''partition_key_to_hex(@.tablet.tablet_status.partition.partitionKeyEnd)'',
      expr_column ''SST_SIZE'' ''size_pretty(@.tablet.tablet_status.sstFilesDiskSize)'',
      expr_column ''WAL_SIZE'' ''size_pretty(@.tablet.tablet_status.walFilesDiskSize)''] @
     path_columns [(''CTERM'', ''$.consensus_state.cstate.currentTerm''), (''CIDX'', ''$.consensus_state.cstate.config.opidIndex''),
       (''LEADER'', ''$.consensus_state.cstate.leaderUuid''), (''LEASE_STATUS'', ''$.consensus_state.leaderLeaseStatus'')]"

text \<open>\<open>copy(dst[i:], src[j:])\<close> inside one slice, and the column put at index 2.\<close>

definition copy_within :: "'a list \<Rightarrow> nat \<Rightarrow> nat \<Rightarrow> 'a list" where
  "copy_within xs i j =
     (let moved = take (length xs - i) (drop j xs) in take i xs @ moved @ drop (i + length moved) xs)"

definition with_table_id :: "Column list \<Rightarrow> Column list" where
  "with_table_id columns =
     (let columns = columns @ [\<lparr>ColumnName = [], JSONPath = [], Expr = []\<rparr>];
          columns = copy_within columns 3 2
      in columns[2 := \<lparr>ColumnName = ''TABLE_ID'', JSONPath = ''$.tablet.tablet_status.tableId'', Expr = []\<rparr>])"

fun tablet_infos ::
  "('w, 'h) tool_api \<Rightarrow> 'h \<Rightarrow> tablet list \<Rightarrow> 'w \<Rightarrow> json list res \<times> 'w" where
  "tablet_infos api host [] w = (Ok [], w)"
| "tablet_infos api host (t # ts) w =
     andThen (consensus_state api host (host_uuid api host) (TabletId t) w) (\<lambda>c w.
     andThen (tablet_infos api host ts w) (\<lambda>infos w. (Ok (info_json api (TabletJSON t) c # infos), w)))"

text \<open>The goroutine of one server: no report when its host cannot be reached.\<close>

definition server_report ::
  "('w, 'h) tool_api \<Rightarrow> string \<Rightarrow> ClusterInfoOptions \<Rightarrow> string \<Rightarrow> 'w \<Rightarrow> Output res option \<times> 'w" where
  "server_report api output options server w =
     (case host_of api server w of
        (Error e, w1) \<Rightarrow> (None, w1)
      | (Panic p, w1) \<Rightarrow> (Some (Panic p), w1)
      | (Ok host, w1) \<Rightarrow>
          (case andThen (list_tablets api host w1) (\<lambda>ts w. tablet_infos api host ts w) of
             (r, w2) \<Rightarrow>
               (Some (bind_res r (\<lambda>infos.
                  Ok (report_of (''Tablet Report: '' @ addresses_text api (bound_addresses api host) @ '' ('' @ host_uuid api host @ '')'')
                        (JArray infos) output
                        (if ShowTableID options then with_table_id tablet_columns else tablet_columns)
                        (tablet_filter options)))), w2)))"

text \<open>Errors of a report are logged.\<close>

fun print_reports ::
  "('w, 'h) tool_api \<Rightarrow> printer \<Rightarrow> string \<Rightarrow> ClusterInfoOptions \<Rightarrow> string list \<Rightarrow> 'w \<times> string \<Rightarrow> unit res \<times> 'w \<times> string" where
  "print_reports api pr output options [] s = (Ok (), s)"
| "print_reports api pr output options (server # servers) s =
     (case server_report api output options server (fst s) of
        (Some (Panic p), w1) \<Rightarrow> (Panic p, w1, snd s)
      | (Some (Ok report), w1) \<Rightarrow>
          (case print_out pr report (w1, snd s) of
             (Panic p, s1) \<Rightarrow> (Panic p, s1)
           | (_, s1) \<Rightarrow> print_reports api pr output options servers s1)
      | (_, w1) \<Rightarrow> print_reports api pr output options servers (w1, snd s))"

definition cluster_columns :: "Column list" where
  "cluster_columns = path_columns
     [(''CLUSTER_UUID'', ''$.clusterUuid''), (''LIVE_REPLICAS'', ''$.replicationInfo.liveReplicas.numReplicas''),
      (''ZONES'', ''$.replicationInfo.liveReplicas.placementBlocks[*].cloudInfo.placementZone''), (''VERSION'', ''$.version'')]"

definition master_columns :: "Column list" where
  "master_columns =
     [expr_column ''UUID'' ''base64_decode(@.instanceId.permanentUuid)'',
      expr_column ''HOST'' ''@.registration.privateRpcAddresses[0].host'',
      expr_column ''PORT'' ''@.registration.privateRpcAddresses[0].port''] @
     path_columns [(''REGION'', ''$.registration.cloudInfo.placementRegion''), (''ZONE'', ''$.registration.cloudInfo.placementZone''),
       (''ROLE'', ''$.role'')]"

definition tserver_columns :: "Column list" where
  "tserver_columns =
     [expr_column ''UUID'' ''base64_decode(@.instance_id.permanentUuid)''] @
     path_columns [(''HOST'', ''$.registration.common.privateRpcAddresses[0].host''),
       (''PORT'', ''$.registration.common.privateRpcAddresses[0].port''), (''REGION'', ''$.registration.common.cloudInfo.placementRegion''),
       (''ZONE'', ''$.registration.common.cloudInfo.placementZone''), (''ALIVE'', ''$.alive'')] @
     [expr_column ''READS'' ''trunc(@.metrics.readOpsPerSec)'', expr_column ''WRITES'' ''trunc(@.metrics.writeOpsPerSec)'',
      expr_column ''HEARTBEAT'' ''@.millis_since_heartbeat / 1000'', expr_column ''UPTIME'' ''seconds_pretty(@.metrics.uptimeSeconds)'',
      expr_column ''SST_SIZE'' ''size_pretty(@.metrics.totalSstFileSize)'',
      expr_column ''SST_UNCOMPRESSED'' ''size_pretty(@.metrics.uncompressedSstFileSize)''] @
     path_columns [(''SST_FILES'', ''$.metrics.numSstFiles'')] @
     [expr_column ''MEMORY'' ''size_pretty(@.metrics.totalRamUsage)'']"

definition report_info :: "('w, 'h) tool_api \<Rightarrow> string \<Rightarrow> string \<Rightarrow> Output" where
  "report_info api output name =
     report_of ''ReportInfo''
       (JObject [(''date'', JString (now_text api)), (''hostname'', JString name), (''tools_version'', JString (tools_version api)),
                 (''build_date'', JString (build_time api))]) output
       (path_columns [(''DATE'', ''$.date''), (''HOSTNAME'', ''$.hostname''), (''TOOLS_VERSION'', ''$.tools_version''),
                      (''TOOLS_BUILD'', ''$.build_date'')]) []"

text \<open>The four tables; the UUIDs of the tablet servers are those of the last one.\<close>

definition cluster_tables ::
  "('w, 'h) tool_api \<Rightarrow> printer \<Rightarrow> string \<Rightarrow> 'w \<times> string \<Rightarrow> string list res \<times> 'w \<times> string" where
  "cluster_tables api pr output s =
     andThen (machine_name api, s) (\<lambda>name s.
     andThen (print_out pr (report_info api output name) s) (\<lambda>_ s.
     andThen (lift_call (cluster_config api) s) (\<lambda>config s.
     andThen (no_error ''could not get cluster config: '' config, s) (\<lambda>config s.
     andThen (print_out pr (report_of ''Cluster'' config output cluster_columns []) s) (\<lambda>_ s.
     andThen (lift_call (list_masters api) s) (\<lambda>masters s.
     andThen (no_error ''could not list masters: '' masters, s) (\<lambda>masters s.
     andThen (print_out pr (report_of ''Masters'' masters output master_columns []) s) (\<lambda>_ s.
     andThen (lift_call (list_servers api) s) (\<lambda>servers s.
     andThen (no_error ''could not list tablet servers: '' servers, s) (\<lambda>(payload, uuids) s.
     andThen (print_out pr (report_of ''Tablet Servers'' payload output tserver_columns []) s) (\<lambda>_ s. (Ok uuids, s))))))))))))"

definition clusterInfo ::
  "('w, 'h) tool_api \<Rightarrow> printer \<Rightarrow> string \<Rightarrow> ClusterInfoOptions \<Rightarrow> 'w \<times> string \<Rightarrow> unit res \<times> 'w \<times> string" where
  "clusterInfo api pr output options s =
     andThen (cluster_tables api pr output s) (\<lambda>uuids s.
       if TabletReport options then print_reports api pr output options (arrival api uuids) s else (Ok (), s))"

subsection \<open>Tablet information\<close>

definition is_dial_error :: "goerror \<Rightarrow> bool" where
  "is_dial_error e = (case e of DialError _ _ \<Rightarrow> True | _ \<Rightarrow> False)"

text \<open>Hosts that cannot be dialled are left out; any other error ends the command.\<close>

definition reachable_hosts :: "('w, 'h) tool_api \<Rightarrow> 'w \<Rightarrow> 'h list res \<times> 'w" where
  "reachable_hosts api w =
     andThen (all_hosts api w) (\<lambda>(hosts, errors) w.
       ((case find (\<lambda>e. \<not> is_dial_error e) errors of Some e \<Rightarrow> Error e | None \<Rightarrow> Ok hosts), w))"

definition tablet_line :: string where
  "tablet_line = replicate 76 CHR ''='' @ ''\<newline>''"

definition print_tablet ::
  "('w, 'h) tool_api \<Rightarrow> 'h \<Rightarrow> string \<Rightarrow> tablet \<Rightarrow> 'w \<times> string \<Rightarrow> unit res \<times> 'w \<times> string" where
  "print_tablet api host name t s =
     (if TabletId t \<noteq> name then (Ok (), s)
      else andThen (lift_call (latest_entry api host name) s) (\<lambda>latest s.
           andThen (lift_call (consensus_state api host (host_uuid api host) (TabletId t)) s) (\<lambda>consensus s.
             (Ok (), fst s, snd s @ tablet_line @ '' '' @ addresses_text api (bound_addresses api host) @ '' (UUID '' @
                host_uuid api host @ '')\<newline>'' @ tablet_line @ proto_text api (TabletJSON t) @ ''\<newline>'' @
                proto_text api consensus @ ''\<newline>'' @ proto_text api latest @ ''\<newline>''))))"

definition tabletInfo ::
  "('w, 'h) tool_api \<Rightarrow> string \<Rightarrow> 'w \<times> string \<Rightarrow> unit res \<times> 'w \<times> string" where
  "tabletInfo api name s =
     andThen (lift_call (reachable_hosts api) s) (\<lambda>hosts s.
       for_each (\<lambda>host s. andThen (lift_call (list_tablets api host) s) (\<lambda>ts s.
         for_each (print_tablet api host name) ts s)) hosts s)"

subsection \<open>Lemmas\<close>

definition table_id_column :: Column where
  "table_id_column = \<lparr>ColumnName = ''TABLE_ID'', JSONPath = ''$.tablet.tablet_status.tableId'', Expr = []\<rparr>"

lemma with_table_id_insert:
  assumes "2 \<le> length columns"
  shows "with_table_id columns = take 2 columns @ table_id_column # drop 2 columns"
proof -
  obtain a b cs where c: "columns = a # b # cs"
    using assms by (cases columns; cases "tl columns") auto
  show ?thesis
    by (cases cs) (simp_all add: c with_table_id_def copy_within_def table_id_column_def Let_def)
qed

lemma print_reports_no_error: "fst (print_reports api pr output options servers s) \<noteq> Error e"
proof (induction servers arbitrary: s)
  case Nil
  then show ?case by simp
next
  case (Cons server servers)
  then show ?case by (auto split: prod.splits option.splits res.splits)
qed

lemma print_reports_not_Error: "print_reports api pr output options servers s \<noteq> (Error e, s')"
  by (metis fst_conv print_reports_no_error)

lemma tablet_infos_length: "tablet_infos api host ts w = (Ok infos, w') \<Longrightarrow> length infos = length ts"
  by (induction ts arbitrary: w infos) (auto simp: andThen_eq_Ok)

definition filter_conditions :: "ClusterInfoOptions \<Rightarrow> string list" where
  "filter_conditions options =
     (if ShowTombstonedFilter options then [] else [''@.tablet.tablet_status.tabletDataState != \"TABLET_DATA_TOMBSTONED\"'']) @
     (if TableFilter options = [] then [] else [''@.tablet.tablet_status.tableName == \"'' @ TableFilter options @ ''\"'']) @
     (if NamespaceFilter options = [] then [] else [''@.tablet.tablet_status.namespaceName == \"'' @ NamespaceFilter options @ ''\"'']) @
     (if LeadersOnlyFilter options then [''@.consensus_state.leaderLeaseStatus == \"HAS_LEASE\"''] else [])"

lemma tablet_filter_conditions: "tablet_filter options = join_with '' && '' (filter_conditions options)"
  by (cases "ShowTombstonedFilter options"; cases "TableFilter options = []"; cases "NamespaceFilter options = []";
      cases "LeadersOnlyFilter options") (simp_all add: tablet_filter_def filter_conditions_def addFilter_def Let_def)

subsection \<open>Properties\<close>

text \<open>A tablet report shows what was asked for. It has one entry for each tablet the host listed, its filter is the
  conjunction of exactly the selected conditions (tombstoned tablets are hidden unless asked for), and its columns are the
  usual ones, with the table's identifier in the third place when it was asked for and no other column
  lost or moved past another, although the slice is shifted within itself.\<close>

theorem server_report_shape:
  assumes "server_report api output options server w = (Some (Ok report), w')"
  shows "\<exists>host w1 ts w2 infos. host_of api server w = (Ok host, w1) \<and> list_tablets api host w1 = (Ok ts, w2) \<and>
    JSONObject report = JArray infos \<and> length infos = length ts \<and> OutputType report = output \<and>
    Filter report = join_with '' && '' (filter_conditions options) \<and>
    TableColumns report =
      (if ShowTableID options then take 2 tablet_columns @ table_id_column # drop 2 tablet_columns else tablet_columns)"
proof -
  obtain host w1 where h: "host_of api server w = (Ok host, w1)"
    using assms by (auto simp: server_report_def split: prod.splits res.splits)
  then obtain ts w2 infos where r: "list_tablets api host w1 = (Ok ts, w2)" "tablet_infos api host ts w2 = (Ok infos, w')"
    and o: "report = report_of (''Tablet Report: '' @ addresses_text api (bound_addresses api host) @ '' ('' @ host_uuid api host @ '')'')
      (JArray infos) output (if ShowTableID options then with_table_id tablet_columns else tablet_columns) (tablet_filter options)"
    using assms by (auto simp: server_report_def bind_res_eq_Ok andThen_eq_Ok split: prod.splits)
  have "2 \<le> length tablet_columns" by (simp add: tablet_columns_def path_columns_def)
  then show ?thesis
    using h r(1) tablet_infos_length [OF r(2)] by (simp add: o report_of_def tablet_filter_conditions with_table_id_insert)
qed

definition test_tool_api :: "(nat, string) tool_api" where
  "test_tool_api =
     \<lparr>machine_name = Ok ''h'', now_text = [], tools_version = [], build_time = [], cluster_config = (\<lambda>w. (Ok (None, JNull), w)),
      list_masters = (\<lambda>w. (Ok (None, JNull), w)), list_servers = (\<lambda>w. (Ok (None, JNull, [''ab'']), w)), server_count = (\<lambda>w. 1),
      all_hosts = (\<lambda>w. (Ok ([''ab''], []), w)), host_of = (\<lambda>u w. (Ok u, w)),
      list_tablets = (\<lambda>h w. (Ok [\<lparr>TabletId = ''t'', TabletJSON = JNull\<rparr>], w)), consensus_state = (\<lambda>h u t w. (Ok JNull, w)),
      latest_entry = (\<lambda>h t w. (Ok JNull, w)), get_flag = (\<lambda>h n w. (Ok (True, ''0.0.0.0'', []), w)),
      bound_addresses = (\<lambda>h. [\<lparr>hp_host = ''ts'', hp_port = 9100\<rparr>]), host_uuid = (\<lambda>h. h), addresses_text = (\<lambda>l. []),
      proto_text = (\<lambda>j. []), info_json = (\<lambda>t c. JNull), arrival = (\<lambda>l. l), sql_open = (\<lambda>i w. (Ok (), w)),
      sql_exec = (\<lambda>q w. (Error EOF, Suc w)), run_cql = (\<lambda>q vs w. (Ok (), Suc w))\<rparr>"

lemma server_report_shape_witness:
  "\<exists>report. server_report test_tool_api ''table'' (cluster_info_defaults\<lparr>ShowTableID := True\<rparr>) ''ab'' 0 = (Some (Ok report), 0) \<and>
     map ColumnName (take 3 (TableColumns report)) = [''TABLET'', ''TABLE'', ''TABLE_ID'']"
proof -
  obtain report where r: "server_report test_tool_api ''table'' (cluster_info_defaults\<lparr>ShowTableID := True\<rparr>) ''ab'' 0 = (Some (Ok report), 0)"
    by (simp add: server_report_def test_tool_api_def)
  from server_report_shape [OF r] r show ?thesis
    by (auto simp: cluster_info_defaults_def tablet_columns_def path_columns_def table_id_column_def)
qed

text \<open>No error of a tablet report ends \<open>cluster_info\<close>: if the command fails, it fails without the report as well, with
  the same error and after printing the same tables. A server whose host or tablets cannot be read is
  missing from the output, and the exit status does not tell.\<close>

theorem clusterInfo_report_errors_hidden:
  assumes "clusterInfo api pr output options s = (Error e, s')"
  shows "clusterInfo api pr output (options\<lparr>TabletReport := False\<rparr>) s = (Error e, s') \<and> cluster_tables api pr output s = (Error e, s')"
proof -
  obtain r s1 where "cluster_tables api pr output s = (r, s1)" by (metis surj_pair)
  then show ?thesis
    using assms by (cases r) (auto simp: clusterInfo_def print_reports_not_Error split: if_splits)
qed

lemma clusterInfo_report_errors_hidden_witness:
  "cluster_tables (test_tool_api\<lparr>machine_name := Error EOF\<rparr>) test_printer ''table'' (0, []) = (Error EOF, 0, [])"
proof -
  have "clusterInfo (test_tool_api\<lparr>machine_name := Error EOF\<rparr>) test_printer ''table'' cluster_info_defaults (0, []) = (Error EOF, 0, [])"
    by (simp add: clusterInfo_def cluster_tables_def)
  from clusterInfo_report_errors_hidden [OF this] show ?thesis by simp
qed

end
