(* ===== verification/ToolUtil.thy ===== *)
theory ToolUtil
  imports ToolCommands
begin

section \<open>Maintenance commands\<close>

text \<open>
  \<open>yugatool/cmd/util\<close>: \<open>reset_stat_statements\<close>, which runs a statement on the PostgreSQL port of every tablet server, and
  \<open>table_create\<close>, which creates, indexes and fills tables over CQL. A result is \<open>None\<close> when the parsing of a bind address or
  the filling of a table does not return. The goroutines that fill the tables are run one
  after the other here, and as they are in \<open>PopulateTables\<close>.
\<close>

subsection \<open>Resetting the statistics\<close>

record ResetOptions =
  ResetUser :: string
  ResetDatabase :: string
  ResetPassword :: string

definition reset_flag_defaults :: ResetOptions where
  "reset_flag_defaults = \<lparr>ResetUser = ''postgres'', ResetDatabase = ''postgres'', ResetPassword = []\<rparr>"

text \<open>The value of a flag of a server.\<close>

definition flag_value :: "('w, 'h) tool_api \<Rightarrow> 'h \<Rightarrow> string \<Rightarrow> 'w \<Rightarrow> string res \<times> 'w" where
  "flag_value api host name w =
     andThen (get_flag api host name w) (\<lambda>(valid, v, message) w.
       (if \<not> valid then Error (Err (''invalid flag request: '' @ message)) else Ok v, w))"

definition postgres_address :: "('w, 'h) tool_api \<Rightarrow> 'h \<Rightarrow> string \<Rightarrow> 32 word \<Rightarrow> host_port res" where
  "postgres_address api host name p =
     (if name = ''0.0.0.0'' then
        (case bound_addresses api host of
           [] \<Rightarrow> Panic ''index out of range''
         | a # _ \<Rightarrow> Ok \<lparr>hp_host = hp_host a, hp_port = p\<rparr>)
      else Ok \<lparr>hp_host = name, hp_port = p\<rparr>)"

definition getPostgresHostPort ::
  "('w, 'h) tool_api \<Rightarrow> string \<Rightarrow> 'w \<Rightarrow> (host_port res \<times> 'w) option" where
  "getPostgresHostPort api uuid w =
     (let prefix = ''could not get postgres bind address: '' in
      case andThen (host_of api uuid w) (\<lambda>host w.
           andThen (flag_value api host ''pgsql_proxy_bind_address'' w) (\<lambda>v w. (Ok (host, v), w))) of
        (Error e, w1) \<Rightarrow> Some (Error (Wrap prefix e), w1)
      | (Panic p, w1) \<Rightarrow> Some (Panic p, w1)
      | (Ok (host, v), w1) \<Rightarrow>
          map_option (\<lambda>r. (bind_res (wrap_error prefix r) (\<lambda>(name, p). postgres_address api host name p), w1))
            (SplitHostPort v 5433))"

definition isPostgresEncryptionEnabled :: "('w, 'h) tool_api \<Rightarrow> string \<Rightarrow> 'w \<Rightarrow> bool res \<times> 'w" where
  "isPostgresEncryptionEnabled api uuid w =
     andThen (host_of api uuid w) (\<lambda>host w.
     andThen (flag_value api host ''use_client_to_server_encryption'' w) (\<lambda>v w. (Ok (to_lower v = ''true''), w)))"

definition psql_info :: "host_port \<Rightarrow> ResetOptions \<Rightarrow> bool \<Rightarrow> string" where
  "psql_info host options encryption =
     ''host='' @ hp_host host @ '' port='' @ dec_of_nat (unat (hp_port host)) @ '' user='' @ ResetUser options @
     '' dbname='' @ ResetDatabase options @ '' sslmode='' @ (if encryption then ''require'' else ''disable'') @
     (if ResetPassword options \<noteq> [] then '' password='' @ ResetPassword options else [])"

definition resetStatStatements ::
  "('w, 'h) tool_api \<Rightarrow> host_port \<Rightarrow> ResetOptions \<Rightarrow> bool \<Rightarrow> 'w \<Rightarrow> unit res \<times> 'w" where
  "resetStatStatements api host options encryption w =
     andThen (sql_open api (psql_info host options encryption) w) (\<lambda>_ w.
       sql_exec api ''SELECT pg_stat_statements_reset();'' w)"

text \<open>One host: an error of any step is logged, and an unknown encryption is none.\<close>

definition reset_host ::
  "('w, 'h) tool_api \<Rightarrow> ResetOptions \<Rightarrow> 'h \<Rightarrow> 'w \<Rightarrow> (unit res \<times> 'w) option" where
  "reset_host api options host w =
     (let uuid = host_uuid api host in
      case getPostgresHostPort api uuid w of
        None \<Rightarrow> None
      | Some (Panic p, w1) \<Rightarrow> Some (Panic p, w1)
      | Some (Error e, w1) \<Rightarrow> Some (Ok (), w1)
      | Some (Ok hostport, w1) \<Rightarrow>
          (case isPostgresEncryptionEnabled api uuid w1 of
             (Panic p, w2) \<Rightarrow> Some (Panic p, w2)
           | (r, w2) \<Rightarrow>
               (case resetStatStatements api hostport options (r = Ok True) w2 of
                  (Panic p, w3) \<Rightarrow> Some (Panic p, w3)
                | (_, w3) \<Rightarrow> Some (Ok (), w3))))"

fun reset_hosts ::
  "('w, 'h) tool_api \<Rightarrow> ResetOptions \<Rightarrow> 'h list \<Rightarrow> 'w \<Rightarrow> (unit res \<times> 'w) option" where
  "reset_hosts api options [] w = Some (Ok (), w)"
| "reset_hosts api options (host # hosts) w =
     (case reset_host api options host w of
        Some (Ok _, w1) \<Rightarrow> reset_hosts api options hosts w1
      | r \<Rightarrow> r)"

definition resetAllStatStatements ::
  "('w, 'h) tool_api \<Rightarrow> ResetOptions \<Rightarrow> 'w \<Rightarrow> (unit res \<times> 'w) option" where
  "resetAllStatStatements api options w =
     (case reachable_hosts api w of
        (Error e, w1) \<Rightarrow> Some (Error e, w1)
      | (Panic p, w1) \<Rightarrow> Some (Panic p, w1)
      | (Ok hosts, w1) \<Rightarrow> reset_hosts api options hosts w1)"

subsection \<open>Creating tables\<close>

record TableOptions =
  TableCount :: "64 word"
  TabletCount :: "64 word"
  TupleCount :: "64 word"
  CqlUser :: string
  CqlPassword :: string
  LocalDC :: string
  PopulateTables :: bool
  CreateIndexes :: bool

definition table_flag_defaults :: TableOptions where
  "table_flag_defaults =
     \<lparr>TableCount = 100, TabletCount = 1, TupleCount = 1, CqlUser = [], CqlPassword = [], LocalDC = [], PopulateTables = False,
      CreateIndexes = False\<rparr>"

datatype host_policy = DCAware string | TokenAware

record ssl_options =
  SslCert :: string
  SslKey :: string
  SslCa :: string
  EnableHostVerification :: bool

record cql_cluster =
  CqlHosts :: "string list"
  Authenticator :: "(string \<times> string) option"
  CqlTimeout :: int
  SslOpts :: "ssl_options option"
  HostPolicy :: host_policy

definition cql_cluster_of :: "string list \<Rightarrow> TableOptions \<Rightarrow> GlobalOptions \<Rightarrow> cql_cluster" where
  "cql_cluster_of hosts options g =
     \<lparr>CqlHosts = hosts,
      Authenticator = (if CqlPassword options \<noteq> [] then Some (CqlUser options, CqlPassword options) else None),
      CqlTimeout = int64 (ToolDialTimeout g * 1000000000),
      SslOpts = (if ToolClientCert g \<noteq> [] \<or> ToolClientKey g \<noteq> [] \<or> ToolCACert g \<noteq> [] \<or> ToolSkipVerification g
                 then Some \<lparr>SslCert = ToolClientCert g, SslKey = ToolClientKey g, SslCa = ToolCACert g,
                            EnableHostVerification = (\<not> ToolSkipVerification g)\<rparr>
                 else None),
      HostPolicy = (if LocalDC options \<noteq> [] then DCAware (LocalDC options) else TokenAware)\<rparr>"

fun cql_hosts ::
  "('w, 'h) tool_api \<Rightarrow> 'h list \<Rightarrow> 'w \<Rightarrow> (string list res \<times> 'w) option" where
  "cql_hosts api [] w = Some (Ok [], w)"
| "cql_hosts api (host # hosts) w =
     (case flag_value api host ''cql_proxy_bind_address'' w of
        (Error e, w1) \<Rightarrow> Some (Error e, w1)
      | (Panic p, w1) \<Rightarrow> Some (Panic p, w1)
      | (Ok v, w1) \<Rightarrow>
          (case SplitHostPort v 9042 of
             None \<Rightarrow> None
           | Some (Error e) \<Rightarrow> Some (Error e, w1)
           | Some (Panic p) \<Rightarrow> Some (Panic p, w1)
           | Some (Ok (name, p)) \<Rightarrow>
               map_option (\<lambda>(r, w). (bind_res r (\<lambda>rest. Ok (HostPortString \<lparr>hp_host = name, hp_port = p\<rparr> # rest)), w))
                 (cql_hosts api hosts w1)))"

definition getCqlHosts :: "('w, 'h) tool_api \<Rightarrow> 'w \<Rightarrow> (string list res \<times> 'w) option" where
  "getCqlHosts api w =
     map_option (\<lambda>r. wrap_state ''could not get cql bind address: '' r)
       (case reachable_hosts api w of
          (Error e, w1) \<Rightarrow> Some (Error e, w1)
        | (Panic p, w1) \<Rightarrow> Some (Panic p, w1)
        | (Ok hosts, w1) \<Rightarrow> cql_hosts api hosts w1)"

definition table_name :: "nat \<Rightarrow> string" where
  "table_name i = ''test.table'' @ dec_of_nat i"

definition create_table_query :: "64 word \<Rightarrow> nat \<Rightarrow> string" where
  "create_table_query tablets i =
     ''CREATE TABLE IF NOT EXISTS '' @ table_name i @ ''(a int primary key, b int) WITH transactions = { '' @ [CHR 0x27] @
     ''enabled'' @ [CHR 0x27] @ '' : true } AND tablets = '' @ dec_of_nat (unat tablets) @ '';''"

definition create_index_query :: "64 word \<Rightarrow> nat \<Rightarrow> string" where
  "create_index_query tablets i =
     ''CREATE INDEX IF NOT EXISTS ON '' @ table_name i @ '' (b) WITH tablets = '' @ dec_of_nat (unat tablets) @ '';''"

definition RunTableCreate ::
  "('w, 'h) tool_api \<Rightarrow> 64 word \<Rightarrow> 64 word \<Rightarrow> 'w \<Rightarrow> unit res \<times> 'w" where
  "RunTableCreate api tables tablets w =
     andThen (run_cql api ''CREATE KEYSPACE IF NOT EXISTS test;'' [] w) (\<lambda>_ w.
       for_each (\<lambda>i. run_cql api (create_table_query tablets i) []) [0 ..< unat tables] w)"

definition RunCreateIndexes ::
  "('w, 'h) tool_api \<Rightarrow> 64 word \<Rightarrow> 64 word \<Rightarrow> 'w \<Rightarrow> unit res \<times> 'w" where
  "RunCreateIndexes api tables tablets w =
     for_each (\<lambda>i. run_cql api (create_index_query tablets i) []) [0 ..< unat tables] w"

text \<open>The rows of a table: \<open>for j := uint(1); j <= n; j++\<close>. An insert that fails is logged.\<close>

definition insert_row :: "('w, 'h) tool_api \<Rightarrow> nat \<Rightarrow> 64 word \<Rightarrow> 'w \<Rightarrow> unit res \<times> 'w" where
  "insert_row api i j w =
     (case run_cql api (''insert into '' @ table_name i @ ''(a, b) VALUES (?, ?)'') [unat j, unat j] w of
        (Panic p, w1) \<Rightarrow> (Panic p, w1)
      | (_, w1) \<Rightarrow> (Ok (), w1))"

partial_function (option) insert_rows ::
  "(64 word \<Rightarrow> 'w \<Rightarrow> unit res \<times> 'w) \<Rightarrow> 64 word \<Rightarrow> 64 word \<Rightarrow> 'w \<Rightarrow> (unit res \<times> 'w) option" where
  "insert_rows row n j w =
     (if j \<le> n then
        (case row j w of
           (Ok _, w1) \<Rightarrow> insert_rows row n (j + 1) w1
         | (Error e, w1) \<Rightarrow> Some (Error e, w1)
         | (Panic p, w1) \<Rightarrow> Some (Panic p, w1))
      else Some (Ok (), w))"

fun populate_tables ::
  "('w, 'h) tool_api \<Rightarrow> 64 word \<Rightarrow> nat list \<Rightarrow> 'w \<Rightarrow> (unit res \<times> 'w) option" where
  "populate_tables api tuples [] w = Some (Ok (), w)"
| "populate_tables api tuples (i # is) w =
     (case insert_rows (insert_row api i) tuples 1 w of
        Some (Ok _, w1) \<Rightarrow> populate_tables api tuples is w1
      | r \<Rightarrow> r)"

definition RunPopulateTables ::
  "('w, 'h) tool_api \<Rightarrow> 64 word \<Rightarrow> 64 word \<Rightarrow> 'w \<Rightarrow> (unit res \<times> 'w) option" where
  "RunPopulateTables api tables tuples w = populate_tables api tuples [0 ..< unat tables] w"

definition create_tables ::
  "('w, 'h) tool_api \<Rightarrow> TableOptions \<Rightarrow> 'w \<Rightarrow> (unit res \<times> 'w) option" where
  "create_tables api options w =
     (let tablets = (\<lambda>w. TabletCount options * of_nat (server_count api w)) in
      case andThen (RunTableCreate api (TableCount options) (tablets w) w) (\<lambda>_ w.
             if CreateIndexes options then RunCreateIndexes api (TableCount options) (tablets w) w else (Ok (), w)) of
        (Ok _, w1) \<Rightarrow>
          (if PopulateTables options then RunPopulateTables api (TableCount options) (TupleCount options) w1 else Some (Ok (), w1))
      | (Error e, w1) \<Rightarrow> Some (Error e, w1)
      | (Panic p, w1) \<Rightarrow> Some (Panic p, w1))"

definition tableCreate ::
  "('w, 'h) tool_api \<Rightarrow> (cql_cluster \<Rightarrow> 'w \<Rightarrow> unit res \<times> 'w) \<Rightarrow> TableOptions \<Rightarrow> GlobalOptions \<Rightarrow> 'w \<Rightarrow> (unit res \<times> 'w) option" where
  "tableCreate api create_session options g w =
     (case getCqlHosts api w of
        None \<Rightarrow> None
      | Some (Error e, w1) \<Rightarrow> Some (Error e, w1)
      | Some (Panic p, w1) \<Rightarrow> Some (Panic p, w1)
      | Some (Ok hosts, w1) \<Rightarrow>
          (case create_session (cql_cluster_of hosts options g) w1 of
             (Error e, w2) \<Rightarrow> Some (Error e, w2)
           | (Panic p, w2) \<Rightarrow> Some (Panic p, w2)
           | (Ok _, w2) \<Rightarrow> create_tables api options w2))"

subsection \<open>Lemmas\<close>

lemma insert_rows_from:
  assumes "n \<noteq> - 1" "unat j \<le> Suc (unat n)"
  shows "insert_rows row n j w = Some (for_each row (map of_nat [unat j ..< Suc (unat n)]) w)"
  using assms(2)
proof (induction "Suc (unat n) - unat j" arbitrary: j w)
  case 0
  then show ?case by (subst insert_rows.simps) (auto simp: word_le_nat_alt)
next
  case (Suc k)
  then have le: "unat j \<le> unat n" by linarith
  have "n < - 1" using assms(1) by (metis word_order.not_eq_extremum)
  then have "j \<noteq> - 1" using le by (auto simp: word_le_nat_alt word_less_nat_alt)
  then have j1: "unat (j + 1) = Suc (unat j)" using unatSuc [of j] by (simp add: add.commute eq_neg_iff_add_eq_0)
  have ih: "insert_rows row n (j + 1) w1 = Some (for_each row (map of_nat [Suc (unat j) ..< Suc (unat n)]) w1)" for w1
    using Suc.hyps(1) [of "j + 1" w1] Suc.hyps(2) le by (simp add: j1)
  have "[unat j ..< Suc (unat n)] = unat j # [Suc (unat j) ..< Suc (unat n)]" using le by (simp add: upt_rec)
  then show ?case
    by (subst insert_rows.simps) (use le in \<open>auto simp: ih word_le_nat_alt simp del: upt_Suc split: prod.splits res.splits\<close>)
qed

lemma insert_rows_forever:
  assumes "\<And>j w. \<exists>w1. row j w = (Ok (), w1)"
  shows "insert_rows row (- 1) j w = None"
proof (cases "insert_rows row (- 1) j w")
  case (Some y)
  have "(- 1 :: 64 word) \<noteq> - 1"
  proof (rule insert_rows.raw_induct [where P = "\<lambda>row n j w y. (\<forall>j w. \<exists>w1. row j w = (Ok (), w1)) \<longrightarrow> n \<noteq> - 1", rule_format, OF _ Some])
    fix loop :: "(64 word \<Rightarrow> 'a \<Rightarrow> unit res \<times> 'a) \<Rightarrow> 64 word \<Rightarrow> 64 word \<Rightarrow> 'a \<Rightarrow> (unit res \<times> 'a) option"
      and row :: "64 word \<Rightarrow> 'a \<Rightarrow> unit res \<times> 'a" and n j :: "64 word" and w :: 'a and y :: "unit res \<times> 'a"
    assume ih: "\<And>row n j w y. loop row n j w = Some y \<Longrightarrow> (\<And>j w. \<exists>w1. row j w = (Ok (), w1)) \<Longrightarrow> n \<noteq> - 1"
      and eq: "(if j \<le> n then (case row j w of (Ok _, w1) \<Rightarrow> loop row n (j + 1) w1
          | (Error e, w1) \<Rightarrow> Some (Error e, w1) | (Panic p, w1) \<Rightarrow> Some (Panic p, w1)) else Some (Ok (), w)) = Some y"
      and ok: "\<And>j w. \<exists>w1. row j w = (Ok (), w1)"
    obtain w1 where "row j w = (Ok (), w1)" using ok by blast
    then show "n \<noteq> - 1" using eq ih [OF _ ok] by (cases "j \<le> n") auto
  qed (use assms in simp)
  then show ?thesis by simp
qed simp

lemma insert_row_Ok:
  assumes "\<And>q vs w. \<not> is_panic (fst (run_cql api q vs w))"
  shows "\<exists>w1. insert_row api i j w = (Ok (), w1)"
proof -
  obtain r w1 where "run_cql api (''insert into '' @ table_name i @ ''(a, b) VALUES (?, ?)'') [unat j, unat j] w = (r, w1)" by force
  then show ?thesis
    using assms [of "''insert into '' @ table_name i @ ''(a, b) VALUES (?, ?)''" "[unat j, unat j]" w]
    by (cases r) (simp_all add: insert_row_def)
qed

lemma reset_host_no_error: "reset_host api options host w \<noteq> Some (Error e, w')"
  by (auto simp: reset_host_def Let_def split: option.splits prod.splits res.splits)

lemma reset_hosts_no_error: "reset_hosts api options hosts w \<noteq> Some (Error e, w')"
proof (induction hosts arbitrary: w)
  case Nil
  then show ?case by simp
next
  case (Cons host hosts)
  then show ?case
    using reset_host_no_error [of api options host w] by (auto split: option.splits prod.splits res.splits)
qed

lemma for_each_always_Ok:
  assumes "\<And>x s. \<exists>s'. f x s = (Ok (), s')"
  shows "\<exists>s'. for_each f xs s = (Ok (), s')"
proof (induction xs arbitrary: s)
  case Nil
  then show ?case by simp
next
  case (Cons x xs)
  obtain s1 where "f x s = (Ok (), s1)" using assms by blast
  then show ?case using Cons.IH [of s1] by simp
qed

lemma for_each_recorded:
  "for_each (\<lambda>i w. (Ok (), w @ [g i])) xs w = (Ok (), w @ map g xs)"
  by (induction xs arbitrary: w) simp_all

text \<open>The tables and indexes are created in order, on a server that accepts every statement.\<close>

lemma RunTableCreate_statements:
  assumes "\<And>q vs. run_cql api q vs = (\<lambda>w. (Ok (), w @ [q]))"
  shows "RunTableCreate api tables tablets [] =
      (Ok (), ''CREATE KEYSPACE IF NOT EXISTS test;'' # map (create_table_query tablets) [0 ..< unat tables]) \<and>
    RunCreateIndexes api tables tablets [] = (Ok (), map (create_index_query tablets) [0 ..< unat tables])"
  by (simp add: RunTableCreate_def RunCreateIndexes_def assms for_each_recorded)

subsection \<open>Properties\<close>

text \<open>Filling the tables returns unless it is asked for 18446744073709551615 rows. While inserts do not panic, and whatever
  they return, the command fills every table with the rows from 1 to the number given and ends without an
  error; for the largest number the counter never passes it, and the first table is never done.\<close>

theorem RunPopulateTables_returns_iff:
  assumes "\<And>q vs w. \<not> is_panic (fst (run_cql api q vs w))"
  shows "(RunPopulateTables api tables tuples w = None \<longleftrightarrow> tables \<noteq> 0 \<and> tuples = - 1) \<and>
    (\<forall>r w'. RunPopulateTables api tables tuples w = Some (r, w') \<longrightarrow> r = Ok ()) \<and>
    (\<forall>i. tuples \<noteq> - 1 \<longrightarrow>
       insert_rows (insert_row api i) tuples 1 w = Some (for_each (insert_row api i) (map of_nat [1 ..< Suc (unat tuples)]) w))"
proof -
  have all: "\<exists>w1. insert_row api i j w = (Ok (), w1)" for i j w by (rule insert_row_Ok) (rule assms)
  have from1: "insert_rows (insert_row api i) tuples 1 w = Some (for_each (insert_row api i) (map of_nat [1 ..< Suc (unat tuples)]) w)"
    if "tuples \<noteq> - 1" for i w
    using insert_rows_from [OF that, of 1 "insert_row api i" w] by simp
  have some: "\<exists>w1. populate_tables api tuples is w = Some (Ok (), w1)" if t: "tuples \<noteq> - 1" for "is" w
  proof (induction "is" arbitrary: w)
    case Nil
    then show ?case by simp
  next
    case (Cons i "is")
    obtain w1 where "for_each (insert_row api i) (map of_nat [1 ..< Suc (unat tuples)]) w = (Ok (), w1)"
      using for_each_always_Ok [of "insert_row api i", OF all] by blast
    then show ?case using Cons.IH [of w1] by (simp add: from1 [OF t] del: upt_Suc)
  qed
  have none: "RunPopulateTables api tables (- 1) w = None" if "tables \<noteq> 0"
  proof -
    have "0 < unat tables" using that by (simp add: unat_gt_0)
    then have "[0 ..< unat tables] = 0 # [1 ..< unat tables]" by (simp add: upt_rec)
    then show ?thesis by (simp add: RunPopulateTables_def insert_rows_forever [OF all])
  qed
  have zero: "RunPopulateTables api 0 n w = Some (Ok (), w)" for n by (simp add: RunPopulateTables_def)
  show ?thesis
  proof (cases "tuples = - 1")
    case True
    then show ?thesis using none zero by (cases "tables = 0") auto
  next
    case False
    then show ?thesis using some [OF False, of "[0 ..< unat tables]" w] from1 by (auto simp: RunPopulateTables_def)
  qed
qed

lemma RunPopulateTables_returns_iff_witness:
  "RunPopulateTables test_tool_api 1 (- 1) 0 = None"
  using RunPopulateTables_returns_iff [of test_tool_api 1 "- 1" 0] by (simp add: test_tool_api_def)

text \<open>The command fails only when the tablet servers cannot be listed. An error of \<open>reset_stat_statements\<close> is one of
  \<open>AllTservers\<close> that is not a failed dial; whatever happens on a host, its bind address, its flags or the reset
  itself, the other hosts are done and the command succeeds.\<close>

theorem resetAllStatStatements_error:
  assumes "resetAllStatStatements api options w = Some (Error e, w')"
  shows "\<exists>hosts errors. all_hosts api w = (Error e, w') \<or> all_hosts api w = (Ok (hosts, errors), w') \<and> e \<in> set errors \<and> \<not> is_dial_error e"
proof -
  have r: "reachable_hosts api w = (Error e, w')"
    using assms reset_hosts_no_error by (fastforce simp: resetAllStatStatements_def split: prod.splits res.splits)
  obtain r1 w1 where a: "all_hosts api w = (r1, w1)" by force
  show ?thesis
  proof (cases r1)
    case (Ok x)
    obtain hosts errors where x: "x = (hosts, errors)" by force
    have "find (\<lambda>e. \<not> is_dial_error e) errors = Some e \<and> w1 = w'"
      using r by (auto simp: reachable_hosts_def a Ok x split: option.splits)
    then show ?thesis using a Ok x find_mem [of "\<lambda>e. \<not> is_dial_error e" errors e] by auto
  qed (use r in \<open>simp_all add: reachable_hosts_def a\<close>)
qed

lemma resetAllStatStatements_error_witness:
  "EOF \<in> set [DialError \<lparr>hp_host = [], hp_port = 0\<rparr> EOF, EOF] \<and> \<not> is_dial_error EOF"
proof -
  let ?api = "test_tool_api\<lparr>all_hosts := (\<lambda>w. (Ok ([], [DialError \<lparr>hp_host = [], hp_port = 0\<rparr> EOF, EOF]), w))\<rparr>"
  have "resetAllStatStatements ?api reset_flag_defaults 0 = Some (Error EOF, 0)"
    by (simp add: resetAllStatStatements_def reachable_hosts_def is_dial_error_def)
  from resetAllStatStatements_error [OF this] show ?thesis by auto
qed

end
