(* ===== verification/PopulateTables.thy ===== *)
theory PopulateTables
  imports ToolUtil Transitions "HOL-Library.Multiset"
begin

section \<open>The goroutines that fill the tables\<close>

text \<open>
  \<open>RunPopulateTables\<close> (\<open>yugatool/cmd/util/tableCreate.go\<close>): the main goroutine adds one to a wait group
  and starts a goroutine for each table, and waits for the group. A goroutine inserts the rows from 1 to the number of
  tuples and leaves the group; an insert that fails is logged. What is atomic is one insert, one change of the group and one
  start; everything else interleaves, and a panic of any goroutine ends the program. \<open>attempted\<close> is the history of the
  inserts. \<open>ToolUtil\<close> has the same goroutines one after the other.
\<close>

subsection \<open>States and steps\<close>

datatype filler = Filling "64 word" | Filled

datatype populate_main = StartingFillers | WaitingForFillers | PopulateReturned

record 'w populating =
  fillers :: "filler list"
  filler_group :: nat
  populate_at :: populate_main
  database :: 'w
  attempted :: "(nat \<times> nat) list"
  populate_crash :: "string option"

inductive populate_step ::
  "('w, 'h) tool_api \<Rightarrow> 64 word \<Rightarrow> 64 word \<Rightarrow> 'w populating \<Rightarrow> 'w populating \<Rightarrow> bool"
  for api tables tuples where
  start_filler: "populate_at s = StartingFillers \<Longrightarrow> length (fillers s) < unat tables \<Longrightarrow> populate_crash s = None \<Longrightarrow>
    populate_step api tables tuples s (s\<lparr>fillers := fillers s @ [Filling 1], filler_group := filler_group s + 1\<rparr>)"
| all_started: "populate_at s = StartingFillers \<Longrightarrow> length (fillers s) = unat tables \<Longrightarrow> populate_crash s = None \<Longrightarrow>
    populate_step api tables tuples s (s\<lparr>populate_at := WaitingForFillers\<rparr>)"
| insert_tuple: "i < length (fillers s) \<Longrightarrow> fillers s ! i = Filling j \<Longrightarrow> j \<le> tuples \<Longrightarrow> populate_crash s = None \<Longrightarrow>
    insert_row api i j (database s) = (r, w1) \<Longrightarrow> \<not> is_panic r \<Longrightarrow>
    populate_step api tables tuples s
      (s\<lparr>fillers := (fillers s)[i := Filling (j + 1)], database := w1, attempted := attempted s @ [(i, unat j)]\<rparr>)"
| insert_panics: "i < length (fillers s) \<Longrightarrow> fillers s ! i = Filling j \<Longrightarrow> j \<le> tuples \<Longrightarrow> populate_crash s = None \<Longrightarrow>
    insert_row api i j (database s) = (Panic x, w1) \<Longrightarrow>
    populate_step api tables tuples s (s\<lparr>database := w1, populate_crash := Some x\<rparr>)"
| filler_leaves: "i < length (fillers s) \<Longrightarrow> fillers s ! i = Filling j \<Longrightarrow> \<not> j \<le> tuples \<Longrightarrow> populate_crash s = None \<Longrightarrow>
    filler_group s = Suc g \<Longrightarrow>
    populate_step api tables tuples s (s\<lparr>fillers := (fillers s)[i := Filled], filler_group := g\<rparr>)"
| negative_group: "i < length (fillers s) \<Longrightarrow> fillers s ! i = Filling j \<Longrightarrow> \<not> j \<le> tuples \<Longrightarrow> populate_crash s = None \<Longrightarrow>
    filler_group s = 0 \<Longrightarrow>
    populate_step api tables tuples s (s\<lparr>populate_crash := Some ''sync: negative WaitGroup counter''\<rparr>)"
| group_empty: "populate_at s = WaitingForFillers \<Longrightarrow> filler_group s = 0 \<Longrightarrow> populate_crash s = None \<Longrightarrow>
    populate_step api tables tuples s (s\<lparr>populate_at := PopulateReturned\<rparr>)"

definition start_populating :: "'w \<Rightarrow> 'w populating" where
  "start_populating w = \<lparr>fillers = [], filler_group = 0, populate_at = StartingFillers, database = w, attempted = [],
     populate_crash = None\<rparr>"

definition populate_ended :: "'w populating \<Rightarrow> bool" where
  "populate_ended s \<longleftrightarrow> populate_at s = PopulateReturned \<or> populate_crash s \<noteq> None"

inductive_cases populate_stepE: "populate_step api tables tuples s t"

subsection \<open>The invariant\<close>

text \<open>The rows a goroutine has tried.\<close>

fun tried :: "64 word \<Rightarrow> filler \<Rightarrow> nat" where
  "tried tuples (Filling j) = unat j - 1"
| "tried tuples Filled = unat tuples"

fun filler_ok :: "64 word \<Rightarrow> filler \<Rightarrow> bool" where
  "filler_ok tuples (Filling j) = (1 \<le> unat j \<and> unat j \<le> unat tuples + 1)"
| "filler_ok tuples Filled = True"

fun in_filling :: "filler \<Rightarrow> nat" where
  "in_filling (Filling _) = 1"
| "in_filling Filled = 0"

fun filler_rank :: "64 word \<Rightarrow> filler \<Rightarrow> nat" where
  "filler_rank tuples (Filling j) = unat tuples + 2 - unat j"
| "filler_rank tuples Filled = 0"

definition rows_of :: "nat \<Rightarrow> (nat \<times> nat) list \<Rightarrow> nat list" where
  "rows_of i ps = map snd (filter (\<lambda>p. fst p = i) ps)"

text \<open>What the database is after the inserts, in the order in which they came.\<close>

definition inserts :: "('w, 'h) tool_api \<Rightarrow> (nat \<times> nat) list \<Rightarrow> 'w \<Rightarrow> 'w" where
  "inserts api ps w = foldl (\<lambda>w (i, j). snd (insert_row api i (of_nat j) w)) w ps"

definition populate_inv :: "('w, 'h) tool_api \<Rightarrow> 64 word \<Rightarrow> 64 word \<Rightarrow> 'w \<Rightarrow> 'w populating \<Rightarrow> bool" where
  "populate_inv api tables tuples w s \<longleftrightarrow>
     tuples \<noteq> - 1 \<and> length (fillers s) \<le> unat tables \<and> filler_group s = sum_list (map in_filling (fillers s)) \<and>
     (populate_at s \<noteq> StartingFillers \<longrightarrow> length (fillers s) = unat tables) \<and>
     (populate_at s = PopulateReturned \<longrightarrow> filler_group s = 0) \<and>
     (\<forall>i < length (fillers s). filler_ok tuples (fillers s ! i)) \<and>
     (\<forall>i. rows_of i (attempted s) = [1 ..< Suc (if i < length (fillers s) then tried tuples (fillers s ! i) else 0)]) \<and>
     (populate_crash s = None \<longrightarrow> database s = inserts api (attempted s) w) \<and>
     (\<forall>x. populate_crash s = Some x \<longrightarrow> (\<exists>i j w. fst (insert_row api i j w) = Panic x))"

definition populate_rank :: "64 word \<Rightarrow> 64 word \<Rightarrow> 'w populating \<Rightarrow> nat" where
  "populate_rank tables tuples s =
     (unat tables - length (fillers s)) * (unat tuples + 2) + sum_list (map (filler_rank tuples) (fillers s)) +
     (case populate_at s of StartingFillers \<Rightarrow> 2 | WaitingForFillers \<Rightarrow> 1 | PopulateReturned \<Rightarrow> 0) +
     (if populate_crash s = None then 1 else 0)"

lemma in_filling_pos: "i < length fs \<Longrightarrow> fs ! i = Filling j \<Longrightarrow> 0 < sum_list (map in_filling fs)"
  using elem_le_sum_list [of i "map in_filling fs"] by simp

lemma no_one_filling: "sum_list (map in_filling fs) = 0 \<longleftrightarrow> (\<forall>f \<in> set fs. f = Filled)"
proof -
  have "in_filling f = 0 \<longleftrightarrow> f = Filled" for f by (cases f) simp_all
  then show ?thesis by (simp add: sum_list_eq_0_iff)
qed

lemma sum_list_update_nat:
  "i < length xs \<Longrightarrow> sum_list (map f (xs[i := y])) + f (xs ! i) = sum_list (map f xs) + (f y :: nat)"
  by (induction xs arbitrary: i) (auto split: nat.splits)

lemma next_tuple:
  fixes j tuples :: "64 word"
  assumes "j \<le> tuples" "tuples \<noteq> - 1"
  shows "unat (j + 1) = Suc (unat j)"
proof -
  have "tuples < - 1" using assms(2) by (metis word_order.not_eq_extremum)
  then have "j \<noteq> - 1" using assms(1) by (auto simp: word_le_nat_alt word_less_nat_alt)
  then show ?thesis using unatSuc [of j] by (simp add: add.commute eq_neg_iff_add_eq_0)
qed

lemma rows_of_Nil [simp]: "rows_of i [] = []"
  by (simp add: rows_of_def)

lemma rows_of_Cons: "rows_of i ((k, r) # ps) = (if k = i then r # rows_of i ps else rows_of i ps)"
  by (simp add: rows_of_def)

lemma rows_of_snoc: "rows_of i (ps @ [(k, r)]) = rows_of i ps @ (if k = i then [r] else [])"
  by (simp add: rows_of_def)

lemma inserts_snoc: "inserts api (ps @ [(i, unat j)]) w = snd (insert_row api i j (inserts api ps w))"
  by (simp add: inserts_def)

lemma inv_start: "tuples \<noteq> - 1 \<Longrightarrow> populate_inv api tables tuples w (start_populating w)"
  by (simp add: populate_inv_def start_populating_def inserts_def)

text \<open>A goroutine that has not left has tried one row less than its counter says.\<close>

lemma tried_next:
  assumes "i < length fs" "fs ! i = Filling j" "j \<le> tuples" "tuples \<noteq> - 1" "filler_ok tuples (fs ! i)"
  shows "[1 ..< Suc (tried tuples (fs[i := Filling (j + 1)] ! i))] = [1 ..< Suc (tried tuples (fs ! i))] @ [unat j]"
  using assms next_tuple [OF assms(3,4)] by (cases "unat j") simp_all

lemma inv_kept_populating:
  assumes inv: "populate_inv api tables tuples w s" and step: "populate_step api tables tuples s t"
  shows "populate_inv api tables tuples w t"
  using step
proof cases
  case start_filler
  then show ?thesis using inv by (auto simp: populate_inv_def nth_append less_Suc_eq)
next
  case (insert_tuple i j r w1)
  have ok: "filler_ok tuples (fillers s ! i)" "tuples \<noteq> - 1" using inv insert_tuple(2) unfolding populate_inv_def by blast+
  have next_ok: "filler_ok tuples (Filling (j + 1))"
    using next_tuple [OF insert_tuple(4) ok(2)] insert_tuple(4) by (simp add: word_le_nat_alt)
  have group: "sum_list (map in_filling ((fillers s)[i := Filling (j + 1)])) = sum_list (map in_filling (fillers s))"
    using sum_list_update_nat [of i "fillers s" in_filling "Filling (j + 1)"] insert_tuple by simp
  have rows: "rows_of k (attempted t)
      = [1 ..< Suc (if k < length (fillers t) then tried tuples (fillers t ! k) else 0)]" for k
    using inv tried_next [OF insert_tuple(2-4) ok(2,1)] insert_tuple
    by (cases "k = i") (simp_all add: populate_inv_def rows_of_snoc)
  show ?thesis
    using inv group rows next_ok insert_tuple by (auto simp: populate_inv_def inserts_snoc nth_list_update)
next
  case (insert_panics i j x w1)
  have "fst (insert_row api i j (database s)) = Panic x" using insert_panics by simp
  then have "\<exists>i j w. fst (insert_row api i j w) = Panic x" by blast
  then show ?thesis using inv insert_panics by (auto simp: populate_inv_def simp del: sum_list_eq_0_iff upt_Suc)
next
  case (filler_leaves i j g)
  have "filler_ok tuples (Filling j)" using inv filler_leaves by (auto simp: populate_inv_def)
  then have j: "unat j = Suc (unat tuples)" using filler_leaves(4) by (simp add: word_le_nat_alt)
  have group: "Suc (sum_list (map in_filling ((fillers s)[i := Filled]))) = sum_list (map in_filling (fillers s))"
    using sum_list_update_nat [of i "fillers s" in_filling Filled] filler_leaves by simp
  have rows: "tried tuples (fillers s ! i) = unat tuples" using filler_leaves j by simp
  show ?thesis using inv group rows filler_leaves by (auto simp: populate_inv_def nth_list_update)
next
  case (negative_group i j)
  then show ?thesis
    using inv in_filling_pos [of i "fillers s" j] by (simp add: populate_inv_def del: sum_list_eq_0_iff upt_Suc)
qed (use inv in \<open>auto simp: populate_inv_def\<close>)

lemma rank_falls:
  assumes inv: "populate_inv api tables tuples w s" and step: "populate_step api tables tuples s t"
  shows "populate_rank tables tuples t < populate_rank tables tuples s"
  using step
proof cases
  case start_filler
  then have "unat tables - length (fillers s) = Suc (unat tables - length (fillers t))" by simp
  then show ?thesis using start_filler by (simp add: populate_rank_def)
next
  case (insert_tuple i j r w1)
  have "unat (j + 1) = Suc (unat j)" using next_tuple insert_tuple inv by (simp add: populate_inv_def)
  then have "filler_rank tuples (Filling (j + 1)) < filler_rank tuples (Filling j)"
    using insert_tuple(4) by (simp add: word_le_nat_alt)
  then show ?thesis
    using sum_list_update_nat [of i "fillers s" "filler_rank tuples" "Filling (j + 1)"] insert_tuple
    by (simp add: populate_rank_def)
next
  case (filler_leaves i j g)
  have "filler_ok tuples (Filling j)" using inv filler_leaves by (auto simp: populate_inv_def)
  then have "0 < filler_rank tuples (Filling j)" by simp
  then show ?thesis
    using sum_list_update_nat [of i "fillers s" "filler_rank tuples" Filled] filler_leaves
    by (simp add: populate_rank_def)
qed (auto simp: populate_rank_def)

lemma populating_goes_on:
  assumes inv: "populate_inv api tables tuples w s" and "\<not> populate_ended s"
  shows "\<exists>t. populate_step api tables tuples s t"
proof -
  have alive: "populate_crash s = None" "populate_at s \<noteq> PopulateReturned" using assms(2) by (simp_all add: populate_ended_def)
  have len: "length (fillers s) \<le> unat tables" using inv by (simp add: populate_inv_def)
  consider (starting) "populate_at s = StartingFillers" | (empty) "populate_at s = WaitingForFillers" "filler_group s = 0"
    | (filling) "filler_group s \<noteq> 0" "populate_at s = WaitingForFillers" using alive(2) by (cases "populate_at s") auto
  then show ?thesis
  proof cases
    case starting
    then show ?thesis using alive(1) len start_filler all_started by (cases "length (fillers s) = unat tables") force+
  next
    case empty
    then show ?thesis using alive(1) group_empty by blast
  next
    case filling
    have "filler_group s = sum_list (map in_filling (fillers s))" using inv by (simp only: populate_inv_def)
    then have "\<not> (\<forall>f \<in> set (fillers s). f = Filled)" using filling(1) no_one_filling [of "fillers s"] by metis
    then obtain i where "i < length (fillers s)" "fillers s ! i \<noteq> Filled" by (auto simp: in_set_conv_nth)
    then obtain j where i: "i < length (fillers s)" "fillers s ! i = Filling j" by (cases "fillers s ! i") auto
    obtain r w1 where r: "insert_row api i j (database s) = (r, w1)" by force
    show ?thesis
    proof (cases "j \<le> tuples")
      case True
      then show ?thesis
        using insert_tuple [OF i True alive(1) r] insert_panics [OF i True alive(1), of api] r
        by (cases "is_panic r"; cases r) (simp; blast)+
    next
      case False
      then show ?thesis
        using filler_leaves [OF i False alive(1)] negative_group [OF i False alive(1)] by (cases "filler_group s") blast+
    qed
  qed
qed

interpretation populating: transition_system "populate_step api tables tuples" "populate_inv api tables tuples w"
    "populate_rank tables tuples" populate_ended for api tables tuples w
  by unfold_locales (blast intro: inv_kept_populating rank_falls populating_goes_on)+

text \<open>A run that is over, without a panic: every row of every table was tried once, the rows of a table in their order.\<close>

definition in_order :: "64 word \<Rightarrow> 64 word \<Rightarrow> (nat \<times> nat) list" where
  "in_order tables tuples = concat (map (\<lambda>i. map (Pair i) [1 ..< Suc (unat tuples)]) [0 ..< unat tables])"

lemma rows_of_append [simp]: "rows_of i (ps @ qs) = rows_of i ps @ rows_of i qs"
  by (simp add: rows_of_def)

lemma rows_of_table [simp]: "rows_of i (map (Pair k) rs) = (if k = i then rs else [])"
  by (cases "k = i"; induction rs; simp add: rows_of_Cons)

lemma rows_of_in_order: "rows_of i (in_order tables tuples) = (if i < unat tables then [1 ..< Suc (unat tuples)] else [])"
proof -
  have "rows_of i (concat (map (\<lambda>i. map (Pair i) rs) [0 ..< n])) = (if i < n then rs else [])" for n rs
    by (induction n) auto
  then show ?thesis by (simp only: in_order_def)
qed

lemma ended:
  assumes "populate_inv api tables tuples w s" "populate_at s = PopulateReturned"
  shows ended_rows: "rows_of i (attempted s) = rows_of i (in_order tables tuples)"
    and ended_fillers: "fillers s = replicate (unat tables) Filled"
proof -
  have len: "length (fillers s) = unat tables" and "filler_group s = 0" and
      rows: "rows_of i (attempted s) = [1 ..< Suc (if i < length (fillers s) then tried tuples (fillers s ! i) else 0)]"
    using assms unfolding populate_inv_def by auto
  moreover have "filler_group s = sum_list (map in_filling (fillers s))" using assms(1) by (simp only: populate_inv_def)
  ultimately have "\<forall>f \<in> set (fillers s). f = Filled" using no_one_filling [of "fillers s"] by metis
  then have filled: "fillers s ! k = Filled" if "k < length (fillers s)" for k using that by simp
  show "rows_of i (attempted s) = rows_of i (in_order tables tuples)"
    using rows len filled by (auto simp: rows_of_in_order simp del: upt_Suc)
  show "fillers s = replicate (unat tables) Filled" using len filled by (intro nth_equalityI) simp_all
qed

lemma count_rows: "count (mset ps) (i, r) = count (mset (rows_of i ps)) r"
  by (induction ps) (auto simp: rows_of_def)

lemma same_rows_mset: "(\<And>i. rows_of i ps = rows_of i qs) \<Longrightarrow> mset ps = mset qs"
  by (rule multiset_eqI) (metis count_rows surj_pair)

subsection \<open>The order of the inserts\<close>

text \<open>Inserts into different tables, in either order, leave the same database.\<close>

definition tables_apart :: "('w, 'h) tool_api \<Rightarrow> bool" where
  "tables_apart api \<longleftrightarrow>
     (\<forall>i k j l w. i \<noteq> k \<longrightarrow> snd (insert_row api i j (snd (insert_row api k l w))) = snd (insert_row api k l (snd (insert_row api i j w))))"

lemma inserts_simps [simp]:
  "inserts api [] w = w"
  "inserts api ((i, j) # ps) w = inserts api ps (snd (insert_row api i (of_nat j) w))"
  "inserts api (ps @ qs) w = inserts api qs (inserts api ps w)"
  by (simp_all add: inserts_def)

lemma insert_past:
  assumes "tables_apart api" "\<forall>p \<in> set ps. fst p \<noteq> i"
  shows "inserts api ps (snd (insert_row api i j w)) = snd (insert_row api i j (inserts api ps w))"
  using assms(2)
proof (induction ps arbitrary: w)
  case (Cons p ps)
  obtain k l where p: "p = (k, l)" by force
  have "snd (insert_row api k (of_nat l) (snd (insert_row api i j w))) = snd (insert_row api i j (snd (insert_row api k (of_nat l) w)))"
    using assms(1) Cons.prems unfolding tables_apart_def p by simp
  then show ?case using Cons p by simp
qed simp

lemma rows_of_head:
  "rows_of i qs = r # rs \<Longrightarrow> \<exists>xs ys. qs = xs @ (i, r) # ys \<and> (\<forall>p \<in> set xs. fst p \<noteq> i) \<and> rows_of i ys = rs"
proof (induction qs)
  case (Cons q qs)
  obtain k l where q: "q = (k, l)" by force
  show ?case
  proof (cases "k = i")
    case True
    then show ?thesis using Cons.prems q by (intro exI [of _ "[]"] exI [of _ qs]) (simp add: rows_of_Cons)
  next
    case False
    then obtain xs ys where "qs = xs @ (i, r) # ys" "\<forall>p \<in> set xs. fst p \<noteq> i" "rows_of i ys = rs"
      using Cons by (auto simp: q rows_of_Cons)
    then show ?thesis using False q by (intro exI [of _ "q # xs"] exI [of _ ys]) simp
  qed
qed simp

lemma rows_of_none: "\<forall>p \<in> set xs. fst p \<noteq> i \<Longrightarrow> rows_of i xs = []"
  by (simp add: rows_of_def filter_empty_conv)

text \<open>Two orders of the inserts that agree on every table leave the same database.\<close>

lemma same_rows_inserts:
  assumes "tables_apart api" "\<And>i. rows_of i ps = rows_of i qs"
  shows "inserts api ps w = inserts api qs w"
  using assms(2)
proof (induction ps arbitrary: qs w)
  case Nil
  then have "mset qs = mset []" by (intro same_rows_mset) simp
  then show ?case by simp
next
  case (Cons p ps)
  obtain i r where p: "p = (i, r)" by force
  have "rows_of i qs = r # rows_of i ps" using Cons.prems [of i] by (simp add: p rows_of_Cons)
  from rows_of_head [OF this] obtain xs ys where
    qs: "qs = xs @ (i, r) # ys" and xs: "\<forall>p \<in> set xs. fst p \<noteq> i" and ys: "rows_of i ys = rows_of i ps" by blast
  have "rows_of k ps = rows_of k (xs @ ys)" for k
    using Cons.prems [of k] ys xs by (cases "k = i") (simp_all add: p qs rows_of_Cons rows_of_none)
  from Cons.IH [OF this] show ?case using insert_past [OF assms(1) xs] by (simp add: p qs)
qed

text \<open>One goroutine after the other is one of the schedules: the function of \<open>ToolUtil\<close>.\<close>

lemma rows_in_order:
  assumes "\<And>q vs w. \<not> is_panic (fst (run_cql api q vs w))"
  shows "for_each (insert_row api i) (map of_nat rs) w = (Ok (), inserts api (map (Pair i) rs) w)"
proof (induction rs arbitrary: w)
  case (Cons r rs)
  obtain w1 where "insert_row api i (of_nat r) w = (Ok (), w1)" using insert_row_Ok [OF assms] by blast
  then show ?case using Cons.IH by simp
qed simp

lemma RunPopulateTables_in_order:
  assumes "\<And>q vs w. \<not> is_panic (fst (run_cql api q vs w))" "tuples \<noteq> - 1"
  shows "RunPopulateTables api tables tuples w = Some (Ok (), inserts api (in_order tables tuples) w)"
proof -
  have rows: "insert_rows (insert_row api i) tuples 1 w = Some (Ok (), inserts api (map (Pair i) [1 ..< Suc (unat tuples)]) w)" for i w
    using insert_rows_from [OF assms(2), of 1 "insert_row api i" w] rows_in_order [OF assms(1)] by (simp del: upt_Suc)
  have "populate_tables api tuples is w
      = Some (Ok (), inserts api (concat (map (\<lambda>i. map (Pair i) [1 ..< Suc (unat tuples)]) is)) w)" for "is"
    by (induction "is" arbitrary: w) (simp_all add: rows del: upt_Suc)
  then show ?thesis by (simp add: RunPopulateTables_def in_order_def)
qed

subsection \<open>Properties\<close>

text \<open>C30: The tables are filled alike under every schedule. While inserts do not panic, and for any number of rows but
  18446744073709551615, every run of the goroutines takes at most the given number of steps and can go on until
  \<open>RunPopulateTables\<close> returns; the wait group never trips. By then every goroutine has left, each row from 1 to the number of
  tuples has been inserted once into each table, in ascending order, and nothing else has; the database is what these
  inserts make of it. When the order of inserts into different tables does not matter, it is the one that filling the
  tables one after the other leaves.\<close>

theorem RunPopulateTables_any_schedule:
  assumes "\<And>q vs w. \<not> is_panic (fst (run_cql api q vs w))" "tuples \<noteq> - 1"
    and "run (populate_step api tables tuples) n (start_populating w) s"
  shows "n \<le> unat tables * (unat tuples + 2) + 3 \<and> populate_crash s = None \<and>
    (populate_at s \<noteq> PopulateReturned \<longrightarrow> (\<exists>t. populate_step api tables tuples s t)) \<and>
    (populate_at s = PopulateReturned \<longrightarrow>
       fillers s = replicate (unat tables) Filled \<and>
       (\<forall>i. rows_of i (attempted s) = (if i < unat tables then [1 ..< Suc (unat tuples)] else [])) \<and>
       database s = inserts api (attempted s) w \<and>
       (tables_apart api \<longrightarrow> RunPopulateTables api tables tuples w = Some (Ok (), database s)))"
proof -
  note inv = populating.reachable_inv [OF assms(3) inv_start [OF assms(2)]]
  have "n + populate_rank tables tuples s \<le> populate_rank tables tuples (start_populating w)"
    using populating.run_bounded [OF assms(3) inv_start [OF assms(2)]] .
  then have bound: "n \<le> unat tables * (unat tuples + 2) + 3" by (simp add: populate_rank_def start_populating_def)
  have "fst (insert_row api i j w) \<noteq> Panic x" for i j w x using insert_row_Ok [OF assms(1), of i j w] by auto
  then have alive: "populate_crash s = None" using inv unfolding populate_inv_def by (cases "populate_crash s") auto
  have db: "database s = inserts api (attempted s) w" using inv alive unfolding populate_inv_def by blast
  have same: "inserts api (attempted s) w = inserts api (in_order tables tuples) w"
    if "populate_at s = PopulateReturned" "tables_apart api"
    using same_rows_inserts [OF that(2)] ended_rows [OF inv that(1)] by blast
  show ?thesis
    using bound alive db same ended_rows [OF inv] ended_fillers [OF inv] populating_goes_on [OF inv]
    by (auto simp: populate_ended_def rows_of_in_order RunPopulateTables_in_order [OF assms(1,2)] simp del: upt_Suc)
qed

text \<open>Two goroutines, of which the second is first.\<close>

lemma RunPopulateTables_any_schedule_witness:
  "\<exists>s. run (populate_step test_tool_api 2 1) 8 (start_populating 0) s \<and> populate_at s = PopulateReturned \<and>
     attempted s = [(1, 1), (0, 1)] \<and> RunPopulateTables test_tool_api 2 1 0 = Some (Ok (), database s)"
proof -
  let ?S = "\<lambda>fs g a d ps. \<lparr>fillers = fs, filler_group = g, populate_at = a, database = d, attempted = ps, populate_crash = None\<rparr>"
  let ?step = "populate_step test_tool_api 2 1"
  let ?s = "?S [Filled, Filled] 0 PopulateReturned (Suc (Suc 0)) [(1, 1), (0, 1)]"
  have gt: "\<not> (2 :: 64 word) \<le> 1" by (simp add: word_le_nat_alt)
  have row: "insert_row test_tool_api i j d = (Ok (), Suc d)" for i j d by (simp add: insert_row_def test_tool_api_def)
  have 1: "?step (start_populating 0) (?S [Filling 1] 1 StartingFillers 0 [])"
    using start_filler [of "start_populating 0" 2 test_tool_api 1] by (simp add: start_populating_def)
  have 2: "?step (?S [Filling 1] 1 StartingFillers 0 []) (?S [Filling 1, Filling 1] (Suc (Suc 0)) StartingFillers 0 [])"
    using start_filler [of "?S [Filling 1] 1 StartingFillers 0 []" 2 test_tool_api 1] by simp
  have 3: "?step (?S [Filling 1, Filling 1] (Suc (Suc 0)) StartingFillers 0 []) (?S [Filling 1, Filling 2] (Suc (Suc 0)) StartingFillers 1 [(1, 1)])"
    using insert_tuple [of 1 "?S [Filling 1, Filling 1] (Suc (Suc 0)) StartingFillers 0 []" 1 1 test_tool_api] by (simp add: row)
  have 4: "?step (?S [Filling 1, Filling 2] (Suc (Suc 0)) StartingFillers 1 [(1, 1)]) (?S [Filling 1, Filling 2] (Suc (Suc 0)) WaitingForFillers 1 [(1, 1)])"
    using all_started [of "?S [Filling 1, Filling 2] (Suc (Suc 0)) StartingFillers 1 [(1, 1)]" 2 test_tool_api 1] by simp
  have 5: "?step (?S [Filling 1, Filling 2] (Suc (Suc 0)) WaitingForFillers 1 [(1, 1)]) (?S [Filling 1, Filled] 1 WaitingForFillers 1 [(1, 1)])"
    using filler_leaves [of 1 "?S [Filling 1, Filling 2] (Suc (Suc 0)) WaitingForFillers 1 [(1, 1)]" 2 1 1 test_tool_api 2] by (simp add: gt)
  have 6: "?step (?S [Filling 1, Filled] 1 WaitingForFillers 1 [(1, 1)]) (?S [Filling 2, Filled] 1 WaitingForFillers (Suc (Suc 0)) [(1, 1), (0, 1)])"
    using insert_tuple [of 0 "?S [Filling 1, Filled] 1 WaitingForFillers 1 [(1, 1)]" 1 1 test_tool_api] by (simp add: row)
  have 7: "?step (?S [Filling 2, Filled] 1 WaitingForFillers (Suc (Suc 0)) [(1, 1), (0, 1)]) (?S [Filled, Filled] 0 WaitingForFillers (Suc (Suc 0)) [(1, 1), (0, 1)])"
    using filler_leaves [of 0 "?S [Filling 2, Filled] 1 WaitingForFillers (Suc (Suc 0)) [(1, 1), (0, 1)]" 2 1 0 test_tool_api 2] by (simp add: gt)
  have 8: "?step (?S [Filled, Filled] 0 WaitingForFillers (Suc (Suc 0)) [(1, 1), (0, 1)]) ?s"
    using group_empty [of "?S [Filled, Filled] 0 WaitingForFillers (Suc (Suc 0)) [(1, 1), (0, 1)]" test_tool_api 2 1] by simp
  have "run ?step (Suc (Suc (Suc (Suc (Suc (Suc (Suc (Suc 0)))))))) (start_populating 0) ?s"
    by (rule 1 2 3 4 5 6 7 8 run.intros)+
  then have run: "run ?step 8 (start_populating 0) ?s" by (simp add: eval_nat_numeral)
  have "tables_apart test_tool_api" by (simp add: tables_apart_def row)
  then show ?thesis
    using RunPopulateTables_any_schedule [OF _ _ run] run by (intro exI [of _ ?s]) (simp add: test_tool_api_def)
qed

end
