(* ===== verification/Services.thy ===== *)
theory Services
  imports Wire
begin

section \<open>The RPC services\<close>

text \<open>
  The stubs that \<open>protoc-gen-ybrpc\<close> generated under \<open>yugatool/api/yb\<close>: for each service of the servers one method for
  each RPC. A stub makes an empty response, sends the request with the name of its service and its own
  name through the messenger of the host's session, and gives the response or the error; its log lines
  are left out. \<open>cd\<close> marshals the messages, \<open>resp\<close> is the empty response. The list \<open><Service>_stubs\<close> is the
  interface of a service, \<open>rpc_stubs\<close> all of them with the name of the service's Go type.
\<close>

type_synonym ('q, 'r) rpc = "('q, 'r) codec \<Rightarrow> 'r \<Rightarrow> 'q \<Rightarrow> Session \<Rightarrow> 'r res \<times> Session"

definition unary_call :: "string \<Rightarrow> string \<Rightarrow> ('q, 'r) rpc" where
  "unary_call service name cd resp request s =
     andThen (SendMessage cd service name request resp s) (\<lambda>response s. (Ok response, s))"

subsection \<open>GenericService\<close>

definition GenericService_SetFlag :: "('q, 'r) rpc" where
  "GenericService_SetFlag = unary_call ''yb.server.GenericService'' ''SetFlag''"

definition GenericService_GetFlag :: "('q, 'r) rpc" where
  "GenericService_GetFlag = unary_call ''yb.server.GenericService'' ''GetFlag''"

definition GenericService_RefreshFlags :: "('q, 'r) rpc" where
  "GenericService_RefreshFlags = unary_call ''yb.server.GenericService'' ''RefreshFlags''"

definition GenericService_FlushCoverage :: "('q, 'r) rpc" where
  "GenericService_FlushCoverage = unary_call ''yb.server.GenericService'' ''FlushCoverage''"

definition GenericService_ServerClock :: "('q, 'r) rpc" where
  "GenericService_ServerClock = unary_call ''yb.server.GenericService'' ''ServerClock''"

definition GenericService_GetStatus :: "('q, 'r) rpc" where
  "GenericService_GetStatus = unary_call ''yb.server.GenericService'' ''GetStatus''"

definition GenericService_Ping :: "('q, 'r) rpc" where
  "GenericService_Ping = unary_call ''yb.server.GenericService'' ''Ping''"

definition GenericService_stubs :: "(string \<times> ('q, 'r) rpc) list" where
  "GenericService_stubs =
    [(''SetFlag'', GenericService_SetFlag), (''GetFlag'', GenericService_GetFlag),
     (''RefreshFlags'', GenericService_RefreshFlags), (''FlushCoverage'', GenericService_FlushCoverage),
     (''ServerClock'', GenericService_ServerClock), (''GetStatus'', GenericService_GetStatus),
     (''Ping'', GenericService_Ping)]"

subsection \<open>MasterService\<close>

definition MasterService_TSHeartbeat :: "('q, 'r) rpc" where
  "MasterService_TSHeartbeat = unary_call ''yb.master.MasterService'' ''TSHeartbeat''"

definition MasterService_GetTabletLocations :: "('q, 'r) rpc" where
  "MasterService_GetTabletLocations = unary_call ''yb.master.MasterService'' ''GetTabletLocations''"

definition MasterService_CreateTable :: "('q, 'r) rpc" where
  "MasterService_CreateTable = unary_call ''yb.master.MasterService'' ''CreateTable''"

definition MasterService_IsCreateTableDone :: "('q, 'r) rpc" where
  "MasterService_IsCreateTableDone = unary_call ''yb.master.MasterService'' ''IsCreateTableDone''"

definition MasterService_TruncateTable :: "('q, 'r) rpc" where
  "MasterService_TruncateTable = unary_call ''yb.master.MasterService'' ''TruncateTable''"

definition MasterService_IsTruncateTableDone :: "('q, 'r) rpc" where
  "MasterService_IsTruncateTableDone = unary_call ''yb.master.MasterService'' ''IsTruncateTableDone''"

definition MasterService_BackfillIndex :: "('q, 'r) rpc" where
  "MasterService_BackfillIndex = unary_call ''yb.master.MasterService'' ''BackfillIndex''"

definition MasterService_LaunchBackfillIndexForTable :: "('q, 'r) rpc" where
  "MasterService_LaunchBackfillIndexForTable = unary_call ''yb.master.MasterService'' ''LaunchBackfillIndexForTable''"

definition MasterService_DeleteTable :: "('q, 'r) rpc" where
  "MasterService_DeleteTable = unary_call ''yb.master.MasterService'' ''DeleteTable''"

definition MasterService_IsDeleteTableDone :: "('q, 'r) rpc" where
  "MasterService_IsDeleteTableDone = unary_call ''yb.master.MasterService'' ''IsDeleteTableDone''"

definition MasterService_AlterTable :: "('q, 'r) rpc" where
  "MasterService_AlterTable = unary_call ''yb.master.MasterService'' ''AlterTable''"

definition MasterService_IsAlterTableDone :: "('q, 'r) rpc" where
  "MasterService_IsAlterTableDone = unary_call ''yb.master.MasterService'' ''IsAlterTableDone''"

definition MasterService_ListTables :: "('q, 'r) rpc" where
  "MasterService_ListTables = unary_call ''yb.master.MasterService'' ''ListTables''"

definition MasterService_GetTableLocations :: "('q, 'r) rpc" where
  "MasterService_GetTableLocations = unary_call ''yb.master.MasterService'' ''GetTableLocations''"

definition MasterService_GetTableSchema :: "('q, 'r) rpc" where
  "MasterService_GetTableSchema = unary_call ''yb.master.MasterService'' ''GetTableSchema''"

definition MasterService_GetColocatedTabletSchema :: "('q, 'r) rpc" where
  "MasterService_GetColocatedTabletSchema = unary_call ''yb.master.MasterService'' ''GetColocatedTabletSchema''"

definition MasterService_CreateNamespace :: "('q, 'r) rpc" where
  "MasterService_CreateNamespace = unary_call ''yb.master.MasterService'' ''CreateNamespace''"

definition MasterService_IsCreateNamespaceDone :: "('q, 'r) rpc" where
  "MasterService_IsCreateNamespaceDone = unary_call ''yb.master.MasterService'' ''IsCreateNamespaceDone''"

definition MasterService_DeleteNamespace :: "('q, 'r) rpc" where
  "MasterService_DeleteNamespace = unary_call ''yb.master.MasterService'' ''DeleteNamespace''"

definition MasterService_IsDeleteNamespaceDone :: "('q, 'r) rpc" where
  "MasterService_IsDeleteNamespaceDone = unary_call ''yb.master.MasterService'' ''IsDeleteNamespaceDone''"

definition MasterService_AlterNamespace :: "('q, 'r) rpc" where
  "MasterService_AlterNamespace = unary_call ''yb.master.MasterService'' ''AlterNamespace''"

definition MasterService_ListNamespaces :: "('q, 'r) rpc" where
  "MasterService_ListNamespaces = unary_call ''yb.master.MasterService'' ''ListNamespaces''"

definition MasterService_GetNamespaceInfo :: "('q, 'r) rpc" where
  "MasterService_GetNamespaceInfo = unary_call ''yb.master.MasterService'' ''GetNamespaceInfo''"

definition MasterService_CreateTablegroup :: "('q, 'r) rpc" where
  "MasterService_CreateTablegroup = unary_call ''yb.master.MasterService'' ''CreateTablegroup''"

definition MasterService_DeleteTablegroup :: "('q, 'r) rpc" where
  "MasterService_DeleteTablegroup = unary_call ''yb.master.MasterService'' ''DeleteTablegroup''"

definition MasterService_ListTablegroups :: "('q, 'r) rpc" where
  "MasterService_ListTablegroups = unary_call ''yb.master.MasterService'' ''ListTablegroups''"

definition MasterService_ReservePgsqlOids :: "('q, 'r) rpc" where
  "MasterService_ReservePgsqlOids = unary_call ''yb.master.MasterService'' ''ReservePgsqlOids''"

definition MasterService_GetYsqlCatalogConfig :: "('q, 'r) rpc" where
  "MasterService_GetYsqlCatalogConfig = unary_call ''yb.master.MasterService'' ''GetYsqlCatalogConfig''"

definition MasterService_CreateRole :: "('q, 'r) rpc" where
  "MasterService_CreateRole = unary_call ''yb.master.MasterService'' ''CreateRole''"

definition MasterService_AlterRole :: "('q, 'r) rpc" where
  "MasterService_AlterRole = unary_call ''yb.master.MasterService'' ''AlterRole''"

definition MasterService_DeleteRole :: "('q, 'r) rpc" where
  "MasterService_DeleteRole = unary_call ''yb.master.MasterService'' ''DeleteRole''"

definition MasterService_GrantRevokeRole :: "('q, 'r) rpc" where
  "MasterService_GrantRevokeRole = unary_call ''yb.master.MasterService'' ''GrantRevokeRole''"

definition MasterService_GrantRevokePermission :: "('q, 'r) rpc" where
  "MasterService_GrantRevokePermission = unary_call ''yb.master.MasterService'' ''GrantRevokePermission''"

definition MasterService_GetPermissions :: "('q, 'r) rpc" where
  "MasterService_GetPermissions = unary_call ''yb.master.MasterService'' ''GetPermissions''"

definition MasterService_CreateUDType :: "('q, 'r) rpc" where
  "MasterService_CreateUDType = unary_call ''yb.master.MasterService'' ''CreateUDType''"

definition MasterService_DeleteUDType :: "('q, 'r) rpc" where
  "MasterService_DeleteUDType = unary_call ''yb.master.MasterService'' ''DeleteUDType''"

definition MasterService_ListUDTypes :: "('q, 'r) rpc" where
  "MasterService_ListUDTypes = unary_call ''yb.master.MasterService'' ''ListUDTypes''"

definition MasterService_GetUDTypeInfo :: "('q, 'r) rpc" where
  "MasterService_GetUDTypeInfo = unary_call ''yb.master.MasterService'' ''GetUDTypeInfo''"

definition MasterService_CreateCDCStream :: "('q, 'r) rpc" where
  "MasterService_CreateCDCStream = unary_call ''yb.master.MasterService'' ''CreateCDCStream''"

definition MasterService_DeleteCDCStream :: "('q, 'r) rpc" where
  "MasterService_DeleteCDCStream = unary_call ''yb.master.MasterService'' ''DeleteCDCStream''"

definition MasterService_ListCDCStreams :: "('q, 'r) rpc" where
  "MasterService_ListCDCStreams = unary_call ''yb.master.MasterService'' ''ListCDCStreams''"

definition MasterService_GetCDCStream :: "('q, 'r) rpc" where
  "MasterService_GetCDCStream = unary_call ''yb.master.MasterService'' ''GetCDCStream''"

definition MasterService_RedisConfigSet :: "('q, 'r) rpc" where
  "MasterService_RedisConfigSet = unary_call ''yb.master.MasterService'' ''RedisConfigSet''"

definition MasterService_RedisConfigGet :: "('q, 'r) rpc" where
  "MasterService_RedisConfigGet = unary_call ''yb.master.MasterService'' ''RedisConfigGet''"

definition MasterService_ListTabletServers :: "('q, 'r) rpc" where
  "MasterService_ListTabletServers = unary_call ''yb.master.MasterService'' ''ListTabletServers''"

definition MasterService_ListMasters :: "('q, 'r) rpc" where
  "MasterService_ListMasters = unary_call ''yb.master.MasterService'' ''ListMasters''"

definition MasterService_ListMasterRaftPeers :: "('q, 'r) rpc" where
  "MasterService_ListMasterRaftPeers = unary_call ''yb.master.MasterService'' ''ListMasterRaftPeers''"

definition MasterService_GetMasterRegistration :: "('q, 'r) rpc" where
  "MasterService_GetMasterRegistration = unary_call ''yb.master.MasterService'' ''GetMasterRegistration''"

definition MasterService_IsMasterLeaderServiceReady :: "('q, 'r) rpc" where
  "MasterService_IsMasterLeaderServiceReady = unary_call ''yb.master.MasterService'' ''IsMasterLeaderServiceReady''"

definition MasterService_DumpState :: "('q, 'r) rpc" where
  "MasterService_DumpState = unary_call ''yb.master.MasterService'' ''DumpState''"

definition MasterService_ChangeLoadBalancerState :: "('q, 'r) rpc" where
  "MasterService_ChangeLoadBalancerState = unary_call ''yb.master.MasterService'' ''ChangeLoadBalancerState''"

definition MasterService_GetLoadBalancerState :: "('q, 'r) rpc" where
  "MasterService_GetLoadBalancerState = unary_call ''yb.master.MasterService'' ''GetLoadBalancerState''"

definition MasterService_RemovedMasterUpdate :: "('q, 'r) rpc" where
  "MasterService_RemovedMasterUpdate = unary_call ''yb.master.MasterService'' ''RemovedMasterUpdate''"

definition MasterService_SetPreferredZones :: "('q, 'r) rpc" where
  "MasterService_SetPreferredZones = unary_call ''yb.master.MasterService'' ''SetPreferredZones''"

definition MasterService_GetMasterClusterConfig :: "('q, 'r) rpc" where
  "MasterService_GetMasterClusterConfig = unary_call ''yb.master.MasterService'' ''GetMasterClusterConfig''"

definition MasterService_ChangeMasterClusterConfig :: "('q, 'r) rpc" where
  "MasterService_ChangeMasterClusterConfig = unary_call ''yb.master.MasterService'' ''ChangeMasterClusterConfig''"

definition MasterService_GetLoadMoveCompletion :: "('q, 'r) rpc" where
  "MasterService_GetLoadMoveCompletion = unary_call ''yb.master.MasterService'' ''GetLoadMoveCompletion''"

definition MasterService_GetLeaderBlacklistCompletion :: "('q, 'r) rpc" where
  "MasterService_GetLeaderBlacklistCompletion = unary_call ''yb.master.MasterService'' ''GetLeaderBlacklistCompletion''"

definition MasterService_IsLoadBalanced :: "('q, 'r) rpc" where
  "MasterService_IsLoadBalanced = unary_call ''yb.master.MasterService'' ''IsLoadBalanced''"

definition MasterService_IsLoadBalancerIdle :: "('q, 'r) rpc" where
  "MasterService_IsLoadBalancerIdle = unary_call ''yb.master.MasterService'' ''IsLoadBalancerIdle''"

definition MasterService_AreLeadersOnPreferredOnly :: "('q, 'r) rpc" where
  "MasterService_AreLeadersOnPreferredOnly = unary_call ''yb.master.MasterService'' ''AreLeadersOnPreferredOnly''"

definition MasterService_FlushTables :: "('q, 'r) rpc" where
  "MasterService_FlushTables = unary_call ''yb.master.MasterService'' ''FlushTables''"

definition MasterService_IsFlushTablesDone :: "('q, 'r) rpc" where
  "MasterService_IsFlushTablesDone = unary_call ''yb.master.MasterService'' ''IsFlushTablesDone''"

definition MasterService_IsInitDbDone :: "('q, 'r) rpc" where
  "MasterService_IsInitDbDone = unary_call ''yb.master.MasterService'' ''IsInitDbDone''"

definition MasterService_ChangeEncryptionInfo :: "('q, 'r) rpc" where
  "MasterService_ChangeEncryptionInfo = unary_call ''yb.master.MasterService'' ''ChangeEncryptionInfo''"

definition MasterService_IsEncryptionEnabled :: "('q, 'r) rpc" where
  "MasterService_IsEncryptionEnabled = unary_call ''yb.master.MasterService'' ''IsEncryptionEnabled''"

definition MasterService_SetupUniverseReplication :: "('q, 'r) rpc" where
  "MasterService_SetupUniverseReplication = unary_call ''yb.master.MasterService'' ''SetupUniverseReplication''"

definition MasterService_DeleteUniverseReplication :: "('q, 'r) rpc" where
  "MasterService_DeleteUniverseReplication = unary_call ''yb.master.MasterService'' ''DeleteUniverseReplication''"

definition MasterService_AlterUniverseReplication :: "('q, 'r) rpc" where
  "MasterService_AlterUniverseReplication = unary_call ''yb.master.MasterService'' ''AlterUniverseReplication''"

definition MasterService_SetUniverseReplicationEnabled :: "('q, 'r) rpc" where
  "MasterService_SetUniverseReplicationEnabled = unary_call ''yb.master.MasterService'' ''SetUniverseReplicationEnabled''"

definition MasterService_GetUniverseReplication :: "('q, 'r) rpc" where
  "MasterService_GetUniverseReplication = unary_call ''yb.master.MasterService'' ''GetUniverseReplication''"

definition MasterService_AddUniverseKeys :: "('q, 'r) rpc" where
  "MasterService_AddUniverseKeys = unary_call ''yb.master.MasterService'' ''AddUniverseKeys''"

definition MasterService_GetUniverseKeyRegistry :: "('q, 'r) rpc" where
  "MasterService_GetUniverseKeyRegistry = unary_call ''yb.master.MasterService'' ''GetUniverseKeyRegistry''"

definition MasterService_HasUniverseKeyInMemory :: "('q, 'r) rpc" where
  "MasterService_HasUniverseKeyInMemory = unary_call ''yb.master.MasterService'' ''HasUniverseKeyInMemory''"

definition MasterService_SplitTablet :: "('q, 'r) rpc" where
  "MasterService_SplitTablet = unary_call ''yb.master.MasterService'' ''SplitTablet''"

definition MasterService_DeleteTablet :: "('q, 'r) rpc" where
  "MasterService_DeleteTablet = unary_call ''yb.master.MasterService'' ''DeleteTablet''"

definition MasterService_stubs :: "(string \<times> ('q, 'r) rpc) list" where
  "MasterService_stubs =
    [(''TSHeartbeat'', MasterService_TSHeartbeat), (''GetTabletLocations'', MasterService_GetTabletLocations),
     (''CreateTable'', MasterService_CreateTable), (''IsCreateTableDone'', MasterService_IsCreateTableDone),
     (''TruncateTable'', MasterService_TruncateTable), (''IsTruncateTableDone'', MasterService_IsTruncateTableDone),
     (''BackfillIndex'', MasterService_BackfillIndex),
     (''LaunchBackfillIndexForTable'', MasterService_LaunchBackfillIndexForTable),
     (''DeleteTable'', MasterService_DeleteTable), (''IsDeleteTableDone'', MasterService_IsDeleteTableDone),
     (''AlterTable'', MasterService_AlterTable), (''IsAlterTableDone'', MasterService_IsAlterTableDone),
     (''ListTables'', MasterService_ListTables), (''GetTableLocations'', MasterService_GetTableLocations),
     (''GetTableSchema'', MasterService_GetTableSchema),
     (''GetColocatedTabletSchema'', MasterService_GetColocatedTabletSchema),
     (''CreateNamespace'', MasterService_CreateNamespace),
     (''IsCreateNamespaceDone'', MasterService_IsCreateNamespaceDone),
     (''DeleteNamespace'', MasterService_DeleteNamespace),
     (''IsDeleteNamespaceDone'', MasterService_IsDeleteNamespaceDone),
     (''AlterNamespace'', MasterService_AlterNamespace), (''ListNamespaces'', MasterService_ListNamespaces),
     (''GetNamespaceInfo'', MasterService_GetNamespaceInfo), (''CreateTablegroup'', MasterService_CreateTablegroup),
     (''DeleteTablegroup'', MasterService_DeleteTablegroup), (''ListTablegroups'', MasterService_ListTablegroups),
     (''ReservePgsqlOids'', MasterService_ReservePgsqlOids),
     (''GetYsqlCatalogConfig'', MasterService_GetYsqlCatalogConfig), (''CreateRole'', MasterService_CreateRole),
     (''AlterRole'', MasterService_AlterRole), (''DeleteRole'', MasterService_DeleteRole),
     (''GrantRevokeRole'', MasterService_GrantRevokeRole),
     (''GrantRevokePermission'', MasterService_GrantRevokePermission),
     (''GetPermissions'', MasterService_GetPermissions), (''CreateUDType'', MasterService_CreateUDType),
     (''DeleteUDType'', MasterService_DeleteUDType), (''ListUDTypes'', MasterService_ListUDTypes),
     (''GetUDTypeInfo'', MasterService_GetUDTypeInfo), (''CreateCDCStream'', MasterService_CreateCDCStream),
     (''DeleteCDCStream'', MasterService_DeleteCDCStream), (''ListCDCStreams'', MasterService_ListCDCStreams),
     (''GetCDCStream'', MasterService_GetCDCStream), (''RedisConfigSet'', MasterService_RedisConfigSet),
     (''RedisConfigGet'', MasterService_RedisConfigGet), (''ListTabletServers'', MasterService_ListTabletServers),
     (''ListMasters'', MasterService_ListMasters), (''ListMasterRaftPeers'', MasterService_ListMasterRaftPeers),
     (''GetMasterRegistration'', MasterService_GetMasterRegistration),
     (''IsMasterLeaderServiceReady'', MasterService_IsMasterLeaderServiceReady),
     (''DumpState'', MasterService_DumpState), (''ChangeLoadBalancerState'', MasterService_ChangeLoadBalancerState),
     (''GetLoadBalancerState'', MasterService_GetLoadBalancerState),
     (''RemovedMasterUpdate'', MasterService_RemovedMasterUpdate),
     (''SetPreferredZones'', MasterService_SetPreferredZones),
     (''GetMasterClusterConfig'', MasterService_GetMasterClusterConfig),
     (''ChangeMasterClusterConfig'', MasterService_ChangeMasterClusterConfig),
     (''GetLoadMoveCompletion'', MasterService_GetLoadMoveCompletion),
     (''GetLeaderBlacklistCompletion'', MasterService_GetLeaderBlacklistCompletion),
     (''IsLoadBalanced'', MasterService_IsLoadBalanced), (''IsLoadBalancerIdle'', MasterService_IsLoadBalancerIdle),
     (''AreLeadersOnPreferredOnly'', MasterService_AreLeadersOnPreferredOnly),
     (''FlushTables'', MasterService_FlushTables), (''IsFlushTablesDone'', MasterService_IsFlushTablesDone),
     (''IsInitDbDone'', MasterService_IsInitDbDone), (''ChangeEncryptionInfo'', MasterService_ChangeEncryptionInfo),
     (''IsEncryptionEnabled'', MasterService_IsEncryptionEnabled),
     (''SetupUniverseReplication'', MasterService_SetupUniverseReplication),
     (''DeleteUniverseReplication'', MasterService_DeleteUniverseReplication),
     (''AlterUniverseReplication'', MasterService_AlterUniverseReplication),
     (''SetUniverseReplicationEnabled'', MasterService_SetUniverseReplicationEnabled),
     (''GetUniverseReplication'', MasterService_GetUniverseReplication),
     (''AddUniverseKeys'', MasterService_AddUniverseKeys),
     (''GetUniverseKeyRegistry'', MasterService_GetUniverseKeyRegistry),
     (''HasUniverseKeyInMemory'', MasterService_HasUniverseKeyInMemory),
     (''SplitTablet'', MasterService_SplitTablet), (''DeleteTablet'', MasterService_DeleteTablet)]"

subsection \<open>TabletServerService\<close>

definition TabletServerService_Write :: "('q, 'r) rpc" where
  "TabletServerService_Write = unary_call ''yb.tserver.TabletServerService'' ''Write''"

definition TabletServerService_Read :: "('q, 'r) rpc" where
  "TabletServerService_Read = unary_call ''yb.tserver.TabletServerService'' ''Read''"

definition TabletServerService_NoOp :: "('q, 'r) rpc" where
  "TabletServerService_NoOp = unary_call ''yb.tserver.TabletServerService'' ''NoOp''"

definition TabletServerService_ListTablets :: "('q, 'r) rpc" where
  "TabletServerService_ListTablets = unary_call ''yb.tserver.TabletServerService'' ''ListTablets''"

definition TabletServerService_GetLogLocation :: "('q, 'r) rpc" where
  "TabletServerService_GetLogLocation = unary_call ''yb.tserver.TabletServerService'' ''GetLogLocation''"

definition TabletServerService_Checksum :: "('q, 'r) rpc" where
  "TabletServerService_Checksum = unary_call ''yb.tserver.TabletServerService'' ''Checksum''"

definition TabletServerService_ListTabletsForTabletServer :: "('q, 'r) rpc" where
  "TabletServerService_ListTabletsForTabletServer = unary_call ''yb.tserver.TabletServerService'' ''ListTabletsForTabletServer''"

definition TabletServerService_ImportData :: "('q, 'r) rpc" where
  "TabletServerService_ImportData = unary_call ''yb.tserver.TabletServerService'' ''ImportData''"

definition TabletServerService_UpdateTransaction :: "('q, 'r) rpc" where
  "TabletServerService_UpdateTransaction = unary_call ''yb.tserver.TabletServerService'' ''UpdateTransaction''"

definition TabletServerService_GetTransactionStatus :: "('q, 'r) rpc" where
  "TabletServerService_GetTransactionStatus = unary_call ''yb.tserver.TabletServerService'' ''GetTransactionStatus''"

definition TabletServerService_GetTransactionStatusAtParticipant :: "('q, 'r) rpc" where
  "TabletServerService_GetTransactionStatusAtParticipant = unary_call ''yb.tserver.TabletServerService'' ''GetTransactionStatusAtParticipant''"

definition TabletServerService_AbortTransaction :: "('q, 'r) rpc" where
  "TabletServerService_AbortTransaction = unary_call ''yb.tserver.TabletServerService'' ''AbortTransaction''"

definition TabletServerService_Truncate :: "('q, 'r) rpc" where
  "TabletServerService_Truncate = unary_call ''yb.tserver.TabletServerService'' ''Truncate''"

definition TabletServerService_GetTabletStatus :: "('q, 'r) rpc" where
  "TabletServerService_GetTabletStatus = unary_call ''yb.tserver.TabletServerService'' ''GetTabletStatus''"

definition TabletServerService_GetMasterAddresses :: "('q, 'r) rpc" where
  "TabletServerService_GetMasterAddresses = unary_call ''yb.tserver.TabletServerService'' ''GetMasterAddresses''"

definition TabletServerService_Publish :: "('q, 'r) rpc" where
  "TabletServerService_Publish = unary_call ''yb.tserver.TabletServerService'' ''Publish''"

definition TabletServerService_IsTabletServerReady :: "('q, 'r) rpc" where
  "TabletServerService_IsTabletServerReady = unary_call ''yb.tserver.TabletServerService'' ''IsTabletServerReady''"

definition TabletServerService_TakeTransaction :: "('q, 'r) rpc" where
  "TabletServerService_TakeTransaction = unary_call ''yb.tserver.TabletServerService'' ''TakeTransaction''"

definition TabletServerService_stubs :: "(string \<times> ('q, 'r) rpc) list" where
  "TabletServerService_stubs =
    [(''Write'', TabletServerService_Write), (''Read'', TabletServerService_Read),
     (''NoOp'', TabletServerService_NoOp), (''ListTablets'', TabletServerService_ListTablets),
     (''GetLogLocation'', TabletServerService_GetLogLocation), (''Checksum'', TabletServerService_Checksum),
     (''ListTabletsForTabletServer'', TabletServerService_ListTabletsForTabletServer),
     (''ImportData'', TabletServerService_ImportData),
     (''UpdateTransaction'', TabletServerService_UpdateTransaction),
     (''GetTransactionStatus'', TabletServerService_GetTransactionStatus),
     (''GetTransactionStatusAtParticipant'', TabletServerService_GetTransactionStatusAtParticipant),
     (''AbortTransaction'', TabletServerService_AbortTransaction), (''Truncate'', TabletServerService_Truncate),
     (''GetTabletStatus'', TabletServerService_GetTabletStatus),
     (''GetMasterAddresses'', TabletServerService_GetMasterAddresses), (''Publish'', TabletServerService_Publish),
     (''IsTabletServerReady'', TabletServerService_IsTabletServerReady),
     (''TakeTransaction'', TabletServerService_TakeTransaction)]"

subsection \<open>TabletServerAdminService\<close>

definition TabletServerAdminService_CreateTablet :: "('q, 'r) rpc" where
  "TabletServerAdminService_CreateTablet = unary_call ''yb.tserver.TabletServerAdminService'' ''CreateTablet''"

definition TabletServerAdminService_DeleteTablet :: "('q, 'r) rpc" where
  "TabletServerAdminService_DeleteTablet = unary_call ''yb.tserver.TabletServerAdminService'' ''DeleteTablet''"

definition TabletServerAdminService_AlterSchema :: "('q, 'r) rpc" where
  "TabletServerAdminService_AlterSchema = unary_call ''yb.tserver.TabletServerAdminService'' ''AlterSchema''"

definition TabletServerAdminService_GetSafeTime :: "('q, 'r) rpc" where
  "TabletServerAdminService_GetSafeTime = unary_call ''yb.tserver.TabletServerAdminService'' ''GetSafeTime''"

definition TabletServerAdminService_BackfillIndex :: "('q, 'r) rpc" where
  "TabletServerAdminService_BackfillIndex = unary_call ''yb.tserver.TabletServerAdminService'' ''BackfillIndex''"

definition TabletServerAdminService_BackfillDone :: "('q, 'r) rpc" where
  "TabletServerAdminService_BackfillDone = unary_call ''yb.tserver.TabletServerAdminService'' ''BackfillDone''"

definition TabletServerAdminService_CopartitionTable :: "('q, 'r) rpc" where
  "TabletServerAdminService_CopartitionTable = unary_call ''yb.tserver.TabletServerAdminService'' ''CopartitionTable''"

definition TabletServerAdminService_FlushTablets :: "('q, 'r) rpc" where
  "TabletServerAdminService_FlushTablets = unary_call ''yb.tserver.TabletServerAdminService'' ''FlushTablets''"

definition TabletServerAdminService_CountIntents :: "('q, 'r) rpc" where
  "TabletServerAdminService_CountIntents = unary_call ''yb.tserver.TabletServerAdminService'' ''CountIntents''"

definition TabletServerAdminService_AddTableToTablet :: "('q, 'r) rpc" where
  "TabletServerAdminService_AddTableToTablet = unary_call ''yb.tserver.TabletServerAdminService'' ''AddTableToTablet''"

definition TabletServerAdminService_RemoveTableFromTablet :: "('q, 'r) rpc" where
  "TabletServerAdminService_RemoveTableFromTablet = unary_call ''yb.tserver.TabletServerAdminService'' ''RemoveTableFromTablet''"

definition TabletServerAdminService_SplitTablet :: "('q, 'r) rpc" where
  "TabletServerAdminService_SplitTablet = unary_call ''yb.tserver.TabletServerAdminService'' ''SplitTablet''"

definition TabletServerAdminService_stubs :: "(string \<times> ('q, 'r) rpc) list" where
  "TabletServerAdminService_stubs =
    [(''CreateTablet'', TabletServerAdminService_CreateTablet),
     (''DeleteTablet'', TabletServerAdminService_DeleteTablet),
     (''AlterSchema'', TabletServerAdminService_AlterSchema),
     (''GetSafeTime'', TabletServerAdminService_GetSafeTime),
     (''BackfillIndex'', TabletServerAdminService_BackfillIndex),
     (''BackfillDone'', TabletServerAdminService_BackfillDone),
     (''CopartitionTable'', TabletServerAdminService_CopartitionTable),
     (''FlushTablets'', TabletServerAdminService_FlushTablets),
     (''CountIntents'', TabletServerAdminService_CountIntents),
     (''AddTableToTablet'', TabletServerAdminService_AddTableToTablet),
     (''RemoveTableFromTablet'', TabletServerAdminService_RemoveTableFromTablet),
     (''SplitTablet'', TabletServerAdminService_SplitTablet)]"

subsection \<open>TabletServerBackupService\<close>

definition TabletServerBackupService_TabletSnapshotOp :: "('q, 'r) rpc" where
  "TabletServerBackupService_TabletSnapshotOp = unary_call ''yb.tserver.TabletServerBackupService'' ''TabletSnapshotOp''"

definition TabletServerBackupService_stubs :: "(string \<times> ('q, 'r) rpc) list" where
  "TabletServerBackupService_stubs =
    [(''TabletSnapshotOp'', TabletServerBackupService_TabletSnapshotOp)]"

subsection \<open>RemoteBootstrapService\<close>

definition RemoteBootstrapService_BeginRemoteBootstrapSession :: "('q, 'r) rpc" where
  "RemoteBootstrapService_BeginRemoteBootstrapSession = unary_call ''yb.tserver.RemoteBootstrapService'' ''BeginRemoteBootstrapSession''"

definition RemoteBootstrapService_CheckSessionActive :: "('q, 'r) rpc" where
  "RemoteBootstrapService_CheckSessionActive = unary_call ''yb.tserver.RemoteBootstrapService'' ''CheckSessionActive''"

definition RemoteBootstrapService_FetchData :: "('q, 'r) rpc" where
  "RemoteBootstrapService_FetchData = unary_call ''yb.tserver.RemoteBootstrapService'' ''FetchData''"

definition RemoteBootstrapService_EndRemoteBootstrapSession :: "('q, 'r) rpc" where
  "RemoteBootstrapService_EndRemoteBootstrapSession = unary_call ''yb.tserver.RemoteBootstrapService'' ''EndRemoteBootstrapSession''"

definition RemoteBootstrapService_RemoveSession :: "('q, 'r) rpc" where
  "RemoteBootstrapService_RemoveSession = unary_call ''yb.tserver.RemoteBootstrapService'' ''RemoveSession''"

definition RemoteBootstrapService_stubs :: "(string \<times> ('q, 'r) rpc) list" where
  "RemoteBootstrapService_stubs =
    [(''BeginRemoteBootstrapSession'', RemoteBootstrapService_BeginRemoteBootstrapSession),
     (''CheckSessionActive'', RemoteBootstrapService_CheckSessionActive),
     (''FetchData'', RemoteBootstrapService_FetchData),
     (''EndRemoteBootstrapSession'', RemoteBootstrapService_EndRemoteBootstrapSession),
     (''RemoveSession'', RemoteBootstrapService_RemoveSession)]"

subsection \<open>ConsensusService\<close>

definition ConsensusService_UpdateConsensus :: "('q, 'r) rpc" where
  "ConsensusService_UpdateConsensus = unary_call ''yb.consensus.ConsensusService'' ''UpdateConsensus''"

definition ConsensusService_RequestConsensusVote :: "('q, 'r) rpc" where
  "ConsensusService_RequestConsensusVote = unary_call ''yb.consensus.ConsensusService'' ''RequestConsensusVote''"

definition ConsensusService_ChangeConfig :: "('q, 'r) rpc" where
  "ConsensusService_ChangeConfig = unary_call ''yb.consensus.ConsensusService'' ''ChangeConfig''"

definition ConsensusService_GetNodeInstance :: "('q, 'r) rpc" where
  "ConsensusService_GetNodeInstance = unary_call ''yb.consensus.ConsensusService'' ''GetNodeInstance''"

definition ConsensusService_RunLeaderElection :: "('q, 'r) rpc" where
  "ConsensusService_RunLeaderElection = unary_call ''yb.consensus.ConsensusService'' ''RunLeaderElection''"

definition ConsensusService_LeaderElectionLost :: "('q, 'r) rpc" where
  "ConsensusService_LeaderElectionLost = unary_call ''yb.consensus.ConsensusService'' ''LeaderElectionLost''"

definition ConsensusService_LeaderStepDown :: "('q, 'r) rpc" where
  "ConsensusService_LeaderStepDown = unary_call ''yb.consensus.ConsensusService'' ''LeaderStepDown''"

definition ConsensusService_GetLastOpId :: "('q, 'r) rpc" where
  "ConsensusService_GetLastOpId = unary_call ''yb.consensus.ConsensusService'' ''GetLastOpId''"

definition ConsensusService_GetConsensusState :: "('q, 'r) rpc" where
  "ConsensusService_GetConsensusState = unary_call ''yb.consensus.ConsensusService'' ''GetConsensusState''"

definition ConsensusService_StartRemoteBootstrap :: "('q, 'r) rpc" where
  "ConsensusService_StartRemoteBootstrap = unary_call ''yb.consensus.ConsensusService'' ''StartRemoteBootstrap''"

definition ConsensusService_stubs :: "(string \<times> ('q, 'r) rpc) list" where
  "ConsensusService_stubs =
    [(''UpdateConsensus'', ConsensusService_UpdateConsensus),
     (''RequestConsensusVote'', ConsensusService_RequestConsensusVote),
     (''ChangeConfig'', ConsensusService_ChangeConfig), (''GetNodeInstance'', ConsensusService_GetNodeInstance),
     (''RunLeaderElection'', ConsensusService_RunLeaderElection),
     (''LeaderElectionLost'', ConsensusService_LeaderElectionLost),
     (''LeaderStepDown'', ConsensusService_LeaderStepDown), (''GetLastOpId'', ConsensusService_GetLastOpId),
     (''GetConsensusState'', ConsensusService_GetConsensusState),
     (''StartRemoteBootstrap'', ConsensusService_StartRemoteBootstrap)]"

subsection \<open>CDCService\<close>

definition CDCService_CreateCDCStream :: "('q, 'r) rpc" where
  "CDCService_CreateCDCStream = unary_call ''yb.cdc.CDCService'' ''CreateCDCStream''"

definition CDCService_DeleteCDCStream :: "('q, 'r) rpc" where
  "CDCService_DeleteCDCStream = unary_call ''yb.cdc.CDCService'' ''DeleteCDCStream''"

definition CDCService_ListTablets :: "('q, 'r) rpc" where
  "CDCService_ListTablets = unary_call ''yb.cdc.CDCService'' ''ListTablets''"

definition CDCService_GetChanges :: "('q, 'r) rpc" where
  "CDCService_GetChanges = unary_call ''yb.cdc.CDCService'' ''GetChanges''"

definition CDCService_GetCheckpoint :: "('q, 'r) rpc" where
  "CDCService_GetCheckpoint = unary_call ''yb.cdc.CDCService'' ''GetCheckpoint''"

definition CDCService_UpdateCdcReplicatedIndex :: "('q, 'r) rpc" where
  "CDCService_UpdateCdcReplicatedIndex = unary_call ''yb.cdc.CDCService'' ''UpdateCdcReplicatedIndex''"

definition CDCService_BootstrapProducer :: "('q, 'r) rpc" where
  "CDCService_BootstrapProducer = unary_call ''yb.cdc.CDCService'' ''BootstrapProducer''"

definition CDCService_GetLatestEntryOpId :: "('q, 'r) rpc" where
  "CDCService_GetLatestEntryOpId = unary_call ''yb.cdc.CDCService'' ''GetLatestEntryOpId''"

definition CDCService_stubs :: "(string \<times> ('q, 'r) rpc) list" where
  "CDCService_stubs =
    [(''CreateCDCStream'', CDCService_CreateCDCStream), (''DeleteCDCStream'', CDCService_DeleteCDCStream),
     (''ListTablets'', CDCService_ListTablets), (''GetChanges'', CDCService_GetChanges),
     (''GetCheckpoint'', CDCService_GetCheckpoint),
     (''UpdateCdcReplicatedIndex'', CDCService_UpdateCdcReplicatedIndex),
     (''BootstrapProducer'', CDCService_BootstrapProducer), (''GetLatestEntryOpId'', CDCService_GetLatestEntryOpId)]"

subsection \<open>CalculatorService\<close>

definition CalculatorService_Add :: "('q, 'r) rpc" where
  "CalculatorService_Add = unary_call ''yb.rpc_test.CalculatorService'' ''Add''"

definition CalculatorService_Sleep :: "('q, 'r) rpc" where
  "CalculatorService_Sleep = unary_call ''yb.rpc_test.CalculatorService'' ''Sleep''"

definition CalculatorService_Echo :: "('q, 'r) rpc" where
  "CalculatorService_Echo = unary_call ''yb.rpc_test.CalculatorService'' ''Echo''"

definition CalculatorService_WhoAmI :: "('q, 'r) rpc" where
  "CalculatorService_WhoAmI = unary_call ''yb.rpc_test.CalculatorService'' ''WhoAmI''"

definition CalculatorService_TestArgumentsInDiffPackage :: "('q, 'r) rpc" where
  "CalculatorService_TestArgumentsInDiffPackage = unary_call ''yb.rpc_test.CalculatorService'' ''TestArgumentsInDiffPackage''"

definition CalculatorService_Panic :: "('q, 'r) rpc" where
  "CalculatorService_Panic = unary_call ''yb.rpc_test.CalculatorService'' ''Panic''"

definition CalculatorService_Ping :: "('q, 'r) rpc" where
  "CalculatorService_Ping = unary_call ''yb.rpc_test.CalculatorService'' ''Ping''"

definition CalculatorService_Disconnect :: "('q, 'r) rpc" where
  "CalculatorService_Disconnect = unary_call ''yb.rpc_test.CalculatorService'' ''Disconnect''"

definition CalculatorService_Forward :: "('q, 'r) rpc" where
  "CalculatorService_Forward = unary_call ''yb.rpc_test.CalculatorService'' ''Forward''"

definition CalculatorService_stubs :: "(string \<times> ('q, 'r) rpc) list" where
  "CalculatorService_stubs =
    [(''Add'', CalculatorService_Add), (''Sleep'', CalculatorService_Sleep), (''Echo'', CalculatorService_Echo),
     (''WhoAmI'', CalculatorService_WhoAmI),
     (''TestArgumentsInDiffPackage'', CalculatorService_TestArgumentsInDiffPackage),
     (''Panic'', CalculatorService_Panic), (''Ping'', CalculatorService_Ping),
     (''Disconnect'', CalculatorService_Disconnect), (''Forward'', CalculatorService_Forward)]"

subsection \<open>All services\<close>

text \<open>The full name of the protocol-buffer service behind a Go service type.\<close>

definition service_names :: "(string \<times> string) list" where
  "service_names =
    [(''GenericService'', ''yb.server.GenericService''),
     (''MasterService'', ''yb.master.MasterService''),
     (''TabletServerService'', ''yb.tserver.TabletServerService''),
     (''TabletServerAdminService'', ''yb.tserver.TabletServerAdminService''),
     (''TabletServerBackupService'', ''yb.tserver.TabletServerBackupService''),
     (''RemoteBootstrapService'', ''yb.tserver.RemoteBootstrapService''),
     (''ConsensusService'', ''yb.consensus.ConsensusService''),
     (''CDCService'', ''yb.cdc.CDCService''),
     (''CalculatorService'', ''yb.rpc_test.CalculatorService'')]"

definition rpc_stubs :: "(string \<times> (string \<times> ('q, 'r) rpc) list) list" where
  "rpc_stubs =
    [(''GenericService'', GenericService_stubs),
     (''MasterService'', MasterService_stubs),
     (''TabletServerService'', TabletServerService_stubs),
     (''TabletServerAdminService'', TabletServerAdminService_stubs),
     (''TabletServerBackupService'', TabletServerBackupService_stubs),
     (''RemoteBootstrapService'', RemoteBootstrapService_stubs),
     (''ConsensusService'', ConsensusService_stubs),
     (''CDCService'', CDCService_stubs),
     (''CalculatorService'', CalculatorService_stubs)]"

lemmas stub_defs =
  GenericService_SetFlag_def
  GenericService_GetFlag_def
  GenericService_RefreshFlags_def
  GenericService_FlushCoverage_def
  GenericService_ServerClock_def
  GenericService_GetStatus_def
  GenericService_Ping_def
  MasterService_TSHeartbeat_def
  MasterService_GetTabletLocations_def
  MasterService_CreateTable_def
  MasterService_IsCreateTableDone_def
  MasterService_TruncateTable_def
  MasterService_IsTruncateTableDone_def
  MasterService_BackfillIndex_def
  MasterService_LaunchBackfillIndexForTable_def
  MasterService_DeleteTable_def
  MasterService_IsDeleteTableDone_def
  MasterService_AlterTable_def
  MasterService_IsAlterTableDone_def
  MasterService_ListTables_def
  MasterService_GetTableLocations_def
  MasterService_GetTableSchema_def
  MasterService_GetColocatedTabletSchema_def
  MasterService_CreateNamespace_def
  MasterService_IsCreateNamespaceDone_def
  MasterService_DeleteNamespace_def
  MasterService_IsDeleteNamespaceDone_def
  MasterService_AlterNamespace_def
  MasterService_ListNamespaces_def
  MasterService_GetNamespaceInfo_def
  MasterService_CreateTablegroup_def
  MasterService_DeleteTablegroup_def
  MasterService_ListTablegroups_def
  MasterService_ReservePgsqlOids_def
  MasterService_GetYsqlCatalogConfig_def
  MasterService_CreateRole_def
  MasterService_AlterRole_def
  MasterService_DeleteRole_def
  MasterService_GrantRevokeRole_def
  MasterService_GrantRevokePermission_def
  MasterService_GetPermissions_def
  MasterService_CreateUDType_def
  MasterService_DeleteUDType_def
  MasterService_ListUDTypes_def
  MasterService_GetUDTypeInfo_def
  MasterService_CreateCDCStream_def
  MasterService_DeleteCDCStream_def
  MasterService_ListCDCStreams_def
  MasterService_GetCDCStream_def
  MasterService_RedisConfigSet_def
  MasterService_RedisConfigGet_def
  MasterService_ListTabletServers_def
  MasterService_ListMasters_def
  MasterService_ListMasterRaftPeers_def
  MasterService_GetMasterRegistration_def
  MasterService_IsMasterLeaderServiceReady_def
  MasterService_DumpState_def
  MasterService_ChangeLoadBalancerState_def
  MasterService_GetLoadBalancerState_def
  MasterService_RemovedMasterUpdate_def
  MasterService_SetPreferredZones_def
  MasterService_GetMasterClusterConfig_def
  MasterService_ChangeMasterClusterConfig_def
  MasterService_GetLoadMoveCompletion_def
  MasterService_GetLeaderBlacklistCompletion_def
  MasterService_IsLoadBalanced_def
  MasterService_IsLoadBalancerIdle_def
  MasterService_AreLeadersOnPreferredOnly_def
  MasterService_FlushTables_def
  MasterService_IsFlushTablesDone_def
  MasterService_IsInitDbDone_def
  MasterService_ChangeEncryptionInfo_def
  MasterService_IsEncryptionEnabled_def
  MasterService_SetupUniverseReplication_def
  MasterService_DeleteUniverseReplication_def
  MasterService_AlterUniverseReplication_def
  MasterService_SetUniverseReplicationEnabled_def
  MasterService_GetUniverseReplication_def
  MasterService_AddUniverseKeys_def
  MasterService_GetUniverseKeyRegistry_def
  MasterService_HasUniverseKeyInMemory_def
  MasterService_SplitTablet_def
  MasterService_DeleteTablet_def
  TabletServerService_Write_def
  TabletServerService_Read_def
  TabletServerService_NoOp_def
  TabletServerService_ListTablets_def
  TabletServerService_GetLogLocation_def
  TabletServerService_Checksum_def
  TabletServerService_ListTabletsForTabletServer_def
  TabletServerService_ImportData_def
  TabletServerService_UpdateTransaction_def
  TabletServerService_GetTransactionStatus_def
  TabletServerService_GetTransactionStatusAtParticipant_def
  TabletServerService_AbortTransaction_def
  TabletServerService_Truncate_def
  TabletServerService_GetTabletStatus_def
  TabletServerService_GetMasterAddresses_def
  TabletServerService_Publish_def
  TabletServerService_IsTabletServerReady_def
  TabletServerService_TakeTransaction_def
  TabletServerAdminService_CreateTablet_def
  TabletServerAdminService_DeleteTablet_def
  TabletServerAdminService_AlterSchema_def
  TabletServerAdminService_GetSafeTime_def
  TabletServerAdminService_BackfillIndex_def
  TabletServerAdminService_BackfillDone_def
  TabletServerAdminService_CopartitionTable_def
  TabletServerAdminService_FlushTablets_def
  TabletServerAdminService_CountIntents_def
  TabletServerAdminService_AddTableToTablet_def
  TabletServerAdminService_RemoveTableFromTablet_def
  TabletServerAdminService_SplitTablet_def
  TabletServerBackupService_TabletSnapshotOp_def
  RemoteBootstrapService_BeginRemoteBootstrapSession_def
  RemoteBootstrapService_CheckSessionActive_def
  RemoteBootstrapService_FetchData_def
  RemoteBootstrapService_EndRemoteBootstrapSession_def
  RemoteBootstrapService_RemoveSession_def
  ConsensusService_UpdateConsensus_def
  ConsensusService_RequestConsensusVote_def
  ConsensusService_ChangeConfig_def
  ConsensusService_GetNodeInstance_def
  ConsensusService_RunLeaderElection_def
  ConsensusService_LeaderElectionLost_def
  ConsensusService_LeaderStepDown_def
  ConsensusService_GetLastOpId_def
  ConsensusService_GetConsensusState_def
  ConsensusService_StartRemoteBootstrap_def
  CDCService_CreateCDCStream_def
  CDCService_DeleteCDCStream_def
  CDCService_ListTablets_def
  CDCService_GetChanges_def
  CDCService_GetCheckpoint_def
  CDCService_UpdateCdcReplicatedIndex_def
  CDCService_BootstrapProducer_def
  CDCService_GetLatestEntryOpId_def
  CalculatorService_Add_def
  CalculatorService_Sleep_def
  CalculatorService_Echo_def
  CalculatorService_WhoAmI_def
  CalculatorService_TestArgumentsInDiffPackage_def
  CalculatorService_Panic_def
  CalculatorService_Ping_def
  CalculatorService_Disconnect_def
  CalculatorService_Forward_def

lemmas table_defs = GenericService_stubs_def MasterService_stubs_def TabletServerService_stubs_def TabletServerAdminService_stubs_def TabletServerBackupService_stubs_def RemoteBootstrapService_stubs_def ConsensusService_stubs_def CDCService_stubs_def CalculatorService_stubs_def

subsection \<open>Lemmas\<close>

lemma unary_call_SendMessage [simp]: "unary_call service name cd resp request s = SendMessage cd service name request resp s"
  by (cases "SendMessage cd service name request resp s"; cases "fst (SendMessage cd service name request resp s)")
     (simp_all add: unary_call_def)

text \<open>A stub of a service sends the service's full name and its own.\<close>

definition sends_its_name :: "string \<Rightarrow> string \<times> ('q, 'r) rpc \<Rightarrow> bool" where
  "sends_its_name full entry \<longleftrightarrow> snd entry = unary_call full (fst entry)"

lemma tables_sound:
  "list_all (\<lambda>(service, table). list_all (sends_its_name (the (map_of service_names service))) table) rpc_stubs"
  unfolding rpc_stubs_def table_defs stub_defs by (simp add: service_names_def sends_its_name_def)

lemma names_distinct: "list_all (\<lambda>(service, table). distinct (map fst table)) rpc_stubs"
  by (simp add: rpc_stubs_def table_defs)

subsection \<open>Properties\<close>

text \<open>C36: Every stub calls the method it is named after: whatever else happens, the request it writes is the four-byte length and
  the frame of a header with the full name of its service, its own name and the next call ID of the session, followed by the
  marshalled request; and a service has no two stubs of one name.\<close>

theorem stubs_name_their_methods:
  assumes "(service, table) \<in> set rpc_stubs" and "(name, stub) \<in> set table"
    and "marshal_header cd (call_header (the (map_of service_names service)) name s) = Ok h" and "marshal_body cd q = Ok b"
    and "length h + length b + 10 < 2 ^ 32" and "write_plan (sconn s) = []"
  shows "(\<exists>w n f. outbox (sconn (snd (stub cd resp q s))) = outbox (sconn s) @ w \<and>
      be32_dec w = Some (n, f) \<and> length f = n \<and> decode_many delimited_dec 2 f = Some ([h, b], [])) \<and> distinct (map fst table)"
proof (intro conjI)
  have "sends_its_name (the (map_of service_names service)) (name, stub)"
    using tables_sound assms(1,2) by (fastforce simp: list_all_iff)
  then show "\<exists>w n f. outbox (sconn (snd (stub cd resp q s))) = outbox (sconn s) @ w \<and>
      be32_dec w = Some (n, f) \<and> length f = n \<and> decode_many delimited_dec 2 f = Some ([h, b], [])"
    using sent_request [OF assms(3-6), of resp] by (simp add: sends_its_name_def)
  show "distinct (map fst table)" using names_distinct assms(1) by (fastforce simp: list_all_iff)
qed

lemma stubs_name_their_methods_witness:
  "\<exists>w n f. outbox (sconn (snd (MasterService_ListTables sample_codec [] [7] (sample_session [])))) = [89, 66, 1] @ w \<and>
      be32_dec w = Some (n, f) \<and> length f = n \<and> decode_many delimited_dec 2 f = Some ([be32 1, [7]], [])"
proof -
  have t: "(''MasterService'', MasterService_stubs) \<in> set (rpc_stubs :: (string \<times> (string \<times> (bytes, bytes) rpc) list) list)"
    by (simp add: rpc_stubs_def)
  have e: "(''ListTables'', MasterService_ListTables) \<in> set (MasterService_stubs :: (string \<times> (bytes, bytes) rpc) list)"
    by (simp add: MasterService_stubs_def)
  have m: "marshal_header sample_codec (call_header (the (map_of service_names ''MasterService'')) ''ListTables'' (sample_session []))
      = Ok (be32 1)" "marshal_body sample_codec [7] = Ok [7]" "length (be32 1) + length ([7] :: bytes) + 10 < 2 ^ 32"
    "write_plan (sconn (sample_session [])) = []" "outbox (sconn (sample_session [])) = [89, 66, 1]"
    by (simp_all add: sample_codec_def sample_session_def call_header_def)
  from stubs_name_their_methods [OF t e m(1-4), of "[]"] show ?thesis by (simp add: m(5))
qed

end
