(* ===== verification/Goroutines.thy ===== *)
theory Goroutines
  imports Transitions GoStd "HOL-Library.Multiset"
begin

section \<open>Goroutines on a shared state\<close>

text \<open>
  The code of a goroutine as atomic actions: at a point \<open>p\<close> of its body it acts on the state it shares with
  the others and goes on at another point, returns a value, or panics. \<open>run_alone\<close> is what the body
  does when nothing comes between its actions. Two locales state what the concurrent parts of the program
  need of their bodies: \<open>finite_body\<close>, that they end, and \<open>independent_bodies\<close>, that each acts on a part of
  the state of its own; \<open>alone_view\<close> and \<open>alone_frame\<close> are the facts the schedules rest on.
\<close>

datatype ('p, 'a) progress = Continue 'p | Finish 'a | Fail string

partial_function (option) run_alone ::
  "('p \<Rightarrow> 'w \<Rightarrow> ('p, 'a) progress \<times> 'w) \<Rightarrow> 'p \<Rightarrow> 'w \<Rightarrow> ('a res \<times> 'w) option" where
  "run_alone act p w =
     (case act p w of
        (Continue p1, w1) \<Rightarrow> run_alone act p1 w1
      | (Finish a, w1) \<Rightarrow> Some (Ok a, w1)
      | (Fail x, w1) \<Rightarrow> Some (Panic x, w1))"

lemma run_alone_simps:
  "act p w = (Continue p1, w1) \<Longrightarrow> run_alone act p w = run_alone act p1 w1"
  "act p w = (Finish a, w1) \<Longrightarrow> run_alone act p w = Some (Ok a, w1)"
  "act p w = (Fail x, w1) \<Longrightarrow> run_alone act p w = Some (Panic x, w1)"
  by (subst run_alone.simps; simp)+

subsection \<open>Bodies that end\<close>

locale finite_body =
  fixes body :: "'k \<Rightarrow> 'p \<Rightarrow> 'w \<Rightarrow> ('p, 'a) progress \<times> 'w"
    and good :: "'k \<Rightarrow> 'p \<Rightarrow> bool"
    and phase :: "'p \<Rightarrow> nat"
    and left :: "'p \<Rightarrow> nat"
  assumes good_kept: "good k p \<Longrightarrow> body k p w = (Continue p1, w1) \<Longrightarrow> good k p1"
    and body_descends: "good k p \<Longrightarrow> body k p w = (Continue p1, w1) \<Longrightarrow>
      phase p1 < phase p \<or> phase p1 = phase p \<and> left p1 < left p"
begin

text \<open>Induction along the actions of a body.\<close>

lemma body_induct [consumes 1, case_names act]:
  assumes "good k p"
    and "\<And>p w. good k p \<Longrightarrow> (\<And>p1 w1. body k p w = (Continue p1, w1) \<Longrightarrow> P p1 w1) \<Longrightarrow> P p w"
  shows "P p w"
  using assms(1)
proof (induction p arbitrary: w rule: wf_induct_rule [OF wf_inv_image [where f = "\<lambda>p. (phase p, left p)",
    OF wf_lex_prod [OF wf_less_than wf_less_than]]])
  case (1 p w)
  have "P p1 w1" if b: "body k p w = (Continue p1, w1)" for p1 w1
    using 1(1) [of p1 w1] good_kept [OF 1(2) b] body_descends [OF 1(2) b] by auto
  then show ?case by (rule assms(2) [OF 1(2)])
qed

lemma returns: "good k p \<Longrightarrow> \<exists>r w1. run_alone (body k) p w = Some (r, w1)"
proof (induction p w rule: body_induct)
  case (act p w)
  obtain r w1 where b: "body k p w = (r, w1)" by force
  then show ?case using act(2) by (cases r) (auto simp: run_alone_simps)
qed

end

subsection \<open>Bodies that do not interfere\<close>

text \<open>
  \<open>view k w\<close> is the part of the state that the goroutine of \<open>k\<close> depends on; the actions of a goroutine with
  another key leave it alone.
\<close>

locale independent_bodies = finite_body body good phase left
  for body :: "'k \<Rightarrow> 'p \<Rightarrow> 'w \<Rightarrow> ('p, 'a) progress \<times> 'w"
    and good :: "'k \<Rightarrow> 'p \<Rightarrow> bool" and phase :: "'p \<Rightarrow> nat" and left :: "'p \<Rightarrow> nat" +
  fixes key :: "'k \<Rightarrow> 'b"
    and view :: "'k \<Rightarrow> 'w \<Rightarrow> 'v"
  assumes body_local: "good k p \<Longrightarrow> view k w = view k v \<Longrightarrow>
      fst (body k p w) = fst (body k p v) \<and> view k (snd (body k p w)) = view k (snd (body k p v))"
    and body_frame: "good k p \<Longrightarrow> key k \<noteq> key j \<Longrightarrow> view j (snd (body k p w)) = view j w"
begin

lemma alone_view:
  assumes "good k p" and "view k w = view k v"
  shows "map_option fst (run_alone (body k) p w) = map_option fst (run_alone (body k) p v)"
  using assms
proof (induction p w arbitrary: v rule: body_induct)
  case (act p w)
  obtain r w1 where b: "body k p w = (r, w1)" by force
  moreover from this body_local [OF act(1) act(3)] obtain v1 where "body k p v = (r, v1)" "view k w1 = view k v1"
    by (cases "body k p v") auto
  ultimately show ?case using act(2) by (cases r) (auto simp: run_alone_simps)
qed

lemma alone_frame:
  assumes "good k p" and "run_alone (body k) p w = Some (r, w1)" and "key k \<noteq> key j"
  shows "view j w1 = view j w"
  using assms
proof (induction p w arbitrary: r rule: body_induct)
  case (act p w)
  obtain x w2 where b: "body k p w = (x, w2)" by force
  have "view j w2 = view j w" using body_frame [OF act(1) act(4), of w] b by simp
  then show ?case using act(2-4) b by (cases x) (auto simp: run_alone_simps)
qed

end

end
