(* ===== verification/FanOut.thy ===== *)
theory FanOut
  imports Goroutines
begin

section \<open>One goroutine for each item, one channel for their answers\<close>

text \<open>
  The pattern of \<open>clusterInfo\<close> (\<open>yugatool/cmd/clusterInfo.go\<close>, lines 216 to 324): the main goroutine adds one
  to a \<open>sync.WaitGroup\<close> and starts a goroutine for each item, starts another one that waits for the group
  and closes the channel, and ranges over the channel. A goroutine runs its body, sends at most one answer on
  the unbuffered channel, and leaves the group. What is atomic is one action of a body, a hand-over on the
  channel, one change of the group and one answer handled by the main goroutine; everything else interleaves.

  Misuse of the primitives is part of the model: a send on a closed channel and a negative counter of the
  group panic, and a panic of any goroutine ends the program. \<open>received\<close> is the history of the channel.
\<close>

subsection \<open>States and steps\<close>

datatype ('p, 'a) phase = Running 'p | Sending 'a | Leaving | Exited

datatype ('k, 'a) main_phase = Spawning "'k list" | Receiving | Handling 'a | Returned

datatype closer_phase = NotStarted | Waiting | ChannelClosed

datatype crash_reason = InGoroutine string | InMain string | SendOnClosed | NegativeCounter

record ('k, 'p, 'a, 'w, 'o) fan =
  goroutines :: "('k \<times> ('p, 'a) phase) list"
  waitgroup :: nat
  closer :: closer_phase
  main_at :: "('k, 'a) main_phase"
  shared :: 'w
  printed :: 'o
  received :: "('k \<times> 'a) list"
  crash :: "crash_reason option"

fun after_body :: "'a option \<Rightarrow> ('p, 'a) phase" where
  "after_body None = Leaving"
| "after_body (Some a) = Sending a"

definition move :: "nat \<Rightarrow> ('p, 'a) phase \<Rightarrow> ('k, 'p, 'a, 'w, 'o) fan \<Rightarrow> ('k, 'p, 'a, 'w, 'o) fan" where
  "move i ph s = s\<lparr>goroutines := (goroutines s)[i := (fst (goroutines s ! i), ph)]\<rparr>"

text \<open>Goroutine \<open>i\<close> runs the item \<open>k\<close> and has come to \<open>ph\<close>.\<close>

definition at :: "('k, 'p, 'a, 'w, 'o) fan \<Rightarrow> nat \<Rightarrow> 'k \<Rightarrow> ('p, 'a) phase \<Rightarrow> bool" where
  "at s i k ph \<longleftrightarrow> i < length (goroutines s) \<and> goroutines s ! i = (k, ph) \<and> crash s = None"

inductive fan_step ::
  "('k \<Rightarrow> 'p \<Rightarrow> 'w \<Rightarrow> ('p, 'a option) progress \<times> 'w) \<Rightarrow> 'p \<Rightarrow> ('a \<Rightarrow> 'o \<Rightarrow> unit res \<times> 'o) \<Rightarrow>
   ('k, 'p, 'a, 'w, 'o) fan \<Rightarrow> ('k, 'p, 'a, 'w, 'o) fan \<Rightarrow> bool"
  for body start handle where
  spawn: "main_at s = Spawning (k # ks) \<Longrightarrow> crash s = None \<Longrightarrow>
    fan_step body start handle s
      (s\<lparr>goroutines := goroutines s @ [(k, Running start)], waitgroup := waitgroup s + 1, main_at := Spawning ks\<rparr>)"
| start_closer: "main_at s = Spawning [] \<Longrightarrow> crash s = None \<Longrightarrow>
    fan_step body start handle s (s\<lparr>closer := Waiting, main_at := Receiving\<rparr>)"
| go_on: "at s i k (Running p) \<Longrightarrow> body k p (shared s) = (Continue p1, w1) \<Longrightarrow>
    fan_step body start handle s (move i (Running p1) (s\<lparr>shared := w1\<rparr>))"
| body_done: "at s i k (Running p) \<Longrightarrow> body k p (shared s) = (Finish r, w1) \<Longrightarrow>
    fan_step body start handle s (move i (after_body r) (s\<lparr>shared := w1\<rparr>))"
| body_panic: "at s i k (Running p) \<Longrightarrow> body k p (shared s) = (Fail x, w1) \<Longrightarrow>
    fan_step body start handle s (s\<lparr>shared := w1, crash := Some (InGoroutine x)\<rparr>)"
| hand_over: "at s i k (Sending a) \<Longrightarrow> main_at s = Receiving \<Longrightarrow> closer s \<noteq> ChannelClosed \<Longrightarrow>
    fan_step body start handle s
      (move i Leaving (s\<lparr>main_at := Handling a, received := received s @ [(k, a)]\<rparr>))"
| send_on_closed: "at s i k (Sending a) \<Longrightarrow> closer s = ChannelClosed \<Longrightarrow>
    fan_step body start handle s (s\<lparr>crash := Some SendOnClosed\<rparr>)"
| leave: "at s i k Leaving \<Longrightarrow> waitgroup s = Suc n \<Longrightarrow>
    fan_step body start handle s (move i Exited (s\<lparr>waitgroup := n\<rparr>))"
| leave_twice: "at s i k Leaving \<Longrightarrow> waitgroup s = 0 \<Longrightarrow>
    fan_step body start handle s (s\<lparr>crash := Some NegativeCounter\<rparr>)"
| close_channel: "closer s = Waiting \<Longrightarrow> waitgroup s = 0 \<Longrightarrow> crash s = None \<Longrightarrow>
    fan_step body start handle s (s\<lparr>closer := ChannelClosed\<rparr>)"
| handled: "main_at s = Handling a \<Longrightarrow> crash s = None \<Longrightarrow> handle a (printed s) = (r, out) \<Longrightarrow> \<not> is_panic r \<Longrightarrow>
    fan_step body start handle s (s\<lparr>main_at := Receiving, printed := out\<rparr>)"
| handler_panic: "main_at s = Handling a \<Longrightarrow> crash s = None \<Longrightarrow> handle a (printed s) = (Panic x, out) \<Longrightarrow>
    fan_step body start handle s (s\<lparr>printed := out, crash := Some (InMain x)\<rparr>)"
| range_ends: "main_at s = Receiving \<Longrightarrow> closer s = ChannelClosed \<Longrightarrow> crash s = None \<Longrightarrow>
    fan_step body start handle s (s\<lparr>main_at := Returned\<rparr>)"

definition start_fan :: "'k list \<Rightarrow> 'w \<Rightarrow> 'o \<Rightarrow> ('k, 'p, 'a, 'w, 'o) fan" where
  "start_fan ks w out =
     \<lparr>goroutines = [], waitgroup = 0, closer = NotStarted, main_at = Spawning ks, shared = w, printed = out, received = [],
      crash = None\<rparr>"

definition fan_ended :: "('k, 'p, 'a, 'w, 'o) fan \<Rightarrow> bool" where
  "fan_ended s \<longleftrightarrow> main_at s = Returned \<or> crash s \<noteq> None"

text \<open>What the main goroutine does with the answers it has taken, in their order.\<close>

fun consume :: "('a \<Rightarrow> 'o \<Rightarrow> unit res \<times> 'o) \<Rightarrow> 'a list \<Rightarrow> 'o \<Rightarrow> unit res \<times> 'o" where
  "consume handle [] out = (Ok (), out)"
| "consume handle (a # as) out =
     (case handle a out of
        (Panic x, out1) \<Rightarrow> (Panic x, out1)
      | (_, out1) \<Rightarrow> consume handle as out1)"

lemma consume_snoc:
  "consume handle as out = (Ok (), mid) \<Longrightarrow>
   consume handle (as @ [a]) out = (case handle a mid of (Panic x, out1) \<Rightarrow> (Panic x, out1) | (_, out1) \<Rightarrow> (Ok (), out1))"
  by (induction as arbitrary: out) (auto split: prod.splits res.splits)

subsection \<open>The use of the primitives\<close>

fun unspawned :: "('k, 'a) main_phase \<Rightarrow> 'k list" where
  "unspawned (Spawning ks) = ks"
| "unspawned _ = []"

definition all_keys :: "('k, 'p, 'a, 'w, 'o) fan \<Rightarrow> 'k list" where
  "all_keys s = map fst (goroutines s) @ unspawned (main_at s)"

fun in_group :: "'k \<times> ('p, 'a) phase \<Rightarrow> nat" where
  "in_group (k, Exited) = 0"
| "in_group (k, _) = 1"

definition group_size :: "('k \<times> ('p, 'a) phase) list \<Rightarrow> nat" where
  "group_size gs = sum_list (map in_group gs)"

fun good_phase :: "('k \<Rightarrow> 'p \<Rightarrow> bool) \<Rightarrow> 'k \<times> ('p, 'a) phase \<Rightarrow> bool" where
  "good_phase good (k, Running p) = good k p"
| "good_phase good _ = True"

definition fan_inv :: "('k \<Rightarrow> 'p \<Rightarrow> bool) \<Rightarrow> ('k, 'p, 'a, 'w, 'o) fan \<Rightarrow> bool" where
  "fan_inv good s \<longleftrightarrow>
     list_all (good_phase good) (goroutines s) \<and> waitgroup s = group_size (goroutines s) \<and>
     (closer s = NotStarted \<longleftrightarrow> (\<exists>ks. main_at s = Spawning ks)) \<and> (closer s = ChannelClosed \<longrightarrow> waitgroup s = 0) \<and>
     (main_at s = Returned \<longrightarrow> closer s = ChannelClosed) \<and> crash s \<noteq> Some SendOnClosed \<and> crash s \<noteq> Some NegativeCounter"

lemma move_simps [simp]:
  "waitgroup (move i ph s) = waitgroup s" "closer (move i ph s) = closer s" "main_at (move i ph s) = main_at s"
  "shared (move i ph s) = shared s" "printed (move i ph s) = printed s" "received (move i ph s) = received s"
  "crash (move i ph s) = crash s" "length (goroutines (move i ph s)) = length (goroutines s)"
  by (simp_all add: move_def)

lemma move_goroutines: "at s i k ph \<Longrightarrow> goroutines (move i ph1 s) = (goroutines s)[i := (k, ph1)]"
  by (simp add: move_def at_def)

lemma at_update [simp]:
  "at (s\<lparr>shared := w\<rparr>) i k ph = at s i k ph" "at (s\<lparr>waitgroup := n\<rparr>) i k ph = at s i k ph"
  "at (s\<lparr>main_at := m, received := l\<rparr>) i k ph = at s i k ph"
  by (simp_all add: at_def)

text \<open>A sum over the goroutines changes by what the moved one contributes.\<close>

lemma sum_move:
  fixes f :: "'k \<times> ('p, 'a) phase \<Rightarrow> 'm::comm_monoid_add"
  shows "at s i k ph \<Longrightarrow> sum_list (map f ((goroutines s)[i := (k, ph1)])) + f (k, ph) = sum_list (map f (goroutines s)) + f (k, ph1)"
  using sum_list_map_update [of i "goroutines s" f "(k, ph1)"] by (simp add: at_def)

lemma list_all_update: "list_all P xs \<Longrightarrow> P x \<Longrightarrow> list_all P (xs[i := x])"
  by (auto simp: list_all_iff dest!: set_update_subset_insert [THEN subsetD])

lemma at_good: "list_all (good_phase good) (goroutines s) \<Longrightarrow> at s i k ph \<Longrightarrow> good_phase good (k, ph)"
  by (metis at_def list_all_length)

lemma in_group_live: "ph \<noteq> Exited \<Longrightarrow> in_group (k, ph) = 1"
  by (cases ph) simp_all

lemma group_size_simps [simp]: "group_size [] = 0" "group_size (gs @ [(k, Running p)]) = group_size gs + 1"
  by (simp_all add: group_size_def)

lemma group_size_pos: "at s i k ph \<Longrightarrow> ph \<noteq> Exited \<Longrightarrow> 0 < group_size (goroutines s)"
  using elem_le_sum_list [of i "map in_group (goroutines s)"] in_group_live [of ph k] by (simp add: at_def group_size_def)

lemma group_size_live:
  assumes "0 < group_size gs"
  obtains i k ph where "i < length gs" "gs ! i = (k, ph)" "ph \<noteq> Exited"
proof -
  have "\<not> (\<forall>g\<in>set gs. snd g = Exited)"
  proof
    assume "\<forall>g\<in>set gs. snd g = Exited"
    then have "\<forall>g\<in>set gs. in_group g = 0" by (metis in_group.simps(1) prod.collapse)
    then have "group_size gs = 0" by (simp add: group_size_def)
    then show False using assms by simp
  qed
  then show thesis using that by (metis in_set_conv_nth prod.collapse)
qed

lemma group_size_move:
  "at s i k ph \<Longrightarrow> group_size ((goroutines s)[i := (k, ph1)]) + in_group (k, ph) = group_size (goroutines s) + in_group (k, ph1)"
  unfolding group_size_def by (rule sum_move)

lemma after_body_neq [simp]: "after_body r \<noteq> Exited" "after_body r \<noteq> Running p"
  by (cases r; simp)+

lemma good_after_body [simp]: "good_phase good (k, after_body r)"
  by (cases r) simp_all

text \<open>A goroutine that has not left keeps the channel open.\<close>

lemma live_not_closed: "fan_inv good s \<Longrightarrow> at s i k ph \<Longrightarrow> ph \<noteq> Exited \<Longrightarrow> closer s \<noteq> ChannelClosed \<and> main_at s \<noteq> Returned \<and> waitgroup s \<noteq> 0"
  by (auto simp: fan_inv_def dest: group_size_pos)

text \<open>A goroutine moves on without leaving the group.\<close>

lemma fan_inv_move:
  assumes "fan_inv good s" and "at s i k ph" and "ph \<noteq> Exited" and "ph1 \<noteq> Exited" and "good_phase good (k, ph1)"
  shows "fan_inv good (move i ph1 (s\<lparr>shared := w\<rparr>))"
proof -
  have "at (s\<lparr>shared := w\<rparr>) i k ph" using assms(2) by simp
  from move_goroutines [OF this] have g: "goroutines (move i ph1 (s\<lparr>shared := w\<rparr>)) = (goroutines s)[i := (k, ph1)]" by simp
  show ?thesis
    using assms(1) group_size_move [OF assms(2), of ph1] in_group_live [OF assms(3), of k] in_group_live [OF assms(4), of k] assms(5)
    by (auto simp: fan_inv_def g list_all_update)
qed

lemma fan_inv_receive:
  assumes "fan_inv good s" and "at s i k (Sending a)" and "main_at s = Receiving"
  shows "fan_inv good (move i Leaving (s\<lparr>main_at := Handling a, received := l\<rparr>))"
  using fan_inv_move [OF assms(1,2), of Leaving "shared s"] live_not_closed [OF assms(1,2)] assms
  by (auto simp: fan_inv_def move_def)

lemma fan_inv_leave:
  assumes "fan_inv good s" and "at s i k Leaving" and "waitgroup s = Suc n"
  shows "fan_inv good (move i Exited (s\<lparr>waitgroup := n\<rparr>))"
proof -
  have "at (s\<lparr>waitgroup := n\<rparr>) i k Leaving" using assms(2) by simp
  from move_goroutines [OF this] have g: "goroutines (move i Exited (s\<lparr>waitgroup := n\<rparr>)) = (goroutines s)[i := (k, Exited)]" by simp
  show ?thesis
    using assms(1,3) group_size_move [OF assms(2), of Exited] by (auto simp: fan_inv_def g list_all_update)
qed

text \<open>
  What is left to do: first the actions by which some goroutine, the closer or the main goroutine gets on
  to a later phase, then those within a phase.
\<close>

fun phase_rank :: "('p \<Rightarrow> nat) \<Rightarrow> 'k \<times> ('p, 'a) phase \<Rightarrow> nat" where
  "phase_rank phase (k, Running p) = phase p + 4"
| "phase_rank phase (k, Sending a) = 3"
| "phase_rank phase (k, Leaving) = 1"
| "phase_rank phase (k, Exited) = 0"

fun left_rank :: "('p \<Rightarrow> nat) \<Rightarrow> 'k \<times> ('p, 'a) phase \<Rightarrow> nat" where
  "left_rank left (k, Running p) = left p"
| "left_rank left _ = 0"

fun main_rank :: "nat \<Rightarrow> ('k, 'a) main_phase \<Rightarrow> nat" where
  "main_rank n (Spawning ks) = 3 + n * length ks"
| "main_rank n (Handling a) = 2"
| "main_rank n Receiving = 1"
| "main_rank n Returned = 0"

definition big_rank :: "'p \<Rightarrow> ('p \<Rightarrow> nat) \<Rightarrow> ('k, 'p, 'a, 'w, 'o) fan \<Rightarrow> nat" where
  "big_rank start phase s =
     sum_list (map (phase_rank phase) (goroutines s)) + main_rank (phase start + 5) (main_at s) +
     (if closer s = Waiting then 1 else 0) + (if crash s = None then 1 else 0)"

definition small_rank :: "('p \<Rightarrow> nat) \<Rightarrow> ('k, 'p, 'a, 'w, 'o) fan \<Rightarrow> nat" where
  "small_rank left s = sum_list (map (left_rank left) (goroutines s))"

definition fan_order :: "'p \<Rightarrow> ('p \<Rightarrow> nat) \<Rightarrow> ('p \<Rightarrow> nat) \<Rightarrow> (('k, 'p, 'a, 'w, 'o) fan \<times> ('k, 'p, 'a, 'w, 'o) fan) set" where
  "fan_order start phase left = inv_image (less_than <*lex*> less_than) (\<lambda>s. (big_rank start phase s, small_rank left s))"

lemma wf_fan_order: "wf (fan_order start phase left)"
  unfolding fan_order_def by (intro wf_inv_image wf_lex_prod wf_less_than)

lemma fan_order_big: "big_rank start phase t < big_rank start phase s \<Longrightarrow> (t, s) \<in> fan_order start phase left"
  by (simp add: fan_order_def)

lemma after_body_rank: "phase_rank phase (k, after_body r) \<le> 3"
  by (cases r) simp_all

lemma big_rank_move:
  assumes "at s i k ph"
  shows "sum_list (map (phase_rank phase) ((goroutines s)[i := (k, ph1)])) + phase_rank phase (k, ph) =
    sum_list (map (phase_rank phase) (goroutines s)) + phase_rank phase (k, ph1)"
  by (rule sum_move [OF assms])

locale fan_out = finite_body body good phase left
  for body :: "'k \<Rightarrow> 'p \<Rightarrow> 'w \<Rightarrow> ('p, 'a option) progress \<times> 'w" and good phase left +
  fixes start :: 'p
    and handle :: "'a \<Rightarrow> 'o \<Rightarrow> unit res \<times> 'o"
  assumes good_start: "good k start"
begin

lemma fan_inv_step: "fan_step body start handle s t \<Longrightarrow> fan_inv good s \<Longrightarrow> fan_inv good t"
proof (induction rule: fan_step.induct)
  case (spawn s k ks)
  then show ?case by (auto simp: fan_inv_def good_start)
next
  case (go_on s i k p p1 w1)
  have "good k p" using at_good [OF _ go_on(1), of good] go_on(3) by (simp add: fan_inv_def)
  then have "good_phase good (k, Running p1)" using good_kept go_on(2) by simp
  then show ?case using fan_inv_move [OF go_on(3,1)] by simp
next
  case (body_done s i k p r w1)
  show ?case using fan_inv_move [OF body_done(3,1)] by simp
next
  case (hand_over s i k a)
  then show ?case by (intro fan_inv_receive)
next
  case (send_on_closed s i k a)
  then show ?case using live_not_closed [OF send_on_closed(3,1)] by simp
next
  case (leave s i k n)
  then show ?case by (intro fan_inv_leave)
next
  case (leave_twice s i k)
  then show ?case using live_not_closed [OF leave_twice(3,1)] by simp
qed (auto simp: fan_inv_def)

lemma go_on_smaller:
  assumes "at s i k (Running p)" and "good k p" and "body k p (shared s) = (Continue p1, w1)"
  shows "(move i (Running p1) (s\<lparr>shared := w1\<rparr>), s) \<in> fan_order start phase left"
proof -
  have "at (s\<lparr>shared := w1\<rparr>) i k (Running p)" using assms(1) by simp
  from move_goroutines [OF this]
  have g: "goroutines (move i (Running p1) (s\<lparr>shared := w1\<rparr>)) = (goroutines s)[i := (k, Running p1)]" by simp
  show ?thesis
    using sum_move [OF assms(1), of "phase_rank phase" "Running p1"] sum_move [OF assms(1), of "left_rank left" "Running p1"]
      body_descends [OF assms(2,3)]
    by (auto simp: fan_order_def big_rank_def small_rank_def g)
qed

lemma fan_step_smaller: "fan_step body start handle s t \<Longrightarrow> fan_inv good s \<Longrightarrow> (t, s) \<in> fan_order start phase left"
proof (induction rule: fan_step.induct)
  case (go_on s i k p p1 w1)
  have "good k p" using at_good [OF _ go_on(1), of good] go_on(3) by (simp add: fan_inv_def)
  then show ?case by (rule go_on_smaller [OF go_on(1) _ go_on(2)])
next
  case (body_done s i k p r w1)
  show ?case
    using sum_move [OF body_done(1), of "phase_rank phase" "after_body r"] after_body_rank [of phase k r]
    by (intro fan_order_big) (simp add: big_rank_def move_goroutines [of _ i k "Running p"] body_done(1))
next
  case (hand_over s i k a)
  show ?case
    using sum_move [OF hand_over(1), of "phase_rank phase" Leaving] hand_over(2)
    by (intro fan_order_big) (simp add: big_rank_def move_goroutines [of _ i k "Sending a"] hand_over(1))
next
  case (leave s i k n)
  show ?case
    using sum_move [OF leave(1), of "phase_rank phase" Exited]
    by (intro fan_order_big) (simp add: big_rank_def move_goroutines [of _ i k Leaving] leave(1))
next
  case (start_closer s)
  then show ?case by (intro fan_order_big) (simp add: big_rank_def fan_inv_def)
qed (intro fan_order_big; simp add: big_rank_def at_def)+

text \<open>As long as a goroutine has not left, something can happen.\<close>

lemma goroutine_progress:
  assumes "fan_inv good s" and "at s i k ph" and "ph \<noteq> Exited" and "main_at s = Receiving"
  shows "\<exists>t. fan_step body start handle s t"
proof (cases ph)
  case (Running p)
  then have a: "at s i k (Running p)" using assms(2) by simp
  obtain r w1 where b: "body k p (shared s) = (r, w1)" by force
  show ?thesis
    using fan_step.go_on [OF a, of body] fan_step.body_done [OF a, of body] fan_step.body_panic [OF a, of body] b
    by (cases r) blast+
next
  case (Sending a)
  then show ?thesis using fan_step.hand_over [of s i k a] live_not_closed [OF assms(1-3)] assms(2,4) by blast
next
  case Leaving
  then have "at s i k Leaving" using assms(2) by simp
  then show ?thesis using fan_step.leave [of s i k] fan_step.leave_twice [of s i k] by (cases "waitgroup s") blast+
qed (use assms(3) in simp)

lemma fan_progress:
  assumes "fan_inv good s" and "\<not> fan_ended s"
  shows "\<exists>t. fan_step body start handle s t"
proof -
  have c: "crash s = None" using assms(2) by (simp add: fan_ended_def)
  show ?thesis
  proof (cases "main_at s")
    case (Spawning ks)
    then show ?thesis using c fan_step.spawn [of s] fan_step.start_closer [of s] by (cases ks) blast+
  next
    case (Handling a)
    obtain r out where h: "handle a (printed s) = (r, out)" by force
    show ?thesis
    proof (cases r)
      case (Panic x)
      then show ?thesis using fan_step.handler_panic [OF Handling c] h by blast
    qed (use fan_step.handled [OF Handling c, of handle r out] h in auto)
  next
    case Returned
    then show ?thesis using assms(2) by (simp add: fan_ended_def)
  next
    case Receiving
    then have cl: "closer s \<noteq> NotStarted" using assms(1) by (auto simp: fan_inv_def)
    consider "closer s = ChannelClosed" | "closer s = Waiting" "waitgroup s = 0" | "0 < waitgroup s"
      using cl by (cases "closer s") auto
    then show ?thesis
    proof cases
      case 1
      then show ?thesis using fan_step.range_ends [OF Receiving _ c] by blast
    next
      case 2
      then show ?thesis using fan_step.close_channel [OF _ _ c] by blast
    next
      case 3
      then have "0 < group_size (goroutines s)" using assms(1) by (simp add: fan_inv_def)
      then obtain i k ph where "i < length (goroutines s)" "goroutines s ! i = (k, ph)" "ph \<noteq> Exited" by (rule group_size_live)
      then show ?thesis using goroutine_progress [OF assms(1) _ _ Receiving, of i k ph] c by (simp add: at_def)
    qed
  qed
qed

end

sublocale fan_out \<subseteq> founded_system "fan_step body start handle" "fan_inv good" fan_ended "fan_order start phase left"
  by unfold_locales (blast intro: fan_inv_step fan_progress wf_fan_order fan_step_smaller)+

subsection \<open>What the main goroutine has printed\<close>

text \<open>The answers the main goroutine is done with, and the one in its hands.\<close>

fun done_with :: "('k, 'a) main_phase \<Rightarrow> ('k \<times> 'a) list \<Rightarrow> 'a list" where
  "done_with (Handling a) l = map snd (butlast l)"
| "done_with _ l = map snd l"

fun in_hand :: "('k, 'a) main_phase \<Rightarrow> ('k \<times> 'a) list \<Rightarrow> bool" where
  "in_hand (Handling a) l = (l \<noteq> [] \<and> snd (last l) = a)"
| "in_hand _ l = True"

fun main_ok :: "('a \<Rightarrow> 'o \<Rightarrow> unit res \<times> 'o) \<Rightarrow> 'o \<Rightarrow> crash_reason option \<Rightarrow> ('k, 'a) main_phase \<Rightarrow> ('k \<times> 'a) list \<Rightarrow> 'o \<Rightarrow> bool" where
  "main_ok handle out0 (Some (InMain x)) m l out = (consume handle (map snd l) out0 = (Panic x, out))"
| "main_ok handle out0 _ m l out = (in_hand m l \<and> consume handle (done_with m l) out0 = (Ok (), out))"

definition main_inv :: "('a \<Rightarrow> 'o \<Rightarrow> unit res \<times> 'o) \<Rightarrow> 'o \<Rightarrow> ('k, 'p, 'a, 'w, 'o) fan \<Rightarrow> bool" where
  "main_inv handle out0 s \<longleftrightarrow> main_ok handle out0 (crash s) (main_at s) (received s) (printed s)"

lemma consume_last:
  assumes "in_hand (Handling a) l" and "consume handle (done_with (Handling a) l) out0 = (Ok (), mid)"
  shows "consume handle (map snd l) out0 = (case handle a mid of (Panic x, out1) \<Rightarrow> (Panic x, out1) | (_, out1) \<Rightarrow> (Ok (), out1))"
proof -
  have "map snd l = map snd (butlast l) @ [a]" using assms(1) by (cases l rule: rev_cases) simp_all
  then show ?thesis using consume_snoc [OF assms(2), of a] by simp
qed

lemma main_inv_step: "fan_step body start handle s t \<Longrightarrow> main_inv handle out0 s \<Longrightarrow> main_inv handle out0 t"
proof (induction rule: fan_step.induct)
  case (handled s a r out)
  then show ?case using consume_last [of a "received s" handle out0 "printed s"]
    by (cases r) (simp_all add: main_inv_def)
next
  case (handler_panic s a x out)
  then show ?case using consume_last [of a "received s" handle out0 "printed s"]
    by (simp add: main_inv_def)
qed (simp_all add: main_inv_def at_def)

lemma run_main_inv: "run (fan_step body start handle) n s t \<Longrightarrow> main_inv handle out0 s \<Longrightarrow> main_inv handle out0 t"
  by (induction rule: run.induct) (blast intro: main_inv_step)+

lemma start_fan_invs: "fan_inv good (start_fan ks w out)" "main_inv handle out (start_fan ks w out)"
  by (simp_all add: fan_inv_def main_inv_def start_fan_def)

lemma start_all_keys: "all_keys (start_fan ks w out) = ks"
  by (simp add: all_keys_def start_fan_def)

text \<open>Every item keeps its place: it is started once.\<close>

lemma map_fst_move: "at s i k ph \<Longrightarrow> map fst ((goroutines s)[i := (k, ph1)]) = map fst (goroutines s)"
proof -
  assume "at s i k ph"
  then have "i < length (map fst (goroutines s))" "map fst (goroutines s) ! i = k" by (simp_all add: at_def)
  then show ?thesis by (simp add: map_update list_update_same_conv)
qed

lemma all_keys_move:
  "at s i k ph \<Longrightarrow> unspawned (main_at s1) = unspawned (main_at s) \<Longrightarrow> goroutines s1 = (goroutines s)[i := (k, ph1)] \<Longrightarrow>
   all_keys s1 = all_keys s"
  by (simp add: all_keys_def map_fst_move)

lemma all_keys_step: "fan_step body start handle s t \<Longrightarrow> all_keys t = all_keys s"
proof (induction rule: fan_step.induct)
  case (go_on s i k p p1 w1)
  then show ?case by (intro all_keys_move) (simp_all add: move_goroutines [of _ i k "Running p"])
next
  case (body_done s i k p r w1)
  then show ?case by (intro all_keys_move) (simp_all add: move_goroutines [of _ i k "Running p"])
next
  case (hand_over s i k a)
  then show ?case by (intro all_keys_move [of s i k "Sending a"]) (simp_all add: move_goroutines [of _ i k "Sending a"])
next
  case (leave s i k n)
  then show ?case by (intro all_keys_move) (simp_all add: move_goroutines [of _ i k Leaving])
qed (simp_all add: all_keys_def)

lemma run_all_keys: "run (fan_step body start handle) n s t \<Longrightarrow> all_keys t = all_keys s"
  by (induction rule: run.induct) (simp_all add: all_keys_step)

subsection \<open>Goroutines that do not interfere\<close>

text \<open>What the body of an item does on its own, from the state in which the command starts.\<close>

definition outcome ::
  "('k \<Rightarrow> 'p \<Rightarrow> 'w \<Rightarrow> ('p, 'a) progress \<times> 'w) \<Rightarrow> 'p \<Rightarrow> 'w \<Rightarrow> 'k \<Rightarrow> 'a res option" where
  "outcome body start w k = map_option fst (run_alone (body k) start w)"

fun on_course ::
  "('k \<Rightarrow> 'p \<Rightarrow> 'w \<Rightarrow> ('p, 'a option) progress \<times> 'w) \<Rightarrow> ('k \<Rightarrow> 'a option res option) \<Rightarrow> 'w \<Rightarrow> 'k \<times> ('p, 'a) phase \<Rightarrow> bool" where
  "on_course body f w (k, Running p) \<longleftrightarrow> outcome body p w k = f k"
| "on_course body f w (k, Sending a) \<longleftrightarrow> f k = Some (Ok (Some a))"
| "on_course body f w (k, _) \<longleftrightarrow> (\<exists>r. f k = Some (Ok r))"

fun answer_of :: "('k \<Rightarrow> 'a option res option) \<Rightarrow> 'k \<Rightarrow> ('k \<times> 'a) multiset" where
  "answer_of f k = (case f k of Some (Ok (Some a)) \<Rightarrow> {#(k, a)#} | _ \<Rightarrow> {#})"

fun delivered :: "('k \<Rightarrow> 'a option res option) \<Rightarrow> 'k \<times> ('p, 'a) phase \<Rightarrow> ('k \<times> 'a) multiset" where
  "delivered f (k, Running p) = {#}"
| "delivered f (k, Sending a) = {#}"
| "delivered f (k, _) = answer_of f k"

lemma on_course_end [simp]: "on_course body f w (k, Leaving) \<Longrightarrow> on_course body f w (k, Exited)"
  by simp

lemma on_course_after: "f k = Some (Ok r) \<Longrightarrow> on_course body f w (k, after_body r)"
  by (cases r) simp_all

lemma delivered_after: "f k = Some (Ok r) \<Longrightarrow> delivered f (k, after_body r) = {#}"
  by (cases r) simp_all

lemma outcome_step:
  "body k p w = (Continue p1, w1) \<Longrightarrow> outcome body p w k = outcome body p1 w1 k"
  "body k p w = (Finish r, w1) \<Longrightarrow> outcome body p w k = Some (Ok r)"
  "body k p w = (Fail x, w1) \<Longrightarrow> outcome body p w k = Some (Panic x)"
  by (simp_all add: outcome_def run_alone_simps)

definition course_inv ::
  "('k \<Rightarrow> 'p \<Rightarrow> 'w \<Rightarrow> ('p, 'a option) progress \<times> 'w) \<Rightarrow> ('k \<Rightarrow> 'w \<Rightarrow> 'v) \<Rightarrow> ('k \<Rightarrow> 'a option res option) \<Rightarrow> 'w \<Rightarrow>
   ('k, 'p, 'a, 'w, 'o) fan \<Rightarrow> bool" where
  "course_inv body view f w0 s \<longleftrightarrow>
     (crash s = None \<longrightarrow>
        list_all (on_course body f (shared s)) (goroutines s) \<and>
        (\<forall>k\<in>set (unspawned (main_at s)). view k (shared s) = view k w0) \<and>
        mset (received s) = sum_list (map (delivered f) (goroutines s))) \<and>
     (\<forall>x. crash s = Some (InGoroutine x) \<longrightarrow> (\<exists>k\<in>set (all_keys s). f k = Some (Panic x)))"

lemma at_course: "course_inv body view f w0 s \<Longrightarrow> at s i k ph \<Longrightarrow> on_course body f (shared s) (k, ph)"
  by (auto simp: at_def course_inv_def list_all_length)

lemma at_key: "at s i k ph \<Longrightarrow> k \<in> set (all_keys s)"
  by (force simp: at_def all_keys_def in_set_conv_nth)

lemma keys_apart:
  assumes "distinct (map key (map fst gs))" and "i < length gs" "gs ! i = (k, ph)" and "j < length gs" "gs ! j = (k2, ph2)" and "i \<noteq> j"
  shows "key k \<noteq> key k2"
  using nth_eq_iff_index_eq [OF assms(1), of i j] assms(2-6) by simp

text \<open>The answers of the items, taken in some order; the silent ones give none.\<close>

fun answers_in :: "('k \<Rightarrow> 'a option res option) \<Rightarrow> 'k list \<Rightarrow> ('k \<times> 'a) list" where
  "answers_in f [] = []"
| "answers_in f (k # ks) = (case f k of Some (Ok (Some a)) \<Rightarrow> (k, a) # answers_in f ks | _ \<Rightarrow> answers_in f ks)"

definition silent :: "('k \<Rightarrow> 'a option res option) \<Rightarrow> 'k \<Rightarrow> bool" where
  "silent f k \<longleftrightarrow> answer_of f k = {#}"

lemma silent_iff: "silent f k \<longleftrightarrow> (\<forall>a. f k \<noteq> Some (Ok (Some a)))"
  by (auto simp: silent_def split: option.split res.split)

lemma answers_in_silent: "\<forall>k\<in>set ks. silent f k \<Longrightarrow> answers_in f ks = []"
  by (induction ks) (auto simp: silent_iff split: option.split res.split)

lemma answers_in_append: "answers_in f (ks @ js) = answers_in f ks @ answers_in f js"
  by (induction ks) (auto split: option.split res.split)

lemma answers_in_self: "\<forall>x\<in>set l. f (fst x) = Some (Ok (Some (snd x))) \<Longrightarrow> answers_in f (map fst l) = l"
  by (induction l) auto

lemma set_answers: "(k, a) \<in># sum_list (map (answer_of f) ks) \<Longrightarrow> f k = Some (Ok (Some a))"
  by (induction ks) (auto split: option.splits res.splits)

lemma keys_of_answers:
  "image_mset fst (sum_list (map (answer_of f) ks)) + mset (filter (silent f) ks) = mset ks"
  by (induction ks) (auto simp: silent_def split: option.splits res.splits)

lemma arrival_order:
  assumes "mset l = sum_list (map (answer_of f) ks)"
  shows "\<exists>order. mset order = mset ks \<and> answers_in f order = l"
proof (intro exI conjI)
  have l: "\<forall>x\<in>set l. f (fst x) = Some (Ok (Some (snd x)))"
    using set_answers [of _ _ f ks] by (auto simp flip: assms)
  show "mset (map fst l @ filter (silent f) ks) = mset ks"
    using keys_of_answers [of f ks] by (simp flip: assms)
  show "answers_in f (map fst l @ filter (silent f) ks) = l"
    by (simp add: answers_in_append answers_in_self [OF l] answers_in_silent)
qed

lemma all_exited:
  assumes "group_size gs = 0" and "(k, ph) \<in> set gs"
  shows "ph = Exited"
proof (rule ccontr)
  assume "ph \<noteq> Exited"
  moreover have "in_group (k, ph) = 0" using assms by (simp add: group_size_def)
  ultimately show False using in_group_live [of ph k] by simp
qed

locale independent_fan =
  fan_out body good phase left start handle + independent_bodies body good phase left key view
  for body :: "'k \<Rightarrow> 'p \<Rightarrow> 'w \<Rightarrow> ('p, 'a option) progress \<times> 'w"
    and good :: "'k \<Rightarrow> 'p \<Rightarrow> bool" and phase :: "'p \<Rightarrow> nat" and left :: "'p \<Rightarrow> nat" and start :: 'p
    and handle :: "'a \<Rightarrow> 'o \<Rightarrow> unit res \<times> 'o" and key :: "'k \<Rightarrow> 'b" and view :: "'k \<Rightarrow> 'w \<Rightarrow> 'v"
begin

text \<open>An action of one goroutine keeps every other one on its course.\<close>

lemma others_on_course:
  assumes "list_all (on_course body f w) gs" and "list_all (good_phase good) gs" and "distinct (map key (map fst gs))"
    and "i < length gs" and "gs ! i = (k, Running p)" and "body k p w = (r, w1)" and "on_course body f w1 (k, ph1)"
  shows "list_all (on_course body f w1) (gs[i := (k, ph1)])"
proof (unfold list_all_length, intro allI impI)
  fix j assume j: "j < length (gs[i := (k, ph1)])"
  show "on_course body f w1 (gs[i := (k, ph1)] ! j)"
  proof (cases "j = i")
    case True
    then show ?thesis using assms(4,7) by simp
  next
    case False
    obtain k2 ph2 where g: "gs ! j = (k2, ph2)" by force
    have "key k \<noteq> key k2" using keys_apart [OF assms(3-5) _ g] j False by simp
    moreover have "good k p" using assms(2,4,5) by (metis list_all_length good_phase.simps(1))
    ultimately have v: "view k2 w1 = view k2 w" using body_frame [of k p k2 w] assms(6) by simp
    have "on_course body f w (k2, ph2)" "good_phase good (k2, ph2)"
      using assms(1,2) j g by (metis length_list_update list_all_length)+
    then have "on_course body f w1 (k2, ph2)"
      using alone_view [OF _ v] by (cases ph2) (simp_all add: outcome_def)
    then show ?thesis using False g by simp
  qed
qed

lemma course_action:
  assumes "course_inv body view f w0 s" and "fan_inv good s" and "distinct (map key (all_keys s))" and "at s i k (Running p)"
    and "body k p (shared s) = (r, w1)" and "on_course body f w1 (k, ph1)" and "delivered f (k, ph1) = {#}"
  shows "course_inv body view f w0 (move i ph1 (s\<lparr>shared := w1\<rparr>))"
proof -
  have "at (s\<lparr>shared := w1\<rparr>) i k (Running p)" using assms(4) by simp
  from move_goroutines [OF this] have g: "goroutines (move i ph1 (s\<lparr>shared := w1\<rparr>)) = (goroutines s)[i := (k, ph1)]" by simp
  have d: "distinct (map key (map fst (goroutines s)))" using assms(3) by (simp add: all_keys_def)
  have gd: "good k p" using at_good [OF _ assms(4), of good] assms(2) by (simp add: fan_inv_def)
  have "view j w1 = view j w0" if "j \<in> set (unspawned (main_at s))" for j
  proof -
    have "key k \<noteq> key j" using assms(3,4) that by (force simp: all_keys_def at_def in_set_conv_nth)
    then have "view j w1 = view j (shared s)" using body_frame [OF gd, of j "shared s"] assms(5) by simp
    then show ?thesis using assms(1,4) that by (simp add: course_inv_def at_def)
  qed
  moreover have "list_all (on_course body f w1) ((goroutines s)[i := (k, ph1)])"
    using others_on_course [OF _ _ d _ _ assms(5,6)] assms(1,2,4) by (simp add: course_inv_def fan_inv_def at_def)
  moreover have "sum_list (map (delivered f) ((goroutines s)[i := (k, ph1)])) = sum_list (map (delivered f) (goroutines s))"
    using sum_move [OF assms(4), of "delivered f" ph1] assms(7) by simp
  moreover have c: "crash s = None" using assms(4) by (simp add: at_def)
  ultimately show ?thesis using assms(1) by (simp add: course_inv_def g)
qed

lemma course_step:
  assumes "fan_step body start handle s t" and "course_inv body view (outcome body start w0) w0 s" and "fan_inv good s"
    and "distinct (map key (all_keys s))"
  shows "course_inv body view (outcome body start w0) w0 t"
  using assms
proof (induction rule: fan_step.induct)
  case (spawn s k ks)
  then have "outcome body start (shared s) k = outcome body start w0 k"
    using alone_view [OF good_start, of k "shared s" w0] by (simp add: course_inv_def outcome_def)
  then show ?case using spawn by (simp add: course_inv_def)
next
  case (start_closer s)
  then show ?case by (simp add: course_inv_def)
next
  case (go_on s i k p p1 w1)
  have "on_course body (outcome body start w0) (shared s) (k, Running p)"
    by (rule at_course [OF go_on(3,1)])
  then show ?case using outcome_step(1) [of body, OF go_on(2)] by (intro course_action [OF go_on(3-5,1,2)]) simp_all
next
  case (body_done s i k p r w1)
  have "on_course body (outcome body start w0) (shared s) (k, Running p)"
    by (rule at_course [OF body_done(3,1)])
  then have "outcome body start w0 k = Some (Ok r)" using outcome_step(2) [of body, OF body_done(2)] by simp
  then show ?case by (intro course_action [OF body_done(3-5,1,2)] on_course_after delivered_after)
next
  case (body_panic s i k p x w1)
  have "on_course body (outcome body start w0) (shared s) (k, Running p)"
    by (rule at_course [OF body_panic(3,1)])
  then have "outcome body start w0 k = Some (Panic x)" using outcome_step(3) [of body, OF body_panic(2)] by simp
  then show ?case using at_key [OF body_panic(1)] by (auto simp: course_inv_def all_keys_def)
next
  case (hand_over s i k a)
  have c: "on_course body (outcome body start w0) (shared s) (k, Sending a)"
    by (rule at_course [OF hand_over(4,1)])
  have g: "goroutines (move i Leaving (s\<lparr>main_at := Handling a, received := received s @ [(k, a)]\<rparr>)) = (goroutines s)[i := (k, Leaving)]"
    by (simp add: move_goroutines [of _ i k "Sending a"] hand_over(1))
  show ?case
    using sum_move [OF hand_over(1), of "delivered (outcome body start w0)" Leaving] c hand_over
    by (simp add: course_inv_def g list_all_update at_def)
next
  case (leave s i k n)
  have c: "on_course body (outcome body start w0) (shared s) (k, Leaving)"
    by (rule at_course [OF leave(3,1)])
  have g: "goroutines (move i Exited (s\<lparr>waitgroup := n\<rparr>)) = (goroutines s)[i := (k, Exited)]"
    by (simp add: move_goroutines [of _ i k Leaving] leave(1))
  show ?case
    using sum_move [OF leave(1), of "delivered (outcome body start w0)" Exited] c leave
    by (simp add: course_inv_def g list_all_update at_def)
qed (simp_all add: course_inv_def at_def)

lemma course_run:
  assumes "run (fan_step body start handle) n s t" and "course_inv body view (outcome body start w0) w0 s" and "fan_inv good s"
    and "distinct (map key (all_keys s))"
  shows "course_inv body view (outcome body start w0) w0 t"
  using assms
proof (induction rule: run.induct)
  case (more s t n u)
  have "all_keys t = all_keys s" by (rule all_keys_step [OF more(1)])
  then show ?case using more.IH course_step [OF more(1) more(4-6)] fan_inv_step [OF more(1,5)] more(6) by simp
qed simp

lemma start_course: "course_inv body view f w0 (start_fan ks w0 out)"
  by (simp add: course_inv_def start_fan_def)

text \<open>What is known when the main goroutine has left its loop.\<close>

lemma fan_result:
  assumes "run (fan_step body start handle) n (start_fan ks w0 out) t" and "distinct (map key ks)"
    and "fan_ended t" and "crash t = None"
  shows "mset (received t) = sum_list (map (answer_of (outcome body start w0)) ks)"
    and "consume handle (map snd (received t)) out = (Ok (), printed t)"
    and "map fst (goroutines t) = ks \<and> (\<forall>g\<in>set (goroutines t). snd g = Exited)"
    and "\<forall>k\<in>set ks. \<exists>r. outcome body start w0 k = Some (Ok r)"
proof -
  have inv: "fan_inv good t" by (rule reachable_inv [OF assms(1) start_fan_invs(1)])
  have keys: "all_keys t = ks" using run_all_keys [OF assms(1)] by (simp add: start_all_keys)
  have course: "course_inv body view (outcome body start w0) w0 t"
    using course_run [OF assms(1) start_course start_fan_invs(1)] assms(2) by (simp add: start_all_keys)
  have main: "main_at t = Returned" using assms(3,4) by (simp add: fan_ended_def)
  have g: "map fst (goroutines t) = ks" using keys main by (simp add: all_keys_def)
  have "group_size (goroutines t) = 0" using inv main by (auto simp: fan_inv_def)
  then have ex: "\<forall>g\<in>set (goroutines t). snd g = Exited" using all_exited by (metis prod.collapse)
  then show "map fst (goroutines t) = ks \<and> (\<forall>g\<in>set (goroutines t). snd g = Exited)" using g by simp
  have on: "list_all (on_course body (outcome body start w0) (shared t)) (goroutines t)"
    and r: "mset (received t) = sum_list (map (delivered (outcome body start w0)) (goroutines t))"
    using course assms(4) by (simp_all add: course_inv_def)
  have "delivered (outcome body start w0) g = answer_of (outcome body start w0) (fst g)" if "g \<in> set (goroutines t)" for g
    using ex that by (cases g) auto
  then have "map (delivered (outcome body start w0)) (goroutines t) = map (answer_of (outcome body start w0)) ks"
    unfolding g [symmetric] by simp
  then show "mset (received t) = sum_list (map (answer_of (outcome body start w0)) ks)" using r by simp
  show "consume handle (map snd (received t)) out = (Ok (), printed t)"
    using run_main_inv [OF assms(1) start_fan_invs(2)] main assms(4) by (simp add: main_inv_def)
  show "\<forall>k\<in>set ks. \<exists>r. outcome body start w0 k = Some (Ok r)"
  proof
    fix k assume "k \<in> set ks"
    then obtain ph where "(k, ph) \<in> set (goroutines t)" unfolding g [symmetric] by auto
    then have "on_course body (outcome body start w0) (shared t) (k, Exited)"
      using on ex by (metis list_all_iff snd_conv)
    then show "\<exists>r. outcome body start w0 k = Some (Ok r)" by simp
  qed
qed

text \<open>A panic of the program comes from the body of some item.\<close>

lemma fan_panic:
  assumes "run (fan_step body start handle) n (start_fan ks w0 out) t" and "distinct (map key ks)"
    and "crash t = Some (InGoroutine x)"
  shows "\<exists>k\<in>set ks. outcome body start w0 k = Some (Panic x)"
proof -
  have "course_inv body view (outcome body start w0) w0 t"
    using course_run [OF assms(1) start_course start_fan_invs(1)] assms(2) by (simp add: start_all_keys)
  then show ?thesis using run_all_keys [OF assms(1)] assms(3) by (simp add: course_inv_def start_all_keys)
qed

end

end
