(* ===== verification/TabletReports.thy ===== *)
theory TabletReports
  imports ToolCommands Services FanOut
begin

section \<open>The tablet reports of \<open>cluster_info\<close>, concurrently\<close>

text \<open>
  \<open>yugatool/cmd/clusterInfo.go\<close>, from line 210: the goroutine of each tablet server as the body \<open>report_body\<close>, one remote
  call at a time, in the fan-out of theory \<open>FanOut\<close>, and the client that makes the calls. The first group
  of definitions is the body for any \<open>tool_api\<close>; \<open>report_alone\<close> shows that without interleaving it is the \<open>server_report\<close>
  of theory \<open>ToolCommands\<close>. The second, \<open>client_api\<close>, fills the calls of \<open>tool_api\<close> with those of
  theories \<open>YBClient\<close> and \<open>Services\<close>: a \<open>*HostState\<close> is its key in the client's cache, with the status it was given when
  it was connected, so that the goroutines share the hosts and their sessions. \<open>GetHostByUUID\<close> holds the client's mutex
  from the look-up to the return, and a call the session's, so each is one action (theory \<open>Locks\<close>).
\<close>

subsection \<open>The goroutine of a server\<close>

datatype 'h report_point = Lookup | Listing 'h | Consensus 'h "tablet list" "json list"

definition tablet_report :: "('w, 'h) tool_api \<Rightarrow> string \<Rightarrow> ClusterInfoOptions \<Rightarrow> 'h \<Rightarrow> json list \<Rightarrow> Output" where
  "tablet_report api output options host infos =
     report_of (''Tablet Report: '' @ addresses_text api (bound_addresses api host) @ '' ('' @ host_uuid api host @ '')'')
       (JArray infos) output (if ShowTableID options then with_table_id tablet_columns else tablet_columns) (tablet_filter options)"

text \<open>The answer on the channel is \<open>Report{output, nil}\<close> or \<open>Report{nil, err}\<close>.\<close>

fun report_body ::
  "('w, 'h) tool_api \<Rightarrow> string \<Rightarrow> ClusterInfoOptions \<Rightarrow> string \<Rightarrow> 'h report_point \<Rightarrow> 'w \<Rightarrow>
   ('h report_point, Output res option) progress \<times> 'w" where
  "report_body api output options server Lookup w =
     (case host_of api server w of
        (Error e, w1) \<Rightarrow> (Finish None, w1)
      | (Panic x, w1) \<Rightarrow> (Fail x, w1)
      | (Ok host, w1) \<Rightarrow> (Continue (Listing host), w1))"
| "report_body api output options server (Listing host) w =
     (case list_tablets api host w of
        (Error e, w1) \<Rightarrow> (Finish (Some (Error e)), w1)
      | (Panic x, w1) \<Rightarrow> (Fail x, w1)
      | (Ok ts, w1) \<Rightarrow> (Continue (Consensus host ts []), w1))"
| "report_body api output options server (Consensus host [] infos) w =
     (Finish (Some (Ok (tablet_report api output options host infos))), w)"
| "report_body api output options server (Consensus host (t # ts) infos) w =
     (case consensus_state api host (host_uuid api host) (TabletId t) w of
        (Error e, w1) \<Rightarrow> (Finish (Some (Error e)), w1)
      | (Panic x, w1) \<Rightarrow> (Fail x, w1)
      | (Ok c, w1) \<Rightarrow> (Continue (Consensus host ts (infos @ [info_json api (TabletJSON t) c])), w1))"

text \<open>The body of the loop over the channel; the errors it logs are not printed.\<close>

definition report_handler :: "printer \<Rightarrow> Output res \<Rightarrow> string \<Rightarrow> unit res \<times> string" where
  "report_handler pr r out =
     (case r of
        Ok report \<Rightarrow>
          (case Println pr report of
             Ok text \<Rightarrow> (Ok (), out @ text)
           | Error e \<Rightarrow> (Ok (), out)
           | Panic x \<Rightarrow> (Panic x, out))
      | _ \<Rightarrow> (Ok (), out))"

fun report_phase :: "'h report_point \<Rightarrow> nat" where
  "report_phase Lookup = 2"
| "report_phase (Listing h) = 1"
| "report_phase (Consensus h ts infos) = 0"

fun report_left :: "'h report_point \<Rightarrow> nat" where
  "report_left (Consensus h ts infos) = length ts"
| "report_left _ = 0"

lemma report_descends:
  "report_body api output options server p w = (Continue p1, w1) \<Longrightarrow>
   report_phase p1 < report_phase p \<or> report_phase p1 = report_phase p \<and> report_left p1 < report_left p"
proof (cases p)
  case (Consensus h ts infos)
  then show "report_body api output options server p w = (Continue p1, w1) \<Longrightarrow>
    report_phase p1 < report_phase p \<or> report_phase p1 = report_phase p \<and> report_left p1 < report_left p"
    by (cases ts) (auto split: prod.splits res.splits)
qed (auto split: prod.splits res.splits)

interpretation reports: fan_out "report_body api fmt options" "\<lambda>_ _. True" report_phase report_left Lookup "report_handler pr"
  for api fmt options pr
  by unfold_locales (simp_all add: report_descends)

text \<open>A body that is not interrupted gives the report of theory \<open>ToolCommands\<close>.\<close>

lemma consensus_alone:
  "run_alone (report_body api output options server) (Consensus host ts infos) w =
     Some (case tablet_infos api host ts w of
       (Ok l, w1) \<Rightarrow> (Ok (Some (Ok (tablet_report api output options host (infos @ l)))), w1)
     | (Error e, w1) \<Rightarrow> (Ok (Some (Error e)), w1)
     | (Panic x, w1) \<Rightarrow> (Panic x, w1))"
proof (induction ts arbitrary: infos w)
  case Nil
  then show ?case by (simp add: run_alone_simps)
next
  case (Cons t ts)
  obtain r w1 where c: "consensus_state api host (host_uuid api host) (TabletId t) w = (r, w1)" by force
  show ?case
  proof (cases r)
    case (Ok j)
    then have "run_alone (report_body api output options server) (Consensus host (t # ts) infos) w =
      run_alone (report_body api output options server) (Consensus host ts (infos @ [info_json api (TabletJSON t) j])) w1"
      by (intro run_alone_simps) (simp add: c)
    then show ?thesis
      using Cons [of "infos @ [info_json api (TabletJSON t) j]" w1] Ok
      by (cases "tablet_infos api host ts w1"; cases "fst (tablet_infos api host ts w1)") (simp_all add: c)
  qed (simp_all add: c run_alone_simps)
qed

definition as_outcome :: "Output res option \<Rightarrow> Output res option res" where
  "as_outcome r = (case r of Some (Panic x) \<Rightarrow> Panic x | _ \<Rightarrow> Ok r)"

lemma as_outcome_Panic: "as_outcome r = Panic x \<longleftrightarrow> r = Some (Panic x)"
  by (auto simp: as_outcome_def split: option.split res.split)

lemma report_alone:
  "run_alone (report_body api output options server) Lookup w =
     Some (case server_report api output options server w of (r, w1) \<Rightarrow> (as_outcome r, w1))"
proof -
  obtain r w1 where h: "host_of api server w = (r, w1)" by force
  show ?thesis
  proof (cases r)
    case (Ok host)
    then have a: "run_alone (report_body api output options server) Lookup w =
      run_alone (report_body api output options server) (Listing host) w1"
      by (intro run_alone_simps) (simp add: h)
    obtain l w2 where l: "list_tablets api host w1 = (l, w2)" by force
    show ?thesis
    proof (cases l)
      case ts: (Ok ts)
      then have "run_alone (report_body api output options server) (Listing host) w1 =
        run_alone (report_body api output options server) (Consensus host ts []) w2"
        by (intro run_alone_simps) (simp add: l)
      then show ?thesis using Ok ts
        by (cases "tablet_infos api host ts w2"; cases "fst (tablet_infos api host ts w2)")
           (simp_all add: a consensus_alone server_report_def h l as_outcome_def tablet_report_def)
    qed (simp_all add: a Ok run_alone_simps server_report_def h l as_outcome_def)
  qed (simp_all add: run_alone_simps server_report_def h as_outcome_def)
qed

lemma report_outcome:
  "outcome (report_body api output options) Lookup w server = Some (as_outcome (fst (server_report api output options server w)))"
  by (simp add: outcome_def report_alone split: prod.split)

subsection \<open>The client behind the calls\<close>

text \<open>The marshalling of the messages; the responses are cut down to what the commands read.\<close>

record report_codecs =
  tablets_codec :: "(unit, tablet list) codec"
  consensus_codec :: "(string \<times> string, json) codec"
  entry_codec :: "(string, json) codec"
  flag_codec :: "(string, bool \<times> string \<times> string) codec"
  config_codec :: "(unit, string option \<times> json) codec"
  masters_codec :: "(unit, string option \<times> json) codec"
  servers_codec :: "(unit, string option \<times> json \<times> string list) codec"

type_synonym ('u, 'st) host_pointer = "'u \<times> 'st"

text \<open>\<open>GetHostByUUID\<close>, giving the pointer.\<close>

definition get_host :: "('u, 'st) env \<Rightarrow> string \<Rightarrow> ('u, 'st) YBClient \<Rightarrow> ('u, 'st) host_pointer res \<times> ('u, 'st) YBClient" where
  "get_host env server c =
     andThen (parse_uuid env server, c) (\<lambda>u c. andThen (cached_host env u c) (\<lambda>h c. (Ok (u, Status h), c)))"

text \<open>An RPC on the session behind a pointer, and one on the session of the master.\<close>

definition on_host ::
  "('q, 'r) rpc \<Rightarrow> ('q, 'r) codec \<Rightarrow> 'r \<Rightarrow> 'q \<Rightarrow> ('u, 'st) host_pointer \<Rightarrow> ('u, 'st) YBClient \<Rightarrow> 'r res \<times> ('u, 'st) YBClient" where
  "on_host rpc cd resp q host c =
     (case tServersUUIDMap c (fst host) of
        None \<Rightarrow> (Panic ''nil pointer dereference'', c)
      | Some h \<Rightarrow>
          (case rpc cd resp q (session h) of
             (r, s) \<Rightarrow> (r, c\<lparr>tServersUUIDMap := (tServersUUIDMap c)(fst host \<mapsto> h\<lparr>session := s\<rparr>)\<rparr>)))"

definition on_master ::
  "('q, 'r) rpc \<Rightarrow> ('q, 'r) codec \<Rightarrow> 'r \<Rightarrow> 'q \<Rightarrow> ('u, 'st) YBClient \<Rightarrow> 'r res \<times> ('u, 'st) YBClient" where
  "on_master rpc cd resp q c =
     (case Master c of
        None \<Rightarrow> (Panic ''nil pointer dereference'', c)
      | Some h \<Rightarrow> (case rpc cd resp q (session h) of (r, s) \<Rightarrow> (r, c\<lparr>Master := Some (h\<lparr>session := s\<rparr>)\<rparr>)))"

text \<open>\<open>AllTservers\<close>, giving pointers.\<close>

fun collect_pointers ::
  "('u, 'st) env \<Rightarrow> TabletServer list \<Rightarrow> ('u, 'st) YBClient \<Rightarrow>
   (('u, 'st) host_pointer list \<times> goerror list) res \<times> ('u, 'st) YBClient" where
  "collect_pointers env [] c = (Ok ([], []), c)"
| "collect_pointers env (host # hosts) c =
     (case get_host env (PermanentUuid host) c of
        (Panic x, c1) \<Rightarrow> (Panic x, c1)
      | (Error e, c1) \<Rightarrow> andThen (collect_pointers env hosts c1) (\<lambda>(hs, es) c2. (Ok (hs, e # es), c2))
      | (Ok h, c1) \<Rightarrow> andThen (collect_pointers env hosts c1) (\<lambda>(hs, es) c2. (Ok (h # hs, es), c2)))"

text \<open>The calls of \<open>base\<close> that reach the servers are made by the client.\<close>

definition client_api ::
  "('u, 'st) env \<Rightarrow> report_codecs \<Rightarrow> (('u, 'st) YBClient, ('u, 'st) host_pointer) tool_api \<Rightarrow>
   (('u, 'st) YBClient, ('u, 'st) host_pointer) tool_api" where
  "client_api env cds base = base
     \<lparr>cluster_config := on_master MasterService_GetMasterClusterConfig (config_codec cds) (None, JObject []) (),
      list_masters := on_master MasterService_ListMasters (masters_codec cds) (None, JObject []) (),
      list_servers := on_master MasterService_ListTabletServers (servers_codec cds) (None, JObject [], []) (),
      server_count := TserverCount,
      all_hosts := (\<lambda>c. collect_pointers env (known_servers c) c),
      host_of := get_host env,
      list_tablets := on_host TabletServerService_ListTablets (tablets_codec cds) [] (),
      consensus_state := (\<lambda>host dest tablet. on_host ConsensusService_GetConsensusState (consensus_codec cds) (JObject []) (dest, tablet) host),
      latest_entry := (\<lambda>host tablet. on_host CDCService_GetLatestEntryOpId (entry_codec cds) (JObject []) tablet host),
      get_flag := (\<lambda>host name. on_host GenericService_GetFlag (flag_codec cds) (False, [], []) name host)\<rparr>"

lemma client_api_calls [simp]:
  "host_of (client_api env cds base) = get_host env"
  "list_tablets (client_api env cds base) = on_host TabletServerService_ListTablets (tablets_codec cds) [] ()"
  "consensus_state (client_api env cds base) =
     (\<lambda>host dest tablet. on_host ConsensusService_GetConsensusState (consensus_codec cds) (JObject []) (dest, tablet) host)"
  by (simp_all add: client_api_def)

text \<open>The pointers are those of \<open>GetHostByUUID\<close> and \<open>AllTservers\<close>.\<close>

definition map_res :: "('a \<Rightarrow> 'b) \<Rightarrow> 'a res \<times> 's \<Rightarrow> 'b res \<times> 's" where
  "map_res f r = andThen r (\<lambda>x s. (Ok (f x), s))"

lemma get_host_status: "map_res snd (get_host env server c) = map_res Status (GetHostByUUID env server c)"
proof (cases "parse_uuid env server")
  case (Ok u)
  then show ?thesis
    by (cases "cached_host env u c"; cases "fst (cached_host env u c)") (simp_all add: get_host_def GetHostByUUID_def map_res_def)
qed (simp_all add: get_host_def GetHostByUUID_def map_res_def)

lemma collect_pointers_status:
  "map_res (\<lambda>(hs, es). (map snd hs, es)) (collect_pointers env servers c) =
   map_res (\<lambda>(hs, es). (map Status hs, es)) (collect_hosts env servers c)"
proof (induction servers arbitrary: c)
  case Nil
  then show ?case by (simp add: map_res_def)
next
  case (Cons server servers)
  obtain r c1 where g: "GetHostByUUID env (PermanentUuid server) c = (r, c1)" by force
  obtain r2 c2 where h: "get_host env (PermanentUuid server) c = (r2, c2)" by force
  have e: "map_res snd (r2, c2) = map_res Status (r, c1)" using get_host_status [of env "PermanentUuid server" c] by (simp add: g h)
  obtain a c3 where a: "collect_hosts env servers c1 = (a, c3)" by force
  obtain b c4 where b: "collect_pointers env servers c1 = (b, c4)" by force
  have i: "map_res (\<lambda>(hs, es). (map snd hs, es)) (b, c4) = map_res (\<lambda>(hs, es). (map Status hs, es)) (a, c3)"
    using Cons [of c1] by (simp add: a b)
  show ?case using e i by (cases r; cases r2; cases a; cases b) (auto simp: map_res_def g h a b)
qed

subsection \<open>Goroutines on different hosts\<close>

text \<open>
  What the goroutine of a server depends on: the host in the cache under its UUID, the dialer and the known servers. A pointer
  it holds is one to that host.
\<close>

definition client_view ::
  "('u, 'st) env \<Rightarrow> string \<Rightarrow> ('u, 'st) YBClient \<Rightarrow> ('st HostState option \<times> dialer res \<times> TabletServer list) option" where
  "client_view env server c =
     (case parse_uuid env server of
        Ok u \<Rightarrow> Some (tServersUUIDMap c u, fst (GetDialer env c), known_servers c)
      | _ \<Rightarrow> None)"

fun own_pointer :: "('u, 'st) env \<Rightarrow> string \<Rightarrow> ('u, 'st) host_pointer report_point \<Rightarrow> bool" where
  "own_pointer env server Lookup = True"
| "own_pointer env server (Listing h) = (parse_uuid env server = Ok (fst h))"
| "own_pointer env server (Consensus h ts infos) = (parse_uuid env server = Ok (fst h))"

lemma GetDialer_again: "fst (GetDialer env (snd (GetDialer env c))) = fst (GetDialer env c)"
  by (auto simp: GetDialer_def Let_def andThen_def split: option.split res.split)

lemma GetDialer_hosts [simp]: "fst (GetDialer env (c\<lparr>tServersUUIDMap := m\<rparr>)) = fst (GetDialer env c)"
  by (auto simp: GetDialer_def Let_def andThen_def tls_of_def split: option.split res.split)

lemma known_servers_frame [simp]:
  "known_servers (snd (GetDialer env c)) = known_servers c" "known_servers (c\<lparr>tServersUUIDMap := m\<rparr>) = known_servers c"
  by (simp_all add: known_servers_def)

text \<open>What a look-up gives, and what it changes.\<close>

definition looked_up :: "('u, 'st) env \<Rightarrow> 'u \<Rightarrow> 'st HostState option \<Rightarrow> dialer res \<Rightarrow> TabletServer list \<Rightarrow> 'st HostState res" where
  "looked_up env u m d servers =
     (case m of Some h \<Rightarrow> Ok h | None \<Rightarrow> bind_res d (\<lambda>d. find_tserver env u d servers))"

lemma cached_host_result: "fst (cached_host env u c) = looked_up env u (tServersUUIDMap c u) (fst (GetDialer env c)) (known_servers c)"
proof (cases "tServersUUIDMap c u")
  case None
  obtain r c1 where g: "GetDialer env c = (r, c1)" by force
  have "known_servers c1 = known_servers c" using known_servers_frame(1) [of env c] by (simp add: g)
  then show ?thesis
    by (cases r; cases "find_tserver env u (case r of Ok d \<Rightarrow> d) (known_servers c)")
       (simp_all add: cached_host_def looked_up_def dialTserver_def g None)
qed (simp add: cached_host_def looked_up_def)

lemma cached_host_changes:
  assumes "cached_host env u c = (r, c1)"
  shows "tServersUUIDMap c1 = (case r of Ok h \<Rightarrow> (tServersUUIDMap c)(u \<mapsto> h) | _ \<Rightarrow> tServersUUIDMap c)"
    and "fst (GetDialer env c1) = fst (GetDialer env c)" and "known_servers c1 = known_servers c"
proof -
  obtain d c2 where g: "GetDialer env c = (d, c2)" by force
  have f: "tServersUUIDMap c2 = tServersUUIDMap c" "fst (GetDialer env c2) = d" "known_servers c2 = known_servers c"
    using GetDialer_frame(3) [of env c] GetDialer_again [of env c] known_servers_frame(1) [of env c] by (simp_all add: g)
  have "tServersUUIDMap c1 = (case r of Ok h \<Rightarrow> (tServersUUIDMap c)(u \<mapsto> h) | _ \<Rightarrow> tServersUUIDMap c)
    \<and> fst (GetDialer env c1) = fst (GetDialer env c) \<and> known_servers c1 = known_servers c"
  proof (cases "tServersUUIDMap c u")
    case (Some h)
    then show ?thesis using assms by (auto simp: cached_host_def)
  next
    case None
    show ?thesis
    proof (cases d)
      case (Ok dl)
      obtain x where "find_tserver env u dl (known_servers c) = x" by simp
      then show ?thesis using assms None f Ok by (cases x) (auto simp: cached_host_def dialTserver_def g split: res.split)
    qed (use assms None f in \<open>auto simp: cached_host_def dialTserver_def g\<close>)
  qed
  then show "tServersUUIDMap c1 = (case r of Ok h \<Rightarrow> (tServersUUIDMap c)(u \<mapsto> h) | _ \<Rightarrow> tServersUUIDMap c)"
    "fst (GetDialer env c1) = fst (GetDialer env c)" "known_servers c1 = known_servers c" by auto
qed

lemma get_host_local:
  assumes "client_view env server c = client_view env server c'"
  shows "fst (get_host env server c) = fst (get_host env server c') \<and>
    client_view env server (snd (get_host env server c)) = client_view env server (snd (get_host env server c'))"
proof (cases "parse_uuid env server")
  case (Ok u)
  obtain r c1 where a: "cached_host env u c = (r, c1)" by force
  obtain r' c1' where b: "cached_host env u c' = (r', c1')" by force
  have r: "r = r'" using cached_host_result [of env u c] cached_host_result [of env u c'] assms Ok a b by (simp add: client_view_def)
  show ?thesis
    using assms Ok cached_host_changes [OF a] cached_host_changes [OF b]
    by (cases r') (auto simp: client_view_def get_host_def a b r)
qed (simp_all add: get_host_def client_view_def)

lemma get_host_frame:
  assumes "parse_uuid env server \<noteq> parse_uuid env other"
  shows "client_view env other (snd (get_host env server c)) = client_view env other c"
proof (cases "parse_uuid env server")
  case (Ok u)
  obtain r c1 where a: "cached_host env u c = (r, c1)" by force
  show ?thesis
    using assms Ok cached_host_changes [OF a]
    by (cases r; cases "parse_uuid env other") (auto simp: client_view_def get_host_def a)
qed (simp_all add: get_host_def)

lemma get_host_own: "get_host env server c = (Ok h, c1) \<Longrightarrow> parse_uuid env server = Ok (fst h)"
  by (auto simp: get_host_def andThen_eq_Ok)

lemma on_host_local:
  assumes "parse_uuid env server = Ok (fst h)" and "client_view env server c = client_view env server c'"
  shows "fst (on_host rpc cd resp q h c) = fst (on_host rpc cd resp q h c') \<and>
    client_view env server (snd (on_host rpc cd resp q h c)) = client_view env server (snd (on_host rpc cd resp q h c'))"
  using assms by (auto simp: client_view_def on_host_def split: option.split prod.split)

lemma on_host_frame:
  assumes "parse_uuid env server = Ok (fst h)" and "parse_uuid env server \<noteq> parse_uuid env other"
  shows "client_view env other (snd (on_host rpc cd resp q h c)) = client_view env other c"
  using assms by (auto simp: client_view_def on_host_def split: option.split prod.split res.split)

lemma client_body_good:
  assumes "own_pointer env server p" and "report_body (client_api env cds base) fmt options server p c = (Continue p1, c1)"
  shows "own_pointer env server p1"
proof (cases p)
  case Lookup
  then show ?thesis using assms(2) by (auto split: prod.splits res.splits dest: get_host_own)
next
  case (Listing h)
  then show ?thesis using assms by (auto split: prod.splits res.splits)
next
  case (Consensus h ts infos)
  then show ?thesis using assms by (cases ts) (auto split: prod.splits res.splits)
qed

lemma client_body_local:
  assumes "own_pointer env server p" and "client_view env server c = client_view env server c'"
  shows "fst (report_body (client_api env cds base) fmt options server p c) = fst (report_body (client_api env cds base) fmt options server p c')
    \<and> client_view env server (snd (report_body (client_api env cds base) fmt options server p c))
      = client_view env server (snd (report_body (client_api env cds base) fmt options server p c'))"
proof (cases p)
  case Lookup
  then show ?thesis using get_host_local [OF assms(2)] by (auto split: prod.splits res.splits)
next
  case (Listing h)
  then show ?thesis
    using on_host_local [OF _ assms(2), of h TabletServerService_ListTablets "tablets_codec cds" "[]" "()"] assms(1)
    by (auto split: prod.splits res.splits)
next
  case (Consensus h ts infos)
  then show ?thesis
    using on_host_local [OF _ assms(2), of h ConsensusService_GetConsensusState "consensus_codec cds" "JObject []"
        "(host_uuid (client_api env cds base) h, TabletId (hd ts))"] assms
    by (cases ts) (auto split: prod.splits res.splits)
qed

lemma client_body_frame:
  assumes "own_pointer env server p" and "parse_uuid env server \<noteq> parse_uuid env other"
  shows "client_view env other (snd (report_body (client_api env cds base) fmt options server p c)) = client_view env other c"
proof (cases p)
  case Lookup
  then show ?thesis using get_host_frame [OF assms(2), of c] by (auto split: prod.splits res.splits)
next
  case (Listing h)
  then show ?thesis
    using on_host_frame [OF _ assms(2), of h TabletServerService_ListTablets "tablets_codec cds" "[]" "()" c] assms(1)
    by (auto split: prod.splits res.splits)
next
  case (Consensus h ts infos)
  then show ?thesis
    using on_host_frame [OF _ assms(2), of h ConsensusService_GetConsensusState "consensus_codec cds" "JObject []"
        "(host_uuid (client_api env cds base) h, TabletId (hd ts))" c] assms(1)
    by (cases ts) (auto split: prod.splits res.splits)
qed

interpretation client_reports: independent_fan "report_body (client_api env cds base) fmt options" "own_pointer env"
    report_phase report_left Lookup "report_handler pr" "parse_uuid env" "client_view env"
  for env cds base fmt options pr
proof unfold_locales
  show "own_pointer env k Lookup" for k by simp
qed (erule (1) client_body_good client_body_local client_body_frame | erule report_descends)+

subsection \<open>The order of the reports\<close>

text \<open>The report of a server, as long as only others have been at work; and it leaves theirs as they are.\<close>

lemma server_report_alone:
  assumes "client_view env server c = client_view env server c0"
  shows "as_outcome (fst (server_report (client_api env cds base) fmt options server c))
    = as_outcome (fst (server_report (client_api env cds base) fmt options server c0))"
proof -
  have "map_option fst (run_alone (report_body (client_api env cds base) fmt options server) Lookup c)
    = map_option fst (run_alone (report_body (client_api env cds base) fmt options server) Lookup c0)"
    by (rule client_reports.alone_view [OF _ assms]) simp
  then show ?thesis by (simp add: report_alone split: prod.splits)
qed

lemma server_report_frame:
  assumes "parse_uuid env server \<noteq> parse_uuid env other"
  shows "client_view env other (snd (server_report (client_api env cds base) fmt options server c)) = client_view env other c"
proof -
  obtain r c1 where r: "server_report (client_api env cds base) fmt options server c = (r, c1)" by force
  then have "run_alone (report_body (client_api env cds base) fmt options server) Lookup c = Some (as_outcome r, c1)"
    by (simp add: report_alone)
  from client_reports.alone_frame [OF _ this assms] show ?thesis by (simp add: r)
qed

text \<open>Handling one answer is printing one report.\<close>

lemma print_one_report:
  assumes "server_report api fmt options server c = (r, c1)" and "as_outcome r = Ok a"
  shows "print_reports api pr fmt options (server # servers) (c, out) =
    (case a of
       None \<Rightarrow> print_reports api pr fmt options servers (c1, out)
     | Some report \<Rightarrow>
         (case report_handler pr report out of
            (Panic x, out1) \<Rightarrow> (Panic x, c1, out1)
          | (_, out1) \<Rightarrow> print_reports api pr fmt options servers (c1, out1)))"
proof -
  have a: "a = r" "\<And>x. r \<noteq> Some (Panic x)" using assms(2) by (auto simp: as_outcome_def split: option.splits res.splits)
  show ?thesis
  proof (cases r)
    case (Some x)
    then show ?thesis
    proof (cases x)
      case (Ok report)
      then show ?thesis using assms(1) a Some
        by (cases "Println pr report") (simp_all add: print_out_def report_handler_def)
    qed (use assms(1) a Some in \<open>auto simp: report_handler_def\<close>)
  qed (use assms(1) a in simp)
qed

lemma print_in_order:
  assumes "distinct (map (parse_uuid env) order)" and "\<forall>k\<in>set order. client_view env k c = client_view env k c0"
    and "\<forall>k\<in>set order. \<exists>a. outcome (report_body (client_api env cds base) fmt options) Lookup c0 k = Some (Ok a)"
    and "consume (report_handler pr) (map snd (answers_in (outcome (report_body (client_api env cds base) fmt options) Lookup c0) order)) out
      = (Ok (), out1)"
  shows "\<exists>c1. print_reports (client_api env cds base) pr fmt options order (c, out) = (Ok (), c1, out1)"
  using assms
proof (induction order arbitrary: c out)
  case Nil
  then show ?case by simp
next
  case (Cons k ks)
  obtain r c1 where r: "server_report (client_api env cds base) fmt options k c = (r, c1)" by force
  obtain a where a: "outcome (report_body (client_api env cds base) fmt options) Lookup c0 k = Some (Ok a)" using Cons.prems(3) by auto
  then have ra: "as_outcome r = Ok a"
    using server_report_alone [of env k c c0 cds base fmt options] Cons.prems(2) by (simp add: report_outcome r)
  have v: "\<forall>j\<in>set ks. client_view env j c1 = client_view env j c0"
  proof
    fix j assume j: "j \<in> set ks"
    then have "parse_uuid env k \<noteq> parse_uuid env j" using Cons.prems(1) by auto
    from server_report_frame [OF this, of cds base fmt options c] show "client_view env j c1 = client_view env j c0"
      using Cons.prems(2) j by (simp add: r)
  qed
  have d: "distinct (map (parse_uuid env) ks)" using Cons.prems(1) by simp
  have o: "\<forall>k\<in>set ks. \<exists>a. outcome (report_body (client_api env cds base) fmt options) Lookup c0 k = Some (Ok a)"
    using Cons.prems(3) by simp
  note rest = Cons.IH [OF d v o]
  show ?case
  proof (cases a)
    case None
    then show ?thesis using rest [of out] Cons.prems(4) a by (simp add: print_one_report [OF r ra] del: print_reports.simps)
  next
    case (Some report)
    obtain x out2 where h: "report_handler pr report out = (x, out2)" by force
    then show ?thesis using rest [of out2] Cons.prems(4) a Some
      by (cases x) (simp_all add: print_one_report [OF r ra] del: print_reports.simps)
  qed
qed

subsection \<open>Properties\<close>

text \<open>C32: However the goroutines of \<open>cluster_info --tablet-report\<close> are scheduled, and whatever the servers answer, the command neither
  hangs nor trips over its channel: no schedule goes on for ever; while the command is not over something can happen;
  from every state it can be brought to its end; no report is sent on the closed channel, the group's counter does not
  become negative, and when the loop over the channel ends every goroutine has left.\<close>

theorem tablet_reports_finish:
  fixes api :: "('w, 'h) tool_api"
  assumes "run (fan_step (report_body api fmt options) Lookup (report_handler pr)) n (start_fan uuids w out) t"
  shows "\<not> (\<exists>f. f 0 = t \<and> (\<forall>n. fan_step (report_body api fmt options) Lookup (report_handler pr) (f n) (f (Suc n))))
    \<and> (fan_ended t \<or> (\<exists>u. fan_step (report_body api fmt options) Lookup (report_handler pr) t u))
    \<and> (\<exists>m u. run (fan_step (report_body api fmt options) Lookup (report_handler pr)) m t u \<and> fan_ended u)
    \<and> crash t \<noteq> Some SendOnClosed \<and> crash t \<noteq> Some NegativeCounter
    \<and> (main_at t = Returned \<longrightarrow> (\<forall>g\<in>set (goroutines t). snd g = Exited))"
proof -
  have inv: "fan_inv (\<lambda>_ _. True) t" by (rule reports.reachable_inv [OF assms start_fan_invs(1)])
  have "\<not> (\<exists>f. f 0 = t \<and> (\<forall>n. fan_step (report_body api fmt options) Lookup (report_handler pr) (f n) (f (Suc n))))"
    using reports.no_infinite_run inv by metis
  moreover have "main_at t = Returned \<longrightarrow> (\<forall>g\<in>set (goroutines t). snd g = Exited)"
    using inv all_exited by (metis fan_inv_def prod.collapse)
  moreover have "\<exists>m u. run (fan_step (report_body api fmt options) Lookup (report_handler pr)) m t u \<and> fan_ended u"
    by (rule reports.reaches_final [OF inv])
  moreover have "fan_ended t \<or> (\<exists>u. fan_step (report_body api fmt options) Lookup (report_handler pr) t u)"
    by (cases "fan_ended t") (simp, intro disjI2 reports.progress [OF inv])
  moreover have "crash t \<noteq> Some SendOnClosed \<and> crash t \<noteq> Some NegativeCounter" using inv by (simp add: fan_inv_def)
  ultimately show ?thesis by (intro conjI) simp_all
qed

lemma tablet_reports_finish_witness:
  "\<exists>m u. run (fan_step (report_body test_tool_api ''table'' cluster_info_defaults) Lookup (report_handler test_printer)) m
     (start_fan [''ab''] 0 []) u \<and> fan_ended u"
  using tablet_reports_finish [OF run.stop, where api = test_tool_api and fmt = "''table''" and options = cluster_info_defaults
      and pr = test_printer and uuids = "[''ab'']" and w = 0 and out = "[]"] by blast

text \<open>C4: The schedule cannot be seen in the output. When the servers have different UUIDs, every run of the goroutines
  over the shared client that ends without a panic has printed, byte for byte, what the servers' reports printed one after
  the other in some order would have been (each made and printed before the next is begun); and if the
  program panicked in a goroutine, the report of some server panics on its own.\<close>

theorem tablet_reports_any_schedule:
  assumes "run (fan_step (report_body (client_api env cds base) fmt options) Lookup (report_handler pr)) n (start_fan uuids c out) t"
    and "distinct (map (parse_uuid env) uuids)" and "fan_ended t"
  shows "case crash t of
      None \<Rightarrow> \<exists>order c1. mset order = mset uuids \<and> print_reports (client_api env cds base) pr fmt options order (c, out) = (Ok (), c1, printed t)
    | Some (InGoroutine x) \<Rightarrow> \<exists>server\<in>set uuids. fst (server_report (client_api env cds base) fmt options server c) = Some (Panic x)
    | Some (InMain x) \<Rightarrow> consume (report_handler pr) (map snd (received t)) out = (Panic x, printed t)
    | _ \<Rightarrow> False"
proof (cases "crash t")
  case None
  note result = client_reports.fan_result [OF assms None]
  obtain order where o: "mset order = mset uuids"
    "answers_in (outcome (report_body (client_api env cds base) fmt options) Lookup c) order = received t"
    using arrival_order [OF result(1)] by blast
  have s: "set order = set uuids" using o(1) by (metis set_mset_mset)
  have "distinct (map (parse_uuid env) order)"
    using assms(2) mset_eq_imp_distinct_iff [of "map (parse_uuid env) order" "map (parse_uuid env) uuids"] o(1) by simp
  from print_in_order [OF this _ _ result(2) [folded o(2)]] result(4) s
  show ?thesis using o(1) None by auto
next
  case (Some x)
  have "fan_inv (\<lambda>_ _. True) t" by (rule reports.reachable_inv [OF assms(1) start_fan_invs(1)])
  moreover have "\<exists>server\<in>set uuids. fst (server_report (client_api env cds base) fmt options server c) = Some (Panic p)"
    if "crash t = Some (InGoroutine p)" for p
    using client_reports.fan_panic [OF assms(1,2) that]
    by (simp add: report_outcome as_outcome_Panic)
  moreover have "main_inv (report_handler pr) out t" by (rule run_main_inv [OF assms(1) start_fan_invs(2)])
  ultimately show ?thesis using Some by (cases x) (auto simp: fan_inv_def main_inv_def)
qed

definition fixed_codec :: "'r \<Rightarrow> ('q, 'r) codec" where
  "fixed_codec r =
     \<lparr>marshal_header = (\<lambda>h. Ok (be32 (unat (CallId h)))), marshal_body = (\<lambda>_. Ok []),
      unmarshal_header = (\<lambda>bs. Ok (Some (of_nat (be_val bs)))), unmarshal_body = (\<lambda>_. Ok r)\<rparr>"

definition sample_codecs :: report_codecs where
  "sample_codecs =
     \<lparr>tablets_codec = fixed_codec [], consensus_codec = fixed_codec JNull, entry_codec = fixed_codec JNull,
      flag_codec = fixed_codec (True, [], []), config_codec = fixed_codec (None, JNull), masters_codec = fixed_codec (None, JNull),
      servers_codec = fixed_codec (None, JNull, [])\<rparr>"

definition sample_base :: "((string, nat) YBClient, (string, nat) host_pointer) tool_api" where
  "sample_base =
     \<lparr>machine_name = Ok ''h'', now_text = [], tools_version = [], build_time = [], cluster_config = (\<lambda>w. (Ok (None, JNull), w)),
      list_masters = (\<lambda>w. (Ok (None, JNull), w)), list_servers = (\<lambda>w. (Ok (None, JNull, []), w)), server_count = (\<lambda>w. 0),
      all_hosts = (\<lambda>w. (Ok ([], []), w)), host_of = (\<lambda>u w. (Error EOF, w)), list_tablets = (\<lambda>h w. (Ok [], w)),
      consensus_state = (\<lambda>h u t w. (Ok JNull, w)), latest_entry = (\<lambda>h t w. (Ok JNull, w)),
      get_flag = (\<lambda>h n w. (Ok (True, ''0.0.0.0'', []), w)), bound_addresses = (\<lambda>h. []), host_uuid = fst,
      addresses_text = (\<lambda>l. []), proto_text = (\<lambda>j. []), info_json = (\<lambda>t c. JNull), arrival = (\<lambda>l. l),
      sql_open = (\<lambda>i w. (Ok (), w)), sql_exec = (\<lambda>q w. (Error EOF, w)), run_cql = (\<lambda>q vs w. (Ok (), w))\<rparr>"

lemma tablet_reports_any_schedule_witness:
  "\<exists>n t. run (fan_step (report_body (client_api sample_env sample_codecs sample_base) ''table'' cluster_info_defaults) Lookup
       (report_handler test_printer)) n (start_fan [''u1'', ''u2''] (sample_client [] None) []) t \<and> fan_ended t \<and>
     (crash t = None \<longrightarrow> (\<exists>order c1. mset order = {#''u1'', ''u2''#} \<and>
        print_reports (client_api sample_env sample_codecs sample_base) test_printer ''table'' cluster_info_defaults order
          (sample_client [] None, []) = (Ok (), c1, printed t)))"
proof -
  let ?body = "report_body (client_api sample_env sample_codecs sample_base) ''table'' cluster_info_defaults"
  have "\<exists>n t. run (fan_step ?body Lookup (report_handler test_printer)) n
      (start_fan [''u1'', ''u2''] (sample_client [] None) []) t \<and> fan_ended t"
    by (rule reports.reaches_final [OF start_fan_invs(1)])
  then obtain n t where t: "run (fan_step ?body Lookup (report_handler test_printer)) n
      (start_fan [''u1'', ''u2''] (sample_client [] None) []) t" "fan_ended t" by blast
  have "distinct (map (parse_uuid sample_env) [''u1'', ''u2''])" by (simp add: sample_env_def)
  from tablet_reports_any_schedule [OF t(1) this t(2)] t show ?thesis by (intro exI [of _ n] exI [of _ t]) auto
qed

end
