(* ===== verification/Locks.thy ===== *)
theory Locks
  imports Goroutines
begin

section \<open>Calls that hold a mutex\<close>

text \<open>
  The pattern \<open>m.Lock(); defer m.Unlock()\<close> at the head of a method: \<open>SendMessage\<close> with the mutex of its session
  (\<open>yugatool/pkg/client/message/message.go\<close>, lines 23 and 24) and \<open>GetHostByUUID\<close> with that of the client
  (\<open>yugatool/pkg/client/client.go\<close>, lines 116 and 117). Some goroutines have called the method, each with its own argument; a step
  is the acquisition of the free mutex by one of them, or the next action of the body of the one that
  holds it. The mutex is released when the body returns, by a panic too; the model then lets the others go on. \<open>served\<close>
  is the order of the acquisitions. The locale shows that every schedule ends and has the results and the state
  of the calls made one after the other in the order \<open>served\<close>.
\<close>

subsection \<open>States and steps\<close>

datatype ('p, 'a) caller = Calling | Inside 'p | Replied "'a res"

record ('k, 'p, 'a, 'w) locked =
  callers :: "('k \<times> ('p, 'a) caller) list"
  holder :: "nat option"
  guarded :: 'w
  served :: "nat list"

definition caller_at :: "('k, 'p, 'a, 'w) locked \<Rightarrow> nat \<Rightarrow> 'k \<Rightarrow> ('p, 'a) caller \<Rightarrow> bool" where
  "caller_at s i k ph \<longleftrightarrow> i < length (callers s) \<and> callers s ! i = (k, ph)"

definition set_caller :: "nat \<Rightarrow> 'k \<Rightarrow> ('p, 'a) caller \<Rightarrow> ('k, 'p, 'a, 'w) locked \<Rightarrow> ('k, 'p, 'a, 'w) locked" where
  "set_caller i k ph s = s\<lparr>callers := (callers s)[i := (k, ph)]\<rparr>"

inductive lock_step ::
  "('k \<Rightarrow> 'p \<Rightarrow> 'w \<Rightarrow> ('p, 'a) progress \<times> 'w) \<Rightarrow> 'p \<Rightarrow> ('k, 'p, 'a, 'w) locked \<Rightarrow> ('k, 'p, 'a, 'w) locked \<Rightarrow> bool"
  for body start where
  acquire: "caller_at s i k Calling \<Longrightarrow> holder s = None \<Longrightarrow>
    lock_step body start s (set_caller i k (Inside start) (s\<lparr>holder := Some i, served := served s @ [i]\<rparr>))"
| act: "caller_at s i k (Inside p) \<Longrightarrow> body k p (guarded s) = (Continue p1, w1) \<Longrightarrow>
    lock_step body start s (set_caller i k (Inside p1) (s\<lparr>guarded := w1\<rparr>))"
| reply: "caller_at s i k (Inside p) \<Longrightarrow> body k p (guarded s) = (Finish a, w1) \<Longrightarrow>
    lock_step body start s (set_caller i k (Replied (Ok a)) (s\<lparr>guarded := w1, holder := None\<rparr>))"
| unwind: "caller_at s i k (Inside p) \<Longrightarrow> body k p (guarded s) = (Fail x, w1) \<Longrightarrow>
    lock_step body start s (set_caller i k (Replied (Panic x)) (s\<lparr>guarded := w1, holder := None\<rparr>))"

definition start_locked :: "'k list \<Rightarrow> 'w \<Rightarrow> ('k, 'p, 'a, 'w) locked" where
  "start_locked ks w = \<lparr>callers = map (\<lambda>k. (k, Calling)) ks, holder = None, guarded = w, served = []\<rparr>"

definition all_replied :: "('k, 'p, 'a, 'w) locked \<Rightarrow> bool" where
  "all_replied s \<longleftrightarrow> (\<forall>c\<in>set (callers s). \<exists>r. snd c = Replied r)"

text \<open>The calls one after the other.\<close>

fun serve ::
  "('k \<Rightarrow> 'p \<Rightarrow> 'w \<Rightarrow> ('p, 'a) progress \<times> 'w) \<Rightarrow> 'p \<Rightarrow> 'k list \<Rightarrow> nat list \<Rightarrow> 'w \<Rightarrow> ((nat \<times> 'a res) list \<times> 'w) option" where
  "serve body start ks [] w = Some ([], w)"
| "serve body start ks (i # is) w =
     (case run_alone (body (ks ! i)) start w of
        None \<Rightarrow> None
      | Some (r, w1) \<Rightarrow> map_option (\<lambda>(l, w2). ((i, r) # l, w2)) (serve body start ks is w1))"

subsection \<open>Mutual exclusion and the order of service\<close>

text \<open>Who holds the mutex is the only one inside; who was served is not waiting any more.\<close>

definition exclusion :: "('k \<Rightarrow> 'p \<Rightarrow> bool) \<Rightarrow> ('k, 'p, 'a, 'w) locked \<Rightarrow> bool" where
  "exclusion good s \<longleftrightarrow>
     (\<forall>i k ph. caller_at s i k ph \<longrightarrow> (ph = Calling \<longleftrightarrow> i \<notin> set (served s)) \<and> (\<forall>p. ph = Inside p \<longrightarrow> holder s = Some i \<and> good k p))"

definition replies :: "'k list \<Rightarrow> (nat \<times> 'a res) list \<Rightarrow> ('k, 'p, 'a, 'w) locked \<Rightarrow> bool" where
  "replies ks l s \<longleftrightarrow> (\<forall>(i, r)\<in>set l. caller_at s i (ks ! i) (Replied r))"

text \<open>The calls that have returned are served in order, and the one inside started where they ended.\<close>

definition serialized ::
  "('k \<Rightarrow> 'p \<Rightarrow> 'w \<Rightarrow> ('p, 'a) progress \<times> 'w) \<Rightarrow> 'p \<Rightarrow> 'k list \<Rightarrow> 'w \<Rightarrow> ('k, 'p, 'a, 'w) locked \<Rightarrow> bool" where
  "serialized body start ks w0 s \<longleftrightarrow>
     (case holder s of
        None \<Rightarrow> \<exists>l. serve body start ks (served s) w0 = Some (l, guarded s) \<and> replies ks l s
      | Some j \<Rightarrow>
          \<exists>l is w1 p. served s = is @ [j] \<and> serve body start ks is w0 = Some (l, w1) \<and> replies ks l s \<and>
            caller_at s j (ks ! j) (Inside p) \<and> run_alone (body (ks ! j)) p (guarded s) = run_alone (body (ks ! j)) start w1)"

definition lock_inv ::
  "('k \<Rightarrow> 'p \<Rightarrow> 'w \<Rightarrow> ('p, 'a) progress \<times> 'w) \<Rightarrow> 'p \<Rightarrow> ('k \<Rightarrow> 'p \<Rightarrow> bool) \<Rightarrow> 'k list \<Rightarrow> 'w \<Rightarrow> ('k, 'p, 'a, 'w) locked \<Rightarrow> bool" where
  "lock_inv body start good ks w0 s \<longleftrightarrow>
     map fst (callers s) = ks \<and> distinct (served s) \<and> (\<forall>i\<in>set (served s). i < length ks) \<and> exclusion good s \<and>
     serialized body start ks w0 s"

lemma set_caller_simps [simp]:
  "holder (set_caller i k ph s) = holder s" "guarded (set_caller i k ph s) = guarded s" "served (set_caller i k ph s) = served s"
  "callers (set_caller i k ph s) = (callers s)[i := (k, ph)]"
  by (simp_all add: set_caller_def)

lemma caller_at_update [simp]:
  "caller_at (s\<lparr>guarded := w\<rparr>) i k ph = caller_at s i k ph" "caller_at (s\<lparr>holder := h\<rparr>) i k ph = caller_at s i k ph"
  "caller_at (s\<lparr>served := l\<rparr>) i k ph = caller_at s i k ph"
  by (simp_all add: caller_at_def)

lemma caller_at_set: "i < length (callers s) \<Longrightarrow>
  caller_at (set_caller i k ph s) j k2 ph2 \<longleftrightarrow> (if j = i then k2 = k \<and> ph2 = ph else caller_at s j k2 ph2)"
  by (auto simp: caller_at_def set_caller_def)

lemma caller_at_fun: "caller_at s i k ph \<Longrightarrow> caller_at s i k2 ph2 \<Longrightarrow> k2 = k \<and> ph2 = ph"
  by (simp add: caller_at_def)

lemma caller_key: "caller_at s i k ph \<Longrightarrow> map fst (callers s) = ks \<Longrightarrow> ks ! i = k \<and> i < length ks \<and> i < length (callers s)"
  by (auto simp: caller_at_def)

lemma keys_set_caller: "caller_at s i k ph \<Longrightarrow> map fst ((callers s)[i := (k, ph1)]) = map fst (callers s)"
proof -
  assume "caller_at s i k ph"
  then have "i < length (map fst (callers s))" "map fst (callers s) ! i = k" by (simp_all add: caller_at_def)
  then show ?thesis by (simp add: map_update list_update_same_conv)
qed

lemma serve_snoc:
  "serve body start ks is w = Some (l, w1) \<Longrightarrow> run_alone (body (ks ! i)) start w1 = Some (r, w2) \<Longrightarrow>
   serve body start ks (is @ [i]) w = Some (l @ [(i, r)], w2)"
  by (induction "is" arbitrary: w l) (auto split: option.splits)

lemma serve_indices: "serve body start ks is w = Some (l, w1) \<Longrightarrow> map fst l = is"
  by (induction "is" arbitrary: w l) (auto split: option.splits)

lemma exclusionD:
  assumes "exclusion good s" and "caller_at s i k ph"
  shows "ph = Calling \<longleftrightarrow> i \<notin> set (served s)" and "ph = Inside p \<Longrightarrow> holder s = Some i \<and> good k p"
  using assms unfolding exclusion_def by blast+

text \<open>Replies stay where they are.\<close>

lemma replies_kept:
  assumes "replies ks l s" and "caller_at s i k ph" and "\<And>r. ph \<noteq> Replied r"
  shows "replies ks l (set_caller i k ph1 s)"
  unfolding replies_def
proof (intro ballI, clarify)
  fix j r assume "(j, r) \<in> set l"
  then have "caller_at s j (ks ! j) (Replied r)" using assms(1) by (auto simp: replies_def)
  moreover from this have "j \<noteq> i" using caller_at_fun [OF _ assms(2), of "ks ! j" "Replied r"] assms(3) by auto
  ultimately show "caller_at (set_caller i k ph1 s) j (ks ! j) (Replied r)"
    using assms(2) by (simp add: caller_at_set caller_at_def)
qed

lemma replies_update [simp]:
  "replies ks l (s\<lparr>guarded := w\<rparr>) = replies ks l s" "replies ks l (s\<lparr>holder := h\<rparr>) = replies ks l s"
  "replies ks l (s\<lparr>served := n\<rparr>) = replies ks l s"
  by (simp_all add: replies_def)

lemma replies_append: "replies ks (l @ m) s \<longleftrightarrow> replies ks l s \<and> replies ks m s"
  by (auto simp: replies_def)

text \<open>The goroutine inside is the holder, and what it is about to do is what is left of its call.\<close>

lemma lock_inside:
  assumes "lock_inv body start good ks w0 s" and "caller_at s i k (Inside p)"
  obtains l "is" w1 where "holder s = Some i" "good k p" "served s = is @ [i]" "serve body start ks is w0 = Some (l, w1)"
    "replies ks l s" "run_alone (body k) p (guarded s) = run_alone (body k) start w1" "ks ! i = k" "i < length ks" "i < length (callers s)"
proof -
  have h: "holder s = Some i" "good k p" using exclusionD(2) [OF _ assms(2), of good p] assms(1) by (auto simp: lock_inv_def)
  have k: "ks ! i = k" "i < length ks" "i < length (callers s)"
    using caller_key [OF assms(2)] assms(1) by (auto simp: lock_inv_def)
  have "serialized body start ks w0 s" using assms(1) by (simp add: lock_inv_def)
  then obtain l "is" w1 p1 where l: "served s = is @ [i]" "serve body start ks is w0 = Some (l, w1)"
    "replies ks l s" "caller_at s i k (Inside p1)" "run_alone (body k) p1 (guarded s) = run_alone (body k) start w1"
    unfolding serialized_def h(1) option.case k(1) by (elim exE conjE) (rule that)
  have "p1 = p" using caller_at_fun [OF l(4) assms(2)] by simp
  then show thesis using l h k by (intro that) simp_all
qed

text \<open>A caller that is served gets a new place; the others keep theirs.\<close>

lemma exclusion_set:
  assumes "exclusion good s" and "i < length (callers s)" and "callers t = (callers s)[i := (k, ph)]"
    and "i \<in> set (served t)" and "\<And>j. j \<noteq> i \<Longrightarrow> j \<in> set (served t) \<longleftrightarrow> j \<in> set (served s)"
    and "ph \<noteq> Calling" and "\<And>p. ph = Inside p \<Longrightarrow> holder t = Some i \<and> good k p" and "\<And>j. j \<noteq> i \<Longrightarrow> holder s \<noteq> Some j"
  shows "exclusion good t"
proof (unfold exclusion_def, intro allI impI)
  fix j k2 ph2
  assume "caller_at t j k2 ph2"
  then have c: "if j = i then k2 = k \<and> ph2 = ph else caller_at s j k2 ph2"
    using assms(2,3) by (auto simp: caller_at_def)
  show "(ph2 = Calling \<longleftrightarrow> j \<notin> set (served t)) \<and> (\<forall>p. ph2 = Inside p \<longrightarrow> holder t = Some j \<and> good k2 p)"
  proof (cases "j = i")
    case True
    then show ?thesis using c assms(4,6,7) by simp
  next
    case False
    then have "caller_at s j k2 ph2" using c by simp
    then show ?thesis using exclusionD [OF assms(1)] assms(5,8) False by metis
  qed
qed

text \<open>The phases the callers still have before them, and what the one inside has left of its phase.\<close>

fun caller_rank :: "'p \<Rightarrow> ('p \<Rightarrow> nat) \<Rightarrow> 'k \<times> ('p, 'a) caller \<Rightarrow> nat" where
  "caller_rank start phase (k, Calling) = phase start + 2"
| "caller_rank start phase (k, Inside p) = phase p + 1"
| "caller_rank start phase (k, Replied r) = 0"

fun caller_left :: "('p \<Rightarrow> nat) \<Rightarrow> 'k \<times> ('p, 'a) caller \<Rightarrow> nat" where
  "caller_left left (k, Inside p) = left p"
| "caller_left left _ = 0"

definition lock_order :: "'p \<Rightarrow> ('p \<Rightarrow> nat) \<Rightarrow> ('p \<Rightarrow> nat) \<Rightarrow> (('k, 'p, 'a, 'w) locked \<times> ('k, 'p, 'a, 'w) locked) set" where
  "lock_order start phase left = inv_image (less_than <*lex*> less_than)
     (\<lambda>s. (sum_list (map (caller_rank start phase) (callers s)), sum_list (map (caller_left left) (callers s))))"

lemma wf_lock_order: "wf (lock_order start phase left)"
  unfolding lock_order_def by (intro wf_inv_image wf_lex_prod wf_less_than)

lemma lock_order_set:
  assumes "caller_at s i k ph" and "callers t = (callers s)[i := (k, ph1)]"
    and "caller_rank start phase (k, ph1) < caller_rank start phase (k, ph) \<or>
      caller_rank start phase (k, ph1) = caller_rank start phase (k, ph) \<and> caller_left left (k, ph1) < caller_left left (k, ph)"
  shows "(t, s) \<in> lock_order start phase left"
  using sum_list_map_update [of i "callers s" "caller_rank start phase" "(k, ph1)"]
    sum_list_map_update [of i "callers s" "caller_left left" "(k, ph1)"] assms
  by (auto simp: lock_order_def caller_at_def)

locale locked_calls = finite_body body good phase left
  for body :: "'k \<Rightarrow> 'p \<Rightarrow> 'w \<Rightarrow> ('p, 'a) progress \<times> 'w" and good phase left +
  fixes start :: 'p
  assumes good_start: "good k start"
begin

lemma lock_inv_acquire:
  assumes "lock_inv body start good ks w0 s" and "caller_at s i k Calling" and "holder s = None"
  shows "lock_inv body start good ks w0 (set_caller i k (Inside start) (s\<lparr>holder := Some i, served := served s @ [i]\<rparr>))"
proof -
  let ?s = "s\<lparr>holder := Some i, served := served s @ [i]\<rparr>"
  have i: "ks ! i = k" "i < length ks" "i < length (callers s)"
    using caller_key [OF assms(2)] assms(1) by (auto simp: lock_inv_def)
  have ex: "exclusion good s" and ser: "serialized body start ks w0 s" using assms(1) by (simp_all add: lock_inv_def)
  have n: "i \<notin> set (served s)" using exclusionD(1) [OF ex assms(2)] by simp
  obtain l where l: "serve body start ks (served s) w0 = Some (l, guarded s)" "replies ks l s"
    using ser assms(3) by (auto simp: serialized_def)
  have "replies ks l (set_caller i k (Inside start) ?s)"
    by (rule replies_kept [where ph = Calling]) (use l(2) assms(2) in simp_all)
  moreover have "caller_at (set_caller i k (Inside start) ?s) i k (Inside start)" using i by (simp add: caller_at_set)
  ultimately have "serialized body start ks w0 (set_caller i k (Inside start) ?s)"
    using l(1) i(1) by (auto simp: serialized_def)
  moreover have "exclusion good (set_caller i k (Inside start) ?s)"
    by (rule exclusion_set [OF ex i(3), of _ k "Inside start"]) (use assms(3) good_start in auto)
  ultimately show ?thesis
    using assms(1) i n keys_set_caller [OF assms(2), of "Inside start"] by (simp add: lock_inv_def)
qed

lemma lock_inv_act:
  assumes "lock_inv body start good ks w0 s" and "caller_at s i k (Inside p)" and "body k p (guarded s) = (Continue p1, w1)"
  shows "lock_inv body start good ks w0 (set_caller i k (Inside p1) (s\<lparr>guarded := w1\<rparr>))"
proof -
  let ?s = "s\<lparr>guarded := w1\<rparr>"
  from assms(1,2) obtain l "is" v where l: "holder s = Some i" "good k p" "served s = is @ [i]" "serve body start ks is w0 = Some (l, v)"
    "replies ks l s" "run_alone (body k) p (guarded s) = run_alone (body k) start v"
    and i: "ks ! i = k" "i < length ks" "i < length (callers s)" by (rule lock_inside)
  have ex: "exclusion good s" using assms(1) by (simp add: lock_inv_def)
  have "replies ks l (set_caller i k (Inside p1) ?s)"
    by (rule replies_kept [where ph = "Inside p"]) (use l(5) assms(2) in simp_all)
  moreover have "caller_at (set_caller i k (Inside p1) ?s) i k (Inside p1)" using i by (simp add: caller_at_set)
  moreover have "run_alone (body k) p1 w1 = run_alone (body k) start v"
    using l(6) run_alone_simps(1) [of "body k" p "guarded s" p1 w1] assms(3) by simp
  ultimately have "serialized body start ks w0 (set_caller i k (Inside p1) ?s)"
    using l(1,3,4) i(1) by (auto simp: serialized_def)
  moreover have "exclusion good (set_caller i k (Inside p1) ?s)"
    by (rule exclusion_set [OF ex i(3), of _ k "Inside p1"]) (use l(1,3) good_kept [OF l(2) assms(3)] in auto)
  ultimately show ?thesis
    using assms(1) i keys_set_caller [OF assms(2), of "Inside p1"] by (simp add: lock_inv_def)
qed

lemma lock_inv_return:
  assumes "lock_inv body start good ks w0 s" and "caller_at s i k (Inside p)" and "run_alone (body k) p (guarded s) = Some (r, w1)"
  shows "lock_inv body start good ks w0 (set_caller i k (Replied r) (s\<lparr>guarded := w1, holder := None\<rparr>))"
proof -
  let ?s = "s\<lparr>guarded := w1, holder := None\<rparr>"
  from assms(1,2) obtain l "is" v where l: "holder s = Some i" "good k p" "served s = is @ [i]" "serve body start ks is w0 = Some (l, v)"
    "replies ks l s" "run_alone (body k) p (guarded s) = run_alone (body k) start v"
    and i: "ks ! i = k" "i < length ks" "i < length (callers s)" by (rule lock_inside)
  have ex: "exclusion good s" using assms(1) by (simp add: lock_inv_def)
  have "replies ks l (set_caller i k (Replied r) ?s)"
    by (rule replies_kept [where ph = "Inside p"]) (use l(5) assms(2) in simp_all)
  moreover have "caller_at (set_caller i k (Replied r) ?s) i k (Replied r)" using i by (simp add: caller_at_set)
  ultimately have "replies ks (l @ [(i, r)]) (set_caller i k (Replied r) ?s)"
    using i(1) by (simp add: replies_append) (simp add: replies_def)
  moreover have "serve body start ks (is @ [i]) w0 = Some (l @ [(i, r)], w1)"
    by (rule serve_snoc [OF l(4)]) (use l(6) i(1) assms(3) in simp)
  ultimately have "serialized body start ks w0 (set_caller i k (Replied r) ?s)"
    using l(3) by (auto simp: serialized_def)
  moreover have "exclusion good (set_caller i k (Replied r) ?s)"
    by (rule exclusion_set [OF ex i(3), of _ k "Replied r"]) (use l(1,3) in auto)
  ultimately show ?thesis
    using assms(1) i keys_set_caller [OF assms(2), of "Replied r"] by (simp add: lock_inv_def)
qed

lemma lock_inv_step: "lock_step body start s t \<Longrightarrow> lock_inv body start good ks w0 s \<Longrightarrow> lock_inv body start good ks w0 t"
proof (induction rule: lock_step.induct)
  case (acquire s i k)
  then show ?case by (intro lock_inv_acquire)
next
  case (act s i k p p1 w1)
  then show ?case by (intro lock_inv_act)
next
  case (reply s i k p a w1)
  then show ?case by (intro lock_inv_return [OF reply(3,1)] run_alone_simps)
next
  case (unwind s i k p x w1)
  then show ?case by (intro lock_inv_return [OF unwind(3,1)] run_alone_simps)
qed

lemma lock_step_smaller:
  "lock_step body start s t \<Longrightarrow> lock_inv body start good ks w0 s \<Longrightarrow> (t, s) \<in> lock_order start phase left"
proof (induction rule: lock_step.induct)
  case (acquire s i k)
  then show ?case by (intro lock_order_set [OF acquire(1), of _ "Inside start"]) simp_all
next
  case (act s i k p p1 w1)
  have "good k p" using lock_inside [OF act(3,1)] by blast
  then show ?case using body_descends [OF _ act(2)] by (intro lock_order_set [OF act(1), of _ "Inside p1"]) auto
next
  case (reply s i k p a w1)
  then show ?case by (intro lock_order_set [OF reply(1), of _ "Replied (Ok a)"]) simp_all
next
  case (unwind s i k p x w1)
  then show ?case by (intro lock_order_set [OF unwind(1), of _ "Replied (Panic x)"]) simp_all
qed

lemma lock_progress:
  assumes "lock_inv body start good ks w0 s" and "\<not> all_replied s"
  shows "\<exists>t. lock_step body start s t"
proof (cases "holder s")
  case (Some j)
  moreover have "serialized body start ks w0 s" using assms(1) by (simp add: lock_inv_def)
  ultimately obtain p where p: "caller_at s j (ks ! j) (Inside p)" by (auto simp: serialized_def)
  obtain r w1 where "body (ks ! j) p (guarded s) = (r, w1)" by force
  then show ?thesis
    using lock_step.act [OF p, of body] lock_step.reply [OF p, of body] lock_step.unwind [OF p, of body] by (cases r) blast+
next
  case None
  from assms(2) obtain i where "i < length (callers s)" "\<forall>r. snd (callers s ! i) \<noteq> Replied r"
    unfolding all_replied_def by (metis in_set_conv_nth)
  then have c: "caller_at s i (fst (callers s ! i)) (snd (callers s ! i))" "\<forall>r. snd (callers s ! i) \<noteq> Replied r"
    by (simp_all add: caller_at_def)
  have "snd (callers s ! i) \<noteq> Inside p" for p
    using exclusionD(2) [OF _ c(1)] assms(1) None by (auto simp: lock_inv_def)
  then have "snd (callers s ! i) = Calling" using c(2) by (cases "snd (callers s ! i)") auto
  then show ?thesis using lock_step.acquire [OF _ None, of i "fst (callers s ! i)"] c(1) by auto
qed

lemma start_lock_inv: "lock_inv body start good ks w0 (start_locked ks w0)"
  by (auto simp: lock_inv_def start_locked_def exclusion_def serialized_def replies_def caller_at_def comp_def)

text \<open>When every call has returned, all were served, each once, with the results and the state of that order.\<close>

lemma all_served:
  assumes "lock_inv body start good ks w0 s" and "all_replied s"
  shows "mset (served s) = mset [0 ..< length ks] \<and> holder s = None \<and>
    (\<exists>l. serve body start ks (served s) w0 = Some (l, guarded s) \<and> (\<forall>(i, r)\<in>set l. callers s ! i = (ks ! i, Replied r)))"
proof -
  have ex: "exclusion good s" and len: "length (callers s) = length ks"
    using assms(1) by (auto simp: lock_inv_def)
  have rep: "\<exists>r. snd (callers s ! i) = Replied r" if "i < length ks" for i
    using assms(2) that len by (simp add: all_replied_def)
  have at: "caller_at s i (fst (callers s ! i)) (snd (callers s ! i))" if "i < length ks" for i
    using that len by (simp add: caller_at_def)
  have "i \<in> set (served s)" if "i < length ks" for i
    using exclusionD(1) [OF ex at [OF that]] rep [OF that] by auto
  then have "set (served s) = {0 ..< length ks}" using assms(1) by (auto simp: lock_inv_def)
  then have m: "mset (served s) = mset [0 ..< length ks]"
    using assms(1) set_eq_iff_mset_eq_distinct [of "served s" "[0 ..< length ks]"] by (simp add: lock_inv_def)
  have "holder s = None"
  proof (rule ccontr)
    assume "holder s \<noteq> None"
    moreover have "serialized body start ks w0 s" using assms(1) by (simp add: lock_inv_def)
    ultimately obtain j p where "caller_at s j (ks ! j) (Inside p)" by (auto simp: serialized_def)
    then show False using rep [of j] len by (auto simp: caller_at_def)
  qed
  then show ?thesis using m assms(1) by (auto simp: lock_inv_def serialized_def replies_def caller_at_def)
qed

end

sublocale locked_calls \<subseteq> founded_system "lock_step body start" "lock_inv body start good ks w0" all_replied "lock_order start phase left"
  for ks w0
  by unfold_locales (blast intro: lock_inv_step lock_progress wf_lock_order lock_step_smaller)+

end
