(* ===== verification/ClientLocks.thy ===== *)
theory ClientLocks
  imports Locks YBClient
begin

section \<open>The mutexes of the client\<close>

text \<open>
  \<open>SendMessage\<close> under the mutex of its session and \<open>GetHostByUUID\<close> under the mutex of the client, cut into the actions
  between which another goroutine could act, were it not for the mutex: \<open>send_body\<close> (the call ID and the frame, the
  write of the length, the write of the frame, the response) and \<open>lookup_body\<close> (the look at the cache, the dialling, the store
  into the cache). \<open>send_alone\<close> and \<open>lookup_alone\<close> show that they are the \<open>SendMessage\<close> and \<open>cached_host\<close> of theories
  \<open>Wire\<close> and \<open>YBClient\<close>; the interpretations of \<open>locked_calls\<close> give what concurrent callers see.
\<close>

subsection \<open>Calls on one session\<close>

type_synonym ('q, 'r) call = "('q, 'r) codec \<times> string \<times> string \<times> 'q \<times> 'r"

definition messageLen :: "bytes \<Rightarrow> nat" where
  "messageLen b = length b mod 2 ^ 32"

datatype send_point = Enter | WriteLength "32 word" bytes | WriteFrame "32 word" bytes | Receive "32 word"

fun send_body :: "('q, 'r) call \<Rightarrow> send_point \<Rightarrow> Session \<Rightarrow> (send_point, 'r res) progress \<times> Session" where
  "send_body (cd, service, name, request, response) Enter s =
     (let (callID, s0) = GenerateCallID s;
          pb = \<lparr>CallId = callID, ServiceName = service, MethodName = name, TimeoutMillis = 3000\<rparr>
      in case request_frame cd pb request of
           Ok b \<Rightarrow> (Continue (WriteLength callID b), s0)
         | Error e \<Rightarrow> (Finish (Error e), s0)
         | Panic x \<Rightarrow> (Fail x, s0))"
| "send_body (cd, service, name, request, response) (WriteLength callID b) s =
     (case Session_Write (be32 (messageLen b)) s of
        (Ok n, s1) \<Rightarrow>
          if n \<noteq> 4 then (Finish (Error (Err ''packet len not 4 bytes'')), s1) else (Continue (WriteFrame callID b), s1)
      | (Error e, s1) \<Rightarrow> (Finish (Error e), s1)
      | (Panic x, s1) \<Rightarrow> (Fail x, s1))"
| "send_body (cd, service, name, request, response) (WriteFrame callID b) s =
     (case Session_Write b s of
        (Ok n, s1) \<Rightarrow>
          if n \<noteq> messageLen b then (Finish (Error (Err ''request over the wire not equal to messageLen'')), s1)
          else (Continue (Receive callID), s1)
      | (Error e, s1) \<Rightarrow> (Finish (Error e), s1)
      | (Panic x, s1) \<Rightarrow> (Fail x, s1))"
| "send_body (cd, service, name, request, response) (Receive callID) s =
     (case GetResponse cd callID response s of
        (Panic x, s1) \<Rightarrow> (Fail x, s1)
      | (r, s1) \<Rightarrow> (Finish r, s1))"

fun send_phase :: "send_point \<Rightarrow> nat" where
  "send_phase Enter = 3"
| "send_phase (WriteLength i b) = 2"
| "send_phase (WriteFrame i b) = 1"
| "send_phase (Receive i) = 0"

text \<open>A call made on its own.\<close>

definition call_on :: "('q, 'r) call \<Rightarrow> Session \<Rightarrow> 'r res \<times> Session" where
  "call_on call s = (case call of (cd, service, name, request, response) \<Rightarrow> SendMessage cd service name request response s)"

definition as_reply :: "'r res \<Rightarrow> 'r res res" where
  "as_reply r = (case r of Panic x \<Rightarrow> Panic x | _ \<Rightarrow> Ok r)"

fun call_in_order :: "('q, 'r) call list \<Rightarrow> nat list \<Rightarrow> Session \<Rightarrow> (nat \<times> 'r res) list \<times> Session" where
  "call_in_order calls [] s = ([], s)"
| "call_in_order calls (i # is) s =
     (case call_on (calls ! i) s of
        (r, s1) \<Rightarrow> (case call_in_order calls is s1 of (l, s2) \<Rightarrow> ((i, r) # l, s2)))"

lemma send_descends: "send_body call p s = (Continue p1, s1) \<Longrightarrow> send_phase p1 < send_phase p"
  by (cases "(call, p, s)" rule: send_body.cases) (auto simp: Let_def split: prod.splits res.splits if_splits)

interpretation calls: locked_calls send_body "\<lambda>_ _. True" send_phase "\<lambda>_. 0" Enter
  by unfold_locales (simp_all add: send_descends)

lemma receive_alone:
  "run_alone (send_body (cd, service, name, q, resp)) (Receive i) s =
     Some (case GetResponse cd i resp s of (r, s1) \<Rightarrow> (as_reply r, s1))"
  by (cases "GetResponse cd i resp s"; cases "fst (GetResponse cd i resp s)") (simp_all add: run_alone_simps as_reply_def)

lemma write_frame_alone:
  "run_alone (send_body (cd, service, name, q, resp)) (WriteFrame i b) s =
     Some (case andThen (Session_Write b s) (\<lambda>n s2.
         if n \<noteq> messageLen b then (Error (Err ''request over the wire not equal to messageLen''), s2)
         else GetResponse cd i resp s2) of (r, s1) \<Rightarrow> (as_reply r, s1))"
proof -
  obtain r s1 where w: "Session_Write b s = (r, s1)" by force
  show ?thesis
  proof (cases r)
    case (Ok n)
    show ?thesis
    proof (cases "n = messageLen b")
      case True
      then have "run_alone (send_body (cd, service, name, q, resp)) (WriteFrame i b) s =
        run_alone (send_body (cd, service, name, q, resp)) (Receive i) s1" by (intro run_alone_simps) (simp add: w Ok)
      then show ?thesis using True by (simp add: w Ok receive_alone)
    qed (simp add: w Ok run_alone_simps as_reply_def)
  qed (simp_all add: w run_alone_simps as_reply_def)
qed

lemma write_length_alone:
  "run_alone (send_body (cd, service, name, q, resp)) (WriteLength i b) s =
     Some (case andThen (Session_Write (be32 (messageLen b)) s) (\<lambda>n s1.
         if n \<noteq> 4 then (Error (Err ''packet len not 4 bytes''), s1)
         else andThen (Session_Write b s1) (\<lambda>n s2.
           if n \<noteq> messageLen b then (Error (Err ''request over the wire not equal to messageLen''), s2)
           else GetResponse cd i resp s2)) of (r, s1) \<Rightarrow> (as_reply r, s1))"
proof -
  obtain r s1 where w: "Session_Write (be32 (messageLen b)) s = (r, s1)" by force
  show ?thesis
  proof (cases r)
    case (Ok n)
    show ?thesis
    proof (cases "n = 4")
      case True
      then have "run_alone (send_body (cd, service, name, q, resp)) (WriteLength i b) s =
        run_alone (send_body (cd, service, name, q, resp)) (WriteFrame i b) s1" by (intro run_alone_simps) (simp add: w Ok)
      then show ?thesis using True by (simp add: w Ok write_frame_alone)
    qed (simp add: w Ok run_alone_simps as_reply_def)
  qed (simp_all add: w run_alone_simps as_reply_def)
qed

lemma SendMessage_messageLen:
  "SendMessage cd service name request response s =
     (let (callID, s0) = GenerateCallID s;
          pb = \<lparr>CallId = callID, ServiceName = service, MethodName = name, TimeoutMillis = 3000\<rparr>
      in andThen (request_frame cd pb request, s0) (\<lambda>b s0.
         andThen (Session_Write (be32 (messageLen b)) s0) (\<lambda>n s1.
           if n \<noteq> 4 then (Error (Err ''packet len not 4 bytes''), s1)
           else andThen (Session_Write b s1) (\<lambda>n s2.
             if n \<noteq> messageLen b then (Error (Err ''request over the wire not equal to messageLen''), s2)
             else GetResponse cd callID response s2))))"
  by (simp only: SendMessage_def messageLen_def Let_def)

lemma send_alone: "run_alone (send_body call) Enter s = Some (case call_on call s of (r, s1) \<Rightarrow> (as_reply r, s1))"
proof -
  obtain cd service name q resp where c: "call = (cd, service, name, q, resp)" by (cases call)
  obtain i s0 where g: "GenerateCallID s = (i, s0)" by force
  let ?pb = "\<lparr>CallId = i, ServiceName = service, MethodName = name, TimeoutMillis = 3000\<rparr>"
  show ?thesis
  proof (cases "request_frame cd ?pb q")
    case (Ok b)
    then have "run_alone (send_body call) Enter s = run_alone (send_body call) (WriteLength i b) s0"
      by (intro run_alone_simps) (simp add: c g)
    then show ?thesis
      using Ok by (simp add: c g write_length_alone call_on_def SendMessage_messageLen)
  qed (simp_all add: c g run_alone_simps as_reply_def call_on_def SendMessage_messageLen)
qed

lemma serve_calls:
  "serve send_body Enter cs is s = Some (case call_in_order cs is s of (l, s1) \<Rightarrow> (map (\<lambda>(i, r). (i, as_reply r)) l, s1))"
  by (induction "is" arbitrary: s) (auto simp: send_alone split: prod.splits)

subsection \<open>Look-ups in the cache of hosts\<close>

datatype 'st lookup_point = Look | Dial | Store "'st HostState"

fun lookup_body ::
  "('u, 'st) env \<Rightarrow> 'u \<Rightarrow> 'st lookup_point \<Rightarrow> ('u, 'st) YBClient \<Rightarrow> ('st lookup_point, 'st HostState res) progress \<times> ('u, 'st) YBClient" where
  "lookup_body env u Look c =
     (case tServersUUIDMap c u of Some h \<Rightarrow> (Finish (Ok h), c) | None \<Rightarrow> (Continue Dial, c))"
| "lookup_body env u Dial c =
     (case dialTserver env u c of
        (Ok h, c1) \<Rightarrow> (Continue (Store h), c1)
      | (Error e, c1) \<Rightarrow> (Finish (Error e), c1)
      | (Panic x, c1) \<Rightarrow> (Fail x, c1))"
| "lookup_body env u (Store h) c = (Finish (Ok h), c\<lparr>tServersUUIDMap := (tServersUUIDMap c)(u \<mapsto> h)\<rparr>)"

fun lookup_phase :: "'st lookup_point \<Rightarrow> nat" where
  "lookup_phase Look = 2"
| "lookup_phase Dial = 1"
| "lookup_phase (Store h) = 0"

lemma lookup_descends: "lookup_body env u p c = (Continue p1, c1) \<Longrightarrow> lookup_phase p1 < lookup_phase p"
  by (cases p) (auto split: prod.splits res.splits option.splits)

interpretation lookups: locked_calls "lookup_body env" "\<lambda>_ _. True" lookup_phase "\<lambda>_. 0" Look for env
  by unfold_locales (simp_all add: lookup_descends)

lemma lookup_alone: "run_alone (lookup_body env u) Look c = Some (case cached_host env u c of (r, c1) \<Rightarrow> (as_reply r, c1))"
proof (cases "tServersUUIDMap c u")
  case None
  then have a: "run_alone (lookup_body env u) Look c = run_alone (lookup_body env u) Dial c"
    by (intro run_alone_simps) simp
  obtain r c1 where d: "dialTserver env u c = (r, c1)" by force
  show ?thesis
  proof (cases r)
    case (Ok h)
    then have "run_alone (lookup_body env u) Dial c = run_alone (lookup_body env u) (Store h) c1"
      by (intro run_alone_simps) (simp add: d)
    then show ?thesis using a Ok by (simp add: run_alone_simps cached_host_def None d as_reply_def)
  qed (simp_all add: a run_alone_simps cached_host_def None d as_reply_def)
qed (simp add: run_alone_simps cached_host_def as_reply_def)

text \<open>A host in the cache stays there; one that was found is in it afterwards.\<close>

lemma cached_host_stays: "tServersUUIDMap c u = Some h \<Longrightarrow> tServersUUIDMap (snd (cached_host env v c)) u = Some h"
proof -
  assume h: "tServersUUIDMap c u = Some h"
  obtain r c1 where d: "dialTserver env v c = (r, c1)" by force
  have "tServersUUIDMap c1 = tServersUUIDMap c"
    using d GetDialer_frame(3) [of env c] by (cases "GetDialer env c"; cases "fst (GetDialer env c)") (auto simp: dialTserver_def)
  then show ?thesis using h by (cases "tServersUUIDMap c v"; cases r) (auto simp: cached_host_def d)
qed

lemma cached_host_found: "cached_host env u c = (Ok h, c1) \<Longrightarrow> tServersUUIDMap c1 u = Some h"
  by (auto simp: cached_host_def andThen_eq_Ok split: option.splits)

lemma serve_lookups_stay:
  "serve (lookup_body env) Look us is c = Some (l, c1) \<Longrightarrow> tServersUUIDMap c u = Some h \<Longrightarrow> tServersUUIDMap c1 u = Some h"
proof (induction "is" arbitrary: c l)
  case Nil
  then show ?case by simp
next
  case (Cons i "is")
  obtain r c2 where r: "cached_host env (us ! i) c = (r, c2)" by force
  then have "tServersUUIDMap c2 u = Some h" using cached_host_stays [OF Cons.prems(2), of env "us ! i"] by simp
  then show ?case using Cons.IH [of c2] Cons.prems(1) by (auto simp: lookup_alone r)
qed

lemma serve_lookups_found:
  "serve (lookup_body env) Look us is c = Some (l, c1) \<Longrightarrow> (i, Ok (Ok h)) \<in> set l \<Longrightarrow> tServersUUIDMap c1 (us ! i) = Some h"
proof (induction "is" arbitrary: c l)
  case Nil
  then show ?case by simp
next
  case (Cons j "is")
  obtain r c2 where r: "cached_host env (us ! j) c = (r, c2)" by force
  then obtain l2 where l: "serve (lookup_body env) Look us is c2 = Some (l2, c1)" "l = (j, as_reply r) # l2"
    using Cons.prems(1) by (auto simp: lookup_alone)
  show ?case
  proof (cases "(i, Ok (Ok h)) \<in> set l2")
    case True
    then show ?thesis using Cons.IH [OF l(1)] by simp
  next
    case False
    then have "i = j" "r = Ok h" using Cons.prems(2) l(2) by (auto simp: as_reply_def split: res.splits)
    then have "tServersUUIDMap c2 (us ! i) = Some h" using cached_host_found [of env "us ! j" c h c2] r by simp
    then show ?thesis by (rule serve_lookups_stay [OF l(1)])
  qed
qed

subsection \<open>Properties\<close>

text \<open>C9: Concurrent calls on one session are as good as calls made one after the other. Whatever the schedule, at most one goroutine
  is between the lock and the unlock; no schedule goes on for ever or stops before every call has returned; and when all
  have, there is an order of the calls, each once, in which \<open>SendMessage\<close> called one after the other leaves the
  session (bytes, call counter) as it is and gives every caller the result it got.\<close>

theorem concurrent_calls_serialize:
  assumes "run (lock_step send_body Enter) n (start_locked cs s0) t"
  shows "(\<forall>i j p q. snd (callers t ! i) = Inside p \<and> snd (callers t ! j) = Inside q \<and> i < length cs \<and> j < length cs \<longrightarrow> i = j)
    \<and> \<not> (\<exists>f. f 0 = t \<and> (\<forall>n. lock_step send_body Enter (f n) (f (Suc n))))
    \<and> (\<not> (\<exists>u. lock_step send_body Enter t u) \<longrightarrow>
        (\<exists>order. mset order = mset [0 ..< length cs] \<and> guarded t = snd (call_in_order cs order s0) \<and>
           (\<forall>(i, r)\<in>set (fst (call_in_order cs order s0)). callers t ! i = (cs ! i, Replied (as_reply r)))))"
proof (intro conjI impI)
  have inv: "lock_inv send_body Enter (\<lambda>_ _. True) cs s0 t" by (rule calls.reachable_inv [OF assms calls.start_lock_inv])
  have ex: "exclusion (\<lambda>_ _. True) t" and len: "length (callers t) = length cs" using inv by (auto simp: lock_inv_def)
  show "\<forall>i j p q. snd (callers t ! i) = Inside p \<and> snd (callers t ! j) = Inside q \<and> i < length cs \<and> j < length cs \<longrightarrow> i = j"
  proof (intro allI impI, elim conjE)
    fix i j p q
    assume "snd (callers t ! i) = Inside p" "snd (callers t ! j) = Inside q" "i < length cs" "j < length cs"
    then have "caller_at t i (fst (callers t ! i)) (Inside p)" "caller_at t j (fst (callers t ! j)) (Inside q)"
      using len by (simp_all add: caller_at_def prod_eq_iff)
    then have "holder t = Some i" "holder t = Some j" using exclusionD(2) [OF ex] by blast+
    then show "i = j" by simp
  qed
  show "\<not> (\<exists>f. f 0 = t \<and> (\<forall>n. lock_step send_body Enter (f n) (f (Suc n))))"
    using calls.no_infinite_run inv by metis
  assume "\<not> (\<exists>u. lock_step send_body Enter t u)"
  then have "all_replied t" by (rule calls.stuck_is_final [OF assms calls.start_lock_inv])
  from calls.all_served [OF inv this] obtain l where m: "mset (served t) = mset [0 ..< length cs]"
    and l: "serve send_body Enter cs (served t) s0 = Some (l, guarded t)" "\<forall>(i, r)\<in>set l. callers t ! i = (cs ! i, Replied r)" by blast
  obtain l2 s2 where c: "call_in_order cs (served t) s0 = (l2, s2)" by force
  have "guarded t = s2" "l = map (\<lambda>(i, r). (i, as_reply r)) l2" using l(1) by (simp_all add: serve_calls c)
  then show "\<exists>order. mset order = mset [0 ..< length cs] \<and> guarded t = snd (call_in_order cs order s0) \<and>
      (\<forall>(i, r)\<in>set (fst (call_in_order cs order s0)). callers t ! i = (cs ! i, Replied (as_reply r)))"
    using m l(2) by (intro exI [of _ "served t"]) (auto simp: c)
qed

lemma concurrent_calls_serialize_witness:
  "\<exists>n t. run (lock_step send_body Enter) n
       (start_locked [(sample_codec, ''S'', ''A'', [1], []), (sample_codec, ''S'', ''B'', [2], [])] (sample_session [])) t \<and>
     (\<exists>order. mset order = {#0, 1#} \<and> guarded t =
        snd (call_in_order [(sample_codec, ''S'', ''A'', [1], []), (sample_codec, ''S'', ''B'', [2], [])] order (sample_session [])))"
proof -
  let ?cs = "[(sample_codec, ''S'', ''A'', [1], []), (sample_codec, ''S'', ''B'', [2], [])]"
  have "\<exists>n t. run (lock_step send_body Enter) n (start_locked ?cs (sample_session [])) t \<and> all_replied t"
    by (rule calls.reaches_final [OF calls.start_lock_inv])
  then obtain n t where t: "run (lock_step send_body Enter) n (start_locked ?cs (sample_session [])) t" "all_replied t" by blast
  have "\<not> (\<exists>u. lock_step send_body Enter t u)"
  proof
    assume "\<exists>u. lock_step send_body Enter t u"
    then obtain u where "lock_step send_body Enter t u" ..
    then show False using t(2) by (induction rule: lock_step.induct) (force simp: all_replied_def caller_at_def in_set_conv_nth)+
  qed
  then show ?thesis using concurrent_calls_serialize [OF t(1)] t(1) by (intro exI [of _ n] exI [of _ t]) auto
qed

definition sample_host_state :: "nat HostState" where
  "sample_host_state = \<lparr>session = sample_session [], Status = 1\<rparr>"


lemma serve_cached:
  "\<forall>i\<in>set is. tServersUUIDMap c (us ! i) = Some h \<Longrightarrow>
   serve (lookup_body env) Look us is c = Some (map (\<lambda>i. (i, Ok (Ok h))) is, c)"
  by (induction "is") (simp_all add: lookup_alone cached_host_def as_reply_def)


end
