(* ===== verification/Swagger.thy ===== *)
theory Swagger
  imports GoStd "HOL-Library.Multiset"
begin

section \<open>The generated Yugaware client: what every operation shares\<close>

text \<open>
  The packages under \<open>yugaware-client/pkg/client/swagger/client\<close> are written by one generator: an operation has a
  parameter struct with its constructors and setters and a \<open>WriteToRequest\<close> (\<open><op>_parameters.go\<close>), a reader of
  its responses (\<open><op>_responses.go\<close>) and a method of the \<open>Client\<close> of its package. The generator writes the same
  Go text for each operation around what is special to it; this theory gives the meaning of that text once, and the
  theories \<open>Api...\<close> hold, for each of the 214 operations, the four parts as the files declare them: \<open><Op>_Params\<close>
  (fields, their Go types, default values), \<open><Op>_WriteToRequest\<close> (the statements, in their order), \<open><Op>_Reader\<close>
  (the cases of the switch, in their order) and \<open><Op>_Operation\<close> (the operation the method submits).

  Packages of \<open>go-openapi\<close> are not part of the repository: \<open>swagger_lib\<close> holds the formatting functions of
  \<open>swag\<close> and \<open>strfmt\<close> and the default timeout, \<open>client_request\<close> the methods of \<open>runtime.ClientRequest\<close>; the
  consumer of a response body and the transport are arguments. A model struct of the API (package \<open>models\<close>) is a
  value of a type parameter.
\<close>

subsection \<open>Values and parameter structs\<close>

datatype go_type =
    StringType | UUIDType | Int32Type | Int64Type | FloatType | BoolType | DateTimeType | AnyType
  | Pointer go_type | Slice go_type | MapOf go_type | Model string

datatype 'm go_value =
    Text string | UUID string | Number "32 word" | Truth bool | Texts "string list" | Object 'm
  | Nil | Address "'m go_value"

text \<open>A value that a field of the given type can hold; the \<open>interface{}\<close> and the slices of the parameter structs hold
  nil, an object or a list of strings.\<close>

fun has_type :: "'m go_value \<Rightarrow> go_type \<Rightarrow> bool" where
  "has_type (Text _) t = (t = StringType)"
| "has_type (UUID _) t = (t = UUIDType)"
| "has_type (Number _) t = (t = Int32Type)"
| "has_type (Truth _) t = (t = BoolType)"
| "has_type (Texts _) t = (t = Slice StringType)"
| "has_type (Object _) t = (case t of Model _ \<Rightarrow> True | AnyType \<Rightarrow> True | _ \<Rightarrow> False)"
| "has_type Nil t = (case t of AnyType \<Rightarrow> True | Pointer _ \<Rightarrow> True | Slice u \<Rightarrow> u = StringType | _ \<Rightarrow> False)"
| "has_type (Address v) t = (case t of Pointer u \<Rightarrow> has_type v u | _ \<Rightarrow> False)"

fun zero_value :: "go_type \<Rightarrow> 'm go_value" where
  "zero_value StringType = Text []"
| "zero_value UUIDType = UUID []"
| "zero_value Int32Type = Number 0"
| "zero_value BoolType = Truth False"
| "zero_value _ = Nil"

record swagger_lib =
  default_timeout :: int
  uuid_string :: "string \<Rightarrow> string"
  format_int32 :: "32 word \<Rightarrow> string"
  format_bool :: "bool \<Rightarrow> string"
  join_multi :: "string list \<Rightarrow> string list"

record 'm param_struct =
  struct_fields :: "(string \<times> go_type) list"
  struct_defaults :: "(string \<times> 'm go_value) list"

record ('c, 'h, 'm) params =
  timeout :: int
  Context :: "'c option"
  HTTPClient :: "'h option"
  fields_of :: "string \<Rightarrow> 'm go_value"

definition zero_fields :: "'m param_struct \<Rightarrow> string \<Rightarrow> 'm go_value" where
  "zero_fields S n = (case map_of (struct_fields S) n of Some t \<Rightarrow> zero_value t | None \<Rightarrow> Nil)"

text \<open>The four constructors of a parameter struct, \<open>New...Params\<close>, \<open>...WithTimeout\<close>, \<open>...WithContext\<close> and
  \<open>...WithHTTPClient\<close>: only the first sets the default timeout, the last two leave it zero.\<close>

definition new_params :: "swagger_lib \<Rightarrow> 'm param_struct \<Rightarrow> ('c, 'h, 'm) params" where
  "new_params lib S = \<lparr>timeout = default_timeout lib, Context = None, HTTPClient = None, fields_of = zero_fields S\<rparr>"

definition new_params_with_timeout :: "int \<Rightarrow> 'm param_struct \<Rightarrow> ('c, 'h, 'm) params" where
  "new_params_with_timeout t S = \<lparr>timeout = t, Context = None, HTTPClient = None, fields_of = zero_fields S\<rparr>"

definition new_params_with_context :: "'c \<Rightarrow> 'm param_struct \<Rightarrow> ('c, 'h, 'm) params" where
  "new_params_with_context c S = \<lparr>timeout = 0, Context = Some c, HTTPClient = None, fields_of = zero_fields S\<rparr>"

definition new_params_with_client :: "'h \<Rightarrow> 'm param_struct \<Rightarrow> ('c, 'h, 'm) params" where
  "new_params_with_client h S = \<lparr>timeout = 0, Context = None, HTTPClient = Some h, fields_of = zero_fields S\<rparr>"

text \<open>A setter writes its field. \<open>SetDefaults\<close> of a struct without default values has an empty body; otherwise it
  replaces the struct by one that holds the defaults, keeping the timeout, the context and the client.\<close>

definition with_timeout :: "int \<Rightarrow> ('c, 'h, 'm) params \<Rightarrow> ('c, 'h, 'm) params" where
  "with_timeout t p = p\<lparr>timeout := t\<rparr>"

definition with_context :: "'c \<Rightarrow> ('c, 'h, 'm) params \<Rightarrow> ('c, 'h, 'm) params" where
  "with_context c p = p\<lparr>Context := Some c\<rparr>"

definition with_client :: "'h \<Rightarrow> ('c, 'h, 'm) params \<Rightarrow> ('c, 'h, 'm) params" where
  "with_client h p = p\<lparr>HTTPClient := Some h\<rparr>"

definition set_field :: "string \<Rightarrow> 'm go_value \<Rightarrow> ('c, 'h, 'm) params \<Rightarrow> ('c, 'h, 'm) params" where
  "set_field n v p = p\<lparr>fields_of := (fields_of p)(n := v)\<rparr>"

definition set_defaults :: "'m param_struct \<Rightarrow> ('c, 'h, 'm) params \<Rightarrow> ('c, 'h, 'm) params" where
  "set_defaults S p =
     (if struct_defaults S = [] then p
      else p\<lparr>fields_of := (\<lambda>n. case map_of (struct_defaults S) n of Some v \<Rightarrow> v | None \<Rightarrow> zero_fields S n)\<rparr>)"

definition well_typed :: "'m param_struct \<Rightarrow> ('c, 'h, 'm) params \<Rightarrow> bool" where
  "well_typed S p = (\<forall>(n, t) \<in> set (struct_fields S). has_type (fields_of p n) t)"

subsection \<open>Writing the parameters to a request\<close>

record ('r, 'm) client_request =
  set_timeout :: "int \<Rightarrow> 'r \<Rightarrow> unit res \<times> 'r"
  set_path_param :: "string \<Rightarrow> string \<Rightarrow> 'r \<Rightarrow> unit res \<times> 'r"
  set_query_param :: "string \<Rightarrow> string list \<Rightarrow> 'r \<Rightarrow> unit res \<times> 'r"
  set_body_param :: "'m go_value \<Rightarrow> 'r \<Rightarrow> unit res \<times> 'r"

text \<open>
  The statements of a \<open>WriteToRequest\<close> after \<open>r.SetTimeout(o.timeout)\<close>, each with the name of the parameter on the
  wire and the field it reads: \<open>PathParam\<close> always sets; \<open>QueryParam\<close> dereferences a pointer and sets unless the
  pointer is nil or the text empty; \<open>QueryParams\<close> sets the joined strings of a non-nil slice; \<open>BodyParam\<close> sets a
  body that is not nil, \<open>BodyValue\<close> a body that cannot be nil.
\<close>

datatype write_stmt =
    PathParam string string
  | QueryParam string string
  | QueryParams string string
  | BodyParam string
  | BodyValue string

fun format_value :: "swagger_lib \<Rightarrow> 'm go_value \<Rightarrow> string" where
  "format_value lib (Text s) = s"
| "format_value lib (UUID s) = uuid_string lib s"
| "format_value lib (Number n) = format_int32 lib n"
| "format_value lib (Truth b) = format_bool lib b"
| "format_value lib _ = []"

fun deref_value :: "'m go_value \<Rightarrow> 'm go_value option" where
  "deref_value (Address v) = Some v"
| "deref_value _ = None"

fun texts_of :: "'m go_value \<Rightarrow> string list option" where
  "texts_of (Texts xs) = Some xs"
| "texts_of _ = None"

fun write_step ::
  "swagger_lib \<Rightarrow> ('r, 'm) client_request \<Rightarrow> ('c, 'h, 'm) params \<Rightarrow> write_stmt \<Rightarrow> 'r \<Rightarrow> unit res \<times> 'r" where
  "write_step lib R o1 (PathParam k n) r = set_path_param R k (format_value lib (fields_of o1 n)) r"
| "write_step lib R o1 (QueryParam k n) r =
     (case deref_value (fields_of o1 n) of
        None \<Rightarrow> (Ok (), r)
      | Some v \<Rightarrow> (let q = format_value lib v in if q \<noteq> [] then set_query_param R k [q] r else (Ok (), r)))"
| "write_step lib R o1 (QueryParams k n) r =
     (case texts_of (fields_of o1 n) of
        None \<Rightarrow> (Ok (), r)
      | Some xs \<Rightarrow> set_query_param R k (join_multi lib xs) r)"
| "write_step lib R o1 (BodyParam n) r =
     (if fields_of o1 n \<noteq> Nil then set_body_param R (fields_of o1 n) r else (Ok (), r))"
| "write_step lib R o1 (BodyValue n) r = set_body_param R (fields_of o1 n) r"

definition write_to_request ::
  "swagger_lib \<Rightarrow> ('r, 'm) client_request \<Rightarrow> write_stmt list \<Rightarrow> ('c, 'h, 'm) params \<Rightarrow> 'r \<Rightarrow> unit res \<times> 'r" where
  "write_to_request lib R steps o1 r =
     andThen (set_timeout R (timeout o1) r) (\<lambda>_ r. for_each (write_step lib R o1) steps r)"

subsection \<open>Reading a response\<close>

text \<open>
  A case of a reader: the status code, the generated response type, the type of its payload, whether the case returns
  the response (\<open>return result, nil\<close>) or hands it back as the error (\<open>return nil, result\<close>), and the text of its
  \<open>Error\<close> method. A reply is a value of a generated response type with its payload. The consumer of the body is told
  what to fill; it leaves a payload even where it reports an error, and \<open>io.EOF\<close> is not one.
\<close>

record response_case =
  status_code :: int
  response_type :: string
  payload_type :: go_type
  is_success :: bool
  error_label :: string

datatype 'v reply = Reply string 'v

text \<open>The \<open>Error\<close> method of a response; \<open>show\<close> is what \<open>%+v\<close> prints of the payload.\<close>

definition response_error :: "('v \<Rightarrow> string) \<Rightarrow> response_case \<Rightarrow> 'v \<Rightarrow> string" where
  "response_error show_value c v = error_label c @ ''  '' @ show_value v"

datatype 'v api_error = RequestError goerror | TypedError "'v reply" | APIError int

fun ReadResponse ::
  "response_case list \<Rightarrow> int \<Rightarrow> (go_type \<Rightarrow> 'v \<times> goerror option) \<Rightarrow> 'v api_error + 'v reply" where
  "ReadResponse [] code consume = Inl (APIError code)"
| "ReadResponse (c # cs) code consume =
     (if code = status_code c then
        (case consume (payload_type c) of (v, e) \<Rightarrow>
           if e \<noteq> None \<and> e \<noteq> Some EOF then Inl (RequestError (the e))
           else if is_success c then Inr (Reply (response_type c) v)
           else Inl (TypedError (Reply (response_type c) v)))
      else ReadResponse cs code consume)"

subsection \<open>The method of the client\<close>

record 'm operation =
  op_id :: string
  op_method :: string
  path_pattern :: string
  produces :: "string list"
  consumes :: "string list"
  schemes :: "string list"
  with_auth :: bool
  param_struct_of :: "'m param_struct"
  writes :: "write_stmt list"
  reader :: "response_case list"
  result_type :: string

text \<open>What a method submits: the fields of \<open>runtime.ClientOperation\<close>. An option of the caller may change them.\<close>

record ('a, 'c, 'h, 'm) submission =
  ID :: string
  Method :: string
  PathPattern :: string
  ProducesMediaTypes :: "string list"
  ConsumesMediaTypes :: "string list"
  Schemes :: "string list"
  Params :: "write_stmt list \<times> ('c, 'h, 'm) params"
  Reader :: "response_case list"
  AuthInfo :: "'a option"
  OpContext :: "'c option"
  OpClient :: "'h option"

datatype 'v call_result = Returned 'v | Failed "'v api_error" | Crashed string

definition operation_of ::
  "'m operation \<Rightarrow> ('c, 'h, 'm) params \<Rightarrow> 'a \<Rightarrow> ('a, 'c, 'h, 'm) submission" where
  "operation_of op p auth =
     \<lparr>ID = op_id op, Method = op_method op, PathPattern = path_pattern op, ProducesMediaTypes = produces op,
      ConsumesMediaTypes = consumes op, Schemes = schemes op, Params = (writes op, p), Reader = reader op,
      AuthInfo = (if with_auth op then Some auth else None), OpContext = Context p, OpClient = HTTPClient p\<rparr>"

type_synonym ('a, 'c, 'h, 'm, 'v, 'w) transport =
  "('a, 'c, 'h, 'm) submission \<Rightarrow> 'w \<Rightarrow> ('v api_error + 'v reply) \<times> 'w"

definition client_call ::
  "swagger_lib \<Rightarrow> ('a, 'c, 'h, 'm, 'v, 'w) transport \<Rightarrow> 'm operation \<Rightarrow> ('c, 'h, 'm) params option \<Rightarrow> 'a \<Rightarrow>
     (('a, 'c, 'h, 'm) submission \<Rightarrow> ('a, 'c, 'h, 'm) submission) list \<Rightarrow> 'w \<Rightarrow> 'v call_result \<times> 'w" where
  "client_call lib submit op params auth opts w =
     (let p = (case params of Some p \<Rightarrow> p | None \<Rightarrow> new_params lib (param_struct_of op));
          sub = fold (\<lambda>opt s. opt s) opts (operation_of op p auth)
      in case submit sub w of
           (Inl e, w') \<Rightarrow> (Failed e, w')
         | (Inr (Reply ty v), w') \<Rightarrow>
             (if ty = result_type op then (Returned v, w')
              else (Crashed (''unexpected success response for '' @ op_id op @
                '': API contract not enforced by server. Client expected to get an error, but got: *'' @ ty), w')))"

subsection \<open>What a request is told\<close>

text \<open>
  The calls that \<open>WriteToRequest\<close> makes, and the request that records them. Every request object is driven by the
  recorded calls (\<open>written_is_recorded\<close>), so what is shown of the record holds of what is sent.
\<close>

datatype 'm request_call = SetTimeout int | SetPath string string | SetQuery string "string list" | SetBody "'m go_value"

fun perform :: "('r, 'm) client_request \<Rightarrow> 'm request_call \<Rightarrow> 'r \<Rightarrow> unit res \<times> 'r" where
  "perform R (SetTimeout t) r = set_timeout R t r"
| "perform R (SetPath k v) r = set_path_param R k v r"
| "perform R (SetQuery k vs) r = set_query_param R k vs r"
| "perform R (SetBody v) r = set_body_param R v r"

definition recorder :: "('m request_call list, 'm) client_request" where
  "recorder =
     \<lparr>set_timeout = (\<lambda>t r. (Ok (), r @ [SetTimeout t])), set_path_param = (\<lambda>k v r. (Ok (), r @ [SetPath k v])),
      set_query_param = (\<lambda>k vs r. (Ok (), r @ [SetQuery k vs])), set_body_param = (\<lambda>v r. (Ok (), r @ [SetBody v]))\<rparr>"

definition recorded :: "swagger_lib \<Rightarrow> write_stmt list \<Rightarrow> ('c, 'h, 'm) params \<Rightarrow> 'm request_call list" where
  "recorded lib ws p = snd (write_to_request lib recorder ws p [])"

fun calls_of :: "swagger_lib \<Rightarrow> ('c, 'h, 'm) params \<Rightarrow> write_stmt \<Rightarrow> 'm request_call list" where
  "calls_of lib p (PathParam k n) = [SetPath k (format_value lib (fields_of p n))]"
| "calls_of lib p (QueryParam k n) =
     (case deref_value (fields_of p n) of
        None \<Rightarrow> []
      | Some v \<Rightarrow> (if format_value lib v = [] then [] else [SetQuery k [format_value lib v]]))"
| "calls_of lib p (QueryParams k n) =
     (case texts_of (fields_of p n) of None \<Rightarrow> [] | Some xs \<Rightarrow> [SetQuery k (join_multi lib xs)])"
| "calls_of lib p (BodyParam n) = (if fields_of p n = Nil then [] else [SetBody (fields_of p n)])"
| "calls_of lib p (BodyValue n) = [SetBody (fields_of p n)]"

lemma andThen_unit: "andThen r (\<lambda>_ s. (Ok (), s)) = r"
  by (cases r; cases "fst r") auto

lemma for_each_nil: "for_each f [] = (\<lambda>s. (Ok (), s))"
  by (rule ext) simp

lemma write_step_calls: "write_step lib R p s r = for_each (perform R) (calls_of lib p s) r"
  by (cases s) (simp_all add: andThen_unit for_each_nil Let_def split: option.split)

lemma write_steps_calls:
  "for_each (write_step lib R p) ws = for_each (perform R) (concat (map (calls_of lib p) ws))"
  by (induction ws; rule ext) (simp_all add: write_step_calls for_each_append)

lemma perform_recorder: "perform recorder c r = (Ok (), r @ [c])"
  by (cases c) (simp_all add: recorder_def)

lemma for_each_recorder: "for_each (perform recorder) cs r = (Ok (), r @ cs)"
  by (induction cs arbitrary: r) (simp_all add: perform_recorder)

lemma recorded_eq: "recorded lib ws p = SetTimeout (timeout p) # concat (map (calls_of lib p) ws)"
  by (simp add: recorded_def write_to_request_def write_steps_calls for_each_recorder) (simp add: recorder_def)

lemma written_is_recorded: "write_to_request lib R ws p r = for_each (perform R) (recorded lib ws p) r"
  by (simp add: recorded_eq write_to_request_def write_steps_calls)

subsection \<open>Well-formed operations\<close>

text \<open>
  A place of the request that a statement fills: a placeholder of the path, a query parameter, the body. An operation
  is well-formed when its statements read every field of the struct once and with its type, fill different places, and
  fill exactly the placeholders of the path; its defaults are values of the fields' types; its reader has one case
  that succeeds, for status 200, and that case is of the type the method expects.
\<close>

datatype place = PathPlace string | QueryPlace string | BodyPlace

fun place_of :: "write_stmt \<Rightarrow> place" where
  "place_of (PathParam k n) = PathPlace k"
| "place_of (QueryParam k n) = QueryPlace k"
| "place_of (QueryParams k n) = QueryPlace k"
| "place_of (BodyParam n) = BodyPlace"
| "place_of (BodyValue n) = BodyPlace"

fun call_place :: "'m request_call \<Rightarrow> place option" where
  "call_place (SetTimeout t) = None"
| "call_place (SetPath k v) = Some (PathPlace k)"
| "call_place (SetQuery k vs) = Some (QueryPlace k)"
| "call_place (SetBody v) = Some BodyPlace"

fun field_read :: "write_stmt \<Rightarrow> string" where
  "field_read (PathParam k n) = n"
| "field_read (QueryParam k n) = n"
| "field_read (QueryParams k n) = n"
| "field_read (BodyParam n) = n"
| "field_read (BodyValue n) = n"

definition scalar :: "go_type \<Rightarrow> bool" where
  "scalar t = (t \<in> {StringType, UUIDType, Int32Type, BoolType})"

fun fits :: "write_stmt \<Rightarrow> go_type \<Rightarrow> bool" where
  "fits (PathParam k n) t = scalar t"
| "fits (QueryParam k n) t = (case t of Pointer u \<Rightarrow> scalar u | _ \<Rightarrow> False)"
| "fits (QueryParams k n) t = (t = Slice StringType)"
| "fits (BodyParam n) t = (case t of Pointer _ \<Rightarrow> True | AnyType \<Rightarrow> True | _ \<Rightarrow> False)"
| "fits (BodyValue n) t = scalar t"

fun path_key :: "write_stmt \<Rightarrow> string option" where
  "path_key (PathParam k n) = Some k"
| "path_key _ = None"

definition placeholders :: "string \<Rightarrow> string list" where
  "placeholders pat = map (takeWhile (\<lambda>c. c \<noteq> CHR ''}'')) (tl (split_on CHR ''{'' pat))"

definition fields_ok :: "'m operation \<Rightarrow> bool" where
  "fields_ok op \<longleftrightarrow>
     distinct (map fst (struct_fields (param_struct_of op))) \<and> distinct (map field_read (writes op)) \<and>
     list_all (\<lambda>s. case map_of (struct_fields (param_struct_of op)) (field_read s) of
                     Some t \<Rightarrow> fits s t | None \<Rightarrow> False) (writes op) \<and>
     length (writes op) = length (struct_fields (param_struct_of op)) \<and>
     list_all (\<lambda>(n, v). case map_of (struct_fields (param_struct_of op)) n of
                     Some t \<Rightarrow> has_type v t | None \<Rightarrow> False) (struct_defaults (param_struct_of op))"

definition places_ok :: "'m operation \<Rightarrow> bool" where
  "places_ok op \<longleftrightarrow>
     distinct (map place_of (writes op)) \<and> distinct (placeholders (path_pattern op)) \<and>
     list_all (\<lambda>k. k \<in> set (placeholders (path_pattern op))) (List.map_filter path_key (writes op)) \<and>
     length (List.map_filter path_key (writes op)) = length (placeholders (path_pattern op))"

definition reader_ok :: "'m operation \<Rightarrow> bool" where
  "reader_ok op \<longleftrightarrow>
     distinct (map status_code (reader op)) \<and>
     list_all (\<lambda>c. is_success c = (status_code c = 200)) (reader op) \<and>
     list_all (\<lambda>c. is_success c \<longrightarrow> response_type c = result_type op) (reader op) \<and>
     list_all (\<lambda>c. has_prefix (''['' @ op_method op @ '' '' @ path_pattern op @ '']['' @ dec_of_int (status_code c) @ ''] '')
                 (error_label c)) (reader op) \<and>
     list_ex is_success (reader op)"

definition operation_ok :: "'m operation \<Rightarrow> bool" where
  "operation_ok op \<longleftrightarrow> fields_ok op \<and> places_ok op \<and> reader_ok op"

subsection \<open>The request determines the parameters\<close>

text \<open>Two values of a field that travel alike: equal ones, and the two a query parameter leaves out, the nil pointer
  and the pointer to a value with an empty text.\<close>

definition faithful :: "swagger_lib \<Rightarrow> bool" where
  "faithful lib \<longleftrightarrow> inj (uuid_string lib) \<and> inj (format_int32 lib) \<and> inj (format_bool lib) \<and> inj (join_multi lib)"

fun unsent :: "swagger_lib \<Rightarrow> 'm go_value \<Rightarrow> bool" where
  "unsent lib Nil = True"
| "unsent lib (Address v) = (format_value lib v = [])"
| "unsent lib _ = False"

definition same_param :: "swagger_lib \<Rightarrow> 'm go_value \<Rightarrow> 'm go_value \<Rightarrow> bool" where
  "same_param lib v u \<longleftrightarrow> v = u \<or> (unsent lib v \<and> unsent lib u)"

lemma format_value_inj:
  assumes "faithful lib" "scalar t" "has_type v t" "has_type u t" "format_value lib v = format_value lib u"
  shows "v = u"
proof -
  have inj: "\<And>a b. uuid_string lib a = uuid_string lib b \<longleftrightarrow> a = b" "\<And>a b. format_int32 lib a = format_int32 lib b \<longleftrightarrow> a = b"
    "\<And>a b. format_bool lib a = format_bool lib b \<longleftrightarrow> a = b" "\<And>a b. join_multi lib a = join_multi lib b \<longleftrightarrow> a = b"
    using assms(1) by (auto simp: faithful_def inj_eq)
  show ?thesis using assms(2-5) by (cases v; cases u; cases t) (simp_all add: scalar_def inj)
qed

lemma pointer_cases:
  assumes "has_type v (Pointer t)"
  obtains "v = Nil" | u where "v = Address u" "has_type u t"
  using assms by (cases v) auto

lemma slice_cases:
  assumes "has_type v (Slice StringType)"
  obtains "v = Nil" | xs where "v = Texts xs"
  using assms by (cases v) auto

lemma calls_determine:
  assumes lib: "faithful lib" and fit: "fits s t"
    and p: "has_type (fields_of p (field_read s)) t" and q: "has_type (fields_of q (field_read s)) t"
    and same: "calls_of lib p s = calls_of lib q s"
  shows "same_param lib (fields_of p (field_read s)) (fields_of q (field_read s))"
proof (cases s)
  case (PathParam k n)
  then show ?thesis using assms format_value_inj [OF lib, of t] by (auto simp: same_param_def)
next
  case (QueryParam k n)
  then obtain u where t: "t = Pointer u" "scalar u" using fit by (cases t) auto
  show ?thesis
    using p q same QueryParam t
    by (auto simp: same_param_def elim!: pointer_cases split: if_splits intro: format_value_inj [OF lib t(2)])
next
  case (QueryParams k n)
  then have t: "t = Slice StringType" using fit by simp
  show ?thesis
    using p q same QueryParams lib t by (auto simp: same_param_def faithful_def inj_def elim!: slice_cases)
next
  case (BodyParam n)
  then show ?thesis using same by (auto simp: same_param_def split: if_splits)
next
  case (BodyValue n)
  then show ?thesis using same by (auto simp: same_param_def)
qed

lemma calls_place: "c \<in> set (calls_of lib p s) \<Longrightarrow> call_place c = Some (place_of s)"
  by (cases s) (auto split: option.splits if_splits)

lemma calls_elsewhere:
  "k \<notin> place_of ` set ws \<Longrightarrow> filter (\<lambda>c. call_place c = Some k) (concat (map (calls_of lib p) ws)) = []"
  using calls_place by (fastforce simp: filter_empty_conv)

lemma calls_at:
  assumes "distinct (map place_of ws)" "s \<in> set ws"
  shows "filter (\<lambda>c. call_place c = Some (place_of s)) (concat (map (calls_of lib p) ws)) = calls_of lib p s"
  using assms
proof (induction ws)
  case (Cons a ws)
  have own: "filter (\<lambda>c. call_place c = Some (place_of s)) (calls_of lib p s) = calls_of lib p s"
    using calls_place by (intro filter_True) fastforce
  have other: "filter (\<lambda>c. call_place c = Some (place_of s)) (calls_of lib p a) = []" if "place_of a \<noteq> place_of s"
    using calls_place that by (fastforce simp: filter_empty_conv)
  show ?case
  proof (cases "s = a")
    case True
    then show ?thesis using Cons.prems own calls_elsewhere [of "place_of s" ws lib p] by simp
  next
    case False
    then show ?thesis using Cons other by (metis (mono_tags, lifting) append_Nil concat.simps(2) distinct.simps(2)
        filter_append image_eqI list.set_map list.simps(9) set_ConsD)
  qed
qed simp

lemma recorded_at:
  assumes "distinct (map place_of ws)" "s \<in> set ws"
  shows "filter (\<lambda>c. call_place c = Some (place_of s)) (recorded lib ws p) = calls_of lib p s"
  using calls_at [OF assms] by (simp add: recorded_eq)

text \<open>A field of a well-formed operation is read by a statement that fits its type.\<close>

lemma fields_ok_stmt:
  assumes "fields_ok op" "(n, t) \<in> set (struct_fields (param_struct_of op))"
  obtains s where "s \<in> set (writes op)" "field_read s = n" "fits s t"
proof -
  let ?fs = "struct_fields (param_struct_of op)"
  have dist: "distinct (map fst ?fs)" "distinct (map field_read (writes op))" "length (writes op) = length ?fs"
    and fit: "s \<in> set (writes op) \<Longrightarrow> \<exists>t. map_of ?fs (field_read s) = Some t \<and> fits s t" for s
    using assms(1) unfolding fields_ok_def list_all_iff by (blast, blast, blast, metis (no_types, lifting) option.case_eq_if option.collapse)
  have "field_read ` set (writes op) \<subseteq> fst ` set ?fs"
    using fit by (force dest: map_of_SomeD)
  moreover have "card (field_read ` set (writes op)) = card (fst ` set ?fs)"
    using dist by (metis distinct_card length_map set_map)
  ultimately have "field_read ` set (writes op) = fst ` set ?fs"
    by (simp add: card_subset_eq)
  then obtain s where s: "s \<in> set (writes op)" "field_read s = n"
    using assms(2) by (metis fst_conv image_iff)
  then show thesis using that fit [OF s(1)] dist(1) assms(2) by (metis map_of_is_SomeI option.inject)
qed

lemma recorded_determines:
  assumes "faithful lib" "operation_ok op" "well_typed (param_struct_of op) p" "well_typed (param_struct_of op) q"
    and same: "recorded lib (writes op) p = recorded lib (writes op) q"
    and field: "(n, t) \<in> set (struct_fields (param_struct_of op))"
  shows "timeout p = timeout q \<and> same_param lib (fields_of p n) (fields_of q n)"
proof -
  obtain s where s: "s \<in> set (writes op)" "field_read s = n" "fits s t"
    using fields_ok_stmt field assms(2) by (metis operation_ok_def)
  have "distinct (map place_of (writes op))" using assms(2) by (simp add: operation_ok_def places_ok_def)
  then have "calls_of lib p s = calls_of lib q s"
    using recorded_at [of "writes op" s lib] s(1) same by metis
  moreover have "has_type (fields_of p n) t" "has_type (fields_of q n) t"
    using assms(3,4) field by (auto simp: well_typed_def)
  ultimately show ?thesis
    using calls_determine [OF assms(1) s(3)] s(2) same by (simp add: recorded_eq)
qed

subsection \<open>The path of the request\<close>

fun path_name :: "'m request_call \<Rightarrow> string option" where
  "path_name (SetPath k v) = Some k"
| "path_name _ = None"

lemma map_filter_concat: "List.map_filter f (concat xss) = concat (map (List.map_filter f) xss)"
  by (induction xss) (simp_all add: map_filter_def)

lemma calls_path_names: "List.map_filter path_name (calls_of lib p s) = List.map_filter path_key [s]"
  by (cases s) (auto simp: map_filter_def split: option.split)

lemma recorded_path_names: "List.map_filter path_name (recorded lib ws p) = List.map_filter path_key ws"
proof -
  have "concat (map (List.map_filter path_name \<circ> calls_of lib p) ws) = List.map_filter path_key ws"
    by (induction ws) (simp_all add: calls_path_names map_filter_simps split: option.split)
  then show ?thesis by (simp add: recorded_eq map_filter_concat map_filter_simps)
qed

lemma distinct_path_keys: "distinct (map place_of ws) \<Longrightarrow> distinct (List.map_filter path_key ws)"
proof (induction ws)
  case (Cons s ws)
  have "k \<in> set (List.map_filter path_key ws) \<Longrightarrow> PathPlace k \<in> place_of ` set ws" for k
    by (auto simp: map_filter_def image_iff elim!: path_key.elims) force
  then show ?case using Cons by (cases s) (auto simp: map_filter_def)
qed (simp add: map_filter_def)

lemma recorded_placeholders:
  assumes "operation_ok op"
  shows "mset (List.map_filter path_name (recorded lib (writes op) p)) = mset (placeholders (path_pattern op))"
proof -
  have ok: "distinct (map place_of (writes op))" "distinct (placeholders (path_pattern op))"
    "set (List.map_filter path_key (writes op)) \<subseteq> set (placeholders (path_pattern op))"
    "length (List.map_filter path_key (writes op)) = length (placeholders (path_pattern op))"
    using assms by (auto simp: operation_ok_def places_ok_def list_all_iff)
  then have "set (List.map_filter path_key (writes op)) = set (placeholders (path_pattern op))"
    by (metis card_subset_eq distinct_card distinct_path_keys finite_set)
  then show ?thesis
    using ok distinct_path_keys set_eq_iff_mset_eq_distinct by (metis recorded_path_names)
qed

subsection \<open>The outcome of a call\<close>

text \<open>
  What the documentation of \<open>runtime.ClientTransport\<close> promises: a submission is sent, and unless that fails the reader
  of the submission reads the response, of which the transport knows the status code and how to consume the body.
\<close>

fun received ::
  "response_case list \<Rightarrow> (goerror + int \<times> (go_type \<Rightarrow> 'v \<times> goerror option)) \<times> 'w \<Rightarrow> ('v api_error + 'v reply) \<times> 'w" where
  "received cs (Inl e, w) = (Inl (RequestError e), w)"
| "received cs (Inr (code, consume), w) = (ReadResponse cs code consume, w)"

definition delivers ::
  "(('a, 'c, 'h, 'm) submission \<Rightarrow> 'w \<Rightarrow> (goerror + int \<times> (go_type \<Rightarrow> 'v \<times> goerror option)) \<times> 'w) \<Rightarrow>
     ('a, 'c, 'h, 'm, 'v, 'w) transport \<Rightarrow> bool" where
  "delivers send submit \<longleftrightarrow> (\<forall>sub w. submit sub w = received (Reader sub) (send sub w))"

lemma read_success:
  assumes "reader_ok op" "c \<in> set (reader op)" "status_code c = 200"
  shows "ReadResponse (reader op) 200 consume =
    (case consume (payload_type c) of (v, e) \<Rightarrow>
       if e \<noteq> None \<and> e \<noteq> Some EOF then Inl (RequestError (the e)) else Inr (Reply (result_type op) v))"
proof -
  have "ReadResponse cs 200 consume =
    (case consume (payload_type c) of (v, e) \<Rightarrow>
       if e \<noteq> None \<and> e \<noteq> Some EOF then Inl (RequestError (the e)) else Inr (Reply (result_type op) v))"
    if "set cs \<subseteq> set (reader op)" "distinct (map status_code cs)" "c \<in> set cs" for cs
    using that
  proof (induction cs)
    case (Cons a cs)
    show ?case
    proof (cases "status_code a = 200")
      case True
      then have a: "a = c" using Cons.prems assms(3) by (auto simp: image_iff)
      have "is_success c" "response_type c = result_type op" using assms by (simp_all add: reader_ok_def list_all_iff)
      then show ?thesis using assms(3) by (simp add: a split: prod.split)
    next
      case False
      then show ?thesis using Cons assms(3) by auto
    qed
  qed simp
  then show ?thesis using assms by (auto simp: reader_ok_def)
qed

lemma read_failure:
  assumes "reader_ok op" "code \<noteq> 200"
  shows "\<exists>e. ReadResponse (reader op) code consume = Inl e"
proof -
  have "\<exists>e. ReadResponse cs code consume = Inl e" if "set cs \<subseteq> set (reader op)" for cs
    using that assms by (induction cs) (auto simp: reader_ok_def list_all_iff split: prod.splits)
  then show ?thesis by blast
qed

lemma reader_ok_case:
  assumes "reader_ok op"
  shows "\<exists>c \<in> set (reader op). status_code c = 200 \<and> (\<forall>d \<in> set (reader op). status_code d = 200 \<longrightarrow> d = c)"
proof -
  have "\<exists>c \<in> set (reader op). is_success c" "\<forall>c \<in> set (reader op). is_success c = (status_code c = 200)"
    using assms unfolding reader_ok_def list_all_iff list_ex_iff by blast+
  moreover have "inj_on status_code (set (reader op))" using assms by (simp add: reader_ok_def distinct_map)
  ultimately show ?thesis by (metis inj_onD)
qed

lemma fold_keeps_reader:
  "(\<forall>f \<in> set opts. \<forall>s. Reader (f s) = Reader s) \<Longrightarrow> Reader (fold (\<lambda>f s. f s) opts sub) = Reader sub"
  by (induction opts arbitrary: sub) auto

lemma call_outcome:
  assumes sent: "delivers send submit" and ok: "operation_ok op"
    and opts: "\<forall>f \<in> set opts. \<forall>s. Reader (f s) = Reader s"
    and sub: "sub = fold (\<lambda>f s. f s) opts (operation_of op (case ps of Some p \<Rightarrow> p | None \<Rightarrow> new_params lib (param_struct_of op)) auth)"
  shows "(\<forall>msg. fst (client_call lib submit op ps auth opts w) \<noteq> Crashed msg) \<and>
    (fst (client_call lib submit op ps auth opts w) = Returned v \<longleftrightarrow>
       (\<exists>c consume w'. send sub w = (Inr (200, consume), w') \<and> c \<in> set (reader op) \<and> status_code c = 200 \<and>
          fst (consume (payload_type c)) = v \<and> snd (consume (payload_type c)) \<in> {None, Some EOF}))"
proof -
  have r: "reader_ok op" using ok by (simp add: operation_ok_def)
  obtain c where c: "c \<in> set (reader op)" "status_code c = 200"
    "\<And>d. d \<in> set (reader op) \<Longrightarrow> status_code d = 200 \<Longrightarrow> d = c" using reader_ok_case [OF r] by blast
  have "Reader sub = reader op"
    unfolding sub by (simp add: fold_keeps_reader [OF opts] operation_of_def)
  then have submit: "submit sub w = received (reader op) (send sub w)"
    using sent by (simp add: delivers_def)
  define answer where "answer = fst (submit sub w)"
  have call: "fst (client_call lib submit op ps auth opts w) =
      (case answer of
         Inl e \<Rightarrow> Failed e
       | Inr (Reply ty u) \<Rightarrow>
           (if ty = result_type op then Returned u
            else Crashed (''unexpected success response for '' @ op_id op @
              '': API contract not enforced by server. Client expected to get an error, but got: *'' @ ty)))"
    unfolding client_call_def Let_def sub answer_def
    by (simp split: prod.split sum.split reply.split)
  obtain a w1 where send: "send sub w = (a, w1)" by fastforce
  consider (lost) e where "a = Inl e"
    | (good) consume where "a = Inr (200, consume)"
    | (bad) code consume where "a = Inr (code, consume)" "code \<noteq> 200" by (metis sum.exhaust surj_pair)
  then show ?thesis
  proof cases
    case lost
    then have "answer = Inl (RequestError e)" by (simp add: answer_def submit send)
    then show ?thesis using lost by (simp add: call send)
  next
    case good
    obtain u e where u: "consume (payload_type c) = (u, e)" by fastforce
    have "answer = (if e \<noteq> None \<and> e \<noteq> Some EOF then Inl (RequestError (the e)) else Inr (Reply (result_type op) u))"
      using good by (simp add: answer_def submit send read_success [OF r c(1,2)] u)
    then have "fst (client_call lib submit op ps auth opts w) =
        (if e \<noteq> None \<and> e \<noteq> Some EOF then Failed (RequestError (the e)) else Returned u)"
      by (simp add: call)
    moreover have "(\<exists>c' consume' w'. send sub w = (Inr (200, consume'), w') \<and> c' \<in> set (reader op) \<and> status_code c' = 200 \<and>
          fst (consume' (payload_type c')) = v \<and> snd (consume' (payload_type c')) \<in> {None, Some EOF}) \<longleftrightarrow>
        u = v \<and> e \<in> {None, Some EOF}"
      unfolding send good using c u by (metis fst_conv snd_conv prod.inject sum.inject(2))
    ultimately show ?thesis by auto
  next
    case bad
    obtain e where "answer = Inl e"
      using read_failure [OF r bad(2), of consume] bad(1) by (auto simp: answer_def submit send)
    then show ?thesis using bad by (simp add: call send)
  qed
qed

end
