(* ===== verification/ApiAccounts.thy ===== *)
theory ApiAccounts
  imports Swagger
begin

section \<open>The generated client: accounts, sessions and settings\<close>

text \<open>
  The operations of the packages \<open>customer_management\<close>, \<open>customer_configuration\<close>, \<open>customer_tasks\<close>, \<open>session_management\<close>,
  \<open>user_management\<close>, \<open>audit\<close>, \<open>logging_config\<close>, \<open>grafana_dashboard\<close>,
  \<open>metrics\<close>, \<open>runtime_configuration\<close> of
  \<open>yugaware-client/pkg/client/swagger/client\<close>, as theory \<open>Swagger\<close> reads them; a list \<open>..._operations\<close>
  is the \<open>ClientService\<close> interface of a package.
\<close>

subsection \<open>customer_management\<close>

definition CustomerDetail_Params :: "'m param_struct" where
  "CustomerDetail_Params =
     \<lparr>struct_fields = [(''CUUID'', UUIDType)],
      struct_defaults = []\<rparr>"

definition CustomerDetail_WriteToRequest :: "write_stmt list" where
  "CustomerDetail_WriteToRequest =
     [PathParam ''cUUID'' ''CUUID'']"

definition CustomerDetail_Reader :: "response_case list" where
  "CustomerDetail_Reader =
     [\<lparr>status_code = 200, response_type = ''customer_management.CustomerDetailOK'',
       payload_type = Pointer (Model ''CustomerDetailsData''), is_success = True,
       error_label = ''[GET /api/v1/customers/{cUUID}][200] customerDetailOK''\<rparr>]"

definition CustomerDetail_Operation :: "'m operation" where
  "CustomerDetail_Operation =
     \<lparr>op_id = ''CustomerDetail'', op_method = ''GET'',
      path_pattern = ''/api/v1/customers/{cUUID}'',
      produces = [''application/json''], consumes = [''application/json''], schemes = [''http'', ''https''],
      with_auth = True, param_struct_of = CustomerDetail_Params,
      writes = CustomerDetail_WriteToRequest, reader = CustomerDetail_Reader,
      result_type = ''customer_management.CustomerDetailOK''\<rparr>"

definition ListOfCustomers_Params :: "'m param_struct" where
  "ListOfCustomers_Params =
     \<lparr>struct_fields = [],
      struct_defaults = []\<rparr>"

definition ListOfCustomers_WriteToRequest :: "write_stmt list" where
  "ListOfCustomers_WriteToRequest =
     []"

definition ListOfCustomers_Reader :: "response_case list" where
  "ListOfCustomers_Reader =
     [\<lparr>status_code = 200, response_type = ''customer_management.ListOfCustomersOK'',
       payload_type = Slice (Pointer (Model ''Customer'')), is_success = True,
       error_label = ''[GET /api/v1/customers][200] listOfCustomersOK''\<rparr>]"

definition ListOfCustomers_Operation :: "'m operation" where
  "ListOfCustomers_Operation =
     \<lparr>op_id = ''ListOfCustomers'', op_method = ''GET'',
      path_pattern = ''/api/v1/customers'',
      produces = [''application/json''], consumes = [''application/json''], schemes = [''http'', ''https''],
      with_auth = True, param_struct_of = ListOfCustomers_Params,
      writes = ListOfCustomers_WriteToRequest, reader = ListOfCustomers_Reader,
      result_type = ''customer_management.ListOfCustomersOK''\<rparr>"

definition UpdateCustomer_Params :: "'m param_struct" where
  "UpdateCustomer_Params =
     \<lparr>struct_fields = [(''Customer'', Pointer (Model ''CustomerAlertData'')), (''CUUID'', UUIDType)],
      struct_defaults = []\<rparr>"

definition UpdateCustomer_WriteToRequest :: "write_stmt list" where
  "UpdateCustomer_WriteToRequest =
     [BodyParam ''Customer'', PathParam ''cUUID'' ''CUUID'']"

definition UpdateCustomer_Reader :: "response_case list" where
  "UpdateCustomer_Reader =
     [\<lparr>status_code = 200, response_type = ''customer_management.UpdateCustomerOK'',
       payload_type = Pointer (Model ''Customer''), is_success = True,
       error_label = ''[PUT /api/v1/customers/{cUUID}][200] updateCustomerOK''\<rparr>]"

definition UpdateCustomer_Operation :: "'m operation" where
  "UpdateCustomer_Operation =
     \<lparr>op_id = ''UpdateCustomer'', op_method = ''PUT'',
      path_pattern = ''/api/v1/customers/{cUUID}'',
      produces = [''application/json''], consumes = [''application/json''], schemes = [''http'', ''https''],
      with_auth = True, param_struct_of = UpdateCustomer_Params,
      writes = UpdateCustomer_WriteToRequest, reader = UpdateCustomer_Reader,
      result_type = ''customer_management.UpdateCustomerOK''\<rparr>"

definition DeleteCustomer_Params :: "'m param_struct" where
  "DeleteCustomer_Params =
     \<lparr>struct_fields = [(''CUUID'', UUIDType)],
      struct_defaults = []\<rparr>"

definition DeleteCustomer_WriteToRequest :: "write_stmt list" where
  "DeleteCustomer_WriteToRequest =
     [PathParam ''cUUID'' ''CUUID'']"

definition DeleteCustomer_Reader :: "response_case list" where
  "DeleteCustomer_Reader =
     [\<lparr>status_code = 200, response_type = ''customer_management.DeleteCustomerOK'',
       payload_type = Pointer (Model ''YBPSuccess''), is_success = True,
       error_label = ''[DELETE /api/v1/customers/{cUUID}][200] deleteCustomerOK''\<rparr>]"

definition DeleteCustomer_Operation :: "'m operation" where
  "DeleteCustomer_Operation =
     \<lparr>op_id = ''deleteCustomer'', op_method = ''DELETE'',
      path_pattern = ''/api/v1/customers/{cUUID}'',
      produces = [''application/json''], consumes = [''application/json''], schemes = [''http'', ''https''],
      with_auth = True, param_struct_of = DeleteCustomer_Params,
      writes = DeleteCustomer_WriteToRequest, reader = DeleteCustomer_Reader,
      result_type = ''customer_management.DeleteCustomerOK''\<rparr>"

definition GetHostInfo_Params :: "'m param_struct" where
  "GetHostInfo_Params =
     \<lparr>struct_fields = [(''CUUID'', UUIDType)],
      struct_defaults = []\<rparr>"

definition GetHostInfo_WriteToRequest :: "write_stmt list" where
  "GetHostInfo_WriteToRequest =
     [PathParam ''cUUID'' ''CUUID'']"

definition GetHostInfo_Reader :: "response_case list" where
  "GetHostInfo_Reader =
     [\<lparr>status_code = 200, response_type = ''customer_management.GetHostInfoOK'',
       payload_type = MapOf AnyType, is_success = True,
       error_label = ''[GET /api/v1/customers/{cUUID}/host_info][200] getHostInfoOK''\<rparr>]"

definition GetHostInfo_Operation :: "'m operation" where
  "GetHostInfo_Operation =
     \<lparr>op_id = ''getHostInfo'', op_method = ''GET'',
      path_pattern = ''/api/v1/customers/{cUUID}/host_info'',
      produces = [''application/json''], consumes = [''application/json''], schemes = [''http'', ''https''],
      with_auth = True, param_struct_of = GetHostInfo_Params,
      writes = GetHostInfo_WriteToRequest, reader = GetHostInfo_Reader,
      result_type = ''customer_management.GetHostInfoOK''\<rparr>"

definition Metrics_Params :: "'m param_struct" where
  "Metrics_Params =
     \<lparr>struct_fields = [(''Metrics'', Pointer (Model ''MetricQueryParams'')), (''CUUID'', UUIDType)],
      struct_defaults = []\<rparr>"

definition Metrics_WriteToRequest :: "write_stmt list" where
  "Metrics_WriteToRequest =
     [BodyParam ''Metrics'', PathParam ''cUUID'' ''CUUID'']"

definition Metrics_Reader :: "response_case list" where
  "Metrics_Reader =
     [\<lparr>status_code = 200, response_type = ''customer_management.MetricsOK'',
       payload_type = MapOf AnyType, is_success = True,
       error_label = ''[POST /api/v1/customers/{cUUID}/metrics][200] metricsOK''\<rparr>,
      \<lparr>status_code = 400, response_type = ''customer_management.MetricsBadRequest'',
       payload_type = Pointer (Model ''YBPError''), is_success = False,
       error_label = ''[POST /api/v1/customers/{cUUID}/metrics][400] metricsBadRequest''\<rparr>]"

definition Metrics_Operation :: "'m operation" where
  "Metrics_Operation =
     \<lparr>op_id = ''metrics'', op_method = ''POST'',
      path_pattern = ''/api/v1/customers/{cUUID}/metrics'',
      produces = [''application/json''], consumes = [''application/json''], schemes = [''http'', ''https''],
      with_auth = True, param_struct_of = Metrics_Params,
      writes = Metrics_WriteToRequest, reader = Metrics_Reader,
      result_type = ''customer_management.MetricsOK''\<rparr>"

definition customer_management_operations :: "'m operation list" where
  "customer_management_operations =
     [CustomerDetail_Operation, ListOfCustomers_Operation, UpdateCustomer_Operation, DeleteCustomer_Operation,
      GetHostInfo_Operation, Metrics_Operation]"

lemmas customer_management_defs =
  CustomerDetail_Operation_def CustomerDetail_Params_def CustomerDetail_WriteToRequest_def CustomerDetail_Reader_def
  ListOfCustomers_Operation_def ListOfCustomers_Params_def ListOfCustomers_WriteToRequest_def ListOfCustomers_Reader_def
  UpdateCustomer_Operation_def UpdateCustomer_Params_def UpdateCustomer_WriteToRequest_def UpdateCustomer_Reader_def
  DeleteCustomer_Operation_def DeleteCustomer_Params_def DeleteCustomer_WriteToRequest_def DeleteCustomer_Reader_def
  GetHostInfo_Operation_def GetHostInfo_Params_def GetHostInfo_WriteToRequest_def GetHostInfo_Reader_def
  Metrics_Operation_def Metrics_Params_def Metrics_WriteToRequest_def Metrics_Reader_def

lemma customer_management_ok: "list_all operation_ok customer_management_operations"
  by code_simp

subsection \<open>customer_configuration\<close>

definition CreateCustomerConfig_Params :: "'m param_struct" where
  "CreateCustomerConfig_Params =
     \<lparr>struct_fields = [(''Config'', Pointer (Model ''CustomerConfig'')), (''CUUID'', UUIDType)],
      struct_defaults = []\<rparr>"

definition CreateCustomerConfig_WriteToRequest :: "write_stmt list" where
  "CreateCustomerConfig_WriteToRequest =
     [BodyParam ''Config'', PathParam ''cUUID'' ''CUUID'']"

definition CreateCustomerConfig_Reader :: "response_case list" where
  "CreateCustomerConfig_Reader =
     [\<lparr>status_code = 200, response_type = ''customer_configuration.CreateCustomerConfigOK'',
       payload_type = Pointer (Model ''CustomerConfig''), is_success = True,
       error_label = ''[POST /api/v1/customers/{cUUID}/configs][200] createCustomerConfigOK''\<rparr>]"

definition CreateCustomerConfig_Operation :: "'m operation" where
  "CreateCustomerConfig_Operation =
     \<lparr>op_id = ''createCustomerConfig'', op_method = ''POST'',
      path_pattern = ''/api/v1/customers/{cUUID}/configs'',
      produces = [''application/json''], consumes = [''application/json''], schemes = [''http'', ''https''],
      with_auth = True, param_struct_of = CreateCustomerConfig_Params,
      writes = CreateCustomerConfig_WriteToRequest, reader = CreateCustomerConfig_Reader,
      result_type = ''customer_configuration.CreateCustomerConfigOK''\<rparr>"

definition DeleteCustomerConfig_Params :: "'m param_struct" where
  "DeleteCustomerConfig_Params =
     \<lparr>struct_fields = [(''CUUID'', UUIDType), (''ConfigUUID'', UUIDType),
                       (''IsDeleteBackups'', Pointer BoolType)],
      struct_defaults = [(''IsDeleteBackups'', Address (Truth False))]\<rparr>"

definition DeleteCustomerConfig_WriteToRequest :: "write_stmt list" where
  "DeleteCustomerConfig_WriteToRequest =
     [PathParam ''cUUID'' ''CUUID'', PathParam ''configUUID'' ''ConfigUUID'',
      QueryParam ''isDeleteBackups'' ''IsDeleteBackups'']"

definition DeleteCustomerConfig_Reader :: "response_case list" where
  "DeleteCustomerConfig_Reader =
     [\<lparr>status_code = 200, response_type = ''customer_configuration.DeleteCustomerConfigOK'',
       payload_type = Pointer (Model ''YBPTask''), is_success = True,
       error_label = ''[DELETE /api/v1/customers/{cUUID}/configs/{configUUID}][200] deleteCustomerConfigOK''\<rparr>]"

definition DeleteCustomerConfig_Operation :: "'m operation" where
  "DeleteCustomerConfig_Operation =
     \<lparr>op_id = ''deleteCustomerConfig'', op_method = ''DELETE'',
      path_pattern = ''/api/v1/customers/{cUUID}/configs/{configUUID}'',
      produces = [''application/json''], consumes = [''application/json''], schemes = [''http'', ''https''],
      with_auth = True, param_struct_of = DeleteCustomerConfig_Params,
      writes = DeleteCustomerConfig_WriteToRequest, reader = DeleteCustomerConfig_Reader,
      result_type = ''customer_configuration.DeleteCustomerConfigOK''\<rparr>"

definition DeleteCustomerConfigV2_Params :: "'m param_struct" where
  "DeleteCustomerConfigV2_Params =
     \<lparr>struct_fields = [(''CUUID'', UUIDType), (''ConfigUUID'', UUIDType),
                       (''IsDeleteBackups'', Pointer BoolType)],
      struct_defaults = [(''IsDeleteBackups'', Address (Truth False))]\<rparr>"

definition DeleteCustomerConfigV2_WriteToRequest :: "write_stmt list" where
  "DeleteCustomerConfigV2_WriteToRequest =
     [PathParam ''cUUID'' ''CUUID'', PathParam ''configUUID'' ''ConfigUUID'',
      QueryParam ''isDeleteBackups'' ''IsDeleteBackups'']"

definition DeleteCustomerConfigV2_Reader :: "response_case list" where
  "DeleteCustomerConfigV2_Reader =
     [\<lparr>status_code = 200, response_type = ''customer_configuration.DeleteCustomerConfigV2OK'',
       payload_type = Pointer (Model ''YBPTask''), is_success = True,
       error_label = ''[DELETE /api/v1/customers/{cUUID}/configs/{configUUID}/delete][200] deleteCustomerConfigV2OK''\<rparr>]"

definition DeleteCustomerConfigV2_Operation :: "'m operation" where
  "DeleteCustomerConfigV2_Operation =
     \<lparr>op_id = ''deleteCustomerConfigV2'', op_method = ''DELETE'',
      path_pattern = ''/api/v1/customers/{cUUID}/configs/{configUUID}/delete'',
      produces = [''application/json''], consumes = [''application/json''], schemes = [''http'', ''https''],
      with_auth = True, param_struct_of = DeleteCustomerConfigV2_Params,
      writes = DeleteCustomerConfigV2_WriteToRequest, reader = DeleteCustomerConfigV2_Reader,
      result_type = ''customer_configuration.DeleteCustomerConfigV2OK''\<rparr>"

definition EditCustomerConfig_Params :: "'m param_struct" where
  "EditCustomerConfig_Params =
     \<lparr>struct_fields = [(''Config'', Pointer (Model ''CustomerConfig'')), (''CUUID'', UUIDType),
                       (''ConfigUUID'', UUIDType)],
      struct_defaults = []\<rparr>"

definition EditCustomerConfig_WriteToRequest :: "write_stmt list" where
  "EditCustomerConfig_WriteToRequest =
     [BodyParam ''Config'', PathParam ''cUUID'' ''CUUID'', PathParam ''configUUID'' ''ConfigUUID'']"

definition EditCustomerConfig_Reader :: "response_case list" where
  "EditCustomerConfig_Reader =
     [\<lparr>status_code = 200, response_type = ''customer_configuration.EditCustomerConfigOK'',
       payload_type = Pointer (Model ''CustomerConfig''), is_success = True,
       error_label = ''[PUT /api/v1/customers/{cUUID}/configs/{configUUID}][200] editCustomerConfigOK''\<rparr>]"

definition EditCustomerConfig_Operation :: "'m operation" where
  "EditCustomerConfig_Operation =
     \<lparr>op_id = ''editCustomerConfig'', op_method = ''PUT'',
      path_pattern = ''/api/v1/customers/{cUUID}/configs/{configUUID}'',
      produces = [''application/json''], consumes = [''application/json''], schemes = [''http'', ''https''],
      with_auth = True, param_struct_of = EditCustomerConfig_Params,
      writes = EditCustomerConfig_WriteToRequest, reader = EditCustomerConfig_Reader,
      result_type = ''customer_configuration.EditCustomerConfigOK''\<rparr>"

definition EditCustomerConfigV2_Params :: "'m param_struct" where
  "EditCustomerConfigV2_Params =
     \<lparr>struct_fields = [(''Config'', Pointer (Model ''CustomerConfig'')), (''CUUID'', UUIDType),
                       (''ConfigUUID'', UUIDType)],
      struct_defaults = []\<rparr>"

definition EditCustomerConfigV2_WriteToRequest :: "write_stmt list" where
  "EditCustomerConfigV2_WriteToRequest =
     [BodyParam ''Config'', PathParam ''cUUID'' ''CUUID'', PathParam ''configUUID'' ''ConfigUUID'']"

definition EditCustomerConfigV2_Reader :: "response_case list" where
  "EditCustomerConfigV2_Reader =
     [\<lparr>status_code = 200, response_type = ''customer_configuration.EditCustomerConfigV2OK'',
       payload_type = Pointer (Model ''CustomerConfig''), is_success = True,
       error_label = ''[PUT /api/v1/customers/{cUUID}/configs/{configUUID}/edit][200] editCustomerConfigV2OK''\<rparr>]"

definition EditCustomerConfigV2_Operation :: "'m operation" where
  "EditCustomerConfigV2_Operation =
     \<lparr>op_id = ''editCustomerConfigV2'', op_method = ''PUT'',
      path_pattern = ''/api/v1/customers/{cUUID}/configs/{configUUID}/edit'',
      produces = [''application/json''], consumes = [''application/json''], schemes = [''http'', ''https''],
      with_auth = True, param_struct_of = EditCustomerConfigV2_Params,
      writes = EditCustomerConfigV2_WriteToRequest, reader = EditCustomerConfigV2_Reader,
      result_type = ''customer_configuration.EditCustomerConfigV2OK''\<rparr>"

definition GenerateAPIToken_Params :: "'m param_struct" where
  "GenerateAPIToken_Params =
     \<lparr>struct_fields = [(''Dummy'', Pointer (Model ''DummyBody'')), (''CUUID'', UUIDType)],
      struct_defaults = []\<rparr>"

definition GenerateAPIToken_WriteToRequest :: "write_stmt list" where
  "GenerateAPIToken_WriteToRequest =
     [BodyParam ''Dummy'', PathParam ''cUUID'' ''CUUID'']"

definition GenerateAPIToken_Reader :: "response_case list" where
  "GenerateAPIToken_Reader =
     [\<lparr>status_code = 200, response_type = ''customer_configuration.GenerateAPITokenOK'',
       payload_type = Pointer (Model ''SessionInfo''), is_success = True,
       error_label = ''[PUT /api/v1/customers/{cUUID}/api_token][200] generateApiTokenOK''\<rparr>]"

definition GenerateAPIToken_Operation :: "'m operation" where
  "GenerateAPIToken_Operation =
     \<lparr>op_id = ''generateAPIToken'', op_method = ''PUT'',
      path_pattern = ''/api/v1/customers/{cUUID}/api_token'',
      produces = [''application/json''], consumes = [''application/json''], schemes = [''http'', ''https''],
      with_auth = True, param_struct_of = GenerateAPIToken_Params,
      writes = GenerateAPIToken_WriteToRequest, reader = GenerateAPIToken_Reader,
      result_type = ''customer_configuration.GenerateAPITokenOK''\<rparr>"

definition GetListOfCustomerConfig_Params :: "'m param_struct" where
  "GetListOfCustomerConfig_Params =
     \<lparr>struct_fields = [(''CUUID'', UUIDType)],
      struct_defaults = []\<rparr>"

definition GetListOfCustomerConfig_WriteToRequest :: "write_stmt list" where
  "GetListOfCustomerConfig_WriteToRequest =
     [PathParam ''cUUID'' ''CUUID'']"

definition GetListOfCustomerConfig_Reader :: "response_case list" where
  "GetListOfCustomerConfig_Reader =
     [\<lparr>status_code = 200, response_type = ''customer_configuration.GetListOfCustomerConfigOK'',
       payload_type = Slice (Pointer (Model ''CustomerConfigUI'')), is_success = True,
       error_label = ''[GET /api/v1/customers/{cUUID}/configs][200] getListOfCustomerConfigOK''\<rparr>]"

definition GetListOfCustomerConfig_Operation :: "'m operation" where
  "GetListOfCustomerConfig_Operation =
     \<lparr>op_id = ''getListOfCustomerConfig'', op_method = ''GET'',
      path_pattern = ''/api/v1/customers/{cUUID}/configs'',
      produces = [''application/json''], consumes = [''application/json''], schemes = [''http'', ''https''],
      with_auth = True, param_struct_of = GetListOfCustomerConfig_Params,
      writes = GetListOfCustomerConfig_WriteToRequest, reader = GetListOfCustomerConfig_Reader,
      result_type = ''customer_configuration.GetListOfCustomerConfigOK''\<rparr>"

definition customer_configuration_operations :: "'m operation list" where
  "customer_configuration_operations =
     [CreateCustomerConfig_Operation, DeleteCustomerConfig_Operation, DeleteCustomerConfigV2_Operation,
      EditCustomerConfig_Operation, EditCustomerConfigV2_Operation, GenerateAPIToken_Operation,
      GetListOfCustomerConfig_Operation]"

lemmas customer_configuration_defs =
  CreateCustomerConfig_Operation_def CreateCustomerConfig_Params_def CreateCustomerConfig_WriteToRequest_def CreateCustomerConfig_Reader_def
  DeleteCustomerConfig_Operation_def DeleteCustomerConfig_Params_def DeleteCustomerConfig_WriteToRequest_def DeleteCustomerConfig_Reader_def
  DeleteCustomerConfigV2_Operation_def DeleteCustomerConfigV2_Params_def DeleteCustomerConfigV2_WriteToRequest_def DeleteCustomerConfigV2_Reader_def
  EditCustomerConfig_Operation_def EditCustomerConfig_Params_def EditCustomerConfig_WriteToRequest_def EditCustomerConfig_Reader_def
  EditCustomerConfigV2_Operation_def EditCustomerConfigV2_Params_def EditCustomerConfigV2_WriteToRequest_def EditCustomerConfigV2_Reader_def
  GenerateAPIToken_Operation_def GenerateAPIToken_Params_def GenerateAPIToken_WriteToRequest_def GenerateAPIToken_Reader_def
  GetListOfCustomerConfig_Operation_def GetListOfCustomerConfig_Params_def GetListOfCustomerConfig_WriteToRequest_def GetListOfCustomerConfig_Reader_def

lemma customer_configuration_ok: "list_all operation_ok customer_configuration_operations"
  by code_simp

subsection \<open>customer_tasks\<close>

definition AbortTask_Params :: "'m param_struct" where
  "AbortTask_Params =
     \<lparr>struct_fields = [(''CUUID'', UUIDType), (''TUUID'', UUIDType)],
      struct_defaults = []\<rparr>"

definition AbortTask_WriteToRequest :: "write_stmt list" where
  "AbortTask_WriteToRequest =
     [PathParam ''cUUID'' ''CUUID'', PathParam ''tUUID'' ''TUUID'']"

definition AbortTask_Reader :: "response_case list" where
  "AbortTask_Reader =
     [\<lparr>status_code = 200, response_type = ''customer_tasks.AbortTaskOK'',
       payload_type = Pointer (Model ''YBPSuccess''), is_success = True,
       error_label = ''[POST /api/v1/customers/{cUUID}/tasks/{tUUID}/abort][200] abortTaskOK''\<rparr>]"

definition AbortTask_Operation :: "'m operation" where
  "AbortTask_Operation =
     \<lparr>op_id = ''abortTask'', op_method = ''POST'',
      path_pattern = ''/api/v1/customers/{cUUID}/tasks/{tUUID}/abort'',
      produces = [''application/json''], consumes = [''application/json''], schemes = [''http'', ''https''],
      with_auth = True, param_struct_of = AbortTask_Params,
      writes = AbortTask_WriteToRequest, reader = AbortTask_Reader,
      result_type = ''customer_tasks.AbortTaskOK''\<rparr>"

definition FailedSubtasks_Params :: "'m param_struct" where
  "FailedSubtasks_Params =
     \<lparr>struct_fields = [(''CUUID'', UUIDType), (''TUUID'', UUIDType)],
      struct_defaults = []\<rparr>"

definition FailedSubtasks_WriteToRequest :: "write_stmt list" where
  "FailedSubtasks_WriteToRequest =
     [PathParam ''cUUID'' ''CUUID'', PathParam ''tUUID'' ''TUUID'']"

definition FailedSubtasks_Reader :: "response_case list" where
  "FailedSubtasks_Reader =
     [\<lparr>status_code = 200, response_type = ''customer_tasks.FailedSubtasksOK'',
       payload_type = MapOf AnyType, is_success = True,
       error_label = ''[GET /api/v1/customers/{cUUID}/tasks/{tUUID}/failed][200] failedSubtasksOK''\<rparr>]"

definition FailedSubtasks_Operation :: "'m operation" where
  "FailedSubtasks_Operation =
     \<lparr>op_id = ''failedSubtasks'', op_method = ''GET'',
      path_pattern = ''/api/v1/customers/{cUUID}/tasks/{tUUID}/failed'',
      produces = [''application/json''], consumes = [''application/json''], schemes = [''http'', ''https''],
      with_auth = True, param_struct_of = FailedSubtasks_Params,
      writes = FailedSubtasks_WriteToRequest, reader = FailedSubtasks_Reader,
      result_type = ''customer_tasks.FailedSubtasksOK''\<rparr>"

definition RetryTask_Params :: "'m param_struct" where
  "RetryTask_Params =
     \<lparr>struct_fields = [(''CUUID'', UUIDType), (''TUUID'', UUIDType)],
      struct_defaults = []\<rparr>"

definition RetryTask_WriteToRequest :: "write_stmt list" where
  "RetryTask_WriteToRequest =
     [PathParam ''cUUID'' ''CUUID'', PathParam ''tUUID'' ''TUUID'']"

definition RetryTask_Reader :: "response_case list" where
  "RetryTask_Reader =
     [\<lparr>status_code = 200, response_type = ''customer_tasks.RetryTaskOK'',
       payload_type = Pointer (Model ''UniverseResp''), is_success = True,
       error_label = ''[POST /api/v1/customers/{cUUID}/tasks/{tUUID}/retry][200] retryTaskOK''\<rparr>]"

definition RetryTask_Operation :: "'m operation" where
  "RetryTask_Operation =
     \<lparr>op_id = ''retryTask'', op_method = ''POST'',
      path_pattern = ''/api/v1/customers/{cUUID}/tasks/{tUUID}/retry'',
      produces = [''application/json''], consumes = [''application/json''], schemes = [''http'', ''https''],
      with_auth = True, param_struct_of = RetryTask_Params,
      writes = RetryTask_WriteToRequest, reader = RetryTask_Reader,
      result_type = ''customer_tasks.RetryTaskOK''\<rparr>"

definition TaskStatus_Params :: "'m param_struct" where
  "TaskStatus_Params =
     \<lparr>struct_fields = [(''CUUID'', UUIDType), (''TUUID'', UUIDType)],
      struct_defaults = []\<rparr>"

definition TaskStatus_WriteToRequest :: "write_stmt list" where
  "TaskStatus_WriteToRequest =
     [PathParam ''cUUID'' ''CUUID'', PathParam ''tUUID'' ''TUUID'']"

definition TaskStatus_Reader :: "response_case list" where
  "TaskStatus_Reader =
     [\<lparr>status_code = 200, response_type = ''customer_tasks.TaskStatusOK'',
       payload_type = AnyType, is_success = True,
       error_label = ''[GET /api/v1/customers/{cUUID}/tasks/{tUUID}][200] taskStatusOK''\<rparr>]"

definition TaskStatus_Operation :: "'m operation" where
  "TaskStatus_Operation =
     \<lparr>op_id = ''taskStatus'', op_method = ''GET'',
      path_pattern = ''/api/v1/customers/{cUUID}/tasks/{tUUID}'',
      produces = [''application/json''], consumes = [''application/json''], schemes = [''http'', ''https''],
      with_auth = True, param_struct_of = TaskStatus_Params,
      writes = TaskStatus_WriteToRequest, reader = TaskStatus_Reader,
      result_type = ''customer_tasks.TaskStatusOK''\<rparr>"

definition TasksList_Params :: "'m param_struct" where
  "TasksList_Params =
     \<lparr>struct_fields = [(''CUUID'', UUIDType), (''UUUID'', Pointer UUIDType)],
      struct_defaults = []\<rparr>"

definition TasksList_WriteToRequest :: "write_stmt list" where
  "TasksList_WriteToRequest =
     [PathParam ''cUUID'' ''CUUID'', QueryParam ''uUUID'' ''UUUID'']"

definition TasksList_Reader :: "response_case list" where
  "TasksList_Reader =
     [\<lparr>status_code = 200, response_type = ''customer_tasks.TasksListOK'',
       payload_type = Slice (Pointer (Model ''CustomerTaskData'')), is_success = True,
       error_label = ''[GET /api/v1/customers/{cUUID}/tasks_list][200] tasksListOK''\<rparr>]"

definition TasksList_Operation :: "'m operation" where
  "TasksList_Operation =
     \<lparr>op_id = ''tasksList'', op_method = ''GET'',
      path_pattern = ''/api/v1/customers/{cUUID}/tasks_list'',
      produces = [''application/json''], consumes = [''application/json''], schemes = [''http'', ''https''],
      with_auth = True, param_struct_of = TasksList_Params,
      writes = TasksList_WriteToRequest, reader = TasksList_Reader,
      result_type = ''customer_tasks.TasksListOK''\<rparr>"

definition customer_tasks_operations :: "'m operation list" where
  "customer_tasks_operations =
     [AbortTask_Operation, FailedSubtasks_Operation, RetryTask_Operation, TaskStatus_Operation, TasksList_Operation]"

lemmas customer_tasks_defs =
  AbortTask_Operation_def AbortTask_Params_def AbortTask_WriteToRequest_def AbortTask_Reader_def
  FailedSubtasks_Operation_def FailedSubtasks_Params_def FailedSubtasks_WriteToRequest_def FailedSubtasks_Reader_def
  RetryTask_Operation_def RetryTask_Params_def RetryTask_WriteToRequest_def RetryTask_Reader_def
  TaskStatus_Operation_def TaskStatus_Params_def TaskStatus_WriteToRequest_def TaskStatus_Reader_def
  TasksList_Operation_def TasksList_Params_def TasksList_WriteToRequest_def TasksList_Reader_def

lemma customer_tasks_ok: "list_all operation_ok customer_tasks_operations"
  by code_simp

subsection \<open>session_management\<close>

definition AppVersion_Params :: "'m param_struct" where
  "AppVersion_Params =
     \<lparr>struct_fields = [],
      struct_defaults = []\<rparr>"

definition AppVersion_WriteToRequest :: "write_stmt list" where
  "AppVersion_WriteToRequest =
     []"

definition AppVersion_Reader :: "response_case list" where
  "AppVersion_Reader =
     [\<lparr>status_code = 200, response_type = ''session_management.AppVersionOK'',
       payload_type = MapOf StringType, is_success = True,
       error_label = ''[GET /api/v1/app_version][200] appVersionOK''\<rparr>]"

definition AppVersion_Operation :: "'m operation" where
  "AppVersion_Operation =
     \<lparr>op_id = ''appVersion'', op_method = ''GET'',
      path_pattern = ''/api/v1/app_version'',
      produces = [''application/json''], consumes = [''application/json''], schemes = [''http'', ''https''],
      with_auth = False, param_struct_of = AppVersion_Params,
      writes = AppVersion_WriteToRequest, reader = AppVersion_Reader,
      result_type = ''session_management.AppVersionOK''\<rparr>"

definition CustomerCount_Params :: "'m param_struct" where
  "CustomerCount_Params =
     \<lparr>struct_fields = [],
      struct_defaults = []\<rparr>"

definition CustomerCount_WriteToRequest :: "write_stmt list" where
  "CustomerCount_WriteToRequest =
     []"

definition CustomerCount_Reader :: "response_case list" where
  "CustomerCount_Reader =
     [\<lparr>status_code = 200, response_type = ''session_management.CustomerCountOK'',
       payload_type = Pointer (Model ''CustomerCountResp''), is_success = True,
       error_label = ''[GET /api/v1/customer_count][200] customerCountOK''\<rparr>]"

definition CustomerCount_Operation :: "'m operation" where
  "CustomerCount_Operation =
     \<lparr>op_id = ''customerCount'', op_method = ''GET'',
      path_pattern = ''/api/v1/customer_count'',
      produces = [''application/json''], consumes = [''application/json''], schemes = [''http'', ''https''],
      with_auth = False, param_struct_of = CustomerCount_Params,
      writes = CustomerCount_WriteToRequest, reader = CustomerCount_Reader,
      result_type = ''session_management.CustomerCountOK''\<rparr>"

definition GetFilteredLogs_Params :: "'m param_struct" where
  "GetFilteredLogs_Params =
     \<lparr>struct_fields = [(''MaxLines'', Pointer Int32Type), (''QueryRegex'', Pointer StringType),
                       (''UniverseName'', Pointer StringType)],
      struct_defaults = [(''MaxLines'', Address (Number 10000)), (''QueryRegex'', Address (Text ''null'')),
                         (''UniverseName'', Address (Text ''null''))]\<rparr>"

definition GetFilteredLogs_WriteToRequest :: "write_stmt list" where
  "GetFilteredLogs_WriteToRequest =
     [QueryParam ''maxLines'' ''MaxLines'', QueryParam ''queryRegex'' ''QueryRegex'',
      QueryParam ''universeName'' ''UniverseName'']"

definition GetFilteredLogs_Reader :: "response_case list" where
  "GetFilteredLogs_Reader =
     [\<lparr>status_code = 200, response_type = ''session_management.GetFilteredLogsOK'',
       payload_type = Pointer (Model ''LogData''), is_success = True,
       error_label = ''[GET /api/v1/logs][200] getFilteredLogsOK''\<rparr>]"

definition GetFilteredLogs_Operation :: "'m operation" where
  "GetFilteredLogs_Operation =
     \<lparr>op_id = ''getFilteredLogs'', op_method = ''GET'',
      path_pattern = ''/api/v1/logs'',
      produces = [''text/plain''], consumes = [''application/json''], schemes = [''http'', ''https''],
      with_auth = True, param_struct_of = GetFilteredLogs_Params,
      writes = GetFilteredLogs_WriteToRequest, reader = GetFilteredLogs_Reader,
      result_type = ''session_management.GetFilteredLogsOK''\<rparr>"

definition GetLogs_Params :: "'m param_struct" where
  "GetLogs_Params =
     \<lparr>struct_fields = [(''MaxLines'', Int32Type)],
      struct_defaults = []\<rparr>"

definition GetLogs_WriteToRequest :: "write_stmt list" where
  "GetLogs_WriteToRequest =
     [PathParam ''maxLines'' ''MaxLines'']"

definition GetLogs_Reader :: "response_case list" where
  "GetLogs_Reader =
     [\<lparr>status_code = 200, response_type = ''session_management.GetLogsOK'',
       payload_type = Pointer (Model ''LogData''), is_success = True,
       error_label = ''[GET /api/v1/logs/{maxLines}][200] getLogsOK''\<rparr>]"

definition GetLogs_Operation :: "'m operation" where
  "GetLogs_Operation =
     \<lparr>op_id = ''getLogs'', op_method = ''GET'',
      path_pattern = ''/api/v1/logs/{maxLines}'',
      produces = [''application/json''], consumes = [''application/json''], schemes = [''http'', ''https''],
      with_auth = True, param_struct_of = GetLogs_Params,
      writes = GetLogs_WriteToRequest, reader = GetLogs_Reader,
      result_type = ''session_management.GetLogsOK''\<rparr>"

definition GetSessionInfo_Params :: "'m param_struct" where
  "GetSessionInfo_Params =
     \<lparr>struct_fields = [],
      struct_defaults = []\<rparr>"

definition GetSessionInfo_WriteToRequest :: "write_stmt list" where
  "GetSessionInfo_WriteToRequest =
     []"

definition GetSessionInfo_Reader :: "response_case list" where
  "GetSessionInfo_Reader =
     [\<lparr>status_code = 200, response_type = ''session_management.GetSessionInfoOK'',
       payload_type = Pointer (Model ''SessionInfo''), is_success = True,
       error_label = ''[GET /api/v1/session_info][200] getSessionInfoOK''\<rparr>]"

definition GetSessionInfo_Operation :: "'m operation" where
  "GetSessionInfo_Operation =
     \<lparr>op_id = ''getSessionInfo'', op_method = ''GET'',
      path_pattern = ''/api/v1/session_info'',
      produces = [''application/json''], consumes = [''application/json''], schemes = [''http'', ''https''],
      with_auth = True, param_struct_of = GetSessionInfo_Params,
      writes = GetSessionInfo_WriteToRequest, reader = GetSessionInfo_Reader,
      result_type = ''session_management.GetSessionInfoOK''\<rparr>"

definition RegisterCustomer_Params :: "'m param_struct" where
  "RegisterCustomer_Params =
     \<lparr>struct_fields = [(''CustomerRegisterFormData'', Pointer (Model ''CustomerRegisterFormData'')),
                       (''GenerateAPIToken'', Pointer BoolType)],
      struct_defaults = [(''GenerateAPIToken'', Address (Truth False))]\<rparr>"

definition RegisterCustomer_WriteToRequest :: "write_stmt list" where
  "RegisterCustomer_WriteToRequest =
     [BodyParam ''CustomerRegisterFormData'', QueryParam ''generateApiToken'' ''GenerateAPIToken'']"

definition RegisterCustomer_Reader :: "response_case list" where
  "RegisterCustomer_Reader =
     [\<lparr>status_code = 200, response_type = ''session_management.RegisterCustomerOK'',
       payload_type = Pointer (Model ''SessionInfo''), is_success = True,
       error_label = ''[POST /api/v1/register][200] registerCustomerOK''\<rparr>]"

definition RegisterCustomer_Operation :: "'m operation" where
  "RegisterCustomer_Operation =
     \<lparr>op_id = ''registerCustomer'', op_method = ''POST'',
      path_pattern = ''/api/v1/register'',
      produces = [''application/json''], consumes = [''application/json''], schemes = [''http'', ''https''],
      with_auth = False, param_struct_of = RegisterCustomer_Params,
      writes = RegisterCustomer_WriteToRequest, reader = RegisterCustomer_Reader,
      result_type = ''session_management.RegisterCustomerOK''\<rparr>"

definition session_management_operations :: "'m operation list" where
  "session_management_operations =
     [AppVersion_Operation, CustomerCount_Operation, GetFilteredLogs_Operation, GetLogs_Operation,
      GetSessionInfo_Operation, RegisterCustomer_Operation]"

lemmas session_management_defs =
  AppVersion_Operation_def AppVersion_Params_def AppVersion_WriteToRequest_def AppVersion_Reader_def
  CustomerCount_Operation_def CustomerCount_Params_def CustomerCount_WriteToRequest_def CustomerCount_Reader_def
  GetFilteredLogs_Operation_def GetFilteredLogs_Params_def GetFilteredLogs_WriteToRequest_def GetFilteredLogs_Reader_def
  GetLogs_Operation_def GetLogs_Params_def GetLogs_WriteToRequest_def GetLogs_Reader_def
  GetSessionInfo_Operation_def GetSessionInfo_Params_def GetSessionInfo_WriteToRequest_def GetSessionInfo_Reader_def
  RegisterCustomer_Operation_def RegisterCustomer_Params_def RegisterCustomer_WriteToRequest_def RegisterCustomer_Reader_def

lemma session_management_ok: "list_all operation_ok session_management_operations"
  by code_simp

subsection \<open>user_management\<close>

definition UpdateUserProfile_Params :: "'m param_struct" where
  "UpdateUserProfile_Params =
     \<lparr>struct_fields = [(''Users'', Pointer (Model ''UserProfileData'')), (''CUUID'', UUIDType),
                       (''UUUID'', UUIDType)],
      struct_defaults = []\<rparr>"

definition UpdateUserProfile_WriteToRequest :: "write_stmt list" where
  "UpdateUserProfile_WriteToRequest =
     [BodyParam ''Users'', PathParam ''cUUID'' ''CUUID'', PathParam ''uUUID'' ''UUUID'']"

definition UpdateUserProfile_Reader :: "response_case list" where
  "UpdateUserProfile_Reader =
     [\<lparr>status_code = 200, response_type = ''user_management.UpdateUserProfileOK'',
       payload_type = Pointer (Model ''Users''), is_success = True,
       error_label = ''[PUT /api/v1/customers/{cUUID}/users/{uUUID}/update_profile][200] updateUserProfileOK''\<rparr>]"

definition UpdateUserProfile_Operation :: "'m operation" where
  "UpdateUserProfile_Operation =
     \<lparr>op_id = ''UpdateUserProfile'', op_method = ''PUT'',
      path_pattern = ''/api/v1/customers/{cUUID}/users/{uUUID}/update_profile'',
      produces = [''application/json''], consumes = [''application/json''], schemes = [''http'', ''https''],
      with_auth = True, param_struct_of = UpdateUserProfile_Params,
      writes = UpdateUserProfile_WriteToRequest, reader = UpdateUserProfile_Reader,
      result_type = ''user_management.UpdateUserProfileOK''\<rparr>"

definition CreateUser_Params :: "'m param_struct" where
  "CreateUser_Params =
     \<lparr>struct_fields = [(''User'', Pointer (Model ''UserRegistrationData'')), (''CUUID'', UUIDType)],
      struct_defaults = []\<rparr>"

definition CreateUser_WriteToRequest :: "write_stmt list" where
  "CreateUser_WriteToRequest =
     [BodyParam ''User'', PathParam ''cUUID'' ''CUUID'']"

definition CreateUser_Reader :: "response_case list" where
  "CreateUser_Reader =
     [\<lparr>status_code = 200, response_type = ''user_management.CreateUserOK'',
       payload_type = Pointer (Model ''UserWithFeatures''), is_success = True,
       error_label = ''[POST /api/v1/customers/{cUUID}/users][200] createUserOK''\<rparr>]"

definition CreateUser_Operation :: "'m operation" where
  "CreateUser_Operation =
     \<lparr>op_id = ''createUser'', op_method = ''POST'',
      path_pattern = ''/api/v1/customers/{cUUID}/users'',
      produces = [''application/json''], consumes = [''application/json''], schemes = [''http'', ''https''],
      with_auth = True, param_struct_of = CreateUser_Params,
      writes = CreateUser_WriteToRequest, reader = CreateUser_Reader,
      result_type = ''user_management.CreateUserOK''\<rparr>"

definition DeleteUser_Params :: "'m param_struct" where
  "DeleteUser_Params =
     \<lparr>struct_fields = [(''CUUID'', UUIDType), (''UUUID'', UUIDType)],
      struct_defaults = []\<rparr>"

definition DeleteUser_WriteToRequest :: "write_stmt list" where
  "DeleteUser_WriteToRequest =
     [PathParam ''cUUID'' ''CUUID'', PathParam ''uUUID'' ''UUUID'']"

definition DeleteUser_Reader :: "response_case list" where
  "DeleteUser_Reader =
     [\<lparr>status_code = 200, response_type = ''user_management.DeleteUserOK'',
       payload_type = Pointer (Model ''YBPSuccess''), is_success = True,
       error_label = ''[DELETE /api/v1/customers/{cUUID}/users/{uUUID}][200] deleteUserOK''\<rparr>]"

definition DeleteUser_Operation :: "'m operation" where
  "DeleteUser_Operation =
     \<lparr>op_id = ''deleteUser'', op_method = ''DELETE'',
      path_pattern = ''/api/v1/customers/{cUUID}/users/{uUUID}'',
      produces = [''application/json''], consumes = [''application/json''], schemes = [''http'', ''https''],
      with_auth = True, param_struct_of = DeleteUser_Params,
      writes = DeleteUser_WriteToRequest, reader = DeleteUser_Reader,
      result_type = ''user_management.DeleteUserOK''\<rparr>"

definition GetUserDetails_Params :: "'m param_struct" where
  "GetUserDetails_Params =
     \<lparr>struct_fields = [(''CUUID'', UUIDType), (''UUUID'', UUIDType)],
      struct_defaults = []\<rparr>"

definition GetUserDetails_WriteToRequest :: "write_stmt list" where
  "GetUserDetails_WriteToRequest =
     [PathParam ''cUUID'' ''CUUID'', PathParam ''uUUID'' ''UUUID'']"

definition GetUserDetails_Reader :: "response_case list" where
  "GetUserDetails_Reader =
     [\<lparr>status_code = 200, response_type = ''user_management.GetUserDetailsOK'',
       payload_type = Pointer (Model ''UserWithFeatures''), is_success = True,
       error_label = ''[GET /api/v1/customers/{cUUID}/users/{uUUID}][200] getUserDetailsOK''\<rparr>]"

definition GetUserDetails_Operation :: "'m operation" where
  "GetUserDetails_Operation =
     \<lparr>op_id = ''getUserDetails'', op_method = ''GET'',
      path_pattern = ''/api/v1/customers/{cUUID}/users/{uUUID}'',
      produces = [''application/json''], consumes = [''application/json''], schemes = [''http'', ''https''],
      with_auth = True, param_struct_of = GetUserDetails_Params,
      writes = GetUserDetails_WriteToRequest, reader = GetUserDetails_Reader,
      result_type = ''user_management.GetUserDetailsOK''\<rparr>"

definition ListUsers_Params :: "'m param_struct" where
  "ListUsers_Params =
     \<lparr>struct_fields = [(''CUUID'', UUIDType)],
      struct_defaults = []\<rparr>"

definition ListUsers_WriteToRequest :: "write_stmt list" where
  "ListUsers_WriteToRequest =
     [PathParam ''cUUID'' ''CUUID'']"

definition ListUsers_Reader :: "response_case list" where
  "ListUsers_Reader =
     [\<lparr>status_code = 200, response_type = ''user_management.ListUsersOK'',
       payload_type = Slice (Pointer (Model ''UserWithFeatures'')), is_success = True,
       error_label = ''[GET /api/v1/customers/{cUUID}/users][200] listUsersOK''\<rparr>]"

definition ListUsers_Operation :: "'m operation" where
  "ListUsers_Operation =
     \<lparr>op_id = ''listUsers'', op_method = ''GET'',
      path_pattern = ''/api/v1/customers/{cUUID}/users'',
      produces = [''application/json''], consumes = [''application/json''], schemes = [''http'', ''https''],
      with_auth = True, param_struct_of = ListUsers_Params,
      writes = ListUsers_WriteToRequest, reader = ListUsers_Reader,
      result_type = ''user_management.ListUsersOK''\<rparr>"

definition UpdateUserPassword_Params :: "'m param_struct" where
  "UpdateUserPassword_Params =
     \<lparr>struct_fields = [(''Users'', Pointer (Model ''UserRegistrationData'')), (''CUUID'', UUIDType),
                       (''UUUID'', UUIDType)],
      struct_defaults = []\<rparr>"

definition UpdateUserPassword_WriteToRequest :: "write_stmt list" where
  "UpdateUserPassword_WriteToRequest =
     [BodyParam ''Users'', PathParam ''cUUID'' ''CUUID'', PathParam ''uUUID'' ''UUUID'']"

definition UpdateUserPassword_Reader :: "response_case list" where
  "UpdateUserPassword_Reader =
     [\<lparr>status_code = 200, response_type = ''user_management.UpdateUserPasswordOK'',
       payload_type = Pointer (Model ''YBPSuccess''), is_success = True,
       error_label = ''[PUT /api/v1/customers/{cUUID}/users/{uUUID}/change_password][200] updateUserPasswordOK''\<rparr>]"

definition UpdateUserPassword_Operation :: "'m operation" where
  "UpdateUserPassword_Operation =
     \<lparr>op_id = ''updateUserPassword'', op_method = ''PUT'',
      path_pattern = ''/api/v1/customers/{cUUID}/users/{uUUID}/change_password'',
      produces = [''application/json''], consumes = [''application/json''], schemes = [''http'', ''https''],
      with_auth = True, param_struct_of = UpdateUserPassword_Params,
      writes = UpdateUserPassword_WriteToRequest, reader = UpdateUserPassword_Reader,
      result_type = ''user_management.UpdateUserPasswordOK''\<rparr>"

definition UpdateUserRole_Params :: "'m param_struct" where
  "UpdateUserRole_Params =
     \<lparr>struct_fields = [(''CUUID'', UUIDType), (''Role'', Pointer StringType), (''UUUID'', UUIDType)],
      struct_defaults = []\<rparr>"

definition UpdateUserRole_WriteToRequest :: "write_stmt list" where
  "UpdateUserRole_WriteToRequest =
     [PathParam ''cUUID'' ''CUUID'', QueryParam ''role'' ''Role'', PathParam ''uUUID'' ''UUUID'']"

definition UpdateUserRole_Reader :: "response_case list" where
  "UpdateUserRole_Reader =
     [\<lparr>status_code = 200, response_type = ''user_management.UpdateUserRoleOK'',
       payload_type = Pointer (Model ''YBPSuccess''), is_success = True,
       error_label = ''[PUT /api/v1/customers/{cUUID}/users/{uUUID}][200] updateUserRoleOK''\<rparr>]"

definition UpdateUserRole_Operation :: "'m operation" where
  "UpdateUserRole_Operation =
     \<lparr>op_id = ''updateUserRole'', op_method = ''PUT'',
      path_pattern = ''/api/v1/customers/{cUUID}/users/{uUUID}'',
      produces = [''application/json''], consumes = [''application/json''], schemes = [''http'', ''https''],
      with_auth = True, param_struct_of = UpdateUserRole_Params,
      writes = UpdateUserRole_WriteToRequest, reader = UpdateUserRole_Reader,
      result_type = ''user_management.UpdateUserRoleOK''\<rparr>"

definition user_management_operations :: "'m operation list" where
  "user_management_operations =
     [UpdateUserProfile_Operation, CreateUser_Operation, DeleteUser_Operation, GetUserDetails_Operation,
      ListUsers_Operation, UpdateUserPassword_Operation, UpdateUserRole_Operation]"

lemmas user_management_defs =
  UpdateUserProfile_Operation_def UpdateUserProfile_Params_def UpdateUserProfile_WriteToRequest_def UpdateUserProfile_Reader_def
  CreateUser_Operation_def CreateUser_Params_def CreateUser_WriteToRequest_def CreateUser_Reader_def
  DeleteUser_Operation_def DeleteUser_Params_def DeleteUser_WriteToRequest_def DeleteUser_Reader_def
  GetUserDetails_Operation_def GetUserDetails_Params_def GetUserDetails_WriteToRequest_def GetUserDetails_Reader_def
  ListUsers_Operation_def ListUsers_Params_def ListUsers_WriteToRequest_def ListUsers_Reader_def
  UpdateUserPassword_Operation_def UpdateUserPassword_Params_def UpdateUserPassword_WriteToRequest_def UpdateUserPassword_Reader_def
  UpdateUserRole_Operation_def UpdateUserRole_Params_def UpdateUserRole_WriteToRequest_def UpdateUserRole_Reader_def

lemma user_management_ok: "list_all operation_ok user_management_operations"
  by code_simp

subsection \<open>audit\<close>

definition ListOfAudit_Params :: "'m param_struct" where
  "ListOfAudit_Params =
     \<lparr>struct_fields = [(''CUUID'', UUIDType), (''UUUID'', UUIDType)],
      struct_defaults = []\<rparr>"

definition ListOfAudit_WriteToRequest :: "write_stmt list" where
  "ListOfAudit_WriteToRequest =
     [PathParam ''cUUID'' ''CUUID'', PathParam ''uUUID'' ''UUUID'']"

definition ListOfAudit_Reader :: "response_case list" where
  "ListOfAudit_Reader =
     [\<lparr>status_code = 200, response_type = ''audit.ListOfAuditOK'',
       payload_type = Slice (Pointer (Model ''Audit'')), is_success = True,
       error_label = ''[GET /api/v1/customers/{cUUID}/users/{uUUID}/audit_trail][200] listOfAuditOK''\<rparr>]"

definition ListOfAudit_Operation :: "'m operation" where
  "ListOfAudit_Operation =
     \<lparr>op_id = ''ListOfAudit'', op_method = ''GET'',
      path_pattern = ''/api/v1/customers/{cUUID}/users/{uUUID}/audit_trail'',
      produces = [''application/json''], consumes = [''application/json''], schemes = [''http'', ''https''],
      with_auth = True, param_struct_of = ListOfAudit_Params,
      writes = ListOfAudit_WriteToRequest, reader = ListOfAudit_Reader,
      result_type = ''audit.ListOfAuditOK''\<rparr>"

definition GetTaskAudit_Params :: "'m param_struct" where
  "GetTaskAudit_Params =
     \<lparr>struct_fields = [(''CUUID'', UUIDType), (''TUUID'', UUIDType)],
      struct_defaults = []\<rparr>"

definition GetTaskAudit_WriteToRequest :: "write_stmt list" where
  "GetTaskAudit_WriteToRequest =
     [PathParam ''cUUID'' ''CUUID'', PathParam ''tUUID'' ''TUUID'']"

definition GetTaskAudit_Reader :: "response_case list" where
  "GetTaskAudit_Reader =
     [\<lparr>status_code = 200, response_type = ''audit.GetTaskAuditOK'',
       payload_type = Pointer (Model ''Audit''), is_success = True,
       error_label = ''[GET /api/v1/customers/{cUUID}/tasks/{tUUID}/audit_info][200] getTaskAuditOK''\<rparr>]"

definition GetTaskAudit_Operation :: "'m operation" where
  "GetTaskAudit_Operation =
     \<lparr>op_id = ''getTaskAudit'', op_method = ''GET'',
      path_pattern = ''/api/v1/customers/{cUUID}/tasks/{tUUID}/audit_info'',
      produces = [''application/json''], consumes = [''application/json''], schemes = [''http'', ''https''],
      with_auth = True, param_struct_of = GetTaskAudit_Params,
      writes = GetTaskAudit_WriteToRequest, reader = GetTaskAudit_Reader,
      result_type = ''audit.GetTaskAuditOK''\<rparr>"

definition GetUserFromTask_Params :: "'m param_struct" where
  "GetUserFromTask_Params =
     \<lparr>struct_fields = [(''CUUID'', UUIDType), (''TUUID'', UUIDType)],
      struct_defaults = []\<rparr>"

definition GetUserFromTask_WriteToRequest :: "write_stmt list" where
  "GetUserFromTask_WriteToRequest =
     [PathParam ''cUUID'' ''CUUID'', PathParam ''tUUID'' ''TUUID'']"

definition GetUserFromTask_Reader :: "response_case list" where
  "GetUserFromTask_Reader =
     [\<lparr>status_code = 200, response_type = ''audit.GetUserFromTaskOK'',
       payload_type = Pointer (Model ''Audit''), is_success = True,
       error_label = ''[GET /api/v1/customers/{cUUID}/tasks/{tUUID}/audit_user][200] getUserFromTaskOK''\<rparr>]"

definition GetUserFromTask_Operation :: "'m operation" where
  "GetUserFromTask_Operation =
     \<lparr>op_id = ''getUserFromTask'', op_method = ''GET'',
      path_pattern = ''/api/v1/customers/{cUUID}/tasks/{tUUID}/audit_user'',
      produces = [''application/json''], consumes = [''application/json''], schemes = [''http'', ''https''],
      with_auth = True, param_struct_of = GetUserFromTask_Params,
      writes = GetUserFromTask_WriteToRequest, reader = GetUserFromTask_Reader,
      result_type = ''audit.GetUserFromTaskOK''\<rparr>"

definition audit_operations :: "'m operation list" where
  "audit_operations =
     [ListOfAudit_Operation, GetTaskAudit_Operation, GetUserFromTask_Operation]"

lemmas audit_defs =
  ListOfAudit_Operation_def ListOfAudit_Params_def ListOfAudit_WriteToRequest_def ListOfAudit_Reader_def
  GetTaskAudit_Operation_def GetTaskAudit_Params_def GetTaskAudit_WriteToRequest_def GetTaskAudit_Reader_def
  GetUserFromTask_Operation_def GetUserFromTask_Params_def GetUserFromTask_WriteToRequest_def GetUserFromTask_Reader_def

lemma audit_ok: "list_all operation_ok audit_operations"
  by code_simp

subsection \<open>logging_config\<close>

definition SetAuditLoggingSettings_Params :: "'m param_struct" where
  "SetAuditLoggingSettings_Params =
     \<lparr>struct_fields = [(''AuditLoggingConfig'', Pointer (Model ''AuditLoggingConfig''))],
      struct_defaults = []\<rparr>"

definition SetAuditLoggingSettings_WriteToRequest :: "write_stmt list" where
  "SetAuditLoggingSettings_WriteToRequest =
     [BodyParam ''AuditLoggingConfig'']"

definition SetAuditLoggingSettings_Reader :: "response_case list" where
  "SetAuditLoggingSettings_Reader =
     [\<lparr>status_code = 200, response_type = ''logging_config.SetAuditLoggingSettingsOK'',
       payload_type = Pointer (Model ''AuditLoggingConfig''), is_success = True,
       error_label = ''[POST /api/v1/audit_logging_config][200] setAuditLoggingSettingsOK''\<rparr>]"

definition SetAuditLoggingSettings_Operation :: "'m operation" where
  "SetAuditLoggingSettings_Operation =
     \<lparr>op_id = ''setAuditLoggingSettings'', op_method = ''POST'',
      path_pattern = ''/api/v1/audit_logging_config'',
      produces = [''application/json''], consumes = [''application/json''], schemes = [''http'', ''https''],
      with_auth = True, param_struct_of = SetAuditLoggingSettings_Params,
      writes = SetAuditLoggingSettings_WriteToRequest, reader = SetAuditLoggingSettings_Reader,
      result_type = ''logging_config.SetAuditLoggingSettingsOK''\<rparr>"

definition SetLoggingSettings_Params :: "'m param_struct" where
  "SetLoggingSettings_Params =
     \<lparr>struct_fields = [(''LoggingConfig'', Pointer (Model ''PlatformLoggingConfig''))],
      struct_defaults = []\<rparr>"

definition SetLoggingSettings_WriteToRequest :: "write_stmt list" where
  "SetLoggingSettings_WriteToRequest =
     [BodyParam ''LoggingConfig'']"

definition SetLoggingSettings_Reader :: "response_case list" where
  "SetLoggingSettings_Reader =
     [\<lparr>status_code = 200, response_type = ''logging_config.SetLoggingSettingsOK'',
       payload_type = Pointer (Model ''PlatformLoggingConfig''), is_success = True,
       error_label = ''[POST /api/v1/logging_config][200] setLoggingSettingsOK''\<rparr>]"

definition SetLoggingSettings_Operation :: "'m operation" where
  "SetLoggingSettings_Operation =
     \<lparr>op_id = ''setLoggingSettings'', op_method = ''POST'',
      path_pattern = ''/api/v1/logging_config'',
      produces = [''application/json''], consumes = [''application/json''], schemes = [''http'', ''https''],
      with_auth = True, param_struct_of = SetLoggingSettings_Params,
      writes = SetLoggingSettings_WriteToRequest, reader = SetLoggingSettings_Reader,
      result_type = ''logging_config.SetLoggingSettingsOK''\<rparr>"

definition logging_config_operations :: "'m operation list" where
  "logging_config_operations =
     [SetAuditLoggingSettings_Operation, SetLoggingSettings_Operation]"

lemmas logging_config_defs =
  SetAuditLoggingSettings_Operation_def SetAuditLoggingSettings_Params_def SetAuditLoggingSettings_WriteToRequest_def SetAuditLoggingSettings_Reader_def
  SetLoggingSettings_Operation_def SetLoggingSettings_Params_def SetLoggingSettings_WriteToRequest_def SetLoggingSettings_Reader_def

lemma logging_config_ok: "list_all operation_ok logging_config_operations"
  by code_simp

subsection \<open>grafana_dashboard\<close>

definition GrafanaDashboard_Params :: "'m param_struct" where
  "GrafanaDashboard_Params =
     \<lparr>struct_fields = [],
      struct_defaults = []\<rparr>"

definition GrafanaDashboard_WriteToRequest :: "write_stmt list" where
  "GrafanaDashboard_WriteToRequest =
     []"

definition GrafanaDashboard_Reader :: "response_case list" where
  "GrafanaDashboard_Reader =
     [\<lparr>status_code = 200, response_type = ''grafana_dashboard.GrafanaDashboardOK'',
       payload_type = StringType, is_success = True,
       error_label = ''[GET /api/v1/grafana_dashboard][200] grafanaDashboardOK''\<rparr>]"

definition GrafanaDashboard_Operation :: "'m operation" where
  "GrafanaDashboard_Operation =
     \<lparr>op_id = ''GrafanaDashboard'', op_method = ''GET'',
      path_pattern = ''/api/v1/grafana_dashboard'',
      produces = [''application/json''], consumes = [''application/json''], schemes = [''http'', ''https''],
      with_auth = True, param_struct_of = GrafanaDashboard_Params,
      writes = GrafanaDashboard_WriteToRequest, reader = GrafanaDashboard_Reader,
      result_type = ''grafana_dashboard.GrafanaDashboardOK''\<rparr>"

definition grafana_dashboard_operations :: "'m operation list" where
  "grafana_dashboard_operations =
     [GrafanaDashboard_Operation]"

lemmas grafana_dashboard_defs =
  GrafanaDashboard_Operation_def GrafanaDashboard_Params_def GrafanaDashboard_WriteToRequest_def GrafanaDashboard_Reader_def

lemma grafana_dashboard_ok: "list_all operation_ok grafana_dashboard_operations"
  by code_simp

subsection \<open>metrics\<close>

definition MetricsDetail_Params :: "'m param_struct" where
  "MetricsDetail_Params =
     \<lparr>struct_fields = [],
      struct_defaults = []\<rparr>"

definition MetricsDetail_WriteToRequest :: "write_stmt list" where
  "MetricsDetail_WriteToRequest =
     []"

definition MetricsDetail_Reader :: "response_case list" where
  "MetricsDetail_Reader =
     [\<lparr>status_code = 200, response_type = ''metrics.MetricsDetailOK'',
       payload_type = StringType, is_success = True,
       error_label = ''[GET /api/v1/prometheus_metrics][200] metricsDetailOK''\<rparr>]"

definition MetricsDetail_Operation :: "'m operation" where
  "MetricsDetail_Operation =
     \<lparr>op_id = ''MetricsDetail'', op_method = ''GET'',
      path_pattern = ''/api/v1/prometheus_metrics'',
      produces = [''application/json''], consumes = [''application/json''], schemes = [''http'', ''https''],
      with_auth = True, param_struct_of = MetricsDetail_Params,
      writes = MetricsDetail_WriteToRequest, reader = MetricsDetail_Reader,
      result_type = ''metrics.MetricsDetailOK''\<rparr>"

definition metrics_operations :: "'m operation list" where
  "metrics_operations =
     [MetricsDetail_Operation]"

lemmas metrics_defs =
  MetricsDetail_Operation_def MetricsDetail_Params_def MetricsDetail_WriteToRequest_def MetricsDetail_Reader_def

lemma metrics_ok: "list_all operation_ok metrics_operations"
  by code_simp

subsection \<open>runtime_configuration\<close>

definition DeleteKey_Params :: "'m param_struct" where
  "DeleteKey_Params =
     \<lparr>struct_fields = [(''CUUID'', UUIDType), (''Key'', StringType), (''Scope'', UUIDType)],
      struct_defaults = []\<rparr>"

definition DeleteKey_WriteToRequest :: "write_stmt list" where
  "DeleteKey_WriteToRequest =
     [PathParam ''cUUID'' ''CUUID'', PathParam ''key'' ''Key'', PathParam ''scope'' ''Scope'']"

definition DeleteKey_Reader :: "response_case list" where
  "DeleteKey_Reader =
     [\<lparr>status_code = 200, response_type = ''runtime_configuration.DeleteKeyOK'',
       payload_type = Pointer (Model ''YBPSuccess''), is_success = True,
       error_label = ''[DELETE /api/v1/customers/{cUUID}/runtime_config/{scope}/key/{key}][200] deleteKeyOK''\<rparr>]"

definition DeleteKey_Operation :: "'m operation" where
  "DeleteKey_Operation =
     \<lparr>op_id = ''deleteKey'', op_method = ''DELETE'',
      path_pattern = ''/api/v1/customers/{cUUID}/runtime_config/{scope}/key/{key}'',
      produces = [''application/json''], consumes = [''application/json''], schemes = [''http'', ''https''],
      with_auth = True, param_struct_of = DeleteKey_Params,
      writes = DeleteKey_WriteToRequest, reader = DeleteKey_Reader,
      result_type = ''runtime_configuration.DeleteKeyOK''\<rparr>"

definition GetConfig_Params :: "'m param_struct" where
  "GetConfig_Params =
     \<lparr>struct_fields = [(''CUUID'', UUIDType), (''IncludeInherited'', Pointer BoolType), (''Scope'', UUIDType)],
      struct_defaults = [(''IncludeInherited'', Address (Truth False))]\<rparr>"

definition GetConfig_WriteToRequest :: "write_stmt list" where
  "GetConfig_WriteToRequest =
     [PathParam ''cUUID'' ''CUUID'', QueryParam ''includeInherited'' ''IncludeInherited'',
      PathParam ''scope'' ''Scope'']"

definition GetConfig_Reader :: "response_case list" where
  "GetConfig_Reader =
     [\<lparr>status_code = 200, response_type = ''runtime_configuration.GetConfigOK'',
       payload_type = Pointer (Model ''RuntimeConfigData''), is_success = True,
       error_label = ''[GET /api/v1/customers/{cUUID}/runtime_config/{scope}][200] getConfigOK''\<rparr>]"

definition GetConfig_Operation :: "'m operation" where
  "GetConfig_Operation =
     \<lparr>op_id = ''getConfig'', op_method = ''GET'',
      path_pattern = ''/api/v1/customers/{cUUID}/runtime_config/{scope}'',
      produces = [''application/json''], consumes = [''application/json''], schemes = [''http'', ''https''],
      with_auth = True, param_struct_of = GetConfig_Params,
      writes = GetConfig_WriteToRequest, reader = GetConfig_Reader,
      result_type = ''runtime_configuration.GetConfigOK''\<rparr>"

definition GetConfigurationKey_Params :: "'m param_struct" where
  "GetConfigurationKey_Params =
     \<lparr>struct_fields = [(''CUUID'', UUIDType), (''Key'', StringType), (''Scope'', UUIDType)],
      struct_defaults = []\<rparr>"

definition GetConfigurationKey_WriteToRequest :: "write_stmt list" where
  "GetConfigurationKey_WriteToRequest =
     [PathParam ''cUUID'' ''CUUID'', PathParam ''key'' ''Key'', PathParam ''scope'' ''Scope'']"

definition GetConfigurationKey_Reader :: "response_case list" where
  "GetConfigurationKey_Reader =
     [\<lparr>status_code = 200, response_type = ''runtime_configuration.GetConfigurationKeyOK'',
       payload_type = StringType, is_success = True,
       error_label = ''[GET /api/v1/customers/{cUUID}/runtime_config/{scope}/key/{key}][200] getConfigurationKeyOK''\<rparr>]"

definition GetConfigurationKey_Operation :: "'m operation" where
  "GetConfigurationKey_Operation =
     \<lparr>op_id = ''getConfigurationKey'', op_method = ''GET'',
      path_pattern = ''/api/v1/customers/{cUUID}/runtime_config/{scope}/key/{key}'',
      produces = [''text/plain''], consumes = [''application/json''], schemes = [''http'', ''https''],
      with_auth = True, param_struct_of = GetConfigurationKey_Params,
      writes = GetConfigurationKey_WriteToRequest, reader = GetConfigurationKey_Reader,
      result_type = ''runtime_configuration.GetConfigurationKeyOK''\<rparr>"

definition ListKeys_Params :: "'m param_struct" where
  "ListKeys_Params =
     \<lparr>struct_fields = [],
      struct_defaults = []\<rparr>"

definition ListKeys_WriteToRequest :: "write_stmt list" where
  "ListKeys_WriteToRequest =
     []"

definition ListKeys_Reader :: "response_case list" where
  "ListKeys_Reader =
     [\<lparr>status_code = 200, response_type = ''runtime_configuration.ListKeysOK'',
       payload_type = Slice StringType, is_success = True,
       error_label = ''[GET /api/v1/runtime_config/mutable_keys][200] listKeysOK''\<rparr>]"

definition ListKeys_Operation :: "'m operation" where
  "ListKeys_Operation =
     \<lparr>op_id = ''listKeys'', op_method = ''GET'',
      path_pattern = ''/api/v1/runtime_config/mutable_keys'',
      produces = [''application/json''], consumes = [''application/json''], schemes = [''http'', ''https''],
      with_auth = True, param_struct_of = ListKeys_Params,
      writes = ListKeys_WriteToRequest, reader = ListKeys_Reader,
      result_type = ''runtime_configuration.ListKeysOK''\<rparr>"

definition ListScopes_Params :: "'m param_struct" where
  "ListScopes_Params =
     \<lparr>struct_fields = [(''CUUID'', UUIDType)],
      struct_defaults = []\<rparr>"

definition ListScopes_WriteToRequest :: "write_stmt list" where
  "ListScopes_WriteToRequest =
     [PathParam ''cUUID'' ''CUUID'']"

definition ListScopes_Reader :: "response_case list" where
  "ListScopes_Reader =
     [\<lparr>status_code = 200, response_type = ''runtime_configuration.ListScopesOK'',
       payload_type = Pointer (Model ''RuntimeConfigData''), is_success = True,
       error_label = ''[GET /api/v1/customers/{cUUID}/runtime_config/scopes][200] listScopesOK''\<rparr>]"

definition ListScopes_Operation :: "'m operation" where
  "ListScopes_Operation =
     \<lparr>op_id = ''listScopes'', op_method = ''GET'',
      path_pattern = ''/api/v1/customers/{cUUID}/runtime_config/scopes'',
      produces = [''application/json''], consumes = [''application/json''], schemes = [''http'', ''https''],
      with_auth = True, param_struct_of = ListScopes_Params,
      writes = ListScopes_WriteToRequest, reader = ListScopes_Reader,
      result_type = ''runtime_configuration.ListScopesOK''\<rparr>"

definition SetKey_Params :: "'m param_struct" where
  "SetKey_Params =
     \<lparr>struct_fields = [(''CUUID'', UUIDType), (''Key'', StringType), (''NewValue'', StringType),
                       (''Scope'', UUIDType)],
      struct_defaults = []\<rparr>"

definition SetKey_WriteToRequest :: "write_stmt list" where
  "SetKey_WriteToRequest =
     [PathParam ''cUUID'' ''CUUID'', PathParam ''key'' ''Key'', BodyValue ''NewValue'', PathParam ''scope'' ''Scope'']"

definition SetKey_Reader :: "response_case list" where
  "SetKey_Reader =
     [\<lparr>status_code = 200, response_type = ''runtime_configuration.SetKeyOK'',
       payload_type = Pointer (Model ''YBPSuccess''), is_success = True,
       error_label = ''[PUT /api/v1/customers/{cUUID}/runtime_config/{scope}/key/{key}][200] setKeyOK''\<rparr>]"

definition SetKey_Operation :: "'m operation" where
  "SetKey_Operation =
     \<lparr>op_id = ''setKey'', op_method = ''PUT'',
      path_pattern = ''/api/v1/customers/{cUUID}/runtime_config/{scope}/key/{key}'',
      produces = [''application/json''], consumes = [''text/plain''], schemes = [''http'', ''https''],
      with_auth = True, param_struct_of = SetKey_Params,
      writes = SetKey_WriteToRequest, reader = SetKey_Reader,
      result_type = ''runtime_configuration.SetKeyOK''\<rparr>"

definition runtime_configuration_operations :: "'m operation list" where
  "runtime_configuration_operations =
     [DeleteKey_Operation, GetConfig_Operation, GetConfigurationKey_Operation, ListKeys_Operation,
      ListScopes_Operation, SetKey_Operation]"

lemmas runtime_configuration_defs =
  DeleteKey_Operation_def DeleteKey_Params_def DeleteKey_WriteToRequest_def DeleteKey_Reader_def
  GetConfig_Operation_def GetConfig_Params_def GetConfig_WriteToRequest_def GetConfig_Reader_def
  GetConfigurationKey_Operation_def GetConfigurationKey_Params_def GetConfigurationKey_WriteToRequest_def GetConfigurationKey_Reader_def
  ListKeys_Operation_def ListKeys_Params_def ListKeys_WriteToRequest_def ListKeys_Reader_def
  ListScopes_Operation_def ListScopes_Params_def ListScopes_WriteToRequest_def ListScopes_Reader_def
  SetKey_Operation_def SetKey_Params_def SetKey_WriteToRequest_def SetKey_Reader_def

lemma runtime_configuration_ok: "list_all operation_ok runtime_configuration_operations"
  by code_simp

end
