(* ===== verification/ApiAlerts.thy ===== *)
theory ApiAlerts
  imports Swagger
begin

section \<open>The generated client: alerts and maintenance windows\<close>

text \<open>
  The operations of the packages \<open>alerts\<close>, \<open>maintenance_windows\<close> of
  \<open>yugaware-client/pkg/client/swagger/client\<close>, as theory \<open>Swagger\<close> reads them; a list \<open>..._operations\<close>
  is the \<open>ClientService\<close> interface of a package.
\<close>

subsection \<open>alerts\<close>

definition Acknowledge_Params :: "'m param_struct" where
  "Acknowledge_Params =
     \<lparr>struct_fields = [(''AlertUUID'', UUIDType), (''CUUID'', UUIDType)],
      struct_defaults = []\<rparr>"

definition Acknowledge_WriteToRequest :: "write_stmt list" where
  "Acknowledge_WriteToRequest =
     [PathParam ''alertUUID'' ''AlertUUID'', PathParam ''cUUID'' ''CUUID'']"

definition Acknowledge_Reader :: "response_case list" where
  "Acknowledge_Reader =
     [\<lparr>status_code = 200, response_type = ''alerts.AcknowledgeOK'',
       payload_type = Pointer (Model ''Alert''), is_success = True,
       error_label = ''[POST /api/v1/customers/{cUUID}/alerts/{alertUUID}/acknowledge][200] acknowledgeOK''\<rparr>]"

definition Acknowledge_Operation :: "'m operation" where
  "Acknowledge_Operation =
     \<lparr>op_id = ''acknowledge'', op_method = ''POST'',
      path_pattern = ''/api/v1/customers/{cUUID}/alerts/{alertUUID}/acknowledge'',
      produces = [''application/json''], consumes = [''application/json''], schemes = [''http'', ''https''],
      with_auth = True, param_struct_of = Acknowledge_Params,
      writes = Acknowledge_WriteToRequest, reader = Acknowledge_Reader,
      result_type = ''alerts.AcknowledgeOK''\<rparr>"

definition AcknowledgeByFilter_Params :: "'m param_struct" where
  "AcknowledgeByFilter_Params =
     \<lparr>struct_fields = [(''AcknowledgeAlertsRequest'', Pointer (Model ''AlertAPIFilter'')),
                       (''CUUID'', UUIDType)],
      struct_defaults = []\<rparr>"

definition AcknowledgeByFilter_WriteToRequest :: "write_stmt list" where
  "AcknowledgeByFilter_WriteToRequest =
     [BodyParam ''AcknowledgeAlertsRequest'', PathParam ''cUUID'' ''CUUID'']"

definition AcknowledgeByFilter_Reader :: "response_case list" where
  "AcknowledgeByFilter_Reader =
     [\<lparr>status_code = 200, response_type = ''alerts.AcknowledgeByFilterOK'',
       payload_type = Slice (Pointer (Model ''Alert'')), is_success = True,
       error_label = ''[POST /api/v1/customers/{cUUID}/alerts/acknowledge][200] acknowledgeByFilterOK''\<rparr>]"

definition AcknowledgeByFilter_Operation :: "'m operation" where
  "AcknowledgeByFilter_Operation =
     \<lparr>op_id = ''acknowledgeByFilter'', op_method = ''POST'',
      path_pattern = ''/api/v1/customers/{cUUID}/alerts/acknowledge'',
      produces = [''application/json''], consumes = [''application/json''], schemes = [''http'', ''https''],
      with_auth = True, param_struct_of = AcknowledgeByFilter_Params,
      writes = AcknowledgeByFilter_WriteToRequest, reader = AcknowledgeByFilter_Reader,
      result_type = ''alerts.AcknowledgeByFilterOK''\<rparr>"

definition CountAlerts_Params :: "'m param_struct" where
  "CountAlerts_Params =
     \<lparr>struct_fields = [(''CountAlertsRequest'', Pointer (Model ''AlertAPIFilter'')), (''CUUID'', UUIDType)],
      struct_defaults = []\<rparr>"

definition CountAlerts_WriteToRequest :: "write_stmt list" where
  "CountAlerts_WriteToRequest =
     [BodyParam ''CountAlertsRequest'', PathParam ''cUUID'' ''CUUID'']"

definition CountAlerts_Reader :: "response_case list" where
  "CountAlerts_Reader =
     [\<lparr>status_code = 200, response_type = ''alerts.CountAlertsOK'',
       payload_type = Int32Type, is_success = True,
       error_label = ''[POST /api/v1/customers/{cUUID}/alerts/count][200] countAlertsOK''\<rparr>]"

definition CountAlerts_Operation :: "'m operation" where
  "CountAlerts_Operation =
     \<lparr>op_id = ''countAlerts'', op_method = ''POST'',
      path_pattern = ''/api/v1/customers/{cUUID}/alerts/count'',
      produces = [''application/json''], consumes = [''application/json''], schemes = [''http'', ''https''],
      with_auth = True, param_struct_of = CountAlerts_Params,
      writes = CountAlerts_WriteToRequest, reader = CountAlerts_Reader,
      result_type = ''alerts.CountAlertsOK''\<rparr>"

definition CreateAlertChannel_Params :: "'m param_struct" where
  "CreateAlertChannel_Params =
     \<lparr>struct_fields = [(''CreateAlertChannelRequest'', Pointer (Model ''AlertChannelFormData'')),
                       (''CUUID'', UUIDType)],
      struct_defaults = []\<rparr>"

definition CreateAlertChannel_WriteToRequest :: "write_stmt list" where
  "CreateAlertChannel_WriteToRequest =
     [BodyParam ''CreateAlertChannelRequest'', PathParam ''cUUID'' ''CUUID'']"

definition CreateAlertChannel_Reader :: "response_case list" where
  "CreateAlertChannel_Reader =
     [\<lparr>status_code = 200, response_type = ''alerts.CreateAlertChannelOK'',
       payload_type = Pointer (Model ''AlertChannel''), is_success = True,
       error_label = ''[POST /api/v1/customers/{cUUID}/alert_channels][200] createAlertChannelOK''\<rparr>]"

definition CreateAlertChannel_Operation :: "'m operation" where
  "CreateAlertChannel_Operation =
     \<lparr>op_id = ''createAlertChannel'', op_method = ''POST'',
      path_pattern = ''/api/v1/customers/{cUUID}/alert_channels'',
      produces = [''application/json''], consumes = [''application/json''], schemes = [''http'', ''https''],
      with_auth = True, param_struct_of = CreateAlertChannel_Params,
      writes = CreateAlertChannel_WriteToRequest, reader = CreateAlertChannel_Reader,
      result_type = ''alerts.CreateAlertChannelOK''\<rparr>"

definition CreateAlertConfiguration_Params :: "'m param_struct" where
  "CreateAlertConfiguration_Params =
     \<lparr>struct_fields = [(''CreateAlertConfigurationRequest'', Pointer (Model ''AlertConfiguration'')),
                       (''CUUID'', UUIDType)],
      struct_defaults = []\<rparr>"

definition CreateAlertConfiguration_WriteToRequest :: "write_stmt list" where
  "CreateAlertConfiguration_WriteToRequest =
     [BodyParam ''CreateAlertConfigurationRequest'', PathParam ''cUUID'' ''CUUID'']"

definition CreateAlertConfiguration_Reader :: "response_case list" where
  "CreateAlertConfiguration_Reader =
     [\<lparr>status_code = 200, response_type = ''alerts.CreateAlertConfigurationOK'',
       payload_type = Pointer (Model ''AlertConfiguration''), is_success = True,
       error_label = ''[POST /api/v1/customers/{cUUID}/alert_configurations][200] createAlertConfigurationOK''\<rparr>]"

definition CreateAlertConfiguration_Operation :: "'m operation" where
  "CreateAlertConfiguration_Operation =
     \<lparr>op_id = ''createAlertConfiguration'', op_method = ''POST'',
      path_pattern = ''/api/v1/customers/{cUUID}/alert_configurations'',
      produces = [''application/json''], consumes = [''application/json''], schemes = [''http'', ''https''],
      with_auth = True, param_struct_of = CreateAlertConfiguration_Params,
      writes = CreateAlertConfiguration_WriteToRequest, reader = CreateAlertConfiguration_Reader,
      result_type = ''alerts.CreateAlertConfigurationOK''\<rparr>"

definition CreateAlertDestination_Params :: "'m param_struct" where
  "CreateAlertDestination_Params =
     \<lparr>struct_fields = [(''CreateAlertDestinationRequest'', Pointer (Model ''AlertDestinationFormData'')),
                       (''CUUID'', UUIDType)],
      struct_defaults = []\<rparr>"

definition CreateAlertDestination_WriteToRequest :: "write_stmt list" where
  "CreateAlertDestination_WriteToRequest =
     [BodyParam ''CreateAlertDestinationRequest'', PathParam ''cUUID'' ''CUUID'']"

definition CreateAlertDestination_Reader :: "response_case list" where
  "CreateAlertDestination_Reader =
     [\<lparr>status_code = 200, response_type = ''alerts.CreateAlertDestinationOK'',
       payload_type = Pointer (Model ''AlertDestination''), is_success = True,
       error_label = ''[POST /api/v1/customers/{cUUID}/alert_destinations][200] createAlertDestinationOK''\<rparr>]"

definition CreateAlertDestination_Operation :: "'m operation" where
  "CreateAlertDestination_Operation =
     \<lparr>op_id = ''createAlertDestination'', op_method = ''POST'',
      path_pattern = ''/api/v1/customers/{cUUID}/alert_destinations'',
      produces = [''application/json''], consumes = [''application/json''], schemes = [''http'', ''https''],
      with_auth = True, param_struct_of = CreateAlertDestination_Params,
      writes = CreateAlertDestination_WriteToRequest, reader = CreateAlertDestination_Reader,
      result_type = ''alerts.CreateAlertDestinationOK''\<rparr>"

definition DeleteAlertChannel_Params :: "'m param_struct" where
  "DeleteAlertChannel_Params =
     \<lparr>struct_fields = [(''AcUUID'', UUIDType), (''CUUID'', UUIDType)],
      struct_defaults = []\<rparr>"

definition DeleteAlertChannel_WriteToRequest :: "write_stmt list" where
  "DeleteAlertChannel_WriteToRequest =
     [PathParam ''acUUID'' ''AcUUID'', PathParam ''cUUID'' ''CUUID'']"

definition DeleteAlertChannel_Reader :: "response_case list" where
  "DeleteAlertChannel_Reader =
     [\<lparr>status_code = 200, response_type = ''alerts.DeleteAlertChannelOK'',
       payload_type = Pointer (Model ''YBPSuccess''), is_success = True,
       error_label = ''[DELETE /api/v1/customers/{cUUID}/alert_channels/{acUUID}][200] deleteAlertChannelOK''\<rparr>]"

definition DeleteAlertChannel_Operation :: "'m operation" where
  "DeleteAlertChannel_Operation =
     \<lparr>op_id = ''deleteAlertChannel'', op_method = ''DELETE'',
      path_pattern = ''/api/v1/customers/{cUUID}/alert_channels/{acUUID}'',
      produces = [''application/json''], consumes = [''application/json''], schemes = [''http'', ''https''],
      with_auth = True, param_struct_of = DeleteAlertChannel_Params,
      writes = DeleteAlertChannel_WriteToRequest, reader = DeleteAlertChannel_Reader,
      result_type = ''alerts.DeleteAlertChannelOK''\<rparr>"

definition DeleteAlertConfiguration_Params :: "'m param_struct" where
  "DeleteAlertConfiguration_Params =
     \<lparr>struct_fields = [(''CUUID'', UUIDType), (''ConfigurationUUID'', UUIDType)],
      struct_defaults = []\<rparr>"

definition DeleteAlertConfiguration_WriteToRequest :: "write_stmt list" where
  "DeleteAlertConfiguration_WriteToRequest =
     [PathParam ''cUUID'' ''CUUID'', PathParam ''configurationUUID'' ''ConfigurationUUID'']"

definition DeleteAlertConfiguration_Reader :: "response_case list" where
  "DeleteAlertConfiguration_Reader =
     [\<lparr>status_code = 200, response_type = ''alerts.DeleteAlertConfigurationOK'',
       payload_type = Pointer (Model ''YBPSuccess''), is_success = True,
       error_label = ''[DELETE /api/v1/customers/{cUUID}/alert_configurations/{configurationUUID}][200] deleteAlertConfigurationOK''\<rparr>]"

definition DeleteAlertConfiguration_Operation :: "'m operation" where
  "DeleteAlertConfiguration_Operation =
     \<lparr>op_id = ''deleteAlertConfiguration'', op_method = ''DELETE'',
      path_pattern = ''/api/v1/customers/{cUUID}/alert_configurations/{configurationUUID}'',
      produces = [''application/json''], consumes = [''application/json''], schemes = [''http'', ''https''],
      with_auth = True, param_struct_of = DeleteAlertConfiguration_Params,
      writes = DeleteAlertConfiguration_WriteToRequest, reader = DeleteAlertConfiguration_Reader,
      result_type = ''alerts.DeleteAlertConfigurationOK''\<rparr>"

definition DeleteAlertDestination_Params :: "'m param_struct" where
  "DeleteAlertDestination_Params =
     \<lparr>struct_fields = [(''AdUUID'', UUIDType), (''CUUID'', UUIDType)],
      struct_defaults = []\<rparr>"

definition DeleteAlertDestination_WriteToRequest :: "write_stmt list" where
  "DeleteAlertDestination_WriteToRequest =
     [PathParam ''adUUID'' ''AdUUID'', PathParam ''cUUID'' ''CUUID'']"

definition DeleteAlertDestination_Reader :: "response_case list" where
  "DeleteAlertDestination_Reader =
     [\<lparr>status_code = 200, response_type = ''alerts.DeleteAlertDestinationOK'',
       payload_type = Pointer (Model ''YBPSuccess''), is_success = True,
       error_label = ''[DELETE /api/v1/customers/{cUUID}/alert_destinations/{adUUID}][200] deleteAlertDestinationOK''\<rparr>]"

definition DeleteAlertDestination_Operation :: "'m operation" where
  "DeleteAlertDestination_Operation =
     \<lparr>op_id = ''deleteAlertDestination'', op_method = ''DELETE'',
      path_pattern = ''/api/v1/customers/{cUUID}/alert_destinations/{adUUID}'',
      produces = [''application/json''], consumes = [''application/json''], schemes = [''http'', ''https''],
      with_auth = True, param_struct_of = DeleteAlertDestination_Params,
      writes = DeleteAlertDestination_WriteToRequest, reader = DeleteAlertDestination_Reader,
      result_type = ''alerts.DeleteAlertDestinationOK''\<rparr>"

definition Get_Params :: "'m param_struct" where
  "Get_Params =
     \<lparr>struct_fields = [(''AlertUUID'', UUIDType), (''CUUID'', UUIDType)],
      struct_defaults = []\<rparr>"

definition Get_WriteToRequest :: "write_stmt list" where
  "Get_WriteToRequest =
     [PathParam ''alertUUID'' ''AlertUUID'', PathParam ''cUUID'' ''CUUID'']"

definition Get_Reader :: "response_case list" where
  "Get_Reader =
     [\<lparr>status_code = 200, response_type = ''alerts.GetOK'',
       payload_type = Pointer (Model ''Alert''), is_success = True,
       error_label = ''[GET /api/v1/customers/{cUUID}/alerts/{alertUUID}][200] getOK''\<rparr>]"

definition Get_Operation :: "'m operation" where
  "Get_Operation =
     \<lparr>op_id = ''get'', op_method = ''GET'',
      path_pattern = ''/api/v1/customers/{cUUID}/alerts/{alertUUID}'',
      produces = [''application/json''], consumes = [''application/json''], schemes = [''http'', ''https''],
      with_auth = True, param_struct_of = Get_Params,
      writes = Get_WriteToRequest, reader = Get_Reader,
      result_type = ''alerts.GetOK''\<rparr>"

definition GetAlertChannel_Params :: "'m param_struct" where
  "GetAlertChannel_Params =
     \<lparr>struct_fields = [(''AcUUID'', UUIDType), (''CUUID'', UUIDType)],
      struct_defaults = []\<rparr>"

definition GetAlertChannel_WriteToRequest :: "write_stmt list" where
  "GetAlertChannel_WriteToRequest =
     [PathParam ''acUUID'' ''AcUUID'', PathParam ''cUUID'' ''CUUID'']"

definition GetAlertChannel_Reader :: "response_case list" where
  "GetAlertChannel_Reader =
     [\<lparr>status_code = 200, response_type = ''alerts.GetAlertChannelOK'',
       payload_type = Pointer (Model ''AlertChannel''), is_success = True,
       error_label = ''[GET /api/v1/customers/{cUUID}/alert_channels/{acUUID}][200] getAlertChannelOK''\<rparr>]"

definition GetAlertChannel_Operation :: "'m operation" where
  "GetAlertChannel_Operation =
     \<lparr>op_id = ''getAlertChannel'', op_method = ''GET'',
      path_pattern = ''/api/v1/customers/{cUUID}/alert_channels/{acUUID}'',
      produces = [''application/json''], consumes = [''application/json''], schemes = [''http'', ''https''],
      with_auth = True, param_struct_of = GetAlertChannel_Params,
      writes = GetAlertChannel_WriteToRequest, reader = GetAlertChannel_Reader,
      result_type = ''alerts.GetAlertChannelOK''\<rparr>"

definition GetAlertConfiguration_Params :: "'m param_struct" where
  "GetAlertConfiguration_Params =
     \<lparr>struct_fields = [(''CUUID'', UUIDType), (''ConfigurationUUID'', UUIDType)],
      struct_defaults = []\<rparr>"

definition GetAlertConfiguration_WriteToRequest :: "write_stmt list" where
  "GetAlertConfiguration_WriteToRequest =
     [PathParam ''cUUID'' ''CUUID'', PathParam ''configurationUUID'' ''ConfigurationUUID'']"

definition GetAlertConfiguration_Reader :: "response_case list" where
  "GetAlertConfiguration_Reader =
     [\<lparr>status_code = 200, response_type = ''alerts.GetAlertConfigurationOK'',
       payload_type = Pointer (Model ''AlertConfiguration''), is_success = True,
       error_label = ''[GET /api/v1/customers/{cUUID}/alert_configurations/{configurationUUID}][200] getAlertConfigurationOK''\<rparr>]"

definition GetAlertConfiguration_Operation :: "'m operation" where
  "GetAlertConfiguration_Operation =
     \<lparr>op_id = ''getAlertConfiguration'', op_method = ''GET'',
      path_pattern = ''/api/v1/customers/{cUUID}/alert_configurations/{configurationUUID}'',
      produces = [''application/json''], consumes = [''application/json''], schemes = [''http'', ''https''],
      with_auth = True, param_struct_of = GetAlertConfiguration_Params,
      writes = GetAlertConfiguration_WriteToRequest, reader = GetAlertConfiguration_Reader,
      result_type = ''alerts.GetAlertConfigurationOK''\<rparr>"

definition GetAlertDestination_Params :: "'m param_struct" where
  "GetAlertDestination_Params =
     \<lparr>struct_fields = [(''AdUUID'', UUIDType), (''CUUID'', UUIDType)],
      struct_defaults = []\<rparr>"

definition GetAlertDestination_WriteToRequest :: "write_stmt list" where
  "GetAlertDestination_WriteToRequest =
     [PathParam ''adUUID'' ''AdUUID'', PathParam ''cUUID'' ''CUUID'']"

definition GetAlertDestination_Reader :: "response_case list" where
  "GetAlertDestination_Reader =
     [\<lparr>status_code = 200, response_type = ''alerts.GetAlertDestinationOK'',
       payload_type = Pointer (Model ''AlertDestination''), is_success = True,
       error_label = ''[GET /api/v1/customers/{cUUID}/alert_destinations/{adUUID}][200] getAlertDestinationOK''\<rparr>]"

definition GetAlertDestination_Operation :: "'m operation" where
  "GetAlertDestination_Operation =
     \<lparr>op_id = ''getAlertDestination'', op_method = ''GET'',
      path_pattern = ''/api/v1/customers/{cUUID}/alert_destinations/{adUUID}'',
      produces = [''application/json''], consumes = [''application/json''], schemes = [''http'', ''https''],
      with_auth = True, param_struct_of = GetAlertDestination_Params,
      writes = GetAlertDestination_WriteToRequest, reader = GetAlertDestination_Reader,
      result_type = ''alerts.GetAlertDestinationOK''\<rparr>"

definition ListActive_Params :: "'m param_struct" where
  "ListActive_Params =
     \<lparr>struct_fields = [(''CUUID'', UUIDType)],
      struct_defaults = []\<rparr>"

definition ListActive_WriteToRequest :: "write_stmt list" where
  "ListActive_WriteToRequest =
     [PathParam ''cUUID'' ''CUUID'']"

definition ListActive_Reader :: "response_case list" where
  "ListActive_Reader =
     [\<lparr>status_code = 200, response_type = ''alerts.ListActiveOK'',
       payload_type = Slice (Pointer (Model ''Alert'')), is_success = True,
       error_label = ''[GET /api/v1/customers/{cUUID}/alerts/active][200] listActiveOK''\<rparr>]"

definition ListActive_Operation :: "'m operation" where
  "ListActive_Operation =
     \<lparr>op_id = ''listActive'', op_method = ''GET'',
      path_pattern = ''/api/v1/customers/{cUUID}/alerts/active'',
      produces = [''application/json''], consumes = [''application/json''], schemes = [''http'', ''https''],
      with_auth = True, param_struct_of = ListActive_Params,
      writes = ListActive_WriteToRequest, reader = ListActive_Reader,
      result_type = ''alerts.ListActiveOK''\<rparr>"

definition ListAlertChannels_Params :: "'m param_struct" where
  "ListAlertChannels_Params =
     \<lparr>struct_fields = [(''CUUID'', UUIDType)],
      struct_defaults = []\<rparr>"

definition ListAlertChannels_WriteToRequest :: "write_stmt list" where
  "ListAlertChannels_WriteToRequest =
     [PathParam ''cUUID'' ''CUUID'']"

definition ListAlertChannels_Reader :: "response_case list" where
  "ListAlertChannels_Reader =
     [\<lparr>status_code = 200, response_type = ''alerts.ListAlertChannelsOK'',
       payload_type = Slice (Pointer (Model ''AlertChannel'')), is_success = True,
       error_label = ''[GET /api/v1/customers/{cUUID}/alert_channels][200] listAlertChannelsOK''\<rparr>]"

definition ListAlertChannels_Operation :: "'m operation" where
  "ListAlertChannels_Operation =
     \<lparr>op_id = ''listAlertChannels'', op_method = ''GET'',
      path_pattern = ''/api/v1/customers/{cUUID}/alert_channels'',
      produces = [''application/json''], consumes = [''application/json''], schemes = [''http'', ''https''],
      with_auth = True, param_struct_of = ListAlertChannels_Params,
      writes = ListAlertChannels_WriteToRequest, reader = ListAlertChannels_Reader,
      result_type = ''alerts.ListAlertChannelsOK''\<rparr>"

definition ListAlertConfigurations_Params :: "'m param_struct" where
  "ListAlertConfigurations_Params =
     \<lparr>struct_fields = [(''ListAlertConfigurationsRequest'', Pointer (Model ''AlertConfigurationAPIFilter'')),
                       (''CUUID'', UUIDType)],
      struct_defaults = []\<rparr>"

definition ListAlertConfigurations_WriteToRequest :: "write_stmt list" where
  "ListAlertConfigurations_WriteToRequest =
     [BodyParam ''ListAlertConfigurationsRequest'', PathParam ''cUUID'' ''CUUID'']"

definition ListAlertConfigurations_Reader :: "response_case list" where
  "ListAlertConfigurations_Reader =
     [\<lparr>status_code = 200, response_type = ''alerts.ListAlertConfigurationsOK'',
       payload_type = Slice (Pointer (Model ''AlertConfiguration'')), is_success = True,
       error_label = ''[POST /api/v1/customers/{cUUID}/alert_configurations/list][200] listAlertConfigurationsOK''\<rparr>]"

definition ListAlertConfigurations_Operation :: "'m operation" where
  "ListAlertConfigurations_Operation =
     \<lparr>op_id = ''listAlertConfigurations'', op_method = ''POST'',
      path_pattern = ''/api/v1/customers/{cUUID}/alert_configurations/list'',
      produces = [''application/json''], consumes = [''application/json''], schemes = [''http'', ''https''],
      with_auth = True, param_struct_of = ListAlertConfigurations_Params,
      writes = ListAlertConfigurations_WriteToRequest, reader = ListAlertConfigurations_Reader,
      result_type = ''alerts.ListAlertConfigurationsOK''\<rparr>"

definition ListAlertDestinations_Params :: "'m param_struct" where
  "ListAlertDestinations_Params =
     \<lparr>struct_fields = [(''CUUID'', UUIDType)],
      struct_defaults = []\<rparr>"

definition ListAlertDestinations_WriteToRequest :: "write_stmt list" where
  "ListAlertDestinations_WriteToRequest =
     [PathParam ''cUUID'' ''CUUID'']"

definition ListAlertDestinations_Reader :: "response_case list" where
  "ListAlertDestinations_Reader =
     [\<lparr>status_code = 200, response_type = ''alerts.ListAlertDestinationsOK'',
       payload_type = Slice (Pointer (Model ''AlertDefinition'')), is_success = True,
       error_label = ''[GET /api/v1/customers/{cUUID}/alert_destinations][200] listAlertDestinationsOK''\<rparr>]"

definition ListAlertDestinations_Operation :: "'m operation" where
  "ListAlertDestinations_Operation =
     \<lparr>op_id = ''listAlertDestinations'', op_method = ''GET'',
      path_pattern = ''/api/v1/customers/{cUUID}/alert_destinations'',
      produces = [''application/json''], consumes = [''application/json''], schemes = [''http'', ''https''],
      with_auth = True, param_struct_of = ListAlertDestinations_Params,
      writes = ListAlertDestinations_WriteToRequest, reader = ListAlertDestinations_Reader,
      result_type = ''alerts.ListAlertDestinationsOK''\<rparr>"

definition ListAlertTemplates_Params :: "'m param_struct" where
  "ListAlertTemplates_Params =
     \<lparr>struct_fields = [(''ListTemplatesRequest'', Pointer (Model ''AlertTemplateAPIFilter'')),
                       (''CUUID'', UUIDType)],
      struct_defaults = []\<rparr>"

definition ListAlertTemplates_WriteToRequest :: "write_stmt list" where
  "ListAlertTemplates_WriteToRequest =
     [BodyParam ''ListTemplatesRequest'', PathParam ''cUUID'' ''CUUID'']"

definition ListAlertTemplates_Reader :: "response_case list" where
  "ListAlertTemplates_Reader =
     [\<lparr>status_code = 200, response_type = ''alerts.ListAlertTemplatesOK'',
       payload_type = Slice (Pointer (Model ''AlertConfigurationTemplate'')), is_success = True,
       error_label = ''[POST /api/v1/customers/{cUUID}/alert_templates][200] listAlertTemplatesOK''\<rparr>]"

definition ListAlertTemplates_Operation :: "'m operation" where
  "ListAlertTemplates_Operation =
     \<lparr>op_id = ''listAlertTemplates'', op_method = ''POST'',
      path_pattern = ''/api/v1/customers/{cUUID}/alert_templates'',
      produces = [''application/json''], consumes = [''application/json''], schemes = [''http'', ''https''],
      with_auth = True, param_struct_of = ListAlertTemplates_Params,
      writes = ListAlertTemplates_WriteToRequest, reader = ListAlertTemplates_Reader,
      result_type = ''alerts.ListAlertTemplatesOK''\<rparr>"

definition ListOfAlerts_Params :: "'m param_struct" where
  "ListOfAlerts_Params =
     \<lparr>struct_fields = [(''CUUID'', UUIDType)],
      struct_defaults = []\<rparr>"

definition ListOfAlerts_WriteToRequest :: "write_stmt list" where
  "ListOfAlerts_WriteToRequest =
     [PathParam ''cUUID'' ''CUUID'']"

definition ListOfAlerts_Reader :: "response_case list" where
  "ListOfAlerts_Reader =
     [\<lparr>status_code = 200, response_type = ''alerts.ListOfAlertsOK'',
       payload_type = Slice (Pointer (Model ''Alert'')), is_success = True,
       error_label = ''[GET /api/v1/customers/{cUUID}/alerts][200] listOfAlertsOK''\<rparr>]"

definition ListOfAlerts_Operation :: "'m operation" where
  "ListOfAlerts_Operation =
     \<lparr>op_id = ''listOfAlerts'', op_method = ''GET'',
      path_pattern = ''/api/v1/customers/{cUUID}/alerts'',
      produces = [''application/json''], consumes = [''application/json''], schemes = [''http'', ''https''],
      with_auth = True, param_struct_of = ListOfAlerts_Params,
      writes = ListOfAlerts_WriteToRequest, reader = ListOfAlerts_Reader,
      result_type = ''alerts.ListOfAlertsOK''\<rparr>"

definition PageAlertConfigurations_Params :: "'m param_struct" where
  "PageAlertConfigurations_Params =
     \<lparr>struct_fields = [
                       (''PageAlertConfigurationsRequest'', Pointer (Model ''AlertConfigurationPagedAPIQuery'')),
                       (''CUUID'', UUIDType)],
      struct_defaults = []\<rparr>"

definition PageAlertConfigurations_WriteToRequest :: "write_stmt list" where
  "PageAlertConfigurations_WriteToRequest =
     [BodyParam ''PageAlertConfigurationsRequest'', PathParam ''cUUID'' ''CUUID'']"

definition PageAlertConfigurations_Reader :: "response_case list" where
  "PageAlertConfigurations_Reader =
     [\<lparr>status_code = 200, response_type = ''alerts.PageAlertConfigurationsOK'',
       payload_type = Pointer (Model ''AlertConfigurationPagedResponse''), is_success = True,
       error_label = ''[POST /api/v1/customers/{cUUID}/alert_configurations/page][200] pageAlertConfigurationsOK''\<rparr>]"

definition PageAlertConfigurations_Operation :: "'m operation" where
  "PageAlertConfigurations_Operation =
     \<lparr>op_id = ''pageAlertConfigurations'', op_method = ''POST'',
      path_pattern = ''/api/v1/customers/{cUUID}/alert_configurations/page'',
      produces = [''application/json''], consumes = [''application/json''], schemes = [''http'', ''https''],
      with_auth = True, param_struct_of = PageAlertConfigurations_Params,
      writes = PageAlertConfigurations_WriteToRequest, reader = PageAlertConfigurations_Reader,
      result_type = ''alerts.PageAlertConfigurationsOK''\<rparr>"

definition PageAlerts_Params :: "'m param_struct" where
  "PageAlerts_Params =
     \<lparr>struct_fields = [(''PageAlertsRequest'', Pointer (Model ''AlertPagedAPIQuery'')), (''CUUID'', UUIDType)],
      struct_defaults = []\<rparr>"

definition PageAlerts_WriteToRequest :: "write_stmt list" where
  "PageAlerts_WriteToRequest =
     [BodyParam ''PageAlertsRequest'', PathParam ''cUUID'' ''CUUID'']"

definition PageAlerts_Reader :: "response_case list" where
  "PageAlerts_Reader =
     [\<lparr>status_code = 200, response_type = ''alerts.PageAlertsOK'',
       payload_type = Pointer (Model ''AlertPagedResponse''), is_success = True,
       error_label = ''[POST /api/v1/customers/{cUUID}/alerts/page][200] pageAlertsOK''\<rparr>]"

definition PageAlerts_Operation :: "'m operation" where
  "PageAlerts_Operation =
     \<lparr>op_id = ''pageAlerts'', op_method = ''POST'',
      path_pattern = ''/api/v1/customers/{cUUID}/alerts/page'',
      produces = [''application/json''], consumes = [''application/json''], schemes = [''http'', ''https''],
      with_auth = True, param_struct_of = PageAlerts_Params,
      writes = PageAlerts_WriteToRequest, reader = PageAlerts_Reader,
      result_type = ''alerts.PageAlertsOK''\<rparr>"

definition SendTestAlert_Params :: "'m param_struct" where
  "SendTestAlert_Params =
     \<lparr>struct_fields = [(''CUUID'', UUIDType), (''ConfigurationUUID'', UUIDType)],
      struct_defaults = []\<rparr>"

definition SendTestAlert_WriteToRequest :: "write_stmt list" where
  "SendTestAlert_WriteToRequest =
     [PathParam ''cUUID'' ''CUUID'', PathParam ''configurationUUID'' ''ConfigurationUUID'']"

definition SendTestAlert_Reader :: "response_case list" where
  "SendTestAlert_Reader =
     [\<lparr>status_code = 200, response_type = ''alerts.SendTestAlertOK'',
       payload_type = Pointer (Model ''YBPSuccess''), is_success = True,
       error_label = ''[POST /api/v1/customers/{cUUID}/alert_configurations/{configurationUUID}/test_alert][200] sendTestAlertOK''\<rparr>]"

definition SendTestAlert_Operation :: "'m operation" where
  "SendTestAlert_Operation =
     \<lparr>op_id = ''sendTestAlert'', op_method = ''POST'',
      path_pattern = ''/api/v1/customers/{cUUID}/alert_configurations/{configurationUUID}/test_alert'',
      produces = [''application/json''], consumes = [''application/json''], schemes = [''http'', ''https''],
      with_auth = True, param_struct_of = SendTestAlert_Params,
      writes = SendTestAlert_WriteToRequest, reader = SendTestAlert_Reader,
      result_type = ''alerts.SendTestAlertOK''\<rparr>"

definition UpdateAlertChannel_Params :: "'m param_struct" where
  "UpdateAlertChannel_Params =
     \<lparr>struct_fields = [(''UpdateAlertChannelRequest'', Pointer (Model ''AlertChannelFormData'')),
                       (''AcUUID'', UUIDType), (''CUUID'', UUIDType)],
      struct_defaults = []\<rparr>"

definition UpdateAlertChannel_WriteToRequest :: "write_stmt list" where
  "UpdateAlertChannel_WriteToRequest =
     [BodyParam ''UpdateAlertChannelRequest'', PathParam ''acUUID'' ''AcUUID'', PathParam ''cUUID'' ''CUUID'']"

definition UpdateAlertChannel_Reader :: "response_case list" where
  "UpdateAlertChannel_Reader =
     [\<lparr>status_code = 200, response_type = ''alerts.UpdateAlertChannelOK'',
       payload_type = Pointer (Model ''AlertChannel''), is_success = True,
       error_label = ''[PUT /api/v1/customers/{cUUID}/alert_channels/{acUUID}][200] updateAlertChannelOK''\<rparr>]"

definition UpdateAlertChannel_Operation :: "'m operation" where
  "UpdateAlertChannel_Operation =
     \<lparr>op_id = ''updateAlertChannel'', op_method = ''PUT'',
      path_pattern = ''/api/v1/customers/{cUUID}/alert_channels/{acUUID}'',
      produces = [''application/json''], consumes = [''application/json''], schemes = [''http'', ''https''],
      with_auth = True, param_struct_of = UpdateAlertChannel_Params,
      writes = UpdateAlertChannel_WriteToRequest, reader = UpdateAlertChannel_Reader,
      result_type = ''alerts.UpdateAlertChannelOK''\<rparr>"

definition UpdateAlertConfiguration_Params :: "'m param_struct" where
  "UpdateAlertConfiguration_Params =
     \<lparr>struct_fields = [(''UpdateAlertConfigurationRequest'', Pointer (Model ''AlertConfiguration'')),
                       (''CUUID'', UUIDType), (''ConfigurationUUID'', UUIDType)],
      struct_defaults = []\<rparr>"

definition UpdateAlertConfiguration_WriteToRequest :: "write_stmt list" where
  "UpdateAlertConfiguration_WriteToRequest =
     [BodyParam ''UpdateAlertConfigurationRequest'', PathParam ''cUUID'' ''CUUID'',
      PathParam ''configurationUUID'' ''ConfigurationUUID'']"

definition UpdateAlertConfiguration_Reader :: "response_case list" where
  "UpdateAlertConfiguration_Reader =
     [\<lparr>status_code = 200, response_type = ''alerts.UpdateAlertConfigurationOK'',
       payload_type = Pointer (Model ''AlertConfiguration''), is_success = True,
       error_label = ''[PUT /api/v1/customers/{cUUID}/alert_configurations/{configurationUUID}][200] updateAlertConfigurationOK''\<rparr>]"

definition UpdateAlertConfiguration_Operation :: "'m operation" where
  "UpdateAlertConfiguration_Operation =
     \<lparr>op_id = ''updateAlertConfiguration'', op_method = ''PUT'',
      path_pattern = ''/api/v1/customers/{cUUID}/alert_configurations/{configurationUUID}'',
      produces = [''application/json''], consumes = [''application/json''], schemes = [''http'', ''https''],
      with_auth = True, param_struct_of = UpdateAlertConfiguration_Params,
      writes = UpdateAlertConfiguration_WriteToRequest, reader = UpdateAlertConfiguration_Reader,
      result_type = ''alerts.UpdateAlertConfigurationOK''\<rparr>"

definition UpdateAlertDestination_Params :: "'m param_struct" where
  "UpdateAlertDestination_Params =
     \<lparr>struct_fields = [(''UpdateAlertDestinationRequest'', Pointer (Model ''AlertDestinationFormData'')),
                       (''AdUUID'', UUIDType), (''CUUID'', UUIDType)],
      struct_defaults = []\<rparr>"

definition UpdateAlertDestination_WriteToRequest :: "write_stmt list" where
  "UpdateAlertDestination_WriteToRequest =
     [BodyParam ''UpdateAlertDestinationRequest'', PathParam ''adUUID'' ''AdUUID'', PathParam ''cUUID'' ''CUUID'']"

definition UpdateAlertDestination_Reader :: "response_case list" where
  "UpdateAlertDestination_Reader =
     [\<lparr>status_code = 200, response_type = ''alerts.UpdateAlertDestinationOK'',
       payload_type = Pointer (Model ''AlertDestination''), is_success = True,
       error_label = ''[PUT /api/v1/customers/{cUUID}/alert_destinations/{adUUID}][200] updateAlertDestinationOK''\<rparr>]"

definition UpdateAlertDestination_Operation :: "'m operation" where
  "UpdateAlertDestination_Operation =
     \<lparr>op_id = ''updateAlertDestination'', op_method = ''PUT'',
      path_pattern = ''/api/v1/customers/{cUUID}/alert_destinations/{adUUID}'',
      produces = [''application/json''], consumes = [''application/json''], schemes = [''http'', ''https''],
      with_auth = True, param_struct_of = UpdateAlertDestination_Params,
      writes = UpdateAlertDestination_WriteToRequest, reader = UpdateAlertDestination_Reader,
      result_type = ''alerts.UpdateAlertDestinationOK''\<rparr>"

definition alerts_operations :: "'m operation list" where
  "alerts_operations =
     [Acknowledge_Operation, AcknowledgeByFilter_Operation, CountAlerts_Operation, CreateAlertChannel_Operation,
      CreateAlertConfiguration_Operation, CreateAlertDestination_Operation, DeleteAlertChannel_Operation,
      DeleteAlertConfiguration_Operation, DeleteAlertDestination_Operation, Get_Operation, GetAlertChannel_Operation,
      GetAlertConfiguration_Operation, GetAlertDestination_Operation, ListActive_Operation,
      ListAlertChannels_Operation, ListAlertConfigurations_Operation, ListAlertDestinations_Operation,
      ListAlertTemplates_Operation, ListOfAlerts_Operation, PageAlertConfigurations_Operation, PageAlerts_Operation,
      SendTestAlert_Operation, UpdateAlertChannel_Operation, UpdateAlertConfiguration_Operation,
      UpdateAlertDestination_Operation]"

lemmas alerts_defs =
  Acknowledge_Operation_def Acknowledge_Params_def Acknowledge_WriteToRequest_def Acknowledge_Reader_def
  AcknowledgeByFilter_Operation_def AcknowledgeByFilter_Params_def AcknowledgeByFilter_WriteToRequest_def AcknowledgeByFilter_Reader_def
  CountAlerts_Operation_def CountAlerts_Params_def CountAlerts_WriteToRequest_def CountAlerts_Reader_def
  CreateAlertChannel_Operation_def CreateAlertChannel_Params_def CreateAlertChannel_WriteToRequest_def CreateAlertChannel_Reader_def
  CreateAlertConfiguration_Operation_def CreateAlertConfiguration_Params_def CreateAlertConfiguration_WriteToRequest_def CreateAlertConfiguration_Reader_def
  CreateAlertDestination_Operation_def CreateAlertDestination_Params_def CreateAlertDestination_WriteToRequest_def CreateAlertDestination_Reader_def
  DeleteAlertChannel_Operation_def DeleteAlertChannel_Params_def DeleteAlertChannel_WriteToRequest_def DeleteAlertChannel_Reader_def
  DeleteAlertConfiguration_Operation_def DeleteAlertConfiguration_Params_def DeleteAlertConfiguration_WriteToRequest_def DeleteAlertConfiguration_Reader_def
  DeleteAlertDestination_Operation_def DeleteAlertDestination_Params_def DeleteAlertDestination_WriteToRequest_def DeleteAlertDestination_Reader_def
  Get_Operation_def Get_Params_def Get_WriteToRequest_def Get_Reader_def
  GetAlertChannel_Operation_def GetAlertChannel_Params_def GetAlertChannel_WriteToRequest_def GetAlertChannel_Reader_def
  GetAlertConfiguration_Operation_def GetAlertConfiguration_Params_def GetAlertConfiguration_WriteToRequest_def GetAlertConfiguration_Reader_def
  GetAlertDestination_Operation_def GetAlertDestination_Params_def GetAlertDestination_WriteToRequest_def GetAlertDestination_Reader_def
  ListActive_Operation_def ListActive_Params_def ListActive_WriteToRequest_def ListActive_Reader_def
  ListAlertChannels_Operation_def ListAlertChannels_Params_def ListAlertChannels_WriteToRequest_def ListAlertChannels_Reader_def
  ListAlertConfigurations_Operation_def ListAlertConfigurations_Params_def ListAlertConfigurations_WriteToRequest_def ListAlertConfigurations_Reader_def
  ListAlertDestinations_Operation_def ListAlertDestinations_Params_def ListAlertDestinations_WriteToRequest_def ListAlertDestinations_Reader_def
  ListAlertTemplates_Operation_def ListAlertTemplates_Params_def ListAlertTemplates_WriteToRequest_def ListAlertTemplates_Reader_def
  ListOfAlerts_Operation_def ListOfAlerts_Params_def ListOfAlerts_WriteToRequest_def ListOfAlerts_Reader_def
  PageAlertConfigurations_Operation_def PageAlertConfigurations_Params_def PageAlertConfigurations_WriteToRequest_def PageAlertConfigurations_Reader_def
  PageAlerts_Operation_def PageAlerts_Params_def PageAlerts_WriteToRequest_def PageAlerts_Reader_def
  SendTestAlert_Operation_def SendTestAlert_Params_def SendTestAlert_WriteToRequest_def SendTestAlert_Reader_def
  UpdateAlertChannel_Operation_def UpdateAlertChannel_Params_def UpdateAlertChannel_WriteToRequest_def UpdateAlertChannel_Reader_def
  UpdateAlertConfiguration_Operation_def UpdateAlertConfiguration_Params_def UpdateAlertConfiguration_WriteToRequest_def UpdateAlertConfiguration_Reader_def
  UpdateAlertDestination_Operation_def UpdateAlertDestination_Params_def UpdateAlertDestination_WriteToRequest_def UpdateAlertDestination_Reader_def

lemma alerts_ok: "list_all operation_ok alerts_operations"
  by code_simp

subsection \<open>maintenance_windows\<close>

definition Create_Params :: "'m param_struct" where
  "Create_Params =
     \<lparr>struct_fields = [(''CreateMaintenanceWindowRequest'', Pointer (Model ''MaintenanceWindow'')),
                       (''CUUID'', UUIDType)],
      struct_defaults = []\<rparr>"

definition Create_WriteToRequest :: "write_stmt list" where
  "Create_WriteToRequest =
     [BodyParam ''CreateMaintenanceWindowRequest'', PathParam ''cUUID'' ''CUUID'']"

definition Create_Reader :: "response_case list" where
  "Create_Reader =
     [\<lparr>status_code = 200, response_type = ''maintenance_windows.CreateOK'',
       payload_type = Pointer (Model ''MaintenanceWindow''), is_success = True,
       error_label = ''[POST /api/v1/customers/{cUUID}/maintenance_windows][200] createOK''\<rparr>]"

definition Create_Operation :: "'m operation" where
  "Create_Operation =
     \<lparr>op_id = ''create'', op_method = ''POST'',
      path_pattern = ''/api/v1/customers/{cUUID}/maintenance_windows'',
      produces = [''application/json''], consumes = [''application/json''], schemes = [''http'', ''https''],
      with_auth = True, param_struct_of = Create_Params,
      writes = Create_WriteToRequest, reader = Create_Reader,
      result_type = ''maintenance_windows.CreateOK''\<rparr>"

definition Delete_Params :: "'m param_struct" where
  "Delete_Params =
     \<lparr>struct_fields = [(''CUUID'', UUIDType), (''WindowUUID'', UUIDType)],
      struct_defaults = []\<rparr>"

definition Delete_WriteToRequest :: "write_stmt list" where
  "Delete_WriteToRequest =
     [PathParam ''cUUID'' ''CUUID'', PathParam ''windowUUID'' ''WindowUUID'']"

definition Delete_Reader :: "response_case list" where
  "Delete_Reader =
     [\<lparr>status_code = 200, response_type = ''maintenance_windows.DeleteOK'',
       payload_type = Pointer (Model ''YBPSuccess''), is_success = True,
       error_label = ''[DELETE /api/v1/customers/{cUUID}/maintenance_windows/{windowUUID}][200] deleteOK''\<rparr>]"

definition Delete_Operation :: "'m operation" where
  "Delete_Operation =
     \<lparr>op_id = ''delete'', op_method = ''DELETE'',
      path_pattern = ''/api/v1/customers/{cUUID}/maintenance_windows/{windowUUID}'',
      produces = [''application/json''], consumes = [''application/json''], schemes = [''http'', ''https''],
      with_auth = True, param_struct_of = Delete_Params,
      writes = Delete_WriteToRequest, reader = Delete_Reader,
      result_type = ''maintenance_windows.DeleteOK''\<rparr>"

definition GetMaintenanceWindow_Params :: "'m param_struct" where
  "GetMaintenanceWindow_Params =
     \<lparr>struct_fields = [(''CUUID'', UUIDType), (''WindowUUID'', UUIDType)],
      struct_defaults = []\<rparr>"

definition GetMaintenanceWindow_WriteToRequest :: "write_stmt list" where
  "GetMaintenanceWindow_WriteToRequest =
     [PathParam ''cUUID'' ''CUUID'', PathParam ''windowUUID'' ''WindowUUID'']"

definition GetMaintenanceWindow_Reader :: "response_case list" where
  "GetMaintenanceWindow_Reader =
     [\<lparr>status_code = 200, response_type = ''maintenance_windows.GetMaintenanceWindowOK'',
       payload_type = Pointer (Model ''MaintenanceWindow''), is_success = True,
       error_label = ''[GET /api/v1/customers/{cUUID}/maintenance_windows/{windowUUID}][200] getMaintenanceWindowOK''\<rparr>]"

definition GetMaintenanceWindow_Operation :: "'m operation" where
  "GetMaintenanceWindow_Operation =
     \<lparr>op_id = ''getMaintenanceWindow'', op_method = ''GET'',
      path_pattern = ''/api/v1/customers/{cUUID}/maintenance_windows/{windowUUID}'',
      produces = [''application/json''], consumes = [''application/json''], schemes = [''http'', ''https''],
      with_auth = True, param_struct_of = GetMaintenanceWindow_Params,
      writes = GetMaintenanceWindow_WriteToRequest, reader = GetMaintenanceWindow_Reader,
      result_type = ''maintenance_windows.GetMaintenanceWindowOK''\<rparr>"

definition ListOfMaintenanceWindows_Params :: "'m param_struct" where
  "ListOfMaintenanceWindows_Params =
     \<lparr>struct_fields = [(''CUUID'', UUIDType)],
      struct_defaults = []\<rparr>"

definition ListOfMaintenanceWindows_WriteToRequest :: "write_stmt list" where
  "ListOfMaintenanceWindows_WriteToRequest =
     [PathParam ''cUUID'' ''CUUID'']"

definition ListOfMaintenanceWindows_Reader :: "response_case list" where
  "ListOfMaintenanceWindows_Reader =
     [\<lparr>status_code = 200, response_type = ''maintenance_windows.ListOfMaintenanceWindowsOK'',
       payload_type = Slice (Pointer (Model ''MaintenanceWindow'')), is_success = True,
       error_label = ''[POST /api/v1/customers/{cUUID}/maintenance_windows/list][200] listOfMaintenanceWindowsOK''\<rparr>]"

definition ListOfMaintenanceWindows_Operation :: "'m operation" where
  "ListOfMaintenanceWindows_Operation =
     \<lparr>op_id = ''listOfMaintenanceWindows'', op_method = ''POST'',
      path_pattern = ''/api/v1/customers/{cUUID}/maintenance_windows/list'',
      produces = [''application/json''], consumes = [''application/json''], schemes = [''http'', ''https''],
      with_auth = True, param_struct_of = ListOfMaintenanceWindows_Params,
      writes = ListOfMaintenanceWindows_WriteToRequest, reader = ListOfMaintenanceWindows_Reader,
      result_type = ''maintenance_windows.ListOfMaintenanceWindowsOK''\<rparr>"

definition Page_Params :: "'m param_struct" where
  "Page_Params =
     \<lparr>struct_fields = [
                       (''PageMaintenanceWindowsRequest'', Pointer (Model ''MaintenanceWindowPagedAPIQuery'')),
                       (''CUUID'', UUIDType)],
      struct_defaults = []\<rparr>"

definition Page_WriteToRequest :: "write_stmt list" where
  "Page_WriteToRequest =
     [BodyParam ''PageMaintenanceWindowsRequest'', PathParam ''cUUID'' ''CUUID'']"

definition Page_Reader :: "response_case list" where
  "Page_Reader =
     [\<lparr>status_code = 200, response_type = ''maintenance_windows.PageOK'',
       payload_type = Pointer (Model ''MaintenanceWindowPagedResponse''), is_success = True,
       error_label = ''[POST /api/v1/customers/{cUUID}/maintenance_windows/page][200] pageOK''\<rparr>]"

definition Page_Operation :: "'m operation" where
  "Page_Operation =
     \<lparr>op_id = ''page'', op_method = ''POST'',
      path_pattern = ''/api/v1/customers/{cUUID}/maintenance_windows/page'',
      produces = [''application/json''], consumes = [''application/json''], schemes = [''http'', ''https''],
      with_auth = True, param_struct_of = Page_Params,
      writes = Page_WriteToRequest, reader = Page_Reader,
      result_type = ''maintenance_windows.PageOK''\<rparr>"

definition Update_Params :: "'m param_struct" where
  "Update_Params =
     \<lparr>struct_fields = [(''UpdateMaintenanceWindowRequest'', Pointer (Model ''MaintenanceWindow'')),
                       (''CUUID'', UUIDType), (''WindowUUID'', UUIDType)],
      struct_defaults = []\<rparr>"

definition Update_WriteToRequest :: "write_stmt list" where
  "Update_WriteToRequest =
     [BodyParam ''UpdateMaintenanceWindowRequest'', PathParam ''cUUID'' ''CUUID'',
      PathParam ''windowUUID'' ''WindowUUID'']"

definition Update_Reader :: "response_case list" where
  "Update_Reader =
     [\<lparr>status_code = 200, response_type = ''maintenance_windows.UpdateOK'',
       payload_type = Pointer (Model ''MaintenanceWindow''), is_success = True,
       error_label = ''[PUT /api/v1/customers/{cUUID}/maintenance_windows/{windowUUID}][200] updateOK''\<rparr>]"

definition Update_Operation :: "'m operation" where
  "Update_Operation =
     \<lparr>op_id = ''update'', op_method = ''PUT'',
      path_pattern = ''/api/v1/customers/{cUUID}/maintenance_windows/{windowUUID}'',
      produces = [''application/json''], consumes = [''application/json''], schemes = [''http'', ''https''],
      with_auth = True, param_struct_of = Update_Params,
      writes = Update_WriteToRequest, reader = Update_Reader,
      result_type = ''maintenance_windows.UpdateOK''\<rparr>"

definition maintenance_windows_operations :: "'m operation list" where
  "maintenance_windows_operations =
     [Create_Operation, Delete_Operation, GetMaintenanceWindow_Operation, ListOfMaintenanceWindows_Operation,
      Page_Operation, Update_Operation]"

lemmas maintenance_windows_defs =
  Create_Operation_def Create_Params_def Create_WriteToRequest_def Create_Reader_def
  Delete_Operation_def Delete_Params_def Delete_WriteToRequest_def Delete_Reader_def
  GetMaintenanceWindow_Operation_def GetMaintenanceWindow_Params_def GetMaintenanceWindow_WriteToRequest_def GetMaintenanceWindow_Reader_def
  ListOfMaintenanceWindows_Operation_def ListOfMaintenanceWindows_Params_def ListOfMaintenanceWindows_WriteToRequest_def ListOfMaintenanceWindows_Reader_def
  Page_Operation_def Page_Params_def Page_WriteToRequest_def Page_Reader_def
  Update_Operation_def Update_Params_def Update_WriteToRequest_def Update_Reader_def

lemma maintenance_windows_ok: "list_all operation_ok maintenance_windows_operations"
  by code_simp

end
