(* ===== verification/ApiBackups.thy ===== *)
theory ApiBackups
  imports Swagger
begin

section \<open>The generated client: backups, schedules and support bundles\<close>

text \<open>
  The operations of the packages \<open>backups\<close>, \<open>schedule_management\<close>, \<open>support_bundle_management\<close> of
  \<open>yugaware-client/pkg/client/swagger/client\<close>, as theory \<open>Swagger\<close> reads them; a list \<open>..._operations\<close>
  is the \<open>ClientService\<close> interface of a package.
\<close>

subsection \<open>backups\<close>

definition ListOfBackups_Params :: "'m param_struct" where
  "ListOfBackups_Params =
     \<lparr>struct_fields = [(''CUUID'', UUIDType), (''UniUUID'', UUIDType)],
      struct_defaults = []\<rparr>"

definition ListOfBackups_WriteToRequest :: "write_stmt list" where
  "ListOfBackups_WriteToRequest =
     [PathParam ''cUUID'' ''CUUID'', PathParam ''uniUUID'' ''UniUUID'']"

definition ListOfBackups_Reader :: "response_case list" where
  "ListOfBackups_Reader =
     [\<lparr>status_code = 200, response_type = ''backups.ListOfBackupsOK'',
       payload_type = Slice (Pointer (Model ''Backup'')), is_success = True,
       error_label = ''[GET /api/v1/customers/{cUUID}/universes/{uniUUID}/backups][200] listOfBackupsOK''\<rparr>,
      \<lparr>status_code = 500, response_type = ''backups.ListOfBackupsInternalServerError'',
       payload_type = Pointer (Model ''YBPError''), is_success = False,
       error_label = ''[GET /api/v1/customers/{cUUID}/universes/{uniUUID}/backups][500] listOfBackupsInternalServerError''\<rparr>]"

definition ListOfBackups_Operation :: "'m operation" where
  "ListOfBackups_Operation =
     \<lparr>op_id = ''ListOfBackups'', op_method = ''GET'',
      path_pattern = ''/api/v1/customers/{cUUID}/universes/{uniUUID}/backups'',
      produces = [''application/json''], consumes = [''application/json''], schemes = [''http'', ''https''],
      with_auth = True, param_struct_of = ListOfBackups_Params,
      writes = ListOfBackups_WriteToRequest, reader = ListOfBackups_Reader,
      result_type = ''backups.ListOfBackupsOK''\<rparr>"

definition CreateMultiTableBackup_Params :: "'m param_struct" where
  "CreateMultiTableBackup_Params =
     \<lparr>struct_fields = [(''TableBackup'', Pointer (Model ''MultiTableBackupRequestParams'')),
                       (''CUUID'', UUIDType), (''UniUUID'', UUIDType)],
      struct_defaults = []\<rparr>"

definition CreateMultiTableBackup_WriteToRequest :: "write_stmt list" where
  "CreateMultiTableBackup_WriteToRequest =
     [BodyParam ''TableBackup'', PathParam ''cUUID'' ''CUUID'', PathParam ''uniUUID'' ''UniUUID'']"

definition CreateMultiTableBackup_Reader :: "response_case list" where
  "CreateMultiTableBackup_Reader =
     [\<lparr>status_code = 200, response_type = ''backups.CreateMultiTableBackupOK'',
       payload_type = Pointer (Model ''YBPTask''), is_success = True,
       error_label = ''[PUT /api/v1/customers/{cUUID}/universes/{uniUUID}/multi_table_backup][200] createMultiTableBackupOK''\<rparr>,
      \<lparr>status_code = 400, response_type = ''backups.CreateMultiTableBackupBadRequest'',
       payload_type = Pointer (Model ''YBPError''), is_success = False,
       error_label = ''[PUT /api/v1/customers/{cUUID}/universes/{uniUUID}/multi_table_backup][400] createMultiTableBackupBadRequest''\<rparr>]"

definition CreateMultiTableBackup_Operation :: "'m operation" where
  "CreateMultiTableBackup_Operation =
     \<lparr>op_id = ''createMultiTableBackup'', op_method = ''PUT'',
      path_pattern = ''/api/v1/customers/{cUUID}/universes/{uniUUID}/multi_table_backup'',
      produces = [''application/json''], consumes = [''application/json''], schemes = [''http'', ''https''],
      with_auth = True, param_struct_of = CreateMultiTableBackup_Params,
      writes = CreateMultiTableBackup_WriteToRequest, reader = CreateMultiTableBackup_Reader,
      result_type = ''backups.CreateMultiTableBackupOK''\<rparr>"

definition Createbackup_Params :: "'m param_struct" where
  "Createbackup_Params =
     \<lparr>struct_fields = [(''Backup'', Pointer (Model ''BackupRequestParams'')), (''CUUID'', UUIDType)],
      struct_defaults = []\<rparr>"

definition Createbackup_WriteToRequest :: "write_stmt list" where
  "Createbackup_WriteToRequest =
     [BodyParam ''Backup'', PathParam ''cUUID'' ''CUUID'']"

definition Createbackup_Reader :: "response_case list" where
  "Createbackup_Reader =
     [\<lparr>status_code = 200, response_type = ''backups.CreatebackupOK'',
       payload_type = Pointer (Model ''YBPTask''), is_success = True,
       error_label = ''[POST /api/v1/customers/{cUUID}/backups][200] createbackupOK''\<rparr>]"

definition Createbackup_Operation :: "'m operation" where
  "Createbackup_Operation =
     \<lparr>op_id = ''createbackup'', op_method = ''POST'',
      path_pattern = ''/api/v1/customers/{cUUID}/backups'',
      produces = [''application/json''], consumes = [''application/json''], schemes = [''http'', ''https''],
      with_auth = True, param_struct_of = Createbackup_Params,
      writes = Createbackup_WriteToRequest, reader = Createbackup_Reader,
      result_type = ''backups.CreatebackupOK''\<rparr>"

definition CreatebackupSchedule_Params :: "'m param_struct" where
  "CreatebackupSchedule_Params =
     \<lparr>struct_fields = [(''Backup'', Pointer (Model ''BackupRequestParams'')), (''CUUID'', UUIDType)],
      struct_defaults = []\<rparr>"

definition CreatebackupSchedule_WriteToRequest :: "write_stmt list" where
  "CreatebackupSchedule_WriteToRequest =
     [BodyParam ''Backup'', PathParam ''cUUID'' ''CUUID'']"

definition CreatebackupSchedule_Reader :: "response_case list" where
  "CreatebackupSchedule_Reader =
     [\<lparr>status_code = 200, response_type = ''backups.CreatebackupScheduleOK'',
       payload_type = Pointer (Model ''Schedule''), is_success = True,
       error_label = ''[POST /api/v1/customers/{cUUID}/create_backup_schedule][200] createbackupScheduleOK''\<rparr>]"

definition CreatebackupSchedule_Operation :: "'m operation" where
  "CreatebackupSchedule_Operation =
     \<lparr>op_id = ''createbackupSchedule'', op_method = ''POST'',
      path_pattern = ''/api/v1/customers/{cUUID}/create_backup_schedule'',
      produces = [''application/json''], consumes = [''application/json''], schemes = [''http'', ''https''],
      with_auth = True, param_struct_of = CreatebackupSchedule_Params,
      writes = CreatebackupSchedule_WriteToRequest, reader = CreatebackupSchedule_Reader,
      result_type = ''backups.CreatebackupScheduleOK''\<rparr>"

definition DeleteBackups_Params :: "'m param_struct" where
  "DeleteBackups_Params =
     \<lparr>struct_fields = [(''CUUID'', UUIDType)],
      struct_defaults = []\<rparr>"

definition DeleteBackups_WriteToRequest :: "write_stmt list" where
  "DeleteBackups_WriteToRequest =
     [PathParam ''cUUID'' ''CUUID'']"

definition DeleteBackups_Reader :: "response_case list" where
  "DeleteBackups_Reader =
     [\<lparr>status_code = 200, response_type = ''backups.DeleteBackupsOK'',
       payload_type = Model ''YBPTasks'', is_success = True,
       error_label = ''[DELETE /api/v1/customers/{cUUID}/backups][200] deleteBackupsOK''\<rparr>]"

definition DeleteBackups_Operation :: "'m operation" where
  "DeleteBackups_Operation =
     \<lparr>op_id = ''deleteBackups'', op_method = ''DELETE'',
      path_pattern = ''/api/v1/customers/{cUUID}/backups'',
      produces = [''application/json''], consumes = [''application/json''], schemes = [''http'', ''https''],
      with_auth = True, param_struct_of = DeleteBackups_Params,
      writes = DeleteBackups_WriteToRequest, reader = DeleteBackups_Reader,
      result_type = ''backups.DeleteBackupsOK''\<rparr>"

definition DeleteBackupsv2_Params :: "'m param_struct" where
  "DeleteBackupsv2_Params =
     \<lparr>struct_fields = [(''CUUID'', UUIDType)],
      struct_defaults = []\<rparr>"

definition DeleteBackupsv2_WriteToRequest :: "write_stmt list" where
  "DeleteBackupsv2_WriteToRequest =
     [PathParam ''cUUID'' ''CUUID'']"

definition DeleteBackupsv2_Reader :: "response_case list" where
  "DeleteBackupsv2_Reader =
     [\<lparr>status_code = 200, response_type = ''backups.DeleteBackupsv2OK'',
       payload_type = Model ''YBPTasks'', is_success = True,
       error_label = ''[POST /api/v1/customers/{cUUID}/backups/delete][200] deleteBackupsv2OK''\<rparr>]"

definition DeleteBackupsv2_Operation :: "'m operation" where
  "DeleteBackupsv2_Operation =
     \<lparr>op_id = ''deleteBackupsv2'', op_method = ''POST'',
      path_pattern = ''/api/v1/customers/{cUUID}/backups/delete'',
      produces = [''application/json''], consumes = [''application/json''], schemes = [''http'', ''https''],
      with_auth = True, param_struct_of = DeleteBackupsv2_Params,
      writes = DeleteBackupsv2_WriteToRequest, reader = DeleteBackupsv2_Reader,
      result_type = ''backups.DeleteBackupsv2OK''\<rparr>"

definition EditBackupV2_Params :: "'m param_struct" where
  "EditBackupV2_Params =
     \<lparr>struct_fields = [(''Backup'', Pointer (Model ''EditBackupParams'')), (''BackupUUID'', UUIDType),
                       (''CUUID'', UUIDType)],
      struct_defaults = []\<rparr>"

definition EditBackupV2_WriteToRequest :: "write_stmt list" where
  "EditBackupV2_WriteToRequest =
     [BodyParam ''Backup'', PathParam ''backupUUID'' ''BackupUUID'', PathParam ''cUUID'' ''CUUID'']"

definition EditBackupV2_Reader :: "response_case list" where
  "EditBackupV2_Reader =
     [\<lparr>status_code = 200, response_type = ''backups.EditBackupV2OK'',
       payload_type = Pointer (Model ''Backup''), is_success = True,
       error_label = ''[PUT /api/v1/customers/{cUUID}/backups/{backupUUID}][200] editBackupV2OK''\<rparr>]"

definition EditBackupV2_Operation :: "'m operation" where
  "EditBackupV2_Operation =
     \<lparr>op_id = ''editBackupV2'', op_method = ''PUT'',
      path_pattern = ''/api/v1/customers/{cUUID}/backups/{backupUUID}'',
      produces = [''application/json''], consumes = [''application/json''], schemes = [''http'', ''https''],
      with_auth = True, param_struct_of = EditBackupV2_Params,
      writes = EditBackupV2_WriteToRequest, reader = EditBackupV2_Reader,
      result_type = ''backups.EditBackupV2OK''\<rparr>"

definition FetchBackupsByTaskUUID_Params :: "'m param_struct" where
  "FetchBackupsByTaskUUID_Params =
     \<lparr>struct_fields = [(''CUUID'', UUIDType), (''TUUID'', UUIDType), (''UniUUID'', UUIDType)],
      struct_defaults = []\<rparr>"

definition FetchBackupsByTaskUUID_WriteToRequest :: "write_stmt list" where
  "FetchBackupsByTaskUUID_WriteToRequest =
     [PathParam ''cUUID'' ''CUUID'', PathParam ''tUUID'' ''TUUID'', PathParam ''uniUUID'' ''UniUUID'']"

definition FetchBackupsByTaskUUID_Reader :: "response_case list" where
  "FetchBackupsByTaskUUID_Reader =
     [\<lparr>status_code = 200, response_type = ''backups.FetchBackupsByTaskUUIDOK'',
       payload_type = Slice (Pointer (Model ''Backup'')), is_success = True,
       error_label = ''[GET /api/v1/customers/{cUUID}/universes/{uniUUID}/backups/tasks/{tUUID}][200] fetchBackupsByTaskUuidOK''\<rparr>,
      \<lparr>status_code = 500, response_type = ''backups.FetchBackupsByTaskUUIDInternalServerError'',
       payload_type = Pointer (Model ''YBPError''), is_success = False,
       error_label = ''[GET /api/v1/customers/{cUUID}/universes/{uniUUID}/backups/tasks/{tUUID}][500] fetchBackupsByTaskUuidInternalServerError''\<rparr>]"

definition FetchBackupsByTaskUUID_Operation :: "'m operation" where
  "FetchBackupsByTaskUUID_Operation =
     \<lparr>op_id = ''fetchBackupsByTaskUUID'', op_method = ''GET'',
      path_pattern = ''/api/v1/customers/{cUUID}/universes/{uniUUID}/backups/tasks/{tUUID}'',
      produces = [''application/json''], consumes = [''application/json''], schemes = [''http'', ''https''],
      with_auth = True, param_struct_of = FetchBackupsByTaskUUID_Params,
      writes = FetchBackupsByTaskUUID_WriteToRequest, reader = FetchBackupsByTaskUUID_Reader,
      result_type = ''backups.FetchBackupsByTaskUUIDOK''\<rparr>"

definition GetBackupV2_Params :: "'m param_struct" where
  "GetBackupV2_Params =
     \<lparr>struct_fields = [(''BackupUUID'', UUIDType), (''CUUID'', UUIDType)],
      struct_defaults = []\<rparr>"

definition GetBackupV2_WriteToRequest :: "write_stmt list" where
  "GetBackupV2_WriteToRequest =
     [PathParam ''backupUUID'' ''BackupUUID'', PathParam ''cUUID'' ''CUUID'']"

definition GetBackupV2_Reader :: "response_case list" where
  "GetBackupV2_Reader =
     [\<lparr>status_code = 200, response_type = ''backups.GetBackupV2OK'',
       payload_type = Pointer (Model ''Backup''), is_success = True,
       error_label = ''[GET /api/v1/customers/{cUUID}/backups/{backupUUID}][200] getBackupV2OK''\<rparr>]"

definition GetBackupV2_Operation :: "'m operation" where
  "GetBackupV2_Operation =
     \<lparr>op_id = ''getBackupV2'', op_method = ''GET'',
      path_pattern = ''/api/v1/customers/{cUUID}/backups/{backupUUID}'',
      produces = [''application/json''], consumes = [''application/json''], schemes = [''http'', ''https''],
      with_auth = True, param_struct_of = GetBackupV2_Params,
      writes = GetBackupV2_WriteToRequest, reader = GetBackupV2_Reader,
      result_type = ''backups.GetBackupV2OK''\<rparr>"

definition ListBackupsV2_Params :: "'m param_struct" where
  "ListBackupsV2_Params =
     \<lparr>struct_fields = [(''PageBackupsRequest'', Pointer (Model ''BackupPagedAPIQuery'')),
                       (''CUUID'', UUIDType)],
      struct_defaults = []\<rparr>"

definition ListBackupsV2_WriteToRequest :: "write_stmt list" where
  "ListBackupsV2_WriteToRequest =
     [BodyParam ''PageBackupsRequest'', PathParam ''cUUID'' ''CUUID'']"

definition ListBackupsV2_Reader :: "response_case list" where
  "ListBackupsV2_Reader =
     [\<lparr>status_code = 200, response_type = ''backups.ListBackupsV2OK'',
       payload_type = Pointer (Model ''BackupPagedAPIResponse''), is_success = True,
       error_label = ''[POST /api/v1/customers/{cUUID}/backups/page][200] listBackupsV2OK''\<rparr>]"

definition ListBackupsV2_Operation :: "'m operation" where
  "ListBackupsV2_Operation =
     \<lparr>op_id = ''listBackupsV2'', op_method = ''POST'',
      path_pattern = ''/api/v1/customers/{cUUID}/backups/page'',
      produces = [''application/json''], consumes = [''application/json''], schemes = [''http'', ''https''],
      with_auth = True, param_struct_of = ListBackupsV2_Params,
      writes = ListBackupsV2_WriteToRequest, reader = ListBackupsV2_Reader,
      result_type = ''backups.ListBackupsV2OK''\<rparr>"

definition Restore_Params :: "'m param_struct" where
  "Restore_Params =
     \<lparr>struct_fields = [(''Backup'', Pointer (Model ''BackupTableParams'')), (''CUUID'', UUIDType),
                       (''UniUUID'', UUIDType)],
      struct_defaults = []\<rparr>"

definition Restore_WriteToRequest :: "write_stmt list" where
  "Restore_WriteToRequest =
     [BodyParam ''Backup'', PathParam ''cUUID'' ''CUUID'', PathParam ''uniUUID'' ''UniUUID'']"

definition Restore_Reader :: "response_case list" where
  "Restore_Reader =
     [\<lparr>status_code = 200, response_type = ''backups.RestoreOK'',
       payload_type = Pointer (Model ''YBPTask''), is_success = True,
       error_label = ''[POST /api/v1/customers/{cUUID}/universes/{uniUUID}/backups/restore][200] restoreOK''\<rparr>]"

definition Restore_Operation :: "'m operation" where
  "Restore_Operation =
     \<lparr>op_id = ''restore'', op_method = ''POST'',
      path_pattern = ''/api/v1/customers/{cUUID}/universes/{uniUUID}/backups/restore'',
      produces = [''application/json''], consumes = [''application/json''], schemes = [''http'', ''https''],
      with_auth = True, param_struct_of = Restore_Params,
      writes = Restore_WriteToRequest, reader = Restore_Reader,
      result_type = ''backups.RestoreOK''\<rparr>"

definition RestoreBackupV2_Params :: "'m param_struct" where
  "RestoreBackupV2_Params =
     \<lparr>struct_fields = [(''Backup'', Pointer (Model ''RestoreBackupParams'')), (''CUUID'', UUIDType)],
      struct_defaults = []\<rparr>"

definition RestoreBackupV2_WriteToRequest :: "write_stmt list" where
  "RestoreBackupV2_WriteToRequest =
     [BodyParam ''Backup'', PathParam ''cUUID'' ''CUUID'']"

definition RestoreBackupV2_Reader :: "response_case list" where
  "RestoreBackupV2_Reader =
     [\<lparr>status_code = 200, response_type = ''backups.RestoreBackupV2OK'',
       payload_type = Pointer (Model ''YBPTask''), is_success = True,
       error_label = ''[POST /api/v1/customers/{cUUID}/restore][200] restoreBackupV2OK''\<rparr>]"

definition RestoreBackupV2_Operation :: "'m operation" where
  "RestoreBackupV2_Operation =
     \<lparr>op_id = ''restoreBackupV2'', op_method = ''POST'',
      path_pattern = ''/api/v1/customers/{cUUID}/restore'',
      produces = [''application/json''], consumes = [''application/json''], schemes = [''http'', ''https''],
      with_auth = True, param_struct_of = RestoreBackupV2_Params,
      writes = RestoreBackupV2_WriteToRequest, reader = RestoreBackupV2_Reader,
      result_type = ''backups.RestoreBackupV2OK''\<rparr>"

definition StopBackup_Params :: "'m param_struct" where
  "StopBackup_Params =
     \<lparr>struct_fields = [(''BackupUUID'', UUIDType), (''CUUID'', UUIDType)],
      struct_defaults = []\<rparr>"

definition StopBackup_WriteToRequest :: "write_stmt list" where
  "StopBackup_WriteToRequest =
     [PathParam ''backupUUID'' ''BackupUUID'', PathParam ''cUUID'' ''CUUID'']"

definition StopBackup_Reader :: "response_case list" where
  "StopBackup_Reader =
     [\<lparr>status_code = 200, response_type = ''backups.StopBackupOK'',
       payload_type = Pointer (Model ''YBPSuccess''), is_success = True,
       error_label = ''[POST /api/v1/customers/{cUUID}/backups/{backupUUID}/stop][200] stopBackupOK''\<rparr>]"

definition StopBackup_Operation :: "'m operation" where
  "StopBackup_Operation =
     \<lparr>op_id = ''stopBackup'', op_method = ''POST'',
      path_pattern = ''/api/v1/customers/{cUUID}/backups/{backupUUID}/stop'',
      produces = [''application/json''], consumes = [''application/json''], schemes = [''http'', ''https''],
      with_auth = True, param_struct_of = StopBackup_Params,
      writes = StopBackup_WriteToRequest, reader = StopBackup_Reader,
      result_type = ''backups.StopBackupOK''\<rparr>"

definition backups_operations :: "'m operation list" where
  "backups_operations =
     [ListOfBackups_Operation, CreateMultiTableBackup_Operation, Createbackup_Operation,
      CreatebackupSchedule_Operation, DeleteBackups_Operation, DeleteBackupsv2_Operation, EditBackupV2_Operation,
      FetchBackupsByTaskUUID_Operation, GetBackupV2_Operation, ListBackupsV2_Operation, Restore_Operation,
      RestoreBackupV2_Operation, StopBackup_Operation]"

lemmas backups_defs =
  ListOfBackups_Operation_def ListOfBackups_Params_def ListOfBackups_WriteToRequest_def ListOfBackups_Reader_def
  CreateMultiTableBackup_Operation_def CreateMultiTableBackup_Params_def CreateMultiTableBackup_WriteToRequest_def CreateMultiTableBackup_Reader_def
  Createbackup_Operation_def Createbackup_Params_def Createbackup_WriteToRequest_def Createbackup_Reader_def
  CreatebackupSchedule_Operation_def CreatebackupSchedule_Params_def CreatebackupSchedule_WriteToRequest_def CreatebackupSchedule_Reader_def
  DeleteBackups_Operation_def DeleteBackups_Params_def DeleteBackups_WriteToRequest_def DeleteBackups_Reader_def
  DeleteBackupsv2_Operation_def DeleteBackupsv2_Params_def DeleteBackupsv2_WriteToRequest_def DeleteBackupsv2_Reader_def
  EditBackupV2_Operation_def EditBackupV2_Params_def EditBackupV2_WriteToRequest_def EditBackupV2_Reader_def
  FetchBackupsByTaskUUID_Operation_def FetchBackupsByTaskUUID_Params_def FetchBackupsByTaskUUID_WriteToRequest_def FetchBackupsByTaskUUID_Reader_def
  GetBackupV2_Operation_def GetBackupV2_Params_def GetBackupV2_WriteToRequest_def GetBackupV2_Reader_def
  ListBackupsV2_Operation_def ListBackupsV2_Params_def ListBackupsV2_WriteToRequest_def ListBackupsV2_Reader_def
  Restore_Operation_def Restore_Params_def Restore_WriteToRequest_def Restore_Reader_def
  RestoreBackupV2_Operation_def RestoreBackupV2_Params_def RestoreBackupV2_WriteToRequest_def RestoreBackupV2_Reader_def
  StopBackup_Operation_def StopBackup_Params_def StopBackup_WriteToRequest_def StopBackup_Reader_def

lemma backups_ok: "list_all operation_ok backups_operations"
  by code_simp

subsection \<open>schedule_management\<close>

definition DeleteSchedule_Params :: "'m param_struct" where
  "DeleteSchedule_Params =
     \<lparr>struct_fields = [(''CUUID'', UUIDType), (''SUUID'', UUIDType)],
      struct_defaults = []\<rparr>"

definition DeleteSchedule_WriteToRequest :: "write_stmt list" where
  "DeleteSchedule_WriteToRequest =
     [PathParam ''cUUID'' ''CUUID'', PathParam ''sUUID'' ''SUUID'']"

definition DeleteSchedule_Reader :: "response_case list" where
  "DeleteSchedule_Reader =
     [\<lparr>status_code = 200, response_type = ''schedule_management.DeleteScheduleOK'',
       payload_type = Pointer (Model ''YBPSuccess''), is_success = True,
       error_label = ''[DELETE /api/v1/customers/{cUUID}/schedules/{sUUID}][200] deleteScheduleOK''\<rparr>]"

definition DeleteSchedule_Operation :: "'m operation" where
  "DeleteSchedule_Operation =
     \<lparr>op_id = ''deleteSchedule'', op_method = ''DELETE'',
      path_pattern = ''/api/v1/customers/{cUUID}/schedules/{sUUID}'',
      produces = [''application/json''], consumes = [''application/json''], schemes = [''http'', ''https''],
      with_auth = True, param_struct_of = DeleteSchedule_Params,
      writes = DeleteSchedule_WriteToRequest, reader = DeleteSchedule_Reader,
      result_type = ''schedule_management.DeleteScheduleOK''\<rparr>"

definition DeleteScheduleV2_Params :: "'m param_struct" where
  "DeleteScheduleV2_Params =
     \<lparr>struct_fields = [(''CUUID'', UUIDType), (''SUUID'', UUIDType)],
      struct_defaults = []\<rparr>"

definition DeleteScheduleV2_WriteToRequest :: "write_stmt list" where
  "DeleteScheduleV2_WriteToRequest =
     [PathParam ''cUUID'' ''CUUID'', PathParam ''sUUID'' ''SUUID'']"

definition DeleteScheduleV2_Reader :: "response_case list" where
  "DeleteScheduleV2_Reader =
     [\<lparr>status_code = 200, response_type = ''schedule_management.DeleteScheduleV2OK'',
       payload_type = Pointer (Model ''YBPSuccess''), is_success = True,
       error_label = ''[DELETE /api/v1/customers/{cUUID}/schedules/{sUUID}/delete][200] deleteScheduleV2OK''\<rparr>]"

definition DeleteScheduleV2_Operation :: "'m operation" where
  "DeleteScheduleV2_Operation =
     \<lparr>op_id = ''deleteScheduleV2'', op_method = ''DELETE'',
      path_pattern = ''/api/v1/customers/{cUUID}/schedules/{sUUID}/delete'',
      produces = [''application/json''], consumes = [''application/json''], schemes = [''http'', ''https''],
      with_auth = True, param_struct_of = DeleteScheduleV2_Params,
      writes = DeleteScheduleV2_WriteToRequest, reader = DeleteScheduleV2_Reader,
      result_type = ''schedule_management.DeleteScheduleV2OK''\<rparr>"

definition EditBackupScheduleV2_Params :: "'m param_struct" where
  "EditBackupScheduleV2_Params =
     \<lparr>struct_fields = [(''Body'', Pointer (Model ''EditBackupScheduleParams'')), (''CUUID'', UUIDType),
                       (''SUUID'', UUIDType)],
      struct_defaults = []\<rparr>"

definition EditBackupScheduleV2_WriteToRequest :: "write_stmt list" where
  "EditBackupScheduleV2_WriteToRequest =
     [BodyParam ''Body'', PathParam ''cUUID'' ''CUUID'', PathParam ''sUUID'' ''SUUID'']"

definition EditBackupScheduleV2_Reader :: "response_case list" where
  "EditBackupScheduleV2_Reader =
     [\<lparr>status_code = 200, response_type = ''schedule_management.EditBackupScheduleV2OK'',
       payload_type = Pointer (Model ''Schedule''), is_success = True,
       error_label = ''[PUT /api/v1/customers/{cUUID}/schedules/{sUUID}][200] editBackupScheduleV2OK''\<rparr>]"

definition EditBackupScheduleV2_Operation :: "'m operation" where
  "EditBackupScheduleV2_Operation =
     \<lparr>op_id = ''editBackupScheduleV2'', op_method = ''PUT'',
      path_pattern = ''/api/v1/customers/{cUUID}/schedules/{sUUID}'',
      produces = [''application/json''], consumes = [''application/json''], schemes = [''http'', ''https''],
      with_auth = True, param_struct_of = EditBackupScheduleV2_Params,
      writes = EditBackupScheduleV2_WriteToRequest, reader = EditBackupScheduleV2_Reader,
      result_type = ''schedule_management.EditBackupScheduleV2OK''\<rparr>"

definition GetSchedule_Params :: "'m param_struct" where
  "GetSchedule_Params =
     \<lparr>struct_fields = [(''CUUID'', UUIDType), (''SUUID'', UUIDType)],
      struct_defaults = []\<rparr>"

definition GetSchedule_WriteToRequest :: "write_stmt list" where
  "GetSchedule_WriteToRequest =
     [PathParam ''cUUID'' ''CUUID'', PathParam ''sUUID'' ''SUUID'']"

definition GetSchedule_Reader :: "response_case list" where
  "GetSchedule_Reader =
     [\<lparr>status_code = 200, response_type = ''schedule_management.GetScheduleOK'',
       payload_type = Pointer (Model ''Schedule''), is_success = True,
       error_label = ''[GET /api/v1/customers/{cUUID}/schedules/{sUUID}][200] getScheduleOK''\<rparr>]"

definition GetSchedule_Operation :: "'m operation" where
  "GetSchedule_Operation =
     \<lparr>op_id = ''getSchedule'', op_method = ''GET'',
      path_pattern = ''/api/v1/customers/{cUUID}/schedules/{sUUID}'',
      produces = [''application/json''], consumes = [''application/json''], schemes = [''http'', ''https''],
      with_auth = True, param_struct_of = GetSchedule_Params,
      writes = GetSchedule_WriteToRequest, reader = GetSchedule_Reader,
      result_type = ''schedule_management.GetScheduleOK''\<rparr>"

definition ListSchedules_Params :: "'m param_struct" where
  "ListSchedules_Params =
     \<lparr>struct_fields = [(''CUUID'', UUIDType)],
      struct_defaults = []\<rparr>"

definition ListSchedules_WriteToRequest :: "write_stmt list" where
  "ListSchedules_WriteToRequest =
     [PathParam ''cUUID'' ''CUUID'']"

definition ListSchedules_Reader :: "response_case list" where
  "ListSchedules_Reader =
     [\<lparr>status_code = 200, response_type = ''schedule_management.ListSchedulesOK'',
       payload_type = Slice (Pointer (Model ''Schedule'')), is_success = True,
       error_label = ''[GET /api/v1/customers/{cUUID}/schedules][200] listSchedulesOK''\<rparr>]"

definition ListSchedules_Operation :: "'m operation" where
  "ListSchedules_Operation =
     \<lparr>op_id = ''listSchedules'', op_method = ''GET'',
      path_pattern = ''/api/v1/customers/{cUUID}/schedules'',
      produces = [''application/json''], consumes = [''application/json''], schemes = [''http'', ''https''],
      with_auth = True, param_struct_of = ListSchedules_Params,
      writes = ListSchedules_WriteToRequest, reader = ListSchedules_Reader,
      result_type = ''schedule_management.ListSchedulesOK''\<rparr>"

definition ListSchedulesV2_Params :: "'m param_struct" where
  "ListSchedulesV2_Params =
     \<lparr>struct_fields = [(''PageScheduleRequest'', Pointer (Model ''SchedulePagedAPIQuery'')),
                       (''CUUID'', UUIDType)],
      struct_defaults = []\<rparr>"

definition ListSchedulesV2_WriteToRequest :: "write_stmt list" where
  "ListSchedulesV2_WriteToRequest =
     [BodyParam ''PageScheduleRequest'', PathParam ''cUUID'' ''CUUID'']"

definition ListSchedulesV2_Reader :: "response_case list" where
  "ListSchedulesV2_Reader =
     [\<lparr>status_code = 200, response_type = ''schedule_management.ListSchedulesV2OK'',
       payload_type = Pointer (Model ''SchedulePagedResponse''), is_success = True,
       error_label = ''[POST /api/v1/customers/{cUUID}/schedules/page][200] listSchedulesV2OK''\<rparr>]"

definition ListSchedulesV2_Operation :: "'m operation" where
  "ListSchedulesV2_Operation =
     \<lparr>op_id = ''listSchedulesV2'', op_method = ''POST'',
      path_pattern = ''/api/v1/customers/{cUUID}/schedules/page'',
      produces = [''application/json''], consumes = [''application/json''], schemes = [''http'', ''https''],
      with_auth = True, param_struct_of = ListSchedulesV2_Params,
      writes = ListSchedulesV2_WriteToRequest, reader = ListSchedulesV2_Reader,
      result_type = ''schedule_management.ListSchedulesV2OK''\<rparr>"

definition schedule_management_operations :: "'m operation list" where
  "schedule_management_operations =
     [DeleteSchedule_Operation, DeleteScheduleV2_Operation, EditBackupScheduleV2_Operation, GetSchedule_Operation,
      ListSchedules_Operation, ListSchedulesV2_Operation]"

lemmas schedule_management_defs =
  DeleteSchedule_Operation_def DeleteSchedule_Params_def DeleteSchedule_WriteToRequest_def DeleteSchedule_Reader_def
  DeleteScheduleV2_Operation_def DeleteScheduleV2_Params_def DeleteScheduleV2_WriteToRequest_def DeleteScheduleV2_Reader_def
  EditBackupScheduleV2_Operation_def EditBackupScheduleV2_Params_def EditBackupScheduleV2_WriteToRequest_def EditBackupScheduleV2_Reader_def
  GetSchedule_Operation_def GetSchedule_Params_def GetSchedule_WriteToRequest_def GetSchedule_Reader_def
  ListSchedules_Operation_def ListSchedules_Params_def ListSchedules_WriteToRequest_def ListSchedules_Reader_def
  ListSchedulesV2_Operation_def ListSchedulesV2_Params_def ListSchedulesV2_WriteToRequest_def ListSchedulesV2_Reader_def

lemma schedule_management_ok: "list_all operation_ok schedule_management_operations"
  by code_simp

subsection \<open>support_bundle_management\<close>

definition CreateSupportBundle_Params :: "'m param_struct" where
  "CreateSupportBundle_Params =
     \<lparr>struct_fields = [(''CUUID'', UUIDType), (''SupportBundle'', Pointer (Model ''SupportBundleFormData'')),
                       (''UniUUID'', UUIDType)],
      struct_defaults = []\<rparr>"

definition CreateSupportBundle_WriteToRequest :: "write_stmt list" where
  "CreateSupportBundle_WriteToRequest =
     [PathParam ''cUUID'' ''CUUID'', BodyParam ''SupportBundle'', PathParam ''uniUUID'' ''UniUUID'']"

definition CreateSupportBundle_Reader :: "response_case list" where
  "CreateSupportBundle_Reader =
     [\<lparr>status_code = 200, response_type = ''support_bundle_management.CreateSupportBundleOK'',
       payload_type = Pointer (Model ''YBPTask''), is_success = True,
       error_label = ''[POST /api/v1/customers/{cUUID}/universes/{uniUUID}/support_bundle][200] createSupportBundleOK''\<rparr>]"

definition CreateSupportBundle_Operation :: "'m operation" where
  "CreateSupportBundle_Operation =
     \<lparr>op_id = ''createSupportBundle'', op_method = ''POST'',
      path_pattern = ''/api/v1/customers/{cUUID}/universes/{uniUUID}/support_bundle'',
      produces = [''application/json''], consumes = [''application/json''], schemes = [''http'', ''https''],
      with_auth = True, param_struct_of = CreateSupportBundle_Params,
      writes = CreateSupportBundle_WriteToRequest, reader = CreateSupportBundle_Reader,
      result_type = ''support_bundle_management.CreateSupportBundleOK''\<rparr>"

definition DeleteSupportBundle_Params :: "'m param_struct" where
  "DeleteSupportBundle_Params =
     \<lparr>struct_fields = [(''CUUID'', UUIDType), (''SbUUID'', UUIDType), (''UniUUID'', UUIDType)],
      struct_defaults = []\<rparr>"

definition DeleteSupportBundle_WriteToRequest :: "write_stmt list" where
  "DeleteSupportBundle_WriteToRequest =
     [PathParam ''cUUID'' ''CUUID'', PathParam ''sbUUID'' ''SbUUID'', PathParam ''uniUUID'' ''UniUUID'']"

definition DeleteSupportBundle_Reader :: "response_case list" where
  "DeleteSupportBundle_Reader =
     [\<lparr>status_code = 200, response_type = ''support_bundle_management.DeleteSupportBundleOK'',
       payload_type = Pointer (Model ''YBPSuccess''), is_success = True,
       error_label = ''[DELETE /api/v1/customers/{cUUID}/universes/{uniUUID}/support_bundle/{sbUUID}][200] deleteSupportBundleOK''\<rparr>]"

definition DeleteSupportBundle_Operation :: "'m operation" where
  "DeleteSupportBundle_Operation =
     \<lparr>op_id = ''deleteSupportBundle'', op_method = ''DELETE'',
      path_pattern = ''/api/v1/customers/{cUUID}/universes/{uniUUID}/support_bundle/{sbUUID}'',
      produces = [''application/json''], consumes = [''application/json''], schemes = [''http'', ''https''],
      with_auth = True, param_struct_of = DeleteSupportBundle_Params,
      writes = DeleteSupportBundle_WriteToRequest, reader = DeleteSupportBundle_Reader,
      result_type = ''support_bundle_management.DeleteSupportBundleOK''\<rparr>"

definition DownloadSupportBundle_Params :: "'m param_struct" where
  "DownloadSupportBundle_Params =
     \<lparr>struct_fields = [(''CUUID'', UUIDType), (''SbUUID'', UUIDType), (''UniUUID'', UUIDType)],
      struct_defaults = []\<rparr>"

definition DownloadSupportBundle_WriteToRequest :: "write_stmt list" where
  "DownloadSupportBundle_WriteToRequest =
     [PathParam ''cUUID'' ''CUUID'', PathParam ''sbUUID'' ''SbUUID'', PathParam ''uniUUID'' ''UniUUID'']"

definition DownloadSupportBundle_Reader :: "response_case list" where
  "DownloadSupportBundle_Reader =
     [\<lparr>status_code = 200, response_type = ''support_bundle_management.DownloadSupportBundleOK'',
       payload_type = StringType, is_success = True,
       error_label = ''[GET /api/v1/customers/{cUUID}/universes/{uniUUID}/support_bundle/{sbUUID}/download][200] downloadSupportBundleOK''\<rparr>]"

definition DownloadSupportBundle_Operation :: "'m operation" where
  "DownloadSupportBundle_Operation =
     \<lparr>op_id = ''downloadSupportBundle'', op_method = ''GET'',
      path_pattern = ''/api/v1/customers/{cUUID}/universes/{uniUUID}/support_bundle/{sbUUID}/download'',
      produces = [''application/x-compressed''], consumes = [''application/json''], schemes = [''http'', ''https''],
      with_auth = True, param_struct_of = DownloadSupportBundle_Params,
      writes = DownloadSupportBundle_WriteToRequest, reader = DownloadSupportBundle_Reader,
      result_type = ''support_bundle_management.DownloadSupportBundleOK''\<rparr>"

definition GetSupportBundle_Params :: "'m param_struct" where
  "GetSupportBundle_Params =
     \<lparr>struct_fields = [(''CUUID'', UUIDType), (''SbUUID'', UUIDType), (''UniUUID'', UUIDType)],
      struct_defaults = []\<rparr>"

definition GetSupportBundle_WriteToRequest :: "write_stmt list" where
  "GetSupportBundle_WriteToRequest =
     [PathParam ''cUUID'' ''CUUID'', PathParam ''sbUUID'' ''SbUUID'', PathParam ''uniUUID'' ''UniUUID'']"

definition GetSupportBundle_Reader :: "response_case list" where
  "GetSupportBundle_Reader =
     [\<lparr>status_code = 200, response_type = ''support_bundle_management.GetSupportBundleOK'',
       payload_type = Pointer (Model ''SupportBundle''), is_success = True,
       error_label = ''[GET /api/v1/customers/{cUUID}/universes/{uniUUID}/support_bundle/{sbUUID}][200] getSupportBundleOK''\<rparr>]"

definition GetSupportBundle_Operation :: "'m operation" where
  "GetSupportBundle_Operation =
     \<lparr>op_id = ''getSupportBundle'', op_method = ''GET'',
      path_pattern = ''/api/v1/customers/{cUUID}/universes/{uniUUID}/support_bundle/{sbUUID}'',
      produces = [''application/json''], consumes = [''application/json''], schemes = [''http'', ''https''],
      with_auth = True, param_struct_of = GetSupportBundle_Params,
      writes = GetSupportBundle_WriteToRequest, reader = GetSupportBundle_Reader,
      result_type = ''support_bundle_management.GetSupportBundleOK''\<rparr>"

definition ListSupportBundle_Params :: "'m param_struct" where
  "ListSupportBundle_Params =
     \<lparr>struct_fields = [(''CUUID'', UUIDType), (''UniUUID'', UUIDType)],
      struct_defaults = []\<rparr>"

definition ListSupportBundle_WriteToRequest :: "write_stmt list" where
  "ListSupportBundle_WriteToRequest =
     [PathParam ''cUUID'' ''CUUID'', PathParam ''uniUUID'' ''UniUUID'']"

definition ListSupportBundle_Reader :: "response_case list" where
  "ListSupportBundle_Reader =
     [\<lparr>status_code = 200, response_type = ''support_bundle_management.ListSupportBundleOK'',
       payload_type = Slice (Pointer (Model ''SupportBundle'')), is_success = True,
       error_label = ''[GET /api/v1/customers/{cUUID}/universes/{uniUUID}/support_bundle][200] listSupportBundleOK''\<rparr>]"

definition ListSupportBundle_Operation :: "'m operation" where
  "ListSupportBundle_Operation =
     \<lparr>op_id = ''listSupportBundle'', op_method = ''GET'',
      path_pattern = ''/api/v1/customers/{cUUID}/universes/{uniUUID}/support_bundle'',
      produces = [''application/json''], consumes = [''application/json''], schemes = [''http'', ''https''],
      with_auth = True, param_struct_of = ListSupportBundle_Params,
      writes = ListSupportBundle_WriteToRequest, reader = ListSupportBundle_Reader,
      result_type = ''support_bundle_management.ListSupportBundleOK''\<rparr>"

definition ListSupportBundleComponents_Params :: "'m param_struct" where
  "ListSupportBundleComponents_Params =
     \<lparr>struct_fields = [(''CUUID'', UUIDType)],
      struct_defaults = []\<rparr>"

definition ListSupportBundleComponents_WriteToRequest :: "write_stmt list" where
  "ListSupportBundleComponents_WriteToRequest =
     [PathParam ''cUUID'' ''CUUID'']"

definition ListSupportBundleComponents_Reader :: "response_case list" where
  "ListSupportBundleComponents_Reader =
     [\<lparr>status_code = 200, response_type = ''support_bundle_management.ListSupportBundleComponentsOK'',
       payload_type = Slice StringType, is_success = True,
       error_label = ''[GET /api/v1/customers/{cUUID}/support_bundle/components][200] listSupportBundleComponentsOK''\<rparr>]"

definition ListSupportBundleComponents_Operation :: "'m operation" where
  "ListSupportBundleComponents_Operation =
     \<lparr>op_id = ''listSupportBundleComponents'', op_method = ''GET'',
      path_pattern = ''/api/v1/customers/{cUUID}/support_bundle/components'',
      produces = [''application/json''], consumes = [''application/json''], schemes = [''http'', ''https''],
      with_auth = True, param_struct_of = ListSupportBundleComponents_Params,
      writes = ListSupportBundleComponents_WriteToRequest, reader = ListSupportBundleComponents_Reader,
      result_type = ''support_bundle_management.ListSupportBundleComponentsOK''\<rparr>"

definition support_bundle_management_operations :: "'m operation list" where
  "support_bundle_management_operations =
     [CreateSupportBundle_Operation, DeleteSupportBundle_Operation, DownloadSupportBundle_Operation,
      GetSupportBundle_Operation, ListSupportBundle_Operation, ListSupportBundleComponents_Operation]"

lemmas support_bundle_management_defs =
  CreateSupportBundle_Operation_def CreateSupportBundle_Params_def CreateSupportBundle_WriteToRequest_def CreateSupportBundle_Reader_def
  DeleteSupportBundle_Operation_def DeleteSupportBundle_Params_def DeleteSupportBundle_WriteToRequest_def DeleteSupportBundle_Reader_def
  DownloadSupportBundle_Operation_def DownloadSupportBundle_Params_def DownloadSupportBundle_WriteToRequest_def DownloadSupportBundle_Reader_def
  GetSupportBundle_Operation_def GetSupportBundle_Params_def GetSupportBundle_WriteToRequest_def GetSupportBundle_Reader_def
  ListSupportBundle_Operation_def ListSupportBundle_Params_def ListSupportBundle_WriteToRequest_def ListSupportBundle_Reader_def
  ListSupportBundleComponents_Operation_def ListSupportBundleComponents_Params_def ListSupportBundleComponents_WriteToRequest_def ListSupportBundleComponents_Reader_def

lemma support_bundle_management_ok: "list_all operation_ok support_bundle_management_operations"
  by code_simp

end
