(* ===== verification/ApiProviders.thy ===== *)
theory ApiProviders
  imports Swagger
begin

section \<open>The generated client: cloud providers and what they offer\<close>

text \<open>
  The operations of the packages \<open>cloud_providers\<close>, \<open>region_management\<close>, \<open>availability_zones\<close>, \<open>instance_types\<close>,
  \<open>node_instances\<close>, \<open>access_keys\<close>, \<open>release_management\<close> of
  \<open>yugaware-client/pkg/client/swagger/client\<close>, as theory \<open>Swagger\<close> reads them; a list \<open>..._operations\<close>
  is the \<open>ClientService\<close> interface of a package.
\<close>

subsection \<open>cloud_providers\<close>

definition CreateProviders_Params :: "'m param_struct" where
  "CreateProviders_Params =
     \<lparr>struct_fields = [(''CreateProviderRequest'', Pointer (Model ''Provider'')), (''CUUID'', UUIDType)],
      struct_defaults = []\<rparr>"

definition CreateProviders_WriteToRequest :: "write_stmt list" where
  "CreateProviders_WriteToRequest =
     [BodyParam ''CreateProviderRequest'', PathParam ''cUUID'' ''CUUID'']"

definition CreateProviders_Reader :: "response_case list" where
  "CreateProviders_Reader =
     [\<lparr>status_code = 200, response_type = ''cloud_providers.CreateProvidersOK'',
       payload_type = Pointer (Model ''YBPTask''), is_success = True,
       error_label = ''[POST /api/v1/customers/{cUUID}/providers][200] createProvidersOK''\<rparr>]"

definition CreateProviders_Operation :: "'m operation" where
  "CreateProviders_Operation =
     \<lparr>op_id = ''createProviders'', op_method = ''POST'',
      path_pattern = ''/api/v1/customers/{cUUID}/providers'',
      produces = [''application/json''], consumes = [''application/json''], schemes = [''http'', ''https''],
      with_auth = True, param_struct_of = CreateProviders_Params,
      writes = CreateProviders_WriteToRequest, reader = CreateProviders_Reader,
      result_type = ''cloud_providers.CreateProvidersOK''\<rparr>"

definition EditProvider_Params :: "'m param_struct" where
  "EditProvider_Params =
     \<lparr>struct_fields = [(''EditProviderRequest'', Pointer (Model ''Provider'')), (''CUUID'', UUIDType),
                       (''PUUID'', UUIDType)],
      struct_defaults = []\<rparr>"

definition EditProvider_WriteToRequest :: "write_stmt list" where
  "EditProvider_WriteToRequest =
     [BodyParam ''EditProviderRequest'', PathParam ''cUUID'' ''CUUID'', PathParam ''pUUID'' ''PUUID'']"

definition EditProvider_Reader :: "response_case list" where
  "EditProvider_Reader =
     [\<lparr>status_code = 200, response_type = ''cloud_providers.EditProviderOK'',
       payload_type = Pointer (Model ''YBPTask''), is_success = True,
       error_label = ''[PUT /api/v1/customers/{cUUID}/providers/{pUUID}/edit][200] editProviderOK''\<rparr>]"

definition EditProvider_Operation :: "'m operation" where
  "EditProvider_Operation =
     \<lparr>op_id = ''editProvider'', op_method = ''PUT'',
      path_pattern = ''/api/v1/customers/{cUUID}/providers/{pUUID}/edit'',
      produces = [''application/json''], consumes = [''application/json''], schemes = [''http'', ''https''],
      with_auth = True, param_struct_of = EditProvider_Params,
      writes = EditProvider_WriteToRequest, reader = EditProvider_Reader,
      result_type = ''cloud_providers.EditProviderOK''\<rparr>"

definition GetListOfProviders_Params :: "'m param_struct" where
  "GetListOfProviders_Params =
     \<lparr>struct_fields = [(''CUUID'', UUIDType), (''Name'', Pointer StringType),
                       (''ProviderCode'', Pointer StringType)],
      struct_defaults = [(''Name'', Address (Text ''null'')), (''ProviderCode'', Address (Text ''null''))]\<rparr>"

definition GetListOfProviders_WriteToRequest :: "write_stmt list" where
  "GetListOfProviders_WriteToRequest =
     [PathParam ''cUUID'' ''CUUID'', QueryParam ''name'' ''Name'', QueryParam ''providerCode'' ''ProviderCode'']"

definition GetListOfProviders_Reader :: "response_case list" where
  "GetListOfProviders_Reader =
     [\<lparr>status_code = 200, response_type = ''cloud_providers.GetListOfProvidersOK'',
       payload_type = Slice (Pointer (Model ''Provider'')), is_success = True,
       error_label = ''[GET /api/v1/customers/{cUUID}/providers][200] getListOfProvidersOK''\<rparr>]"

definition GetListOfProviders_Operation :: "'m operation" where
  "GetListOfProviders_Operation =
     \<lparr>op_id = ''getListOfProviders'', op_method = ''GET'',
      path_pattern = ''/api/v1/customers/{cUUID}/providers'',
      produces = [''application/json''], consumes = [''application/json''], schemes = [''http'', ''https''],
      with_auth = True, param_struct_of = GetListOfProviders_Params,
      writes = GetListOfProviders_WriteToRequest, reader = GetListOfProviders_Reader,
      result_type = ''cloud_providers.GetListOfProvidersOK''\<rparr>"

definition RefreshPricing_Params :: "'m param_struct" where
  "RefreshPricing_Params =
     \<lparr>struct_fields = [(''CUUID'', UUIDType), (''PUUID'', UUIDType)],
      struct_defaults = []\<rparr>"

definition RefreshPricing_WriteToRequest :: "write_stmt list" where
  "RefreshPricing_WriteToRequest =
     [PathParam ''cUUID'' ''CUUID'', PathParam ''pUUID'' ''PUUID'']"

definition RefreshPricing_Reader :: "response_case list" where
  "RefreshPricing_Reader =
     [\<lparr>status_code = 200, response_type = ''cloud_providers.RefreshPricingOK'',
       payload_type = Pointer (Model ''YBPSuccess''), is_success = True,
       error_label = ''[PUT /api/v1/customers/{cUUID}/providers/{pUUID}/refresh_pricing][200] refreshPricingOK''\<rparr>]"

definition RefreshPricing_Operation :: "'m operation" where
  "RefreshPricing_Operation =
     \<lparr>op_id = ''refreshPricing'', op_method = ''PUT'',
      path_pattern = ''/api/v1/customers/{cUUID}/providers/{pUUID}/refresh_pricing'',
      produces = [''application/json''], consumes = [''application/json''], schemes = [''http'', ''https''],
      with_auth = True, param_struct_of = RefreshPricing_Params,
      writes = RefreshPricing_WriteToRequest, reader = RefreshPricing_Reader,
      result_type = ''cloud_providers.RefreshPricingOK''\<rparr>"

definition cloud_providers_operations :: "'m operation list" where
  "cloud_providers_operations =
     [CreateProviders_Operation, EditProvider_Operation, GetListOfProviders_Operation, RefreshPricing_Operation]"

lemmas cloud_providers_defs =
  CreateProviders_Operation_def CreateProviders_Params_def CreateProviders_WriteToRequest_def CreateProviders_Reader_def
  EditProvider_Operation_def EditProvider_Params_def EditProvider_WriteToRequest_def EditProvider_Reader_def
  GetListOfProviders_Operation_def GetListOfProviders_Params_def GetListOfProviders_WriteToRequest_def GetListOfProviders_Reader_def
  RefreshPricing_Operation_def RefreshPricing_Params_def RefreshPricing_WriteToRequest_def RefreshPricing_Reader_def

lemma cloud_providers_ok: "list_all operation_ok cloud_providers_operations"
  by code_simp

subsection \<open>region_management\<close>

definition CreateRegion_Params :: "'m param_struct" where
  "CreateRegion_Params =
     \<lparr>struct_fields = [(''CUUID'', UUIDType), (''PUUID'', UUIDType),
                       (''Region'', Pointer (Model ''RegionFormData''))],
      struct_defaults = []\<rparr>"

definition CreateRegion_WriteToRequest :: "write_stmt list" where
  "CreateRegion_WriteToRequest =
     [PathParam ''cUUID'' ''CUUID'', PathParam ''pUUID'' ''PUUID'', BodyParam ''Region'']"

definition CreateRegion_Reader :: "response_case list" where
  "CreateRegion_Reader =
     [\<lparr>status_code = 200, response_type = ''region_management.CreateRegionOK'',
       payload_type = Pointer (Model ''Region''), is_success = True,
       error_label = ''[POST /api/v1/customers/{cUUID}/providers/{pUUID}/regions][200] createRegionOK''\<rparr>]"

definition CreateRegion_Operation :: "'m operation" where
  "CreateRegion_Operation =
     \<lparr>op_id = ''createRegion'', op_method = ''POST'',
      path_pattern = ''/api/v1/customers/{cUUID}/providers/{pUUID}/regions'',
      produces = [''application/json''], consumes = [''application/json''], schemes = [''http'', ''https''],
      with_auth = True, param_struct_of = CreateRegion_Params,
      writes = CreateRegion_WriteToRequest, reader = CreateRegion_Reader,
      result_type = ''region_management.CreateRegionOK''\<rparr>"

definition DeleteRegion_Params :: "'m param_struct" where
  "DeleteRegion_Params =
     \<lparr>struct_fields = [(''CUUID'', UUIDType), (''PUUID'', UUIDType), (''RUUID'', UUIDType)],
      struct_defaults = []\<rparr>"

definition DeleteRegion_WriteToRequest :: "write_stmt list" where
  "DeleteRegion_WriteToRequest =
     [PathParam ''cUUID'' ''CUUID'', PathParam ''pUUID'' ''PUUID'', PathParam ''rUUID'' ''RUUID'']"

definition DeleteRegion_Reader :: "response_case list" where
  "DeleteRegion_Reader =
     [\<lparr>status_code = 200, response_type = ''region_management.DeleteRegionOK'',
       payload_type = AnyType, is_success = True,
       error_label = ''[DELETE /api/v1/customers/{cUUID}/providers/{pUUID}/regions/{rUUID}][200] deleteRegionOK''\<rparr>]"

definition DeleteRegion_Operation :: "'m operation" where
  "DeleteRegion_Operation =
     \<lparr>op_id = ''deleteRegion'', op_method = ''DELETE'',
      path_pattern = ''/api/v1/customers/{cUUID}/providers/{pUUID}/regions/{rUUID}'',
      produces = [''application/json''], consumes = [''application/json''], schemes = [''http'', ''https''],
      with_auth = True, param_struct_of = DeleteRegion_Params,
      writes = DeleteRegion_WriteToRequest, reader = DeleteRegion_Reader,
      result_type = ''region_management.DeleteRegionOK''\<rparr>"

definition GetRegion_Params :: "'m param_struct" where
  "GetRegion_Params =
     \<lparr>struct_fields = [(''CUUID'', UUIDType), (''PUUID'', UUIDType)],
      struct_defaults = []\<rparr>"

definition GetRegion_WriteToRequest :: "write_stmt list" where
  "GetRegion_WriteToRequest =
     [PathParam ''cUUID'' ''CUUID'', PathParam ''pUUID'' ''PUUID'']"

definition GetRegion_Reader :: "response_case list" where
  "GetRegion_Reader =
     [\<lparr>status_code = 200, response_type = ''region_management.GetRegionOK'',
       payload_type = Slice (Pointer (Model ''Region'')), is_success = True,
       error_label = ''[GET /api/v1/customers/{cUUID}/providers/{pUUID}/regions][200] getRegionOK''\<rparr>,
      \<lparr>status_code = 500, response_type = ''region_management.GetRegionInternalServerError'',
       payload_type = Pointer (Model ''YBPError''), is_success = False,
       error_label = ''[GET /api/v1/customers/{cUUID}/providers/{pUUID}/regions][500] getRegionInternalServerError''\<rparr>]"

definition GetRegion_Operation :: "'m operation" where
  "GetRegion_Operation =
     \<lparr>op_id = ''getRegion'', op_method = ''GET'',
      path_pattern = ''/api/v1/customers/{cUUID}/providers/{pUUID}/regions'',
      produces = [''application/json''], consumes = [''application/json''], schemes = [''http'', ''https''],
      with_auth = True, param_struct_of = GetRegion_Params,
      writes = GetRegion_WriteToRequest, reader = GetRegion_Reader,
      result_type = ''region_management.GetRegionOK''\<rparr>"

definition ListAllRegions_Params :: "'m param_struct" where
  "ListAllRegions_Params =
     \<lparr>struct_fields = [(''CUUID'', UUIDType)],
      struct_defaults = []\<rparr>"

definition ListAllRegions_WriteToRequest :: "write_stmt list" where
  "ListAllRegions_WriteToRequest =
     [PathParam ''cUUID'' ''CUUID'']"

definition ListAllRegions_Reader :: "response_case list" where
  "ListAllRegions_Reader =
     [\<lparr>status_code = 200, response_type = ''region_management.ListAllRegionsOK'',
       payload_type = Slice (Pointer (Model ''Region'')), is_success = True,
       error_label = ''[GET /api/v1/customers/{cUUID}/regions][200] listAllRegionsOK''\<rparr>]"

definition ListAllRegions_Operation :: "'m operation" where
  "ListAllRegions_Operation =
     \<lparr>op_id = ''listAllRegions'', op_method = ''GET'',
      path_pattern = ''/api/v1/customers/{cUUID}/regions'',
      produces = [''application/json''], consumes = [''application/json''], schemes = [''http'', ''https''],
      with_auth = True, param_struct_of = ListAllRegions_Params,
      writes = ListAllRegions_WriteToRequest, reader = ListAllRegions_Reader,
      result_type = ''region_management.ListAllRegionsOK''\<rparr>"

definition region_management_operations :: "'m operation list" where
  "region_management_operations =
     [CreateRegion_Operation, DeleteRegion_Operation, GetRegion_Operation, ListAllRegions_Operation]"

lemmas region_management_defs =
  CreateRegion_Operation_def CreateRegion_Params_def CreateRegion_WriteToRequest_def CreateRegion_Reader_def
  DeleteRegion_Operation_def DeleteRegion_Params_def DeleteRegion_WriteToRequest_def DeleteRegion_Reader_def
  GetRegion_Operation_def GetRegion_Params_def GetRegion_WriteToRequest_def GetRegion_Reader_def
  ListAllRegions_Operation_def ListAllRegions_Params_def ListAllRegions_WriteToRequest_def ListAllRegions_Reader_def

lemma region_management_ok: "list_all operation_ok region_management_operations"
  by code_simp

subsection \<open>availability_zones\<close>

definition CreateAZ_Params :: "'m param_struct" where
  "CreateAZ_Params =
     \<lparr>struct_fields = [(''AzFormData'', Pointer (Model ''AvailabilityZoneFormData'')), (''CUUID'', UUIDType),
                       (''PUUID'', UUIDType), (''RUUID'', UUIDType)],
      struct_defaults = []\<rparr>"

definition CreateAZ_WriteToRequest :: "write_stmt list" where
  "CreateAZ_WriteToRequest =
     [BodyParam ''AzFormData'', PathParam ''cUUID'' ''CUUID'', PathParam ''pUUID'' ''PUUID'',
      PathParam ''rUUID'' ''RUUID'']"

definition CreateAZ_Reader :: "response_case list" where
  "CreateAZ_Reader =
     [\<lparr>status_code = 200, response_type = ''availability_zones.CreateAZOK'',
       payload_type = MapOf (Model ''AvailabilityZone''), is_success = True,
       error_label = ''[POST /api/v1/customers/{cUUID}/providers/{pUUID}/regions/{rUUID}/zones][200] createAZOK''\<rparr>]"

definition CreateAZ_Operation :: "'m operation" where
  "CreateAZ_Operation =
     \<lparr>op_id = ''createAZ'', op_method = ''POST'',
      path_pattern = ''/api/v1/customers/{cUUID}/providers/{pUUID}/regions/{rUUID}/zones'',
      produces = [''application/json''], consumes = [''application/json''], schemes = [''http'', ''https''],
      with_auth = True, param_struct_of = CreateAZ_Params,
      writes = CreateAZ_WriteToRequest, reader = CreateAZ_Reader,
      result_type = ''availability_zones.CreateAZOK''\<rparr>"

definition DeleteAZ_Params :: "'m param_struct" where
  "DeleteAZ_Params =
     \<lparr>struct_fields = [(''AzUUID'', UUIDType), (''CUUID'', UUIDType), (''PUUID'', UUIDType),
                       (''RUUID'', UUIDType)],
      struct_defaults = []\<rparr>"

definition DeleteAZ_WriteToRequest :: "write_stmt list" where
  "DeleteAZ_WriteToRequest =
     [PathParam ''azUUID'' ''AzUUID'', PathParam ''cUUID'' ''CUUID'', PathParam ''pUUID'' ''PUUID'',
      PathParam ''rUUID'' ''RUUID'']"

definition DeleteAZ_Reader :: "response_case list" where
  "DeleteAZ_Reader =
     [\<lparr>status_code = 200, response_type = ''availability_zones.DeleteAZOK'',
       payload_type = Pointer (Model ''YBPSuccess''), is_success = True,
       error_label = ''[DELETE /api/v1/customers/{cUUID}/providers/{pUUID}/regions/{rUUID}/zones/{azUUID}][200] deleteAZOK''\<rparr>]"

definition DeleteAZ_Operation :: "'m operation" where
  "DeleteAZ_Operation =
     \<lparr>op_id = ''deleteAZ'', op_method = ''DELETE'',
      path_pattern = ''/api/v1/customers/{cUUID}/providers/{pUUID}/regions/{rUUID}/zones/{azUUID}'',
      produces = [''application/json''], consumes = [''application/json''], schemes = [''http'', ''https''],
      with_auth = True, param_struct_of = DeleteAZ_Params,
      writes = DeleteAZ_WriteToRequest, reader = DeleteAZ_Reader,
      result_type = ''availability_zones.DeleteAZOK''\<rparr>"

definition ListOfAZ_Params :: "'m param_struct" where
  "ListOfAZ_Params =
     \<lparr>struct_fields = [(''CUUID'', UUIDType), (''PUUID'', UUIDType), (''RUUID'', UUIDType)],
      struct_defaults = []\<rparr>"

definition ListOfAZ_WriteToRequest :: "write_stmt list" where
  "ListOfAZ_WriteToRequest =
     [PathParam ''cUUID'' ''CUUID'', PathParam ''pUUID'' ''PUUID'', PathParam ''rUUID'' ''RUUID'']"

definition ListOfAZ_Reader :: "response_case list" where
  "ListOfAZ_Reader =
     [\<lparr>status_code = 200, response_type = ''availability_zones.ListOfAZOK'',
       payload_type = Slice (Pointer (Model ''AvailabilityZone'')), is_success = True,
       error_label = ''[GET /api/v1/customers/{cUUID}/providers/{pUUID}/regions/{rUUID}/zones][200] listOfAZOK''\<rparr>]"

definition ListOfAZ_Operation :: "'m operation" where
  "ListOfAZ_Operation =
     \<lparr>op_id = ''listOfAZ'', op_method = ''GET'',
      path_pattern = ''/api/v1/customers/{cUUID}/providers/{pUUID}/regions/{rUUID}/zones'',
      produces = [''application/json''], consumes = [''application/json''], schemes = [''http'', ''https''],
      with_auth = True, param_struct_of = ListOfAZ_Params,
      writes = ListOfAZ_WriteToRequest, reader = ListOfAZ_Reader,
      result_type = ''availability_zones.ListOfAZOK''\<rparr>"

definition availability_zones_operations :: "'m operation list" where
  "availability_zones_operations =
     [CreateAZ_Operation, DeleteAZ_Operation, ListOfAZ_Operation]"

lemmas availability_zones_defs =
  CreateAZ_Operation_def CreateAZ_Params_def CreateAZ_WriteToRequest_def CreateAZ_Reader_def
  DeleteAZ_Operation_def DeleteAZ_Params_def DeleteAZ_WriteToRequest_def DeleteAZ_Reader_def
  ListOfAZ_Operation_def ListOfAZ_Params_def ListOfAZ_WriteToRequest_def ListOfAZ_Reader_def

lemma availability_zones_ok: "list_all operation_ok availability_zones_operations"
  by code_simp

subsection \<open>instance_types\<close>

definition CreateInstanceType_Params :: "'m param_struct" where
  "CreateInstanceType_Params =
     \<lparr>struct_fields = [(''InstanceType'', Pointer (Model ''InstanceType'')), (''CUUID'', UUIDType),
                       (''PUUID'', UUIDType)],
      struct_defaults = []\<rparr>"

definition CreateInstanceType_WriteToRequest :: "write_stmt list" where
  "CreateInstanceType_WriteToRequest =
     [BodyParam ''InstanceType'', PathParam ''cUUID'' ''CUUID'', PathParam ''pUUID'' ''PUUID'']"

definition CreateInstanceType_Reader :: "response_case list" where
  "CreateInstanceType_Reader =
     [\<lparr>status_code = 200, response_type = ''instance_types.CreateInstanceTypeOK'',
       payload_type = Pointer (Model ''InstanceType''), is_success = True,
       error_label = ''[POST /api/v1/customers/{cUUID}/providers/{pUUID}/instance_types][200] createInstanceTypeOK''\<rparr>]"

definition CreateInstanceType_Operation :: "'m operation" where
  "CreateInstanceType_Operation =
     \<lparr>op_id = ''createInstanceType'', op_method = ''POST'',
      path_pattern = ''/api/v1/customers/{cUUID}/providers/{pUUID}/instance_types'',
      produces = [''application/json''], consumes = [''application/json''], schemes = [''http'', ''https''],
      with_auth = True, param_struct_of = CreateInstanceType_Params,
      writes = CreateInstanceType_WriteToRequest, reader = CreateInstanceType_Reader,
      result_type = ''instance_types.CreateInstanceTypeOK''\<rparr>"

definition DeleteInstanceType_Params :: "'m param_struct" where
  "DeleteInstanceType_Params =
     \<lparr>struct_fields = [(''CUUID'', UUIDType), (''Code'', StringType), (''PUUID'', UUIDType)],
      struct_defaults = []\<rparr>"

definition DeleteInstanceType_WriteToRequest :: "write_stmt list" where
  "DeleteInstanceType_WriteToRequest =
     [PathParam ''cUUID'' ''CUUID'', PathParam ''code'' ''Code'', PathParam ''pUUID'' ''PUUID'']"

definition DeleteInstanceType_Reader :: "response_case list" where
  "DeleteInstanceType_Reader =
     [\<lparr>status_code = 200, response_type = ''instance_types.DeleteInstanceTypeOK'',
       payload_type = Pointer (Model ''YBPSuccess''), is_success = True,
       error_label = ''[DELETE /api/v1/customers/{cUUID}/providers/{pUUID}/instance_types/{code}][200] deleteInstanceTypeOK''\<rparr>]"

definition DeleteInstanceType_Operation :: "'m operation" where
  "DeleteInstanceType_Operation =
     \<lparr>op_id = ''deleteInstanceType'', op_method = ''DELETE'',
      path_pattern = ''/api/v1/customers/{cUUID}/providers/{pUUID}/instance_types/{code}'',
      produces = [''application/json''], consumes = [''application/json''], schemes = [''http'', ''https''],
      with_auth = True, param_struct_of = DeleteInstanceType_Params,
      writes = DeleteInstanceType_WriteToRequest, reader = DeleteInstanceType_Reader,
      result_type = ''instance_types.DeleteInstanceTypeOK''\<rparr>"

definition GetAZUTypes_Params :: "'m param_struct" where
  "GetAZUTypes_Params =
     \<lparr>struct_fields = [],
      struct_defaults = []\<rparr>"

definition GetAZUTypes_WriteToRequest :: "write_stmt list" where
  "GetAZUTypes_WriteToRequest =
     []"

definition GetAZUTypes_Reader :: "response_case list" where
  "GetAZUTypes_Reader =
     [\<lparr>status_code = 200, response_type = ''instance_types.GetAZUTypesOK'',
       payload_type = Slice StringType, is_success = True,
       error_label = ''[GET /api/v1/metadata/azu_types][200] getAZUTypesOK''\<rparr>]"

definition GetAZUTypes_Operation :: "'m operation" where
  "GetAZUTypes_Operation =
     \<lparr>op_id = ''getAZUTypes'', op_method = ''GET'',
      path_pattern = ''/api/v1/metadata/azu_types'',
      produces = [''application/json''], consumes = [''application/json''], schemes = [''http'', ''https''],
      with_auth = True, param_struct_of = GetAZUTypes_Params,
      writes = GetAZUTypes_WriteToRequest, reader = GetAZUTypes_Reader,
      result_type = ''instance_types.GetAZUTypesOK''\<rparr>"

definition GetEBSTypes_Params :: "'m param_struct" where
  "GetEBSTypes_Params =
     \<lparr>struct_fields = [],
      struct_defaults = []\<rparr>"

definition GetEBSTypes_WriteToRequest :: "write_stmt list" where
  "GetEBSTypes_WriteToRequest =
     []"

definition GetEBSTypes_Reader :: "response_case list" where
  "GetEBSTypes_Reader =
     [\<lparr>status_code = 200, response_type = ''instance_types.GetEBSTypesOK'',
       payload_type = Slice StringType, is_success = True,
       error_label = ''[GET /api/v1/metadata/ebs_types][200] getEBSTypesOK''\<rparr>]"

definition GetEBSTypes_Operation :: "'m operation" where
  "GetEBSTypes_Operation =
     \<lparr>op_id = ''getEBSTypes'', op_method = ''GET'',
      path_pattern = ''/api/v1/metadata/ebs_types'',
      produces = [''application/json''], consumes = [''application/json''], schemes = [''http'', ''https''],
      with_auth = True, param_struct_of = GetEBSTypes_Params,
      writes = GetEBSTypes_WriteToRequest, reader = GetEBSTypes_Reader,
      result_type = ''instance_types.GetEBSTypesOK''\<rparr>"

definition GetGCPTypes_Params :: "'m param_struct" where
  "GetGCPTypes_Params =
     \<lparr>struct_fields = [],
      struct_defaults = []\<rparr>"

definition GetGCPTypes_WriteToRequest :: "write_stmt list" where
  "GetGCPTypes_WriteToRequest =
     []"

definition GetGCPTypes_Reader :: "response_case list" where
  "GetGCPTypes_Reader =
     [\<lparr>status_code = 200, response_type = ''instance_types.GetGCPTypesOK'',
       payload_type = Slice StringType, is_success = True,
       error_label = ''[GET /api/v1/metadata/gcp_types][200] getGCPTypesOK''\<rparr>]"

definition GetGCPTypes_Operation :: "'m operation" where
  "GetGCPTypes_Operation =
     \<lparr>op_id = ''getGCPTypes'', op_method = ''GET'',
      path_pattern = ''/api/v1/metadata/gcp_types'',
      produces = [''application/json''], consumes = [''application/json''], schemes = [''http'', ''https''],
      with_auth = True, param_struct_of = GetGCPTypes_Params,
      writes = GetGCPTypes_WriteToRequest, reader = GetGCPTypes_Reader,
      result_type = ''instance_types.GetGCPTypesOK''\<rparr>"

definition InstanceTypeDetail_Params :: "'m param_struct" where
  "InstanceTypeDetail_Params =
     \<lparr>struct_fields = [(''CUUID'', UUIDType), (''Code'', StringType), (''PUUID'', UUIDType)],
      struct_defaults = []\<rparr>"

definition InstanceTypeDetail_WriteToRequest :: "write_stmt list" where
  "InstanceTypeDetail_WriteToRequest =
     [PathParam ''cUUID'' ''CUUID'', PathParam ''code'' ''Code'', PathParam ''pUUID'' ''PUUID'']"

definition InstanceTypeDetail_Reader :: "response_case list" where
  "InstanceTypeDetail_Reader =
     [\<lparr>status_code = 200, response_type = ''instance_types.InstanceTypeDetailOK'',
       payload_type = Pointer (Model ''InstanceType''), is_success = True,
       error_label = ''[GET /api/v1/customers/{cUUID}/providers/{pUUID}/instance_types/{code}][200] instanceTypeDetailOK''\<rparr>]"

definition InstanceTypeDetail_Operation :: "'m operation" where
  "InstanceTypeDetail_Operation =
     \<lparr>op_id = ''instanceTypeDetail'', op_method = ''GET'',
      path_pattern = ''/api/v1/customers/{cUUID}/providers/{pUUID}/instance_types/{code}'',
      produces = [''application/json''], consumes = [''application/json''], schemes = [''http'', ''https''],
      with_auth = True, param_struct_of = InstanceTypeDetail_Params,
      writes = InstanceTypeDetail_WriteToRequest, reader = InstanceTypeDetail_Reader,
      result_type = ''instance_types.InstanceTypeDetailOK''\<rparr>"

definition ListOfInstanceType_Params :: "'m param_struct" where
  "ListOfInstanceType_Params =
     \<lparr>struct_fields = [(''CUUID'', UUIDType), (''PUUID'', UUIDType), (''Zone'', Slice StringType)],
      struct_defaults = [(''Zone'', Texts [])]\<rparr>"

definition ListOfInstanceType_WriteToRequest :: "write_stmt list" where
  "ListOfInstanceType_WriteToRequest =
     [PathParam ''cUUID'' ''CUUID'', PathParam ''pUUID'' ''PUUID'', QueryParams ''zone'' ''Zone'']"

definition ListOfInstanceType_Reader :: "response_case list" where
  "ListOfInstanceType_Reader =
     [\<lparr>status_code = 200, response_type = ''instance_types.ListOfInstanceTypeOK'',
       payload_type = Slice (Pointer (Model ''InstanceType'')), is_success = True,
       error_label = ''[GET /api/v1/customers/{cUUID}/providers/{pUUID}/instance_types][200] listOfInstanceTypeOK''\<rparr>,
      \<lparr>status_code = 500, response_type = ''instance_types.ListOfInstanceTypeInternalServerError'',
       payload_type = Pointer (Model ''YBPError''), is_success = False,
       error_label = ''[GET /api/v1/customers/{cUUID}/providers/{pUUID}/instance_types][500] listOfInstanceTypeInternalServerError''\<rparr>]"

definition ListOfInstanceType_Operation :: "'m operation" where
  "ListOfInstanceType_Operation =
     \<lparr>op_id = ''listOfInstanceType'', op_method = ''GET'',
      path_pattern = ''/api/v1/customers/{cUUID}/providers/{pUUID}/instance_types'',
      produces = [''application/json''], consumes = [''application/json''], schemes = [''http'', ''https''],
      with_auth = True, param_struct_of = ListOfInstanceType_Params,
      writes = ListOfInstanceType_WriteToRequest, reader = ListOfInstanceType_Reader,
      result_type = ''instance_types.ListOfInstanceTypeOK''\<rparr>"

definition instance_types_operations :: "'m operation list" where
  "instance_types_operations =
     [CreateInstanceType_Operation, DeleteInstanceType_Operation, GetAZUTypes_Operation, GetEBSTypes_Operation,
      GetGCPTypes_Operation, InstanceTypeDetail_Operation, ListOfInstanceType_Operation]"

lemmas instance_types_defs =
  CreateInstanceType_Operation_def CreateInstanceType_Params_def CreateInstanceType_WriteToRequest_def CreateInstanceType_Reader_def
  DeleteInstanceType_Operation_def DeleteInstanceType_Params_def DeleteInstanceType_WriteToRequest_def DeleteInstanceType_Reader_def
  GetAZUTypes_Operation_def GetAZUTypes_Params_def GetAZUTypes_WriteToRequest_def GetAZUTypes_Reader_def
  GetEBSTypes_Operation_def GetEBSTypes_Params_def GetEBSTypes_WriteToRequest_def GetEBSTypes_Reader_def
  GetGCPTypes_Operation_def GetGCPTypes_Params_def GetGCPTypes_WriteToRequest_def GetGCPTypes_Reader_def
  InstanceTypeDetail_Operation_def InstanceTypeDetail_Params_def InstanceTypeDetail_WriteToRequest_def InstanceTypeDetail_Reader_def
  ListOfInstanceType_Operation_def ListOfInstanceType_Params_def ListOfInstanceType_WriteToRequest_def ListOfInstanceType_Reader_def

lemma instance_types_ok: "list_all operation_ok instance_types_operations"
  by code_simp

subsection \<open>node_instances\<close>

definition CreateNodeInstance_Params :: "'m param_struct" where
  "CreateNodeInstance_Params =
     \<lparr>struct_fields = [(''NodeInstance'', Pointer (Model ''NodeInstanceFormData'')), (''AzUUID'', UUIDType),
                       (''CUUID'', UUIDType)],
      struct_defaults = []\<rparr>"

definition CreateNodeInstance_WriteToRequest :: "write_stmt list" where
  "CreateNodeInstance_WriteToRequest =
     [BodyParam ''NodeInstance'', PathParam ''azUUID'' ''AzUUID'', PathParam ''cUUID'' ''CUUID'']"

definition CreateNodeInstance_Reader :: "response_case list" where
  "CreateNodeInstance_Reader =
     [\<lparr>status_code = 200, response_type = ''node_instances.CreateNodeInstanceOK'',
       payload_type = MapOf (Model ''NodeInstance''), is_success = True,
       error_label = ''[POST /api/v1/customers/{cUUID}/zones/{azUUID}/nodes][200] createNodeInstanceOK''\<rparr>]"

definition CreateNodeInstance_Operation :: "'m operation" where
  "CreateNodeInstance_Operation =
     \<lparr>op_id = ''createNodeInstance'', op_method = ''POST'',
      path_pattern = ''/api/v1/customers/{cUUID}/zones/{azUUID}/nodes'',
      produces = [''application/json''], consumes = [''application/json''], schemes = [''http'', ''https''],
      with_auth = True, param_struct_of = CreateNodeInstance_Params,
      writes = CreateNodeInstance_WriteToRequest, reader = CreateNodeInstance_Reader,
      result_type = ''node_instances.CreateNodeInstanceOK''\<rparr>"

definition DeleteInstance_Params :: "'m param_struct" where
  "DeleteInstance_Params =
     \<lparr>struct_fields = [(''CUUID'', UUIDType), (''InstanceIP'', StringType), (''PUUID'', UUIDType)],
      struct_defaults = []\<rparr>"

definition DeleteInstance_WriteToRequest :: "write_stmt list" where
  "DeleteInstance_WriteToRequest =
     [PathParam ''cUUID'' ''CUUID'', PathParam ''instanceIP'' ''InstanceIP'', PathParam ''pUUID'' ''PUUID'']"

definition DeleteInstance_Reader :: "response_case list" where
  "DeleteInstance_Reader =
     [\<lparr>status_code = 200, response_type = ''node_instances.DeleteInstanceOK'',
       payload_type = Pointer (Model ''YBPSuccess''), is_success = True,
       error_label = ''[DELETE /api/v1/customers/{cUUID}/providers/{pUUID}/instances/{instanceIP}][200] deleteInstanceOK''\<rparr>]"

definition DeleteInstance_Operation :: "'m operation" where
  "DeleteInstance_Operation =
     \<lparr>op_id = ''deleteInstance'', op_method = ''DELETE'',
      path_pattern = ''/api/v1/customers/{cUUID}/providers/{pUUID}/instances/{instanceIP}'',
      produces = [''application/json''], consumes = [''application/json''], schemes = [''http'', ''https''],
      with_auth = True, param_struct_of = DeleteInstance_Params,
      writes = DeleteInstance_WriteToRequest, reader = DeleteInstance_Reader,
      result_type = ''node_instances.DeleteInstanceOK''\<rparr>"

definition DetachedNodeAction_Params :: "'m param_struct" where
  "DetachedNodeAction_Params =
     \<lparr>struct_fields = [(''CUUID'', UUIDType), (''InstanceIP'', StringType), (''PUUID'', UUIDType)],
      struct_defaults = []\<rparr>"

definition DetachedNodeAction_WriteToRequest :: "write_stmt list" where
  "DetachedNodeAction_WriteToRequest =
     [PathParam ''cUUID'' ''CUUID'', PathParam ''instanceIP'' ''InstanceIP'', PathParam ''pUUID'' ''PUUID'']"

definition DetachedNodeAction_Reader :: "response_case list" where
  "DetachedNodeAction_Reader =
     [\<lparr>status_code = 200, response_type = ''node_instances.DetachedNodeActionOK'',
       payload_type = Pointer (Model ''YBPTask''), is_success = True,
       error_label = ''[POST /api/v1/customers/{cUUID}/providers/{pUUID}/instances/{instanceIP}][200] detachedNodeActionOK''\<rparr>]"

definition DetachedNodeAction_Operation :: "'m operation" where
  "DetachedNodeAction_Operation =
     \<lparr>op_id = ''detachedNodeAction'', op_method = ''POST'',
      path_pattern = ''/api/v1/customers/{cUUID}/providers/{pUUID}/instances/{instanceIP}'',
      produces = [''application/json''], consumes = [''application/json''], schemes = [''http'', ''https''],
      with_auth = True, param_struct_of = DetachedNodeAction_Params,
      writes = DetachedNodeAction_WriteToRequest, reader = DetachedNodeAction_Reader,
      result_type = ''node_instances.DetachedNodeActionOK''\<rparr>"

definition GetNodeInstance_Params :: "'m param_struct" where
  "GetNodeInstance_Params =
     \<lparr>struct_fields = [(''CUUID'', UUIDType), (''NodeUUID'', UUIDType)],
      struct_defaults = []\<rparr>"

definition GetNodeInstance_WriteToRequest :: "write_stmt list" where
  "GetNodeInstance_WriteToRequest =
     [PathParam ''cUUID'' ''CUUID'', PathParam ''nodeUUID'' ''NodeUUID'']"

definition GetNodeInstance_Reader :: "response_case list" where
  "GetNodeInstance_Reader =
     [\<lparr>status_code = 200, response_type = ''node_instances.GetNodeInstanceOK'',
       payload_type = Pointer (Model ''NodeInstance''), is_success = True,
       error_label = ''[GET /api/v1/customers/{cUUID}/nodes/{nodeUUID}/list][200] getNodeInstanceOK''\<rparr>]"

definition GetNodeInstance_Operation :: "'m operation" where
  "GetNodeInstance_Operation =
     \<lparr>op_id = ''getNodeInstance'', op_method = ''GET'',
      path_pattern = ''/api/v1/customers/{cUUID}/nodes/{nodeUUID}/list'',
      produces = [''application/json''], consumes = [''application/json''], schemes = [''http'', ''https''],
      with_auth = True, param_struct_of = GetNodeInstance_Params,
      writes = GetNodeInstance_WriteToRequest, reader = GetNodeInstance_Reader,
      result_type = ''node_instances.GetNodeInstanceOK''\<rparr>"

definition ListByProvider_Params :: "'m param_struct" where
  "ListByProvider_Params =
     \<lparr>struct_fields = [(''CUUID'', UUIDType), (''PUUID'', UUIDType)],
      struct_defaults = []\<rparr>"

definition ListByProvider_WriteToRequest :: "write_stmt list" where
  "ListByProvider_WriteToRequest =
     [PathParam ''cUUID'' ''CUUID'', PathParam ''pUUID'' ''PUUID'']"

definition ListByProvider_Reader :: "response_case list" where
  "ListByProvider_Reader =
     [\<lparr>status_code = 200, response_type = ''node_instances.ListByProviderOK'',
       payload_type = Slice (Pointer (Model ''NodeInstance'')), is_success = True,
       error_label = ''[GET /api/v1/customers/{cUUID}/providers/{pUUID}/nodes/list][200] listByProviderOK''\<rparr>]"

definition ListByProvider_Operation :: "'m operation" where
  "ListByProvider_Operation =
     \<lparr>op_id = ''listByProvider'', op_method = ''GET'',
      path_pattern = ''/api/v1/customers/{cUUID}/providers/{pUUID}/nodes/list'',
      produces = [''application/json''], consumes = [''application/json''], schemes = [''http'', ''https''],
      with_auth = True, param_struct_of = ListByProvider_Params,
      writes = ListByProvider_WriteToRequest, reader = ListByProvider_Reader,
      result_type = ''node_instances.ListByProviderOK''\<rparr>"

definition ListByZone_Params :: "'m param_struct" where
  "ListByZone_Params =
     \<lparr>struct_fields = [(''AzUUID'', UUIDType), (''CUUID'', UUIDType)],
      struct_defaults = []\<rparr>"

definition ListByZone_WriteToRequest :: "write_stmt list" where
  "ListByZone_WriteToRequest =
     [PathParam ''azUUID'' ''AzUUID'', PathParam ''cUUID'' ''CUUID'']"

definition ListByZone_Reader :: "response_case list" where
  "ListByZone_Reader =
     [\<lparr>status_code = 200, response_type = ''node_instances.ListByZoneOK'',
       payload_type = Slice (Pointer (Model ''NodeInstance'')), is_success = True,
       error_label = ''[GET /api/v1/customers/{cUUID}/zones/{azUUID}/nodes/list][200] listByZoneOK''\<rparr>]"

definition ListByZone_Operation :: "'m operation" where
  "ListByZone_Operation =
     \<lparr>op_id = ''listByZone'', op_method = ''GET'',
      path_pattern = ''/api/v1/customers/{cUUID}/zones/{azUUID}/nodes/list'',
      produces = [''application/json''], consumes = [''application/json''], schemes = [''http'', ''https''],
      with_auth = True, param_struct_of = ListByZone_Params,
      writes = ListByZone_WriteToRequest, reader = ListByZone_Reader,
      result_type = ''node_instances.ListByZoneOK''\<rparr>"

definition NodeAction_Params :: "'m param_struct" where
  "NodeAction_Params =
     \<lparr>struct_fields = [(''NodeAction'', Pointer (Model ''NodeActionFormData'')), (''CUUID'', UUIDType),
                       (''NodeName'', StringType), (''UniverseUUID'', UUIDType)],
      struct_defaults = []\<rparr>"

definition NodeAction_WriteToRequest :: "write_stmt list" where
  "NodeAction_WriteToRequest =
     [BodyParam ''NodeAction'', PathParam ''cUUID'' ''CUUID'', PathParam ''nodeName'' ''NodeName'',
      PathParam ''universeUUID'' ''UniverseUUID'']"

definition NodeAction_Reader :: "response_case list" where
  "NodeAction_Reader =
     [\<lparr>status_code = 200, response_type = ''node_instances.NodeActionOK'',
       payload_type = Pointer (Model ''YBPTask''), is_success = True,
       error_label = ''[PUT /api/v1/customers/{cUUID}/universes/{universeUUID}/nodes/{nodeName}][200] nodeActionOK''\<rparr>]"

definition NodeAction_Operation :: "'m operation" where
  "NodeAction_Operation =
     \<lparr>op_id = ''nodeAction'', op_method = ''PUT'',
      path_pattern = ''/api/v1/customers/{cUUID}/universes/{universeUUID}/nodes/{nodeName}'',
      produces = [''application/json''], consumes = [''application/json''], schemes = [''http'', ''https''],
      with_auth = True, param_struct_of = NodeAction_Params,
      writes = NodeAction_WriteToRequest, reader = NodeAction_Reader,
      result_type = ''node_instances.NodeActionOK''\<rparr>"

definition node_instances_operations :: "'m operation list" where
  "node_instances_operations =
     [CreateNodeInstance_Operation, DeleteInstance_Operation, DetachedNodeAction_Operation,
      GetNodeInstance_Operation, ListByProvider_Operation, ListByZone_Operation, NodeAction_Operation]"

lemmas node_instances_defs =
  CreateNodeInstance_Operation_def CreateNodeInstance_Params_def CreateNodeInstance_WriteToRequest_def CreateNodeInstance_Reader_def
  DeleteInstance_Operation_def DeleteInstance_Params_def DeleteInstance_WriteToRequest_def DeleteInstance_Reader_def
  DetachedNodeAction_Operation_def DetachedNodeAction_Params_def DetachedNodeAction_WriteToRequest_def DetachedNodeAction_Reader_def
  GetNodeInstance_Operation_def GetNodeInstance_Params_def GetNodeInstance_WriteToRequest_def GetNodeInstance_Reader_def
  ListByProvider_Operation_def ListByProvider_Params_def ListByProvider_WriteToRequest_def ListByProvider_Reader_def
  ListByZone_Operation_def ListByZone_Params_def ListByZone_WriteToRequest_def ListByZone_Reader_def
  NodeAction_Operation_def NodeAction_Params_def NodeAction_WriteToRequest_def NodeAction_Reader_def

lemma node_instances_ok: "list_all operation_ok node_instances_operations"
  by code_simp

subsection \<open>access_keys\<close>

definition CreateAccesskey_Params :: "'m param_struct" where
  "CreateAccesskey_Params =
     \<lparr>struct_fields = [(''CUUID'', UUIDType), (''PUUID'', UUIDType)],
      struct_defaults = []\<rparr>"

definition CreateAccesskey_WriteToRequest :: "write_stmt list" where
  "CreateAccesskey_WriteToRequest =
     [PathParam ''cUUID'' ''CUUID'', PathParam ''pUUID'' ''PUUID'']"

definition CreateAccesskey_Reader :: "response_case list" where
  "CreateAccesskey_Reader =
     [\<lparr>status_code = 200, response_type = ''access_keys.CreateAccesskeyOK'',
       payload_type = Pointer (Model ''AccessKey''), is_success = True,
       error_label = ''[POST /api/v1/customers/{cUUID}/providers/{pUUID}/access_keys][200] createAccesskeyOK''\<rparr>]"

definition CreateAccesskey_Operation :: "'m operation" where
  "CreateAccesskey_Operation =
     \<lparr>op_id = ''create_accesskey'', op_method = ''POST'',
      path_pattern = ''/api/v1/customers/{cUUID}/providers/{pUUID}/access_keys'',
      produces = [''application/json''], consumes = [''application/json''], schemes = [''http'', ''https''],
      with_auth = True, param_struct_of = CreateAccesskey_Params,
      writes = CreateAccesskey_WriteToRequest, reader = CreateAccesskey_Reader,
      result_type = ''access_keys.CreateAccesskeyOK''\<rparr>"

definition DeleteAccesskey_Params :: "'m param_struct" where
  "DeleteAccesskey_Params =
     \<lparr>struct_fields = [(''CUUID'', UUIDType), (''KeyCode'', StringType), (''PUUID'', UUIDType)],
      struct_defaults = []\<rparr>"

definition DeleteAccesskey_WriteToRequest :: "write_stmt list" where
  "DeleteAccesskey_WriteToRequest =
     [PathParam ''cUUID'' ''CUUID'', PathParam ''keyCode'' ''KeyCode'', PathParam ''pUUID'' ''PUUID'']"

definition DeleteAccesskey_Reader :: "response_case list" where
  "DeleteAccesskey_Reader =
     [\<lparr>status_code = 200, response_type = ''access_keys.DeleteAccesskeyOK'',
       payload_type = Pointer (Model ''YBPSuccess''), is_success = True,
       error_label = ''[DELETE /api/v1/customers/{cUUID}/providers/{pUUID}/access_keys/{keyCode}][200] deleteAccesskeyOK''\<rparr>]"

definition DeleteAccesskey_Operation :: "'m operation" where
  "DeleteAccesskey_Operation =
     \<lparr>op_id = ''delete_accesskey'', op_method = ''DELETE'',
      path_pattern = ''/api/v1/customers/{cUUID}/providers/{pUUID}/access_keys/{keyCode}'',
      produces = [''application/json''], consumes = [''application/json''], schemes = [''http'', ''https''],
      with_auth = True, param_struct_of = DeleteAccesskey_Params,
      writes = DeleteAccesskey_WriteToRequest, reader = DeleteAccesskey_Reader,
      result_type = ''access_keys.DeleteAccesskeyOK''\<rparr>"

definition Index_Params :: "'m param_struct" where
  "Index_Params =
     \<lparr>struct_fields = [(''CUUID'', UUIDType), (''KeyCode'', StringType), (''PUUID'', UUIDType)],
      struct_defaults = []\<rparr>"

definition Index_WriteToRequest :: "write_stmt list" where
  "Index_WriteToRequest =
     [PathParam ''cUUID'' ''CUUID'', PathParam ''keyCode'' ''KeyCode'', PathParam ''pUUID'' ''PUUID'']"

definition Index_Reader :: "response_case list" where
  "Index_Reader =
     [\<lparr>status_code = 200, response_type = ''access_keys.IndexOK'',
       payload_type = Pointer (Model ''AccessKey''), is_success = True,
       error_label = ''[GET /api/v1/customers/{cUUID}/providers/{pUUID}/access_keys/{keyCode}][200] indexOK''\<rparr>]"

definition Index_Operation :: "'m operation" where
  "Index_Operation =
     \<lparr>op_id = ''index'', op_method = ''GET'',
      path_pattern = ''/api/v1/customers/{cUUID}/providers/{pUUID}/access_keys/{keyCode}'',
      produces = [''application/json''], consumes = [''application/json''], schemes = [''http'', ''https''],
      with_auth = True, param_struct_of = Index_Params,
      writes = Index_WriteToRequest, reader = Index_Reader,
      result_type = ''access_keys.IndexOK''\<rparr>"

definition List_Params :: "'m param_struct" where
  "List_Params =
     \<lparr>struct_fields = [(''CUUID'', UUIDType), (''PUUID'', UUIDType)],
      struct_defaults = []\<rparr>"

definition List_WriteToRequest :: "write_stmt list" where
  "List_WriteToRequest =
     [PathParam ''cUUID'' ''CUUID'', PathParam ''pUUID'' ''PUUID'']"

definition List_Reader :: "response_case list" where
  "List_Reader =
     [\<lparr>status_code = 200, response_type = ''access_keys.ListOK'',
       payload_type = Slice (Pointer (Model ''AccessKey'')), is_success = True,
       error_label = ''[GET /api/v1/customers/{cUUID}/providers/{pUUID}/access_keys][200] listOK''\<rparr>]"

definition List_Operation :: "'m operation" where
  "List_Operation =
     \<lparr>op_id = ''list'', op_method = ''GET'',
      path_pattern = ''/api/v1/customers/{cUUID}/providers/{pUUID}/access_keys'',
      produces = [''application/json''], consumes = [''application/json''], schemes = [''http'', ''https''],
      with_auth = True, param_struct_of = List_Params,
      writes = List_WriteToRequest, reader = List_Reader,
      result_type = ''access_keys.ListOK''\<rparr>"

definition access_keys_operations :: "'m operation list" where
  "access_keys_operations =
     [CreateAccesskey_Operation, DeleteAccesskey_Operation, Index_Operation, List_Operation]"

lemmas access_keys_defs =
  CreateAccesskey_Operation_def CreateAccesskey_Params_def CreateAccesskey_WriteToRequest_def CreateAccesskey_Reader_def
  DeleteAccesskey_Operation_def DeleteAccesskey_Params_def DeleteAccesskey_WriteToRequest_def DeleteAccesskey_Reader_def
  Index_Operation_def Index_Params_def Index_WriteToRequest_def Index_Reader_def
  List_Operation_def List_Params_def List_WriteToRequest_def List_Reader_def

lemma access_keys_ok: "list_all operation_ok access_keys_operations"
  by code_simp

subsection \<open>release_management\<close>

definition CreateRelease_Params :: "'m param_struct" where
  "CreateRelease_Params =
     \<lparr>struct_fields = [(''Release'', Pointer (Model ''ReleaseFormData'')), (''CUUID'', UUIDType)],
      struct_defaults = []\<rparr>"

definition CreateRelease_WriteToRequest :: "write_stmt list" where
  "CreateRelease_WriteToRequest =
     [BodyParam ''Release'', PathParam ''cUUID'' ''CUUID'']"

definition CreateRelease_Reader :: "response_case list" where
  "CreateRelease_Reader =
     [\<lparr>status_code = 200, response_type = ''release_management.CreateReleaseOK'',
       payload_type = Pointer (Model ''YBPSuccess''), is_success = True,
       error_label = ''[POST /api/v1/customers/{cUUID}/releases][200] createReleaseOK''\<rparr>]"

definition CreateRelease_Operation :: "'m operation" where
  "CreateRelease_Operation =
     \<lparr>op_id = ''createRelease'', op_method = ''POST'',
      path_pattern = ''/api/v1/customers/{cUUID}/releases'',
      produces = [''application/json''], consumes = [''application/json''], schemes = [''http'', ''https''],
      with_auth = True, param_struct_of = CreateRelease_Params,
      writes = CreateRelease_WriteToRequest, reader = CreateRelease_Reader,
      result_type = ''release_management.CreateReleaseOK''\<rparr>"

definition DeleteRelease_Params :: "'m param_struct" where
  "DeleteRelease_Params =
     \<lparr>struct_fields = [(''CUUID'', UUIDType), (''Name'', StringType)],
      struct_defaults = []\<rparr>"

definition DeleteRelease_WriteToRequest :: "write_stmt list" where
  "DeleteRelease_WriteToRequest =
     [PathParam ''cUUID'' ''CUUID'', PathParam ''name'' ''Name'']"

definition DeleteRelease_Reader :: "response_case list" where
  "DeleteRelease_Reader =
     [\<lparr>status_code = 200, response_type = ''release_management.DeleteReleaseOK'',
       payload_type = Pointer (Model ''ReleaseMetadata''), is_success = True,
       error_label = ''[DELETE /api/v1/customers/{cUUID}/releases/{name}][200] deleteReleaseOK''\<rparr>]"

definition DeleteRelease_Operation :: "'m operation" where
  "DeleteRelease_Operation =
     \<lparr>op_id = ''deleteRelease'', op_method = ''DELETE'',
      path_pattern = ''/api/v1/customers/{cUUID}/releases/{name}'',
      produces = [''application/json''], consumes = [''application/json''], schemes = [''http'', ''https''],
      with_auth = True, param_struct_of = DeleteRelease_Params,
      writes = DeleteRelease_WriteToRequest, reader = DeleteRelease_Reader,
      result_type = ''release_management.DeleteReleaseOK''\<rparr>"

definition GetListOfRegionReleases_Params :: "'m param_struct" where
  "GetListOfRegionReleases_Params =
     \<lparr>struct_fields = [(''CUUID'', UUIDType), (''IncludeMetadata'', Pointer BoolType), (''PUUID'', UUIDType)],
      struct_defaults = [(''IncludeMetadata'', Address (Truth False))]\<rparr>"

definition GetListOfRegionReleases_WriteToRequest :: "write_stmt list" where
  "GetListOfRegionReleases_WriteToRequest =
     [PathParam ''cUUID'' ''CUUID'', QueryParam ''includeMetadata'' ''IncludeMetadata'',
      PathParam ''pUUID'' ''PUUID'']"

definition GetListOfRegionReleases_Reader :: "response_case list" where
  "GetListOfRegionReleases_Reader =
     [\<lparr>status_code = 200, response_type = ''release_management.GetListOfRegionReleasesOK'',
       payload_type = MapOf AnyType, is_success = True,
       error_label = ''[GET /api/v1/customers/{cUUID}/providers/{pUUID}/releases][200] getListOfRegionReleasesOK''\<rparr>]"

definition GetListOfRegionReleases_Operation :: "'m operation" where
  "GetListOfRegionReleases_Operation =
     \<lparr>op_id = ''getListOfRegionReleases'', op_method = ''GET'',
      path_pattern = ''/api/v1/customers/{cUUID}/providers/{pUUID}/releases'',
      produces = [''application/json''], consumes = [''application/json''], schemes = [''http'', ''https''],
      with_auth = True, param_struct_of = GetListOfRegionReleases_Params,
      writes = GetListOfRegionReleases_WriteToRequest, reader = GetListOfRegionReleases_Reader,
      result_type = ''release_management.GetListOfRegionReleasesOK''\<rparr>"

definition GetListOfReleases_Params :: "'m param_struct" where
  "GetListOfReleases_Params =
     \<lparr>struct_fields = [(''CUUID'', UUIDType), (''IncludeMetadata'', Pointer BoolType)],
      struct_defaults = [(''IncludeMetadata'', Address (Truth False))]\<rparr>"

definition GetListOfReleases_WriteToRequest :: "write_stmt list" where
  "GetListOfReleases_WriteToRequest =
     [PathParam ''cUUID'' ''CUUID'', QueryParam ''includeMetadata'' ''IncludeMetadata'']"

definition GetListOfReleases_Reader :: "response_case list" where
  "GetListOfReleases_Reader =
     [\<lparr>status_code = 200, response_type = ''release_management.GetListOfReleasesOK'',
       payload_type = MapOf AnyType, is_success = True,
       error_label = ''[GET /api/v1/customers/{cUUID}/releases][200] getListOfReleasesOK''\<rparr>]"

definition GetListOfReleases_Operation :: "'m operation" where
  "GetListOfReleases_Operation =
     \<lparr>op_id = ''getListOfReleases'', op_method = ''GET'',
      path_pattern = ''/api/v1/customers/{cUUID}/releases'',
      produces = [''application/json''], consumes = [''application/json''], schemes = [''http'', ''https''],
      with_auth = True, param_struct_of = GetListOfReleases_Params,
      writes = GetListOfReleases_WriteToRequest, reader = GetListOfReleases_Reader,
      result_type = ''release_management.GetListOfReleasesOK''\<rparr>"

definition Refresh_Params :: "'m param_struct" where
  "Refresh_Params =
     \<lparr>struct_fields = [(''CUUID'', UUIDType)],
      struct_defaults = []\<rparr>"

definition Refresh_WriteToRequest :: "write_stmt list" where
  "Refresh_WriteToRequest =
     [PathParam ''cUUID'' ''CUUID'']"

definition Refresh_Reader :: "response_case list" where
  "Refresh_Reader =
     [\<lparr>status_code = 200, response_type = ''release_management.RefreshOK'',
       payload_type = Pointer (Model ''YBPSuccess''), is_success = True,
       error_label = ''[PUT /api/v1/customers/{cUUID}/releases][200] refreshOK''\<rparr>]"

definition Refresh_Operation :: "'m operation" where
  "Refresh_Operation =
     \<lparr>op_id = ''refresh'', op_method = ''PUT'',
      path_pattern = ''/api/v1/customers/{cUUID}/releases'',
      produces = [''application/json''], consumes = [''application/json''], schemes = [''http'', ''https''],
      with_auth = True, param_struct_of = Refresh_Params,
      writes = Refresh_WriteToRequest, reader = Refresh_Reader,
      result_type = ''release_management.RefreshOK''\<rparr>"

definition UpdateRelease_Params :: "'m param_struct" where
  "UpdateRelease_Params =
     \<lparr>struct_fields = [(''Release'', AnyType), (''CUUID'', UUIDType), (''Name'', StringType)],
      struct_defaults = []\<rparr>"

definition UpdateRelease_WriteToRequest :: "write_stmt list" where
  "UpdateRelease_WriteToRequest =
     [BodyParam ''Release'', PathParam ''cUUID'' ''CUUID'', PathParam ''name'' ''Name'']"

definition UpdateRelease_Reader :: "response_case list" where
  "UpdateRelease_Reader =
     [\<lparr>status_code = 200, response_type = ''release_management.UpdateReleaseOK'',
       payload_type = Pointer (Model ''ReleaseMetadata''), is_success = True,
       error_label = ''[PUT /api/v1/customers/{cUUID}/releases/{name}][200] updateReleaseOK''\<rparr>]"

definition UpdateRelease_Operation :: "'m operation" where
  "UpdateRelease_Operation =
     \<lparr>op_id = ''updateRelease'', op_method = ''PUT'',
      path_pattern = ''/api/v1/customers/{cUUID}/releases/{name}'',
      produces = [''application/json''], consumes = [''application/json''], schemes = [''http'', ''https''],
      with_auth = True, param_struct_of = UpdateRelease_Params,
      writes = UpdateRelease_WriteToRequest, reader = UpdateRelease_Reader,
      result_type = ''release_management.UpdateReleaseOK''\<rparr>"

definition release_management_operations :: "'m operation list" where
  "release_management_operations =
     [CreateRelease_Operation, DeleteRelease_Operation, GetListOfRegionReleases_Operation,
      GetListOfReleases_Operation, Refresh_Operation, UpdateRelease_Operation]"

lemmas release_management_defs =
  CreateRelease_Operation_def CreateRelease_Params_def CreateRelease_WriteToRequest_def CreateRelease_Reader_def
  DeleteRelease_Operation_def DeleteRelease_Params_def DeleteRelease_WriteToRequest_def DeleteRelease_Reader_def
  GetListOfRegionReleases_Operation_def GetListOfRegionReleases_Params_def GetListOfRegionReleases_WriteToRequest_def GetListOfRegionReleases_Reader_def
  GetListOfReleases_Operation_def GetListOfReleases_Params_def GetListOfReleases_WriteToRequest_def GetListOfReleases_Reader_def
  Refresh_Operation_def Refresh_Params_def Refresh_WriteToRequest_def Refresh_Reader_def
  UpdateRelease_Operation_def UpdateRelease_Params_def UpdateRelease_WriteToRequest_def UpdateRelease_Reader_def

lemma release_management_ok: "list_all operation_ok release_management_operations"
  by code_simp

end
