(* ===== verification/ApiSecurity.thy ===== *)
theory ApiSecurity
  imports Swagger
begin

section \<open>The generated client: certificates, keys and replication\<close>

text \<open>
  The operations of the packages \<open>certificate_info\<close>, \<open>encryption_at_rest\<close>, \<open>asynchronous_replication\<close> of
  \<open>yugaware-client/pkg/client/swagger/client\<close>, as theory \<open>Swagger\<close> reads them; a list \<open>..._operations\<close>
  is the \<open>ClientService\<close> interface of a package.
\<close>

subsection \<open>certificate_info\<close>

definition CreateSelfSignedCert_Params :: "'m param_struct" where
  "CreateSelfSignedCert_Params =
     \<lparr>struct_fields = [(''CUUID'', UUIDType), (''Label'', StringType)],
      struct_defaults = []\<rparr>"

definition CreateSelfSignedCert_WriteToRequest :: "write_stmt list" where
  "CreateSelfSignedCert_WriteToRequest =
     [PathParam ''cUUID'' ''CUUID'', BodyValue ''Label'']"

definition CreateSelfSignedCert_Reader :: "response_case list" where
  "CreateSelfSignedCert_Reader =
     [\<lparr>status_code = 200, response_type = ''certificate_info.CreateSelfSignedCertOK'',
       payload_type = UUIDType, is_success = True,
       error_label = ''[POST /api/v1/customers/{cUUID}/certificates/create_self_signed_cert][200] createSelfSignedCertOK''\<rparr>]"

definition CreateSelfSignedCert_Operation :: "'m operation" where
  "CreateSelfSignedCert_Operation =
     \<lparr>op_id = ''createSelfSignedCert'', op_method = ''POST'',
      path_pattern = ''/api/v1/customers/{cUUID}/certificates/create_self_signed_cert'',
      produces = [''application/json''], consumes = [''application/json''], schemes = [''http'', ''https''],
      with_auth = True, param_struct_of = CreateSelfSignedCert_Params,
      writes = CreateSelfSignedCert_WriteToRequest, reader = CreateSelfSignedCert_Reader,
      result_type = ''certificate_info.CreateSelfSignedCertOK''\<rparr>"

definition DeleteCertificate_Params :: "'m param_struct" where
  "DeleteCertificate_Params =
     \<lparr>struct_fields = [(''CUUID'', UUIDType), (''RUUID'', UUIDType)],
      struct_defaults = []\<rparr>"

definition DeleteCertificate_WriteToRequest :: "write_stmt list" where
  "DeleteCertificate_WriteToRequest =
     [PathParam ''cUUID'' ''CUUID'', PathParam ''rUUID'' ''RUUID'']"

definition DeleteCertificate_Reader :: "response_case list" where
  "DeleteCertificate_Reader =
     [\<lparr>status_code = 200, response_type = ''certificate_info.DeleteCertificateOK'',
       payload_type = Pointer (Model ''YBPSuccess''), is_success = True,
       error_label = ''[DELETE /api/v1/customers/{cUUID}/certificates/{rUUID}][200] deleteCertificateOK''\<rparr>]"

definition DeleteCertificate_Operation :: "'m operation" where
  "DeleteCertificate_Operation =
     \<lparr>op_id = ''deleteCertificate'', op_method = ''DELETE'',
      path_pattern = ''/api/v1/customers/{cUUID}/certificates/{rUUID}'',
      produces = [''application/json''], consumes = [''application/json''], schemes = [''http'', ''https''],
      with_auth = True, param_struct_of = DeleteCertificate_Params,
      writes = DeleteCertificate_WriteToRequest, reader = DeleteCertificate_Reader,
      result_type = ''certificate_info.DeleteCertificateOK''\<rparr>"

definition EditCertificate_Params :: "'m param_struct" where
  "EditCertificate_Params =
     \<lparr>struct_fields = [(''CUUID'', UUIDType), (''RUUID'', UUIDType)],
      struct_defaults = []\<rparr>"

definition EditCertificate_WriteToRequest :: "write_stmt list" where
  "EditCertificate_WriteToRequest =
     [PathParam ''cUUID'' ''CUUID'', PathParam ''rUUID'' ''RUUID'']"

definition EditCertificate_Reader :: "response_case list" where
  "EditCertificate_Reader =
     [\<lparr>status_code = 200, response_type = ''certificate_info.EditCertificateOK'',
       payload_type = Pointer (Model ''YBPSuccess''), is_success = True,
       error_label = ''[POST /api/v1/customers/{cUUID}/certificates/{rUUID}/edit][200] editCertificateOK''\<rparr>]"

definition EditCertificate_Operation :: "'m operation" where
  "EditCertificate_Operation =
     \<lparr>op_id = ''editCertificate'', op_method = ''POST'',
      path_pattern = ''/api/v1/customers/{cUUID}/certificates/{rUUID}/edit'',
      produces = [''application/json''], consumes = [''application/json''], schemes = [''http'', ''https''],
      with_auth = True, param_struct_of = EditCertificate_Params,
      writes = EditCertificate_WriteToRequest, reader = EditCertificate_Reader,
      result_type = ''certificate_info.EditCertificateOK''\<rparr>"

definition GetCertificate_Params :: "'m param_struct" where
  "GetCertificate_Params =
     \<lparr>struct_fields = [(''CUUID'', UUIDType), (''Name'', StringType)],
      struct_defaults = []\<rparr>"

definition GetCertificate_WriteToRequest :: "write_stmt list" where
  "GetCertificate_WriteToRequest =
     [PathParam ''cUUID'' ''CUUID'', PathParam ''name'' ''Name'']"

definition GetCertificate_Reader :: "response_case list" where
  "GetCertificate_Reader =
     [\<lparr>status_code = 200, response_type = ''certificate_info.GetCertificateOK'',
       payload_type = UUIDType, is_success = True,
       error_label = ''[GET /api/v1/customers/{cUUID}/certificates/{name}][200] getCertificateOK''\<rparr>]"

definition GetCertificate_Operation :: "'m operation" where
  "GetCertificate_Operation =
     \<lparr>op_id = ''getCertificate'', op_method = ''GET'',
      path_pattern = ''/api/v1/customers/{cUUID}/certificates/{name}'',
      produces = [''application/json''], consumes = [''application/json''], schemes = [''http'', ''https''],
      with_auth = True, param_struct_of = GetCertificate_Params,
      writes = GetCertificate_WriteToRequest, reader = GetCertificate_Reader,
      result_type = ''certificate_info.GetCertificateOK''\<rparr>"

definition GetClientCert_Params :: "'m param_struct" where
  "GetClientCert_Params =
     \<lparr>struct_fields = [(''CUUID'', UUIDType), (''Certificate'', Pointer (Model ''ClientCertParams'')),
                       (''RUUID'', UUIDType)],
      struct_defaults = []\<rparr>"

definition GetClientCert_WriteToRequest :: "write_stmt list" where
  "GetClientCert_WriteToRequest =
     [PathParam ''cUUID'' ''CUUID'', BodyParam ''Certificate'', PathParam ''rUUID'' ''RUUID'']"

definition GetClientCert_Reader :: "response_case list" where
  "GetClientCert_Reader =
     [\<lparr>status_code = 200, response_type = ''certificate_info.GetClientCertOK'',
       payload_type = Pointer (Model ''CertificateDetails''), is_success = True,
       error_label = ''[POST /api/v1/customers/{cUUID}/certificates/{rUUID}][200] getClientCertOK''\<rparr>]"

definition GetClientCert_Operation :: "'m operation" where
  "GetClientCert_Operation =
     \<lparr>op_id = ''getClientCert'', op_method = ''POST'',
      path_pattern = ''/api/v1/customers/{cUUID}/certificates/{rUUID}'',
      produces = [''application/json''], consumes = [''application/json''], schemes = [''http'', ''https''],
      with_auth = True, param_struct_of = GetClientCert_Params,
      writes = GetClientCert_WriteToRequest, reader = GetClientCert_Reader,
      result_type = ''certificate_info.GetClientCertOK''\<rparr>"

definition GetListOfCertificate_Params :: "'m param_struct" where
  "GetListOfCertificate_Params =
     \<lparr>struct_fields = [(''CUUID'', UUIDType)],
      struct_defaults = []\<rparr>"

definition GetListOfCertificate_WriteToRequest :: "write_stmt list" where
  "GetListOfCertificate_WriteToRequest =
     [PathParam ''cUUID'' ''CUUID'']"

definition GetListOfCertificate_Reader :: "response_case list" where
  "GetListOfCertificate_Reader =
     [\<lparr>status_code = 200, response_type = ''certificate_info.GetListOfCertificateOK'',
       payload_type = Slice (Pointer (Model ''CertificateInfo'')), is_success = True,
       error_label = ''[GET /api/v1/customers/{cUUID}/certificates][200] getListOfCertificateOK''\<rparr>,
      \<lparr>status_code = 500, response_type = ''certificate_info.GetListOfCertificateInternalServerError'',
       payload_type = Pointer (Model ''YBPError''), is_success = False,
       error_label = ''[GET /api/v1/customers/{cUUID}/certificates][500] getListOfCertificateInternalServerError''\<rparr>]"

definition GetListOfCertificate_Operation :: "'m operation" where
  "GetListOfCertificate_Operation =
     \<lparr>op_id = ''getListOfCertificate'', op_method = ''GET'',
      path_pattern = ''/api/v1/customers/{cUUID}/certificates'',
      produces = [''application/json''], consumes = [''application/json''], schemes = [''http'', ''https''],
      with_auth = True, param_struct_of = GetListOfCertificate_Params,
      writes = GetListOfCertificate_WriteToRequest, reader = GetListOfCertificate_Reader,
      result_type = ''certificate_info.GetListOfCertificateOK''\<rparr>"

definition GetRootCert_Params :: "'m param_struct" where
  "GetRootCert_Params =
     \<lparr>struct_fields = [(''CUUID'', UUIDType), (''RUUID'', UUIDType)],
      struct_defaults = []\<rparr>"

definition GetRootCert_WriteToRequest :: "write_stmt list" where
  "GetRootCert_WriteToRequest =
     [PathParam ''cUUID'' ''CUUID'', PathParam ''rUUID'' ''RUUID'']"

definition GetRootCert_Reader :: "response_case list" where
  "GetRootCert_Reader =
     [\<lparr>status_code = 200, response_type = ''certificate_info.GetRootCertOK'',
       payload_type = Pointer (Model ''CertificateRoot''), is_success = True,
       error_label = ''[GET /api/v1/customers/{cUUID}/certificates/{rUUID}/download][200] getRootCertOK''\<rparr>]"

definition GetRootCert_Operation :: "'m operation" where
  "GetRootCert_Operation =
     \<lparr>op_id = ''getRootCert'', op_method = ''GET'',
      path_pattern = ''/api/v1/customers/{cUUID}/certificates/{rUUID}/download'',
      produces = [''application/json''], consumes = [''application/json''], schemes = [''http'', ''https''],
      with_auth = True, param_struct_of = GetRootCert_Params,
      writes = GetRootCert_WriteToRequest, reader = GetRootCert_Reader,
      result_type = ''certificate_info.GetRootCertOK''\<rparr>"

definition UpdateEmptyCustomCert_Params :: "'m param_struct" where
  "UpdateEmptyCustomCert_Params =
     \<lparr>struct_fields = [(''CUUID'', UUIDType), (''RUUID'', UUIDType)],
      struct_defaults = []\<rparr>"

definition UpdateEmptyCustomCert_WriteToRequest :: "write_stmt list" where
  "UpdateEmptyCustomCert_WriteToRequest =
     [PathParam ''cUUID'' ''CUUID'', PathParam ''rUUID'' ''RUUID'']"

definition UpdateEmptyCustomCert_Reader :: "response_case list" where
  "UpdateEmptyCustomCert_Reader =
     [\<lparr>status_code = 200, response_type = ''certificate_info.UpdateEmptyCustomCertOK'',
       payload_type = Pointer (Model ''CertificateInfo''), is_success = True,
       error_label = ''[POST /api/v1/customers/{cUUID}/certificates/{rUUID}/update_empty_cert][200] updateEmptyCustomCertOK''\<rparr>]"

definition UpdateEmptyCustomCert_Operation :: "'m operation" where
  "UpdateEmptyCustomCert_Operation =
     \<lparr>op_id = ''updateEmptyCustomCert'', op_method = ''POST'',
      path_pattern = ''/api/v1/customers/{cUUID}/certificates/{rUUID}/update_empty_cert'',
      produces = [''application/json''], consumes = [''application/json''], schemes = [''http'', ''https''],
      with_auth = True, param_struct_of = UpdateEmptyCustomCert_Params,
      writes = UpdateEmptyCustomCert_WriteToRequest, reader = UpdateEmptyCustomCert_Reader,
      result_type = ''certificate_info.UpdateEmptyCustomCertOK''\<rparr>"

definition Upload_Params :: "'m param_struct" where
  "Upload_Params =
     \<lparr>struct_fields = [(''CUUID'', UUIDType), (''Certificate'', Pointer (Model ''CertificateParams''))],
      struct_defaults = []\<rparr>"

definition Upload_WriteToRequest :: "write_stmt list" where
  "Upload_WriteToRequest =
     [PathParam ''cUUID'' ''CUUID'', BodyParam ''Certificate'']"

definition Upload_Reader :: "response_case list" where
  "Upload_Reader =
     [\<lparr>status_code = 200, response_type = ''certificate_info.UploadOK'',
       payload_type = UUIDType, is_success = True,
       error_label = ''[POST /api/v1/customers/{cUUID}/certificates][200] uploadOK''\<rparr>]"

definition Upload_Operation :: "'m operation" where
  "Upload_Operation =
     \<lparr>op_id = ''upload'', op_method = ''POST'',
      path_pattern = ''/api/v1/customers/{cUUID}/certificates'',
      produces = [''application/json''], consumes = [''application/json''], schemes = [''http'', ''https''],
      with_auth = True, param_struct_of = Upload_Params,
      writes = Upload_WriteToRequest, reader = Upload_Reader,
      result_type = ''certificate_info.UploadOK''\<rparr>"

definition certificate_info_operations :: "'m operation list" where
  "certificate_info_operations =
     [CreateSelfSignedCert_Operation, DeleteCertificate_Operation, EditCertificate_Operation,
      GetCertificate_Operation, GetClientCert_Operation, GetListOfCertificate_Operation, GetRootCert_Operation,
      UpdateEmptyCustomCert_Operation, Upload_Operation]"

lemmas certificate_info_defs =
  CreateSelfSignedCert_Operation_def CreateSelfSignedCert_Params_def CreateSelfSignedCert_WriteToRequest_def CreateSelfSignedCert_Reader_def
  DeleteCertificate_Operation_def DeleteCertificate_Params_def DeleteCertificate_WriteToRequest_def DeleteCertificate_Reader_def
  EditCertificate_Operation_def EditCertificate_Params_def EditCertificate_WriteToRequest_def EditCertificate_Reader_def
  GetCertificate_Operation_def GetCertificate_Params_def GetCertificate_WriteToRequest_def GetCertificate_Reader_def
  GetClientCert_Operation_def GetClientCert_Params_def GetClientCert_WriteToRequest_def GetClientCert_Reader_def
  GetListOfCertificate_Operation_def GetListOfCertificate_Params_def GetListOfCertificate_WriteToRequest_def GetListOfCertificate_Reader_def
  GetRootCert_Operation_def GetRootCert_Params_def GetRootCert_WriteToRequest_def GetRootCert_Reader_def
  UpdateEmptyCustomCert_Operation_def UpdateEmptyCustomCert_Params_def UpdateEmptyCustomCert_WriteToRequest_def UpdateEmptyCustomCert_Reader_def
  Upload_Operation_def Upload_Params_def Upload_WriteToRequest_def Upload_Reader_def

lemma certificate_info_ok: "list_all operation_ok certificate_info_operations"
  by code_simp

subsection \<open>encryption_at_rest\<close>

definition CreateKMSConfig_Params :: "'m param_struct" where
  "CreateKMSConfig_Params =
     \<lparr>struct_fields = [(''KMSConfig'', AnyType), (''CUUID'', UUIDType), (''KmsProvider'', StringType)],
      struct_defaults = []\<rparr>"

definition CreateKMSConfig_WriteToRequest :: "write_stmt list" where
  "CreateKMSConfig_WriteToRequest =
     [BodyParam ''KMSConfig'', PathParam ''cUUID'' ''CUUID'', PathParam ''kmsProvider'' ''KmsProvider'']"

definition CreateKMSConfig_Reader :: "response_case list" where
  "CreateKMSConfig_Reader =
     [\<lparr>status_code = 200, response_type = ''encryption_at_rest.CreateKMSConfigOK'',
       payload_type = Pointer (Model ''YBPTask''), is_success = True,
       error_label = ''[POST /api/v1/customers/{cUUID}/kms_configs/{kmsProvider}][200] createKMSConfigOK''\<rparr>]"

definition CreateKMSConfig_Operation :: "'m operation" where
  "CreateKMSConfig_Operation =
     \<lparr>op_id = ''createKMSConfig'', op_method = ''POST'',
      path_pattern = ''/api/v1/customers/{cUUID}/kms_configs/{kmsProvider}'',
      produces = [''application/json''], consumes = [''application/json''], schemes = [''http'', ''https''],
      with_auth = True, param_struct_of = CreateKMSConfig_Params,
      writes = CreateKMSConfig_WriteToRequest, reader = CreateKMSConfig_Reader,
      result_type = ''encryption_at_rest.CreateKMSConfigOK''\<rparr>"

definition DeleteKMSConfig_Params :: "'m param_struct" where
  "DeleteKMSConfig_Params =
     \<lparr>struct_fields = [(''CUUID'', UUIDType), (''ConfigUUID'', UUIDType)],
      struct_defaults = []\<rparr>"

definition DeleteKMSConfig_WriteToRequest :: "write_stmt list" where
  "DeleteKMSConfig_WriteToRequest =
     [PathParam ''cUUID'' ''CUUID'', PathParam ''configUUID'' ''ConfigUUID'']"

definition DeleteKMSConfig_Reader :: "response_case list" where
  "DeleteKMSConfig_Reader =
     [\<lparr>status_code = 200, response_type = ''encryption_at_rest.DeleteKMSConfigOK'',
       payload_type = Pointer (Model ''YBPTask''), is_success = True,
       error_label = ''[DELETE /api/v1/customers/{cUUID}/kms_configs/{configUUID}][200] deleteKMSConfigOK''\<rparr>]"

definition DeleteKMSConfig_Operation :: "'m operation" where
  "DeleteKMSConfig_Operation =
     \<lparr>op_id = ''deleteKMSConfig'', op_method = ''DELETE'',
      path_pattern = ''/api/v1/customers/{cUUID}/kms_configs/{configUUID}'',
      produces = [''application/json''], consumes = [''application/json''], schemes = [''http'', ''https''],
      with_auth = True, param_struct_of = DeleteKMSConfig_Params,
      writes = DeleteKMSConfig_WriteToRequest, reader = DeleteKMSConfig_Reader,
      result_type = ''encryption_at_rest.DeleteKMSConfigOK''\<rparr>"

definition EditKMSConfig_Params :: "'m param_struct" where
  "EditKMSConfig_Params =
     \<lparr>struct_fields = [(''KMSConfig'', AnyType), (''CUUID'', UUIDType), (''ConfigUUID'', UUIDType)],
      struct_defaults = []\<rparr>"

definition EditKMSConfig_WriteToRequest :: "write_stmt list" where
  "EditKMSConfig_WriteToRequest =
     [BodyParam ''KMSConfig'', PathParam ''cUUID'' ''CUUID'', PathParam ''configUUID'' ''ConfigUUID'']"

definition EditKMSConfig_Reader :: "response_case list" where
  "EditKMSConfig_Reader =
     [\<lparr>status_code = 200, response_type = ''encryption_at_rest.EditKMSConfigOK'',
       payload_type = Pointer (Model ''YBPTask''), is_success = True,
       error_label = ''[POST /api/v1/customers/{cUUID}/kms_configs/{configUUID}/edit][200] editKMSConfigOK''\<rparr>]"

definition EditKMSConfig_Operation :: "'m operation" where
  "EditKMSConfig_Operation =
     \<lparr>op_id = ''editKMSConfig'', op_method = ''POST'',
      path_pattern = ''/api/v1/customers/{cUUID}/kms_configs/{configUUID}/edit'',
      produces = [''application/json''], consumes = [''application/json''], schemes = [''http'', ''https''],
      with_auth = True, param_struct_of = EditKMSConfig_Params,
      writes = EditKMSConfig_WriteToRequest, reader = EditKMSConfig_Reader,
      result_type = ''encryption_at_rest.EditKMSConfigOK''\<rparr>"

definition GetCurrentKeyRef_Params :: "'m param_struct" where
  "GetCurrentKeyRef_Params =
     \<lparr>struct_fields = [(''CUUID'', UUIDType), (''UniUUID'', UUIDType)],
      struct_defaults = []\<rparr>"

definition GetCurrentKeyRef_WriteToRequest :: "write_stmt list" where
  "GetCurrentKeyRef_WriteToRequest =
     [PathParam ''cUUID'' ''CUUID'', PathParam ''uniUUID'' ''UniUUID'']"

definition GetCurrentKeyRef_Reader :: "response_case list" where
  "GetCurrentKeyRef_Reader =
     [\<lparr>status_code = 200, response_type = ''encryption_at_rest.GetCurrentKeyRefOK'',
       payload_type = MapOf AnyType, is_success = True,
       error_label = ''[GET /api/v1/customers/{cUUID}/universes/{uniUUID}/kms/key_ref][200] getCurrentKeyRefOK''\<rparr>]"

definition GetCurrentKeyRef_Operation :: "'m operation" where
  "GetCurrentKeyRef_Operation =
     \<lparr>op_id = ''getCurrentKeyRef'', op_method = ''GET'',
      path_pattern = ''/api/v1/customers/{cUUID}/universes/{uniUUID}/kms/key_ref'',
      produces = [''application/json''], consumes = [''application/json''], schemes = [''http'', ''https''],
      with_auth = True, param_struct_of = GetCurrentKeyRef_Params,
      writes = GetCurrentKeyRef_WriteToRequest, reader = GetCurrentKeyRef_Reader,
      result_type = ''encryption_at_rest.GetCurrentKeyRefOK''\<rparr>"

definition GetKMSConfig_Params :: "'m param_struct" where
  "GetKMSConfig_Params =
     \<lparr>struct_fields = [(''CUUID'', UUIDType), (''ConfigUUID'', UUIDType)],
      struct_defaults = []\<rparr>"

definition GetKMSConfig_WriteToRequest :: "write_stmt list" where
  "GetKMSConfig_WriteToRequest =
     [PathParam ''cUUID'' ''CUUID'', PathParam ''configUUID'' ''ConfigUUID'']"

definition GetKMSConfig_Reader :: "response_case list" where
  "GetKMSConfig_Reader =
     [\<lparr>status_code = 200, response_type = ''encryption_at_rest.GetKMSConfigOK'',
       payload_type = MapOf AnyType, is_success = True,
       error_label = ''[GET /api/v1/customers/{cUUID}/kms_configs/{configUUID}][200] getKMSConfigOK''\<rparr>]"

definition GetKMSConfig_Operation :: "'m operation" where
  "GetKMSConfig_Operation =
     \<lparr>op_id = ''getKMSConfig'', op_method = ''GET'',
      path_pattern = ''/api/v1/customers/{cUUID}/kms_configs/{configUUID}'',
      produces = [''application/json''], consumes = [''application/json''], schemes = [''http'', ''https''],
      with_auth = True, param_struct_of = GetKMSConfig_Params,
      writes = GetKMSConfig_WriteToRequest, reader = GetKMSConfig_Reader,
      result_type = ''encryption_at_rest.GetKMSConfigOK''\<rparr>"

definition GetKeyRefHistory_Params :: "'m param_struct" where
  "GetKeyRefHistory_Params =
     \<lparr>struct_fields = [(''CUUID'', UUIDType), (''UniUUID'', UUIDType)],
      struct_defaults = []\<rparr>"

definition GetKeyRefHistory_WriteToRequest :: "write_stmt list" where
  "GetKeyRefHistory_WriteToRequest =
     [PathParam ''cUUID'' ''CUUID'', PathParam ''uniUUID'' ''UniUUID'']"

definition GetKeyRefHistory_Reader :: "response_case list" where
  "GetKeyRefHistory_Reader =
     [\<lparr>status_code = 200, response_type = ''encryption_at_rest.GetKeyRefHistoryOK'',
       payload_type = Slice AnyType, is_success = True,
       error_label = ''[GET /api/v1/customers/{cUUID}/universes/{uniUUID}/kms][200] getKeyRefHistoryOK''\<rparr>]"

definition GetKeyRefHistory_Operation :: "'m operation" where
  "GetKeyRefHistory_Operation =
     \<lparr>op_id = ''getKeyRefHistory'', op_method = ''GET'',
      path_pattern = ''/api/v1/customers/{cUUID}/universes/{uniUUID}/kms'',
      produces = [''application/json''], consumes = [''application/json''], schemes = [''http'', ''https''],
      with_auth = True, param_struct_of = GetKeyRefHistory_Params,
      writes = GetKeyRefHistory_WriteToRequest, reader = GetKeyRefHistory_Reader,
      result_type = ''encryption_at_rest.GetKeyRefHistoryOK''\<rparr>"

definition ListKMSConfigs_Params :: "'m param_struct" where
  "ListKMSConfigs_Params =
     \<lparr>struct_fields = [(''CUUID'', UUIDType)],
      struct_defaults = []\<rparr>"

definition ListKMSConfigs_WriteToRequest :: "write_stmt list" where
  "ListKMSConfigs_WriteToRequest =
     [PathParam ''cUUID'' ''CUUID'']"

definition ListKMSConfigs_Reader :: "response_case list" where
  "ListKMSConfigs_Reader =
     [\<lparr>status_code = 200, response_type = ''encryption_at_rest.ListKMSConfigsOK'',
       payload_type = Slice AnyType, is_success = True,
       error_label = ''[GET /api/v1/customers/{cUUID}/kms_configs][200] listKMSConfigsOK''\<rparr>]"

definition ListKMSConfigs_Operation :: "'m operation" where
  "ListKMSConfigs_Operation =
     \<lparr>op_id = ''listKMSConfigs'', op_method = ''GET'',
      path_pattern = ''/api/v1/customers/{cUUID}/kms_configs'',
      produces = [''application/json''], consumes = [''application/json''], schemes = [''http'', ''https''],
      with_auth = True, param_struct_of = ListKMSConfigs_Params,
      writes = ListKMSConfigs_WriteToRequest, reader = ListKMSConfigs_Reader,
      result_type = ''encryption_at_rest.ListKMSConfigsOK''\<rparr>"

definition RemoveKeyRefHistory_Params :: "'m param_struct" where
  "RemoveKeyRefHistory_Params =
     \<lparr>struct_fields = [(''CUUID'', UUIDType), (''UniUUID'', UUIDType)],
      struct_defaults = []\<rparr>"

definition RemoveKeyRefHistory_WriteToRequest :: "write_stmt list" where
  "RemoveKeyRefHistory_WriteToRequest =
     [PathParam ''cUUID'' ''CUUID'', PathParam ''uniUUID'' ''UniUUID'']"

definition RemoveKeyRefHistory_Reader :: "response_case list" where
  "RemoveKeyRefHistory_Reader =
     [\<lparr>status_code = 200, response_type = ''encryption_at_rest.RemoveKeyRefHistoryOK'',
       payload_type = Pointer (Model ''YBPSuccess''), is_success = True,
       error_label = ''[DELETE /api/v1/customers/{cUUID}/universes/{uniUUID}/kms][200] removeKeyRefHistoryOK''\<rparr>]"

definition RemoveKeyRefHistory_Operation :: "'m operation" where
  "RemoveKeyRefHistory_Operation =
     \<lparr>op_id = ''removeKeyRefHistory'', op_method = ''DELETE'',
      path_pattern = ''/api/v1/customers/{cUUID}/universes/{uniUUID}/kms'',
      produces = [''application/json''], consumes = [''application/json''], schemes = [''http'', ''https''],
      with_auth = True, param_struct_of = RemoveKeyRefHistory_Params,
      writes = RemoveKeyRefHistory_WriteToRequest, reader = RemoveKeyRefHistory_Reader,
      result_type = ''encryption_at_rest.RemoveKeyRefHistoryOK''\<rparr>"

definition RetrieveKey_Params :: "'m param_struct" where
  "RetrieveKey_Params =
     \<lparr>struct_fields = [(''CUUID'', UUIDType), (''UniUUID'', UUIDType)],
      struct_defaults = []\<rparr>"

definition RetrieveKey_WriteToRequest :: "write_stmt list" where
  "RetrieveKey_WriteToRequest =
     [PathParam ''cUUID'' ''CUUID'', PathParam ''uniUUID'' ''UniUUID'']"

definition RetrieveKey_Reader :: "response_case list" where
  "RetrieveKey_Reader =
     [\<lparr>status_code = 200, response_type = ''encryption_at_rest.RetrieveKeyOK'',
       payload_type = MapOf AnyType, is_success = True,
       error_label = ''[POST /api/v1/customers/{cUUID}/universes/{uniUUID}/kms][200] retrieveKeyOK''\<rparr>]"

definition RetrieveKey_Operation :: "'m operation" where
  "RetrieveKey_Operation =
     \<lparr>op_id = ''retrieveKey'', op_method = ''POST'',
      path_pattern = ''/api/v1/customers/{cUUID}/universes/{uniUUID}/kms'',
      produces = [''application/json''], consumes = [''application/json''], schemes = [''http'', ''https''],
      with_auth = True, param_struct_of = RetrieveKey_Params,
      writes = RetrieveKey_WriteToRequest, reader = RetrieveKey_Reader,
      result_type = ''encryption_at_rest.RetrieveKeyOK''\<rparr>"

definition encryption_at_rest_operations :: "'m operation list" where
  "encryption_at_rest_operations =
     [CreateKMSConfig_Operation, DeleteKMSConfig_Operation, EditKMSConfig_Operation, GetCurrentKeyRef_Operation,
      GetKMSConfig_Operation, GetKeyRefHistory_Operation, ListKMSConfigs_Operation, RemoveKeyRefHistory_Operation,
      RetrieveKey_Operation]"

lemmas encryption_at_rest_defs =
  CreateKMSConfig_Operation_def CreateKMSConfig_Params_def CreateKMSConfig_WriteToRequest_def CreateKMSConfig_Reader_def
  DeleteKMSConfig_Operation_def DeleteKMSConfig_Params_def DeleteKMSConfig_WriteToRequest_def DeleteKMSConfig_Reader_def
  EditKMSConfig_Operation_def EditKMSConfig_Params_def EditKMSConfig_WriteToRequest_def EditKMSConfig_Reader_def
  GetCurrentKeyRef_Operation_def GetCurrentKeyRef_Params_def GetCurrentKeyRef_WriteToRequest_def GetCurrentKeyRef_Reader_def
  GetKMSConfig_Operation_def GetKMSConfig_Params_def GetKMSConfig_WriteToRequest_def GetKMSConfig_Reader_def
  GetKeyRefHistory_Operation_def GetKeyRefHistory_Params_def GetKeyRefHistory_WriteToRequest_def GetKeyRefHistory_Reader_def
  ListKMSConfigs_Operation_def ListKMSConfigs_Params_def ListKMSConfigs_WriteToRequest_def ListKMSConfigs_Reader_def
  RemoveKeyRefHistory_Operation_def RemoveKeyRefHistory_Params_def RemoveKeyRefHistory_WriteToRequest_def RemoveKeyRefHistory_Reader_def
  RetrieveKey_Operation_def RetrieveKey_Params_def RetrieveKey_WriteToRequest_def RetrieveKey_Reader_def

lemma encryption_at_rest_ok: "list_all operation_ok encryption_at_rest_operations"
  by code_simp

subsection \<open>asynchronous_replication\<close>

definition CreateXClusterConfig_Params :: "'m param_struct" where
  "CreateXClusterConfig_Params =
     \<lparr>struct_fields = [(''CUUID'', UUIDType),
                       (''XclusterReplicationCreateFormData'', Pointer (Model ''XClusterConfigCreateFormData''))],
      struct_defaults = []\<rparr>"

definition CreateXClusterConfig_WriteToRequest :: "write_stmt list" where
  "CreateXClusterConfig_WriteToRequest =
     [PathParam ''cUUID'' ''CUUID'', BodyParam ''XclusterReplicationCreateFormData'']"

definition CreateXClusterConfig_Reader :: "response_case list" where
  "CreateXClusterConfig_Reader =
     [\<lparr>status_code = 200, response_type = ''asynchronous_replication.CreateXClusterConfigOK'',
       payload_type = Pointer (Model ''YBPTask''), is_success = True,
       error_label = ''[POST /api/v1/customers/{cUUID}/xcluster_configs][200] createXClusterConfigOK''\<rparr>]"

definition CreateXClusterConfig_Operation :: "'m operation" where
  "CreateXClusterConfig_Operation =
     \<lparr>op_id = ''createXClusterConfig'', op_method = ''POST'',
      path_pattern = ''/api/v1/customers/{cUUID}/xcluster_configs'',
      produces = [''application/json''], consumes = [''application/json''], schemes = [''http'', ''https''],
      with_auth = True, param_struct_of = CreateXClusterConfig_Params,
      writes = CreateXClusterConfig_WriteToRequest, reader = CreateXClusterConfig_Reader,
      result_type = ''asynchronous_replication.CreateXClusterConfigOK''\<rparr>"

definition DeleteXClusterConfig_Params :: "'m param_struct" where
  "DeleteXClusterConfig_Params =
     \<lparr>struct_fields = [(''CUUID'', UUIDType), (''XccUUID'', UUIDType)],
      struct_defaults = []\<rparr>"

definition DeleteXClusterConfig_WriteToRequest :: "write_stmt list" where
  "DeleteXClusterConfig_WriteToRequest =
     [PathParam ''cUUID'' ''CUUID'', PathParam ''xccUUID'' ''XccUUID'']"

definition DeleteXClusterConfig_Reader :: "response_case list" where
  "DeleteXClusterConfig_Reader =
     [\<lparr>status_code = 200, response_type = ''asynchronous_replication.DeleteXClusterConfigOK'',
       payload_type = Pointer (Model ''YBPTask''), is_success = True,
       error_label = ''[DELETE /api/v1/customers/{cUUID}/xcluster_configs/{xccUUID}][200] deleteXClusterConfigOK''\<rparr>]"

definition DeleteXClusterConfig_Operation :: "'m operation" where
  "DeleteXClusterConfig_Operation =
     \<lparr>op_id = ''deleteXClusterConfig'', op_method = ''DELETE'',
      path_pattern = ''/api/v1/customers/{cUUID}/xcluster_configs/{xccUUID}'',
      produces = [''application/json''], consumes = [''application/json''], schemes = [''http'', ''https''],
      with_auth = True, param_struct_of = DeleteXClusterConfig_Params,
      writes = DeleteXClusterConfig_WriteToRequest, reader = DeleteXClusterConfig_Reader,
      result_type = ''asynchronous_replication.DeleteXClusterConfigOK''\<rparr>"

definition EditXClusterConfig_Params :: "'m param_struct" where
  "EditXClusterConfig_Params =
     \<lparr>struct_fields = [(''CUUID'', UUIDType), (''XccUUID'', UUIDType),
                       (''XclusterReplicationEditFormData'', Pointer (Model ''XClusterConfigEditFormData''))],
      struct_defaults = []\<rparr>"

definition EditXClusterConfig_WriteToRequest :: "write_stmt list" where
  "EditXClusterConfig_WriteToRequest =
     [PathParam ''cUUID'' ''CUUID'', PathParam ''xccUUID'' ''XccUUID'', BodyParam ''XclusterReplicationEditFormData'']"

definition EditXClusterConfig_Reader :: "response_case list" where
  "EditXClusterConfig_Reader =
     [\<lparr>status_code = 200, response_type = ''asynchronous_replication.EditXClusterConfigOK'',
       payload_type = Pointer (Model ''YBPTask''), is_success = True,
       error_label = ''[PUT /api/v1/customers/{cUUID}/xcluster_configs/{xccUUID}][200] editXClusterConfigOK''\<rparr>]"

definition EditXClusterConfig_Operation :: "'m operation" where
  "EditXClusterConfig_Operation =
     \<lparr>op_id = ''editXClusterConfig'', op_method = ''PUT'',
      path_pattern = ''/api/v1/customers/{cUUID}/xcluster_configs/{xccUUID}'',
      produces = [''application/json''], consumes = [''application/json''], schemes = [''http'', ''https''],
      with_auth = True, param_struct_of = EditXClusterConfig_Params,
      writes = EditXClusterConfig_WriteToRequest, reader = EditXClusterConfig_Reader,
      result_type = ''asynchronous_replication.EditXClusterConfigOK''\<rparr>"

definition GetXClusterConfig_Params :: "'m param_struct" where
  "GetXClusterConfig_Params =
     \<lparr>struct_fields = [(''CUUID'', UUIDType), (''XccUUID'', UUIDType)],
      struct_defaults = []\<rparr>"

definition GetXClusterConfig_WriteToRequest :: "write_stmt list" where
  "GetXClusterConfig_WriteToRequest =
     [PathParam ''cUUID'' ''CUUID'', PathParam ''xccUUID'' ''XccUUID'']"

definition GetXClusterConfig_Reader :: "response_case list" where
  "GetXClusterConfig_Reader =
     [\<lparr>status_code = 200, response_type = ''asynchronous_replication.GetXClusterConfigOK'',
       payload_type = Pointer (Model ''XClusterConfigGetResp''), is_success = True,
       error_label = ''[GET /api/v1/customers/{cUUID}/xcluster_configs/{xccUUID}][200] getXClusterConfigOK''\<rparr>]"

definition GetXClusterConfig_Operation :: "'m operation" where
  "GetXClusterConfig_Operation =
     \<lparr>op_id = ''getXClusterConfig'', op_method = ''GET'',
      path_pattern = ''/api/v1/customers/{cUUID}/xcluster_configs/{xccUUID}'',
      produces = [''application/json''], consumes = [''application/json''], schemes = [''http'', ''https''],
      with_auth = True, param_struct_of = GetXClusterConfig_Params,
      writes = GetXClusterConfig_WriteToRequest, reader = GetXClusterConfig_Reader,
      result_type = ''asynchronous_replication.GetXClusterConfigOK''\<rparr>"

definition SyncXClusterConfig_Params :: "'m param_struct" where
  "SyncXClusterConfig_Params =
     \<lparr>struct_fields = [(''CUUID'', UUIDType), (''TargetUniverseUUID'', Pointer UUIDType)],
      struct_defaults = []\<rparr>"

definition SyncXClusterConfig_WriteToRequest :: "write_stmt list" where
  "SyncXClusterConfig_WriteToRequest =
     [PathParam ''cUUID'' ''CUUID'', QueryParam ''targetUniverseUUID'' ''TargetUniverseUUID'']"

definition SyncXClusterConfig_Reader :: "response_case list" where
  "SyncXClusterConfig_Reader =
     [\<lparr>status_code = 200, response_type = ''asynchronous_replication.SyncXClusterConfigOK'',
       payload_type = Pointer (Model ''YBPTask''), is_success = True,
       error_label = ''[POST /api/v1/customers/{cUUID}/xcluster_configs/sync][200] syncXClusterConfigOK''\<rparr>]"

definition SyncXClusterConfig_Operation :: "'m operation" where
  "SyncXClusterConfig_Operation =
     \<lparr>op_id = ''syncXClusterConfig'', op_method = ''POST'',
      path_pattern = ''/api/v1/customers/{cUUID}/xcluster_configs/sync'',
      produces = [''application/json''], consumes = [''application/json''], schemes = [''http'', ''https''],
      with_auth = True, param_struct_of = SyncXClusterConfig_Params,
      writes = SyncXClusterConfig_WriteToRequest, reader = SyncXClusterConfig_Reader,
      result_type = ''asynchronous_replication.SyncXClusterConfigOK''\<rparr>"

definition asynchronous_replication_operations :: "'m operation list" where
  "asynchronous_replication_operations =
     [CreateXClusterConfig_Operation, DeleteXClusterConfig_Operation, EditXClusterConfig_Operation,
      GetXClusterConfig_Operation, SyncXClusterConfig_Operation]"

lemmas asynchronous_replication_defs =
  CreateXClusterConfig_Operation_def CreateXClusterConfig_Params_def CreateXClusterConfig_WriteToRequest_def CreateXClusterConfig_Reader_def
  DeleteXClusterConfig_Operation_def DeleteXClusterConfig_Params_def DeleteXClusterConfig_WriteToRequest_def DeleteXClusterConfig_Reader_def
  EditXClusterConfig_Operation_def EditXClusterConfig_Params_def EditXClusterConfig_WriteToRequest_def EditXClusterConfig_Reader_def
  GetXClusterConfig_Operation_def GetXClusterConfig_Params_def GetXClusterConfig_WriteToRequest_def GetXClusterConfig_Reader_def
  SyncXClusterConfig_Operation_def SyncXClusterConfig_Params_def SyncXClusterConfig_WriteToRequest_def SyncXClusterConfig_Reader_def

lemma asynchronous_replication_ok: "list_all operation_ok asynchronous_replication_operations"
  by code_simp

end
