(* ===== verification/ApiUniverses.thy ===== *)
theory ApiUniverses
  imports Swagger
begin

section \<open>The generated client: universes\<close>

text \<open>
  The operations of the packages \<open>universe_management\<close>, \<open>universe_information\<close>, \<open>universe_actions\<close>, \<open>universe_cluster_mutations\<close>,
  \<open>universe_database_management\<close>, \<open>universe_node_metadata_metamaster\<close>, \<open>universe_upgrades_management\<close>, \<open>table_management\<close>,
  \<open>tablet_server_management\<close> of
  \<open>yugaware-client/pkg/client/swagger/client\<close>, as theory \<open>Swagger\<close> reads them; a list \<open>..._operations\<close>
  is the \<open>ClientService\<close> interface of a package.
\<close>

subsection \<open>universe_management\<close>

definition ConfigureUniverseAlerts_Params :: "'m param_struct" where
  "ConfigureUniverseAlerts_Params =
     \<lparr>struct_fields = [(''CUUID'', UUIDType), (''UniUUID'', UUIDType)],
      struct_defaults = []\<rparr>"

definition ConfigureUniverseAlerts_WriteToRequest :: "write_stmt list" where
  "ConfigureUniverseAlerts_WriteToRequest =
     [PathParam ''cUUID'' ''CUUID'', PathParam ''uniUUID'' ''UniUUID'']"

definition ConfigureUniverseAlerts_Reader :: "response_case list" where
  "ConfigureUniverseAlerts_Reader =
     [\<lparr>status_code = 200, response_type = ''universe_management.ConfigureUniverseAlertsOK'',
       payload_type = Pointer (Model ''YBPSuccess''), is_success = True,
       error_label = ''[POST /api/v1/customers/{cUUID}/universes/{uniUUID}/config_alerts][200] configureUniverseAlertsOK''\<rparr>]"

definition ConfigureUniverseAlerts_Operation :: "'m operation" where
  "ConfigureUniverseAlerts_Operation =
     \<lparr>op_id = ''configureUniverseAlerts'', op_method = ''POST'',
      path_pattern = ''/api/v1/customers/{cUUID}/universes/{uniUUID}/config_alerts'',
      produces = [''application/json''], consumes = [''application/json''], schemes = [''http'', ''https''],
      with_auth = True, param_struct_of = ConfigureUniverseAlerts_Params,
      writes = ConfigureUniverseAlerts_WriteToRequest, reader = ConfigureUniverseAlerts_Reader,
      result_type = ''universe_management.ConfigureUniverseAlertsOK''\<rparr>"

definition DeleteUniverse_Params :: "'m param_struct" where
  "DeleteUniverse_Params =
     \<lparr>struct_fields = [(''CUUID'', UUIDType), (''IsDeleteAssociatedCerts'', Pointer BoolType),
                       (''IsDeleteBackups'', Pointer BoolType), (''IsForceDelete'', Pointer BoolType),
                       (''UniUUID'', UUIDType)],
      struct_defaults = [(''IsDeleteAssociatedCerts'', Address (Truth False)),
                         (''IsDeleteBackups'', Address (Truth False)), (''IsForceDelete'', Address (Truth False))]\<rparr>"

definition DeleteUniverse_WriteToRequest :: "write_stmt list" where
  "DeleteUniverse_WriteToRequest =
     [PathParam ''cUUID'' ''CUUID'', QueryParam ''isDeleteAssociatedCerts'' ''IsDeleteAssociatedCerts'',
      QueryParam ''isDeleteBackups'' ''IsDeleteBackups'', QueryParam ''isForceDelete'' ''IsForceDelete'',
      PathParam ''uniUUID'' ''UniUUID'']"

definition DeleteUniverse_Reader :: "response_case list" where
  "DeleteUniverse_Reader =
     [\<lparr>status_code = 200, response_type = ''universe_management.DeleteUniverseOK'',
       payload_type = Pointer (Model ''YBPTask''), is_success = True,
       error_label = ''[DELETE /api/v1/customers/{cUUID}/universes/{uniUUID}][200] deleteUniverseOK''\<rparr>]"

definition DeleteUniverse_Operation :: "'m operation" where
  "DeleteUniverse_Operation =
     \<lparr>op_id = ''deleteUniverse'', op_method = ''DELETE'',
      path_pattern = ''/api/v1/customers/{cUUID}/universes/{uniUUID}'',
      produces = [''application/json''], consumes = [''application/json''], schemes = [''http'', ''https''],
      with_auth = True, param_struct_of = DeleteUniverse_Params,
      writes = DeleteUniverse_WriteToRequest, reader = DeleteUniverse_Reader,
      result_type = ''universe_management.DeleteUniverseOK''\<rparr>"

definition GetUniverse_Params :: "'m param_struct" where
  "GetUniverse_Params =
     \<lparr>struct_fields = [(''CUUID'', UUIDType), (''UniUUID'', UUIDType)],
      struct_defaults = []\<rparr>"

definition GetUniverse_WriteToRequest :: "write_stmt list" where
  "GetUniverse_WriteToRequest =
     [PathParam ''cUUID'' ''CUUID'', PathParam ''uniUUID'' ''UniUUID'']"

definition GetUniverse_Reader :: "response_case list" where
  "GetUniverse_Reader =
     [\<lparr>status_code = 200, response_type = ''universe_management.GetUniverseOK'',
       payload_type = Pointer (Model ''UniverseResp''), is_success = True,
       error_label = ''[GET /api/v1/customers/{cUUID}/universes/{uniUUID}][200] getUniverseOK''\<rparr>]"

definition GetUniverse_Operation :: "'m operation" where
  "GetUniverse_Operation =
     \<lparr>op_id = ''getUniverse'', op_method = ''GET'',
      path_pattern = ''/api/v1/customers/{cUUID}/universes/{uniUUID}'',
      produces = [''application/json''], consumes = [''application/json''], schemes = [''http'', ''https''],
      with_auth = True, param_struct_of = GetUniverse_Params,
      writes = GetUniverse_WriteToRequest, reader = GetUniverse_Reader,
      result_type = ''universe_management.GetUniverseOK''\<rparr>"

definition ListUniverses_Params :: "'m param_struct" where
  "ListUniverses_Params =
     \<lparr>struct_fields = [(''CUUID'', UUIDType), (''Name'', Pointer StringType)],
      struct_defaults = [(''Name'', Address (Text ''null''))]\<rparr>"

definition ListUniverses_WriteToRequest :: "write_stmt list" where
  "ListUniverses_WriteToRequest =
     [PathParam ''cUUID'' ''CUUID'', QueryParam ''name'' ''Name'']"

definition ListUniverses_Reader :: "response_case list" where
  "ListUniverses_Reader =
     [\<lparr>status_code = 200, response_type = ''universe_management.ListUniversesOK'',
       payload_type = Slice (Pointer (Model ''UniverseResp'')), is_success = True,
       error_label = ''[GET /api/v1/customers/{cUUID}/universes][200] listUniversesOK''\<rparr>]"

definition ListUniverses_Operation :: "'m operation" where
  "ListUniverses_Operation =
     \<lparr>op_id = ''listUniverses'', op_method = ''GET'',
      path_pattern = ''/api/v1/customers/{cUUID}/universes'',
      produces = [''application/json''], consumes = [''application/json''], schemes = [''http'', ''https''],
      with_auth = True, param_struct_of = ListUniverses_Params,
      writes = ListUniverses_WriteToRequest, reader = ListUniverses_Reader,
      result_type = ''universe_management.ListUniversesOK''\<rparr>"

definition PauseUniverse_Params :: "'m param_struct" where
  "PauseUniverse_Params =
     \<lparr>struct_fields = [(''CUUID'', UUIDType), (''UniUUID'', UUIDType)],
      struct_defaults = []\<rparr>"

definition PauseUniverse_WriteToRequest :: "write_stmt list" where
  "PauseUniverse_WriteToRequest =
     [PathParam ''cUUID'' ''CUUID'', PathParam ''uniUUID'' ''UniUUID'']"

definition PauseUniverse_Reader :: "response_case list" where
  "PauseUniverse_Reader =
     [\<lparr>status_code = 200, response_type = ''universe_management.PauseUniverseOK'',
       payload_type = Pointer (Model ''YBPTask''), is_success = True,
       error_label = ''[POST /api/v1/customers/{cUUID}/universes/{uniUUID}/pause][200] pauseUniverseOK''\<rparr>]"

definition PauseUniverse_Operation :: "'m operation" where
  "PauseUniverse_Operation =
     \<lparr>op_id = ''pauseUniverse'', op_method = ''POST'',
      path_pattern = ''/api/v1/customers/{cUUID}/universes/{uniUUID}/pause'',
      produces = [''application/json''], consumes = [''application/json''], schemes = [''http'', ''https''],
      with_auth = True, param_struct_of = PauseUniverse_Params,
      writes = PauseUniverse_WriteToRequest, reader = PauseUniverse_Reader,
      result_type = ''universe_management.PauseUniverseOK''\<rparr>"

definition ResetUniverseVersion_Params :: "'m param_struct" where
  "ResetUniverseVersion_Params =
     \<lparr>struct_fields = [(''Dummy'', Pointer (Model ''DummyBody'')), (''CUUID'', UUIDType),
                       (''UniUUID'', UUIDType)],
      struct_defaults = []\<rparr>"

definition ResetUniverseVersion_WriteToRequest :: "write_stmt list" where
  "ResetUniverseVersion_WriteToRequest =
     [BodyParam ''Dummy'', PathParam ''cUUID'' ''CUUID'', PathParam ''uniUUID'' ''UniUUID'']"

definition ResetUniverseVersion_Reader :: "response_case list" where
  "ResetUniverseVersion_Reader =
     [\<lparr>status_code = 200, response_type = ''universe_management.ResetUniverseVersionOK'',
       payload_type = Pointer (Model ''YBPSuccess''), is_success = True,
       error_label = ''[PUT /api/v1/customers/{cUUID}/universes/{uniUUID}/setup_universe_2dc][200] resetUniverseVersionOK''\<rparr>]"

definition ResetUniverseVersion_Operation :: "'m operation" where
  "ResetUniverseVersion_Operation =
     \<lparr>op_id = ''resetUniverseVersion'', op_method = ''PUT'',
      path_pattern = ''/api/v1/customers/{cUUID}/universes/{uniUUID}/setup_universe_2dc'',
      produces = [''application/json''], consumes = [''application/json''], schemes = [''http'', ''https''],
      with_auth = True, param_struct_of = ResetUniverseVersion_Params,
      writes = ResetUniverseVersion_WriteToRequest, reader = ResetUniverseVersion_Reader,
      result_type = ''universe_management.ResetUniverseVersionOK''\<rparr>"

definition ResumeUniverse_Params :: "'m param_struct" where
  "ResumeUniverse_Params =
     \<lparr>struct_fields = [(''Dummy'', Pointer (Model ''DummyBody'')), (''CUUID'', UUIDType),
                       (''UniUUID'', UUIDType)],
      struct_defaults = []\<rparr>"

definition ResumeUniverse_WriteToRequest :: "write_stmt list" where
  "ResumeUniverse_WriteToRequest =
     [BodyParam ''Dummy'', PathParam ''cUUID'' ''CUUID'', PathParam ''uniUUID'' ''UniUUID'']"

definition ResumeUniverse_Reader :: "response_case list" where
  "ResumeUniverse_Reader =
     [\<lparr>status_code = 200, response_type = ''universe_management.ResumeUniverseOK'',
       payload_type = Pointer (Model ''YBPTask''), is_success = True,
       error_label = ''[POST /api/v1/customers/{cUUID}/universes/{uniUUID}/resume][200] resumeUniverseOK''\<rparr>]"

definition ResumeUniverse_Operation :: "'m operation" where
  "ResumeUniverse_Operation =
     \<lparr>op_id = ''resumeUniverse'', op_method = ''POST'',
      path_pattern = ''/api/v1/customers/{cUUID}/universes/{uniUUID}/resume'',
      produces = [''application/json''], consumes = [''application/json''], schemes = [''http'', ''https''],
      with_auth = True, param_struct_of = ResumeUniverse_Params,
      writes = ResumeUniverse_WriteToRequest, reader = ResumeUniverse_Reader,
      result_type = ''universe_management.ResumeUniverseOK''\<rparr>"

definition SetUniverseBackupFlag_Params :: "'m param_struct" where
  "SetUniverseBackupFlag_Params =
     \<lparr>struct_fields = [(''CUUID'', UUIDType), (''MarkActive'', Pointer BoolType), (''UniUUID'', UUIDType)],
      struct_defaults = []\<rparr>"

definition SetUniverseBackupFlag_WriteToRequest :: "write_stmt list" where
  "SetUniverseBackupFlag_WriteToRequest =
     [PathParam ''cUUID'' ''CUUID'', QueryParam ''markActive'' ''MarkActive'', PathParam ''uniUUID'' ''UniUUID'']"

definition SetUniverseBackupFlag_Reader :: "response_case list" where
  "SetUniverseBackupFlag_Reader =
     [\<lparr>status_code = 200, response_type = ''universe_management.SetUniverseBackupFlagOK'',
       payload_type = Pointer (Model ''YBPSuccess''), is_success = True,
       error_label = ''[PUT /api/v1/customers/{cUUID}/universes/{uniUUID}/update_backup_state][200] setUniverseBackupFlagOK''\<rparr>]"

definition SetUniverseBackupFlag_Operation :: "'m operation" where
  "SetUniverseBackupFlag_Operation =
     \<lparr>op_id = ''setUniverseBackupFlag'', op_method = ''PUT'',
      path_pattern = ''/api/v1/customers/{cUUID}/universes/{uniUUID}/update_backup_state'',
      produces = [''application/json''], consumes = [''application/json''], schemes = [''http'', ''https''],
      with_auth = True, param_struct_of = SetUniverseBackupFlag_Params,
      writes = SetUniverseBackupFlag_WriteToRequest, reader = SetUniverseBackupFlag_Reader,
      result_type = ''universe_management.SetUniverseBackupFlagOK''\<rparr>"

definition SetUniverseHelm3Compatible_Params :: "'m param_struct" where
  "SetUniverseHelm3Compatible_Params =
     \<lparr>struct_fields = [(''CUUID'', UUIDType), (''UniUUID'', UUIDType)],
      struct_defaults = []\<rparr>"

definition SetUniverseHelm3Compatible_WriteToRequest :: "write_stmt list" where
  "SetUniverseHelm3Compatible_WriteToRequest =
     [PathParam ''cUUID'' ''CUUID'', PathParam ''uniUUID'' ''UniUUID'']"

definition SetUniverseHelm3Compatible_Reader :: "response_case list" where
  "SetUniverseHelm3Compatible_Reader =
     [\<lparr>status_code = 200, response_type = ''universe_management.SetUniverseHelm3CompatibleOK'',
       payload_type = Pointer (Model ''YBPSuccess''), is_success = True,
       error_label = ''[PUT /api/v1/customers/{cUUID}/universes/{uniUUID}/mark_helm3_compatible][200] setUniverseHelm3CompatibleOK''\<rparr>]"

definition SetUniverseHelm3Compatible_Operation :: "'m operation" where
  "SetUniverseHelm3Compatible_Operation =
     \<lparr>op_id = ''setUniverseHelm3Compatible'', op_method = ''PUT'',
      path_pattern = ''/api/v1/customers/{cUUID}/universes/{uniUUID}/mark_helm3_compatible'',
      produces = [''application/json''], consumes = [''application/json''], schemes = [''http'', ''https''],
      with_auth = True, param_struct_of = SetUniverseHelm3Compatible_Params,
      writes = SetUniverseHelm3Compatible_WriteToRequest, reader = SetUniverseHelm3Compatible_Reader,
      result_type = ''universe_management.SetUniverseHelm3CompatibleOK''\<rparr>"

definition SetUniverseKey_Params :: "'m param_struct" where
  "SetUniverseKey_Params =
     \<lparr>struct_fields = [(''CUUID'', UUIDType), (''UniUUID'', UUIDType)],
      struct_defaults = []\<rparr>"

definition SetUniverseKey_WriteToRequest :: "write_stmt list" where
  "SetUniverseKey_WriteToRequest =
     [PathParam ''cUUID'' ''CUUID'', PathParam ''uniUUID'' ''UniUUID'']"

definition SetUniverseKey_Reader :: "response_case list" where
  "SetUniverseKey_Reader =
     [\<lparr>status_code = 200, response_type = ''universe_management.SetUniverseKeyOK'',
       payload_type = Pointer (Model ''UniverseResp''), is_success = True,
       error_label = ''[POST /api/v1/customers/{cUUID}/universes/{uniUUID}/set_key][200] setUniverseKeyOK''\<rparr>]"

definition SetUniverseKey_Operation :: "'m operation" where
  "SetUniverseKey_Operation =
     \<lparr>op_id = ''setUniverseKey'', op_method = ''POST'',
      path_pattern = ''/api/v1/customers/{cUUID}/universes/{uniUUID}/set_key'',
      produces = [''application/json''], consumes = [''application/json''], schemes = [''http'', ''https''],
      with_auth = True, param_struct_of = SetUniverseKey_Params,
      writes = SetUniverseKey_WriteToRequest, reader = SetUniverseKey_Reader,
      result_type = ''universe_management.SetUniverseKeyOK''\<rparr>"

definition ToggleUniverseTLS_Params :: "'m param_struct" where
  "ToggleUniverseTLS_Params =
     \<lparr>struct_fields = [(''CUUID'', UUIDType), (''UniUUID'', UUIDType)],
      struct_defaults = []\<rparr>"

definition ToggleUniverseTLS_WriteToRequest :: "write_stmt list" where
  "ToggleUniverseTLS_WriteToRequest =
     [PathParam ''cUUID'' ''CUUID'', PathParam ''uniUUID'' ''UniUUID'']"

definition ToggleUniverseTLS_Reader :: "response_case list" where
  "ToggleUniverseTLS_Reader =
     [\<lparr>status_code = 200, response_type = ''universe_management.ToggleUniverseTLSOK'',
       payload_type = Pointer (Model ''UniverseResp''), is_success = True,
       error_label = ''[POST /api/v1/customers/{cUUID}/universes/{uniUUID}/toggle_tls][200] toggleUniverseTlsOK''\<rparr>]"

definition ToggleUniverseTLS_Operation :: "'m operation" where
  "ToggleUniverseTLS_Operation =
     \<lparr>op_id = ''toggleUniverseTLS'', op_method = ''POST'',
      path_pattern = ''/api/v1/customers/{cUUID}/universes/{uniUUID}/toggle_tls'',
      produces = [''application/json''], consumes = [''application/json''], schemes = [''http'', ''https''],
      with_auth = True, param_struct_of = ToggleUniverseTLS_Params,
      writes = ToggleUniverseTLS_WriteToRequest, reader = ToggleUniverseTLS_Reader,
      result_type = ''universe_management.ToggleUniverseTLSOK''\<rparr>"

definition universe_management_operations :: "'m operation list" where
  "universe_management_operations =
     [ConfigureUniverseAlerts_Operation, DeleteUniverse_Operation, GetUniverse_Operation, ListUniverses_Operation,
      PauseUniverse_Operation, ResetUniverseVersion_Operation, ResumeUniverse_Operation,
      SetUniverseBackupFlag_Operation, SetUniverseHelm3Compatible_Operation, SetUniverseKey_Operation,
      ToggleUniverseTLS_Operation]"

lemmas universe_management_defs =
  ConfigureUniverseAlerts_Operation_def ConfigureUniverseAlerts_Params_def ConfigureUniverseAlerts_WriteToRequest_def ConfigureUniverseAlerts_Reader_def
  DeleteUniverse_Operation_def DeleteUniverse_Params_def DeleteUniverse_WriteToRequest_def DeleteUniverse_Reader_def
  GetUniverse_Operation_def GetUniverse_Params_def GetUniverse_WriteToRequest_def GetUniverse_Reader_def
  ListUniverses_Operation_def ListUniverses_Params_def ListUniverses_WriteToRequest_def ListUniverses_Reader_def
  PauseUniverse_Operation_def PauseUniverse_Params_def PauseUniverse_WriteToRequest_def PauseUniverse_Reader_def
  ResetUniverseVersion_Operation_def ResetUniverseVersion_Params_def ResetUniverseVersion_WriteToRequest_def ResetUniverseVersion_Reader_def
  ResumeUniverse_Operation_def ResumeUniverse_Params_def ResumeUniverse_WriteToRequest_def ResumeUniverse_Reader_def
  SetUniverseBackupFlag_Operation_def SetUniverseBackupFlag_Params_def SetUniverseBackupFlag_WriteToRequest_def SetUniverseBackupFlag_Reader_def
  SetUniverseHelm3Compatible_Operation_def SetUniverseHelm3Compatible_Params_def SetUniverseHelm3Compatible_WriteToRequest_def SetUniverseHelm3Compatible_Reader_def
  SetUniverseKey_Operation_def SetUniverseKey_Params_def SetUniverseKey_WriteToRequest_def SetUniverseKey_Reader_def
  ToggleUniverseTLS_Operation_def ToggleUniverseTLS_Params_def ToggleUniverseTLS_WriteToRequest_def ToggleUniverseTLS_Reader_def

lemma universe_management_ok: "list_all operation_ok universe_management_operations"
  by code_simp

subsection \<open>universe_information\<close>

definition DownloadNodeLogs_Params :: "'m param_struct" where
  "DownloadNodeLogs_Params =
     \<lparr>struct_fields = [(''CUUID'', UUIDType), (''NodeName'', StringType), (''UniUUID'', UUIDType)],
      struct_defaults = []\<rparr>"

definition DownloadNodeLogs_WriteToRequest :: "write_stmt list" where
  "DownloadNodeLogs_WriteToRequest =
     [PathParam ''cUUID'' ''CUUID'', PathParam ''nodeName'' ''NodeName'', PathParam ''uniUUID'' ''UniUUID'']"

definition DownloadNodeLogs_Reader :: "response_case list" where
  "DownloadNodeLogs_Reader =
     [\<lparr>status_code = 200, response_type = ''universe_information.DownloadNodeLogsOK'',
       payload_type = StringType, is_success = True,
       error_label = ''[GET /api/v1/customers/{cUUID}/universes/{uniUUID}/{nodeName}/download_logs][200] downloadNodeLogsOK''\<rparr>]"

definition DownloadNodeLogs_Operation :: "'m operation" where
  "DownloadNodeLogs_Operation =
     \<lparr>op_id = ''downloadNodeLogs'', op_method = ''GET'',
      path_pattern = ''/api/v1/customers/{cUUID}/universes/{uniUUID}/{nodeName}/download_logs'',
      produces = [''application/x-compressed''], consumes = [''application/json''], schemes = [''http'', ''https''],
      with_auth = True, param_struct_of = DownloadNodeLogs_Params,
      writes = DownloadNodeLogs_WriteToRequest, reader = DownloadNodeLogs_Reader,
      result_type = ''universe_information.DownloadNodeLogsOK''\<rparr>"

definition GetLiveQueries_Params :: "'m param_struct" where
  "GetLiveQueries_Params =
     \<lparr>struct_fields = [(''CUUID'', UUIDType), (''UniUUID'', UUIDType)],
      struct_defaults = []\<rparr>"

definition GetLiveQueries_WriteToRequest :: "write_stmt list" where
  "GetLiveQueries_WriteToRequest =
     [PathParam ''cUUID'' ''CUUID'', PathParam ''uniUUID'' ''UniUUID'']"

definition GetLiveQueries_Reader :: "response_case list" where
  "GetLiveQueries_Reader =
     [\<lparr>status_code = 200, response_type = ''universe_information.GetLiveQueriesOK'',
       payload_type = AnyType, is_success = True,
       error_label = ''[GET /api/v1/customers/{cUUID}/universes/{uniUUID}/live_queries][200] getLiveQueriesOK''\<rparr>]"

definition GetLiveQueries_Operation :: "'m operation" where
  "GetLiveQueries_Operation =
     \<lparr>op_id = ''getLiveQueries'', op_method = ''GET'',
      path_pattern = ''/api/v1/customers/{cUUID}/universes/{uniUUID}/live_queries'',
      produces = [''application/json''], consumes = [''application/json''], schemes = [''http'', ''https''],
      with_auth = True, param_struct_of = GetLiveQueries_Params,
      writes = GetLiveQueries_WriteToRequest, reader = GetLiveQueries_Reader,
      result_type = ''universe_information.GetLiveQueriesOK''\<rparr>"

definition GetMasterLeaderIP_Params :: "'m param_struct" where
  "GetMasterLeaderIP_Params =
     \<lparr>struct_fields = [(''CUUID'', UUIDType), (''UniUUID'', UUIDType)],
      struct_defaults = []\<rparr>"

definition GetMasterLeaderIP_WriteToRequest :: "write_stmt list" where
  "GetMasterLeaderIP_WriteToRequest =
     [PathParam ''cUUID'' ''CUUID'', PathParam ''uniUUID'' ''UniUUID'']"

definition GetMasterLeaderIP_Reader :: "response_case list" where
  "GetMasterLeaderIP_Reader =
     [\<lparr>status_code = 200, response_type = ''universe_information.GetMasterLeaderIPOK'',
       payload_type = AnyType, is_success = True,
       error_label = ''[GET /api/v1/customers/{cUUID}/universes/{uniUUID}/leader][200] getMasterLeaderIpOK''\<rparr>]"

definition GetMasterLeaderIP_Operation :: "'m operation" where
  "GetMasterLeaderIP_Operation =
     \<lparr>op_id = ''getMasterLeaderIP'', op_method = ''GET'',
      path_pattern = ''/api/v1/customers/{cUUID}/universes/{uniUUID}/leader'',
      produces = [''application/json''], consumes = [''application/json''], schemes = [''http'', ''https''],
      with_auth = True, param_struct_of = GetMasterLeaderIP_Params,
      writes = GetMasterLeaderIP_WriteToRequest, reader = GetMasterLeaderIP_Reader,
      result_type = ''universe_information.GetMasterLeaderIPOK''\<rparr>"

definition GetSlowQueries_Params :: "'m param_struct" where
  "GetSlowQueries_Params =
     \<lparr>struct_fields = [(''CUUID'', UUIDType), (''UniUUID'', UUIDType)],
      struct_defaults = []\<rparr>"

definition GetSlowQueries_WriteToRequest :: "write_stmt list" where
  "GetSlowQueries_WriteToRequest =
     [PathParam ''cUUID'' ''CUUID'', PathParam ''uniUUID'' ''UniUUID'']"

definition GetSlowQueries_Reader :: "response_case list" where
  "GetSlowQueries_Reader =
     [\<lparr>status_code = 200, response_type = ''universe_information.GetSlowQueriesOK'',
       payload_type = AnyType, is_success = True,
       error_label = ''[GET /api/v1/customers/{cUUID}/universes/{uniUUID}/slow_queries][200] getSlowQueriesOK''\<rparr>]"

definition GetSlowQueries_Operation :: "'m operation" where
  "GetSlowQueries_Operation =
     \<lparr>op_id = ''getSlowQueries'', op_method = ''GET'',
      path_pattern = ''/api/v1/customers/{cUUID}/universes/{uniUUID}/slow_queries'',
      produces = [''application/json''], consumes = [''application/json''], schemes = [''http'', ''https''],
      with_auth = True, param_struct_of = GetSlowQueries_Params,
      writes = GetSlowQueries_WriteToRequest, reader = GetSlowQueries_Reader,
      result_type = ''universe_information.GetSlowQueriesOK''\<rparr>"

definition GetUniverseCost_Params :: "'m param_struct" where
  "GetUniverseCost_Params =
     \<lparr>struct_fields = [(''CUUID'', UUIDType), (''UniUUID'', UUIDType)],
      struct_defaults = []\<rparr>"

definition GetUniverseCost_WriteToRequest :: "write_stmt list" where
  "GetUniverseCost_WriteToRequest =
     [PathParam ''cUUID'' ''CUUID'', PathParam ''uniUUID'' ''UniUUID'']"

definition GetUniverseCost_Reader :: "response_case list" where
  "GetUniverseCost_Reader =
     [\<lparr>status_code = 200, response_type = ''universe_information.GetUniverseCostOK'',
       payload_type = Pointer (Model ''UniverseResourceDetails''), is_success = True,
       error_label = ''[GET /api/v1/customers/{cUUID}/universes/{uniUUID}/cost][200] getUniverseCostOK''\<rparr>]"

definition GetUniverseCost_Operation :: "'m operation" where
  "GetUniverseCost_Operation =
     \<lparr>op_id = ''getUniverseCost'', op_method = ''GET'',
      path_pattern = ''/api/v1/customers/{cUUID}/universes/{uniUUID}/cost'',
      produces = [''application/json''], consumes = [''application/json''], schemes = [''http'', ''https''],
      with_auth = True, param_struct_of = GetUniverseCost_Params,
      writes = GetUniverseCost_WriteToRequest, reader = GetUniverseCost_Reader,
      result_type = ''universe_information.GetUniverseCostOK''\<rparr>"

definition GetUniverseCostForAll_Params :: "'m param_struct" where
  "GetUniverseCostForAll_Params =
     \<lparr>struct_fields = [(''CUUID'', UUIDType)],
      struct_defaults = []\<rparr>"

definition GetUniverseCostForAll_WriteToRequest :: "write_stmt list" where
  "GetUniverseCostForAll_WriteToRequest =
     [PathParam ''cUUID'' ''CUUID'']"

definition GetUniverseCostForAll_Reader :: "response_case list" where
  "GetUniverseCostForAll_Reader =
     [\<lparr>status_code = 200, response_type = ''universe_information.GetUniverseCostForAllOK'',
       payload_type = Slice (Pointer (Model ''UniverseResourceDetails'')), is_success = True,
       error_label = ''[GET /api/v1/customers/{cUUID}/cost][200] getUniverseCostForAllOK''\<rparr>]"

definition GetUniverseCostForAll_Operation :: "'m operation" where
  "GetUniverseCostForAll_Operation =
     \<lparr>op_id = ''getUniverseCostForAll'', op_method = ''GET'',
      path_pattern = ''/api/v1/customers/{cUUID}/cost'',
      produces = [''application/json''], consumes = [''application/json''], schemes = [''http'', ''https''],
      with_auth = True, param_struct_of = GetUniverseCostForAll_Params,
      writes = GetUniverseCostForAll_WriteToRequest, reader = GetUniverseCostForAll_Reader,
      result_type = ''universe_information.GetUniverseCostForAllOK''\<rparr>"

definition HealthCheckUniverse_Params :: "'m param_struct" where
  "HealthCheckUniverse_Params =
     \<lparr>struct_fields = [(''CUUID'', UUIDType), (''UniUUID'', UUIDType)],
      struct_defaults = []\<rparr>"

definition HealthCheckUniverse_WriteToRequest :: "write_stmt list" where
  "HealthCheckUniverse_WriteToRequest =
     [PathParam ''cUUID'' ''CUUID'', PathParam ''uniUUID'' ''UniUUID'']"

definition HealthCheckUniverse_Reader :: "response_case list" where
  "HealthCheckUniverse_Reader =
     [\<lparr>status_code = 200, response_type = ''universe_information.HealthCheckUniverseOK'',
       payload_type = AnyType, is_success = True,
       error_label = ''[GET /api/v1/customers/{cUUID}/universes/{uniUUID}/health_check][200] healthCheckUniverseOK''\<rparr>]"

definition HealthCheckUniverse_Operation :: "'m operation" where
  "HealthCheckUniverse_Operation =
     \<lparr>op_id = ''healthCheckUniverse'', op_method = ''GET'',
      path_pattern = ''/api/v1/customers/{cUUID}/universes/{uniUUID}/health_check'',
      produces = [''application/json''], consumes = [''application/json''], schemes = [''http'', ''https''],
      with_auth = True, param_struct_of = HealthCheckUniverse_Params,
      writes = HealthCheckUniverse_WriteToRequest, reader = HealthCheckUniverse_Reader,
      result_type = ''universe_information.HealthCheckUniverseOK''\<rparr>"

definition ResetSlowQueries_Params :: "'m param_struct" where
  "ResetSlowQueries_Params =
     \<lparr>struct_fields = [(''CUUID'', UUIDType), (''UniUUID'', UUIDType)],
      struct_defaults = []\<rparr>"

definition ResetSlowQueries_WriteToRequest :: "write_stmt list" where
  "ResetSlowQueries_WriteToRequest =
     [PathParam ''cUUID'' ''CUUID'', PathParam ''uniUUID'' ''UniUUID'']"

definition ResetSlowQueries_Reader :: "response_case list" where
  "ResetSlowQueries_Reader =
     [\<lparr>status_code = 200, response_type = ''universe_information.ResetSlowQueriesOK'',
       payload_type = AnyType, is_success = True,
       error_label = ''[DELETE /api/v1/customers/{cUUID}/universes/{uniUUID}/slow_queries][200] resetSlowQueriesOK''\<rparr>]"

definition ResetSlowQueries_Operation :: "'m operation" where
  "ResetSlowQueries_Operation =
     \<lparr>op_id = ''resetSlowQueries'', op_method = ''DELETE'',
      path_pattern = ''/api/v1/customers/{cUUID}/universes/{uniUUID}/slow_queries'',
      produces = [''application/json''], consumes = [''application/json''], schemes = [''http'', ''https''],
      with_auth = True, param_struct_of = ResetSlowQueries_Params,
      writes = ResetSlowQueries_WriteToRequest, reader = ResetSlowQueries_Reader,
      result_type = ''universe_information.ResetSlowQueriesOK''\<rparr>"

definition TriggerHealthCheck_Params :: "'m param_struct" where
  "TriggerHealthCheck_Params =
     \<lparr>struct_fields = [(''CUUID'', UUIDType), (''UniUUID'', UUIDType)],
      struct_defaults = []\<rparr>"

definition TriggerHealthCheck_WriteToRequest :: "write_stmt list" where
  "TriggerHealthCheck_WriteToRequest =
     [PathParam ''cUUID'' ''CUUID'', PathParam ''uniUUID'' ''UniUUID'']"

definition TriggerHealthCheck_Reader :: "response_case list" where
  "TriggerHealthCheck_Reader =
     [\<lparr>status_code = 200, response_type = ''universe_information.TriggerHealthCheckOK'',
       payload_type = Pointer (Model ''TriggerHealthCheckResult''), is_success = True,
       error_label = ''[GET /api/v1/customers/{cUUID}/universes/{uniUUID}/trigger_health_check][200] triggerHealthCheckOK''\<rparr>]"

definition TriggerHealthCheck_Operation :: "'m operation" where
  "TriggerHealthCheck_Operation =
     \<lparr>op_id = ''triggerHealthCheck'', op_method = ''GET'',
      path_pattern = ''/api/v1/customers/{cUUID}/universes/{uniUUID}/trigger_health_check'',
      produces = [''application/json''], consumes = [''application/json''], schemes = [''http'', ''https''],
      with_auth = True, param_struct_of = TriggerHealthCheck_Params,
      writes = TriggerHealthCheck_WriteToRequest, reader = TriggerHealthCheck_Reader,
      result_type = ''universe_information.TriggerHealthCheckOK''\<rparr>"

definition UniverseStatus_Params :: "'m param_struct" where
  "UniverseStatus_Params =
     \<lparr>struct_fields = [(''CUUID'', UUIDType), (''UniUUID'', UUIDType)],
      struct_defaults = []\<rparr>"

definition UniverseStatus_WriteToRequest :: "write_stmt list" where
  "UniverseStatus_WriteToRequest =
     [PathParam ''cUUID'' ''CUUID'', PathParam ''uniUUID'' ''UniUUID'']"

definition UniverseStatus_Reader :: "response_case list" where
  "UniverseStatus_Reader =
     [\<lparr>status_code = 200, response_type = ''universe_information.UniverseStatusOK'',
       payload_type = MapOf AnyType, is_success = True,
       error_label = ''[GET /api/v1/customers/{cUUID}/universes/{uniUUID}/status][200] universeStatusOK''\<rparr>]"

definition UniverseStatus_Operation :: "'m operation" where
  "UniverseStatus_Operation =
     \<lparr>op_id = ''universeStatus'', op_method = ''GET'',
      path_pattern = ''/api/v1/customers/{cUUID}/universes/{uniUUID}/status'',
      produces = [''application/json''], consumes = [''application/json''], schemes = [''http'', ''https''],
      with_auth = True, param_struct_of = UniverseStatus_Params,
      writes = UniverseStatus_WriteToRequest, reader = UniverseStatus_Reader,
      result_type = ''universe_information.UniverseStatusOK''\<rparr>"

definition universe_information_operations :: "'m operation list" where
  "universe_information_operations =
     [DownloadNodeLogs_Operation, GetLiveQueries_Operation, GetMasterLeaderIP_Operation, GetSlowQueries_Operation,
      GetUniverseCost_Operation, GetUniverseCostForAll_Operation, HealthCheckUniverse_Operation,
      ResetSlowQueries_Operation, TriggerHealthCheck_Operation, UniverseStatus_Operation]"

lemmas universe_information_defs =
  DownloadNodeLogs_Operation_def DownloadNodeLogs_Params_def DownloadNodeLogs_WriteToRequest_def DownloadNodeLogs_Reader_def
  GetLiveQueries_Operation_def GetLiveQueries_Params_def GetLiveQueries_WriteToRequest_def GetLiveQueries_Reader_def
  GetMasterLeaderIP_Operation_def GetMasterLeaderIP_Params_def GetMasterLeaderIP_WriteToRequest_def GetMasterLeaderIP_Reader_def
  GetSlowQueries_Operation_def GetSlowQueries_Params_def GetSlowQueries_WriteToRequest_def GetSlowQueries_Reader_def
  GetUniverseCost_Operation_def GetUniverseCost_Params_def GetUniverseCost_WriteToRequest_def GetUniverseCost_Reader_def
  GetUniverseCostForAll_Operation_def GetUniverseCostForAll_Params_def GetUniverseCostForAll_WriteToRequest_def GetUniverseCostForAll_Reader_def
  HealthCheckUniverse_Operation_def HealthCheckUniverse_Params_def HealthCheckUniverse_WriteToRequest_def HealthCheckUniverse_Reader_def
  ResetSlowQueries_Operation_def ResetSlowQueries_Params_def ResetSlowQueries_WriteToRequest_def ResetSlowQueries_Reader_def
  TriggerHealthCheck_Operation_def TriggerHealthCheck_Params_def TriggerHealthCheck_WriteToRequest_def TriggerHealthCheck_Reader_def
  UniverseStatus_Operation_def UniverseStatus_Params_def UniverseStatus_WriteToRequest_def UniverseStatus_Reader_def

lemma universe_information_ok: "list_all operation_ok universe_information_operations"
  by code_simp

subsection \<open>universe_actions\<close>

definition ImportUniverse_Params :: "'m param_struct" where
  "ImportUniverse_Params =
     \<lparr>struct_fields = [(''CUUID'', UUIDType)],
      struct_defaults = []\<rparr>"

definition ImportUniverse_WriteToRequest :: "write_stmt list" where
  "ImportUniverse_WriteToRequest =
     [PathParam ''cUUID'' ''CUUID'']"

definition ImportUniverse_Reader :: "response_case list" where
  "ImportUniverse_Reader =
     [\<lparr>status_code = 200, response_type = ''universe_actions.ImportUniverseOK'',
       payload_type = Pointer (Model ''ImportUniverseFormData''), is_success = True,
       error_label = ''[POST /api/v1/customers/{cUUID}/universes/import][200] importUniverseOK''\<rparr>]"

definition ImportUniverse_Operation :: "'m operation" where
  "ImportUniverse_Operation =
     \<lparr>op_id = ''importUniverse'', op_method = ''POST'',
      path_pattern = ''/api/v1/customers/{cUUID}/universes/import'',
      produces = [''application/json''], consumes = [''application/json''], schemes = [''http'', ''https''],
      with_auth = True, param_struct_of = ImportUniverse_Params,
      writes = ImportUniverse_WriteToRequest, reader = ImportUniverse_Reader,
      result_type = ''universe_actions.ImportUniverseOK''\<rparr>"

definition universe_actions_operations :: "'m operation list" where
  "universe_actions_operations =
     [ImportUniverse_Operation]"

lemmas universe_actions_defs =
  ImportUniverse_Operation_def ImportUniverse_Params_def ImportUniverse_WriteToRequest_def ImportUniverse_Reader_def

lemma universe_actions_ok: "list_all operation_ok universe_actions_operations"
  by code_simp

subsection \<open>universe_cluster_mutations\<close>

definition CreateAllClusters_Params :: "'m param_struct" where
  "CreateAllClusters_Params =
     \<lparr>struct_fields = [(''UniverseConfigureTaskParams'', Pointer (Model ''UniverseConfigureTaskParams'')),
                       (''CUUID'', UUIDType)],
      struct_defaults = []\<rparr>"

definition CreateAllClusters_WriteToRequest :: "write_stmt list" where
  "CreateAllClusters_WriteToRequest =
     [BodyParam ''UniverseConfigureTaskParams'', PathParam ''cUUID'' ''CUUID'']"

definition CreateAllClusters_Reader :: "response_case list" where
  "CreateAllClusters_Reader =
     [\<lparr>status_code = 200, response_type = ''universe_cluster_mutations.CreateAllClustersOK'',
       payload_type = Pointer (Model ''YBPTask''), is_success = True,
       error_label = ''[POST /api/v1/customers/{cUUID}/universes/clusters][200] createAllClustersOK''\<rparr>]"

definition CreateAllClusters_Operation :: "'m operation" where
  "CreateAllClusters_Operation =
     \<lparr>op_id = ''createAllClusters'', op_method = ''POST'',
      path_pattern = ''/api/v1/customers/{cUUID}/universes/clusters'',
      produces = [''application/json''], consumes = [''application/json''], schemes = [''http'', ''https''],
      with_auth = True, param_struct_of = CreateAllClusters_Params,
      writes = CreateAllClusters_WriteToRequest, reader = CreateAllClusters_Reader,
      result_type = ''universe_cluster_mutations.CreateAllClustersOK''\<rparr>"

definition CreateReadOnlyCluster_Params :: "'m param_struct" where
  "CreateReadOnlyCluster_Params =
     \<lparr>struct_fields = [(''UniverseConfigureTaskParams'', Pointer (Model ''UniverseDefinitionTaskParams'')),
                       (''CUUID'', UUIDType), (''UniUUID'', UUIDType)],
      struct_defaults = []\<rparr>"

definition CreateReadOnlyCluster_WriteToRequest :: "write_stmt list" where
  "CreateReadOnlyCluster_WriteToRequest =
     [BodyParam ''UniverseConfigureTaskParams'', PathParam ''cUUID'' ''CUUID'', PathParam ''uniUUID'' ''UniUUID'']"

definition CreateReadOnlyCluster_Reader :: "response_case list" where
  "CreateReadOnlyCluster_Reader =
     [\<lparr>status_code = 200, response_type = ''universe_cluster_mutations.CreateReadOnlyClusterOK'',
       payload_type = Pointer (Model ''YBPTask''), is_success = True,
       error_label = ''[POST /api/v1/customers/{cUUID}/universes/{uniUUID}/clusters/read_only][200] createReadOnlyClusterOK''\<rparr>]"

definition CreateReadOnlyCluster_Operation :: "'m operation" where
  "CreateReadOnlyCluster_Operation =
     \<lparr>op_id = ''createReadOnlyCluster'', op_method = ''POST'',
      path_pattern = ''/api/v1/customers/{cUUID}/universes/{uniUUID}/clusters/read_only'',
      produces = [''application/json''], consumes = [''application/json''], schemes = [''http'', ''https''],
      with_auth = True, param_struct_of = CreateReadOnlyCluster_Params,
      writes = CreateReadOnlyCluster_WriteToRequest, reader = CreateReadOnlyCluster_Reader,
      result_type = ''universe_cluster_mutations.CreateReadOnlyClusterOK''\<rparr>"

definition DeleteReadonlyCluster_Params :: "'m param_struct" where
  "DeleteReadonlyCluster_Params =
     \<lparr>struct_fields = [(''CUUID'', UUIDType), (''ClustUUID'', UUIDType),
                       (''IsForceDelete'', Pointer BoolType), (''UniUUID'', UUIDType)],
      struct_defaults = [(''IsForceDelete'', Address (Truth False))]\<rparr>"

definition DeleteReadonlyCluster_WriteToRequest :: "write_stmt list" where
  "DeleteReadonlyCluster_WriteToRequest =
     [PathParam ''cUUID'' ''CUUID'', PathParam ''clustUUID'' ''ClustUUID'',
      QueryParam ''isForceDelete'' ''IsForceDelete'', PathParam ''uniUUID'' ''UniUUID'']"

definition DeleteReadonlyCluster_Reader :: "response_case list" where
  "DeleteReadonlyCluster_Reader =
     [\<lparr>status_code = 200, response_type = ''universe_cluster_mutations.DeleteReadonlyClusterOK'',
       payload_type = Pointer (Model ''YBPTask''), is_success = True,
       error_label = ''[DELETE /api/v1/customers/{cUUID}/universes/{uniUUID}/clusters/read_only/{clustUUID}][200] deleteReadonlyClusterOK''\<rparr>]"

definition DeleteReadonlyCluster_Operation :: "'m operation" where
  "DeleteReadonlyCluster_Operation =
     \<lparr>op_id = ''deleteReadonlyCluster'', op_method = ''DELETE'',
      path_pattern = ''/api/v1/customers/{cUUID}/universes/{uniUUID}/clusters/read_only/{clustUUID}'',
      produces = [''application/json''], consumes = [''application/json''], schemes = [''http'', ''https''],
      with_auth = True, param_struct_of = DeleteReadonlyCluster_Params,
      writes = DeleteReadonlyCluster_WriteToRequest, reader = DeleteReadonlyCluster_Reader,
      result_type = ''universe_cluster_mutations.DeleteReadonlyClusterOK''\<rparr>"

definition UpdatePrimaryCluster_Params :: "'m param_struct" where
  "UpdatePrimaryCluster_Params =
     \<lparr>struct_fields = [(''UniverseConfigureTaskParams'', Pointer (Model ''UniverseConfigureTaskParams'')),
                       (''CUUID'', UUIDType), (''UniUUID'', UUIDType)],
      struct_defaults = []\<rparr>"

definition UpdatePrimaryCluster_WriteToRequest :: "write_stmt list" where
  "UpdatePrimaryCluster_WriteToRequest =
     [BodyParam ''UniverseConfigureTaskParams'', PathParam ''cUUID'' ''CUUID'', PathParam ''uniUUID'' ''UniUUID'']"

definition UpdatePrimaryCluster_Reader :: "response_case list" where
  "UpdatePrimaryCluster_Reader =
     [\<lparr>status_code = 200, response_type = ''universe_cluster_mutations.UpdatePrimaryClusterOK'',
       payload_type = Pointer (Model ''YBPTask''), is_success = True,
       error_label = ''[PUT /api/v1/customers/{cUUID}/universes/{uniUUID}/clusters/primary][200] updatePrimaryClusterOK''\<rparr>]"

definition UpdatePrimaryCluster_Operation :: "'m operation" where
  "UpdatePrimaryCluster_Operation =
     \<lparr>op_id = ''updatePrimaryCluster'', op_method = ''PUT'',
      path_pattern = ''/api/v1/customers/{cUUID}/universes/{uniUUID}/clusters/primary'',
      produces = [''application/json''], consumes = [''application/json''], schemes = [''http'', ''https''],
      with_auth = True, param_struct_of = UpdatePrimaryCluster_Params,
      writes = UpdatePrimaryCluster_WriteToRequest, reader = UpdatePrimaryCluster_Reader,
      result_type = ''universe_cluster_mutations.UpdatePrimaryClusterOK''\<rparr>"

definition UpdateReadOnlyCluster_Params :: "'m param_struct" where
  "UpdateReadOnlyCluster_Params =
     \<lparr>struct_fields = [(''UniverseConfigureTaskParams'', Pointer (Model ''UniverseConfigureTaskParams'')),
                       (''CUUID'', UUIDType), (''UniUUID'', UUIDType)],
      struct_defaults = []\<rparr>"

definition UpdateReadOnlyCluster_WriteToRequest :: "write_stmt list" where
  "UpdateReadOnlyCluster_WriteToRequest =
     [BodyParam ''UniverseConfigureTaskParams'', PathParam ''cUUID'' ''CUUID'', PathParam ''uniUUID'' ''UniUUID'']"

definition UpdateReadOnlyCluster_Reader :: "response_case list" where
  "UpdateReadOnlyCluster_Reader =
     [\<lparr>status_code = 200, response_type = ''universe_cluster_mutations.UpdateReadOnlyClusterOK'',
       payload_type = Pointer (Model ''YBPTask''), is_success = True,
       error_label = ''[PUT /api/v1/customers/{cUUID}/universes/{uniUUID}/clusters/read_only][200] updateReadOnlyClusterOK''\<rparr>]"

definition UpdateReadOnlyCluster_Operation :: "'m operation" where
  "UpdateReadOnlyCluster_Operation =
     \<lparr>op_id = ''updateReadOnlyCluster'', op_method = ''PUT'',
      path_pattern = ''/api/v1/customers/{cUUID}/universes/{uniUUID}/clusters/read_only'',
      produces = [''application/json''], consumes = [''application/json''], schemes = [''http'', ''https''],
      with_auth = True, param_struct_of = UpdateReadOnlyCluster_Params,
      writes = UpdateReadOnlyCluster_WriteToRequest, reader = UpdateReadOnlyCluster_Reader,
      result_type = ''universe_cluster_mutations.UpdateReadOnlyClusterOK''\<rparr>"

definition universe_cluster_mutations_operations :: "'m operation list" where
  "universe_cluster_mutations_operations =
     [CreateAllClusters_Operation, CreateReadOnlyCluster_Operation, DeleteReadonlyCluster_Operation,
      UpdatePrimaryCluster_Operation, UpdateReadOnlyCluster_Operation]"

lemmas universe_cluster_mutations_defs =
  CreateAllClusters_Operation_def CreateAllClusters_Params_def CreateAllClusters_WriteToRequest_def CreateAllClusters_Reader_def
  CreateReadOnlyCluster_Operation_def CreateReadOnlyCluster_Params_def CreateReadOnlyCluster_WriteToRequest_def CreateReadOnlyCluster_Reader_def
  DeleteReadonlyCluster_Operation_def DeleteReadonlyCluster_Params_def DeleteReadonlyCluster_WriteToRequest_def DeleteReadonlyCluster_Reader_def
  UpdatePrimaryCluster_Operation_def UpdatePrimaryCluster_Params_def UpdatePrimaryCluster_WriteToRequest_def UpdatePrimaryCluster_Reader_def
  UpdateReadOnlyCluster_Operation_def UpdateReadOnlyCluster_Params_def UpdateReadOnlyCluster_WriteToRequest_def UpdateReadOnlyCluster_Reader_def

lemma universe_cluster_mutations_ok: "list_all operation_ok universe_cluster_mutations_operations"
  by code_simp

subsection \<open>universe_database_management\<close>

definition CreateUserInDB_Params :: "'m param_struct" where
  "CreateUserInDB_Params =
     \<lparr>struct_fields = [(''CUUID'', UUIDType), (''UniUUID'', UUIDType)],
      struct_defaults = []\<rparr>"

definition CreateUserInDB_WriteToRequest :: "write_stmt list" where
  "CreateUserInDB_WriteToRequest =
     [PathParam ''cUUID'' ''CUUID'', PathParam ''uniUUID'' ''UniUUID'']"

definition CreateUserInDB_Reader :: "response_case list" where
  "CreateUserInDB_Reader =
     [\<lparr>status_code = 200, response_type = ''universe_database_management.CreateUserInDBOK'',
       payload_type = Pointer (Model ''YBPSuccess''), is_success = True,
       error_label = ''[POST /api/v1/customers/{cUUID}/universes/{uniUUID}/create_db_credentials][200] createUserInDBOK''\<rparr>]"

definition CreateUserInDB_Operation :: "'m operation" where
  "CreateUserInDB_Operation =
     \<lparr>op_id = ''createUserInDB'', op_method = ''POST'',
      path_pattern = ''/api/v1/customers/{cUUID}/universes/{uniUUID}/create_db_credentials'',
      produces = [''application/json''], consumes = [''application/json''], schemes = [''http'', ''https''],
      with_auth = True, param_struct_of = CreateUserInDB_Params,
      writes = CreateUserInDB_WriteToRequest, reader = CreateUserInDB_Reader,
      result_type = ''universe_database_management.CreateUserInDBOK''\<rparr>"

definition RunInShell_Params :: "'m param_struct" where
  "RunInShell_Params =
     \<lparr>struct_fields = [(''CUUID'', UUIDType), (''UniUUID'', UUIDType)],
      struct_defaults = []\<rparr>"

definition RunInShell_WriteToRequest :: "write_stmt list" where
  "RunInShell_WriteToRequest =
     [PathParam ''cUUID'' ''CUUID'', PathParam ''uniUUID'' ''UniUUID'']"

definition RunInShell_Reader :: "response_case list" where
  "RunInShell_Reader =
     [\<lparr>status_code = 200, response_type = ''universe_database_management.RunInShellOK'',
       payload_type = Pointer (Model ''YBPError''), is_success = True,
       error_label = ''[POST /api/v1/customers/{cUUID}/universes/{uniUUID}/run_in_shell][200] runInShellOK''\<rparr>]"

definition RunInShell_Operation :: "'m operation" where
  "RunInShell_Operation =
     \<lparr>op_id = ''runInShell'', op_method = ''POST'',
      path_pattern = ''/api/v1/customers/{cUUID}/universes/{uniUUID}/run_in_shell'',
      produces = [''application/json''], consumes = [''application/json''], schemes = [''http'', ''https''],
      with_auth = True, param_struct_of = RunInShell_Params,
      writes = RunInShell_WriteToRequest, reader = RunInShell_Reader,
      result_type = ''universe_database_management.RunInShellOK''\<rparr>"

definition RunYsqlQueryUniverse_Params :: "'m param_struct" where
  "RunYsqlQueryUniverse_Params =
     \<lparr>struct_fields = [(''RunQueryFormData'', Pointer (Model ''RunQueryFormData'')), (''CUUID'', UUIDType),
                       (''UniUUID'', UUIDType)],
      struct_defaults = []\<rparr>"

definition RunYsqlQueryUniverse_WriteToRequest :: "write_stmt list" where
  "RunYsqlQueryUniverse_WriteToRequest =
     [BodyParam ''RunQueryFormData'', PathParam ''cUUID'' ''CUUID'', PathParam ''uniUUID'' ''UniUUID'']"

definition RunYsqlQueryUniverse_Reader :: "response_case list" where
  "RunYsqlQueryUniverse_Reader =
     [\<lparr>status_code = 200, response_type = ''universe_database_management.RunYsqlQueryUniverseOK'',
       payload_type = AnyType, is_success = True,
       error_label = ''[POST /api/v1/customers/{cUUID}/universes/{uniUUID}/run_query][200] runYsqlQueryUniverseOK''\<rparr>]"

definition RunYsqlQueryUniverse_Operation :: "'m operation" where
  "RunYsqlQueryUniverse_Operation =
     \<lparr>op_id = ''runYsqlQueryUniverse'', op_method = ''POST'',
      path_pattern = ''/api/v1/customers/{cUUID}/universes/{uniUUID}/run_query'',
      produces = [''application/json''], consumes = [''application/json''], schemes = [''http'', ''https''],
      with_auth = True, param_struct_of = RunYsqlQueryUniverse_Params,
      writes = RunYsqlQueryUniverse_WriteToRequest, reader = RunYsqlQueryUniverse_Reader,
      result_type = ''universe_database_management.RunYsqlQueryUniverseOK''\<rparr>"

definition SetDatabaseCredentials_Params :: "'m param_struct" where
  "SetDatabaseCredentials_Params =
     \<lparr>struct_fields = [(''CUUID'', UUIDType), (''UniUUID'', UUIDType)],
      struct_defaults = []\<rparr>"

definition SetDatabaseCredentials_WriteToRequest :: "write_stmt list" where
  "SetDatabaseCredentials_WriteToRequest =
     [PathParam ''cUUID'' ''CUUID'', PathParam ''uniUUID'' ''UniUUID'']"

definition SetDatabaseCredentials_Reader :: "response_case list" where
  "SetDatabaseCredentials_Reader =
     [\<lparr>status_code = 200, response_type = ''universe_database_management.SetDatabaseCredentialsOK'',
       payload_type = Pointer (Model ''YBPSuccess''), is_success = True,
       error_label = ''[POST /api/v1/customers/{cUUID}/universes/{uniUUID}/update_db_credentials][200] setDatabaseCredentialsOK''\<rparr>]"

definition SetDatabaseCredentials_Operation :: "'m operation" where
  "SetDatabaseCredentials_Operation =
     \<lparr>op_id = ''setDatabaseCredentials'', op_method = ''POST'',
      path_pattern = ''/api/v1/customers/{cUUID}/universes/{uniUUID}/update_db_credentials'',
      produces = [''application/json''], consumes = [''application/json''], schemes = [''http'', ''https''],
      with_auth = True, param_struct_of = SetDatabaseCredentials_Params,
      writes = SetDatabaseCredentials_WriteToRequest, reader = SetDatabaseCredentials_Reader,
      result_type = ''universe_database_management.SetDatabaseCredentialsOK''\<rparr>"

definition universe_database_management_operations :: "'m operation list" where
  "universe_database_management_operations =
     [CreateUserInDB_Operation, RunInShell_Operation, RunYsqlQueryUniverse_Operation,
      SetDatabaseCredentials_Operation]"

lemmas universe_database_management_defs =
  CreateUserInDB_Operation_def CreateUserInDB_Params_def CreateUserInDB_WriteToRequest_def CreateUserInDB_Reader_def
  RunInShell_Operation_def RunInShell_Params_def RunInShell_WriteToRequest_def RunInShell_Reader_def
  RunYsqlQueryUniverse_Operation_def RunYsqlQueryUniverse_Params_def RunYsqlQueryUniverse_WriteToRequest_def RunYsqlQueryUniverse_Reader_def
  SetDatabaseCredentials_Operation_def SetDatabaseCredentials_Params_def SetDatabaseCredentials_WriteToRequest_def SetDatabaseCredentials_Reader_def

lemma universe_database_management_ok: "list_all operation_ok universe_database_management_operations"
  by code_simp

subsection \<open>universe_node_metadata_metamaster\<close>

definition GetMasterAddresses_Params :: "'m param_struct" where
  "GetMasterAddresses_Params =
     \<lparr>struct_fields = [(''Dummy'', Pointer (Model ''DummyBody'')), (''CUUID'', UUIDType),
                       (''UniUUID'', UUIDType)],
      struct_defaults = []\<rparr>"

definition GetMasterAddresses_WriteToRequest :: "write_stmt list" where
  "GetMasterAddresses_WriteToRequest =
     [BodyParam ''Dummy'', PathParam ''cUUID'' ''CUUID'', PathParam ''uniUUID'' ''UniUUID'']"

definition GetMasterAddresses_Reader :: "response_case list" where
  "GetMasterAddresses_Reader =
     [\<lparr>status_code = 200, response_type = ''universe_node_metadata_metamaster.GetMasterAddressesOK'',
       payload_type = StringType, is_success = True,
       error_label = ''[GET /api/v1/customers/{cUUID}/universes/{uniUUID}/masters][200] getMasterAddressesOK''\<rparr>]"

definition GetMasterAddresses_Operation :: "'m operation" where
  "GetMasterAddresses_Operation =
     \<lparr>op_id = ''getMasterAddresses'', op_method = ''GET'',
      path_pattern = ''/api/v1/customers/{cUUID}/universes/{uniUUID}/masters'',
      produces = [''application/json''], consumes = [''application/json''], schemes = [''http'', ''https''],
      with_auth = True, param_struct_of = GetMasterAddresses_Params,
      writes = GetMasterAddresses_WriteToRequest, reader = GetMasterAddresses_Reader,
      result_type = ''universe_node_metadata_metamaster.GetMasterAddressesOK''\<rparr>"

definition GetRedisServerAddresses_Params :: "'m param_struct" where
  "GetRedisServerAddresses_Params =
     \<lparr>struct_fields = [(''CUUID'', UUIDType), (''UniUUID'', UUIDType)],
      struct_defaults = []\<rparr>"

definition GetRedisServerAddresses_WriteToRequest :: "write_stmt list" where
  "GetRedisServerAddresses_WriteToRequest =
     [PathParam ''cUUID'' ''CUUID'', PathParam ''uniUUID'' ''UniUUID'']"

definition GetRedisServerAddresses_Reader :: "response_case list" where
  "GetRedisServerAddresses_Reader =
     [\<lparr>status_code = 200, response_type = ''universe_node_metadata_metamaster.GetRedisServerAddressesOK'',
       payload_type = StringType, is_success = True,
       error_label = ''[GET /api/v1/customers/{cUUID}/universes/{uniUUID}/redisservers][200] getRedisServerAddressesOK''\<rparr>]"

definition GetRedisServerAddresses_Operation :: "'m operation" where
  "GetRedisServerAddresses_Operation =
     \<lparr>op_id = ''getRedisServerAddresses'', op_method = ''GET'',
      path_pattern = ''/api/v1/customers/{cUUID}/universes/{uniUUID}/redisservers'',
      produces = [''application/json''], consumes = [''application/json''], schemes = [''http'', ''https''],
      with_auth = True, param_struct_of = GetRedisServerAddresses_Params,
      writes = GetRedisServerAddresses_WriteToRequest, reader = GetRedisServerAddresses_Reader,
      result_type = ''universe_node_metadata_metamaster.GetRedisServerAddressesOK''\<rparr>"

definition GetUniverseMasterNodes_Params :: "'m param_struct" where
  "GetUniverseMasterNodes_Params =
     \<lparr>struct_fields = [(''UniverseUUID'', UUIDType)],
      struct_defaults = []\<rparr>"

definition GetUniverseMasterNodes_WriteToRequest :: "write_stmt list" where
  "GetUniverseMasterNodes_WriteToRequest =
     [PathParam ''universeUUID'' ''UniverseUUID'']"

definition GetUniverseMasterNodes_Reader :: "response_case list" where
  "GetUniverseMasterNodes_Reader =
     [\<lparr>status_code = 200, response_type = ''universe_node_metadata_metamaster.GetUniverseMasterNodesOK'',
       payload_type = Pointer (Model ''MastersList''), is_success = True,
       error_label = ''[GET /metamaster/universe/{universeUUID}][200] getUniverseMasterNodesOK''\<rparr>]"

definition GetUniverseMasterNodes_Operation :: "'m operation" where
  "GetUniverseMasterNodes_Operation =
     \<lparr>op_id = ''getUniverseMasterNodes'', op_method = ''GET'',
      path_pattern = ''/metamaster/universe/{universeUUID}'',
      produces = [''application/json''], consumes = [''application/json''], schemes = [''http'', ''https''],
      with_auth = True, param_struct_of = GetUniverseMasterNodes_Params,
      writes = GetUniverseMasterNodes_WriteToRequest, reader = GetUniverseMasterNodes_Reader,
      result_type = ''universe_node_metadata_metamaster.GetUniverseMasterNodesOK''\<rparr>"

definition GetYQLServerAddresses_Params :: "'m param_struct" where
  "GetYQLServerAddresses_Params =
     \<lparr>struct_fields = [(''CUUID'', UUIDType), (''UniUUID'', UUIDType)],
      struct_defaults = []\<rparr>"

definition GetYQLServerAddresses_WriteToRequest :: "write_stmt list" where
  "GetYQLServerAddresses_WriteToRequest =
     [PathParam ''cUUID'' ''CUUID'', PathParam ''uniUUID'' ''UniUUID'']"

definition GetYQLServerAddresses_Reader :: "response_case list" where
  "GetYQLServerAddresses_Reader =
     [\<lparr>status_code = 200, response_type = ''universe_node_metadata_metamaster.GetYQLServerAddressesOK'',
       payload_type = StringType, is_success = True,
       error_label = ''[GET /api/v1/customers/{cUUID}/universes/{uniUUID}/yqlservers][200] getYQLServerAddressesOK''\<rparr>]"

definition GetYQLServerAddresses_Operation :: "'m operation" where
  "GetYQLServerAddresses_Operation =
     \<lparr>op_id = ''getYQLServerAddresses'', op_method = ''GET'',
      path_pattern = ''/api/v1/customers/{cUUID}/universes/{uniUUID}/yqlservers'',
      produces = [''application/json''], consumes = [''application/json''], schemes = [''http'', ''https''],
      with_auth = True, param_struct_of = GetYQLServerAddresses_Params,
      writes = GetYQLServerAddresses_WriteToRequest, reader = GetYQLServerAddresses_Reader,
      result_type = ''universe_node_metadata_metamaster.GetYQLServerAddressesOK''\<rparr>"

definition GetYSQLServerAddresses_Params :: "'m param_struct" where
  "GetYSQLServerAddresses_Params =
     \<lparr>struct_fields = [(''CUUID'', UUIDType), (''UniUUID'', UUIDType)],
      struct_defaults = []\<rparr>"

definition GetYSQLServerAddresses_WriteToRequest :: "write_stmt list" where
  "GetYSQLServerAddresses_WriteToRequest =
     [PathParam ''cUUID'' ''CUUID'', PathParam ''uniUUID'' ''UniUUID'']"

definition GetYSQLServerAddresses_Reader :: "response_case list" where
  "GetYSQLServerAddresses_Reader =
     [\<lparr>status_code = 200, response_type = ''universe_node_metadata_metamaster.GetYSQLServerAddressesOK'',
       payload_type = StringType, is_success = True,
       error_label = ''[GET /api/v1/customers/{cUUID}/universes/{uniUUID}/ysqlservers][200] getYSqlServerAddressesOK''\<rparr>]"

definition GetYSQLServerAddresses_Operation :: "'m operation" where
  "GetYSQLServerAddresses_Operation =
     \<lparr>op_id = ''getYSQLServerAddresses'', op_method = ''GET'',
      path_pattern = ''/api/v1/customers/{cUUID}/universes/{uniUUID}/ysqlservers'',
      produces = [''application/json''], consumes = [''application/json''], schemes = [''http'', ''https''],
      with_auth = True, param_struct_of = GetYSQLServerAddresses_Params,
      writes = GetYSQLServerAddresses_WriteToRequest, reader = GetYSQLServerAddresses_Reader,
      result_type = ''universe_node_metadata_metamaster.GetYSQLServerAddressesOK''\<rparr>"

definition universe_node_metadata_metamaster_operations :: "'m operation list" where
  "universe_node_metadata_metamaster_operations =
     [GetMasterAddresses_Operation, GetRedisServerAddresses_Operation, GetUniverseMasterNodes_Operation,
      GetYQLServerAddresses_Operation, GetYSQLServerAddresses_Operation]"

lemmas universe_node_metadata_metamaster_defs =
  GetMasterAddresses_Operation_def GetMasterAddresses_Params_def GetMasterAddresses_WriteToRequest_def GetMasterAddresses_Reader_def
  GetRedisServerAddresses_Operation_def GetRedisServerAddresses_Params_def GetRedisServerAddresses_WriteToRequest_def GetRedisServerAddresses_Reader_def
  GetUniverseMasterNodes_Operation_def GetUniverseMasterNodes_Params_def GetUniverseMasterNodes_WriteToRequest_def GetUniverseMasterNodes_Reader_def
  GetYQLServerAddresses_Operation_def GetYQLServerAddresses_Params_def GetYQLServerAddresses_WriteToRequest_def GetYQLServerAddresses_Reader_def
  GetYSQLServerAddresses_Operation_def GetYSQLServerAddresses_Params_def GetYSQLServerAddresses_WriteToRequest_def GetYSQLServerAddresses_Reader_def

lemma universe_node_metadata_metamaster_ok: "list_all operation_ok universe_node_metadata_metamaster_operations"
  by code_simp

subsection \<open>universe_upgrades_management\<close>

definition ResizeNode_Params :: "'m param_struct" where
  "ResizeNode_Params =
     \<lparr>struct_fields = [(''CUUID'', UUIDType), (''ResizeNodeParams'', Pointer (Model ''ResizeNodeParams'')),
                       (''UniUUID'', UUIDType)],
      struct_defaults = []\<rparr>"

definition ResizeNode_WriteToRequest :: "write_stmt list" where
  "ResizeNode_WriteToRequest =
     [PathParam ''cUUID'' ''CUUID'', BodyParam ''ResizeNodeParams'', PathParam ''uniUUID'' ''UniUUID'']"

definition ResizeNode_Reader :: "response_case list" where
  "ResizeNode_Reader =
     [\<lparr>status_code = 200, response_type = ''universe_upgrades_management.ResizeNodeOK'',
       payload_type = Pointer (Model ''YBPTask''), is_success = True,
       error_label = ''[POST /api/v1/customers/{cUUID}/universes/{uniUUID}/upgrade/resize_node][200] resizeNodeOK''\<rparr>]"

definition ResizeNode_Operation :: "'m operation" where
  "ResizeNode_Operation =
     \<lparr>op_id = ''resizeNode'', op_method = ''POST'',
      path_pattern = ''/api/v1/customers/{cUUID}/universes/{uniUUID}/upgrade/resize_node'',
      produces = [''application/json''], consumes = [''application/json''], schemes = [''http'', ''https''],
      with_auth = True, param_struct_of = ResizeNode_Params,
      writes = ResizeNode_WriteToRequest, reader = ResizeNode_Reader,
      result_type = ''universe_upgrades_management.ResizeNodeOK''\<rparr>"

definition RestartUniverse_Params :: "'m param_struct" where
  "RestartUniverse_Params =
     \<lparr>struct_fields = [(''CUUID'', UUIDType), (''UniUUID'', UUIDType),
                       (''UpgradeTaskParams'', Pointer (Model ''UpgradeTaskParams''))],
      struct_defaults = []\<rparr>"

definition RestartUniverse_WriteToRequest :: "write_stmt list" where
  "RestartUniverse_WriteToRequest =
     [PathParam ''cUUID'' ''CUUID'', PathParam ''uniUUID'' ''UniUUID'', BodyParam ''UpgradeTaskParams'']"

definition RestartUniverse_Reader :: "response_case list" where
  "RestartUniverse_Reader =
     [\<lparr>status_code = 200, response_type = ''universe_upgrades_management.RestartUniverseOK'',
       payload_type = Pointer (Model ''YBPTask''), is_success = True,
       error_label = ''[POST /api/v1/customers/{cUUID}/universes/{uniUUID}/upgrade/restart][200] restartUniverseOK''\<rparr>]"

definition RestartUniverse_Operation :: "'m operation" where
  "RestartUniverse_Operation =
     \<lparr>op_id = ''restartUniverse'', op_method = ''POST'',
      path_pattern = ''/api/v1/customers/{cUUID}/universes/{uniUUID}/upgrade/restart'',
      produces = [''application/json''], consumes = [''application/json''], schemes = [''http'', ''https''],
      with_auth = True, param_struct_of = RestartUniverse_Params,
      writes = RestartUniverse_WriteToRequest, reader = RestartUniverse_Reader,
      result_type = ''universe_upgrades_management.RestartUniverseOK''\<rparr>"

definition UpgradeCerts_Params :: "'m param_struct" where
  "UpgradeCerts_Params =
     \<lparr>struct_fields = [(''CUUID'', UUIDType), (''CertsRotateParams'', Pointer (Model ''CertsRotateParams'')),
                       (''UniUUID'', UUIDType)],
      struct_defaults = []\<rparr>"

definition UpgradeCerts_WriteToRequest :: "write_stmt list" where
  "UpgradeCerts_WriteToRequest =
     [PathParam ''cUUID'' ''CUUID'', BodyParam ''CertsRotateParams'', PathParam ''uniUUID'' ''UniUUID'']"

definition UpgradeCerts_Reader :: "response_case list" where
  "UpgradeCerts_Reader =
     [\<lparr>status_code = 200, response_type = ''universe_upgrades_management.UpgradeCertsOK'',
       payload_type = Pointer (Model ''YBPTask''), is_success = True,
       error_label = ''[POST /api/v1/customers/{cUUID}/universes/{uniUUID}/upgrade/certs][200] upgradeCertsOK''\<rparr>]"

definition UpgradeCerts_Operation :: "'m operation" where
  "UpgradeCerts_Operation =
     \<lparr>op_id = ''upgradeCerts'', op_method = ''POST'',
      path_pattern = ''/api/v1/customers/{cUUID}/universes/{uniUUID}/upgrade/certs'',
      produces = [''application/json''], consumes = [''application/json''], schemes = [''http'', ''https''],
      with_auth = True, param_struct_of = UpgradeCerts_Params,
      writes = UpgradeCerts_WriteToRequest, reader = UpgradeCerts_Reader,
      result_type = ''universe_upgrades_management.UpgradeCertsOK''\<rparr>"

definition UpgradeGFlags_Params :: "'m param_struct" where
  "UpgradeGFlags_Params =
     \<lparr>struct_fields = [(''CUUID'', UUIDType),
                       (''GflagsUpgradeParams'', Pointer (Model ''GFlagsUpgradeParams'')), (''UniUUID'', UUIDType)],
      struct_defaults = []\<rparr>"

definition UpgradeGFlags_WriteToRequest :: "write_stmt list" where
  "UpgradeGFlags_WriteToRequest =
     [PathParam ''cUUID'' ''CUUID'', BodyParam ''GflagsUpgradeParams'', PathParam ''uniUUID'' ''UniUUID'']"

definition UpgradeGFlags_Reader :: "response_case list" where
  "UpgradeGFlags_Reader =
     [\<lparr>status_code = 200, response_type = ''universe_upgrades_management.UpgradeGFlagsOK'',
       payload_type = Pointer (Model ''YBPTask''), is_success = True,
       error_label = ''[POST /api/v1/customers/{cUUID}/universes/{uniUUID}/upgrade/gflags][200] upgradeGFlagsOK''\<rparr>]"

definition UpgradeGFlags_Operation :: "'m operation" where
  "UpgradeGFlags_Operation =
     \<lparr>op_id = ''upgradeGFlags'', op_method = ''POST'',
      path_pattern = ''/api/v1/customers/{cUUID}/universes/{uniUUID}/upgrade/gflags'',
      produces = [''application/json''], consumes = [''application/json''], schemes = [''http'', ''https''],
      with_auth = True, param_struct_of = UpgradeGFlags_Params,
      writes = UpgradeGFlags_WriteToRequest, reader = UpgradeGFlags_Reader,
      result_type = ''universe_upgrades_management.UpgradeGFlagsOK''\<rparr>"

definition UpgradeSoftware_Params :: "'m param_struct" where
  "UpgradeSoftware_Params =
     \<lparr>struct_fields = [(''CUUID'', UUIDType),
                       (''SoftwareUpgradeParams'', Pointer (Model ''SoftwareUpgradeParams'')),
                       (''UniUUID'', UUIDType)],
      struct_defaults = []\<rparr>"

definition UpgradeSoftware_WriteToRequest :: "write_stmt list" where
  "UpgradeSoftware_WriteToRequest =
     [PathParam ''cUUID'' ''CUUID'', BodyParam ''SoftwareUpgradeParams'', PathParam ''uniUUID'' ''UniUUID'']"

definition UpgradeSoftware_Reader :: "response_case list" where
  "UpgradeSoftware_Reader =
     [\<lparr>status_code = 200, response_type = ''universe_upgrades_management.UpgradeSoftwareOK'',
       payload_type = Pointer (Model ''YBPTask''), is_success = True,
       error_label = ''[POST /api/v1/customers/{cUUID}/universes/{uniUUID}/upgrade/software][200] upgradeSoftwareOK''\<rparr>]"

definition UpgradeSoftware_Operation :: "'m operation" where
  "UpgradeSoftware_Operation =
     \<lparr>op_id = ''upgradeSoftware'', op_method = ''POST'',
      path_pattern = ''/api/v1/customers/{cUUID}/universes/{uniUUID}/upgrade/software'',
      produces = [''application/json''], consumes = [''application/json''], schemes = [''http'', ''https''],
      with_auth = True, param_struct_of = UpgradeSoftware_Params,
      writes = UpgradeSoftware_WriteToRequest, reader = UpgradeSoftware_Reader,
      result_type = ''universe_upgrades_management.UpgradeSoftwareOK''\<rparr>"

definition UpgradeSystemd_Params :: "'m param_struct" where
  "UpgradeSystemd_Params =
     \<lparr>struct_fields = [(''CUUID'', UUIDType),
                       (''SystemdUpgradeParams'', Pointer (Model ''SystemdUpgradeParams'')), (''UniUUID'', UUIDType)],
      struct_defaults = []\<rparr>"

definition UpgradeSystemd_WriteToRequest :: "write_stmt list" where
  "UpgradeSystemd_WriteToRequest =
     [PathParam ''cUUID'' ''CUUID'', BodyParam ''SystemdUpgradeParams'', PathParam ''uniUUID'' ''UniUUID'']"

definition UpgradeSystemd_Reader :: "response_case list" where
  "UpgradeSystemd_Reader =
     [\<lparr>status_code = 200, response_type = ''universe_upgrades_management.UpgradeSystemdOK'',
       payload_type = Pointer (Model ''YBPTask''), is_success = True,
       error_label = ''[POST /api/v1/customers/{cUUID}/universes/{uniUUID}/upgrade/systemd][200] upgradeSystemdOK''\<rparr>]"

definition UpgradeSystemd_Operation :: "'m operation" where
  "UpgradeSystemd_Operation =
     \<lparr>op_id = ''upgradeSystemd'', op_method = ''POST'',
      path_pattern = ''/api/v1/customers/{cUUID}/universes/{uniUUID}/upgrade/systemd'',
      produces = [''application/json''], consumes = [''application/json''], schemes = [''http'', ''https''],
      with_auth = True, param_struct_of = UpgradeSystemd_Params,
      writes = UpgradeSystemd_WriteToRequest, reader = UpgradeSystemd_Reader,
      result_type = ''universe_upgrades_management.UpgradeSystemdOK''\<rparr>"

definition UpgradeThirdpartySoftware_Params :: "'m param_struct" where
  "UpgradeThirdpartySoftware_Params =
     \<lparr>struct_fields = [(''CUUID'', UUIDType),
                       (''ThirdpartySoftwareUpgradeParams'', Pointer (Model ''ThirdpartySoftwareUpgradeParams'')),
                       (''UniUUID'', UUIDType)],
      struct_defaults = []\<rparr>"

definition UpgradeThirdpartySoftware_WriteToRequest :: "write_stmt list" where
  "UpgradeThirdpartySoftware_WriteToRequest =
     [PathParam ''cUUID'' ''CUUID'', BodyParam ''ThirdpartySoftwareUpgradeParams'', PathParam ''uniUUID'' ''UniUUID'']"

definition UpgradeThirdpartySoftware_Reader :: "response_case list" where
  "UpgradeThirdpartySoftware_Reader =
     [\<lparr>status_code = 200, response_type = ''universe_upgrades_management.UpgradeThirdpartySoftwareOK'',
       payload_type = Pointer (Model ''YBPTask''), is_success = True,
       error_label = ''[POST /api/v1/customers/{cUUID}/universes/{uniUUID}/upgrade/thirdparty_software][200] upgradeThirdpartySoftwareOK''\<rparr>]"

definition UpgradeThirdpartySoftware_Operation :: "'m operation" where
  "UpgradeThirdpartySoftware_Operation =
     \<lparr>op_id = ''upgradeThirdpartySoftware'', op_method = ''POST'',
      path_pattern = ''/api/v1/customers/{cUUID}/universes/{uniUUID}/upgrade/thirdparty_software'',
      produces = [''application/json''], consumes = [''application/json''], schemes = [''http'', ''https''],
      with_auth = True, param_struct_of = UpgradeThirdpartySoftware_Params,
      writes = UpgradeThirdpartySoftware_WriteToRequest, reader = UpgradeThirdpartySoftware_Reader,
      result_type = ''universe_upgrades_management.UpgradeThirdpartySoftwareOK''\<rparr>"

definition UpgradeTLS_Params :: "'m param_struct" where
  "UpgradeTLS_Params =
     \<lparr>struct_fields = [(''CUUID'', UUIDType), (''TLSToggleParams'', Pointer (Model ''TLSToggleParams'')),
                       (''UniUUID'', UUIDType)],
      struct_defaults = []\<rparr>"

definition UpgradeTLS_WriteToRequest :: "write_stmt list" where
  "UpgradeTLS_WriteToRequest =
     [PathParam ''cUUID'' ''CUUID'', BodyParam ''TLSToggleParams'', PathParam ''uniUUID'' ''UniUUID'']"

definition UpgradeTLS_Reader :: "response_case list" where
  "UpgradeTLS_Reader =
     [\<lparr>status_code = 200, response_type = ''universe_upgrades_management.UpgradeTLSOK'',
       payload_type = Pointer (Model ''YBPTask''), is_success = True,
       error_label = ''[POST /api/v1/customers/{cUUID}/universes/{uniUUID}/upgrade/tls][200] upgradeTlsOK''\<rparr>]"

definition UpgradeTLS_Operation :: "'m operation" where
  "UpgradeTLS_Operation =
     \<lparr>op_id = ''upgradeTls'', op_method = ''POST'',
      path_pattern = ''/api/v1/customers/{cUUID}/universes/{uniUUID}/upgrade/tls'',
      produces = [''application/json''], consumes = [''application/json''], schemes = [''http'', ''https''],
      with_auth = True, param_struct_of = UpgradeTLS_Params,
      writes = UpgradeTLS_WriteToRequest, reader = UpgradeTLS_Reader,
      result_type = ''universe_upgrades_management.UpgradeTLSOK''\<rparr>"

definition UpgradeVMImage_Params :: "'m param_struct" where
  "UpgradeVMImage_Params =
     \<lparr>struct_fields = [(''CUUID'', UUIDType), (''UniUUID'', UUIDType),
                       (''VmimageUpgradeParams'', Pointer (Model ''VMImageUpgradeParams''))],
      struct_defaults = []\<rparr>"

definition UpgradeVMImage_WriteToRequest :: "write_stmt list" where
  "UpgradeVMImage_WriteToRequest =
     [PathParam ''cUUID'' ''CUUID'', PathParam ''uniUUID'' ''UniUUID'', BodyParam ''VmimageUpgradeParams'']"

definition UpgradeVMImage_Reader :: "response_case list" where
  "UpgradeVMImage_Reader =
     [\<lparr>status_code = 200, response_type = ''universe_upgrades_management.UpgradeVMImageOK'',
       payload_type = Pointer (Model ''YBPTask''), is_success = True,
       error_label = ''[POST /api/v1/customers/{cUUID}/universes/{uniUUID}/upgrade/vm][200] upgradeVmImageOK''\<rparr>]"

definition UpgradeVMImage_Operation :: "'m operation" where
  "UpgradeVMImage_Operation =
     \<lparr>op_id = ''upgradeVMImage'', op_method = ''POST'',
      path_pattern = ''/api/v1/customers/{cUUID}/universes/{uniUUID}/upgrade/vm'',
      produces = [''application/json''], consumes = [''application/json''], schemes = [''http'', ''https''],
      with_auth = True, param_struct_of = UpgradeVMImage_Params,
      writes = UpgradeVMImage_WriteToRequest, reader = UpgradeVMImage_Reader,
      result_type = ''universe_upgrades_management.UpgradeVMImageOK''\<rparr>"

definition universe_upgrades_management_operations :: "'m operation list" where
  "universe_upgrades_management_operations =
     [ResizeNode_Operation, RestartUniverse_Operation, UpgradeCerts_Operation, UpgradeGFlags_Operation,
      UpgradeSoftware_Operation, UpgradeSystemd_Operation, UpgradeThirdpartySoftware_Operation, UpgradeTLS_Operation,
      UpgradeVMImage_Operation]"

lemmas universe_upgrades_management_defs =
  ResizeNode_Operation_def ResizeNode_Params_def ResizeNode_WriteToRequest_def ResizeNode_Reader_def
  RestartUniverse_Operation_def RestartUniverse_Params_def RestartUniverse_WriteToRequest_def RestartUniverse_Reader_def
  UpgradeCerts_Operation_def UpgradeCerts_Params_def UpgradeCerts_WriteToRequest_def UpgradeCerts_Reader_def
  UpgradeGFlags_Operation_def UpgradeGFlags_Params_def UpgradeGFlags_WriteToRequest_def UpgradeGFlags_Reader_def
  UpgradeSoftware_Operation_def UpgradeSoftware_Params_def UpgradeSoftware_WriteToRequest_def UpgradeSoftware_Reader_def
  UpgradeSystemd_Operation_def UpgradeSystemd_Params_def UpgradeSystemd_WriteToRequest_def UpgradeSystemd_Reader_def
  UpgradeThirdpartySoftware_Operation_def UpgradeThirdpartySoftware_Params_def UpgradeThirdpartySoftware_WriteToRequest_def UpgradeThirdpartySoftware_Reader_def
  UpgradeTLS_Operation_def UpgradeTLS_Params_def UpgradeTLS_WriteToRequest_def UpgradeTLS_Reader_def
  UpgradeVMImage_Operation_def UpgradeVMImage_Params_def UpgradeVMImage_WriteToRequest_def UpgradeVMImage_Reader_def

lemma universe_upgrades_management_ok: "list_all operation_ok universe_upgrades_management_operations"
  by code_simp

subsection \<open>table_management\<close>

definition AlterTable_Params :: "'m param_struct" where
  "AlterTable_Params =
     \<lparr>struct_fields = [(''CUUID'', UUIDType), (''TableUUID'', UUIDType), (''UniUUID'', UUIDType)],
      struct_defaults = []\<rparr>"

definition AlterTable_WriteToRequest :: "write_stmt list" where
  "AlterTable_WriteToRequest =
     [PathParam ''cUUID'' ''CUUID'', PathParam ''tableUUID'' ''TableUUID'', PathParam ''uniUUID'' ''UniUUID'']"

definition AlterTable_Reader :: "response_case list" where
  "AlterTable_Reader =
     [\<lparr>status_code = 200, response_type = ''table_management.AlterTableOK'',
       payload_type = MapOf AnyType, is_success = True,
       error_label = ''[PUT /api/v1/customers/{cUUID}/universes/{uniUUID}/tables/{tableUUID}][200] alterTableOK''\<rparr>]"

definition AlterTable_Operation :: "'m operation" where
  "AlterTable_Operation =
     \<lparr>op_id = ''alterTable'', op_method = ''PUT'',
      path_pattern = ''/api/v1/customers/{cUUID}/universes/{uniUUID}/tables/{tableUUID}'',
      produces = [''application/json''], consumes = [''application/json''], schemes = [''http'', ''https''],
      with_auth = True, param_struct_of = AlterTable_Params,
      writes = AlterTable_WriteToRequest, reader = AlterTable_Reader,
      result_type = ''table_management.AlterTableOK''\<rparr>"

definition BulkImportData_Params :: "'m param_struct" where
  "BulkImportData_Params =
     \<lparr>struct_fields = [(''BulkImport'', Pointer (Model ''BulkImportParams'')), (''CUUID'', UUIDType),
                       (''TableUUID'', UUIDType), (''UniUUID'', UUIDType)],
      struct_defaults = []\<rparr>"

definition BulkImportData_WriteToRequest :: "write_stmt list" where
  "BulkImportData_WriteToRequest =
     [BodyParam ''BulkImport'', PathParam ''cUUID'' ''CUUID'', PathParam ''tableUUID'' ''TableUUID'',
      PathParam ''uniUUID'' ''UniUUID'']"

definition BulkImportData_Reader :: "response_case list" where
  "BulkImportData_Reader =
     [\<lparr>status_code = 200, response_type = ''table_management.BulkImportDataOK'',
       payload_type = Pointer (Model ''YBPTask''), is_success = True,
       error_label = ''[PUT /api/v1/customers/{cUUID}/universes/{uniUUID}/tables/{tableUUID}/bulk_import][200] bulkImportDataOK''\<rparr>]"

definition BulkImportData_Operation :: "'m operation" where
  "BulkImportData_Operation =
     \<lparr>op_id = ''bulkImportData'', op_method = ''PUT'',
      path_pattern = ''/api/v1/customers/{cUUID}/universes/{uniUUID}/tables/{tableUUID}/bulk_import'',
      produces = [''application/json''], consumes = [''application/json''], schemes = [''http'', ''https''],
      with_auth = True, param_struct_of = BulkImportData_Params,
      writes = BulkImportData_WriteToRequest, reader = BulkImportData_Reader,
      result_type = ''table_management.BulkImportDataOK''\<rparr>"

definition CreateSingleTableBackup_Params :: "'m param_struct" where
  "CreateSingleTableBackup_Params =
     \<lparr>struct_fields = [(''Backup'', Pointer (Model ''BackupTableParams'')), (''CUUID'', UUIDType),
                       (''TableUUID'', UUIDType), (''UniUUID'', UUIDType)],
      struct_defaults = []\<rparr>"

definition CreateSingleTableBackup_WriteToRequest :: "write_stmt list" where
  "CreateSingleTableBackup_WriteToRequest =
     [BodyParam ''Backup'', PathParam ''cUUID'' ''CUUID'', PathParam ''tableUUID'' ''TableUUID'',
      PathParam ''uniUUID'' ''UniUUID'']"

definition CreateSingleTableBackup_Reader :: "response_case list" where
  "CreateSingleTableBackup_Reader =
     [\<lparr>status_code = 200, response_type = ''table_management.CreateSingleTableBackupOK'',
       payload_type = Pointer (Model ''YBPTask''), is_success = True,
       error_label = ''[PUT /api/v1/customers/{cUUID}/universes/{uniUUID}/tables/{tableUUID}/create_backup][200] createSingleTableBackupOK''\<rparr>]"

definition CreateSingleTableBackup_Operation :: "'m operation" where
  "CreateSingleTableBackup_Operation =
     \<lparr>op_id = ''createSingleTableBackup'', op_method = ''PUT'',
      path_pattern = ''/api/v1/customers/{cUUID}/universes/{uniUUID}/tables/{tableUUID}/create_backup'',
      produces = [''application/json''], consumes = [''application/json''], schemes = [''http'', ''https''],
      with_auth = True, param_struct_of = CreateSingleTableBackup_Params,
      writes = CreateSingleTableBackup_WriteToRequest, reader = CreateSingleTableBackup_Reader,
      result_type = ''table_management.CreateSingleTableBackupOK''\<rparr>"

definition CreateTable_Params :: "'m param_struct" where
  "CreateTable_Params =
     \<lparr>struct_fields = [(''Table'', Pointer (Model ''TableDefinitionTaskParams'')), (''CUUID'', UUIDType),
                       (''UniUUID'', UUIDType)],
      struct_defaults = []\<rparr>"

definition CreateTable_WriteToRequest :: "write_stmt list" where
  "CreateTable_WriteToRequest =
     [BodyParam ''Table'', PathParam ''cUUID'' ''CUUID'', PathParam ''uniUUID'' ''UniUUID'']"

definition CreateTable_Reader :: "response_case list" where
  "CreateTable_Reader =
     [\<lparr>status_code = 200, response_type = ''table_management.CreateTableOK'',
       payload_type = Pointer (Model ''YBPTask''), is_success = True,
       error_label = ''[POST /api/v1/customers/{cUUID}/universes/{uniUUID}/tables][200] createTableOK''\<rparr>]"

definition CreateTable_Operation :: "'m operation" where
  "CreateTable_Operation =
     \<lparr>op_id = ''createTable'', op_method = ''POST'',
      path_pattern = ''/api/v1/customers/{cUUID}/universes/{uniUUID}/tables'',
      produces = [''application/json''], consumes = [''application/json''], schemes = [''http'', ''https''],
      with_auth = True, param_struct_of = CreateTable_Params,
      writes = CreateTable_WriteToRequest, reader = CreateTable_Reader,
      result_type = ''table_management.CreateTableOK''\<rparr>"

definition CreateTableSpaces_Params :: "'m param_struct" where
  "CreateTableSpaces_Params =
     \<lparr>struct_fields = [(''CreateTableSpacesRequest'', Pointer (Model ''CreateTablespaceParams'')),
                       (''CUUID'', UUIDType), (''UniUUID'', UUIDType)],
      struct_defaults = []\<rparr>"

definition CreateTableSpaces_WriteToRequest :: "write_stmt list" where
  "CreateTableSpaces_WriteToRequest =
     [BodyParam ''CreateTableSpacesRequest'', PathParam ''cUUID'' ''CUUID'', PathParam ''uniUUID'' ''UniUUID'']"

definition CreateTableSpaces_Reader :: "response_case list" where
  "CreateTableSpaces_Reader =
     [\<lparr>status_code = 200, response_type = ''table_management.CreateTableSpacesOK'',
       payload_type = Pointer (Model ''YBPTask''), is_success = True,
       error_label = ''[POST /api/v1/customers/{cUUID}/universes/{uniUUID}/tablespaces][200] createTableSpacesOK''\<rparr>]"

definition CreateTableSpaces_Operation :: "'m operation" where
  "CreateTableSpaces_Operation =
     \<lparr>op_id = ''createTableSpaces'', op_method = ''POST'',
      path_pattern = ''/api/v1/customers/{cUUID}/universes/{uniUUID}/tablespaces'',
      produces = [''application/json''], consumes = [''application/json''], schemes = [''http'', ''https''],
      with_auth = True, param_struct_of = CreateTableSpaces_Params,
      writes = CreateTableSpaces_WriteToRequest, reader = CreateTableSpaces_Reader,
      result_type = ''table_management.CreateTableSpacesOK''\<rparr>"

definition DescribeTable_Params :: "'m param_struct" where
  "DescribeTable_Params =
     \<lparr>struct_fields = [(''CUUID'', UUIDType), (''TableUUID'', UUIDType), (''UniUUID'', UUIDType)],
      struct_defaults = []\<rparr>"

definition DescribeTable_WriteToRequest :: "write_stmt list" where
  "DescribeTable_WriteToRequest =
     [PathParam ''cUUID'' ''CUUID'', PathParam ''tableUUID'' ''TableUUID'', PathParam ''uniUUID'' ''UniUUID'']"

definition DescribeTable_Reader :: "response_case list" where
  "DescribeTable_Reader =
     [\<lparr>status_code = 200, response_type = ''table_management.DescribeTableOK'',
       payload_type = Pointer (Model ''TableDefinitionTaskParams''), is_success = True,
       error_label = ''[GET /api/v1/customers/{cUUID}/universes/{uniUUID}/tables/{tableUUID}][200] describeTableOK''\<rparr>]"

definition DescribeTable_Operation :: "'m operation" where
  "DescribeTable_Operation =
     \<lparr>op_id = ''describeTable'', op_method = ''GET'',
      path_pattern = ''/api/v1/customers/{cUUID}/universes/{uniUUID}/tables/{tableUUID}'',
      produces = [''application/json''], consumes = [''application/json''], schemes = [''http'', ''https''],
      with_auth = True, param_struct_of = DescribeTable_Params,
      writes = DescribeTable_WriteToRequest, reader = DescribeTable_Reader,
      result_type = ''table_management.DescribeTableOK''\<rparr>"

definition DropTable_Params :: "'m param_struct" where
  "DropTable_Params =
     \<lparr>struct_fields = [(''CUUID'', UUIDType), (''TableUUID'', UUIDType), (''UniUUID'', UUIDType)],
      struct_defaults = []\<rparr>"

definition DropTable_WriteToRequest :: "write_stmt list" where
  "DropTable_WriteToRequest =
     [PathParam ''cUUID'' ''CUUID'', PathParam ''tableUUID'' ''TableUUID'', PathParam ''uniUUID'' ''UniUUID'']"

definition DropTable_Reader :: "response_case list" where
  "DropTable_Reader =
     [\<lparr>status_code = 200, response_type = ''table_management.DropTableOK'',
       payload_type = Pointer (Model ''YBPTask''), is_success = True,
       error_label = ''[DELETE /api/v1/customers/{cUUID}/universes/{uniUUID}/tables/{tableUUID}][200] dropTableOK''\<rparr>]"

definition DropTable_Operation :: "'m operation" where
  "DropTable_Operation =
     \<lparr>op_id = ''dropTable'', op_method = ''DELETE'',
      path_pattern = ''/api/v1/customers/{cUUID}/universes/{uniUUID}/tables/{tableUUID}'',
      produces = [''application/json''], consumes = [''application/json''], schemes = [''http'', ''https''],
      with_auth = True, param_struct_of = DropTable_Params,
      writes = DropTable_WriteToRequest, reader = DropTable_Reader,
      result_type = ''table_management.DropTableOK''\<rparr>"

definition GetAllTableSpaces_Params :: "'m param_struct" where
  "GetAllTableSpaces_Params =
     \<lparr>struct_fields = [(''CUUID'', UUIDType), (''UniUUID'', UUIDType)],
      struct_defaults = []\<rparr>"

definition GetAllTableSpaces_WriteToRequest :: "write_stmt list" where
  "GetAllTableSpaces_WriteToRequest =
     [PathParam ''cUUID'' ''CUUID'', PathParam ''uniUUID'' ''UniUUID'']"

definition GetAllTableSpaces_Reader :: "response_case list" where
  "GetAllTableSpaces_Reader =
     [\<lparr>status_code = 200, response_type = ''table_management.GetAllTableSpacesOK'',
       payload_type = Slice (Pointer (Model ''TableSpaceInfo'')), is_success = True,
       error_label = ''[GET /api/v1/customers/{cUUID}/universes/{uniUUID}/tablespaces][200] getAllTableSpacesOK''\<rparr>]"

definition GetAllTableSpaces_Operation :: "'m operation" where
  "GetAllTableSpaces_Operation =
     \<lparr>op_id = ''getAllTableSpaces'', op_method = ''GET'',
      path_pattern = ''/api/v1/customers/{cUUID}/universes/{uniUUID}/tablespaces'',
      produces = [''application/json''], consumes = [''application/json''], schemes = [''http'', ''https''],
      with_auth = True, param_struct_of = GetAllTableSpaces_Params,
      writes = GetAllTableSpaces_WriteToRequest, reader = GetAllTableSpaces_Reader,
      result_type = ''table_management.GetAllTableSpacesOK''\<rparr>"

definition GetAllTables_Params :: "'m param_struct" where
  "GetAllTables_Params =
     \<lparr>struct_fields = [(''CUUID'', UUIDType), (''IncludeParentTableInfo'', Pointer BoolType),
                       (''UniUUID'', UUIDType)],
      struct_defaults = [(''IncludeParentTableInfo'', Address (Truth False))]\<rparr>"

definition GetAllTables_WriteToRequest :: "write_stmt list" where
  "GetAllTables_WriteToRequest =
     [PathParam ''cUUID'' ''CUUID'', QueryParam ''includeParentTableInfo'' ''IncludeParentTableInfo'',
      PathParam ''uniUUID'' ''UniUUID'']"

definition GetAllTables_Reader :: "response_case list" where
  "GetAllTables_Reader =
     [\<lparr>status_code = 200, response_type = ''table_management.GetAllTablesOK'',
       payload_type = Slice (Pointer (Model ''TableInfoResp'')), is_success = True,
       error_label = ''[GET /api/v1/customers/{cUUID}/universes/{uniUUID}/tables][200] getAllTablesOK''\<rparr>]"

definition GetAllTables_Operation :: "'m operation" where
  "GetAllTables_Operation =
     \<lparr>op_id = ''getAllTables'', op_method = ''GET'',
      path_pattern = ''/api/v1/customers/{cUUID}/universes/{uniUUID}/tables'',
      produces = [''application/json''], consumes = [''application/json''], schemes = [''http'', ''https''],
      with_auth = True, param_struct_of = GetAllTables_Params,
      writes = GetAllTables_WriteToRequest, reader = GetAllTables_Reader,
      result_type = ''table_management.GetAllTablesOK''\<rparr>"

definition GetYQLDataTypes_Params :: "'m param_struct" where
  "GetYQLDataTypes_Params =
     \<lparr>struct_fields = [],
      struct_defaults = []\<rparr>"

definition GetYQLDataTypes_WriteToRequest :: "write_stmt list" where
  "GetYQLDataTypes_WriteToRequest =
     []"

definition GetYQLDataTypes_Reader :: "response_case list" where
  "GetYQLDataTypes_Reader =
     [\<lparr>status_code = 200, response_type = ''table_management.GetYQLDataTypesOK'',
       payload_type = Slice StringType, is_success = True,
       error_label = ''[GET /api/v1/metadata/yql_data_types][200] getYQLDataTypesOK''\<rparr>]"

definition GetYQLDataTypes_Operation :: "'m operation" where
  "GetYQLDataTypes_Operation =
     \<lparr>op_id = ''getYQLDataTypes'', op_method = ''GET'',
      path_pattern = ''/api/v1/metadata/yql_data_types'',
      produces = [''application/json''], consumes = [''application/json''], schemes = [''http'', ''https''],
      with_auth = True, param_struct_of = GetYQLDataTypes_Params,
      writes = GetYQLDataTypes_WriteToRequest, reader = GetYQLDataTypes_Reader,
      result_type = ''table_management.GetYQLDataTypesOK''\<rparr>"

definition table_management_operations :: "'m operation list" where
  "table_management_operations =
     [AlterTable_Operation, BulkImportData_Operation, CreateSingleTableBackup_Operation, CreateTable_Operation,
      CreateTableSpaces_Operation, DescribeTable_Operation, DropTable_Operation, GetAllTableSpaces_Operation,
      GetAllTables_Operation, GetYQLDataTypes_Operation]"

lemmas table_management_defs =
  AlterTable_Operation_def AlterTable_Params_def AlterTable_WriteToRequest_def AlterTable_Reader_def
  BulkImportData_Operation_def BulkImportData_Params_def BulkImportData_WriteToRequest_def BulkImportData_Reader_def
  CreateSingleTableBackup_Operation_def CreateSingleTableBackup_Params_def CreateSingleTableBackup_WriteToRequest_def CreateSingleTableBackup_Reader_def
  CreateTable_Operation_def CreateTable_Params_def CreateTable_WriteToRequest_def CreateTable_Reader_def
  CreateTableSpaces_Operation_def CreateTableSpaces_Params_def CreateTableSpaces_WriteToRequest_def CreateTableSpaces_Reader_def
  DescribeTable_Operation_def DescribeTable_Params_def DescribeTable_WriteToRequest_def DescribeTable_Reader_def
  DropTable_Operation_def DropTable_Params_def DropTable_WriteToRequest_def DropTable_Reader_def
  GetAllTableSpaces_Operation_def GetAllTableSpaces_Params_def GetAllTableSpaces_WriteToRequest_def GetAllTableSpaces_Reader_def
  GetAllTables_Operation_def GetAllTables_Params_def GetAllTables_WriteToRequest_def GetAllTables_Reader_def
  GetYQLDataTypes_Operation_def GetYQLDataTypes_Params_def GetYQLDataTypes_WriteToRequest_def GetYQLDataTypes_Reader_def

lemma table_management_ok: "list_all operation_ok table_management_operations"
  by code_simp

subsection \<open>tablet_server_management\<close>

definition ListTabletServers_Params :: "'m param_struct" where
  "ListTabletServers_Params =
     \<lparr>struct_fields = [(''CUUID'', UUIDType), (''UniUUID'', UUIDType)],
      struct_defaults = []\<rparr>"

definition ListTabletServers_WriteToRequest :: "write_stmt list" where
  "ListTabletServers_WriteToRequest =
     [PathParam ''cUUID'' ''CUUID'', PathParam ''uniUUID'' ''UniUUID'']"

definition ListTabletServers_Reader :: "response_case list" where
  "ListTabletServers_Reader =
     [\<lparr>status_code = 200, response_type = ''tablet_server_management.ListTabletServersOK'',
       payload_type = MapOf AnyType, is_success = True,
       error_label = ''[GET /api/v1/customers/{cUUID}/universes/{uniUUID}/tablet-servers][200] listTabletServersOK''\<rparr>]"

definition ListTabletServers_Operation :: "'m operation" where
  "ListTabletServers_Operation =
     \<lparr>op_id = ''listTabletServers'', op_method = ''GET'',
      path_pattern = ''/api/v1/customers/{cUUID}/universes/{uniUUID}/tablet-servers'',
      produces = [''application/json''], consumes = [''application/json''], schemes = [''http'', ''https''],
      with_auth = True, param_struct_of = ListTabletServers_Params,
      writes = ListTabletServers_WriteToRequest, reader = ListTabletServers_Reader,
      result_type = ''tablet_server_management.ListTabletServersOK''\<rparr>"

definition tablet_server_management_operations :: "'m operation list" where
  "tablet_server_management_operations =
     [ListTabletServers_Operation]"

lemmas tablet_server_management_defs =
  ListTabletServers_Operation_def ListTabletServers_Params_def ListTabletServers_WriteToRequest_def ListTabletServers_Reader_def

lemma tablet_server_management_ok: "list_all operation_ok tablet_server_management_operations"
  by code_simp

end
