(* ===== verification/SwaggerClient.thy ===== *)
theory SwaggerClient
  imports ApiAccounts ApiAlerts ApiBackups ApiProviders ApiSecurity ApiUniverses
begin

section \<open>The generated client as a whole\<close>

text \<open>
  \<open>yugabyte_d_b_anywhere_a_p_is_client.go\<close> puts the 34 packages together: a client of each, all on one transport, and
  the configuration of the transport. A client of a package holds the transport and the formats; \<open>'t\<close> stands for the
  transport, \<open>'f\<close> for a \<open>strfmt.Registry\<close>; \<open>new_transport\<close> is \<open>httptransport.New\<close>. Below the 214 operations with
  the packages they belong to, and what holds of each of them.
\<close>

subsection \<open>Clients of the packages\<close>

record ('t, 'f) Client =
  transport :: 't
  formats :: 'f

definition New_client :: "'t \<Rightarrow> 'f \<Rightarrow> ('t, 'f) Client" where
  "New_client t f = \<lparr>transport = t, formats = f\<rparr>"

definition set_client_transport :: "'t \<Rightarrow> ('t, 'f) Client \<Rightarrow> ('t, 'f) Client" where
  "set_client_transport t c = c\<lparr>transport := t\<rparr>"

record ('t, 'f) YugabyteDBAnywhereAPIs =
  AccessKeys :: "('t, 'f) Client"
  Alerts :: "('t, 'f) Client"
  AsynchronousReplication :: "('t, 'f) Client"
  Audit :: "('t, 'f) Client"
  AvailabilityZones :: "('t, 'f) Client"
  Backups :: "('t, 'f) Client"
  CertificateInfo :: "('t, 'f) Client"
  CloudProviders :: "('t, 'f) Client"
  CustomerConfiguration :: "('t, 'f) Client"
  CustomerManagement :: "('t, 'f) Client"
  CustomerTasks :: "('t, 'f) Client"
  EncryptionAtRest :: "('t, 'f) Client"
  GrafanaDashboard :: "('t, 'f) Client"
  InstanceTypes :: "('t, 'f) Client"
  LoggingConfig :: "('t, 'f) Client"
  MaintenanceWindows :: "('t, 'f) Client"
  Metrics :: "('t, 'f) Client"
  NodeInstances :: "('t, 'f) Client"
  RegionManagement :: "('t, 'f) Client"
  ReleaseManagement :: "('t, 'f) Client"
  RuntimeConfiguration :: "('t, 'f) Client"
  ScheduleManagement :: "('t, 'f) Client"
  SessionManagement :: "('t, 'f) Client"
  SupportBundleManagement :: "('t, 'f) Client"
  TableManagement :: "('t, 'f) Client"
  TabletServerManagement :: "('t, 'f) Client"
  UniverseActions :: "('t, 'f) Client"
  UniverseClusterMutations :: "('t, 'f) Client"
  UniverseDatabaseManagement :: "('t, 'f) Client"
  UniverseInformation :: "('t, 'f) Client"
  UniverseManagement :: "('t, 'f) Client"
  UniverseNodeMetadataMetamaster :: "('t, 'f) Client"
  UniverseUpgradesManagement :: "('t, 'f) Client"
  UserManagement :: "('t, 'f) Client"
  Transport :: 't

definition New_apis :: "'f \<Rightarrow> 't \<Rightarrow> 'f option \<Rightarrow> ('t, 'f) YugabyteDBAnywhereAPIs" where
  "New_apis default_formats t fs =
     (let f = (case fs of Some f \<Rightarrow> f | None \<Rightarrow> default_formats)
      in \<lparr>AccessKeys = New_client t f, Alerts = New_client t f, AsynchronousReplication = New_client t f,
         Audit = New_client t f, AvailabilityZones = New_client t f, Backups = New_client t f,
         CertificateInfo = New_client t f, CloudProviders = New_client t f, CustomerConfiguration = New_client t f,
         CustomerManagement = New_client t f, CustomerTasks = New_client t f, EncryptionAtRest = New_client t f,
         GrafanaDashboard = New_client t f, InstanceTypes = New_client t f, LoggingConfig = New_client t f,
         MaintenanceWindows = New_client t f, Metrics = New_client t f, NodeInstances = New_client t f,
         RegionManagement = New_client t f, ReleaseManagement = New_client t f,
         RuntimeConfiguration = New_client t f, ScheduleManagement = New_client t f,
         SessionManagement = New_client t f, SupportBundleManagement = New_client t f,
         TableManagement = New_client t f, TabletServerManagement = New_client t f,
         UniverseActions = New_client t f, UniverseClusterMutations = New_client t f,
         UniverseDatabaseManagement = New_client t f, UniverseInformation = New_client t f,
         UniverseManagement = New_client t f, UniverseNodeMetadataMetamaster = New_client t f,
         UniverseUpgradesManagement = New_client t f, UserManagement = New_client t f,
         Transport = t\<rparr>)"

definition SetTransport_apis :: "'t \<Rightarrow> ('t, 'f) YugabyteDBAnywhereAPIs \<Rightarrow> ('t, 'f) YugabyteDBAnywhereAPIs" where
  "SetTransport_apis t c =
     c\<lparr>Transport := t,
       AccessKeys := set_client_transport t (AccessKeys c), Alerts := set_client_transport t (Alerts c),
       AsynchronousReplication := set_client_transport t (AsynchronousReplication c),
       Audit := set_client_transport t (Audit c),
       AvailabilityZones := set_client_transport t (AvailabilityZones c),
       Backups := set_client_transport t (Backups c),
       CertificateInfo := set_client_transport t (CertificateInfo c),
       CloudProviders := set_client_transport t (CloudProviders c),
       CustomerConfiguration := set_client_transport t (CustomerConfiguration c),
       CustomerManagement := set_client_transport t (CustomerManagement c),
       CustomerTasks := set_client_transport t (CustomerTasks c),
       EncryptionAtRest := set_client_transport t (EncryptionAtRest c),
       GrafanaDashboard := set_client_transport t (GrafanaDashboard c),
       InstanceTypes := set_client_transport t (InstanceTypes c),
       LoggingConfig := set_client_transport t (LoggingConfig c),
       MaintenanceWindows := set_client_transport t (MaintenanceWindows c),
       Metrics := set_client_transport t (Metrics c), NodeInstances := set_client_transport t (NodeInstances c),
       RegionManagement := set_client_transport t (RegionManagement c),
       ReleaseManagement := set_client_transport t (ReleaseManagement c),
       RuntimeConfiguration := set_client_transport t (RuntimeConfiguration c),
       ScheduleManagement := set_client_transport t (ScheduleManagement c),
       SessionManagement := set_client_transport t (SessionManagement c),
       SupportBundleManagement := set_client_transport t (SupportBundleManagement c),
       TableManagement := set_client_transport t (TableManagement c),
       TabletServerManagement := set_client_transport t (TabletServerManagement c),
       UniverseActions := set_client_transport t (UniverseActions c),
       UniverseClusterMutations := set_client_transport t (UniverseClusterMutations c),
       UniverseDatabaseManagement := set_client_transport t (UniverseDatabaseManagement c),
       UniverseInformation := set_client_transport t (UniverseInformation c),
       UniverseManagement := set_client_transport t (UniverseManagement c),
       UniverseNodeMetadataMetamaster := set_client_transport t (UniverseNodeMetadataMetamaster c),
       UniverseUpgradesManagement := set_client_transport t (UniverseUpgradesManagement c),
       UserManagement := set_client_transport t (UserManagement c)\<rparr>"

subsection \<open>The configuration of the transport\<close>

record TransportConfig =
  Host :: string
  BasePath :: string
  ConfigSchemes :: "string list"

definition DefaultHost :: string where
  "DefaultHost = ''localhost''"

definition DefaultBasePath :: string where
  "DefaultBasePath = ''/''"

definition DefaultSchemes :: "string list" where
  "DefaultSchemes = [''http'', ''https'']"

definition DefaultTransportConfig :: TransportConfig where
  "DefaultTransportConfig = \<lparr>Host = DefaultHost, BasePath = DefaultBasePath, ConfigSchemes = DefaultSchemes\<rparr>"

definition WithHost :: "string \<Rightarrow> TransportConfig \<Rightarrow> TransportConfig" where
  "WithHost host cfg = cfg\<lparr>Host := host\<rparr>"

definition WithBasePath :: "string \<Rightarrow> TransportConfig \<Rightarrow> TransportConfig" where
  "WithBasePath basePath cfg = cfg\<lparr>BasePath := basePath\<rparr>"

definition WithSchemes :: "string list \<Rightarrow> TransportConfig \<Rightarrow> TransportConfig" where
  "WithSchemes ss cfg = cfg\<lparr>ConfigSchemes := ss\<rparr>"

definition NewHTTPClientWithConfig ::
  "(string \<Rightarrow> string \<Rightarrow> string list \<Rightarrow> 't) \<Rightarrow> 'f \<Rightarrow> 'f option \<Rightarrow> TransportConfig option \<Rightarrow> ('t, 'f) YugabyteDBAnywhereAPIs" where
  "NewHTTPClientWithConfig new_transport default_formats fs cfg =
     (let cfg = (case cfg of Some c \<Rightarrow> c | None \<Rightarrow> DefaultTransportConfig)
      in New_apis default_formats (new_transport (Host cfg) (BasePath cfg) (ConfigSchemes cfg)) fs)"

definition NewHTTPClient ::
  "(string \<Rightarrow> string \<Rightarrow> string list \<Rightarrow> 't) \<Rightarrow> 'f \<Rightarrow> 'f option \<Rightarrow> ('t, 'f) YugabyteDBAnywhereAPIs" where
  "NewHTTPClient new_transport default_formats fs = NewHTTPClientWithConfig new_transport default_formats fs None"

subsection \<open>The operations of a client\<close>

text \<open>Each package of the client with its operations; a call through the client uses the transport of its package.\<close>

definition api_packages :: "((('t, 'f) YugabyteDBAnywhereAPIs \<Rightarrow> ('t, 'f) Client) \<times> 'm operation list) list" where
  "api_packages =
     [(AccessKeys, access_keys_operations), (Alerts, alerts_operations),
      (AsynchronousReplication, asynchronous_replication_operations), (Audit, audit_operations),
      (AvailabilityZones, availability_zones_operations), (Backups, backups_operations),
      (CertificateInfo, certificate_info_operations), (CloudProviders, cloud_providers_operations),
      (CustomerConfiguration, customer_configuration_operations),
      (CustomerManagement, customer_management_operations), (CustomerTasks, customer_tasks_operations),
      (EncryptionAtRest, encryption_at_rest_operations), (GrafanaDashboard, grafana_dashboard_operations),
      (InstanceTypes, instance_types_operations), (LoggingConfig, logging_config_operations),
      (MaintenanceWindows, maintenance_windows_operations), (Metrics, metrics_operations),
      (NodeInstances, node_instances_operations), (RegionManagement, region_management_operations),
      (ReleaseManagement, release_management_operations), (RuntimeConfiguration, runtime_configuration_operations),
      (ScheduleManagement, schedule_management_operations), (SessionManagement, session_management_operations),
      (SupportBundleManagement, support_bundle_management_operations),
      (TableManagement, table_management_operations),
      (TabletServerManagement, tablet_server_management_operations),
      (UniverseActions, universe_actions_operations),
      (UniverseClusterMutations, universe_cluster_mutations_operations),
      (UniverseDatabaseManagement, universe_database_management_operations),
      (UniverseInformation, universe_information_operations), (UniverseManagement, universe_management_operations),
      (UniverseNodeMetadataMetamaster, universe_node_metadata_metamaster_operations),
      (UniverseUpgradesManagement, universe_upgrades_management_operations),
      (UserManagement, user_management_operations)]"

definition api_operations :: "'m operation list" where
  "api_operations =
     access_keys_operations @ alerts_operations @ asynchronous_replication_operations @ audit_operations @
     availability_zones_operations @ backups_operations @ certificate_info_operations @
     cloud_providers_operations @ customer_configuration_operations @ customer_management_operations @
     customer_tasks_operations @ encryption_at_rest_operations @ grafana_dashboard_operations @
     instance_types_operations @ logging_config_operations @ maintenance_windows_operations @ metrics_operations @
     node_instances_operations @ region_management_operations @ release_management_operations @
     runtime_configuration_operations @ schedule_management_operations @ session_management_operations @
     support_bundle_management_operations @ table_management_operations @ tablet_server_management_operations @
     universe_actions_operations @ universe_cluster_mutations_operations @
     universe_database_management_operations @ universe_information_operations @ universe_management_operations @
     universe_node_metadata_metamaster_operations @ universe_upgrades_management_operations @
     user_management_operations"

definition package_call ::
  "swagger_lib \<Rightarrow> (('a, 'c, 'h, 'm, 'v, 'w) transport, 'f) Client \<Rightarrow> 'm operation \<Rightarrow> ('c, 'h, 'm) params option \<Rightarrow> 'a \<Rightarrow>
     (('a, 'c, 'h, 'm) submission \<Rightarrow> ('a, 'c, 'h, 'm) submission) list \<Rightarrow> 'w \<Rightarrow> 'v call_result \<times> 'w" where
  "package_call lib c op ps auth opts w = client_call lib (transport c) op ps auth opts w"

lemmas package_ok =
  access_keys_ok alerts_ok asynchronous_replication_ok audit_ok availability_zones_ok backups_ok
  certificate_info_ok cloud_providers_ok customer_configuration_ok customer_management_ok customer_tasks_ok
  encryption_at_rest_ok grafana_dashboard_ok instance_types_ok logging_config_ok maintenance_windows_ok metrics_ok
  node_instances_ok region_management_ok release_management_ok runtime_configuration_ok schedule_management_ok
  session_management_ok support_bundle_management_ok table_management_ok tablet_server_management_ok
  universe_actions_ok universe_cluster_mutations_ok universe_database_management_ok universe_information_ok
  universe_management_ok universe_node_metadata_metamaster_ok universe_upgrades_management_ok user_management_ok

lemma api_operations_list_ok: "list_all operation_ok api_operations"
  by (simp only: api_operations_def list_all_append package_ok simp_thms)

lemma api_operations_ok: "op \<in> set api_operations \<Longrightarrow> operation_ok op"
  by (rule bspec [OF iffD1 [OF list_all_iff api_operations_list_ok]])

lemma api_operations_count: "length (api_operations :: 'm operation list) = 214"
  by (simp add: api_operations_def
      access_keys_operations_def alerts_operations_def asynchronous_replication_operations_def audit_operations_def
      availability_zones_operations_def backups_operations_def certificate_info_operations_def
      cloud_providers_operations_def customer_configuration_operations_def customer_management_operations_def
      customer_tasks_operations_def encryption_at_rest_operations_def grafana_dashboard_operations_def
      instance_types_operations_def logging_config_operations_def maintenance_windows_operations_def
      metrics_operations_def node_instances_operations_def region_management_operations_def
      release_management_operations_def runtime_configuration_operations_def schedule_management_operations_def
      session_management_operations_def support_bundle_management_operations_def table_management_operations_def
      tablet_server_management_operations_def universe_actions_operations_def
      universe_cluster_mutations_operations_def universe_database_management_operations_def
      universe_information_operations_def universe_management_operations_def
      universe_node_metadata_metamaster_operations_def universe_upgrades_management_operations_def
      user_management_operations_def)

text \<open>Every operation of a package is one of the 214.\<close>

lemma packages_cover: "concat (map snd api_packages) = api_operations"
  by (simp add: api_packages_def api_operations_def)

lemma package_operation: "(g, ops) \<in> set api_packages \<Longrightarrow> op \<in> set ops \<Longrightarrow> op \<in> set api_operations"
  by (subst packages_cover [symmetric]) force

lemma ListUniverses_is_operation: "ListUniverses_Operation \<in> set api_operations"
  by (simp add: api_operations_def universe_management_operations_def)

lemma ListUniverses_parts:
  "writes ListUniverses_Operation = ListUniverses_WriteToRequest"
  "param_struct_of ListUniverses_Operation = ListUniverses_Params"
  "reader ListUniverses_Operation = ListUniverses_Reader"
  by (simp_all add: ListUniverses_Operation_def)

subsection \<open>One transport\<close>

lemma new_client_transport: "transport (New_client t f) = t" "formats (New_client t f) = f"
  by (simp_all add: New_client_def)

lemma set_transport_transport:
  "transport (set_client_transport t c) = t" "formats (set_client_transport t c) = formats c"
  by (simp_all add: set_client_transport_def)

lemma New_apis_transport:
  "\<forall>(g, ops) \<in> set (api_packages :: ((('t, 'f) YugabyteDBAnywhereAPIs \<Rightarrow> ('t, 'f) Client) \<times> 'm operation list) list).
     transport (g (New_apis df t fs)) = t"
  by (simp add: api_packages_def New_apis_def Let_def new_client_transport)

lemma SetTransport_apis_transport:
  "\<forall>(g, ops) \<in> set (api_packages :: ((('t, 'f) YugabyteDBAnywhereAPIs \<Rightarrow> ('t, 'f) Client) \<times> 'm operation list) list).
     transport (g (SetTransport_apis t c)) = t \<and> formats (g (SetTransport_apis t c)) = formats (g c)"
  by (simp add: api_packages_def SetTransport_apis_def set_transport_transport)

subsection \<open>What every operation guarantees\<close>

text \<open>Formatting functions and parameters for the examples: two lists of universes, asked for with an empty name and
  without one.\<close>

definition test_lib :: swagger_lib where
  "test_lib =
     \<lparr>default_timeout = 30, uuid_string = (\<lambda>s. s), format_int32 = (\<lambda>n. replicate (unat n) CHR ''1''),
      format_bool = (\<lambda>b. if b then ''true'' else ''false''), join_multi = (\<lambda>xs. xs)\<rparr>"

lemma test_lib_faithful: "faithful test_lib"
  by (auto simp: faithful_def test_lib_def inj_def intro: word_unat_eq_iff [THEN iffD2] dest!: arg_cong [of _ _ length])

definition no_name :: "(unit, unit, unit) params" where
  "no_name = set_field ''CUUID'' (UUID ''c1'') (new_params test_lib ListUniverses_Params)"

definition empty_name :: "(unit, unit, unit) params" where
  "empty_name = set_field ''Name'' (Address (Text [])) no_name"

lemmas example_params =
  no_name_def empty_name_def set_field_def new_params_def zero_fields_def ListUniverses_Params_def well_typed_def
  recorded_eq ListUniverses_WriteToRequest_def

text \<open>\<open>SetDefaults\<close> of a struct without defaults changes nothing; that of the universe listing asks for a name.\<close>

lemma SetDefaults_without_defaults: "set_defaults AbortTask_Params p = p"
  by (simp add: set_defaults_def AbortTask_Params_def)

lemma SetDefaults_asks_for_null:
  "fields_of (set_defaults ListUniverses_Params p) ''Name'' = Address (Text ''null'')"
  by (simp add: set_defaults_def ListUniverses_Params_def)

text \<open>C5: Of each of the 214 operations: from the calls \<open>WriteToRequest\<close> makes on a request, all the parameters can be
  read back. Two values of the parameter struct that are written alike have the same timeout and agree on every
  declared field, except that a query parameter does not tell a nil pointer from a pointer to an empty text, as both
  are left out. So no field of a struct is forgotten, sent in the place of another or sent twice.\<close>

theorem request_determines_params:
  assumes "faithful lib" "op \<in> set api_operations"
    and "well_typed (param_struct_of op) p" "well_typed (param_struct_of op) q"
    and "recorded lib (writes op) p = recorded lib (writes op) q"
    and "(n, t) \<in> set (struct_fields (param_struct_of op))"
  shows "timeout p = timeout q \<and> same_param lib (fields_of p n) (fields_of q n)"
  by (rule recorded_determines [OF assms(1) api_operations_ok [OF assms(2)] assms(3-6)])

theorem request_determines_params_witness:
  "timeout no_name = timeout empty_name \<and> same_param test_lib (fields_of no_name ''Name'') (fields_of empty_name ''Name'')"
  by (rule request_determines_params [OF test_lib_faithful ListUniverses_is_operation, of _ _ _ "Pointer StringType"])
     (simp_all add: ListUniverses_parts example_params test_lib_def)

text \<open>C34: Of each of the 214 operations and any request object: \<open>WriteToRequest\<close> makes the recorded calls, in their order,
  until one reports an error, and among them it sets exactly the placeholders of the operation's path pattern, each
  once: no request is sent with a placeholder left in its path, none with a path parameter the path does not have.\<close>

theorem request_fills_path:
  assumes "op \<in> set api_operations"
  shows "write_to_request lib R (writes op) p r = for_each (perform R) (recorded lib (writes op) p) r \<and>
    mset (List.map_filter path_name (recorded lib (writes op) p)) = mset (placeholders (path_pattern op))"
  by (rule conjI [OF written_is_recorded recorded_placeholders [OF api_operations_ok [OF assms]]])

theorem request_fills_path_witness:
  "mset (List.map_filter path_name (recorded test_lib (writes (ListUniverses_Operation :: unit operation)) no_name)) =
     mset (placeholders (path_pattern (ListUniverses_Operation :: unit operation)))"
  by (rule conjunct2 [OF request_fills_path [OF ListUniverses_is_operation, of _ recorder _ "[]"]])

text \<open>An answer of the server: a list of universes for every submission.\<close>

definition answers_list :: "(unit, unit, unit, unit) submission \<Rightarrow> nat \<Rightarrow>
    (goerror + int \<times> (go_type \<Rightarrow> string list \<times> goerror option)) \<times> nat" where
  "answers_list sub w = (Inr (200, \<lambda>t. ([''u1''], None)), Suc w)"

definition submit_list :: "(unit, unit, unit, unit, string list, nat) transport" where
  "submit_list sub w = received (Reader sub) (answers_list sub w)"

lemma submit_list_delivers: "delivers answers_list submit_list"
  by (simp add: delivers_def submit_list_def)

text \<open>C11: Of each of the 214 operations, on a transport that hands every response to the reader of the submission, with
  options that leave the reader alone: the method never panics on its result, and it returns a payload exactly when the
  server answered 200 and the body could be consumed as the declared type (an end of file counts as consumed), the
  payload being what the consumer made of the body. Every other answer is an error.\<close>

theorem operation_outcome:
  assumes "delivers send submit" "op \<in> set api_operations"
    and "\<forall>f \<in> set opts. \<forall>s. Reader (f s) = Reader s"
    and "sub = fold (\<lambda>f s. f s) opts (operation_of op (case ps of Some p \<Rightarrow> p | None \<Rightarrow> new_params lib (param_struct_of op)) auth)"
  shows "(\<forall>msg. fst (client_call lib submit op ps auth opts w) \<noteq> Crashed msg) \<and>
    (fst (client_call lib submit op ps auth opts w) = Returned v \<longleftrightarrow>
       (\<exists>c consume w'. send sub w = (Inr (200, consume), w') \<and> c \<in> set (reader op) \<and> status_code c = 200 \<and>
          fst (consume (payload_type c)) = v \<and> snd (consume (payload_type c)) \<in> {None, Some EOF}))"
  by (rule call_outcome [OF assms(1) api_operations_ok [OF assms(2)] assms(3,4)])

theorem operation_outcome_witness:
  "fst (client_call test_lib submit_list ListUniverses_Operation (Some no_name) () [] 0) = Returned [''u1'']"
  by (rule iffD2 [OF conjunct2 [OF operation_outcome [OF submit_list_delivers ListUniverses_is_operation _ refl]]])
     (simp_all add: answers_list_def ListUniverses_parts ListUniverses_Reader_def)

lemma UniverseManagement_package: "(UniverseManagement, universe_management_operations) \<in> set api_packages"
  by (simp add: api_packages_def)

lemma ListUniverses_in_package: "ListUniverses_Operation \<in> set universe_management_operations"
  by (simp add: universe_management_operations_def)

lemma list_call: "client_call test_lib submit_list ListUniverses_Operation (Some no_name) () [] 0 = (Returned [''u1''], 1)"
  by (simp add: client_call_def submit_list_def answers_list_def operation_of_def ListUniverses_Operation_def
      ListUniverses_Reader_def)

text \<open>\<open>SetTransport\<close> reaches every package of the client and leaves its formats alone: afterwards each of the 214
  operations, called through the package it belongs to, is submitted on the new transport. And a new client is
  already on one transport, the one it was given.\<close>

theorem one_transport:
  fixes c :: "(('a, 'c, 'h, 'm, 'v, 'w) transport, 'f) YugabyteDBAnywhereAPIs"
  assumes "(g, ops) \<in> set api_packages" "op \<in> set (ops :: 'm operation list)"
  shows "package_call lib (g (SetTransport_apis t c)) op ps auth opts w = client_call lib t op ps auth opts w \<and>
    formats (g (SetTransport_apis t c)) = formats (g c) \<and>
    package_call lib (g (New_apis df t fs)) op ps auth opts w = client_call lib t op ps auth opts w"
proof -
  have "transport (g (SetTransport_apis t c)) = t \<and> formats (g (SetTransport_apis t c)) = formats (g c)"
    using bspec [OF SetTransport_apis_transport assms(1), of t c] by simp
  moreover have "transport (g (New_apis df t fs)) = t"
    using bspec [OF New_apis_transport assms(1), of df t fs] by simp
  ultimately show ?thesis by (simp add: package_call_def)
qed

theorem one_transport_witness:
  "package_call test_lib (UniverseManagement (SetTransport_apis submit_list (New_apis () (\<lambda>sub w. (Inl (APIError 500), w)) None)))
     ListUniverses_Operation (Some no_name) () [] 0 = (Returned [''u1''], 1)"
  by (rule trans [OF conjunct1 [OF one_transport [OF UniverseManagement_package ListUniverses_in_package]] list_call])

end
