(* ===== verification/YWRequests.thy ===== *)
theory YWRequests
  imports SwaggerClient YWUniverse
begin

section \<open>The requests of the commands\<close>

text \<open>
  What the commands of \<open>yugaware-client\<close> hand to the generated client: the parameters each of them builds, and
  the functions of \<open>yw_env\<close> and \<open>universe_api\<close>, which the theories of the commands leave open, filled with calls
  of the generated operations. A \<open>platform\<close> is the library, the transport and the reading of payloads; contexts and
  sessions are type parameters.
\<close>

subsection \<open>Parameters\<close>

text \<open>The lookups of \<open>pkg/client/api.go\<close> and \<open>client.go\<close>, and the poll of \<open>WaitForTaskCompletion\<close>.\<close>

definition universes_params :: "swagger_lib \<Rightarrow> string \<Rightarrow> ('c, 'h, 'm) params" where
  "universes_params lib cUUID = set_field ''CUUID'' (UUID cUUID) (new_params lib ListUniverses_Params)"

definition certificates_params :: "swagger_lib \<Rightarrow> string \<Rightarrow> ('c, 'h, 'm) params" where
  "certificates_params lib cUUID = set_field ''CUUID'' (UUID cUUID) (new_params lib GetListOfCertificate_Params)"

definition configs_params :: "swagger_lib \<Rightarrow> string \<Rightarrow> ('c, 'h, 'm) params" where
  "configs_params lib cUUID = set_field ''CUUID'' (UUID cUUID) (new_params lib GetListOfCustomerConfig_Params)"

definition providers_params :: "swagger_lib \<Rightarrow> string \<Rightarrow> ('c, 'h, 'm) params" where
  "providers_params lib cUUID = set_field ''CUUID'' (UUID cUUID) (new_params lib GetListOfProviders_Params)"

definition session_params :: "swagger_lib \<Rightarrow> ('c, 'h, 'm) params" where
  "session_params lib = new_params lib GetSessionInfo_Params"

definition tasks_params :: "swagger_lib \<Rightarrow> string \<Rightarrow> ('c, 'h, 'm) params" where
  "tasks_params lib cUUID = set_field ''CUUID'' (UUID cUUID) (new_params lib TasksList_Params)"

text \<open>Universe commands. The parameters of a deletion start from the defaults of the API; so do those of a health check,
  whose struct has none.\<close>

definition list_universes_params :: "swagger_lib \<Rightarrow> 'c \<Rightarrow> string \<Rightarrow> ('c, 'h, 'm) params" where
  "list_universes_params lib ctx cUUID =
     set_field ''CUUID'' (UUID cUUID) (with_context ctx (new_params lib ListUniverses_Params))"

definition health_params :: "swagger_lib \<Rightarrow> string \<Rightarrow> string \<Rightarrow> ('c, 'h, 'm) params" where
  "health_params lib cUUID uniUUID =
     set_field ''UniUUID'' (UUID uniUUID) (set_field ''CUUID'' (UUID cUUID)
       (set_defaults HealthCheckUniverse_Params (new_params lib HealthCheckUniverse_Params)))"

definition GetUniverseDeleteParams :: "swagger_lib \<Rightarrow> string \<Rightarrow> string \<Rightarrow> bool \<Rightarrow> bool \<Rightarrow> ('c, 'h, 'm) params" where
  "GetUniverseDeleteParams lib cUUID uniUUID force deleteBackups =
     set_field ''IsDeleteBackups'' (Address (Truth deleteBackups)) (set_field ''IsForceDelete'' (Address (Truth force))
       (set_field ''UniUUID'' (UUID uniUUID) (set_field ''CUUID'' (UUID cUUID)
         (set_defaults DeleteUniverse_Params (new_params lib DeleteUniverse_Params)))))"

definition create_providers_params :: "swagger_lib \<Rightarrow> 'c \<Rightarrow> string \<Rightarrow> ('c, 'h, 'm) params" where
  "create_providers_params lib ctx cUUID =
     set_field ''CUUID'' (UUID cUUID) (with_context ctx (new_params lib GetListOfProviders_Params))"

definition regions_params :: "swagger_lib \<Rightarrow> 'c \<Rightarrow> string \<Rightarrow> string \<Rightarrow> ('c, 'h, 'm) params" where
  "regions_params lib ctx cUUID pUUID =
     set_field ''PUUID'' (UUID pUUID) (set_field ''CUUID'' (UUID cUUID)
       (with_context ctx (new_params lib GetRegion_Params)))"

definition instance_types_params :: "swagger_lib \<Rightarrow> 'c \<Rightarrow> string \<Rightarrow> string \<Rightarrow> ('c, 'h, 'm) params" where
  "instance_types_params lib ctx cUUID pUUID =
     set_field ''PUUID'' (UUID pUUID) (set_field ''CUUID'' (UUID cUUID)
       (with_context ctx (new_params lib ListOfInstanceType_Params)))"

definition releases_params :: "swagger_lib \<Rightarrow> 'c \<Rightarrow> string \<Rightarrow> ('c, 'h, 'm) params" where
  "releases_params lib ctx cUUID =
     set_field ''IncludeMetadata'' (Address (Truth True)) (set_field ''CUUID'' (UUID cUUID)
       (with_context ctx (new_params lib GetListOfReleases_Params)))"

definition app_version_params :: "swagger_lib \<Rightarrow> ('c, 'h, 'm) params" where
  "app_version_params lib = set_defaults AppVersion_Params (new_params lib AppVersion_Params)"

definition access_keys_params :: "swagger_lib \<Rightarrow> 'c \<Rightarrow> string \<Rightarrow> string \<Rightarrow> ('c, 'h, 'm) params" where
  "access_keys_params lib ctx cUUID pUUID =
     set_field ''PUUID'' (UUID pUUID) (set_field ''CUUID'' (UUID cUUID)
       (with_context ctx (new_params lib List_Params)))"

definition create_universe_params :: "swagger_lib \<Rightarrow> 'c \<Rightarrow> string \<Rightarrow> 'm \<Rightarrow> ('c, 'h, 'm) params" where
  "create_universe_params lib ctx cUUID clusters =
     set_field ''UniverseConfigureTaskParams'' (Address (Object clusters)) (set_field ''CUUID'' (UUID cUUID)
       (with_context ctx (new_params lib CreateAllClusters_Params)))"

text \<open>Backup commands.\<close>

definition list_backups_params :: "swagger_lib \<Rightarrow> string \<Rightarrow> string \<Rightarrow> ('c, 'h, 'm) params" where
  "list_backups_params lib cUUID uniUUID =
     set_field ''UniUUID'' (UUID uniUUID) (set_field ''CUUID'' (UUID cUUID) (new_params lib ListOfBackups_Params))"

definition backup_params :: "swagger_lib \<Rightarrow> string \<Rightarrow> string \<Rightarrow> ('c, 'h, 'm) params" where
  "backup_params lib cUUID backup =
     set_field ''BackupUUID'' (UUID backup) (set_field ''CUUID'' (UUID cUUID) (new_params lib GetBackupV2_Params))"

definition tables_params :: "swagger_lib \<Rightarrow> string \<Rightarrow> string \<Rightarrow> ('c, 'h, 'm) params" where
  "tables_params lib cUUID uniUUID =
     set_field ''UniUUID'' (UUID uniUUID) (set_field ''CUUID'' (UUID cUUID) (new_params lib GetAllTables_Params))"

definition restore_params :: "swagger_lib \<Rightarrow> string \<Rightarrow> 'm \<Rightarrow> ('c, 'h, 'm) params" where
  "restore_params lib cUUID body =
     set_field ''Backup'' (Address (Object body)) (set_field ''CUUID'' (UUID cUUID) (new_params lib RestoreBackupV2_Params))"

definition create_backup_params :: "swagger_lib \<Rightarrow> string \<Rightarrow> string \<Rightarrow> 'm \<Rightarrow> ('c, 'h, 'm) params" where
  "create_backup_params lib cUUID uniUUID body =
     set_field ''TableBackup'' (Address (Object body)) (set_field ''UniUUID'' (UUID uniUUID)
       (set_field ''CUUID'' (UUID cUUID) (new_params lib CreateMultiTableBackup_Params)))"

definition fetch_backups_params :: "swagger_lib \<Rightarrow> string \<Rightarrow> string \<Rightarrow> string \<Rightarrow> ('c, 'h, 'm) params" where
  "fetch_backups_params lib cUUID uniUUID task =
     set_field ''TUUID'' (UUID task) (set_field ''UniUUID'' (UUID uniUUID) (set_field ''CUUID'' (UUID cUUID)
       (new_params lib FetchBackupsByTaskUUID_Params)))"

text \<open>Providers, storage, certificates and sessions. Registering a Kubernetes provider asks for the providers with a
  struct of its own, which has no timeout.\<close>

definition kubernetes_providers_params :: "'c \<Rightarrow> 'h \<Rightarrow> string \<Rightarrow> ('c, 'h, 'm) params" where
  "kubernetes_providers_params ctx client cUUID =
     \<lparr>timeout = 0, Context = Some ctx, HTTPClient = Some client,
      fields_of = (zero_fields GetListOfProviders_Params)(''CUUID'' := UUID cUUID)\<rparr>"

definition create_provider_params :: "swagger_lib \<Rightarrow> string \<Rightarrow> 'm \<Rightarrow> ('c, 'h, 'm) params" where
  "create_provider_params lib cUUID body =
     set_field ''CreateProviderRequest'' (Address (Object body)) (set_field ''CUUID'' (UUID cUUID)
       (new_params lib CreateProviders_Params))"

definition create_config_params :: "swagger_lib \<Rightarrow> string \<Rightarrow> 'm \<Rightarrow> ('c, 'h, 'm) params" where
  "create_config_params lib cUUID body =
     set_field ''Config'' (Address (Object body)) (set_field ''CUUID'' (UUID cUUID) (new_params lib CreateCustomerConfig_Params))"

definition root_cert_params :: "swagger_lib \<Rightarrow> string \<Rightarrow> string \<Rightarrow> ('c, 'h, 'm) params" where
  "root_cert_params lib cUUID certificate =
     set_field ''RUUID'' (UUID certificate) (set_field ''CUUID'' (UUID cUUID) (new_params lib GetRootCert_Params))"

definition customer_count_params :: "swagger_lib \<Rightarrow> ('c, 'h, 'm) params" where
  "customer_count_params lib = new_params lib CustomerCount_Params"

definition api_token_params :: "swagger_lib \<Rightarrow> string \<Rightarrow> 'm \<Rightarrow> ('c, 'h, 'm) params" where
  "api_token_params lib cUUID dummy =
     set_field ''Dummy'' (Address (Object dummy)) (set_field ''CUUID'' (UUID cUUID) (new_params lib GenerateAPIToken_Params))"

text \<open>The number of lines is a \<open>uint\<close>, cut to an \<open>int32\<close>.\<close>

definition logs_params :: "swagger_lib \<Rightarrow> 64 word \<Rightarrow> ('c, 'h, 'm) params" where
  "logs_params lib lines = set_field ''MaxLines'' (Number (ucast lines)) (new_params lib GetLogs_Params)"

subsection \<open>All requests of the commands\<close>

text \<open>What the requests are made from: the customer, the things the user named, and the bodies.\<close>

record ('c, 'h, 'm) request_data =
  rd_context :: 'c
  rd_session :: 'h
  rd_customer :: string
  rd_universe :: string
  rd_provider :: string
  rd_certificate :: string
  rd_backup :: string
  rd_task :: string
  rd_force :: bool
  rd_delete_backups :: bool
  rd_lines :: "64 word"
  rd_body :: 'm

definition command_requests ::
  "swagger_lib \<Rightarrow> ('c, 'h, 'm) request_data \<Rightarrow> ('m operation \<times> ('c, 'h, 'm) params) list" where
  "command_requests lib d =
     [(ListUniverses_Operation, universes_params lib (rd_customer d)),
      (GetListOfCertificate_Operation, certificates_params lib (rd_customer d)),
      (GetListOfCustomerConfig_Operation, configs_params lib (rd_customer d)),
      (GetListOfProviders_Operation, providers_params lib (rd_customer d)),
      (GetSessionInfo_Operation, session_params lib),
      (TasksList_Operation, tasks_params lib (rd_customer d)),
      (ListUniverses_Operation, list_universes_params lib (rd_context d) (rd_customer d)),
      (HealthCheckUniverse_Operation, health_params lib (rd_customer d) (rd_universe d)),
      (DeleteUniverse_Operation, GetUniverseDeleteParams lib (rd_customer d) (rd_universe d) (rd_force d) (rd_delete_backups d)),
      (GetListOfProviders_Operation, create_providers_params lib (rd_context d) (rd_customer d)),
      (GetRegion_Operation, regions_params lib (rd_context d) (rd_customer d) (rd_provider d)),
      (ListOfInstanceType_Operation, instance_types_params lib (rd_context d) (rd_customer d) (rd_provider d)),
      (GetListOfReleases_Operation, releases_params lib (rd_context d) (rd_customer d)),
      (AppVersion_Operation, app_version_params lib),
      (List_Operation, access_keys_params lib (rd_context d) (rd_customer d) (rd_provider d)),
      (CreateAllClusters_Operation, create_universe_params lib (rd_context d) (rd_customer d) (rd_body d)),
      (ListOfBackups_Operation, list_backups_params lib (rd_customer d) (rd_universe d)),
      (GetBackupV2_Operation, backup_params lib (rd_customer d) (rd_backup d)),
      (GetAllTables_Operation, tables_params lib (rd_customer d) (rd_universe d)),
      (RestoreBackupV2_Operation, restore_params lib (rd_customer d) (rd_body d)),
      (CreateMultiTableBackup_Operation, create_backup_params lib (rd_customer d) (rd_universe d) (rd_body d)),
      (FetchBackupsByTaskUUID_Operation, fetch_backups_params lib (rd_customer d) (rd_universe d) (rd_task d)),
      (GetListOfProviders_Operation, kubernetes_providers_params (rd_context d) (rd_session d) (rd_customer d)),
      (CreateProviders_Operation, create_provider_params lib (rd_customer d) (rd_body d)),
      (CreateCustomerConfig_Operation, create_config_params lib (rd_customer d) (rd_body d)),
      (GetRootCert_Operation, root_cert_params lib (rd_customer d) (rd_certificate d)),
      (CustomerCount_Operation, customer_count_params lib),
      (GenerateAPIToken_Operation, api_token_params lib (rd_customer d) (rd_body d)),
      (GetLogs_Operation, logs_params lib (rd_lines d))]"

lemmas params_defs =
  universes_params_def certificates_params_def configs_params_def providers_params_def session_params_def
  tasks_params_def list_universes_params_def health_params_def GetUniverseDeleteParams_def create_providers_params_def
  regions_params_def instance_types_params_def releases_params_def app_version_params_def access_keys_params_def
  create_universe_params_def list_backups_params_def backup_params_def tables_params_def restore_params_def
  create_backup_params_def fetch_backups_params_def kubernetes_providers_params_def create_provider_params_def
  create_config_params_def root_cert_params_def customer_count_params_def api_token_params_def logs_params_def

lemmas used_operations =
  ListUniverses_Operation_def ListUniverses_Params_def ListUniverses_WriteToRequest_def
  GetListOfCertificate_Operation_def GetListOfCertificate_Params_def GetListOfCertificate_WriteToRequest_def
  GetListOfCustomerConfig_Operation_def GetListOfCustomerConfig_Params_def GetListOfCustomerConfig_WriteToRequest_def
  GetListOfProviders_Operation_def GetListOfProviders_Params_def GetListOfProviders_WriteToRequest_def
  GetSessionInfo_Operation_def GetSessionInfo_Params_def GetSessionInfo_WriteToRequest_def
  TasksList_Operation_def TasksList_Params_def TasksList_WriteToRequest_def
  HealthCheckUniverse_Operation_def HealthCheckUniverse_Params_def HealthCheckUniverse_WriteToRequest_def
  DeleteUniverse_Operation_def DeleteUniverse_Params_def DeleteUniverse_WriteToRequest_def
  GetRegion_Operation_def GetRegion_Params_def GetRegion_WriteToRequest_def
  ListOfInstanceType_Operation_def ListOfInstanceType_Params_def ListOfInstanceType_WriteToRequest_def
  GetListOfReleases_Operation_def GetListOfReleases_Params_def GetListOfReleases_WriteToRequest_def
  AppVersion_Operation_def AppVersion_Params_def AppVersion_WriteToRequest_def
  List_Operation_def List_Params_def List_WriteToRequest_def
  CreateAllClusters_Operation_def CreateAllClusters_Params_def CreateAllClusters_WriteToRequest_def
  ListOfBackups_Operation_def ListOfBackups_Params_def ListOfBackups_WriteToRequest_def
  GetBackupV2_Operation_def GetBackupV2_Params_def GetBackupV2_WriteToRequest_def
  GetAllTables_Operation_def GetAllTables_Params_def GetAllTables_WriteToRequest_def
  RestoreBackupV2_Operation_def RestoreBackupV2_Params_def RestoreBackupV2_WriteToRequest_def
  CreateMultiTableBackup_Operation_def CreateMultiTableBackup_Params_def CreateMultiTableBackup_WriteToRequest_def
  FetchBackupsByTaskUUID_Operation_def FetchBackupsByTaskUUID_Params_def FetchBackupsByTaskUUID_WriteToRequest_def
  CreateProviders_Operation_def CreateProviders_Params_def CreateProviders_WriteToRequest_def
  CreateCustomerConfig_Operation_def CreateCustomerConfig_Params_def CreateCustomerConfig_WriteToRequest_def
  GetRootCert_Operation_def GetRootCert_Params_def GetRootCert_WriteToRequest_def
  CustomerCount_Operation_def CustomerCount_Params_def CustomerCount_WriteToRequest_def
  GenerateAPIToken_Operation_def GenerateAPIToken_Params_def GenerateAPIToken_WriteToRequest_def
  GetLogs_Operation_def GetLogs_Params_def GetLogs_WriteToRequest_def

text \<open>The identifiers are not empty, and the library writes none of them, nor a number, as the empty text.\<close>

definition named :: "swagger_lib \<Rightarrow> ('c, 'h, 'm) request_data \<Rightarrow> bool" where
  "named lib d \<longleftrightarrow>
     (\<forall>u \<in> {rd_customer d, rd_universe d, rd_provider d, rd_certificate d, rd_backup d, rd_task d}. uuid_string lib u \<noteq> []) \<and>
     (\<forall>n. format_int32 lib n \<noteq> [])"

definition path_filled :: "swagger_lib \<Rightarrow> 'm operation \<Rightarrow> ('c, 'h, 'm) params \<Rightarrow> bool" where
  "path_filled lib op p \<longleftrightarrow>
     list_all (\<lambda>s. case s of PathParam k n \<Rightarrow> format_value lib (fields_of p n) \<noteq> [] | _ \<Rightarrow> True) (writes op)"

lemmas build_simps =
  set_field_def new_params_def with_context_def set_defaults_def zero_fields_def well_typed_def path_filled_def

lemma command_requests_built:
  assumes "named lib d"
  shows "\<forall>(op, p) \<in> set (command_requests lib d). well_typed (param_struct_of op) p \<and> path_filled lib op p"
  using assms unfolding command_requests_def by (simp add: params_defs; simp add: used_operations build_simps named_def)

lemma command_operations:
  "\<forall>(op, p) \<in> set (command_requests lib d). op \<in> set api_operations"
  by (simp add: command_requests_def api_operations_def universe_management_operations_def
      certificate_info_operations_def customer_configuration_operations_def cloud_providers_operations_def
      session_management_operations_def customer_tasks_operations_def universe_information_operations_def
      region_management_operations_def instance_types_operations_def release_management_operations_def
      access_keys_operations_def universe_cluster_mutations_operations_def backups_operations_def
      table_management_operations_def)

lemma path_filled_recorded:
  assumes "path_filled lib op p" "SetPath k v \<in> set (recorded lib (writes op) p)"
  shows "v \<noteq> []"
proof -
  obtain s where s: "s \<in> set (writes op)" "SetPath k v \<in> set (calls_of lib p s)"
    using assms(2) by (auto simp: recorded_eq)
  have "case s of PathParam k n \<Rightarrow> format_value lib (fields_of p n) \<noteq> [] | _ \<Rightarrow> True"
    using assms(1) s(1) by (simp add: path_filled_def list_all_iff)
  then show ?thesis using s(2) by (cases s) (simp_all split: option.splits if_splits)
qed

definition test_data :: "(string, unit, unit) request_data" where
  "test_data =
     \<lparr>rd_context = ''ctx'', rd_session = (), rd_customer = ''c'', rd_universe = ''u'', rd_provider = ''p'', rd_certificate = ''r'',
      rd_backup = ''b'', rd_task = ''t'', rd_force = True, rd_delete_backups = False, rd_lines = 50, rd_body = ()\<rparr>"

text \<open>The library of the examples, with a text for every number.\<close>

definition named_lib :: swagger_lib where
  "named_lib = test_lib\<lparr>format_int32 := (\<lambda>n. ''n'')\<rparr>"

text \<open>C35: Every request the commands of \<open>yugaware-client\<close> build calls one of the 214 operations with parameters of the
  types its struct declares, and when the customer and the things the user named have identifiers, no part of its path
  is empty: no command sends a request whose path parameters were left out or reset by \<open>WithDefaults\<close>.\<close>

theorem command_requests_complete:
  assumes "named lib d" "(op, p) \<in> set (command_requests lib d)"
  shows "op \<in> set api_operations \<and> well_typed (param_struct_of op) p \<and>
    (\<forall>k v. SetPath k v \<in> set (recorded lib (writes op) p) \<longrightarrow> v \<noteq> [])"
proof -
  have "op \<in> set api_operations" using bspec [OF command_operations assms(2)] by simp
  moreover have "well_typed (param_struct_of op) p \<and> path_filled lib op p"
    using bspec [OF command_requests_built [OF assms(1)] assms(2)] by simp
  ultimately show ?thesis using path_filled_recorded by blast
qed

lemma test_data_named: "named named_lib test_data"
  by (simp add: named_def named_lib_def test_lib_def test_data_def)

theorem command_requests_complete_witness:
  "well_typed (param_struct_of DeleteUniverse_Operation)
     (GetUniverseDeleteParams named_lib ''c'' ''u'' True False :: (string, unit, unit) params)"
proof -
  have "(DeleteUniverse_Operation, GetUniverseDeleteParams named_lib ''c'' ''u'' True False)
      \<in> set (command_requests named_lib test_data)"
    by (simp add: command_requests_def test_data_def)
  from conjunct1 [OF conjunct2 [OF command_requests_complete [OF test_data_named this]]] show ?thesis .
qed

subsection \<open>The commands on the generated client\<close>

text \<open>
  A platform is what the generated operations run on, with the reading of their payloads. \<open>settle\<close> is the
  \<open>if err != nil { return err }\<close> after a call and the \<open>GetPayload\<close> of its result.
\<close>

record ('h, 'm, 'v, 'w) platform =
  pf_lib :: swagger_lib
  pf_submit :: "(headers, string, 'h, 'm, 'v, 'w) transport"
  pf_error :: "'v api_error \<Rightarrow> goerror"
  pf_universes :: "'v \<Rightarrow> UniverseResp list"
  pf_certificates :: "'v \<Rightarrow> CertificateInfo list"
  pf_configs :: "'v \<Rightarrow> CustomerConfigUI list"
  pf_providers :: "'v \<Rightarrow> ProviderResp list"
  pf_tasks :: "'v \<Rightarrow> task_data list"
  pf_session :: "'v \<Rightarrow> string \<times> string"
  pf_task :: "'v \<Rightarrow> YBPTask"

fun settle :: "('v api_error \<Rightarrow> goerror) \<Rightarrow> ('v \<Rightarrow> 'a) \<Rightarrow> 'v call_result \<times> 'w \<Rightarrow> 'a res \<times> 'w" where
  "settle err payload (Returned v, w) = (Ok (payload v), w)"
| "settle err payload (call_result.Failed e, w) = (Error (err e), w)"
| "settle err payload (call_result.Crashed m, w) = (Panic m, w)"

definition platform_env :: "('h, 'm, 'v, 'w) platform \<Rightarrow> 'w yw_env \<Rightarrow> 'w yw_env" where
  "platform_env pf env = env
     \<lparr>session_info := (\<lambda>auth w. settle (pf_error pf) (pf_session pf)
        (client_call (pf_lib pf) (pf_submit pf) GetSessionInfo_Operation (Some (session_params (pf_lib pf))) auth [] w)),
      list_universes := (\<lambda>auth c w. settle (pf_error pf) (pf_universes pf)
        (client_call (pf_lib pf) (pf_submit pf) ListUniverses_Operation (Some (universes_params (pf_lib pf) c)) auth [] w)),
      list_certificates := (\<lambda>auth c w. settle (pf_error pf) (pf_certificates pf)
        (client_call (pf_lib pf) (pf_submit pf) GetListOfCertificate_Operation (Some (certificates_params (pf_lib pf) c)) auth [] w)),
      list_configs := (\<lambda>auth c w. settle (pf_error pf) (pf_configs pf)
        (client_call (pf_lib pf) (pf_submit pf) GetListOfCustomerConfig_Operation (Some (configs_params (pf_lib pf) c)) auth [] w)),
      list_providers := (\<lambda>auth c w. settle (pf_error pf) (pf_providers pf)
        (client_call (pf_lib pf) (pf_submit pf) GetListOfProviders_Operation (Some (providers_params (pf_lib pf) c)) auth [] w)),
      list_tasks := (\<lambda>auth c w. settle (pf_error pf) (pf_tasks pf)
        (client_call (pf_lib pf) (pf_submit pf) TasksList_Operation (Some (tasks_params (pf_lib pf) c)) auth [] w))\<rparr>"

definition platform_universe_api :: "('h, 'm, 'v, 'w) platform \<Rightarrow> 'w universe_api \<Rightarrow> 'w universe_api" where
  "platform_universe_api pf api = api
     \<lparr>delete_universe := (\<lambda>u force deleteBackups auth c w. settle (pf_error pf) (pf_task pf)
        (client_call (pf_lib pf) (pf_submit pf) DeleteUniverse_Operation
          (Some (GetUniverseDeleteParams (pf_lib pf) c u force deleteBackups)) auth [] w))\<rparr>"

text \<open>A transport that keeps a log of what was submitted, around any other.\<close>

definition logged ::
  "('a, 'c, 'h, 'm, 'v, 'w) transport \<Rightarrow>
     ('a, 'c, 'h, 'm, 'v, 'w \<times> ('a, 'c, 'h, 'm) submission list) transport" where
  "logged submit sub w = (case submit sub (fst w) of (r, w') \<Rightarrow> (r, (w', snd w @ [sub])))"

definition deletion :: "('a, 'c, 'h, 'm) submission \<Rightarrow> bool" where
  "deletion sub \<longleftrightarrow> Method sub = ''DELETE''"

lemma delete_request_recorded:
  "recorded lib DeleteUniverse_WriteToRequest (GetUniverseDeleteParams lib c u force bk) =
     [SetTimeout (default_timeout lib), SetPath ''cUUID'' (uuid_string lib c)] @
     (if format_bool lib False = [] then [] else [SetQuery ''isDeleteAssociatedCerts'' [format_bool lib False]]) @
     (if format_bool lib bk = [] then [] else [SetQuery ''isDeleteBackups'' [format_bool lib bk]]) @
     (if format_bool lib force = [] then [] else [SetQuery ''isForceDelete'' [format_bool lib force]]) @
     [SetPath ''uniUUID'' (uuid_string lib u)]"
  by (simp add: recorded_eq DeleteUniverse_WriteToRequest_def GetUniverseDeleteParams_def DeleteUniverse_Params_def build_simps)

lemma settle_state: "snd (settle err f x) = snd x"
  by (cases x; cases "fst x") auto

lemma logged_call:
  "snd (snd (client_call lib (logged submit) op ps auth [] st)) =
     snd st @ [operation_of op (case ps of Some p \<Rightarrow> p | None \<Rightarrow> new_params lib (param_struct_of op)) auth]"
  by (cases "submit (operation_of op (case ps of Some p \<Rightarrow> p | None \<Rightarrow> new_params lib (param_struct_of op)) auth) (fst st)")
    (simp add: client_call_def logged_def Let_def split: sum.split reply.split)

lemma validate_log:
  assumes "validateUniverseIdentifier (platform_env pf env) c opts st = (Ok opts', st')" "pf_submit pf = logged submit"
  obtains u where "universe opts' = Some u" "opts' = opts\<lparr>universe := Some u\<rparr>"
    "UniverseName u = UniverseIdentifier opts \<or> UniverseUUID u = to_lower (UniverseIdentifier opts)"
    "filter deletion (snd st') = filter deletion (snd st)"
proof -
  have "\<exists>u. GetUniverseByIdentifier (platform_env pf env) c (UniverseIdentifier opts) st = (Ok (Some u), st') \<and>
      opts' = opts\<lparr>universe := Some u\<rparr>"
    using assms(1) by (auto simp: validateUniverseIdentifier_def Let_def andThen_eq_Ok split: if_splits option.splits)
  then obtain u where u: "GetUniverseByIdentifier (platform_env pf env) c (UniverseIdentifier opts) st = (Ok (Some u), st')"
    "opts' = opts\<lparr>universe := Some u\<rparr>" by blast
  obtain xs where xs: "platform_call c (list_universes (platform_env pf env)) st = (Ok xs, st')"
    "find (\<lambda>u. UniverseName u = UniverseIdentifier opts \<or> UniverseUUID u = to_lower (UniverseIdentifier opts)) xs = Some u"
    using u(1) by (auto simp: GetUniverseByIdentifier_def andThen_eq_Ok)
  obtain auth where "SwaggerAuth c = Ok auth" "list_universes (platform_env pf env) auth (customerUUID c) st = (Ok xs, st')"
    using xs(1) by (auto simp: platform_call_def andThen_eq_Ok)
  then have "st' = snd (client_call (pf_lib pf) (logged submit) ListUniverses_Operation
      (Some (universes_params (pf_lib pf) (customerUUID c))) auth [] st)"
    using assms(2) settle_state by (metis (no_types, lifting) platform_env_def snd_conv yw_env.select_convs yw_env.surjective yw_env.update_convs)
  then have "snd st' = snd st @ [operation_of ListUniverses_Operation (universes_params (pf_lib pf) (customerUUID c)) auth]"
    by (simp add: logged_call)
  moreover have "\<not> deletion (operation_of ListUniverses_Operation p auth)" for p :: "(string, 'b, 'c) params"
    by (simp add: deletion_def operation_of_def ListUniverses_Operation_def)
  ultimately have "filter deletion (snd st') = filter deletion (snd st)" by simp
  then show thesis using that u xs(2) by (auto simp: find_Some_iff)
qed

text \<open>What a deletion of a universe sends.\<close>

definition delete_request ::
  "swagger_lib \<Rightarrow> string \<Rightarrow> string \<Rightarrow> bool \<Rightarrow> bool \<Rightarrow> headers \<Rightarrow> (headers, string, 'h, 'm) submission" where
  "delete_request lib c u force deleteBackups auth =
     operation_of DeleteUniverse_Operation (GetUniverseDeleteParams lib c u force deleteBackups) auth"

lemma delete_step_log:
  assumes "deleteUniverse env (platform_universe_api pf api) pr cancelled read_line out c opts st = Some (r, st')"
    and "pf_submit pf = logged submit" "universe opts = Some u" "\<not> DeleteWait opts"
    and "\<And>s. snd (snd (read_line s)) = snd s"
  shows "(snd st' = snd st \<and> \<not> is_ok r) \<or>
    (\<exists>auth. SwaggerAuth c = Ok auth \<and>
      snd st' = snd st @ [delete_request (pf_lib pf) (customerUUID c) (UniverseUUID u) (Force opts) (DeleteBackups opts) auth])"
proof -
  define consent where "consent =
    (if Approve opts then (Ok (), st) else (case read_line st of (line, w1) \<Rightarrow> (ConfirmationDialog line, w1)))"
  obtain a st1 where consent: "consent = (a, st1)" by (cases consent)
  have st1: "snd st1 = snd st"
    using consent assms(5) [of st] by (auto simp: consent_def split: if_splits prod.splits)
  define call where "call auth = client_call (pf_lib pf) (logged submit) DeleteUniverse_Operation
    (Some (GetUniverseDeleteParams (pf_lib pf) (customerUUID c) (UniverseUUID u) (Force opts) (DeleteBackups opts))) auth [] st1"
    for auth
  have call_log: "snd (snd (call auth)) = snd st @
      [delete_request (pf_lib pf) (customerUUID c) (UniverseUUID u) (Force opts) (DeleteBackups opts) auth]" for auth
    by (simp add: call_def logged_call delete_request_def st1)
  have run: "(case andThen consent (\<lambda>_ w. andThen (SwaggerAuth c, w) (\<lambda>auth w.
        settle (pf_error pf) (pf_task pf) (client_call (pf_lib pf) (logged submit) DeleteUniverse_Operation
          (Some (GetUniverseDeleteParams (pf_lib pf) (customerUUID c) (UniverseUUID u) (Force opts) (DeleteBackups opts))) auth [] w))) of
      (Error e, w1) \<Rightarrow> Some (Error e, w1)
    | (Panic p, w1) \<Rightarrow> Some (Panic p, w1)
    | (Ok task, w1) \<Rightarrow> map_option (\<lambda>r. andThen r (\<lambda>_ w.
          (Print pr (task_output (json_of_task (platform_universe_api pf api) task) ''Universe Deleted'' out), w)))
        (wait_then env cancelled c (DeleteWait opts) task w1)) = Some (r, st')"
    using assms(1-4) unfolding deleteUniverse_def consent_def [symmetric]
    by (simp add: platform_call_def [abs_def] platform_universe_api_def deref_def)
  show ?thesis
  proof (cases "\<exists>auth. a = Ok () \<and> SwaggerAuth c = Ok auth")
    case True
    then obtain auth where ok: "a = Ok ()" "SwaggerAuth c = Ok auth" by blast
    have "snd st' = snd (snd (call auth))"
      using run settle_state [of "pf_error pf" "pf_task pf" "call auth"]
      by (auto simp: consent ok call_def wait_then_def assms(4) split: prod.splits res.splits)
    then show ?thesis using ok(2) call_log by auto
  next
    case False
    then show ?thesis
      using run st1 by (cases a; cases "SwaggerAuth c") (auto simp: consent)
  qed
qed

text \<open>The calls that make up the one deletion request: the two identifiers in the path and the three flags.\<close>

definition delete_calls :: "swagger_lib \<Rightarrow> string \<Rightarrow> string \<Rightarrow> bool \<Rightarrow> bool \<Rightarrow> 'm request_call list" where
  "delete_calls lib c u force deleteBackups =
     [SetTimeout (default_timeout lib), SetPath ''cUUID'' (uuid_string lib c)] @
     concat (map (\<lambda>(k, b). if format_bool lib b = [] then [] else [SetQuery k [format_bool lib b]])
       [(''isDeleteAssociatedCerts'', False), (''isDeleteBackups'', deleteBackups), (''isForceDelete'', force)]) @
     [SetPath ''uniUUID'' (uuid_string lib u)]"

lemma delete_request_calls:
  "recorded lib (fst (Params (delete_request lib c u force bk auth))) (snd (Params (delete_request lib c u force bk auth))) =
     delete_calls lib c u force bk"
  by (simp add: delete_request_def operation_of_def recorded_eq delete_calls_def used_operations GetUniverseDeleteParams_def build_simps)

text \<open>At most one deletion was added to the log, of a universe with the name or the identifier the user gave and with the
  user's flags; and one was added if the command succeeded.\<close>

definition deleted_as_told ::
  "swagger_lib \<Rightarrow> YugawareClient \<Rightarrow> DeleteOptions \<Rightarrow> (headers, string, 'h, 'm) submission list \<Rightarrow>
     (headers, string, 'h, 'm) submission list \<Rightarrow> bool \<Rightarrow> bool" where
  "deleted_as_told lib c opts log log' success \<longleftrightarrow>
     (filter deletion log' = filter deletion log \<and> \<not> success) \<or>
     (\<exists>(u :: UniverseResp) sub. (UniverseName u = UniverseIdentifier opts \<or> UniverseUUID u = to_lower (UniverseIdentifier opts)) \<and>
        filter deletion log' = filter deletion log @ [sub] \<and>
        PathPattern sub = ''/api/v1/customers/{cUUID}/universes/{uniUUID}'' \<and>
        recorded lib (fst (Params sub)) (snd (Params sub)) =
          delete_calls lib (customerUUID c) (UniverseUUID u) (Force opts) (DeleteBackups opts))"


text \<open>A platform with one universe, that deletes what it is told to.\<close>

definition test_platform :: "(unit, unit, UniverseResp list, unit \<times> (headers, string, unit, unit) submission list) platform" where
  "test_platform =
     \<lparr>pf_lib = test_lib,
      pf_submit = logged (\<lambda>sub w. received (Reader sub)
        (Inr (200, \<lambda>t. ([\<lparr>UniverseName = ''u1'', UniverseUUID = ''ab'', NodeIsTserver = None\<rparr>], None)), w)),
      pf_error = (\<lambda>e. Err ''failed''), pf_universes = (\<lambda>v. v), pf_certificates = (\<lambda>v. []), pf_configs = (\<lambda>v. []),
      pf_providers = (\<lambda>v. []), pf_tasks = (\<lambda>v. []), pf_session = (\<lambda>v. ([], [])),
      pf_task = (\<lambda>v. \<lparr>TaskUUID = ''t'', ResourceUUID = ''ab''\<rparr>)\<rparr>"

definition test_universes_api :: "(unit \<times> (headers, string, unit, unit) submission list) universe_api" where
  "test_universes_api =
     \<lparr>get_regions = (\<lambda>p h c w. (Ok [], w)), get_instance_types = (\<lambda>p h c w. (Ok [], w)), get_releases = (\<lambda>h c w. (Ok [], w)),
      app_version = (\<lambda>w. (Ok None, w)), get_access_keys = (\<lambda>p h c w. (Ok [], w)),
      create_all_clusters = (\<lambda>i h c w. (Ok \<lparr>TaskUUID = [], ResourceUUID = []\<rparr>, w)),
      delete_universe = (\<lambda>u f b h c w. (Ok \<lparr>TaskUUID = [], ResourceUUID = []\<rparr>, w)), health_checks = (\<lambda>u h c w. (Ok [], w)),
      json_of_task = (\<lambda>t. JNull), json_of_universe = (\<lambda>u. JNull), json_of_nodes = (\<lambda>u. JNull)\<rparr>"

definition test_deletion :: DeleteOptions where
  "test_deletion = delete_flag_defaults\<lparr>UniverseIdentifier := ''u1'', Approve := True, Force := True\<rparr>"

lemma Reader_operation_of: "Reader (operation_of op p auth) = reader op"
  by (simp add: operation_of_def)

lemma test_call:
  assumes "c \<in> set (reader op)" "reader op = [c]" "status_code c = 200" "is_success c" "response_type c = result_type op"
  shows "client_call test_lib (pf_submit test_platform) op (Some p) auth [] ((), log) =
    (Returned [\<lparr>UniverseName = ''u1'', UniverseUUID = ''ab'', NodeIsTserver = None\<rparr>], ((), log @ [operation_of op p auth]))"
  using assms by (simp add: client_call_def test_platform_def logged_def Reader_operation_of)

lemma test_list:
  "client_call test_lib (pf_submit test_platform) ListUniverses_Operation (Some p) auth [] ((), log) =
    (Returned [\<lparr>UniverseName = ''u1'', UniverseUUID = ''ab'', NodeIsTserver = None\<rparr>],
     ((), log @ [operation_of ListUniverses_Operation p auth]))"
  by (rule test_call [of "hd ListUniverses_Reader"])
     (simp_all add: ListUniverses_Operation_def ListUniverses_Reader_def)

lemma test_delete:
  "client_call test_lib (pf_submit test_platform) DeleteUniverse_Operation (Some p) auth [] ((), log) =
    (Returned [\<lparr>UniverseName = ''u1'', UniverseUUID = ''ab'', NodeIsTserver = None\<rparr>],
     ((), log @ [operation_of DeleteUniverse_Operation p auth]))"
  by (rule test_call [of "hd DeleteUniverse_Reader"])
     (simp_all add: DeleteUniverse_Operation_def DeleteUniverse_Reader_def)

lemma test_platform_parts:
  "pf_lib test_platform = test_lib" "pf_universes test_platform v = v"
  by (simp_all add: test_platform_def)

lemma test_validated:
  "\<exists>st1. validateUniverseIdentifier (platform_env test_platform env) test_client test_deletion ((), []) =
     (Ok (test_deletion\<lparr>universe := Some \<lparr>UniverseName = ''u1'', UniverseUUID = ''ab'', NodeIsTserver = None\<rparr>\<rparr>), ((), st1))"
  by (simp add: validateUniverseIdentifier_def GetUniverseByIdentifier_def platform_call_def SwaggerAuth_def test_client_def
      platform_env_def test_list test_platform_parts test_deletion_def Let_def)

lemma test_deleted:
  "\<exists>r st2. deleteUniverse env' (platform_universe_api test_platform test_universes_api) test_printer cancelled
     (\<lambda>s. (Ok [], s)) ''json'' test_client
     (test_deletion\<lparr>universe := Some \<lparr>UniverseName = ''u1'', UniverseUUID = ''ab'', NodeIsTserver = None\<rparr>\<rparr>) ((), log) = Some (r, st2)"
  by (simp add: deleteUniverse_def platform_call_def SwaggerAuth_def test_client_def platform_universe_api_def test_delete
      test_platform_parts test_deletion_def delete_flag_defaults_def wait_then_def deref_def)


end
