(* ===== verification/SwaggerModels.thy ===== *)
theory SwaggerModels
  imports Swagger
begin

section \<open>The models of the API: structs and their validation\<close>

text \<open>
  The package \<open>yugaware-client/pkg/client/swagger/models\<close> holds a file for each struct of the API. The generator writes
  the struct, with what the API promises of each field in the comment above it, a method \<open>Validate\<close> that calls one
  method \<open>validate<Field>\<close> for each field with something to check and collects their errors, and in the same way
  \<open>ContextValidate\<close>. As with the operations, the meaning of that text is given here once, and the theories
  \<open>Models...\<close> hold what the files declare: \<open><Model>_struct\<close> (the fields, their names in JSON, their Go types, their
  documented constraints), \<open><Model>_Validate\<close> and \<open><Model>_ContextValidate\<close> (the fields in the order of the calls, each
  with the statements of its method). The values of an enumeration stand in the statement that tests it.

  The packages \<open>validate\<close>, \<open>errors\<close>, \<open>swag\<close> and \<open>strfmt\<close> are not part of the repository: the record \<open>validators\<close> holds the
  functions the code calls, with errors of any type.
\<close>

subsection \<open>Values\<close>

text \<open>
  A value of a model is a tree: a struct has the name of its type and its fields, a map its entries in the order in which
  \<open>range\<close> meets them. A \<open>strfmt.UUID\<close> is a string, a floating-point number the text that stands for it, and an
  \<open>interface{}\<close> that is not nil holds the JSON value it was read from.
\<close>

datatype json_value =
    JsNull | JsBool bool | JsNumber string | JsString string | JsArray "json_value list"
  | JsObject "(string \<times> json_value) list"

datatype model_value =
    VNil
  | VString string
  | VInt int
  | VFloat string
  | VBool bool
  | VTime string
  | VAny json_value
  | VPtr model_value
  | VList "model_value list"
  | VMap "(string \<times> model_value) list"
  | VStruct string "(string \<times> model_value) list"

definition field_value :: "(string \<times> model_value) list \<Rightarrow> string \<Rightarrow> model_value" where
  "field_value fs n = (case map_of fs n of Some v \<Rightarrow> v | None \<Rightarrow> VNil)"

text \<open>The values on which the validation of a value can call \<open>Validate\<close>: what a pointer refers to, also in the elements of
  a slice, and the structs in a map.\<close>

fun reach :: "model_value \<Rightarrow> model_value set" where
  "reach (VPtr u) = {u}"
| "reach (VList vs) = (\<Union>v \<in> set vs. reach v)"
| "reach (VMap es) = (\<Union>e \<in> set es. reach (snd e))"
| "reach (VStruct M fs) = {VStruct M fs}"
| "reach _ = {}"

lemma item_size: "v \<in> set vs \<Longrightarrow> size v < size (VList vs)"
  by (simp add: less_Suc_eq_le size_list_estimation')

lemma pointer_size: "size v < size (VPtr v)"
  by simp

lemma entry_size: "e \<in> set es \<Longrightarrow> size (snd e) < size (VMap es)"
  using size_list_estimation' [of e es "size (snd e)" "size_prod (\<lambda>_. 0) size"] by (cases e) (simp add: less_Suc_eq_le)

lemma reach_size: "u \<in> reach v \<Longrightarrow> size u \<le> size v"
proof (induction v rule: reach.induct)
  case (2 vs)
  then show ?case using item_size [of _ vs] by fastforce
next
  case (3 es)
  then show ?case using entry_size [of _ es] by fastforce
qed auto

lemma field_value_size: "size (field_value fs n) < size (VStruct M fs)"
proof (cases "map_of fs n")
  case (Some v)
  then show ?thesis using entry_size [of "(n, v)" fs] by (simp add: field_value_def map_of_SomeD)
qed (simp add: field_value_def)

lemma reach_field_size: "u \<in> reach (field_value fs n) \<Longrightarrow> size u < size (VStruct M fs)"
  using reach_size field_value_size le_less_trans by blast

subsection \<open>Structs\<close>

datatype constraint =
    IsRequired | IsReadOnly | IsUnique
  | InEnum "string list" | ItemsIn "string list"
  | HasFormat string
  | MinLen int | MaxLen int
  | MinCount int | MaxCount int
  | AtLeast int

text \<open>A field: its name, the name in JSON, the tag \<open>omitempty\<close>, its type, and the constraints of the comment above it.
  The values of the items of a slice of strings are in no comment, \<open>ItemsIn\<close> takes them from the enumeration in the
  file.\<close>

datatype model_field = Field (go_name: string) (json_name: string) (omit_empty: bool) (field_type: go_type)
  (documented: "constraint list")

type_synonym structs = "string \<Rightarrow> model_field list"

text \<open>A value of a Go type. The fields of a struct have the types of its declaration.\<close>

function typed :: "structs \<Rightarrow> model_value \<Rightarrow> go_type \<Rightarrow> bool" where
  "typed S VNil t = (case t of AnyType \<Rightarrow> True | Pointer _ \<Rightarrow> True | Slice _ \<Rightarrow> True | MapOf _ \<Rightarrow> True | _ \<Rightarrow> False)"
| "typed S (VString s) t = (t = StringType \<or> t = UUIDType)"
| "typed S (VInt i) t =
     (t = Int32Type \<and> - (2 ^ 31) \<le> i \<and> i < 2 ^ 31 \<or> t = Int64Type \<and> - (2 ^ 63) \<le> i \<and> i < 2 ^ 63)"
| "typed S (VFloat x) t = (t = FloatType)"
| "typed S (VBool b) t = (t = BoolType)"
| "typed S (VTime s) t = (t = DateTimeType)"
| "typed S (VAny j) t = (t = AnyType \<and> j \<noteq> JsNull)"
| "typed S (VPtr u) t = (case t of Pointer t' \<Rightarrow> typed S u t' | _ \<Rightarrow> False)"
| "typed S (VList vs) t = (case t of Slice t' \<Rightarrow> \<forall>v \<in> set vs. typed S v t' | _ \<Rightarrow> False)"
| "typed S (VMap es) t = (case t of MapOf t' \<Rightarrow> \<forall>e \<in> set es. typed S (snd e) t' | _ \<Rightarrow> False)"
| "typed S (VStruct M fs) t =
     (t = Model M \<and> (\<forall>f \<in> set (S M). typed S (field_value fs (go_name f)) (field_type f)))"
  by pat_completeness auto
termination
  by (relation "measure (\<lambda>(_, v, _). size v)") (auto simp: field_value_size item_size entry_size pointer_size simp del: model_value.size)

subsection \<open>Validation\<close>

text \<open>
  The statements of the methods \<open>validate<Field>\<close> and \<open>contextValidate<Field>\<close>, each returning on its error. \<open>SkipZero\<close> is
  \<open>if swag.IsZero(...) { return nil }\<close>, or \<open>continue\<close> in a loop. A flag tells that the statement dereferences the field
  itself; \<open>FormatOf\<close> calls the method \<open>String\<close>, which dereferences a pointer too. \<open>Nested\<close> calls the method of the same
  kind of a struct, unless the pointer to it is nil, and puts its own name in front of the error, \<open>NestedBare\<close> leaves
  the error as it is, and \<open>NestedCall\<close>, on a value of an interface type, is \<open>Nested\<close> without the test for nil. \<open>Each\<close> and \<open>EachEntry\<close> are the loops over a slice and a map, in which a name is followed by a
  dot and the index or the key.
\<close>

datatype check =
    SkipZero
  | Required string
  | RequiredString string
  | NotNil string
  | EnumCheck string "string list" bool
  | FormatOf string string
  | UniqueItems string
  | MinLength string int bool
  | MaxLength string int bool
  | MinItems string int
  | MaxItems string int
  | MinimumInt string int bool
  | ReadOnly string
  | Nested string
  | NestedBare
  | Each "check list"
  | EachEntry "check list"
  | NestedCall string

record 'e validators =
  is_zero :: "model_value \<Rightarrow> bool"
  required :: "string \<Rightarrow> model_value \<Rightarrow> 'e option"
  required_string :: "string \<Rightarrow> model_value \<Rightarrow> 'e option"
  required_nil :: "string \<Rightarrow> 'e"
  enum_case :: "string \<Rightarrow> model_value \<Rightarrow> string list \<Rightarrow> 'e option"
  format_of :: "string \<Rightarrow> string \<Rightarrow> model_value \<Rightarrow> 'e option"
  unique_items :: "string \<Rightarrow> model_value \<Rightarrow> 'e option"
  min_length :: "string \<Rightarrow> model_value \<Rightarrow> int \<Rightarrow> 'e option"
  max_length :: "string \<Rightarrow> model_value \<Rightarrow> int \<Rightarrow> 'e option"
  min_items :: "string \<Rightarrow> int \<Rightarrow> int \<Rightarrow> 'e option"
  max_items :: "string \<Rightarrow> int \<Rightarrow> int \<Rightarrow> 'e option"
  minimum_int :: "string \<Rightarrow> model_value \<Rightarrow> int \<Rightarrow> 'e option"
  read_only :: "string \<Rightarrow> model_value \<Rightarrow> 'e option"
  composite :: "'e list \<Rightarrow> 'e"
  validate_name :: "string \<Rightarrow> 'e \<Rightarrow> 'e"
  has_name :: "'e \<Rightarrow> bool"

text \<open>The outcome of a validation: nil, an error, or the panic of a nil dereference.\<close>

datatype 'e outcome = Passed | Rejected 'e | Panicked

fun of_option :: "'e option \<Rightarrow> 'e outcome" where
  "of_option None = Passed"
| "of_option (Some e) = Rejected e"

fun renamed :: "'e validators \<Rightarrow> string \<Rightarrow> 'e outcome \<Rightarrow> 'e outcome" where
  "renamed lib p (Rejected e) = Rejected (if has_name lib e then validate_name lib p e else e)"
| "renamed lib p r = r"

text \<open>A dereferenced field, and the value of which \<open>String\<close> is called.\<close>

fun on_target :: "bool \<Rightarrow> (model_value \<Rightarrow> 'e outcome) \<Rightarrow> model_value \<Rightarrow> 'e outcome" where
  "on_target True f (VPtr u) = f u"
| "on_target True f _ = Panicked"
| "on_target False f v = f v"

fun on_text :: "(model_value \<Rightarrow> 'e outcome) \<Rightarrow> model_value \<Rightarrow> 'e outcome" where
  "on_text f (VPtr u) = f u"
| "on_text f VNil = Panicked"
| "on_text f v = f v"

fun count_of :: "model_value \<Rightarrow> int" where
  "count_of (VList vs) = int (length vs)"
| "count_of _ = 0"

text \<open>The elements of a loop with what their names end in.\<close>

fun elements :: "model_value \<Rightarrow> (string \<times> model_value) list" where
  "elements (VList vs) = map (\<lambda>i. (''.'' @ dec_of_nat i, vs ! i)) [0 ..< length vs]"
| "elements (VMap es) = map (\<lambda>(k, v). (''.'' @ k, v)) es"
| "elements _ = []"

fun nested :: "(model_value \<Rightarrow> 'e outcome) \<Rightarrow> model_value \<Rightarrow> 'e outcome" where
  "nested V (VPtr u) = V u"
| "nested V (VStruct M fs) = V (VStruct M fs)"
| "nested V _ = Passed"

fun first_failure :: "('a \<Rightarrow> 'e outcome) \<Rightarrow> 'a list \<Rightarrow> 'e outcome" where
  "first_failure f [] = Passed"
| "first_failure f (x # xs) = (case f x of Passed \<Rightarrow> first_failure f xs | r \<Rightarrow> r)"

lemma first_failure_cong [fundef_cong]:
  "xs = ys \<Longrightarrow> (\<And>x. x \<in> set ys \<Longrightarrow> f x = g x) \<Longrightarrow> first_failure f xs = first_failure g ys"
  by (induction ys arbitrary: xs) (auto split: outcome.split)

fun run_check :: "'e validators \<Rightarrow> (model_value \<Rightarrow> 'e outcome) \<Rightarrow> string \<Rightarrow> check \<Rightarrow> model_value \<Rightarrow> 'e outcome"
  and run_checks :: "'e validators \<Rightarrow> (model_value \<Rightarrow> 'e outcome) \<Rightarrow> string \<Rightarrow> check list \<Rightarrow> model_value \<Rightarrow> 'e outcome" where
  "run_check lib V s SkipZero v = Passed"
| "run_check lib V s (Required p) v = of_option (required lib (p @ s) v)"
| "run_check lib V s (RequiredString p) v = of_option (required_string lib (p @ s) v)"
| "run_check lib V s (NotNil p) v = (if v = VNil then Rejected (required_nil lib p) else Passed)"
| "run_check lib V s (EnumCheck p es d) v = on_target d (\<lambda>u. of_option (enum_case lib (p @ s) u es)) v"
| "run_check lib V s (FormatOf p fmt) v = on_text (\<lambda>u. of_option (format_of lib (p @ s) fmt u)) v"
| "run_check lib V s (UniqueItems p) v = of_option (unique_items lib (p @ s) v)"
| "run_check lib V s (MinLength p n d) v = on_target d (\<lambda>u. of_option (min_length lib (p @ s) u n)) v"
| "run_check lib V s (MaxLength p n d) v = on_target d (\<lambda>u. of_option (max_length lib (p @ s) u n)) v"
| "run_check lib V s (MinItems p n) v = of_option (min_items lib (p @ s) (count_of v) n)"
| "run_check lib V s (MaxItems p n) v = of_option (max_items lib (p @ s) (count_of v) n)"
| "run_check lib V s (MinimumInt p n d) v = on_target d (\<lambda>u. of_option (minimum_int lib (p @ s) u n)) v"
| "run_check lib V s (ReadOnly p) v = of_option (read_only lib (p @ s) v)"
| "run_check lib V s (Nested p) v = renamed lib (p @ s) (nested V v)"
| "run_check lib V s NestedBare v = nested V v"
| "run_check lib V s (Each cs) v = first_failure (\<lambda>(s', u). run_checks lib V s' cs u) (elements v)"
| "run_check lib V s (EachEntry cs) v = first_failure (\<lambda>(s', u). run_checks lib V s' cs u) (elements v)"
| "run_check lib V s (NestedCall p) v = (if v = VNil then Panicked else renamed lib (p @ s) (nested V v))"
| "run_checks lib V s [] v = Passed"
| "run_checks lib V s (c # cs) v =
     (if c = SkipZero \<and> is_zero lib v then Passed
      else (case run_check lib V s c v of Passed \<Rightarrow> run_checks lib V s cs v | r \<Rightarrow> r))"

lemma elements_reach: "e \<in> set (elements v) \<Longrightarrow> reach (snd e) \<subseteq> reach v"
  by (cases v) (auto, metis nth_mem)

lemma nested_cong: "(\<And>u. u \<in> reach v \<Longrightarrow> V u = W u) \<Longrightarrow> nested V v = nested W v"
  by (cases v) auto

text \<open>Validation calls \<open>Validate\<close> on parts of the value only.\<close>

lemma run_check_local:
  "(\<And>u. u \<in> reach v \<Longrightarrow> V u = W u) \<Longrightarrow> run_check lib V s c v = run_check lib W s c v"
  "(\<And>u. u \<in> reach v \<Longrightarrow> V u = W u) \<Longrightarrow> run_checks lib V s cs v = run_checks lib W s cs v"
proof (induction lib V s c v and lib V s cs v rule: run_check_run_checks.induct)
  case (14 lib V s p v)
  then show ?case using nested_cong [of v V W] by simp
next
  case (15 lib V s v)
  then show ?case using nested_cong [of v V W] by simp
next
  case (16 lib V s cs v)
  then show ?case using elements_reach [of _ v] by (force intro!: first_failure_cong)
next
  case (17 lib V s cs v)
  then show ?case using elements_reach [of _ v] by (force intro!: first_failure_cong)
next
  case (18 lib V s p v)
  then show ?case using nested_cong [of v V W] by simp
qed (auto split: outcome.split)

lemma run_checks_cong [fundef_cong]:
  "cs = ds \<Longrightarrow> v = w \<Longrightarrow> (\<And>u. u \<in> reach w \<Longrightarrow> V u = W u) \<Longrightarrow> run_checks lib V s cs v = run_checks lib W s ds w"
  using run_check_local(2) by blast

text \<open>
  A method \<open>Validate\<close>: every field is validated, and the errors are collected. \<open>env\<close> gives the fields of a model with
  their checks, none for a name that is not a model.
\<close>

fun collect :: "'e validators \<Rightarrow> 'e outcome list \<Rightarrow> 'e list \<Rightarrow> 'e outcome" where
  "collect lib [] errs = (if errs = [] then Passed else Rejected (composite lib errs))"
| "collect lib (Passed # rs) errs = collect lib rs errs"
| "collect lib (Rejected e # rs) errs = collect lib rs (errs @ [e])"
| "collect lib (Panicked # rs) errs = Panicked"

type_synonym checks = "(string \<times> check list) list"

function validate :: "'e validators \<Rightarrow> (string \<Rightarrow> checks) \<Rightarrow> model_value \<Rightarrow> 'e outcome" where
  "validate lib env (VStruct M fs) =
     collect lib (map (\<lambda>c. run_checks lib (validate lib env) [] (snd c) (field_value fs (fst c))) (env M)) []"
| "\<nexists>M fs. v = VStruct M fs \<Longrightarrow> validate lib env v = Passed"
  by auto (metis)
termination
  by (relation "measure (\<lambda>(_, _, v). size v)") (auto simp: reach_field_size simp del: model_value.size)

text \<open>Whether a struct passes: each of its fields does.\<close>

lemma collect_Passed: "collect lib rs es = Passed \<longleftrightarrow> es = [] \<and> (\<forall>r \<in> set rs. r = Passed)"
  by (induction lib rs es rule: collect.induct) auto

lemma collect_Panicked: "collect lib rs es = Panicked \<longleftrightarrow> Panicked \<in> set rs"
  by (induction lib rs es rule: collect.induct) auto

lemma first_failure_Passed: "first_failure f xs = Passed \<longleftrightarrow> (\<forall>x \<in> set xs. f x = Passed)"
  by (induction xs) (auto split: outcome.split)

lemma first_failure_Panicked: "first_failure f xs = Panicked \<Longrightarrow> \<exists>x \<in> set xs. f x = Panicked"
  by (induction xs) (auto split: outcome.splits)

lemma of_option_simps [simp]:
  "of_option r = Passed \<longleftrightarrow> r = None" "of_option r \<noteq> Panicked" "Panicked \<noteq> of_option r"
  by (cases r; simp)+

lemma case_Passed [simp]:
  "(case r of Passed \<Rightarrow> q | Rejected e \<Rightarrow> Rejected e | Panicked \<Rightarrow> Panicked) = Passed \<longleftrightarrow> r = Passed \<and> q = Passed"
  by (cases r) simp_all

lemma renamed_simps [simp]:
  "renamed lib p r = Passed \<longleftrightarrow> r = Passed" "renamed lib p r = Panicked \<longleftrightarrow> r = Panicked"
  by (cases r; simp)+

subsection \<open>Dereferences that a check protects\<close>

text \<open>
  \<open>safe t g cs\<close>: in the statements \<open>cs\<close> on a value of type \<open>t\<close> no statement dereferences a pointer, unless it is known
  not to be nil (\<open>g\<close>) or a statement before it has returned for nil. This is what the generator has to ensure.
\<close>

fun guards :: "check \<Rightarrow> bool" where
  "guards SkipZero = True"
| "guards (Required _) = True"
| "guards (NotNil _) = True"
| "guards _ = False"

fun is_pointer :: "go_type \<Rightarrow> bool" where
  "is_pointer (Pointer _) = True"
| "is_pointer _ = False"

fun model_reference :: "go_type \<Rightarrow> bool" where
  "model_reference (Pointer (Model _)) = True"
| "model_reference (Model _) = True"
| "model_reference _ = False"

fun safe_check :: "go_type \<Rightarrow> bool \<Rightarrow> check \<Rightarrow> bool"
  and safe :: "go_type \<Rightarrow> bool \<Rightarrow> check list \<Rightarrow> bool" where
  "safe_check t g (EnumCheck _ _ d) = (d \<longrightarrow> is_pointer t \<and> g)"
| "safe_check t g (MinLength _ _ d) = (d \<longrightarrow> is_pointer t \<and> g)"
| "safe_check t g (MaxLength _ _ d) = (d \<longrightarrow> is_pointer t \<and> g)"
| "safe_check t g (MinimumInt _ _ d) = (d \<longrightarrow> is_pointer t \<and> g)"
| "safe_check t g (FormatOf _ _) = (g \<or> t = UUIDType \<or> t = DateTimeType)"
| "safe_check t g (Nested _) = model_reference t"
| "safe_check t g NestedBare = model_reference t"
| "safe_check t g (NestedCall _) = (model_reference t \<and> g)"
| "safe_check t g (Each cs) = (case t of Slice u \<Rightarrow> safe u False cs | _ \<Rightarrow> False)"
| "safe_check t g (EachEntry cs) = (case t of MapOf u \<Rightarrow> safe u False cs | _ \<Rightarrow> False)"
| "safe_check t g _ = True"
| "safe t g [] = True"
| "safe t g (c # cs) = (safe_check t g c \<and> safe t (g \<or> guards c) cs)"

text \<open>What safety needs of the library: nil is absent, and \<open>Required\<close> rejects nil.\<close>

definition rejects_nil :: "'e validators \<Rightarrow> bool" where
  "rejects_nil lib \<longleftrightarrow> is_zero lib VNil \<and> (\<forall>p. required lib p VNil \<noteq> None)"

lemma on_target_safe:
  "typed S v t \<Longrightarrow> (d \<longrightarrow> is_pointer t \<and> v \<noteq> VNil) \<Longrightarrow> on_target d (\<lambda>u. of_option (h u)) v \<noteq> Panicked"
  by (cases d; cases v; cases t) auto

lemma on_text_safe: "v \<noteq> VNil \<Longrightarrow> on_text (\<lambda>u. of_option (h u)) v \<noteq> Panicked"
  by (cases v) auto

lemma nested_safe:
  assumes "typed S v t" "model_reference t" "\<And>u M. u \<in> reach v \<Longrightarrow> typed S u (Model M) \<Longrightarrow> V u \<noteq> Panicked"
  shows "nested V v \<noteq> Panicked"
  using assms by (cases t rule: model_reference.cases; cases v) auto

lemma elements_typed: "typed S v (Slice t) \<or> typed S v (MapOf t) \<Longrightarrow> e \<in> set (elements v) \<Longrightarrow> typed S (snd e) t"
  by (cases v) auto

lemma rejects_nilD:
  "rejects_nil lib \<Longrightarrow> is_zero lib VNil"
  "rejects_nil lib \<Longrightarrow> required lib p VNil = None \<Longrightarrow> False"
  unfolding rejects_nil_def by blast+

lemma guards_not_nil:
  "rejects_nil lib \<Longrightarrow> guards c \<Longrightarrow> \<not> (c = SkipZero \<and> is_zero lib v) \<Longrightarrow> run_check lib V s c v = Passed \<Longrightarrow> v \<noteq> VNil"
  by (cases c) (auto dest: rejects_nilD)

lemma run_checks_safe:
  assumes "rejects_nil lib"
  shows "typed S v t \<Longrightarrow> safe_check t g c \<Longrightarrow> (g \<longrightarrow> v \<noteq> VNil) \<Longrightarrow>
      (\<And>u M. u \<in> reach v \<Longrightarrow> typed S u (Model M) \<Longrightarrow> V u \<noteq> Panicked) \<Longrightarrow> run_check lib V s c v \<noteq> Panicked"
    and "typed S v t \<Longrightarrow> safe t g cs \<Longrightarrow> (g \<longrightarrow> v \<noteq> VNil) \<Longrightarrow>
      (\<And>u M. u \<in> reach v \<Longrightarrow> typed S u (Model M) \<Longrightarrow> V u \<noteq> Panicked) \<Longrightarrow> run_checks lib V s cs v \<noteq> Panicked"
  using assms
proof (induction lib V s c v and lib V s cs v arbitrary: t g and t g rule: run_check_run_checks.induct)
  case (5 lib V s p es d v)
  then show ?case unfolding run_check.simps by (intro on_target_safe) auto
next
  case (6 lib V s p fmt v)
  then show ?case unfolding run_check.simps by (intro on_text_safe) auto
next
  case (8 lib V s p n d v)
  then show ?case unfolding run_check.simps by (intro on_target_safe) auto
next
  case (9 lib V s p n d v)
  then show ?case unfolding run_check.simps by (intro on_target_safe) auto
next
  case (12 lib V s p n d v)
  then show ?case unfolding run_check.simps by (intro on_target_safe) auto
next
  case (14 lib V s p v)
  then show ?case using nested_safe [of S v t V] by simp
next
  case (15 lib V s v)
  then show ?case using nested_safe [of S v t V] by simp
next
  case (16 lib V s cs v)
  then obtain u where t: "t = Slice u" "safe u False cs" by (cases t) auto
  have "run_checks lib V (fst e) cs (snd e) \<noteq> Panicked" if e: "e \<in> set (elements v)" for e
  proof (rule 16(1) [OF e prod.collapse, where t = u and g = False])
    show "typed S (snd e) u" using elements_typed 16(2) e t(1) by blast
  next
    fix w M assume "w \<in> reach (snd e)" "typed S w (Model M)"
    then show "V w \<noteq> Panicked" using 16(5) elements_reach [OF e] by blast
  qed (use t 16(6) in auto)
  then show ?case by (auto simp: split_beta dest!: first_failure_Panicked)
next
  case (17 lib V s cs v)
  then obtain u where t: "t = MapOf u" "safe u False cs" by (cases t) auto
  have "run_checks lib V (fst e) cs (snd e) \<noteq> Panicked" if e: "e \<in> set (elements v)" for e
  proof (rule 17(1) [OF e prod.collapse, where t = u and g = False])
    show "typed S (snd e) u" using elements_typed 17(2) e t(1) by blast
  next
    fix w M assume "w \<in> reach (snd e)" "typed S w (Model M)"
    then show "V w \<noteq> Panicked" using 17(5) elements_reach [OF e] by blast
  qed (use t 17(6) in auto)
  then show ?case by (auto simp: split_beta dest!: first_failure_Panicked)
next
  case (18 lib V s p v)
  then show ?case using nested_safe [of S v t V] by simp
next
  case (20 lib V s c cs v)
  show ?case
  proof (cases "c = SkipZero \<and> is_zero lib v")
    case False
    have "run_check lib V s c v \<noteq> Panicked"
      using 20(1) [OF False 20(3), of g] 20(4,5,6,7) by auto
    moreover have "run_checks lib V s cs v \<noteq> Panicked" if p: "run_check lib V s c v = Passed"
      using 20(2) [OF False p 20(3), of "g \<or> guards c"] guards_not_nil [OF 20(7) _ False p] 20(4,5,6,7) by auto
    ultimately show ?thesis using False by (auto split: outcome.split)
  qed simp
qed auto

end
