(* ===== verification/ModelDocs.thy ===== *)
theory ModelDocs
  imports SwaggerModels
begin

section \<open>What the documentation of a model promises, and the code the generator has to write for it\<close>

text \<open>
  The meaning of the constraints in the comments of a struct, of a value and not of the code that checks it. Some words
  are those of the library: what counts as absent and as present, the formats, the length of a text, and what a request
  may write.
\<close>

record meaning =
  absent :: "model_value \<Rightarrow> bool"
  present :: "model_value \<Rightarrow> bool"
  well_formed :: "string \<Rightarrow> model_value \<Rightarrow> bool"
  rune_count :: "string \<Rightarrow> int"
  may_write :: "model_value \<Rightarrow> bool"

fun target :: "model_value \<Rightarrow> model_value" where
  "target (VPtr u) = u"
| "target v = v"

fun text_length :: "meaning \<Rightarrow> model_value \<Rightarrow> int" where
  "text_length sem (VString s) = rune_count sem s"
| "text_length sem _ = 0"

definition items :: "model_value \<Rightarrow> model_value list" where
  "items v = map snd (elements v)"

fun constraint_holds :: "meaning \<Rightarrow> constraint \<Rightarrow> model_value \<Rightarrow> bool" where
  "constraint_holds sem (InEnum es) v = (target v \<in> VString ` set es)"
| "constraint_holds sem (ItemsIn es) v = (\<forall>u \<in> set (items v). u \<in> VString ` set es)"
| "constraint_holds sem (HasFormat fmt) v = well_formed sem fmt (target v)"
| "constraint_holds sem IsUnique v = distinct (items v)"
| "constraint_holds sem (MinLen n) v = (n \<le> text_length sem (target v))"
| "constraint_holds sem (MaxLen n) v = (text_length sem (target v) \<le> n)"
| "constraint_holds sem (MinCount n) v = (n \<le> int (length (items v)))"
| "constraint_holds sem (MaxCount n) v = (int (length (items v)) \<le> n)"
| "constraint_holds sem (AtLeast n) v = (case target v of VInt i \<Rightarrow> n \<le> i | _ \<Rightarrow> False)"
| "constraint_holds sem _ v = True"

fun part_conforms :: "(model_value \<Rightarrow> bool) \<Rightarrow> model_value \<Rightarrow> bool" where
  "part_conforms C (VPtr u) = C u"
| "part_conforms C (VStruct M fs) = C (VStruct M fs)"
| "part_conforms C _ = True"

text \<open>What the type of a field promises of its parts: other models conform too, and a UUID is one. An absent element of
  a slice is passed over, an entry of a map is not.\<close>

fun type_conforms :: "meaning \<Rightarrow> (model_value \<Rightarrow> bool) \<Rightarrow> go_type \<Rightarrow> model_value \<Rightarrow> bool" where
  "type_conforms sem C (Pointer (Model _)) v = part_conforms C v"
| "type_conforms sem C (Slice (Pointer (Model _))) v = (\<forall>u \<in> set (items v). absent sem u \<or> part_conforms C u)"
| "type_conforms sem C (Slice UUIDType) v = (\<forall>u \<in> set (items v). well_formed sem ''uuid'' u)"
| "type_conforms sem C (MapOf (Model _)) v = (\<forall>u \<in> set (items v). present sem u \<and> part_conforms C u)"
| "type_conforms sem C _ v = True"

definition supplied :: "meaning \<Rightarrow> go_type \<Rightarrow> model_value \<Rightarrow> bool" where
  "supplied sem t v =
     (if t = StringType then v \<noteq> VString [] else if t = AnyType then v \<noteq> VNil else present sem v)"

definition field_conforms :: "meaning \<Rightarrow> (model_value \<Rightarrow> bool) \<Rightarrow> model_field \<Rightarrow> model_value \<Rightarrow> bool" where
  "field_conforms sem C f v \<longleftrightarrow>
     (if IsRequired \<in> set (documented f) then supplied sem (field_type f) v else True) \<and>
     (IsRequired \<notin> set (documented f) \<and> absent sem v \<or>
      (\<forall>c \<in> set (documented f). constraint_holds sem c v) \<and> type_conforms sem C (field_type f) v)"

lemma part_conforms_cong: "(\<And>u. u \<in> reach v \<Longrightarrow> C u = D u) \<Longrightarrow> part_conforms C v = part_conforms D v"
  by (cases v) auto

lemma items_reach: "u \<in> set (items v) \<Longrightarrow> reach u \<subseteq> reach v"
  using elements_reach by (force simp: items_def)

lemma items_part_conforms_cong:
  "(\<And>u. u \<in> reach v \<Longrightarrow> C u = D u) \<Longrightarrow> u \<in> set (items v) \<Longrightarrow> part_conforms C u = part_conforms D u"
  using items_reach [of u v] by (intro part_conforms_cong) auto

lemma type_conforms_cong:
  "(\<And>u. u \<in> reach v \<Longrightarrow> C u = D u) \<Longrightarrow> type_conforms sem C t v = type_conforms sem D t v"
  using items_part_conforms_cong [of v C D] part_conforms_cong [of v C D]
  by (cases "(sem, C, t, v)" rule: type_conforms.cases) auto

lemma field_conforms_cong [fundef_cong]:
  "f = g \<Longrightarrow> v = w \<Longrightarrow> (\<And>u. u \<in> reach w \<Longrightarrow> C u = D u) \<Longrightarrow> field_conforms sem C f v = field_conforms sem D g w"
  using type_conforms_cong [of w C D sem "field_type g"] by (simp add: field_conforms_def)

function conforms :: "meaning \<Rightarrow> structs \<Rightarrow> model_value \<Rightarrow> bool" where
  "conforms sem S (VStruct M fs) = (\<forall>f \<in> set (S M). field_conforms sem (conforms sem S) f (field_value fs (go_name f)))"
| "\<nexists>M fs. v = VStruct M fs \<Longrightarrow> conforms sem S v = True"
  by auto (metis)
termination
  by (relation "measure (\<lambda>(_, _, v). size v)") (auto simp: reach_field_size simp del: model_value.size)

subsection \<open>The statements that check the promises\<close>

text \<open>
  What the generator has to write for a field: the field is required, or the method returns when it is absent; then come
  the constraints in a fixed order, then the parts. Whether a file contains these statements is a question the theories
  \<open>Models...\<close> answer.
\<close>

fun rank :: "constraint \<Rightarrow> nat" where
  "rank IsUnique = 1"
| "rank (InEnum _) = 2"
| "rank (MinLen _) = 3"
| "rank (MaxLen _) = 4"
| "rank (MinCount _) = 5"
| "rank (MaxCount _) = 6"
| "rank (AtLeast _) = 7"
| "rank (HasFormat _) = 8"
| "rank (ItemsIn _) = 9"
| "rank _ = 0"

fun constraint_checks :: "string \<Rightarrow> go_type \<Rightarrow> constraint \<Rightarrow> check list" where
  "constraint_checks p t IsUnique = [UniqueItems p]"
| "constraint_checks p t (InEnum es) = [EnumCheck p es (is_pointer t)]"
| "constraint_checks p t (MinLen n) = [MinLength p n (is_pointer t)]"
| "constraint_checks p t (MaxLen n) = [MaxLength p n (is_pointer t)]"
| "constraint_checks p t (MinCount n) = [MinItems p n]"
| "constraint_checks p t (MaxCount n) = [MaxItems p n]"
| "constraint_checks p t (AtLeast n) = [MinimumInt p n (is_pointer t)]"
| "constraint_checks p t (HasFormat fmt) = [FormatOf p fmt]"
| "constraint_checks p t (ItemsIn es) = [Each [EnumCheck p es False]]"
| "constraint_checks p t _ = []"

fun type_checks :: "string \<Rightarrow> go_type \<Rightarrow> check list" where
  "type_checks p (Pointer (Model _)) = [Nested p]"
| "type_checks p (Slice (Pointer (Model _))) = [Each [SkipZero, Nested p]]"
| "type_checks p (Slice UUIDType) = [Each [FormatOf p ''uuid'']]"
| "type_checks p (MapOf (Model _)) = [EachEntry [Required p, Nested p]]"
| "type_checks p _ = []"

definition required_check :: "string \<Rightarrow> go_type \<Rightarrow> check" where
  "required_check p t = (if t = StringType then RequiredString p else if t = AnyType then NotNil p else Required p)"

definition body_checks :: "model_field \<Rightarrow> check list" where
  "body_checks f = concat (map (constraint_checks (json_name f) (field_type f)) (sort_key rank (documented f))) @
     type_checks (json_name f) (field_type f)"

definition demanded :: "model_field \<Rightarrow> check list" where
  "demanded f =
     (if IsRequired \<in> set (documented f) then required_check (json_name f) (field_type f) # body_checks f
      else if body_checks f = [] then [] else SkipZero # body_checks f)"

definition demanded_checks :: "model_field list \<Rightarrow> checks" where
  "demanded_checks fs = filter (\<lambda>c. snd c \<noteq> []) (map (\<lambda>f. (go_name f, demanded f)) fs)"

text \<open>The constraints that a field of a type can have.\<close>

fun applies :: "go_type \<Rightarrow> constraint \<Rightarrow> bool" where
  "applies t (InEnum es) = (t \<in> {StringType, Pointer StringType})"
| "applies t (MinLen n) = (t \<in> {StringType, Pointer StringType})"
| "applies t (MaxLen n) = (t \<in> {StringType, Pointer StringType})"
| "applies t (AtLeast n) = (t \<in> {Int32Type, Pointer Int32Type, Int64Type, Pointer Int64Type})"
| "applies t (HasFormat fmt) = (t \<in> {UUIDType, Pointer UUIDType, DateTimeType, Pointer DateTimeType})"
| "applies t IsUnique = (case t of Slice _ \<Rightarrow> True | _ \<Rightarrow> False)"
| "applies t (MinCount n) = (case t of Slice _ \<Rightarrow> True | _ \<Rightarrow> False)"
| "applies t (MaxCount n) = (case t of Slice _ \<Rightarrow> True | _ \<Rightarrow> False)"
| "applies t (ItemsIn es) = (t = Slice StringType)"
| "applies t _ = True"

definition well_documented :: "model_field \<Rightarrow> bool" where
  "well_documented f \<longleftrightarrow> list_all (applies (field_type f)) (documented f)"

text \<open>The validators do what their documentation says, under any name.\<close>

definition lawful :: "'e validators \<Rightarrow> meaning \<Rightarrow> bool" where
  "lawful lib sem \<longleftrightarrow>
     (\<forall>v. is_zero lib v = absent sem v) \<and> absent sem VNil \<and> \<not> present sem VNil \<and>
     (\<forall>p v. required lib p v = None \<longleftrightarrow> present sem v) \<and>
     (\<forall>p s. required_string lib p (VString s) = None \<longleftrightarrow> s \<noteq> []) \<and>
     (\<forall>p s es. enum_case lib p (VString s) es = None \<longleftrightarrow> s \<in> set es) \<and>
     (\<forall>p fmt v. format_of lib p fmt v = None \<longleftrightarrow> well_formed sem fmt v) \<and>
     (\<forall>p vs. unique_items lib p (VList vs) = None \<longleftrightarrow> distinct vs) \<and>
     (\<forall>p s n. min_length lib p (VString s) n = None \<longleftrightarrow> n \<le> rune_count sem s) \<and>
     (\<forall>p s n. max_length lib p (VString s) n = None \<longleftrightarrow> rune_count sem s \<le> n) \<and>
     (\<forall>p k n. min_items lib p k n = None \<longleftrightarrow> n \<le> k) \<and>
     (\<forall>p k n. max_items lib p k n = None \<longleftrightarrow> k \<le> n) \<and>
     (\<forall>p i n. minimum_int lib p (VInt i) n = None \<longleftrightarrow> n \<le> i) \<and>
     (\<forall>p v. read_only lib p v = None \<longleftrightarrow> may_write sem v)"

lemma lawfulD:
  assumes "lawful lib sem"
  shows "is_zero lib = absent sem" "absent sem VNil" "\<not> present sem VNil" "required lib p v = None \<longleftrightarrow> present sem v"
    "required_string lib p (VString s) = None \<longleftrightarrow> s \<noteq> []"
    "enum_case lib p (VString s) es = None \<longleftrightarrow> s \<in> set es"
    "format_of lib p fmt v = None \<longleftrightarrow> well_formed sem fmt v"
    "unique_items lib p (VList vs) = None \<longleftrightarrow> distinct vs"
    "min_length lib p (VString s) n = None \<longleftrightarrow> n \<le> rune_count sem s"
    "max_length lib p (VString s) n = None \<longleftrightarrow> rune_count sem s \<le> n"
    "min_items lib p k n = None \<longleftrightarrow> n \<le> k" "max_items lib p k n = None \<longleftrightarrow> k \<le> n"
    "minimum_int lib p (VInt i) j = None \<longleftrightarrow> j \<le> i" "read_only lib p v = None \<longleftrightarrow> may_write sem v"
  using assms by (simp_all add: lawful_def fun_eq_iff)

lemma lawful_rejects_nil: "lawful lib sem \<Longrightarrow> rejects_nil lib"
  using lawfulD(1-4) [of lib sem] by (auto simp: rejects_nil_def)

subsection \<open>The statements check exactly the promises\<close>

lemma count_of_items: "typed S v (Slice t) \<Longrightarrow> count_of v = int (length (items v))"
  by (cases v) (auto simp: items_def)

lemma items_VList [simp]: "items (VList vs) = vs"
  by (auto simp: items_def intro: nth_equalityI)

lemma typed_shapes:
  "typed S v StringType \<Longrightarrow> \<exists>s. v = VString s"
  "typed S v (Pointer t) \<Longrightarrow> v \<noteq> VNil \<Longrightarrow> \<exists>u. v = VPtr u \<and> typed S u t"
  "typed S v (Slice t) \<Longrightarrow> v \<noteq> VNil \<Longrightarrow> \<exists>vs. v = VList vs \<and> (\<forall>u \<in> set vs. typed S u t)"
  "typed S v Int32Type \<Longrightarrow> \<exists>i. v = VInt i" "typed S v Int64Type \<Longrightarrow> \<exists>i. v = VInt i"
  "typed S v UUIDType \<Longrightarrow> \<exists>s. v = VString s" "typed S v DateTimeType \<Longrightarrow> \<exists>s. v = VTime s"
  by (cases v; simp)+

text \<open>The statements in order, when none of them returns early for an absent value.\<close>

lemma run_checks_all:
  "SkipZero \<notin> set cs \<Longrightarrow> run_checks lib V s cs v = Passed \<longleftrightarrow> (\<forall>c \<in> set cs. run_check lib V s c v = Passed)"
  by (induction cs) (auto split: outcome.split)

lemma run_checks_append:
  "SkipZero \<notin> set cs \<Longrightarrow> run_checks lib V s (cs @ ds) v = Passed \<longleftrightarrow>
     run_checks lib V s cs v = Passed \<and> run_checks lib V s ds v = Passed"
  by (induction cs) (auto split: outcome.split)

lemma run_checks_single [simp]: "c \<noteq> SkipZero \<Longrightarrow> run_checks lib V s [c] v = run_check lib V s c v"
  by (auto split: outcome.split)

lemma on_text_target: "v \<noteq> VNil \<Longrightarrow> on_text h v = h (target v)"
  by (cases v) auto

lemma on_target_target: "typed S v t \<Longrightarrow> v \<noteq> VNil \<Longrightarrow> on_target (is_pointer t) h v = h (target v)"
  by (cases t; cases v) auto

lemma target_string: "typed S v t \<Longrightarrow> v \<noteq> VNil \<Longrightarrow> t = StringType \<or> t = Pointer StringType \<Longrightarrow> \<exists>s. target v = VString s"
  by (cases v) (auto dest: typed_shapes)

lemma target_int:
  "typed S v t \<Longrightarrow> v \<noteq> VNil \<Longrightarrow> t \<in> {Int32Type, Pointer Int32Type, Int64Type, Pointer Int64Type} \<Longrightarrow> \<exists>i. target v = VInt i"
  by (cases v) (auto dest: typed_shapes)

lemma ball_items: "(\<forall>e \<in> set (elements v). P (snd e)) \<longleftrightarrow> (\<forall>u \<in> set (items v). P u)"
  by (simp add: items_def)

lemma constraint_checks_exact:
  assumes "lawful lib sem" "typed S v t" "v \<noteq> VNil" "applies t c"
  shows "run_checks lib V s (constraint_checks p t c) v = Passed \<longleftrightarrow> constraint_holds sem c v"
proof -
  note laws = lawfulD [OF assms(1)]
  note here = on_text_target [OF assms(3)] on_target_target [OF assms(2,3)] laws
  show ?thesis
  proof (cases c)
    case (InEnum es)
    then obtain s where "target v = VString s" using target_string assms by fastforce
    then show ?thesis using InEnum by (auto simp: here simp del: run_checks.simps(2))
  next
    case (MinLen n)
    then obtain s where "target v = VString s" using target_string assms by fastforce
    then show ?thesis using MinLen by (auto simp: here simp del: run_checks.simps(2))
  next
    case (MaxLen n)
    then obtain s where "target v = VString s" using target_string assms by fastforce
    then show ?thesis using MaxLen by (auto simp: here simp del: run_checks.simps(2))
  next
    case (AtLeast n)
    then obtain i where "target v = VInt i" using target_int assms by fastforce
    then show ?thesis using AtLeast by (auto simp: here simp del: run_checks.simps(2))
  next
    case IsUnique
    then obtain u where "t = Slice u" using assms(4) by (cases t) auto
    then obtain vs where "v = VList vs" using typed_shapes(3) assms(2,3) by blast
    then show ?thesis using IsUnique by (auto simp: laws simp del: run_checks.simps(2))
  next
    case (MinCount n)
    then obtain u where "t = Slice u" using assms(4) by (cases t) auto
    then show ?thesis using MinCount count_of_items [of S v u] assms(2) by (auto simp: laws simp del: run_checks.simps(2))
  next
    case (MaxCount n)
    then obtain u where "t = Slice u" using assms(4) by (cases t) auto
    then show ?thesis using MaxCount count_of_items [of S v u] assms(2) by (auto simp: laws simp del: run_checks.simps(2))
  next
    case (ItemsIn es)
    then obtain vs where vs: "v = VList vs" "\<forall>u \<in> set vs. typed S u StringType"
      using typed_shapes(3) [of S v StringType] assms by auto
    have "run_checks lib V s' [EnumCheck p es False] u = Passed \<longleftrightarrow> u \<in> VString ` set es" if "u \<in> set (items v)" for s' u
      using vs that typed_shapes(1) [of S u] by (auto simp: laws simp del: run_checks.simps(2))
    then show ?thesis using ItemsIn
      by (simp add: first_failure_Passed split_beta ball_items [symmetric] del: run_checks.simps(2))
        (auto simp: items_def)
  qed (auto simp: here simp del: run_checks.simps(2))
qed

lemma nested_exact:
  assumes "typed S v t" "model_reference t"
    and "\<And>u M. u \<in> reach v \<Longrightarrow> typed S u (Model M) \<Longrightarrow> V u = Passed \<longleftrightarrow> C u"
  shows "nested V v = Passed \<longleftrightarrow> part_conforms C v"
  using assms by (cases t rule: model_reference.cases; cases v) auto

lemma items_nested_exact:
  assumes "typed S v (Slice t) \<or> typed S v (MapOf t)" "model_reference t"
    and "\<And>u M. u \<in> reach v \<Longrightarrow> typed S u (Model M) \<Longrightarrow> V u = Passed \<longleftrightarrow> C u"
    and "u \<in> set (items v)"
  shows "nested V u = Passed \<longleftrightarrow> part_conforms C u"
proof (rule nested_exact [OF _ assms(2)])
  show "typed S u t" using elements_typed [OF assms(1)] assms(4) by (auto simp: items_def)
next
  fix w M assume "w \<in> reach u" "typed S w (Model M)"
  then show "V w = Passed \<longleftrightarrow> C w" using assms(3) items_reach [OF assms(4)] by blast
qed

lemma type_checks_exact:
  assumes "lawful lib sem" "typed S v t"
    and V: "\<And>u M. u \<in> reach v \<Longrightarrow> typed S u (Model M) \<Longrightarrow> V u = Passed \<longleftrightarrow> C u"
  shows "run_checks lib V s (type_checks p t) v = Passed \<longleftrightarrow> type_conforms sem C t v"
proof -
  note laws = lawfulD [OF assms(1)]
  note each = first_failure_Passed split_beta
  show ?thesis
  proof (cases "(p, t)" rule: type_checks.cases)
    case (1 p M)
    then show ?thesis using nested_exact [of S v t V C] assms(2) V by (simp del: run_checks.simps(2))
  next
    case (2 p M)
    have "run_checks lib V s' [SkipZero, Nested p] u = Passed \<longleftrightarrow> absent sem u \<or> part_conforms C u"
      if "u \<in> set (items v)" for s' u
      using items_nested_exact [of S v "Pointer (Model M)" V C, OF _ _ V that] 2 assms(2)
      by (auto simp: laws)
    then show ?thesis using 2 by (simp add: each ball_items [symmetric] del: run_checks.simps(2)) (auto simp: items_def)
  next
    case (3 p)
    have "run_checks lib V s' [FormatOf p ''uuid''] u = Passed \<longleftrightarrow> well_formed sem ''uuid'' u"
      if "u \<in> set (items v)" for s' u
    proof -
      have "typed S u UUIDType" using elements_typed [of S v UUIDType] 3 assms(2) that by (auto simp: items_def)
      then obtain s where "u = VString s" using typed_shapes(6) by blast
      then show ?thesis by (simp add: laws del: run_checks.simps(2))
    qed
    then show ?thesis using 3 by (simp add: each ball_items [symmetric] del: run_checks.simps(2)) (auto simp: items_def)
  next
    case (4 p M)
    have "run_checks lib V s' [Required p, Nested p] u = Passed \<longleftrightarrow> present sem u \<and> part_conforms C u"
      if "u \<in> set (items v)" for s' u
    proof -
      have "nested V u = Passed \<longleftrightarrow> part_conforms C u"
        using items_nested_exact [of S v "Model M" V C, OF _ _ V that] 4 assms(2) by simp
      moreover have "required lib (p @ s') u = None \<longleftrightarrow> present sem u" by (rule laws)
      ultimately show ?thesis by simp
    qed
    then show ?thesis using 4 by (simp add: each ball_items [symmetric] del: run_checks.simps(2)) (auto simp: items_def)
  qed simp_all
qed

lemma SkipZero_not_in_checks: "SkipZero \<notin> set (constraint_checks p t c)" "SkipZero \<notin> set (type_checks p t)"
  by (cases c; simp) (cases "(p, t)" rule: type_checks.cases; simp)

lemma run_checks_concat:
  "run_checks lib V s (concat (map (constraint_checks p t) cs)) v = Passed \<longleftrightarrow>
     (\<forall>c \<in> set cs. run_checks lib V s (constraint_checks p t c) v = Passed)"
  by (induction cs) (simp_all add: run_checks_append SkipZero_not_in_checks)

lemma body_checks_exact:
  assumes "lawful lib sem" "typed S v (field_type f)" "well_documented f" "v \<noteq> VNil"
    and "\<And>u M. u \<in> reach v \<Longrightarrow> typed S u (Model M) \<Longrightarrow> V u = Passed \<longleftrightarrow> C u"
  shows "run_checks lib V s (body_checks f) v = Passed \<longleftrightarrow>
     (\<forall>c \<in> set (documented f). constraint_holds sem c v) \<and> type_conforms sem C (field_type f) v"
proof -
  have "run_checks lib V s (constraint_checks (json_name f) (field_type f) c) v = Passed \<longleftrightarrow> constraint_holds sem c v"
    if "c \<in> set (documented f)" for c
    using constraint_checks_exact [OF assms(1,2,4)] assms(3) that by (simp add: well_documented_def list_all_iff)
  then show ?thesis using type_checks_exact [OF assms(1,2,5)]
    by (simp add: body_checks_def run_checks_append SkipZero_not_in_checks run_checks_concat)
qed

lemma no_body_checks:
  assumes "body_checks f = []"
  shows "(\<forall>c \<in> set (documented f). constraint_holds sem c v) \<and> type_conforms sem C (field_type f) v"
proof
  have "constraint_holds sem c v" if "constraint_checks p t c = []" for c p t
    using that by (cases c) auto
  then show "\<forall>c \<in> set (documented f). constraint_holds sem c v"
    using assms by (auto simp: body_checks_def)
  have "type_conforms sem C t v" if "type_checks p t = []" for p t
    using that by (cases "(p, t)" rule: type_checks.cases) auto
  then show "type_conforms sem C (field_type f) v" using assms by (auto simp: body_checks_def)
qed

lemma required_check_exact:
  assumes "lawful lib sem" "typed S v t"
  shows "run_check lib V s (required_check p t) v = Passed \<longleftrightarrow> supplied sem t v"
proof (cases "t = StringType")
  case True
  then obtain w where "v = VString w" using typed_shapes(1) assms(2) by blast
  then show ?thesis using True by (simp add: required_check_def supplied_def lawfulD(5) [OF assms(1)])
next
  case False
  then show ?thesis by (simp add: required_check_def supplied_def lawfulD(4) [OF assms(1)])
qed

lemma supplied_not_nil: "lawful lib sem \<Longrightarrow> typed S v t \<Longrightarrow> supplied sem t v \<Longrightarrow> v \<noteq> VNil"
  by (auto simp: supplied_def lawfulD split: if_splits)

lemma demanded_exact:
  assumes "lawful lib sem" "typed S v (field_type f)" "well_documented f"
    and "\<And>u M. u \<in> reach v \<Longrightarrow> typed S u (Model M) \<Longrightarrow> V u = Passed \<longleftrightarrow> C u"
  shows "run_checks lib V s (demanded f) v = Passed \<longleftrightarrow> field_conforms sem C f v"
proof -
  note body = body_checks_exact [OF assms(1-3) _ assms(4)]
  have skip: "required_check p t \<noteq> SkipZero" for p t by (simp add: required_check_def)
  show ?thesis
  proof (cases "IsRequired \<in> set (documented f)")
    case True
    then show ?thesis
      using body supplied_not_nil [OF assms(1,2)] required_check_exact [OF assms(1,2)] skip
      by (auto simp: demanded_def field_conforms_def)
  next
    case False
    then show ?thesis
      using body no_body_checks [of f sem v C] lawfulD(1,2) [OF assms(1)]
      by (cases "v = VNil") (auto simp: demanded_def field_conforms_def)
  qed
qed

text \<open>The methods \<open>Validate\<close> of models whose statements are the demanded ones.\<close>

definition documented_struct :: "model_field list \<Rightarrow> bool" where
  "documented_struct fs \<longleftrightarrow> list_all well_documented fs"

lemma validate_demanded:
  assumes "env N = filter (\<lambda>c. snd c \<noteq> []) (map (\<lambda>f. (go_name f, d f)) (S N))"
  shows "validate lib env (VStruct N fs) = Passed \<longleftrightarrow>
     (\<forall>f \<in> set (S N). run_checks lib (validate lib env) [] (d f) (field_value fs (go_name f)) = Passed)"
proof -
  have "(\<forall>c \<in> set (filter (\<lambda>c. snd c \<noteq> []) cs). run_checks lib V [] (snd c) (w (fst c)) = Passed) \<longleftrightarrow>
      (\<forall>c \<in> set cs. run_checks lib V [] (snd c) (w (fst c)) = Passed)" for cs V w
    by (induction cs) auto
  from this [of "map (\<lambda>f. (go_name f, d f)) (S N)" "validate lib env" "field_value fs"]
  show ?thesis using assms by (simp add: collect_Passed)
qed

lemma validate_conforms:
  assumes "lawful lib sem" and env: "\<And>M. env M = demanded_checks (S M)" and doc: "\<And>M. documented_struct (S M)"
  shows "typed S v (Model M) \<Longrightarrow> validate lib env v = Passed \<longleftrightarrow> conforms sem S v"
proof (induction v arbitrary: M rule: measure_induct_rule [of size])
  case (less v)
  then obtain N fs where v: "v = VStruct N fs" by (cases v) auto
  have "run_checks lib (validate lib env) [] (demanded f) (field_value fs (go_name f)) = Passed \<longleftrightarrow>
      field_conforms sem (conforms sem S) f (field_value fs (go_name f))" if f: "f \<in> set (S N)" for f
  proof (rule demanded_exact [OF assms(1)])
    show "typed S (field_value fs (go_name f)) (field_type f)" using less.prems f by (simp add: v)
    show "well_documented f" using doc [of N] f by (simp add: documented_struct_def list_all_iff)
  qed (use less.IH reach_field_size in \<open>simp add: v del: model_value.size\<close>)
  then show ?case using validate_demanded [of env N demanded S lib fs] env [of N]
    by (simp add: v demanded_checks_def del: validate.simps)
qed

text \<open>And the panics: statements that \<open>safe\<close> accepts never dereference nil.\<close>

lemma safe_append: "safe t g (cs @ ds) \<longleftrightarrow> safe t g cs \<and> safe t (g \<or> list_ex guards cs) ds"
  by (induction cs arbitrary: g) auto

lemma safe_constraint_checks: "applies t c \<Longrightarrow> g \<or> t = StringType \<Longrightarrow> safe t g (constraint_checks p t c)"
  by (cases c; cases t; simp)

lemma safe_type_checks: "safe t g (type_checks p t)"
  by (cases "(p, t)" rule: type_checks.cases) auto

lemma safe_concat:
  "list_all (applies t) cs \<Longrightarrow> safe t True (concat (map (constraint_checks p t) cs))"
  "list_all (applies StringType) cs \<Longrightarrow> safe StringType g (concat (map (constraint_checks p StringType) cs))"
  by (induction cs arbitrary: g) (simp_all add: safe_append safe_constraint_checks)

lemma safe_body_checks:
  assumes "well_documented f"
  shows "safe (field_type f) True (body_checks f)" "field_type f = StringType \<Longrightarrow> safe StringType g (body_checks f)"
proof -
  have "list_all (applies (field_type f)) (sort_key rank (documented f))"
    using assms by (simp add: well_documented_def list_all_iff)
  then show "safe (field_type f) True (body_checks f)" "field_type f = StringType \<Longrightarrow> safe StringType g (body_checks f)"
    by (simp_all add: body_checks_def safe_append safe_type_checks safe_concat)
qed

lemma safe_demanded:
  assumes "well_documented f"
  shows "safe (field_type f) False (demanded f)"
  using safe_body_checks [OF assms]
  by (cases "field_type f = StringType"; cases "field_type f = AnyType") (simp_all add: demanded_def required_check_def)

lemma validate_safe:
  assumes "rejects_nil lib" and safe: "\<And>M c. c \<in> set (env M) \<Longrightarrow>
      \<exists>f \<in> set (S M). go_name f = fst c \<and> safe (field_type f) False (snd c)"
  shows "typed S v (Model M) \<Longrightarrow> validate lib env v \<noteq> Panicked"
proof (induction v arbitrary: M rule: measure_induct_rule [of size])
  case (less v)
  then obtain N fs where v: "v = VStruct N fs" by (cases v) auto
  have "run_checks lib (validate lib env) [] (snd c) (field_value fs (fst c)) \<noteq> Panicked" if c: "c \<in> set (env N)" for c
  proof -
    obtain f where f: "f \<in> set (S N)" "go_name f = fst c" "safe (field_type f) False (snd c)"
      using safe [OF c] by auto
    have "typed S (field_value fs (fst c)) (field_type f)" using less.prems f(1) by (simp add: v flip: f(2))
    then show ?thesis
      by (rule run_checks_safe(2) [OF assms(1) _ f(3)])
        (use less.IH reach_field_size in \<open>auto simp: v simp del: model_value.size\<close>)
  qed
  then show ?case by (fastforce simp: v collect_Panicked)
qed

subsection \<open>The validation of a request body: \<open>ContextValidate\<close>\<close>

text \<open>
  \<open>ContextValidate\<close> looks at read-only fields and descends into the same parts. The generator has no statement for a
  read-only \<open>interface{}\<close> and none for a read-only model, and it demands the required maps of models once more.
\<close>

fun context_type_checks :: "string \<Rightarrow> bool \<Rightarrow> go_type \<Rightarrow> check list" where
  "context_type_checks p r (Pointer (Model _)) = [Nested p]"
| "context_type_checks p r (Slice (Pointer (Model _))) = [Each [Nested p]]"
| "context_type_checks p r (MapOf (Model _)) = (if r then [Required p] else []) @ [EachEntry [NestedBare]]"
| "context_type_checks p r _ = []"

definition guarded_field :: "model_field \<Rightarrow> bool" where
  "guarded_field f \<longleftrightarrow> IsReadOnly \<in> set (documented f) \<and>
     (case field_type f of AnyType \<Rightarrow> False | Pointer (Model _) \<Rightarrow> False | _ \<Rightarrow> True)"

definition context_demanded :: "model_field \<Rightarrow> check list" where
  "context_demanded f = (if guarded_field f then [ReadOnly (json_name f)] else []) @
     context_type_checks (json_name f) (IsRequired \<in> set (documented f)) (field_type f)"

definition context_demanded_checks :: "model_field list \<Rightarrow> checks" where
  "context_demanded_checks fs = filter (\<lambda>c. snd c \<noteq> []) (map (\<lambda>f. (go_name f, context_demanded f)) fs)"

fun writable_parts :: "meaning \<Rightarrow> (model_value \<Rightarrow> bool) \<Rightarrow> bool \<Rightarrow> go_type \<Rightarrow> model_value \<Rightarrow> bool" where
  "writable_parts sem C r (Pointer (Model _)) v = part_conforms C v"
| "writable_parts sem C r (Slice (Pointer (Model _))) v = (\<forall>u \<in> set (items v). part_conforms C u)"
| "writable_parts sem C r (MapOf (Model _)) v =
     ((r \<longrightarrow> present sem v) \<and> (\<forall>u \<in> set (items v). part_conforms C u))"
| "writable_parts sem C r _ v = True"

definition field_writable :: "meaning \<Rightarrow> (model_value \<Rightarrow> bool) \<Rightarrow> model_field \<Rightarrow> model_value \<Rightarrow> bool" where
  "field_writable sem C f v \<longleftrightarrow> (guarded_field f \<longrightarrow> may_write sem v) \<and>
     writable_parts sem C (IsRequired \<in> set (documented f)) (field_type f) v"

lemma writable_parts_cong:
  "(\<And>u. u \<in> reach v \<Longrightarrow> C u = D u) \<Longrightarrow> writable_parts sem C r t v = writable_parts sem D r t v"
  using items_part_conforms_cong [of v C D] part_conforms_cong [of v C D]
  by (cases "(sem, C, r, t, v)" rule: writable_parts.cases) auto

lemma field_writable_cong [fundef_cong]:
  "f = g \<Longrightarrow> v = w \<Longrightarrow> (\<And>u. u \<in> reach w \<Longrightarrow> C u = D u) \<Longrightarrow> field_writable sem C f v = field_writable sem D g w"
  using writable_parts_cong [of w C D sem _ "field_type g"] by (simp add: field_writable_def)

text \<open>A value of which a request may carry every part.\<close>

function writable :: "meaning \<Rightarrow> structs \<Rightarrow> model_value \<Rightarrow> bool" where
  "writable sem S (VStruct M fs) = (\<forall>f \<in> set (S M). field_writable sem (writable sem S) f (field_value fs (go_name f)))"
| "\<nexists>M fs. v = VStruct M fs \<Longrightarrow> writable sem S v = True"
  by auto (metis)
termination
  by (relation "measure (\<lambda>(_, _, v). size v)") (auto simp: reach_field_size simp del: model_value.size)

lemma context_type_checks_exact:
  assumes "lawful lib sem" "typed S v t"
    and V: "\<And>u M. u \<in> reach v \<Longrightarrow> typed S u (Model M) \<Longrightarrow> V u = Passed \<longleftrightarrow> C u"
  shows "run_checks lib V s (context_type_checks p r t) v = Passed \<longleftrightarrow> writable_parts sem C r t v"
proof (cases "(p, r, t)" rule: context_type_checks.cases)
  case (1 p r M)
  then show ?thesis using nested_exact [of S v t V C] assms(2) V by (simp del: run_checks.simps(2))
next
  case (2 p r M)
  have "nested V u = Passed \<longleftrightarrow> part_conforms C u" if "u \<in> set (items v)" for u
    using items_nested_exact [of S v "Pointer (Model M)" V C, OF _ _ V that] 2 assms(2) by simp
  then show ?thesis
    using 2 by (simp add: first_failure_Passed split_beta ball_items [symmetric]) (auto simp: items_def)
next
  case (3 p r M)
  have "nested V u = Passed \<longleftrightarrow> part_conforms C u" if "u \<in> set (items v)" for u
    using items_nested_exact [of S v "Model M" V C, OF _ _ V that] 3 assms(2) by simp
  then have "(\<forall>e \<in> set (elements v). nested V (snd e) = Passed) \<longleftrightarrow> (\<forall>u \<in> set (items v). part_conforms C u)"
    using ball_items [of v "\<lambda>u. nested V u = Passed"] by simp
  then show ?thesis using 3 lawfulD(4) [OF assms(1)] by (simp add: first_failure_Passed split_beta)
qed simp_all

lemma safe_context_demanded: "safe (field_type f) False (context_demanded f)"
  by (cases "(json_name f, True, field_type f)" rule: context_type_checks.cases) (auto simp: context_demanded_def)

lemma context_demanded_exact:
  assumes "lawful lib sem" "typed S v (field_type f)"
    and "\<And>u M. u \<in> reach v \<Longrightarrow> typed S u (Model M) \<Longrightarrow> V u = Passed \<longleftrightarrow> C u"
  shows "run_checks lib V s (context_demanded f) v = Passed \<longleftrightarrow> field_writable sem C f v"
  using context_type_checks_exact [OF assms, where s = s] lawfulD(14) [OF assms(1)]
  by (simp add: context_demanded_def field_writable_def run_checks_append)

lemma validate_writable:
  assumes "lawful lib sem" and env: "\<And>M. env M = context_demanded_checks (S M)"
  shows "typed S v (Model M) \<Longrightarrow> validate lib env v = Passed \<longleftrightarrow> writable sem S v"
proof (induction v arbitrary: M rule: measure_induct_rule [of size])
  case (less v)
  then obtain N fs where v: "v = VStruct N fs" by (cases v) auto
  have "run_checks lib (validate lib env) [] (context_demanded f) (field_value fs (go_name f)) = Passed \<longleftrightarrow>
      field_writable sem (writable sem S) f (field_value fs (go_name f))" if f: "f \<in> set (S N)" for f
  proof (rule context_demanded_exact [OF assms(1)])
    show "typed S (field_value fs (go_name f)) (field_type f)" using less.prems f by (simp add: v)
  qed (use less.IH reach_field_size in \<open>simp add: v del: model_value.size\<close>)
  then show ?case using validate_demanded [of env N context_demanded S lib fs] env [of N]
    by (simp add: v context_demanded_checks_def del: validate.simps)
qed

subsection \<open>The tables of the models\<close>

text \<open>The theories \<open>Models...\<close> end in a table: the name of a model with its struct and its two methods.\<close>

type_synonym model_table = "(string \<times> model_field list \<times> checks \<times> checks) list"

fun validates_documentation :: "string \<times> model_field list \<times> checks \<times> checks \<Rightarrow> bool" where
  "validates_documentation (M, fs, vs, cs) =
     (documented_struct fs \<and> vs = demanded_checks fs \<and> cs = context_demanded_checks fs)"

text \<open>The names of the platform's tasks: fourteen enumerations of the package have these values, in this order.\<close>

definition task_types :: "string list" where
  "task_types =
    [''CloudBootstrap'', ''CloudCleanup'', ''CreateCassandraTable'', ''CreateUniverse'', ''ReadOnlyClusterCreate'',
     ''ReadOnlyClusterDelete'', ''CreateKubernetesUniverse'', ''DestroyUniverse'', ''PauseUniverse'',
     ''ResumeUniverse'', ''DestroyKubernetesUniverse'', ''DeleteTable'', ''BackupUniverse'', ''RestoreBackup'',
     ''MultiTableBackup'', ''CreateBackup'', ''EditUniverse'', ''EditKubernetesUniverse'', ''ExternalScript'',
     ''KubernetesProvision'', ''ImportIntoTable'', ''UpgradeUniverse'', ''RestartUniverse'', ''SoftwareUpgrade'',
     ''SoftwareKubernetesUpgrade'', ''GFlagsUpgrade'', ''GFlagsKubernetesUpgrade'', ''CertsRotate'',
     ''CertsRotateKubernetesUpgrade'', ''TlsToggle'', ''VMImageUpgrade'', ''SystemdUpgrade'', ''CreateRootVolumes'',
     ''ReplaceRootVolume'', ''ChangeInstanceType'', ''PersistResizeNode'', ''PersistSystemdUpgrade'',
     ''UpdateNodeDetails'', ''UpgradeKubernetesUniverse'', ''DeleteNodeFromUniverse'', ''StopNodeInUniverse'',
     ''StartNodeInUniverse'', ''AddNodeToUniverse'', ''RemoveNodeFromUniverse'', ''ReleaseInstanceFromUniverse'',
     ''SetUniverseKey'', ''SetKubernetesUniverseKey'', ''CreateKMSConfig'', ''EditKMSConfig'', ''DeleteKMSConfig'',
     ''UpdateDiskSize'', ''StartMasterOnNode'', ''CreateXClusterConfig'', ''EditXClusterConfig'',
     ''DeleteXClusterConfig'', ''SyncXClusterConfig'', ''CreateSupportBundle'', ''AnsibleClusterServerCtl'',
     ''AnsibleConfigureServers'', ''AnsibleDestroyServer'', ''PauseServer'', ''ResumeServer'', ''AnsibleSetupServer'',
     ''AnsibleCreateServer'', ''PrecheckNode'', ''PrecheckNodeDetached'', ''AnsibleUpdateNodeInfo'', ''BulkImport'',
     ''ChangeMasterConfig'', ''ChangeAdminPassword'', ''CreateTable'', ''DeleteNode'', ''DeleteBackup'',
     ''DeleteBackupYb'', ''DeleteCustomerConfig'', ''DeleteCustomerStorageConfig'', ''UpdateNodeProcess'',
     ''DeleteTableFromUniverse'', ''LoadBalancerStateChange'', ''ModifyBlackList'', ''ManipulateDnsRecordTask'',
     ''RemoveUniverseEntry'', ''SetFlagInMemory'', ''SetNodeState'', ''SwamperTargetsFileUpdate'',
     ''UniverseUpdateSucceeded'', ''UpdateAndPersistGFlags'', ''UpdatePlacementInfo'', ''UpdateSoftwareVersion'',
     ''WaitForDataMove'', ''WaitForLeaderBlacklistCompletion'', ''WaitForFollowerLag'', ''WaitForLoadBalance'',
     ''WaitForMasterLeader'', ''WaitForServer'', ''WaitForTServerHeartBeats'', ''DeleteClusterFromUniverse'',
     ''InstanceActions'', ''WaitForServerReady'', ''RunExternalScript'', ''XClusterConfigSetup'',
     ''XClusterConfigSetStatus'', ''XClusterConfigModifyTables'', ''XClusterConfigRename'', ''XClusterConfigDelete'',
     ''XClusterConfigSync'', ''XClusterConfigUpdateMasterAddresses'', ''CloudAccessKeyCleanup'',
     ''CloudAccessKeySetup'', ''CloudInitializer'', ''CloudProviderCleanup'', ''CloudRegionCleanup'',
     ''CloudRegionSetup'', ''CloudSetup'', ''BackupTable'', ''BackupTableYb'', ''BackupUniverseKeys'',
     ''RestoreBackupYb'', ''RestoreUniverseKeys'', ''RestoreUniverseKeysYb'', ''WaitForLeadersOnPreferredOnly'',
     ''EnableEncryptionAtRest'', ''DisableEncryptionAtRest'', ''DestroyEncryptionAtRest'',
     ''KubernetesCommandExecutor'', ''KubernetesWaitForPod'', ''KubernetesCheckNumPod'', ''SetActiveUniverseKeys'',
     ''CopyEncryptionKeyFile'', ''WaitForEncryptionKeyInMemory'', ''UnivSetCertificate'', ''CreateAlertDefinitions'',
     ''ManageAlertDefinitions'', ''UniverseSetTlsParams'', ''UniverseUpdateRootCert'', ''ResetUniverseVersion'',
     ''DeleteCertificate'', ''SetNodeStatus'', ''CheckMasterLeader'', ''CheckMasters'', ''CheckTServers'',
     ''WaitForTServerHBs'', ''CreatePrometheusSwamperConfig'', ''PreflightNodeCheck'', ''RunYsqlUpgrade'',
     ''ResizeNode'', ''CheckMemory'', ''UpdateMountedDisks'', ''TransferXClusterCerts'',
     ''CreateTableSpacesInUniverse'', ''CreateTableSpaces'', ''ThirdpartySoftwareUpgrade'',
     ''MarkUniverseForHealthScriptReUpload'', ''UpdateUniverseTags'']"

text \<open>The definitions to evaluate in a check of a model.\<close>

lemmas model_check_simps = documented_struct_def well_documented_def demanded_checks_def demanded_def
  body_checks_def required_check_def context_demanded_checks_def context_demanded_def guarded_field_def

end
