(* ===== verification/ModelJson.thy ===== *)
theory ModelJson
  imports SwaggerModels
begin

section \<open>The models in JSON: \<open>MarshalBinary\<close> and \<open>UnmarshalBinary\<close>\<close>

text \<open>
  Each model has the methods \<open>MarshalBinary\<close> and \<open>UnmarshalBinary\<close>, which hand the struct to \<open>swag.WriteJSON\<close> and
  \<open>swag.ReadJSON\<close>, that is to the package \<open>encoding/json\<close>. Its work on trees is modelled, directed by the types and the
  tags of the struct: a field with \<open>omitempty\<close> is left out when it is empty; on reading, the name of a key is compared
  without regard to case, an unknown key is skipped, a missing one leaves the zero value, \<open>null\<close> makes a pointer, a
  slice or a map nil and leaves other values as they are, and a value of the wrong kind or an integer out of range is an
  error. Of two keys for one field the last counts (the package would read both into the same variable). The text of a
  tree, and the text of a \<open>strfmt.DateTime\<close>, are functions of the record \<open>codec\<close>; \<open>renderable\<close> are the trees whose
  strings the text keeps (those in UTF-8). The package sorts the keys of a map; the order of keys in an object carries
  no meaning, and the model keeps that of the map.
\<close>

record codec =
  time_text :: "string \<Rightarrow> string"
  time_of_text :: "string \<Rightarrow> string option"
  zero_time :: string
  render :: "json_value \<Rightarrow> string"
  parse_text :: "string \<Rightarrow> json_value option"
  renderable :: "json_value \<Rightarrow> bool"

definition lossless :: "codec \<Rightarrow> bool" where
  "lossless C \<longleftrightarrow> (\<forall>s. time_of_text C (time_text C s) = Some s) \<and>
     (\<forall>j. renderable C j \<longrightarrow> parse_text C (render C j) = Some j)"

subsection \<open>Writing\<close>

text \<open>The values that \<open>omitempty\<close> leaves out.\<close>

fun is_empty :: "model_value \<Rightarrow> bool" where
  "is_empty VNil = True"
| "is_empty (VString s) = (s = [])"
| "is_empty (VInt i) = (i = 0)"
| "is_empty (VFloat x) = (x = ''0'')"
| "is_empty (VBool b) = (\<not> b)"
| "is_empty (VList vs) = (vs = [])"
| "is_empty (VMap es) = (es = [])"
| "is_empty _ = False"

definition omitted :: "model_field \<Rightarrow> model_value \<Rightarrow> bool" where
  "omitted f v \<longleftrightarrow> omit_empty f \<and> is_empty v"

function encode :: "codec \<Rightarrow> structs \<Rightarrow> model_value \<Rightarrow> json_value" where
  "encode C S VNil = JsNull"
| "encode C S (VString s) = JsString s"
| "encode C S (VInt i) = JsNumber (dec_of_int i)"
| "encode C S (VFloat x) = JsNumber x"
| "encode C S (VBool b) = JsBool b"
| "encode C S (VTime s) = JsString (time_text C s)"
| "encode C S (VAny j) = j"
| "encode C S (VPtr u) = encode C S u"
| "encode C S (VList vs) = JsArray (map (encode C S) vs)"
| "encode C S (VMap es) = JsObject (map (\<lambda>e. (fst e, encode C S (snd e))) es)"
| "encode C S (VStruct M fs) =
     JsObject (map (\<lambda>f. (json_name f, encode C S (field_value fs (go_name f))))
       (filter (\<lambda>f. \<not> omitted f (field_value fs (go_name f))) (S M)))"
  by pat_completeness auto
termination
  by (relation "measure (\<lambda>(_, _, v). size v)") (auto simp: field_value_size item_size entry_size pointer_size simp del: model_value.size)

subsection \<open>Reading\<close>

fun zero_scalar :: "codec \<Rightarrow> go_type \<Rightarrow> model_value" where
  "zero_scalar C StringType = VString []"
| "zero_scalar C UUIDType = VString []"
| "zero_scalar C Int32Type = VInt 0"
| "zero_scalar C Int64Type = VInt 0"
| "zero_scalar C FloatType = VFloat ''0''"
| "zero_scalar C BoolType = VBool False"
| "zero_scalar C DateTimeType = VTime (zero_time C)"
| "zero_scalar C _ = VNil"

text \<open>No struct of the package has a field that is a struct by value, so the zero value of a struct has scalar fields.\<close>

definition zero_struct :: "codec \<Rightarrow> structs \<Rightarrow> string \<Rightarrow> model_value" where
  "zero_struct C S M = VStruct M (map (\<lambda>f. (go_name f, zero_scalar C (field_type f))) (S M))"

definition member_of :: "string \<Rightarrow> (string \<times> json_value) list \<Rightarrow> json_value option" where
  "member_of n es = map_of (rev (map (\<lambda>e. (to_lower (fst e), snd e)) es)) (to_lower n)"

definition int_in :: "nat \<Rightarrow> string \<Rightarrow> model_value option" where
  "int_in w x = (case atoi x of Ok i \<Rightarrow> if - (2 ^ (w - 1)) \<le> i \<and> i < 2 ^ (w - 1) then Some (VInt i) else None | _ \<Rightarrow> None)"

fun decode_scalar :: "codec \<Rightarrow> go_type \<Rightarrow> json_value \<Rightarrow> model_value option" where
  "decode_scalar C AnyType j = Some (if j = JsNull then VNil else VAny j)"
| "decode_scalar C t JsNull = Some (zero_scalar C t)"
| "decode_scalar C StringType (JsString s) = Some (VString s)"
| "decode_scalar C UUIDType (JsString s) = Some (VString s)"
| "decode_scalar C DateTimeType (JsString s) = map_option VTime (time_of_text C s)"
| "decode_scalar C Int32Type (JsNumber x) = int_in 32 x"
| "decode_scalar C Int64Type (JsNumber x) = int_in 64 x"
| "decode_scalar C FloatType (JsNumber x) = Some (VFloat x)"
| "decode_scalar C BoolType (JsBool b) = Some (VBool b)"
| "decode_scalar C t j = None"

text \<open>The last of the entries with a key counts.\<close>

fun last_entries :: "(string \<times> 'a) list \<Rightarrow> (string \<times> 'a) list" where
  "last_entries [] = []"
| "last_entries (e # es) = (if fst e \<in> set (map fst es) then last_entries es else e # last_entries es)"

lemma json_item_size: "j \<in> set js \<Longrightarrow> size j < size (JsArray js)"
  by (simp add: less_Suc_eq_le size_list_estimation')

lemma json_entry_size: "e \<in> set es \<Longrightarrow> size (snd e) < size (JsObject es)"
  using size_list_estimation' [of e es "size (snd e)" "size_prod (\<lambda>_. 0) size"] by (cases e) (simp add: less_Suc_eq_le)

lemma member_of_size: "member_of n es = Some j \<Longrightarrow> size j < size (JsObject es)"
  using map_of_SomeD [of "rev (map (\<lambda>e. (to_lower (fst e), snd e)) es)" "to_lower n" j] json_entry_size [of _ es]
  by (auto simp: member_of_def simp del: json_value.size)

function (sequential) decode :: "codec \<Rightarrow> structs \<Rightarrow> go_type \<Rightarrow> json_value \<Rightarrow> model_value option" where
  "decode C S (Pointer t) j = (if j = JsNull then Some VNil else map_option VPtr (decode C S t j))"
| "decode C S (Slice t) j =
     (case j of JsNull \<Rightarrow> Some VNil | JsArray js \<Rightarrow> map_option VList (those (map (decode C S t) js)) | _ \<Rightarrow> None)"
| "decode C S (MapOf t) j =
     (case j of
        JsNull \<Rightarrow> Some VNil
      | JsObject es \<Rightarrow>
          map_option (\<lambda>vs. VMap (last_entries vs)) (those (map (\<lambda>e. map_option (Pair (fst e)) (decode C S t (snd e))) es))
      | _ \<Rightarrow> None)"
| "decode C S (Model M) j =
     (case j of
        JsNull \<Rightarrow> Some (zero_struct C S M)
      | JsObject es \<Rightarrow>
          map_option (VStruct M) (those (map (\<lambda>f. map_option (Pair (go_name f))
            (case member_of (json_name f) es of None \<Rightarrow> Some (zero_scalar C (field_type f))
             | Some j' \<Rightarrow> decode C S (field_type f) j')) (S M)))
      | _ \<Rightarrow> None)"
| "decode C S t j = decode_scalar C t j"
  by pat_completeness auto
termination
  by (relation "measures [\<lambda>(_, _, _, j). size j, \<lambda>(_, _, t, _). size t]")
    (auto simp: member_of_size json_item_size json_entry_size simp del: json_value.size)

subsection \<open>What is written can be read\<close>

text \<open>
  Values that JSON tells apart: no pointer to nil, no two entries of a map with one key, all fields in the order of the
  struct, and where \<open>omitempty\<close> drops a field no empty slice or map in place of nil.
\<close>

function canonical :: "structs \<Rightarrow> model_value \<Rightarrow> bool" where
  "canonical S (VPtr u) = (u \<noteq> VNil \<and> canonical S u)"
| "canonical S (VList vs) = (\<forall>v \<in> set vs. canonical S v)"
| "canonical S (VMap es) = (distinct (map fst es) \<and> (\<forall>e \<in> set es. canonical S (snd e)))"
| "canonical S (VStruct M fs) =
     (fs = map (\<lambda>f. (go_name f, field_value fs (go_name f))) (S M) \<and>
      (\<forall>f \<in> set (S M). canonical S (field_value fs (go_name f)) \<and>
         (omit_empty f \<longrightarrow> field_value fs (go_name f) \<noteq> VList [] \<and> field_value fs (go_name f) \<noteq> VMap [])))"
| "canonical S VNil = True"
| "canonical S (VString s) = True"
| "canonical S (VInt i) = True"
| "canonical S (VFloat x) = True"
| "canonical S (VBool b) = True"
| "canonical S (VTime s) = True"
| "canonical S (VAny j) = True"
  by pat_completeness auto
termination
  by (relation "measure (\<lambda>(_, v). size v)") (auto simp: field_value_size item_size entry_size pointer_size simp del: model_value.size)

text \<open>Names of fields that stay apart when case is ignored.\<close>

definition named_apart :: "model_field list \<Rightarrow> bool" where
  "named_apart fs \<longleftrightarrow> distinct (map (\<lambda>f. to_lower (json_name f)) fs)"

text \<open>Lower case, on the bits of a character, so that the names of a struct are compared quickly.\<close>

lemma lower_char_bits [code]:
  "lower_char (Char b0 b1 b2 b3 b4 b5 b6 b7) =
     Char b0 b1 b2 b3 b4 (b5 \<or> (b6 \<and> \<not> b7 \<and> (b0 \<or> b1 \<or> b2 \<or> b3 \<or> b4) \<and> \<not> (b4 \<and> b3 \<and> (b2 \<or> b1 \<and> b0)))) b6 b7"
  by (cases b0; cases b1; cases b2; cases b3; cases b4; cases b5; cases b6; cases b7)
    (simp_all add: lower_char_def char_of_def bit_0)

declare lower_char_def [code del]

lemma atoi_dec_of_int:
  assumes "- (2 ^ 63) \<le> i" "i < 2 ^ 63"
  shows "atoi (dec_of_int i) = Ok i"
proof (cases "i < 0")
  case True
  have "nat (- i) \<le> 2 ^ 63" using assms True by simp
  then show ?thesis using True
    by (simp add: dec_of_int_def atoi_def has_prefix_def parse_uint_digits dec_of_nat_digits max_uint64_def)
next
  case False
  then show ?thesis using assms atoi_dec_of_nat [of "nat i"] by (simp add: dec_of_int_def)
qed

lemma last_entries_distinct: "distinct (map fst es) \<Longrightarrow> last_entries es = es"
  by (induction es) auto

lemma those_map_Some: "(\<And>x. x \<in> set xs \<Longrightarrow> g x = Some (h x)) \<Longrightarrow> those (map g xs) = Some (map h xs)"
  by (induction xs) auto

lemma member_of_encoded:
  assumes "named_apart fs" "f \<in> set fs"
  shows "member_of (json_name f) (map (\<lambda>f. (json_name f, h f)) (filter P fs)) = (if P f then Some (h f) else None)"
proof -
  let ?n = "\<lambda>f. to_lower (json_name f)"
  let ?es = "rev (map (\<lambda>f. (?n f, h f)) (filter P fs))"
  have m: "member_of (json_name f) (map (\<lambda>f. (json_name f, h f)) (filter P fs)) = map_of ?es (?n f)"
    by (simp add: member_of_def comp_def)
  have inj: "inj_on ?n (set fs)" and d: "distinct fs" using assms(1) by (auto simp: named_apart_def distinct_map)
  show ?thesis
  proof (cases "P f")
    case True
    have "distinct (map fst ?es)"
      using d inj by (simp add: rev_map comp_def distinct_map inj_on_subset [OF inj])
    moreover have "(?n f, h f) \<in> set ?es" using True assms(2) by auto
    ultimately show ?thesis using True m by simp
  next
    case False
    then have "?n f \<notin> fst ` set ?es" using inj assms(2) by (auto dest: inj_onD)
    then show ?thesis using False m by (simp add: map_of_eq_None_iff)
  qed
qed

lemma encode_not_null: "typed S v t \<Longrightarrow> canonical S v \<Longrightarrow> v \<noteq> VNil \<Longrightarrow> encode C S v \<noteq> JsNull"
proof (induction v arbitrary: t rule: measure_induct_rule [of size])
  case (less v)
  then show ?case by (cases v) (auto split: go_type.splits)
qed

lemma int_in_encoded:
  "- (2 ^ 31) \<le> i \<Longrightarrow> i < 2 ^ 31 \<Longrightarrow> int_in 32 (dec_of_int i) = Some (VInt i)"
  "- (2 ^ 63) \<le> i \<Longrightarrow> i < 2 ^ 63 \<Longrightarrow> int_in 64 (dec_of_int i) = Some (VInt i)"
  by (simp_all add: int_in_def atoi_dec_of_int)

lemma omitted_zero:
  assumes "typed S v (field_type f)" "omitted f v" "v \<noteq> VList []" "v \<noteq> VMap []"
  shows "zero_scalar C (field_type f) = v"
  using assms by (cases v; cases "field_type f") (auto simp: omitted_def)

lemma decode_encode:
  assumes "lossless C" and names: "\<And>M. named_apart (S M)"
  shows "typed S v t \<Longrightarrow> canonical S v \<Longrightarrow> decode C S t (encode C S v) = Some v"
proof (induction v arbitrary: t rule: measure_induct_rule [of size])
  case (less v)
  show ?case
  proof (cases v)
    case (VPtr u)
    then obtain t' where t: "t = Pointer t'" "typed S u t'" using less.prems by (cases t) auto
    have "decode C S t' (encode C S u) = Some u" using less t VPtr by simp
    then show ?thesis using VPtr t less.prems encode_not_null [of S u t' C] by simp
  next
    case (VList vs)
    then obtain t' where t: "t = Slice t'" using less.prems by (cases t) auto
    have "decode C S t' (encode C S x) = Some x" if "x \<in> set vs" for x
      using less.IH [of x t'] less.prems that t VList item_size [OF that] by simp
    then show ?thesis using VList t those_map_Some [of vs "\<lambda>x. decode C S t' (encode C S x)" "\<lambda>x. x"]
      by (simp add: comp_def)
  next
    case (VMap es)
    then obtain t' where t: "t = MapOf t'" using less.prems by (cases t) auto
    have "decode C S t' (encode C S (snd e)) = Some (snd e)" if "e \<in> set es" for e
      using less.IH [of "snd e" t'] less.prems that t VMap entry_size [OF that] by simp
    then show ?thesis
      using VMap t less.prems
        those_map_Some [of es "\<lambda>e. map_option (Pair (fst e)) (decode C S t' (encode C S (snd e)))" "\<lambda>e. e"]
      by (simp add: comp_def last_entries_distinct)
  next
    case (VStruct M fs)
    let ?v = "\<lambda>f. field_value fs (go_name f)"
    have t: "t = Model M" and ty: "\<And>f. f \<in> set (S M) \<Longrightarrow> typed S (?v f) (field_type f)"
      and fs: "fs = map (\<lambda>f. (go_name f, ?v f)) (S M)"
      and ca: "\<And>f. f \<in> set (S M) \<Longrightarrow> canonical S (?v f)"
      and ne: "\<And>f. f \<in> set (S M) \<Longrightarrow> omit_empty f \<Longrightarrow> ?v f \<noteq> VList [] \<and> ?v f \<noteq> VMap []"
      using less.prems VStruct by auto
    let ?es = "map (\<lambda>f. (json_name f, encode C S (?v f))) (filter (\<lambda>f. \<not> omitted f (?v f)) (S M))"
    have "map_option (Pair (go_name f)) (case member_of (json_name f) ?es of
          None \<Rightarrow> Some (zero_scalar C (field_type f)) | Some j' \<Rightarrow> decode C S (field_type f) j') = Some (go_name f, ?v f)"
      if f: "f \<in> set (S M)" for f
    proof (cases "omitted f (?v f)")
      case True
      then have "zero_scalar C (field_type f) = ?v f"
        using ty [OF f] ne [OF f] by (intro omitted_zero) (auto simp: omitted_def)
      then show ?thesis using True member_of_encoded [OF names f] by simp
    next
      case False
      have "decode C S (field_type f) (encode C S (?v f)) = Some (?v f)"
        using less.IH [of "?v f" "field_type f"] ty [OF f] ca [OF f] field_value_size VStruct by blast
      then show ?thesis using False member_of_encoded [OF names f] by simp
    qed
    then have "decode C S (Model M) (JsObject ?es) = Some (VStruct M (map (\<lambda>f. (go_name f, ?v f)) (S M)))"
      by (simp add: those_map_Some)
    then show ?thesis using VStruct t fs by simp
  qed (use less.prems assms(1) int_in_encoded in
    \<open>auto simp: lossless_def split: go_type.splits\<close>)
qed

subsection \<open>The methods\<close>

text \<open>\<open>MarshalBinary\<close> of a pointer to a model, and \<open>UnmarshalBinary\<close> into one: the new value of what the receiver refers
  to, or the error, which leaves it alone.\<close>

definition MarshalBinary :: "codec \<Rightarrow> structs \<Rightarrow> model_value \<Rightarrow> string" where
  "MarshalBinary C S m = (if m = VNil then [] else render C (encode C S m))"

definition UnmarshalBinary :: "codec \<Rightarrow> structs \<Rightarrow> string \<Rightarrow> string \<Rightarrow> model_value option" where
  "UnmarshalBinary C S M b = Option.bind (parse_text C b) (decode C S (Model M))"

lemma binary_round_trip:
  assumes "lossless C" "\<And>M. named_apart (S M)" "typed S v (Model M)" "canonical S v" "renderable C (encode C S v)"
  shows "UnmarshalBinary C S M (MarshalBinary C S (VPtr v)) = Some v"
  using assms decode_encode [OF assms(1,2), where v = v and t = "Model M"] by (simp add: UnmarshalBinary_def MarshalBinary_def lossless_def)

end
