(* ===== verification/ModelsAlerts.thy ===== *)
theory ModelsAlerts
  imports ModelDocs ModelJson
begin

section \<open>API models: alerts and maintenance windows\<close>

text \<open>
  The models of alerts and maintenance windows, each with the values of its enumerations, its struct, its \<open>Validate\<close> and its
  \<open>ContextValidate\<close>, as \<open>SwaggerModels\<close> reads them. The lemma after a model checks that the methods
  hold the statements that the comments of the struct demand, and another that the names in JSON differ in more than case;
  the last definition is the table of them.
\<close>

subsection \<open>Alert\<close>

definition alertTypeConfigurationTypePropEnum :: "string list" where
  "alertTypeConfigurationTypePropEnum =
    [''PLATFORM'', ''UNIVERSE'']"

definition alertTypeNotifiedStatePropEnum :: "string list" where
  "alertTypeNotifiedStatePropEnum =
    [''ACTIVE'', ''ACKNOWLEDGED'', ''SUSPENDED'', ''RESOLVED'']"

definition alertTypeSeverityPropEnum :: "string list" where
  "alertTypeSeverityPropEnum =
    [''SEVERE'', ''WARNING'']"

definition alertTypeStatePropEnum :: "string list" where
  "alertTypeStatePropEnum =
    [''ACTIVE'', ''ACKNOWLEDGED'', ''SUSPENDED'', ''RESOLVED'']"

definition Alert_struct :: "model_field list" where
  "Alert_struct =
    [Field ''AcknowledgedTime'' ''acknowledgedTime'' True DateTimeType [IsReadOnly, HasFormat ''date-time''],
     Field ''ConfigurationType'' ''configurationType'' False StringType [IsRequired, IsReadOnly, InEnum
        [''PLATFORM'', ''UNIVERSE'']],
     Field ''ConfigurationUUID'' ''configurationUuid'' False UUIDType [IsRequired, IsReadOnly, HasFormat ''uuid''],
     Field ''CreateTime'' ''createTime'' False DateTimeType [IsRequired, IsReadOnly, HasFormat ''date-time''],
     Field ''CustomerUUID'' ''customerUUID'' False UUIDType [IsRequired, IsReadOnly, HasFormat ''uuid''],
     Field ''DefinitionUUID'' ''definitionUuid'' False UUIDType [IsRequired, IsReadOnly, HasFormat ''uuid''],
     Field ''Labels'' ''labels'' False (Slice (Pointer (Model ''AlertLabel''))) [IsRequired],
     Field ''Message'' ''message'' False StringType [IsRequired, IsReadOnly, MaxLen 2147483647, MinLen 1],
     Field ''Name'' ''name'' False StringType [IsRequired, IsReadOnly, MaxLen 1000, MinLen 1],
     Field ''NextNotificationTime'' ''nextNotificationTime'' True DateTimeType [IsReadOnly, HasFormat ''date-time''],
     Field ''NotificationAttemptTime'' ''notificationAttemptTime'' True DateTimeType [IsReadOnly, HasFormat
        ''date-time''],
     Field ''NotificationsFailed'' ''notificationsFailed'' True Int32Type [IsReadOnly],
     Field ''NotifiedState'' ''notifiedState'' True StringType [IsReadOnly, InEnum [''ACTIVE'', ''ACKNOWLEDGED'',
        ''SUSPENDED'', ''RESOLVED'']],
     Field ''ResolvedTime'' ''resolvedTime'' True DateTimeType [IsReadOnly, HasFormat ''date-time''],
     Field ''Severity'' ''severity'' False StringType [IsRequired, IsReadOnly, InEnum [''SEVERE'', ''WARNING'']],
     Field ''SeverityIndex'' ''severityIndex'' False (Pointer Int32Type) [IsRequired],
     Field ''SourceName'' ''sourceName'' False StringType [IsRequired, IsReadOnly],
     Field ''SourceUUID'' ''sourceUUID'' False UUIDType [IsRequired, IsReadOnly, HasFormat ''uuid''],
     Field ''State'' ''state'' False StringType [IsRequired, IsReadOnly, InEnum [''ACTIVE'', ''ACKNOWLEDGED'',
        ''SUSPENDED'', ''RESOLVED'']],
     Field ''StateIndex'' ''stateIndex'' False (Pointer Int32Type) [IsRequired],
     Field ''UUID'' ''uuid'' True UUIDType [IsReadOnly, HasFormat ''uuid'']]"

definition Alert_Validate :: "checks" where
  "Alert_Validate =
    [(''AcknowledgedTime'', [SkipZero, FormatOf ''acknowledgedTime'' ''date-time'']),
     (''ConfigurationType'', [RequiredString ''configurationType'', EnumCheck ''configurationType''
        alertTypeConfigurationTypePropEnum False]),
     (''ConfigurationUUID'', [Required ''configurationUuid'', FormatOf ''configurationUuid'' ''uuid'']),
     (''CreateTime'', [Required ''createTime'', FormatOf ''createTime'' ''date-time'']),
     (''CustomerUUID'', [Required ''customerUUID'', FormatOf ''customerUUID'' ''uuid'']),
     (''DefinitionUUID'', [Required ''definitionUuid'', FormatOf ''definitionUuid'' ''uuid'']),
     (''Labels'', [Required ''labels'', Each [SkipZero, Nested ''labels'']]),
     (''Message'', [RequiredString ''message'', MinLength ''message'' 1 False, MaxLength ''message'' 2147483647
        False]),
     (''Name'', [RequiredString ''name'', MinLength ''name'' 1 False, MaxLength ''name'' 1000 False]),
     (''NextNotificationTime'', [SkipZero, FormatOf ''nextNotificationTime'' ''date-time'']),
     (''NotificationAttemptTime'', [SkipZero, FormatOf ''notificationAttemptTime'' ''date-time'']),
     (''NotifiedState'', [SkipZero, EnumCheck ''notifiedState'' alertTypeNotifiedStatePropEnum False]),
     (''ResolvedTime'', [SkipZero, FormatOf ''resolvedTime'' ''date-time'']),
     (''Severity'', [RequiredString ''severity'', EnumCheck ''severity'' alertTypeSeverityPropEnum False]),
     (''SeverityIndex'', [Required ''severityIndex'']),
     (''SourceName'', [RequiredString ''sourceName'']),
     (''SourceUUID'', [Required ''sourceUUID'', FormatOf ''sourceUUID'' ''uuid'']),
     (''State'', [RequiredString ''state'', EnumCheck ''state'' alertTypeStatePropEnum False]),
     (''StateIndex'', [Required ''stateIndex'']),
     (''UUID'', [SkipZero, FormatOf ''uuid'' ''uuid''])]"

definition Alert_ContextValidate :: "checks" where
  "Alert_ContextValidate =
    [(''AcknowledgedTime'', [ReadOnly ''acknowledgedTime'']),
     (''ConfigurationType'', [ReadOnly ''configurationType'']),
     (''ConfigurationUUID'', [ReadOnly ''configurationUuid'']),
     (''CreateTime'', [ReadOnly ''createTime'']),
     (''CustomerUUID'', [ReadOnly ''customerUUID'']),
     (''DefinitionUUID'', [ReadOnly ''definitionUuid'']),
     (''Labels'', [Each [Nested ''labels'']]),
     (''Message'', [ReadOnly ''message'']),
     (''Name'', [ReadOnly ''name'']),
     (''NextNotificationTime'', [ReadOnly ''nextNotificationTime'']),
     (''NotificationAttemptTime'', [ReadOnly ''notificationAttemptTime'']),
     (''NotificationsFailed'', [ReadOnly ''notificationsFailed'']),
     (''NotifiedState'', [ReadOnly ''notifiedState'']),
     (''ResolvedTime'', [ReadOnly ''resolvedTime'']),
     (''Severity'', [ReadOnly ''severity'']),
     (''SourceName'', [ReadOnly ''sourceName'']),
     (''SourceUUID'', [ReadOnly ''sourceUUID'']),
     (''State'', [ReadOnly ''state'']),
     (''UUID'', [ReadOnly ''uuid''])]"

lemma Alert_documented: "validates_documentation (''Alert'', Alert_struct, Alert_Validate, Alert_ContextValidate)"
  by code_simp

lemma Alert_named: "named_apart Alert_struct"
  unfolding Alert_struct_def named_apart_def list.map model_field.sel by code_simp

subsection \<open>AlertAPIFilter\<close>

definition alertApiFilterConfigurationTypesItemsEnum :: "string list" where
  "alertApiFilterConfigurationTypesItemsEnum =
    [''PLATFORM'', ''UNIVERSE'']"

definition alertApiFilterSeveritiesItemsEnum :: "string list" where
  "alertApiFilterSeveritiesItemsEnum =
    [''SEVERE'', ''WARNING'']"

definition alertApiFilterStatesItemsEnum :: "string list" where
  "alertApiFilterStatesItemsEnum =
    [''ACTIVE'', ''ACKNOWLEDGED'', ''SUSPENDED'', ''RESOLVED'']"

definition AlertAPIFilter_struct :: "model_field list" where
  "AlertAPIFilter_struct =
    [Field ''ConfigurationTypes'' ''configurationTypes'' False (Slice StringType) [IsRequired, IsUnique, ItemsIn
        alertApiFilterConfigurationTypesItemsEnum],
     Field ''ConfigurationUUID'' ''configurationUuid'' False (Pointer UUIDType) [IsRequired, HasFormat ''uuid''],
     Field ''Severities'' ''severities'' False (Slice StringType) [IsRequired, IsUnique, ItemsIn
        alertApiFilterSeveritiesItemsEnum],
     Field ''SourceName'' ''sourceName'' False (Pointer StringType) [IsRequired],
     Field ''SourceUUIDs'' ''sourceUUIDs'' False (Slice UUIDType) [IsRequired, IsUnique],
     Field ''States'' ''states'' False (Slice StringType) [IsRequired, IsUnique, ItemsIn
        alertApiFilterStatesItemsEnum],
     Field ''Uuids'' ''uuids'' False (Slice UUIDType) [IsRequired, IsUnique]]"

definition AlertAPIFilter_Validate :: "checks" where
  "AlertAPIFilter_Validate =
    [(''ConfigurationTypes'', [Required ''configurationTypes'', UniqueItems ''configurationTypes'', Each [EnumCheck
        ''configurationTypes'' alertApiFilterConfigurationTypesItemsEnum False]]),
     (''ConfigurationUUID'', [Required ''configurationUuid'', FormatOf ''configurationUuid'' ''uuid'']),
     (''Severities'', [Required ''severities'', UniqueItems ''severities'', Each [EnumCheck ''severities''
        alertApiFilterSeveritiesItemsEnum False]]),
     (''SourceName'', [Required ''sourceName'']),
     (''SourceUUIDs'', [Required ''sourceUUIDs'', UniqueItems ''sourceUUIDs'', Each [FormatOf ''sourceUUIDs''
        ''uuid'']]),
     (''States'', [Required ''states'', UniqueItems ''states'', Each [EnumCheck ''states''
        alertApiFilterStatesItemsEnum False]]),
     (''Uuids'', [Required ''uuids'', UniqueItems ''uuids'', Each [FormatOf ''uuids'' ''uuid'']])]"

definition AlertAPIFilter_ContextValidate :: "checks" where
  "AlertAPIFilter_ContextValidate = []"

lemma AlertAPIFilter_documented: "validates_documentation (''AlertAPIFilter'', AlertAPIFilter_struct, AlertAPIFilter_Validate, AlertAPIFilter_ContextValidate)"
  by code_simp

lemma AlertAPIFilter_named: "named_apart AlertAPIFilter_struct"
  unfolding AlertAPIFilter_struct_def named_apart_def list.map model_field.sel by code_simp

subsection \<open>AlertConfiguration\<close>

definition alertConfigurationTypeTargetTypePropEnum :: "string list" where
  "alertConfigurationTypeTargetTypePropEnum =
    [''PLATFORM'', ''UNIVERSE'']"

definition alertConfigurationTypeTemplatePropEnum :: "string list" where
  "alertConfigurationTypeTemplatePropEnum =
    [''REPLICATION_LAG'', ''CLOCK_SKEW'', ''MEMORY_CONSUMPTION'', ''HEALTH_CHECK_ERROR'',
     ''HEALTH_CHECK_NOTIFICATION_ERROR'', ''BACKUP_FAILURE'', ''BACKUP_SCHEDULE_FAILURE'', ''INACTIVE_CRON_NODES'',
     ''ALERT_QUERY_FAILED'', ''ALERT_CONFIG_WRITING_FAILED'', ''ALERT_NOTIFICATION_ERROR'',
     ''ALERT_NOTIFICATION_CHANNEL_ERROR'', ''NODE_DOWN'', ''NODE_RESTART'', ''NODE_CPU_USAGE'', ''NODE_DISK_USAGE'',
     ''NODE_FILE_DESCRIPTORS_USAGE'', ''NODE_OOM_KILLS'', ''DB_VERSION_MISMATCH'', ''DB_INSTANCE_DOWN'',
     ''DB_INSTANCE_RESTART'', ''DB_FATAL_LOGS'', ''DB_ERROR_LOGS'', ''DB_CORE_FILES'', ''DB_YSQL_CONNECTION'',
     ''DB_YCQL_CONNECTION'', ''DB_REDIS_CONNECTION'', ''DB_MEMORY_OVERLOAD'', ''DB_COMPACTION_OVERLOAD'',
     ''DB_QUEUES_OVERFLOW'', ''DB_WRITE_READ_TEST_ERROR'', ''NODE_TO_NODE_CA_CERT_EXPIRY'',
     ''NODE_TO_NODE_CERT_EXPIRY'', ''CLIENT_TO_NODE_CA_CERT_EXPIRY'', ''CLIENT_TO_NODE_CERT_EXPIRY'',
     ''ENCRYPTION_AT_REST_CONFIG_EXPIRY'', ''YSQL_OP_AVG_LATENCY'', ''YCQL_OP_AVG_LATENCY'', ''YSQL_OP_P99_LATENCY'',
     ''YCQL_OP_P99_LATENCY'', ''HIGH_NUM_YSQL_CONNECTIONS'', ''HIGH_NUM_YCQL_CONNECTIONS'',
     ''HIGH_NUM_YEDIS_CONNECTIONS'', ''YSQL_THROUGHPUT'', ''YCQL_THROUGHPUT'', ''MASTER_LEADER_MISSING'',
     ''MASTER_UNDER_REPLICATED'', ''LEADERLESS_TABLETS'', ''UNDER_REPLICATED_TABLETS'']"

definition alertConfigurationTypeThresholdUnitPropEnum :: "string list" where
  "alertConfigurationTypeThresholdUnitPropEnum =
    [''STATUS'', ''COUNT'', ''PERCENT'', ''MILLISECOND'', ''SECOND'', ''DAY'']"

definition AlertConfiguration_struct :: "model_field list" where
  "AlertConfiguration_struct =
    [Field ''Active'' ''active'' False (Pointer BoolType) [IsRequired],
     Field ''AlertCount'' ''alertCount'' False (Pointer FloatType) [IsRequired],
     Field ''CreateTime'' ''createTime'' False DateTimeType [IsRequired, IsReadOnly, HasFormat ''date-time''],
     Field ''CustomerUUID'' ''customerUUID'' False UUIDType [IsRequired, IsReadOnly, HasFormat ''uuid''],
     Field ''DefaultDestination'' ''defaultDestination'' False (Pointer BoolType) [IsRequired],
     Field ''Description'' ''description'' False (Pointer StringType) [IsRequired],
     Field ''DestinationUUID'' ''destinationUUID'' True UUIDType [HasFormat ''uuid''],
     Field ''DurationSec'' ''durationSec'' False (Pointer Int32Type) [IsRequired, AtLeast 0],
     Field ''MaintenanceWindowUuids'' ''maintenanceWindowUuids'' False (Slice UUIDType) [IsReadOnly, IsUnique],
     Field ''Name'' ''name'' False (Pointer StringType) [IsRequired, MaxLen 1000, MinLen 1],
     Field ''Target'' ''target'' False (Pointer (Model ''AlertConfigurationTarget'')) [IsRequired],
     Field ''TargetType'' ''targetType'' False StringType [IsRequired, IsReadOnly, InEnum [''PLATFORM'',
        ''UNIVERSE'']],
     Field ''Template'' ''template'' False StringType [IsRequired, IsReadOnly, InEnum [''REPLICATION_LAG'',
        ''CLOCK_SKEW'', ''MEMORY_CONSUMPTION'', ''HEALTH_CHECK_ERROR'', ''HEALTH_CHECK_NOTIFICATION_ERROR'',
        ''BACKUP_FAILURE'', ''BACKUP_SCHEDULE_FAILURE'', ''INACTIVE_CRON_NODES'', ''ALERT_QUERY_FAILED'',
        ''ALERT_CONFIG_WRITING_FAILED'', ''ALERT_NOTIFICATION_ERROR'', ''ALERT_NOTIFICATION_CHANNEL_ERROR'',
        ''NODE_DOWN'', ''NODE_RESTART'', ''NODE_CPU_USAGE'', ''NODE_DISK_USAGE'',
        ''NODE_FILE_DESCRIPTORS_USAGE'', ''NODE_OOM_KILLS'', ''DB_VERSION_MISMATCH'', ''DB_INSTANCE_DOWN'',
        ''DB_INSTANCE_RESTART'', ''DB_FATAL_LOGS'', ''DB_ERROR_LOGS'', ''DB_CORE_FILES'',
        ''DB_YSQL_CONNECTION'', ''DB_YCQL_CONNECTION'', ''DB_REDIS_CONNECTION'', ''DB_MEMORY_OVERLOAD'',
        ''DB_COMPACTION_OVERLOAD'', ''DB_QUEUES_OVERFLOW'', ''DB_WRITE_READ_TEST_ERROR'',
        ''NODE_TO_NODE_CA_CERT_EXPIRY'', ''NODE_TO_NODE_CERT_EXPIRY'', ''CLIENT_TO_NODE_CA_CERT_EXPIRY'',
        ''CLIENT_TO_NODE_CERT_EXPIRY'', ''ENCRYPTION_AT_REST_CONFIG_EXPIRY'', ''YSQL_OP_AVG_LATENCY'',
        ''YCQL_OP_AVG_LATENCY'', ''YSQL_OP_P99_LATENCY'', ''YCQL_OP_P99_LATENCY'',
        ''HIGH_NUM_YSQL_CONNECTIONS'', ''HIGH_NUM_YCQL_CONNECTIONS'', ''HIGH_NUM_YEDIS_CONNECTIONS'',
        ''YSQL_THROUGHPUT'', ''YCQL_THROUGHPUT'', ''MASTER_LEADER_MISSING'', ''MASTER_UNDER_REPLICATED'',
        ''LEADERLESS_TABLETS'', ''UNDER_REPLICATED_TABLETS'']],
     Field ''ThresholdUnit'' ''thresholdUnit'' False StringType [IsRequired, IsReadOnly, InEnum [''STATUS'',
        ''COUNT'', ''PERCENT'', ''MILLISECOND'', ''SECOND'', ''DAY'']],
     Field ''Thresholds'' ''thresholds'' False (MapOf (Model ''AlertConfigurationThreshold'')) [IsRequired],
     Field ''UUID'' ''uuid'' True UUIDType [IsReadOnly, HasFormat ''uuid'']]"

definition AlertConfiguration_Validate :: "checks" where
  "AlertConfiguration_Validate =
    [(''Active'', [Required ''active'']),
     (''AlertCount'', [Required ''alertCount'']),
     (''CreateTime'', [Required ''createTime'', FormatOf ''createTime'' ''date-time'']),
     (''CustomerUUID'', [Required ''customerUUID'', FormatOf ''customerUUID'' ''uuid'']),
     (''DefaultDestination'', [Required ''defaultDestination'']),
     (''Description'', [Required ''description'']),
     (''DestinationUUID'', [SkipZero, FormatOf ''destinationUUID'' ''uuid'']),
     (''DurationSec'', [Required ''durationSec'', MinimumInt ''durationSec'' 0 True]),
     (''MaintenanceWindowUuids'', [SkipZero, UniqueItems ''maintenanceWindowUuids'', Each [FormatOf
        ''maintenanceWindowUuids'' ''uuid'']]),
     (''Name'', [Required ''name'', MinLength ''name'' 1 True, MaxLength ''name'' 1000 True]),
     (''Target'', [Required ''target'', Nested ''target'']),
     (''TargetType'', [RequiredString ''targetType'', EnumCheck ''targetType''
        alertConfigurationTypeTargetTypePropEnum False]),
     (''Template'', [RequiredString ''template'', EnumCheck ''template'' alertConfigurationTypeTemplatePropEnum
        False]),
     (''ThresholdUnit'', [RequiredString ''thresholdUnit'', EnumCheck ''thresholdUnit''
        alertConfigurationTypeThresholdUnitPropEnum False]),
     (''Thresholds'', [Required ''thresholds'', EachEntry [Required ''thresholds'', Nested ''thresholds'']]),
     (''UUID'', [SkipZero, FormatOf ''uuid'' ''uuid''])]"

definition AlertConfiguration_ContextValidate :: "checks" where
  "AlertConfiguration_ContextValidate =
    [(''CreateTime'', [ReadOnly ''createTime'']),
     (''CustomerUUID'', [ReadOnly ''customerUUID'']),
     (''MaintenanceWindowUuids'', [ReadOnly ''maintenanceWindowUuids'']),
     (''Target'', [Nested ''target'']),
     (''TargetType'', [ReadOnly ''targetType'']),
     (''Template'', [ReadOnly ''template'']),
     (''ThresholdUnit'', [ReadOnly ''thresholdUnit'']),
     (''Thresholds'', [Required ''thresholds'', EachEntry [NestedBare]]),
     (''UUID'', [ReadOnly ''uuid''])]"

lemma AlertConfiguration_documented: "validates_documentation (''AlertConfiguration'', AlertConfiguration_struct, AlertConfiguration_Validate, AlertConfiguration_ContextValidate)"
  by code_simp

lemma AlertConfiguration_named: "named_apart AlertConfiguration_struct"
  unfolding AlertConfiguration_struct_def named_apart_def list.map model_field.sel by code_simp

subsection \<open>AlertConfigurationAPIFilter\<close>

definition alertConfigurationApiFilterTypeDestinationTypePropEnum :: "string list" where
  "alertConfigurationApiFilterTypeDestinationTypePropEnum =
    [''NO_DESTINATION'', ''DEFAULT_DESTINATION'', ''SELECTED_DESTINATION'']"

definition alertConfigurationApiFilterTypeSeverityPropEnum :: "string list" where
  "alertConfigurationApiFilterTypeSeverityPropEnum =
    [''SEVERE'', ''WARNING'']"

definition alertConfigurationApiFilterTypeTargetTypePropEnum :: "string list" where
  "alertConfigurationApiFilterTypeTargetTypePropEnum =
    [''PLATFORM'', ''UNIVERSE'']"

definition alertConfigurationApiFilterTypeTemplatePropEnum :: "string list" where
  "alertConfigurationApiFilterTypeTemplatePropEnum =
    [''REPLICATION_LAG'', ''CLOCK_SKEW'', ''MEMORY_CONSUMPTION'', ''HEALTH_CHECK_ERROR'',
     ''HEALTH_CHECK_NOTIFICATION_ERROR'', ''BACKUP_FAILURE'', ''BACKUP_SCHEDULE_FAILURE'', ''INACTIVE_CRON_NODES'',
     ''ALERT_QUERY_FAILED'', ''ALERT_CONFIG_WRITING_FAILED'', ''ALERT_NOTIFICATION_ERROR'',
     ''ALERT_NOTIFICATION_CHANNEL_ERROR'', ''NODE_DOWN'', ''NODE_RESTART'', ''NODE_CPU_USAGE'', ''NODE_DISK_USAGE'',
     ''NODE_FILE_DESCRIPTORS_USAGE'', ''NODE_OOM_KILLS'', ''DB_VERSION_MISMATCH'', ''DB_INSTANCE_DOWN'',
     ''DB_INSTANCE_RESTART'', ''DB_FATAL_LOGS'', ''DB_ERROR_LOGS'', ''DB_CORE_FILES'', ''DB_YSQL_CONNECTION'',
     ''DB_YCQL_CONNECTION'', ''DB_REDIS_CONNECTION'', ''DB_MEMORY_OVERLOAD'', ''DB_COMPACTION_OVERLOAD'',
     ''DB_QUEUES_OVERFLOW'', ''DB_WRITE_READ_TEST_ERROR'', ''NODE_TO_NODE_CA_CERT_EXPIRY'',
     ''NODE_TO_NODE_CERT_EXPIRY'', ''CLIENT_TO_NODE_CA_CERT_EXPIRY'', ''CLIENT_TO_NODE_CERT_EXPIRY'',
     ''ENCRYPTION_AT_REST_CONFIG_EXPIRY'', ''YSQL_OP_AVG_LATENCY'', ''YCQL_OP_AVG_LATENCY'', ''YSQL_OP_P99_LATENCY'',
     ''YCQL_OP_P99_LATENCY'', ''HIGH_NUM_YSQL_CONNECTIONS'', ''HIGH_NUM_YCQL_CONNECTIONS'',
     ''HIGH_NUM_YEDIS_CONNECTIONS'', ''YSQL_THROUGHPUT'', ''YCQL_THROUGHPUT'', ''MASTER_LEADER_MISSING'',
     ''MASTER_UNDER_REPLICATED'', ''LEADERLESS_TABLETS'', ''UNDER_REPLICATED_TABLETS'']"

definition AlertConfigurationAPIFilter_struct :: "model_field list" where
  "AlertConfigurationAPIFilter_struct =
    [Field ''Active'' ''active'' False (Pointer BoolType) [IsRequired],
     Field ''DestinationType'' ''destinationType'' False (Pointer StringType) [IsRequired, InEnum
        [''NO_DESTINATION'', ''DEFAULT_DESTINATION'', ''SELECTED_DESTINATION'']],
     Field ''DestinationUUID'' ''destinationUuid'' False (Pointer UUIDType) [IsRequired, HasFormat ''uuid''],
     Field ''Name'' ''name'' False (Pointer StringType) [IsRequired],
     Field ''Severity'' ''severity'' False (Pointer StringType) [IsRequired, InEnum [''SEVERE'', ''WARNING'']],
     Field ''Target'' ''target'' False (Pointer (Model ''AlertConfigurationTarget'')) [IsRequired],
     Field ''TargetType'' ''targetType'' False (Pointer StringType) [IsRequired, InEnum [''PLATFORM'', ''UNIVERSE'']],
     Field ''Template'' ''template'' False (Pointer StringType) [IsRequired, InEnum [''REPLICATION_LAG'',
        ''CLOCK_SKEW'', ''MEMORY_CONSUMPTION'', ''HEALTH_CHECK_ERROR'', ''HEALTH_CHECK_NOTIFICATION_ERROR'',
        ''BACKUP_FAILURE'', ''BACKUP_SCHEDULE_FAILURE'', ''INACTIVE_CRON_NODES'', ''ALERT_QUERY_FAILED'',
        ''ALERT_CONFIG_WRITING_FAILED'', ''ALERT_NOTIFICATION_ERROR'', ''ALERT_NOTIFICATION_CHANNEL_ERROR'',
        ''NODE_DOWN'', ''NODE_RESTART'', ''NODE_CPU_USAGE'', ''NODE_DISK_USAGE'',
        ''NODE_FILE_DESCRIPTORS_USAGE'', ''NODE_OOM_KILLS'', ''DB_VERSION_MISMATCH'', ''DB_INSTANCE_DOWN'',
        ''DB_INSTANCE_RESTART'', ''DB_FATAL_LOGS'', ''DB_ERROR_LOGS'', ''DB_CORE_FILES'',
        ''DB_YSQL_CONNECTION'', ''DB_YCQL_CONNECTION'', ''DB_REDIS_CONNECTION'', ''DB_MEMORY_OVERLOAD'',
        ''DB_COMPACTION_OVERLOAD'', ''DB_QUEUES_OVERFLOW'', ''DB_WRITE_READ_TEST_ERROR'',
        ''NODE_TO_NODE_CA_CERT_EXPIRY'', ''NODE_TO_NODE_CERT_EXPIRY'', ''CLIENT_TO_NODE_CA_CERT_EXPIRY'',
        ''CLIENT_TO_NODE_CERT_EXPIRY'', ''ENCRYPTION_AT_REST_CONFIG_EXPIRY'', ''YSQL_OP_AVG_LATENCY'',
        ''YCQL_OP_AVG_LATENCY'', ''YSQL_OP_P99_LATENCY'', ''YCQL_OP_P99_LATENCY'',
        ''HIGH_NUM_YSQL_CONNECTIONS'', ''HIGH_NUM_YCQL_CONNECTIONS'', ''HIGH_NUM_YEDIS_CONNECTIONS'',
        ''YSQL_THROUGHPUT'', ''YCQL_THROUGHPUT'', ''MASTER_LEADER_MISSING'', ''MASTER_UNDER_REPLICATED'',
        ''LEADERLESS_TABLETS'', ''UNDER_REPLICATED_TABLETS'']],
     Field ''Uuids'' ''uuids'' False (Slice UUIDType) [IsRequired, IsUnique]]"

definition AlertConfigurationAPIFilter_Validate :: "checks" where
  "AlertConfigurationAPIFilter_Validate =
    [(''Active'', [Required ''active'']),
     (''DestinationType'', [Required ''destinationType'', EnumCheck ''destinationType''
        alertConfigurationApiFilterTypeDestinationTypePropEnum True]),
     (''DestinationUUID'', [Required ''destinationUuid'', FormatOf ''destinationUuid'' ''uuid'']),
     (''Name'', [Required ''name'']),
     (''Severity'', [Required ''severity'', EnumCheck ''severity'' alertConfigurationApiFilterTypeSeverityPropEnum
        True]),
     (''Target'', [Required ''target'', Nested ''target'']),
     (''TargetType'', [Required ''targetType'', EnumCheck ''targetType''
        alertConfigurationApiFilterTypeTargetTypePropEnum True]),
     (''Template'', [Required ''template'', EnumCheck ''template'' alertConfigurationApiFilterTypeTemplatePropEnum
        True]),
     (''Uuids'', [Required ''uuids'', UniqueItems ''uuids'', Each [FormatOf ''uuids'' ''uuid'']])]"

definition AlertConfigurationAPIFilter_ContextValidate :: "checks" where
  "AlertConfigurationAPIFilter_ContextValidate =
    [(''Target'', [Nested ''target''])]"

lemma AlertConfigurationAPIFilter_documented: "validates_documentation (''AlertConfigurationAPIFilter'', AlertConfigurationAPIFilter_struct, AlertConfigurationAPIFilter_Validate, AlertConfigurationAPIFilter_ContextValidate)"
  by code_simp

lemma AlertConfigurationAPIFilter_named: "named_apart AlertConfigurationAPIFilter_struct"
  unfolding AlertConfigurationAPIFilter_struct_def named_apart_def list.map model_field.sel by code_simp

subsection \<open>AlertConfigurationPagedAPIQuery\<close>

definition alertConfigurationPagedApiQueryTypeDirectionPropEnum :: "string list" where
  "alertConfigurationPagedApiQueryTypeDirectionPropEnum =
    [''ASC'', ''DESC'']"

definition alertConfigurationPagedApiQueryTypeSortByPropEnum :: "string list" where
  "alertConfigurationPagedApiQueryTypeSortByPropEnum =
    [''uuid'', ''name'', ''active'', ''targetType'', ''target'', ''createTime'', ''template'', ''severity'',
     ''destination'', ''alertCount'']"

definition AlertConfigurationPagedAPIQuery_struct :: "model_field list" where
  "AlertConfigurationPagedAPIQuery_struct =
    [Field ''Direction'' ''direction'' False (Pointer StringType) [IsRequired, InEnum [''ASC'', ''DESC'']],
     Field ''Filter'' ''filter'' False (Pointer (Model ''AlertConfigurationAPIFilter'')) [IsRequired],
     Field ''Limit'' ''limit'' False (Pointer Int32Type) [IsRequired],
     Field ''NeedTotalCount'' ''needTotalCount'' False (Pointer BoolType) [IsRequired],
     Field ''Offset'' ''offset'' False (Pointer Int32Type) [IsRequired],
     Field ''SortBy'' ''sortBy'' False (Pointer StringType) [IsRequired, InEnum [''uuid'', ''name'', ''active'',
        ''targetType'', ''target'', ''createTime'', ''template'', ''severity'', ''destination'',
        ''alertCount'']]]"

definition AlertConfigurationPagedAPIQuery_Validate :: "checks" where
  "AlertConfigurationPagedAPIQuery_Validate =
    [(''Direction'', [Required ''direction'', EnumCheck ''direction''
        alertConfigurationPagedApiQueryTypeDirectionPropEnum True]),
     (''Filter'', [Required ''filter'', Nested ''filter'']),
     (''Limit'', [Required ''limit'']),
     (''NeedTotalCount'', [Required ''needTotalCount'']),
     (''Offset'', [Required ''offset'']),
     (''SortBy'', [Required ''sortBy'', EnumCheck ''sortBy'' alertConfigurationPagedApiQueryTypeSortByPropEnum True])]"

definition AlertConfigurationPagedAPIQuery_ContextValidate :: "checks" where
  "AlertConfigurationPagedAPIQuery_ContextValidate =
    [(''Filter'', [Nested ''filter''])]"

lemma AlertConfigurationPagedAPIQuery_documented: "validates_documentation (''AlertConfigurationPagedAPIQuery'', AlertConfigurationPagedAPIQuery_struct, AlertConfigurationPagedAPIQuery_Validate, AlertConfigurationPagedAPIQuery_ContextValidate)"
  by code_simp

lemma AlertConfigurationPagedAPIQuery_named: "named_apart AlertConfigurationPagedAPIQuery_struct"
  unfolding AlertConfigurationPagedAPIQuery_struct_def named_apart_def list.map model_field.sel by code_simp

subsection \<open>AlertConfigurationPagedResponse\<close>

definition AlertConfigurationPagedResponse_struct :: "model_field list" where
  "AlertConfigurationPagedResponse_struct =
    [Field ''Entities'' ''entities'' False (Slice (Pointer (Model ''AlertConfiguration''))) [IsRequired],
     Field ''HasNext'' ''hasNext'' False (Pointer BoolType) [IsRequired],
     Field ''HasPrev'' ''hasPrev'' False (Pointer BoolType) [IsRequired],
     Field ''TotalCount'' ''totalCount'' False (Pointer Int32Type) [IsRequired]]"

definition AlertConfigurationPagedResponse_Validate :: "checks" where
  "AlertConfigurationPagedResponse_Validate =
    [(''Entities'', [Required ''entities'', Each [SkipZero, Nested ''entities'']]),
     (''HasNext'', [Required ''hasNext'']),
     (''HasPrev'', [Required ''hasPrev'']),
     (''TotalCount'', [Required ''totalCount''])]"

definition AlertConfigurationPagedResponse_ContextValidate :: "checks" where
  "AlertConfigurationPagedResponse_ContextValidate =
    [(''Entities'', [Each [Nested ''entities'']])]"

lemma AlertConfigurationPagedResponse_documented: "validates_documentation (''AlertConfigurationPagedResponse'', AlertConfigurationPagedResponse_struct, AlertConfigurationPagedResponse_Validate, AlertConfigurationPagedResponse_ContextValidate)"
  by code_simp

lemma AlertConfigurationPagedResponse_named: "named_apart AlertConfigurationPagedResponse_struct"
  unfolding AlertConfigurationPagedResponse_struct_def named_apart_def list.map model_field.sel by code_simp

subsection \<open>AlertConfigurationTarget\<close>

definition AlertConfigurationTarget_struct :: "model_field list" where
  "AlertConfigurationTarget_struct =
    [Field ''All'' ''all'' True BoolType [],
     Field ''Uuids'' ''uuids'' False (Slice UUIDType) [IsUnique]]"

definition AlertConfigurationTarget_Validate :: "checks" where
  "AlertConfigurationTarget_Validate =
    [(''Uuids'', [SkipZero, UniqueItems ''uuids'', Each [FormatOf ''uuids'' ''uuid'']])]"

definition AlertConfigurationTarget_ContextValidate :: "checks" where
  "AlertConfigurationTarget_ContextValidate = []"

lemma AlertConfigurationTarget_documented: "validates_documentation (''AlertConfigurationTarget'', AlertConfigurationTarget_struct, AlertConfigurationTarget_Validate, AlertConfigurationTarget_ContextValidate)"
  by code_simp

lemma AlertConfigurationTarget_named: "named_apart AlertConfigurationTarget_struct"
  unfolding AlertConfigurationTarget_struct_def named_apart_def list.map model_field.sel by code_simp

subsection \<open>AlertConfigurationTemplate\<close>

definition alertConfigurationTemplateTypeTargetTypePropEnum :: "string list" where
  "alertConfigurationTemplateTypeTargetTypePropEnum =
    [''PLATFORM'', ''UNIVERSE'']"

definition alertConfigurationTemplateTypeTemplatePropEnum :: "string list" where
  "alertConfigurationTemplateTypeTemplatePropEnum =
    [''REPLICATION_LAG'', ''CLOCK_SKEW'', ''MEMORY_CONSUMPTION'', ''HEALTH_CHECK_ERROR'',
     ''HEALTH_CHECK_NOTIFICATION_ERROR'', ''BACKUP_FAILURE'', ''BACKUP_SCHEDULE_FAILURE'', ''INACTIVE_CRON_NODES'',
     ''ALERT_QUERY_FAILED'', ''ALERT_CONFIG_WRITING_FAILED'', ''ALERT_NOTIFICATION_ERROR'',
     ''ALERT_NOTIFICATION_CHANNEL_ERROR'', ''NODE_DOWN'', ''NODE_RESTART'', ''NODE_CPU_USAGE'', ''NODE_DISK_USAGE'',
     ''NODE_FILE_DESCRIPTORS_USAGE'', ''NODE_OOM_KILLS'', ''DB_VERSION_MISMATCH'', ''DB_INSTANCE_DOWN'',
     ''DB_INSTANCE_RESTART'', ''DB_FATAL_LOGS'', ''DB_ERROR_LOGS'', ''DB_CORE_FILES'', ''DB_YSQL_CONNECTION'',
     ''DB_YCQL_CONNECTION'', ''DB_REDIS_CONNECTION'', ''DB_MEMORY_OVERLOAD'', ''DB_COMPACTION_OVERLOAD'',
     ''DB_QUEUES_OVERFLOW'', ''DB_WRITE_READ_TEST_ERROR'', ''NODE_TO_NODE_CA_CERT_EXPIRY'',
     ''NODE_TO_NODE_CERT_EXPIRY'', ''CLIENT_TO_NODE_CA_CERT_EXPIRY'', ''CLIENT_TO_NODE_CERT_EXPIRY'',
     ''ENCRYPTION_AT_REST_CONFIG_EXPIRY'', ''YSQL_OP_AVG_LATENCY'', ''YCQL_OP_AVG_LATENCY'', ''YSQL_OP_P99_LATENCY'',
     ''YCQL_OP_P99_LATENCY'', ''HIGH_NUM_YSQL_CONNECTIONS'', ''HIGH_NUM_YCQL_CONNECTIONS'',
     ''HIGH_NUM_YEDIS_CONNECTIONS'', ''YSQL_THROUGHPUT'', ''YCQL_THROUGHPUT'', ''MASTER_LEADER_MISSING'',
     ''MASTER_UNDER_REPLICATED'', ''LEADERLESS_TABLETS'', ''UNDER_REPLICATED_TABLETS'']"

definition alertConfigurationTemplateTypeThresholdUnitPropEnum :: "string list" where
  "alertConfigurationTemplateTypeThresholdUnitPropEnum =
    [''STATUS'', ''COUNT'', ''PERCENT'', ''MILLISECOND'', ''SECOND'', ''DAY'']"

definition AlertConfigurationTemplate_struct :: "model_field list" where
  "AlertConfigurationTemplate_struct =
    [Field ''Active'' ''active'' False (Pointer BoolType) [IsRequired],
     Field ''AlertCount'' ''alertCount'' False (Pointer FloatType) [IsRequired],
     Field ''CreateTime'' ''createTime'' False DateTimeType [IsRequired, IsReadOnly, HasFormat ''date-time''],
     Field ''CustomerUUID'' ''customerUUID'' False UUIDType [IsRequired, IsReadOnly, HasFormat ''uuid''],
     Field ''DefaultDestination'' ''defaultDestination'' False (Pointer BoolType) [IsRequired],
     Field ''Description'' ''description'' False (Pointer StringType) [IsRequired],
     Field ''DestinationUUID'' ''destinationUUID'' True UUIDType [HasFormat ''uuid''],
     Field ''DurationSec'' ''durationSec'' False (Pointer Int32Type) [IsRequired, AtLeast 0],
     Field ''MaintenanceWindowUuids'' ''maintenanceWindowUuids'' False (Slice UUIDType) [IsReadOnly, IsUnique],
     Field ''Name'' ''name'' False (Pointer StringType) [IsRequired, MaxLen 1000, MinLen 1],
     Field ''Target'' ''target'' False (Pointer (Model ''AlertConfigurationTarget'')) [IsRequired],
     Field ''TargetType'' ''targetType'' False StringType [IsRequired, IsReadOnly, InEnum [''PLATFORM'',
        ''UNIVERSE'']],
     Field ''Template'' ''template'' False StringType [IsRequired, IsReadOnly, InEnum [''REPLICATION_LAG'',
        ''CLOCK_SKEW'', ''MEMORY_CONSUMPTION'', ''HEALTH_CHECK_ERROR'', ''HEALTH_CHECK_NOTIFICATION_ERROR'',
        ''BACKUP_FAILURE'', ''BACKUP_SCHEDULE_FAILURE'', ''INACTIVE_CRON_NODES'', ''ALERT_QUERY_FAILED'',
        ''ALERT_CONFIG_WRITING_FAILED'', ''ALERT_NOTIFICATION_ERROR'', ''ALERT_NOTIFICATION_CHANNEL_ERROR'',
        ''NODE_DOWN'', ''NODE_RESTART'', ''NODE_CPU_USAGE'', ''NODE_DISK_USAGE'',
        ''NODE_FILE_DESCRIPTORS_USAGE'', ''NODE_OOM_KILLS'', ''DB_VERSION_MISMATCH'', ''DB_INSTANCE_DOWN'',
        ''DB_INSTANCE_RESTART'', ''DB_FATAL_LOGS'', ''DB_ERROR_LOGS'', ''DB_CORE_FILES'',
        ''DB_YSQL_CONNECTION'', ''DB_YCQL_CONNECTION'', ''DB_REDIS_CONNECTION'', ''DB_MEMORY_OVERLOAD'',
        ''DB_COMPACTION_OVERLOAD'', ''DB_QUEUES_OVERFLOW'', ''DB_WRITE_READ_TEST_ERROR'',
        ''NODE_TO_NODE_CA_CERT_EXPIRY'', ''NODE_TO_NODE_CERT_EXPIRY'', ''CLIENT_TO_NODE_CA_CERT_EXPIRY'',
        ''CLIENT_TO_NODE_CERT_EXPIRY'', ''ENCRYPTION_AT_REST_CONFIG_EXPIRY'', ''YSQL_OP_AVG_LATENCY'',
        ''YCQL_OP_AVG_LATENCY'', ''YSQL_OP_P99_LATENCY'', ''YCQL_OP_P99_LATENCY'',
        ''HIGH_NUM_YSQL_CONNECTIONS'', ''HIGH_NUM_YCQL_CONNECTIONS'', ''HIGH_NUM_YEDIS_CONNECTIONS'',
        ''YSQL_THROUGHPUT'', ''YCQL_THROUGHPUT'', ''MASTER_LEADER_MISSING'', ''MASTER_UNDER_REPLICATED'',
        ''LEADERLESS_TABLETS'', ''UNDER_REPLICATED_TABLETS'']],
     Field ''ThresholdConditionReadOnly'' ''thresholdConditionReadOnly'' True (Pointer BoolType) [IsReadOnly],
     Field ''ThresholdInteger'' ''thresholdInteger'' True (Pointer BoolType) [IsReadOnly],
     Field ''ThresholdMaxValue'' ''thresholdMaxValue'' True FloatType [IsReadOnly],
     Field ''ThresholdMinValue'' ''thresholdMinValue'' True FloatType [IsReadOnly],
     Field ''ThresholdReadOnly'' ''thresholdReadOnly'' True (Pointer BoolType) [IsReadOnly],
     Field ''ThresholdUnit'' ''thresholdUnit'' False StringType [IsRequired, IsReadOnly, InEnum [''STATUS'',
        ''COUNT'', ''PERCENT'', ''MILLISECOND'', ''SECOND'', ''DAY'']],
     Field ''ThresholdUnitName'' ''thresholdUnitName'' True StringType [IsReadOnly],
     Field ''Thresholds'' ''thresholds'' False (MapOf (Model ''AlertConfigurationThreshold'')) [IsRequired],
     Field ''UUID'' ''uuid'' True UUIDType [IsReadOnly, HasFormat ''uuid'']]"

definition AlertConfigurationTemplate_Validate :: "checks" where
  "AlertConfigurationTemplate_Validate =
    [(''Active'', [Required ''active'']),
     (''AlertCount'', [Required ''alertCount'']),
     (''CreateTime'', [Required ''createTime'', FormatOf ''createTime'' ''date-time'']),
     (''CustomerUUID'', [Required ''customerUUID'', FormatOf ''customerUUID'' ''uuid'']),
     (''DefaultDestination'', [Required ''defaultDestination'']),
     (''Description'', [Required ''description'']),
     (''DestinationUUID'', [SkipZero, FormatOf ''destinationUUID'' ''uuid'']),
     (''DurationSec'', [Required ''durationSec'', MinimumInt ''durationSec'' 0 True]),
     (''MaintenanceWindowUuids'', [SkipZero, UniqueItems ''maintenanceWindowUuids'', Each [FormatOf
        ''maintenanceWindowUuids'' ''uuid'']]),
     (''Name'', [Required ''name'', MinLength ''name'' 1 True, MaxLength ''name'' 1000 True]),
     (''Target'', [Required ''target'', Nested ''target'']),
     (''TargetType'', [RequiredString ''targetType'', EnumCheck ''targetType''
        alertConfigurationTemplateTypeTargetTypePropEnum False]),
     (''Template'', [RequiredString ''template'', EnumCheck ''template''
        alertConfigurationTemplateTypeTemplatePropEnum False]),
     (''ThresholdUnit'', [RequiredString ''thresholdUnit'', EnumCheck ''thresholdUnit''
        alertConfigurationTemplateTypeThresholdUnitPropEnum False]),
     (''Thresholds'', [Required ''thresholds'', EachEntry [Required ''thresholds'', Nested ''thresholds'']]),
     (''UUID'', [SkipZero, FormatOf ''uuid'' ''uuid''])]"

definition AlertConfigurationTemplate_ContextValidate :: "checks" where
  "AlertConfigurationTemplate_ContextValidate =
    [(''CreateTime'', [ReadOnly ''createTime'']),
     (''CustomerUUID'', [ReadOnly ''customerUUID'']),
     (''MaintenanceWindowUuids'', [ReadOnly ''maintenanceWindowUuids'']),
     (''Target'', [Nested ''target'']),
     (''TargetType'', [ReadOnly ''targetType'']),
     (''Template'', [ReadOnly ''template'']),
     (''ThresholdConditionReadOnly'', [ReadOnly ''thresholdConditionReadOnly'']),
     (''ThresholdInteger'', [ReadOnly ''thresholdInteger'']),
     (''ThresholdMaxValue'', [ReadOnly ''thresholdMaxValue'']),
     (''ThresholdMinValue'', [ReadOnly ''thresholdMinValue'']),
     (''ThresholdReadOnly'', [ReadOnly ''thresholdReadOnly'']),
     (''ThresholdUnit'', [ReadOnly ''thresholdUnit'']),
     (''ThresholdUnitName'', [ReadOnly ''thresholdUnitName'']),
     (''Thresholds'', [Required ''thresholds'', EachEntry [NestedBare]]),
     (''UUID'', [ReadOnly ''uuid''])]"

lemma AlertConfigurationTemplate_documented: "validates_documentation (''AlertConfigurationTemplate'', AlertConfigurationTemplate_struct, AlertConfigurationTemplate_Validate, AlertConfigurationTemplate_ContextValidate)"
  by code_simp

lemma AlertConfigurationTemplate_named: "named_apart AlertConfigurationTemplate_struct"
  unfolding AlertConfigurationTemplate_struct_def named_apart_def list.map model_field.sel by code_simp

subsection \<open>AlertConfigurationThreshold\<close>

definition alertConfigurationThresholdTypeConditionPropEnum :: "string list" where
  "alertConfigurationThresholdTypeConditionPropEnum =
    [''GREATER_THAN'', ''LESS_THAN'']"

definition AlertConfigurationThreshold_struct :: "model_field list" where
  "AlertConfigurationThreshold_struct =
    [Field ''Condition'' ''condition'' False (Pointer StringType) [IsRequired, InEnum [''GREATER_THAN'',
        ''LESS_THAN'']],
     Field ''Threshold'' ''threshold'' False (Pointer FloatType) [IsRequired]]"

definition AlertConfigurationThreshold_Validate :: "checks" where
  "AlertConfigurationThreshold_Validate =
    [(''Condition'', [Required ''condition'', EnumCheck ''condition''
        alertConfigurationThresholdTypeConditionPropEnum True]),
     (''Threshold'', [Required ''threshold''])]"

definition AlertConfigurationThreshold_ContextValidate :: "checks" where
  "AlertConfigurationThreshold_ContextValidate = []"

lemma AlertConfigurationThreshold_documented: "validates_documentation (''AlertConfigurationThreshold'', AlertConfigurationThreshold_struct, AlertConfigurationThreshold_Validate, AlertConfigurationThreshold_ContextValidate)"
  by code_simp

lemma AlertConfigurationThreshold_named: "named_apart AlertConfigurationThreshold_struct"
  unfolding AlertConfigurationThreshold_struct_def named_apart_def list.map model_field.sel by code_simp

subsection \<open>AlertDefinition\<close>

definition AlertDefinition_struct :: "model_field list" where
  "AlertDefinition_struct =
    [Field ''ConfigurationUUID'' ''configurationUUID'' False (Pointer UUIDType) [IsRequired, HasFormat ''uuid''],
     Field ''CustomerUUID'' ''customerUUID'' False (Pointer UUIDType) [IsRequired, HasFormat ''uuid''],
     Field ''Labels'' ''labels'' False (Slice (Pointer (Model ''AlertDefinitionLabel''))) [IsRequired],
     Field ''Query'' ''query'' False (Pointer StringType) [IsRequired],
     Field ''UniverseUUID'' ''universeUUID'' False (Pointer UUIDType) [IsRequired, HasFormat ''uuid''],
     Field ''UUID'' ''uuid'' False (Pointer UUIDType) [IsRequired, HasFormat ''uuid''],
     Field ''Version'' ''version'' False (Pointer Int32Type) [IsRequired]]"

definition AlertDefinition_Validate :: "checks" where
  "AlertDefinition_Validate =
    [(''ConfigurationUUID'', [Required ''configurationUUID'', FormatOf ''configurationUUID'' ''uuid'']),
     (''CustomerUUID'', [Required ''customerUUID'', FormatOf ''customerUUID'' ''uuid'']),
     (''Labels'', [Required ''labels'', Each [SkipZero, Nested ''labels'']]),
     (''Query'', [Required ''query'']),
     (''UniverseUUID'', [Required ''universeUUID'', FormatOf ''universeUUID'' ''uuid'']),
     (''UUID'', [Required ''uuid'', FormatOf ''uuid'' ''uuid'']),
     (''Version'', [Required ''version''])]"

definition AlertDefinition_ContextValidate :: "checks" where
  "AlertDefinition_ContextValidate =
    [(''Labels'', [Each [Nested ''labels'']])]"

lemma AlertDefinition_documented: "validates_documentation (''AlertDefinition'', AlertDefinition_struct, AlertDefinition_Validate, AlertDefinition_ContextValidate)"
  by code_simp

lemma AlertDefinition_named: "named_apart AlertDefinition_struct"
  unfolding AlertDefinition_struct_def named_apart_def list.map model_field.sel by code_simp

subsection \<open>AlertDefinitionLabel\<close>

definition AlertDefinitionLabel_struct :: "model_field list" where
  "AlertDefinitionLabel_struct =
    [Field ''Key'' ''key'' False (Pointer (Model ''AlertDefinitionLabelKey'')) [IsRequired],
     Field ''Name'' ''name'' False (Pointer StringType) [IsRequired],
     Field ''Value'' ''value'' False (Pointer StringType) [IsRequired]]"

definition AlertDefinitionLabel_Validate :: "checks" where
  "AlertDefinitionLabel_Validate =
    [(''Key'', [Required ''key'', Nested ''key'']),
     (''Name'', [Required ''name'']),
     (''Value'', [Required ''value''])]"

definition AlertDefinitionLabel_ContextValidate :: "checks" where
  "AlertDefinitionLabel_ContextValidate =
    [(''Key'', [Nested ''key''])]"

lemma AlertDefinitionLabel_documented: "validates_documentation (''AlertDefinitionLabel'', AlertDefinitionLabel_struct, AlertDefinitionLabel_Validate, AlertDefinitionLabel_ContextValidate)"
  by code_simp

lemma AlertDefinitionLabel_named: "named_apart AlertDefinitionLabel_struct"
  unfolding AlertDefinitionLabel_struct_def named_apart_def list.map model_field.sel by code_simp

subsection \<open>AlertDefinitionLabelKey\<close>

definition AlertDefinitionLabelKey_struct :: "model_field list" where
  "AlertDefinitionLabelKey_struct =
    [Field ''Name'' ''name'' False (Pointer StringType) [IsRequired]]"

definition AlertDefinitionLabelKey_Validate :: "checks" where
  "AlertDefinitionLabelKey_Validate =
    [(''Name'', [Required ''name''])]"

definition AlertDefinitionLabelKey_ContextValidate :: "checks" where
  "AlertDefinitionLabelKey_ContextValidate = []"

lemma AlertDefinitionLabelKey_documented: "validates_documentation (''AlertDefinitionLabelKey'', AlertDefinitionLabelKey_struct, AlertDefinitionLabelKey_Validate, AlertDefinitionLabelKey_ContextValidate)"
  by code_simp

lemma AlertDefinitionLabelKey_named: "named_apart AlertDefinitionLabelKey_struct"
  unfolding AlertDefinitionLabelKey_struct_def named_apart_def list.map model_field.sel by code_simp

subsection \<open>AlertDestination\<close>

definition AlertDestination_struct :: "model_field list" where
  "AlertDestination_struct =
    [Field ''Channels'' ''channels'' False (Slice UUIDType) [IsRequired, IsReadOnly, MaxCount 2147483647, MinCount 1],
     Field ''CustomerUUID'' ''customerUUID'' False (Pointer UUIDType) [IsRequired, HasFormat ''uuid''],
     Field ''DefaultDestination'' ''defaultDestination'' False (Pointer BoolType) [IsRequired],
     Field ''Name'' ''name'' False (Pointer StringType) [IsRequired, MaxLen 63, MinLen 1],
     Field ''UUID'' ''uuid'' False (Pointer UUIDType) [IsRequired, HasFormat ''uuid'']]"

definition AlertDestination_Validate :: "checks" where
  "AlertDestination_Validate =
    [(''Channels'', [Required ''channels'', MinItems ''channels'' 1, MaxItems ''channels'' 2147483647, Each [FormatOf
        ''channels'' ''uuid'']]),
     (''CustomerUUID'', [Required ''customerUUID'', FormatOf ''customerUUID'' ''uuid'']),
     (''DefaultDestination'', [Required ''defaultDestination'']),
     (''Name'', [Required ''name'', MinLength ''name'' 1 True, MaxLength ''name'' 63 True]),
     (''UUID'', [Required ''uuid'', FormatOf ''uuid'' ''uuid''])]"

definition AlertDestination_ContextValidate :: "checks" where
  "AlertDestination_ContextValidate =
    [(''Channels'', [ReadOnly ''channels''])]"

lemma AlertDestination_documented: "validates_documentation (''AlertDestination'', AlertDestination_struct, AlertDestination_Validate, AlertDestination_ContextValidate)"
  by code_simp

lemma AlertDestination_named: "named_apart AlertDestination_struct"
  unfolding AlertDestination_struct_def named_apart_def list.map model_field.sel by code_simp

subsection \<open>AlertDestinationFormData\<close>

definition AlertDestinationFormData_struct :: "model_field list" where
  "AlertDestinationFormData_struct =
    [Field ''Channels'' ''channels'' False (Slice UUIDType) [IsRequired],
     Field ''DefaultDestination'' ''defaultDestination'' False (Pointer BoolType) [IsRequired],
     Field ''Name'' ''name'' False (Pointer StringType) [IsRequired]]"

definition AlertDestinationFormData_Validate :: "checks" where
  "AlertDestinationFormData_Validate =
    [(''Channels'', [Required ''channels'', Each [FormatOf ''channels'' ''uuid'']]),
     (''DefaultDestination'', [Required ''defaultDestination'']),
     (''Name'', [Required ''name''])]"

definition AlertDestinationFormData_ContextValidate :: "checks" where
  "AlertDestinationFormData_ContextValidate = []"

lemma AlertDestinationFormData_documented: "validates_documentation (''AlertDestinationFormData'', AlertDestinationFormData_struct, AlertDestinationFormData_Validate, AlertDestinationFormData_ContextValidate)"
  by code_simp

lemma AlertDestinationFormData_named: "named_apart AlertDestinationFormData_struct"
  unfolding AlertDestinationFormData_struct_def named_apart_def list.map model_field.sel by code_simp

subsection \<open>AlertLabel\<close>

definition AlertLabel_struct :: "model_field list" where
  "AlertLabel_struct =
    [Field ''Key'' ''key'' False (Pointer (Model ''AlertLabelKey'')) [IsRequired],
     Field ''Name'' ''name'' False (Pointer StringType) [IsRequired],
     Field ''Value'' ''value'' False (Pointer StringType) [IsRequired]]"

definition AlertLabel_Validate :: "checks" where
  "AlertLabel_Validate =
    [(''Key'', [Required ''key'', Nested ''key'']),
     (''Name'', [Required ''name'']),
     (''Value'', [Required ''value''])]"

definition AlertLabel_ContextValidate :: "checks" where
  "AlertLabel_ContextValidate =
    [(''Key'', [Nested ''key''])]"

lemma AlertLabel_documented: "validates_documentation (''AlertLabel'', AlertLabel_struct, AlertLabel_Validate, AlertLabel_ContextValidate)"
  by code_simp

lemma AlertLabel_named: "named_apart AlertLabel_struct"
  unfolding AlertLabel_struct_def named_apart_def list.map model_field.sel by code_simp

subsection \<open>AlertLabelKey\<close>

definition AlertLabelKey_struct :: "model_field list" where
  "AlertLabelKey_struct =
    [Field ''Name'' ''name'' False (Pointer StringType) [IsRequired]]"

definition AlertLabelKey_Validate :: "checks" where
  "AlertLabelKey_Validate =
    [(''Name'', [Required ''name''])]"

definition AlertLabelKey_ContextValidate :: "checks" where
  "AlertLabelKey_ContextValidate = []"

lemma AlertLabelKey_documented: "validates_documentation (''AlertLabelKey'', AlertLabelKey_struct, AlertLabelKey_Validate, AlertLabelKey_ContextValidate)"
  by code_simp

lemma AlertLabelKey_named: "named_apart AlertLabelKey_struct"
  unfolding AlertLabelKey_struct_def named_apart_def list.map model_field.sel by code_simp

subsection \<open>AlertPagedAPIQuery\<close>

definition alertPagedApiQueryTypeDirectionPropEnum :: "string list" where
  "alertPagedApiQueryTypeDirectionPropEnum =
    [''ASC'', ''DESC'']"

definition alertPagedApiQueryTypeSortByPropEnum :: "string list" where
  "alertPagedApiQueryTypeSortByPropEnum =
    [''uuid'', ''createTime'', ''severity'', ''name'', ''sourceName'', ''state'']"

definition AlertPagedAPIQuery_struct :: "model_field list" where
  "AlertPagedAPIQuery_struct =
    [Field ''Direction'' ''direction'' False (Pointer StringType) [IsRequired, InEnum [''ASC'', ''DESC'']],
     Field ''Filter'' ''filter'' False (Pointer (Model ''AlertAPIFilter'')) [IsRequired],
     Field ''Limit'' ''limit'' False (Pointer Int32Type) [IsRequired],
     Field ''NeedTotalCount'' ''needTotalCount'' False (Pointer BoolType) [IsRequired],
     Field ''Offset'' ''offset'' False (Pointer Int32Type) [IsRequired],
     Field ''SortBy'' ''sortBy'' False (Pointer StringType) [IsRequired, InEnum [''uuid'', ''createTime'',
        ''severity'', ''name'', ''sourceName'', ''state'']]]"

definition AlertPagedAPIQuery_Validate :: "checks" where
  "AlertPagedAPIQuery_Validate =
    [(''Direction'', [Required ''direction'', EnumCheck ''direction'' alertPagedApiQueryTypeDirectionPropEnum True]),
     (''Filter'', [Required ''filter'', Nested ''filter'']),
     (''Limit'', [Required ''limit'']),
     (''NeedTotalCount'', [Required ''needTotalCount'']),
     (''Offset'', [Required ''offset'']),
     (''SortBy'', [Required ''sortBy'', EnumCheck ''sortBy'' alertPagedApiQueryTypeSortByPropEnum True])]"

definition AlertPagedAPIQuery_ContextValidate :: "checks" where
  "AlertPagedAPIQuery_ContextValidate =
    [(''Filter'', [Nested ''filter''])]"

lemma AlertPagedAPIQuery_documented: "validates_documentation (''AlertPagedAPIQuery'', AlertPagedAPIQuery_struct, AlertPagedAPIQuery_Validate, AlertPagedAPIQuery_ContextValidate)"
  by code_simp

lemma AlertPagedAPIQuery_named: "named_apart AlertPagedAPIQuery_struct"
  unfolding AlertPagedAPIQuery_struct_def named_apart_def list.map model_field.sel by code_simp

subsection \<open>AlertPagedResponse\<close>

definition AlertPagedResponse_struct :: "model_field list" where
  "AlertPagedResponse_struct =
    [Field ''Entities'' ''entities'' False (Slice (Pointer (Model ''Alert''))) [IsRequired],
     Field ''HasNext'' ''hasNext'' False (Pointer BoolType) [IsRequired],
     Field ''HasPrev'' ''hasPrev'' False (Pointer BoolType) [IsRequired],
     Field ''TotalCount'' ''totalCount'' False (Pointer Int32Type) [IsRequired]]"

definition AlertPagedResponse_Validate :: "checks" where
  "AlertPagedResponse_Validate =
    [(''Entities'', [Required ''entities'', Each [SkipZero, Nested ''entities'']]),
     (''HasNext'', [Required ''hasNext'']),
     (''HasPrev'', [Required ''hasPrev'']),
     (''TotalCount'', [Required ''totalCount''])]"

definition AlertPagedResponse_ContextValidate :: "checks" where
  "AlertPagedResponse_ContextValidate =
    [(''Entities'', [Each [Nested ''entities'']])]"

lemma AlertPagedResponse_documented: "validates_documentation (''AlertPagedResponse'', AlertPagedResponse_struct, AlertPagedResponse_Validate, AlertPagedResponse_ContextValidate)"
  by code_simp

lemma AlertPagedResponse_named: "named_apart AlertPagedResponse_struct"
  unfolding AlertPagedResponse_struct_def named_apart_def list.map model_field.sel by code_simp

subsection \<open>AlertTemplateAPIFilter\<close>

definition alertTemplateApiFilterTypeTargetTypePropEnum :: "string list" where
  "alertTemplateApiFilterTypeTargetTypePropEnum =
    [''PLATFORM'', ''UNIVERSE'']"

definition AlertTemplateAPIFilter_struct :: "model_field list" where
  "AlertTemplateAPIFilter_struct =
    [Field ''Name'' ''name'' False (Pointer StringType) [IsRequired],
     Field ''TargetType'' ''targetType'' False (Pointer StringType) [IsRequired, InEnum [''PLATFORM'', ''UNIVERSE'']]]"

definition AlertTemplateAPIFilter_Validate :: "checks" where
  "AlertTemplateAPIFilter_Validate =
    [(''Name'', [Required ''name'']),
     (''TargetType'', [Required ''targetType'', EnumCheck ''targetType'' alertTemplateApiFilterTypeTargetTypePropEnum
        True])]"

definition AlertTemplateAPIFilter_ContextValidate :: "checks" where
  "AlertTemplateAPIFilter_ContextValidate = []"

lemma AlertTemplateAPIFilter_documented: "validates_documentation (''AlertTemplateAPIFilter'', AlertTemplateAPIFilter_struct, AlertTemplateAPIFilter_Validate, AlertTemplateAPIFilter_ContextValidate)"
  by code_simp

lemma AlertTemplateAPIFilter_named: "named_apart AlertTemplateAPIFilter_struct"
  unfolding AlertTemplateAPIFilter_struct_def named_apart_def list.map model_field.sel by code_simp

subsection \<open>AlertingData\<close>

definition AlertingData_struct :: "model_field list" where
  "AlertingData_struct =
    [Field ''ActiveAlertNotificationIntervalMs'' ''activeAlertNotificationIntervalMs'' True Int64Type [],
     Field ''AlertingEmail'' ''alertingEmail'' True StringType [],
     Field ''CheckIntervalMs'' ''checkIntervalMs'' True Int64Type [],
     Field ''ReportOnlyErrors'' ''reportOnlyErrors'' True BoolType [],
     Field ''SendAlertsToYb'' ''sendAlertsToYb'' True BoolType [],
     Field ''StatusUpdateIntervalMs'' ''statusUpdateIntervalMs'' True Int64Type []]"

definition AlertingData_Validate :: "checks" where
  "AlertingData_Validate = []"

definition AlertingData_ContextValidate :: "checks" where
  "AlertingData_ContextValidate = []"

lemma AlertingData_documented: "validates_documentation (''AlertingData'', AlertingData_struct, AlertingData_Validate, AlertingData_ContextValidate)"
  by code_simp

lemma AlertingData_named: "named_apart AlertingData_struct"
  unfolding AlertingData_struct_def named_apart_def list.map model_field.sel by code_simp

subsection \<open>MaintenanceWindow\<close>

definition maintenanceWindowTypeStatePropEnum :: "string list" where
  "maintenanceWindowTypeStatePropEnum =
    [''FINISHED'', ''ACTIVE'', ''PENDING'']"

definition MaintenanceWindow_struct :: "model_field list" where
  "MaintenanceWindow_struct =
    [Field ''AlertConfigurationFilter'' ''alertConfigurationFilter'' False (Pointer (Model
        ''AlertConfigurationAPIFilter'')) [IsRequired],
     Field ''CreateTime'' ''createTime'' False DateTimeType [IsRequired, IsReadOnly, HasFormat ''date-time''],
     Field ''CustomerUUID'' ''customerUUID'' False UUIDType [IsRequired, IsReadOnly, HasFormat ''uuid''],
     Field ''Description'' ''description'' False (Pointer StringType) [IsRequired, MaxLen 2147483647, MinLen 1],
     Field ''EndTime'' ''endTime'' False (Pointer DateTimeType) [IsRequired, HasFormat ''date-time''],
     Field ''Name'' ''name'' False (Pointer StringType) [IsRequired, MaxLen 1000, MinLen 1],
     Field ''StartTime'' ''startTime'' False (Pointer DateTimeType) [IsRequired, HasFormat ''date-time''],
     Field ''State'' ''state'' True StringType [IsReadOnly, InEnum [''FINISHED'', ''ACTIVE'', ''PENDING'']],
     Field ''UUID'' ''uuid'' True UUIDType [IsReadOnly, HasFormat ''uuid'']]"

definition MaintenanceWindow_Validate :: "checks" where
  "MaintenanceWindow_Validate =
    [(''AlertConfigurationFilter'', [Required ''alertConfigurationFilter'', Nested ''alertConfigurationFilter'']),
     (''CreateTime'', [Required ''createTime'', FormatOf ''createTime'' ''date-time'']),
     (''CustomerUUID'', [Required ''customerUUID'', FormatOf ''customerUUID'' ''uuid'']),
     (''Description'', [Required ''description'', MinLength ''description'' 1 True, MaxLength ''description''
        2147483647 True]),
     (''EndTime'', [Required ''endTime'', FormatOf ''endTime'' ''date-time'']),
     (''Name'', [Required ''name'', MinLength ''name'' 1 True, MaxLength ''name'' 1000 True]),
     (''StartTime'', [Required ''startTime'', FormatOf ''startTime'' ''date-time'']),
     (''State'', [SkipZero, EnumCheck ''state'' maintenanceWindowTypeStatePropEnum False]),
     (''UUID'', [SkipZero, FormatOf ''uuid'' ''uuid''])]"

definition MaintenanceWindow_ContextValidate :: "checks" where
  "MaintenanceWindow_ContextValidate =
    [(''AlertConfigurationFilter'', [Nested ''alertConfigurationFilter'']),
     (''CreateTime'', [ReadOnly ''createTime'']),
     (''CustomerUUID'', [ReadOnly ''customerUUID'']),
     (''State'', [ReadOnly ''state'']),
     (''UUID'', [ReadOnly ''uuid''])]"

lemma MaintenanceWindow_documented: "validates_documentation (''MaintenanceWindow'', MaintenanceWindow_struct, MaintenanceWindow_Validate, MaintenanceWindow_ContextValidate)"
  by code_simp

lemma MaintenanceWindow_named: "named_apart MaintenanceWindow_struct"
  unfolding MaintenanceWindow_struct_def named_apart_def list.map model_field.sel by code_simp

subsection \<open>MaintenanceWindowAPIFilter\<close>

definition maintenanceWindowApiFilterStatesItemsEnum :: "string list" where
  "maintenanceWindowApiFilterStatesItemsEnum =
    [''FINISHED'', ''ACTIVE'', ''PENDING'']"

definition MaintenanceWindowAPIFilter_struct :: "model_field list" where
  "MaintenanceWindowAPIFilter_struct =
    [Field ''States'' ''states'' False (Slice StringType) [IsRequired, IsUnique, ItemsIn
        maintenanceWindowApiFilterStatesItemsEnum],
     Field ''Uuids'' ''uuids'' False (Slice UUIDType) [IsRequired, IsUnique]]"

definition MaintenanceWindowAPIFilter_Validate :: "checks" where
  "MaintenanceWindowAPIFilter_Validate =
    [(''States'', [Required ''states'', UniqueItems ''states'', Each [EnumCheck ''states''
        maintenanceWindowApiFilterStatesItemsEnum False]]),
     (''Uuids'', [Required ''uuids'', UniqueItems ''uuids'', Each [FormatOf ''uuids'' ''uuid'']])]"

definition MaintenanceWindowAPIFilter_ContextValidate :: "checks" where
  "MaintenanceWindowAPIFilter_ContextValidate = []"

lemma MaintenanceWindowAPIFilter_documented: "validates_documentation (''MaintenanceWindowAPIFilter'', MaintenanceWindowAPIFilter_struct, MaintenanceWindowAPIFilter_Validate, MaintenanceWindowAPIFilter_ContextValidate)"
  by code_simp

lemma MaintenanceWindowAPIFilter_named: "named_apart MaintenanceWindowAPIFilter_struct"
  unfolding MaintenanceWindowAPIFilter_struct_def named_apart_def list.map model_field.sel by code_simp

subsection \<open>MaintenanceWindowPagedAPIQuery\<close>

definition maintenanceWindowPagedApiQueryTypeDirectionPropEnum :: "string list" where
  "maintenanceWindowPagedApiQueryTypeDirectionPropEnum =
    [''ASC'', ''DESC'']"

definition maintenanceWindowPagedApiQueryTypeSortByPropEnum :: "string list" where
  "maintenanceWindowPagedApiQueryTypeSortByPropEnum =
    [''uuid'', ''name'', ''createTime'', ''startTime'', ''endTime'', ''state'']"

definition MaintenanceWindowPagedAPIQuery_struct :: "model_field list" where
  "MaintenanceWindowPagedAPIQuery_struct =
    [Field ''Direction'' ''direction'' False (Pointer StringType) [IsRequired, InEnum [''ASC'', ''DESC'']],
     Field ''Filter'' ''filter'' False (Pointer (Model ''MaintenanceWindowAPIFilter'')) [IsRequired],
     Field ''Limit'' ''limit'' False (Pointer Int32Type) [IsRequired],
     Field ''NeedTotalCount'' ''needTotalCount'' False (Pointer BoolType) [IsRequired],
     Field ''Offset'' ''offset'' False (Pointer Int32Type) [IsRequired],
     Field ''SortBy'' ''sortBy'' False (Pointer StringType) [IsRequired, InEnum [''uuid'', ''name'', ''createTime'',
        ''startTime'', ''endTime'', ''state'']]]"

definition MaintenanceWindowPagedAPIQuery_Validate :: "checks" where
  "MaintenanceWindowPagedAPIQuery_Validate =
    [(''Direction'', [Required ''direction'', EnumCheck ''direction''
        maintenanceWindowPagedApiQueryTypeDirectionPropEnum True]),
     (''Filter'', [Required ''filter'', Nested ''filter'']),
     (''Limit'', [Required ''limit'']),
     (''NeedTotalCount'', [Required ''needTotalCount'']),
     (''Offset'', [Required ''offset'']),
     (''SortBy'', [Required ''sortBy'', EnumCheck ''sortBy'' maintenanceWindowPagedApiQueryTypeSortByPropEnum True])]"

definition MaintenanceWindowPagedAPIQuery_ContextValidate :: "checks" where
  "MaintenanceWindowPagedAPIQuery_ContextValidate =
    [(''Filter'', [Nested ''filter''])]"

lemma MaintenanceWindowPagedAPIQuery_documented: "validates_documentation (''MaintenanceWindowPagedAPIQuery'', MaintenanceWindowPagedAPIQuery_struct, MaintenanceWindowPagedAPIQuery_Validate, MaintenanceWindowPagedAPIQuery_ContextValidate)"
  by code_simp

lemma MaintenanceWindowPagedAPIQuery_named: "named_apart MaintenanceWindowPagedAPIQuery_struct"
  unfolding MaintenanceWindowPagedAPIQuery_struct_def named_apart_def list.map model_field.sel by code_simp

subsection \<open>MaintenanceWindowPagedResponse\<close>

definition MaintenanceWindowPagedResponse_struct :: "model_field list" where
  "MaintenanceWindowPagedResponse_struct =
    [Field ''Entities'' ''entities'' False (Slice (Pointer (Model ''MaintenanceWindow''))) [IsRequired],
     Field ''HasNext'' ''hasNext'' False (Pointer BoolType) [IsRequired],
     Field ''HasPrev'' ''hasPrev'' False (Pointer BoolType) [IsRequired],
     Field ''TotalCount'' ''totalCount'' False (Pointer Int32Type) [IsRequired]]"

definition MaintenanceWindowPagedResponse_Validate :: "checks" where
  "MaintenanceWindowPagedResponse_Validate =
    [(''Entities'', [Required ''entities'', Each [SkipZero, Nested ''entities'']]),
     (''HasNext'', [Required ''hasNext'']),
     (''HasPrev'', [Required ''hasPrev'']),
     (''TotalCount'', [Required ''totalCount''])]"

definition MaintenanceWindowPagedResponse_ContextValidate :: "checks" where
  "MaintenanceWindowPagedResponse_ContextValidate =
    [(''Entities'', [Each [Nested ''entities'']])]"

lemma MaintenanceWindowPagedResponse_documented: "validates_documentation (''MaintenanceWindowPagedResponse'', MaintenanceWindowPagedResponse_struct, MaintenanceWindowPagedResponse_Validate, MaintenanceWindowPagedResponse_ContextValidate)"
  by code_simp

lemma MaintenanceWindowPagedResponse_named: "named_apart MaintenanceWindowPagedResponse_struct"
  unfolding MaintenanceWindowPagedResponse_struct_def named_apart_def list.map model_field.sel by code_simp

subsection \<open>The table\<close>

definition modelsAlerts :: "model_table" where
  "modelsAlerts =
    [(''Alert'', Alert_struct, Alert_Validate, Alert_ContextValidate),
     (''AlertAPIFilter'', AlertAPIFilter_struct, AlertAPIFilter_Validate, AlertAPIFilter_ContextValidate),
     (''AlertConfiguration'', AlertConfiguration_struct, AlertConfiguration_Validate,
        AlertConfiguration_ContextValidate),
     (''AlertConfigurationAPIFilter'', AlertConfigurationAPIFilter_struct, AlertConfigurationAPIFilter_Validate,
        AlertConfigurationAPIFilter_ContextValidate),
     (''AlertConfigurationPagedAPIQuery'', AlertConfigurationPagedAPIQuery_struct,
        AlertConfigurationPagedAPIQuery_Validate, AlertConfigurationPagedAPIQuery_ContextValidate),
     (''AlertConfigurationPagedResponse'', AlertConfigurationPagedResponse_struct,
        AlertConfigurationPagedResponse_Validate, AlertConfigurationPagedResponse_ContextValidate),
     (''AlertConfigurationTarget'', AlertConfigurationTarget_struct, AlertConfigurationTarget_Validate,
        AlertConfigurationTarget_ContextValidate),
     (''AlertConfigurationTemplate'', AlertConfigurationTemplate_struct, AlertConfigurationTemplate_Validate,
        AlertConfigurationTemplate_ContextValidate),
     (''AlertConfigurationThreshold'', AlertConfigurationThreshold_struct, AlertConfigurationThreshold_Validate,
        AlertConfigurationThreshold_ContextValidate),
     (''AlertDefinition'', AlertDefinition_struct, AlertDefinition_Validate, AlertDefinition_ContextValidate),
     (''AlertDefinitionLabel'', AlertDefinitionLabel_struct, AlertDefinitionLabel_Validate,
        AlertDefinitionLabel_ContextValidate),
     (''AlertDefinitionLabelKey'', AlertDefinitionLabelKey_struct, AlertDefinitionLabelKey_Validate,
        AlertDefinitionLabelKey_ContextValidate),
     (''AlertDestination'', AlertDestination_struct, AlertDestination_Validate, AlertDestination_ContextValidate),
     (''AlertDestinationFormData'', AlertDestinationFormData_struct, AlertDestinationFormData_Validate,
        AlertDestinationFormData_ContextValidate),
     (''AlertLabel'', AlertLabel_struct, AlertLabel_Validate, AlertLabel_ContextValidate),
     (''AlertLabelKey'', AlertLabelKey_struct, AlertLabelKey_Validate, AlertLabelKey_ContextValidate),
     (''AlertPagedAPIQuery'', AlertPagedAPIQuery_struct, AlertPagedAPIQuery_Validate,
        AlertPagedAPIQuery_ContextValidate),
     (''AlertPagedResponse'', AlertPagedResponse_struct, AlertPagedResponse_Validate,
        AlertPagedResponse_ContextValidate),
     (''AlertTemplateAPIFilter'', AlertTemplateAPIFilter_struct, AlertTemplateAPIFilter_Validate,
        AlertTemplateAPIFilter_ContextValidate),
     (''AlertingData'', AlertingData_struct, AlertingData_Validate, AlertingData_ContextValidate),
     (''MaintenanceWindow'', MaintenanceWindow_struct, MaintenanceWindow_Validate, MaintenanceWindow_ContextValidate),
     (''MaintenanceWindowAPIFilter'', MaintenanceWindowAPIFilter_struct, MaintenanceWindowAPIFilter_Validate,
        MaintenanceWindowAPIFilter_ContextValidate),
     (''MaintenanceWindowPagedAPIQuery'', MaintenanceWindowPagedAPIQuery_struct,
        MaintenanceWindowPagedAPIQuery_Validate, MaintenanceWindowPagedAPIQuery_ContextValidate),
     (''MaintenanceWindowPagedResponse'', MaintenanceWindowPagedResponse_struct,
        MaintenanceWindowPagedResponse_Validate, MaintenanceWindowPagedResponse_ContextValidate)]"

lemma modelsAlerts_documented: "list_all validates_documentation modelsAlerts"
  unfolding modelsAlerts_def list.pred_inject(2)
  by (intro conjI Alert_documented AlertAPIFilter_documented AlertConfiguration_documented
      AlertConfigurationAPIFilter_documented AlertConfigurationPagedAPIQuery_documented
      AlertConfigurationPagedResponse_documented AlertConfigurationTarget_documented
      AlertConfigurationTemplate_documented AlertConfigurationThreshold_documented
      AlertDefinition_documented AlertDefinitionLabel_documented AlertDefinitionLabelKey_documented
      AlertDestination_documented AlertDestinationFormData_documented AlertLabel_documented
      AlertLabelKey_documented AlertPagedAPIQuery_documented AlertPagedResponse_documented
      AlertTemplateAPIFilter_documented AlertingData_documented MaintenanceWindow_documented
      MaintenanceWindowAPIFilter_documented MaintenanceWindowPagedAPIQuery_documented
      MaintenanceWindowPagedResponse_documented) simp

lemma modelsAlerts_named: "list_all (\<lambda>m. named_apart (fst (snd m))) modelsAlerts"
  unfolding modelsAlerts_def list.pred_inject(2) fst_conv snd_conv
  by (intro conjI Alert_named AlertAPIFilter_named AlertConfiguration_named AlertConfigurationAPIFilter_named
      AlertConfigurationPagedAPIQuery_named AlertConfigurationPagedResponse_named
      AlertConfigurationTarget_named AlertConfigurationTemplate_named AlertConfigurationThreshold_named
      AlertDefinition_named AlertDefinitionLabel_named AlertDefinitionLabelKey_named AlertDestination_named
      AlertDestinationFormData_named AlertLabel_named AlertLabelKey_named AlertPagedAPIQuery_named
      AlertPagedResponse_named AlertTemplateAPIFilter_named AlertingData_named MaintenanceWindow_named
      MaintenanceWindowAPIFilter_named MaintenanceWindowPagedAPIQuery_named
      MaintenanceWindowPagedResponse_named) simp

end
