(* ===== verification/ModelsUpgrades.thy ===== *)
theory ModelsUpgrades
  imports ModelDocs ModelJson
begin

section \<open>API models: the parameters of tasks that change a universe\<close>

text \<open>
  The models of the parameters of tasks that change a universe, each with the values of its enumerations, its struct, its \<open>Validate\<close> and its
  \<open>ContextValidate\<close>, as \<open>SwaggerModels\<close> reads them. The lemma after a model checks that the methods
  hold the statements that the comments of the struct demand, and another that the names in JSON differ in more than case;
  the last definition is the table of them.
\<close>

subsection \<open>BackupRequestParams\<close>

definition backupRequestParamsTypeBackupTypePropEnum :: "string list" where
  "backupRequestParamsTypeBackupTypePropEnum =
    [''YQL_TABLE_TYPE'', ''REDIS_TABLE_TYPE'', ''PGSQL_TABLE_TYPE'', ''TRANSACTION_STATUS_TABLE_TYPE'']"

definition backupRequestParamsTypeExpiryTimeUnitPropEnum :: "string list" where
  "backupRequestParamsTypeExpiryTimeUnitPropEnum =
    [''NANOSECONDS'', ''MICROSECONDS'', ''MILLISECONDS'', ''SECONDS'', ''MINUTES'', ''HOURS'', ''DAYS'', ''MONTHS'',
     ''YEARS'']"

definition backupRequestParamsTypeFrequencyTimeUnitPropEnum :: "string list" where
  "backupRequestParamsTypeFrequencyTimeUnitPropEnum =
    [''NANOSECONDS'', ''MICROSECONDS'', ''MILLISECONDS'', ''SECONDS'', ''MINUTES'', ''HOURS'', ''DAYS'', ''MONTHS'',
     ''YEARS'']"

definition BackupRequestParams_struct :: "model_field list" where
  "BackupRequestParams_struct =
    [Field ''AlterLoadBalancer'' ''alterLoadBalancer'' True BoolType [],
     Field ''BackupType'' ''backupType'' True StringType [InEnum [''YQL_TABLE_TYPE'', ''REDIS_TABLE_TYPE'',
        ''PGSQL_TABLE_TYPE'', ''TRANSACTION_STATUS_TABLE_TYPE'']],
     Field ''CmkArn'' ''cmkArn'' True StringType [],
     Field ''CommunicationPorts'' ''communicationPorts'' True (Pointer (Model ''CommunicationPorts'')) [],
     Field ''CronExpression'' ''cronExpression'' True StringType [],
     Field ''CustomerUUID'' ''customerUUID'' True UUIDType [HasFormat ''uuid''],
     Field ''DeviceInfo'' ''deviceInfo'' True (Pointer (Model ''DeviceInfo'')) [],
     Field ''DisableChecksum'' ''disableChecksum'' True BoolType [],
     Field ''EnableVerboseLogs'' ''enableVerboseLogs'' True BoolType [],
     Field ''EncryptionAtRestConfig'' ''encryptionAtRestConfig'' True (Pointer (Model ''EncryptionAtRestConfig'')) [],
     Field ''ErrorString'' ''errorString'' True StringType [],
     Field ''ExpectedUniverseVersion'' ''expectedUniverseVersion'' True Int32Type [],
     Field ''ExpiryTimeUnit'' ''expiryTimeUnit'' True StringType [InEnum [''NANOSECONDS'', ''MICROSECONDS'',
        ''MILLISECONDS'', ''SECONDS'', ''MINUTES'', ''HOURS'', ''DAYS'', ''MONTHS'', ''YEARS'']],
     Field ''ExtraDependencies'' ''extraDependencies'' True (Pointer (Model ''ExtraDependencies'')) [],
     Field ''FirstTry'' ''firstTry'' True BoolType [],
     Field ''FrequencyTimeUnit'' ''frequencyTimeUnit'' True StringType [InEnum [''NANOSECONDS'', ''MICROSECONDS'',
        ''MILLISECONDS'', ''SECONDS'', ''MINUTES'', ''HOURS'', ''DAYS'', ''MONTHS'', ''YEARS'']],
     Field ''IgnoreErrors'' ''ignoreErrors'' True BoolType [],
     Field ''KeyspaceTableList'' ''keyspaceTableList'' False (Slice (Pointer (Model ''KeyspaceTable''))) [],
     Field ''KmsConfigUUID'' ''kmsConfigUUID'' True UUIDType [HasFormat ''uuid''],
     Field ''MinNumBackupsToRetain'' ''minNumBackupsToRetain'' True Int32Type [],
     Field ''NodeDetailsSet'' ''nodeDetailsSet'' False (Slice (Pointer (Model ''NodeDetails''))) [IsUnique],
     Field ''NodeExporterUser'' ''nodeExporterUser'' True StringType [],
     Field ''Parallelism'' ''parallelism'' True Int32Type [],
     Field ''PreviousTaskUUID'' ''previousTaskUUID'' True UUIDType [HasFormat ''uuid''],
     Field ''ScheduleName'' ''scheduleName'' True StringType [],
     Field ''ScheduleUUID'' ''scheduleUUID'' True UUIDType [HasFormat ''uuid''],
     Field ''SchedulingFrequency'' ''schedulingFrequency'' True Int64Type [],
     Field ''SourceXClusterConfigs'' ''sourceXClusterConfigs'' False (Slice UUIDType) [IsReadOnly],
     Field ''Sse'' ''sse'' True BoolType [],
     Field ''StorageConfigUUID'' ''storageConfigUUID'' False (Pointer UUIDType) [IsRequired, HasFormat ''uuid''],
     Field ''TargetXClusterConfigs'' ''targetXClusterConfigs'' False (Slice UUIDType) [IsReadOnly],
     Field ''TimeBeforeDelete'' ''timeBeforeDelete'' True Int64Type [],
     Field ''UniverseUUID'' ''universeUUID'' False (Pointer UUIDType) [IsRequired, HasFormat ''uuid''],
     Field ''UseTablespaces'' ''useTablespaces'' True BoolType [],
     Field ''YbPrevSoftwareVersion'' ''ybPrevSoftwareVersion'' True StringType []]"

definition BackupRequestParams_Validate :: "checks" where
  "BackupRequestParams_Validate =
    [(''BackupType'', [SkipZero, EnumCheck ''backupType'' backupRequestParamsTypeBackupTypePropEnum False]),
     (''CommunicationPorts'', [SkipZero, Nested ''communicationPorts'']),
     (''CustomerUUID'', [SkipZero, FormatOf ''customerUUID'' ''uuid'']),
     (''DeviceInfo'', [SkipZero, Nested ''deviceInfo'']),
     (''EncryptionAtRestConfig'', [SkipZero, Nested ''encryptionAtRestConfig'']),
     (''ExpiryTimeUnit'', [SkipZero, EnumCheck ''expiryTimeUnit'' backupRequestParamsTypeExpiryTimeUnitPropEnum
        False]),
     (''ExtraDependencies'', [SkipZero, Nested ''extraDependencies'']),
     (''FrequencyTimeUnit'', [SkipZero, EnumCheck ''frequencyTimeUnit''
        backupRequestParamsTypeFrequencyTimeUnitPropEnum False]),
     (''KeyspaceTableList'', [SkipZero, Each [SkipZero, Nested ''keyspaceTableList'']]),
     (''KmsConfigUUID'', [SkipZero, FormatOf ''kmsConfigUUID'' ''uuid'']),
     (''NodeDetailsSet'', [SkipZero, UniqueItems ''nodeDetailsSet'', Each [SkipZero, Nested ''nodeDetailsSet'']]),
     (''PreviousTaskUUID'', [SkipZero, FormatOf ''previousTaskUUID'' ''uuid'']),
     (''ScheduleUUID'', [SkipZero, FormatOf ''scheduleUUID'' ''uuid'']),
     (''SourceXClusterConfigs'', [SkipZero, Each [FormatOf ''sourceXClusterConfigs'' ''uuid'']]),
     (''StorageConfigUUID'', [Required ''storageConfigUUID'', FormatOf ''storageConfigUUID'' ''uuid'']),
     (''TargetXClusterConfigs'', [SkipZero, Each [FormatOf ''targetXClusterConfigs'' ''uuid'']]),
     (''UniverseUUID'', [Required ''universeUUID'', FormatOf ''universeUUID'' ''uuid''])]"

definition BackupRequestParams_ContextValidate :: "checks" where
  "BackupRequestParams_ContextValidate =
    [(''CommunicationPorts'', [Nested ''communicationPorts'']),
     (''DeviceInfo'', [Nested ''deviceInfo'']),
     (''EncryptionAtRestConfig'', [Nested ''encryptionAtRestConfig'']),
     (''ExtraDependencies'', [Nested ''extraDependencies'']),
     (''KeyspaceTableList'', [Each [Nested ''keyspaceTableList'']]),
     (''NodeDetailsSet'', [Each [Nested ''nodeDetailsSet'']]),
     (''SourceXClusterConfigs'', [ReadOnly ''sourceXClusterConfigs'']),
     (''TargetXClusterConfigs'', [ReadOnly ''targetXClusterConfigs''])]"

lemma BackupRequestParams_documented: "validates_documentation (''BackupRequestParams'', BackupRequestParams_struct, BackupRequestParams_Validate, BackupRequestParams_ContextValidate)"
  by code_simp

lemma BackupRequestParams_named: "named_apart BackupRequestParams_struct"
  unfolding BackupRequestParams_struct_def named_apart_def list.map model_field.sel by code_simp

subsection \<open>BackupTableParams\<close>

definition backupTableParamsTypeActionTypePropEnum :: "string list" where
  "backupTableParamsTypeActionTypePropEnum =
    [''CREATE'', ''RESTORE'', ''RESTORE_KEYS'', ''DELETE'']"

definition backupTableParamsTypeBackupTypePropEnum :: "string list" where
  "backupTableParamsTypeBackupTypePropEnum =
    [''YQL_TABLE_TYPE'', ''REDIS_TABLE_TYPE'', ''PGSQL_TABLE_TYPE'', ''TRANSACTION_STATUS_TABLE_TYPE'']"

definition backupTableParamsTypeExpiryTimeUnitPropEnum :: "string list" where
  "backupTableParamsTypeExpiryTimeUnitPropEnum =
    [''NANOSECONDS'', ''MICROSECONDS'', ''MILLISECONDS'', ''SECONDS'', ''MINUTES'', ''HOURS'', ''DAYS'', ''MONTHS'',
     ''YEARS'']"

definition backupTableParamsTypeStorageConfigTypePropEnum :: "string list" where
  "backupTableParamsTypeStorageConfigTypePropEnum =
    [''S3'', ''NFS'', ''AZ'', ''GCS'', ''FILE'']"

definition BackupTableParams_struct :: "model_field list" where
  "BackupTableParams_struct =
    [Field ''ActionType'' ''actionType'' True StringType [InEnum [''CREATE'', ''RESTORE'', ''RESTORE_KEYS'',
        ''DELETE'']],
     Field ''AlterLoadBalancer'' ''alterLoadBalancer'' True BoolType [],
     Field ''BackupList'' ''backupList'' False (Slice (Pointer (Model ''BackupTableParams''))) [],
     Field ''BackupSizeInBytes'' ''backupSizeInBytes'' True Int64Type [],
     Field ''BackupType'' ''backupType'' True StringType [InEnum [''YQL_TABLE_TYPE'', ''REDIS_TABLE_TYPE'',
        ''PGSQL_TABLE_TYPE'', ''TRANSACTION_STATUS_TABLE_TYPE'']],
     Field ''BackupUUID'' ''backupUuid'' True UUIDType [HasFormat ''uuid''],
     Field ''CmkArn'' ''cmkArn'' True StringType [],
     Field ''CommunicationPorts'' ''communicationPorts'' True (Pointer (Model ''CommunicationPorts'')) [],
     Field ''CronExpression'' ''cronExpression'' True StringType [],
     Field ''CustomerUUID'' ''customerUuid'' True UUIDType [HasFormat ''uuid''],
     Field ''DeviceInfo'' ''deviceInfo'' True (Pointer (Model ''DeviceInfo'')) [],
     Field ''DisableChecksum'' ''disableChecksum'' True BoolType [],
     Field ''EnableVerboseLogs'' ''enableVerboseLogs'' True BoolType [],
     Field ''EncryptionAtRestConfig'' ''encryptionAtRestConfig'' True (Pointer (Model ''EncryptionAtRestConfig'')) [],
     Field ''ErrorString'' ''errorString'' True StringType [],
     Field ''ExpectedUniverseVersion'' ''expectedUniverseVersion'' True Int32Type [],
     Field ''ExpiryTimeUnit'' ''expiryTimeUnit'' True StringType [InEnum [''NANOSECONDS'', ''MICROSECONDS'',
        ''MILLISECONDS'', ''SECONDS'', ''MINUTES'', ''HOURS'', ''DAYS'', ''MONTHS'', ''YEARS'']],
     Field ''ExtraDependencies'' ''extraDependencies'' True (Pointer (Model ''ExtraDependencies'')) [],
     Field ''FirstTry'' ''firstTry'' True BoolType [],
     Field ''IgnoreErrors'' ''ignoreErrors'' True BoolType [],
     Field ''IsFullBackup'' ''isFullBackup'' True BoolType [],
     Field ''Keyspace'' ''keyspace'' True StringType [],
     Field ''KmsConfigUUID'' ''kmsConfigUUID'' True UUIDType [HasFormat ''uuid''],
     Field ''MinNumBackupsToRetain'' ''minNumBackupsToRetain'' True Int32Type [],
     Field ''NewOwner'' ''newOwner'' True StringType [],
     Field ''NodeDetailsSet'' ''nodeDetailsSet'' False (Slice (Pointer (Model ''NodeDetails''))) [IsUnique],
     Field ''NodeExporterUser'' ''nodeExporterUser'' True StringType [],
     Field ''OldOwner'' ''oldOwner'' True StringType [],
     Field ''Parallelism'' ''parallelism'' True Int32Type [],
     Field ''PreviousTaskUUID'' ''previousTaskUUID'' True UUIDType [HasFormat ''uuid''],
     Field ''RegionLocations'' ''regionLocations'' False (Slice (Pointer (Model ''RegionLocations''))) [],
     Field ''RestoreTimeStamp'' ''restoreTimeStamp'' True StringType [],
     Field ''ScheduleUUID'' ''scheduleUUID'' True UUIDType [HasFormat ''uuid''],
     Field ''SchedulingFrequency'' ''schedulingFrequency'' True Int64Type [],
     Field ''SourceXClusterConfigs'' ''sourceXClusterConfigs'' False (Slice UUIDType) [IsReadOnly],
     Field ''Sse'' ''sse'' True BoolType [],
     Field ''StorageConfigType'' ''storageConfigType'' True StringType [InEnum [''S3'', ''NFS'', ''AZ'', ''GCS'',
        ''FILE'']],
     Field ''StorageConfigUUID'' ''storageConfigUUID'' False (Pointer UUIDType) [IsRequired, HasFormat ''uuid''],
     Field ''StorageLocation'' ''storageLocation'' True StringType [],
     Field ''TableName'' ''tableName'' True StringType [],
     Field ''TableNameList'' ''tableNameList'' False (Slice StringType) [],
     Field ''TableUUID'' ''tableUUID'' True UUIDType [HasFormat ''uuid''],
     Field ''TableUUIDList'' ''tableUUIDList'' False (Slice UUIDType) [],
     Field ''TargetXClusterConfigs'' ''targetXClusterConfigs'' False (Slice UUIDType) [IsReadOnly],
     Field ''TimeBeforeDelete'' ''timeBeforeDelete'' True Int64Type [],
     Field ''TransactionalBackup'' ''transactionalBackup'' True BoolType [],
     Field ''UniverseUUID'' ''universeUUID'' True UUIDType [HasFormat ''uuid''],
     Field ''UseTablespaces'' ''useTablespaces'' True BoolType [],
     Field ''YbPrevSoftwareVersion'' ''ybPrevSoftwareVersion'' True StringType []]"

definition BackupTableParams_Validate :: "checks" where
  "BackupTableParams_Validate =
    [(''ActionType'', [SkipZero, EnumCheck ''actionType'' backupTableParamsTypeActionTypePropEnum False]),
     (''BackupList'', [SkipZero, Each [SkipZero, Nested ''backupList'']]),
     (''BackupType'', [SkipZero, EnumCheck ''backupType'' backupTableParamsTypeBackupTypePropEnum False]),
     (''BackupUUID'', [SkipZero, FormatOf ''backupUuid'' ''uuid'']),
     (''CommunicationPorts'', [SkipZero, Nested ''communicationPorts'']),
     (''CustomerUUID'', [SkipZero, FormatOf ''customerUuid'' ''uuid'']),
     (''DeviceInfo'', [SkipZero, Nested ''deviceInfo'']),
     (''EncryptionAtRestConfig'', [SkipZero, Nested ''encryptionAtRestConfig'']),
     (''ExpiryTimeUnit'', [SkipZero, EnumCheck ''expiryTimeUnit'' backupTableParamsTypeExpiryTimeUnitPropEnum False]),
     (''ExtraDependencies'', [SkipZero, Nested ''extraDependencies'']),
     (''KmsConfigUUID'', [SkipZero, FormatOf ''kmsConfigUUID'' ''uuid'']),
     (''NodeDetailsSet'', [SkipZero, UniqueItems ''nodeDetailsSet'', Each [SkipZero, Nested ''nodeDetailsSet'']]),
     (''PreviousTaskUUID'', [SkipZero, FormatOf ''previousTaskUUID'' ''uuid'']),
     (''RegionLocations'', [SkipZero, Each [SkipZero, Nested ''regionLocations'']]),
     (''ScheduleUUID'', [SkipZero, FormatOf ''scheduleUUID'' ''uuid'']),
     (''SourceXClusterConfigs'', [SkipZero, Each [FormatOf ''sourceXClusterConfigs'' ''uuid'']]),
     (''StorageConfigType'', [SkipZero, EnumCheck ''storageConfigType''
        backupTableParamsTypeStorageConfigTypePropEnum False]),
     (''StorageConfigUUID'', [Required ''storageConfigUUID'', FormatOf ''storageConfigUUID'' ''uuid'']),
     (''TableUUID'', [SkipZero, FormatOf ''tableUUID'' ''uuid'']),
     (''TableUUIDList'', [SkipZero, Each [FormatOf ''tableUUIDList'' ''uuid'']]),
     (''TargetXClusterConfigs'', [SkipZero, Each [FormatOf ''targetXClusterConfigs'' ''uuid'']]),
     (''UniverseUUID'', [SkipZero, FormatOf ''universeUUID'' ''uuid''])]"

definition BackupTableParams_ContextValidate :: "checks" where
  "BackupTableParams_ContextValidate =
    [(''BackupList'', [Each [Nested ''backupList'']]),
     (''CommunicationPorts'', [Nested ''communicationPorts'']),
     (''DeviceInfo'', [Nested ''deviceInfo'']),
     (''EncryptionAtRestConfig'', [Nested ''encryptionAtRestConfig'']),
     (''ExtraDependencies'', [Nested ''extraDependencies'']),
     (''NodeDetailsSet'', [Each [Nested ''nodeDetailsSet'']]),
     (''RegionLocations'', [Each [Nested ''regionLocations'']]),
     (''SourceXClusterConfigs'', [ReadOnly ''sourceXClusterConfigs'']),
     (''TargetXClusterConfigs'', [ReadOnly ''targetXClusterConfigs''])]"

lemma BackupTableParams_documented: "validates_documentation (''BackupTableParams'', BackupTableParams_struct, BackupTableParams_Validate, BackupTableParams_ContextValidate)"
  by code_simp

lemma BackupTableParams_named: "named_apart BackupTableParams_struct"
  unfolding BackupTableParams_struct_def named_apart_def list.map model_field.sel by code_simp

subsection \<open>CertsRotateParams\<close>

definition certsRotateParamsTypeCapabilityPropEnum :: "string list" where
  "certsRotateParamsTypeCapabilityPropEnum =
    [''READ_ONLY'', ''EDITS_ALLOWED'']"

definition certsRotateParamsTypeCurrentClusterTypePropEnum :: "string list" where
  "certsRotateParamsTypeCurrentClusterTypePropEnum =
    [''PRIMARY'', ''ASYNC'']"

definition certsRotateParamsTypeImportedStatePropEnum :: "string list" where
  "certsRotateParamsTypeImportedStatePropEnum =
    [''NONE'', ''STARTED'', ''MASTERS_ADDED'', ''TSERVERS_ADDED'', ''IMPORTED'']"

definition certsRotateParamsTypeUpdatingTaskPropEnum :: "string list" where
  "certsRotateParamsTypeUpdatingTaskPropEnum =
    task_types"

definition certsRotateParamsTypeUpgradeOptionPropEnum :: "string list" where
  "certsRotateParamsTypeUpgradeOptionPropEnum =
    [''Rolling'', ''Non-Rolling'', ''Non-Restart'']"

definition CertsRotateParams_struct :: "model_field list" where
  "CertsRotateParams_struct =
    [Field ''AllowInsecure'' ''allowInsecure'' True BoolType [],
     Field ''BackupInProgress'' ''backupInProgress'' True BoolType [],
     Field ''Capability'' ''capability'' True StringType [InEnum [''READ_ONLY'', ''EDITS_ALLOWED'']],
     Field ''ClientRootCA'' ''clientRootCA'' False (Pointer UUIDType) [IsRequired, HasFormat ''uuid''],
     Field ''Clusters'' ''clusters'' False (Slice (Pointer (Model ''Cluster''))) [IsRequired],
     Field ''CmkArn'' ''cmkArn'' True StringType [],
     Field ''CommunicationPorts'' ''communicationPorts'' True (Pointer (Model ''CommunicationPorts'')) [],
     Field ''CurrentClusterType'' ''currentClusterType'' True StringType [InEnum [''PRIMARY'', ''ASYNC'']],
     Field ''DeviceInfo'' ''deviceInfo'' True (Pointer (Model ''DeviceInfo'')) [],
     Field ''EncryptionAtRestConfig'' ''encryptionAtRestConfig'' True (Pointer (Model ''EncryptionAtRestConfig'')) [],
     Field ''ErrorString'' ''errorString'' True StringType [],
     Field ''ExpectedUniverseVersion'' ''expectedUniverseVersion'' True Int32Type [],
     Field ''ExtraDependencies'' ''extraDependencies'' True (Pointer (Model ''ExtraDependencies'')) [],
     Field ''FirstTry'' ''firstTry'' True BoolType [],
     Field ''ImportedState'' ''importedState'' True StringType [InEnum [''NONE'', ''STARTED'', ''MASTERS_ADDED'',
        ''TSERVERS_ADDED'', ''IMPORTED'']],
     Field ''ItestS3PackagePath'' ''itestS3PackagePath'' True StringType [],
     Field ''KubernetesUpgradeSupported'' ''kubernetesUpgradeSupported'' False (Pointer BoolType) [IsRequired],
     Field ''NextClusterIndex'' ''nextClusterIndex'' True Int32Type [],
     Field ''NodeDetailsSet'' ''nodeDetailsSet'' False (Slice (Pointer (Model ''NodeDetails''))) [IsUnique],
     Field ''NodeExporterUser'' ''nodeExporterUser'' True StringType [],
     Field ''NodePrefix'' ''nodePrefix'' True StringType [],
     Field ''NodesResizeAvailable'' ''nodesResizeAvailable'' True BoolType [],
     Field ''PreviousTaskUUID'' ''previousTaskUUID'' True UUIDType [HasFormat ''uuid''],
     Field ''RemotePackagePath'' ''remotePackagePath'' True StringType [],
     Field ''ResetAZConfig'' ''resetAZConfig'' True BoolType [],
     Field ''RootAndClientRootCASame'' ''rootAndClientRootCASame'' False (Pointer BoolType) [IsRequired],
     Field ''RootCA'' ''rootCA'' False (Pointer UUIDType) [IsRequired, HasFormat ''uuid''],
     Field ''SelfSignedClientCertRotate'' ''selfSignedClientCertRotate'' False (Pointer BoolType) [IsRequired],
     Field ''SelfSignedServerCertRotate'' ''selfSignedServerCertRotate'' False (Pointer BoolType) [IsRequired],
     Field ''SetTxnTableWaitCountFlag'' ''setTxnTableWaitCountFlag'' True BoolType [],
     Field ''SleepAfterMasterRestartMillis'' ''sleepAfterMasterRestartMillis'' False (Pointer Int32Type) [IsRequired],
     Field ''SleepAfterTServerRestartMillis'' ''sleepAfterTServerRestartMillis'' False (Pointer Int32Type)
        [IsRequired],
     Field ''SourceXClusterConfigs'' ''sourceXClusterConfigs'' False (Slice UUIDType) [IsReadOnly],
     Field ''TargetXClusterConfigs'' ''targetXClusterConfigs'' False (Slice UUIDType) [IsReadOnly],
     Field ''UniversePaused'' ''universePaused'' True BoolType [],
     Field ''UniverseUUID'' ''universeUUID'' True UUIDType [HasFormat ''uuid''],
     Field ''UpdateInProgress'' ''updateInProgress'' True BoolType [],
     Field ''UpdateSucceeded'' ''updateSucceeded'' True BoolType [],
     Field ''UpdatingTask'' ''updatingTask'' True StringType [InEnum task_types],
     Field ''UpdatingTaskUUID'' ''updatingTaskUUID'' True UUIDType [HasFormat ''uuid''],
     Field ''UpgradeOption'' ''upgradeOption'' False (Pointer StringType) [IsRequired, InEnum [''Rolling'',
        ''Non-Rolling'', ''Non-Restart'']],
     Field ''UserAZSelected'' ''userAZSelected'' True BoolType [],
     Field ''YbPrevSoftwareVersion'' ''ybPrevSoftwareVersion'' True StringType []]"

definition CertsRotateParams_Validate :: "checks" where
  "CertsRotateParams_Validate =
    [(''Capability'', [SkipZero, EnumCheck ''capability'' certsRotateParamsTypeCapabilityPropEnum False]),
     (''ClientRootCA'', [Required ''clientRootCA'', FormatOf ''clientRootCA'' ''uuid'']),
     (''Clusters'', [Required ''clusters'', Each [SkipZero, Nested ''clusters'']]),
     (''CommunicationPorts'', [SkipZero, Nested ''communicationPorts'']),
     (''CurrentClusterType'', [SkipZero, EnumCheck ''currentClusterType''
        certsRotateParamsTypeCurrentClusterTypePropEnum False]),
     (''DeviceInfo'', [SkipZero, Nested ''deviceInfo'']),
     (''EncryptionAtRestConfig'', [SkipZero, Nested ''encryptionAtRestConfig'']),
     (''ExtraDependencies'', [SkipZero, Nested ''extraDependencies'']),
     (''ImportedState'', [SkipZero, EnumCheck ''importedState'' certsRotateParamsTypeImportedStatePropEnum False]),
     (''KubernetesUpgradeSupported'', [Required ''kubernetesUpgradeSupported'']),
     (''NodeDetailsSet'', [SkipZero, UniqueItems ''nodeDetailsSet'', Each [SkipZero, Nested ''nodeDetailsSet'']]),
     (''PreviousTaskUUID'', [SkipZero, FormatOf ''previousTaskUUID'' ''uuid'']),
     (''RootAndClientRootCASame'', [Required ''rootAndClientRootCASame'']),
     (''RootCA'', [Required ''rootCA'', FormatOf ''rootCA'' ''uuid'']),
     (''SelfSignedClientCertRotate'', [Required ''selfSignedClientCertRotate'']),
     (''SelfSignedServerCertRotate'', [Required ''selfSignedServerCertRotate'']),
     (''SleepAfterMasterRestartMillis'', [Required ''sleepAfterMasterRestartMillis'']),
     (''SleepAfterTServerRestartMillis'', [Required ''sleepAfterTServerRestartMillis'']),
     (''SourceXClusterConfigs'', [SkipZero, Each [FormatOf ''sourceXClusterConfigs'' ''uuid'']]),
     (''TargetXClusterConfigs'', [SkipZero, Each [FormatOf ''targetXClusterConfigs'' ''uuid'']]),
     (''UniverseUUID'', [SkipZero, FormatOf ''universeUUID'' ''uuid'']),
     (''UpdatingTask'', [SkipZero, EnumCheck ''updatingTask'' certsRotateParamsTypeUpdatingTaskPropEnum False]),
     (''UpdatingTaskUUID'', [SkipZero, FormatOf ''updatingTaskUUID'' ''uuid'']),
     (''UpgradeOption'', [Required ''upgradeOption'', EnumCheck ''upgradeOption''
        certsRotateParamsTypeUpgradeOptionPropEnum True])]"

definition CertsRotateParams_ContextValidate :: "checks" where
  "CertsRotateParams_ContextValidate =
    [(''Clusters'', [Each [Nested ''clusters'']]),
     (''CommunicationPorts'', [Nested ''communicationPorts'']),
     (''DeviceInfo'', [Nested ''deviceInfo'']),
     (''EncryptionAtRestConfig'', [Nested ''encryptionAtRestConfig'']),
     (''ExtraDependencies'', [Nested ''extraDependencies'']),
     (''NodeDetailsSet'', [Each [Nested ''nodeDetailsSet'']]),
     (''SourceXClusterConfigs'', [ReadOnly ''sourceXClusterConfigs'']),
     (''TargetXClusterConfigs'', [ReadOnly ''targetXClusterConfigs''])]"

lemma CertsRotateParams_documented: "validates_documentation (''CertsRotateParams'', CertsRotateParams_struct, CertsRotateParams_Validate, CertsRotateParams_ContextValidate)"
  by (simp add: model_check_simps CertsRotateParams_struct_def CertsRotateParams_Validate_def
      CertsRotateParams_ContextValidate_def certsRotateParamsTypeCapabilityPropEnum_def
      certsRotateParamsTypeCurrentClusterTypePropEnum_def
      certsRotateParamsTypeImportedStatePropEnum_def
      certsRotateParamsTypeUpdatingTaskPropEnum_def
      certsRotateParamsTypeUpgradeOptionPropEnum_def)

lemma CertsRotateParams_named: "named_apart CertsRotateParams_struct"
  unfolding CertsRotateParams_struct_def named_apart_def list.map model_field.sel by code_simp

subsection \<open>EncryptionAtRestConfig\<close>

definition encryptionAtRestConfigTypeOpTypePropEnum :: "string list" where
  "encryptionAtRestConfigTypeOpTypePropEnum =
    [''ENABLE'', ''DISABLE'', ''UNDEFINED'']"

definition encryptionAtRestConfigTypeTypePropEnum :: "string list" where
  "encryptionAtRestConfigTypeTypePropEnum =
    [''CMK'', ''DATA_KEY'']"

definition EncryptionAtRestConfig_struct :: "model_field list" where
  "EncryptionAtRestConfig_struct =
    [Field ''EncryptionAtRestEnabled'' ''encryptionAtRestEnabled'' True BoolType [],
     Field ''KmsConfigUUID'' ''kmsConfigUUID'' True UUIDType [HasFormat ''uuid''],
     Field ''OpType'' ''opType'' True StringType [InEnum [''ENABLE'', ''DISABLE'', ''UNDEFINED'']],
     Field ''Type'' ''type'' True StringType [InEnum [''CMK'', ''DATA_KEY'']]]"

definition EncryptionAtRestConfig_Validate :: "checks" where
  "EncryptionAtRestConfig_Validate =
    [(''KmsConfigUUID'', [SkipZero, FormatOf ''kmsConfigUUID'' ''uuid'']),
     (''OpType'', [SkipZero, EnumCheck ''opType'' encryptionAtRestConfigTypeOpTypePropEnum False]),
     (''Type'', [SkipZero, EnumCheck ''type'' encryptionAtRestConfigTypeTypePropEnum False])]"

definition EncryptionAtRestConfig_ContextValidate :: "checks" where
  "EncryptionAtRestConfig_ContextValidate = []"

lemma EncryptionAtRestConfig_documented: "validates_documentation (''EncryptionAtRestConfig'', EncryptionAtRestConfig_struct, EncryptionAtRestConfig_Validate, EncryptionAtRestConfig_ContextValidate)"
  by code_simp

lemma EncryptionAtRestConfig_named: "named_apart EncryptionAtRestConfig_struct"
  unfolding EncryptionAtRestConfig_struct_def named_apart_def list.map model_field.sel by code_simp

subsection \<open>GFlagsUpgradeParams\<close>

definition gFlagsUpgradeParamsTypeCapabilityPropEnum :: "string list" where
  "gFlagsUpgradeParamsTypeCapabilityPropEnum =
    [''READ_ONLY'', ''EDITS_ALLOWED'']"

definition gFlagsUpgradeParamsTypeCurrentClusterTypePropEnum :: "string list" where
  "gFlagsUpgradeParamsTypeCurrentClusterTypePropEnum =
    [''PRIMARY'', ''ASYNC'']"

definition gFlagsUpgradeParamsTypeImportedStatePropEnum :: "string list" where
  "gFlagsUpgradeParamsTypeImportedStatePropEnum =
    [''NONE'', ''STARTED'', ''MASTERS_ADDED'', ''TSERVERS_ADDED'', ''IMPORTED'']"

definition gFlagsUpgradeParamsTypeUpdatingTaskPropEnum :: "string list" where
  "gFlagsUpgradeParamsTypeUpdatingTaskPropEnum =
    task_types"

definition gFlagsUpgradeParamsTypeUpgradeOptionPropEnum :: "string list" where
  "gFlagsUpgradeParamsTypeUpgradeOptionPropEnum =
    [''Rolling'', ''Non-Rolling'', ''Non-Restart'']"

definition GFlagsUpgradeParams_struct :: "model_field list" where
  "GFlagsUpgradeParams_struct =
    [Field ''AllowInsecure'' ''allowInsecure'' True BoolType [],
     Field ''BackupInProgress'' ''backupInProgress'' True BoolType [],
     Field ''Capability'' ''capability'' True StringType [InEnum [''READ_ONLY'', ''EDITS_ALLOWED'']],
     Field ''ClientRootCA'' ''clientRootCA'' True UUIDType [HasFormat ''uuid''],
     Field ''Clusters'' ''clusters'' False (Slice (Pointer (Model ''Cluster''))) [IsRequired],
     Field ''CmkArn'' ''cmkArn'' True StringType [],
     Field ''CommunicationPorts'' ''communicationPorts'' True (Pointer (Model ''CommunicationPorts'')) [],
     Field ''CurrentClusterType'' ''currentClusterType'' True StringType [InEnum [''PRIMARY'', ''ASYNC'']],
     Field ''DeviceInfo'' ''deviceInfo'' True (Pointer (Model ''DeviceInfo'')) [],
     Field ''EncryptionAtRestConfig'' ''encryptionAtRestConfig'' True (Pointer (Model ''EncryptionAtRestConfig'')) [],
     Field ''ErrorString'' ''errorString'' True StringType [],
     Field ''ExpectedUniverseVersion'' ''expectedUniverseVersion'' True Int32Type [],
     Field ''ExtraDependencies'' ''extraDependencies'' True (Pointer (Model ''ExtraDependencies'')) [],
     Field ''FirstTry'' ''firstTry'' True BoolType [],
     Field ''ImportedState'' ''importedState'' True StringType [InEnum [''NONE'', ''STARTED'', ''MASTERS_ADDED'',
        ''TSERVERS_ADDED'', ''IMPORTED'']],
     Field ''ItestS3PackagePath'' ''itestS3PackagePath'' True StringType [],
     Field ''KubernetesUpgradeSupported'' ''kubernetesUpgradeSupported'' False (Pointer BoolType) [IsRequired],
     Field ''MasterGFlags'' ''masterGFlags'' False (MapOf StringType) [IsRequired],
     Field ''NextClusterIndex'' ''nextClusterIndex'' True Int32Type [],
     Field ''NodeDetailsSet'' ''nodeDetailsSet'' False (Slice (Pointer (Model ''NodeDetails''))) [IsUnique],
     Field ''NodeExporterUser'' ''nodeExporterUser'' True StringType [],
     Field ''NodePrefix'' ''nodePrefix'' True StringType [],
     Field ''NodesResizeAvailable'' ''nodesResizeAvailable'' True BoolType [],
     Field ''PreviousTaskUUID'' ''previousTaskUUID'' True UUIDType [HasFormat ''uuid''],
     Field ''RemotePackagePath'' ''remotePackagePath'' True StringType [],
     Field ''ResetAZConfig'' ''resetAZConfig'' True BoolType [],
     Field ''RootAndClientRootCASame'' ''rootAndClientRootCASame'' True BoolType [],
     Field ''RootCA'' ''rootCA'' True UUIDType [HasFormat ''uuid''],
     Field ''SetTxnTableWaitCountFlag'' ''setTxnTableWaitCountFlag'' True BoolType [],
     Field ''SleepAfterMasterRestartMillis'' ''sleepAfterMasterRestartMillis'' False (Pointer Int32Type) [IsRequired],
     Field ''SleepAfterTServerRestartMillis'' ''sleepAfterTServerRestartMillis'' False (Pointer Int32Type)
        [IsRequired],
     Field ''SourceXClusterConfigs'' ''sourceXClusterConfigs'' False (Slice UUIDType) [IsReadOnly],
     Field ''TargetXClusterConfigs'' ''targetXClusterConfigs'' False (Slice UUIDType) [IsReadOnly],
     Field ''TserverGFlags'' ''tserverGFlags'' False (MapOf StringType) [IsRequired],
     Field ''UniversePaused'' ''universePaused'' True BoolType [],
     Field ''UniverseUUID'' ''universeUUID'' True UUIDType [HasFormat ''uuid''],
     Field ''UpdateInProgress'' ''updateInProgress'' True BoolType [],
     Field ''UpdateSucceeded'' ''updateSucceeded'' True BoolType [],
     Field ''UpdatingTask'' ''updatingTask'' True StringType [InEnum task_types],
     Field ''UpdatingTaskUUID'' ''updatingTaskUUID'' True UUIDType [HasFormat ''uuid''],
     Field ''UpgradeOption'' ''upgradeOption'' False (Pointer StringType) [IsRequired, InEnum [''Rolling'',
        ''Non-Rolling'', ''Non-Restart'']],
     Field ''UserAZSelected'' ''userAZSelected'' True BoolType [],
     Field ''YbPrevSoftwareVersion'' ''ybPrevSoftwareVersion'' True StringType []]"

definition GFlagsUpgradeParams_Validate :: "checks" where
  "GFlagsUpgradeParams_Validate =
    [(''Capability'', [SkipZero, EnumCheck ''capability'' gFlagsUpgradeParamsTypeCapabilityPropEnum False]),
     (''ClientRootCA'', [SkipZero, FormatOf ''clientRootCA'' ''uuid'']),
     (''Clusters'', [Required ''clusters'', Each [SkipZero, Nested ''clusters'']]),
     (''CommunicationPorts'', [SkipZero, Nested ''communicationPorts'']),
     (''CurrentClusterType'', [SkipZero, EnumCheck ''currentClusterType''
        gFlagsUpgradeParamsTypeCurrentClusterTypePropEnum False]),
     (''DeviceInfo'', [SkipZero, Nested ''deviceInfo'']),
     (''EncryptionAtRestConfig'', [SkipZero, Nested ''encryptionAtRestConfig'']),
     (''ExtraDependencies'', [SkipZero, Nested ''extraDependencies'']),
     (''ImportedState'', [SkipZero, EnumCheck ''importedState'' gFlagsUpgradeParamsTypeImportedStatePropEnum False]),
     (''KubernetesUpgradeSupported'', [Required ''kubernetesUpgradeSupported'']),
     (''MasterGFlags'', [Required ''masterGFlags'']),
     (''NodeDetailsSet'', [SkipZero, UniqueItems ''nodeDetailsSet'', Each [SkipZero, Nested ''nodeDetailsSet'']]),
     (''PreviousTaskUUID'', [SkipZero, FormatOf ''previousTaskUUID'' ''uuid'']),
     (''RootCA'', [SkipZero, FormatOf ''rootCA'' ''uuid'']),
     (''SleepAfterMasterRestartMillis'', [Required ''sleepAfterMasterRestartMillis'']),
     (''SleepAfterTServerRestartMillis'', [Required ''sleepAfterTServerRestartMillis'']),
     (''SourceXClusterConfigs'', [SkipZero, Each [FormatOf ''sourceXClusterConfigs'' ''uuid'']]),
     (''TargetXClusterConfigs'', [SkipZero, Each [FormatOf ''targetXClusterConfigs'' ''uuid'']]),
     (''TserverGFlags'', [Required ''tserverGFlags'']),
     (''UniverseUUID'', [SkipZero, FormatOf ''universeUUID'' ''uuid'']),
     (''UpdatingTask'', [SkipZero, EnumCheck ''updatingTask'' gFlagsUpgradeParamsTypeUpdatingTaskPropEnum False]),
     (''UpdatingTaskUUID'', [SkipZero, FormatOf ''updatingTaskUUID'' ''uuid'']),
     (''UpgradeOption'', [Required ''upgradeOption'', EnumCheck ''upgradeOption''
        gFlagsUpgradeParamsTypeUpgradeOptionPropEnum True])]"

definition GFlagsUpgradeParams_ContextValidate :: "checks" where
  "GFlagsUpgradeParams_ContextValidate =
    [(''Clusters'', [Each [Nested ''clusters'']]),
     (''CommunicationPorts'', [Nested ''communicationPorts'']),
     (''DeviceInfo'', [Nested ''deviceInfo'']),
     (''EncryptionAtRestConfig'', [Nested ''encryptionAtRestConfig'']),
     (''ExtraDependencies'', [Nested ''extraDependencies'']),
     (''NodeDetailsSet'', [Each [Nested ''nodeDetailsSet'']]),
     (''SourceXClusterConfigs'', [ReadOnly ''sourceXClusterConfigs'']),
     (''TargetXClusterConfigs'', [ReadOnly ''targetXClusterConfigs''])]"

lemma GFlagsUpgradeParams_documented: "validates_documentation (''GFlagsUpgradeParams'', GFlagsUpgradeParams_struct, GFlagsUpgradeParams_Validate, GFlagsUpgradeParams_ContextValidate)"
  by (simp add: model_check_simps GFlagsUpgradeParams_struct_def GFlagsUpgradeParams_Validate_def
      GFlagsUpgradeParams_ContextValidate_def gFlagsUpgradeParamsTypeCapabilityPropEnum_def
      gFlagsUpgradeParamsTypeCurrentClusterTypePropEnum_def
      gFlagsUpgradeParamsTypeImportedStatePropEnum_def
      gFlagsUpgradeParamsTypeUpdatingTaskPropEnum_def
      gFlagsUpgradeParamsTypeUpgradeOptionPropEnum_def)

lemma GFlagsUpgradeParams_named: "named_apart GFlagsUpgradeParams_struct"
  unfolding GFlagsUpgradeParams_struct_def named_apart_def list.map model_field.sel by code_simp

subsection \<open>ImportUniverseFormData\<close>

definition importUniverseFormDataTypeCurrentStatePropEnum :: "string list" where
  "importUniverseFormDataTypeCurrentStatePropEnum =
    [''BEGIN'', ''IMPORTED_MASTERS'', ''IMPORTED_TSERVERS'', ''FINISHED'']"

definition importUniverseFormDataTypeProviderTypePropEnum :: "string list" where
  "importUniverseFormDataTypeProviderTypePropEnum =
    [''unknown'', ''aws'', ''gcp'', ''azu'', ''docker'', ''onprem'', ''kubernetes'', ''local'', ''other'']"

definition ImportUniverseFormData_struct :: "model_field list" where
  "ImportUniverseFormData_struct =
    [Field ''CloudName'' ''cloudName'' False (Pointer StringType) [IsRequired],
     Field ''CloudProviderType'' ''cloudProviderType'' False (Pointer StringType) [IsRequired],
     Field ''CurrentState'' ''currentState'' False (Pointer StringType) [IsRequired, InEnum [''BEGIN'',
        ''IMPORTED_MASTERS'', ''IMPORTED_TSERVERS'', ''FINISHED'']],
     Field ''InstanceType'' ''instanceType'' False (Pointer StringType) [IsRequired],
     Field ''MasterAddresses'' ''masterAddresses'' False (Pointer StringType) [IsRequired],
     Field ''ProviderType'' ''providerType'' False (Pointer StringType) [IsRequired, InEnum [''unknown'', ''aws'',
        ''gcp'', ''azu'', ''docker'', ''onprem'', ''kubernetes'', ''local'', ''other'']],
     Field ''RegionCode'' ''regionCode'' False (Pointer StringType) [IsRequired],
     Field ''RegionName'' ''regionName'' False (Pointer StringType) [IsRequired],
     Field ''ReplicationFactor'' ''replicationFactor'' False (Pointer Int32Type) [IsRequired],
     Field ''SingleStep'' ''singleStep'' False (Pointer BoolType) [IsRequired],
     Field ''UniverseName'' ''universeName'' False (Pointer StringType) [IsRequired],
     Field ''UniverseUUID'' ''universeUUID'' False (Pointer UUIDType) [IsRequired, HasFormat ''uuid''],
     Field ''ZoneCode'' ''zoneCode'' False (Pointer StringType) [IsRequired],
     Field ''ZoneName'' ''zoneName'' False (Pointer StringType) [IsRequired]]"

definition ImportUniverseFormData_Validate :: "checks" where
  "ImportUniverseFormData_Validate =
    [(''CloudName'', [Required ''cloudName'']),
     (''CloudProviderType'', [Required ''cloudProviderType'']),
     (''CurrentState'', [Required ''currentState'', EnumCheck ''currentState''
        importUniverseFormDataTypeCurrentStatePropEnum True]),
     (''InstanceType'', [Required ''instanceType'']),
     (''MasterAddresses'', [Required ''masterAddresses'']),
     (''ProviderType'', [Required ''providerType'', EnumCheck ''providerType''
        importUniverseFormDataTypeProviderTypePropEnum True]),
     (''RegionCode'', [Required ''regionCode'']),
     (''RegionName'', [Required ''regionName'']),
     (''ReplicationFactor'', [Required ''replicationFactor'']),
     (''SingleStep'', [Required ''singleStep'']),
     (''UniverseName'', [Required ''universeName'']),
     (''UniverseUUID'', [Required ''universeUUID'', FormatOf ''universeUUID'' ''uuid'']),
     (''ZoneCode'', [Required ''zoneCode'']),
     (''ZoneName'', [Required ''zoneName''])]"

definition ImportUniverseFormData_ContextValidate :: "checks" where
  "ImportUniverseFormData_ContextValidate = []"

lemma ImportUniverseFormData_documented: "validates_documentation (''ImportUniverseFormData'', ImportUniverseFormData_struct, ImportUniverseFormData_Validate, ImportUniverseFormData_ContextValidate)"
  by code_simp

lemma ImportUniverseFormData_named: "named_apart ImportUniverseFormData_struct"
  unfolding ImportUniverseFormData_struct_def named_apart_def list.map model_field.sel by code_simp

subsection \<open>MultiTableBackupRequestParams\<close>

definition multiTableBackupRequestParamsTypeActionTypePropEnum :: "string list" where
  "multiTableBackupRequestParamsTypeActionTypePropEnum =
    [''CREATE'', ''RESTORE'', ''RESTORE_KEYS'', ''DELETE'']"

definition multiTableBackupRequestParamsTypeBackupTypePropEnum :: "string list" where
  "multiTableBackupRequestParamsTypeBackupTypePropEnum =
    [''YQL_TABLE_TYPE'', ''REDIS_TABLE_TYPE'', ''PGSQL_TABLE_TYPE'', ''TRANSACTION_STATUS_TABLE_TYPE'']"

definition multiTableBackupRequestParamsTypeExpiryTimeUnitPropEnum :: "string list" where
  "multiTableBackupRequestParamsTypeExpiryTimeUnitPropEnum =
    [''NANOSECONDS'', ''MICROSECONDS'', ''MILLISECONDS'', ''SECONDS'', ''MINUTES'', ''HOURS'', ''DAYS'', ''MONTHS'',
     ''YEARS'']"

definition multiTableBackupRequestParamsTypeStorageConfigTypePropEnum :: "string list" where
  "multiTableBackupRequestParamsTypeStorageConfigTypePropEnum =
    [''S3'', ''NFS'', ''AZ'', ''GCS'', ''FILE'']"

definition MultiTableBackupRequestParams_struct :: "model_field list" where
  "MultiTableBackupRequestParams_struct =
    [Field ''ActionType'' ''actionType'' True StringType [InEnum [''CREATE'', ''RESTORE'', ''RESTORE_KEYS'',
        ''DELETE'']],
     Field ''AlterLoadBalancer'' ''alterLoadBalancer'' True BoolType [],
     Field ''BackupList'' ''backupList'' False (Slice (Pointer (Model ''BackupTableParams''))) [],
     Field ''BackupSizeInBytes'' ''backupSizeInBytes'' True Int64Type [],
     Field ''BackupType'' ''backupType'' True StringType [InEnum [''YQL_TABLE_TYPE'', ''REDIS_TABLE_TYPE'',
        ''PGSQL_TABLE_TYPE'', ''TRANSACTION_STATUS_TABLE_TYPE'']],
     Field ''BackupUUID'' ''backupUuid'' True UUIDType [HasFormat ''uuid''],
     Field ''CmkArn'' ''cmkArn'' True StringType [],
     Field ''CommunicationPorts'' ''communicationPorts'' True (Pointer (Model ''CommunicationPorts'')) [],
     Field ''CronExpression'' ''cronExpression'' True StringType [],
     Field ''CustomerUUID'' ''customerUUID'' True UUIDType [HasFormat ''uuid''],
     Field ''DeviceInfo'' ''deviceInfo'' True (Pointer (Model ''DeviceInfo'')) [],
     Field ''DisableChecksum'' ''disableChecksum'' True BoolType [],
     Field ''EnableVerboseLogs'' ''enableVerboseLogs'' True BoolType [],
     Field ''EncryptionAtRestConfig'' ''encryptionAtRestConfig'' True (Pointer (Model ''EncryptionAtRestConfig'')) [],
     Field ''ErrorString'' ''errorString'' True StringType [],
     Field ''ExpectedUniverseVersion'' ''expectedUniverseVersion'' True Int32Type [],
     Field ''ExpiryTimeUnit'' ''expiryTimeUnit'' True StringType [InEnum [''NANOSECONDS'', ''MICROSECONDS'',
        ''MILLISECONDS'', ''SECONDS'', ''MINUTES'', ''HOURS'', ''DAYS'', ''MONTHS'', ''YEARS'']],
     Field ''ExtraDependencies'' ''extraDependencies'' True (Pointer (Model ''ExtraDependencies'')) [],
     Field ''FirstTry'' ''firstTry'' True BoolType [],
     Field ''IgnoreErrors'' ''ignoreErrors'' True BoolType [],
     Field ''IsFullBackup'' ''isFullBackup'' True BoolType [],
     Field ''Keyspace'' ''keyspace'' True StringType [],
     Field ''KmsConfigUUID'' ''kmsConfigUUID'' True UUIDType [HasFormat ''uuid''],
     Field ''MinNumBackupsToRetain'' ''minNumBackupsToRetain'' True Int32Type [],
     Field ''NewOwner'' ''newOwner'' True StringType [],
     Field ''NodeDetailsSet'' ''nodeDetailsSet'' False (Slice (Pointer (Model ''NodeDetails''))) [IsUnique],
     Field ''NodeExporterUser'' ''nodeExporterUser'' True StringType [],
     Field ''OldOwner'' ''oldOwner'' True StringType [],
     Field ''Parallelism'' ''parallelism'' True Int32Type [],
     Field ''PreviousTaskUUID'' ''previousTaskUUID'' True UUIDType [HasFormat ''uuid''],
     Field ''RegionLocations'' ''regionLocations'' False (Slice (Pointer (Model ''RegionLocations''))) [],
     Field ''RestoreTimeStamp'' ''restoreTimeStamp'' True StringType [],
     Field ''ScheduleUUID'' ''scheduleUUID'' True UUIDType [HasFormat ''uuid''],
     Field ''SchedulingFrequency'' ''schedulingFrequency'' True Int64Type [],
     Field ''SourceXClusterConfigs'' ''sourceXClusterConfigs'' False (Slice UUIDType) [IsReadOnly],
     Field ''Sse'' ''sse'' True BoolType [],
     Field ''StorageConfigType'' ''storageConfigType'' True StringType [InEnum [''S3'', ''NFS'', ''AZ'', ''GCS'',
        ''FILE'']],
     Field ''StorageConfigUUID'' ''storageConfigUUID'' False (Pointer UUIDType) [IsRequired, HasFormat ''uuid''],
     Field ''StorageLocation'' ''storageLocation'' True StringType [],
     Field ''TableName'' ''tableName'' True StringType [],
     Field ''TableNameList'' ''tableNameList'' False (Slice StringType) [],
     Field ''TableUUID'' ''tableUUID'' True UUIDType [HasFormat ''uuid''],
     Field ''TableUUIDList'' ''tableUUIDList'' False (Slice UUIDType) [],
     Field ''TargetXClusterConfigs'' ''targetXClusterConfigs'' False (Slice UUIDType) [IsReadOnly],
     Field ''TimeBeforeDelete'' ''timeBeforeDelete'' True Int64Type [],
     Field ''TransactionalBackup'' ''transactionalBackup'' True BoolType [],
     Field ''UniverseUUID'' ''universeUUID'' True UUIDType [HasFormat ''uuid''],
     Field ''UseTablespaces'' ''useTablespaces'' True BoolType [],
     Field ''YbPrevSoftwareVersion'' ''ybPrevSoftwareVersion'' True StringType []]"

definition MultiTableBackupRequestParams_Validate :: "checks" where
  "MultiTableBackupRequestParams_Validate =
    [(''ActionType'', [SkipZero, EnumCheck ''actionType'' multiTableBackupRequestParamsTypeActionTypePropEnum False]),
     (''BackupList'', [SkipZero, Each [SkipZero, Nested ''backupList'']]),
     (''BackupType'', [SkipZero, EnumCheck ''backupType'' multiTableBackupRequestParamsTypeBackupTypePropEnum False]),
     (''BackupUUID'', [SkipZero, FormatOf ''backupUuid'' ''uuid'']),
     (''CommunicationPorts'', [SkipZero, Nested ''communicationPorts'']),
     (''CustomerUUID'', [SkipZero, FormatOf ''customerUUID'' ''uuid'']),
     (''DeviceInfo'', [SkipZero, Nested ''deviceInfo'']),
     (''EncryptionAtRestConfig'', [SkipZero, Nested ''encryptionAtRestConfig'']),
     (''ExpiryTimeUnit'', [SkipZero, EnumCheck ''expiryTimeUnit''
        multiTableBackupRequestParamsTypeExpiryTimeUnitPropEnum False]),
     (''ExtraDependencies'', [SkipZero, Nested ''extraDependencies'']),
     (''KmsConfigUUID'', [SkipZero, FormatOf ''kmsConfigUUID'' ''uuid'']),
     (''NodeDetailsSet'', [SkipZero, UniqueItems ''nodeDetailsSet'', Each [SkipZero, Nested ''nodeDetailsSet'']]),
     (''PreviousTaskUUID'', [SkipZero, FormatOf ''previousTaskUUID'' ''uuid'']),
     (''RegionLocations'', [SkipZero, Each [SkipZero, Nested ''regionLocations'']]),
     (''ScheduleUUID'', [SkipZero, FormatOf ''scheduleUUID'' ''uuid'']),
     (''SourceXClusterConfigs'', [SkipZero, Each [FormatOf ''sourceXClusterConfigs'' ''uuid'']]),
     (''StorageConfigType'', [SkipZero, EnumCheck ''storageConfigType''
        multiTableBackupRequestParamsTypeStorageConfigTypePropEnum False]),
     (''StorageConfigUUID'', [Required ''storageConfigUUID'', FormatOf ''storageConfigUUID'' ''uuid'']),
     (''TableUUID'', [SkipZero, FormatOf ''tableUUID'' ''uuid'']),
     (''TableUUIDList'', [SkipZero, Each [FormatOf ''tableUUIDList'' ''uuid'']]),
     (''TargetXClusterConfigs'', [SkipZero, Each [FormatOf ''targetXClusterConfigs'' ''uuid'']]),
     (''UniverseUUID'', [SkipZero, FormatOf ''universeUUID'' ''uuid''])]"

definition MultiTableBackupRequestParams_ContextValidate :: "checks" where
  "MultiTableBackupRequestParams_ContextValidate =
    [(''BackupList'', [Each [Nested ''backupList'']]),
     (''CommunicationPorts'', [Nested ''communicationPorts'']),
     (''DeviceInfo'', [Nested ''deviceInfo'']),
     (''EncryptionAtRestConfig'', [Nested ''encryptionAtRestConfig'']),
     (''ExtraDependencies'', [Nested ''extraDependencies'']),
     (''NodeDetailsSet'', [Each [Nested ''nodeDetailsSet'']]),
     (''RegionLocations'', [Each [Nested ''regionLocations'']]),
     (''SourceXClusterConfigs'', [ReadOnly ''sourceXClusterConfigs'']),
     (''TargetXClusterConfigs'', [ReadOnly ''targetXClusterConfigs''])]"

lemma MultiTableBackupRequestParams_documented: "validates_documentation (''MultiTableBackupRequestParams'', MultiTableBackupRequestParams_struct, MultiTableBackupRequestParams_Validate, MultiTableBackupRequestParams_ContextValidate)"
  by code_simp

lemma MultiTableBackupRequestParams_named: "named_apart MultiTableBackupRequestParams_struct"
  unfolding MultiTableBackupRequestParams_struct_def named_apart_def list.map model_field.sel by code_simp

subsection \<open>ResizeNodeParams\<close>

definition resizeNodeParamsTypeCapabilityPropEnum :: "string list" where
  "resizeNodeParamsTypeCapabilityPropEnum =
    [''READ_ONLY'', ''EDITS_ALLOWED'']"

definition resizeNodeParamsTypeCurrentClusterTypePropEnum :: "string list" where
  "resizeNodeParamsTypeCurrentClusterTypePropEnum =
    [''PRIMARY'', ''ASYNC'']"

definition resizeNodeParamsTypeImportedStatePropEnum :: "string list" where
  "resizeNodeParamsTypeImportedStatePropEnum =
    [''NONE'', ''STARTED'', ''MASTERS_ADDED'', ''TSERVERS_ADDED'', ''IMPORTED'']"

definition resizeNodeParamsTypeUpdatingTaskPropEnum :: "string list" where
  "resizeNodeParamsTypeUpdatingTaskPropEnum =
    task_types"

definition resizeNodeParamsTypeUpgradeOptionPropEnum :: "string list" where
  "resizeNodeParamsTypeUpgradeOptionPropEnum =
    [''Rolling'', ''Non-Rolling'', ''Non-Restart'']"

definition ResizeNodeParams_struct :: "model_field list" where
  "ResizeNodeParams_struct =
    [Field ''AllowInsecure'' ''allowInsecure'' True BoolType [],
     Field ''BackupInProgress'' ''backupInProgress'' True BoolType [],
     Field ''Capability'' ''capability'' True StringType [InEnum [''READ_ONLY'', ''EDITS_ALLOWED'']],
     Field ''ClientRootCA'' ''clientRootCA'' True UUIDType [HasFormat ''uuid''],
     Field ''Clusters'' ''clusters'' False (Slice (Pointer (Model ''Cluster''))) [IsRequired],
     Field ''CmkArn'' ''cmkArn'' True StringType [],
     Field ''CommunicationPorts'' ''communicationPorts'' True (Pointer (Model ''CommunicationPorts'')) [],
     Field ''CurrentClusterType'' ''currentClusterType'' True StringType [InEnum [''PRIMARY'', ''ASYNC'']],
     Field ''DeviceInfo'' ''deviceInfo'' True (Pointer (Model ''DeviceInfo'')) [],
     Field ''EncryptionAtRestConfig'' ''encryptionAtRestConfig'' True (Pointer (Model ''EncryptionAtRestConfig'')) [],
     Field ''ErrorString'' ''errorString'' True StringType [],
     Field ''ExpectedUniverseVersion'' ''expectedUniverseVersion'' True Int32Type [],
     Field ''ExtraDependencies'' ''extraDependencies'' True (Pointer (Model ''ExtraDependencies'')) [],
     Field ''FirstTry'' ''firstTry'' True BoolType [],
     Field ''ForceResizeNode'' ''forceResizeNode'' False (Pointer BoolType) [IsRequired],
     Field ''ImportedState'' ''importedState'' True StringType [InEnum [''NONE'', ''STARTED'', ''MASTERS_ADDED'',
        ''TSERVERS_ADDED'', ''IMPORTED'']],
     Field ''ItestS3PackagePath'' ''itestS3PackagePath'' True StringType [],
     Field ''KubernetesUpgradeSupported'' ''kubernetesUpgradeSupported'' False (Pointer BoolType) [IsRequired],
     Field ''NextClusterIndex'' ''nextClusterIndex'' True Int32Type [],
     Field ''NodeDetailsSet'' ''nodeDetailsSet'' False (Slice (Pointer (Model ''NodeDetails''))) [IsUnique],
     Field ''NodeExporterUser'' ''nodeExporterUser'' True StringType [],
     Field ''NodePrefix'' ''nodePrefix'' True StringType [],
     Field ''NodesResizeAvailable'' ''nodesResizeAvailable'' True BoolType [],
     Field ''PreviousTaskUUID'' ''previousTaskUUID'' True UUIDType [HasFormat ''uuid''],
     Field ''RemotePackagePath'' ''remotePackagePath'' True StringType [],
     Field ''ResetAZConfig'' ''resetAZConfig'' True BoolType [],
     Field ''RootAndClientRootCASame'' ''rootAndClientRootCASame'' True BoolType [],
     Field ''RootCA'' ''rootCA'' True UUIDType [HasFormat ''uuid''],
     Field ''SetTxnTableWaitCountFlag'' ''setTxnTableWaitCountFlag'' True BoolType [],
     Field ''SleepAfterMasterRestartMillis'' ''sleepAfterMasterRestartMillis'' False (Pointer Int32Type) [IsRequired],
     Field ''SleepAfterTServerRestartMillis'' ''sleepAfterTServerRestartMillis'' False (Pointer Int32Type)
        [IsRequired],
     Field ''SourceXClusterConfigs'' ''sourceXClusterConfigs'' False (Slice UUIDType) [IsReadOnly],
     Field ''TargetXClusterConfigs'' ''targetXClusterConfigs'' False (Slice UUIDType) [IsReadOnly],
     Field ''UniversePaused'' ''universePaused'' True BoolType [],
     Field ''UniverseUUID'' ''universeUUID'' True UUIDType [HasFormat ''uuid''],
     Field ''UpdateInProgress'' ''updateInProgress'' True BoolType [],
     Field ''UpdateSucceeded'' ''updateSucceeded'' True BoolType [],
     Field ''UpdatingTask'' ''updatingTask'' True StringType [InEnum task_types],
     Field ''UpdatingTaskUUID'' ''updatingTaskUUID'' True UUIDType [HasFormat ''uuid''],
     Field ''UpgradeOption'' ''upgradeOption'' False (Pointer StringType) [IsRequired, InEnum [''Rolling'',
        ''Non-Rolling'', ''Non-Restart'']],
     Field ''UserAZSelected'' ''userAZSelected'' True BoolType [],
     Field ''YbPrevSoftwareVersion'' ''ybPrevSoftwareVersion'' True StringType []]"

definition ResizeNodeParams_Validate :: "checks" where
  "ResizeNodeParams_Validate =
    [(''Capability'', [SkipZero, EnumCheck ''capability'' resizeNodeParamsTypeCapabilityPropEnum False]),
     (''ClientRootCA'', [SkipZero, FormatOf ''clientRootCA'' ''uuid'']),
     (''Clusters'', [Required ''clusters'', Each [SkipZero, Nested ''clusters'']]),
     (''CommunicationPorts'', [SkipZero, Nested ''communicationPorts'']),
     (''CurrentClusterType'', [SkipZero, EnumCheck ''currentClusterType''
        resizeNodeParamsTypeCurrentClusterTypePropEnum False]),
     (''DeviceInfo'', [SkipZero, Nested ''deviceInfo'']),
     (''EncryptionAtRestConfig'', [SkipZero, Nested ''encryptionAtRestConfig'']),
     (''ExtraDependencies'', [SkipZero, Nested ''extraDependencies'']),
     (''ForceResizeNode'', [Required ''forceResizeNode'']),
     (''ImportedState'', [SkipZero, EnumCheck ''importedState'' resizeNodeParamsTypeImportedStatePropEnum False]),
     (''KubernetesUpgradeSupported'', [Required ''kubernetesUpgradeSupported'']),
     (''NodeDetailsSet'', [SkipZero, UniqueItems ''nodeDetailsSet'', Each [SkipZero, Nested ''nodeDetailsSet'']]),
     (''PreviousTaskUUID'', [SkipZero, FormatOf ''previousTaskUUID'' ''uuid'']),
     (''RootCA'', [SkipZero, FormatOf ''rootCA'' ''uuid'']),
     (''SleepAfterMasterRestartMillis'', [Required ''sleepAfterMasterRestartMillis'']),
     (''SleepAfterTServerRestartMillis'', [Required ''sleepAfterTServerRestartMillis'']),
     (''SourceXClusterConfigs'', [SkipZero, Each [FormatOf ''sourceXClusterConfigs'' ''uuid'']]),
     (''TargetXClusterConfigs'', [SkipZero, Each [FormatOf ''targetXClusterConfigs'' ''uuid'']]),
     (''UniverseUUID'', [SkipZero, FormatOf ''universeUUID'' ''uuid'']),
     (''UpdatingTask'', [SkipZero, EnumCheck ''updatingTask'' resizeNodeParamsTypeUpdatingTaskPropEnum False]),
     (''UpdatingTaskUUID'', [SkipZero, FormatOf ''updatingTaskUUID'' ''uuid'']),
     (''UpgradeOption'', [Required ''upgradeOption'', EnumCheck ''upgradeOption''
        resizeNodeParamsTypeUpgradeOptionPropEnum True])]"

definition ResizeNodeParams_ContextValidate :: "checks" where
  "ResizeNodeParams_ContextValidate =
    [(''Clusters'', [Each [Nested ''clusters'']]),
     (''CommunicationPorts'', [Nested ''communicationPorts'']),
     (''DeviceInfo'', [Nested ''deviceInfo'']),
     (''EncryptionAtRestConfig'', [Nested ''encryptionAtRestConfig'']),
     (''ExtraDependencies'', [Nested ''extraDependencies'']),
     (''NodeDetailsSet'', [Each [Nested ''nodeDetailsSet'']]),
     (''SourceXClusterConfigs'', [ReadOnly ''sourceXClusterConfigs'']),
     (''TargetXClusterConfigs'', [ReadOnly ''targetXClusterConfigs''])]"

lemma ResizeNodeParams_documented: "validates_documentation (''ResizeNodeParams'', ResizeNodeParams_struct, ResizeNodeParams_Validate, ResizeNodeParams_ContextValidate)"
  by (simp add: model_check_simps ResizeNodeParams_struct_def ResizeNodeParams_Validate_def
      ResizeNodeParams_ContextValidate_def resizeNodeParamsTypeCapabilityPropEnum_def
      resizeNodeParamsTypeCurrentClusterTypePropEnum_def
      resizeNodeParamsTypeImportedStatePropEnum_def
      resizeNodeParamsTypeUpdatingTaskPropEnum_def
      resizeNodeParamsTypeUpgradeOptionPropEnum_def)

lemma ResizeNodeParams_named: "named_apart ResizeNodeParams_struct"
  unfolding ResizeNodeParams_struct_def named_apart_def list.map model_field.sel by code_simp

subsection \<open>SoftwareUpgradeParams\<close>

definition softwareUpgradeParamsTypeCapabilityPropEnum :: "string list" where
  "softwareUpgradeParamsTypeCapabilityPropEnum =
    [''READ_ONLY'', ''EDITS_ALLOWED'']"

definition softwareUpgradeParamsTypeCurrentClusterTypePropEnum :: "string list" where
  "softwareUpgradeParamsTypeCurrentClusterTypePropEnum =
    [''PRIMARY'', ''ASYNC'']"

definition softwareUpgradeParamsTypeImportedStatePropEnum :: "string list" where
  "softwareUpgradeParamsTypeImportedStatePropEnum =
    [''NONE'', ''STARTED'', ''MASTERS_ADDED'', ''TSERVERS_ADDED'', ''IMPORTED'']"

definition softwareUpgradeParamsTypeUpdatingTaskPropEnum :: "string list" where
  "softwareUpgradeParamsTypeUpdatingTaskPropEnum =
    task_types"

definition softwareUpgradeParamsTypeUpgradeOptionPropEnum :: "string list" where
  "softwareUpgradeParamsTypeUpgradeOptionPropEnum =
    [''Rolling'', ''Non-Rolling'', ''Non-Restart'']"

definition SoftwareUpgradeParams_struct :: "model_field list" where
  "SoftwareUpgradeParams_struct =
    [Field ''AllowInsecure'' ''allowInsecure'' True BoolType [],
     Field ''BackupInProgress'' ''backupInProgress'' True BoolType [],
     Field ''Capability'' ''capability'' True StringType [InEnum [''READ_ONLY'', ''EDITS_ALLOWED'']],
     Field ''ClientRootCA'' ''clientRootCA'' True UUIDType [HasFormat ''uuid''],
     Field ''Clusters'' ''clusters'' False (Slice (Pointer (Model ''Cluster''))) [IsRequired],
     Field ''CmkArn'' ''cmkArn'' True StringType [],
     Field ''CommunicationPorts'' ''communicationPorts'' True (Pointer (Model ''CommunicationPorts'')) [],
     Field ''CurrentClusterType'' ''currentClusterType'' True StringType [InEnum [''PRIMARY'', ''ASYNC'']],
     Field ''DeviceInfo'' ''deviceInfo'' True (Pointer (Model ''DeviceInfo'')) [],
     Field ''EncryptionAtRestConfig'' ''encryptionAtRestConfig'' True (Pointer (Model ''EncryptionAtRestConfig'')) [],
     Field ''ErrorString'' ''errorString'' True StringType [],
     Field ''ExpectedUniverseVersion'' ''expectedUniverseVersion'' True Int32Type [],
     Field ''ExtraDependencies'' ''extraDependencies'' True (Pointer (Model ''ExtraDependencies'')) [],
     Field ''FirstTry'' ''firstTry'' True BoolType [],
     Field ''ImportedState'' ''importedState'' True StringType [InEnum [''NONE'', ''STARTED'', ''MASTERS_ADDED'',
        ''TSERVERS_ADDED'', ''IMPORTED'']],
     Field ''ItestS3PackagePath'' ''itestS3PackagePath'' True StringType [],
     Field ''KubernetesUpgradeSupported'' ''kubernetesUpgradeSupported'' False (Pointer BoolType) [IsRequired],
     Field ''NextClusterIndex'' ''nextClusterIndex'' True Int32Type [],
     Field ''NodeDetailsSet'' ''nodeDetailsSet'' False (Slice (Pointer (Model ''NodeDetails''))) [IsUnique],
     Field ''NodeExporterUser'' ''nodeExporterUser'' True StringType [],
     Field ''NodePrefix'' ''nodePrefix'' True StringType [],
     Field ''NodesResizeAvailable'' ''nodesResizeAvailable'' True BoolType [],
     Field ''PreviousTaskUUID'' ''previousTaskUUID'' True UUIDType [HasFormat ''uuid''],
     Field ''RemotePackagePath'' ''remotePackagePath'' True StringType [],
     Field ''ResetAZConfig'' ''resetAZConfig'' True BoolType [],
     Field ''RootAndClientRootCASame'' ''rootAndClientRootCASame'' True BoolType [],
     Field ''RootCA'' ''rootCA'' True UUIDType [HasFormat ''uuid''],
     Field ''SetTxnTableWaitCountFlag'' ''setTxnTableWaitCountFlag'' True BoolType [],
     Field ''SleepAfterMasterRestartMillis'' ''sleepAfterMasterRestartMillis'' False (Pointer Int32Type) [IsRequired],
     Field ''SleepAfterTServerRestartMillis'' ''sleepAfterTServerRestartMillis'' False (Pointer Int32Type)
        [IsRequired],
     Field ''SourceXClusterConfigs'' ''sourceXClusterConfigs'' False (Slice UUIDType) [IsReadOnly],
     Field ''TargetXClusterConfigs'' ''targetXClusterConfigs'' False (Slice UUIDType) [IsReadOnly],
     Field ''UniversePaused'' ''universePaused'' True BoolType [],
     Field ''UniverseUUID'' ''universeUUID'' True UUIDType [HasFormat ''uuid''],
     Field ''UpdateInProgress'' ''updateInProgress'' True BoolType [],
     Field ''UpdateSucceeded'' ''updateSucceeded'' True BoolType [],
     Field ''UpdatingTask'' ''updatingTask'' True StringType [InEnum task_types],
     Field ''UpdatingTaskUUID'' ''updatingTaskUUID'' True UUIDType [HasFormat ''uuid''],
     Field ''UpgradeOption'' ''upgradeOption'' False (Pointer StringType) [IsRequired, InEnum [''Rolling'',
        ''Non-Rolling'', ''Non-Restart'']],
     Field ''UserAZSelected'' ''userAZSelected'' True BoolType [],
     Field ''YbPrevSoftwareVersion'' ''ybPrevSoftwareVersion'' True StringType [],
     Field ''YbSoftwareVersion'' ''ybSoftwareVersion'' False (Pointer StringType) [IsRequired]]"

definition SoftwareUpgradeParams_Validate :: "checks" where
  "SoftwareUpgradeParams_Validate =
    [(''Capability'', [SkipZero, EnumCheck ''capability'' softwareUpgradeParamsTypeCapabilityPropEnum False]),
     (''ClientRootCA'', [SkipZero, FormatOf ''clientRootCA'' ''uuid'']),
     (''Clusters'', [Required ''clusters'', Each [SkipZero, Nested ''clusters'']]),
     (''CommunicationPorts'', [SkipZero, Nested ''communicationPorts'']),
     (''CurrentClusterType'', [SkipZero, EnumCheck ''currentClusterType''
        softwareUpgradeParamsTypeCurrentClusterTypePropEnum False]),
     (''DeviceInfo'', [SkipZero, Nested ''deviceInfo'']),
     (''EncryptionAtRestConfig'', [SkipZero, Nested ''encryptionAtRestConfig'']),
     (''ExtraDependencies'', [SkipZero, Nested ''extraDependencies'']),
     (''ImportedState'', [SkipZero, EnumCheck ''importedState'' softwareUpgradeParamsTypeImportedStatePropEnum
        False]),
     (''KubernetesUpgradeSupported'', [Required ''kubernetesUpgradeSupported'']),
     (''NodeDetailsSet'', [SkipZero, UniqueItems ''nodeDetailsSet'', Each [SkipZero, Nested ''nodeDetailsSet'']]),
     (''PreviousTaskUUID'', [SkipZero, FormatOf ''previousTaskUUID'' ''uuid'']),
     (''RootCA'', [SkipZero, FormatOf ''rootCA'' ''uuid'']),
     (''SleepAfterMasterRestartMillis'', [Required ''sleepAfterMasterRestartMillis'']),
     (''SleepAfterTServerRestartMillis'', [Required ''sleepAfterTServerRestartMillis'']),
     (''SourceXClusterConfigs'', [SkipZero, Each [FormatOf ''sourceXClusterConfigs'' ''uuid'']]),
     (''TargetXClusterConfigs'', [SkipZero, Each [FormatOf ''targetXClusterConfigs'' ''uuid'']]),
     (''UniverseUUID'', [SkipZero, FormatOf ''universeUUID'' ''uuid'']),
     (''UpdatingTask'', [SkipZero, EnumCheck ''updatingTask'' softwareUpgradeParamsTypeUpdatingTaskPropEnum False]),
     (''UpdatingTaskUUID'', [SkipZero, FormatOf ''updatingTaskUUID'' ''uuid'']),
     (''UpgradeOption'', [Required ''upgradeOption'', EnumCheck ''upgradeOption''
        softwareUpgradeParamsTypeUpgradeOptionPropEnum True]),
     (''YbSoftwareVersion'', [Required ''ybSoftwareVersion''])]"

definition SoftwareUpgradeParams_ContextValidate :: "checks" where
  "SoftwareUpgradeParams_ContextValidate =
    [(''Clusters'', [Each [Nested ''clusters'']]),
     (''CommunicationPorts'', [Nested ''communicationPorts'']),
     (''DeviceInfo'', [Nested ''deviceInfo'']),
     (''EncryptionAtRestConfig'', [Nested ''encryptionAtRestConfig'']),
     (''ExtraDependencies'', [Nested ''extraDependencies'']),
     (''NodeDetailsSet'', [Each [Nested ''nodeDetailsSet'']]),
     (''SourceXClusterConfigs'', [ReadOnly ''sourceXClusterConfigs'']),
     (''TargetXClusterConfigs'', [ReadOnly ''targetXClusterConfigs''])]"

lemma SoftwareUpgradeParams_documented: "validates_documentation (''SoftwareUpgradeParams'', SoftwareUpgradeParams_struct, SoftwareUpgradeParams_Validate, SoftwareUpgradeParams_ContextValidate)"
  by (simp add: model_check_simps SoftwareUpgradeParams_struct_def SoftwareUpgradeParams_Validate_def
      SoftwareUpgradeParams_ContextValidate_def
      softwareUpgradeParamsTypeCapabilityPropEnum_def
      softwareUpgradeParamsTypeCurrentClusterTypePropEnum_def
      softwareUpgradeParamsTypeImportedStatePropEnum_def
      softwareUpgradeParamsTypeUpdatingTaskPropEnum_def
      softwareUpgradeParamsTypeUpgradeOptionPropEnum_def)

lemma SoftwareUpgradeParams_named: "named_apart SoftwareUpgradeParams_struct"
  unfolding SoftwareUpgradeParams_struct_def named_apart_def list.map model_field.sel by code_simp

subsection \<open>SystemdUpgradeParams\<close>

definition systemdUpgradeParamsTypeCapabilityPropEnum :: "string list" where
  "systemdUpgradeParamsTypeCapabilityPropEnum =
    [''READ_ONLY'', ''EDITS_ALLOWED'']"

definition systemdUpgradeParamsTypeCurrentClusterTypePropEnum :: "string list" where
  "systemdUpgradeParamsTypeCurrentClusterTypePropEnum =
    [''PRIMARY'', ''ASYNC'']"

definition systemdUpgradeParamsTypeImportedStatePropEnum :: "string list" where
  "systemdUpgradeParamsTypeImportedStatePropEnum =
    [''NONE'', ''STARTED'', ''MASTERS_ADDED'', ''TSERVERS_ADDED'', ''IMPORTED'']"

definition systemdUpgradeParamsTypeUpdatingTaskPropEnum :: "string list" where
  "systemdUpgradeParamsTypeUpdatingTaskPropEnum =
    task_types"

definition systemdUpgradeParamsTypeUpgradeOptionPropEnum :: "string list" where
  "systemdUpgradeParamsTypeUpgradeOptionPropEnum =
    [''Rolling'', ''Non-Rolling'', ''Non-Restart'']"

definition SystemdUpgradeParams_struct :: "model_field list" where
  "SystemdUpgradeParams_struct =
    [Field ''AllowInsecure'' ''allowInsecure'' True BoolType [],
     Field ''BackupInProgress'' ''backupInProgress'' True BoolType [],
     Field ''Capability'' ''capability'' True StringType [InEnum [''READ_ONLY'', ''EDITS_ALLOWED'']],
     Field ''ClientRootCA'' ''clientRootCA'' True UUIDType [HasFormat ''uuid''],
     Field ''Clusters'' ''clusters'' False (Slice (Pointer (Model ''Cluster''))) [IsRequired],
     Field ''CmkArn'' ''cmkArn'' True StringType [],
     Field ''CommunicationPorts'' ''communicationPorts'' True (Pointer (Model ''CommunicationPorts'')) [],
     Field ''CurrentClusterType'' ''currentClusterType'' True StringType [InEnum [''PRIMARY'', ''ASYNC'']],
     Field ''DeviceInfo'' ''deviceInfo'' True (Pointer (Model ''DeviceInfo'')) [],
     Field ''EncryptionAtRestConfig'' ''encryptionAtRestConfig'' True (Pointer (Model ''EncryptionAtRestConfig'')) [],
     Field ''ErrorString'' ''errorString'' True StringType [],
     Field ''ExpectedUniverseVersion'' ''expectedUniverseVersion'' True Int32Type [],
     Field ''ExtraDependencies'' ''extraDependencies'' True (Pointer (Model ''ExtraDependencies'')) [],
     Field ''FirstTry'' ''firstTry'' True BoolType [],
     Field ''ImportedState'' ''importedState'' True StringType [InEnum [''NONE'', ''STARTED'', ''MASTERS_ADDED'',
        ''TSERVERS_ADDED'', ''IMPORTED'']],
     Field ''ItestS3PackagePath'' ''itestS3PackagePath'' True StringType [],
     Field ''KubernetesUpgradeSupported'' ''kubernetesUpgradeSupported'' False (Pointer BoolType) [IsRequired],
     Field ''NextClusterIndex'' ''nextClusterIndex'' True Int32Type [],
     Field ''NodeDetailsSet'' ''nodeDetailsSet'' False (Slice (Pointer (Model ''NodeDetails''))) [IsUnique],
     Field ''NodeExporterUser'' ''nodeExporterUser'' True StringType [],
     Field ''NodePrefix'' ''nodePrefix'' True StringType [],
     Field ''NodesResizeAvailable'' ''nodesResizeAvailable'' True BoolType [],
     Field ''PreviousTaskUUID'' ''previousTaskUUID'' True UUIDType [HasFormat ''uuid''],
     Field ''RemotePackagePath'' ''remotePackagePath'' True StringType [],
     Field ''ResetAZConfig'' ''resetAZConfig'' True BoolType [],
     Field ''RootAndClientRootCASame'' ''rootAndClientRootCASame'' True BoolType [],
     Field ''RootCA'' ''rootCA'' True UUIDType [HasFormat ''uuid''],
     Field ''SetTxnTableWaitCountFlag'' ''setTxnTableWaitCountFlag'' True BoolType [],
     Field ''SleepAfterMasterRestartMillis'' ''sleepAfterMasterRestartMillis'' False (Pointer Int32Type) [IsRequired],
     Field ''SleepAfterTServerRestartMillis'' ''sleepAfterTServerRestartMillis'' False (Pointer Int32Type)
        [IsRequired],
     Field ''SourceXClusterConfigs'' ''sourceXClusterConfigs'' False (Slice UUIDType) [IsReadOnly],
     Field ''TargetXClusterConfigs'' ''targetXClusterConfigs'' False (Slice UUIDType) [IsReadOnly],
     Field ''UniversePaused'' ''universePaused'' True BoolType [],
     Field ''UniverseUUID'' ''universeUUID'' True UUIDType [HasFormat ''uuid''],
     Field ''UpdateInProgress'' ''updateInProgress'' True BoolType [],
     Field ''UpdateSucceeded'' ''updateSucceeded'' True BoolType [],
     Field ''UpdatingTask'' ''updatingTask'' True StringType [InEnum task_types],
     Field ''UpdatingTaskUUID'' ''updatingTaskUUID'' True UUIDType [HasFormat ''uuid''],
     Field ''UpgradeOption'' ''upgradeOption'' False (Pointer StringType) [IsRequired, InEnum [''Rolling'',
        ''Non-Rolling'', ''Non-Restart'']],
     Field ''UserAZSelected'' ''userAZSelected'' True BoolType [],
     Field ''YbPrevSoftwareVersion'' ''ybPrevSoftwareVersion'' True StringType []]"

definition SystemdUpgradeParams_Validate :: "checks" where
  "SystemdUpgradeParams_Validate =
    [(''Capability'', [SkipZero, EnumCheck ''capability'' systemdUpgradeParamsTypeCapabilityPropEnum False]),
     (''ClientRootCA'', [SkipZero, FormatOf ''clientRootCA'' ''uuid'']),
     (''Clusters'', [Required ''clusters'', Each [SkipZero, Nested ''clusters'']]),
     (''CommunicationPorts'', [SkipZero, Nested ''communicationPorts'']),
     (''CurrentClusterType'', [SkipZero, EnumCheck ''currentClusterType''
        systemdUpgradeParamsTypeCurrentClusterTypePropEnum False]),
     (''DeviceInfo'', [SkipZero, Nested ''deviceInfo'']),
     (''EncryptionAtRestConfig'', [SkipZero, Nested ''encryptionAtRestConfig'']),
     (''ExtraDependencies'', [SkipZero, Nested ''extraDependencies'']),
     (''ImportedState'', [SkipZero, EnumCheck ''importedState'' systemdUpgradeParamsTypeImportedStatePropEnum False]),
     (''KubernetesUpgradeSupported'', [Required ''kubernetesUpgradeSupported'']),
     (''NodeDetailsSet'', [SkipZero, UniqueItems ''nodeDetailsSet'', Each [SkipZero, Nested ''nodeDetailsSet'']]),
     (''PreviousTaskUUID'', [SkipZero, FormatOf ''previousTaskUUID'' ''uuid'']),
     (''RootCA'', [SkipZero, FormatOf ''rootCA'' ''uuid'']),
     (''SleepAfterMasterRestartMillis'', [Required ''sleepAfterMasterRestartMillis'']),
     (''SleepAfterTServerRestartMillis'', [Required ''sleepAfterTServerRestartMillis'']),
     (''SourceXClusterConfigs'', [SkipZero, Each [FormatOf ''sourceXClusterConfigs'' ''uuid'']]),
     (''TargetXClusterConfigs'', [SkipZero, Each [FormatOf ''targetXClusterConfigs'' ''uuid'']]),
     (''UniverseUUID'', [SkipZero, FormatOf ''universeUUID'' ''uuid'']),
     (''UpdatingTask'', [SkipZero, EnumCheck ''updatingTask'' systemdUpgradeParamsTypeUpdatingTaskPropEnum False]),
     (''UpdatingTaskUUID'', [SkipZero, FormatOf ''updatingTaskUUID'' ''uuid'']),
     (''UpgradeOption'', [Required ''upgradeOption'', EnumCheck ''upgradeOption''
        systemdUpgradeParamsTypeUpgradeOptionPropEnum True])]"

definition SystemdUpgradeParams_ContextValidate :: "checks" where
  "SystemdUpgradeParams_ContextValidate =
    [(''Clusters'', [Each [Nested ''clusters'']]),
     (''CommunicationPorts'', [Nested ''communicationPorts'']),
     (''DeviceInfo'', [Nested ''deviceInfo'']),
     (''EncryptionAtRestConfig'', [Nested ''encryptionAtRestConfig'']),
     (''ExtraDependencies'', [Nested ''extraDependencies'']),
     (''NodeDetailsSet'', [Each [Nested ''nodeDetailsSet'']]),
     (''SourceXClusterConfigs'', [ReadOnly ''sourceXClusterConfigs'']),
     (''TargetXClusterConfigs'', [ReadOnly ''targetXClusterConfigs''])]"

lemma SystemdUpgradeParams_documented: "validates_documentation (''SystemdUpgradeParams'', SystemdUpgradeParams_struct, SystemdUpgradeParams_Validate, SystemdUpgradeParams_ContextValidate)"
  by (simp add: model_check_simps SystemdUpgradeParams_struct_def SystemdUpgradeParams_Validate_def
      SystemdUpgradeParams_ContextValidate_def
      systemdUpgradeParamsTypeCapabilityPropEnum_def
      systemdUpgradeParamsTypeCurrentClusterTypePropEnum_def
      systemdUpgradeParamsTypeImportedStatePropEnum_def
      systemdUpgradeParamsTypeUpdatingTaskPropEnum_def
      systemdUpgradeParamsTypeUpgradeOptionPropEnum_def)

lemma SystemdUpgradeParams_named: "named_apart SystemdUpgradeParams_struct"
  unfolding SystemdUpgradeParams_struct_def named_apart_def list.map model_field.sel by code_simp

subsection \<open>TableDefinitionTaskParams\<close>

definition tableDefinitionTaskParamsTypeTableTypePropEnum :: "string list" where
  "tableDefinitionTaskParamsTypeTableTypePropEnum =
    [''YQL_TABLE_TYPE'', ''REDIS_TABLE_TYPE'', ''PGSQL_TABLE_TYPE'', ''TRANSACTION_STATUS_TABLE_TYPE'']"

definition TableDefinitionTaskParams_struct :: "model_field list" where
  "TableDefinitionTaskParams_struct =
    [Field ''CmkArn'' ''cmkArn'' True StringType [],
     Field ''CommunicationPorts'' ''communicationPorts'' True (Pointer (Model ''CommunicationPorts'')) [],
     Field ''DeviceInfo'' ''deviceInfo'' True (Pointer (Model ''DeviceInfo'')) [],
     Field ''EncryptionAtRestConfig'' ''encryptionAtRestConfig'' True (Pointer (Model ''EncryptionAtRestConfig'')) [],
     Field ''ErrorString'' ''errorString'' True StringType [],
     Field ''ExpectedUniverseVersion'' ''expectedUniverseVersion'' True Int32Type [],
     Field ''ExtraDependencies'' ''extraDependencies'' True (Pointer (Model ''ExtraDependencies'')) [],
     Field ''FirstTry'' ''firstTry'' True BoolType [],
     Field ''NodeDetailsSet'' ''nodeDetailsSet'' False (Slice (Pointer (Model ''NodeDetails''))) [IsUnique],
     Field ''NodeExporterUser'' ''nodeExporterUser'' True StringType [],
     Field ''PreviousTaskUUID'' ''previousTaskUUID'' True UUIDType [HasFormat ''uuid''],
     Field ''SourceXClusterConfigs'' ''sourceXClusterConfigs'' False (Slice UUIDType) [IsReadOnly],
     Field ''TableDetails'' ''tableDetails'' False (Pointer (Model ''TableDetails'')) [IsRequired],
     Field ''TableType'' ''tableType'' False (Pointer StringType) [IsRequired, InEnum [''YQL_TABLE_TYPE'',
        ''REDIS_TABLE_TYPE'', ''PGSQL_TABLE_TYPE'', ''TRANSACTION_STATUS_TABLE_TYPE'']],
     Field ''TableUUID'' ''tableUUID'' False (Pointer UUIDType) [IsRequired, HasFormat ''uuid''],
     Field ''TargetXClusterConfigs'' ''targetXClusterConfigs'' False (Slice UUIDType) [IsReadOnly],
     Field ''UniverseUUID'' ''universeUUID'' True UUIDType [HasFormat ''uuid''],
     Field ''YbPrevSoftwareVersion'' ''ybPrevSoftwareVersion'' True StringType []]"

definition TableDefinitionTaskParams_Validate :: "checks" where
  "TableDefinitionTaskParams_Validate =
    [(''CommunicationPorts'', [SkipZero, Nested ''communicationPorts'']),
     (''DeviceInfo'', [SkipZero, Nested ''deviceInfo'']),
     (''EncryptionAtRestConfig'', [SkipZero, Nested ''encryptionAtRestConfig'']),
     (''ExtraDependencies'', [SkipZero, Nested ''extraDependencies'']),
     (''NodeDetailsSet'', [SkipZero, UniqueItems ''nodeDetailsSet'', Each [SkipZero, Nested ''nodeDetailsSet'']]),
     (''PreviousTaskUUID'', [SkipZero, FormatOf ''previousTaskUUID'' ''uuid'']),
     (''SourceXClusterConfigs'', [SkipZero, Each [FormatOf ''sourceXClusterConfigs'' ''uuid'']]),
     (''TableDetails'', [Required ''tableDetails'', Nested ''tableDetails'']),
     (''TableType'', [Required ''tableType'', EnumCheck ''tableType'' tableDefinitionTaskParamsTypeTableTypePropEnum
        True]),
     (''TableUUID'', [Required ''tableUUID'', FormatOf ''tableUUID'' ''uuid'']),
     (''TargetXClusterConfigs'', [SkipZero, Each [FormatOf ''targetXClusterConfigs'' ''uuid'']]),
     (''UniverseUUID'', [SkipZero, FormatOf ''universeUUID'' ''uuid''])]"

definition TableDefinitionTaskParams_ContextValidate :: "checks" where
  "TableDefinitionTaskParams_ContextValidate =
    [(''CommunicationPorts'', [Nested ''communicationPorts'']),
     (''DeviceInfo'', [Nested ''deviceInfo'']),
     (''EncryptionAtRestConfig'', [Nested ''encryptionAtRestConfig'']),
     (''ExtraDependencies'', [Nested ''extraDependencies'']),
     (''NodeDetailsSet'', [Each [Nested ''nodeDetailsSet'']]),
     (''SourceXClusterConfigs'', [ReadOnly ''sourceXClusterConfigs'']),
     (''TableDetails'', [Nested ''tableDetails'']),
     (''TargetXClusterConfigs'', [ReadOnly ''targetXClusterConfigs''])]"

lemma TableDefinitionTaskParams_documented: "validates_documentation (''TableDefinitionTaskParams'', TableDefinitionTaskParams_struct, TableDefinitionTaskParams_Validate, TableDefinitionTaskParams_ContextValidate)"
  by code_simp

lemma TableDefinitionTaskParams_named: "named_apart TableDefinitionTaskParams_struct"
  unfolding TableDefinitionTaskParams_struct_def named_apart_def list.map model_field.sel by code_simp

subsection \<open>ThirdpartySoftwareUpgradeParams\<close>

definition thirdpartySoftwareUpgradeParamsTypeCapabilityPropEnum :: "string list" where
  "thirdpartySoftwareUpgradeParamsTypeCapabilityPropEnum =
    [''READ_ONLY'', ''EDITS_ALLOWED'']"

definition thirdpartySoftwareUpgradeParamsTypeCurrentClusterTypePropEnum :: "string list" where
  "thirdpartySoftwareUpgradeParamsTypeCurrentClusterTypePropEnum =
    [''PRIMARY'', ''ASYNC'']"

definition thirdpartySoftwareUpgradeParamsTypeImportedStatePropEnum :: "string list" where
  "thirdpartySoftwareUpgradeParamsTypeImportedStatePropEnum =
    [''NONE'', ''STARTED'', ''MASTERS_ADDED'', ''TSERVERS_ADDED'', ''IMPORTED'']"

definition thirdpartySoftwareUpgradeParamsTypeUpdatingTaskPropEnum :: "string list" where
  "thirdpartySoftwareUpgradeParamsTypeUpdatingTaskPropEnum =
    task_types"

definition thirdpartySoftwareUpgradeParamsTypeUpgradeOptionPropEnum :: "string list" where
  "thirdpartySoftwareUpgradeParamsTypeUpgradeOptionPropEnum =
    [''Rolling'', ''Non-Rolling'', ''Non-Restart'']"

definition ThirdpartySoftwareUpgradeParams_struct :: "model_field list" where
  "ThirdpartySoftwareUpgradeParams_struct =
    [Field ''AllowInsecure'' ''allowInsecure'' True BoolType [],
     Field ''BackupInProgress'' ''backupInProgress'' True BoolType [],
     Field ''Capability'' ''capability'' True StringType [InEnum [''READ_ONLY'', ''EDITS_ALLOWED'']],
     Field ''ClientRootCA'' ''clientRootCA'' True UUIDType [HasFormat ''uuid''],
     Field ''Clusters'' ''clusters'' False (Slice (Pointer (Model ''Cluster''))) [IsRequired],
     Field ''CmkArn'' ''cmkArn'' True StringType [],
     Field ''CommunicationPorts'' ''communicationPorts'' True (Pointer (Model ''CommunicationPorts'')) [],
     Field ''CurrentClusterType'' ''currentClusterType'' True StringType [InEnum [''PRIMARY'', ''ASYNC'']],
     Field ''DeviceInfo'' ''deviceInfo'' True (Pointer (Model ''DeviceInfo'')) [],
     Field ''EncryptionAtRestConfig'' ''encryptionAtRestConfig'' True (Pointer (Model ''EncryptionAtRestConfig'')) [],
     Field ''ErrorString'' ''errorString'' True StringType [],
     Field ''ExpectedUniverseVersion'' ''expectedUniverseVersion'' True Int32Type [],
     Field ''ExtraDependencies'' ''extraDependencies'' True (Pointer (Model ''ExtraDependencies'')) [],
     Field ''FirstTry'' ''firstTry'' True BoolType [],
     Field ''ForceAll'' ''forceAll'' False (Pointer BoolType) [IsRequired],
     Field ''ImportedState'' ''importedState'' True StringType [InEnum [''NONE'', ''STARTED'', ''MASTERS_ADDED'',
        ''TSERVERS_ADDED'', ''IMPORTED'']],
     Field ''ItestS3PackagePath'' ''itestS3PackagePath'' True StringType [],
     Field ''KubernetesUpgradeSupported'' ''kubernetesUpgradeSupported'' False (Pointer BoolType) [IsRequired],
     Field ''NextClusterIndex'' ''nextClusterIndex'' True Int32Type [],
     Field ''NodeDetailsSet'' ''nodeDetailsSet'' False (Slice (Pointer (Model ''NodeDetails''))) [IsUnique],
     Field ''NodeExporterUser'' ''nodeExporterUser'' True StringType [],
     Field ''NodePrefix'' ''nodePrefix'' True StringType [],
     Field ''NodesResizeAvailable'' ''nodesResizeAvailable'' True BoolType [],
     Field ''PreviousTaskUUID'' ''previousTaskUUID'' True UUIDType [HasFormat ''uuid''],
     Field ''RemotePackagePath'' ''remotePackagePath'' True StringType [],
     Field ''ResetAZConfig'' ''resetAZConfig'' True BoolType [],
     Field ''RootAndClientRootCASame'' ''rootAndClientRootCASame'' True BoolType [],
     Field ''RootCA'' ''rootCA'' True UUIDType [HasFormat ''uuid''],
     Field ''SetTxnTableWaitCountFlag'' ''setTxnTableWaitCountFlag'' True BoolType [],
     Field ''SleepAfterMasterRestartMillis'' ''sleepAfterMasterRestartMillis'' False (Pointer Int32Type) [IsRequired],
     Field ''SleepAfterTServerRestartMillis'' ''sleepAfterTServerRestartMillis'' False (Pointer Int32Type)
        [IsRequired],
     Field ''SourceXClusterConfigs'' ''sourceXClusterConfigs'' False (Slice UUIDType) [IsReadOnly],
     Field ''TargetXClusterConfigs'' ''targetXClusterConfigs'' False (Slice UUIDType) [IsReadOnly],
     Field ''UniversePaused'' ''universePaused'' True BoolType [],
     Field ''UniverseUUID'' ''universeUUID'' True UUIDType [HasFormat ''uuid''],
     Field ''UpdateInProgress'' ''updateInProgress'' True BoolType [],
     Field ''UpdateSucceeded'' ''updateSucceeded'' True BoolType [],
     Field ''UpdatingTask'' ''updatingTask'' True StringType [InEnum task_types],
     Field ''UpdatingTaskUUID'' ''updatingTaskUUID'' True UUIDType [HasFormat ''uuid''],
     Field ''UpgradeOption'' ''upgradeOption'' False (Pointer StringType) [IsRequired, InEnum [''Rolling'',
        ''Non-Rolling'', ''Non-Restart'']],
     Field ''UserAZSelected'' ''userAZSelected'' True BoolType [],
     Field ''YbPrevSoftwareVersion'' ''ybPrevSoftwareVersion'' True StringType []]"

definition ThirdpartySoftwareUpgradeParams_Validate :: "checks" where
  "ThirdpartySoftwareUpgradeParams_Validate =
    [(''Capability'', [SkipZero, EnumCheck ''capability'' thirdpartySoftwareUpgradeParamsTypeCapabilityPropEnum
        False]),
     (''ClientRootCA'', [SkipZero, FormatOf ''clientRootCA'' ''uuid'']),
     (''Clusters'', [Required ''clusters'', Each [SkipZero, Nested ''clusters'']]),
     (''CommunicationPorts'', [SkipZero, Nested ''communicationPorts'']),
     (''CurrentClusterType'', [SkipZero, EnumCheck ''currentClusterType''
        thirdpartySoftwareUpgradeParamsTypeCurrentClusterTypePropEnum False]),
     (''DeviceInfo'', [SkipZero, Nested ''deviceInfo'']),
     (''EncryptionAtRestConfig'', [SkipZero, Nested ''encryptionAtRestConfig'']),
     (''ExtraDependencies'', [SkipZero, Nested ''extraDependencies'']),
     (''ForceAll'', [Required ''forceAll'']),
     (''ImportedState'', [SkipZero, EnumCheck ''importedState''
        thirdpartySoftwareUpgradeParamsTypeImportedStatePropEnum False]),
     (''KubernetesUpgradeSupported'', [Required ''kubernetesUpgradeSupported'']),
     (''NodeDetailsSet'', [SkipZero, UniqueItems ''nodeDetailsSet'', Each [SkipZero, Nested ''nodeDetailsSet'']]),
     (''PreviousTaskUUID'', [SkipZero, FormatOf ''previousTaskUUID'' ''uuid'']),
     (''RootCA'', [SkipZero, FormatOf ''rootCA'' ''uuid'']),
     (''SleepAfterMasterRestartMillis'', [Required ''sleepAfterMasterRestartMillis'']),
     (''SleepAfterTServerRestartMillis'', [Required ''sleepAfterTServerRestartMillis'']),
     (''SourceXClusterConfigs'', [SkipZero, Each [FormatOf ''sourceXClusterConfigs'' ''uuid'']]),
     (''TargetXClusterConfigs'', [SkipZero, Each [FormatOf ''targetXClusterConfigs'' ''uuid'']]),
     (''UniverseUUID'', [SkipZero, FormatOf ''universeUUID'' ''uuid'']),
     (''UpdatingTask'', [SkipZero, EnumCheck ''updatingTask'' thirdpartySoftwareUpgradeParamsTypeUpdatingTaskPropEnum
        False]),
     (''UpdatingTaskUUID'', [SkipZero, FormatOf ''updatingTaskUUID'' ''uuid'']),
     (''UpgradeOption'', [Required ''upgradeOption'', EnumCheck ''upgradeOption''
        thirdpartySoftwareUpgradeParamsTypeUpgradeOptionPropEnum True])]"

definition ThirdpartySoftwareUpgradeParams_ContextValidate :: "checks" where
  "ThirdpartySoftwareUpgradeParams_ContextValidate =
    [(''Clusters'', [Each [Nested ''clusters'']]),
     (''CommunicationPorts'', [Nested ''communicationPorts'']),
     (''DeviceInfo'', [Nested ''deviceInfo'']),
     (''EncryptionAtRestConfig'', [Nested ''encryptionAtRestConfig'']),
     (''ExtraDependencies'', [Nested ''extraDependencies'']),
     (''NodeDetailsSet'', [Each [Nested ''nodeDetailsSet'']]),
     (''SourceXClusterConfigs'', [ReadOnly ''sourceXClusterConfigs'']),
     (''TargetXClusterConfigs'', [ReadOnly ''targetXClusterConfigs''])]"

lemma ThirdpartySoftwareUpgradeParams_documented: "validates_documentation (''ThirdpartySoftwareUpgradeParams'', ThirdpartySoftwareUpgradeParams_struct, ThirdpartySoftwareUpgradeParams_Validate, ThirdpartySoftwareUpgradeParams_ContextValidate)"
  by (simp add: model_check_simps ThirdpartySoftwareUpgradeParams_struct_def ThirdpartySoftwareUpgradeParams_Validate_def
      ThirdpartySoftwareUpgradeParams_ContextValidate_def
      thirdpartySoftwareUpgradeParamsTypeCapabilityPropEnum_def
      thirdpartySoftwareUpgradeParamsTypeCurrentClusterTypePropEnum_def
      thirdpartySoftwareUpgradeParamsTypeImportedStatePropEnum_def
      thirdpartySoftwareUpgradeParamsTypeUpdatingTaskPropEnum_def
      thirdpartySoftwareUpgradeParamsTypeUpgradeOptionPropEnum_def)

lemma ThirdpartySoftwareUpgradeParams_named: "named_apart ThirdpartySoftwareUpgradeParams_struct"
  unfolding ThirdpartySoftwareUpgradeParams_struct_def named_apart_def list.map model_field.sel by code_simp

subsection \<open>TLSToggleParams\<close>

definition tlsToggleParamsTypeCapabilityPropEnum :: "string list" where
  "tlsToggleParamsTypeCapabilityPropEnum =
    [''READ_ONLY'', ''EDITS_ALLOWED'']"

definition tlsToggleParamsTypeCurrentClusterTypePropEnum :: "string list" where
  "tlsToggleParamsTypeCurrentClusterTypePropEnum =
    [''PRIMARY'', ''ASYNC'']"

definition tlsToggleParamsTypeImportedStatePropEnum :: "string list" where
  "tlsToggleParamsTypeImportedStatePropEnum =
    [''NONE'', ''STARTED'', ''MASTERS_ADDED'', ''TSERVERS_ADDED'', ''IMPORTED'']"

definition tlsToggleParamsTypeUpdatingTaskPropEnum :: "string list" where
  "tlsToggleParamsTypeUpdatingTaskPropEnum =
    task_types"

definition tlsToggleParamsTypeUpgradeOptionPropEnum :: "string list" where
  "tlsToggleParamsTypeUpgradeOptionPropEnum =
    [''Rolling'', ''Non-Rolling'', ''Non-Restart'']"

definition TLSToggleParams_struct :: "model_field list" where
  "TLSToggleParams_struct =
    [Field ''AllowInsecure'' ''allowInsecure'' False (Pointer BoolType) [IsRequired],
     Field ''BackupInProgress'' ''backupInProgress'' True BoolType [],
     Field ''Capability'' ''capability'' True StringType [InEnum [''READ_ONLY'', ''EDITS_ALLOWED'']],
     Field ''ClientRootCA'' ''clientRootCA'' False (Pointer UUIDType) [IsRequired, HasFormat ''uuid''],
     Field ''Clusters'' ''clusters'' False (Slice (Pointer (Model ''Cluster''))) [IsRequired],
     Field ''CmkArn'' ''cmkArn'' True StringType [],
     Field ''CommunicationPorts'' ''communicationPorts'' True (Pointer (Model ''CommunicationPorts'')) [],
     Field ''CurrentClusterType'' ''currentClusterType'' True StringType [InEnum [''PRIMARY'', ''ASYNC'']],
     Field ''DeviceInfo'' ''deviceInfo'' True (Pointer (Model ''DeviceInfo'')) [],
     Field ''EnableClientToNodeEncrypt'' ''enableClientToNodeEncrypt'' False (Pointer BoolType) [IsRequired],
     Field ''EnableNodeToNodeEncrypt'' ''enableNodeToNodeEncrypt'' False (Pointer BoolType) [IsRequired],
     Field ''EncryptionAtRestConfig'' ''encryptionAtRestConfig'' True (Pointer (Model ''EncryptionAtRestConfig'')) [],
     Field ''ErrorString'' ''errorString'' True StringType [],
     Field ''ExpectedUniverseVersion'' ''expectedUniverseVersion'' True Int32Type [],
     Field ''ExtraDependencies'' ''extraDependencies'' True (Pointer (Model ''ExtraDependencies'')) [],
     Field ''FirstTry'' ''firstTry'' True BoolType [],
     Field ''ImportedState'' ''importedState'' True StringType [InEnum [''NONE'', ''STARTED'', ''MASTERS_ADDED'',
        ''TSERVERS_ADDED'', ''IMPORTED'']],
     Field ''ItestS3PackagePath'' ''itestS3PackagePath'' True StringType [],
     Field ''KubernetesUpgradeSupported'' ''kubernetesUpgradeSupported'' False (Pointer BoolType) [IsRequired],
     Field ''NextClusterIndex'' ''nextClusterIndex'' True Int32Type [],
     Field ''NodeDetailsSet'' ''nodeDetailsSet'' False (Slice (Pointer (Model ''NodeDetails''))) [IsUnique],
     Field ''NodeExporterUser'' ''nodeExporterUser'' True StringType [],
     Field ''NodePrefix'' ''nodePrefix'' True StringType [],
     Field ''NodesResizeAvailable'' ''nodesResizeAvailable'' True BoolType [],
     Field ''PreviousTaskUUID'' ''previousTaskUUID'' True UUIDType [HasFormat ''uuid''],
     Field ''RemotePackagePath'' ''remotePackagePath'' True StringType [],
     Field ''ResetAZConfig'' ''resetAZConfig'' True BoolType [],
     Field ''RootAndClientRootCASame'' ''rootAndClientRootCASame'' False (Pointer BoolType) [IsRequired],
     Field ''RootCA'' ''rootCA'' False (Pointer UUIDType) [IsRequired, HasFormat ''uuid''],
     Field ''SetTxnTableWaitCountFlag'' ''setTxnTableWaitCountFlag'' True BoolType [],
     Field ''SleepAfterMasterRestartMillis'' ''sleepAfterMasterRestartMillis'' False (Pointer Int32Type) [IsRequired],
     Field ''SleepAfterTServerRestartMillis'' ''sleepAfterTServerRestartMillis'' False (Pointer Int32Type)
        [IsRequired],
     Field ''SourceXClusterConfigs'' ''sourceXClusterConfigs'' False (Slice UUIDType) [IsReadOnly],
     Field ''TargetXClusterConfigs'' ''targetXClusterConfigs'' False (Slice UUIDType) [IsReadOnly],
     Field ''UniversePaused'' ''universePaused'' True BoolType [],
     Field ''UniverseUUID'' ''universeUUID'' True UUIDType [HasFormat ''uuid''],
     Field ''UpdateInProgress'' ''updateInProgress'' True BoolType [],
     Field ''UpdateSucceeded'' ''updateSucceeded'' True BoolType [],
     Field ''UpdatingTask'' ''updatingTask'' True StringType [InEnum task_types],
     Field ''UpdatingTaskUUID'' ''updatingTaskUUID'' True UUIDType [HasFormat ''uuid''],
     Field ''UpgradeOption'' ''upgradeOption'' False (Pointer StringType) [IsRequired, InEnum [''Rolling'',
        ''Non-Rolling'', ''Non-Restart'']],
     Field ''UserAZSelected'' ''userAZSelected'' True BoolType [],
     Field ''YbPrevSoftwareVersion'' ''ybPrevSoftwareVersion'' True StringType []]"

definition TLSToggleParams_Validate :: "checks" where
  "TLSToggleParams_Validate =
    [(''AllowInsecure'', [Required ''allowInsecure'']),
     (''Capability'', [SkipZero, EnumCheck ''capability'' tlsToggleParamsTypeCapabilityPropEnum False]),
     (''ClientRootCA'', [Required ''clientRootCA'', FormatOf ''clientRootCA'' ''uuid'']),
     (''Clusters'', [Required ''clusters'', Each [SkipZero, Nested ''clusters'']]),
     (''CommunicationPorts'', [SkipZero, Nested ''communicationPorts'']),
     (''CurrentClusterType'', [SkipZero, EnumCheck ''currentClusterType''
        tlsToggleParamsTypeCurrentClusterTypePropEnum False]),
     (''DeviceInfo'', [SkipZero, Nested ''deviceInfo'']),
     (''EnableClientToNodeEncrypt'', [Required ''enableClientToNodeEncrypt'']),
     (''EnableNodeToNodeEncrypt'', [Required ''enableNodeToNodeEncrypt'']),
     (''EncryptionAtRestConfig'', [SkipZero, Nested ''encryptionAtRestConfig'']),
     (''ExtraDependencies'', [SkipZero, Nested ''extraDependencies'']),
     (''ImportedState'', [SkipZero, EnumCheck ''importedState'' tlsToggleParamsTypeImportedStatePropEnum False]),
     (''KubernetesUpgradeSupported'', [Required ''kubernetesUpgradeSupported'']),
     (''NodeDetailsSet'', [SkipZero, UniqueItems ''nodeDetailsSet'', Each [SkipZero, Nested ''nodeDetailsSet'']]),
     (''PreviousTaskUUID'', [SkipZero, FormatOf ''previousTaskUUID'' ''uuid'']),
     (''RootAndClientRootCASame'', [Required ''rootAndClientRootCASame'']),
     (''RootCA'', [Required ''rootCA'', FormatOf ''rootCA'' ''uuid'']),
     (''SleepAfterMasterRestartMillis'', [Required ''sleepAfterMasterRestartMillis'']),
     (''SleepAfterTServerRestartMillis'', [Required ''sleepAfterTServerRestartMillis'']),
     (''SourceXClusterConfigs'', [SkipZero, Each [FormatOf ''sourceXClusterConfigs'' ''uuid'']]),
     (''TargetXClusterConfigs'', [SkipZero, Each [FormatOf ''targetXClusterConfigs'' ''uuid'']]),
     (''UniverseUUID'', [SkipZero, FormatOf ''universeUUID'' ''uuid'']),
     (''UpdatingTask'', [SkipZero, EnumCheck ''updatingTask'' tlsToggleParamsTypeUpdatingTaskPropEnum False]),
     (''UpdatingTaskUUID'', [SkipZero, FormatOf ''updatingTaskUUID'' ''uuid'']),
     (''UpgradeOption'', [Required ''upgradeOption'', EnumCheck ''upgradeOption''
        tlsToggleParamsTypeUpgradeOptionPropEnum True])]"

definition TLSToggleParams_ContextValidate :: "checks" where
  "TLSToggleParams_ContextValidate =
    [(''Clusters'', [Each [Nested ''clusters'']]),
     (''CommunicationPorts'', [Nested ''communicationPorts'']),
     (''DeviceInfo'', [Nested ''deviceInfo'']),
     (''EncryptionAtRestConfig'', [Nested ''encryptionAtRestConfig'']),
     (''ExtraDependencies'', [Nested ''extraDependencies'']),
     (''NodeDetailsSet'', [Each [Nested ''nodeDetailsSet'']]),
     (''SourceXClusterConfigs'', [ReadOnly ''sourceXClusterConfigs'']),
     (''TargetXClusterConfigs'', [ReadOnly ''targetXClusterConfigs''])]"

lemma TLSToggleParams_documented: "validates_documentation (''TLSToggleParams'', TLSToggleParams_struct, TLSToggleParams_Validate, TLSToggleParams_ContextValidate)"
  by (simp add: model_check_simps TLSToggleParams_struct_def TLSToggleParams_Validate_def TLSToggleParams_ContextValidate_def
      tlsToggleParamsTypeCapabilityPropEnum_def
      tlsToggleParamsTypeCurrentClusterTypePropEnum_def
      tlsToggleParamsTypeImportedStatePropEnum_def
      tlsToggleParamsTypeUpdatingTaskPropEnum_def
      tlsToggleParamsTypeUpgradeOptionPropEnum_def)

lemma TLSToggleParams_named: "named_apart TLSToggleParams_struct"
  unfolding TLSToggleParams_struct_def named_apart_def list.map model_field.sel by code_simp

subsection \<open>UniverseConfigureTaskParams\<close>

definition universeConfigureTaskParamsTypeCapabilityPropEnum :: "string list" where
  "universeConfigureTaskParamsTypeCapabilityPropEnum =
    [''READ_ONLY'', ''EDITS_ALLOWED'']"

definition universeConfigureTaskParamsTypeClusterOperationPropEnum :: "string list" where
  "universeConfigureTaskParamsTypeClusterOperationPropEnum =
    [''CREATE'', ''EDIT'', ''DELETE'']"

definition universeConfigureTaskParamsTypeCurrentClusterTypePropEnum :: "string list" where
  "universeConfigureTaskParamsTypeCurrentClusterTypePropEnum =
    [''PRIMARY'', ''ASYNC'']"

definition universeConfigureTaskParamsTypeImportedStatePropEnum :: "string list" where
  "universeConfigureTaskParamsTypeImportedStatePropEnum =
    [''NONE'', ''STARTED'', ''MASTERS_ADDED'', ''TSERVERS_ADDED'', ''IMPORTED'']"

definition universeConfigureTaskParamsTypeUpdatingTaskPropEnum :: "string list" where
  "universeConfigureTaskParamsTypeUpdatingTaskPropEnum =
    task_types"

definition UniverseConfigureTaskParams_struct :: "model_field list" where
  "UniverseConfigureTaskParams_struct =
    [Field ''AllowGeoPartitioning'' ''allowGeoPartitioning'' True BoolType [],
     Field ''AllowInsecure'' ''allowInsecure'' True BoolType [],
     Field ''BackupInProgress'' ''backupInProgress'' True BoolType [],
     Field ''Capability'' ''capability'' True StringType [InEnum [''READ_ONLY'', ''EDITS_ALLOWED'']],
     Field ''ClientRootCA'' ''clientRootCA'' True UUIDType [HasFormat ''uuid''],
     Field ''ClusterOperation'' ''clusterOperation'' True StringType [InEnum [''CREATE'', ''EDIT'', ''DELETE'']],
     Field ''Clusters'' ''clusters'' False (Slice (Pointer (Model ''Cluster''))) [IsRequired],
     Field ''CmkArn'' ''cmkArn'' True StringType [],
     Field ''CommunicationPorts'' ''communicationPorts'' True (Pointer (Model ''CommunicationPorts'')) [],
     Field ''CurrentClusterType'' ''currentClusterType'' True StringType [InEnum [''PRIMARY'', ''ASYNC'']],
     Field ''DeviceInfo'' ''deviceInfo'' True (Pointer (Model ''DeviceInfo'')) [],
     Field ''EncryptionAtRestConfig'' ''encryptionAtRestConfig'' True (Pointer (Model ''EncryptionAtRestConfig'')) [],
     Field ''ErrorString'' ''errorString'' True StringType [],
     Field ''ExpectedUniverseVersion'' ''expectedUniverseVersion'' True Int32Type [],
     Field ''ExtraDependencies'' ''extraDependencies'' True (Pointer (Model ''ExtraDependencies'')) [],
     Field ''FirstTry'' ''firstTry'' True BoolType [],
     Field ''ImportedState'' ''importedState'' True StringType [InEnum [''NONE'', ''STARTED'', ''MASTERS_ADDED'',
        ''TSERVERS_ADDED'', ''IMPORTED'']],
     Field ''ItestS3PackagePath'' ''itestS3PackagePath'' True StringType [],
     Field ''NextClusterIndex'' ''nextClusterIndex'' True Int32Type [],
     Field ''NodeDetailsSet'' ''nodeDetailsSet'' False (Slice (Pointer (Model ''NodeDetails''))) [IsUnique],
     Field ''NodeExporterUser'' ''nodeExporterUser'' True StringType [],
     Field ''NodePrefix'' ''nodePrefix'' True StringType [],
     Field ''NodesResizeAvailable'' ''nodesResizeAvailable'' True BoolType [],
     Field ''PreviousTaskUUID'' ''previousTaskUUID'' True UUIDType [HasFormat ''uuid''],
     Field ''RegionsChanged'' ''regionsChanged'' True BoolType [],
     Field ''RemotePackagePath'' ''remotePackagePath'' True StringType [],
     Field ''ResetAZConfig'' ''resetAZConfig'' True BoolType [],
     Field ''RootAndClientRootCASame'' ''rootAndClientRootCASame'' True BoolType [],
     Field ''RootCA'' ''rootCA'' True UUIDType [HasFormat ''uuid''],
     Field ''SetTxnTableWaitCountFlag'' ''setTxnTableWaitCountFlag'' True BoolType [],
     Field ''SourceXClusterConfigs'' ''sourceXClusterConfigs'' False (Slice UUIDType) [IsReadOnly],
     Field ''TargetXClusterConfigs'' ''targetXClusterConfigs'' False (Slice UUIDType) [IsReadOnly],
     Field ''UniversePaused'' ''universePaused'' True BoolType [],
     Field ''UniverseUUID'' ''universeUUID'' True UUIDType [HasFormat ''uuid''],
     Field ''UpdateInProgress'' ''updateInProgress'' True BoolType [],
     Field ''UpdateSucceeded'' ''updateSucceeded'' True BoolType [],
     Field ''UpdatingTask'' ''updatingTask'' True StringType [InEnum task_types],
     Field ''UpdatingTaskUUID'' ''updatingTaskUUID'' True UUIDType [HasFormat ''uuid''],
     Field ''UserAZSelected'' ''userAZSelected'' True BoolType [],
     Field ''YbPrevSoftwareVersion'' ''ybPrevSoftwareVersion'' True StringType []]"

definition UniverseConfigureTaskParams_Validate :: "checks" where
  "UniverseConfigureTaskParams_Validate =
    [(''Capability'', [SkipZero, EnumCheck ''capability'' universeConfigureTaskParamsTypeCapabilityPropEnum False]),
     (''ClientRootCA'', [SkipZero, FormatOf ''clientRootCA'' ''uuid'']),
     (''ClusterOperation'', [SkipZero, EnumCheck ''clusterOperation''
        universeConfigureTaskParamsTypeClusterOperationPropEnum False]),
     (''Clusters'', [Required ''clusters'', Each [SkipZero, Nested ''clusters'']]),
     (''CommunicationPorts'', [SkipZero, Nested ''communicationPorts'']),
     (''CurrentClusterType'', [SkipZero, EnumCheck ''currentClusterType''
        universeConfigureTaskParamsTypeCurrentClusterTypePropEnum False]),
     (''DeviceInfo'', [SkipZero, Nested ''deviceInfo'']),
     (''EncryptionAtRestConfig'', [SkipZero, Nested ''encryptionAtRestConfig'']),
     (''ExtraDependencies'', [SkipZero, Nested ''extraDependencies'']),
     (''ImportedState'', [SkipZero, EnumCheck ''importedState'' universeConfigureTaskParamsTypeImportedStatePropEnum
        False]),
     (''NodeDetailsSet'', [SkipZero, UniqueItems ''nodeDetailsSet'', Each [SkipZero, Nested ''nodeDetailsSet'']]),
     (''PreviousTaskUUID'', [SkipZero, FormatOf ''previousTaskUUID'' ''uuid'']),
     (''RootCA'', [SkipZero, FormatOf ''rootCA'' ''uuid'']),
     (''SourceXClusterConfigs'', [SkipZero, Each [FormatOf ''sourceXClusterConfigs'' ''uuid'']]),
     (''TargetXClusterConfigs'', [SkipZero, Each [FormatOf ''targetXClusterConfigs'' ''uuid'']]),
     (''UniverseUUID'', [SkipZero, FormatOf ''universeUUID'' ''uuid'']),
     (''UpdatingTask'', [SkipZero, EnumCheck ''updatingTask'' universeConfigureTaskParamsTypeUpdatingTaskPropEnum
        False]),
     (''UpdatingTaskUUID'', [SkipZero, FormatOf ''updatingTaskUUID'' ''uuid''])]"

definition UniverseConfigureTaskParams_ContextValidate :: "checks" where
  "UniverseConfigureTaskParams_ContextValidate =
    [(''Clusters'', [Each [Nested ''clusters'']]),
     (''CommunicationPorts'', [Nested ''communicationPorts'']),
     (''DeviceInfo'', [Nested ''deviceInfo'']),
     (''EncryptionAtRestConfig'', [Nested ''encryptionAtRestConfig'']),
     (''ExtraDependencies'', [Nested ''extraDependencies'']),
     (''NodeDetailsSet'', [Each [Nested ''nodeDetailsSet'']]),
     (''SourceXClusterConfigs'', [ReadOnly ''sourceXClusterConfigs'']),
     (''TargetXClusterConfigs'', [ReadOnly ''targetXClusterConfigs''])]"

lemma UniverseConfigureTaskParams_documented: "validates_documentation (''UniverseConfigureTaskParams'', UniverseConfigureTaskParams_struct, UniverseConfigureTaskParams_Validate, UniverseConfigureTaskParams_ContextValidate)"
  by (simp add: model_check_simps UniverseConfigureTaskParams_struct_def UniverseConfigureTaskParams_Validate_def
      UniverseConfigureTaskParams_ContextValidate_def
      universeConfigureTaskParamsTypeCapabilityPropEnum_def
      universeConfigureTaskParamsTypeClusterOperationPropEnum_def
      universeConfigureTaskParamsTypeCurrentClusterTypePropEnum_def
      universeConfigureTaskParamsTypeImportedStatePropEnum_def
      universeConfigureTaskParamsTypeUpdatingTaskPropEnum_def)

lemma UniverseConfigureTaskParams_named: "named_apart UniverseConfigureTaskParams_struct"
  unfolding UniverseConfigureTaskParams_struct_def named_apart_def list.map model_field.sel by code_simp

subsection \<open>UniverseDefinitionTaskParams\<close>

definition universeDefinitionTaskParamsTypeCapabilityPropEnum :: "string list" where
  "universeDefinitionTaskParamsTypeCapabilityPropEnum =
    [''READ_ONLY'', ''EDITS_ALLOWED'']"

definition universeDefinitionTaskParamsTypeCurrentClusterTypePropEnum :: "string list" where
  "universeDefinitionTaskParamsTypeCurrentClusterTypePropEnum =
    [''PRIMARY'', ''ASYNC'']"

definition universeDefinitionTaskParamsTypeImportedStatePropEnum :: "string list" where
  "universeDefinitionTaskParamsTypeImportedStatePropEnum =
    [''NONE'', ''STARTED'', ''MASTERS_ADDED'', ''TSERVERS_ADDED'', ''IMPORTED'']"

definition universeDefinitionTaskParamsTypeUpdatingTaskPropEnum :: "string list" where
  "universeDefinitionTaskParamsTypeUpdatingTaskPropEnum =
    task_types"

definition UniverseDefinitionTaskParams_struct :: "model_field list" where
  "UniverseDefinitionTaskParams_struct =
    [Field ''AllowInsecure'' ''allowInsecure'' True BoolType [],
     Field ''BackupInProgress'' ''backupInProgress'' True BoolType [],
     Field ''Capability'' ''capability'' True StringType [InEnum [''READ_ONLY'', ''EDITS_ALLOWED'']],
     Field ''ClientRootCA'' ''clientRootCA'' True UUIDType [HasFormat ''uuid''],
     Field ''Clusters'' ''clusters'' False (Slice (Pointer (Model ''Cluster''))) [IsRequired],
     Field ''CmkArn'' ''cmkArn'' True StringType [],
     Field ''CommunicationPorts'' ''communicationPorts'' True (Pointer (Model ''CommunicationPorts'')) [],
     Field ''CurrentClusterType'' ''currentClusterType'' True StringType [InEnum [''PRIMARY'', ''ASYNC'']],
     Field ''DeviceInfo'' ''deviceInfo'' True (Pointer (Model ''DeviceInfo'')) [],
     Field ''EncryptionAtRestConfig'' ''encryptionAtRestConfig'' True (Pointer (Model ''EncryptionAtRestConfig'')) [],
     Field ''ErrorString'' ''errorString'' True StringType [],
     Field ''ExpectedUniverseVersion'' ''expectedUniverseVersion'' True Int32Type [],
     Field ''ExtraDependencies'' ''extraDependencies'' True (Pointer (Model ''ExtraDependencies'')) [],
     Field ''FirstTry'' ''firstTry'' True BoolType [],
     Field ''ImportedState'' ''importedState'' True StringType [InEnum [''NONE'', ''STARTED'', ''MASTERS_ADDED'',
        ''TSERVERS_ADDED'', ''IMPORTED'']],
     Field ''ItestS3PackagePath'' ''itestS3PackagePath'' True StringType [],
     Field ''NextClusterIndex'' ''nextClusterIndex'' True Int32Type [],
     Field ''NodeDetailsSet'' ''nodeDetailsSet'' False (Slice (Pointer (Model ''NodeDetails''))) [IsUnique],
     Field ''NodeExporterUser'' ''nodeExporterUser'' True StringType [],
     Field ''NodePrefix'' ''nodePrefix'' True StringType [],
     Field ''NodesResizeAvailable'' ''nodesResizeAvailable'' True BoolType [],
     Field ''PreviousTaskUUID'' ''previousTaskUUID'' True UUIDType [HasFormat ''uuid''],
     Field ''RemotePackagePath'' ''remotePackagePath'' True StringType [],
     Field ''ResetAZConfig'' ''resetAZConfig'' True BoolType [],
     Field ''RootAndClientRootCASame'' ''rootAndClientRootCASame'' True BoolType [],
     Field ''RootCA'' ''rootCA'' True UUIDType [HasFormat ''uuid''],
     Field ''SetTxnTableWaitCountFlag'' ''setTxnTableWaitCountFlag'' True BoolType [],
     Field ''SourceXClusterConfigs'' ''sourceXClusterConfigs'' False (Slice UUIDType) [IsReadOnly],
     Field ''TargetXClusterConfigs'' ''targetXClusterConfigs'' False (Slice UUIDType) [IsReadOnly],
     Field ''UniversePaused'' ''universePaused'' True BoolType [],
     Field ''UniverseUUID'' ''universeUUID'' True UUIDType [HasFormat ''uuid''],
     Field ''UpdateInProgress'' ''updateInProgress'' True BoolType [],
     Field ''UpdateSucceeded'' ''updateSucceeded'' True BoolType [],
     Field ''UpdatingTask'' ''updatingTask'' True StringType [InEnum task_types],
     Field ''UpdatingTaskUUID'' ''updatingTaskUUID'' True UUIDType [HasFormat ''uuid''],
     Field ''UserAZSelected'' ''userAZSelected'' True BoolType [],
     Field ''YbPrevSoftwareVersion'' ''ybPrevSoftwareVersion'' True StringType []]"

definition UniverseDefinitionTaskParams_Validate :: "checks" where
  "UniverseDefinitionTaskParams_Validate =
    [(''Capability'', [SkipZero, EnumCheck ''capability'' universeDefinitionTaskParamsTypeCapabilityPropEnum False]),
     (''ClientRootCA'', [SkipZero, FormatOf ''clientRootCA'' ''uuid'']),
     (''Clusters'', [Required ''clusters'', Each [SkipZero, Nested ''clusters'']]),
     (''CommunicationPorts'', [SkipZero, Nested ''communicationPorts'']),
     (''CurrentClusterType'', [SkipZero, EnumCheck ''currentClusterType''
        universeDefinitionTaskParamsTypeCurrentClusterTypePropEnum False]),
     (''DeviceInfo'', [SkipZero, Nested ''deviceInfo'']),
     (''EncryptionAtRestConfig'', [SkipZero, Nested ''encryptionAtRestConfig'']),
     (''ExtraDependencies'', [SkipZero, Nested ''extraDependencies'']),
     (''ImportedState'', [SkipZero, EnumCheck ''importedState'' universeDefinitionTaskParamsTypeImportedStatePropEnum
        False]),
     (''NodeDetailsSet'', [SkipZero, UniqueItems ''nodeDetailsSet'', Each [SkipZero, Nested ''nodeDetailsSet'']]),
     (''PreviousTaskUUID'', [SkipZero, FormatOf ''previousTaskUUID'' ''uuid'']),
     (''RootCA'', [SkipZero, FormatOf ''rootCA'' ''uuid'']),
     (''SourceXClusterConfigs'', [SkipZero, Each [FormatOf ''sourceXClusterConfigs'' ''uuid'']]),
     (''TargetXClusterConfigs'', [SkipZero, Each [FormatOf ''targetXClusterConfigs'' ''uuid'']]),
     (''UniverseUUID'', [SkipZero, FormatOf ''universeUUID'' ''uuid'']),
     (''UpdatingTask'', [SkipZero, EnumCheck ''updatingTask'' universeDefinitionTaskParamsTypeUpdatingTaskPropEnum
        False]),
     (''UpdatingTaskUUID'', [SkipZero, FormatOf ''updatingTaskUUID'' ''uuid''])]"

definition UniverseDefinitionTaskParams_ContextValidate :: "checks" where
  "UniverseDefinitionTaskParams_ContextValidate =
    [(''Clusters'', [Each [Nested ''clusters'']]),
     (''CommunicationPorts'', [Nested ''communicationPorts'']),
     (''DeviceInfo'', [Nested ''deviceInfo'']),
     (''EncryptionAtRestConfig'', [Nested ''encryptionAtRestConfig'']),
     (''ExtraDependencies'', [Nested ''extraDependencies'']),
     (''NodeDetailsSet'', [Each [Nested ''nodeDetailsSet'']]),
     (''SourceXClusterConfigs'', [ReadOnly ''sourceXClusterConfigs'']),
     (''TargetXClusterConfigs'', [ReadOnly ''targetXClusterConfigs''])]"

lemma UniverseDefinitionTaskParams_documented: "validates_documentation (''UniverseDefinitionTaskParams'', UniverseDefinitionTaskParams_struct, UniverseDefinitionTaskParams_Validate, UniverseDefinitionTaskParams_ContextValidate)"
  by (simp add: model_check_simps UniverseDefinitionTaskParams_struct_def UniverseDefinitionTaskParams_Validate_def
      UniverseDefinitionTaskParams_ContextValidate_def
      universeDefinitionTaskParamsTypeCapabilityPropEnum_def
      universeDefinitionTaskParamsTypeCurrentClusterTypePropEnum_def
      universeDefinitionTaskParamsTypeImportedStatePropEnum_def
      universeDefinitionTaskParamsTypeUpdatingTaskPropEnum_def)

lemma UniverseDefinitionTaskParams_named: "named_apart UniverseDefinitionTaskParams_struct"
  unfolding UniverseDefinitionTaskParams_struct_def named_apart_def list.map model_field.sel by code_simp

subsection \<open>UniverseDefinitionTaskParamsResp\<close>

definition universeDefinitionTaskParamsRespTypeCapabilityPropEnum :: "string list" where
  "universeDefinitionTaskParamsRespTypeCapabilityPropEnum =
    [''READ_ONLY'', ''EDITS_ALLOWED'']"

definition universeDefinitionTaskParamsRespTypeCurrentClusterTypePropEnum :: "string list" where
  "universeDefinitionTaskParamsRespTypeCurrentClusterTypePropEnum =
    [''PRIMARY'', ''ASYNC'']"

definition universeDefinitionTaskParamsRespTypeImportedStatePropEnum :: "string list" where
  "universeDefinitionTaskParamsRespTypeImportedStatePropEnum =
    [''NONE'', ''STARTED'', ''MASTERS_ADDED'', ''TSERVERS_ADDED'', ''IMPORTED'']"

definition universeDefinitionTaskParamsRespTypeUpdatingTaskPropEnum :: "string list" where
  "universeDefinitionTaskParamsRespTypeUpdatingTaskPropEnum =
    task_types"

definition UniverseDefinitionTaskParamsResp_struct :: "model_field list" where
  "UniverseDefinitionTaskParamsResp_struct =
    [Field ''AllowInsecure'' ''allowInsecure'' True BoolType [],
     Field ''BackupInProgress'' ''backupInProgress'' True BoolType [],
     Field ''Capability'' ''capability'' True StringType [InEnum [''READ_ONLY'', ''EDITS_ALLOWED'']],
     Field ''ClientRootCA'' ''clientRootCA'' True UUIDType [HasFormat ''uuid''],
     Field ''Clusters'' ''clusters'' False (Slice (Pointer (Model ''Cluster''))) [IsRequired],
     Field ''CmkArn'' ''cmkArn'' True StringType [],
     Field ''CommunicationPorts'' ''communicationPorts'' True (Pointer (Model ''CommunicationPorts'')) [],
     Field ''CurrentClusterType'' ''currentClusterType'' True StringType [InEnum [''PRIMARY'', ''ASYNC'']],
     Field ''DeviceInfo'' ''deviceInfo'' True (Pointer (Model ''DeviceInfo'')) [],
     Field ''EncryptionAtRestConfig'' ''encryptionAtRestConfig'' True (Pointer (Model ''EncryptionAtRestConfig'')) [],
     Field ''ErrorString'' ''errorString'' True StringType [],
     Field ''ExpectedUniverseVersion'' ''expectedUniverseVersion'' True Int32Type [],
     Field ''ExtraDependencies'' ''extraDependencies'' True (Pointer (Model ''ExtraDependencies'')) [],
     Field ''FirstTry'' ''firstTry'' True BoolType [],
     Field ''ImportedState'' ''importedState'' True StringType [InEnum [''NONE'', ''STARTED'', ''MASTERS_ADDED'',
        ''TSERVERS_ADDED'', ''IMPORTED'']],
     Field ''ItestS3PackagePath'' ''itestS3PackagePath'' True StringType [],
     Field ''NextClusterIndex'' ''nextClusterIndex'' True Int32Type [],
     Field ''NodeDetailsSet'' ''nodeDetailsSet'' False (Slice (Pointer (Model ''NodeDetailsResp''))) [IsReadOnly,
        IsUnique],
     Field ''NodeExporterUser'' ''nodeExporterUser'' True StringType [],
     Field ''NodePrefix'' ''nodePrefix'' True StringType [],
     Field ''NodesResizeAvailable'' ''nodesResizeAvailable'' True BoolType [],
     Field ''PreviousTaskUUID'' ''previousTaskUUID'' True UUIDType [HasFormat ''uuid''],
     Field ''RemotePackagePath'' ''remotePackagePath'' True StringType [],
     Field ''ResetAZConfig'' ''resetAZConfig'' True BoolType [],
     Field ''RootAndClientRootCASame'' ''rootAndClientRootCASame'' True BoolType [],
     Field ''RootCA'' ''rootCA'' True UUIDType [HasFormat ''uuid''],
     Field ''SetTxnTableWaitCountFlag'' ''setTxnTableWaitCountFlag'' True BoolType [],
     Field ''SourceXClusterConfigs'' ''sourceXClusterConfigs'' False (Slice UUIDType) [IsReadOnly],
     Field ''TargetXClusterConfigs'' ''targetXClusterConfigs'' False (Slice UUIDType) [IsReadOnly],
     Field ''UniversePaused'' ''universePaused'' True BoolType [],
     Field ''UniverseUUID'' ''universeUUID'' True UUIDType [HasFormat ''uuid''],
     Field ''UpdateInProgress'' ''updateInProgress'' True BoolType [],
     Field ''UpdateSucceeded'' ''updateSucceeded'' True BoolType [],
     Field ''UpdatingTask'' ''updatingTask'' True StringType [InEnum task_types],
     Field ''UpdatingTaskUUID'' ''updatingTaskUUID'' True UUIDType [HasFormat ''uuid''],
     Field ''UserAZSelected'' ''userAZSelected'' True BoolType [],
     Field ''YbPrevSoftwareVersion'' ''ybPrevSoftwareVersion'' True StringType []]"

definition UniverseDefinitionTaskParamsResp_Validate :: "checks" where
  "UniverseDefinitionTaskParamsResp_Validate =
    [(''Capability'', [SkipZero, EnumCheck ''capability'' universeDefinitionTaskParamsRespTypeCapabilityPropEnum
        False]),
     (''ClientRootCA'', [SkipZero, FormatOf ''clientRootCA'' ''uuid'']),
     (''Clusters'', [Required ''clusters'', Each [SkipZero, Nested ''clusters'']]),
     (''CommunicationPorts'', [SkipZero, Nested ''communicationPorts'']),
     (''CurrentClusterType'', [SkipZero, EnumCheck ''currentClusterType''
        universeDefinitionTaskParamsRespTypeCurrentClusterTypePropEnum False]),
     (''DeviceInfo'', [SkipZero, Nested ''deviceInfo'']),
     (''EncryptionAtRestConfig'', [SkipZero, Nested ''encryptionAtRestConfig'']),
     (''ExtraDependencies'', [SkipZero, Nested ''extraDependencies'']),
     (''ImportedState'', [SkipZero, EnumCheck ''importedState''
        universeDefinitionTaskParamsRespTypeImportedStatePropEnum False]),
     (''NodeDetailsSet'', [SkipZero, UniqueItems ''nodeDetailsSet'', Each [SkipZero, Nested ''nodeDetailsSet'']]),
     (''PreviousTaskUUID'', [SkipZero, FormatOf ''previousTaskUUID'' ''uuid'']),
     (''RootCA'', [SkipZero, FormatOf ''rootCA'' ''uuid'']),
     (''SourceXClusterConfigs'', [SkipZero, Each [FormatOf ''sourceXClusterConfigs'' ''uuid'']]),
     (''TargetXClusterConfigs'', [SkipZero, Each [FormatOf ''targetXClusterConfigs'' ''uuid'']]),
     (''UniverseUUID'', [SkipZero, FormatOf ''universeUUID'' ''uuid'']),
     (''UpdatingTask'', [SkipZero, EnumCheck ''updatingTask''
        universeDefinitionTaskParamsRespTypeUpdatingTaskPropEnum False]),
     (''UpdatingTaskUUID'', [SkipZero, FormatOf ''updatingTaskUUID'' ''uuid''])]"

definition UniverseDefinitionTaskParamsResp_ContextValidate :: "checks" where
  "UniverseDefinitionTaskParamsResp_ContextValidate =
    [(''Clusters'', [Each [Nested ''clusters'']]),
     (''CommunicationPorts'', [Nested ''communicationPorts'']),
     (''DeviceInfo'', [Nested ''deviceInfo'']),
     (''EncryptionAtRestConfig'', [Nested ''encryptionAtRestConfig'']),
     (''ExtraDependencies'', [Nested ''extraDependencies'']),
     (''NodeDetailsSet'', [ReadOnly ''nodeDetailsSet'', Each [Nested ''nodeDetailsSet'']]),
     (''SourceXClusterConfigs'', [ReadOnly ''sourceXClusterConfigs'']),
     (''TargetXClusterConfigs'', [ReadOnly ''targetXClusterConfigs''])]"

lemma UniverseDefinitionTaskParamsResp_documented: "validates_documentation (''UniverseDefinitionTaskParamsResp'', UniverseDefinitionTaskParamsResp_struct, UniverseDefinitionTaskParamsResp_Validate, UniverseDefinitionTaskParamsResp_ContextValidate)"
  by (simp add: model_check_simps UniverseDefinitionTaskParamsResp_struct_def UniverseDefinitionTaskParamsResp_Validate_def
      UniverseDefinitionTaskParamsResp_ContextValidate_def
      universeDefinitionTaskParamsRespTypeCapabilityPropEnum_def
      universeDefinitionTaskParamsRespTypeCurrentClusterTypePropEnum_def
      universeDefinitionTaskParamsRespTypeImportedStatePropEnum_def
      universeDefinitionTaskParamsRespTypeUpdatingTaskPropEnum_def)

lemma UniverseDefinitionTaskParamsResp_named: "named_apart UniverseDefinitionTaskParamsResp_struct"
  unfolding UniverseDefinitionTaskParamsResp_struct_def named_apart_def list.map model_field.sel by code_simp

subsection \<open>UpgradeTaskParams\<close>

definition upgradeTaskParamsTypeCapabilityPropEnum :: "string list" where
  "upgradeTaskParamsTypeCapabilityPropEnum =
    [''READ_ONLY'', ''EDITS_ALLOWED'']"

definition upgradeTaskParamsTypeCurrentClusterTypePropEnum :: "string list" where
  "upgradeTaskParamsTypeCurrentClusterTypePropEnum =
    [''PRIMARY'', ''ASYNC'']"

definition upgradeTaskParamsTypeImportedStatePropEnum :: "string list" where
  "upgradeTaskParamsTypeImportedStatePropEnum =
    [''NONE'', ''STARTED'', ''MASTERS_ADDED'', ''TSERVERS_ADDED'', ''IMPORTED'']"

definition upgradeTaskParamsTypeUpdatingTaskPropEnum :: "string list" where
  "upgradeTaskParamsTypeUpdatingTaskPropEnum =
    task_types"

definition upgradeTaskParamsTypeUpgradeOptionPropEnum :: "string list" where
  "upgradeTaskParamsTypeUpgradeOptionPropEnum =
    [''Rolling'', ''Non-Rolling'', ''Non-Restart'']"

definition UpgradeTaskParams_struct :: "model_field list" where
  "UpgradeTaskParams_struct =
    [Field ''AllowInsecure'' ''allowInsecure'' True BoolType [],
     Field ''BackupInProgress'' ''backupInProgress'' True BoolType [],
     Field ''Capability'' ''capability'' True StringType [InEnum [''READ_ONLY'', ''EDITS_ALLOWED'']],
     Field ''ClientRootCA'' ''clientRootCA'' True UUIDType [HasFormat ''uuid''],
     Field ''Clusters'' ''clusters'' False (Slice (Pointer (Model ''Cluster''))) [IsRequired],
     Field ''CmkArn'' ''cmkArn'' True StringType [],
     Field ''CommunicationPorts'' ''communicationPorts'' True (Pointer (Model ''CommunicationPorts'')) [],
     Field ''CurrentClusterType'' ''currentClusterType'' True StringType [InEnum [''PRIMARY'', ''ASYNC'']],
     Field ''DeviceInfo'' ''deviceInfo'' True (Pointer (Model ''DeviceInfo'')) [],
     Field ''EncryptionAtRestConfig'' ''encryptionAtRestConfig'' True (Pointer (Model ''EncryptionAtRestConfig'')) [],
     Field ''ErrorString'' ''errorString'' True StringType [],
     Field ''ExpectedUniverseVersion'' ''expectedUniverseVersion'' True Int32Type [],
     Field ''ExtraDependencies'' ''extraDependencies'' True (Pointer (Model ''ExtraDependencies'')) [],
     Field ''FirstTry'' ''firstTry'' True BoolType [],
     Field ''ImportedState'' ''importedState'' True StringType [InEnum [''NONE'', ''STARTED'', ''MASTERS_ADDED'',
        ''TSERVERS_ADDED'', ''IMPORTED'']],
     Field ''ItestS3PackagePath'' ''itestS3PackagePath'' True StringType [],
     Field ''KubernetesUpgradeSupported'' ''kubernetesUpgradeSupported'' False (Pointer BoolType) [IsRequired],
     Field ''NextClusterIndex'' ''nextClusterIndex'' True Int32Type [],
     Field ''NodeDetailsSet'' ''nodeDetailsSet'' False (Slice (Pointer (Model ''NodeDetails''))) [IsUnique],
     Field ''NodeExporterUser'' ''nodeExporterUser'' True StringType [],
     Field ''NodePrefix'' ''nodePrefix'' True StringType [],
     Field ''NodesResizeAvailable'' ''nodesResizeAvailable'' True BoolType [],
     Field ''PreviousTaskUUID'' ''previousTaskUUID'' True UUIDType [HasFormat ''uuid''],
     Field ''RemotePackagePath'' ''remotePackagePath'' True StringType [],
     Field ''ResetAZConfig'' ''resetAZConfig'' True BoolType [],
     Field ''RootAndClientRootCASame'' ''rootAndClientRootCASame'' True BoolType [],
     Field ''RootCA'' ''rootCA'' True UUIDType [HasFormat ''uuid''],
     Field ''SetTxnTableWaitCountFlag'' ''setTxnTableWaitCountFlag'' True BoolType [],
     Field ''SleepAfterMasterRestartMillis'' ''sleepAfterMasterRestartMillis'' False (Pointer Int32Type) [IsRequired],
     Field ''SleepAfterTServerRestartMillis'' ''sleepAfterTServerRestartMillis'' False (Pointer Int32Type)
        [IsRequired],
     Field ''SourceXClusterConfigs'' ''sourceXClusterConfigs'' False (Slice UUIDType) [IsReadOnly],
     Field ''TargetXClusterConfigs'' ''targetXClusterConfigs'' False (Slice UUIDType) [IsReadOnly],
     Field ''UniversePaused'' ''universePaused'' True BoolType [],
     Field ''UniverseUUID'' ''universeUUID'' True UUIDType [HasFormat ''uuid''],
     Field ''UpdateInProgress'' ''updateInProgress'' True BoolType [],
     Field ''UpdateSucceeded'' ''updateSucceeded'' True BoolType [],
     Field ''UpdatingTask'' ''updatingTask'' True StringType [InEnum task_types],
     Field ''UpdatingTaskUUID'' ''updatingTaskUUID'' True UUIDType [HasFormat ''uuid''],
     Field ''UpgradeOption'' ''upgradeOption'' False (Pointer StringType) [IsRequired, InEnum [''Rolling'',
        ''Non-Rolling'', ''Non-Restart'']],
     Field ''UserAZSelected'' ''userAZSelected'' True BoolType [],
     Field ''YbPrevSoftwareVersion'' ''ybPrevSoftwareVersion'' True StringType []]"

definition UpgradeTaskParams_Validate :: "checks" where
  "UpgradeTaskParams_Validate =
    [(''Capability'', [SkipZero, EnumCheck ''capability'' upgradeTaskParamsTypeCapabilityPropEnum False]),
     (''ClientRootCA'', [SkipZero, FormatOf ''clientRootCA'' ''uuid'']),
     (''Clusters'', [Required ''clusters'', Each [SkipZero, Nested ''clusters'']]),
     (''CommunicationPorts'', [SkipZero, Nested ''communicationPorts'']),
     (''CurrentClusterType'', [SkipZero, EnumCheck ''currentClusterType''
        upgradeTaskParamsTypeCurrentClusterTypePropEnum False]),
     (''DeviceInfo'', [SkipZero, Nested ''deviceInfo'']),
     (''EncryptionAtRestConfig'', [SkipZero, Nested ''encryptionAtRestConfig'']),
     (''ExtraDependencies'', [SkipZero, Nested ''extraDependencies'']),
     (''ImportedState'', [SkipZero, EnumCheck ''importedState'' upgradeTaskParamsTypeImportedStatePropEnum False]),
     (''KubernetesUpgradeSupported'', [Required ''kubernetesUpgradeSupported'']),
     (''NodeDetailsSet'', [SkipZero, UniqueItems ''nodeDetailsSet'', Each [SkipZero, Nested ''nodeDetailsSet'']]),
     (''PreviousTaskUUID'', [SkipZero, FormatOf ''previousTaskUUID'' ''uuid'']),
     (''RootCA'', [SkipZero, FormatOf ''rootCA'' ''uuid'']),
     (''SleepAfterMasterRestartMillis'', [Required ''sleepAfterMasterRestartMillis'']),
     (''SleepAfterTServerRestartMillis'', [Required ''sleepAfterTServerRestartMillis'']),
     (''SourceXClusterConfigs'', [SkipZero, Each [FormatOf ''sourceXClusterConfigs'' ''uuid'']]),
     (''TargetXClusterConfigs'', [SkipZero, Each [FormatOf ''targetXClusterConfigs'' ''uuid'']]),
     (''UniverseUUID'', [SkipZero, FormatOf ''universeUUID'' ''uuid'']),
     (''UpdatingTask'', [SkipZero, EnumCheck ''updatingTask'' upgradeTaskParamsTypeUpdatingTaskPropEnum False]),
     (''UpdatingTaskUUID'', [SkipZero, FormatOf ''updatingTaskUUID'' ''uuid'']),
     (''UpgradeOption'', [Required ''upgradeOption'', EnumCheck ''upgradeOption''
        upgradeTaskParamsTypeUpgradeOptionPropEnum True])]"

definition UpgradeTaskParams_ContextValidate :: "checks" where
  "UpgradeTaskParams_ContextValidate =
    [(''Clusters'', [Each [Nested ''clusters'']]),
     (''CommunicationPorts'', [Nested ''communicationPorts'']),
     (''DeviceInfo'', [Nested ''deviceInfo'']),
     (''EncryptionAtRestConfig'', [Nested ''encryptionAtRestConfig'']),
     (''ExtraDependencies'', [Nested ''extraDependencies'']),
     (''NodeDetailsSet'', [Each [Nested ''nodeDetailsSet'']]),
     (''SourceXClusterConfigs'', [ReadOnly ''sourceXClusterConfigs'']),
     (''TargetXClusterConfigs'', [ReadOnly ''targetXClusterConfigs''])]"

lemma UpgradeTaskParams_documented: "validates_documentation (''UpgradeTaskParams'', UpgradeTaskParams_struct, UpgradeTaskParams_Validate, UpgradeTaskParams_ContextValidate)"
  by (simp add: model_check_simps UpgradeTaskParams_struct_def UpgradeTaskParams_Validate_def
      UpgradeTaskParams_ContextValidate_def upgradeTaskParamsTypeCapabilityPropEnum_def
      upgradeTaskParamsTypeCurrentClusterTypePropEnum_def
      upgradeTaskParamsTypeImportedStatePropEnum_def
      upgradeTaskParamsTypeUpdatingTaskPropEnum_def
      upgradeTaskParamsTypeUpgradeOptionPropEnum_def)

lemma UpgradeTaskParams_named: "named_apart UpgradeTaskParams_struct"
  unfolding UpgradeTaskParams_struct_def named_apart_def list.map model_field.sel by code_simp

subsection \<open>VMImageUpgradeParams\<close>

definition vmImageUpgradeParamsTypeCapabilityPropEnum :: "string list" where
  "vmImageUpgradeParamsTypeCapabilityPropEnum =
    [''READ_ONLY'', ''EDITS_ALLOWED'']"

definition vmImageUpgradeParamsTypeCurrentClusterTypePropEnum :: "string list" where
  "vmImageUpgradeParamsTypeCurrentClusterTypePropEnum =
    [''PRIMARY'', ''ASYNC'']"

definition vmImageUpgradeParamsTypeImportedStatePropEnum :: "string list" where
  "vmImageUpgradeParamsTypeImportedStatePropEnum =
    [''NONE'', ''STARTED'', ''MASTERS_ADDED'', ''TSERVERS_ADDED'', ''IMPORTED'']"

definition vmImageUpgradeParamsTypeUpdatingTaskPropEnum :: "string list" where
  "vmImageUpgradeParamsTypeUpdatingTaskPropEnum =
    task_types"

definition vmImageUpgradeParamsTypeUpgradeOptionPropEnum :: "string list" where
  "vmImageUpgradeParamsTypeUpgradeOptionPropEnum =
    [''Rolling'', ''Non-Rolling'', ''Non-Restart'']"

definition VMImageUpgradeParams_struct :: "model_field list" where
  "VMImageUpgradeParams_struct =
    [Field ''AllowInsecure'' ''allowInsecure'' True BoolType [],
     Field ''BackupInProgress'' ''backupInProgress'' True BoolType [],
     Field ''Capability'' ''capability'' True StringType [InEnum [''READ_ONLY'', ''EDITS_ALLOWED'']],
     Field ''ClientRootCA'' ''clientRootCA'' True UUIDType [HasFormat ''uuid''],
     Field ''Clusters'' ''clusters'' False (Slice (Pointer (Model ''Cluster''))) [IsRequired],
     Field ''CmkArn'' ''cmkArn'' True StringType [],
     Field ''CommunicationPorts'' ''communicationPorts'' True (Pointer (Model ''CommunicationPorts'')) [],
     Field ''CurrentClusterType'' ''currentClusterType'' True StringType [InEnum [''PRIMARY'', ''ASYNC'']],
     Field ''DeviceInfo'' ''deviceInfo'' True (Pointer (Model ''DeviceInfo'')) [],
     Field ''EncryptionAtRestConfig'' ''encryptionAtRestConfig'' True (Pointer (Model ''EncryptionAtRestConfig'')) [],
     Field ''ErrorString'' ''errorString'' True StringType [],
     Field ''ExpectedUniverseVersion'' ''expectedUniverseVersion'' True Int32Type [],
     Field ''ExtraDependencies'' ''extraDependencies'' True (Pointer (Model ''ExtraDependencies'')) [],
     Field ''FirstTry'' ''firstTry'' True BoolType [],
     Field ''ForceVMImageUpgrade'' ''forceVMImageUpgrade'' False (Pointer BoolType) [IsRequired],
     Field ''ImportedState'' ''importedState'' True StringType [InEnum [''NONE'', ''STARTED'', ''MASTERS_ADDED'',
        ''TSERVERS_ADDED'', ''IMPORTED'']],
     Field ''ItestS3PackagePath'' ''itestS3PackagePath'' True StringType [],
     Field ''KubernetesUpgradeSupported'' ''kubernetesUpgradeSupported'' False (Pointer BoolType) [IsRequired],
     Field ''MachineImages'' ''machineImages'' False (MapOf StringType) [IsRequired],
     Field ''NextClusterIndex'' ''nextClusterIndex'' True Int32Type [],
     Field ''NodeDetailsSet'' ''nodeDetailsSet'' False (Slice (Pointer (Model ''NodeDetails''))) [IsUnique],
     Field ''NodeExporterUser'' ''nodeExporterUser'' True StringType [],
     Field ''NodePrefix'' ''nodePrefix'' True StringType [],
     Field ''NodesResizeAvailable'' ''nodesResizeAvailable'' True BoolType [],
     Field ''PreviousTaskUUID'' ''previousTaskUUID'' True UUIDType [HasFormat ''uuid''],
     Field ''RemotePackagePath'' ''remotePackagePath'' True StringType [],
     Field ''ResetAZConfig'' ''resetAZConfig'' True BoolType [],
     Field ''RootAndClientRootCASame'' ''rootAndClientRootCASame'' True BoolType [],
     Field ''RootCA'' ''rootCA'' True UUIDType [HasFormat ''uuid''],
     Field ''SetTxnTableWaitCountFlag'' ''setTxnTableWaitCountFlag'' True BoolType [],
     Field ''SleepAfterMasterRestartMillis'' ''sleepAfterMasterRestartMillis'' False (Pointer Int32Type) [IsRequired],
     Field ''SleepAfterTServerRestartMillis'' ''sleepAfterTServerRestartMillis'' False (Pointer Int32Type)
        [IsRequired],
     Field ''SourceXClusterConfigs'' ''sourceXClusterConfigs'' False (Slice UUIDType) [IsReadOnly],
     Field ''TargetXClusterConfigs'' ''targetXClusterConfigs'' False (Slice UUIDType) [IsReadOnly],
     Field ''UniversePaused'' ''universePaused'' True BoolType [],
     Field ''UniverseUUID'' ''universeUUID'' True UUIDType [HasFormat ''uuid''],
     Field ''UpdateInProgress'' ''updateInProgress'' True BoolType [],
     Field ''UpdateSucceeded'' ''updateSucceeded'' True BoolType [],
     Field ''UpdatingTask'' ''updatingTask'' True StringType [InEnum task_types],
     Field ''UpdatingTaskUUID'' ''updatingTaskUUID'' True UUIDType [HasFormat ''uuid''],
     Field ''UpgradeOption'' ''upgradeOption'' False (Pointer StringType) [IsRequired, InEnum [''Rolling'',
        ''Non-Rolling'', ''Non-Restart'']],
     Field ''UserAZSelected'' ''userAZSelected'' True BoolType [],
     Field ''YbPrevSoftwareVersion'' ''ybPrevSoftwareVersion'' True StringType [],
     Field ''YbSoftwareVersion'' ''ybSoftwareVersion'' False (Pointer StringType) [IsRequired]]"

definition VMImageUpgradeParams_Validate :: "checks" where
  "VMImageUpgradeParams_Validate =
    [(''Capability'', [SkipZero, EnumCheck ''capability'' vmImageUpgradeParamsTypeCapabilityPropEnum False]),
     (''ClientRootCA'', [SkipZero, FormatOf ''clientRootCA'' ''uuid'']),
     (''Clusters'', [Required ''clusters'', Each [SkipZero, Nested ''clusters'']]),
     (''CommunicationPorts'', [SkipZero, Nested ''communicationPorts'']),
     (''CurrentClusterType'', [SkipZero, EnumCheck ''currentClusterType''
        vmImageUpgradeParamsTypeCurrentClusterTypePropEnum False]),
     (''DeviceInfo'', [SkipZero, Nested ''deviceInfo'']),
     (''EncryptionAtRestConfig'', [SkipZero, Nested ''encryptionAtRestConfig'']),
     (''ExtraDependencies'', [SkipZero, Nested ''extraDependencies'']),
     (''ForceVMImageUpgrade'', [Required ''forceVMImageUpgrade'']),
     (''ImportedState'', [SkipZero, EnumCheck ''importedState'' vmImageUpgradeParamsTypeImportedStatePropEnum False]),
     (''KubernetesUpgradeSupported'', [Required ''kubernetesUpgradeSupported'']),
     (''MachineImages'', [Required ''machineImages'']),
     (''NodeDetailsSet'', [SkipZero, UniqueItems ''nodeDetailsSet'', Each [SkipZero, Nested ''nodeDetailsSet'']]),
     (''PreviousTaskUUID'', [SkipZero, FormatOf ''previousTaskUUID'' ''uuid'']),
     (''RootCA'', [SkipZero, FormatOf ''rootCA'' ''uuid'']),
     (''SleepAfterMasterRestartMillis'', [Required ''sleepAfterMasterRestartMillis'']),
     (''SleepAfterTServerRestartMillis'', [Required ''sleepAfterTServerRestartMillis'']),
     (''SourceXClusterConfigs'', [SkipZero, Each [FormatOf ''sourceXClusterConfigs'' ''uuid'']]),
     (''TargetXClusterConfigs'', [SkipZero, Each [FormatOf ''targetXClusterConfigs'' ''uuid'']]),
     (''UniverseUUID'', [SkipZero, FormatOf ''universeUUID'' ''uuid'']),
     (''UpdatingTask'', [SkipZero, EnumCheck ''updatingTask'' vmImageUpgradeParamsTypeUpdatingTaskPropEnum False]),
     (''UpdatingTaskUUID'', [SkipZero, FormatOf ''updatingTaskUUID'' ''uuid'']),
     (''UpgradeOption'', [Required ''upgradeOption'', EnumCheck ''upgradeOption''
        vmImageUpgradeParamsTypeUpgradeOptionPropEnum True]),
     (''YbSoftwareVersion'', [Required ''ybSoftwareVersion''])]"

definition VMImageUpgradeParams_ContextValidate :: "checks" where
  "VMImageUpgradeParams_ContextValidate =
    [(''Clusters'', [Each [Nested ''clusters'']]),
     (''CommunicationPorts'', [Nested ''communicationPorts'']),
     (''DeviceInfo'', [Nested ''deviceInfo'']),
     (''EncryptionAtRestConfig'', [Nested ''encryptionAtRestConfig'']),
     (''ExtraDependencies'', [Nested ''extraDependencies'']),
     (''NodeDetailsSet'', [Each [Nested ''nodeDetailsSet'']]),
     (''SourceXClusterConfigs'', [ReadOnly ''sourceXClusterConfigs'']),
     (''TargetXClusterConfigs'', [ReadOnly ''targetXClusterConfigs''])]"

lemma VMImageUpgradeParams_documented: "validates_documentation (''VMImageUpgradeParams'', VMImageUpgradeParams_struct, VMImageUpgradeParams_Validate, VMImageUpgradeParams_ContextValidate)"
  by (simp add: model_check_simps VMImageUpgradeParams_struct_def VMImageUpgradeParams_Validate_def
      VMImageUpgradeParams_ContextValidate_def
      vmImageUpgradeParamsTypeCapabilityPropEnum_def
      vmImageUpgradeParamsTypeCurrentClusterTypePropEnum_def
      vmImageUpgradeParamsTypeImportedStatePropEnum_def
      vmImageUpgradeParamsTypeUpdatingTaskPropEnum_def
      vmImageUpgradeParamsTypeUpgradeOptionPropEnum_def)

lemma VMImageUpgradeParams_named: "named_apart VMImageUpgradeParams_struct"
  unfolding VMImageUpgradeParams_struct_def named_apart_def list.map model_field.sel by code_simp

subsection \<open>The table\<close>

definition modelsUpgrades :: "model_table" where
  "modelsUpgrades =
    [(''BackupRequestParams'', BackupRequestParams_struct, BackupRequestParams_Validate,
        BackupRequestParams_ContextValidate),
     (''BackupTableParams'', BackupTableParams_struct, BackupTableParams_Validate, BackupTableParams_ContextValidate),
     (''CertsRotateParams'', CertsRotateParams_struct, CertsRotateParams_Validate, CertsRotateParams_ContextValidate),
     (''EncryptionAtRestConfig'', EncryptionAtRestConfig_struct, EncryptionAtRestConfig_Validate,
        EncryptionAtRestConfig_ContextValidate),
     (''GFlagsUpgradeParams'', GFlagsUpgradeParams_struct, GFlagsUpgradeParams_Validate,
        GFlagsUpgradeParams_ContextValidate),
     (''ImportUniverseFormData'', ImportUniverseFormData_struct, ImportUniverseFormData_Validate,
        ImportUniverseFormData_ContextValidate),
     (''MultiTableBackupRequestParams'', MultiTableBackupRequestParams_struct,
        MultiTableBackupRequestParams_Validate, MultiTableBackupRequestParams_ContextValidate),
     (''ResizeNodeParams'', ResizeNodeParams_struct, ResizeNodeParams_Validate, ResizeNodeParams_ContextValidate),
     (''SoftwareUpgradeParams'', SoftwareUpgradeParams_struct, SoftwareUpgradeParams_Validate,
        SoftwareUpgradeParams_ContextValidate),
     (''SystemdUpgradeParams'', SystemdUpgradeParams_struct, SystemdUpgradeParams_Validate,
        SystemdUpgradeParams_ContextValidate),
     (''TableDefinitionTaskParams'', TableDefinitionTaskParams_struct, TableDefinitionTaskParams_Validate,
        TableDefinitionTaskParams_ContextValidate),
     (''ThirdpartySoftwareUpgradeParams'', ThirdpartySoftwareUpgradeParams_struct,
        ThirdpartySoftwareUpgradeParams_Validate, ThirdpartySoftwareUpgradeParams_ContextValidate),
     (''TLSToggleParams'', TLSToggleParams_struct, TLSToggleParams_Validate, TLSToggleParams_ContextValidate),
     (''UniverseConfigureTaskParams'', UniverseConfigureTaskParams_struct, UniverseConfigureTaskParams_Validate,
        UniverseConfigureTaskParams_ContextValidate),
     (''UniverseDefinitionTaskParams'', UniverseDefinitionTaskParams_struct, UniverseDefinitionTaskParams_Validate,
        UniverseDefinitionTaskParams_ContextValidate),
     (''UniverseDefinitionTaskParamsResp'', UniverseDefinitionTaskParamsResp_struct,
        UniverseDefinitionTaskParamsResp_Validate, UniverseDefinitionTaskParamsResp_ContextValidate),
     (''UpgradeTaskParams'', UpgradeTaskParams_struct, UpgradeTaskParams_Validate, UpgradeTaskParams_ContextValidate),
     (''VMImageUpgradeParams'', VMImageUpgradeParams_struct, VMImageUpgradeParams_Validate,
        VMImageUpgradeParams_ContextValidate)]"

lemma modelsUpgrades_documented: "list_all validates_documentation modelsUpgrades"
  unfolding modelsUpgrades_def list.pred_inject(2)
  by (intro conjI BackupRequestParams_documented BackupTableParams_documented CertsRotateParams_documented
      EncryptionAtRestConfig_documented GFlagsUpgradeParams_documented ImportUniverseFormData_documented
      MultiTableBackupRequestParams_documented ResizeNodeParams_documented SoftwareUpgradeParams_documented
      SystemdUpgradeParams_documented TableDefinitionTaskParams_documented
      ThirdpartySoftwareUpgradeParams_documented TLSToggleParams_documented
      UniverseConfigureTaskParams_documented UniverseDefinitionTaskParams_documented
      UniverseDefinitionTaskParamsResp_documented UpgradeTaskParams_documented
      VMImageUpgradeParams_documented) simp

lemma modelsUpgrades_named: "list_all (\<lambda>m. named_apart (fst (snd m))) modelsUpgrades"
  unfolding modelsUpgrades_def list.pred_inject(2) fst_conv snd_conv
  by (intro conjI BackupRequestParams_named BackupTableParams_named CertsRotateParams_named EncryptionAtRestConfig_named
      GFlagsUpgradeParams_named ImportUniverseFormData_named MultiTableBackupRequestParams_named
      ResizeNodeParams_named SoftwareUpgradeParams_named SystemdUpgradeParams_named
      TableDefinitionTaskParams_named ThirdpartySoftwareUpgradeParams_named TLSToggleParams_named
      UniverseConfigureTaskParams_named UniverseDefinitionTaskParams_named
      UniverseDefinitionTaskParamsResp_named UpgradeTaskParams_named VMImageUpgradeParams_named) simp

end
