(* ===== verification/ModelsBackups.thy ===== *)
theory ModelsBackups
  imports ModelDocs ModelJson
begin

section \<open>API models: backups, schedules, tables and their storage\<close>

text \<open>
  The models of backups, schedules, tables and their storage, each with the values of its enumerations, its struct, its \<open>Validate\<close> and its
  \<open>ContextValidate\<close>, as \<open>SwaggerModels\<close> reads them. The lemma after a model checks that the methods
  hold the statements that the comments of the struct demand, and another that the names in JSON differ in more than case;
  the last definition is the table of them.
\<close>

subsection \<open>Backup\<close>

definition backupTypeCategoryPropEnum :: "string list" where
  "backupTypeCategoryPropEnum =
    [''YB_BACKUP_SCRIPT'', ''YB_CONTROLLER'']"

definition backupTypeExpiryTimeUnitPropEnum :: "string list" where
  "backupTypeExpiryTimeUnitPropEnum =
    [''NANOSECONDS'', ''MICROSECONDS'', ''MILLISECONDS'', ''SECONDS'', ''MINUTES'', ''HOURS'', ''DAYS'', ''MONTHS'',
     ''YEARS'']"

definition backupTypeStatePropEnum :: "string list" where
  "backupTypeStatePropEnum =
    [''InProgress'', ''Completed'', ''Failed'', ''Deleted'', ''Skipped'', ''FailedToDelete'', ''Stopped'',
     ''DeleteInProgress'', ''QueuedForDeletion'']"

definition backupTypeVersionPropEnum :: "string list" where
  "backupTypeVersionPropEnum =
    [''V1'', ''V2'']"

definition Backup_struct :: "model_field list" where
  "Backup_struct =
    [Field ''BackupInfo'' ''backupInfo'' True (Pointer (Model ''BackupTableParams'')) [],
     Field ''BackupUUID'' ''backupUUID'' True UUIDType [IsReadOnly, HasFormat ''uuid''],
     Field ''Category'' ''category'' True StringType [InEnum [''YB_BACKUP_SCRIPT'', ''YB_CONTROLLER'']],
     Field ''CompletionTime'' ''completionTime'' True Int64Type [],
     Field ''CreateTime'' ''createTime'' False (Pointer Int64Type) [IsRequired],
     Field ''CustomerUUID'' ''customerUUID'' True UUIDType [HasFormat ''uuid''],
     Field ''Expiry'' ''expiry'' True Int64Type [],
     Field ''ExpiryTimeUnit'' ''expiryTimeUnit'' True StringType [InEnum [''NANOSECONDS'', ''MICROSECONDS'',
        ''MILLISECONDS'', ''SECONDS'', ''MINUTES'', ''HOURS'', ''DAYS'', ''MONTHS'', ''YEARS'']],
     Field ''ScheduleUUID'' ''scheduleUUID'' True UUIDType [HasFormat ''uuid''],
     Field ''State'' ''state'' True StringType [IsReadOnly, InEnum [''InProgress'', ''Completed'', ''Failed'',
        ''Deleted'', ''Skipped'', ''FailedToDelete'', ''Stopped'', ''DeleteInProgress'', ''QueuedForDeletion'']],
     Field ''StorageConfigUUID'' ''storageConfigUUID'' True UUIDType [HasFormat ''uuid''],
     Field ''TaskUUID'' ''taskUUID'' True UUIDType [IsReadOnly, HasFormat ''uuid''],
     Field ''UniverseName'' ''universeName'' True StringType [],
     Field ''UniverseUUID'' ''universeUUID'' True UUIDType [HasFormat ''uuid''],
     Field ''UpdateTime'' ''updateTime'' False (Pointer Int64Type) [IsRequired],
     Field ''Version'' ''version'' True StringType [InEnum [''V1'', ''V2'']]]"

definition Backup_Validate :: "checks" where
  "Backup_Validate =
    [(''BackupInfo'', [SkipZero, Nested ''backupInfo'']),
     (''BackupUUID'', [SkipZero, FormatOf ''backupUUID'' ''uuid'']),
     (''Category'', [SkipZero, EnumCheck ''category'' backupTypeCategoryPropEnum False]),
     (''CreateTime'', [Required ''createTime'']),
     (''CustomerUUID'', [SkipZero, FormatOf ''customerUUID'' ''uuid'']),
     (''ExpiryTimeUnit'', [SkipZero, EnumCheck ''expiryTimeUnit'' backupTypeExpiryTimeUnitPropEnum False]),
     (''ScheduleUUID'', [SkipZero, FormatOf ''scheduleUUID'' ''uuid'']),
     (''State'', [SkipZero, EnumCheck ''state'' backupTypeStatePropEnum False]),
     (''StorageConfigUUID'', [SkipZero, FormatOf ''storageConfigUUID'' ''uuid'']),
     (''TaskUUID'', [SkipZero, FormatOf ''taskUUID'' ''uuid'']),
     (''UniverseUUID'', [SkipZero, FormatOf ''universeUUID'' ''uuid'']),
     (''UpdateTime'', [Required ''updateTime'']),
     (''Version'', [SkipZero, EnumCheck ''version'' backupTypeVersionPropEnum False])]"

definition Backup_ContextValidate :: "checks" where
  "Backup_ContextValidate =
    [(''BackupInfo'', [Nested ''backupInfo'']),
     (''BackupUUID'', [ReadOnly ''backupUUID'']),
     (''State'', [ReadOnly ''state'']),
     (''TaskUUID'', [ReadOnly ''taskUUID''])]"

lemma Backup_documented: "validates_documentation (''Backup'', Backup_struct, Backup_Validate, Backup_ContextValidate)"
  by code_simp

lemma Backup_named: "named_apart Backup_struct"
  unfolding Backup_struct_def named_apart_def list.map model_field.sel by code_simp

subsection \<open>BackupAPIFilter\<close>

definition backupApiFilterStatesItemsEnum :: "string list" where
  "backupApiFilterStatesItemsEnum =
    [''InProgress'', ''Completed'', ''Failed'', ''Deleted'', ''Skipped'', ''FailedToDelete'', ''Stopped'',
     ''DeleteInProgress'', ''QueuedForDeletion'']"

definition BackupAPIFilter_struct :: "model_field list" where
  "BackupAPIFilter_struct =
    [Field ''DateRangeEnd'' ''dateRangeEnd'' False (Pointer DateTimeType) [IsRequired, HasFormat ''date-time''],
     Field ''DateRangeStart'' ''dateRangeStart'' False (Pointer DateTimeType) [IsRequired, HasFormat ''date-time''],
     Field ''KeyspaceList'' ''keyspaceList'' False (Slice StringType) [IsRequired, IsUnique],
     Field ''OnlyShowDeletedConfigs'' ''onlyShowDeletedConfigs'' False (Pointer BoolType) [IsRequired],
     Field ''OnlyShowDeletedUniverses'' ''onlyShowDeletedUniverses'' False (Pointer BoolType) [IsRequired],
     Field ''ScheduleUUIDList'' ''scheduleUUIDList'' False (Slice UUIDType) [IsRequired, IsUnique],
     Field ''States'' ''states'' False (Slice StringType) [IsRequired, IsUnique, ItemsIn
        backupApiFilterStatesItemsEnum],
     Field ''StorageConfigUUIDList'' ''storageConfigUUIDList'' False (Slice UUIDType) [IsRequired, IsUnique],
     Field ''UniverseNameList'' ''universeNameList'' False (Slice StringType) [IsRequired, IsUnique],
     Field ''UniverseUUIDList'' ''universeUUIDList'' False (Slice UUIDType) [IsRequired, IsUnique]]"

definition BackupAPIFilter_Validate :: "checks" where
  "BackupAPIFilter_Validate =
    [(''DateRangeEnd'', [Required ''dateRangeEnd'', FormatOf ''dateRangeEnd'' ''date-time'']),
     (''DateRangeStart'', [Required ''dateRangeStart'', FormatOf ''dateRangeStart'' ''date-time'']),
     (''KeyspaceList'', [Required ''keyspaceList'', UniqueItems ''keyspaceList'']),
     (''OnlyShowDeletedConfigs'', [Required ''onlyShowDeletedConfigs'']),
     (''OnlyShowDeletedUniverses'', [Required ''onlyShowDeletedUniverses'']),
     (''ScheduleUUIDList'', [Required ''scheduleUUIDList'', UniqueItems ''scheduleUUIDList'', Each [FormatOf
        ''scheduleUUIDList'' ''uuid'']]),
     (''States'', [Required ''states'', UniqueItems ''states'', Each [EnumCheck ''states''
        backupApiFilterStatesItemsEnum False]]),
     (''StorageConfigUUIDList'', [Required ''storageConfigUUIDList'', UniqueItems ''storageConfigUUIDList'', Each
        [FormatOf ''storageConfigUUIDList'' ''uuid'']]),
     (''UniverseNameList'', [Required ''universeNameList'', UniqueItems ''universeNameList'']),
     (''UniverseUUIDList'', [Required ''universeUUIDList'', UniqueItems ''universeUUIDList'', Each [FormatOf
        ''universeUUIDList'' ''uuid'']])]"

definition BackupAPIFilter_ContextValidate :: "checks" where
  "BackupAPIFilter_ContextValidate = []"

lemma BackupAPIFilter_documented: "validates_documentation (''BackupAPIFilter'', BackupAPIFilter_struct, BackupAPIFilter_Validate, BackupAPIFilter_ContextValidate)"
  by code_simp

lemma BackupAPIFilter_named: "named_apart BackupAPIFilter_struct"
  unfolding BackupAPIFilter_struct_def named_apart_def list.map model_field.sel by code_simp

subsection \<open>BackupPagedAPIQuery\<close>

definition backupPagedApiQueryTypeDirectionPropEnum :: "string list" where
  "backupPagedApiQueryTypeDirectionPropEnum =
    [''ASC'', ''DESC'']"

definition backupPagedApiQueryTypeSortByPropEnum :: "string list" where
  "backupPagedApiQueryTypeSortByPropEnum =
    [''createTime'']"

definition BackupPagedAPIQuery_struct :: "model_field list" where
  "BackupPagedAPIQuery_struct =
    [Field ''Direction'' ''direction'' False (Pointer StringType) [IsRequired, InEnum [''ASC'', ''DESC'']],
     Field ''Filter'' ''filter'' False (Pointer (Model ''BackupAPIFilter'')) [IsRequired],
     Field ''Limit'' ''limit'' False (Pointer Int32Type) [IsRequired],
     Field ''NeedTotalCount'' ''needTotalCount'' False (Pointer BoolType) [IsRequired],
     Field ''Offset'' ''offset'' False (Pointer Int32Type) [IsRequired],
     Field ''SortBy'' ''sortBy'' False (Pointer StringType) [IsRequired, InEnum [''createTime'']]]"

definition BackupPagedAPIQuery_Validate :: "checks" where
  "BackupPagedAPIQuery_Validate =
    [(''Direction'', [Required ''direction'', EnumCheck ''direction'' backupPagedApiQueryTypeDirectionPropEnum True]),
     (''Filter'', [Required ''filter'', Nested ''filter'']),
     (''Limit'', [Required ''limit'']),
     (''NeedTotalCount'', [Required ''needTotalCount'']),
     (''Offset'', [Required ''offset'']),
     (''SortBy'', [Required ''sortBy'', EnumCheck ''sortBy'' backupPagedApiQueryTypeSortByPropEnum True])]"

definition BackupPagedAPIQuery_ContextValidate :: "checks" where
  "BackupPagedAPIQuery_ContextValidate =
    [(''Filter'', [Nested ''filter''])]"

lemma BackupPagedAPIQuery_documented: "validates_documentation (''BackupPagedAPIQuery'', BackupPagedAPIQuery_struct, BackupPagedAPIQuery_Validate, BackupPagedAPIQuery_ContextValidate)"
  by code_simp

lemma BackupPagedAPIQuery_named: "named_apart BackupPagedAPIQuery_struct"
  unfolding BackupPagedAPIQuery_struct_def named_apart_def list.map model_field.sel by code_simp

subsection \<open>BackupPagedAPIResponse\<close>

definition BackupPagedAPIResponse_struct :: "model_field list" where
  "BackupPagedAPIResponse_struct =
    [Field ''Entities'' ''entities'' False (Slice (Pointer (Model ''BackupResp''))) [IsRequired],
     Field ''HasNext'' ''hasNext'' False (Pointer BoolType) [IsRequired],
     Field ''HasPrev'' ''hasPrev'' False (Pointer BoolType) [IsRequired],
     Field ''TotalCount'' ''totalCount'' False (Pointer Int32Type) [IsRequired]]"

definition BackupPagedAPIResponse_Validate :: "checks" where
  "BackupPagedAPIResponse_Validate =
    [(''Entities'', [Required ''entities'', Each [SkipZero, Nested ''entities'']]),
     (''HasNext'', [Required ''hasNext'']),
     (''HasPrev'', [Required ''hasPrev'']),
     (''TotalCount'', [Required ''totalCount''])]"

definition BackupPagedAPIResponse_ContextValidate :: "checks" where
  "BackupPagedAPIResponse_ContextValidate =
    [(''Entities'', [Each [Nested ''entities'']])]"

lemma BackupPagedAPIResponse_documented: "validates_documentation (''BackupPagedAPIResponse'', BackupPagedAPIResponse_struct, BackupPagedAPIResponse_Validate, BackupPagedAPIResponse_ContextValidate)"
  by code_simp

lemma BackupPagedAPIResponse_named: "named_apart BackupPagedAPIResponse_struct"
  unfolding BackupPagedAPIResponse_struct_def named_apart_def list.map model_field.sel by code_simp

subsection \<open>BackupResp\<close>

definition backupRespTypeBackupTypePropEnum :: "string list" where
  "backupRespTypeBackupTypePropEnum =
    [''YQL_TABLE_TYPE'', ''REDIS_TABLE_TYPE'', ''PGSQL_TABLE_TYPE'', ''TRANSACTION_STATUS_TABLE_TYPE'']"

definition backupRespTypeStatePropEnum :: "string list" where
  "backupRespTypeStatePropEnum =
    [''InProgress'', ''Completed'', ''Failed'', ''Deleted'', ''Skipped'', ''FailedToDelete'', ''Stopped'',
     ''DeleteInProgress'', ''QueuedForDeletion'']"

definition backupRespTypeStorageConfigTypePropEnum :: "string list" where
  "backupRespTypeStorageConfigTypePropEnum =
    [''S3'', ''NFS'', ''AZ'', ''GCS'', ''FILE'']"

definition BackupResp_struct :: "model_field list" where
  "BackupResp_struct =
    [Field ''BackupType'' ''backupType'' False (Pointer StringType) [IsRequired, InEnum [''YQL_TABLE_TYPE'',
        ''REDIS_TABLE_TYPE'', ''PGSQL_TABLE_TYPE'', ''TRANSACTION_STATUS_TABLE_TYPE'']],
     Field ''BackupUUID'' ''backupUUID'' False (Pointer UUIDType) [IsRequired, HasFormat ''uuid''],
     Field ''CompletionTime'' ''completionTime'' False (Pointer DateTimeType) [IsRequired, HasFormat ''date-time''],
     Field ''CreateTime'' ''createTime'' False (Pointer DateTimeType) [IsRequired, HasFormat ''date-time''],
     Field ''CustomerUUID'' ''customerUUID'' False (Pointer UUIDType) [IsRequired, HasFormat ''uuid''],
     Field ''ExpiryTime'' ''expiryTime'' False (Pointer DateTimeType) [IsRequired, HasFormat ''date-time''],
     Field ''IsFullBackup'' ''isFullBackup'' False (Pointer BoolType) [IsRequired],
     Field ''IsStorageConfigPresent'' ''isStorageConfigPresent'' False (Pointer BoolType) [IsRequired],
     Field ''IsUniversePresent'' ''isUniversePresent'' False (Pointer BoolType) [IsRequired],
     Field ''KmsConfigUUID'' ''kmsConfigUUID'' False (Pointer UUIDType) [IsRequired, HasFormat ''uuid''],
     Field ''OnDemand'' ''onDemand'' False (Pointer BoolType) [IsRequired],
     Field ''ResponseList'' ''responseList'' False (Slice (Pointer (Model ''KeyspaceTablesList''))) [IsRequired,
        IsUnique],
     Field ''ScheduleUUID'' ''scheduleUUID'' False (Pointer UUIDType) [IsRequired, HasFormat ''uuid''],
     Field ''Sse'' ''sse'' False (Pointer BoolType) [IsRequired],
     Field ''State'' ''state'' False (Pointer StringType) [IsRequired, InEnum [''InProgress'', ''Completed'',
        ''Failed'', ''Deleted'', ''Skipped'', ''FailedToDelete'', ''Stopped'', ''DeleteInProgress'',
        ''QueuedForDeletion'']],
     Field ''StorageConfigType'' ''storageConfigType'' False (Pointer StringType) [IsRequired, InEnum [''S3'',
        ''NFS'', ''AZ'', ''GCS'', ''FILE'']],
     Field ''StorageConfigUUID'' ''storageConfigUUID'' False (Pointer UUIDType) [IsRequired, HasFormat ''uuid''],
     Field ''TaskUUID'' ''taskUUID'' False (Pointer UUIDType) [IsRequired, HasFormat ''uuid''],
     Field ''TotalBackupSizeInBytes'' ''totalBackupSizeInBytes'' False (Pointer Int64Type) [IsRequired],
     Field ''UniverseName'' ''universeName'' False (Pointer StringType) [IsRequired],
     Field ''UniverseUUID'' ''universeUUID'' False (Pointer UUIDType) [IsRequired, HasFormat ''uuid''],
     Field ''UpdateTime'' ''updateTime'' False (Pointer DateTimeType) [IsRequired, HasFormat ''date-time'']]"

definition BackupResp_Validate :: "checks" where
  "BackupResp_Validate =
    [(''BackupType'', [Required ''backupType'', EnumCheck ''backupType'' backupRespTypeBackupTypePropEnum True]),
     (''BackupUUID'', [Required ''backupUUID'', FormatOf ''backupUUID'' ''uuid'']),
     (''CompletionTime'', [Required ''completionTime'', FormatOf ''completionTime'' ''date-time'']),
     (''CreateTime'', [Required ''createTime'', FormatOf ''createTime'' ''date-time'']),
     (''CustomerUUID'', [Required ''customerUUID'', FormatOf ''customerUUID'' ''uuid'']),
     (''ExpiryTime'', [Required ''expiryTime'', FormatOf ''expiryTime'' ''date-time'']),
     (''IsFullBackup'', [Required ''isFullBackup'']),
     (''IsStorageConfigPresent'', [Required ''isStorageConfigPresent'']),
     (''IsUniversePresent'', [Required ''isUniversePresent'']),
     (''KmsConfigUUID'', [Required ''kmsConfigUUID'', FormatOf ''kmsConfigUUID'' ''uuid'']),
     (''OnDemand'', [Required ''onDemand'']),
     (''ResponseList'', [Required ''responseList'', UniqueItems ''responseList'', Each [SkipZero, Nested
        ''responseList'']]),
     (''ScheduleUUID'', [Required ''scheduleUUID'', FormatOf ''scheduleUUID'' ''uuid'']),
     (''Sse'', [Required ''sse'']),
     (''State'', [Required ''state'', EnumCheck ''state'' backupRespTypeStatePropEnum True]),
     (''StorageConfigType'', [Required ''storageConfigType'', EnumCheck ''storageConfigType''
        backupRespTypeStorageConfigTypePropEnum True]),
     (''StorageConfigUUID'', [Required ''storageConfigUUID'', FormatOf ''storageConfigUUID'' ''uuid'']),
     (''TaskUUID'', [Required ''taskUUID'', FormatOf ''taskUUID'' ''uuid'']),
     (''TotalBackupSizeInBytes'', [Required ''totalBackupSizeInBytes'']),
     (''UniverseName'', [Required ''universeName'']),
     (''UniverseUUID'', [Required ''universeUUID'', FormatOf ''universeUUID'' ''uuid'']),
     (''UpdateTime'', [Required ''updateTime'', FormatOf ''updateTime'' ''date-time''])]"

definition BackupResp_ContextValidate :: "checks" where
  "BackupResp_ContextValidate =
    [(''ResponseList'', [Each [Nested ''responseList'']])]"

lemma BackupResp_documented: "validates_documentation (''BackupResp'', BackupResp_struct, BackupResp_Validate, BackupResp_ContextValidate)"
  by code_simp

lemma BackupResp_named: "named_apart BackupResp_struct"
  unfolding BackupResp_struct_def named_apart_def list.map model_field.sel by code_simp

subsection \<open>BackupStorageInfo\<close>

definition backupStorageInfoTypeBackupTypePropEnum :: "string list" where
  "backupStorageInfoTypeBackupTypePropEnum =
    [''YQL_TABLE_TYPE'', ''REDIS_TABLE_TYPE'', ''PGSQL_TABLE_TYPE'', ''TRANSACTION_STATUS_TABLE_TYPE'']"

definition BackupStorageInfo_struct :: "model_field list" where
  "BackupStorageInfo_struct =
    [Field ''BackupType'' ''backupType'' True StringType [InEnum [''YQL_TABLE_TYPE'', ''REDIS_TABLE_TYPE'',
        ''PGSQL_TABLE_TYPE'', ''TRANSACTION_STATUS_TABLE_TYPE'']],
     Field ''Keyspace'' ''keyspace'' True StringType [],
     Field ''Sse'' ''sse'' True BoolType [],
     Field ''StorageLocation'' ''storageLocation'' True StringType [],
     Field ''TableNameList'' ''tableNameList'' False (Slice StringType) []]"

definition BackupStorageInfo_Validate :: "checks" where
  "BackupStorageInfo_Validate =
    [(''BackupType'', [SkipZero, EnumCheck ''backupType'' backupStorageInfoTypeBackupTypePropEnum False])]"

definition BackupStorageInfo_ContextValidate :: "checks" where
  "BackupStorageInfo_ContextValidate = []"

lemma BackupStorageInfo_documented: "validates_documentation (''BackupStorageInfo'', BackupStorageInfo_struct, BackupStorageInfo_Validate, BackupStorageInfo_ContextValidate)"
  by code_simp

lemma BackupStorageInfo_named: "named_apart BackupStorageInfo_struct"
  unfolding BackupStorageInfo_struct_def named_apart_def list.map model_field.sel by code_simp

subsection \<open>BulkImportParams\<close>

definition BulkImportParams_struct :: "model_field list" where
  "BulkImportParams_struct =
    [Field ''CmkArn'' ''cmkArn'' True StringType [],
     Field ''CommunicationPorts'' ''communicationPorts'' True (Pointer (Model ''CommunicationPorts'')) [],
     Field ''DeviceInfo'' ''deviceInfo'' True (Pointer (Model ''DeviceInfo'')) [],
     Field ''EncryptionAtRestConfig'' ''encryptionAtRestConfig'' True (Pointer (Model ''EncryptionAtRestConfig'')) [],
     Field ''ErrorString'' ''errorString'' True StringType [],
     Field ''ExpectedUniverseVersion'' ''expectedUniverseVersion'' True Int32Type [],
     Field ''ExtraDependencies'' ''extraDependencies'' True (Pointer (Model ''ExtraDependencies'')) [],
     Field ''FirstTry'' ''firstTry'' True BoolType [],
     Field ''InstanceCount'' ''instanceCount'' True Int32Type [],
     Field ''Keyspace'' ''keyspace'' True StringType [],
     Field ''NodeDetailsSet'' ''nodeDetailsSet'' False (Slice (Pointer (Model ''NodeDetails''))) [IsUnique],
     Field ''NodeExporterUser'' ''nodeExporterUser'' True StringType [],
     Field ''PreviousTaskUUID'' ''previousTaskUUID'' True UUIDType [HasFormat ''uuid''],
     Field ''S3Bucket'' ''s3Bucket'' False (Pointer StringType) [IsRequired],
     Field ''SourceXClusterConfigs'' ''sourceXClusterConfigs'' False (Slice UUIDType) [IsReadOnly],
     Field ''Sse'' ''sse'' True BoolType [],
     Field ''TableName'' ''tableName'' True StringType [],
     Field ''TableUUID'' ''tableUUID'' True UUIDType [HasFormat ''uuid''],
     Field ''TargetXClusterConfigs'' ''targetXClusterConfigs'' False (Slice UUIDType) [IsReadOnly],
     Field ''UniverseUUID'' ''universeUUID'' True UUIDType [HasFormat ''uuid''],
     Field ''YbPrevSoftwareVersion'' ''ybPrevSoftwareVersion'' True StringType []]"

definition BulkImportParams_Validate :: "checks" where
  "BulkImportParams_Validate =
    [(''CommunicationPorts'', [SkipZero, Nested ''communicationPorts'']),
     (''DeviceInfo'', [SkipZero, Nested ''deviceInfo'']),
     (''EncryptionAtRestConfig'', [SkipZero, Nested ''encryptionAtRestConfig'']),
     (''ExtraDependencies'', [SkipZero, Nested ''extraDependencies'']),
     (''NodeDetailsSet'', [SkipZero, UniqueItems ''nodeDetailsSet'', Each [SkipZero, Nested ''nodeDetailsSet'']]),
     (''PreviousTaskUUID'', [SkipZero, FormatOf ''previousTaskUUID'' ''uuid'']),
     (''S3Bucket'', [Required ''s3Bucket'']),
     (''SourceXClusterConfigs'', [SkipZero, Each [FormatOf ''sourceXClusterConfigs'' ''uuid'']]),
     (''TableUUID'', [SkipZero, FormatOf ''tableUUID'' ''uuid'']),
     (''TargetXClusterConfigs'', [SkipZero, Each [FormatOf ''targetXClusterConfigs'' ''uuid'']]),
     (''UniverseUUID'', [SkipZero, FormatOf ''universeUUID'' ''uuid''])]"

definition BulkImportParams_ContextValidate :: "checks" where
  "BulkImportParams_ContextValidate =
    [(''CommunicationPorts'', [Nested ''communicationPorts'']),
     (''DeviceInfo'', [Nested ''deviceInfo'']),
     (''EncryptionAtRestConfig'', [Nested ''encryptionAtRestConfig'']),
     (''ExtraDependencies'', [Nested ''extraDependencies'']),
     (''NodeDetailsSet'', [Each [Nested ''nodeDetailsSet'']]),
     (''SourceXClusterConfigs'', [ReadOnly ''sourceXClusterConfigs'']),
     (''TargetXClusterConfigs'', [ReadOnly ''targetXClusterConfigs''])]"

lemma BulkImportParams_documented: "validates_documentation (''BulkImportParams'', BulkImportParams_struct, BulkImportParams_Validate, BulkImportParams_ContextValidate)"
  by code_simp

lemma BulkImportParams_named: "named_apart BulkImportParams_struct"
  unfolding BulkImportParams_struct_def named_apart_def list.map model_field.sel by code_simp

subsection \<open>ColumnDetails\<close>

definition columnDetailsTypeKeyTypePropEnum :: "string list" where
  "columnDetailsTypeKeyTypePropEnum =
    [''TINYINT'', ''SMALLINT'', ''INT'', ''BIGINT'', ''VARCHAR'', ''BOOLEAN'', ''FLOAT'', ''DOUBLE_PRECISION'', ''BLOB'',
     ''TIMESTAMP'', ''DECIMAL'', ''VARINT'', ''INET'', ''LIST'', ''MAP'', ''SET'', ''UUID'', ''TIMEUUID'', ''FROZEN'',
     ''DATE'', ''TIME'', ''JSONB'', ''USER_DEFINED_TYPE'']"

definition columnDetailsTypeSortOrderPropEnum :: "string list" where
  "columnDetailsTypeSortOrderPropEnum =
    [''NONE'', ''ASC'', ''DESC'']"

definition columnDetailsTypeTypePropEnum :: "string list" where
  "columnDetailsTypeTypePropEnum =
    [''TINYINT'', ''SMALLINT'', ''INT'', ''BIGINT'', ''VARCHAR'', ''BOOLEAN'', ''FLOAT'', ''DOUBLE_PRECISION'', ''BLOB'',
     ''TIMESTAMP'', ''DECIMAL'', ''VARINT'', ''INET'', ''LIST'', ''MAP'', ''SET'', ''UUID'', ''TIMEUUID'', ''FROZEN'',
     ''DATE'', ''TIME'', ''JSONB'', ''USER_DEFINED_TYPE'']"

definition columnDetailsTypeValueTypePropEnum :: "string list" where
  "columnDetailsTypeValueTypePropEnum =
    [''TINYINT'', ''SMALLINT'', ''INT'', ''BIGINT'', ''VARCHAR'', ''BOOLEAN'', ''FLOAT'', ''DOUBLE_PRECISION'', ''BLOB'',
     ''TIMESTAMP'', ''DECIMAL'', ''VARINT'', ''INET'', ''LIST'', ''MAP'', ''SET'', ''UUID'', ''TIMEUUID'', ''FROZEN'',
     ''DATE'', ''TIME'', ''JSONB'', ''USER_DEFINED_TYPE'']"

definition ColumnDetails_struct :: "model_field list" where
  "ColumnDetails_struct =
    [Field ''ColumnOrder'' ''columnOrder'' True Int32Type [],
     Field ''IsClusteringKey'' ''isClusteringKey'' True BoolType [],
     Field ''IsPartitionKey'' ''isPartitionKey'' True BoolType [],
     Field ''KeyType'' ''keyType'' True StringType [InEnum [''TINYINT'', ''SMALLINT'', ''INT'', ''BIGINT'',
        ''VARCHAR'', ''BOOLEAN'', ''FLOAT'', ''DOUBLE_PRECISION'', ''BLOB'', ''TIMESTAMP'', ''DECIMAL'',
        ''VARINT'', ''INET'', ''LIST'', ''MAP'', ''SET'', ''UUID'', ''TIMEUUID'', ''FROZEN'', ''DATE'',
        ''TIME'', ''JSONB'', ''USER_DEFINED_TYPE'']],
     Field ''Name'' ''name'' True StringType [],
     Field ''SortOrder'' ''sortOrder'' True StringType [InEnum [''NONE'', ''ASC'', ''DESC'']],
     Field ''Type'' ''type'' True StringType [InEnum [''TINYINT'', ''SMALLINT'', ''INT'', ''BIGINT'', ''VARCHAR'',
        ''BOOLEAN'', ''FLOAT'', ''DOUBLE_PRECISION'', ''BLOB'', ''TIMESTAMP'', ''DECIMAL'', ''VARINT'',
        ''INET'', ''LIST'', ''MAP'', ''SET'', ''UUID'', ''TIMEUUID'', ''FROZEN'', ''DATE'', ''TIME'', ''JSONB'',
        ''USER_DEFINED_TYPE'']],
     Field ''ValueType'' ''valueType'' True StringType [InEnum [''TINYINT'', ''SMALLINT'', ''INT'', ''BIGINT'',
        ''VARCHAR'', ''BOOLEAN'', ''FLOAT'', ''DOUBLE_PRECISION'', ''BLOB'', ''TIMESTAMP'', ''DECIMAL'',
        ''VARINT'', ''INET'', ''LIST'', ''MAP'', ''SET'', ''UUID'', ''TIMEUUID'', ''FROZEN'', ''DATE'',
        ''TIME'', ''JSONB'', ''USER_DEFINED_TYPE'']]]"

definition ColumnDetails_Validate :: "checks" where
  "ColumnDetails_Validate =
    [(''KeyType'', [SkipZero, EnumCheck ''keyType'' columnDetailsTypeKeyTypePropEnum False]),
     (''SortOrder'', [SkipZero, EnumCheck ''sortOrder'' columnDetailsTypeSortOrderPropEnum False]),
     (''Type'', [SkipZero, EnumCheck ''type'' columnDetailsTypeTypePropEnum False]),
     (''ValueType'', [SkipZero, EnumCheck ''valueType'' columnDetailsTypeValueTypePropEnum False])]"

definition ColumnDetails_ContextValidate :: "checks" where
  "ColumnDetails_ContextValidate = []"

lemma ColumnDetails_documented: "validates_documentation (''ColumnDetails'', ColumnDetails_struct, ColumnDetails_Validate, ColumnDetails_ContextValidate)"
  by code_simp

lemma ColumnDetails_named: "named_apart ColumnDetails_struct"
  unfolding ColumnDetails_struct_def named_apart_def list.map model_field.sel by code_simp

subsection \<open>CreateTablespaceParams\<close>

definition CreateTablespaceParams_struct :: "model_field list" where
  "CreateTablespaceParams_struct =
    [Field ''TablespaceInfos'' ''tablespaceInfos'' False (Slice (Pointer (Model ''TableSpaceInfo''))) [IsRequired,
        MaxCount 2147483647, MinCount 1]]"

definition CreateTablespaceParams_Validate :: "checks" where
  "CreateTablespaceParams_Validate =
    [(''TablespaceInfos'', [Required ''tablespaceInfos'', MinItems ''tablespaceInfos'' 1, MaxItems
        ''tablespaceInfos'' 2147483647, Each [SkipZero, Nested ''tablespaceInfos'']])]"

definition CreateTablespaceParams_ContextValidate :: "checks" where
  "CreateTablespaceParams_ContextValidate =
    [(''TablespaceInfos'', [Each [Nested ''tablespaceInfos'']])]"

lemma CreateTablespaceParams_documented: "validates_documentation (''CreateTablespaceParams'', CreateTablespaceParams_struct, CreateTablespaceParams_Validate, CreateTablespaceParams_ContextValidate)"
  by code_simp

lemma CreateTablespaceParams_named: "named_apart CreateTablespaceParams_struct"
  unfolding CreateTablespaceParams_struct_def named_apart_def list.map model_field.sel by code_simp

subsection \<open>EditBackupParams\<close>

definition editBackupParamsTypeExpiryTimeUnitPropEnum :: "string list" where
  "editBackupParamsTypeExpiryTimeUnitPropEnum =
    [''NANOSECONDS'', ''MICROSECONDS'', ''MILLISECONDS'', ''SECONDS'', ''MINUTES'', ''HOURS'', ''DAYS'', ''MONTHS'',
     ''YEARS'']"

definition EditBackupParams_struct :: "model_field list" where
  "EditBackupParams_struct =
    [Field ''ExpiryTimeUnit'' ''expiryTimeUnit'' True StringType [InEnum [''NANOSECONDS'', ''MICROSECONDS'',
        ''MILLISECONDS'', ''SECONDS'', ''MINUTES'', ''HOURS'', ''DAYS'', ''MONTHS'', ''YEARS'']],
     Field ''StorageConfigUUID'' ''storageConfigUUID'' True UUIDType [HasFormat ''uuid''],
     Field ''TimeBeforeDeleteFromPresentInMillis'' ''timeBeforeDeleteFromPresentInMillis'' True Int64Type []]"

definition EditBackupParams_Validate :: "checks" where
  "EditBackupParams_Validate =
    [(''ExpiryTimeUnit'', [SkipZero, EnumCheck ''expiryTimeUnit'' editBackupParamsTypeExpiryTimeUnitPropEnum False]),
     (''StorageConfigUUID'', [SkipZero, FormatOf ''storageConfigUUID'' ''uuid''])]"

definition EditBackupParams_ContextValidate :: "checks" where
  "EditBackupParams_ContextValidate = []"

lemma EditBackupParams_documented: "validates_documentation (''EditBackupParams'', EditBackupParams_struct, EditBackupParams_Validate, EditBackupParams_ContextValidate)"
  by code_simp

lemma EditBackupParams_named: "named_apart EditBackupParams_struct"
  unfolding EditBackupParams_struct_def named_apart_def list.map model_field.sel by code_simp

subsection \<open>EditBackupScheduleParams\<close>

definition editBackupScheduleParamsTypeFrequencyTimeUnitPropEnum :: "string list" where
  "editBackupScheduleParamsTypeFrequencyTimeUnitPropEnum =
    [''NANOSECONDS'', ''MICROSECONDS'', ''MILLISECONDS'', ''SECONDS'', ''MINUTES'', ''HOURS'', ''DAYS'', ''MONTHS'',
     ''YEARS'']"

definition editBackupScheduleParamsTypeStatusPropEnum :: "string list" where
  "editBackupScheduleParamsTypeStatusPropEnum =
    [''Active'', ''Paused'', ''Stopped'']"

definition EditBackupScheduleParams_struct :: "model_field list" where
  "EditBackupScheduleParams_struct =
    [Field ''CronExpression'' ''cronExpression'' True StringType [],
     Field ''Frequency'' ''frequency'' True Int64Type [],
     Field ''FrequencyTimeUnit'' ''frequencyTimeUnit'' True StringType [InEnum [''NANOSECONDS'', ''MICROSECONDS'',
        ''MILLISECONDS'', ''SECONDS'', ''MINUTES'', ''HOURS'', ''DAYS'', ''MONTHS'', ''YEARS'']],
     Field ''Status'' ''status'' True StringType [InEnum [''Active'', ''Paused'', ''Stopped'']]]"

definition EditBackupScheduleParams_Validate :: "checks" where
  "EditBackupScheduleParams_Validate =
    [(''FrequencyTimeUnit'', [SkipZero, EnumCheck ''frequencyTimeUnit''
        editBackupScheduleParamsTypeFrequencyTimeUnitPropEnum False]),
     (''Status'', [SkipZero, EnumCheck ''status'' editBackupScheduleParamsTypeStatusPropEnum False])]"

definition EditBackupScheduleParams_ContextValidate :: "checks" where
  "EditBackupScheduleParams_ContextValidate = []"

lemma EditBackupScheduleParams_documented: "validates_documentation (''EditBackupScheduleParams'', EditBackupScheduleParams_struct, EditBackupScheduleParams_Validate, EditBackupScheduleParams_ContextValidate)"
  by code_simp

lemma EditBackupScheduleParams_named: "named_apart EditBackupScheduleParams_struct"
  unfolding EditBackupScheduleParams_struct_def named_apart_def list.map model_field.sel by code_simp

subsection \<open>GCSLocation\<close>

definition GCSLocation_struct :: "model_field list" where
  "GCSLocation_struct =
    [Field ''Paths'' ''paths'' True (Pointer (Model ''PackagePaths'')) []]"

definition GCSLocation_Validate :: "checks" where
  "GCSLocation_Validate =
    [(''Paths'', [SkipZero, Nested ''paths''])]"

definition GCSLocation_ContextValidate :: "checks" where
  "GCSLocation_ContextValidate =
    [(''Paths'', [Nested ''paths''])]"

lemma GCSLocation_documented: "validates_documentation (''GCSLocation'', GCSLocation_struct, GCSLocation_Validate, GCSLocation_ContextValidate)"
  by code_simp

lemma GCSLocation_named: "named_apart GCSLocation_struct"
  unfolding GCSLocation_struct_def named_apart_def list.map model_field.sel by code_simp

subsection \<open>HTTPLocation\<close>

definition HTTPLocation_struct :: "model_field list" where
  "HTTPLocation_struct =
    [Field ''Paths'' ''paths'' True (Pointer (Model ''PackagePaths'')) []]"

definition HTTPLocation_Validate :: "checks" where
  "HTTPLocation_Validate =
    [(''Paths'', [SkipZero, Nested ''paths''])]"

definition HTTPLocation_ContextValidate :: "checks" where
  "HTTPLocation_ContextValidate =
    [(''Paths'', [Nested ''paths''])]"

lemma HTTPLocation_documented: "validates_documentation (''HTTPLocation'', HTTPLocation_struct, HTTPLocation_Validate, HTTPLocation_ContextValidate)"
  by code_simp

lemma HTTPLocation_named: "named_apart HTTPLocation_struct"
  unfolding HTTPLocation_struct_def named_apart_def list.map model_field.sel by code_simp

subsection \<open>KeyspaceTable\<close>

definition KeyspaceTable_struct :: "model_field list" where
  "KeyspaceTable_struct =
    [Field ''Keyspace'' ''keyspace'' True StringType [],
     Field ''TableNameList'' ''tableNameList'' False (Slice StringType) [],
     Field ''TableUUIDList'' ''tableUUIDList'' False (Slice UUIDType) []]"

definition KeyspaceTable_Validate :: "checks" where
  "KeyspaceTable_Validate =
    [(''TableUUIDList'', [SkipZero, Each [FormatOf ''tableUUIDList'' ''uuid'']])]"

definition KeyspaceTable_ContextValidate :: "checks" where
  "KeyspaceTable_ContextValidate = []"

lemma KeyspaceTable_documented: "validates_documentation (''KeyspaceTable'', KeyspaceTable_struct, KeyspaceTable_Validate, KeyspaceTable_ContextValidate)"
  by code_simp

lemma KeyspaceTable_named: "named_apart KeyspaceTable_struct"
  unfolding KeyspaceTable_struct_def named_apart_def list.map model_field.sel by code_simp

subsection \<open>KeyspaceTablesList\<close>

definition KeyspaceTablesList_struct :: "model_field list" where
  "KeyspaceTablesList_struct =
    [Field ''BackupSizeInBytes'' ''backupSizeInBytes'' False (Pointer Int64Type) [IsRequired],
     Field ''DefaultLocation'' ''defaultLocation'' False (Pointer StringType) [IsRequired],
     Field ''Keyspace'' ''keyspace'' False (Pointer StringType) [IsRequired],
     Field ''PerRegionLocations'' ''perRegionLocations'' False (Slice (Pointer (Model ''RegionLocations'')))
        [IsRequired],
     Field ''TableUUIDList'' ''tableUUIDList'' False (Slice UUIDType) [IsRequired, IsUnique],
     Field ''TablesList'' ''tablesList'' False (Slice StringType) [IsRequired, IsUnique]]"

definition KeyspaceTablesList_Validate :: "checks" where
  "KeyspaceTablesList_Validate =
    [(''BackupSizeInBytes'', [Required ''backupSizeInBytes'']),
     (''DefaultLocation'', [Required ''defaultLocation'']),
     (''Keyspace'', [Required ''keyspace'']),
     (''PerRegionLocations'', [Required ''perRegionLocations'', Each [SkipZero, Nested ''perRegionLocations'']]),
     (''TableUUIDList'', [Required ''tableUUIDList'', UniqueItems ''tableUUIDList'', Each [FormatOf ''tableUUIDList''
        ''uuid'']]),
     (''TablesList'', [Required ''tablesList'', UniqueItems ''tablesList''])]"

definition KeyspaceTablesList_ContextValidate :: "checks" where
  "KeyspaceTablesList_ContextValidate =
    [(''PerRegionLocations'', [Each [Nested ''perRegionLocations'']])]"

lemma KeyspaceTablesList_documented: "validates_documentation (''KeyspaceTablesList'', KeyspaceTablesList_struct, KeyspaceTablesList_Validate, KeyspaceTablesList_ContextValidate)"
  by code_simp

lemma KeyspaceTablesList_named: "named_apart KeyspaceTablesList_struct"
  unfolding KeyspaceTablesList_struct_def named_apart_def list.map model_field.sel by code_simp

subsection \<open>RestoreBackupParams\<close>

definition restoreBackupParamsTypeActionTypePropEnum :: "string list" where
  "restoreBackupParamsTypeActionTypePropEnum =
    [''RESTORE'', ''RESTORE_KEYS'']"

definition RestoreBackupParams_struct :: "model_field list" where
  "RestoreBackupParams_struct =
    [Field ''ActionType'' ''actionType'' True StringType [InEnum [''RESTORE'', ''RESTORE_KEYS'']],
     Field ''AlterLoadBalancer'' ''alterLoadBalancer'' True BoolType [],
     Field ''BackupStorageInfoList'' ''backupStorageInfoList'' False (Slice (Pointer (Model ''BackupStorageInfo'')))
        [],
     Field ''CmkArn'' ''cmkArn'' True StringType [],
     Field ''CommunicationPorts'' ''communicationPorts'' True (Pointer (Model ''CommunicationPorts'')) [],
     Field ''CustomerUUID'' ''customerUUID'' True UUIDType [HasFormat ''uuid''],
     Field ''DeviceInfo'' ''deviceInfo'' True (Pointer (Model ''DeviceInfo'')) [],
     Field ''DisableChecksum'' ''disableChecksum'' True BoolType [],
     Field ''EnableVerboseLogs'' ''enableVerboseLogs'' True BoolType [],
     Field ''EncryptionAtRestConfig'' ''encryptionAtRestConfig'' True (Pointer (Model ''EncryptionAtRestConfig'')) [],
     Field ''ErrorString'' ''errorString'' True StringType [],
     Field ''ExpectedUniverseVersion'' ''expectedUniverseVersion'' True Int32Type [],
     Field ''ExtraDependencies'' ''extraDependencies'' True (Pointer (Model ''ExtraDependencies'')) [],
     Field ''FirstTry'' ''firstTry'' True BoolType [],
     Field ''KmsConfigUUID'' ''kmsConfigUUID'' True UUIDType [HasFormat ''uuid''],
     Field ''NewOwner'' ''newOwner'' True StringType [],
     Field ''NodeDetailsSet'' ''nodeDetailsSet'' False (Slice (Pointer (Model ''NodeDetails''))) [IsUnique],
     Field ''NodeExporterUser'' ''nodeExporterUser'' True StringType [],
     Field ''OldOwner'' ''oldOwner'' True StringType [],
     Field ''Parallelism'' ''parallelism'' True Int32Type [],
     Field ''PreviousTaskUUID'' ''previousTaskUUID'' True UUIDType [HasFormat ''uuid''],
     Field ''RestoreTimeStamp'' ''restoreTimeStamp'' True StringType [],
     Field ''SourceXClusterConfigs'' ''sourceXClusterConfigs'' False (Slice UUIDType) [IsReadOnly],
     Field ''StorageConfigUUID'' ''storageConfigUUID'' True UUIDType [HasFormat ''uuid''],
     Field ''TargetXClusterConfigs'' ''targetXClusterConfigs'' False (Slice UUIDType) [IsReadOnly],
     Field ''UniverseUUID'' ''universeUUID'' False (Pointer UUIDType) [IsRequired, HasFormat ''uuid''],
     Field ''UseTablespaces'' ''useTablespaces'' True BoolType [],
     Field ''YbPrevSoftwareVersion'' ''ybPrevSoftwareVersion'' True StringType []]"

definition RestoreBackupParams_Validate :: "checks" where
  "RestoreBackupParams_Validate =
    [(''ActionType'', [SkipZero, EnumCheck ''actionType'' restoreBackupParamsTypeActionTypePropEnum False]),
     (''BackupStorageInfoList'', [SkipZero, Each [SkipZero, Nested ''backupStorageInfoList'']]),
     (''CommunicationPorts'', [SkipZero, Nested ''communicationPorts'']),
     (''CustomerUUID'', [SkipZero, FormatOf ''customerUUID'' ''uuid'']),
     (''DeviceInfo'', [SkipZero, Nested ''deviceInfo'']),
     (''EncryptionAtRestConfig'', [SkipZero, Nested ''encryptionAtRestConfig'']),
     (''ExtraDependencies'', [SkipZero, Nested ''extraDependencies'']),
     (''KmsConfigUUID'', [SkipZero, FormatOf ''kmsConfigUUID'' ''uuid'']),
     (''NodeDetailsSet'', [SkipZero, UniqueItems ''nodeDetailsSet'', Each [SkipZero, Nested ''nodeDetailsSet'']]),
     (''PreviousTaskUUID'', [SkipZero, FormatOf ''previousTaskUUID'' ''uuid'']),
     (''SourceXClusterConfigs'', [SkipZero, Each [FormatOf ''sourceXClusterConfigs'' ''uuid'']]),
     (''StorageConfigUUID'', [SkipZero, FormatOf ''storageConfigUUID'' ''uuid'']),
     (''TargetXClusterConfigs'', [SkipZero, Each [FormatOf ''targetXClusterConfigs'' ''uuid'']]),
     (''UniverseUUID'', [Required ''universeUUID'', FormatOf ''universeUUID'' ''uuid''])]"

definition RestoreBackupParams_ContextValidate :: "checks" where
  "RestoreBackupParams_ContextValidate =
    [(''BackupStorageInfoList'', [Each [Nested ''backupStorageInfoList'']]),
     (''CommunicationPorts'', [Nested ''communicationPorts'']),
     (''DeviceInfo'', [Nested ''deviceInfo'']),
     (''EncryptionAtRestConfig'', [Nested ''encryptionAtRestConfig'']),
     (''ExtraDependencies'', [Nested ''extraDependencies'']),
     (''NodeDetailsSet'', [Each [Nested ''nodeDetailsSet'']]),
     (''SourceXClusterConfigs'', [ReadOnly ''sourceXClusterConfigs'']),
     (''TargetXClusterConfigs'', [ReadOnly ''targetXClusterConfigs''])]"

lemma RestoreBackupParams_documented: "validates_documentation (''RestoreBackupParams'', RestoreBackupParams_struct, RestoreBackupParams_Validate, RestoreBackupParams_ContextValidate)"
  by code_simp

lemma RestoreBackupParams_named: "named_apart RestoreBackupParams_struct"
  unfolding RestoreBackupParams_struct_def named_apart_def list.map model_field.sel by code_simp

subsection \<open>RunQueryFormData\<close>

definition runQueryFormDataTypeTableTypePropEnum :: "string list" where
  "runQueryFormDataTypeTableTypePropEnum =
    [''YQL_TABLE_TYPE'', ''REDIS_TABLE_TYPE'', ''PGSQL_TABLE_TYPE'', ''TRANSACTION_STATUS_TABLE_TYPE'']"

definition RunQueryFormData_struct :: "model_field list" where
  "RunQueryFormData_struct =
    [Field ''DbName'' ''db_name'' False (Pointer StringType) [IsRequired],
     Field ''Query'' ''query'' False (Pointer StringType) [IsRequired],
     Field ''TableType'' ''tableType'' False (Pointer StringType) [IsRequired, InEnum [''YQL_TABLE_TYPE'',
        ''REDIS_TABLE_TYPE'', ''PGSQL_TABLE_TYPE'', ''TRANSACTION_STATUS_TABLE_TYPE'']]]"

definition RunQueryFormData_Validate :: "checks" where
  "RunQueryFormData_Validate =
    [(''DbName'', [Required ''db_name'']),
     (''Query'', [Required ''query'']),
     (''TableType'', [Required ''tableType'', EnumCheck ''tableType'' runQueryFormDataTypeTableTypePropEnum True])]"

definition RunQueryFormData_ContextValidate :: "checks" where
  "RunQueryFormData_ContextValidate = []"

lemma RunQueryFormData_documented: "validates_documentation (''RunQueryFormData'', RunQueryFormData_struct, RunQueryFormData_Validate, RunQueryFormData_ContextValidate)"
  by code_simp

lemma RunQueryFormData_named: "named_apart RunQueryFormData_struct"
  unfolding RunQueryFormData_struct_def named_apart_def list.map model_field.sel by code_simp

subsection \<open>S3Location\<close>

definition S3Location_struct :: "model_field list" where
  "S3Location_struct =
    [Field ''Paths'' ''paths'' True (Pointer (Model ''PackagePaths'')) []]"

definition S3Location_Validate :: "checks" where
  "S3Location_Validate =
    [(''Paths'', [SkipZero, Nested ''paths''])]"

definition S3Location_ContextValidate :: "checks" where
  "S3Location_ContextValidate =
    [(''Paths'', [Nested ''paths''])]"

lemma S3Location_documented: "validates_documentation (''S3Location'', S3Location_struct, S3Location_Validate, S3Location_ContextValidate)"
  by code_simp

lemma S3Location_named: "named_apart S3Location_struct"
  unfolding S3Location_struct_def named_apart_def list.map model_field.sel by code_simp

subsection \<open>Schedule\<close>

definition scheduleTypeFrequencyTimeUnitPropEnum :: "string list" where
  "scheduleTypeFrequencyTimeUnitPropEnum =
    [''NANOSECONDS'', ''MICROSECONDS'', ''MILLISECONDS'', ''SECONDS'', ''MINUTES'', ''HOURS'', ''DAYS'', ''MONTHS'',
     ''YEARS'']"

definition scheduleTypeStatusPropEnum :: "string list" where
  "scheduleTypeStatusPropEnum =
    [''Active'', ''Paused'', ''Stopped'']"

definition scheduleTypeTaskTypePropEnum :: "string list" where
  "scheduleTypeTaskTypePropEnum =
    task_types"

definition Schedule_struct :: "model_field list" where
  "Schedule_struct =
    [Field ''CronExpression'' ''cronExpression'' True StringType [],
     Field ''CustomerUUID'' ''customerUUID'' True UUIDType [IsReadOnly, HasFormat ''uuid''],
     Field ''FailureCount'' ''failureCount'' True Int32Type [IsReadOnly],
     Field ''Frequency'' ''frequency'' True Int64Type [],
     Field ''FrequencyTimeUnit'' ''frequencyTimeUnit'' True StringType [InEnum [''NANOSECONDS'', ''MICROSECONDS'',
        ''MILLISECONDS'', ''SECONDS'', ''MINUTES'', ''HOURS'', ''DAYS'', ''MONTHS'', ''YEARS'']],
     Field ''RunningState'' ''runningState'' True BoolType [],
     Field ''ScheduleName'' ''scheduleName'' True StringType [IsReadOnly],
     Field ''ScheduleUUID'' ''scheduleUUID'' True UUIDType [IsReadOnly, HasFormat ''uuid''],
     Field ''Status'' ''status'' True StringType [IsReadOnly, InEnum [''Active'', ''Paused'', ''Stopped'']],
     Field ''TaskType'' ''taskType'' True StringType [InEnum task_types]]"

definition Schedule_Validate :: "checks" where
  "Schedule_Validate =
    [(''CustomerUUID'', [SkipZero, FormatOf ''customerUUID'' ''uuid'']),
     (''FrequencyTimeUnit'', [SkipZero, EnumCheck ''frequencyTimeUnit'' scheduleTypeFrequencyTimeUnitPropEnum False]),
     (''ScheduleUUID'', [SkipZero, FormatOf ''scheduleUUID'' ''uuid'']),
     (''Status'', [SkipZero, EnumCheck ''status'' scheduleTypeStatusPropEnum False]),
     (''TaskType'', [SkipZero, EnumCheck ''taskType'' scheduleTypeTaskTypePropEnum False])]"

definition Schedule_ContextValidate :: "checks" where
  "Schedule_ContextValidate =
    [(''CustomerUUID'', [ReadOnly ''customerUUID'']),
     (''FailureCount'', [ReadOnly ''failureCount'']),
     (''ScheduleName'', [ReadOnly ''scheduleName'']),
     (''ScheduleUUID'', [ReadOnly ''scheduleUUID'']),
     (''Status'', [ReadOnly ''status''])]"

lemma Schedule_documented: "validates_documentation (''Schedule'', Schedule_struct, Schedule_Validate, Schedule_ContextValidate)"
  by (simp add: model_check_simps Schedule_struct_def Schedule_Validate_def Schedule_ContextValidate_def
      scheduleTypeFrequencyTimeUnitPropEnum_def scheduleTypeStatusPropEnum_def
      scheduleTypeTaskTypePropEnum_def)

lemma Schedule_named: "named_apart Schedule_struct"
  unfolding Schedule_struct_def named_apart_def list.map model_field.sel by code_simp

subsection \<open>ScheduleAPIFilter\<close>

definition scheduleApiFilterStatusItemsEnum :: "string list" where
  "scheduleApiFilterStatusItemsEnum =
    [''Active'', ''Paused'', ''Stopped'']"

definition scheduleApiFilterTaskTypesItemsEnum :: "string list" where
  "scheduleApiFilterTaskTypesItemsEnum =
    task_types"

definition ScheduleAPIFilter_struct :: "model_field list" where
  "ScheduleAPIFilter_struct =
    [Field ''Status'' ''status'' False (Slice StringType) [IsRequired, IsUnique, ItemsIn
        scheduleApiFilterStatusItemsEnum],
     Field ''TaskTypes'' ''taskTypes'' False (Slice StringType) [IsRequired, IsUnique, ItemsIn
        scheduleApiFilterTaskTypesItemsEnum],
     Field ''UniverseUUIDList'' ''universeUUIDList'' False (Slice UUIDType) [IsRequired, IsUnique]]"

definition ScheduleAPIFilter_Validate :: "checks" where
  "ScheduleAPIFilter_Validate =
    [(''Status'', [Required ''status'', UniqueItems ''status'', Each [EnumCheck ''status''
        scheduleApiFilterStatusItemsEnum False]]),
     (''TaskTypes'', [Required ''taskTypes'', UniqueItems ''taskTypes'', Each [EnumCheck ''taskTypes''
        scheduleApiFilterTaskTypesItemsEnum False]]),
     (''UniverseUUIDList'', [Required ''universeUUIDList'', UniqueItems ''universeUUIDList'', Each [FormatOf
        ''universeUUIDList'' ''uuid'']])]"

definition ScheduleAPIFilter_ContextValidate :: "checks" where
  "ScheduleAPIFilter_ContextValidate = []"

lemma ScheduleAPIFilter_documented: "validates_documentation (''ScheduleAPIFilter'', ScheduleAPIFilter_struct, ScheduleAPIFilter_Validate, ScheduleAPIFilter_ContextValidate)"
  by (simp add: model_check_simps ScheduleAPIFilter_struct_def ScheduleAPIFilter_Validate_def
      ScheduleAPIFilter_ContextValidate_def scheduleApiFilterStatusItemsEnum_def
      scheduleApiFilterTaskTypesItemsEnum_def)

lemma ScheduleAPIFilter_named: "named_apart ScheduleAPIFilter_struct"
  unfolding ScheduleAPIFilter_struct_def named_apart_def list.map model_field.sel by code_simp

subsection \<open>SchedulePagedAPIQuery\<close>

definition schedulePagedApiQueryTypeDirectionPropEnum :: "string list" where
  "schedulePagedApiQueryTypeDirectionPropEnum =
    [''ASC'', ''DESC'']"

definition schedulePagedApiQueryTypeSortByPropEnum :: "string list" where
  "schedulePagedApiQueryTypeSortByPropEnum =
    [''taskType'', ''scheduleUUID'']"

definition SchedulePagedAPIQuery_struct :: "model_field list" where
  "SchedulePagedAPIQuery_struct =
    [Field ''Direction'' ''direction'' False (Pointer StringType) [IsRequired, InEnum [''ASC'', ''DESC'']],
     Field ''Filter'' ''filter'' False (Pointer (Model ''ScheduleAPIFilter'')) [IsRequired],
     Field ''Limit'' ''limit'' False (Pointer Int32Type) [IsRequired],
     Field ''NeedTotalCount'' ''needTotalCount'' False (Pointer BoolType) [IsRequired],
     Field ''Offset'' ''offset'' False (Pointer Int32Type) [IsRequired],
     Field ''SortBy'' ''sortBy'' False (Pointer StringType) [IsRequired, InEnum [''taskType'', ''scheduleUUID'']]]"

definition SchedulePagedAPIQuery_Validate :: "checks" where
  "SchedulePagedAPIQuery_Validate =
    [(''Direction'', [Required ''direction'', EnumCheck ''direction'' schedulePagedApiQueryTypeDirectionPropEnum
        True]),
     (''Filter'', [Required ''filter'', Nested ''filter'']),
     (''Limit'', [Required ''limit'']),
     (''NeedTotalCount'', [Required ''needTotalCount'']),
     (''Offset'', [Required ''offset'']),
     (''SortBy'', [Required ''sortBy'', EnumCheck ''sortBy'' schedulePagedApiQueryTypeSortByPropEnum True])]"

definition SchedulePagedAPIQuery_ContextValidate :: "checks" where
  "SchedulePagedAPIQuery_ContextValidate =
    [(''Filter'', [Nested ''filter''])]"

lemma SchedulePagedAPIQuery_documented: "validates_documentation (''SchedulePagedAPIQuery'', SchedulePagedAPIQuery_struct, SchedulePagedAPIQuery_Validate, SchedulePagedAPIQuery_ContextValidate)"
  by code_simp

lemma SchedulePagedAPIQuery_named: "named_apart SchedulePagedAPIQuery_struct"
  unfolding SchedulePagedAPIQuery_struct_def named_apart_def list.map model_field.sel by code_simp

subsection \<open>SchedulePagedResponse\<close>

definition SchedulePagedResponse_struct :: "model_field list" where
  "SchedulePagedResponse_struct =
    [Field ''Entities'' ''entities'' False (Slice (Pointer (Model ''Schedule''))) [IsRequired],
     Field ''HasNext'' ''hasNext'' False (Pointer BoolType) [IsRequired],
     Field ''HasPrev'' ''hasPrev'' False (Pointer BoolType) [IsRequired],
     Field ''TotalCount'' ''totalCount'' False (Pointer Int32Type) [IsRequired]]"

definition SchedulePagedResponse_Validate :: "checks" where
  "SchedulePagedResponse_Validate =
    [(''Entities'', [Required ''entities'', Each [SkipZero, Nested ''entities'']]),
     (''HasNext'', [Required ''hasNext'']),
     (''HasPrev'', [Required ''hasPrev'']),
     (''TotalCount'', [Required ''totalCount''])]"

definition SchedulePagedResponse_ContextValidate :: "checks" where
  "SchedulePagedResponse_ContextValidate =
    [(''Entities'', [Each [Nested ''entities'']])]"

lemma SchedulePagedResponse_documented: "validates_documentation (''SchedulePagedResponse'', SchedulePagedResponse_struct, SchedulePagedResponse_Validate, SchedulePagedResponse_ContextValidate)"
  by code_simp

lemma SchedulePagedResponse_named: "named_apart SchedulePagedResponse_struct"
  unfolding SchedulePagedResponse_struct_def named_apart_def list.map model_field.sel by code_simp

subsection \<open>TableDetails\<close>

definition TableDetails_struct :: "model_field list" where
  "TableDetails_struct =
    [Field ''Columns'' ''columns'' False (Slice (Pointer (Model ''ColumnDetails''))) [],
     Field ''Keyspace'' ''keyspace'' True StringType [],
     Field ''SplitValues'' ''splitValues'' False (Slice StringType) [],
     Field ''TableName'' ''tableName'' True StringType [],
     Field ''TTLInSeconds'' ''ttlInSeconds'' True Int64Type []]"

definition TableDetails_Validate :: "checks" where
  "TableDetails_Validate =
    [(''Columns'', [SkipZero, Each [SkipZero, Nested ''columns'']])]"

definition TableDetails_ContextValidate :: "checks" where
  "TableDetails_ContextValidate =
    [(''Columns'', [Each [Nested ''columns'']])]"

lemma TableDetails_documented: "validates_documentation (''TableDetails'', TableDetails_struct, TableDetails_Validate, TableDetails_ContextValidate)"
  by code_simp

lemma TableDetails_named: "named_apart TableDetails_struct"
  unfolding TableDetails_struct_def named_apart_def list.map model_field.sel by code_simp

subsection \<open>TableInfoResp\<close>

definition tableInfoRespTypeRelationTypePropEnum :: "string list" where
  "tableInfoRespTypeRelationTypePropEnum =
    [''SYSTEM_TABLE_RELATION'', ''USER_TABLE_RELATION'', ''INDEX_TABLE_RELATION'', ''MATVIEW_TABLE_RELATION'']"

definition tableInfoRespTypeTableTypePropEnum :: "string list" where
  "tableInfoRespTypeTableTypePropEnum =
    [''YQL_TABLE_TYPE'', ''REDIS_TABLE_TYPE'', ''PGSQL_TABLE_TYPE'', ''TRANSACTION_STATUS_TABLE_TYPE'']"

definition TableInfoResp_struct :: "model_field list" where
  "TableInfoResp_struct =
    [Field ''KeySpace'' ''keySpace'' True StringType [],
     Field ''NameSpace'' ''nameSpace'' True StringType [],
     Field ''ParentTableUUID'' ''parentTableUUID'' True UUIDType [HasFormat ''uuid''],
     Field ''PgSchemaName'' ''pgSchemaName'' True StringType [],
     Field ''RelationType'' ''relationType'' True StringType [InEnum [''SYSTEM_TABLE_RELATION'',
        ''USER_TABLE_RELATION'', ''INDEX_TABLE_RELATION'', ''MATVIEW_TABLE_RELATION'']],
     Field ''SizeBytes'' ''sizeBytes'' True FloatType [IsReadOnly],
     Field ''TableName'' ''tableName'' True StringType [],
     Field ''TableSpace'' ''tableSpace'' True StringType [],
     Field ''TableType'' ''tableType'' True StringType [InEnum [''YQL_TABLE_TYPE'', ''REDIS_TABLE_TYPE'',
        ''PGSQL_TABLE_TYPE'', ''TRANSACTION_STATUS_TABLE_TYPE'']],
     Field ''TableUUID'' ''tableUUID'' True UUIDType [IsReadOnly, HasFormat ''uuid'']]"

definition TableInfoResp_Validate :: "checks" where
  "TableInfoResp_Validate =
    [(''ParentTableUUID'', [SkipZero, FormatOf ''parentTableUUID'' ''uuid'']),
     (''RelationType'', [SkipZero, EnumCheck ''relationType'' tableInfoRespTypeRelationTypePropEnum False]),
     (''TableType'', [SkipZero, EnumCheck ''tableType'' tableInfoRespTypeTableTypePropEnum False]),
     (''TableUUID'', [SkipZero, FormatOf ''tableUUID'' ''uuid''])]"

definition TableInfoResp_ContextValidate :: "checks" where
  "TableInfoResp_ContextValidate =
    [(''SizeBytes'', [ReadOnly ''sizeBytes'']),
     (''TableUUID'', [ReadOnly ''tableUUID''])]"

lemma TableInfoResp_documented: "validates_documentation (''TableInfoResp'', TableInfoResp_struct, TableInfoResp_Validate, TableInfoResp_ContextValidate)"
  by code_simp

lemma TableInfoResp_named: "named_apart TableInfoResp_struct"
  unfolding TableInfoResp_struct_def named_apart_def list.map model_field.sel by code_simp

subsection \<open>TableSpaceInfo\<close>

definition TableSpaceInfo_struct :: "model_field list" where
  "TableSpaceInfo_struct =
    [Field ''Name'' ''name'' False (Pointer StringType) [IsRequired, MaxLen 2147483647, MinLen 1],
     Field ''NumReplicas'' ''numReplicas'' True Int32Type [AtLeast 1],
     Field ''PlacementBlocks'' ''placementBlocks'' False (Slice (Pointer (Model ''PlacementBlock''))) [IsRequired,
        MaxCount 2147483647, MinCount 1]]"

definition TableSpaceInfo_Validate :: "checks" where
  "TableSpaceInfo_Validate =
    [(''Name'', [Required ''name'', MinLength ''name'' 1 True, MaxLength ''name'' 2147483647 True]),
     (''NumReplicas'', [SkipZero, MinimumInt ''numReplicas'' 1 False]),
     (''PlacementBlocks'', [Required ''placementBlocks'', MinItems ''placementBlocks'' 1, MaxItems
        ''placementBlocks'' 2147483647, Each [SkipZero, Nested ''placementBlocks'']])]"

definition TableSpaceInfo_ContextValidate :: "checks" where
  "TableSpaceInfo_ContextValidate =
    [(''PlacementBlocks'', [Each [Nested ''placementBlocks'']])]"

lemma TableSpaceInfo_documented: "validates_documentation (''TableSpaceInfo'', TableSpaceInfo_struct, TableSpaceInfo_Validate, TableSpaceInfo_ContextValidate)"
  by code_simp

lemma TableSpaceInfo_named: "named_apart TableSpaceInfo_struct"
  unfolding TableSpaceInfo_struct_def named_apart_def list.map model_field.sel by code_simp

subsection \<open>The table\<close>

definition modelsBackups :: "model_table" where
  "modelsBackups =
    [(''Backup'', Backup_struct, Backup_Validate, Backup_ContextValidate),
     (''BackupAPIFilter'', BackupAPIFilter_struct, BackupAPIFilter_Validate, BackupAPIFilter_ContextValidate),
     (''BackupPagedAPIQuery'', BackupPagedAPIQuery_struct, BackupPagedAPIQuery_Validate,
        BackupPagedAPIQuery_ContextValidate),
     (''BackupPagedAPIResponse'', BackupPagedAPIResponse_struct, BackupPagedAPIResponse_Validate,
        BackupPagedAPIResponse_ContextValidate),
     (''BackupResp'', BackupResp_struct, BackupResp_Validate, BackupResp_ContextValidate),
     (''BackupStorageInfo'', BackupStorageInfo_struct, BackupStorageInfo_Validate, BackupStorageInfo_ContextValidate),
     (''BulkImportParams'', BulkImportParams_struct, BulkImportParams_Validate, BulkImportParams_ContextValidate),
     (''ColumnDetails'', ColumnDetails_struct, ColumnDetails_Validate, ColumnDetails_ContextValidate),
     (''CreateTablespaceParams'', CreateTablespaceParams_struct, CreateTablespaceParams_Validate,
        CreateTablespaceParams_ContextValidate),
     (''EditBackupParams'', EditBackupParams_struct, EditBackupParams_Validate, EditBackupParams_ContextValidate),
     (''EditBackupScheduleParams'', EditBackupScheduleParams_struct, EditBackupScheduleParams_Validate,
        EditBackupScheduleParams_ContextValidate),
     (''GCSLocation'', GCSLocation_struct, GCSLocation_Validate, GCSLocation_ContextValidate),
     (''HTTPLocation'', HTTPLocation_struct, HTTPLocation_Validate, HTTPLocation_ContextValidate),
     (''KeyspaceTable'', KeyspaceTable_struct, KeyspaceTable_Validate, KeyspaceTable_ContextValidate),
     (''KeyspaceTablesList'', KeyspaceTablesList_struct, KeyspaceTablesList_Validate,
        KeyspaceTablesList_ContextValidate),
     (''RestoreBackupParams'', RestoreBackupParams_struct, RestoreBackupParams_Validate,
        RestoreBackupParams_ContextValidate),
     (''RunQueryFormData'', RunQueryFormData_struct, RunQueryFormData_Validate, RunQueryFormData_ContextValidate),
     (''S3Location'', S3Location_struct, S3Location_Validate, S3Location_ContextValidate),
     (''Schedule'', Schedule_struct, Schedule_Validate, Schedule_ContextValidate),
     (''ScheduleAPIFilter'', ScheduleAPIFilter_struct, ScheduleAPIFilter_Validate, ScheduleAPIFilter_ContextValidate),
     (''SchedulePagedAPIQuery'', SchedulePagedAPIQuery_struct, SchedulePagedAPIQuery_Validate,
        SchedulePagedAPIQuery_ContextValidate),
     (''SchedulePagedResponse'', SchedulePagedResponse_struct, SchedulePagedResponse_Validate,
        SchedulePagedResponse_ContextValidate),
     (''TableDetails'', TableDetails_struct, TableDetails_Validate, TableDetails_ContextValidate),
     (''TableInfoResp'', TableInfoResp_struct, TableInfoResp_Validate, TableInfoResp_ContextValidate),
     (''TableSpaceInfo'', TableSpaceInfo_struct, TableSpaceInfo_Validate, TableSpaceInfo_ContextValidate)]"

lemma modelsBackups_documented: "list_all validates_documentation modelsBackups"
  unfolding modelsBackups_def list.pred_inject(2)
  by (intro conjI Backup_documented BackupAPIFilter_documented BackupPagedAPIQuery_documented
      BackupPagedAPIResponse_documented BackupResp_documented BackupStorageInfo_documented
      BulkImportParams_documented ColumnDetails_documented CreateTablespaceParams_documented
      EditBackupParams_documented EditBackupScheduleParams_documented GCSLocation_documented
      HTTPLocation_documented KeyspaceTable_documented KeyspaceTablesList_documented
      RestoreBackupParams_documented RunQueryFormData_documented S3Location_documented Schedule_documented
      ScheduleAPIFilter_documented SchedulePagedAPIQuery_documented SchedulePagedResponse_documented
      TableDetails_documented TableInfoResp_documented TableSpaceInfo_documented) simp

lemma modelsBackups_named: "list_all (\<lambda>m. named_apart (fst (snd m))) modelsBackups"
  unfolding modelsBackups_def list.pred_inject(2) fst_conv snd_conv
  by (intro conjI Backup_named BackupAPIFilter_named BackupPagedAPIQuery_named BackupPagedAPIResponse_named BackupResp_named
      BackupStorageInfo_named BulkImportParams_named ColumnDetails_named CreateTablespaceParams_named
      EditBackupParams_named EditBackupScheduleParams_named GCSLocation_named HTTPLocation_named
      KeyspaceTable_named KeyspaceTablesList_named RestoreBackupParams_named RunQueryFormData_named
      S3Location_named Schedule_named ScheduleAPIFilter_named SchedulePagedAPIQuery_named
      SchedulePagedResponse_named TableDetails_named TableInfoResp_named TableSpaceInfo_named) simp

end
