(* ===== verification/ModelsUniverses.thy ===== *)
theory ModelsUniverses
  imports ModelDocs ModelJson
begin

section \<open>API models: universes, clusters, nodes and replication\<close>

text \<open>
  The models of universes, clusters, nodes and replication, each with the values of its enumerations, its struct, its \<open>Validate\<close> and its
  \<open>ContextValidate\<close>, as \<open>SwaggerModels\<close> reads them. The lemma after a model checks that the methods
  hold the statements that the comments of the struct demand, and another that the names in JSON differ in more than case;
  the last definition is the table of them.
\<close>

subsection \<open>AuditLoggingConfig\<close>

definition AuditLoggingConfig_struct :: "model_field list" where
  "AuditLoggingConfig_struct =
    [Field ''MaxHistory'' ''maxHistory'' True (Pointer Int32Type) [AtLeast 0],
     Field ''OutputToFile'' ''outputToFile'' False (Pointer BoolType) [IsRequired],
     Field ''OutputToStdout'' ''outputToStdout'' False (Pointer BoolType) [IsRequired],
     Field ''RolloverPattern'' ''rolloverPattern'' True StringType []]"

definition AuditLoggingConfig_Validate :: "checks" where
  "AuditLoggingConfig_Validate =
    [(''MaxHistory'', [SkipZero, MinimumInt ''maxHistory'' 0 True]),
     (''OutputToFile'', [Required ''outputToFile'']),
     (''OutputToStdout'', [Required ''outputToStdout''])]"

definition AuditLoggingConfig_ContextValidate :: "checks" where
  "AuditLoggingConfig_ContextValidate = []"

lemma AuditLoggingConfig_documented: "validates_documentation (''AuditLoggingConfig'', AuditLoggingConfig_struct, AuditLoggingConfig_Validate, AuditLoggingConfig_ContextValidate)"
  by code_simp

lemma AuditLoggingConfig_named: "named_apart AuditLoggingConfig_struct"
  unfolding AuditLoggingConfig_struct_def named_apart_def list.map model_field.sel by code_simp

subsection \<open>CloudSpecificInfo\<close>

definition CloudSpecificInfo_struct :: "model_field list" where
  "CloudSpecificInfo_struct =
    [Field ''AssignPublicIP'' ''assignPublicIP'' True BoolType [],
     Field ''Az'' ''az'' True StringType [],
     Field ''Cloud'' ''cloud'' True StringType [],
     Field ''InstanceType'' ''instance_type'' True StringType [],
     Field ''MountRoots'' ''mount_roots'' True StringType [],
     Field ''PrivateDNS'' ''private_dns'' True StringType [],
     Field ''PrivateIP'' ''private_ip'' True StringType [],
     Field ''PublicDNS'' ''public_dns'' True StringType [],
     Field ''PublicIP'' ''public_ip'' True StringType [],
     Field ''Region'' ''region'' True StringType [],
     Field ''SecondaryPrivateIP'' ''secondary_private_ip'' True StringType [],
     Field ''SecondarySubnetID'' ''secondary_subnet_id'' True StringType [],
     Field ''SubnetID'' ''subnet_id'' True StringType [],
     Field ''UseTimeSync'' ''useTimeSync'' True BoolType []]"

definition CloudSpecificInfo_Validate :: "checks" where
  "CloudSpecificInfo_Validate = []"

definition CloudSpecificInfo_ContextValidate :: "checks" where
  "CloudSpecificInfo_ContextValidate = []"

lemma CloudSpecificInfo_documented: "validates_documentation (''CloudSpecificInfo'', CloudSpecificInfo_struct, CloudSpecificInfo_Validate, CloudSpecificInfo_ContextValidate)"
  by code_simp

lemma CloudSpecificInfo_named: "named_apart CloudSpecificInfo_struct"
  unfolding CloudSpecificInfo_struct_def named_apart_def list.map model_field.sel by code_simp

subsection \<open>Cluster\<close>

definition clusterTypeClusterTypePropEnum :: "string list" where
  "clusterTypeClusterTypePropEnum =
    [''PRIMARY'', ''ASYNC'']"

definition Cluster_struct :: "model_field list" where
  "Cluster_struct =
    [Field ''ClusterType'' ''clusterType'' False (Pointer StringType) [IsRequired, InEnum [''PRIMARY'', ''ASYNC'']],
     Field ''Index'' ''index'' True Int32Type [],
     Field ''PlacementInfo'' ''placementInfo'' True (Pointer (Model ''PlacementInfo'')) [],
     Field ''Regions'' ''regions'' False (Slice (Pointer (Model ''Region''))) [IsReadOnly],
     Field ''UserIntent'' ''userIntent'' False (Pointer (Model ''UserIntent'')) [IsRequired],
     Field ''UUID'' ''uuid'' True UUIDType [HasFormat ''uuid'']]"

definition Cluster_Validate :: "checks" where
  "Cluster_Validate =
    [(''ClusterType'', [Required ''clusterType'', EnumCheck ''clusterType'' clusterTypeClusterTypePropEnum True]),
     (''PlacementInfo'', [SkipZero, Nested ''placementInfo'']),
     (''Regions'', [SkipZero, Each [SkipZero, Nested ''regions'']]),
     (''UserIntent'', [Required ''userIntent'', Nested ''userIntent'']),
     (''UUID'', [SkipZero, FormatOf ''uuid'' ''uuid''])]"

definition Cluster_ContextValidate :: "checks" where
  "Cluster_ContextValidate =
    [(''PlacementInfo'', [Nested ''placementInfo'']),
     (''Regions'', [ReadOnly ''regions'', Each [Nested ''regions'']]),
     (''UserIntent'', [Nested ''userIntent''])]"

lemma Cluster_documented: "validates_documentation (''Cluster'', Cluster_struct, Cluster_Validate, Cluster_ContextValidate)"
  by code_simp

lemma Cluster_named: "named_apart Cluster_struct"
  unfolding Cluster_struct_def named_apart_def list.map model_field.sel by code_simp

subsection \<open>CommunicationPorts\<close>

definition CommunicationPorts_struct :: "model_field list" where
  "CommunicationPorts_struct =
    [Field ''MasterHTTPPort'' ''masterHttpPort'' True Int32Type [],
     Field ''MasterRPCPort'' ''masterRpcPort'' True Int32Type [],
     Field ''NodeExporterPort'' ''nodeExporterPort'' True Int32Type [],
     Field ''RedisServerHTTPPort'' ''redisServerHttpPort'' True Int32Type [],
     Field ''RedisServerRPCPort'' ''redisServerRpcPort'' True Int32Type [],
     Field ''TserverHTTPPort'' ''tserverHttpPort'' True Int32Type [],
     Field ''TserverRPCPort'' ''tserverRpcPort'' True Int32Type [],
     Field ''YqlServerHTTPPort'' ''yqlServerHttpPort'' True Int32Type [],
     Field ''YqlServerRPCPort'' ''yqlServerRpcPort'' True Int32Type [],
     Field ''YsqlServerHTTPPort'' ''ysqlServerHttpPort'' True Int32Type [],
     Field ''YsqlServerRPCPort'' ''ysqlServerRpcPort'' True Int32Type []]"

definition CommunicationPorts_Validate :: "checks" where
  "CommunicationPorts_Validate = []"

definition CommunicationPorts_ContextValidate :: "checks" where
  "CommunicationPorts_ContextValidate = []"

lemma CommunicationPorts_documented: "validates_documentation (''CommunicationPorts'', CommunicationPorts_struct, CommunicationPorts_Validate, CommunicationPorts_ContextValidate)"
  by code_simp

lemma CommunicationPorts_named: "named_apart CommunicationPorts_struct"
  unfolding CommunicationPorts_struct_def named_apart_def list.map model_field.sel by code_simp

subsection \<open>DeviceInfo\<close>

definition deviceInfoTypeStorageTypePropEnum :: "string list" where
  "deviceInfoTypeStorageTypePropEnum =
    [''IO1'', ''GP2'', ''GP3'', ''Scratch'', ''Persistent'', ''StandardSSD_LRS'', ''Premium_LRS'', ''UltraSSD_LRS'']"

definition DeviceInfo_struct :: "model_field list" where
  "DeviceInfo_struct =
    [Field ''DiskIops'' ''diskIops'' True Int32Type [],
     Field ''MountPoints'' ''mountPoints'' True StringType [],
     Field ''NumVolumes'' ''numVolumes'' True Int32Type [],
     Field ''StorageClass'' ''storageClass'' True StringType [],
     Field ''StorageType'' ''storageType'' True StringType [InEnum [''IO1'', ''GP2'', ''GP3'', ''Scratch'',
        ''Persistent'', ''StandardSSD_LRS'', ''Premium_LRS'', ''UltraSSD_LRS'']],
     Field ''Throughput'' ''throughput'' True Int32Type [],
     Field ''VolumeSize'' ''volumeSize'' True Int32Type []]"

definition DeviceInfo_Validate :: "checks" where
  "DeviceInfo_Validate =
    [(''StorageType'', [SkipZero, EnumCheck ''storageType'' deviceInfoTypeStorageTypePropEnum False])]"

definition DeviceInfo_ContextValidate :: "checks" where
  "DeviceInfo_ContextValidate = []"

lemma DeviceInfo_documented: "validates_documentation (''DeviceInfo'', DeviceInfo_struct, DeviceInfo_Validate, DeviceInfo_ContextValidate)"
  by code_simp

lemma DeviceInfo_named: "named_apart DeviceInfo_struct"
  unfolding DeviceInfo_struct_def named_apart_def list.map model_field.sel by code_simp

subsection \<open>ExtraDependencies\<close>

definition ExtraDependencies_struct :: "model_field list" where
  "ExtraDependencies_struct =
    [Field ''InstallNodeExporter'' ''installNodeExporter'' True BoolType []]"

definition ExtraDependencies_Validate :: "checks" where
  "ExtraDependencies_Validate = []"

definition ExtraDependencies_ContextValidate :: "checks" where
  "ExtraDependencies_ContextValidate = []"

lemma ExtraDependencies_documented: "validates_documentation (''ExtraDependencies'', ExtraDependencies_struct, ExtraDependencies_Validate, ExtraDependencies_ContextValidate)"
  by code_simp

lemma ExtraDependencies_named: "named_apart ExtraDependencies_struct"
  unfolding ExtraDependencies_struct_def named_apart_def list.map model_field.sel by code_simp

subsection \<open>MasterNode\<close>

definition MasterNode_struct :: "model_field list" where
  "MasterNode_struct =
    [Field ''CloudInfo'' ''cloudInfo'' False (Pointer (Model ''CloudSpecificInfo'')) [IsRequired],
     Field ''MasterRPCPort'' ''masterRpcPort'' False (Pointer Int32Type) [IsRequired]]"

definition MasterNode_Validate :: "checks" where
  "MasterNode_Validate =
    [(''CloudInfo'', [Required ''cloudInfo'', Nested ''cloudInfo'']),
     (''MasterRPCPort'', [Required ''masterRpcPort''])]"

definition MasterNode_ContextValidate :: "checks" where
  "MasterNode_ContextValidate =
    [(''CloudInfo'', [Nested ''cloudInfo''])]"

lemma MasterNode_documented: "validates_documentation (''MasterNode'', MasterNode_struct, MasterNode_Validate, MasterNode_ContextValidate)"
  by code_simp

lemma MasterNode_named: "named_apart MasterNode_struct"
  unfolding MasterNode_struct_def named_apart_def list.map model_field.sel by code_simp

subsection \<open>MastersList\<close>

definition MastersList_struct :: "model_field list" where
  "MastersList_struct =
    [Field ''Masters'' ''masters'' False (Slice (Pointer (Model ''MasterNode''))) [IsRequired]]"

definition MastersList_Validate :: "checks" where
  "MastersList_Validate =
    [(''Masters'', [Required ''masters'', Each [SkipZero, Nested ''masters'']])]"

definition MastersList_ContextValidate :: "checks" where
  "MastersList_ContextValidate =
    [(''Masters'', [Each [Nested ''masters'']])]"

lemma MastersList_documented: "validates_documentation (''MastersList'', MastersList_struct, MastersList_Validate, MastersList_ContextValidate)"
  by code_simp

lemma MastersList_named: "named_apart MastersList_struct"
  unfolding MastersList_struct_def named_apart_def list.map model_field.sel by code_simp

subsection \<open>MetricQueryParams\<close>

definition MetricQueryParams_struct :: "model_field list" where
  "MetricQueryParams_struct =
    [Field ''End'' ''end'' True Int64Type [],
     Field ''IsRecharts'' ''isRecharts'' True BoolType [],
     Field ''Metrics'' ''metrics'' False (Slice StringType) [],
     Field ''MetricsWithSettings'' ''metricsWithSettings'' False (Slice (Pointer (Model ''MetricSettings''))) [],
     Field ''NodeName'' ''nodeName'' True StringType [],
     Field ''NodePrefix'' ''nodePrefix'' True StringType [],
     Field ''Start'' ''start'' False (Pointer Int64Type) [IsRequired]]"

definition MetricQueryParams_Validate :: "checks" where
  "MetricQueryParams_Validate =
    [(''MetricsWithSettings'', [SkipZero, Each [SkipZero, Nested ''metricsWithSettings'']]),
     (''Start'', [Required ''start''])]"

definition MetricQueryParams_ContextValidate :: "checks" where
  "MetricQueryParams_ContextValidate =
    [(''MetricsWithSettings'', [Each [Nested ''metricsWithSettings'']])]"

lemma MetricQueryParams_documented: "validates_documentation (''MetricQueryParams'', MetricQueryParams_struct, MetricQueryParams_Validate, MetricQueryParams_ContextValidate)"
  by code_simp

lemma MetricQueryParams_named: "named_apart MetricQueryParams_struct"
  unfolding MetricQueryParams_struct_def named_apart_def list.map model_field.sel by code_simp

subsection \<open>MetricSettings\<close>

definition metricSettingsTypeAggregationPropEnum :: "string list" where
  "metricSettingsTypeAggregationPropEnum =
    [''DEFAULT'', ''MIN'', ''MAX'', ''AVG'', ''SUM'']"

definition MetricSettings_struct :: "model_field list" where
  "MetricSettings_struct =
    [Field ''Aggregation'' ''aggregation'' False (Pointer StringType) [IsRequired, InEnum [''DEFAULT'', ''MIN'',
        ''MAX'', ''AVG'', ''SUM'']],
     Field ''Metric'' ''metric'' False (Pointer StringType) [IsRequired],
     Field ''SplitTopNodes'' ''splitTopNodes'' False (Pointer Int32Type) [IsRequired]]"

definition MetricSettings_Validate :: "checks" where
  "MetricSettings_Validate =
    [(''Aggregation'', [Required ''aggregation'', EnumCheck ''aggregation'' metricSettingsTypeAggregationPropEnum
        True]),
     (''Metric'', [Required ''metric'']),
     (''SplitTopNodes'', [Required ''splitTopNodes''])]"

definition MetricSettings_ContextValidate :: "checks" where
  "MetricSettings_ContextValidate = []"

lemma MetricSettings_documented: "validates_documentation (''MetricSettings'', MetricSettings_struct, MetricSettings_Validate, MetricSettings_ContextValidate)"
  by code_simp

lemma MetricSettings_named: "named_apart MetricSettings_struct"
  unfolding MetricSettings_struct_def named_apart_def list.map model_field.sel by code_simp

subsection \<open>NodeActionFormData\<close>

definition nodeActionFormDataTypeNodeActionPropEnum :: "string list" where
  "nodeActionFormDataTypeNodeActionPropEnum =
    [''ADD'', ''REMOVE'', ''START'', ''STOP'', ''DELETE'', ''QUERY'', ''RELEASE'', ''START_MASTER'',
     ''PRECHECK_DETACHED'']"

definition NodeActionFormData_struct :: "model_field list" where
  "NodeActionFormData_struct =
    [Field ''NodeAction'' ''nodeAction'' False (Pointer StringType) [IsRequired, InEnum [''ADD'', ''REMOVE'',
        ''START'', ''STOP'', ''DELETE'', ''QUERY'', ''RELEASE'', ''START_MASTER'', ''PRECHECK_DETACHED'']]]"

definition NodeActionFormData_Validate :: "checks" where
  "NodeActionFormData_Validate =
    [(''NodeAction'', [Required ''nodeAction'', EnumCheck ''nodeAction'' nodeActionFormDataTypeNodeActionPropEnum
        True])]"

definition NodeActionFormData_ContextValidate :: "checks" where
  "NodeActionFormData_ContextValidate = []"

lemma NodeActionFormData_documented: "validates_documentation (''NodeActionFormData'', NodeActionFormData_struct, NodeActionFormData_Validate, NodeActionFormData_ContextValidate)"
  by code_simp

lemma NodeActionFormData_named: "named_apart NodeActionFormData_struct"
  unfolding NodeActionFormData_struct_def named_apart_def list.map model_field.sel by code_simp

subsection \<open>NodeDetails\<close>

definition nodeDetailsTypeMasterStatePropEnum :: "string list" where
  "nodeDetailsTypeMasterStatePropEnum =
    [''None'', ''ToStart'', ''Configured'', ''ToStop'']"

definition nodeDetailsTypeStatePropEnum :: "string list" where
  "nodeDetailsTypeStatePropEnum =
    [''ToBeAdded'', ''InstanceCreated'', ''ServerSetup'', ''ToJoinCluster'', ''Reprovisioning'', ''Provisioned'',
     ''SoftwareInstalled'', ''UpgradeSoftware'', ''UpdateGFlags'', ''Live'', ''Stopping'', ''Starting'', ''Stopped'',
     ''Unreachable'', ''ToBeRemoved'', ''Removing'', ''Removed'', ''Adding'', ''BeingDecommissioned'',
     ''Decommissioned'', ''UpdateCert'', ''ToggleTls'', ''Resizing'', ''SystemdUpgrade'', ''Terminating'',
     ''Terminated'']"

definition NodeDetails_struct :: "model_field list" where
  "NodeDetails_struct =
    [Field ''AzUUID'' ''azUuid'' True UUIDType [HasFormat ''uuid''],
     Field ''CloudInfo'' ''cloudInfo'' True (Pointer (Model ''CloudSpecificInfo'')) [],
     Field ''CronsActive'' ''cronsActive'' True BoolType [],
     Field ''DisksAreMountedByUUID'' ''disksAreMountedByUUID'' True BoolType [],
     Field ''IsMaster'' ''isMaster'' True BoolType [],
     Field ''IsRedisServer'' ''isRedisServer'' True BoolType [],
     Field ''IsTserver'' ''isTserver'' True BoolType [],
     Field ''IsYqlServer'' ''isYqlServer'' True BoolType [],
     Field ''IsYsqlServer'' ''isYsqlServer'' True BoolType [],
     Field ''MachineImage'' ''machineImage'' True StringType [],
     Field ''MasterHTTPPort'' ''masterHttpPort'' True Int32Type [],
     Field ''MasterRPCPort'' ''masterRpcPort'' True Int32Type [],
     Field ''MasterState'' ''masterState'' True StringType [InEnum [''None'', ''ToStart'', ''Configured'',
        ''ToStop'']],
     Field ''NodeExporterPort'' ''nodeExporterPort'' True Int32Type [],
     Field ''NodeIdx'' ''nodeIdx'' True Int32Type [],
     Field ''NodeName'' ''nodeName'' True StringType [],
     Field ''NodeUUID'' ''nodeUuid'' True UUIDType [HasFormat ''uuid''],
     Field ''PlacementUUID'' ''placementUuid'' True UUIDType [HasFormat ''uuid''],
     Field ''RedisServerHTTPPort'' ''redisServerHttpPort'' True Int32Type [],
     Field ''RedisServerRPCPort'' ''redisServerRpcPort'' True Int32Type [],
     Field ''State'' ''state'' True StringType [InEnum [''ToBeAdded'', ''InstanceCreated'', ''ServerSetup'',
        ''ToJoinCluster'', ''Reprovisioning'', ''Provisioned'', ''SoftwareInstalled'', ''UpgradeSoftware'',
        ''UpdateGFlags'', ''Live'', ''Stopping'', ''Starting'', ''Stopped'', ''Unreachable'', ''ToBeRemoved'',
        ''Removing'', ''Removed'', ''Adding'', ''BeingDecommissioned'', ''Decommissioned'', ''UpdateCert'',
        ''ToggleTls'', ''Resizing'', ''SystemdUpgrade'', ''Terminating'', ''Terminated'']],
     Field ''TserverHTTPPort'' ''tserverHttpPort'' True Int32Type [],
     Field ''TserverRPCPort'' ''tserverRpcPort'' True Int32Type [],
     Field ''YbPrebuiltAmi'' ''ybPrebuiltAmi'' True BoolType [],
     Field ''YqlServerHTTPPort'' ''yqlServerHttpPort'' True Int32Type [],
     Field ''YqlServerRPCPort'' ''yqlServerRpcPort'' True Int32Type [],
     Field ''YsqlServerHTTPPort'' ''ysqlServerHttpPort'' True Int32Type [],
     Field ''YsqlServerRPCPort'' ''ysqlServerRpcPort'' True Int32Type []]"

definition NodeDetails_Validate :: "checks" where
  "NodeDetails_Validate =
    [(''AzUUID'', [SkipZero, FormatOf ''azUuid'' ''uuid'']),
     (''CloudInfo'', [SkipZero, Nested ''cloudInfo'']),
     (''MasterState'', [SkipZero, EnumCheck ''masterState'' nodeDetailsTypeMasterStatePropEnum False]),
     (''NodeUUID'', [SkipZero, FormatOf ''nodeUuid'' ''uuid'']),
     (''PlacementUUID'', [SkipZero, FormatOf ''placementUuid'' ''uuid'']),
     (''State'', [SkipZero, EnumCheck ''state'' nodeDetailsTypeStatePropEnum False])]"

definition NodeDetails_ContextValidate :: "checks" where
  "NodeDetails_ContextValidate =
    [(''CloudInfo'', [Nested ''cloudInfo''])]"

lemma NodeDetails_documented: "validates_documentation (''NodeDetails'', NodeDetails_struct, NodeDetails_Validate, NodeDetails_ContextValidate)"
  by code_simp

lemma NodeDetails_named: "named_apart NodeDetails_struct"
  unfolding NodeDetails_struct_def named_apart_def list.map model_field.sel by code_simp

subsection \<open>NodeDetailsResp\<close>

definition nodeDetailsRespAllowedActionsItemsEnum :: "string list" where
  "nodeDetailsRespAllowedActionsItemsEnum =
    [''ADD'', ''REMOVE'', ''START'', ''STOP'', ''DELETE'', ''QUERY'', ''RELEASE'', ''START_MASTER'',
     ''PRECHECK_DETACHED'']"

definition nodeDetailsRespTypeMasterStatePropEnum :: "string list" where
  "nodeDetailsRespTypeMasterStatePropEnum =
    [''None'', ''ToStart'', ''Configured'', ''ToStop'']"

definition nodeDetailsRespTypeStatePropEnum :: "string list" where
  "nodeDetailsRespTypeStatePropEnum =
    [''ToBeAdded'', ''InstanceCreated'', ''ServerSetup'', ''ToJoinCluster'', ''Reprovisioning'', ''Provisioned'',
     ''SoftwareInstalled'', ''UpgradeSoftware'', ''UpdateGFlags'', ''Live'', ''Stopping'', ''Starting'', ''Stopped'',
     ''Unreachable'', ''ToBeRemoved'', ''Removing'', ''Removed'', ''Adding'', ''BeingDecommissioned'',
     ''Decommissioned'', ''UpdateCert'', ''ToggleTls'', ''Resizing'', ''SystemdUpgrade'', ''Terminating'',
     ''Terminated'']"

definition NodeDetailsResp_struct :: "model_field list" where
  "NodeDetailsResp_struct =
    [Field ''AllowedActions'' ''allowedActions'' False (Slice StringType) [IsReadOnly, IsUnique, ItemsIn
        nodeDetailsRespAllowedActionsItemsEnum],
     Field ''AzUUID'' ''azUuid'' True UUIDType [HasFormat ''uuid''],
     Field ''CloudInfo'' ''cloudInfo'' True (Pointer (Model ''CloudSpecificInfo'')) [],
     Field ''CronsActive'' ''cronsActive'' True BoolType [],
     Field ''DisksAreMountedByUUID'' ''disksAreMountedByUUID'' True BoolType [],
     Field ''IsMaster'' ''isMaster'' True BoolType [],
     Field ''IsRedisServer'' ''isRedisServer'' True BoolType [],
     Field ''IsTserver'' ''isTserver'' True BoolType [],
     Field ''IsYqlServer'' ''isYqlServer'' True BoolType [],
     Field ''IsYsqlServer'' ''isYsqlServer'' True BoolType [],
     Field ''MachineImage'' ''machineImage'' True StringType [],
     Field ''MasterHTTPPort'' ''masterHttpPort'' True Int32Type [],
     Field ''MasterRPCPort'' ''masterRpcPort'' True Int32Type [],
     Field ''MasterState'' ''masterState'' True StringType [InEnum [''None'', ''ToStart'', ''Configured'',
        ''ToStop'']],
     Field ''NodeExporterPort'' ''nodeExporterPort'' True Int32Type [],
     Field ''NodeIdx'' ''nodeIdx'' True Int32Type [],
     Field ''NodeName'' ''nodeName'' True StringType [],
     Field ''NodeUUID'' ''nodeUuid'' True UUIDType [HasFormat ''uuid''],
     Field ''PlacementUUID'' ''placementUuid'' True UUIDType [HasFormat ''uuid''],
     Field ''RedisServerHTTPPort'' ''redisServerHttpPort'' True Int32Type [],
     Field ''RedisServerRPCPort'' ''redisServerRpcPort'' True Int32Type [],
     Field ''State'' ''state'' True StringType [InEnum [''ToBeAdded'', ''InstanceCreated'', ''ServerSetup'',
        ''ToJoinCluster'', ''Reprovisioning'', ''Provisioned'', ''SoftwareInstalled'', ''UpgradeSoftware'',
        ''UpdateGFlags'', ''Live'', ''Stopping'', ''Starting'', ''Stopped'', ''Unreachable'', ''ToBeRemoved'',
        ''Removing'', ''Removed'', ''Adding'', ''BeingDecommissioned'', ''Decommissioned'', ''UpdateCert'',
        ''ToggleTls'', ''Resizing'', ''SystemdUpgrade'', ''Terminating'', ''Terminated'']],
     Field ''TserverHTTPPort'' ''tserverHttpPort'' True Int32Type [],
     Field ''TserverRPCPort'' ''tserverRpcPort'' True Int32Type [],
     Field ''YbPrebuiltAmi'' ''ybPrebuiltAmi'' True BoolType [],
     Field ''YqlServerHTTPPort'' ''yqlServerHttpPort'' True Int32Type [],
     Field ''YqlServerRPCPort'' ''yqlServerRpcPort'' True Int32Type [],
     Field ''YsqlServerHTTPPort'' ''ysqlServerHttpPort'' True Int32Type [],
     Field ''YsqlServerRPCPort'' ''ysqlServerRpcPort'' True Int32Type []]"

definition NodeDetailsResp_Validate :: "checks" where
  "NodeDetailsResp_Validate =
    [(''AllowedActions'', [SkipZero, UniqueItems ''allowedActions'', Each [EnumCheck ''allowedActions''
        nodeDetailsRespAllowedActionsItemsEnum False]]),
     (''AzUUID'', [SkipZero, FormatOf ''azUuid'' ''uuid'']),
     (''CloudInfo'', [SkipZero, Nested ''cloudInfo'']),
     (''MasterState'', [SkipZero, EnumCheck ''masterState'' nodeDetailsRespTypeMasterStatePropEnum False]),
     (''NodeUUID'', [SkipZero, FormatOf ''nodeUuid'' ''uuid'']),
     (''PlacementUUID'', [SkipZero, FormatOf ''placementUuid'' ''uuid'']),
     (''State'', [SkipZero, EnumCheck ''state'' nodeDetailsRespTypeStatePropEnum False])]"

definition NodeDetailsResp_ContextValidate :: "checks" where
  "NodeDetailsResp_ContextValidate =
    [(''AllowedActions'', [ReadOnly ''allowedActions'']),
     (''CloudInfo'', [Nested ''cloudInfo''])]"

lemma NodeDetailsResp_documented: "validates_documentation (''NodeDetailsResp'', NodeDetailsResp_struct, NodeDetailsResp_Validate, NodeDetailsResp_ContextValidate)"
  by code_simp

lemma NodeDetailsResp_named: "named_apart NodeDetailsResp_struct"
  unfolding NodeDetailsResp_struct_def named_apart_def list.map model_field.sel by code_simp

subsection \<open>NodeInstance\<close>

definition NodeInstance_struct :: "model_field list" where
  "NodeInstance_struct =
    [Field ''Details'' ''details'' False (Pointer (Model ''NodeInstanceData'')) [IsRequired],
     Field ''DetailsJSON'' ''detailsJson'' True StringType [],
     Field ''InUse'' ''inUse'' True BoolType [],
     Field ''InstanceName'' ''instanceName'' True StringType [],
     Field ''InstanceTypeCode'' ''instanceTypeCode'' True StringType [],
     Field ''NodeName'' ''nodeName'' True StringType [],
     Field ''NodeUUID'' ''nodeUuid'' True UUIDType [IsReadOnly, HasFormat ''uuid''],
     Field ''ZoneUUID'' ''zoneUuid'' True UUIDType [HasFormat ''uuid'']]"

definition NodeInstance_Validate :: "checks" where
  "NodeInstance_Validate =
    [(''Details'', [Required ''details'', Nested ''details'']),
     (''NodeUUID'', [SkipZero, FormatOf ''nodeUuid'' ''uuid'']),
     (''ZoneUUID'', [SkipZero, FormatOf ''zoneUuid'' ''uuid''])]"

definition NodeInstance_ContextValidate :: "checks" where
  "NodeInstance_ContextValidate =
    [(''Details'', [Nested ''details'']),
     (''NodeUUID'', [ReadOnly ''nodeUuid''])]"

lemma NodeInstance_documented: "validates_documentation (''NodeInstance'', NodeInstance_struct, NodeInstance_Validate, NodeInstance_ContextValidate)"
  by code_simp

lemma NodeInstance_named: "named_apart NodeInstance_struct"
  unfolding NodeInstance_struct_def named_apart_def list.map model_field.sel by code_simp

subsection \<open>NodeInstanceData\<close>

definition NodeInstanceData_struct :: "model_field list" where
  "NodeInstanceData_struct =
    [Field ''InstanceName'' ''instanceName'' False (Pointer StringType) [IsRequired],
     Field ''InstanceType'' ''instanceType'' False (Pointer StringType) [IsRequired],
     Field ''IP'' ''ip'' False (Pointer StringType) [IsRequired],
     Field ''NodeName'' ''nodeName'' True StringType [],
     Field ''Region'' ''region'' False (Pointer StringType) [IsRequired],
     Field ''SSHUser'' ''sshUser'' False (Pointer StringType) [IsRequired],
     Field ''Zone'' ''zone'' False (Pointer StringType) [IsRequired]]"

definition NodeInstanceData_Validate :: "checks" where
  "NodeInstanceData_Validate =
    [(''InstanceName'', [Required ''instanceName'']),
     (''InstanceType'', [Required ''instanceType'']),
     (''IP'', [Required ''ip'']),
     (''Region'', [Required ''region'']),
     (''SSHUser'', [Required ''sshUser'']),
     (''Zone'', [Required ''zone''])]"

definition NodeInstanceData_ContextValidate :: "checks" where
  "NodeInstanceData_ContextValidate = []"

lemma NodeInstanceData_documented: "validates_documentation (''NodeInstanceData'', NodeInstanceData_struct, NodeInstanceData_Validate, NodeInstanceData_ContextValidate)"
  by code_simp

lemma NodeInstanceData_named: "named_apart NodeInstanceData_struct"
  unfolding NodeInstanceData_struct_def named_apart_def list.map model_field.sel by code_simp

subsection \<open>NodeInstanceFormData\<close>

definition NodeInstanceFormData_struct :: "model_field list" where
  "NodeInstanceFormData_struct =
    [Field ''Nodes'' ''nodes'' False (Slice (Pointer (Model ''NodeInstanceData''))) [IsRequired, MaxCount 2147483647,
        MinCount 1]]"

definition NodeInstanceFormData_Validate :: "checks" where
  "NodeInstanceFormData_Validate =
    [(''Nodes'', [Required ''nodes'', MinItems ''nodes'' 1, MaxItems ''nodes'' 2147483647, Each [SkipZero, Nested
        ''nodes'']])]"

definition NodeInstanceFormData_ContextValidate :: "checks" where
  "NodeInstanceFormData_ContextValidate =
    [(''Nodes'', [Each [Nested ''nodes'']])]"

lemma NodeInstanceFormData_documented: "validates_documentation (''NodeInstanceFormData'', NodeInstanceFormData_struct, NodeInstanceFormData_Validate, NodeInstanceFormData_ContextValidate)"
  by code_simp

lemma NodeInstanceFormData_named: "named_apart NodeInstanceFormData_struct"
  unfolding NodeInstanceFormData_struct_def named_apart_def list.map model_field.sel by code_simp

subsection \<open>PlacementAZ\<close>

definition PlacementAZ_struct :: "model_field list" where
  "PlacementAZ_struct =
    [Field ''IsAffinitized'' ''isAffinitized'' True BoolType [],
     Field ''Name'' ''name'' True StringType [],
     Field ''NumNodesInAZ'' ''numNodesInAZ'' True Int32Type [],
     Field ''ReplicationFactor'' ''replicationFactor'' True Int32Type [],
     Field ''SecondarySubnet'' ''secondarySubnet'' True StringType [],
     Field ''Subnet'' ''subnet'' True StringType [],
     Field ''UUID'' ''uuid'' True UUIDType [HasFormat ''uuid'']]"

definition PlacementAZ_Validate :: "checks" where
  "PlacementAZ_Validate =
    [(''UUID'', [SkipZero, FormatOf ''uuid'' ''uuid''])]"

definition PlacementAZ_ContextValidate :: "checks" where
  "PlacementAZ_ContextValidate = []"

lemma PlacementAZ_documented: "validates_documentation (''PlacementAZ'', PlacementAZ_struct, PlacementAZ_Validate, PlacementAZ_ContextValidate)"
  by code_simp

lemma PlacementAZ_named: "named_apart PlacementAZ_struct"
  unfolding PlacementAZ_struct_def named_apart_def list.map model_field.sel by code_simp

subsection \<open>PlacementBlock\<close>

definition PlacementBlock_struct :: "model_field list" where
  "PlacementBlock_struct =
    [Field ''Cloud'' ''cloud'' False (Pointer StringType) [IsRequired, MaxLen 2147483647, MinLen 1],
     Field ''LeaderPreference'' ''leader_preference'' True Int32Type [AtLeast 1],
     Field ''MinNumReplicas'' ''min_num_replicas'' True Int32Type [AtLeast 1],
     Field ''Region'' ''region'' False (Pointer StringType) [IsRequired, MaxLen 2147483647, MinLen 1],
     Field ''Zone'' ''zone'' False (Pointer StringType) [IsRequired, MaxLen 2147483647, MinLen 1]]"

definition PlacementBlock_Validate :: "checks" where
  "PlacementBlock_Validate =
    [(''Cloud'', [Required ''cloud'', MinLength ''cloud'' 1 True, MaxLength ''cloud'' 2147483647 True]),
     (''LeaderPreference'', [SkipZero, MinimumInt ''leader_preference'' 1 False]),
     (''MinNumReplicas'', [SkipZero, MinimumInt ''min_num_replicas'' 1 False]),
     (''Region'', [Required ''region'', MinLength ''region'' 1 True, MaxLength ''region'' 2147483647 True]),
     (''Zone'', [Required ''zone'', MinLength ''zone'' 1 True, MaxLength ''zone'' 2147483647 True])]"

definition PlacementBlock_ContextValidate :: "checks" where
  "PlacementBlock_ContextValidate = []"

lemma PlacementBlock_documented: "validates_documentation (''PlacementBlock'', PlacementBlock_struct, PlacementBlock_Validate, PlacementBlock_ContextValidate)"
  by code_simp

lemma PlacementBlock_named: "named_apart PlacementBlock_struct"
  unfolding PlacementBlock_struct_def named_apart_def list.map model_field.sel by code_simp

subsection \<open>PlacementCloud\<close>

definition PlacementCloud_struct :: "model_field list" where
  "PlacementCloud_struct =
    [Field ''Code'' ''code'' True StringType [],
     Field ''DefaultRegion'' ''defaultRegion'' True UUIDType [HasFormat ''uuid''],
     Field ''RegionList'' ''regionList'' False (Slice (Pointer (Model ''PlacementRegion''))) [],
     Field ''UUID'' ''uuid'' True UUIDType [HasFormat ''uuid'']]"

definition PlacementCloud_Validate :: "checks" where
  "PlacementCloud_Validate =
    [(''DefaultRegion'', [SkipZero, FormatOf ''defaultRegion'' ''uuid'']),
     (''RegionList'', [SkipZero, Each [SkipZero, Nested ''regionList'']]),
     (''UUID'', [SkipZero, FormatOf ''uuid'' ''uuid''])]"

definition PlacementCloud_ContextValidate :: "checks" where
  "PlacementCloud_ContextValidate =
    [(''RegionList'', [Each [Nested ''regionList'']])]"

lemma PlacementCloud_documented: "validates_documentation (''PlacementCloud'', PlacementCloud_struct, PlacementCloud_Validate, PlacementCloud_ContextValidate)"
  by code_simp

lemma PlacementCloud_named: "named_apart PlacementCloud_struct"
  unfolding PlacementCloud_struct_def named_apart_def list.map model_field.sel by code_simp

subsection \<open>PlacementInfo\<close>

definition PlacementInfo_struct :: "model_field list" where
  "PlacementInfo_struct =
    [Field ''CloudList'' ''cloudList'' False (Slice (Pointer (Model ''PlacementCloud''))) [IsRequired]]"

definition PlacementInfo_Validate :: "checks" where
  "PlacementInfo_Validate =
    [(''CloudList'', [Required ''cloudList'', Each [SkipZero, Nested ''cloudList'']])]"

definition PlacementInfo_ContextValidate :: "checks" where
  "PlacementInfo_ContextValidate =
    [(''CloudList'', [Each [Nested ''cloudList'']])]"

lemma PlacementInfo_documented: "validates_documentation (''PlacementInfo'', PlacementInfo_struct, PlacementInfo_Validate, PlacementInfo_ContextValidate)"
  by code_simp

lemma PlacementInfo_named: "named_apart PlacementInfo_struct"
  unfolding PlacementInfo_struct_def named_apart_def list.map model_field.sel by code_simp

subsection \<open>PlacementRegion\<close>

definition PlacementRegion_struct :: "model_field list" where
  "PlacementRegion_struct =
    [Field ''AzList'' ''azList'' False (Slice (Pointer (Model ''PlacementAZ''))) [],
     Field ''Code'' ''code'' True StringType [],
     Field ''Name'' ''name'' True StringType [],
     Field ''UUID'' ''uuid'' True UUIDType [HasFormat ''uuid'']]"

definition PlacementRegion_Validate :: "checks" where
  "PlacementRegion_Validate =
    [(''AzList'', [SkipZero, Each [SkipZero, Nested ''azList'']]),
     (''UUID'', [SkipZero, FormatOf ''uuid'' ''uuid''])]"

definition PlacementRegion_ContextValidate :: "checks" where
  "PlacementRegion_ContextValidate =
    [(''AzList'', [Each [Nested ''azList'']])]"

lemma PlacementRegion_documented: "validates_documentation (''PlacementRegion'', PlacementRegion_struct, PlacementRegion_Validate, PlacementRegion_ContextValidate)"
  by code_simp

lemma PlacementRegion_named: "named_apart PlacementRegion_struct"
  unfolding PlacementRegion_struct_def named_apart_def list.map model_field.sel by code_simp

subsection \<open>TriggerHealthCheckResult\<close>

definition TriggerHealthCheckResult_struct :: "model_field list" where
  "TriggerHealthCheckResult_struct =
    [Field ''Timestamp'' ''timestamp'' True DateTimeType [HasFormat ''date-time'']]"

definition TriggerHealthCheckResult_Validate :: "checks" where
  "TriggerHealthCheckResult_Validate =
    [(''Timestamp'', [SkipZero, FormatOf ''timestamp'' ''date-time''])]"

definition TriggerHealthCheckResult_ContextValidate :: "checks" where
  "TriggerHealthCheckResult_ContextValidate = []"

lemma TriggerHealthCheckResult_documented: "validates_documentation (''TriggerHealthCheckResult'', TriggerHealthCheckResult_struct, TriggerHealthCheckResult_Validate, TriggerHealthCheckResult_ContextValidate)"
  by code_simp

lemma TriggerHealthCheckResult_named: "named_apart TriggerHealthCheckResult_struct"
  unfolding TriggerHealthCheckResult_struct_def named_apart_def list.map model_field.sel by code_simp

subsection \<open>UniverseDetailSubset\<close>

definition UniverseDetailSubset_struct :: "model_field list" where
  "UniverseDetailSubset_struct =
    [Field ''CreationDate'' ''creationDate'' False (Pointer Int64Type) [IsRequired],
     Field ''Name'' ''name'' False (Pointer StringType) [IsRequired],
     Field ''UniversePaused'' ''universePaused'' False (Pointer BoolType) [IsRequired],
     Field ''UpdateInProgress'' ''updateInProgress'' False (Pointer BoolType) [IsRequired],
     Field ''UpdateSucceeded'' ''updateSucceeded'' False (Pointer BoolType) [IsRequired],
     Field ''UUID'' ''uuid'' False (Pointer UUIDType) [IsRequired, HasFormat ''uuid'']]"

definition UniverseDetailSubset_Validate :: "checks" where
  "UniverseDetailSubset_Validate =
    [(''CreationDate'', [Required ''creationDate'']),
     (''Name'', [Required ''name'']),
     (''UniversePaused'', [Required ''universePaused'']),
     (''UpdateInProgress'', [Required ''updateInProgress'']),
     (''UpdateSucceeded'', [Required ''updateSucceeded'']),
     (''UUID'', [Required ''uuid'', FormatOf ''uuid'' ''uuid''])]"

definition UniverseDetailSubset_ContextValidate :: "checks" where
  "UniverseDetailSubset_ContextValidate = []"

lemma UniverseDetailSubset_documented: "validates_documentation (''UniverseDetailSubset'', UniverseDetailSubset_struct, UniverseDetailSubset_Validate, UniverseDetailSubset_ContextValidate)"
  by code_simp

lemma UniverseDetailSubset_named: "named_apart UniverseDetailSubset_struct"
  unfolding UniverseDetailSubset_struct_def named_apart_def list.map model_field.sel by code_simp

subsection \<open>UniverseResourceDetails\<close>

definition UniverseResourceDetails_struct :: "model_field list" where
  "UniverseResourceDetails_struct =
    [Field ''AzList'' ''azList'' False (Slice StringType) [IsUnique],
     Field ''EbsPricePerHour'' ''ebsPricePerHour'' True FloatType [],
     Field ''Gp3FreePiops'' ''gp3FreePiops'' True Int32Type [],
     Field ''Gp3FreeThroughput'' ''gp3FreeThroughput'' True Int32Type [],
     Field ''MemSizeGB'' ''memSizeGB'' True FloatType [],
     Field ''NumCores'' ''numCores'' True FloatType [],
     Field ''NumNodes'' ''numNodes'' True Int32Type [],
     Field ''PricePerHour'' ''pricePerHour'' True FloatType [],
     Field ''PricingKnown'' ''pricingKnown'' True BoolType [],
     Field ''VolumeCount'' ''volumeCount'' True Int32Type [],
     Field ''VolumeSizeGB'' ''volumeSizeGB'' True Int32Type []]"

definition UniverseResourceDetails_Validate :: "checks" where
  "UniverseResourceDetails_Validate =
    [(''AzList'', [SkipZero, UniqueItems ''azList''])]"

definition UniverseResourceDetails_ContextValidate :: "checks" where
  "UniverseResourceDetails_ContextValidate = []"

lemma UniverseResourceDetails_documented: "validates_documentation (''UniverseResourceDetails'', UniverseResourceDetails_struct, UniverseResourceDetails_Validate, UniverseResourceDetails_ContextValidate)"
  by code_simp

lemma UniverseResourceDetails_named: "named_apart UniverseResourceDetails_struct"
  unfolding UniverseResourceDetails_struct_def named_apart_def list.map model_field.sel by code_simp

subsection \<open>UniverseResp\<close>

definition UniverseResp_struct :: "model_field list" where
  "UniverseResp_struct =
    [Field ''CreationDate'' ''creationDate'' True StringType [],
     Field ''DNSName'' ''dnsName'' True StringType [],
     Field ''Name'' ''name'' True StringType [],
     Field ''PricePerHour'' ''pricePerHour'' True FloatType [],
     Field ''Resources'' ''resources'' True (Pointer (Model ''UniverseResourceDetails'')) [],
     Field ''SampleAppCommandTxt'' ''sampleAppCommandTxt'' True StringType [],
     Field ''TaskUUID'' ''taskUUID'' True UUIDType [HasFormat ''uuid''],
     Field ''UniverseConfig'' ''universeConfig'' True (MapOf StringType) [],
     Field ''UniverseDetails'' ''universeDetails'' True (Pointer (Model ''UniverseDefinitionTaskParamsResp'')) [],
     Field ''UniverseUUID'' ''universeUUID'' True UUIDType [HasFormat ''uuid''],
     Field ''Version'' ''version'' True Int32Type []]"

definition UniverseResp_Validate :: "checks" where
  "UniverseResp_Validate =
    [(''Resources'', [SkipZero, Nested ''resources'']),
     (''TaskUUID'', [SkipZero, FormatOf ''taskUUID'' ''uuid'']),
     (''UniverseDetails'', [SkipZero, Nested ''universeDetails'']),
     (''UniverseUUID'', [SkipZero, FormatOf ''universeUUID'' ''uuid''])]"

definition UniverseResp_ContextValidate :: "checks" where
  "UniverseResp_ContextValidate =
    [(''Resources'', [Nested ''resources'']),
     (''UniverseDetails'', [Nested ''universeDetails''])]"

lemma UniverseResp_documented: "validates_documentation (''UniverseResp'', UniverseResp_struct, UniverseResp_Validate, UniverseResp_ContextValidate)"
  by code_simp

lemma UniverseResp_named: "named_apart UniverseResp_struct"
  unfolding UniverseResp_struct_def named_apart_def list.map model_field.sel by code_simp

subsection \<open>UserIntent\<close>

definition userIntentTypeEnableExposingServicePropEnum :: "string list" where
  "userIntentTypeEnableExposingServicePropEnum =
    [''NONE'', ''EXPOSED'', ''UNEXPOSED'']"

definition userIntentTypeProviderTypePropEnum :: "string list" where
  "userIntentTypeProviderTypePropEnum =
    [''unknown'', ''aws'', ''gcp'', ''azu'', ''docker'', ''onprem'', ''kubernetes'', ''local'', ''other'']"

definition UserIntent_struct :: "model_field list" where
  "UserIntent_struct =
    [Field ''AccessKeyCode'' ''accessKeyCode'' True StringType [],
     Field ''AssignPublicIP'' ''assignPublicIP'' True BoolType [],
     Field ''AssignStaticPublicIP'' ''assignStaticPublicIP'' True BoolType [],
     Field ''AwsArnString'' ''awsArnString'' True StringType [],
     Field ''DeviceInfo'' ''deviceInfo'' True (Pointer (Model ''DeviceInfo'')) [],
     Field ''EnableClientToNodeEncrypt'' ''enableClientToNodeEncrypt'' True BoolType [],
     Field ''EnableExposingService'' ''enableExposingService'' True StringType [InEnum [''NONE'', ''EXPOSED'',
        ''UNEXPOSED'']],
     Field ''EnableIPV6'' ''enableIPV6'' True BoolType [],
     Field ''EnableNodeToNodeEncrypt'' ''enableNodeToNodeEncrypt'' True BoolType [],
     Field ''EnableVolumeEncryption'' ''enableVolumeEncryption'' True BoolType [],
     Field ''EnableYCQL'' ''enableYCQL'' True BoolType [],
     Field ''EnableYCQLAuth'' ''enableYCQLAuth'' True BoolType [],
     Field ''EnableYEDIS'' ''enableYEDIS'' True BoolType [],
     Field ''EnableYSQL'' ''enableYSQL'' True BoolType [],
     Field ''EnableYSQLAuth'' ''enableYSQLAuth'' True BoolType [],
     Field ''InstanceTags'' ''instanceTags'' True (MapOf StringType) [],
     Field ''InstanceType'' ''instanceType'' True StringType [],
     Field ''MasterGFlags'' ''masterGFlags'' True (MapOf StringType) [],
     Field ''NumNodes'' ''numNodes'' True Int32Type [],
     Field ''PreferredRegion'' ''preferredRegion'' True UUIDType [HasFormat ''uuid''],
     Field ''Provider'' ''provider'' True StringType [],
     Field ''ProviderType'' ''providerType'' True StringType [InEnum [''unknown'', ''aws'', ''gcp'', ''azu'',
        ''docker'', ''onprem'', ''kubernetes'', ''local'', ''other'']],
     Field ''RegionList'' ''regionList'' False (Slice UUIDType) [],
     Field ''ReplicationFactor'' ''replicationFactor'' True Int32Type [],
     Field ''TserverGFlags'' ''tserverGFlags'' True (MapOf StringType) [],
     Field ''UniverseName'' ''universeName'' True StringType [],
     Field ''UseHostname'' ''useHostname'' True BoolType [],
     Field ''UseSystemd'' ''useSystemd'' True BoolType [],
     Field ''UseTimeSync'' ''useTimeSync'' True BoolType [],
     Field ''YbSoftwareVersion'' ''ybSoftwareVersion'' True StringType [],
     Field ''YcqlPassword'' ''ycqlPassword'' True StringType [],
     Field ''YsqlPassword'' ''ysqlPassword'' True StringType []]"

definition UserIntent_Validate :: "checks" where
  "UserIntent_Validate =
    [(''DeviceInfo'', [SkipZero, Nested ''deviceInfo'']),
     (''EnableExposingService'', [SkipZero, EnumCheck ''enableExposingService''
        userIntentTypeEnableExposingServicePropEnum False]),
     (''PreferredRegion'', [SkipZero, FormatOf ''preferredRegion'' ''uuid'']),
     (''ProviderType'', [SkipZero, EnumCheck ''providerType'' userIntentTypeProviderTypePropEnum False]),
     (''RegionList'', [SkipZero, Each [FormatOf ''regionList'' ''uuid'']])]"

definition UserIntent_ContextValidate :: "checks" where
  "UserIntent_ContextValidate =
    [(''DeviceInfo'', [Nested ''deviceInfo''])]"

lemma UserIntent_documented: "validates_documentation (''UserIntent'', UserIntent_struct, UserIntent_Validate, UserIntent_ContextValidate)"
  by code_simp

lemma UserIntent_named: "named_apart UserIntent_struct"
  unfolding UserIntent_struct_def named_apart_def list.map model_field.sel by code_simp

subsection \<open>XClusterConfig\<close>

definition xClusterConfigTypeStatusPropEnum :: "string list" where
  "xClusterConfigTypeStatusPropEnum =
    [''Init'', ''Running'', ''Updating'', ''Paused'', ''Failed'']"

definition XClusterConfig_struct :: "model_field list" where
  "XClusterConfig_struct =
    [Field ''CreateTime'' ''createTime'' True DateTimeType [HasFormat ''date-time''],
     Field ''ModifyTime'' ''modifyTime'' True DateTimeType [HasFormat ''date-time''],
     Field ''Name'' ''name'' True StringType [],
     Field ''SourceUniverseUUID'' ''sourceUniverseUUID'' True UUIDType [HasFormat ''uuid''],
     Field ''Status'' ''status'' True StringType [InEnum [''Init'', ''Running'', ''Updating'', ''Paused'',
        ''Failed'']],
     Field ''Tables'' ''tables'' False (Slice StringType) [IsUnique],
     Field ''TargetUniverseUUID'' ''targetUniverseUUID'' True UUIDType [HasFormat ''uuid''],
     Field ''UUID'' ''uuid'' True UUIDType [HasFormat ''uuid'']]"

definition XClusterConfig_Validate :: "checks" where
  "XClusterConfig_Validate =
    [(''CreateTime'', [SkipZero, FormatOf ''createTime'' ''date-time'']),
     (''ModifyTime'', [SkipZero, FormatOf ''modifyTime'' ''date-time'']),
     (''SourceUniverseUUID'', [SkipZero, FormatOf ''sourceUniverseUUID'' ''uuid'']),
     (''Status'', [SkipZero, EnumCheck ''status'' xClusterConfigTypeStatusPropEnum False]),
     (''Tables'', [SkipZero, UniqueItems ''tables'']),
     (''TargetUniverseUUID'', [SkipZero, FormatOf ''targetUniverseUUID'' ''uuid'']),
     (''UUID'', [SkipZero, FormatOf ''uuid'' ''uuid''])]"

definition XClusterConfig_ContextValidate :: "checks" where
  "XClusterConfig_ContextValidate = []"

lemma XClusterConfig_documented: "validates_documentation (''XClusterConfig'', XClusterConfig_struct, XClusterConfig_Validate, XClusterConfig_ContextValidate)"
  by code_simp

lemma XClusterConfig_named: "named_apart XClusterConfig_struct"
  unfolding XClusterConfig_struct_def named_apart_def list.map model_field.sel by code_simp

subsection \<open>XClusterConfigCreateFormData\<close>

definition XClusterConfigCreateFormData_struct :: "model_field list" where
  "XClusterConfigCreateFormData_struct =
    [Field ''Name'' ''name'' False (Pointer StringType) [IsRequired],
     Field ''SourceUniverseUUID'' ''sourceUniverseUUID'' False (Pointer UUIDType) [IsRequired, HasFormat ''uuid''],
     Field ''Tables'' ''tables'' False (Slice StringType) [IsRequired, IsUnique],
     Field ''TargetUniverseUUID'' ''targetUniverseUUID'' False (Pointer UUIDType) [IsRequired, HasFormat ''uuid'']]"

definition XClusterConfigCreateFormData_Validate :: "checks" where
  "XClusterConfigCreateFormData_Validate =
    [(''Name'', [Required ''name'']),
     (''SourceUniverseUUID'', [Required ''sourceUniverseUUID'', FormatOf ''sourceUniverseUUID'' ''uuid'']),
     (''Tables'', [Required ''tables'', UniqueItems ''tables'']),
     (''TargetUniverseUUID'', [Required ''targetUniverseUUID'', FormatOf ''targetUniverseUUID'' ''uuid''])]"

definition XClusterConfigCreateFormData_ContextValidate :: "checks" where
  "XClusterConfigCreateFormData_ContextValidate = []"

lemma XClusterConfigCreateFormData_documented: "validates_documentation (''XClusterConfigCreateFormData'', XClusterConfigCreateFormData_struct, XClusterConfigCreateFormData_Validate, XClusterConfigCreateFormData_ContextValidate)"
  by code_simp

lemma XClusterConfigCreateFormData_named: "named_apart XClusterConfigCreateFormData_struct"
  unfolding XClusterConfigCreateFormData_struct_def named_apart_def list.map model_field.sel by code_simp

subsection \<open>XClusterConfigEditFormData\<close>

definition xClusterConfigEditFormDataTypeStatusPropEnum :: "string list" where
  "xClusterConfigEditFormDataTypeStatusPropEnum =
    [''Running'', ''Paused'']"

definition XClusterConfigEditFormData_struct :: "model_field list" where
  "XClusterConfigEditFormData_struct =
    [Field ''Name'' ''name'' True StringType [],
     Field ''Status'' ''status'' True StringType [InEnum [''Running'', ''Paused'']],
     Field ''Tables'' ''tables'' False (Slice StringType) [IsUnique]]"

definition XClusterConfigEditFormData_Validate :: "checks" where
  "XClusterConfigEditFormData_Validate =
    [(''Status'', [SkipZero, EnumCheck ''status'' xClusterConfigEditFormDataTypeStatusPropEnum False]),
     (''Tables'', [SkipZero, UniqueItems ''tables''])]"

definition XClusterConfigEditFormData_ContextValidate :: "checks" where
  "XClusterConfigEditFormData_ContextValidate = []"

lemma XClusterConfigEditFormData_documented: "validates_documentation (''XClusterConfigEditFormData'', XClusterConfigEditFormData_struct, XClusterConfigEditFormData_Validate, XClusterConfigEditFormData_ContextValidate)"
  by code_simp

lemma XClusterConfigEditFormData_named: "named_apart XClusterConfigEditFormData_struct"
  unfolding XClusterConfigEditFormData_struct_def named_apart_def list.map model_field.sel by code_simp

subsection \<open>XClusterConfigGetResp\<close>

definition xClusterConfigGetRespTypeStatusPropEnum :: "string list" where
  "xClusterConfigGetRespTypeStatusPropEnum =
    [''Init'', ''Running'', ''Updating'', ''Paused'', ''Failed'']"

definition XClusterConfigGetResp_struct :: "model_field list" where
  "XClusterConfigGetResp_struct =
    [Field ''CreateTime'' ''createTime'' True DateTimeType [HasFormat ''date-time''],
     Field ''Lag'' ''lag'' False AnyType [IsRequired],
     Field ''ModifyTime'' ''modifyTime'' True DateTimeType [HasFormat ''date-time''],
     Field ''Name'' ''name'' True StringType [],
     Field ''SourceUniverseUUID'' ''sourceUniverseUUID'' True UUIDType [HasFormat ''uuid''],
     Field ''Status'' ''status'' True StringType [InEnum [''Init'', ''Running'', ''Updating'', ''Paused'',
        ''Failed'']],
     Field ''Tables'' ''tables'' False (Slice StringType) [IsUnique],
     Field ''TargetUniverseUUID'' ''targetUniverseUUID'' True UUIDType [HasFormat ''uuid''],
     Field ''UUID'' ''uuid'' True UUIDType [HasFormat ''uuid''],
     Field ''XclusterConfig'' ''xclusterConfig'' False (Pointer (Model ''XClusterConfig'')) [IsRequired]]"

definition XClusterConfigGetResp_Validate :: "checks" where
  "XClusterConfigGetResp_Validate =
    [(''CreateTime'', [SkipZero, FormatOf ''createTime'' ''date-time'']),
     (''Lag'', [NotNil ''lag'']),
     (''ModifyTime'', [SkipZero, FormatOf ''modifyTime'' ''date-time'']),
     (''SourceUniverseUUID'', [SkipZero, FormatOf ''sourceUniverseUUID'' ''uuid'']),
     (''Status'', [SkipZero, EnumCheck ''status'' xClusterConfigGetRespTypeStatusPropEnum False]),
     (''Tables'', [SkipZero, UniqueItems ''tables'']),
     (''TargetUniverseUUID'', [SkipZero, FormatOf ''targetUniverseUUID'' ''uuid'']),
     (''UUID'', [SkipZero, FormatOf ''uuid'' ''uuid'']),
     (''XclusterConfig'', [Required ''xclusterConfig'', Nested ''xclusterConfig''])]"

definition XClusterConfigGetResp_ContextValidate :: "checks" where
  "XClusterConfigGetResp_ContextValidate =
    [(''XclusterConfig'', [Nested ''xclusterConfig''])]"

lemma XClusterConfigGetResp_documented: "validates_documentation (''XClusterConfigGetResp'', XClusterConfigGetResp_struct, XClusterConfigGetResp_Validate, XClusterConfigGetResp_ContextValidate)"
  by code_simp

lemma XClusterConfigGetResp_named: "named_apart XClusterConfigGetResp_struct"
  unfolding XClusterConfigGetResp_struct_def named_apart_def list.map model_field.sel by code_simp

subsection \<open>The table\<close>

definition modelsUniverses :: "model_table" where
  "modelsUniverses =
    [(''AuditLoggingConfig'', AuditLoggingConfig_struct, AuditLoggingConfig_Validate,
        AuditLoggingConfig_ContextValidate),
     (''CloudSpecificInfo'', CloudSpecificInfo_struct, CloudSpecificInfo_Validate, CloudSpecificInfo_ContextValidate),
     (''Cluster'', Cluster_struct, Cluster_Validate, Cluster_ContextValidate),
     (''CommunicationPorts'', CommunicationPorts_struct, CommunicationPorts_Validate,
        CommunicationPorts_ContextValidate),
     (''DeviceInfo'', DeviceInfo_struct, DeviceInfo_Validate, DeviceInfo_ContextValidate),
     (''ExtraDependencies'', ExtraDependencies_struct, ExtraDependencies_Validate, ExtraDependencies_ContextValidate),
     (''MasterNode'', MasterNode_struct, MasterNode_Validate, MasterNode_ContextValidate),
     (''MastersList'', MastersList_struct, MastersList_Validate, MastersList_ContextValidate),
     (''MetricQueryParams'', MetricQueryParams_struct, MetricQueryParams_Validate, MetricQueryParams_ContextValidate),
     (''MetricSettings'', MetricSettings_struct, MetricSettings_Validate, MetricSettings_ContextValidate),
     (''NodeActionFormData'', NodeActionFormData_struct, NodeActionFormData_Validate,
        NodeActionFormData_ContextValidate),
     (''NodeDetails'', NodeDetails_struct, NodeDetails_Validate, NodeDetails_ContextValidate),
     (''NodeDetailsResp'', NodeDetailsResp_struct, NodeDetailsResp_Validate, NodeDetailsResp_ContextValidate),
     (''NodeInstance'', NodeInstance_struct, NodeInstance_Validate, NodeInstance_ContextValidate),
     (''NodeInstanceData'', NodeInstanceData_struct, NodeInstanceData_Validate, NodeInstanceData_ContextValidate),
     (''NodeInstanceFormData'', NodeInstanceFormData_struct, NodeInstanceFormData_Validate,
        NodeInstanceFormData_ContextValidate),
     (''PlacementAZ'', PlacementAZ_struct, PlacementAZ_Validate, PlacementAZ_ContextValidate),
     (''PlacementBlock'', PlacementBlock_struct, PlacementBlock_Validate, PlacementBlock_ContextValidate),
     (''PlacementCloud'', PlacementCloud_struct, PlacementCloud_Validate, PlacementCloud_ContextValidate),
     (''PlacementInfo'', PlacementInfo_struct, PlacementInfo_Validate, PlacementInfo_ContextValidate),
     (''PlacementRegion'', PlacementRegion_struct, PlacementRegion_Validate, PlacementRegion_ContextValidate),
     (''TriggerHealthCheckResult'', TriggerHealthCheckResult_struct, TriggerHealthCheckResult_Validate,
        TriggerHealthCheckResult_ContextValidate),
     (''UniverseDetailSubset'', UniverseDetailSubset_struct, UniverseDetailSubset_Validate,
        UniverseDetailSubset_ContextValidate),
     (''UniverseResourceDetails'', UniverseResourceDetails_struct, UniverseResourceDetails_Validate,
        UniverseResourceDetails_ContextValidate),
     (''UniverseResp'', UniverseResp_struct, UniverseResp_Validate, UniverseResp_ContextValidate),
     (''UserIntent'', UserIntent_struct, UserIntent_Validate, UserIntent_ContextValidate),
     (''XClusterConfig'', XClusterConfig_struct, XClusterConfig_Validate, XClusterConfig_ContextValidate),
     (''XClusterConfigCreateFormData'', XClusterConfigCreateFormData_struct, XClusterConfigCreateFormData_Validate,
        XClusterConfigCreateFormData_ContextValidate),
     (''XClusterConfigEditFormData'', XClusterConfigEditFormData_struct, XClusterConfigEditFormData_Validate,
        XClusterConfigEditFormData_ContextValidate),
     (''XClusterConfigGetResp'', XClusterConfigGetResp_struct, XClusterConfigGetResp_Validate,
        XClusterConfigGetResp_ContextValidate)]"

lemma modelsUniverses_documented: "list_all validates_documentation modelsUniverses"
  unfolding modelsUniverses_def list.pred_inject(2)
  by (intro conjI AuditLoggingConfig_documented CloudSpecificInfo_documented Cluster_documented CommunicationPorts_documented
      DeviceInfo_documented ExtraDependencies_documented MasterNode_documented MastersList_documented
      MetricQueryParams_documented MetricSettings_documented NodeActionFormData_documented
      NodeDetails_documented NodeDetailsResp_documented NodeInstance_documented NodeInstanceData_documented
      NodeInstanceFormData_documented PlacementAZ_documented PlacementBlock_documented
      PlacementCloud_documented PlacementInfo_documented PlacementRegion_documented
      TriggerHealthCheckResult_documented UniverseDetailSubset_documented UniverseResourceDetails_documented
      UniverseResp_documented UserIntent_documented XClusterConfig_documented
      XClusterConfigCreateFormData_documented XClusterConfigEditFormData_documented
      XClusterConfigGetResp_documented) simp

lemma modelsUniverses_named: "list_all (\<lambda>m. named_apart (fst (snd m))) modelsUniverses"
  unfolding modelsUniverses_def list.pred_inject(2) fst_conv snd_conv
  by (intro conjI AuditLoggingConfig_named CloudSpecificInfo_named Cluster_named CommunicationPorts_named DeviceInfo_named
      ExtraDependencies_named MasterNode_named MastersList_named MetricQueryParams_named
      MetricSettings_named NodeActionFormData_named NodeDetails_named NodeDetailsResp_named
      NodeInstance_named NodeInstanceData_named NodeInstanceFormData_named PlacementAZ_named
      PlacementBlock_named PlacementCloud_named PlacementInfo_named PlacementRegion_named
      TriggerHealthCheckResult_named UniverseDetailSubset_named UniverseResourceDetails_named
      UniverseResp_named UserIntent_named XClusterConfig_named XClusterConfigCreateFormData_named
      XClusterConfigEditFormData_named XClusterConfigGetResp_named) simp

end
