(* ===== verification/ModelsProviders.thy ===== *)
theory ModelsProviders
  imports ModelDocs ModelJson
begin

section \<open>API models: providers, regions, instances, keys and certificates\<close>

text \<open>
  The models of providers, regions, instances, keys and certificates, each with the values of its enumerations, its struct, its \<open>Validate\<close> and its
  \<open>ContextValidate\<close>, as \<open>SwaggerModels\<close> reads them. The lemma after a model checks that the methods
  hold the statements that the comments of the struct demand, and another that the names in JSON differ in more than case;
  the last definition is the table of them.
\<close>

subsection \<open>AccessKey\<close>

definition AccessKey_struct :: "model_field list" where
  "AccessKey_struct =
    [Field ''IDKey'' ''idKey'' False (Pointer (Model ''AccessKeyID'')) [IsRequired],
     Field ''KeyInfo'' ''keyInfo'' False (Pointer (Model ''KeyInfo'')) [IsRequired]]"

definition AccessKey_Validate :: "checks" where
  "AccessKey_Validate =
    [(''IDKey'', [Required ''idKey'', Nested ''idKey'']),
     (''KeyInfo'', [Required ''keyInfo'', Nested ''keyInfo''])]"

definition AccessKey_ContextValidate :: "checks" where
  "AccessKey_ContextValidate =
    [(''IDKey'', [Nested ''idKey'']),
     (''KeyInfo'', [Nested ''keyInfo''])]"

lemma AccessKey_documented: "validates_documentation (''AccessKey'', AccessKey_struct, AccessKey_Validate, AccessKey_ContextValidate)"
  by code_simp

lemma AccessKey_named: "named_apart AccessKey_struct"
  unfolding AccessKey_struct_def named_apart_def list.map model_field.sel by code_simp

subsection \<open>AccessKeyID\<close>

definition AccessKeyID_struct :: "model_field list" where
  "AccessKeyID_struct =
    [Field ''KeyCode'' ''keyCode'' True StringType [],
     Field ''ProviderUUID'' ''providerUUID'' True UUIDType [HasFormat ''uuid'']]"

definition AccessKeyID_Validate :: "checks" where
  "AccessKeyID_Validate =
    [(''ProviderUUID'', [SkipZero, FormatOf ''providerUUID'' ''uuid''])]"

definition AccessKeyID_ContextValidate :: "checks" where
  "AccessKeyID_ContextValidate = []"

lemma AccessKeyID_documented: "validates_documentation (''AccessKeyID'', AccessKeyID_struct, AccessKeyID_Validate, AccessKeyID_ContextValidate)"
  by code_simp

lemma AccessKeyID_named: "named_apart AccessKeyID_struct"
  unfolding AccessKeyID_struct_def named_apart_def list.map model_field.sel by code_simp

subsection \<open>AvailabilityZone\<close>

definition AvailabilityZone_struct :: "model_field list" where
  "AvailabilityZone_struct =
    [Field ''Active'' ''active'' True (Pointer BoolType) [IsReadOnly],
     Field ''Code'' ''code'' True StringType [],
     Field ''Config'' ''config'' True (MapOf StringType) [],
     Field ''KubeconfigPath'' ''kubeconfigPath'' True StringType [IsReadOnly],
     Field ''Name'' ''name'' False (Pointer StringType) [IsRequired],
     Field ''SecondarySubnet'' ''secondarySubnet'' True StringType [],
     Field ''Subnet'' ''subnet'' True StringType [],
     Field ''UUID'' ''uuid'' True UUIDType [IsReadOnly, HasFormat ''uuid'']]"

definition AvailabilityZone_Validate :: "checks" where
  "AvailabilityZone_Validate =
    [(''Name'', [Required ''name'']),
     (''UUID'', [SkipZero, FormatOf ''uuid'' ''uuid''])]"

definition AvailabilityZone_ContextValidate :: "checks" where
  "AvailabilityZone_ContextValidate =
    [(''Active'', [ReadOnly ''active'']),
     (''KubeconfigPath'', [ReadOnly ''kubeconfigPath'']),
     (''UUID'', [ReadOnly ''uuid''])]"

lemma AvailabilityZone_documented: "validates_documentation (''AvailabilityZone'', AvailabilityZone_struct, AvailabilityZone_Validate, AvailabilityZone_ContextValidate)"
  by code_simp

lemma AvailabilityZone_named: "named_apart AvailabilityZone_struct"
  unfolding AvailabilityZone_struct_def named_apart_def list.map model_field.sel by code_simp

subsection \<open>AvailabilityZoneData\<close>

definition AvailabilityZoneData_struct :: "model_field list" where
  "AvailabilityZoneData_struct =
    [Field ''Code'' ''code'' False (Pointer StringType) [IsRequired],
     Field ''Name'' ''name'' False (Pointer StringType) [IsRequired],
     Field ''Subnet'' ''subnet'' True StringType []]"

definition AvailabilityZoneData_Validate :: "checks" where
  "AvailabilityZoneData_Validate =
    [(''Code'', [Required ''code'']),
     (''Name'', [Required ''name''])]"

definition AvailabilityZoneData_ContextValidate :: "checks" where
  "AvailabilityZoneData_ContextValidate = []"

lemma AvailabilityZoneData_documented: "validates_documentation (''AvailabilityZoneData'', AvailabilityZoneData_struct, AvailabilityZoneData_Validate, AvailabilityZoneData_ContextValidate)"
  by code_simp

lemma AvailabilityZoneData_named: "named_apart AvailabilityZoneData_struct"
  unfolding AvailabilityZoneData_struct_def named_apart_def list.map model_field.sel by code_simp

subsection \<open>AvailabilityZoneFormData\<close>

definition AvailabilityZoneFormData_struct :: "model_field list" where
  "AvailabilityZoneFormData_struct =
    [Field ''AvailabilityZones'' ''availabilityZones'' False (Slice (Pointer (Model ''AvailabilityZoneData'')))
        [IsRequired]]"

definition AvailabilityZoneFormData_Validate :: "checks" where
  "AvailabilityZoneFormData_Validate =
    [(''AvailabilityZones'', [Required ''availabilityZones'', Each [SkipZero, Nested ''availabilityZones'']])]"

definition AvailabilityZoneFormData_ContextValidate :: "checks" where
  "AvailabilityZoneFormData_ContextValidate =
    [(''AvailabilityZones'', [Each [Nested ''availabilityZones'']])]"

lemma AvailabilityZoneFormData_documented: "validates_documentation (''AvailabilityZoneFormData'', AvailabilityZoneFormData_struct, AvailabilityZoneFormData_Validate, AvailabilityZoneFormData_ContextValidate)"
  by code_simp

lemma AvailabilityZoneFormData_named: "named_apart AvailabilityZoneFormData_struct"
  unfolding AvailabilityZoneFormData_struct_def named_apart_def list.map model_field.sel by code_simp

subsection \<open>CertificateDetails\<close>

definition CertificateDetails_struct :: "model_field list" where
  "CertificateDetails_struct =
    [Field ''YugabytedbCrt'' ''yugabytedb.crt'' True StringType [],
     Field ''YugabytedbKey'' ''yugabytedb.key'' True StringType []]"

definition CertificateDetails_Validate :: "checks" where
  "CertificateDetails_Validate = []"

definition CertificateDetails_ContextValidate :: "checks" where
  "CertificateDetails_ContextValidate = []"

lemma CertificateDetails_documented: "validates_documentation (''CertificateDetails'', CertificateDetails_struct, CertificateDetails_Validate, CertificateDetails_ContextValidate)"
  by code_simp

lemma CertificateDetails_named: "named_apart CertificateDetails_struct"
  unfolding CertificateDetails_struct_def named_apart_def list.map model_field.sel by code_simp

subsection \<open>CertificateInfo\<close>

definition certificateInfoTypeCertTypePropEnum :: "string list" where
  "certificateInfoTypeCertTypePropEnum =
    [''SelfSigned'', ''CustomCertHostPath'', ''CustomServerCert'', ''HashicorpVault'']"

definition CertificateInfo_struct :: "model_field list" where
  "CertificateInfo_struct =
    [Field ''CertType'' ''certType'' True StringType [InEnum [''SelfSigned'', ''CustomCertHostPath'',
        ''CustomServerCert'', ''HashicorpVault'']],
     Field ''Certificate'' ''certificate'' True StringType [],
     Field ''Checksum'' ''checksum'' True StringType [IsReadOnly],
     Field ''CustomCertPathParams'' ''customCertPathParams'' False (Pointer (Model ''CustomCertInfo'')) [IsRequired],
     Field ''CustomHCPKICertInfo'' ''customHCPKICertInfo'' False (Pointer (Model ''HashicorpVaultConfigParams''))
        [IsRequired],
     Field ''CustomServerCertInfo'' ''customServerCertInfo'' False (Pointer (Model ''CustomServerCertInfo''))
        [IsRequired],
     Field ''CustomerUUID'' ''customerUUID'' True UUIDType [HasFormat ''uuid''],
     Field ''ExpiryDate'' ''expiryDate'' True DateTimeType [HasFormat ''date-time''],
     Field ''InUse'' ''inUse'' True (Pointer BoolType) [IsReadOnly],
     Field ''Label'' ''label'' True StringType [],
     Field ''PrivateKey'' ''privateKey'' True StringType [],
     Field ''StartDate'' ''startDate'' True DateTimeType [HasFormat ''date-time''],
     Field ''UniverseDetails'' ''universeDetails'' False (Slice (Pointer (Model ''UniverseDetailSubset'')))
        [IsReadOnly],
     Field ''UUID'' ''uuid'' True UUIDType [IsReadOnly, HasFormat ''uuid'']]"

definition CertificateInfo_Validate :: "checks" where
  "CertificateInfo_Validate =
    [(''CertType'', [SkipZero, EnumCheck ''certType'' certificateInfoTypeCertTypePropEnum False]),
     (''CustomCertPathParams'', [Required ''customCertPathParams'', Nested ''customCertPathParams'']),
     (''CustomHCPKICertInfo'', [Required ''customHCPKICertInfo'', Nested ''customHCPKICertInfo'']),
     (''CustomServerCertInfo'', [Required ''customServerCertInfo'', Nested ''customServerCertInfo'']),
     (''CustomerUUID'', [SkipZero, FormatOf ''customerUUID'' ''uuid'']),
     (''ExpiryDate'', [SkipZero, FormatOf ''expiryDate'' ''date-time'']),
     (''StartDate'', [SkipZero, FormatOf ''startDate'' ''date-time'']),
     (''UniverseDetails'', [SkipZero, Each [SkipZero, Nested ''universeDetails'']]),
     (''UUID'', [SkipZero, FormatOf ''uuid'' ''uuid''])]"

definition CertificateInfo_ContextValidate :: "checks" where
  "CertificateInfo_ContextValidate =
    [(''Checksum'', [ReadOnly ''checksum'']),
     (''CustomCertPathParams'', [Nested ''customCertPathParams'']),
     (''CustomHCPKICertInfo'', [Nested ''customHCPKICertInfo'']),
     (''CustomServerCertInfo'', [Nested ''customServerCertInfo'']),
     (''InUse'', [ReadOnly ''inUse'']),
     (''UniverseDetails'', [ReadOnly ''universeDetails'', Each [Nested ''universeDetails'']]),
     (''UUID'', [ReadOnly ''uuid''])]"

lemma CertificateInfo_documented: "validates_documentation (''CertificateInfo'', CertificateInfo_struct, CertificateInfo_Validate, CertificateInfo_ContextValidate)"
  by code_simp

lemma CertificateInfo_named: "named_apart CertificateInfo_struct"
  unfolding CertificateInfo_struct_def named_apart_def list.map model_field.sel by code_simp

subsection \<open>CertificateParams\<close>

definition certificateParamsTypeCertTypePropEnum :: "string list" where
  "certificateParamsTypeCertTypePropEnum =
    [''SelfSigned'', ''CustomCertHostPath'', ''CustomServerCert'', ''HashicorpVault'']"

definition CertificateParams_struct :: "model_field list" where
  "CertificateParams_struct =
    [Field ''CertContent'' ''certContent'' False (Pointer StringType) [IsRequired],
     Field ''CertExpiry'' ''certExpiry'' False (Pointer Int64Type) [IsRequired],
     Field ''CertStart'' ''certStart'' False (Pointer Int64Type) [IsRequired],
     Field ''CertType'' ''certType'' False (Pointer StringType) [IsRequired, InEnum [''SelfSigned'',
        ''CustomCertHostPath'', ''CustomServerCert'', ''HashicorpVault'']],
     Field ''CustomCertInfo'' ''customCertInfo'' False (Pointer (Model ''CustomCertInfo'')) [IsRequired],
     Field ''CustomServerCertData'' ''customServerCertData'' False (Pointer (Model ''CustomServerCertData''))
        [IsRequired],
     Field ''HcVaultCertParams'' ''hcVaultCertParams'' False (Pointer (Model ''HashicorpVaultConfigParams''))
        [IsRequired],
     Field ''KeyContent'' ''keyContent'' False (Pointer StringType) [IsRequired],
     Field ''Label'' ''label'' False (Pointer StringType) [IsRequired]]"

definition CertificateParams_Validate :: "checks" where
  "CertificateParams_Validate =
    [(''CertContent'', [Required ''certContent'']),
     (''CertExpiry'', [Required ''certExpiry'']),
     (''CertStart'', [Required ''certStart'']),
     (''CertType'', [Required ''certType'', EnumCheck ''certType'' certificateParamsTypeCertTypePropEnum True]),
     (''CustomCertInfo'', [Required ''customCertInfo'', Nested ''customCertInfo'']),
     (''CustomServerCertData'', [Required ''customServerCertData'', Nested ''customServerCertData'']),
     (''HcVaultCertParams'', [Required ''hcVaultCertParams'', Nested ''hcVaultCertParams'']),
     (''KeyContent'', [Required ''keyContent'']),
     (''Label'', [Required ''label''])]"

definition CertificateParams_ContextValidate :: "checks" where
  "CertificateParams_ContextValidate =
    [(''CustomCertInfo'', [Nested ''customCertInfo'']),
     (''CustomServerCertData'', [Nested ''customServerCertData'']),
     (''HcVaultCertParams'', [Nested ''hcVaultCertParams''])]"

lemma CertificateParams_documented: "validates_documentation (''CertificateParams'', CertificateParams_struct, CertificateParams_Validate, CertificateParams_ContextValidate)"
  by code_simp

lemma CertificateParams_named: "named_apart CertificateParams_struct"
  unfolding CertificateParams_struct_def named_apart_def list.map model_field.sel by code_simp

subsection \<open>CertificateRoot\<close>

definition CertificateRoot_struct :: "model_field list" where
  "CertificateRoot_struct =
    [Field ''RootCrt'' ''root.crt'' True StringType []]"

definition CertificateRoot_Validate :: "checks" where
  "CertificateRoot_Validate = []"

definition CertificateRoot_ContextValidate :: "checks" where
  "CertificateRoot_ContextValidate = []"

lemma CertificateRoot_documented: "validates_documentation (''CertificateRoot'', CertificateRoot_struct, CertificateRoot_Validate, CertificateRoot_ContextValidate)"
  by code_simp

lemma CertificateRoot_named: "named_apart CertificateRoot_struct"
  unfolding CertificateRoot_struct_def named_apart_def list.map model_field.sel by code_simp

subsection \<open>ClientCertParams\<close>

definition ClientCertParams_struct :: "model_field list" where
  "ClientCertParams_struct =
    [Field ''CertExpiry'' ''certExpiry'' False (Pointer Int64Type) [IsRequired],
     Field ''CertStart'' ''certStart'' False (Pointer Int64Type) [IsRequired],
     Field ''Username'' ''username'' False (Pointer StringType) [IsRequired]]"

definition ClientCertParams_Validate :: "checks" where
  "ClientCertParams_Validate =
    [(''CertExpiry'', [Required ''certExpiry'']),
     (''CertStart'', [Required ''certStart'']),
     (''Username'', [Required ''username''])]"

definition ClientCertParams_ContextValidate :: "checks" where
  "ClientCertParams_ContextValidate = []"

lemma ClientCertParams_documented: "validates_documentation (''ClientCertParams'', ClientCertParams_struct, ClientCertParams_Validate, ClientCertParams_ContextValidate)"
  by code_simp

lemma ClientCertParams_named: "named_apart ClientCertParams_struct"
  unfolding ClientCertParams_struct_def named_apart_def list.map model_field.sel by code_simp

subsection \<open>CustomCertInfo\<close>

definition CustomCertInfo_struct :: "model_field list" where
  "CustomCertInfo_struct =
    [Field ''ClientCertPath'' ''clientCertPath'' False (Pointer StringType) [IsRequired],
     Field ''ClientKeyPath'' ''clientKeyPath'' False (Pointer StringType) [IsRequired],
     Field ''NodeCertPath'' ''nodeCertPath'' False (Pointer StringType) [IsRequired],
     Field ''NodeKeyPath'' ''nodeKeyPath'' False (Pointer StringType) [IsRequired],
     Field ''RootCertPath'' ''rootCertPath'' False (Pointer StringType) [IsRequired]]"

definition CustomCertInfo_Validate :: "checks" where
  "CustomCertInfo_Validate =
    [(''ClientCertPath'', [Required ''clientCertPath'']),
     (''ClientKeyPath'', [Required ''clientKeyPath'']),
     (''NodeCertPath'', [Required ''nodeCertPath'']),
     (''NodeKeyPath'', [Required ''nodeKeyPath'']),
     (''RootCertPath'', [Required ''rootCertPath''])]"

definition CustomCertInfo_ContextValidate :: "checks" where
  "CustomCertInfo_ContextValidate = []"

lemma CustomCertInfo_documented: "validates_documentation (''CustomCertInfo'', CustomCertInfo_struct, CustomCertInfo_Validate, CustomCertInfo_ContextValidate)"
  by code_simp

lemma CustomCertInfo_named: "named_apart CustomCertInfo_struct"
  unfolding CustomCertInfo_struct_def named_apart_def list.map model_field.sel by code_simp

subsection \<open>CustomServerCertData\<close>

definition CustomServerCertData_struct :: "model_field list" where
  "CustomServerCertData_struct =
    [Field ''ServerCertContent'' ''serverCertContent'' False (Pointer StringType) [IsRequired],
     Field ''ServerKeyContent'' ''serverKeyContent'' False (Pointer StringType) [IsRequired]]"

definition CustomServerCertData_Validate :: "checks" where
  "CustomServerCertData_Validate =
    [(''ServerCertContent'', [Required ''serverCertContent'']),
     (''ServerKeyContent'', [Required ''serverKeyContent''])]"

definition CustomServerCertData_ContextValidate :: "checks" where
  "CustomServerCertData_ContextValidate = []"

lemma CustomServerCertData_documented: "validates_documentation (''CustomServerCertData'', CustomServerCertData_struct, CustomServerCertData_Validate, CustomServerCertData_ContextValidate)"
  by code_simp

lemma CustomServerCertData_named: "named_apart CustomServerCertData_struct"
  unfolding CustomServerCertData_struct_def named_apart_def list.map model_field.sel by code_simp

subsection \<open>CustomServerCertInfo\<close>

definition CustomServerCertInfo_struct :: "model_field list" where
  "CustomServerCertInfo_struct =
    [Field ''ServerCert'' ''serverCert'' False (Pointer StringType) [IsRequired],
     Field ''ServerKey'' ''serverKey'' False (Pointer StringType) [IsRequired]]"

definition CustomServerCertInfo_Validate :: "checks" where
  "CustomServerCertInfo_Validate =
    [(''ServerCert'', [Required ''serverCert'']),
     (''ServerKey'', [Required ''serverKey''])]"

definition CustomServerCertInfo_ContextValidate :: "checks" where
  "CustomServerCertInfo_ContextValidate = []"

lemma CustomServerCertInfo_documented: "validates_documentation (''CustomServerCertInfo'', CustomServerCertInfo_struct, CustomServerCertInfo_Validate, CustomServerCertInfo_ContextValidate)"
  by code_simp

lemma CustomServerCertInfo_named: "named_apart CustomServerCertInfo_struct"
  unfolding CustomServerCertInfo_struct_def named_apart_def list.map model_field.sel by code_simp

subsection \<open>HashicorpVaultConfigParams\<close>

definition HashicorpVaultConfigParams_struct :: "model_field list" where
  "HashicorpVaultConfigParams_struct =
    [Field ''Engine'' ''engine'' False (Pointer StringType) [IsRequired],
     Field ''MountPath'' ''mountPath'' False (Pointer StringType) [IsRequired],
     Field ''Role'' ''role'' False (Pointer StringType) [IsRequired],
     Field ''TTL'' ''ttl'' True Int64Type [],
     Field ''TTLExpiry'' ''ttlExpiry'' True Int64Type [],
     Field ''VaultAddr'' ''vaultAddr'' False (Pointer StringType) [IsRequired],
     Field ''VaultToken'' ''vaultToken'' False (Pointer StringType) [IsRequired]]"

definition HashicorpVaultConfigParams_Validate :: "checks" where
  "HashicorpVaultConfigParams_Validate =
    [(''Engine'', [Required ''engine'']),
     (''MountPath'', [Required ''mountPath'']),
     (''Role'', [Required ''role'']),
     (''VaultAddr'', [Required ''vaultAddr'']),
     (''VaultToken'', [Required ''vaultToken''])]"

definition HashicorpVaultConfigParams_ContextValidate :: "checks" where
  "HashicorpVaultConfigParams_ContextValidate = []"

lemma HashicorpVaultConfigParams_documented: "validates_documentation (''HashicorpVaultConfigParams'', HashicorpVaultConfigParams_struct, HashicorpVaultConfigParams_Validate, HashicorpVaultConfigParams_ContextValidate)"
  by code_simp

lemma HashicorpVaultConfigParams_named: "named_apart HashicorpVaultConfigParams_struct"
  unfolding HashicorpVaultConfigParams_struct_def named_apart_def list.map model_field.sel by code_simp

subsection \<open>InstanceType\<close>

definition InstanceType_struct :: "model_field list" where
  "InstanceType_struct =
    [Field ''Active'' ''active'' True (Pointer BoolType) [IsReadOnly],
     Field ''IDKey'' ''idKey'' False (Pointer (Model ''InstanceTypeKey'')) [IsRequired],
     Field ''InstanceTypeCode'' ''instanceTypeCode'' False (Pointer StringType) [IsRequired],
     Field ''InstanceTypeDetails'' ''instanceTypeDetails'' False (Pointer (Model ''InstanceTypeDetails''))
        [IsRequired],
     Field ''MemSizeGB'' ''memSizeGB'' True FloatType [],
     Field ''NumCores'' ''numCores'' True FloatType [],
     Field ''Provider'' ''provider'' False (Pointer (Model ''Provider'')) [IsRequired],
     Field ''ProviderCode'' ''providerCode'' False (Pointer StringType) [IsRequired],
     Field ''ProviderUUID'' ''providerUuid'' False (Pointer UUIDType) [IsRequired, HasFormat ''uuid'']]"

definition InstanceType_Validate :: "checks" where
  "InstanceType_Validate =
    [(''IDKey'', [Required ''idKey'', Nested ''idKey'']),
     (''InstanceTypeCode'', [Required ''instanceTypeCode'']),
     (''InstanceTypeDetails'', [Required ''instanceTypeDetails'', Nested ''instanceTypeDetails'']),
     (''Provider'', [Required ''provider'', Nested ''provider'']),
     (''ProviderCode'', [Required ''providerCode'']),
     (''ProviderUUID'', [Required ''providerUuid'', FormatOf ''providerUuid'' ''uuid''])]"

definition InstanceType_ContextValidate :: "checks" where
  "InstanceType_ContextValidate =
    [(''Active'', [ReadOnly ''active'']),
     (''IDKey'', [Nested ''idKey'']),
     (''InstanceTypeDetails'', [Nested ''instanceTypeDetails'']),
     (''Provider'', [Nested ''provider''])]"

lemma InstanceType_documented: "validates_documentation (''InstanceType'', InstanceType_struct, InstanceType_Validate, InstanceType_ContextValidate)"
  by code_simp

lemma InstanceType_named: "named_apart InstanceType_struct"
  unfolding InstanceType_struct_def named_apart_def list.map model_field.sel by code_simp

subsection \<open>InstanceTypeDetails\<close>

definition instanceTypeDetailsTypeTenancyPropEnum :: "string list" where
  "instanceTypeDetailsTypeTenancyPropEnum =
    [''Shared'', ''Dedicated'', ''Host'']"

definition InstanceTypeDetails_struct :: "model_field list" where
  "InstanceTypeDetails_struct =
    [Field ''Tenancy'' ''tenancy'' False (Pointer StringType) [IsRequired, InEnum [''Shared'', ''Dedicated'',
        ''Host'']],
     Field ''VolumeDetailsList'' ''volumeDetailsList'' False (Slice (Pointer (Model ''VolumeDetails''))) [IsRequired]]"

definition InstanceTypeDetails_Validate :: "checks" where
  "InstanceTypeDetails_Validate =
    [(''Tenancy'', [Required ''tenancy'', EnumCheck ''tenancy'' instanceTypeDetailsTypeTenancyPropEnum True]),
     (''VolumeDetailsList'', [Required ''volumeDetailsList'', Each [SkipZero, Nested ''volumeDetailsList'']])]"

definition InstanceTypeDetails_ContextValidate :: "checks" where
  "InstanceTypeDetails_ContextValidate =
    [(''VolumeDetailsList'', [Each [Nested ''volumeDetailsList'']])]"

lemma InstanceTypeDetails_documented: "validates_documentation (''InstanceTypeDetails'', InstanceTypeDetails_struct, InstanceTypeDetails_Validate, InstanceTypeDetails_ContextValidate)"
  by code_simp

lemma InstanceTypeDetails_named: "named_apart InstanceTypeDetails_struct"
  unfolding InstanceTypeDetails_struct_def named_apart_def list.map model_field.sel by code_simp

subsection \<open>InstanceTypeKey\<close>

definition InstanceTypeKey_struct :: "model_field list" where
  "InstanceTypeKey_struct =
    [Field ''InstanceTypeCode'' ''instanceTypeCode'' False (Pointer StringType) [IsRequired],
     Field ''ProviderUUID'' ''providerUuid'' False (Pointer UUIDType) [IsRequired, HasFormat ''uuid'']]"

definition InstanceTypeKey_Validate :: "checks" where
  "InstanceTypeKey_Validate =
    [(''InstanceTypeCode'', [Required ''instanceTypeCode'']),
     (''ProviderUUID'', [Required ''providerUuid'', FormatOf ''providerUuid'' ''uuid''])]"

definition InstanceTypeKey_ContextValidate :: "checks" where
  "InstanceTypeKey_ContextValidate = []"

lemma InstanceTypeKey_documented: "validates_documentation (''InstanceTypeKey'', InstanceTypeKey_struct, InstanceTypeKey_Validate, InstanceTypeKey_ContextValidate)"
  by code_simp

lemma InstanceTypeKey_named: "named_apart InstanceTypeKey_struct"
  unfolding InstanceTypeKey_struct_def named_apart_def list.map model_field.sel by code_simp

subsection \<open>KeyInfo\<close>

definition KeyInfo_struct :: "model_field list" where
  "KeyInfo_struct =
    [Field ''AirGapInstall'' ''airGapInstall'' True BoolType [],
     Field ''DeleteRemote'' ''deleteRemote'' True BoolType [],
     Field ''InstallNodeExporter'' ''installNodeExporter'' True BoolType [],
     Field ''NodeExporterPort'' ''nodeExporterPort'' True Int32Type [],
     Field ''NodeExporterUser'' ''nodeExporterUser'' True StringType [],
     Field ''NtpServers'' ''ntpServers'' False (Slice StringType) [],
     Field ''PasswordlessSudoAccess'' ''passwordlessSudoAccess'' True BoolType [],
     Field ''PrivateKey'' ''privateKey'' True StringType [],
     Field ''ProvisionInstanceScript'' ''provisionInstanceScript'' True StringType [],
     Field ''PublicKey'' ''publicKey'' True StringType [],
     Field ''SetUpChrony'' ''setUpChrony'' True BoolType [],
     Field ''ShowSetUpChrony'' ''showSetUpChrony'' True BoolType [],
     Field ''SkipProvisioning'' ''skipProvisioning'' True BoolType [],
     Field ''SSHPort'' ''sshPort'' True Int32Type [],
     Field ''SSHUser'' ''sshUser'' True StringType [],
     Field ''VaultFile'' ''vaultFile'' True StringType [],
     Field ''VaultPasswordFile'' ''vaultPasswordFile'' True StringType []]"

definition KeyInfo_Validate :: "checks" where
  "KeyInfo_Validate = []"

definition KeyInfo_ContextValidate :: "checks" where
  "KeyInfo_ContextValidate = []"

lemma KeyInfo_documented: "validates_documentation (''KeyInfo'', KeyInfo_struct, KeyInfo_Validate, KeyInfo_ContextValidate)"
  by code_simp

lemma KeyInfo_named: "named_apart KeyInfo_struct"
  unfolding KeyInfo_struct_def named_apart_def list.map model_field.sel by code_simp

subsection \<open>Package\<close>

definition packageTypeArchPropEnum :: "string list" where
  "packageTypeArchPropEnum =
    [''x86_64'', ''arm64'']"

definition Package_struct :: "model_field list" where
  "Package_struct =
    [Field ''Arch'' ''arch'' True StringType [InEnum [''x86_64'', ''arm64'']],
     Field ''Path'' ''path'' True StringType []]"

definition Package_Validate :: "checks" where
  "Package_Validate =
    [(''Arch'', [SkipZero, EnumCheck ''arch'' packageTypeArchPropEnum False])]"

definition Package_ContextValidate :: "checks" where
  "Package_ContextValidate = []"

lemma Package_documented: "validates_documentation (''Package'', Package_struct, Package_Validate, Package_ContextValidate)"
  by code_simp

lemma Package_named: "named_apart Package_struct"
  unfolding Package_struct_def named_apart_def list.map model_field.sel by code_simp

subsection \<open>PackagePaths\<close>

definition PackagePaths_struct :: "model_field list" where
  "PackagePaths_struct =
    [Field ''X8664'' ''x86_64'' True StringType [],
     Field ''X8664Checksum'' ''x86_64_checksum'' True StringType []]"

definition PackagePaths_Validate :: "checks" where
  "PackagePaths_Validate = []"

definition PackagePaths_ContextValidate :: "checks" where
  "PackagePaths_ContextValidate = []"

lemma PackagePaths_documented: "validates_documentation (''PackagePaths'', PackagePaths_struct, PackagePaths_Validate, PackagePaths_ContextValidate)"
  by code_simp

lemma PackagePaths_named: "named_apart PackagePaths_struct"
  unfolding PackagePaths_struct_def named_apart_def list.map model_field.sel by code_simp

subsection \<open>Provider\<close>

definition Provider_struct :: "model_field list" where
  "Provider_struct =
    [Field ''Active'' ''active'' True (Pointer BoolType) [IsReadOnly],
     Field ''AirGapInstall'' ''airGapInstall'' True BoolType [],
     Field ''Code'' ''code'' True StringType [],
     Field ''Config'' ''config'' True (MapOf StringType) [],
     Field ''CustomHostCidrs'' ''customHostCidrs'' False (Slice StringType) [],
     Field ''CustomerUUID'' ''customerUUID'' True UUIDType [IsReadOnly, HasFormat ''uuid''],
     Field ''DestVpcID'' ''destVpcId'' True StringType [],
     Field ''HostVpcID'' ''hostVpcId'' True StringType [],
     Field ''HostVpcRegion'' ''hostVpcRegion'' True StringType [],
     Field ''HostedZoneID'' ''hostedZoneId'' True StringType [],
     Field ''HostedZoneName'' ''hostedZoneName'' True StringType [],
     Field ''KeyPairName'' ''keyPairName'' True StringType [],
     Field ''Name'' ''name'' True StringType [],
     Field ''NtpServers'' ''ntpServers'' False (Slice StringType) [],
     Field ''OverrideKeyValidate'' ''overrideKeyValidate'' True BoolType [],
     Field ''Regions'' ''regions'' False (Slice (Pointer (Model ''Region''))) [IsRequired],
     Field ''SetUpChrony'' ''setUpChrony'' True BoolType [],
     Field ''ShowSetUpChrony'' ''showSetUpChrony'' True BoolType [],
     Field ''SSHPort'' ''sshPort'' True Int32Type [],
     Field ''SSHPrivateKeyContent'' ''sshPrivateKeyContent'' True StringType [],
     Field ''SSHUser'' ''sshUser'' True StringType [],
     Field ''UUID'' ''uuid'' True UUIDType [IsReadOnly, HasFormat ''uuid'']]"

definition Provider_Validate :: "checks" where
  "Provider_Validate =
    [(''CustomerUUID'', [SkipZero, FormatOf ''customerUUID'' ''uuid'']),
     (''Regions'', [Required ''regions'', Each [SkipZero, Nested ''regions'']]),
     (''UUID'', [SkipZero, FormatOf ''uuid'' ''uuid''])]"

definition Provider_ContextValidate :: "checks" where
  "Provider_ContextValidate =
    [(''Active'', [ReadOnly ''active'']),
     (''CustomerUUID'', [ReadOnly ''customerUUID'']),
     (''Regions'', [Each [Nested ''regions'']]),
     (''UUID'', [ReadOnly ''uuid''])]"

lemma Provider_documented: "validates_documentation (''Provider'', Provider_struct, Provider_Validate, Provider_ContextValidate)"
  by code_simp

lemma Provider_named: "named_apart Provider_struct"
  unfolding Provider_struct_def named_apart_def list.map model_field.sel by code_simp

subsection \<open>Region\<close>

definition regionTypeArchitecturePropEnum :: "string list" where
  "regionTypeArchitecturePropEnum =
    [''x86_64'', ''arm64'']"

definition Region_struct :: "model_field list" where
  "Region_struct =
    [Field ''Active'' ''active'' True (Pointer BoolType) [IsReadOnly],
     Field ''Architecture'' ''architecture'' True StringType [InEnum [''x86_64'', ''arm64'']],
     Field ''Code'' ''code'' True StringType [],
     Field ''Config'' ''config'' True (MapOf StringType) [],
     Field ''Latitude'' ''latitude'' True FloatType [IsReadOnly],
     Field ''Longitude'' ''longitude'' True FloatType [IsReadOnly],
     Field ''Name'' ''name'' True StringType [IsReadOnly],
     Field ''SecurityGroupID'' ''securityGroupId'' True StringType [],
     Field ''UUID'' ''uuid'' True UUIDType [IsReadOnly, HasFormat ''uuid''],
     Field ''VnetName'' ''vnetName'' True StringType [],
     Field ''YbImage'' ''ybImage'' True StringType [],
     Field ''Zones'' ''zones'' False (Slice (Pointer (Model ''AvailabilityZone''))) [IsRequired]]"

definition Region_Validate :: "checks" where
  "Region_Validate =
    [(''Architecture'', [SkipZero, EnumCheck ''architecture'' regionTypeArchitecturePropEnum False]),
     (''UUID'', [SkipZero, FormatOf ''uuid'' ''uuid'']),
     (''Zones'', [Required ''zones'', Each [SkipZero, Nested ''zones'']])]"

definition Region_ContextValidate :: "checks" where
  "Region_ContextValidate =
    [(''Active'', [ReadOnly ''active'']),
     (''Latitude'', [ReadOnly ''latitude'']),
     (''Longitude'', [ReadOnly ''longitude'']),
     (''Name'', [ReadOnly ''name'']),
     (''UUID'', [ReadOnly ''uuid'']),
     (''Zones'', [Each [Nested ''zones'']])]"

lemma Region_documented: "validates_documentation (''Region'', Region_struct, Region_Validate, Region_ContextValidate)"
  by code_simp

lemma Region_named: "named_apart Region_struct"
  unfolding Region_struct_def named_apart_def list.map model_field.sel by code_simp

subsection \<open>RegionFormData\<close>

definition RegionFormData_struct :: "model_field list" where
  "RegionFormData_struct =
    [Field ''Code'' ''code'' False (Pointer StringType) [IsRequired],
     Field ''DestVpcID'' ''destVpcId'' False (Pointer StringType) [IsRequired],
     Field ''HostVpcID'' ''hostVpcId'' False (Pointer StringType) [IsRequired],
     Field ''HostVpcRegion'' ''hostVpcRegion'' False (Pointer StringType) [IsRequired],
     Field ''Latitude'' ''latitude'' False (Pointer FloatType) [IsRequired],
     Field ''Longitude'' ''longitude'' False (Pointer FloatType) [IsRequired],
     Field ''Name'' ''name'' False (Pointer StringType) [IsRequired],
     Field ''YbImage'' ''ybImage'' False (Pointer StringType) [IsRequired]]"

definition RegionFormData_Validate :: "checks" where
  "RegionFormData_Validate =
    [(''Code'', [Required ''code'']),
     (''DestVpcID'', [Required ''destVpcId'']),
     (''HostVpcID'', [Required ''hostVpcId'']),
     (''HostVpcRegion'', [Required ''hostVpcRegion'']),
     (''Latitude'', [Required ''latitude'']),
     (''Longitude'', [Required ''longitude'']),
     (''Name'', [Required ''name'']),
     (''YbImage'', [Required ''ybImage''])]"

definition RegionFormData_ContextValidate :: "checks" where
  "RegionFormData_ContextValidate = []"

lemma RegionFormData_documented: "validates_documentation (''RegionFormData'', RegionFormData_struct, RegionFormData_Validate, RegionFormData_ContextValidate)"
  by code_simp

lemma RegionFormData_named: "named_apart RegionFormData_struct"
  unfolding RegionFormData_struct_def named_apart_def list.map model_field.sel by code_simp

subsection \<open>RegionLocations\<close>

definition RegionLocations_struct :: "model_field list" where
  "RegionLocations_struct =
    [Field ''LOCATION'' ''LOCATION'' False (Pointer StringType) [IsRequired],
     Field ''REGION'' ''REGION'' False (Pointer StringType) [IsRequired]]"

definition RegionLocations_Validate :: "checks" where
  "RegionLocations_Validate =
    [(''LOCATION'', [Required ''LOCATION'']),
     (''REGION'', [Required ''REGION''])]"

definition RegionLocations_ContextValidate :: "checks" where
  "RegionLocations_ContextValidate = []"

lemma RegionLocations_documented: "validates_documentation (''RegionLocations'', RegionLocations_struct, RegionLocations_Validate, RegionLocations_ContextValidate)"
  by code_simp

lemma RegionLocations_named: "named_apart RegionLocations_struct"
  unfolding RegionLocations_struct_def named_apart_def list.map model_field.sel by code_simp

subsection \<open>VolumeDetails\<close>

definition volumeDetailsTypeVolumeTypePropEnum :: "string list" where
  "volumeDetailsTypeVolumeTypePropEnum =
    [''EBS'', ''SSD'', ''HDD'', ''NVME'']"

definition VolumeDetails_struct :: "model_field list" where
  "VolumeDetails_struct =
    [Field ''MountPath'' ''mountPath'' False (Pointer StringType) [IsRequired],
     Field ''VolumeSizeGB'' ''volumeSizeGB'' False (Pointer Int32Type) [IsRequired],
     Field ''VolumeType'' ''volumeType'' False (Pointer StringType) [IsRequired, InEnum [''EBS'', ''SSD'', ''HDD'',
        ''NVME'']]]"

definition VolumeDetails_Validate :: "checks" where
  "VolumeDetails_Validate =
    [(''MountPath'', [Required ''mountPath'']),
     (''VolumeSizeGB'', [Required ''volumeSizeGB'']),
     (''VolumeType'', [Required ''volumeType'', EnumCheck ''volumeType'' volumeDetailsTypeVolumeTypePropEnum True])]"

definition VolumeDetails_ContextValidate :: "checks" where
  "VolumeDetails_ContextValidate = []"

lemma VolumeDetails_documented: "validates_documentation (''VolumeDetails'', VolumeDetails_struct, VolumeDetails_Validate, VolumeDetails_ContextValidate)"
  by code_simp

lemma VolumeDetails_named: "named_apart VolumeDetails_struct"
  unfolding VolumeDetails_struct_def named_apart_def list.map model_field.sel by code_simp

subsection \<open>The table\<close>

definition modelsProviders :: "model_table" where
  "modelsProviders =
    [(''AccessKey'', AccessKey_struct, AccessKey_Validate, AccessKey_ContextValidate),
     (''AccessKeyID'', AccessKeyID_struct, AccessKeyID_Validate, AccessKeyID_ContextValidate),
     (''AvailabilityZone'', AvailabilityZone_struct, AvailabilityZone_Validate, AvailabilityZone_ContextValidate),
     (''AvailabilityZoneData'', AvailabilityZoneData_struct, AvailabilityZoneData_Validate,
        AvailabilityZoneData_ContextValidate),
     (''AvailabilityZoneFormData'', AvailabilityZoneFormData_struct, AvailabilityZoneFormData_Validate,
        AvailabilityZoneFormData_ContextValidate),
     (''CertificateDetails'', CertificateDetails_struct, CertificateDetails_Validate,
        CertificateDetails_ContextValidate),
     (''CertificateInfo'', CertificateInfo_struct, CertificateInfo_Validate, CertificateInfo_ContextValidate),
     (''CertificateParams'', CertificateParams_struct, CertificateParams_Validate, CertificateParams_ContextValidate),
     (''CertificateRoot'', CertificateRoot_struct, CertificateRoot_Validate, CertificateRoot_ContextValidate),
     (''ClientCertParams'', ClientCertParams_struct, ClientCertParams_Validate, ClientCertParams_ContextValidate),
     (''CustomCertInfo'', CustomCertInfo_struct, CustomCertInfo_Validate, CustomCertInfo_ContextValidate),
     (''CustomServerCertData'', CustomServerCertData_struct, CustomServerCertData_Validate,
        CustomServerCertData_ContextValidate),
     (''CustomServerCertInfo'', CustomServerCertInfo_struct, CustomServerCertInfo_Validate,
        CustomServerCertInfo_ContextValidate),
     (''HashicorpVaultConfigParams'', HashicorpVaultConfigParams_struct, HashicorpVaultConfigParams_Validate,
        HashicorpVaultConfigParams_ContextValidate),
     (''InstanceType'', InstanceType_struct, InstanceType_Validate, InstanceType_ContextValidate),
     (''InstanceTypeDetails'', InstanceTypeDetails_struct, InstanceTypeDetails_Validate,
        InstanceTypeDetails_ContextValidate),
     (''InstanceTypeKey'', InstanceTypeKey_struct, InstanceTypeKey_Validate, InstanceTypeKey_ContextValidate),
     (''KeyInfo'', KeyInfo_struct, KeyInfo_Validate, KeyInfo_ContextValidate),
     (''Package'', Package_struct, Package_Validate, Package_ContextValidate),
     (''PackagePaths'', PackagePaths_struct, PackagePaths_Validate, PackagePaths_ContextValidate),
     (''Provider'', Provider_struct, Provider_Validate, Provider_ContextValidate),
     (''Region'', Region_struct, Region_Validate, Region_ContextValidate),
     (''RegionFormData'', RegionFormData_struct, RegionFormData_Validate, RegionFormData_ContextValidate),
     (''RegionLocations'', RegionLocations_struct, RegionLocations_Validate, RegionLocations_ContextValidate),
     (''VolumeDetails'', VolumeDetails_struct, VolumeDetails_Validate, VolumeDetails_ContextValidate)]"

lemma modelsProviders_documented: "list_all validates_documentation modelsProviders"
  unfolding modelsProviders_def list.pred_inject(2)
  by (intro conjI AccessKey_documented AccessKeyID_documented AvailabilityZone_documented AvailabilityZoneData_documented
      AvailabilityZoneFormData_documented CertificateDetails_documented CertificateInfo_documented
      CertificateParams_documented CertificateRoot_documented ClientCertParams_documented
      CustomCertInfo_documented CustomServerCertData_documented CustomServerCertInfo_documented
      HashicorpVaultConfigParams_documented InstanceType_documented InstanceTypeDetails_documented
      InstanceTypeKey_documented KeyInfo_documented Package_documented PackagePaths_documented
      Provider_documented Region_documented RegionFormData_documented RegionLocations_documented
      VolumeDetails_documented) simp

lemma modelsProviders_named: "list_all (\<lambda>m. named_apart (fst (snd m))) modelsProviders"
  unfolding modelsProviders_def list.pred_inject(2) fst_conv snd_conv
  by (intro conjI AccessKey_named AccessKeyID_named AvailabilityZone_named AvailabilityZoneData_named
      AvailabilityZoneFormData_named CertificateDetails_named CertificateInfo_named CertificateParams_named
      CertificateRoot_named ClientCertParams_named CustomCertInfo_named CustomServerCertData_named
      CustomServerCertInfo_named HashicorpVaultConfigParams_named InstanceType_named
      InstanceTypeDetails_named InstanceTypeKey_named KeyInfo_named Package_named PackagePaths_named
      Provider_named Region_named RegionFormData_named RegionLocations_named VolumeDetails_named) simp

end
