(* ===== verification/ModelsAccounts.thy ===== *)
theory ModelsAccounts
  imports ModelDocs ModelJson
begin

section \<open>API models: customers, users, configuration and the rest\<close>

text \<open>
  The models of customers, users, configuration and the rest, each with the values of its enumerations, its struct, its \<open>Validate\<close> and its
  \<open>ContextValidate\<close>, as \<open>SwaggerModels\<close> reads them. The lemma after a model checks that the methods
  hold the statements that the comments of the struct demand, and another that the names in JSON differ in more than case;
  the last definition is the table of them.
\<close>

subsection \<open>Audit\<close>

definition auditTypeActionPropEnum :: "string list" where
  "auditTypeActionPropEnum =
    [''Set'', ''Create'', ''Edit'', ''Update'', ''Delete'', ''Register'', ''Refresh'', ''Upload'', ''Upgrade'',
     ''Import'', ''Pause'', ''Resume'', ''Restart'', ''Abort'', ''Retry'', ''Restore'', ''Alter'', ''Drop'', ''Stop'',
     ''Validate'', ''Acknowledge'', ''SyncXClusterConfig'', ''Login'', ''Promote'', ''Bootstrap'', ''Configure'',
     ''RefreshPricing'', ''UpgradeSoftware'', ''UpgradeGFlags'', ''UpgradeCerts'', ''UpgradeTLS'', ''UpgradeVmImage'',
     ''UpgradeSystemd'', ''ResizeNode'', ''AddMetrics'', ''CreateKubernetes'', ''SetupDocker'', ''RetrieveKmsKey'',
     ''RemoveKmsKeyReferenceHistory'', ''UpsertCustomerFeatures'', ''CreateSelfSignedCert'',
     ''UpdateEmptyCustomerCertificate'', ''GetRootCertificate'', ''AddClientCertificate'', ''SetDBCredentials'',
     ''CreateUserInDB'', ''SetHelm3Compatible'', ''SetBackupFlag'', ''SetUniverseKey'', ''ResetUniverseVersion'',
     ''ConfigUniverseAlert'', ''ToggleTls'', ''TlsConfigUpdate'', ''UpdateDiskSize'', ''CreateCluster'',
     ''DeleteCluster'', ''CreateAllClusters'', ''UpdatePrimaryCluster'', ''UpdateReadOnlyCluster'',
     ''CreateReadOnlyCluster'', ''DeleteReadOnlyCluster'', ''RunYsqlQuery'', ''BulkImport'', ''CreateBackup'',
     ''RestoreBackup'', ''CreateSingleTableBackup'', ''CreateMultiTableBackup'', ''CreateBackupSchedule'',
     ''EditBackupSchedule'', ''StartPeriodicBackup'', ''StopPeriodicBackup'', ''DetachedNodeInstanceAction'',
     ''NodeInstanceAction'', ''DeleteBackupSchedule'', ''ChangeUserRole'', ''ChangeUserPassword'', ''SetSecurity'',
     ''GenerateApiToken'', ''ResetSlowQueries'', ''ExternalScriptSchedule'', ''StopScheduledScript'',
     ''UpdateScheduledScript'', ''CreateInstanceType'', ''DeleteInstanceType'', ''GetUniverseResources'',
     ''ThirdpartySoftwareUpgrade'', ''CreateTableSpaces'']"

definition auditTypeTargetPropEnum :: "string list" where
  "auditTypeTargetPropEnum =
    [''Session'', ''CloudProvider'', ''Region'', ''AvailabilityZone'', ''CustomerConfig'', ''KMSConfig'', ''Customer'',
     ''Release'', ''Certificate'', ''Alert'', ''AlertChannel'', ''AlertDestination'', ''MaintenanceWindow'',
     ''AccessKey'', ''Universe'', ''XClusterConfig'', ''Table'', ''Backup'', ''CustomerTask'', ''NodeInstance'',
     ''PlatformInstance'', ''Schedule'', ''User'', ''LoggingConfig'', ''RuntimeConfigKey'', ''HAConfig'',
     ''HABackup'', ''ScheduledScript'', ''SupportBundle'', ''GFlags'']"

definition Audit_struct :: "model_field list" where
  "Audit_struct =
    [Field ''Action'' ''action'' True StringType [IsReadOnly, InEnum [''Set'', ''Create'', ''Edit'', ''Update'',
        ''Delete'', ''Register'', ''Refresh'', ''Upload'', ''Upgrade'', ''Import'', ''Pause'', ''Resume'',
        ''Restart'', ''Abort'', ''Retry'', ''Restore'', ''Alter'', ''Drop'', ''Stop'', ''Validate'',
        ''Acknowledge'', ''SyncXClusterConfig'', ''Login'', ''Promote'', ''Bootstrap'', ''Configure'',
        ''RefreshPricing'', ''UpgradeSoftware'', ''UpgradeGFlags'', ''UpgradeCerts'', ''UpgradeTLS'',
        ''UpgradeVmImage'', ''UpgradeSystemd'', ''ResizeNode'', ''AddMetrics'', ''CreateKubernetes'',
        ''SetupDocker'', ''RetrieveKmsKey'', ''RemoveKmsKeyReferenceHistory'', ''UpsertCustomerFeatures'',
        ''CreateSelfSignedCert'', ''UpdateEmptyCustomerCertificate'', ''GetRootCertificate'',
        ''AddClientCertificate'', ''SetDBCredentials'', ''CreateUserInDB'', ''SetHelm3Compatible'',
        ''SetBackupFlag'', ''SetUniverseKey'', ''ResetUniverseVersion'', ''ConfigUniverseAlert'', ''ToggleTls'',
        ''TlsConfigUpdate'', ''UpdateDiskSize'', ''CreateCluster'', ''DeleteCluster'', ''CreateAllClusters'',
        ''UpdatePrimaryCluster'', ''UpdateReadOnlyCluster'', ''CreateReadOnlyCluster'',
        ''DeleteReadOnlyCluster'', ''RunYsqlQuery'', ''BulkImport'', ''CreateBackup'', ''RestoreBackup'',
        ''CreateSingleTableBackup'', ''CreateMultiTableBackup'', ''CreateBackupSchedule'',
        ''EditBackupSchedule'', ''StartPeriodicBackup'', ''StopPeriodicBackup'', ''DetachedNodeInstanceAction'',
        ''NodeInstanceAction'', ''DeleteBackupSchedule'', ''ChangeUserRole'', ''ChangeUserPassword'',
        ''SetSecurity'', ''GenerateApiToken'', ''ResetSlowQueries'', ''ExternalScriptSchedule'',
        ''StopScheduledScript'', ''UpdateScheduledScript'', ''CreateInstanceType'', ''DeleteInstanceType'',
        ''GetUniverseResources'', ''ThirdpartySoftwareUpgrade'', ''CreateTableSpaces'']],
     Field ''AdditionalDetails'' ''additionalDetails'' True AnyType [IsReadOnly],
     Field ''APICall'' ''apiCall'' True StringType [IsReadOnly],
     Field ''APIMethod'' ''apiMethod'' True StringType [IsReadOnly],
     Field ''AuditID'' ''auditID'' False (Pointer Int64Type) [IsRequired],
     Field ''CustomerUUID'' ''customerUUID'' True UUIDType [IsReadOnly, HasFormat ''uuid''],
     Field ''Payload'' ''payload'' True AnyType [IsReadOnly],
     Field ''Target'' ''target'' True StringType [IsReadOnly, InEnum [''Session'', ''CloudProvider'', ''Region'',
        ''AvailabilityZone'', ''CustomerConfig'', ''KMSConfig'', ''Customer'', ''Release'', ''Certificate'',
        ''Alert'', ''AlertChannel'', ''AlertDestination'', ''MaintenanceWindow'', ''AccessKey'', ''Universe'',
        ''XClusterConfig'', ''Table'', ''Backup'', ''CustomerTask'', ''NodeInstance'', ''PlatformInstance'',
        ''Schedule'', ''User'', ''LoggingConfig'', ''RuntimeConfigKey'', ''HAConfig'', ''HABackup'',
        ''ScheduledScript'', ''SupportBundle'', ''GFlags'']],
     Field ''TargetID'' ''targetID'' True StringType [IsReadOnly],
     Field ''TaskUUID'' ''taskUUID'' True UUIDType [IsReadOnly, HasFormat ''uuid''],
     Field ''Timestamp'' ''timestamp'' False (Pointer DateTimeType) [IsRequired, HasFormat ''date-time''],
     Field ''UserEmail'' ''userEmail'' True StringType [IsReadOnly],
     Field ''UserUUID'' ''userUUID'' True UUIDType [IsReadOnly, HasFormat ''uuid'']]"

definition Audit_Validate :: "checks" where
  "Audit_Validate =
    [(''Action'', [SkipZero, EnumCheck ''action'' auditTypeActionPropEnum False]),
     (''AuditID'', [Required ''auditID'']),
     (''CustomerUUID'', [SkipZero, FormatOf ''customerUUID'' ''uuid'']),
     (''Target'', [SkipZero, EnumCheck ''target'' auditTypeTargetPropEnum False]),
     (''TaskUUID'', [SkipZero, FormatOf ''taskUUID'' ''uuid'']),
     (''Timestamp'', [Required ''timestamp'', FormatOf ''timestamp'' ''date-time'']),
     (''UserUUID'', [SkipZero, FormatOf ''userUUID'' ''uuid''])]"

definition Audit_ContextValidate :: "checks" where
  "Audit_ContextValidate =
    [(''Action'', [ReadOnly ''action'']),
     (''APICall'', [ReadOnly ''apiCall'']),
     (''APIMethod'', [ReadOnly ''apiMethod'']),
     (''CustomerUUID'', [ReadOnly ''customerUUID'']),
     (''Target'', [ReadOnly ''target'']),
     (''TargetID'', [ReadOnly ''targetID'']),
     (''TaskUUID'', [ReadOnly ''taskUUID'']),
     (''UserEmail'', [ReadOnly ''userEmail'']),
     (''UserUUID'', [ReadOnly ''userUUID''])]"

lemma Audit_documented: "validates_documentation (''Audit'', Audit_struct, Audit_Validate, Audit_ContextValidate)"
  by code_simp

lemma Audit_named: "named_apart Audit_struct"
  unfolding Audit_struct_def named_apart_def list.map model_field.sel by code_simp

subsection \<open>BundleDetails\<close>

definition bundleDetailsComponentsItemsEnum :: "string list" where
  "bundleDetailsComponentsItemsEnum =
    [''UniverseLogs'', ''ApplicationLogs'', ''OutputFiles'', ''ErrorFiles'', ''GFlags'', ''Instance'', ''ConsensusMeta'',
     ''TabletMeta'']"

definition BundleDetails_struct :: "model_field list" where
  "BundleDetails_struct =
    [Field ''Components'' ''components'' False (Slice StringType) [IsRequired, ItemsIn
        bundleDetailsComponentsItemsEnum]]"

definition BundleDetails_Validate :: "checks" where
  "BundleDetails_Validate =
    [(''Components'', [Required ''components'', Each [EnumCheck ''components'' bundleDetailsComponentsItemsEnum
        False]])]"

definition BundleDetails_ContextValidate :: "checks" where
  "BundleDetails_ContextValidate = []"

lemma BundleDetails_documented: "validates_documentation (''BundleDetails'', BundleDetails_struct, BundleDetails_Validate, BundleDetails_ContextValidate)"
  by code_simp

lemma BundleDetails_named: "named_apart BundleDetails_struct"
  unfolding BundleDetails_struct_def named_apart_def list.map model_field.sel by code_simp

subsection \<open>ConfigEntry\<close>

definition ConfigEntry_struct :: "model_field list" where
  "ConfigEntry_struct =
    [Field ''Inherited'' ''inherited'' True BoolType [],
     Field ''Key'' ''key'' True StringType [],
     Field ''Value'' ''value'' True StringType []]"

definition ConfigEntry_Validate :: "checks" where
  "ConfigEntry_Validate = []"

definition ConfigEntry_ContextValidate :: "checks" where
  "ConfigEntry_ContextValidate = []"

lemma ConfigEntry_documented: "validates_documentation (''ConfigEntry'', ConfigEntry_struct, ConfigEntry_Validate, ConfigEntry_ContextValidate)"
  by code_simp

lemma ConfigEntry_named: "named_apart ConfigEntry_struct"
  unfolding ConfigEntry_struct_def named_apart_def list.map model_field.sel by code_simp

subsection \<open>Customer\<close>

definition Customer_struct :: "model_field list" where
  "Customer_struct =
    [Field ''Code'' ''code'' False (Pointer StringType) [IsRequired],
     Field ''CreationDate'' ''creationDate'' True DateTimeType [IsReadOnly, HasFormat ''date-time''],
     Field ''CustomerID'' ''customerId'' True Int64Type [IsReadOnly],
     Field ''Name'' ''name'' False (Pointer StringType) [IsRequired],
     Field ''UniverseUUIDs'' ''universeUUIDs'' False (Slice UUIDType) [IsReadOnly, IsUnique],
     Field ''UUID'' ''uuid'' True UUIDType [IsReadOnly, HasFormat ''uuid'']]"

definition Customer_Validate :: "checks" where
  "Customer_Validate =
    [(''Code'', [Required ''code'']),
     (''CreationDate'', [SkipZero, FormatOf ''creationDate'' ''date-time'']),
     (''Name'', [Required ''name'']),
     (''UniverseUUIDs'', [SkipZero, UniqueItems ''universeUUIDs'', Each [FormatOf ''universeUUIDs'' ''uuid'']]),
     (''UUID'', [SkipZero, FormatOf ''uuid'' ''uuid''])]"

definition Customer_ContextValidate :: "checks" where
  "Customer_ContextValidate =
    [(''CreationDate'', [ReadOnly ''creationDate'']),
     (''CustomerID'', [ReadOnly ''customerId'']),
     (''UniverseUUIDs'', [ReadOnly ''universeUUIDs'']),
     (''UUID'', [ReadOnly ''uuid''])]"

lemma Customer_documented: "validates_documentation (''Customer'', Customer_struct, Customer_Validate, Customer_ContextValidate)"
  by code_simp

lemma Customer_named: "named_apart Customer_struct"
  unfolding Customer_struct_def named_apart_def list.map model_field.sel by code_simp

subsection \<open>CustomerAlertData\<close>

definition CustomerAlertData_struct :: "model_field list" where
  "CustomerAlertData_struct =
    [Field ''AlertingData'' ''alertingData'' False (Pointer (Model ''AlertingData'')) [IsRequired],
     Field ''CallhomeLevel'' ''callhomeLevel'' False (Pointer StringType) [IsRequired],
     Field ''Code'' ''code'' True StringType [],
     Field ''ConfirmPassword'' ''confirmPassword'' True StringType [],
     Field ''Email'' ''email'' True StringType [],
     Field ''Features'' ''features'' True (MapOf AnyType) [],
     Field ''Name'' ''name'' True StringType [],
     Field ''Password'' ''password'' True StringType [],
     Field ''SMTPData'' ''smtpData'' False (Pointer (Model ''SMTPData'')) [IsRequired]]"

definition CustomerAlertData_Validate :: "checks" where
  "CustomerAlertData_Validate =
    [(''AlertingData'', [Required ''alertingData'', Nested ''alertingData'']),
     (''CallhomeLevel'', [Required ''callhomeLevel'']),
     (''SMTPData'', [Required ''smtpData'', Nested ''smtpData''])]"

definition CustomerAlertData_ContextValidate :: "checks" where
  "CustomerAlertData_ContextValidate =
    [(''AlertingData'', [Nested ''alertingData'']),
     (''SMTPData'', [Nested ''smtpData''])]"

lemma CustomerAlertData_documented: "validates_documentation (''CustomerAlertData'', CustomerAlertData_struct, CustomerAlertData_Validate, CustomerAlertData_ContextValidate)"
  by code_simp

lemma CustomerAlertData_named: "named_apart CustomerAlertData_struct"
  unfolding CustomerAlertData_struct_def named_apart_def list.map model_field.sel by code_simp

subsection \<open>CustomerConfig\<close>

definition customerConfigTypeStatePropEnum :: "string list" where
  "customerConfigTypeStatePropEnum =
    [''Active'', ''QueuedForDeletion'']"

definition customerConfigTypeTypePropEnum :: "string list" where
  "customerConfigTypeTypePropEnum =
    [''STORAGE'', ''ALERTS'', ''CALLHOME'', ''PASSWORD_POLICY'', ''OTHER'']"

definition CustomerConfig_struct :: "model_field list" where
  "CustomerConfig_struct =
    [Field ''ConfigName'' ''configName'' False (Pointer StringType) [IsRequired, MaxLen 100, MinLen 1],
     Field ''ConfigUUID'' ''configUUID'' True UUIDType [IsReadOnly, HasFormat ''uuid''],
     Field ''CustomerUUID'' ''customerUUID'' False UUIDType [IsRequired, IsReadOnly, HasFormat ''uuid''],
     Field ''Data'' ''data'' False AnyType [IsRequired],
     Field ''Name'' ''name'' False (Pointer StringType) [IsRequired, MaxLen 50, MinLen 1],
     Field ''State'' ''state'' True StringType [IsReadOnly, InEnum [''Active'', ''QueuedForDeletion'']],
     Field ''Type'' ''type'' False (Pointer StringType) [IsRequired, InEnum [''STORAGE'', ''ALERTS'', ''CALLHOME'',
        ''PASSWORD_POLICY'', ''OTHER'']]]"

definition CustomerConfig_Validate :: "checks" where
  "CustomerConfig_Validate =
    [(''ConfigName'', [Required ''configName'', MinLength ''configName'' 1 True, MaxLength ''configName'' 100 True]),
     (''ConfigUUID'', [SkipZero, FormatOf ''configUUID'' ''uuid'']),
     (''CustomerUUID'', [Required ''customerUUID'', FormatOf ''customerUUID'' ''uuid'']),
     (''Data'', [NotNil ''data'']),
     (''Name'', [Required ''name'', MinLength ''name'' 1 True, MaxLength ''name'' 50 True]),
     (''State'', [SkipZero, EnumCheck ''state'' customerConfigTypeStatePropEnum False]),
     (''Type'', [Required ''type'', EnumCheck ''type'' customerConfigTypeTypePropEnum True])]"

definition CustomerConfig_ContextValidate :: "checks" where
  "CustomerConfig_ContextValidate =
    [(''ConfigUUID'', [ReadOnly ''configUUID'']),
     (''CustomerUUID'', [ReadOnly ''customerUUID'']),
     (''State'', [ReadOnly ''state''])]"

lemma CustomerConfig_documented: "validates_documentation (''CustomerConfig'', CustomerConfig_struct, CustomerConfig_Validate, CustomerConfig_ContextValidate)"
  by code_simp

lemma CustomerConfig_named: "named_apart CustomerConfig_struct"
  unfolding CustomerConfig_struct_def named_apart_def list.map model_field.sel by code_simp

subsection \<open>CustomerConfigUI\<close>

definition customerConfigUiTypeStatePropEnum :: "string list" where
  "customerConfigUiTypeStatePropEnum =
    [''Active'', ''QueuedForDeletion'']"

definition customerConfigUiTypeTypePropEnum :: "string list" where
  "customerConfigUiTypeTypePropEnum =
    [''STORAGE'', ''ALERTS'', ''CALLHOME'', ''PASSWORD_POLICY'', ''OTHER'']"

definition CustomerConfigUI_struct :: "model_field list" where
  "CustomerConfigUI_struct =
    [Field ''ConfigName'' ''configName'' False (Pointer StringType) [IsRequired, MaxLen 100, MinLen 1],
     Field ''ConfigUUID'' ''configUUID'' True UUIDType [IsReadOnly, HasFormat ''uuid''],
     Field ''CustomerUUID'' ''customerUUID'' False UUIDType [IsRequired, IsReadOnly, HasFormat ''uuid''],
     Field ''Data'' ''data'' False AnyType [IsRequired],
     Field ''InUse'' ''inUse'' True (Pointer BoolType) [IsReadOnly],
     Field ''Name'' ''name'' False (Pointer StringType) [IsRequired, MaxLen 50, MinLen 1],
     Field ''State'' ''state'' True StringType [IsReadOnly, InEnum [''Active'', ''QueuedForDeletion'']],
     Field ''Type'' ''type'' False (Pointer StringType) [IsRequired, InEnum [''STORAGE'', ''ALERTS'', ''CALLHOME'',
        ''PASSWORD_POLICY'', ''OTHER'']],
     Field ''UniverseDetails'' ''universeDetails'' False (Slice (Pointer (Model ''UniverseDetailSubset''))) []]"

definition CustomerConfigUI_Validate :: "checks" where
  "CustomerConfigUI_Validate =
    [(''ConfigName'', [Required ''configName'', MinLength ''configName'' 1 True, MaxLength ''configName'' 100 True]),
     (''ConfigUUID'', [SkipZero, FormatOf ''configUUID'' ''uuid'']),
     (''CustomerUUID'', [Required ''customerUUID'', FormatOf ''customerUUID'' ''uuid'']),
     (''Data'', [NotNil ''data'']),
     (''Name'', [Required ''name'', MinLength ''name'' 1 True, MaxLength ''name'' 50 True]),
     (''State'', [SkipZero, EnumCheck ''state'' customerConfigUiTypeStatePropEnum False]),
     (''Type'', [Required ''type'', EnumCheck ''type'' customerConfigUiTypeTypePropEnum True]),
     (''UniverseDetails'', [SkipZero, Each [SkipZero, Nested ''universeDetails'']])]"

definition CustomerConfigUI_ContextValidate :: "checks" where
  "CustomerConfigUI_ContextValidate =
    [(''ConfigUUID'', [ReadOnly ''configUUID'']),
     (''CustomerUUID'', [ReadOnly ''customerUUID'']),
     (''InUse'', [ReadOnly ''inUse'']),
     (''State'', [ReadOnly ''state'']),
     (''UniverseDetails'', [Each [Nested ''universeDetails'']])]"

lemma CustomerConfigUI_documented: "validates_documentation (''CustomerConfigUI'', CustomerConfigUI_struct, CustomerConfigUI_Validate, CustomerConfigUI_ContextValidate)"
  by code_simp

lemma CustomerConfigUI_named: "named_apart CustomerConfigUI_struct"
  unfolding CustomerConfigUI_struct_def named_apart_def list.map model_field.sel by code_simp

subsection \<open>CustomerCountResp\<close>

definition CustomerCountResp_struct :: "model_field list" where
  "CustomerCountResp_struct =
    [Field ''Count'' ''count'' False (Pointer Int32Type) [IsRequired]]"

definition CustomerCountResp_Validate :: "checks" where
  "CustomerCountResp_Validate =
    [(''Count'', [Required ''count''])]"

definition CustomerCountResp_ContextValidate :: "checks" where
  "CustomerCountResp_ContextValidate = []"

lemma CustomerCountResp_documented: "validates_documentation (''CustomerCountResp'', CustomerCountResp_struct, CustomerCountResp_Validate, CustomerCountResp_ContextValidate)"
  by code_simp

lemma CustomerCountResp_named: "named_apart CustomerCountResp_struct"
  unfolding CustomerCountResp_struct_def named_apart_def list.map model_field.sel by code_simp

subsection \<open>CustomerDetailsData\<close>

definition CustomerDetailsData_struct :: "model_field list" where
  "CustomerDetailsData_struct =
    [Field ''AlertingData'' ''alertingData'' True (Pointer (Model ''AlertingData'')) [IsReadOnly],
     Field ''CallhomeLevel'' ''callhomeLevel'' True StringType [IsReadOnly],
     Field ''Code'' ''code'' False (Pointer StringType) [IsRequired],
     Field ''CreationDate'' ''creationDate'' True DateTimeType [IsReadOnly, HasFormat ''date-time''],
     Field ''CustomerID'' ''customerId'' True Int32Type [IsReadOnly],
     Field ''Name'' ''name'' False (Pointer StringType) [IsRequired],
     Field ''SMTPData'' ''smtpData'' True (Pointer (Model ''SMTPData'')) [IsReadOnly],
     Field ''UniverseUUIDs'' ''universeUUIDs'' False (Slice UUIDType) [IsReadOnly],
     Field ''UUID'' ''uuid'' True StringType [IsReadOnly]]"

definition CustomerDetailsData_Validate :: "checks" where
  "CustomerDetailsData_Validate =
    [(''AlertingData'', [SkipZero, Nested ''alertingData'']),
     (''Code'', [Required ''code'']),
     (''CreationDate'', [SkipZero, FormatOf ''creationDate'' ''date-time'']),
     (''Name'', [Required ''name'']),
     (''SMTPData'', [SkipZero, Nested ''smtpData'']),
     (''UniverseUUIDs'', [SkipZero, Each [FormatOf ''universeUUIDs'' ''uuid'']])]"

definition CustomerDetailsData_ContextValidate :: "checks" where
  "CustomerDetailsData_ContextValidate =
    [(''AlertingData'', [Nested ''alertingData'']),
     (''CallhomeLevel'', [ReadOnly ''callhomeLevel'']),
     (''CreationDate'', [ReadOnly ''creationDate'']),
     (''CustomerID'', [ReadOnly ''customerId'']),
     (''SMTPData'', [Nested ''smtpData'']),
     (''UniverseUUIDs'', [ReadOnly ''universeUUIDs'']),
     (''UUID'', [ReadOnly ''uuid''])]"

lemma CustomerDetailsData_documented: "validates_documentation (''CustomerDetailsData'', CustomerDetailsData_struct, CustomerDetailsData_Validate, CustomerDetailsData_ContextValidate)"
  by code_simp

lemma CustomerDetailsData_named: "named_apart CustomerDetailsData_struct"
  unfolding CustomerDetailsData_struct_def named_apart_def list.map model_field.sel by code_simp

subsection \<open>CustomerRegisterFormData\<close>

definition CustomerRegisterFormData_struct :: "model_field list" where
  "CustomerRegisterFormData_struct =
    [Field ''Code'' ''code'' False (Pointer StringType) [IsRequired],
     Field ''Email'' ''email'' False (Pointer StringType) [IsRequired],
     Field ''Name'' ''name'' False (Pointer StringType) [IsRequired],
     Field ''Password'' ''password'' False (Pointer StringType) [IsRequired]]"

definition CustomerRegisterFormData_Validate :: "checks" where
  "CustomerRegisterFormData_Validate =
    [(''Code'', [Required ''code'']),
     (''Email'', [Required ''email'']),
     (''Name'', [Required ''name'']),
     (''Password'', [Required ''password''])]"

definition CustomerRegisterFormData_ContextValidate :: "checks" where
  "CustomerRegisterFormData_ContextValidate = []"

lemma CustomerRegisterFormData_documented: "validates_documentation (''CustomerRegisterFormData'', CustomerRegisterFormData_struct, CustomerRegisterFormData_Validate, CustomerRegisterFormData_ContextValidate)"
  by code_simp

lemma CustomerRegisterFormData_named: "named_apart CustomerRegisterFormData_struct"
  unfolding CustomerRegisterFormData_struct_def named_apart_def list.map model_field.sel by code_simp

subsection \<open>CustomerTaskData\<close>

definition CustomerTaskData_struct :: "model_field list" where
  "CustomerTaskData_struct =
    [Field ''Abortable'' ''abortable'' True BoolType [],
     Field ''CompletionTime'' ''completionTime'' True DateTimeType [HasFormat ''date-time''],
     Field ''CreateTime'' ''createTime'' True DateTimeType [HasFormat ''date-time''],
     Field ''ID'' ''id'' True UUIDType [HasFormat ''uuid''],
     Field ''PercentComplete'' ''percentComplete'' True Int32Type [],
     Field ''Retryable'' ''retryable'' True BoolType [],
     Field ''Status'' ''status'' True StringType [],
     Field ''Target'' ''target'' True StringType [],
     Field ''TargetUUID'' ''targetUUID'' True UUIDType [HasFormat ''uuid''],
     Field ''Title'' ''title'' True StringType [],
     Field ''Type'' ''type'' True StringType [],
     Field ''TypeName'' ''typeName'' True StringType []]"

definition CustomerTaskData_Validate :: "checks" where
  "CustomerTaskData_Validate =
    [(''CompletionTime'', [SkipZero, FormatOf ''completionTime'' ''date-time'']),
     (''CreateTime'', [SkipZero, FormatOf ''createTime'' ''date-time'']),
     (''ID'', [SkipZero, FormatOf ''id'' ''uuid'']),
     (''TargetUUID'', [SkipZero, FormatOf ''targetUUID'' ''uuid''])]"

definition CustomerTaskData_ContextValidate :: "checks" where
  "CustomerTaskData_ContextValidate = []"

lemma CustomerTaskData_documented: "validates_documentation (''CustomerTaskData'', CustomerTaskData_struct, CustomerTaskData_Validate, CustomerTaskData_ContextValidate)"
  by code_simp

lemma CustomerTaskData_named: "named_apart CustomerTaskData_struct"
  unfolding CustomerTaskData_struct_def named_apart_def list.map model_field.sel by code_simp

subsection \<open>DummyBody\<close>

definition DummyBody_struct :: "model_field list" where
  "DummyBody_struct =
    [Field ''Dummy'' ''dummy'' True Int32Type []]"

definition DummyBody_Validate :: "checks" where
  "DummyBody_Validate = []"

definition DummyBody_ContextValidate :: "checks" where
  "DummyBody_ContextValidate = []"

lemma DummyBody_documented: "validates_documentation (''DummyBody'', DummyBody_struct, DummyBody_Validate, DummyBody_ContextValidate)"
  by code_simp

lemma DummyBody_named: "named_apart DummyBody_struct"
  unfolding DummyBody_struct_def named_apart_def list.map model_field.sel by code_simp

subsection \<open>LogData\<close>

definition LogData_struct :: "model_field list" where
  "LogData_struct =
    [Field ''Lines'' ''lines'' False (Slice StringType) [IsRequired]]"

definition LogData_Validate :: "checks" where
  "LogData_Validate =
    [(''Lines'', [Required ''lines''])]"

definition LogData_ContextValidate :: "checks" where
  "LogData_ContextValidate = []"

lemma LogData_documented: "validates_documentation (''LogData'', LogData_struct, LogData_Validate, LogData_ContextValidate)"
  by code_simp

lemma LogData_named: "named_apart LogData_struct"
  unfolding LogData_struct_def named_apart_def list.map model_field.sel by code_simp

subsection \<open>PlatformLoggingConfig\<close>

definition platformLoggingConfigTypeLevelPropEnum :: "string list" where
  "platformLoggingConfigTypeLevelPropEnum =
    [''ERROR'', ''WARN'', ''INFO'', ''DEBUG'', ''TRACE'']"

definition PlatformLoggingConfig_struct :: "model_field list" where
  "PlatformLoggingConfig_struct =
    [Field ''Level'' ''level'' False (Pointer StringType) [IsRequired, InEnum [''ERROR'', ''WARN'', ''INFO'',
        ''DEBUG'', ''TRACE'']],
     Field ''MaxHistory'' ''maxHistory'' False (Pointer Int32Type) [IsRequired, AtLeast 0],
     Field ''RolloverPattern'' ''rolloverPattern'' False (Pointer StringType) [IsRequired]]"

definition PlatformLoggingConfig_Validate :: "checks" where
  "PlatformLoggingConfig_Validate =
    [(''Level'', [Required ''level'', EnumCheck ''level'' platformLoggingConfigTypeLevelPropEnum True]),
     (''MaxHistory'', [Required ''maxHistory'', MinimumInt ''maxHistory'' 0 True]),
     (''RolloverPattern'', [Required ''rolloverPattern''])]"

definition PlatformLoggingConfig_ContextValidate :: "checks" where
  "PlatformLoggingConfig_ContextValidate = []"

lemma PlatformLoggingConfig_documented: "validates_documentation (''PlatformLoggingConfig'', PlatformLoggingConfig_struct, PlatformLoggingConfig_Validate, PlatformLoggingConfig_ContextValidate)"
  by code_simp

lemma PlatformLoggingConfig_named: "named_apart PlatformLoggingConfig_struct"
  unfolding PlatformLoggingConfig_struct_def named_apart_def list.map model_field.sel by code_simp

subsection \<open>ReleaseFormData\<close>

definition ReleaseFormData_struct :: "model_field list" where
  "ReleaseFormData_struct =
    [Field ''Gcs'' ''gcs'' False (Pointer (Model ''GCSLocation'')) [IsRequired],
     Field ''HTTP'' ''http'' False (Pointer (Model ''HTTPLocation'')) [IsRequired],
     Field ''S3'' ''s3'' False (Pointer (Model ''S3Location'')) [IsRequired],
     Field ''Version'' ''version'' False (Pointer StringType) [IsRequired]]"

definition ReleaseFormData_Validate :: "checks" where
  "ReleaseFormData_Validate =
    [(''Gcs'', [Required ''gcs'', Nested ''gcs'']),
     (''HTTP'', [Required ''http'', Nested ''http'']),
     (''S3'', [Required ''s3'', Nested ''s3'']),
     (''Version'', [Required ''version''])]"

definition ReleaseFormData_ContextValidate :: "checks" where
  "ReleaseFormData_ContextValidate =
    [(''Gcs'', [Nested ''gcs'']),
     (''HTTP'', [Nested ''http'']),
     (''S3'', [Nested ''s3''])]"

lemma ReleaseFormData_documented: "validates_documentation (''ReleaseFormData'', ReleaseFormData_struct, ReleaseFormData_Validate, ReleaseFormData_ContextValidate)"
  by code_simp

lemma ReleaseFormData_named: "named_apart ReleaseFormData_struct"
  unfolding ReleaseFormData_struct_def named_apart_def list.map model_field.sel by code_simp

subsection \<open>ReleaseMetadata\<close>

definition releaseMetadataTypeStatePropEnum :: "string list" where
  "releaseMetadataTypeStatePropEnum =
    [''ACTIVE'', ''DISABLED'', ''DELETED'']"

definition ReleaseMetadata_struct :: "model_field list" where
  "ReleaseMetadata_struct =
    [Field ''ChartPath'' ''chartPath'' True StringType [],
     Field ''FilePath'' ''filePath'' True StringType [],
     Field ''Gcs'' ''gcs'' True (Pointer (Model ''GCSLocation'')) [],
     Field ''HTTP'' ''http'' True (Pointer (Model ''HTTPLocation'')) [],
     Field ''ImageTag'' ''imageTag'' True StringType [],
     Field ''Notes'' ''notes'' False (Slice StringType) [],
     Field ''Packages'' ''packages'' False (Slice (Pointer (Model ''Package''))) [],
     Field ''S3'' ''s3'' True (Pointer (Model ''S3Location'')) [],
     Field ''State'' ''state'' True StringType [InEnum [''ACTIVE'', ''DISABLED'', ''DELETED'']]]"

definition ReleaseMetadata_Validate :: "checks" where
  "ReleaseMetadata_Validate =
    [(''Gcs'', [SkipZero, Nested ''gcs'']),
     (''HTTP'', [SkipZero, Nested ''http'']),
     (''Packages'', [SkipZero, Each [SkipZero, Nested ''packages'']]),
     (''S3'', [SkipZero, Nested ''s3'']),
     (''State'', [SkipZero, EnumCheck ''state'' releaseMetadataTypeStatePropEnum False])]"

definition ReleaseMetadata_ContextValidate :: "checks" where
  "ReleaseMetadata_ContextValidate =
    [(''Gcs'', [Nested ''gcs'']),
     (''HTTP'', [Nested ''http'']),
     (''Packages'', [Each [Nested ''packages'']]),
     (''S3'', [Nested ''s3''])]"

lemma ReleaseMetadata_documented: "validates_documentation (''ReleaseMetadata'', ReleaseMetadata_struct, ReleaseMetadata_Validate, ReleaseMetadata_ContextValidate)"
  by code_simp

lemma ReleaseMetadata_named: "named_apart ReleaseMetadata_struct"
  unfolding ReleaseMetadata_struct_def named_apart_def list.map model_field.sel by code_simp

subsection \<open>RuntimeConfigData\<close>

definition RuntimeConfigData_struct :: "model_field list" where
  "RuntimeConfigData_struct =
    [Field ''ScopedConfigList'' ''scopedConfigList'' False (Slice (Pointer (Model ''ScopedConfig''))) []]"

definition RuntimeConfigData_Validate :: "checks" where
  "RuntimeConfigData_Validate =
    [(''ScopedConfigList'', [SkipZero, Each [SkipZero, Nested ''scopedConfigList'']])]"

definition RuntimeConfigData_ContextValidate :: "checks" where
  "RuntimeConfigData_ContextValidate =
    [(''ScopedConfigList'', [Each [Nested ''scopedConfigList'']])]"

lemma RuntimeConfigData_documented: "validates_documentation (''RuntimeConfigData'', RuntimeConfigData_struct, RuntimeConfigData_Validate, RuntimeConfigData_ContextValidate)"
  by code_simp

lemma RuntimeConfigData_named: "named_apart RuntimeConfigData_struct"
  unfolding RuntimeConfigData_struct_def named_apart_def list.map model_field.sel by code_simp

subsection \<open>ScopedConfig\<close>

definition scopedConfigTypeTypePropEnum :: "string list" where
  "scopedConfigTypeTypePropEnum =
    [''GLOBAL'', ''CUSTOMER'', ''UNIVERSE'', ''PROVIDER'']"

definition ScopedConfig_struct :: "model_field list" where
  "ScopedConfig_struct =
    [Field ''ConfigEntries'' ''configEntries'' False (Slice (Pointer (Model ''ConfigEntry''))) [],
     Field ''MutableScope'' ''mutableScope'' True BoolType [],
     Field ''Type'' ''type'' True StringType [InEnum [''GLOBAL'', ''CUSTOMER'', ''UNIVERSE'', ''PROVIDER'']],
     Field ''UUID'' ''uuid'' True UUIDType [HasFormat ''uuid'']]"

definition ScopedConfig_Validate :: "checks" where
  "ScopedConfig_Validate =
    [(''ConfigEntries'', [SkipZero, Each [SkipZero, Nested ''configEntries'']]),
     (''Type'', [SkipZero, EnumCheck ''type'' scopedConfigTypeTypePropEnum False]),
     (''UUID'', [SkipZero, FormatOf ''uuid'' ''uuid''])]"

definition ScopedConfig_ContextValidate :: "checks" where
  "ScopedConfig_ContextValidate =
    [(''ConfigEntries'', [Each [Nested ''configEntries'']])]"

lemma ScopedConfig_documented: "validates_documentation (''ScopedConfig'', ScopedConfig_struct, ScopedConfig_Validate, ScopedConfig_ContextValidate)"
  by code_simp

lemma ScopedConfig_named: "named_apart ScopedConfig_struct"
  unfolding ScopedConfig_struct_def named_apart_def list.map model_field.sel by code_simp

subsection \<open>SessionInfo\<close>

definition SessionInfo_struct :: "model_field list" where
  "SessionInfo_struct =
    [Field ''APIToken'' ''apiToken'' True StringType [],
     Field ''AuthToken'' ''authToken'' True StringType [],
     Field ''CustomerUUID'' ''customerUUID'' True UUIDType [HasFormat ''uuid''],
     Field ''UserUUID'' ''userUUID'' True UUIDType [HasFormat ''uuid'']]"

definition SessionInfo_Validate :: "checks" where
  "SessionInfo_Validate =
    [(''CustomerUUID'', [SkipZero, FormatOf ''customerUUID'' ''uuid'']),
     (''UserUUID'', [SkipZero, FormatOf ''userUUID'' ''uuid''])]"

definition SessionInfo_ContextValidate :: "checks" where
  "SessionInfo_ContextValidate = []"

lemma SessionInfo_documented: "validates_documentation (''SessionInfo'', SessionInfo_struct, SessionInfo_Validate, SessionInfo_ContextValidate)"
  by code_simp

lemma SessionInfo_named: "named_apart SessionInfo_struct"
  unfolding SessionInfo_struct_def named_apart_def list.map model_field.sel by code_simp

subsection \<open>SMTPData\<close>

definition SMTPData_struct :: "model_field list" where
  "SMTPData_struct =
    [Field ''EmailFrom'' ''emailFrom'' True StringType [],
     Field ''SMTPPassword'' ''smtpPassword'' True StringType [],
     Field ''SMTPPort'' ''smtpPort'' True Int32Type [],
     Field ''SMTPServer'' ''smtpServer'' True StringType [],
     Field ''SMTPUsername'' ''smtpUsername'' True StringType [],
     Field ''UseSSL'' ''useSSL'' True BoolType [],
     Field ''UseTLS'' ''useTLS'' True BoolType []]"

definition SMTPData_Validate :: "checks" where
  "SMTPData_Validate = []"

definition SMTPData_ContextValidate :: "checks" where
  "SMTPData_ContextValidate = []"

lemma SMTPData_documented: "validates_documentation (''SMTPData'', SMTPData_struct, SMTPData_Validate, SMTPData_ContextValidate)"
  by code_simp

lemma SMTPData_named: "named_apart SMTPData_struct"
  unfolding SMTPData_struct_def named_apart_def list.map model_field.sel by code_simp

subsection \<open>SupportBundle\<close>

definition supportBundleTypeStatusPropEnum :: "string list" where
  "supportBundleTypeStatusPropEnum =
    [''Running'', ''Success'', ''Failed'']"

definition SupportBundle_struct :: "model_field list" where
  "SupportBundle_struct =
    [Field ''BundleDetails'' ''bundleDetails'' False (Pointer (Model ''BundleDetails'')) [IsRequired],
     Field ''BundleUUID'' ''bundleUUID'' False (Pointer UUIDType) [IsRequired, HasFormat ''uuid''],
     Field ''CreationDate'' ''creationDate'' False (Pointer DateTimeType) [IsRequired, HasFormat ''date-time''],
     Field ''EndDate'' ''endDate'' False (Pointer DateTimeType) [IsRequired, HasFormat ''date-time''],
     Field ''ExpirationDate'' ''expirationDate'' False (Pointer DateTimeType) [IsRequired, HasFormat ''date-time''],
     Field ''Path'' ''path'' False (Pointer StringType) [IsRequired],
     Field ''ScopeUUID'' ''scopeUUID'' False (Pointer UUIDType) [IsRequired, HasFormat ''uuid''],
     Field ''StartDate'' ''startDate'' False (Pointer DateTimeType) [IsRequired, HasFormat ''date-time''],
     Field ''Status'' ''status'' False (Pointer StringType) [IsRequired, InEnum [''Running'', ''Success'',
        ''Failed'']]]"

definition SupportBundle_Validate :: "checks" where
  "SupportBundle_Validate =
    [(''BundleDetails'', [Required ''bundleDetails'', Nested ''bundleDetails'']),
     (''BundleUUID'', [Required ''bundleUUID'', FormatOf ''bundleUUID'' ''uuid'']),
     (''CreationDate'', [Required ''creationDate'', FormatOf ''creationDate'' ''date-time'']),
     (''EndDate'', [Required ''endDate'', FormatOf ''endDate'' ''date-time'']),
     (''ExpirationDate'', [Required ''expirationDate'', FormatOf ''expirationDate'' ''date-time'']),
     (''Path'', [Required ''path'']),
     (''ScopeUUID'', [Required ''scopeUUID'', FormatOf ''scopeUUID'' ''uuid'']),
     (''StartDate'', [Required ''startDate'', FormatOf ''startDate'' ''date-time'']),
     (''Status'', [Required ''status'', EnumCheck ''status'' supportBundleTypeStatusPropEnum True])]"

definition SupportBundle_ContextValidate :: "checks" where
  "SupportBundle_ContextValidate =
    [(''BundleDetails'', [Nested ''bundleDetails''])]"

lemma SupportBundle_documented: "validates_documentation (''SupportBundle'', SupportBundle_struct, SupportBundle_Validate, SupportBundle_ContextValidate)"
  by code_simp

lemma SupportBundle_named: "named_apart SupportBundle_struct"
  unfolding SupportBundle_struct_def named_apart_def list.map model_field.sel by code_simp

subsection \<open>SupportBundleFormData\<close>

definition supportBundleFormDataComponentsItemsEnum :: "string list" where
  "supportBundleFormDataComponentsItemsEnum =
    [''UniverseLogs'', ''ApplicationLogs'', ''OutputFiles'', ''ErrorFiles'', ''GFlags'', ''Instance'', ''ConsensusMeta'',
     ''TabletMeta'']"

definition SupportBundleFormData_struct :: "model_field list" where
  "SupportBundleFormData_struct =
    [Field ''Components'' ''components'' False (Slice StringType) [IsRequired, ItemsIn
        supportBundleFormDataComponentsItemsEnum],
     Field ''EndDate'' ''endDate'' False (Pointer DateTimeType) [IsRequired, HasFormat ''date-time''],
     Field ''StartDate'' ''startDate'' False (Pointer DateTimeType) [IsRequired, HasFormat ''date-time'']]"

definition SupportBundleFormData_Validate :: "checks" where
  "SupportBundleFormData_Validate =
    [(''Components'', [Required ''components'', Each [EnumCheck ''components''
        supportBundleFormDataComponentsItemsEnum False]]),
     (''EndDate'', [Required ''endDate'', FormatOf ''endDate'' ''date-time'']),
     (''StartDate'', [Required ''startDate'', FormatOf ''startDate'' ''date-time''])]"

definition SupportBundleFormData_ContextValidate :: "checks" where
  "SupportBundleFormData_ContextValidate = []"

lemma SupportBundleFormData_documented: "validates_documentation (''SupportBundleFormData'', SupportBundleFormData_struct, SupportBundleFormData_Validate, SupportBundleFormData_ContextValidate)"
  by code_simp

lemma SupportBundleFormData_named: "named_apart SupportBundleFormData_struct"
  unfolding SupportBundleFormData_struct_def named_apart_def list.map model_field.sel by code_simp

subsection \<open>UserProfileData\<close>

definition userProfileDataTypeRolePropEnum :: "string list" where
  "userProfileDataTypeRolePropEnum =
    [''Admin'', ''ReadOnly'', ''SuperAdmin'', ''BackupAdmin'']"

definition UserProfileData_struct :: "model_field list" where
  "UserProfileData_struct =
    [Field ''ConfirmPassword'' ''confirmPassword'' True StringType [],
     Field ''Password'' ''password'' True StringType [],
     Field ''Role'' ''role'' False (Pointer StringType) [IsRequired, InEnum [''Admin'', ''ReadOnly'', ''SuperAdmin'',
        ''BackupAdmin'']],
     Field ''Timezone'' ''timezone'' True StringType []]"

definition UserProfileData_Validate :: "checks" where
  "UserProfileData_Validate =
    [(''Role'', [Required ''role'', EnumCheck ''role'' userProfileDataTypeRolePropEnum True])]"

definition UserProfileData_ContextValidate :: "checks" where
  "UserProfileData_ContextValidate = []"

lemma UserProfileData_documented: "validates_documentation (''UserProfileData'', UserProfileData_struct, UserProfileData_Validate, UserProfileData_ContextValidate)"
  by code_simp

lemma UserProfileData_named: "named_apart UserProfileData_struct"
  unfolding UserProfileData_struct_def named_apart_def list.map model_field.sel by code_simp

subsection \<open>UserRegistrationData\<close>

definition userRegistrationDataTypeRolePropEnum :: "string list" where
  "userRegistrationDataTypeRolePropEnum =
    [''Admin'', ''ReadOnly'', ''SuperAdmin'', ''BackupAdmin'']"

definition UserRegistrationData_struct :: "model_field list" where
  "UserRegistrationData_struct =
    [Field ''ConfirmPassword'' ''confirmPassword'' True StringType [],
     Field ''Email'' ''email'' False (Pointer StringType) [IsRequired],
     Field ''Features'' ''features'' True (MapOf AnyType) [],
     Field ''Password'' ''password'' True StringType [],
     Field ''Role'' ''role'' False (Pointer StringType) [IsRequired, InEnum [''Admin'', ''ReadOnly'', ''SuperAdmin'',
        ''BackupAdmin'']],
     Field ''Timezone'' ''timezone'' True StringType []]"

definition UserRegistrationData_Validate :: "checks" where
  "UserRegistrationData_Validate =
    [(''Email'', [Required ''email'']),
     (''Role'', [Required ''role'', EnumCheck ''role'' userRegistrationDataTypeRolePropEnum True])]"

definition UserRegistrationData_ContextValidate :: "checks" where
  "UserRegistrationData_ContextValidate = []"

lemma UserRegistrationData_documented: "validates_documentation (''UserRegistrationData'', UserRegistrationData_struct, UserRegistrationData_Validate, UserRegistrationData_ContextValidate)"
  by code_simp

lemma UserRegistrationData_named: "named_apart UserRegistrationData_struct"
  unfolding UserRegistrationData_struct_def named_apart_def list.map model_field.sel by code_simp

subsection \<open>UserWithFeatures\<close>

definition userWithFeaturesTypeRolePropEnum :: "string list" where
  "userWithFeaturesTypeRolePropEnum =
    [''Admin'', ''ReadOnly'', ''SuperAdmin'', ''BackupAdmin'']"

definition userWithFeaturesTypeUserTypePropEnum :: "string list" where
  "userWithFeaturesTypeUserTypePropEnum =
    [''local'', ''ldap'']"

definition UserWithFeatures_struct :: "model_field list" where
  "UserWithFeatures_struct =
    [Field ''AuthTokenIssueDate'' ''authTokenIssueDate'' True DateTimeType [IsReadOnly, HasFormat ''date-time''],
     Field ''CreationDate'' ''creationDate'' True DateTimeType [IsReadOnly, HasFormat ''date-time''],
     Field ''CustomerUUID'' ''customerUUID'' True UUIDType [IsReadOnly, HasFormat ''uuid''],
     Field ''Email'' ''email'' False (Pointer StringType) [IsRequired],
     Field ''IsPrimary'' ''isPrimary'' True BoolType [],
     Field ''LdapSpecifiedRole'' ''ldapSpecifiedRole'' True BoolType [],
     Field ''Role'' ''role'' True StringType [InEnum [''Admin'', ''ReadOnly'', ''SuperAdmin'', ''BackupAdmin'']],
     Field ''Timezone'' ''timezone'' True StringType [],
     Field ''UserType'' ''userType'' True StringType [InEnum [''local'', ''ldap'']],
     Field ''UUID'' ''uuid'' True UUIDType [IsReadOnly, HasFormat ''uuid'']]"

definition UserWithFeatures_Validate :: "checks" where
  "UserWithFeatures_Validate =
    [(''AuthTokenIssueDate'', [SkipZero, FormatOf ''authTokenIssueDate'' ''date-time'']),
     (''CreationDate'', [SkipZero, FormatOf ''creationDate'' ''date-time'']),
     (''CustomerUUID'', [SkipZero, FormatOf ''customerUUID'' ''uuid'']),
     (''Email'', [Required ''email'']),
     (''Role'', [SkipZero, EnumCheck ''role'' userWithFeaturesTypeRolePropEnum False]),
     (''UserType'', [SkipZero, EnumCheck ''userType'' userWithFeaturesTypeUserTypePropEnum False]),
     (''UUID'', [SkipZero, FormatOf ''uuid'' ''uuid''])]"

definition UserWithFeatures_ContextValidate :: "checks" where
  "UserWithFeatures_ContextValidate =
    [(''AuthTokenIssueDate'', [ReadOnly ''authTokenIssueDate'']),
     (''CreationDate'', [ReadOnly ''creationDate'']),
     (''CustomerUUID'', [ReadOnly ''customerUUID'']),
     (''UUID'', [ReadOnly ''uuid''])]"

lemma UserWithFeatures_documented: "validates_documentation (''UserWithFeatures'', UserWithFeatures_struct, UserWithFeatures_Validate, UserWithFeatures_ContextValidate)"
  by code_simp

lemma UserWithFeatures_named: "named_apart UserWithFeatures_struct"
  unfolding UserWithFeatures_struct_def named_apart_def list.map model_field.sel by code_simp

subsection \<open>Users\<close>

definition usersTypeRolePropEnum :: "string list" where
  "usersTypeRolePropEnum =
    [''Admin'', ''ReadOnly'', ''SuperAdmin'', ''BackupAdmin'']"

definition usersTypeUserTypePropEnum :: "string list" where
  "usersTypeUserTypePropEnum =
    [''local'', ''ldap'']"

definition Users_struct :: "model_field list" where
  "Users_struct =
    [Field ''AuthTokenIssueDate'' ''authTokenIssueDate'' True DateTimeType [IsReadOnly, HasFormat ''date-time''],
     Field ''CreationDate'' ''creationDate'' True DateTimeType [IsReadOnly, HasFormat ''date-time''],
     Field ''CustomerUUID'' ''customerUUID'' True UUIDType [IsReadOnly, HasFormat ''uuid''],
     Field ''Email'' ''email'' False (Pointer StringType) [IsRequired],
     Field ''IsPrimary'' ''isPrimary'' True BoolType [],
     Field ''LdapSpecifiedRole'' ''ldapSpecifiedRole'' True BoolType [],
     Field ''Role'' ''role'' True StringType [InEnum [''Admin'', ''ReadOnly'', ''SuperAdmin'', ''BackupAdmin'']],
     Field ''Timezone'' ''timezone'' True StringType [],
     Field ''UserType'' ''userType'' True StringType [InEnum [''local'', ''ldap'']],
     Field ''UUID'' ''uuid'' True UUIDType [IsReadOnly, HasFormat ''uuid'']]"

definition Users_Validate :: "checks" where
  "Users_Validate =
    [(''AuthTokenIssueDate'', [SkipZero, FormatOf ''authTokenIssueDate'' ''date-time'']),
     (''CreationDate'', [SkipZero, FormatOf ''creationDate'' ''date-time'']),
     (''CustomerUUID'', [SkipZero, FormatOf ''customerUUID'' ''uuid'']),
     (''Email'', [Required ''email'']),
     (''Role'', [SkipZero, EnumCheck ''role'' usersTypeRolePropEnum False]),
     (''UserType'', [SkipZero, EnumCheck ''userType'' usersTypeUserTypePropEnum False]),
     (''UUID'', [SkipZero, FormatOf ''uuid'' ''uuid''])]"

definition Users_ContextValidate :: "checks" where
  "Users_ContextValidate =
    [(''AuthTokenIssueDate'', [ReadOnly ''authTokenIssueDate'']),
     (''CreationDate'', [ReadOnly ''creationDate'']),
     (''CustomerUUID'', [ReadOnly ''customerUUID'']),
     (''UUID'', [ReadOnly ''uuid''])]"

lemma Users_documented: "validates_documentation (''Users'', Users_struct, Users_Validate, Users_ContextValidate)"
  by code_simp

lemma Users_named: "named_apart Users_struct"
  unfolding Users_struct_def named_apart_def list.map model_field.sel by code_simp

subsection \<open>YBPError\<close>

definition YBPError_struct :: "model_field list" where
  "YBPError_struct =
    [Field ''Error'' ''error'' True StringType [],
     Field ''ErrorJSON'' ''errorJson'' True AnyType [],
     Field ''Success'' ''success'' True BoolType []]"

definition YBPError_Validate :: "checks" where
  "YBPError_Validate = []"

definition YBPError_ContextValidate :: "checks" where
  "YBPError_ContextValidate = []"

lemma YBPError_documented: "validates_documentation (''YBPError'', YBPError_struct, YBPError_Validate, YBPError_ContextValidate)"
  by code_simp

lemma YBPError_named: "named_apart YBPError_struct"
  unfolding YBPError_struct_def named_apart_def list.map model_field.sel by code_simp

subsection \<open>YBPSuccess\<close>

definition YBPSuccess_struct :: "model_field list" where
  "YBPSuccess_struct =
    [Field ''Message'' ''message'' True StringType [IsReadOnly],
     Field ''Success'' ''success'' True (Pointer BoolType) [IsReadOnly]]"

definition YBPSuccess_Validate :: "checks" where
  "YBPSuccess_Validate = []"

definition YBPSuccess_ContextValidate :: "checks" where
  "YBPSuccess_ContextValidate =
    [(''Message'', [ReadOnly ''message'']),
     (''Success'', [ReadOnly ''success''])]"

lemma YBPSuccess_documented: "validates_documentation (''YBPSuccess'', YBPSuccess_struct, YBPSuccess_Validate, YBPSuccess_ContextValidate)"
  by code_simp

lemma YBPSuccess_named: "named_apart YBPSuccess_struct"
  unfolding YBPSuccess_struct_def named_apart_def list.map model_field.sel by code_simp

subsection \<open>YBPTask\<close>

definition YBPTask_struct :: "model_field list" where
  "YBPTask_struct =
    [Field ''ResourceUUID'' ''resourceUUID'' True UUIDType [IsReadOnly, HasFormat ''uuid''],
     Field ''TaskUUID'' ''taskUUID'' True UUIDType [IsReadOnly, HasFormat ''uuid'']]"

definition YBPTask_Validate :: "checks" where
  "YBPTask_Validate =
    [(''ResourceUUID'', [SkipZero, FormatOf ''resourceUUID'' ''uuid'']),
     (''TaskUUID'', [SkipZero, FormatOf ''taskUUID'' ''uuid''])]"

definition YBPTask_ContextValidate :: "checks" where
  "YBPTask_ContextValidate =
    [(''ResourceUUID'', [ReadOnly ''resourceUUID'']),
     (''TaskUUID'', [ReadOnly ''taskUUID''])]"

lemma YBPTask_documented: "validates_documentation (''YBPTask'', YBPTask_struct, YBPTask_Validate, YBPTask_ContextValidate)"
  by code_simp

lemma YBPTask_named: "named_apart YBPTask_struct"
  unfolding YBPTask_struct_def named_apart_def list.map model_field.sel by code_simp

subsection \<open>The table\<close>

definition modelsAccounts :: "model_table" where
  "modelsAccounts =
    [(''Audit'', Audit_struct, Audit_Validate, Audit_ContextValidate),
     (''BundleDetails'', BundleDetails_struct, BundleDetails_Validate, BundleDetails_ContextValidate),
     (''ConfigEntry'', ConfigEntry_struct, ConfigEntry_Validate, ConfigEntry_ContextValidate),
     (''Customer'', Customer_struct, Customer_Validate, Customer_ContextValidate),
     (''CustomerAlertData'', CustomerAlertData_struct, CustomerAlertData_Validate, CustomerAlertData_ContextValidate),
     (''CustomerConfig'', CustomerConfig_struct, CustomerConfig_Validate, CustomerConfig_ContextValidate),
     (''CustomerConfigUI'', CustomerConfigUI_struct, CustomerConfigUI_Validate, CustomerConfigUI_ContextValidate),
     (''CustomerCountResp'', CustomerCountResp_struct, CustomerCountResp_Validate, CustomerCountResp_ContextValidate),
     (''CustomerDetailsData'', CustomerDetailsData_struct, CustomerDetailsData_Validate,
        CustomerDetailsData_ContextValidate),
     (''CustomerRegisterFormData'', CustomerRegisterFormData_struct, CustomerRegisterFormData_Validate,
        CustomerRegisterFormData_ContextValidate),
     (''CustomerTaskData'', CustomerTaskData_struct, CustomerTaskData_Validate, CustomerTaskData_ContextValidate),
     (''DummyBody'', DummyBody_struct, DummyBody_Validate, DummyBody_ContextValidate),
     (''LogData'', LogData_struct, LogData_Validate, LogData_ContextValidate),
     (''PlatformLoggingConfig'', PlatformLoggingConfig_struct, PlatformLoggingConfig_Validate,
        PlatformLoggingConfig_ContextValidate),
     (''ReleaseFormData'', ReleaseFormData_struct, ReleaseFormData_Validate, ReleaseFormData_ContextValidate),
     (''ReleaseMetadata'', ReleaseMetadata_struct, ReleaseMetadata_Validate, ReleaseMetadata_ContextValidate),
     (''RuntimeConfigData'', RuntimeConfigData_struct, RuntimeConfigData_Validate, RuntimeConfigData_ContextValidate),
     (''ScopedConfig'', ScopedConfig_struct, ScopedConfig_Validate, ScopedConfig_ContextValidate),
     (''SessionInfo'', SessionInfo_struct, SessionInfo_Validate, SessionInfo_ContextValidate),
     (''SMTPData'', SMTPData_struct, SMTPData_Validate, SMTPData_ContextValidate),
     (''SupportBundle'', SupportBundle_struct, SupportBundle_Validate, SupportBundle_ContextValidate),
     (''SupportBundleFormData'', SupportBundleFormData_struct, SupportBundleFormData_Validate,
        SupportBundleFormData_ContextValidate),
     (''UserProfileData'', UserProfileData_struct, UserProfileData_Validate, UserProfileData_ContextValidate),
     (''UserRegistrationData'', UserRegistrationData_struct, UserRegistrationData_Validate,
        UserRegistrationData_ContextValidate),
     (''UserWithFeatures'', UserWithFeatures_struct, UserWithFeatures_Validate, UserWithFeatures_ContextValidate),
     (''Users'', Users_struct, Users_Validate, Users_ContextValidate),
     (''YBPError'', YBPError_struct, YBPError_Validate, YBPError_ContextValidate),
     (''YBPSuccess'', YBPSuccess_struct, YBPSuccess_Validate, YBPSuccess_ContextValidate),
     (''YBPTask'', YBPTask_struct, YBPTask_Validate, YBPTask_ContextValidate)]"

lemma modelsAccounts_documented: "list_all validates_documentation modelsAccounts"
  unfolding modelsAccounts_def list.pred_inject(2)
  by (intro conjI Audit_documented BundleDetails_documented ConfigEntry_documented Customer_documented
      CustomerAlertData_documented CustomerConfig_documented CustomerConfigUI_documented
      CustomerCountResp_documented CustomerDetailsData_documented CustomerRegisterFormData_documented
      CustomerTaskData_documented DummyBody_documented LogData_documented PlatformLoggingConfig_documented
      ReleaseFormData_documented ReleaseMetadata_documented RuntimeConfigData_documented
      ScopedConfig_documented SessionInfo_documented SMTPData_documented SupportBundle_documented
      SupportBundleFormData_documented UserProfileData_documented UserRegistrationData_documented
      UserWithFeatures_documented Users_documented YBPError_documented YBPSuccess_documented
      YBPTask_documented) simp

lemma modelsAccounts_named: "list_all (\<lambda>m. named_apart (fst (snd m))) modelsAccounts"
  unfolding modelsAccounts_def list.pred_inject(2) fst_conv snd_conv
  by (intro conjI Audit_named BundleDetails_named ConfigEntry_named Customer_named CustomerAlertData_named
      CustomerConfig_named CustomerConfigUI_named CustomerCountResp_named CustomerDetailsData_named
      CustomerRegisterFormData_named CustomerTaskData_named DummyBody_named LogData_named
      PlatformLoggingConfig_named ReleaseFormData_named ReleaseMetadata_named RuntimeConfigData_named
      ScopedConfig_named SessionInfo_named SMTPData_named SupportBundle_named SupportBundleFormData_named
      UserProfileData_named UserRegistrationData_named UserWithFeatures_named Users_named YBPError_named
      YBPSuccess_named YBPTask_named) simp

end
