(* ===== verification/ApiModels.thy ===== *)
theory ApiModels
  imports ModelsAlerts ModelsUpgrades ModelsBackups ModelsUniverses ModelsProviders ModelsAccounts
begin

section \<open>All models of the API\<close>

text \<open>
  The tables of the theories \<open>Models...\<close> put together: which struct a name has, and what its two methods call. The
  properties hold for every value of every model.
\<close>

definition api_models :: model_table where
  "api_models = modelsAlerts @ modelsUpgrades @ modelsBackups @ modelsUniverses @ modelsProviders @ modelsAccounts"

definition struct_of :: structs where
  "struct_of M = (case map_of api_models M of Some m \<Rightarrow> fst m | None \<Rightarrow> [])"

definition validates_of :: "string \<Rightarrow> checks" where
  "validates_of M = (case map_of api_models M of Some m \<Rightarrow> fst (snd m) | None \<Rightarrow> [])"

definition context_validates_of :: "string \<Rightarrow> checks" where
  "context_validates_of M = (case map_of api_models M of Some m \<Rightarrow> snd (snd m) | None \<Rightarrow> [])"

definition Validate :: "'e validators \<Rightarrow> model_value \<Rightarrow> 'e outcome" where
  "Validate lib = validate lib validates_of"

definition ContextValidate :: "'e validators \<Rightarrow> model_value \<Rightarrow> 'e outcome" where
  "ContextValidate lib = validate lib context_validates_of"

subsection \<open>What the tables give\<close>

lemma api_models_documented: "list_all validates_documentation api_models"
  by (simp only: api_models_def list_all_append simp_thms modelsAlerts_documented modelsUpgrades_documented
      modelsBackups_documented modelsUniverses_documented modelsProviders_documented modelsAccounts_documented)

lemma api_models_named: "list_all (\<lambda>m. named_apart (fst (snd m))) api_models"
  by (simp only: api_models_def list_all_append simp_thms modelsAlerts_named modelsUpgrades_named
      modelsBackups_named modelsUniverses_named modelsProviders_named modelsAccounts_named)

lemma api_model_documented:
  assumes "map_of api_models M = Some m"
  shows "documented_struct (fst m)" "fst (snd m) = demanded_checks (fst m)" "snd (snd m) = context_demanded_checks (fst m)"
    "named_apart (fst m)"
proof -
  have m: "(M, m) \<in> set api_models" using assms by (rule map_of_SomeD)
  have "validates_documentation (M, m)" by (rule bspec [OF iffD1 [OF list_all_iff api_models_documented] m])
  then show "documented_struct (fst m)" "fst (snd m) = demanded_checks (fst m)"
    "snd (snd m) = context_demanded_checks (fst m)"
    by (cases m, simp)+
  show "named_apart (fst m)" using bspec [OF iffD1 [OF list_all_iff api_models_named] m] by simp
qed

lemma struct_of_documented: "documented_struct (struct_of M)"
  using api_model_documented(1) by (cases "map_of api_models M") (auto simp: struct_of_def documented_struct_def)

lemma validates_of_demanded: "validates_of M = demanded_checks (struct_of M)"
  by (simp add: struct_of_def validates_of_def api_model_documented demanded_checks_def split: option.split)

lemma context_validates_of_demanded: "context_validates_of M = context_demanded_checks (struct_of M)"
  by (simp add: struct_of_def context_validates_of_def api_model_documented context_demanded_checks_def split: option.split)

lemma struct_of_named: "named_apart (struct_of M)"
  using api_model_documented(4) by (cases "map_of api_models M") (auto simp: struct_of_def named_apart_def)

subsection \<open>A library and a value\<close>

text \<open>Validators with texts for errors, the lengths of ASCII, and every text in every format.\<close>

definition plain_meaning :: meaning where
  "plain_meaning = \<lparr>absent = is_empty, present = \<lambda>v. \<not> is_empty v, well_formed = \<lambda>_ _. True,
     rune_count = \<lambda>s. int (length s), may_write = is_empty\<rparr>"

definition plain_validators :: "string validators" where
  "plain_validators =
     \<lparr>is_zero = is_empty,
      required = \<lambda>p v. if is_empty v then Some (p @ '' is required'') else None,
      required_string = \<lambda>p v. if is_empty v then Some (p @ '' is required'') else None,
      required_nil = \<lambda>p. p @ '' is required'',
      enum_case = \<lambda>p v es. if v \<in> VString ` set es then None else Some (p @ '' should be one of''),
      format_of = \<lambda>p fmt v. None,
      unique_items = \<lambda>p v. if distinct (items v) then None else Some (p @ '' has duplicates''),
      min_length = \<lambda>p v n. if n \<le> text_length plain_meaning v then None else Some (p @ '' is too short''),
      max_length = \<lambda>p v n. if text_length plain_meaning v \<le> n then None else Some (p @ '' is too long''),
      min_items = \<lambda>p k n. if n \<le> k then None else Some (p @ '' has too few items''),
      max_items = \<lambda>p k n. if k \<le> n then None else Some (p @ '' has too many items''),
      minimum_int = \<lambda>p v n. (case v of VInt i \<Rightarrow> if n \<le> i then None else Some (p @ '' is too small'') | _ \<Rightarrow> None),
      read_only = \<lambda>p v. if is_empty v then None else Some (p @ '' is read-only''),
      composite = concat, validate_name = \<lambda>p e. p @ ''.'' @ e, has_name = \<lambda>e. True\<rparr>"

lemma plain_lawful: "lawful plain_validators plain_meaning"
  by (auto simp: lawful_def plain_validators_def plain_meaning_def fun_eq_iff split: if_splits)

definition plain_codec :: "json_value \<Rightarrow> codec" where
  "plain_codec j = \<lparr>time_text = \<lambda>s. s, time_of_text = Some, zero_time = ''0001-01-01T00:00:00.000Z'',
     render = \<lambda>_. ''{}'', parse_text = \<lambda>_. Some j, renderable = \<lambda>k. k = j\<rparr>"

lemma plain_lossless: "lossless (plain_codec j)"
  by (simp add: lossless_def plain_codec_def)

definition sample_label :: model_value where
  "sample_label = VStruct ''AlertLabel''
     [(''Key'', VPtr (VStruct ''AlertLabelKey'' [(''Name'', VPtr (VString ''severity''))])),
      (''Name'', VPtr (VString ''severity'')), (''Value'', VPtr (VString ''SEVERE''))]"

lemma sample_structs:
  "struct_of ''AlertLabel'' = AlertLabel_struct" "struct_of ''AlertLabelKey'' = AlertLabelKey_struct"
  by (simp_all add: struct_of_def api_models_def modelsAlerts_def)

lemma sample_label_typed: "typed struct_of sample_label (Model ''AlertLabel'')"
  by (simp add: sample_label_def sample_structs AlertLabel_struct_def AlertLabelKey_struct_def field_value_def)

lemma sample_label_canonical: "canonical struct_of sample_label"
  by (simp add: sample_label_def sample_structs AlertLabel_struct_def AlertLabelKey_struct_def field_value_def)

lemma sample_label_conforms: "conforms plain_meaning struct_of sample_label" "writable plain_meaning struct_of sample_label"
  by (simp_all add: sample_label_def sample_structs AlertLabel_struct_def AlertLabelKey_struct_def field_value_def
      field_conforms_def supplied_def plain_meaning_def field_writable_def guarded_field_def)

subsection \<open>Properties\<close>

text \<open>C6: \<open>Validate\<close> of a model accepts a value if and only if the value has everything the comments of the struct promise: required fields are present, texts are in their enumerations, lengths, counts and numbers are in their limits, identifiers and dates have their formats, and so for every model inside it. This holds of all values of all models, for validators that do what their documentation says.\<close>

theorem Validate_as_documented:
  assumes "lawful lib sem" "typed struct_of v (Model M)"
  shows "Validate lib v = Passed \<longleftrightarrow> conforms sem struct_of v"
  unfolding Validate_def using assms(1) validates_of_demanded struct_of_documented assms(2) by (rule validate_conforms)

theorem Validate_as_documented_witness:
  "Validate plain_validators sample_label = Passed"
  using Validate_as_documented [OF plain_lawful sample_label_typed] sample_label_conforms by simp



text \<open>\<open>ContextValidate\<close> of a model accepts a value if and only if a request may carry it: each read-only field, in the value and in every model inside it, is one the library lets pass; read-only models and read-only fields of type \<open>interface{}\<close> are not looked at.\<close>

theorem ContextValidate_writable:
  assumes "lawful lib sem" "typed struct_of v (Model M)"
  shows "ContextValidate lib v = Passed \<longleftrightarrow> writable sem struct_of v"
  unfolding ContextValidate_def using assms(1) context_validates_of_demanded assms(2) by (rule validate_writable)

theorem ContextValidate_writable_witness:
  "ContextValidate plain_validators sample_label = Passed"
  using ContextValidate_writable [OF plain_lawful sample_label_typed] sample_label_conforms by simp



end
