(* ===== verification/AlertChannels.thy ===== *)
theory AlertChannels
  imports ApiModels
begin

section \<open>API models: the alert channels, a polymorphic type\<close>

text \<open>
  The parameters of an alert channel are of one of five types behind the interface \<open>AlertChannelParams\<close>
  (\<open>alert_channel_params.go\<close>): for e-mail, PagerDuty, Slack and a web hook (\<open>alert_channel_..._params.go\<close>) and a base
  type without more than the two templates that all have. The property \<open>channelType\<close> of the JSON object tells the type.
  \<open>alert_channel.go\<close> and \<open>alert_channel_form_data.go\<close> hold a channel. These models have their own \<open>UnmarshalJSON\<close> and
  \<open>MarshalJSON\<close>, modelled here on the trees of \<open>ModelJson\<close>; their validation is that of \<open>SwaggerModels\<close>, where the
  field \<open>paramsField\<close> holds the interface value, a pointer to a struct, and the two templates are fields of every type.
  The arguments of \<open>Validate\<close> are the types of the other models, and \<open>concat_json\<close> is \<open>swag.ConcatJSON\<close>.
\<close>

subsection \<open>The structs and their validation\<close>

definition alertChannelParams_struct :: "model_field list" where
  "alertChannelParams_struct =
    [Field ''textTemplateField'' ''textTemplate'' False (Pointer StringType) [IsRequired],
     Field ''titleTemplateField'' ''titleTemplate'' False (Pointer StringType) [IsRequired]]"

definition AlertChannelEmailParams_struct :: "model_field list" where
  "AlertChannelEmailParams_struct =
    [Field ''DefaultRecipients'' ''defaultRecipients'' False (Pointer BoolType) [IsRequired],
     Field ''DefaultSMTPSettings'' ''defaultSmtpSettings'' False (Pointer BoolType) [IsRequired],
     Field ''Recipients'' ''recipients'' False (Slice StringType) [IsRequired],
     Field ''SMTPData'' ''smtpData'' False (Pointer (Model ''SMTPData'')) [IsRequired]]"

definition AlertChannelPagerDutyParams_struct :: "model_field list" where
  "AlertChannelPagerDutyParams_struct =
    [Field ''APIKey'' ''apiKey'' False (Pointer StringType) [IsRequired, MaxLen 2147483647, MinLen 1],
     Field ''RoutingKey'' ''routingKey'' False (Pointer StringType) [IsRequired, MaxLen 2147483647, MinLen 1]]"

definition AlertChannelSlackParams_struct :: "model_field list" where
  "AlertChannelSlackParams_struct =
    [Field ''IconURL'' ''iconUrl'' False (Pointer StringType) [IsRequired],
     Field ''Username'' ''username'' False (Pointer StringType) [IsRequired, MaxLen 2147483647, MinLen 1],
     Field ''WebhookURL'' ''webhookUrl'' False (Pointer StringType) [IsRequired]]"

definition AlertChannelWebHookParams_struct :: "model_field list" where
  "AlertChannelWebHookParams_struct =
    [Field ''WebhookURL'' ''webhookUrl'' False (Pointer StringType) [IsRequired]]"

definition AlertChannel_struct :: "model_field list" where
  "AlertChannel_struct =
    [Field ''CustomerUUID'' ''customer_uuid'' False (Pointer UUIDType) [IsRequired, HasFormat ''uuid''],
     Field ''Name'' ''name'' False (Pointer StringType) [IsRequired, MaxLen 63, MinLen 1],
     Field ''UUID'' ''uuid'' False (Pointer UUIDType) [IsRequired, HasFormat ''uuid'']]"

definition AlertChannelFormData_struct :: "model_field list" where
  "AlertChannelFormData_struct =
    [Field ''AlertChannelUUID'' ''alertChannelUUID'' False (Pointer UUIDType) [IsRequired, HasFormat ''uuid''],
     Field ''Name'' ''name'' False (Pointer StringType) [IsRequired]]"

definition alertChannelParams_Validate :: checks where
  "alertChannelParams_Validate =
    [(''textTemplateField'', [Required ''textTemplate'']), (''titleTemplateField'', [Required ''titleTemplate''])]"

definition AlertChannelEmailParams_Validate :: checks where
  "AlertChannelEmailParams_Validate =
    [(''textTemplateField'', [Required ''textTemplate'']), (''titleTemplateField'', [Required ''titleTemplate'']),
     (''DefaultRecipients'', [Required ''defaultRecipients'']),
     (''DefaultSMTPSettings'', [Required ''defaultSmtpSettings'']), (''Recipients'', [Required ''recipients'']),
     (''SMTPData'', [Required ''smtpData'', Nested ''smtpData''])]"

definition AlertChannelPagerDutyParams_Validate :: checks where
  "AlertChannelPagerDutyParams_Validate =
    [(''textTemplateField'', [Required ''textTemplate'']), (''titleTemplateField'', [Required ''titleTemplate'']),
     (''APIKey'', [Required ''apiKey'', MinLength ''apiKey'' 1 True, MaxLength ''apiKey'' 2147483647 True]),
     (''RoutingKey'', [Required ''routingKey'', MinLength ''routingKey'' 1 True, MaxLength ''routingKey'' 2147483647 True])]"

definition AlertChannelSlackParams_Validate :: checks where
  "AlertChannelSlackParams_Validate =
    [(''textTemplateField'', [Required ''textTemplate'']), (''titleTemplateField'', [Required ''titleTemplate'']),
     (''IconURL'', [Required ''iconUrl'']),
     (''Username'', [Required ''username'', MinLength ''username'' 1 True, MaxLength ''username'' 2147483647 True]),
     (''WebhookURL'', [Required ''webhookUrl''])]"

definition AlertChannelWebHookParams_Validate :: checks where
  "AlertChannelWebHookParams_Validate =
    [(''textTemplateField'', [Required ''textTemplate'']), (''titleTemplateField'', [Required ''titleTemplate'']),
     (''WebhookURL'', [Required ''webhookUrl''])]"

definition AlertChannel_Validate :: checks where
  "AlertChannel_Validate =
    [(''CustomerUUID'', [Required ''customer_uuid'', FormatOf ''customer_uuid'' ''uuid'']),
     (''Name'', [Required ''name'', MinLength ''name'' 1 True, MaxLength ''name'' 63 True]),
     (''paramsField'', [Required ''params'', NestedCall ''params'']),
     (''UUID'', [Required ''uuid'', FormatOf ''uuid'' ''uuid''])]"

definition AlertChannelFormData_Validate :: checks where
  "AlertChannelFormData_Validate =
    [(''AlertChannelUUID'', [Required ''alertChannelUUID'', FormatOf ''alertChannelUUID'' ''uuid'']),
     (''Name'', [Required ''name'']), (''paramsField'', [Required ''params'', NestedCall ''params''])]"

definition AlertChannelEmailParams_ContextValidate :: checks where
  "AlertChannelEmailParams_ContextValidate = [(''SMTPData'', [Nested ''smtpData''])]"

definition AlertChannel_ContextValidate :: checks where
  "AlertChannel_ContextValidate = [(''paramsField'', [NestedCall ''params''])]"

definition AlertChannelFormData_ContextValidate :: checks where
  "AlertChannelFormData_ContextValidate = [(''paramsField'', [NestedCall ''params''])]"

definition channel_validates :: "(string \<Rightarrow> checks) \<Rightarrow> string \<Rightarrow> checks" where
  "channel_validates env = env
    (''alertChannelParams'' := alertChannelParams_Validate,
     ''AlertChannelEmailParams'' := AlertChannelEmailParams_Validate,
     ''AlertChannelPagerDutyParams'' := AlertChannelPagerDutyParams_Validate,
     ''AlertChannelSlackParams'' := AlertChannelSlackParams_Validate,
     ''AlertChannelWebHookParams'' := AlertChannelWebHookParams_Validate,
     ''AlertChannel'' := AlertChannel_Validate,
     ''AlertChannelFormData'' := AlertChannelFormData_Validate)"

definition channel_context_validates :: "(string \<Rightarrow> checks) \<Rightarrow> string \<Rightarrow> checks" where
  "channel_context_validates env = env
    (''alertChannelParams'' := [],
     ''AlertChannelEmailParams'' := AlertChannelEmailParams_ContextValidate,
     ''AlertChannelPagerDutyParams'' := [], ''AlertChannelSlackParams'' := [], ''AlertChannelWebHookParams'' := [],
     ''AlertChannel'' := AlertChannel_ContextValidate,
     ''AlertChannelFormData'' := AlertChannelFormData_ContextValidate)"

subsection \<open>JSON of the parameters\<close>

fun fields_in :: "model_value \<Rightarrow> (string \<times> model_value) list" where
  "fields_in (VStruct M fs) = fs"
| "fields_in _ = []"

text \<open>
  \<open>UnmarshalJSON\<close> of a type of parameters reads its own fields and then those of the base type from the same input;
  \<open>MarshalJSON\<close> writes the two groups and puts the objects together. Neither knows of \<open>channelType\<close>.
\<close>

definition unmarshal_subtype :: "codec \<Rightarrow> structs \<Rightarrow> string \<Rightarrow> model_field list \<Rightarrow> json_value \<Rightarrow> model_value option" where
  "unmarshal_subtype C S N own raw =
     (case decode C (S(N := own)) (Model N) raw of
        None \<Rightarrow> None
      | Some data \<Rightarrow>
          (case decode C (S(N := alertChannelParams_struct)) (Model N) raw of
             None \<Rightarrow> None
           | Some base \<Rightarrow> Some (VStruct N (fields_in base @ fields_in data))))"

definition marshal_subtype ::
  "(json_value list \<Rightarrow> json_value) \<Rightarrow> codec \<Rightarrow> structs \<Rightarrow> string \<Rightarrow> model_field list \<Rightarrow> model_value \<Rightarrow> json_value" where
  "marshal_subtype concat_json C S N own m =
     concat_json [encode C (S(N := own)) m, encode C (S(N := alertChannelParams_struct)) m]"

definition AlertChannelEmailParams_UnmarshalJSON :: "codec \<Rightarrow> structs \<Rightarrow> json_value \<Rightarrow> model_value option" where
  "AlertChannelEmailParams_UnmarshalJSON C S =
     unmarshal_subtype C S ''AlertChannelEmailParams'' AlertChannelEmailParams_struct"

definition AlertChannelPagerDutyParams_UnmarshalJSON :: "codec \<Rightarrow> structs \<Rightarrow> json_value \<Rightarrow> model_value option" where
  "AlertChannelPagerDutyParams_UnmarshalJSON C S =
     unmarshal_subtype C S ''AlertChannelPagerDutyParams'' AlertChannelPagerDutyParams_struct"

definition AlertChannelSlackParams_UnmarshalJSON :: "codec \<Rightarrow> structs \<Rightarrow> json_value \<Rightarrow> model_value option" where
  "AlertChannelSlackParams_UnmarshalJSON C S =
     unmarshal_subtype C S ''AlertChannelSlackParams'' AlertChannelSlackParams_struct"

definition AlertChannelWebHookParams_UnmarshalJSON :: "codec \<Rightarrow> structs \<Rightarrow> json_value \<Rightarrow> model_value option" where
  "AlertChannelWebHookParams_UnmarshalJSON C S =
     unmarshal_subtype C S ''AlertChannelWebHookParams'' AlertChannelWebHookParams_struct"

definition AlertChannelEmailParams_MarshalJSON ::
  "(json_value list \<Rightarrow> json_value) \<Rightarrow> codec \<Rightarrow> structs \<Rightarrow> model_value \<Rightarrow> json_value" where
  "AlertChannelEmailParams_MarshalJSON concat_json C S =
     marshal_subtype concat_json C S ''AlertChannelEmailParams'' AlertChannelEmailParams_struct"

definition AlertChannelPagerDutyParams_MarshalJSON ::
  "(json_value list \<Rightarrow> json_value) \<Rightarrow> codec \<Rightarrow> structs \<Rightarrow> model_value \<Rightarrow> json_value" where
  "AlertChannelPagerDutyParams_MarshalJSON concat_json C S =
     marshal_subtype concat_json C S ''AlertChannelPagerDutyParams'' AlertChannelPagerDutyParams_struct"

definition AlertChannelSlackParams_MarshalJSON ::
  "(json_value list \<Rightarrow> json_value) \<Rightarrow> codec \<Rightarrow> structs \<Rightarrow> model_value \<Rightarrow> json_value" where
  "AlertChannelSlackParams_MarshalJSON concat_json C S =
     marshal_subtype concat_json C S ''AlertChannelSlackParams'' AlertChannelSlackParams_struct"

definition AlertChannelWebHookParams_MarshalJSON ::
  "(json_value list \<Rightarrow> json_value) \<Rightarrow> codec \<Rightarrow> structs \<Rightarrow> model_value \<Rightarrow> json_value" where
  "AlertChannelWebHookParams_MarshalJSON concat_json C S =
     marshal_subtype concat_json C S ''AlertChannelWebHookParams'' AlertChannelWebHookParams_struct"

text \<open>
  \<open>unmarshalAlertChannelParams\<close>: the first reading is for \<open>channelType\<close>, the second for the value. The base type has no
  exported field and no \<open>UnmarshalJSON\<close>, so nothing of the object reaches it. Empty input is an end of file.
\<close>

datatype 'e channel_error = DecodeError | NoInput | Invalid 'e | UnknownType string

definition channel_type :: "codec \<Rightarrow> json_value \<Rightarrow> string option" where
  "channel_type C raw =
     (case decode C (\<lambda>_. [Field ''ChannelType'' ''channelType'' False StringType []]) (Model ''getType'') raw of
        Some (VStruct _ [(_, VString t)]) \<Rightarrow> Some t
      | _ \<Rightarrow> None)"

definition base_params :: "json_value \<Rightarrow> model_value option" where
  "base_params raw =
     (let empty = VStruct ''alertChannelParams'' [(''textTemplateField'', VNil), (''titleTemplateField'', VNil)]
      in case raw of JsNull \<Rightarrow> Some empty | JsObject _ \<Rightarrow> Some empty | _ \<Rightarrow> None)"

fun decoded :: "model_value option \<Rightarrow> 'e channel_error + model_value" where
  "decoded None = Inl DecodeError"
| "decoded (Some v) = Inr (VPtr v)"

definition unmarshalAlertChannelParams ::
  "'e validators \<Rightarrow> codec \<Rightarrow> structs \<Rightarrow> json_value option \<Rightarrow> 'e channel_error + model_value" where
  "unmarshalAlertChannelParams lib C S input =
     (case input of
        None \<Rightarrow> Inl NoInput
      | Some raw \<Rightarrow>
          (case channel_type C raw of
             None \<Rightarrow> Inl DecodeError
           | Some t \<Rightarrow>
               (case required_string lib ''channelType'' (VString t) of
                  Some e \<Rightarrow> Inl (Invalid e)
                | None \<Rightarrow>
                    if t = ''AlertChannelEmailParams'' then decoded (AlertChannelEmailParams_UnmarshalJSON C S raw)
                    else if t = ''AlertChannelPagerDutyParams''
                    then decoded (AlertChannelPagerDutyParams_UnmarshalJSON C S raw)
                    else if t = ''AlertChannelParams'' then decoded (base_params raw)
                    else if t = ''AlertChannelSlackParams'' then decoded (AlertChannelSlackParams_UnmarshalJSON C S raw)
                    else if t = ''AlertChannelWebHookParams''
                    then decoded (AlertChannelWebHookParams_UnmarshalJSON C S raw)
                    else Inl (UnknownType t))))"

text \<open>\<open>UnmarshalAlertChannelParamsSlice\<close>: the elements in order, the first error ends it.\<close>

fun unmarshal_elements ::
  "'e validators \<Rightarrow> codec \<Rightarrow> structs \<Rightarrow> json_value list \<Rightarrow> model_value list \<Rightarrow> 'e channel_error + model_value list" where
  "unmarshal_elements lib C S [] result = Inr result"
| "unmarshal_elements lib C S (j # js) result =
     (case unmarshalAlertChannelParams lib C S (Some j) of
        Inl e \<Rightarrow> Inl e
      | Inr obj \<Rightarrow> unmarshal_elements lib C S js (result @ [obj]))"

definition UnmarshalAlertChannelParamsSlice ::
  "'e validators \<Rightarrow> codec \<Rightarrow> structs \<Rightarrow> json_value option \<Rightarrow> 'e channel_error + model_value list" where
  "UnmarshalAlertChannelParamsSlice lib C S input =
     (case input of
        None \<Rightarrow> Inl NoInput
      | Some JsNull \<Rightarrow> unmarshal_elements lib C S [] []
      | Some (JsArray js) \<Rightarrow> unmarshal_elements lib C S js []
      | Some _ \<Rightarrow> Inl DecodeError)"

subsection \<open>JSON of a channel\<close>

text \<open>What \<open>json.Marshal\<close> makes of an interface value; the base type has no exported field.\<close>

definition params_json ::
  "(json_value list \<Rightarrow> json_value) \<Rightarrow> codec \<Rightarrow> structs \<Rightarrow> model_value \<Rightarrow> json_value" where
  "params_json concat_json C S p =
     (case p of
        VPtr (VStruct N fs) \<Rightarrow>
          if N = ''AlertChannelEmailParams'' then AlertChannelEmailParams_MarshalJSON concat_json C S (VStruct N fs)
          else if N = ''AlertChannelPagerDutyParams''
          then AlertChannelPagerDutyParams_MarshalJSON concat_json C S (VStruct N fs)
          else if N = ''AlertChannelSlackParams'' then AlertChannelSlackParams_MarshalJSON concat_json C S (VStruct N fs)
          else if N = ''AlertChannelWebHookParams'' then AlertChannelWebHookParams_MarshalJSON concat_json C S (VStruct N fs)
          else JsObject []
      | _ \<Rightarrow> JsNull)"

definition marshal_channel ::
  "(json_value list \<Rightarrow> json_value) \<Rightarrow> codec \<Rightarrow> structs \<Rightarrow> string \<Rightarrow> model_field list \<Rightarrow> model_value \<Rightarrow> json_value" where
  "marshal_channel concat_json C S N own m =
     concat_json [encode C (S(N := own)) m,
       JsObject [(''params'', params_json concat_json C S (field_value (fields_in m) ''paramsField''))]]"

definition raw_params :: "json_value \<Rightarrow> json_value option" where
  "raw_params raw = (case raw of JsObject es \<Rightarrow> member_of ''params'' es | _ \<Rightarrow> None)"

definition unmarshal_channel ::
  "'e validators \<Rightarrow> codec \<Rightarrow> structs \<Rightarrow> string \<Rightarrow> model_field list \<Rightarrow> json_value \<Rightarrow> 'e channel_error + model_value" where
  "unmarshal_channel lib C S N own raw =
     (case decode C (S(N := own)) (Model N) raw of
        None \<Rightarrow> Inl DecodeError
      | Some data \<Rightarrow>
          (case unmarshalAlertChannelParams lib C S (raw_params raw) of
             Inr p \<Rightarrow> Inr (VStruct N (fields_in data @ [(''paramsField'', p)]))
           | Inl NoInput \<Rightarrow> Inr (VStruct N (fields_in data @ [(''paramsField'', VNil)]))
           | Inl e \<Rightarrow> Inl e))"

definition AlertChannel_MarshalJSON ::
  "(json_value list \<Rightarrow> json_value) \<Rightarrow> codec \<Rightarrow> structs \<Rightarrow> model_value \<Rightarrow> json_value" where
  "AlertChannel_MarshalJSON concat_json C S = marshal_channel concat_json C S ''AlertChannel'' AlertChannel_struct"

definition AlertChannel_UnmarshalJSON ::
  "'e validators \<Rightarrow> codec \<Rightarrow> structs \<Rightarrow> json_value \<Rightarrow> 'e channel_error + model_value" where
  "AlertChannel_UnmarshalJSON lib C S = unmarshal_channel lib C S ''AlertChannel'' AlertChannel_struct"

definition AlertChannelFormData_MarshalJSON ::
  "(json_value list \<Rightarrow> json_value) \<Rightarrow> codec \<Rightarrow> structs \<Rightarrow> model_value \<Rightarrow> json_value" where
  "AlertChannelFormData_MarshalJSON concat_json C S =
     marshal_channel concat_json C S ''AlertChannelFormData'' AlertChannelFormData_struct"

definition AlertChannelFormData_UnmarshalJSON ::
  "'e validators \<Rightarrow> codec \<Rightarrow> structs \<Rightarrow> json_value \<Rightarrow> 'e channel_error + model_value" where
  "AlertChannelFormData_UnmarshalJSON lib C S = unmarshal_channel lib C S ''AlertChannelFormData'' AlertChannelFormData_struct"

subsection \<open>Keys of the objects\<close>

lemma member_of_append:
  "member_of n (es @ fs) = (case member_of n fs of Some j \<Rightarrow> Some j | None \<Rightarrow> member_of n es)"
  by (simp add: member_of_def map_add_def split: option.split)

lemma member_of_None: "member_of n es = None \<longleftrightarrow> (\<forall>e \<in> set es. to_lower (fst e) \<noteq> to_lower n)"
  by (auto simp: member_of_def map_of_eq_None_iff image_iff)

lemma channel_type_object:
  "channel_type C (JsObject es) =
     (case member_of ''channelType'' es of None \<Rightarrow> Some [] | Some JsNull \<Rightarrow> Some [] | Some (JsString t) \<Rightarrow> Some t | Some _ \<Rightarrow> None)"
  by (auto simp: channel_type_def split: option.split json_value.split)

lemma channel_type_null: "channel_type C JsNull = Some []"
  by (simp add: channel_type_def zero_struct_def)

text \<open>An object of the fields \<open>own\<close>, and of those and the templates, has no key that none of the fields has.\<close>

definition without_key :: "string \<Rightarrow> model_field list \<Rightarrow> bool" where
  "without_key n fs \<longleftrightarrow> list_all (\<lambda>f. to_lower (json_name f) \<noteq> to_lower n) fs"

lemma channel_keys:
  "without_key ''channelType'' alertChannelParams_struct" "without_key ''channelType'' AlertChannelEmailParams_struct"
  "without_key ''channelType'' AlertChannelPagerDutyParams_struct" "without_key ''channelType'' AlertChannelSlackParams_struct"
  "without_key ''channelType'' AlertChannelWebHookParams_struct"
  "without_key ''params'' AlertChannel_struct" "without_key ''params'' AlertChannelFormData_struct"
  by code_simp+

lemma encoded_without_key:
  "without_key n fs \<Longrightarrow> member_of n (map (\<lambda>f. (json_name f, h f)) (filter P fs)) = None"
  by (auto simp: member_of_None without_key_def list_all_iff)

definition joins :: "(json_value list \<Rightarrow> json_value) \<Rightarrow> bool" where
  "joins concat_json \<longleftrightarrow> (\<forall>a b. concat_json [JsObject a, JsObject b] = JsObject (a @ b))"

lemma marshal_subtype_type:
  assumes "joins concat_json" "without_key ''channelType'' own"
  shows "channel_type C (marshal_subtype concat_json C S N own (VStruct N fs)) = Some []"
  using assms channel_keys(1)
  by (simp add: marshal_subtype_def joins_def channel_type_object member_of_append encoded_without_key)

lemma params_json_type:
  assumes "joins concat_json"
  shows "channel_type C (params_json concat_json C S p) = Some []"
proof -
  note types = AlertChannelEmailParams_MarshalJSON_def AlertChannelPagerDutyParams_MarshalJSON_def
    AlertChannelSlackParams_MarshalJSON_def AlertChannelWebHookParams_MarshalJSON_def
  have empty: "channel_type C (JsObject []) = Some []" by (simp add: channel_type_object member_of_def)
  show ?thesis
  proof (cases "\<exists>N fs. p = VPtr (VStruct N fs)")
    case True
    then show ?thesis
      using marshal_subtype_type [OF assms] channel_keys empty by (auto simp: params_json_def types)
  next
    case False
    then have "params_json concat_json C S p = JsNull"
      by (auto simp: params_json_def split: model_value.split)
    then show ?thesis by (simp add: channel_type_null)
  qed
qed

subsection \<open>Reading back what was written\<close>

lemma raw_params_marshalled:
  assumes "joins concat_json" "without_key ''params'' own"
  shows "raw_params (marshal_channel concat_json C S N own (VStruct N fs)) = Some (params_json concat_json C S (field_value fs ''paramsField''))"
  using assms by (simp add: raw_params_def marshal_channel_def joins_def member_of_append)
    (simp add: member_of_def)

lemma untyped_params:
  assumes "lawful lib sem" "channel_type C raw = Some []"
  shows "\<exists>e. unmarshalAlertChannelParams lib C S (Some raw) = Inl (Invalid e)"
  using lawfulD(5) [OF assms(1), of "''channelType''" "[]"] assms(2)
  by (auto simp: unmarshalAlertChannelParams_def)

text \<open>C27: No alert channel can be read back from the JSON that \<open>MarshalJSON\<close> makes of it: the object of the parameters lacks the property \<open>channelType\<close>, in every one of the five types and when there are none, so \<open>UnmarshalJSON\<close> ends in an error.\<close>

theorem marshalled_channel_unreadable:
  assumes "lawful lib sem" "joins concat_json"
  shows "(\<exists>e. AlertChannel_UnmarshalJSON lib C S (AlertChannel_MarshalJSON concat_json C S (VStruct ''AlertChannel'' fs)) = Inl e) \<and>
    (\<exists>e. AlertChannelFormData_UnmarshalJSON lib C S
       (AlertChannelFormData_MarshalJSON concat_json C S (VStruct ''AlertChannelFormData'' fs)) = Inl e)"
proof -
  obtain e where "unmarshalAlertChannelParams lib C S (Some (params_json concat_json C S (field_value fs ''paramsField''))) = Inl (Invalid e)"
    using untyped_params [OF assms(1) params_json_type [OF assms(2)]] by blast
  then show ?thesis using raw_params_marshalled [OF assms(2)] channel_keys(6,7)
    by (auto simp: AlertChannel_UnmarshalJSON_def AlertChannel_MarshalJSON_def AlertChannelFormData_UnmarshalJSON_def
        AlertChannelFormData_MarshalJSON_def unmarshal_channel_def split: option.split)
qed

definition join_objects :: "json_value list \<Rightarrow> json_value" where
  "join_objects js = JsObject (concat (map (\<lambda>j. case j of JsObject es \<Rightarrow> es | _ \<Rightarrow> []) js))"

lemma join_objects_joins: "joins join_objects"
  by (simp add: joins_def join_objects_def)

definition hook_params :: "(string \<times> model_value) list" where
  "hook_params = [(''textTemplateField'', VPtr (VString ''text'')), (''titleTemplateField'', VPtr (VString ''title'')),
     (''WebhookURL'', VPtr (VString ''http://host/hook''))]"

definition hook_channel :: "(string \<times> model_value) list" where
  "hook_channel = [(''CustomerUUID'', VPtr (VString ''u'')), (''Name'', VPtr (VString ''hook'')),
     (''UUID'', VPtr (VString ''v'')), (''paramsField'', VPtr (VStruct ''AlertChannelWebHookParams'' hook_params))]"

theorem marshalled_channel_unreadable_witness:
  "\<exists>e. AlertChannel_UnmarshalJSON plain_validators (plain_codec JsNull) struct_of
     (AlertChannel_MarshalJSON join_objects (plain_codec JsNull) struct_of (VStruct ''AlertChannel'' hook_channel)) = Inl e"
  by (rule marshalled_channel_unreadable [OF plain_lawful join_objects_joins, THEN conjunct1])

text \<open>The server puts the type into the object.\<close>

fun with_type :: "string \<Rightarrow> json_value \<Rightarrow> json_value" where
  "with_type t (JsObject es) = JsObject (es @ [(''channelType'', JsString t)])"
| "with_type t j = j"

text \<open>Reading a struct depends on the keys of its fields only.\<close>

lemma decode_keys:
  assumes "\<And>f. f \<in> set (S M) \<Longrightarrow> member_of (json_name f) es = member_of (json_name f) es'"
  shows "decode C S (Model M) (JsObject es) = decode C S (Model M) (JsObject es')"
proof -
  have "map (\<lambda>f. map_option (Pair (go_name f)) (case member_of (json_name f) es of
        None \<Rightarrow> Some (zero_scalar C (field_type f)) | Some j \<Rightarrow> decode C S (field_type f) j)) (S M) =
      map (\<lambda>f. map_option (Pair (go_name f)) (case member_of (json_name f) es' of
        None \<Rightarrow> Some (zero_scalar C (field_type f)) | Some j \<Rightarrow> decode C S (field_type f) j)) (S M)"
    using assms by simp
  then show ?thesis unfolding decode.simps json_value.case by (simp only:)
qed

lemma encode_struct_cong:
  "(\<And>f. f \<in> set (S M) \<Longrightarrow> field_value fs (go_name f) = field_value fs' (go_name f)) \<Longrightarrow>
     encode C S (VStruct M fs) = encode C S (VStruct M fs')"
proof -
  assume eq: "\<And>f. f \<in> set (S M) \<Longrightarrow> field_value fs (go_name f) = field_value fs' (go_name f)"
  have "filter (\<lambda>f. \<not> omitted f (field_value fs (go_name f))) (S M) = filter (\<lambda>f. \<not> omitted f (field_value fs' (go_name f))) (S M)"
    using eq by (auto intro: filter_cong)
  then show ?thesis using eq by simp
qed

lemma canonical_names: "canonical S (VStruct M fs) \<Longrightarrow> map fst fs = map go_name (S M)"
proof -
  assume "canonical S (VStruct M fs)"
  then have "fs = map (\<lambda>f. (go_name f, field_value fs (go_name f))) (S M)" by simp
  from arg_cong [OF this, of "map fst"] show ?thesis by (simp add: comp_def)
qed

lemma field_value_append:
  "field_value (as @ bs) n = (if n \<in> fst ` set as then field_value as n else field_value bs n)"
  using map_of_eq_None_iff [of as n] by (cases "map_of as n") (simp_all add: field_value_def map_add_def)

text \<open>Two groups of fields that can share an object, and the key \<open>channelType\<close> besides.\<close>

definition fit_together :: "model_field list \<Rightarrow> bool" where
  "fit_together own \<longleftrightarrow> named_apart (alertChannelParams_struct @ own) \<and> without_key ''channelType'' own \<and>
     set (map go_name own) \<inter> set (map go_name alertChannelParams_struct) = {}"

lemma fit_together_keys:
  assumes "named_apart (xs @ ys)"
  shows "f \<in> set xs \<Longrightarrow> g \<in> set ys \<Longrightarrow> to_lower (json_name g) \<noteq> to_lower (json_name f)" "named_apart xs" "named_apart ys"
  using assms by (force simp: named_apart_def)+

lemma member_of_other:
  "(\<And>g. g \<in> set gs \<Longrightarrow> to_lower (json_name g) \<noteq> to_lower n) \<Longrightarrow> member_of n (map (\<lambda>f. (json_name f, h f)) (filter P gs)) = None"
  by (auto simp: member_of_None)

lemma subtype_round_trip:
  assumes C: "lossless C" and S: "\<And>M. named_apart (S M)" and j: "joins concat_json" and own: "fit_together own"
    and os: "typed (S(N := own)) (VStruct N os) (Model N)" "canonical (S(N := own)) (VStruct N os)"
    and bs: "typed (S(N := alertChannelParams_struct)) (VStruct N bs) (Model N)"
      "canonical (S(N := alertChannelParams_struct)) (VStruct N bs)"
  shows "unmarshal_subtype C S N own (with_type t (marshal_subtype concat_json C S N own (VStruct N (bs @ os)))) =
    Some (VStruct N (bs @ os))"
proof -
  let ?base = "alertChannelParams_struct"
  have names: "named_apart (?base @ own)" "without_key ''channelType'' own"
    "set (map go_name own) \<inter> set (map go_name ?base) = {}"
    using own by (simp_all add: fit_together_def)
  have dom: "fst ` set os = go_name ` set own" "fst ` set bs = go_name ` set ?base"
    using canonical_names [OF os(2)] canonical_names [OF bs(2)] by (metis fun_upd_same list.set_map)+
  define eo where "eo = map (\<lambda>f. (json_name f, encode C (S(N := own)) (field_value os (go_name f))))
    (filter (\<lambda>f. \<not> omitted f (field_value os (go_name f))) own)"
  define eb where "eb = map (\<lambda>f. (json_name f, encode C (S(N := ?base)) (field_value bs (go_name f))))
    (filter (\<lambda>f. \<not> omitted f (field_value bs (go_name f))) ?base)"
  have "encode C (S(N := own)) (VStruct N (bs @ os)) = encode C (S(N := own)) (VStruct N os)"
    using names(3) dom by (intro encode_struct_cong) (auto simp: field_value_append)
  then have eo: "encode C (S(N := own)) (VStruct N (bs @ os)) = JsObject eo" by (simp add: eo_def)
  have "encode C (S(N := ?base)) (VStruct N (bs @ os)) = encode C (S(N := ?base)) (VStruct N bs)"
    using dom by (intro encode_struct_cong) (auto simp: field_value_append)
  then have eb: "encode C (S(N := ?base)) (VStruct N (bs @ os)) = JsObject eb" by (simp add: eb_def)
  let ?all = "eo @ eb @ [(''channelType'', JsString t)]"
  have no_type: "member_of (json_name f) [(''channelType'', JsString t)] = None" if "f \<in> set own \<union> set ?base" for f
    using that names(2) channel_keys(1) by (auto simp: member_of_None without_key_def list_all_iff)
  have "decode C (S(N := own)) (Model N) (JsObject ?all) = decode C (S(N := own)) (Model N) (JsObject eo)"
  proof (rule decode_keys)
    fix f assume "f \<in> set ((S(N := own)) N)"
    then have f: "f \<in> set own" by simp
    have "member_of (json_name f) eb = None"
      unfolding eb_def using fit_together_keys(1) [OF names(1)] f by (intro member_of_other) metis
    then show "member_of (json_name f) ?all = member_of (json_name f) eo"
      using no_type [of f] f by (simp add: member_of_append)
  qed
  also have "\<dots> = decode C (S(N := own)) (Model N) (encode C (S(N := own)) (VStruct N os))" by (simp add: eo_def)
  also have "\<dots> = Some (VStruct N os)"
    using S fit_together_keys(3) [OF names(1)] by (intro decode_encode C os) simp
  finally have data: "decode C (S(N := own)) (Model N) (JsObject ?all) = Some (VStruct N os)" .
  have "decode C (S(N := ?base)) (Model N) (JsObject ?all) = decode C (S(N := ?base)) (Model N) (JsObject eb)"
  proof (rule decode_keys)
    fix f assume "f \<in> set ((S(N := ?base)) N)"
    then have f: "f \<in> set ?base" by simp
    have "member_of (json_name f) eo = None"
      unfolding eo_def using fit_together_keys(1) [OF names(1) f] by (intro member_of_other) metis
    then show "member_of (json_name f) ?all = member_of (json_name f) eb"
      using no_type [of f] f by (simp add: member_of_append split: option.split)
  qed
  also have "\<dots> = decode C (S(N := ?base)) (Model N) (encode C (S(N := ?base)) (VStruct N bs))" by (simp add: eb_def)
  also have "\<dots> = Some (VStruct N bs)"
    using S fit_together_keys(2) [OF names(1)] by (intro decode_encode C bs) simp
  finally have base: "decode C (S(N := ?base)) (Model N) (JsObject ?all) = Some (VStruct N bs)" .
  have "with_type t (marshal_subtype concat_json C S N own (VStruct N (bs @ os))) = JsObject ?all"
    using j eo eb by (simp add: marshal_subtype_def joins_def)
  then show ?thesis using data base by (simp add: unmarshal_subtype_def)
qed

subsection \<open>Parameters that carry their type\<close>

definition channel_subtypes :: "(string \<times> model_field list) list" where
  "channel_subtypes =
     [(''AlertChannelEmailParams'', AlertChannelEmailParams_struct),
      (''AlertChannelPagerDutyParams'', AlertChannelPagerDutyParams_struct),
      (''AlertChannelSlackParams'', AlertChannelSlackParams_struct),
      (''AlertChannelWebHookParams'', AlertChannelWebHookParams_struct)]"

lemma channel_subtypes_fit: "list_all (\<lambda>t. fit_together (snd t)) channel_subtypes"
  by code_simp

lemma subtype_json:
  "(N, own) \<in> set channel_subtypes \<Longrightarrow>
     params_json concat_json C S (VPtr (VStruct N fs)) = marshal_subtype concat_json C S N own (VStruct N fs)"
  by (auto simp: channel_subtypes_def params_json_def AlertChannelEmailParams_MarshalJSON_def
      AlertChannelPagerDutyParams_MarshalJSON_def AlertChannelSlackParams_MarshalJSON_def AlertChannelWebHookParams_MarshalJSON_def)

lemma subtype_unmarshal:
  assumes "(N, own) \<in> set channel_subtypes" "lawful lib sem" "channel_type C raw = Some N"
  shows "unmarshalAlertChannelParams lib C S (Some raw) = decoded (unmarshal_subtype C S N own raw)"
proof -
  have "N \<noteq> []" using assms(1) by (auto simp: channel_subtypes_def)
  then have "required_string lib ''channelType'' (VString N) = None" by (simp add: lawfulD(5) [OF assms(2)])
  then show ?thesis using assms(1,3)
    by (auto simp: channel_subtypes_def unmarshalAlertChannelParams_def AlertChannelEmailParams_UnmarshalJSON_def
        AlertChannelPagerDutyParams_UnmarshalJSON_def AlertChannelSlackParams_UnmarshalJSON_def
        AlertChannelWebHookParams_UnmarshalJSON_def)
qed

lemma with_type_type:
  "channel_type C (with_type t (JsObject es)) = Some t"
  by (simp add: channel_type_object member_of_append) (simp add: member_of_def)

text \<open>C26: Parameters of an alert channel in each of the four types survive JSON once the object names their type: what \<open>MarshalJSON\<close> writes for the type's own fields and for the templates, read with \<open>channelType\<close> set, gives a value of the same type with the same fields. So the missing property is the one thing that keeps channels from being read back.\<close>

theorem typed_params_round_trip:
  assumes "lossless C" "joins concat_json" "lawful lib sem" "(N, own) \<in> set channel_subtypes"
    and os: "typed (struct_of(N := own)) (VStruct N os) (Model N)" "canonical (struct_of(N := own)) (VStruct N os)"
    and bs: "typed (struct_of(N := alertChannelParams_struct)) (VStruct N bs) (Model N)"
      "canonical (struct_of(N := alertChannelParams_struct)) (VStruct N bs)"
  shows "unmarshalAlertChannelParams lib C struct_of
      (Some (with_type N (params_json concat_json C struct_of (VPtr (VStruct N (bs @ os)))))) =
    Inr (VPtr (VStruct N (bs @ os)))"
proof -
  let ?j = "marshal_subtype concat_json C struct_of N own (VStruct N (bs @ os))"
  have fit: "fit_together own" using channel_subtypes_fit assms(4) by (auto simp: list_all_iff)
  have "\<exists>es. ?j = JsObject es" using assms(2) by (simp add: marshal_subtype_def joins_def)
  then have "channel_type C (with_type N ?j) = Some N" using with_type_type by auto
  then show ?thesis
    using subtype_unmarshal [OF assms(4,3)] subtype_json [OF assms(4)]
      subtype_round_trip [OF assms(1) struct_of_named assms(2) fit os bs] by simp
qed

theorem typed_params_round_trip_witness:
  "let raw = with_type ''AlertChannelWebHookParams'' (params_json join_objects (plain_codec JsNull) struct_of
      (VPtr (VStruct ''AlertChannelWebHookParams'' (take 2 hook_params @ drop 2 hook_params)))) in
   unmarshalAlertChannelParams plain_validators (plain_codec JsNull) struct_of (Some raw) =
     Inr (VPtr (VStruct ''AlertChannelWebHookParams'' (take 2 hook_params @ drop 2 hook_params)))"
  unfolding Let_def
  by (rule typed_params_round_trip [OF plain_lossless join_objects_joins plain_lawful, of _ AlertChannelWebHookParams_struct])
    (simp_all add: channel_subtypes_def hook_params_def AlertChannelWebHookParams_struct_def alertChannelParams_struct_def
      field_value_def)

subsection \<open>A channel without parameters\<close>

lemma decoded_fields: "those (map (\<lambda>f. map_option (Pair (go_name f)) (h f)) fs) = Some xs \<Longrightarrow> map fst xs = map go_name fs"
  by (induction fs arbitrary: xs) (auto split: option.splits)

lemma decode_struct_fields:
  assumes "decode C S (Model N) (JsObject es) = Some v"
  shows "\<exists>fs. v = VStruct N fs \<and> map fst fs = map go_name (S N)"
  using assms decoded_fields by fastforce

text \<open>C28: A channel that is read from an object without \<open>params\<close> is accepted by \<open>UnmarshalJSON\<close>, which ignores the end of input, and \<open>ContextValidate\<close> on it dereferences nil, while \<open>Validate\<close> reports the missing parameters.\<close>

theorem channel_without_params:
  assumes "rejects_nil lib" "member_of ''params'' es = None"
    and "decode C (S(''AlertChannel'' := AlertChannel_struct)) (Model ''AlertChannel'') (JsObject es) \<noteq> None"
  shows "\<exists>m. AlertChannel_UnmarshalJSON lib C S (JsObject es) = Inr m \<and>
     validate lib (channel_context_validates env) m = Panicked \<and> validate lib (channel_validates env) m \<noteq> Passed"
proof -
  obtain data where d: "decode C (S(''AlertChannel'' := AlertChannel_struct)) (Model ''AlertChannel'') (JsObject es) =
      Some (VStruct ''AlertChannel'' data)" "map fst data = map go_name AlertChannel_struct"
    using assms(3) decode_struct_fields [of C "S(''AlertChannel'' := AlertChannel_struct)" "''AlertChannel''" es] by auto
  let ?m = "VStruct ''AlertChannel'' (data @ [(''paramsField'', VNil)])"
  have "AlertChannel_UnmarshalJSON lib C S (JsObject es) = Inr ?m"
    using d(1) assms(2) by (simp add: AlertChannel_UnmarshalJSON_def unmarshal_channel_def raw_params_def
        unmarshalAlertChannelParams_def del: decode.simps)
  moreover have "fst ` set data = go_name ` set AlertChannel_struct" using d(2) by (metis list.set_map)
  then have p: "field_value (data @ [(''paramsField'', VNil)]) ''paramsField'' = VNil"
    by (simp add: field_value_append AlertChannel_struct_def) (simp add: field_value_def)
  have "validate lib (channel_context_validates env) ?m = Panicked"
    by (simp add: channel_context_validates_def AlertChannel_ContextValidate_def p)
  moreover have "\<exists>e. required lib ''params'' VNil = Some e"
    using rejects_nilD(2) [OF assms(1), of "''params''"] by (cases "required lib ''params'' VNil") auto
  then have "validate lib (channel_validates env) ?m \<noteq> Passed"
    by (auto simp: channel_validates_def AlertChannel_Validate_def p collect_Passed)
  ultimately show ?thesis by blast
qed

theorem channel_without_params_witness:
  "\<exists>m. AlertChannel_UnmarshalJSON plain_validators (plain_codec JsNull) struct_of (JsObject [(''name'', JsString ''mail'')]) = Inr m \<and>
     validate plain_validators (channel_context_validates validates_of) m = Panicked \<and>
     validate plain_validators (channel_validates validates_of) m \<noteq> Passed"
proof (rule channel_without_params [OF lawful_rejects_nil [OF plain_lawful]])
  have keys: "member_of ''name'' [(''name'', JsString ''mail'')] = Some (JsString ''mail'')"
    "member_of ''customer_uuid'' [(''name'', JsString ''mail'')] = None"
    "member_of ''uuid'' [(''name'', JsString ''mail'')] = None"
    "member_of ''params'' [(''name'', JsString ''mail'')] = None"
    by code_simp+
  show "member_of ''params'' [(''name'', JsString ''mail'')] = None" by (rule keys)
  show "decode (plain_codec JsNull) (struct_of(''AlertChannel'' := AlertChannel_struct)) (Model ''AlertChannel'')
      (JsObject [(''name'', JsString ''mail'')]) \<noteq> None"
    by (simp add: keys AlertChannel_struct_def)
qed

end
