(* ===== verification/Spec2Isabelle.thy ===== *)
theory Spec2Isabelle
  imports YBVersion Flags Xcluster Ycrc Uploader Format YWClient YWUniverse YWBackup YWSession YWProvider ProtocGen
    PopulateTables TabletReports ClientLocks YWRequests AlertChannels
begin

text \<open>
  A model of the Go programs of \<open>yb-tools\<close>, the support tools around YugabyteDB, with the theorems that say what they do.

  The programs. \<open>yugatool\<close> talks to a YugabyteDB cluster over its own RPC protocol and reports on tablets and xCluster
  replication. \<open>yugaware-client\<close> drives a Yugaware (YugabyteDB Anywhere) server over HTTP: it registers and logs in,
  and makes providers, storage configurations, universes, backups and restores. \<open>ycrc\<close> counts the rows of CQL tables with a
  pool of workers. \<open>yb-support-tool\<close> uploads files to a support case in encrypted parts. They share the packages
  \<open>pkg/flag\<close>, \<open>pkg/util\<close>, \<open>pkg/format\<close> and \<open>pkg/ybversion\<close>.

  Conventions (theory \<open>Prelude\<close>). A Go function with an error result is a function into \<open>res\<close>: a value, an error or a run-time
  panic. State is passed explicitly, and \<open>andThen\<close> is a sequence of statements with the early return on an error.
  What a program calls outside this repository (network, files, protobuf, swagger operations, terminal, clock, drivers)
  is an argument: a record of functions on a state \<open>'w\<close> of the world. A pointer that may be nil is an option,
  and reading it is \<open>deref\<close>. Machine integers are words, or integers cut by \<open>int32\<close> and \<open>int64\<close>.

  The theories.
  \<^item> \<open>Prelude\<close>, \<open>GoStd\<close>: results, sequencing, loops over slices; the parts of \<open>strings\<close>, \<open>strconv\<close> and \<open>net\<close> that the code
    uses (\<open>Split\<close>, \<open>Atoi\<close>, \<open>ParseUint\<close>, \<open>SplitHostPort\<close>, \<open>ParseIP\<close>).
  \<^item> \<open>YBVersion\<close> (\<open>pkg/ybversion\<close>): parsing against a grammar, printing and reading back, comparison as the lexicographic
    order, through the locale \<open>three_way\<close> and an instance of \<open>linorder\<close>.
  \<^item> \<open>HostPort\<close> (\<open>yugatool/pkg/cmdutil/flags.go\<close>, \<open>pkg/util\<close>): addresses and master lists; exactly when \<open>SplitHostPort\<close> recurses
    forever, and the round trip with \<open>HostPortString\<close>.
  \<^item> \<open>Flags\<close> (\<open>pkg/flag\<close>, \<open>pkg/util\<close>): required flags, prompts.
  \<^item> \<open>Wire\<close> (\<open>yugatool/pkg/client/message\<close>, \<open>session\<close>): frames, call identifiers, short reads and writes; what is
    written, how a response is put together again, and when decoding panics.
  \<^item> \<open>YBClient\<close> (\<open>yugatool/pkg/client\<close>): the choice of a dialer, the search for the leader with its TLS downgrade, the host cache.
  \<^item> \<open>ToolSetup\<close>, \<open>ToolCommands\<close>, \<open>ToolUtil\<close> (\<open>yugatool/pkg/cmdutil/cmd.go\<close>, \<open>cmd\<close>, \<open>cmd/util\<close>): the setup of a command, composed of
    \<open>Flags\<close>, \<open>HostPort\<close> and \<open>YBClient\<close>; cluster and tablet reports; the statistics and table commands.
  \<^item> \<open>PopulateTables\<close> (\<open>yugatool/cmd/util/tableCreate.go\<close>): the goroutines that fill the tables of \<open>ToolUtil\<close>, as steps.
  \<^item> \<open>ProtocGen\<close> (\<open>protoc-gen-ybrpc\<close>): the generator of the stubs that \<open>yugatool\<close> sends its messages through, as the lines it prints.
  \<^item> \<open>HealthCheck\<close>, \<open>Batching\<close>, \<open>Xcluster\<close> (\<open>yugatool/pkg/healthcheck\<close>, \<open>cmd/healthcheck\<close>, \<open>cmd/xcluster\<close>): the consumer check, the loop that cuts a slice
    into batches (locale \<open>partition_of\<close>), and the replication commands it prints.
  \<^item> \<open>Transitions\<close>, \<open>Ycrc\<close> (\<open>ycrc/cmd\<close>): step relations with an invariant and a rank; the pool of row counters as such a relation,
    the ranges of the partition hash, and the sums.
  \<^item> \<open>Uploader\<close> (\<open>yb-support-tool\<close>): the parts of a file, their upload addresses, the retries.
  \<^item> \<open>Format\<close> (\<open>pkg/format\<close>): tables, filters, expressions.
  \<^item> \<open>Goroutines\<close>, \<open>FanOut\<close>, \<open>TabletReports\<close>: goroutines with a wait group and channels as steps; the pattern of one goroutine for
    each server that sends its answer on a channel, and the tablet reports of \<open>ToolCommands\<close> as an instance of it.
  \<^item> \<open>Locks\<close>, \<open>ClientLocks\<close>: goroutines under one mutex; the session of \<open>Wire\<close> and the host cache of \<open>YBClient\<close> shared by several.
  \<^item> \<open>Services\<close> (\<open>yugatool/api\<close>, the files \<open>*.ybrpc.go\<close>): the stubs that \<open>ProtocGen\<close> prints, one for each method, as definitions.
  \<^item> \<open>Polling\<close>, \<open>YWClient\<close> (\<open>yugaware-client/pkg\<close>): loops that wait; the client's connection, session, cookies and tokens, its lookups
    (locale \<open>named_objects\<close>) and the wait for a task.
  \<^item> \<open>YWUniverse\<close>, \<open>YWBackup\<close>, \<open>YWSession\<close>, \<open>YWProvider\<close> (\<open>yugaware-client/cmd\<close>): for each command the options with their defaults,
    every validation step, the request that is made of validated options, the wait and the output.
  \<^item> \<open>Swagger\<close>, \<open>ApiAccounts\<close> to \<open>ApiUniverses\<close>, \<open>SwaggerClient\<close>, \<open>YWRequests\<close> (\<open>yugaware-client/pkg/client/swagger/client\<close>): the
    generated HTTP client. \<open>Swagger\<close> gives the text that the generator repeats its meaning, the theories \<open>Api...\<close> hold what is
    special to each of the 214 operations, \<open>SwaggerClient\<close> puts them into the client of all packages, and \<open>YWRequests\<close> lets
    the commands of the theories \<open>YW...\<close> call it.
  \<^item> \<open>SwaggerModels\<close>, \<open>ModelDocs\<close>, \<open>ModelJson\<close>, \<open>ModelsAccounts\<close> to \<open>ModelsUpgrades\<close>, \<open>ApiModels\<close>, \<open>AlertChannels\<close>
    (\<open>yugaware-client/pkg/client/swagger/models\<close>): the structs of the API. \<open>SwaggerModels\<close> is the meaning of the generated validation,
    \<open>ModelDocs\<close> that of the documented constraints with the proof that the one checks the other, \<open>ModelJson\<close> the way to JSON and
    back; the theories \<open>Models...\<close> hold the 151 structs, \<open>ApiModels\<close> the properties of all of them, and \<open>AlertChannels\<close> the
    polymorphic ones.

  What the theorems show. Each is a property \<open>C1\<close> to \<open>C40\<close>, stated in front of it. The first say that a run of the program
  has the effect it is for: every row is counted once, every byte of a file arrives, a response is
  reassembled from any fragmentation, all tables are in exactly one batch, a printed table is the filtered rows under its
  columns, goroutines that share a session are as good as one after the other, a request of the generated client determines its
  parameters, and a value passes the validation of its model exactly when it has what the documentation promises. Others give the exact language of a parser, the outcome of each branch of a wait or a retry, what validated options guarantee of
  the request, and what a restore can never overwrite. Where the code does not do what it means to, the theorem says what it does: the TLS downgrade,
  the addresses on which \<open>SplitHostPort\<close> never returns, the header length that makes decoding panic, the lost list of tables
  of a backup, the largest row count, the alert channels whose JSON cannot be read back.

  Bounds and loops. No fuel is used. Loops that may not end (\<open>SplitHostPort\<close>, batches with a bad size, waits, the filling of
  tables) are partial functions into an option, with \<open>None\<close> for a run that never returns; theorems say when that happens. The buffer of \<open>bufio\<close>
  has 4096 bytes. Go's \<open>int\<close> and \<open>uint\<close> have 64 bits.

  Simplifications. Goroutines are steps of a relation in \<open>Ycrc\<close>, \<open>TabletReports\<close>, \<open>PopulateTables\<close> and \<open>ClientLocks\<close>; elsewhere the
  calls they make run one after the other, in an order that is an argument where it can be seen. Logging is left out except where a password may be logged.
  JSON is a tree in \<open>Format\<close>, \<open>ModelJson\<close> and \<open>AlertChannels\<close>; its text is a function of the library.

  Not modelled. The generated messages of protocol buffers (\<open>*.pb.go\<close>, \<open>*.pb.json.go\<close>), whose marshalling is an argument,
  the registration of commands in cobra and the search for a configuration file, the integration tests, and the scripts in Perl,
  Python, SQL and shell beside the Go programs.
\<close>

end
